(* ===== verification/Prelude.thy ===== *)
theory Prelude
  imports Main "HOL-Library.Sublist" "HOL-Library.Word"
begin

section \<open>Shared types and the parts of the Go standard library the sources use\<close>

text \<open>
  This theory holds what the component theories share: the representation of Go values, the
  functions of the Go packages \<open>strings\<close> and \<open>strconv\<close> that the modelled sources call, and the
  generic facts about them.

  A Go \<open>string\<close> is a byte sequence, here a \<open>char list\<close> (a \<open>char\<close> of HOL is one byte). Case
  conversion and \<open>TrimSpace\<close> are modelled on the ASCII range. A pointer that may be nil is an
  \<open>option\<close>; \<open>int32\<close> values are integers with the conversion \<open>to_int32\<close> written out where the
  code converts. An operation that may fail returns \<open>error + value\<close>, with \<open>Inl\<close> the error.
\<close>

named_theorems go_str \<open>facts about the string functions\<close>

type_synonym go_string = "string"

subsection \<open>Results\<close>

text \<open>The Go idiom \<open>x, err := f(); if err != nil { return err }; g(x)\<close>.\<close>

fun try_bind :: "'e + 'a \<Rightarrow> ('a \<Rightarrow> 'e + 'b) \<Rightarrow> 'e + 'b" where
  "try_bind (Inl e) g = Inl e"
| "try_bind (Inr x) g = g x"

text \<open>A loop that converts the elements in order and returns the first error.\<close>

fun try_map :: "('a \<Rightarrow> 'e + 'b) \<Rightarrow> 'a list \<Rightarrow> 'e + 'b list" where
  "try_map f [] = Inr []"
| "try_map f (x # xs) =
     (case f x of Inl e \<Rightarrow> Inl e
      | Inr y \<Rightarrow> (case try_map f xs of Inl e \<Rightarrow> Inl e | Inr ys \<Rightarrow> Inr (y # ys)))"

lemma try_bind_Inr_iff: "try_bind r g = Inr y \<longleftrightarrow> (\<exists>x. r = Inr x \<and> g x = Inr y)"
  by (cases r) auto

lemma try_bind_Inl_iff:
  "try_bind r g = Inl e \<longleftrightarrow> r = Inl e \<or> (\<exists>x. r = Inr x \<and> g x = Inl e)"
  by (cases r) auto

lemma try_map_Inr_iff: "try_map f xs = Inr ys \<longleftrightarrow> map f xs = map Inr ys"
proof (induction xs arbitrary: ys)
  case Nil
  then show ?case by auto
next
  case (Cons x xs)
  note IH = Cons.IH
  show ?case
  proof (cases ys)
    case Nil
    then show ?thesis by (simp split: sum.splits)
  next
    case (Cons y ys')
    then show ?thesis using IH [of ys'] by (auto split: sum.splits)
  qed
qed

lemma try_map_total:
  "(\<And>x. x \<in> set xs \<Longrightarrow> f x = Inr (g x)) \<Longrightarrow> try_map f xs = Inr (map g xs)"
  by (induction xs) auto

text \<open>\<open>apiutils.ZeroIfNil\<close> on strings: the value, or the empty string for nil.\<close>

definition str_or_empty :: "string option \<Rightarrow> string" where
  "str_or_empty p = (case p of None \<Rightarrow> [] | Some s \<Rightarrow> s)"

lemma str_or_empty_simps [simp]:
  "str_or_empty None = []" "str_or_empty (Some s) = s"
  by (simp_all add: str_or_empty_def)

subsection \<open>Package strings\<close>

definition hasPrefix :: "string \<Rightarrow> string \<Rightarrow> bool" where
  "hasPrefix s p = (take (length p) s = p)"

definition hasSuffix :: "string \<Rightarrow> string \<Rightarrow> bool" where
  "hasSuffix s p = (length p \<le> length s \<and> drop (length s - length p) s = p)"

text \<open>\<open>strings.CutPrefix\<close>: the rest and true, or \<open>None\<close> for not found.\<close>

definition cutPrefix :: "string \<Rightarrow> string \<Rightarrow> string option" where
  "cutPrefix s p = (if hasPrefix s p then Some (drop (length p) s) else None)"

text \<open>\<open>strings.TrimPrefix\<close>.\<close>

definition trimPrefix :: "string \<Rightarrow> string \<Rightarrow> string" where
  "trimPrefix s p = (if hasPrefix s p then drop (length p) s else s)"

definition trimSuffix :: "string \<Rightarrow> string \<Rightarrow> string" where
  "trimSuffix s p = (if hasSuffix s p then take (length s - length p) s else s)"

fun contains_str :: "string \<Rightarrow> string \<Rightarrow> bool" where
  "contains_str [] p = (p = [])"
| "contains_str (c # s) p = (hasPrefix (c # s) p \<or> contains_str s p)"

text \<open>\<open>strings.Split\<close> with a separator of one byte; the result is never empty.\<close>

fun split_char :: "char \<Rightarrow> string \<Rightarrow> string list" where
  "split_char d [] = [[]]"
| "split_char d (c # s) =
     (if c = d then [] # split_char d s
      else (case split_char d s of [] \<Rightarrow> [[c]] | w # ws \<Rightarrow> (c # w) # ws))"

text \<open>\<open>strings.Join\<close>.\<close>

fun join_with :: "string \<Rightarrow> string list \<Rightarrow> string" where
  "join_with sep [] = []"
| "join_with sep [w] = w"
| "join_with sep (w # v # ws) = w @ sep @ join_with sep (v # ws)"

text \<open>\<open>strings.SplitN(s, d, 2)\<close>: \<open>Some (before, after)\<close> at the first separator.\<close>

fun cut_at :: "char \<Rightarrow> string \<Rightarrow> (string \<times> string) option" where
  "cut_at d [] = None"
| "cut_at d (c # s) =
     (if c = d then Some ([], s)
      else (case cut_at d s of None \<Rightarrow> None | Some (a, b) \<Rightarrow> Some (c # a, b)))"

text \<open>\<open>strings.ReplaceAll\<close> for a non-empty old string, scanning from the left.\<close>

function replace_all :: "string \<Rightarrow> string \<Rightarrow> string \<Rightarrow> string" where
  "replace_all old new [] = []"
| "replace_all old new (c # s) =
     (if old \<noteq> [] \<and> hasPrefix (c # s) old
      then new @ replace_all old new (drop (length old) (c # s))
      else c # replace_all old new s)"
  by pat_completeness auto
termination
  by (relation "measure (\<lambda>(old, new, s). length s)") auto

text \<open>\<open>strings.Trim\<close> with a cut set.\<close>

definition trim_chars :: "char set \<Rightarrow> string \<Rightarrow> string" where
  "trim_chars C s = rev (dropWhile (\<lambda>c. c \<in> C) (rev (dropWhile (\<lambda>c. c \<in> C) s)))"

definition space_chars :: "char set" where
  "space_chars = {CHR '' '', CHR 0x09, CHR 0x0A, CHR 0x0B, CHR 0x0C, CHR 0x0D}"

definition trim_space :: "string \<Rightarrow> string" where
  "trim_space s = trim_chars space_chars s"

definition to_lower_char :: "char \<Rightarrow> char" where
  "to_lower_char c = (if 65 \<le> (of_char c :: nat) \<and> (of_char c :: nat) \<le> 90
     then char_of ((of_char c :: nat) + 32) else c)"

definition to_upper_char :: "char \<Rightarrow> char" where
  "to_upper_char c = (if 97 \<le> (of_char c :: nat) \<and> (of_char c :: nat) \<le> 122
     then char_of ((of_char c :: nat) - 32) else c)"

definition to_lower :: "string \<Rightarrow> string" where
  "to_lower s = map to_lower_char s"

definition to_upper :: "string \<Rightarrow> string" where
  "to_upper s = map to_upper_char s"

lemma hasPrefix_prefix: "hasPrefix s p \<longleftrightarrow> prefix p s"
  unfolding hasPrefix_def by (metis append_take_drop_id prefix_def append_eq_conv_conj)

lemma hasPrefix_append [simp, go_str]: "hasPrefix (p @ s) p"
  by (simp add: hasPrefix_def)

lemma hasPrefixE: "hasPrefix s p \<Longrightarrow> \<exists>r. s = p @ r"
  by (metis hasPrefix_def append_take_drop_id)

lemma cutPrefix_append [simp, go_str]: "cutPrefix (p @ s) p = Some s"
  by (simp add: cutPrefix_def)

lemma cutPrefix_Some_iff [go_str]: "cutPrefix s p = Some r \<longleftrightarrow> s = p @ r"
proof
  assume "cutPrefix s p = Some r"
  then have "hasPrefix s p" "r = drop (length p) s"
    by (auto simp: cutPrefix_def split: if_splits)
  then show "s = p @ r"
    by (metis hasPrefix_def append_take_drop_id)
qed simp

lemma split_char_not_Nil [simp]: "split_char d s \<noteq> []"
  by (induction s) (auto split: list.splits)

lemma split_char_no_sep: "d \<notin> set s \<Longrightarrow> split_char d s = [s]"
  by (induction s) auto

lemma split_char_append:
  "d \<notin> set a \<Longrightarrow> split_char d (a @ d # b) = a # split_char d b"
  by (induction a) auto

lemma join_split_char [go_str]: "join_with [d] (split_char d s) = s"
proof (induction s)
  case Nil
  then show ?case by simp
next
  case (Cons c s)
  obtain w ws where "split_char d s = w # ws"
    by (meson list.exhaust split_char_not_Nil)
  with Cons show ?case by (cases ws) auto
qed

lemma cut_at_append [go_str]: "d \<notin> set a \<Longrightarrow> cut_at d (a @ d # b) = Some (a, b)"
  by (induction a) auto

lemma cut_at_Some: "cut_at d s = Some (a, b) \<Longrightarrow> s = a @ d # b \<and> d \<notin> set a"
  by (induction s arbitrary: a) (auto split: if_splits option.splits)

lemma cut_at_None_iff: "cut_at d s = None \<longleftrightarrow> d \<notin> set s"
  by (induction s) (auto split: option.splits)

lemma replace_all_no_head:
  "old = c # r \<Longrightarrow> c \<notin> set s \<Longrightarrow> replace_all old new s = s"
  by (induction s) (auto simp: hasPrefix_def)

subsection \<open>Package strconv: decimal integers\<close>

definition digit_char :: "nat \<Rightarrow> char" where
  "digit_char n = char_of (48 + n)"

fun dec_digits :: "nat \<Rightarrow> string" where
  "dec_digits n = (if n < 10 then [digit_char n] else dec_digits (n div 10) @ [digit_char (n mod 10)])"

declare dec_digits.simps [simp del]

text \<open>\<open>strconv.Itoa\<close> and the verb \<open>%d\<close>.\<close>

definition itoa :: "int \<Rightarrow> string" where
  "itoa i = (if i < 0 then CHR ''-'' # dec_digits (nat (- i)) else dec_digits (nat i))"

definition is_digit :: "char \<Rightarrow> bool" where
  "is_digit c = (48 \<le> (of_char c :: nat) \<and> (of_char c :: nat) \<le> 57)"

definition digit_val :: "char \<Rightarrow> nat" where
  "digit_val c = (of_char c :: nat) - 48"

definition dec_value :: "string \<Rightarrow> nat" where
  "dec_value s = foldl (\<lambda>n c. 10 * n + digit_val c) 0 s"

text \<open>The two errors of \<open>strconv.ParseInt\<close> in base 10.\<close>

datatype num_error = ErrSyntax | ErrRange

definition parse_digits :: "string \<Rightarrow> nat option" where
  "parse_digits s = (if s \<noteq> [] \<and> list_all is_digit s then Some (dec_value s) else None)"

text \<open>
  \<open>strconv.ParseInt(s, 10, bits)\<close>: an optional sign, then digits, then the range check of the
  signed width.
\<close>

definition parse_int :: "nat \<Rightarrow> string \<Rightarrow> num_error + int" where
  "parse_int bits s =
     (let (neg, ds) = (case s of [] \<Rightarrow> (False, [])
                       | c # r \<Rightarrow> if c = CHR ''-'' then (True, r)
                                 else if c = CHR ''+'' then (False, r) else (False, s))
      in case parse_digits ds of
           None \<Rightarrow> Inl ErrSyntax
         | Some n \<Rightarrow>
             if neg then (if n \<le> 2 ^ (bits - 1) then Inr (- int n) else Inl ErrRange)
             else (if n < 2 ^ (bits - 1) then Inr (int n) else Inl ErrRange))"

text \<open>\<open>strconv.ParseUint(s, 10, bits)\<close>: no sign is accepted.\<close>

definition parse_uint :: "nat \<Rightarrow> string \<Rightarrow> num_error + nat" where
  "parse_uint bits s =
     (case parse_digits s of
        None \<Rightarrow> Inl ErrSyntax
      | Some n \<Rightarrow> if n < 2 ^ bits then Inr n else Inl ErrRange)"

lemma of_char_digit: "n < 10 \<Longrightarrow> (of_char (digit_char n) :: nat) = 48 + n"
  by (simp add: digit_char_def)

lemma is_digit_char: "n < 10 \<Longrightarrow> is_digit (digit_char n)"
  by (simp add: is_digit_def of_char_digit)

lemma digit_val_char: "n < 10 \<Longrightarrow> digit_val (digit_char n) = n"
  by (simp add: digit_val_def of_char_digit)

lemma dec_digits_digits: "list_all is_digit (dec_digits n)"
proof (induction n rule: dec_digits.induct)
  case (1 n)
  then show ?case
    by (cases "n < 10") (auto simp: dec_digits.simps [of n] is_digit_char)
qed

lemma dec_digits_not_Nil [simp]: "dec_digits n \<noteq> []"
  by (subst dec_digits.simps) simp

lemma dec_value_snoc: "dec_value (s @ [c]) = 10 * dec_value s + digit_val c"
  by (simp add: dec_value_def)

lemma dec_value_digits [simp]: "dec_value (dec_digits n) = n"
proof (induction n rule: dec_digits.induct)
  case (1 n)
  show ?case
  proof (cases "n < 10")
    case True
    then show ?thesis
      by (simp add: dec_digits.simps [of n] digit_val_char dec_value_def)
  next
    case False
    with 1 have "dec_value (dec_digits (n div 10)) = n div 10" by simp
    with False show ?thesis
      by (simp add: dec_digits.simps [of n] dec_value_snoc digit_val_char)
  qed
qed

lemma parse_digits_dec [simp]: "parse_digits (dec_digits n) = Some n"
  by (simp add: parse_digits_def dec_digits_digits)

lemma digit_not_sign: "is_digit c \<Longrightarrow> c \<noteq> CHR ''-'' \<and> c \<noteq> CHR ''+'' \<and> c \<noteq> CHR '':''"
  by (auto simp: is_digit_def)

lemma dec_digits_chars: "c \<in> set (dec_digits n) \<Longrightarrow> is_digit c"
  using dec_digits_digits by (metis list_all_iff)

lemma dec_digits_length: "n < 10 ^ k \<Longrightarrow> 0 < k \<Longrightarrow> length (dec_digits n) \<le> k"
proof (induction n arbitrary: k rule: dec_digits.induct)
  case (1 n)
  show ?case
  proof (cases "n < 10")
    case True
    then show ?thesis using 1(3) by (simp add: dec_digits.simps)
  next
    case False
    with 1(2,3) obtain j where j: "k = Suc j" "0 < j" by (cases k; cases "k - 1") auto
    have "n div 10 < 10 ^ j" using 1(2) unfolding j(1) by (simp add: div_less_iff_less_mult mult.commute)
    then have "length (dec_digits (n div 10)) \<le> j" using 1(1) False j(2) by blast
    then show ?thesis using False j by (subst dec_digits.simps) simp
  qed
qed

lemma itoa_no_colon: "CHR '':'' \<notin> set (itoa i)"
  by (auto simp: itoa_def dest!: dec_digits_chars dest: digit_not_sign)

theorem parse_int_itoa [go_str]:
  assumes "- (2 ^ (bits - 1)) \<le> i" and "i < 2 ^ (bits - 1)"
  shows "parse_int bits (itoa i) = Inr i"
proof (cases "i < 0")
  case True
  with assms(1) have "nat (- i) \<le> 2 ^ (bits - 1)"
    by (simp add: nat_le_iff)
  with True show ?thesis by (simp add: parse_int_def itoa_def)
next
  case False
  then have eq: "itoa i = dec_digits (nat i)" by (simp add: itoa_def)
  obtain c r where cr: "dec_digits (nat i) = c # r"
    by (meson dec_digits_not_Nil list.exhaust)
  then have "is_digit c" using dec_digits_chars by (metis list.set_intros(1))
  moreover have "nat i < 2 ^ (bits - 1)" using assms(2) False
    by (simp add: nat_less_iff)
  ultimately show ?thesis
    using False digit_not_sign [of c] parse_digits_dec [of "nat i"]
    by (simp add: eq cr parse_int_def)
qed

lemma parse_int_cases:
  assumes "parse_int bits s = Inr i"
  obtains n where "i = - int n" "n \<le> 2 ^ (bits - 1)" | n where "i = int n" "n < 2 ^ (bits - 1)"
  using assms by (auto simp: parse_int_def Let_def split: option.splits if_splits prod.splits)

lemma parse_int_range:
  assumes "parse_int bits s = Inr i"
  shows "- (2 ^ (bits - 1)) \<le> i \<and> i < 2 ^ (bits - 1)"
  using assms
proof (cases rule: parse_int_cases)
  case (1 n)
  then have "int n \<le> 2 ^ (bits - 1)"
    by (metis of_nat_le_iff of_nat_numeral of_nat_power)
  moreover have "(0::int) < 2 ^ (bits - 1)" by simp
  ultimately show ?thesis using 1(1) by linarith
next
  case (2 n)
  then have "int n < 2 ^ (bits - 1)"
    by (metis of_nat_less_iff of_nat_numeral of_nat_power)
  moreover have "(0::int) < 2 ^ (bits - 1)" by simp
  ultimately show ?thesis using 2(1) by linarith
qed

subsection \<open>Conversion to int32\<close>

text \<open>Go's conversion \<open>int32(x)\<close> keeps the low 32 bits, read as two's complement.\<close>

definition to_int32 :: "int \<Rightarrow> int" where
  "to_int32 x = (x + 2 ^ 31) mod 2 ^ 32 - 2 ^ 31"

definition int32_range :: "int \<Rightarrow> bool" where
  "int32_range x = (- (2 ^ 31) \<le> x \<and> x < 2 ^ 31)"

lemma to_int32_id [simp]: "int32_range x \<Longrightarrow> to_int32 x = x"
  by (simp add: to_int32_def int32_range_def)

lemma to_int32_range [simp]: "int32_range (to_int32 x)"
  unfolding to_int32_def int32_range_def
  using pos_mod_bound [of "2 ^ 32" "x + 2 ^ 31"] pos_mod_sign [of "2 ^ 32" "x + 2 ^ 31"]
  by simp

text \<open>
  A Go \<open>float64\<close> is carried as its IEEE 754 bit pattern: the modelled code stores and passes such
  values, and where it orders them the ordering is defined on the pattern.
\<close>

type_synonym float64 = "64 word"

subsection \<open>Association lists read as Go maps\<close>

text \<open>
  A Go map that the code iterates over, or that a literal in the source lists, is an association
  list; \<open>map_of\<close> reads it. A map that is only read and written by key is a partial function.
\<close>

lemma map_of_mapD: "map_of (map (\<lambda>(k, v). (k, f v)) xs) k = map_option f (map_of xs k)"
  by (induction xs) auto

text \<open>The value of the last element for which a partial function is defined.\<close>

fun last_some :: "('a \<Rightarrow> 'b option) \<Rightarrow> 'a list \<Rightarrow> 'b option" where
  "last_some f [] = None"
| "last_some f (x # xs) = (case last_some f xs of Some y \<Rightarrow> Some y | None \<Rightarrow> f x)"

lemma last_some_snoc: "last_some f (xs @ [x]) = (case f x of Some y \<Rightarrow> Some y | None \<Rightarrow> last_some f xs)"
  by (induction xs) (auto split: option.splits)

lemma last_some_Some: "last_some f xs = Some y \<Longrightarrow> \<exists>x \<in> set xs. f x = Some y"
  by (induction xs) (auto split: option.splits)

lemma last_some_None_iff: "last_some f xs = None \<longleftrightarrow> (\<forall>x \<in> set xs. f x = None)"
  by (induction xs) (auto split: option.splits)

end
