(* ===== verification/Float64.thy ===== *)
theory Float64
  imports Prelude
begin

section \<open>Double precision numbers\<close>

text \<open>
  The \<open>float64\<close> values of Go as the sources use them: a 64-bit pattern with IEEE 754 comparison,
  \<open>cmp.Compare\<close>, subtraction, multiplication, division, \<open>math.Ceil\<close> and the conversions from and to
  \<open>int32\<close>, rounding to nearest, ties to even. The lower 63 bits of a pattern are its magnitude; the
  magnitudes of the finite numbers are ordered as the numbers are, so that comparison needs no
  arithmetic. A finite number is an integer multiple of the smallest positive one, \<open>2 powr -1074\<close>:
  \<open>fl_units\<close> is that integer, and the operations compute on it exactly and round once.
\<close>

named_theorems fl_defs \<open>the classification of a bit pattern\<close>

definition fl_sign :: "float64 \<Rightarrow> bool" where
  "fl_sign x = (2 ^ 63 \<le> uint x)"

definition fl_mag :: "float64 \<Rightarrow> int" where
  "fl_mag x = uint x mod 2 ^ 63"

definition inf_mag :: int where
  "inf_mag = 2047 * 2 ^ 52"

definition fl_nan :: "float64 \<Rightarrow> bool" where
  "fl_nan x = (inf_mag < fl_mag x)"

definition fl_inf :: "float64 \<Rightarrow> bool" where
  "fl_inf x = (fl_mag x = inf_mag)"

definition fl_zero :: "float64 \<Rightarrow> bool" where
  "fl_zero x = (fl_mag x = 0)"

definition fl_finite :: "float64 \<Rightarrow> bool" where
  "fl_finite x = (fl_mag x < inf_mag)"

text \<open>The pattern with a given sign and magnitude, and the special values.\<close>

definition fl_make :: "bool \<Rightarrow> int \<Rightarrow> float64" where
  "fl_make s m = word_of_int ((if s then 2 ^ 63 else 0) + m)"

definition NaN :: float64 where "NaN = fl_make False (inf_mag + 2 ^ 51)"
definition MaxFloat64 :: float64 where "MaxFloat64 = fl_make False (inf_mag - 1)"

lemmas [fl_defs] = fl_nan_def fl_inf_def fl_zero_def fl_finite_def

lemma fl_mag_range: "0 \<le> fl_mag x" "fl_mag x < 2 ^ 63"
  by (simp_all add: fl_mag_def)

lemma uint_split: "uint x = (if fl_sign x then 2 ^ 63 else 0) + fl_mag x" for x :: float64
proof -
  have "uint x < 2 ^ 64" using uint_lt2p [of x] by simp
  then have "uint x div 2 ^ 63 = (if fl_sign x then 1 else 0)"
    using uint_ge_0 [of x] unfolding fl_sign_def by auto
  moreover have "uint x = 2 ^ 63 * (uint x div 2 ^ 63) + uint x mod 2 ^ 63" by simp
  ultimately show ?thesis unfolding fl_mag_def by (auto split: if_splits)
qed

lemma fl_make_parts [simp]:
  assumes "0 \<le> m" "m < 2 ^ 63"
  shows "fl_sign (fl_make s m) = s" "fl_mag (fl_make s m) = m"
proof -
  have "uint (fl_make s m) = (if s then 2 ^ 63 else 0) + m"
    unfolding fl_make_def uint_word_of_int using assms by (cases s) simp_all
  then show "fl_sign (fl_make s m) = s" "fl_mag (fl_make s m) = m"
    using assms by (auto simp: fl_sign_def fl_mag_def)
qed

lemma fl_make_eq: "fl_make (fl_sign x) (fl_mag x) = x"
  unfolding fl_make_def uint_split [symmetric] by simp

lemma fl_cases: "fl_nan x \<or> fl_inf x \<or> fl_finite x"
  by (auto simp: fl_defs)

lemma fl_excl: "fl_nan x \<Longrightarrow> \<not> fl_inf x \<and> \<not> fl_finite x" "fl_inf x \<Longrightarrow> \<not> fl_finite x"
  by (auto simp: fl_defs)

lemma zero_finite [simp]: "fl_zero x \<Longrightarrow> fl_finite x"
  by (simp add: fl_defs inf_mag_def)

lemma zero_not_nan [simp]: "fl_zero x \<Longrightarrow> \<not> fl_nan x"
  using fl_excl zero_finite by blast

subsection \<open>Comparison\<close>

definition fl_key :: "float64 \<Rightarrow> int" where
  "fl_key x = (if fl_sign x then - fl_mag x else fl_mag x)"

definition fl_less :: "float64 \<Rightarrow> float64 \<Rightarrow> bool" where
  "fl_less x y = (\<not> fl_nan x \<and> \<not> fl_nan y \<and> fl_key x < fl_key y)"

definition fl_leq :: "float64 \<Rightarrow> float64 \<Rightarrow> bool" where
  "fl_leq x y = (\<not> fl_nan x \<and> \<not> fl_nan y \<and> fl_key x \<le> fl_key y)"

text \<open>\<open>cmp.Compare\<close>: a NaN is equal to every NaN and less than every other number.\<close>

definition fl_compare :: "float64 \<Rightarrow> float64 \<Rightarrow> int" where
  "fl_compare x y =
    (if fl_nan x then (if fl_nan y then 0 else - 1)
     else if fl_nan y then 1
     else if fl_less x y then - 1 else if fl_less y x then 1 else 0)"

definition fl_rank :: "float64 \<Rightarrow> int" where
  "fl_rank x = (if fl_nan x then - (2 ^ 64) else fl_key x)"

lemma fl_key_range: "- (2 ^ 63) < fl_key x" "fl_key x < 2 ^ 63"
  using fl_mag_range [of x] by (auto simp: fl_key_def)

lemma fl_compare_rank: "fl_compare x y = sgn (fl_rank x - fl_rank y)"
  using fl_key_range [of x] fl_key_range [of y]
  by (auto simp: fl_compare_def fl_rank_def fl_less_def sgn_if)

lemma fl_less_trans: "fl_less x y \<Longrightarrow> fl_less y z \<Longrightarrow> fl_less x z"
  by (auto simp: fl_less_def)

lemma fl_less_leq_trans: "fl_less x y \<Longrightarrow> fl_leq y z \<Longrightarrow> fl_less x z"
  by (auto simp: fl_less_def fl_leq_def)

lemma fl_leq_less_trans: "fl_leq x y \<Longrightarrow> fl_less y z \<Longrightarrow> fl_less x z"
  by (auto simp: fl_less_def fl_leq_def)

lemma fl_less_irrefl [simp]: "\<not> fl_less x x"
  by (simp add: fl_less_def)

lemma fl_less_imp_leq: "fl_less x y \<Longrightarrow> fl_leq x y"
  by (auto simp: fl_less_def fl_leq_def)

lemma fl_leq_refl: "\<not> fl_nan x \<Longrightarrow> fl_leq x x"
  by (simp add: fl_leq_def)

lemma fl_leq_trans: "fl_leq x y \<Longrightarrow> fl_leq y z \<Longrightarrow> fl_leq x z"
  by (auto simp: fl_leq_def)

lemma fl_not_less: "\<not> fl_nan x \<Longrightarrow> \<not> fl_nan y \<Longrightarrow> \<not> fl_less x y \<longleftrightarrow> fl_leq y x"
  by (auto simp: fl_less_def fl_leq_def)

subsection \<open>The integer a finite number is a multiple of\<close>

text \<open>
  A magnitude \<open>m\<close> has the biased exponent \<open>m div 2 ^ 52\<close>. The subnormal numbers and the first
  normal ones are spaced by one unit; from there every exponent doubles the spacing.
\<close>

definition mag_units :: "int \<Rightarrow> int" where
  "mag_units m =
    (if m < 2 ^ 52 then m else (m mod 2 ^ 52 + 2 ^ 52) * 2 ^ (nat (m div 2 ^ 52) - 1))"

definition fl_units :: "float64 \<Rightarrow> int" where
  "fl_units x = (if fl_sign x then - mag_units (fl_mag x) else mag_units (fl_mag x))"

lemma spaced_step:
  fixes B :: int
  assumes "0 < B" "B \<le> m"
  shows "(m mod B + B) * 2 ^ (nat (m div B) - 1) < ((m + 1) mod B + B) * 2 ^ (nat ((m + 1) div B) - 1)"
proof -
  define e r where "e = m div B" and "r = m mod B"
  have m: "m = e * B + r" and r: "0 \<le> r" "r < B"
    unfolding e_def r_def using \<open>0 < B\<close> by simp_all
  have e: "1 \<le> e" unfolding e_def using assms by (simp add: pos_imp_zdiv_pos_iff int_one_le_iff_zero_less)
  show ?thesis
  proof (cases "r + 1 < B")
    case True
    then have "(m + 1) div B = e" "(m + 1) mod B = r + 1"
      using r unfolding m by (simp_all add: add.assoc)
    then show ?thesis unfolding e_def [symmetric] r_def [symmetric] by simp
  next
    case False
    with r have r': "r = B - 1" by linarith
    then have "m + 1 = (e + 1) * B" unfolding m by (simp add: algebra_simps)
    then have "(m + 1) div B = e + 1" "(m + 1) mod B = 0" using \<open>0 < B\<close> by simp_all
    moreover obtain n where n: "nat e = Suc n" "nat (e + 1) = Suc (Suc n)"
      using e by (metis Suc_nat_eq_nat_zadd1 add.commute int_one_le_iff_zero_less less_imp_le not0_implies_Suc
          zero_less_nat_eq less_numeral_extra(3))
    ultimately have "((m + 1) mod B + B) * 2 ^ (nat ((m + 1) div B) - 1) = (2 * B) * 2 ^ (nat e - 1)"
      by simp
    then show ?thesis unfolding e_def [symmetric] r_def [symmetric] r' by simp
  qed
qed

lemma mag_units_step:
  assumes "0 \<le> m"
  shows "mag_units m < mag_units (m + 1)"
proof -
  consider "m + 1 < 2 ^ 52" | "m + 1 = 2 ^ 52" | "2 ^ 52 \<le> m" by linarith
  then show ?thesis
  proof cases
    case 3
    then show ?thesis using spaced_step [of "2 ^ 52" m] by (simp add: mag_units_def)
  qed (simp_all add: mag_units_def)
qed

lemma mag_units_mono_add: "0 \<le> m \<Longrightarrow> mag_units m + int k \<le> mag_units (m + int k)"
proof (induction k)
  case (Suc k)
  then show ?case using mag_units_step [of "m + int k"] by (simp add: algebra_simps)
qed simp

lemma mag_units_mono:
  assumes "0 \<le> m" "m \<le> n"
  shows "mag_units m + (n - m) \<le> mag_units n"
  using mag_units_mono_add [of m "nat (n - m)"] assms by simp

lemma mag_units_less_iff:
  assumes "0 \<le> m" "0 \<le> n"
  shows "mag_units m < mag_units n \<longleftrightarrow> m < n"
proof
  assume "mag_units m < mag_units n"
  show "m < n"
  proof (rule ccontr)
    assume "\<not> m < n"
    then have "mag_units n + (m - n) \<le> mag_units m" using assms mag_units_mono [of n m] by simp
    with \<open>mag_units m < mag_units n\<close> \<open>\<not> m < n\<close> show False by linarith
  qed
next
  assume "m < n"
  with mag_units_mono [of m n] assms show "mag_units m < mag_units n" by linarith
qed

lemma mag_units_0 [simp]: "mag_units 0 = 0"
  by (simp add: mag_units_def)

lemma mag_units_pos: "0 < m \<Longrightarrow> 0 < mag_units m"
  using mag_units_less_iff [of 0 m] by simp

lemma mag_units_nonneg: "0 \<le> m \<Longrightarrow> 0 \<le> mag_units m"
  using mag_units_pos [of m] by (cases "m = 0") auto

lemma fl_key_units_less: "fl_key x < fl_key y \<longleftrightarrow> fl_units x < fl_units y"
proof -
  have nn: "0 \<le> fl_mag x" "0 \<le> fl_mag y" by (simp_all add: fl_mag_range)
  note iffs = mag_units_less_iff [OF nn] mag_units_less_iff [OF nn(2,1)]
  have z: "mag_units (fl_mag x) = 0 \<longleftrightarrow> fl_mag x = 0" "mag_units (fl_mag y) = 0 \<longleftrightarrow> fl_mag y = 0"
    using mag_units_pos [of "fl_mag x"] mag_units_pos [of "fl_mag y"] nn by force+
  have p: "0 \<le> mag_units (fl_mag x)" "0 \<le> mag_units (fl_mag y)"
    using nn by (simp_all add: mag_units_nonneg)
  show ?thesis unfolding fl_key_def fl_units_def using iffs z p nn by auto
qed

lemma fl_less_units: "fl_less x y \<longleftrightarrow> \<not> fl_nan x \<and> \<not> fl_nan y \<and> fl_units x < fl_units y"
  by (simp add: fl_less_def fl_key_units_less)

subsection \<open>Rounding\<close>

text \<open>The quotient \<open>n / d\<close> rounded to an integer, ties to the even one.\<close>

definition round_even :: "int \<Rightarrow> int \<Rightarrow> int" where
  "round_even n d =
    (if 2 * (n mod d) < d \<or> 2 * (n mod d) = d \<and> even (n div d) then n div d else n div d + 1)"

text \<open>The number of bits of a non-negative integer.\<close>

function bit_count :: "int \<Rightarrow> nat" where
  "bit_count q = (if q \<le> 0 then 0 else Suc (bit_count (q div 2)))"
  by pat_completeness auto
termination
  by (relation "measure nat") auto

declare bit_count.simps [simp del]

text \<open>
  The magnitude nearest to \<open>n / d\<close> units: the quotient is kept to 53 bits, at the exponent of its
  first bit. A carry out of the 53 bits moves on to the next exponent, and past the last exponent to
  infinity, by the order of the magnitudes.
\<close>

definition mag_round :: "int \<Rightarrow> int \<Rightarrow> int" where
  "mag_round n d =
    (let e = bit_count (n div d) - 53 in min inf_mag (int e * 2 ^ 52 + round_even n (d * 2 ^ e)))"

definition fl_round :: "bool \<Rightarrow> int \<Rightarrow> int \<Rightarrow> float64" where
  "fl_round s n d = fl_make s (mag_round n d)"

lemma bit_count_bounds:
  "q < 2 ^ bit_count q \<and> (0 < q \<longrightarrow> 2 ^ (bit_count q - 1) \<le> q)"
proof (induction q rule: bit_count.induct)
  case (1 q)
  show ?case
  proof (cases "q \<le> 0")
    case True
    then show ?thesis by (simp add: bit_count.simps)
  next
    case False
    let ?k = "bit_count (q div 2)"
    have q: "bit_count q = Suc ?k" using False by (simp add: bit_count.simps)
    have IH: "q div 2 < 2 ^ ?k" "0 < q div 2 \<longrightarrow> 2 ^ (?k - 1) \<le> q div 2"
      using 1 False by auto
    have "q < 2 ^ Suc ?k" using IH(1) by simp
    moreover have "2 ^ ?k \<le> q"
    proof (cases "0 < q div 2")
      case True
      then have "0 < ?k" by (simp add: bit_count.simps)
      then have "(2 :: int) ^ ?k = 2 * 2 ^ (?k - 1)" by (cases ?k) simp_all
      then show ?thesis using IH(2) True by linarith
    next
      case f: False
      then have "?k = 0" using False by (simp add: bit_count.simps)
      then show ?thesis using False by simp
    qed
    ultimately show ?thesis unfolding q by simp
  qed
qed

lemmas bit_count_less = bit_count_bounds [THEN conjunct1]
lemmas bit_count_geq = bit_count_bounds [THEN conjunct2, rule_format]

lemma bit_count_unique:
  assumes "2 ^ k \<le> q" "q < 2 ^ Suc k"
  shows "bit_count q = Suc k"
proof (rule antisym)
  have q: "0 < q" using assms(1) by (meson less_le_trans zero_less_numeral zero_less_power)
  have "\<not> k < bit_count q - 1"
  proof
    assume "k < bit_count q - 1"
    then have "(2 :: int) ^ Suc k \<le> 2 ^ (bit_count q - 1)" by (intro power_increasing) auto
    with bit_count_geq [OF q] assms(2) show False by linarith
  qed
  then show "bit_count q \<le> Suc k" by linarith
  have "\<not> bit_count q \<le> k"
  proof
    assume "bit_count q \<le> k"
    then have "(2 :: int) ^ bit_count q \<le> 2 ^ k" by (intro power_increasing) auto
    with bit_count_less [of q] assms(1) show False by linarith
  qed
  then show "Suc k \<le> bit_count q" by linarith
qed

lemma bit_count_mono: "p \<le> q \<Longrightarrow> bit_count p \<le> bit_count q"
proof (rule ccontr)
  assume le: "p \<le> q" and "\<not> bit_count p \<le> bit_count q"
  then have lt: "bit_count q < bit_count p" by simp
  then have p: "0 < p" by (cases "p \<le> 0") (simp_all add: bit_count.simps)
  have "(2 :: int) ^ bit_count q \<le> 2 ^ (bit_count p - 1)" using lt by (intro power_increasing) auto
  with bit_count_geq [OF p] bit_count_less [of q] le show False by linarith
qed

text \<open>The rounded quotient is the only integer at most half a step away, when it is not a tie.\<close>

lemma round_even_bounds:
  assumes "0 < d"
  shows "2 * (n - round_even n d * d) \<le> d" "2 * (round_even n d * d - n) \<le> d"
proof -
  define q m where "q = n div d" and "m = n mod d"
  have n: "n = q * d + m" unfolding q_def m_def by simp
  have m: "0 \<le> m" "m < d" unfolding m_def using assms by simp_all
  have s: "(q + 1) * d = q * d + d" by (simp add: distrib_right)
  show "2 * (n - round_even n d * d) \<le> d" "2 * (round_even n d * d - n) \<le> d"
    unfolding round_even_def q_def [symmetric] m_def [symmetric] using n m s by (cases "2 * m < d"; force)+
qed

lemma round_even_nonneg: "0 < d \<Longrightarrow> 0 \<le> n \<Longrightarrow> 0 \<le> round_even n d"
  by (auto simp: round_even_def pos_imp_zdiv_nonneg_iff)

lemma round_even_exact: "0 < d \<Longrightarrow> d dvd n \<Longrightarrow> round_even n d = n div d"
  by (auto simp: round_even_def)

lemma round_even_between:
  assumes "0 < d" "a * d \<le> n" "n \<le> b * d"
  shows "a \<le> round_even n d" "round_even n d \<le> b"
proof -
  have "a * d div d \<le> n div d" using assms by (intro zdiv_mono1)
  then have "a \<le> n div d" using \<open>0 < d\<close> by simp
  then show "a \<le> round_even n d" by (auto simp: round_even_def)
  show "round_even n d \<le> b"
  proof (cases "n div d = b")
    case True
    then have "n mod d = 0"
      using assms by (metis add_le_same_cancel1 div_mult_mod_eq order_antisym pos_mod_sign)
    then show ?thesis using True assms(1) by (simp add: round_even_def)
  next
    case False
    have "n div d \<le> b * d div d" using assms by (intro zdiv_mono1)
    then have "n div d \<le> b" using \<open>0 < d\<close> by simp
    with False show ?thesis by (auto simp: round_even_def)
  qed
qed

lemma mag_units_build_aux:
  fixes B :: int
  assumes "0 < B" "B \<le> r" "r < 2 * B"
  shows "((int e * B + r) mod B + B) * 2 ^ (nat ((int e * B + r) div B) - 1) = r * 2 ^ e"
proof -
  have eq: "int e * B + r = B * (int e + 1) + (r - B)" by (simp add: algebra_simps)
  have "(int e * B + r) div B = int e + 1"
    by (rule int_div_pos_eq [OF eq]) (use assms in simp_all)
  moreover have "(int e * B + r) mod B = r - B"
    by (rule int_mod_pos_eq [OF eq]) (use assms in simp_all)
  moreover have "nat (int e + 1) - 1 = e" by simp
  ultimately show ?thesis by (simp only:) simp
qed

text \<open>A mantissa of 53 bits at the exponent \<open>e\<close>.\<close>

lemma mag_units_build:
  assumes "2 ^ 52 \<le> r" "r \<le> 2 ^ 53"
  shows "mag_units (int e * 2 ^ 52 + r) = r * 2 ^ e"
proof (cases "r = 2 ^ 53")
  case True
  have eq: "int e * 2 ^ 52 + r = int (Suc e) * 2 ^ 52 + 2 ^ 52" using True by (simp add: distrib_right)
  have "\<not> int e * 2 ^ 52 + r < 2 ^ 52" using assms by auto
  then have "mag_units (int e * 2 ^ 52 + r) = 2 ^ 52 * 2 ^ Suc e"
    unfolding mag_units_def unfolding eq using mag_units_build_aux [of "2 ^ 52" "2 ^ 52" "Suc e"] by simp
  then show ?thesis using True by simp
next
  case False
  have "\<not> int e * 2 ^ 52 + r < 2 ^ 52" using assms by auto
  then show ?thesis
    unfolding mag_units_def using mag_units_build_aux [of "2 ^ 52" r e] assms False by simp
qed

lemma mag_units_small: "0 \<le> r \<Longrightarrow> r \<le> 2 ^ 53 \<Longrightarrow> mag_units r = r"
  using mag_units_build [of r 0] by (cases "r < 2 ^ 52") (simp_all add: mag_units_def)

lemma mag_units_destruct:
  assumes "2 ^ 52 \<le> m"
  shows "\<exists>e r. m = int e * 2 ^ 52 + r \<and> 2 ^ 52 \<le> r \<and> r < 2 ^ 53"
proof -
  have d: "1 \<le> m div 2 ^ 52" using assms by (simp add: int_one_le_iff_zero_less pos_imp_zdiv_pos_iff)
  have "m = m div 2 ^ 52 * 2 ^ 52 + m mod 2 ^ 52" by simp
  with d have "m = int (nat (m div 2 ^ 52 - 1)) * 2 ^ 52 + (2 ^ 52 + m mod 2 ^ 52)"
    by (simp add: left_diff_distrib)
  moreover have "0 \<le> m mod 2 ^ 52" "m mod 2 ^ 52 < 2 ^ 52" by simp_all
  ultimately show ?thesis by (intro exI [of _ "nat (m div 2 ^ 52 - 1)"] exI [of _ "2 ^ 52 + m mod 2 ^ 52"]) auto
qed

lemma mag_round_range:
  assumes "0 \<le> n" "0 < d"
  shows "0 \<le> mag_round n d" "mag_round n d \<le> inf_mag"
  using assms unfolding mag_round_def Let_def
  by (auto simp: inf_mag_def intro!: add_nonneg_nonneg round_even_nonneg)

lemma bit_count_small: "q < 2 ^ 53 \<Longrightarrow> bit_count q - 53 = 0"
proof (rule ccontr)
  assume q: "q < 2 ^ 53" and "bit_count q - 53 \<noteq> 0"
  then have "53 \<le> bit_count q - 1" and "0 < q" by (auto simp: bit_count.simps [of q] split: if_splits)
  then have "(2 :: int) ^ 53 \<le> 2 ^ (bit_count q - 1)" by (intro power_increasing) auto
  with bit_count_geq [OF \<open>0 < q\<close>] q show False by linarith
qed

lemma bit_count_large: "2 ^ 52 * 2 ^ e \<le> q \<Longrightarrow> q < 2 ^ 53 * 2 ^ e \<Longrightarrow> bit_count q - 53 = e"
  using bit_count_unique [of "52 + e" q] by (simp add: power_add)

text \<open>A multiple of a step of its binade is represented exactly.\<close>

lemma mag_round_exact:
  assumes "0 \<le> m" "m < inf_mag" "0 < k"
  shows "mag_round (mag_units m * k) k = m"
proof (cases "m < 2 ^ 52")
  case True
  then have "mag_units m = m" "bit_count m - 53 = 0" using bit_count_small [of m] by (simp_all add: mag_units_def)
  then show ?thesis using assms by (simp add: mag_round_def round_even_exact)
next
  case False
  then obtain e r where m: "m = int e * 2 ^ 52 + r" and r: "2 ^ 52 \<le> r" "r < 2 ^ 53"
    using mag_units_destruct [of m] by auto
  have u: "mag_units m = r * 2 ^ e" unfolding m using r by (intro mag_units_build) simp_all
  have "bit_count (r * 2 ^ e) - 53 = e" using r by (intro bit_count_large) auto
  moreover have "round_even (r * 2 ^ e * k) (k * 2 ^ e) = r"
    using \<open>0 < k\<close> by (simp add: round_even_exact mult.commute mult.left_commute)
  ultimately show ?thesis using assms(2,3) by (simp add: mag_round_def u) (simp add: m)
qed

text \<open>So is every integer below \<open>2 ^ 53\<close>.\<close>

lemma mag_round_int_aux:
  assumes c: "0 \<le> c" "c < 2 ^ 53" and E: "53 \<le> E" "E \<le> 1074"
  shows "mag_units (mag_round (c * 2 ^ E) 1) = c * 2 ^ E \<and> mag_round (c * 2 ^ E) 1 < inf_mag"
proof (cases "c = 0")
  case True
  then show ?thesis by (simp add: mag_round_def round_even_def bit_count.simps inf_mag_def)
next
  case False
  define q k e where "q = c * 2 ^ E" and "k = bit_count q" and "e = k - 53"
  have q: "0 < q" "2 ^ E \<le> q" "q < 2 ^ (53 + E)"
    using c False by (simp_all add: q_def power_add)
  have kb: "2 ^ (k - 1) \<le> q" "q < 2 ^ k" using bit_count_geq [OF q(1)] bit_count_less [of q] by (simp_all only: k_def)
  have "E < k"
    using q(2) kb(2) by (metis le_less_trans one_less_numeral_iff power_less_imp_less_exp semiring_norm(76))
  moreover have "k - 1 < 53 + E"
    using q(3) kb(1) by (metis le_less_trans one_less_numeral_iff power_less_imp_less_exp semiring_norm(76))
  ultimately have e: "e \<le> E" "k = 53 + e" "k - 1 = 52 + e" using E(1) by (auto simp: e_def)
  define r where "r = c * 2 ^ (E - e)"
  have qr: "q = r * 2 ^ e" using e(1) by (simp add: q_def r_def mult.assoc flip: power_add)
  have r: "2 ^ 52 \<le> r" "r < 2 ^ 53"
    using kb unfolding e(3) unfolding e(2) qr power_add by simp_all
  have "round_even q (2 ^ e) = r" unfolding qr by (simp add: round_even_exact)
  moreover have "int e * 2 ^ 52 + r < inf_mag" using e(1) E(2) r by (simp add: inf_mag_def)
  ultimately have "mag_round q 1 = int e * 2 ^ 52 + r"
    by (simp add: mag_round_def flip: k_def e_def)
  moreover have "mag_units (int e * 2 ^ 52 + r) = q" unfolding qr using r by (intro mag_units_build) simp_all
  ultimately show ?thesis using \<open>int e * 2 ^ 52 + r < inf_mag\<close> unfolding q_def [symmetric] by simp
qed

lemma fl_round_parts:
  assumes "0 \<le> n" "0 < d"
  shows "fl_sign (fl_round s n d) = s" "fl_mag (fl_round s n d) = mag_round n d" "\<not> fl_nan (fl_round s n d)"
proof -
  note r = mag_round_range [OF assms]
  have "mag_round n d < 2 ^ 63" using r(2) by (simp add: inf_mag_def)
  with r show "fl_sign (fl_round s n d) = s" "fl_mag (fl_round s n d) = mag_round n d"
    by (simp_all add: fl_round_def)
  with r show "\<not> fl_nan (fl_round s n d)" by (simp add: fl_nan_def)
qed

lemma fl_round_key_neg: "0 \<le> n \<Longrightarrow> 0 < d \<Longrightarrow> fl_key (fl_round True n d) \<le> 0"
  using mag_round_range(1) [of n d] by (simp add: fl_key_def fl_round_parts)

subsection \<open>Operations\<close>

text \<open>One is this many units.\<close>

definition one_units :: int where
  "one_units = 2 ^ 1074"

lemma one_units_pos [simp]: "0 < one_units"
  unfolding one_units_def by (rule zero_less_power) simp

lemma one_units_nonneg [simp]: "0 \<le> one_units"
  by (rule less_imp_le) simp

lemma one_units_nonzero [simp]: "one_units \<noteq> 0"
  using one_units_pos by linarith

definition fl_neg :: "float64 \<Rightarrow> float64" where
  "fl_neg x = fl_make (\<not> fl_sign x) (fl_mag x)"

definition fl_sub :: "float64 \<Rightarrow> float64 \<Rightarrow> float64" where
  "fl_sub x y =
    (if fl_nan x \<or> fl_nan y \<or> fl_inf x \<and> fl_inf y \<and> fl_sign x = fl_sign y then NaN
     else if fl_inf x then x
     else if fl_inf y then fl_neg y
     else if fl_units x = fl_units y
          then (if fl_zero x \<and> fl_sign x \<and> \<not> fl_sign y then x else fl_make False 0)
     else fl_round (fl_units x < fl_units y) \<bar>fl_units x - fl_units y\<bar> 1)"

definition fl_mul :: "float64 \<Rightarrow> float64 \<Rightarrow> float64" where
  "fl_mul x y =
    (let s = (fl_sign x \<noteq> fl_sign y) in
     if fl_nan x \<or> fl_nan y \<or> fl_inf x \<and> fl_zero y \<or> fl_zero x \<and> fl_inf y then NaN
     else if fl_inf x \<or> fl_inf y then fl_make s inf_mag
     else fl_round s \<bar>fl_units x * fl_units y\<bar> one_units)"

definition fl_div :: "float64 \<Rightarrow> float64 \<Rightarrow> float64" where
  "fl_div x y =
    (let s = (fl_sign x \<noteq> fl_sign y) in
     if fl_nan x \<or> fl_nan y \<or> fl_inf x \<and> fl_inf y \<or> fl_zero x \<and> fl_zero y then NaN
     else if fl_inf x \<or> fl_zero y then fl_make s inf_mag
     else if fl_inf y then fl_make s 0
     else fl_round s (\<bar>fl_units x\<bar> * one_units) \<bar>fl_units y\<bar>)"

text \<open>\<open>math.Ceil\<close>; the result keeps the sign of the argument, so the ceiling of -0.5 is -0.\<close>

definition fl_ceil :: "float64 \<Rightarrow> float64" where
  "fl_ceil x =
    (if \<not> fl_finite x \<or> fl_zero x then x
     else fl_round (fl_sign x) (\<bar>- (- fl_units x div one_units)\<bar> * one_units) 1)"

text \<open>
  \<open>float64(n)\<close>, and \<open>int32(x)\<close>, which truncates; for a NaN and for a number out of range the
  result of the conversion depends on the implementation, here the first argument.
\<close>

definition fl_of_int :: "int \<Rightarrow> float64" where
  "fl_of_int n = fl_round (n < 0) (\<bar>n\<bar> * one_units) 1"

definition fl_trunc :: "float64 \<Rightarrow> int" where
  "fl_trunc x = sgn (fl_units x) * (\<bar>fl_units x\<bar> div one_units)"

definition fl_to_int32 :: "(float64 \<Rightarrow> int) \<Rightarrow> float64 \<Rightarrow> int" where
  "fl_to_int32 other x =
    (if fl_finite x \<and> - (2 ^ 31) \<le> fl_trunc x \<and> fl_trunc x < 2 ^ 31 then fl_trunc x else other x)"

lemma fl_units_zero_iff: "fl_units x = 0 \<longleftrightarrow> fl_zero x"
  using mag_units_pos [of "fl_mag x"] fl_mag_range(1) [of x]
  by (cases "fl_mag x = 0") (auto simp: fl_units_def fl_zero_def)

text \<open>The sign of a difference is the order of the operands.\<close>

lemma fl_sub_pos:
  assumes "fl_less (fl_make False 0) (fl_sub x y)"
  shows "fl_less y x"
proof -
  have z: "\<not> fl_nan (fl_make False 0)" "fl_key (fl_make False 0) = 0"
    by (simp_all add: fl_nan_def fl_key_def inf_mag_def)
  from assms have k: "\<not> fl_nan (fl_sub x y)" "0 < fl_key (fl_sub x y)" by (auto simp: fl_less_def z)
  have nan: "fl_nan NaN" by (simp add: NaN_def fl_nan_def inf_mag_def)
  have nn: "\<not> fl_nan x" "\<not> fl_nan y" using k(1) nan by (auto simp: fl_sub_def)
  have big: "fl_key w \<le> inf_mag \<and> - inf_mag \<le> fl_key w" if "\<not> fl_nan w" for w
    using that fl_mag_range(1) [of w] by (auto simp: fl_key_def fl_nan_def inf_mag_def)
  consider "fl_inf x" "fl_inf y" | "fl_inf x" "\<not> fl_inf y" | "\<not> fl_inf x" "fl_inf y" | "\<not> fl_inf x" "\<not> fl_inf y"
    by blast
  then show ?thesis
  proof cases
    case 1
    have s: "fl_sign x \<noteq> fl_sign y"
    proof
      assume "fl_sign x = fl_sign y"
      then have "fl_sub x y = NaN" using 1 by (simp add: fl_sub_def)
      with k(1) nan show False by simp
    qed
    with 1 nn have "fl_sub x y = x" by (simp add: fl_sub_def)
    with k have "0 < fl_key x" by simp
    note s = s this
    with 1 nn show ?thesis by (auto simp: fl_less_def fl_key_def fl_inf_def inf_mag_def split: if_splits)
  next
    case 2
    then have "fl_sub x y = x" using nn by (simp add: fl_sub_def)
    with k 2 have "fl_key x = inf_mag" by (auto simp: fl_key_def fl_inf_def inf_mag_def split: if_splits)
    moreover have "fl_key y \<noteq> inf_mag" using 2(2) fl_mag_range(1) [of y]
      by (auto simp: fl_inf_def fl_key_def inf_mag_def split: if_splits)
    ultimately show ?thesis using big [OF nn(2)] nn by (simp add: fl_less_def)
  next
    case 3
    then have "fl_sub x y = fl_neg y" using nn by (simp add: fl_sub_def)
    then have "fl_key y = - inf_mag"
      using k 3 by (auto simp: fl_neg_def fl_key_def fl_inf_def inf_mag_def split: if_splits)
    moreover have "fl_key x \<noteq> - inf_mag" using 3(1) fl_mag_range(1) [of x]
      by (auto simp: fl_inf_def fl_key_def inf_mag_def split: if_splits)
    ultimately show ?thesis using big [OF nn(1)] nn by (simp add: fl_less_def)
  next
    case 4
    have "fl_units x \<noteq> fl_units y"
    proof
      assume e: "fl_units x = fl_units y"
      then have "fl_sub x y = x \<and> fl_zero x \<or> fl_sub x y = fl_make False 0"
        using 4 nn by (simp add: fl_sub_def)
      then have "fl_key (fl_sub x y) = 0" using z by (auto simp: fl_zero_def fl_key_def)
      with k show False by simp
    qed
    then have "fl_sub x y = fl_round (fl_units x < fl_units y) \<bar>fl_units x - fl_units y\<bar> 1"
      using 4 nn by (simp add: fl_sub_def)
    with k(2) have "\<not> fl_units x < fl_units y"
      using mag_round_range(1) [of "\<bar>fl_units x - fl_units y\<bar>" 1]
      by (auto simp: fl_key_def fl_round_parts)
    with \<open>fl_units x \<noteq> fl_units y\<close> nn show ?thesis by (simp add: fl_less_units)
  qed
qed

text \<open>A quotient by a positive number is positive only if the dividend is.\<close>

lemma fl_div_pos:
  assumes "fl_less (fl_make False 0) (fl_div x y)" "fl_less (fl_make False 0) y"
  shows "fl_less (fl_make False 0) x"
proof -
  have z: "\<not> fl_nan (fl_make False 0)" "fl_key (fl_make False 0) = 0"
    by (simp_all add: fl_nan_def fl_key_def inf_mag_def)
  have nan: "fl_nan NaN" by (simp add: NaN_def fl_nan_def inf_mag_def)
  from assms have q: "\<not> fl_nan (fl_div x y)" "0 < fl_key (fl_div x y)" and y: "\<not> fl_nan y" "0 < fl_key y"
    by (auto simp: fl_less_def z)
  have nx: "\<not> fl_nan x" using q(1) nan by (auto simp: fl_div_def)
  have sy: "\<not> fl_sign y" "\<not> fl_zero y"
    using y(2) fl_mag_range(1) [of y] by (auto simp: fl_key_def fl_zero_def split: if_splits)
  have key: "fl_key (fl_make True m) \<le> 0" if "0 \<le> m" "m < 2 ^ 63" for m
    using that by (simp add: fl_key_def)
  have "\<not> fl_sign x"
  proof
    assume sx: "fl_sign x"
    have "\<not> (fl_inf x \<and> fl_inf y)" using q(1) nan by (auto simp: fl_div_def)
    then have "fl_div x y = fl_make True inf_mag \<or> fl_div x y = fl_make True 0
        \<or> fl_div x y = fl_round True (\<bar>fl_units x\<bar> * one_units) \<bar>fl_units y\<bar>"
      using sx sy y(1) nx by (auto simp: fl_div_def)
    moreover have "0 < \<bar>fl_units y\<bar>" using sy(2) fl_units_zero_iff [of y] by simp
    then have "fl_key (fl_round True (\<bar>fl_units x\<bar> * one_units) \<bar>fl_units y\<bar>) \<le> 0"
      using less_imp_le [OF one_units_pos] by (intro fl_round_key_neg mult_nonneg_nonneg abs_ge_zero)
    moreover have "fl_key (fl_make True inf_mag) \<le> 0" "fl_key (fl_make True 0) \<le> 0"
      by (simp_all add: key inf_mag_def)
    ultimately show False using q(2) by auto
  qed
  moreover have "\<not> fl_zero x"
  proof
    assume "fl_zero x"
    then have "fl_div x y = fl_make False 0"
      using calculation sy y(1) fl_excl(2) [of x] zero_finite [of x] fl_units_zero_iff [of x] fl_units_zero_iff [of y] nx
      by (auto simp: fl_div_def fl_round_def mag_round_def round_even_def bit_count.simps inf_mag_def)
    with q(2) z show False by simp
  qed
  ultimately show ?thesis
    using nx z fl_mag_range(1) [of x] by (auto simp: fl_less_def fl_key_def fl_zero_def)
qed

subsection \<open>Integers\<close>

lemma fl_round_int:
  assumes "0 \<le> c" "c < 2 ^ 53"
  shows "fl_units (fl_round s (c * one_units) 1) = (if s then - (c * one_units) else c * one_units)"
    and "fl_finite (fl_round s (c * one_units) 1)"
proof -
  have "53 \<le> (1074 :: nat)" "(1074 :: nat) \<le> 1074" by simp_all
  note m = mag_round_int_aux [OF assms this, folded one_units_def]
  have "0 \<le> c * one_units" using assms(1) less_imp_le [OF one_units_pos] by (rule mult_nonneg_nonneg)
  note parts = fl_round_parts [OF this zero_less_one]
  show "fl_units (fl_round s (c * one_units) 1) = (if s then - (c * one_units) else c * one_units)"
    unfolding fl_units_def parts using m by simp
  show "fl_finite (fl_round s (c * one_units) 1)"
    unfolding fl_finite_def parts using m by simp
qed

lemma fl_of_int_units:
  assumes "\<bar>n\<bar> < 2 ^ 53"
  shows "fl_units (fl_of_int n) = n * one_units" "fl_finite (fl_of_int n)"
  using fl_round_int [of "\<bar>n\<bar>" "n < 0"] assms by (auto simp: fl_of_int_def)

lemma finite_not_nan: "fl_finite x \<Longrightarrow> \<not> fl_nan x"
  using fl_excl(1) by blast

lemma fl_leq_units: "fl_leq x y \<longleftrightarrow> \<not> fl_nan x \<and> \<not> fl_nan y \<and> fl_units x \<le> fl_units y"
  using fl_key_units_less [of y x] by (auto simp: fl_leq_def not_less [symmetric])

lemma fl_finite_between:
  assumes "fl_leq x y" "fl_leq y z" "fl_finite x" "fl_finite z"
  shows "fl_finite y"
proof -
  have "fl_mag y < inf_mag"
    using assms fl_mag_range(1) [of x] fl_mag_range(1) [of z] fl_mag_range(1) [of y]
    by (auto simp: fl_leq_def fl_finite_def fl_key_def split: if_splits)
  then show ?thesis by (simp add: fl_finite_def)
qed

text \<open>A number between two integers that a conversion represents exactly truncates between them.\<close>

lemma fl_trunc_between:
  assumes "fl_leq (fl_of_int a) x" "fl_leq x (fl_of_int b)" "0 \<le> a" "b < 2 ^ 53" "a \<le> b"
  shows "a \<le> fl_trunc x" "fl_trunc x \<le> b"
proof -
  have "\<bar>a\<bar> < 2 ^ 53" "\<bar>b\<bar> < 2 ^ 53" using assms by simp_all
  with assms have u: "a * one_units \<le> fl_units x" "fl_units x \<le> b * one_units"
    by (simp_all add: fl_leq_units fl_of_int_units)
  have "0 \<le> a * one_units" using assms(3) less_imp_le [OF one_units_pos] by (rule mult_nonneg_nonneg)
  with u have "fl_trunc x = fl_units x div one_units" by (auto simp: fl_trunc_def sgn_if)
  moreover have "a * one_units div one_units \<le> fl_units x div one_units"
    using u(1) by (rule zdiv_mono1) simp
  moreover have "fl_units x div one_units \<le> b * one_units div one_units"
    using u(2) by (rule zdiv_mono1) simp
  ultimately show "a \<le> fl_trunc x" "fl_trunc x \<le> b" using one_units_pos by simp_all
qed

text \<open>\<open>math.Ceil\<close> gives the least integer that is not below the argument.\<close>

lemma fl_ceil_units:
  assumes "fl_finite x" "\<bar>fl_units x\<bar> \<le> c * one_units" "c < 2 ^ 53"
  shows "fl_units (fl_ceil x) = - (- fl_units x div one_units) * one_units"
proof (cases "fl_zero x")
  case True
  then have "fl_units x = 0" by (simp add: fl_units_zero_iff)
  with True show ?thesis by (simp add: fl_ceil_def)
next
  case False
  define k where "k = - (- fl_units x div one_units)"
  have "\<bar>fl_units x\<bar> div one_units \<le> c * one_units div one_units"
    using assms(2) by (rule zdiv_mono1) simp
  then have "\<bar>fl_units x\<bar> div one_units \<le> c" using one_units_pos by simp
  have lo: "- c \<le> k" "k \<le> c"
  proof -
    have "- (c * one_units) div one_units \<le> - fl_units x div one_units"
      using assms(2) by (intro zdiv_mono1) auto
    moreover have "- fl_units x div one_units \<le> c * one_units div one_units"
      using assms(2) by (intro zdiv_mono1) auto
    moreover have "- (c * one_units) div one_units = - c" "c * one_units div one_units = c"
      using one_units_pos by (simp_all flip: mult_minus_left)
    ultimately show "- c \<le> k" "k \<le> c" by (simp_all add: k_def)
  qed
  have sgn: "if fl_sign x then k \<le> 0 else 0 \<le> k"
  proof (cases "fl_sign x")
    case True
    then have "0 \<le> - fl_units x" using fl_mag_range(1) [of x] by (simp add: fl_units_def mag_units_nonneg)
    then show ?thesis using True one_units_pos by (simp add: k_def pos_imp_zdiv_nonneg_iff)
  next
    case False
    then have "0 \<le> fl_units x" using fl_mag_range(1) [of x] by (simp add: fl_units_def mag_units_nonneg)
    then show ?thesis using False div_nonpos_pos_le0 [of "- fl_units x" one_units] by (simp add: k_def)
  qed
  have "0 \<le> \<bar>k\<bar>" "\<bar>k\<bar> < 2 ^ 53" using lo assms(3) by auto
  from fl_round_int(1) [OF this, of "fl_sign x"] sgn False assms(1) show ?thesis
    unfolding fl_ceil_def k_def [symmetric] by (auto split: if_splits)
qed

subsection \<open>Computing with small integers\<close>

lemma round_even_scale: "0 < k \<Longrightarrow> round_even (n * k) (d * k) = round_even n d"
  by (simp add: round_even_def mult_mod_left flip: mult.assoc)

lemma mag_round_scale: "0 < k \<Longrightarrow> mag_round (n * k) (d * k) = mag_round n d"
proof -
  assume k: "0 < k"
  have q: "n * k div (d * k) = n div d" using k by simp
  have "round_even (n * k) (d * k * 2 ^ e) = round_even n (d * 2 ^ e)" for e
    using round_even_scale [OF k, of n "d * 2 ^ e"] by (simp add: mult_ac)
  then show ?thesis unfolding mag_round_def q Let_def by simp
qed

lemma of_int_parts:
  assumes "0 < a" "a < 2 ^ 53"
  shows "\<not> fl_sign (fl_of_int a)" "fl_finite (fl_of_int a)" "\<not> fl_zero (fl_of_int a)"
    "fl_units (fl_of_int a) = a * one_units" "\<not> fl_nan (fl_of_int a)" "\<not> fl_inf (fl_of_int a)"
proof -
  have b: "\<bar>a\<bar> < 2 ^ 53" using assms by simp
  show u: "fl_units (fl_of_int a) = a * one_units" "fl_finite (fl_of_int a)" using fl_of_int_units [OF b] by auto
  then show "\<not> fl_nan (fl_of_int a)" "\<not> fl_inf (fl_of_int a)" using fl_excl by blast+
  show "\<not> fl_zero (fl_of_int a)" using u(1) assms one_units_pos by (simp flip: fl_units_zero_iff)
  have "0 \<le> \<bar>a\<bar> * one_units" by (intro mult_nonneg_nonneg) auto
  then show "\<not> fl_sign (fl_of_int a)" using assms(1) unfolding fl_of_int_def by (simp add: fl_round_parts)
qed

lemma fl_div_of_int:
  assumes "0 < a" "a < 2 ^ 53" "0 < b" "b < 2 ^ 53"
  shows "fl_div (fl_of_int a) (fl_of_int b) = fl_round False (a * one_units) b"
proof -
  note pa = of_int_parts [OF assms(1,2)] and pb = of_int_parts [OF assms(3,4)]
  have "\<bar>a * one_units\<bar> = a * one_units" "\<bar>b * one_units\<bar> = b * one_units"
    using assms one_units_nonneg by (simp_all add: abs_mult)
  then have "fl_div (fl_of_int a) (fl_of_int b) = fl_round False (a * one_units * one_units) (b * one_units)"
    using pa pb by (simp add: fl_div_def)
  then show ?thesis by (simp add: fl_round_def mag_round_scale)
qed

lemma fl_sub_of_int:
  assumes "0 < b" "b < a" "a < 2 ^ 53"
  shows "fl_sub (fl_of_int a) (fl_of_int b) = fl_of_int (a - b)"
proof -
  have a: "0 < a" "a < 2 ^ 53" and b: "0 < b" "b < 2 ^ 53" using assms by simp_all
  note pa = of_int_parts [OF a] and pb = of_int_parts [OF b]
  have "b * one_units < a * one_units" using assms(2) by simp
  then have "fl_sub (fl_of_int a) (fl_of_int b) = fl_round False (a * one_units - b * one_units) 1"
    using pa pb by (simp add: fl_sub_def)
  then show ?thesis using assms by (simp add: fl_of_int_def left_diff_distrib)
qed

lemma int_div_less: "0 < b \<Longrightarrow> n < y * b \<Longrightarrow> n div b < y" for n b y :: int
  using mult_right_mono [of y "n div b" b] pos_mod_sign [of b n] div_mult_mod_eq [of n b] by linarith

lemma int_le_div: "0 < b \<Longrightarrow> y * b \<le> n \<Longrightarrow> y \<le> n div b" for n b y :: int
  using zdiv_mono1 [of "y * b" n b] by simp

text \<open>The magnitude of a quotient of integers, computed with numbers of about a hundred bits.\<close>

lemma mag_round_at:
  assumes ek: "e + k = 1074" and a: "2 ^ 52 * b \<le> a * 2 ^ k" "a * 2 ^ k < 2 ^ 53 * b" and b: "0 < b"
  shows "mag_round (a * one_units) b = min inf_mag (int e * 2 ^ 52 + round_even (a * 2 ^ k) b)"
proof -
  have n: "a * one_units = a * 2 ^ k * 2 ^ e"
    unfolding one_units_def ek [symmetric] by (simp add: power_add mult_ac)
  have "(2 ^ 52 * 2 ^ e) * b \<le> a * 2 ^ k * 2 ^ e" "a * 2 ^ k * 2 ^ e < (2 ^ 53 * 2 ^ e) * b"
    using mult_right_mono [OF a(1), of "2 ^ e"] mult_strict_right_mono [OF a(2), of "2 ^ e"]
    by (simp_all add: mult_ac)
  then have "2 ^ 52 * 2 ^ e \<le> a * one_units div b" "a * one_units div b < 2 ^ 53 * 2 ^ e"
    using b unfolding n by (auto intro: int_div_less int_le_div)
  then have "bit_count (a * one_units div b) - 53 = e" by (rule bit_count_large)
  then show ?thesis unfolding mag_round_def Let_def n using round_even_scale [of "2 ^ e" "a * 2 ^ k" b] by simp
qed

lemma fl_less_of_int: "\<bar>a\<bar> < 2 ^ 53 \<Longrightarrow> \<bar>b\<bar> < 2 ^ 53 \<Longrightarrow> fl_less (fl_of_int a) (fl_of_int b) \<longleftrightarrow> a < b"
  by (simp add: fl_less_units fl_of_int_units finite_not_nan)

lemma fl_leq_of_int: "\<bar>a\<bar> < 2 ^ 53 \<Longrightarrow> \<bar>b\<bar> < 2 ^ 53 \<Longrightarrow> fl_leq (fl_of_int a) (fl_of_int b) \<longleftrightarrow> a \<le> b"
  by (simp add: fl_leq_units fl_of_int_units finite_not_nan)

lemma fl_compare_of_int: "\<bar>a\<bar> < 2 ^ 53 \<Longrightarrow> \<bar>b\<bar> < 2 ^ 53 \<Longrightarrow> fl_compare (fl_of_int a) (fl_of_int b) = sgn (a - b)"
  by (auto simp: fl_compare_def fl_less_of_int fl_of_int_units finite_not_nan sgn_if)

lemma fl_zero_of_int [simp]: "fl_of_int 0 = fl_make False 0"
  by (simp add: fl_of_int_def fl_round_def mag_round_def round_even_def bit_count.simps inf_mag_def)

end
