(* ===== verification/Base64.thy ===== *)
theory Base64
  imports Prelude
begin

text \<open>
  \<open>base64.StdEncoding\<close> of the Go standard library, which every page token of the registry and of
  the catalog goes through: \<open>EncodeToString\<close> and \<open>DecodeString\<close> on byte strings, the padding and
  the line-break rule included, and the round trip between them.
\<close>

definition b64_alphabet :: string where
  "b64_alphabet = ''ABCDEFGHIJKLMNOPQRSTUVWXYZabcdefghijklmnopqrstuvwxyz0123456789+/''"

definition b64_char :: "nat \<Rightarrow> char" where
  "b64_char n = b64_alphabet ! n"

text \<open>The decode map: the position of a character in the alphabet.\<close>

definition b64_val :: "char \<Rightarrow> nat option" where
  "b64_val c =
     (let n = (of_char c :: nat) in
      if 65 \<le> n \<and> n \<le> 90 then Some (n - 65)
      else if 97 \<le> n \<and> n \<le> 122 then Some (n - 71)
      else if 48 \<le> n \<and> n \<le> 57 then Some (n + 4)
      else if n = 43 then Some 62
      else if n = 47 then Some 63
      else None)"

definition pad_char :: char where
  "pad_char = CHR ''=''"

fun b64_encode_bytes :: "nat list \<Rightarrow> string" where
  "b64_encode_bytes [] = []"
| "b64_encode_bytes [a] =
     [b64_char (a div 4), b64_char (a mod 4 * 16), pad_char, pad_char]"
| "b64_encode_bytes [a, b] =
     [b64_char (a div 4), b64_char (a mod 4 * 16 + b div 16), b64_char (b mod 16 * 4), pad_char]"
| "b64_encode_bytes (a # b # c # r) =
     b64_char (a div 4) # b64_char (a mod 4 * 16 + b div 16)
     # b64_char (b mod 16 * 4 + c div 64) # b64_char (c mod 64) # b64_encode_bytes r"

definition b64_encode :: "string \<Rightarrow> string" where
  "b64_encode s = b64_encode_bytes (map of_char s)"

text \<open>
  Decoding works on quanta of four characters; padding is accepted in the last quantum only, and
  anything after it is an error.
\<close>

definition quantum3 :: "nat \<Rightarrow> nat \<Rightarrow> nat \<Rightarrow> nat \<Rightarrow> nat list" where
  "quantum3 w x y z =
     [w * 4 + x div 16, x mod 16 * 16 + y div 4, y mod 4 * 64 + z]"

fun b64_decode_quanta :: "string \<Rightarrow> nat list option" where
  "b64_decode_quanta [] = Some []"
| "b64_decode_quanta (w # x # y # z # r) =
     (case (b64_val w, b64_val x) of
        (Some vw, Some vx) \<Rightarrow>
          if y = pad_char \<and> z = pad_char then
            (if r = [] then Some (take 1 (quantum3 vw vx 0 0)) else None)
          else (case b64_val y of
                  None \<Rightarrow> None
                | Some vy \<Rightarrow>
                    if z = pad_char then
                      (if r = [] then Some (take 2 (quantum3 vw vx vy 0)) else None)
                    else (case b64_val z of
                            None \<Rightarrow> None
                          | Some vz \<Rightarrow> map_option ((@) (quantum3 vw vx vy vz)) (b64_decode_quanta r)))
      | _ \<Rightarrow> None)"
| "b64_decode_quanta _ = None"

text \<open>\<open>DecodeString\<close> skips carriage returns and line feeds.\<close>

definition b64_decode :: "string \<Rightarrow> string option" where
  "b64_decode s =
     map_option (map char_of)
       (b64_decode_quanta (filter (\<lambda>c. c \<noteq> CHR 0x0A \<and> c \<noteq> CHR 0x0D) s))"

lemma b64_table: "map b64_val b64_alphabet = map Some [0..<64]"
  by (simp add: b64_alphabet_def b64_val_def upt_conv_Cons)

lemma length_b64_alphabet: "length b64_alphabet = 64"
  by (simp add: b64_alphabet_def)

lemma b64_val_char [simp]:
  assumes "n < 64"
  shows "b64_val (b64_char n) = Some n"
proof -
  have "map b64_val b64_alphabet ! n = map Some [0..<64] ! n"
    by (simp only: b64_table)
  with assms show ?thesis by (simp add: b64_char_def length_b64_alphabet)
qed

lemma b64_val_pad [simp]: "b64_val pad_char = None"
  by (simp add: b64_val_def pad_char_def)

lemma b64_char_not_pad [simp]: "n < 64 \<Longrightarrow> b64_char n \<noteq> pad_char"
  by (metis b64_val_char b64_val_pad option.distinct(1))

lemma b64_not_line_break: "b64_val c \<noteq> None \<or> c = pad_char \<Longrightarrow> c \<noteq> CHR 0x0A \<and> c \<noteq> CHR 0x0D"
  by (auto simp: b64_val_def pad_char_def Let_def)

lemma b64_quantum:
  assumes "a < 256" "b < 256" "c < (256::nat)"
  shows "quantum3 (a div 4) (a mod 4 * 16 + b div 16) (b mod 16 * 4 + c div 64) (c mod 64)
         = [a, b, c]"
proof -
  have b: "b div 16 < 16" and c: "c div 64 < 4" using assms by simp_all
  have "(a mod 4 * 16 + b div 16) div 16 = a mod 4" using b by simp
  moreover have "(a mod 4 * 16 + b div 16) mod 16 = b div 16" using b by simp
  moreover have "(b mod 16 * 4 + c div 64) div 4 = b mod 16" using c by simp
  moreover have "(b mod 16 * 4 + c div 64) mod 4 = c div 64" using c by simp
  ultimately show ?thesis by (simp add: quantum3_def)
qed

lemma b64_index_bounds:
  assumes "a < 256" "b < 256" "c < (256::nat)"
  shows "a div 4 < 64" "a mod 4 * 16 + b div 16 < 64" "b mod 16 * 4 + c div 64 < 64"
proof -
  have "b div 16 < 16" "c div 64 < 4" "a mod 4 < 4" "b mod 16 < 16" using assms by simp_all
  then show "a mod 4 * 16 + b div 16 < 64" "b mod 16 * 4 + c div 64 < 64" by linarith+
  show "a div 4 < 64" using assms by simp
qed

lemma b64_decode_encode_bytes:
  "list_all (\<lambda>n. n < 256) bs \<Longrightarrow> b64_decode_quanta (b64_encode_bytes bs) = Some bs"
proof (induction bs rule: b64_encode_bytes.induct)
  case 1
  then show ?case by simp
next
  case (2 a)
  then have "a < 256" by simp
  with b64_quantum [of a 0 0] b64_index_bounds [of a 0 0] show ?case by (simp add: quantum3_def)
next
  case (3 a b)
  then have "a < 256" "b < 256" by simp_all
  with b64_quantum [of a b 0] b64_index_bounds [of a b 0] show ?case by (simp add: quantum3_def)
next
  case (4 a b c r)
  then have "a < 256" "b < 256" "c < 256" by simp_all
  with 4 b64_quantum [of a b c] b64_index_bounds [of a b c] show ?case by simp
qed

lemma b64_encode_chars:
  "list_all (\<lambda>n. n < 256) bs \<Longrightarrow> c \<in> set (b64_encode_bytes bs) \<Longrightarrow> b64_val c \<noteq> None \<or> c = pad_char"
proof (induction bs rule: b64_encode_bytes.induct)
  case 1
  then show ?case by simp
next
  case (2 a)
  then show ?case using b64_index_bounds [of a 0 0] by auto
next
  case (3 a b)
  then show ?case using b64_index_bounds [of a b 0] by auto
next
  case (4 a b d r)
  then show ?case using b64_index_bounds [of a b d] by auto
qed

lemma b64_encode_filter:
  "filter (\<lambda>c. c \<noteq> CHR 0x0A \<and> c \<noteq> CHR 0x0D) (b64_encode s) = b64_encode s"
proof (rule filter_True, rule ballI)
  fix c assume "c \<in> set (b64_encode s)"
  moreover have "list_all (\<lambda>n. n < 256) (map of_char s :: nat list)" by (simp add: list_all_iff)
  ultimately show "c \<noteq> CHR 0x0A \<and> c \<noteq> CHR 0x0D"
    unfolding b64_encode_def using b64_encode_chars b64_not_line_break by blast
qed

theorem b64_decode_encode [simp]: "b64_decode (b64_encode s) = Some s"
proof -
  have "list_all (\<lambda>n. n < 256) (map of_char s :: nat list)" by (simp add: list_all_iff)
  then have "b64_decode_quanta (b64_encode s) = Some (map of_char s)"
    unfolding b64_encode_def by (rule b64_decode_encode_bytes)
  then show ?thesis by (simp only: b64_decode_def b64_encode_filter) (simp add: o_def)
qed

text \<open>The length of a token: four characters for every three bytes begun.\<close>

lemma length_b64_encode_bytes: "length (b64_encode_bytes bs) = 4 * ((length bs + 2) div 3)"
proof (induction bs rule: b64_encode_bytes.induct)
  case (4 a b c r)
  have "(length (a # b # c # r) + 2) div 3 = Suc ((length r + 2) div 3)" by simp
  with 4 show ?case by simp
qed simp_all

lemma length_b64_encode [simp]: "length (b64_encode s) = 4 * ((length s + 2) div 3)"
  by (simp add: b64_encode_def length_b64_encode_bytes)

end
