(* ===== verification/Sql_Builder.thy ===== *)
theory Sql_Builder
  imports Prelude
begin

text \<open>
  What the sources do to a \<open>*gorm.DB\<close>: they chain builder calls (\<open>Where\<close>, \<open>Order\<close>, \<open>Limit\<close>,
  \<open>Joins\<close>, \<open>AddError\<close>) that carry SQL text with \<open>?\<close> placeholders and a list of arguments. The model
  of a query is the dialect and the list of calls the code has made, in order; no meaning is given
  here to the calls, which are the library's. A call is well-formed when it has as many placeholders
  as arguments: then no argument is spliced into SQL text and none is left over.
\<close>

subsection \<open>Argument values\<close>

text \<open>The dynamic types the code stores in an \<open>any\<close> and passes as a query argument.\<close>

datatype go_any =
    AnyNil
  | AnyStr string
  | AnyInt64 int
  | AnyInt32 int
  | AnyFloat float64
  | AnyBool bool
  | AnyList "go_any list"
  | AnyExpr string  \<comment> \<open>\<open>gorm.Expr\<close>: raw SQL that fills one placeholder\<close>

subsection \<open>Builder calls\<close>

datatype db_call =
    Limit int
  | Order string
  | Joins string
  | Where string "go_any list"
  | AddError string

text \<open>\<open>dialect\<close> is what \<open>db.Name()\<close> returns; \<open>calls\<close> the calls made so far.\<close>

record gorm_db =
  dialect :: string
  calls :: "db_call list"

definition add_call :: "db_call \<Rightarrow> gorm_db \<Rightarrow> gorm_db" where
  "add_call c db = db\<lparr>calls := calls db @ [c]\<rparr>"

lemma add_call_simps [simp]:
  "dialect (add_call c db) = dialect db" "calls (add_call c db) = calls db @ [c]"
  by (simp_all add: add_call_def)

definition placeholders :: "string \<Rightarrow> nat" where
  "placeholders sql = count_list sql (CHR ''?'')"

lemma placeholders_Nil [simp]: "placeholders [] = 0"
  by (simp add: placeholders_def)

lemma placeholders_append [simp]: "placeholders (s @ t) = placeholders s + placeholders t"
  by (simp add: placeholders_def)

lemma placeholders_Cons [simp]:
  "placeholders (c # s) = (if c = CHR ''?'' then Suc (placeholders s) else placeholders s)"
  by (simp add: placeholders_def)

lemma placeholders_zero: "CHR ''?'' \<notin> set s \<Longrightarrow> placeholders s = 0"
  by (simp add: placeholders_def count_list_0_iff)

lemma placeholders_join:
  "placeholders (join_with sep ws) = sum_list (map placeholders ws) + (length ws - 1) * placeholders sep"
proof (induction sep ws rule: join_with.induct)
  case (3 sep w v ws)
  then show ?case by (cases ws) auto
qed simp_all

lemma placeholders_itoa [simp]: "placeholders (itoa i) = 0"
proof (rule placeholders_zero)
  show "CHR ''?'' \<notin> set (itoa i)"
    by (auto simp: itoa_def dest!: dec_digits_chars) (simp_all add: is_digit_def)
qed

fun call_wf :: "db_call \<Rightarrow> bool" where
  "call_wf (Where sql args) = (placeholders sql = length args)"
| "call_wf (Order sql) = (placeholders sql = 0)"
| "call_wf (Joins sql) = (placeholders sql = 0)"
| "call_wf (Limit n) = True"
| "call_wf (AddError e) = True"

text \<open>\<open>dbutil.QuoteTableName\<close>; the first argument is the dialect, \<open>None\<close> for a nil handle.\<close>

definition QuoteTableName :: "string option \<Rightarrow> string \<Rightarrow> string" where
  "QuoteTableName d tableName =
     (if d = None \<or> tableName = [] then tableName
      else if d = Some ''mysql'' then ''`'' @ tableName @ ''`''
      else if d = Some ''postgres'' then [CHR 0x22] @ tableName @ [CHR 0x22]
      else tableName)"

lemma placeholders_QuoteTableName [simp]:
  "placeholders (QuoteTableName d t) = placeholders t"
  by (simp add: QuoteTableName_def)

end
