(* ===== verification/Converter_Values.thy ===== *)
theory Converter_Values
  imports Base64 Sql_Builder "HOL-Library.AList" "HOL-Library.Multiset"
begin

text \<open>
  The property values of the registry (\<open>internal/platform/db/entity/properties.go\<close>) and the conversion of
  custom properties between their REST form and the stored one
  (\<open>internal/converter/openapi_embedmd_converter_util.go\<close>, \<open>embdemd_openapi_converter_util.go\<close>,
  \<open>openapi_converter_util.go\<close>), with the conversion of ids, times and names all entities share.

  The protocol buffer and JSON libraries are the record \<open>struct_codec\<close> of functions; the struct values they
  work on have the constructors of \<open>structpb\<close>.
\<close>

subsection \<open>Stored properties\<close>

record stored_property =
  sp_Name :: string
  sp_IsCustom :: bool
  sp_Int :: "int option"
  sp_Double :: "float64 option"
  sp_String :: "string option"
  sp_Bool :: "bool option"
  sp_Byte :: "string option"

definition empty_property :: "string \<Rightarrow> bool \<Rightarrow> stored_property" where
  "empty_property name isCustom = \<lparr>sp_Name = name, sp_IsCustom = isCustom, sp_Int = None,
     sp_Double = None, sp_String = None, sp_Bool = None, sp_Byte = None\<rparr>"

definition NewStringProperty :: "string \<Rightarrow> string \<Rightarrow> bool \<Rightarrow> stored_property" where
  "NewStringProperty name v isCustom = (empty_property name isCustom)\<lparr>sp_String := Some v\<rparr>"

definition NewIntProperty :: "string \<Rightarrow> int \<Rightarrow> bool \<Rightarrow> stored_property" where
  "NewIntProperty name v isCustom = (empty_property name isCustom)\<lparr>sp_Int := Some v\<rparr>"

definition NewDoubleProperty :: "string \<Rightarrow> float64 \<Rightarrow> bool \<Rightarrow> stored_property" where
  "NewDoubleProperty name v isCustom = (empty_property name isCustom)\<lparr>sp_Double := Some v\<rparr>"

definition NewBoolProperty :: "string \<Rightarrow> bool \<Rightarrow> bool \<Rightarrow> stored_property" where
  "NewBoolProperty name v isCustom = (empty_property name isCustom)\<lparr>sp_Bool := Some v\<rparr>"

definition NewByteProperty :: "string \<Rightarrow> string \<Rightarrow> bool \<Rightarrow> stored_property" where
  "NewByteProperty name v isCustom = (empty_property name isCustom)\<lparr>sp_Byte := Some v\<rparr>"

text \<open>\<open>SetInt64Value\<close> keeps only what fits an \<open>int32\<close>.\<close>

definition SetInt64Value :: "stored_property \<Rightarrow> int \<Rightarrow> stored_property" where
  "SetInt64Value p n = p\<lparr>sp_Int := (if int32_range n then Some (to_int32 n) else None)\<rparr>"

lemma new_property_simps [simp]:
  "sp_Name (NewStringProperty n v c) = n" "sp_String (NewStringProperty n v c) = Some v"
  "sp_Int (NewStringProperty n v c) = None" "sp_Double (NewStringProperty n v c) = None"
  "sp_Bool (NewStringProperty n v c) = None" "sp_Byte (NewStringProperty n v c) = None"
  "sp_Name (NewIntProperty n i c) = n" "sp_Int (NewIntProperty n i c) = Some i"
  "sp_String (NewIntProperty n i c) = None" "sp_Double (NewIntProperty n i c) = None"
  "sp_Name (NewDoubleProperty n x c) = n" "sp_Double (NewDoubleProperty n x c) = Some x"
  "sp_Int (NewDoubleProperty n x c) = None" "sp_String (NewDoubleProperty n x c) = None"
  "sp_Bool (NewDoubleProperty n x c) = None"
  "sp_Name (NewBoolProperty n b c) = n" "sp_Bool (NewBoolProperty n b c) = Some b"
  "sp_Int (NewBoolProperty n b c) = None" "sp_String (NewBoolProperty n b c) = None"
  by (simp_all add: NewStringProperty_def NewIntProperty_def NewDoubleProperty_def
      NewBoolProperty_def empty_property_def)

subsection \<open>Ids, times and names\<close>

datatype conv_error =
    InvalidNumeric string
  | BadRequestNumeric string string
  | BadBase64 string
  | BadJSON string
  | EncodeFailed string
  | DecodeFailed string
  | MetadataTypeNotFound string
  | MissingField string
  | InvalidState string
  | InvalidEnum string
  | Panic string

definition Int32ToString :: "int option \<Rightarrow> string option" where
  "Int32ToString i = map_option itoa i"

definition Int64ToString :: "int option \<Rightarrow> string option" where
  "Int64ToString i = map_option itoa i"

definition StringToInt64 :: "string option \<Rightarrow> conv_error + int option" where
  "StringToInt64 i = (case i of
      None \<Rightarrow> Inr None
    | Some s \<Rightarrow> (case parse_int 64 s of Inl _ \<Rightarrow> Inl (InvalidNumeric s) | Inr n \<Rightarrow> Inr (Some n)))"

definition StringToInt32 :: "string \<Rightarrow> conv_error + int" where
  "StringToInt32 s = (case parse_int 32 s of Inl _ \<Rightarrow> Inl (InvalidNumeric s) | Inr n \<Rightarrow> Inr n)"

lemma StringToInt32_itoa [simp]: "int32_range i \<Longrightarrow> StringToInt32 (itoa i) = Inr i"
  by (simp add: StringToInt32_def parse_int_itoa int32_range_def)

lemma StringToInt32_range: "StringToInt32 s = Inr i \<Longrightarrow> int32_range i"
  using parse_int_range [of 32 s i] by (simp add: StringToInt32_def int32_range_def split: sum.splits)

text \<open>\<open>ValidateStepIds\<close>: every non-blank part between commas must be an \<open>int32\<close>.\<close>

definition ValidateStepIds :: "string \<Rightarrow> bool" where
  "ValidateStepIds stepIds =
     (stepIds = [] \<or> list_all (\<lambda>part. trim_space part = []
        \<or> (case StringToInt32 (trim_space part) of Inl _ \<Rightarrow> False | Inr _ \<Rightarrow> True)) (split_char CHR '','' stepIds))"

text \<open>
  \<open>PrefixWhenOwned\<close>; the argument \<open>uuid\<close> is the fresh identifier of an entity that has no owner. The inverse
  direction cuts the name at the first colon.
\<close>

definition PrefixWhenOwned :: "string \<Rightarrow> string option \<Rightarrow> string \<Rightarrow> string" where
  "PrefixWhenOwned uuid ownerId entityName =
     (let pre = (case ownerId of Some o' \<Rightarrow> o' | None \<Rightarrow> uuid)
      in if entityName = [] then pre else pre @ '':'' @ entityName)"

definition MapNameFromOwned :: "string option \<Rightarrow> string option" where
  "MapNameFromOwned source =
     (case source of
        None \<Rightarrow> None
      | Some s \<Rightarrow> (let exploded = split_char CHR '':'' s
                   in if length exploded = 1 then Some s else Some (join_with '':'' (tl exploded))))"

text \<open>\<open>mapEntityNameWithUUIDGeneration\<close>: a missing name is generated too.\<close>

definition mapEntityName :: "string \<Rightarrow> string \<Rightarrow> string option \<Rightarrow> string option \<Rightarrow> string" where
  "mapEntityName uuidName uuidOwner parentResourceId providedName =
     PrefixWhenOwned uuidOwner parentResourceId (case providedName of Some n \<Rightarrow> n | None \<Rightarrow> uuidName)"

lemma name_from_owned:
  assumes "CHR '':'' \<notin> set (case ownerId of Some o' \<Rightarrow> o' | None \<Rightarrow> uuid)"
  shows "MapNameFromOwned (Some (PrefixWhenOwned uuid ownerId name))
    = Some (if name = [] then (case ownerId of Some o' \<Rightarrow> o' | None \<Rightarrow> uuid) else name)"
proof -
  obtain pre where pre: "pre = (case ownerId of Some o' \<Rightarrow> o' | None \<Rightarrow> uuid)" by blast
  have "split_char CHR '':'' (pre @ CHR '':'' # name) = pre # split_char CHR '':'' name"
    using assms by (intro split_char_append) (simp add: pre)
  moreover have "join_with '':'' (split_char CHR '':'' name) = name" by (rule join_split_char)
  moreover have "split_char CHR '':'' name \<noteq> []" by (rule split_char_not_Nil)
  ultimately show ?thesis
    using assms by (simp add: MapNameFromOwned_def PrefixWhenOwned_def Let_def split_char_no_sep
        flip: pre)
qed

text \<open>
  The name an entity is stored under is taken apart again: the stored name of an entity with an owner
  (or a generated prefix), whatever its own name contains, leads back to its name; only the empty name is
  lost, it comes back as the owner's id.
\<close>

theorem owned_name_roundtrip:
  assumes "CHR '':'' \<notin> set (case ownerId of Some o' \<Rightarrow> o' | None \<Rightarrow> uuid)"
  shows "MapNameFromOwned (Some (PrefixWhenOwned uuid ownerId name))
    = Some (if name = [] then (case ownerId of Some o' \<Rightarrow> o' | None \<Rightarrow> uuid) else name)"
  using assms by (rule name_from_owned)

theorem owned_name_roundtrip_witness:
  "MapNameFromOwned (Some (PrefixWhenOwned ''uuid'' (Some ''42'') ''v1:beta'')) = Some ''v1:beta''"
  by (subst owned_name_roundtrip) simp_all

subsection \<open>Struct values\<close>

datatype pb_value =
    PbNull
  | PbNumber float64
  | PbString string
  | PbBool bool
  | PbStruct "(string \<times> pb_value) list"
  | PbList "pb_value list"

type_synonym pb_struct = "(string \<times> pb_value) list"

text \<open>
  \<open>json.Unmarshal\<close> into a struct, \<open>proto.Marshal\<close> and \<open>proto.Unmarshal\<close>, and \<open>json.Marshal\<close> of the
  struct as a map; \<open>None\<close> is an error.
\<close>

record struct_codec =
  from_json :: "string \<Rightarrow> pb_struct option"
  proto_marshal :: "pb_struct \<Rightarrow> string option"
  proto_unmarshal :: "string \<Rightarrow> pb_struct option"
  to_json :: "pb_struct \<Rightarrow> string option"
  bytes_json :: "string \<Rightarrow> string option"

definition mlmdStructPrefix :: string where
  "mlmdStructPrefix = ''mlmd-struct::''"

definition encodeStruct :: "struct_codec \<Rightarrow> pb_struct \<Rightarrow> conv_error + string" where
  "encodeStruct codec s =
     (case proto_marshal codec s of
        None \<Rightarrow> Inl (EncodeFailed ''failed to marshal proto struct'')
      | Some binaryData \<Rightarrow> Inr (mlmdStructPrefix @ b64_encode binaryData))"

definition decodeStruct :: "struct_codec \<Rightarrow> string \<Rightarrow> conv_error + pb_struct" where
  "decodeStruct codec encodedStr =
     (if \<not> hasPrefix encodedStr mlmdStructPrefix then Inl (DecodeFailed ''invalid format'')
      else case b64_decode (trimPrefix encodedStr mlmdStructPrefix) of
             None \<Rightarrow> Inl (DecodeFailed ''failed to decode base64 string'')
           | Some binaryData \<Rightarrow>
               (case proto_unmarshal codec binaryData of
                  None \<Rightarrow> Inl (DecodeFailed ''failed to unmarshal'')
                | Some s \<Rightarrow> Inr s))"

definition convertToStruct :: "string list \<Rightarrow> string \<Rightarrow> pb_struct" where
  "convertToStruct source key = [(key, PbList (map PbString source))]"

text \<open>
  \<open>convertStructToStringSlice\<close>: \<open>None\<close> is the panic of reading the values of a missing list; an element
  that is not a string reads as the empty string.
\<close>

definition convertStructToStringSlice :: "pb_struct \<Rightarrow> string \<Rightarrow> string list option" where
  "convertStructToStringSlice source key =
     (case map_of source key of
        Some (PbList vs) \<Rightarrow> Some (map (\<lambda>v. case v of PbString s \<Rightarrow> s | _ \<Rightarrow> []) vs)
      | _ \<Rightarrow> None)"

lemma slice_of_struct [simp]: "convertStructToStringSlice (convertToStruct xs key) key = Some xs"
  by (simp add: convertStructToStringSlice_def convertToStruct_def comp_def)

lemma hasPrefix_mlmd [simp]: "hasPrefix (mlmdStructPrefix @ s) mlmdStructPrefix"
  by (rule hasPrefix_append)

lemma decode_encoded:
  "encodeStruct codec s = Inr enc \<Longrightarrow> (\<And>b. proto_marshal codec s = Some b \<Longrightarrow> proto_unmarshal codec b = Some s)
     \<Longrightarrow> decodeStruct codec enc = Inr s"
  by (auto simp: encodeStruct_def decodeStruct_def trimPrefix_def split: option.splits)

subsection \<open>Custom properties\<close>

text \<open>A metadata value of the REST API: one pointer per variant.\<close>

record metadata_value =
  mv_Bool :: "bool option"
  mv_Int :: "string option"
  mv_Double :: "float64 option"
  mv_String :: "string option"
  mv_Struct :: "string option"

definition no_metadata :: metadata_value where
  "no_metadata = \<lparr>mv_Bool = None, mv_Int = None, mv_Double = None, mv_String = None, mv_Struct = None\<rparr>"

definition custom_from_openapi ::
  "struct_codec \<Rightarrow> string \<Rightarrow> metadata_value \<Rightarrow> conv_error + stored_property" where
  "custom_from_openapi codec key v =
     (case mv_Bool v of
        Some b \<Rightarrow> Inr (NewBoolProperty key b True)
      | None \<Rightarrow> (case mv_Int v of
        Some s \<Rightarrow> (case StringToInt32 s of
                      Inl e \<Rightarrow> Inl (BadRequestNumeric s key) | Inr i \<Rightarrow> Inr (NewIntProperty key i True))
      | None \<Rightarrow> (case mv_Double v of
        Some x \<Rightarrow> Inr (NewDoubleProperty key x True)
      | None \<Rightarrow> (case mv_String v of
        Some s \<Rightarrow> Inr (NewStringProperty key s True)
      | None \<Rightarrow> (case mv_Struct v of
        Some s \<Rightarrow>
          (case b64_decode s of
             None \<Rightarrow> Inl (BadBase64 key)
           | Some js \<Rightarrow>
               (case from_json codec js of
                  None \<Rightarrow> Inl (BadJSON key)
                | Some st \<Rightarrow>
                    (case encodeStruct codec st of
                       Inl e \<Rightarrow> Inl e
                     | Inr enc \<Rightarrow> Inr (NewStringProperty key enc True))))
      | None \<Rightarrow> Inl (MetadataTypeNotFound key))))))"

definition MapOpenAPICustomPropertiesEmbedMD ::
  "struct_codec \<Rightarrow> (string \<times> metadata_value) list option \<Rightarrow> conv_error + stored_property list" where
  "MapOpenAPICustomPropertiesEmbedMD codec source =
     (case source of
        None \<Rightarrow> Inr []
      | Some m \<Rightarrow> try_map (\<lambda>(key, v). custom_from_openapi codec key v) m)"

text \<open>The value of one stored property; \<open>Inr None\<close> skips it.\<close>

definition custom_to_openapi :: "struct_codec \<Rightarrow> stored_property \<Rightarrow> conv_error + metadata_value option" where
  "custom_to_openapi codec v =
     (if sp_Name v = ''experiment_id'' \<or> sp_Name v = ''experiment_run_id'' then Inr None
      else case sp_Int v of
        Some i \<Rightarrow> Inr (Some (no_metadata\<lparr>mv_Int := Some (itoa i)\<rparr>))
      | None \<Rightarrow> (case sp_String v of
        Some s \<Rightarrow>
          (if hasPrefix s mlmdStructPrefix then
             (case decodeStruct codec s of
                Inl e \<Rightarrow> Inl e
              | Inr st \<Rightarrow> (case to_json codec st of
                             None \<Rightarrow> Inl (EncodeFailed ''json'')
                           | Some js \<Rightarrow> Inr (Some (no_metadata\<lparr>mv_Struct := Some js\<rparr>))))
           else Inr (Some (no_metadata\<lparr>mv_String := Some s\<rparr>)))
      | None \<Rightarrow> (case sp_Bool v of
        Some b \<Rightarrow> Inr (Some (no_metadata\<lparr>mv_Bool := Some b\<rparr>))
      | None \<Rightarrow> (case sp_Double v of
        Some x \<Rightarrow> Inr (Some (no_metadata\<lparr>mv_Double := Some x\<rparr>))
      | None \<Rightarrow> (case sp_Byte v of
        Some bs \<Rightarrow> (case bytes_json codec bs of
                       None \<Rightarrow> Inl (EncodeFailed ''json'')
                     | Some js \<Rightarrow> Inr (Some (no_metadata\<lparr>mv_Struct := Some (b64_encode js)\<rparr>)))
      | None \<Rightarrow> Inr None)))))"

fun MapEmbedMDCustomProperties_from ::
  "struct_codec \<Rightarrow> stored_property list \<Rightarrow> (string \<times> metadata_value) list
     \<Rightarrow> conv_error + (string \<times> metadata_value) list" where
  "MapEmbedMDCustomProperties_from codec [] acc = Inr acc"
| "MapEmbedMDCustomProperties_from codec (v # vs) acc =
     (case custom_to_openapi codec v of
        Inl e \<Rightarrow> Inl e
      | Inr None \<Rightarrow> MapEmbedMDCustomProperties_from codec vs acc
      | Inr (Some mv) \<Rightarrow> MapEmbedMDCustomProperties_from codec vs (AList.update (sp_Name v) mv acc))"

definition MapEmbedMDCustomProperties ::
  "struct_codec \<Rightarrow> stored_property list \<Rightarrow> conv_error + (string \<times> metadata_value) list" where
  "MapEmbedMDCustomProperties codec source = MapEmbedMDCustomProperties_from codec source []"

subsection \<open>What a round trip keeps\<close>

definition mv_of_bool :: "bool \<Rightarrow> metadata_value" where
  "mv_of_bool b = no_metadata\<lparr>mv_Bool := Some b\<rparr>"

definition mv_of_int :: "int \<Rightarrow> metadata_value" where
  "mv_of_int i = no_metadata\<lparr>mv_Int := Some (itoa i)\<rparr>"

definition mv_of_double :: "float64 \<Rightarrow> metadata_value" where
  "mv_of_double x = no_metadata\<lparr>mv_Double := Some x\<rparr>"

definition mv_of_string :: "string \<Rightarrow> metadata_value" where
  "mv_of_string s = no_metadata\<lparr>mv_String := Some s\<rparr>"

text \<open>The scalar values: every boolean, 32-bit integer and double, and the strings without the struct prefix.\<close>

definition scalar_value :: "metadata_value \<Rightarrow> bool" where
  "scalar_value v = ((\<exists>b. v = mv_of_bool b) \<or> (\<exists>i. int32_range i \<and> v = mv_of_int i)
     \<or> (\<exists>x. v = mv_of_double x) \<or> (\<exists>s. \<not> hasPrefix s mlmdStructPrefix \<and> v = mv_of_string s))"

definition reserved_key :: "string \<Rightarrow> bool" where
  "reserved_key k = (k = ''experiment_id'' \<or> k = ''experiment_run_id'')"

lemmas mv_of_defs = mv_of_bool_def mv_of_int_def mv_of_double_def mv_of_string_def no_metadata_def

lemma scalar_cases:
  assumes "scalar_value v"
  obtains b where "v = mv_of_bool b"
  | i where "int32_range i" "v = mv_of_int i"
  | x where "v = mv_of_double x"
  | s where "\<not> hasPrefix s mlmdStructPrefix" "v = mv_of_string s"
  using assms unfolding scalar_value_def by blast

lemma scalar_intros [intro]:
  "scalar_value (mv_of_bool b)" "int32_range i \<Longrightarrow> scalar_value (mv_of_int i)"
  "scalar_value (mv_of_double x)" "\<not> hasPrefix s mlmdStructPrefix \<Longrightarrow> scalar_value (mv_of_string s)"
  unfolding scalar_value_def by blast+

lemma scalar_roundtrip:
  assumes "scalar_value v" "\<not> reserved_key k"
  shows "\<exists>p. custom_from_openapi codec k v = Inr p \<and> sp_Name p = k \<and> sp_IsCustom p
    \<and> custom_to_openapi codec p = Inr (Some v)"
  using assms(1)
  by (cases rule: scalar_cases)
    (use assms(2) in \<open>simp_all add: custom_from_openapi_def custom_to_openapi_def mv_of_defs reserved_key_def
      NewBoolProperty_def NewIntProperty_def NewDoubleProperty_def NewStringProperty_def empty_property_def\<close>)

lemma custom_read_step:
  "list_all (\<lambda>p. custom_to_openapi codec p = Inr (Some (g p))) ps \<Longrightarrow>
    MapEmbedMDCustomProperties_from codec ps acc
      = Inr (foldl (\<lambda>a p. AList.update (sp_Name p) (g p) a) acc ps)"
  by (induction ps arbitrary: acc) simp_all

lemma map_of_foldl_update:
  "map_of (foldl (\<lambda>a p. AList.update (f p) (g p) a) acc ps)
    = map_of acc ++ map_of (rev (map (\<lambda>p. (f p, g p)) ps))"
  by (induction ps arbitrary: acc) (simp_all add: update_conv' map_add_def fun_eq_iff split: option.split)

lemma map_of_perm:
  assumes "mset xs = mset ys" "distinct (map fst ys)"
  shows "map_of xs = map_of ys"
proof -
  have "distinct (map fst xs)" using assms by (metis mset_eq_imp_distinct_iff mset_map)
  moreover have "set xs = set ys" using assms(1) by (rule mset_eq_setD)
  ultimately show ?thesis using assms(2) by (simp add: map_of_inject_set)
qed

lemma custom_read_any_order:
  assumes "list_all (\<lambda>p. custom_to_openapi codec p = Inr (Some (g p))) ps" "distinct (map sp_Name ps)"
    and "mset ps' = mset ps"
  shows "\<exists>r. MapEmbedMDCustomProperties codec ps' = Inr r
    \<and> map_of r = map_of (map (\<lambda>p. (sp_Name p, g p)) ps)"
proof -
  have "set ps' = set ps" using assms(3) by (rule mset_eq_setD)
  then have "list_all (\<lambda>p. custom_to_openapi codec p = Inr (Some (g p))) ps'"
    using assms(1) by (simp add: list_all_iff)
  moreover have "map_of (rev (map (\<lambda>p. (sp_Name p, g p)) ps')) = map_of (map (\<lambda>p. (sp_Name p, g p)) ps)"
    using assms(2,3) by (intro map_of_perm) (simp_all add: comp_def)
  ultimately show ?thesis
    by (simp add: MapEmbedMDCustomProperties_def custom_read_step map_of_foldl_update)
qed

lemma custom_roundtrip:
  assumes "distinct (map fst m)" "\<forall>(k, v) \<in> set m. scalar_value v \<and> \<not> reserved_key k"
  shows "\<exists>ps. MapOpenAPICustomPropertiesEmbedMD codec (Some m) = Inr ps
    \<and> (\<forall>ps'. mset ps' = mset ps \<longrightarrow>
         (\<exists>r. MapEmbedMDCustomProperties codec ps' = Inr r \<and> map_of r = map_of m))"
proof -
  have "\<forall>kv \<in> set m. \<exists>p. custom_from_openapi codec (fst kv) (snd kv) = Inr p \<and> sp_Name p = fst kv
      \<and> custom_to_openapi codec p = Inr (Some (snd kv))"
  proof (rule ballI)
    fix kv assume "kv \<in> set m"
    then have "scalar_value (snd kv)" "\<not> reserved_key (fst kv)" using assms(2) by (simp_all add: split_beta)
    then show "\<exists>p. custom_from_openapi codec (fst kv) (snd kv) = Inr p \<and> sp_Name p = fst kv
        \<and> custom_to_openapi codec p = Inr (Some (snd kv))" using scalar_roundtrip by blast
  qed
  then obtain P where P: "\<And>kv. kv \<in> set m \<Longrightarrow> custom_from_openapi codec (fst kv) (snd kv) = Inr (P kv)
      \<and> sp_Name (P kv) = fst kv \<and> custom_to_openapi codec (P kv) = Inr (Some (snd kv))" by metis
  let ?ps = "map P m"
  let ?g = "\<lambda>p. the (map_of m (sp_Name p))"
  have "try_map (\<lambda>(key, v). custom_from_openapi codec key v) m = Inr ?ps"
    by (rule try_map_total) (use P in \<open>auto simp: split_beta\<close>)
  then have stored: "MapOpenAPICustomPropertiesEmbedMD codec (Some m) = Inr ?ps"
    by (simp add: MapOpenAPICustomPropertiesEmbedMD_def)
  have g: "?g (P kv) = snd kv" if "kv \<in> set m" for kv
    using that P [OF that] assms(1) by (metis map_of_is_SomeI option.sel prod.collapse)
  have "list_all (\<lambda>p. custom_to_openapi codec p = Inr (Some (?g p))) ?ps"
    using P g by (simp add: list_all_iff)
  moreover have "map sp_Name ?ps = map fst m" using P by simp
  moreover have "map (\<lambda>p. (sp_Name p, ?g p)) ?ps = m"
    using P g by (intro map_idI [THEN trans [OF list.map_comp]]) (simp add: prod_eq_iff)
  ultimately show ?thesis
    using stored custom_read_any_order [of codec ?g ?ps] assms(1) by metis
qed

text \<open>
  C28. Scalar custom properties survive the way to the store and back: whatever map of booleans, 32-bit
  integers, doubles and ordinary strings a client sends, it is accepted, and reading the stored rows in any
  order the database returns them gives the same map. The keys \<open>experiment_id\<close> and
  \<open>experiment_run_id\<close> are excluded.
\<close>

theorem custom_properties_roundtrip:
  assumes "distinct (map fst m)" "\<forall>(k, v) \<in> set m. scalar_value v \<and> \<not> reserved_key k"
  shows "\<exists>ps. MapOpenAPICustomPropertiesEmbedMD codec (Some m) = Inr ps
    \<and> (\<forall>ps'. mset ps' = mset ps \<longrightarrow>
         (\<exists>r. MapEmbedMDCustomProperties codec ps' = Inr r \<and> map_of r = map_of m))"
  using assms by (rule custom_roundtrip)

definition example_codec :: struct_codec where
  "example_codec = \<lparr>from_json = (\<lambda>js. if hasPrefix js ''{'' then Some [] else None),
     proto_marshal = (\<lambda>_. Some []), proto_unmarshal = (\<lambda>b. if b = [] then Some [] else None),
     to_json = (\<lambda>_. Some ''{}''), bytes_json = (\<lambda>_. Some ''{}'')\<rparr>"

theorem custom_properties_roundtrip_witness:
  "\<exists>ps. MapOpenAPICustomPropertiesEmbedMD example_codec
        (Some [(''team'', mv_of_string ''ml''), (''gpus'', mv_of_int 8), (''prod'', mv_of_bool False)]) = Inr ps
    \<and> (\<forall>ps'. mset ps' = mset ps \<longrightarrow>
         (\<exists>r. MapEmbedMDCustomProperties example_codec ps' = Inr r
           \<and> map_of r = map_of [(''team'', mv_of_string ''ml''), (''gpus'', mv_of_int 8),
               (''prod'', mv_of_bool False)]))"
proof (rule custom_properties_roundtrip)
  show "distinct (map fst [(''team'', mv_of_string ''ml''), (''gpus'', mv_of_int 8), (''prod'', mv_of_bool False)])"
    by simp
  have "scalar_value (mv_of_string ''ml'')" "scalar_value (mv_of_int 8)" "scalar_value (mv_of_bool False)"
    by (simp_all add: scalar_intros hasPrefix_def mlmdStructPrefix_def int32_range_def)
  then show "\<forall>(k, v) \<in> set [(''team'', mv_of_string ''ml''), (''gpus'', mv_of_int 8), (''prod'', mv_of_bool False)].
      scalar_value v \<and> \<not> reserved_key k"
    by (simp add: reserved_key_def)
qed

text \<open>Reading the custom properties fails as a whole exactly when one of them cannot be read.\<close>

lemma custom_read_succeeds_iff:
  "(\<exists>r. MapEmbedMDCustomProperties_from codec ps acc = Inr r)
    \<longleftrightarrow> (\<forall>p \<in> set ps. \<exists>x. custom_to_openapi codec p = Inr x)"
proof (induction ps arbitrary: acc)
  case Nil
  then show ?case by simp
next
  case (Cons p ps)
  show ?case
  proof (cases "custom_to_openapi codec p")
    case (Inl e)
    then show ?thesis by simp
  next
    case (Inr x)
    with Cons.IH show ?thesis by (cases x) simp_all
  qed
qed

text \<open>
  A string custom property may be stored and yet make its entity unreadable: any string that starts with
  the internal struct prefix and is not an encoded struct is accepted, and then every read of an entity that
  carries it fails, whatever its other properties.
\<close>

theorem prefixed_string_poisons_entity:
  assumes "hasPrefix s mlmdStructPrefix" "decodeStruct codec s = Inl e" "\<not> reserved_key k"
  shows "\<exists>p. custom_from_openapi codec k (mv_of_string s) = Inr p
    \<and> (\<forall>ps. p \<in> set ps \<longrightarrow> (\<exists>e'. MapEmbedMDCustomProperties codec ps = Inl e'))"
proof -
  let ?p = "NewStringProperty k s True"
  have "custom_to_openapi codec ?p = Inl e"
    using assms by (simp add: custom_to_openapi_def reserved_key_def)
  then have "\<exists>e'. MapEmbedMDCustomProperties codec ps = Inl e'" if "?p \<in> set ps" for ps
    using custom_read_succeeds_iff [of codec ps "[]"] that unfolding MapEmbedMDCustomProperties_def
    by (cases "MapEmbedMDCustomProperties_from codec ps []") force+
  moreover have "custom_from_openapi codec k (mv_of_string s) = Inr ?p"
    by (simp add: custom_from_openapi_def mv_of_defs)
  ultimately show ?thesis by blast
qed

theorem prefixed_string_poisons_entity_witness:
  "\<exists>p. custom_from_openapi example_codec ''note'' (mv_of_string ''mlmd-struct::?'') = Inr p
    \<and> (\<forall>ps. p \<in> set ps \<longrightarrow> (\<exists>e'. MapEmbedMDCustomProperties example_codec ps = Inl e'))"
  by (rule prefixed_string_poisons_entity [where e = "DecodeFailed ''failed to decode base64 string''"])
    (simp_all add: hasPrefix_def mlmdStructPrefix_def reserved_key_def decodeStruct_def trimPrefix_def
      b64_decode_def)

lemma b64_decode_brace: "b64_decode (CHR ''{'' # js) = None"
proof -
  have "b64_decode_quanta (CHR ''{'' # r) = None" for r
  proof -
    have "b64_val CHR ''{'' = None" by (simp add: b64_val_def)
    then show ?thesis by (cases "CHR ''{'' # r" rule: b64_decode_quanta.cases) auto
  qed
  then show ?thesis by (simp add: b64_decode_def)
qed

text \<open>
  A struct custom property is not given back in the form it is accepted in: it has to be sent as base64 of
  a JSON object, it is stored, and it is read as the bare JSON, which the write path rejects. So writing back
  what was read fails for every entity with such a property.
\<close>

theorem struct_value_not_reaccepted:
  assumes "b64_decode v = Some js" "from_json codec js = Some st" "proto_marshal codec st = Some bin"
    and "\<And>b. proto_marshal codec st = Some b \<Longrightarrow> proto_unmarshal codec b = Some st"
    and "to_json codec st = Some (CHR ''{'' # js')" "\<not> reserved_key k"
  shows "\<exists>p v'. custom_from_openapi codec k (no_metadata\<lparr>mv_Struct := Some v\<rparr>) = Inr p
    \<and> custom_to_openapi codec p = Inr (Some v')
    \<and> v' = no_metadata\<lparr>mv_Struct := Some (CHR ''{'' # js')\<rparr>
    \<and> custom_from_openapi codec k v' = Inl (BadBase64 k)"
proof -
  have enc: "encodeStruct codec st = Inr (mlmdStructPrefix @ b64_encode bin)"
    using assms(3) by (simp add: encodeStruct_def)
  let ?p = "NewStringProperty k (mlmdStructPrefix @ b64_encode bin) True"
  have "custom_from_openapi codec k (no_metadata\<lparr>mv_Struct := Some v\<rparr>) = Inr ?p"
    using assms(1,2) enc by (simp add: custom_from_openapi_def no_metadata_def)
  moreover have "custom_to_openapi codec ?p = Inr (Some (no_metadata\<lparr>mv_Struct := Some (CHR ''{'' # js')\<rparr>))"
    using assms(5,6) decode_encoded [OF enc assms(4)] by (simp add: custom_to_openapi_def reserved_key_def)
  moreover have "custom_from_openapi codec k (no_metadata\<lparr>mv_Struct := Some (CHR ''{'' # js')\<rparr>) = Inl (BadBase64 k)"
    by (simp add: custom_from_openapi_def no_metadata_def b64_decode_brace)
  ultimately show ?thesis by blast
qed

theorem struct_value_not_reaccepted_witness:
  "\<exists>p v'. custom_from_openapi example_codec ''cfg'' (no_metadata\<lparr>mv_Struct := Some (b64_encode ''{}'')\<rparr>) = Inr p
    \<and> custom_to_openapi example_codec p = Inr (Some v')
    \<and> v' = no_metadata\<lparr>mv_Struct := Some (CHR ''{'' # ''}'')\<rparr>
    \<and> custom_from_openapi example_codec ''cfg'' v' = Inl (BadBase64 ''cfg'')"
  by (rule struct_value_not_reaccepted [where js = "''{}''" and st = "[]" and bin = "[]"])
    (simp_all add: example_codec_def hasPrefix_def reserved_key_def)

end
