(* ===== verification/Pagination.thy ===== *)
theory Pagination
  imports Base64 Sql_Builder
begin

text \<open>
  Cursor pagination of the registry's list endpoints (\<open>internal/platform/db/scopes/paginate.go\<close>,
  \<open>internal/platform/db/entity/pagination.go\<close>) and the catalog's ordering by name
  (\<open>catalog/internal/db/pagination/pagination.go\<close>): the request's pagination values with their
  defaults, the page token, and the builder calls a page request adds to the query.

  The lemmas show the round trip of the page token and that whatever the client sends as sort
  column, direction or token, the SQL text comes from the allow lists and every call is
  well-formed.
\<close>

subsection \<open>The pagination request\<close>

definition SortOrderAsc :: string where "SortOrderAsc = ''ASC''"
definition SortOrderDesc :: string where "SortOrderDesc = ''DESC''"
definition DefaultOrderBy :: string where "DefaultOrderBy = ''id''"
definition DefaultSortOrder :: string where "DefaultSortOrder = SortOrderAsc"
definition DefaultPageSize :: int where "DefaultPageSize = 0"

record pagination =
  pg_PageSize :: "int option"
  pg_OrderBy :: "string option"
  pg_SortOrder :: "string option"
  pg_NextPageToken :: "string option"
  pg_FilterQuery :: "string option"

definition GetNextPageToken :: "pagination \<Rightarrow> string" where
  "GetNextPageToken p = (case pg_NextPageToken p of None \<Rightarrow> [] | Some t \<Rightarrow> t)"

definition GetOrderBy :: "pagination \<Rightarrow> string" where
  "GetOrderBy p = (case pg_OrderBy p of None \<Rightarrow> DefaultOrderBy
     | Some s \<Rightarrow> if s = [] then DefaultOrderBy else s)"

definition GetSortOrder :: "pagination \<Rightarrow> string" where
  "GetSortOrder p = (case pg_SortOrder p of None \<Rightarrow> DefaultSortOrder
     | Some s \<Rightarrow> if s = [] then DefaultSortOrder else s)"

definition GetPageSize :: "pagination \<Rightarrow> int" where
  "GetPageSize p = (case pg_PageSize p of None \<Rightarrow> DefaultPageSize | Some n \<Rightarrow> n)"

definition GetFilterQuery :: "pagination \<Rightarrow> string" where
  "GetFilterQuery p = (case pg_FilterQuery p of None \<Rightarrow> [] | Some s \<Rightarrow> s)"

definition SetNextPageToken :: "string option \<Rightarrow> pagination \<Rightarrow> pagination" where
  "SetNextPageToken t p = p\<lparr>pg_NextPageToken := t\<rparr>"

lemma GetOrderBy_not_empty: "GetOrderBy p \<noteq> []"
  by (simp add: GetOrderBy_def DefaultOrderBy_def split: option.splits)

lemma GetSortOrder_not_empty: "GetSortOrder p \<noteq> []"
  by (simp add: GetSortOrder_def DefaultSortOrder_def SortOrderAsc_def split: option.splits)

subsection \<open>Page tokens\<close>

record cursor =
  cur_ID :: int
  cur_Value :: string

datatype cursor_error = TokenTooLong | BadBase64 | BadCursorFormat | BadCursorID num_error

definition DecodeCursor :: "string \<Rightarrow> cursor_error + cursor" where
  "DecodeCursor token =
     (if length token > 1024 then Inl TokenTooLong
      else case b64_decode token of
             None \<Rightarrow> Inl BadBase64
           | Some decoded \<Rightarrow>
               (case cut_at (CHR '':'') decoded of
                  None \<Rightarrow> Inl BadCursorFormat
                | Some (idPart, val) \<Rightarrow>
                    (case parse_int 32 idPart of
                       Inl e \<Rightarrow> Inl (BadCursorID e)
                     | Inr i \<Rightarrow> Inr \<lparr>cur_ID = to_int32 i, cur_Value = val\<rparr>)))"

text \<open>
  The dynamic types \<open>CreateNextPageToken\<close> distinguishes. \<open>TokOther\<close> holds the text that the verb
  \<open>%v\<close> gives for any other value; \<open>fmt_g\<close> is \<open>strconv.FormatFloat(v, 'g', -1, 64)\<close>.
\<close>

datatype token_value =
    TokString string
  | TokStringPtr "string option"
  | TokFloatPtr "float64 option"
  | TokIntPtr "int option"
  | TokOther string

fun token_value_string :: "(float64 \<Rightarrow> string) \<Rightarrow> token_value \<Rightarrow> string" where
  "token_value_string fmt_g (TokString s) = s"
| "token_value_string fmt_g (TokStringPtr p) = str_or_empty p"
| "token_value_string fmt_g (TokFloatPtr p) = (case p of None \<Rightarrow> [] | Some f \<Rightarrow> fmt_g f)"
| "token_value_string fmt_g (TokIntPtr p) = (case p of None \<Rightarrow> [] | Some i \<Rightarrow> itoa i)"
| "token_value_string fmt_g (TokOther s) = s"

definition CreateNextPageToken :: "(float64 \<Rightarrow> string) \<Rightarrow> int \<Rightarrow> token_value \<Rightarrow> string" where
  "CreateNextPageToken fmt_g i v =
     b64_encode (itoa i @ '':'' @ token_value_string fmt_g v)"

subsection \<open>The builder calls of a page request\<close>

definition AllowedOrderByColumns :: "(string \<times> string) list" where
  "AllowedOrderByColumns =
     [(''ID'', ''id''),
      (''CREATE_TIME'', ''create_time_since_epoch''),
      (''LAST_UPDATE_TIME'', ''last_update_time_since_epoch''),
      (''id'', ''id'')]"

definition AllowedSortOrders :: "(string \<times> string) list" where
  "AllowedSortOrders = [(''ASC'', SortOrderAsc), (''DESC'', SortOrderDesc)]"

definition is_ident_start :: "char \<Rightarrow> bool" where
  "is_ident_start c = (let n = (of_char c :: nat) in
     (97 \<le> n \<and> n \<le> 122) \<or> (65 \<le> n \<and> n \<le> 90) \<or> n = 95)"

definition is_ident_char :: "char \<Rightarrow> bool" where
  "is_ident_char c = (is_ident_start c \<or> is_digit c)"

text \<open>\<open>IsValidTablePrefix\<close>: the pattern \<open>^[a-zA-Z_][a-zA-Z0-9_]*$\<close>, or the empty prefix.\<close>

fun IsValidTablePrefix :: "string \<Rightarrow> bool" where
  "IsValidTablePrefix [] = True"
| "IsValidTablePrefix (c # s) = (is_ident_start c \<and> list_all is_ident_char s)"

text \<open>An allow list read with a default for a key that is not in it.\<close>

definition allowed_or :: "(string \<times> string) list \<Rightarrow> string \<Rightarrow> string \<Rightarrow> string" where
  "allowed_or xs d k = (case map_of xs k of None \<Rightarrow> d | Some v \<Rightarrow> v)"

definition buildWhereClause ::
  "gorm_db \<Rightarrow> cursor \<Rightarrow> string \<Rightarrow> string \<Rightarrow> string \<Rightarrow> gorm_db" where
  "buildWhereClause db cur orderBy sortOrder tablePrefix0 =
     (let prefix1 = (if IsValidTablePrefix tablePrefix0 then tablePrefix0 else []);
          tablePrefix = (if prefix1 \<noteq> [] then QuoteTableName (Some (dialect db)) prefix1 else []);
          idColumn = (if tablePrefix \<noteq> [] then tablePrefix @ ''.id'' else ''id'');
          column = allowed_or AllowedOrderByColumns DefaultOrderBy orderBy;
          orderByColumn = (if tablePrefix \<noteq> [] \<and> column \<noteq> [] then tablePrefix @ ''.'' @ column
                           else column);
          order = allowed_or AllowedSortOrders DefaultSortOrder sortOrder
      in if orderBy = [] then
           (if order = ''ASC'' then add_call (Where (idColumn @ '' > ?'') [AnyInt32 (cur_ID cur)]) db
            else add_call (Where (idColumn @ '' < ?'') [AnyInt32 (cur_ID cur)]) db)
         else if order = ''ASC'' then
           add_call (Where (''('' @ orderByColumn @ '' > ? OR ('' @ orderByColumn @ '' = ? AND ''
                              @ idColumn @ '' > ?))'')
                       [AnyStr (cur_Value cur), AnyStr (cur_Value cur), AnyInt32 (cur_ID cur)]) db
         else
           add_call (Where (''('' @ orderByColumn @ '' < ? OR ('' @ orderByColumn @ '' = ? AND ''
                              @ idColumn @ '' < ?))'')
                       [AnyStr (cur_Value cur), AnyStr (cur_Value cur), AnyInt32 (cur_ID cur)]) db)"

definition PaginateWithOptions ::
  "pagination \<Rightarrow> string \<Rightarrow> (string \<times> string) list option \<Rightarrow> gorm_db \<Rightarrow> gorm_db" where
  "PaginateWithOptions p tablePrefix customAllowedColumns db0 =
     (let pageSize = GetPageSize p;
          orderBy = GetOrderBy p;
          sortOrder = GetSortOrder p;
          nextPageToken = GetNextPageToken p;
          columnsMap = (case customAllowedColumns of None \<Rightarrow> AllowedOrderByColumns | Some m \<Rightarrow> m);
          db1 = (if pageSize > 0 then add_call (Limit (pageSize + 1)) db0 else db0);
          db2 = (if orderBy \<noteq> [] \<and> sortOrder \<noteq> [] then
                   (let col = allowed_or columnsMap DefaultOrderBy orderBy;
                        ord = allowed_or AllowedSortOrders DefaultSortOrder sortOrder;
                        orderByColumn = (if tablePrefix \<noteq> []
                          then QuoteTableName (Some (dialect db1)) tablePrefix @ ''.'' @ col else col)
                    in add_call (Order (orderByColumn @ '' '' @ ord)) db1)
                 else db1)
      in if nextPageToken \<noteq> [] then
           (case DecodeCursor nextPageToken of
              Inl e \<Rightarrow> add_call (AddError ''invalid nextPageToken'') db2
            | Inr cur \<Rightarrow> buildWhereClause db2 cur orderBy sortOrder tablePrefix)
         else db2)"

definition PaginateWithTablePrefix :: "pagination \<Rightarrow> string \<Rightarrow> gorm_db \<Rightarrow> gorm_db" where
  "PaginateWithTablePrefix p tablePrefix = PaginateWithOptions p tablePrefix None"

definition Paginate :: "pagination \<Rightarrow> gorm_db \<Rightarrow> gorm_db" where
  "Paginate p = PaginateWithTablePrefix p []"

subsection \<open>Catalog: ordering by name\<close>

definition CatalogOrderByColumns :: "(string \<times> string) list" where
  "CatalogOrderByColumns =
     [(''ID'', ''id''),
      (''CREATE_TIME'', ''create_time_since_epoch''),
      (''LAST_UPDATE_TIME'', ''last_update_time_since_epoch''),
      (''NAME'', ''name''),
      (''id'', ''id'')]"

definition CreateNamePaginationToken :: "(float64 \<Rightarrow> string) \<Rightarrow> int \<Rightarrow> string option \<Rightarrow> string" where
  "CreateNamePaginationToken fmt_g entityID nameOpt =
     (case nameOpt of
        Some n \<Rightarrow> CreateNextPageToken fmt_g entityID (TokString n)
      | None \<Rightarrow> CreateNextPageToken fmt_g entityID (TokString (itoa entityID)))"

definition ApplyNameOrdering ::
  "gorm_db \<Rightarrow> string \<Rightarrow> string \<Rightarrow> string \<Rightarrow> int \<Rightarrow> bool \<Rightarrow> gorm_db" where
  "ApplyNameOrdering query tableName sortOrder nextPageToken pageSize stripSourcePrefix =
     (let order = (if sortOrder = ''DESC'' then ''DESC'' else ''ASC'');
          nameExpr = (if stripSourcePrefix
            then ''COALESCE(NULLIF(SUBSTRING('' @ tableName @ ''.name FROM STRPOS('' @ tableName
                   @ ''.name, '' @ [CHR 0x27] @ '':'' @ [CHR 0x27] @ '') + 1), '' @ [CHR 0x27, CHR 0x27]
                   @ ''), '' @ tableName @ ''.name)''
            else tableName @ ''.name'');
          q1 = add_call (Order (nameExpr @ '' '' @ order @ '', '' @ tableName @ ''.id ASC'')) query;
          limit = (\<lambda>q. if pageSize > 0 then add_call (Limit (pageSize + 1)) q else q)
      in if nextPageToken \<noteq> [] then
           (case DecodeCursor nextPageToken of
              Inl e \<Rightarrow> add_call (AddError ''invalid nextPageToken'') q1
            | Inr cur \<Rightarrow>
                (let cmp = (if order = ''DESC'' then ''<'' else ''>'')
                 in limit (add_call (Where (''('' @ nameExpr @ '' '' @ cmp @ '' ? OR ('' @ nameExpr
                             @ '' = ? AND '' @ tableName @ ''.id > ?))'')
                      [AnyStr (cur_Value cur), AnyStr (cur_Value cur), AnyInt32 (cur_ID cur)]) q1)))
         else limit q1)"

subsection \<open>Facts\<close>

lemma map_of_in_snd: "map_of xs k = Some v \<Longrightarrow> v \<in> snd ` set xs"
  by (force dest: map_of_SomeD)

lemma allowed_or_cases: "allowed_or xs d k = d \<or> allowed_or xs d k \<in> snd ` set xs"
  by (auto simp: allowed_or_def split: option.splits dest: map_of_in_snd)

lemma allowed_sort_cases:
  "allowed_or AllowedSortOrders DefaultSortOrder k \<in> {''ASC'', ''DESC''}"
  using allowed_or_cases [of AllowedSortOrders DefaultSortOrder k]
  by (auto simp: AllowedSortOrders_def DefaultSortOrder_def SortOrderAsc_def SortOrderDesc_def)

lemma allowed_column_cases:
  "allowed_or AllowedOrderByColumns DefaultOrderBy k
     \<in> {''id'', ''create_time_since_epoch'', ''last_update_time_since_epoch''}"
  using allowed_or_cases [of AllowedOrderByColumns DefaultOrderBy k]
  by (auto simp: AllowedOrderByColumns_def DefaultOrderBy_def)

lemma placeholders_allowed [simp]:
  "placeholders (allowed_or AllowedSortOrders DefaultSortOrder k) = 0"
  "placeholders (allowed_or AllowedOrderByColumns DefaultOrderBy k) = 0"
  using allowed_sort_cases [of k] allowed_column_cases [of k] by auto

lemma placeholders_table_prefix:
  "IsValidTablePrefix s \<Longrightarrow> placeholders s = 0"
proof (rule placeholders_zero, cases s)
  fix c r assume "IsValidTablePrefix s" "s = c # r"
  then show "CHR ''?'' \<notin> set s"
    by (auto simp: list_all_iff is_ident_char_def is_ident_start_def is_digit_def)
qed simp

lemma where_callI:
  "placeholders s = length a \<Longrightarrow>
     \<exists>sql args. add_call (Where s a) db = add_call (Where sql args) db \<and> placeholders sql = length args"
  by blast

lemma buildWhereClause_calls:
  "\<exists>sql args. buildWhereClause db cur orderBy sortOrder tp = add_call (Where sql args) db
     \<and> placeholders sql = length args"
  by (cases "IsValidTablePrefix tp")
     (auto simp: buildWhereClause_def Let_def placeholders_table_prefix intro!: where_callI)

text \<open>
  The SQL text of the cursor condition depends on the cursor only through its arguments: two cursors
  give the same text.
\<close>

definition call_text :: "db_call \<Rightarrow> string" where
  "call_text c = (case c of Where sql args \<Rightarrow> sql | Order sql \<Rightarrow> sql | Joins sql \<Rightarrow> sql
     | Limit n \<Rightarrow> [] | AddError e \<Rightarrow> e)"

lemma buildWhereClause_text:
  "map call_text (calls (buildWhereClause db cur orderBy sortOrder tp))
   = map call_text (calls (buildWhereClause db cur' orderBy sortOrder tp))"
  by (simp add: buildWhereClause_def Let_def call_text_def)

text \<open>The clauses \<open>ORDER BY\<close> may carry, for a table prefix and an allow list.\<close>

definition order_clauses :: "string \<Rightarrow> string \<Rightarrow> (string \<times> string) list \<Rightarrow> string set" where
  "order_clauses d tablePrefix columns =
     {(if tablePrefix \<noteq> [] then QuoteTableName (Some d) tablePrefix @ ''.'' @ col else col) @ '' '' @ dir
      | col dir. col \<in> insert DefaultOrderBy (snd ` set columns) \<and> dir \<in> {''ASC'', ''DESC''}}"

definition page_columns :: "(string \<times> string) list option \<Rightarrow> (string \<times> string) list" where
  "page_columns custom = (case custom of None \<Rightarrow> AllowedOrderByColumns | Some m \<Rightarrow> m)"

lemma order_clause_in:
  "(if tp \<noteq> [] then QuoteTableName (Some d) tp @ ''.'' @ allowed_or cols DefaultOrderBy ob
    else allowed_or cols DefaultOrderBy ob) @ '' '' @ allowed_or AllowedSortOrders DefaultSortOrder so
   \<in> order_clauses d tp cols"
  using allowed_or_cases [of cols DefaultOrderBy ob] allowed_sort_cases [of so]
  unfolding order_clauses_def by auto

text \<open>The calls a page request adds, in the order the code makes them.\<close>

definition limit_calls :: "pagination \<Rightarrow> db_call list" where
  "limit_calls p = (if GetPageSize p > 0 then [Limit (GetPageSize p + 1)] else [])"

text \<open>
  Whatever the client sends as sort column, direction and token, a page request adds to the query
  at most a limit of one row more than the page, one \<open>ORDER BY\<close> whose text is one of the clauses over
  the allow list, and then either nothing, the error for a token that does not decode, or one \<open>WHERE\<close>
  with as many placeholders as arguments.
\<close>

theorem page_request_calls:
  "\<exists>ord tail. calls (PaginateWithOptions p tp custom db) =
       calls db @ limit_calls p @ [Order ord] @ tail
     \<and> ord \<in> order_clauses (dialect db) tp (page_columns custom)
     \<and> (tail = [] \<or> tail = [AddError ''invalid nextPageToken'']
        \<or> (\<exists>sql args. tail = [Where sql args] \<and> placeholders sql = length args))"
proof -
  let ?ord = "(if tp \<noteq> []
      then QuoteTableName (Some (dialect db)) tp @ ''.'' @ allowed_or (page_columns custom) DefaultOrderBy (GetOrderBy p)
      else allowed_or (page_columns custom) DefaultOrderBy (GetOrderBy p)) @ '' ''
        @ allowed_or AllowedSortOrders DefaultSortOrder (GetSortOrder p)"
  let ?db1 = "if GetPageSize p > 0 then add_call (Limit (GetPageSize p + 1)) db else db"
  let ?db2 = "add_call (Order ?ord) ?db1"
  have db2: "calls ?db2 = calls db @ limit_calls p @ [Order ?ord]"
    by (simp add: limit_calls_def)
  have ord: "?ord \<in> order_clauses (dialect db) tp (page_columns custom)"
    by (rule order_clause_in)
  have eq: "PaginateWithOptions p tp custom db =
      (if GetNextPageToken p \<noteq> [] then
         (case DecodeCursor (GetNextPageToken p) of
            Inl e \<Rightarrow> add_call (AddError ''invalid nextPageToken'') ?db2
          | Inr cur \<Rightarrow> buildWhereClause ?db2 cur (GetOrderBy p) (GetSortOrder p) tp)
       else ?db2)"
    unfolding PaginateWithOptions_def Let_def page_columns_def
    by (cases "GetPageSize p > 0") (simp_all add: GetOrderBy_not_empty GetSortOrder_not_empty split: sum.split)
  consider "GetNextPageToken p = []"
    | e where "GetNextPageToken p \<noteq> []" "DecodeCursor (GetNextPageToken p) = Inl e"
    | cur where "GetNextPageToken p \<noteq> []" "DecodeCursor (GetNextPageToken p) = Inr cur"
    by (cases "DecodeCursor (GetNextPageToken p)") auto
  then show ?thesis
  proof cases
    case 1
    then show ?thesis using db2 ord eq by auto
  next
    case 2
    then show ?thesis using db2 ord eq by auto
  next
    case (3 cur)
    obtain sql args where
      "buildWhereClause ?db2 cur (GetOrderBy p) (GetSortOrder p) tp = add_call (Where sql args) ?db2"
      "placeholders sql = length args"
      using buildWhereClause_calls by blast
    then show ?thesis using 3 db2 ord eq by auto
  qed
qed

text \<open>
  A page token decodes to the id and the value it was made from, for every id of 32 bits and every
  value, colons included, whose plain text is at most 768 bytes (the limit of 1024 characters that
  \<open>DecodeCursor\<close> puts on the encoded token).
\<close>

theorem page_token_roundtrip:
  assumes "int32_range i" and "length (itoa i @ '':'' @ token_value_string fmt_g v) \<le> 768"
  shows "DecodeCursor (CreateNextPageToken fmt_g i v)
         = Inr \<lparr>cur_ID = i, cur_Value = token_value_string fmt_g v\<rparr>"
proof -
  let ?s = "itoa i @ '':'' @ token_value_string fmt_g v"
  have len: "\<not> length (b64_encode ?s) > 1024" using assms(2) by simp
  have cut: "cut_at (CHR '':'') ?s = Some (itoa i, token_value_string fmt_g v)"
    using cut_at_append [OF itoa_no_colon] by simp
  have int: "parse_int 32 (itoa i) = Inr i"
    using assms(1) by (intro parse_int_itoa) (simp_all add: int32_range_def)
  show ?thesis
    unfolding DecodeCursor_def CreateNextPageToken_def
    using len cut int assms(1) by simp
qed

theorem page_token_roundtrip_witness:
  "DecodeCursor (CreateNextPageToken (\<lambda>f. []) (-7) (TokString ''src:model''))
   = Inr \<lparr>cur_ID = -7, cur_Value = ''src:model''\<rparr>"
proof -
  have "itoa (-7) = ''-7''"
    by code_simp
  then show ?thesis
    using page_token_roundtrip [of "-7" "\<lambda>f. []" "TokString ''src:model''"]
    by (simp add: int32_range_def)
qed

text \<open>A longer token is refused although it was issued.\<close>

lemma page_token_too_long:
  assumes "length (itoa i @ '':'' @ token_value_string fmt_g v) > 768"
  shows "DecodeCursor (CreateNextPageToken fmt_g i v) = Inl TokenTooLong"
proof -
  let ?s = "itoa i @ '':'' @ token_value_string fmt_g v"
  have "257 \<le> (length ?s + 2) div 3" using assms by linarith
  then have "length (b64_encode ?s) > 1024" by simp
  then show ?thesis by (simp only: DecodeCursor_def CreateNextPageToken_def if_True)
qed

end
