(* ===== verification/Performance.thy ===== *)
theory Performance
  imports Float64 Converter_Values Pagination
begin

section \<open>Performance artifacts and recommendations\<close>

text \<open>
  The service behind the performance artifacts of a catalog model
  (\<open>catalog/internal/catalog/modelcatalog/performance_artifact_service.go\<close>): the query it sends to the
  repository, the replica calculation for a target rate, the Pareto filter that recommends hardware
  options, its own paging of the recommendations and the minimum latency of a model. An artifact is
  its id and its custom properties, where \<open>None\<close> is a nil pointer; numbers are \<open>float64\<close> patterns, and
  the costs are \<open>int32\<close> products that wrap. The repository is an argument. A Go map is visited in an
  order that the language leaves open, and \<open>slices.SortFunc\<close> is not stable: the visiting order and the
  sort are arguments as well, and the results are shown for all of them.
\<close>

subsection \<open>Parameters and properties\<close>

record performance_params =
  pp_ModelID :: int
  pp_TargetRPS :: int
  pp_Recommendations :: bool
  pp_FilterQuery :: string
  pp_PageSize :: int
  pp_OrderBy :: string
  pp_SortOrder :: string
  pp_NextPageToken :: "string option"
  pp_RPSProperty :: string
  pp_LatencyProperty :: string
  pp_HardwareCountProperty :: string
  pp_HardwareTypeProperty :: string

record perf_artifact =
  pa_ID :: "int option"
  pa_Custom :: "stored_property list option"

definition buildPerformanceFilterQuery :: "string \<Rightarrow> string" where
  "buildPerformanceFilterQuery userFilter =
    (let performanceFilter = ''metricsType.string_value = '' @ [CHR 0x27] @ ''performance-metrics'' @ [CHR 0x27] in
     if userFilter = [] then performanceFilter
     else ''('' @ userFilter @ '') AND ('' @ performanceFilter @ '')'')"

text \<open>The first property of a name decides, whatever its type is.\<close>

definition named_property :: "stored_property list option \<Rightarrow> string \<Rightarrow> stored_property option" where
  "named_property props name = Option.bind props (find (\<lambda>p. sp_Name p = name))"

definition extractCustomPropertiesDoubleValue :: "stored_property list option \<Rightarrow> string \<Rightarrow> float64 \<Rightarrow> float64" where
  "extractCustomPropertiesDoubleValue props name d =
    (case Option.bind (named_property props name) sp_Double of Some v \<Rightarrow> v | None \<Rightarrow> d)"

definition extractCustomPropertiesIntValue :: "stored_property list option \<Rightarrow> string \<Rightarrow> int \<Rightarrow> int" where
  "extractCustomPropertiesIntValue props name d =
    (case Option.bind (named_property props name) sp_Int of Some v \<Rightarrow> v | None \<Rightarrow> d)"

definition extractCustomPropertiesStringValue :: "stored_property list option \<Rightarrow> string \<Rightarrow> string" where
  "extractCustomPropertiesStringValue props name =
    (case Option.bind (named_property props name) sp_String of Some v \<Rightarrow> v | None \<Rightarrow> [])"

subsection \<open>Replicas for a target rate\<close>

definition MaxInt32 :: int where "MaxInt32 = 2147483647"

definition float_one :: float64 where "float_one = fl_of_int 1"

text \<open>
  \<open>addTargetRPSCalculations\<close>. The first argument is what the implementation makes of \<open>int32(x)\<close> for an
  \<open>x\<close> that no \<open>int32\<close> represents.
\<close>

definition effective_rps :: "stored_property list option \<Rightarrow> string \<Rightarrow> float64" where
  "effective_rps props rpsProperty =
    (let rps = extractCustomPropertiesDoubleValue props rpsProperty float_one in
     if fl_leq rps (fl_of_int 0) then float_one else rps)"

definition replica_count :: "int \<Rightarrow> float64 \<Rightarrow> float64" where
  "replica_count targetRPS rps =
    (let replicas = fl_ceil (fl_div (fl_of_int targetRPS) rps) in
     if fl_less (fl_of_int MaxInt32) replicas then fl_of_int MaxInt32
     else if fl_less replicas (fl_of_int 1) then fl_of_int 1 else replicas)"

definition addTargetRPSCalculations :: "(float64 \<Rightarrow> int) \<Rightarrow> int \<Rightarrow> string \<Rightarrow> perf_artifact \<Rightarrow> perf_artifact" where
  "addTargetRPSCalculations other targetRPS rpsProperty a =
    (case pa_Custom a of
       None \<Rightarrow> a
     | Some props \<Rightarrow>
         (let rps = effective_rps (Some props) rpsProperty;
              replicas = replica_count targetRPS rps;
              totalRPS = fl_mul replicas rps
          in a\<lparr>pa_Custom := Some (props @
                [NewIntProperty ''replicas'' (fl_to_int32 other replicas) True,
                 NewDoubleProperty ''total_requests_per_second'' totalRPS True])\<rparr>))"

subsection \<open>Sorting and grouping\<close>

definition sort_latency :: "string \<Rightarrow> perf_artifact \<Rightarrow> float64" where
  "sort_latency latencyProperty a =
    (let l = extractCustomPropertiesDoubleValue (pa_Custom a) latencyProperty MaxFloat64 in
     if fl_leq l (fl_of_int 0) then MaxFloat64 else l)"

definition sort_count :: "string \<Rightarrow> perf_artifact \<Rightarrow> int" where
  "sort_count hardwareCountProperty a =
    (let n = extractCustomPropertiesIntValue (pa_Custom a) hardwareCountProperty MaxInt32 in
     if n \<le> 0 then MaxInt32 else n)"

text \<open>The comparison function of \<open>sortArtifacts\<close>.\<close>

definition compare_artifacts :: "string \<Rightarrow> string \<Rightarrow> perf_artifact \<Rightarrow> perf_artifact \<Rightarrow> int" where
  "compare_artifacts latencyProperty hardwareCountProperty a b =
    (let latencyCmp = fl_compare (sort_latency latencyProperty a) (sort_latency latencyProperty b) in
     if latencyCmp \<noteq> 0 then latencyCmp
     else sgn (sort_count hardwareCountProperty a - sort_count hardwareCountProperty b))"

text \<open>
  \<open>slices.SortFunc\<close> for a comparison that is a strict weak ordering: a permutation of its argument in
  which no element is greater than a later one. For up to twelve elements the library inserts one
  element after another, which is \<open>insertion_sort\<close>.
\<close>

type_synonym 'a sort_func = "('a \<Rightarrow> 'a \<Rightarrow> int) \<Rightarrow> 'a list \<Rightarrow> 'a list"

definition weak_order :: "('a \<Rightarrow> 'a \<Rightarrow> int) \<Rightarrow> bool" where
  "weak_order c = ((\<forall>a b. c a b < 0 \<longleftrightarrow> 0 < c b a) \<and> (\<forall>a b d. c a b \<le> 0 \<longrightarrow> c b d \<le> 0 \<longrightarrow> c a d \<le> 0))"

locale sort_contract =
  fixes sort_by :: "'a sort_func"
  assumes sort_permutes: "mset (sort_by c xs) = mset xs"
    and sort_orders: "weak_order c \<Longrightarrow> sorted_wrt (\<lambda>a b. c a b \<le> 0) (sort_by c xs)"
begin

lemma sort_set [simp]: "set (sort_by c xs) = set xs"
  using sort_permutes [of c xs] by (metis set_mset_mset)

lemma sort_nil_iff [simp]: "sort_by c xs = [] \<longleftrightarrow> xs = []"
  using sort_set [of c xs] by (metis set_empty)

lemma sort_distinct [simp]: "distinct (sort_by c xs) = distinct xs"
  using sort_permutes [of c xs] by (metis mset_eq_imp_distinct_iff)

lemma sort_distinct_map: "distinct (map f (sort_by c xs)) = distinct (map f xs)"
  using sort_permutes [of c xs] by (metis mset_map mset_eq_imp_distinct_iff)

end

fun insert_by :: "('a \<Rightarrow> 'a \<Rightarrow> int) \<Rightarrow> 'a \<Rightarrow> 'a list \<Rightarrow> 'a list" where
  "insert_by c x [] = [x]"
| "insert_by c x (y # ys) = (if 0 < c y x then x # y # ys else y # insert_by c x ys)"

definition insertion_sort :: "'a sort_func" where
  "insertion_sort c xs = foldl (\<lambda>acc x. insert_by c x acc) [] xs"

lemma insert_by_mset [simp]: "mset (insert_by c x ys) = add_mset x (mset ys)"
  by (induction ys) auto

lemma insert_by_sorted:
  assumes "weak_order c" "sorted_wrt (\<lambda>a b. c a b \<le> 0) ys"
  shows "sorted_wrt (\<lambda>a b. c a b \<le> 0) (insert_by c x ys)"
  using assms(2)
proof (induction ys)
  case (Cons y ys)
  have tr: "c a b \<le> 0 \<Longrightarrow> c b d \<le> 0 \<Longrightarrow> c a d \<le> 0" and as: "0 < c b a \<Longrightarrow> c a b < 0" for a b d
    using assms(1) unfolding weak_order_def by blast+
  show ?case
  proof (cases "0 < c y x")
    case True
    then have "c x y \<le> 0" using as by (simp add: less_imp_le)
    with Cons.prems True show ?thesis by (auto intro: tr)
  next
    case False
    have "set (insert_by c x ys) = insert x (set ys)"
      by (metis insert_by_mset set_mset_add_mset_insert set_mset_mset)
    with False Cons show ?thesis by auto
  qed
qed simp

lemma insertion_sort_mset: "mset (foldl (\<lambda>acc x. insert_by c x acc) ys xs) = mset ys + mset xs"
  by (induction xs arbitrary: ys) auto

lemma insertion_sort_sorted:
  "weak_order c \<Longrightarrow> sorted_wrt (\<lambda>a b. c a b \<le> 0) ys
    \<Longrightarrow> sorted_wrt (\<lambda>a b. c a b \<le> 0) (foldl (\<lambda>acc x. insert_by c x acc) ys xs)"
  by (induction xs arbitrary: ys) (auto intro: insert_by_sorted)

interpretation inserted: sort_contract insertion_sort
  by unfold_locales (simp_all add: insertion_sort_def insertion_sort_mset insertion_sort_sorted)

lemma compare_weak_order: "weak_order (compare_artifacts lat cnt)"
  unfolding weak_order_def compare_artifacts_def Let_def fl_compare_rank
  by (auto simp: sgn_if split: if_splits)

text \<open>\<open>groupArtifactsByStringProperty\<close>: the artifacts of one value, in order, and the values that occur.\<close>

definition property_group :: "perf_artifact list \<Rightarrow> string \<Rightarrow> string \<Rightarrow> perf_artifact list" where
  "property_group artifacts property v =
    filter (\<lambda>a. extractCustomPropertiesStringValue (pa_Custom a) property = v) artifacts"

definition group_values :: "perf_artifact list \<Rightarrow> string \<Rightarrow> string list" where
  "group_values artifacts property =
    remdups (map (\<lambda>a. extractCustomPropertiesStringValue (pa_Custom a) property) artifacts)"

subsection \<open>Recommendations\<close>

definition initialEpsilon :: float64 where "initialEpsilon = 0x3FA999999999999A"
definition fastEpsilon :: float64 where "fastEpsilon = 0x3FB999999999999A"
definition fastThreshold :: float64 where "fastThreshold = fl_of_int 100"

text \<open>The cost estimate is a product of two \<open>int32\<close> values at that width.\<close>

definition estimated_cost :: "string \<Rightarrow> perf_artifact \<Rightarrow> int" where
  "estimated_cost hardwareCountProperty a =
    to_int32 (extractCustomPropertiesIntValue (pa_Custom a) hardwareCountProperty 1
      * extractCustomPropertiesIntValue (pa_Custom a) ''replicas'' 1)"

text \<open>First pass: over the list sorted by latency, keep what is cheaper than everything before.\<close>

fun cheaper_only :: "string \<Rightarrow> int \<Rightarrow> perf_artifact list \<Rightarrow> perf_artifact list" where
  "cheaper_only cnt cheapest [] = []"
| "cheaper_only cnt cheapest (a # as) =
     (if estimated_cost cnt a < cheapest then a # cheaper_only cnt (estimated_cost cnt a) as
      else cheaper_only cnt cheapest as)"

text \<open>
  Second pass: from the cheapest option on, keep what improves the latency of the last kept option by
  more than epsilon. An option without an id is neither kept nor becomes the last kept one.
\<close>

definition improvement :: "float64 \<Rightarrow> float64 \<Rightarrow> float64" where
  "improvement lastKeptLatency latency = fl_div (fl_sub lastKeptLatency latency) lastKeptLatency"

fun meaningful_only :: "string \<Rightarrow> float64 \<Rightarrow> float64 \<Rightarrow> perf_artifact list \<Rightarrow> perf_artifact list" where
  "meaningful_only lat lastKept epsilon [] = []"
| "meaningful_only lat lastKept epsilon (a # as) =
     (let epsilon' = (if fl_leq lastKept fastThreshold then fastEpsilon else epsilon);
          latency = extractCustomPropertiesDoubleValue (pa_Custom a) lat lastKept
      in if fl_less epsilon' (improvement lastKept latency) \<and> pa_ID a \<noteq> None
         then a # meaningful_only lat latency epsilon' as
         else meaningful_only lat lastKept epsilon' as)"

text \<open>
  One turn of the loop over the hardware types: the kept options, or the early return of the whole
  input when the cheapest option has no id, or the panic of the index \<open>filtered[0]\<close>.
\<close>

datatype group_result = Kept "perf_artifact list" | NoIdentity | IndexPanic

definition recommend_group ::
  "perf_artifact sort_func \<Rightarrow> string \<Rightarrow> string \<Rightarrow> perf_artifact list \<Rightarrow> group_result" where
  "recommend_group srt lat cnt subArtifacts =
    (case rev (cheaper_only cnt MaxInt32 (srt (compare_artifacts lat cnt) subArtifacts)) of
       [] \<Rightarrow> IndexPanic
     | f # fs \<Rightarrow>
        (case pa_ID f of
           None \<Rightarrow> NoIdentity
         | Some _ \<Rightarrow> Kept (f # meaningful_only lat
             (extractCustomPropertiesDoubleValue (pa_Custom f) lat (fl_of_int 0)) initialEpsilon fs)))"

fun recommend_groups :: "('g \<Rightarrow> group_result) \<Rightarrow> 'g list \<Rightarrow> group_result" where
  "recommend_groups f [] = Kept []"
| "recommend_groups f (g # gs) =
     (case f g of
        Kept k \<Rightarrow> (case recommend_groups f gs of Kept ks \<Rightarrow> Kept (k @ ks) | r \<Rightarrow> r)
      | r \<Rightarrow> r)"

text \<open>
  \<open>generateRecommended\<close>, where \<open>visit\<close> is the order in which the hardware types are visited; \<open>None\<close> is
  a panic.
\<close>

definition generateRecommended ::
  "perf_artifact sort_func \<Rightarrow> string list \<Rightarrow> perf_artifact list \<Rightarrow> string \<Rightarrow> string \<Rightarrow> string
     \<Rightarrow> perf_artifact list option" where
  "generateRecommended srt visit artifacts lat cnt hw =
    (case recommend_groups (\<lambda>v. recommend_group srt lat cnt (property_group artifacts hw v)) visit of
       Kept ks \<Rightarrow> Some (filter (\<lambda>a. pa_ID a \<noteq> None \<and> pa_ID a \<in> pa_ID ` set ks) artifacts)
     | NoIdentity \<Rightarrow> Some artifacts
     | IndexPanic \<Rightarrow> None)"

definition or_default :: "string \<Rightarrow> string \<Rightarrow> string" where
  "or_default s d = (if s = [] then d else s)"

definition processArtifacts ::
  "(float64 \<Rightarrow> int) \<Rightarrow> perf_artifact sort_func \<Rightarrow> (string list \<Rightarrow> string list) \<Rightarrow> perf_artifact list
     \<Rightarrow> performance_params \<Rightarrow> perf_artifact list option" where
  "processArtifacts other srt visit artifacts params =
    (let targetRPS = (if pp_Recommendations params \<and> pp_TargetRPS params \<le> 0 then 1 else pp_TargetRPS params);
         rpsProperty = or_default (pp_RPSProperty params) ''requests_per_second'';
         latencyProperty = or_default (pp_LatencyProperty params) ''ttft_p90'';
         hardwareCountProperty = or_default (pp_HardwareCountProperty params) ''hardware_count'';
         hardwareTypeProperty = or_default (pp_HardwareTypeProperty params) ''hardware_type'';
         artifacts' = (if 0 < targetRPS then map (addTargetRPSCalculations other targetRPS rpsProperty) artifacts
                       else artifacts)
     in if pp_Recommendations params
        then generateRecommended srt (visit (group_values artifacts' hardwareTypeProperty)) artifacts'
               latencyProperty hardwareCountProperty hardwareTypeProperty
        else Some artifacts')"

subsection \<open>The request\<close>

text \<open>
  \<open>validateCustomProperties\<close> gives the named properties that no artifact has; the code reports them in
  the order of a map.
\<close>

definition missing_properties :: "perf_artifact list \<Rightarrow> string list \<Rightarrow> string list" where
  "missing_properties artifacts names =
    (if artifacts = [] then []
     else filter (\<lambda>n. n \<noteq> [] \<and>
            \<not> list_ex (\<lambda>a. list_ex (\<lambda>p. sp_Name p = n) (case pa_Custom a of None \<Rightarrow> [] | Some ps \<Rightarrow> ps)) artifacts)
          (remdups names))"

record perf_list =
  pl_Items :: "perf_artifact list"
  pl_NextPageToken :: string
  pl_PageSize :: int
  pl_Size :: int

record artifact_options =
  ao_ParentResourceID :: int
  ao_ArtifactTypesFilter :: "string list"
  ao_Pagination :: pagination

datatype 'e perf_error =
    ListFailed 'e
  | InvalidCustomProperties "string list"
  | ModelNotFound string 'e
  | RuntimePanic

text \<open>The items after the one of the cursor; a cursor that is not in the list has nothing after it.\<close>

fun after_id :: "int \<Rightarrow> perf_artifact list \<Rightarrow> perf_artifact list" where
  "after_id i [] = []"
| "after_id i (a # as) = (if pa_ID a = Some i then as else after_id i as)"

definition paginate_list :: "perf_list \<Rightarrow> int \<Rightarrow> string option \<Rightarrow> perf_list option" where
  "paginate_list l pageSize nextPageToken =
    (let cursor = (case nextPageToken of None \<Rightarrow> None
                   | Some t \<Rightarrow> (case DecodeCursor t of Inl _ \<Rightarrow> None | Inr c \<Rightarrow> Some c));
         items = (case cursor of None \<Rightarrow> pl_Items l | Some c \<Rightarrow> after_id (cur_ID c) (pl_Items l));
         size = (\<lambda>xs. min (int (length xs)) MaxInt32)
     in if pageSize < int (length items)
        then if pageSize \<le> 0 then None
             else let page = take (nat pageSize) items
                  in Some (l\<lparr>pl_Items := page, pl_Size := size page,
                       pl_NextPageToken := (case pa_ID (last page) of None \<Rightarrow> []
                         | Some i \<Rightarrow> CreateNextPageToken (\<lambda>_. []) i (TokString []))\<rparr>)
        else Some (l\<lparr>pl_Items := items, pl_Size := size items, pl_NextPageToken := []\<rparr>))"

definition list_options_of :: "performance_params \<Rightarrow> artifact_options" where
  "list_options_of params =
    \<lparr>ao_ParentResourceID = pp_ModelID params,
     ao_ArtifactTypesFilter = [''metrics-artifact''],
     ao_Pagination = \<lparr>pg_PageSize = (if pp_Recommendations params then None else Some (pp_PageSize params)),
        pg_OrderBy = Some (pp_OrderBy params),
        pg_SortOrder = Some (pp_SortOrder params),
        pg_NextPageToken = (if pp_Recommendations params then None else pp_NextPageToken params),
        pg_FilterQuery = Some (buildPerformanceFilterQuery (pp_FilterQuery params))\<rparr>\<rparr>"

definition GetArtifacts ::
  "(float64 \<Rightarrow> int) \<Rightarrow> perf_artifact sort_func \<Rightarrow> (string list \<Rightarrow> string list)
     \<Rightarrow> (artifact_options \<Rightarrow> 'e + perf_list) \<Rightarrow> performance_params \<Rightarrow> 'e perf_error + perf_list" where
  "GetArtifacts other srt visit repo_list params =
    (case repo_list (list_options_of params) of
       Inl e \<Rightarrow> Inl (ListFailed e)
     | Inr dbResult \<Rightarrow>
        (let artifacts = pl_Items dbResult;
             missing = missing_properties artifacts [pp_RPSProperty params, pp_LatencyProperty params,
               pp_HardwareCountProperty params, pp_HardwareTypeProperty params]
         in if missing \<noteq> [] then Inl (InvalidCustomProperties missing)
            else case processArtifacts other srt visit artifacts params of
                   None \<Rightarrow> Inl RuntimePanic
                 | Some artifacts' \<Rightarrow>
                     (let l = dbResult\<lparr>pl_Items := artifacts'\<rparr>
                      in if pp_Recommendations params
                         then (case paginate_list l (pp_PageSize params) (pp_NextPageToken params) of
                                 None \<Rightarrow> Inl RuntimePanic | Some l' \<Rightarrow> Inr l')
                         else Inr l)))"

subsection \<open>The minimum latency of a model\<close>

record pareto_params =
  pf_TargetRPS :: "int option"
  pf_LatencyProperty :: string
  pf_RpsProperty :: string
  pf_HardwareCountProperty :: string
  pf_HardwareTypeProperty :: string

definition artifact_params_of :: "pareto_params \<Rightarrow> int \<Rightarrow> string \<Rightarrow> performance_params" where
  "artifact_params_of params modelID filterQuery =
    (let lat = or_default (pf_LatencyProperty params) ''ttft_p90'' in
     \<lparr>pp_ModelID = modelID,
      pp_TargetRPS = (case pf_TargetRPS params of None \<Rightarrow> 1 | Some n \<Rightarrow> n),
      pp_Recommendations = True, pp_FilterQuery = filterQuery, pp_PageSize = 100,
      pp_OrderBy = lat, pp_SortOrder = ''ASC'', pp_NextPageToken = None,
      pp_RPSProperty = or_default (pf_RpsProperty params) ''requests_per_second'',
      pp_LatencyProperty = lat,
      pp_HardwareCountProperty = or_default (pf_HardwareCountProperty params) ''hardware_count'',
      pp_HardwareTypeProperty = or_default (pf_HardwareTypeProperty params) ''hardware_type''\<rparr>)"

text \<open>Every property of the name is looked at, not only the first of an artifact.\<close>

fun min_double :: "float64 option \<Rightarrow> float64 list \<Rightarrow> float64 option" where
  "min_double m [] = m"
| "min_double m (x # xs) =
     min_double (if (case m of None \<Rightarrow> True | Some y \<Rightarrow> fl_less x y) then Some x else m) xs"

definition latencies_of :: "string \<Rightarrow> perf_artifact \<Rightarrow> float64 list" where
  "latencies_of lat a = List.map_filter (\<lambda>p. if sp_Name p = lat then sp_Double p else None)
     (case pa_Custom a of None \<Rightarrow> [] | Some ps \<Rightarrow> ps)"

definition GetMinimumRecommendedLatency ::
  "(float64 \<Rightarrow> int) \<Rightarrow> perf_artifact sort_func \<Rightarrow> (string list \<Rightarrow> string list)
     \<Rightarrow> (artifact_options \<Rightarrow> 'e + perf_list) \<Rightarrow> (string \<Rightarrow> 'e + int option) \<Rightarrow> string \<Rightarrow> pareto_params \<Rightarrow> string
     \<Rightarrow> 'e perf_error + float64 option" where
  "GetMinimumRecommendedLatency other srt visit repo_list get_by_name modelName params filterQuery =
    (case get_by_name modelName of
       Inl e \<Rightarrow> Inl (ModelNotFound modelName e)
     | Inr None \<Rightarrow> Inl RuntimePanic
     | Inr (Some modelID) \<Rightarrow>
        (case GetArtifacts other srt visit repo_list (artifact_params_of params modelID filterQuery) of
           Inl e \<Rightarrow> Inl e
         | Inr result \<Rightarrow> Inr (min_double None
             (concat (map (latencies_of (or_default (pf_LatencyProperty params) ''ttft_p90'')) (pl_Items result))))))"

end
