(* ===== verification/Performance_Facts.thy ===== *)
theory Performance_Facts
  imports Performance
begin

text \<open>
  What the recommendations guarantee: they are a Pareto front of the hardware options of every hardware
  type, they leave out an option only for one that is at least as cheap and either at least as fast or
  not meaningfully slower, they do not depend on the order in which the hardware types are visited, and
  their pages put together are the whole list. The cases in which the code fails are shown as well.
\<close>

subsection \<open>The two passes\<close>

lemma cheaper_only_subseq: "subseq (cheaper_only cnt b xs) xs"
  by (induction cnt b xs rule: cheaper_only.induct) auto

lemma cheaper_only_below: "a \<in> set (cheaper_only cnt b xs) \<Longrightarrow> estimated_cost cnt a < b"
  by (induction cnt b xs rule: cheaper_only.induct) (fastforce split: if_splits)+

lemma cheaper_only_decreasing: "sorted_wrt (\<lambda>a a'. estimated_cost cnt a' < estimated_cost cnt a) (cheaper_only cnt b xs)"
  by (induction cnt b xs rule: cheaper_only.induct) (auto dest: cheaper_only_below)

lemma cheaper_only_covers:
  assumes "sorted_wrt R xs" "\<And>a. R a a" "x \<in> set xs" "estimated_cost cnt x < b"
  shows "\<exists>f \<in> set (cheaper_only cnt b xs). R f x \<and> estimated_cost cnt f \<le> estimated_cost cnt x"
  using assms(1,3,4)
proof (induction cnt b xs rule: cheaper_only.induct)
  case (2 cnt b a as)
  show ?case
  proof (cases "estimated_cost cnt a < b")
    case True
    show ?thesis
    proof (cases "estimated_cost cnt a \<le> estimated_cost cnt x")
      case le: True
      have "R a x" using 2(3,4) assms(2) by auto
      with le True show ?thesis by auto
    next
      case False
      then have "x \<in> set as" using 2(4) by auto
      with 2(1) True False 2(3) show ?thesis by force
    qed
  next
    case False
    then have "x \<in> set as" using 2(4,5) by auto
    with 2(2) False 2(3,5) show ?thesis by auto
  qed
qed simp

lemma cheaper_only_nil_iff:
  "cheaper_only cnt b xs = [] \<longleftrightarrow> (\<forall>x \<in> set xs. b \<le> estimated_cost cnt x)"
  by (induction cnt b xs rule: cheaper_only.induct) auto

lemma meaningful_only_subseq: "subseq (meaningful_only lat lst eps xs) xs"
  by (induction lat lst eps xs rule: meaningful_only.induct) (auto simp: Let_def)

lemma meaningful_only_ids: "a \<in> set (meaningful_only lat lst eps xs) \<Longrightarrow> pa_ID a \<noteq> None"
  by (induction lat lst eps xs rule: meaningful_only.induct) (auto simp: Let_def split: if_splits)

lemma epsilon_values [simp]:
  "fl_mag initialEpsilon = 0x3FA999999999999A" "\<not> fl_sign initialEpsilon"
  "fl_mag fastEpsilon = 0x3FB999999999999A" "\<not> fl_sign fastEpsilon"
  by (simp_all add: initialEpsilon_def fastEpsilon_def fl_mag_def fl_sign_def)

lemma epsilon_order: "fl_less fastEpsilon x \<Longrightarrow> fl_less initialEpsilon x"
  by (simp add: fl_less_def fl_nan_def fl_key_def inf_mag_def)

lemma zero_less_epsilon:
  "fl_less (fl_make False 0) initialEpsilon" "fl_less (fl_make False 0) fastEpsilon"
  by (simp_all add: fl_less_def fl_nan_def fl_key_def inf_mag_def)

text \<open>A positive last latency is improved only by a smaller one.\<close>

lemma improvement_less:
  assumes "fl_less eps (improvement lst l)" "fl_less (fl_make False 0) eps" "fl_less (fl_make False 0) lst"
  shows "fl_less l lst"
proof -
  have "fl_less (fl_make False 0) (improvement lst l)" using assms(1,2) fl_less_trans by blast
  then have "fl_less (fl_make False 0) (fl_sub lst l)"
    unfolding improvement_def using assms(3) by (rule fl_div_pos)
  then show ?thesis by (rule fl_sub_pos)
qed

definition latency_of :: "string \<Rightarrow> perf_artifact \<Rightarrow> float64 \<Rightarrow> float64" where
  "latency_of lat a d = extractCustomPropertiesDoubleValue (pa_Custom a) lat d"

definition positive_latency :: "string \<Rightarrow> perf_artifact \<Rightarrow> bool" where
  "positive_latency lat a =
    (case Option.bind (named_property (pa_Custom a) lat) sp_Double of
       None \<Rightarrow> False | Some l \<Rightarrow> fl_less (fl_of_int 0) l)"

lemma positive_latency_any:
  assumes "positive_latency lat a"
  shows "latency_of lat a d = latency_of lat a d'" "fl_less (fl_make False 0) (latency_of lat a d)"
  using assms by (auto simp: positive_latency_def latency_of_def extractCustomPropertiesDoubleValue_def split: option.splits)

lemma meaningful_only_faster:
  assumes "\<forall>a \<in> set xs. positive_latency lat a" "fl_less (fl_make False 0) lst"
    "fl_less (fl_make False 0) eps"
  shows "(\<forall>a \<in> set (meaningful_only lat lst eps xs). fl_less (latency_of lat a last0) lst)
    \<and> sorted_wrt (\<lambda>a b. fl_less (latency_of lat b last0) (latency_of lat a last0)) (meaningful_only lat lst eps xs)"
  using assms
proof (induction lat lst eps xs rule: meaningful_only.induct)
  case (2 lat lst eps a as)
  define eps' where "eps' = (if fl_leq lst fastThreshold then fastEpsilon else eps)"
  define l where "l = latency_of lat a lst"
  have e: "fl_less (fl_make False 0) eps'" using 2(5) zero_less_epsilon by (simp add: eps'_def)
  have pa: "positive_latency lat a" using 2(3) by simp
  have l: "fl_less (fl_make False 0) l" "latency_of lat a last0 = l"
    unfolding l_def using positive_latency_any [OF pa] by blast+
  show ?case
  proof (cases "fl_less eps' (improvement lst l) \<and> pa_ID a \<noteq> None")
    case True
    have "fl_less l lst" using True e 2(4) improvement_less by blast
    moreover have "(\<forall>b \<in> set (meaningful_only lat l eps' as). fl_less (latency_of lat b last0) l)
      \<and> sorted_wrt (\<lambda>a b. fl_less (latency_of lat b last0) (latency_of lat a last0)) (meaningful_only lat l eps' as)"
      using 2(1) [OF eps'_def refl, folded latency_of_def, folded l_def] True 2(3) l(1) e by simp
    moreover have "meaningful_only lat lst eps (a # as) = a # meaningful_only lat l eps' as"
      using True by (auto simp: Let_def l_def latency_of_def simp flip: eps'_def)
    ultimately show ?thesis using l(2) by (auto intro: fl_less_trans)
  next
    case False
    then have "meaningful_only lat lst eps (a # as) = meaningful_only lat lst eps' as"
      by (auto simp: Let_def l_def latency_of_def simp flip: eps'_def)
    then show ?thesis
      using 2(2) [OF eps'_def refl, folded latency_of_def, folded l_def] False 2(3,4) e by simp
  qed
qed simp

text \<open>An option that the second pass drops is no meaningful improvement over one kept before it.\<close>

lemma meaningful_only_covers:
  assumes "x \<in> set xs" "\<forall>a \<in> set xs. pa_ID a \<noteq> None" "eps \<in> {initialEpsilon, fastEpsilon}"
    "lst = latency_of lat k d" "sorted_wrt R (k # xs)"
  shows "x \<in> set (meaningful_only lat lst eps xs)
    \<or> (\<exists>k' \<in> insert k (set (meaningful_only lat lst eps xs)). R k' x
        \<and> (\<exists>d'. \<not> fl_less fastEpsilon (improvement (latency_of lat k' d') (latency_of lat x (latency_of lat k' d')))))"
  using assms
proof (induction lat lst eps xs arbitrary: k d rule: meaningful_only.induct)
  case (2 lat lst eps a as)
  define eps' where "eps' = (if fl_leq lst fastThreshold then fastEpsilon else eps)"
  define l where "l = latency_of lat a lst"
  have e: "eps' \<in> {initialEpsilon, fastEpsilon}" using 2(5) by (auto simp: eps'_def)
  have kept: "meaningful_only lat lst eps (a # as) =
      (if fl_less eps' (improvement lst l) then a # meaningful_only lat l eps' as else meaningful_only lat lst eps' as)"
    using 2(4) by (simp add: Let_def l_def latency_of_def flip: eps'_def)
  show ?case
  proof (cases "fl_less eps' (improvement lst l)")
    case True
    have "x = a \<or> x \<in> set as" using 2(3) by auto
    then show ?thesis
    proof
      assume "x \<in> set as"
      with 2(1) [OF eps'_def refl, folded latency_of_def, folded l_def, of a lst] True 2(4,7) e l_def
      show ?thesis unfolding kept by auto
    qed (use True kept in simp)
  next
    case False
    then have nf: "\<not> fl_less fastEpsilon (improvement lst l)" using e epsilon_order by auto
    show ?thesis
    proof (cases "x = a")
      case True
      have "R k x" using 2(7) True by simp
      with nf True show ?thesis unfolding 2(6) l_def by auto
    next
      case xa: False
      then have "x \<in> set as" using 2(3) by simp
      with 2(2) [OF eps'_def refl, folded latency_of_def, folded l_def, of k d] False 2(4,6,7) e
      show ?thesis unfolding kept by auto
    qed
  qed
qed simp

subsection \<open>One hardware type\<close>

definition artifact_hardware :: "string \<Rightarrow> perf_artifact \<Rightarrow> string" where
  "artifact_hardware hw a = extractCustomPropertiesStringValue (pa_Custom a) hw"

lemma property_group_mem: "a \<in> set (property_group arts hw v) \<longleftrightarrow> a \<in> set arts \<and> artifact_hardware hw a = v"
  by (auto simp: property_group_def artifact_hardware_def)

lemma group_values_set: "set (group_values arts hw) = artifact_hardware hw ` set arts"
  by (auto simp: group_values_def artifact_hardware_def)

lemma subseq_set_subset: "subseq xs ys \<Longrightarrow> set xs \<subseteq> set ys"
  by (induction rule: list_emb.induct) auto

lemma sorted_wrt_subseq:
  assumes "subseq xs ys" "sorted_wrt R ys"
  shows "sorted_wrt R xs"
  using assms
proof (induction rule: list_emb.induct)
  case (list_emb_Cons2 x y xs ys)
  then show ?case by (auto dest: subseq_set_subset)
qed auto

lemma compare_refl: "compare_artifacts lat cnt a a = 0"
  by (simp add: compare_artifacts_def fl_compare_rank)

text \<open>What one turn of the loop keeps.\<close>

lemma group_kept:
  assumes srt: "sort_contract srt" and kept: "recommend_group srt lat cnt sub = Kept ks"
    and ids: "\<forall>a \<in> set sub. pa_ID a \<noteq> None"
  shows "set ks \<subseteq> set sub"
    and "sorted_wrt (\<lambda>a b. estimated_cost cnt a < estimated_cost cnt b) ks"
    and "(\<forall>a \<in> set sub. positive_latency lat a) \<Longrightarrow>
      sorted_wrt (\<lambda>a b. fl_less (latency_of lat b d) (latency_of lat a d)) ks"
    and "x \<in> set sub \<Longrightarrow> estimated_cost cnt x < MaxInt32 \<Longrightarrow>
      \<exists>f \<in> set sub. \<exists>k \<in> set ks. compare_artifacts lat cnt f x \<le> 0 \<and> estimated_cost cnt f \<le> estimated_cost cnt x
        \<and> (k = f \<or> estimated_cost cnt k < estimated_cost cnt f
             \<and> (\<exists>d'. \<not> fl_less fastEpsilon (improvement (latency_of lat k d') (latency_of lat f (latency_of lat k d')))))"
proof -
  define xs where "xs = srt (compare_artifacts lat cnt) sub"
  define cs where "cs = cheaper_only cnt MaxInt32 xs"
  obtain f fs where rev: "rev cs = f # fs"
    and ks: "ks = f # meaningful_only lat (latency_of lat f (fl_of_int 0)) initialEpsilon fs"
    using kept unfolding recommend_group_def xs_def [symmetric] cs_def [symmetric]
    by (auto split: list.splits option.splits simp: latency_of_def)
  have set_xs: "set xs = set sub" unfolding xs_def using sort_contract.sort_set [OF srt] .
  have xs: "sorted_wrt (\<lambda>a b. compare_artifacts lat cnt a b \<le> 0) xs"
    unfolding xs_def by (rule sort_contract.sort_orders [OF srt compare_weak_order])
  have "subseq cs xs" unfolding cs_def by (rule cheaper_only_subseq)
  then have "set cs \<subseteq> set sub" using set_xs by (auto dest: subseq_set_subset)
  moreover have cs_set: "set cs = insert f (set fs)" using rev by (metis list.simps(15) set_rev)
  ultimately have sub: "f \<in> set sub" "set fs \<subseteq> set sub" by auto
  have "sorted_wrt (\<lambda>a b. estimated_cost cnt a < estimated_cost cnt b) (rev cs)"
    unfolding sorted_wrt_rev cs_def by (rule cheaper_only_decreasing)
  then have asc: "sorted_wrt (\<lambda>a b. estimated_cost cnt a < estimated_cost cnt b) (f # fs)" unfolding rev .
  have "subseq ks (f # fs)" unfolding ks using meaningful_only_subseq by auto
  from subseq_set_subset [OF this] sub show "set ks \<subseteq> set sub" by auto
  from \<open>subseq ks (f # fs)\<close> asc show "sorted_wrt (\<lambda>a b. estimated_cost cnt a < estimated_cost cnt b) ks"
    by (rule sorted_wrt_subseq)
  show "sorted_wrt (\<lambda>a b. fl_less (latency_of lat b d) (latency_of lat a d)) ks"
    if pos: "\<forall>a \<in> set sub. positive_latency lat a"
  proof -
    have "positive_latency lat f" "\<forall>a \<in> set fs. positive_latency lat a" using pos sub by auto
    with meaningful_only_faster [OF this(2) positive_latency_any(2) zero_less_epsilon(1)]
      positive_latency_any(1) [of lat f "fl_of_int 0" d]
    show ?thesis unfolding ks by force
  qed
  assume x: "x \<in> set sub" "estimated_cost cnt x < MaxInt32"
  then obtain g where g: "g \<in> set cs" "compare_artifacts lat cnt g x \<le> 0" "estimated_cost cnt g \<le> estimated_cost cnt x"
    using cheaper_only_covers [OF xs, of x cnt MaxInt32] set_xs compare_refl unfolding cs_def by force
  have "\<forall>a \<in> set fs. pa_ID a \<noteq> None" using ids sub by auto
  moreover have "f \<in> set ks" using ks by simp
  ultimately obtain k where k: "k \<in> set ks" "k = g \<or> estimated_cost cnt k < estimated_cost cnt g
      \<and> (\<exists>d'. \<not> fl_less fastEpsilon (improvement (latency_of lat k d') (latency_of lat g (latency_of lat k d'))))"
    using meaningful_only_covers [of g fs initialEpsilon "latency_of lat f (fl_of_int 0)" lat f "fl_of_int 0", OF _ _ _ refl asc]
      g(1) cs_set unfolding ks by auto
  have "g \<in> set sub" using g(1) sub cs_set by auto
  with g(2,3) k show "\<exists>f \<in> set sub. \<exists>k \<in> set ks. compare_artifacts lat cnt f x \<le> 0 \<and> estimated_cost cnt f \<le> estimated_cost cnt x
        \<and> (k = f \<or> estimated_cost cnt k < estimated_cost cnt f
             \<and> (\<exists>d'. \<not> fl_less fastEpsilon (improvement (latency_of lat k d') (latency_of lat f (latency_of lat k d')))))"
    by blast
qed

lemma group_result_cases:
  assumes srt: "sort_contract srt" and ids: "\<forall>a \<in> set sub. pa_ID a \<noteq> None"
  shows "(\<exists>ks. recommend_group srt lat cnt sub = Kept ks) \<longleftrightarrow> (\<exists>x \<in> set sub. estimated_cost cnt x < MaxInt32)"
    and "recommend_group srt lat cnt sub \<noteq> NoIdentity"
proof -
  define cs where "cs = cheaper_only cnt MaxInt32 (srt (compare_artifacts lat cnt) sub)"
  have set: "set (srt (compare_artifacts lat cnt) sub) = set sub" using sort_contract.sort_set [OF srt] .
  then have nil: "cs = [] \<longleftrightarrow> \<not> (\<exists>x \<in> set sub. estimated_cost cnt x < MaxInt32)"
    unfolding cs_def cheaper_only_nil_iff by (auto simp: not_less)
  have sub: "set cs \<subseteq> set sub"
    unfolding cs_def using set cheaper_only_subseq by (metis subseq_set_subset)
  have "((\<exists>ks. recommend_group srt lat cnt sub = Kept ks) \<longleftrightarrow> (\<exists>x \<in> set sub. estimated_cost cnt x < MaxInt32))
      \<and> recommend_group srt lat cnt sub \<noteq> NoIdentity"
  proof (cases "rev cs")
    case Nil
    then show ?thesis
      using nil by (simp_all add: recommend_group_def flip: cs_def)
  next
    case (Cons f fs)
    then have "f \<in> set cs" by (metis list.set_intros(1) set_rev)
    with sub ids obtain i where "pa_ID f = Some i" by blast
    with Cons nil show ?thesis
      by (auto simp: recommend_group_def simp flip: cs_def)
  qed
  then show "(\<exists>ks. recommend_group srt lat cnt sub = Kept ks) \<longleftrightarrow> (\<exists>x \<in> set sub. estimated_cost cnt x < MaxInt32)"
    "recommend_group srt lat cnt sub \<noteq> NoIdentity"
    by blast+
qed

subsection \<open>All hardware types\<close>

lemma recommend_groups_kept:
  "recommend_groups f gs = Kept ks \<Longrightarrow> g \<in> set gs \<Longrightarrow> \<exists>k. f g = Kept k \<and> set k \<subseteq> set ks"
  by (induction gs arbitrary: ks) (fastforce split: group_result.splits)+

lemma recommend_groups_from:
  "recommend_groups f gs = Kept ks \<Longrightarrow> a \<in> set ks \<Longrightarrow> \<exists>g \<in> set gs. \<exists>k. f g = Kept k \<and> a \<in> set k"
  by (induction gs arbitrary: ks) (auto split: group_result.splits)

lemma recommend_groups_total:
  "(\<exists>ks. recommend_groups f gs = Kept ks) \<longleftrightarrow> (\<forall>g \<in> set gs. \<exists>k. f g = Kept k)"
  by (induction gs) (auto split: group_result.splits)

lemma recommend_groups_no_identity:
  "recommend_groups f gs = NoIdentity \<Longrightarrow> \<exists>g \<in> set gs. f g = NoIdentity"
  by (induction gs) (auto split: group_result.splits)

text \<open>
  With ids on all artifacts, what is recommended are the options that the turns of the loop keep,
  whatever the order of the visit.
\<close>

definition kept_options :: "perf_artifact sort_func \<Rightarrow> perf_artifact list \<Rightarrow> string \<Rightarrow> string \<Rightarrow> string \<Rightarrow> perf_artifact set" where
  "kept_options srt arts lat cnt hw =
    {a. \<exists>v ks. recommend_group srt lat cnt (property_group arts hw v) = Kept ks \<and> a \<in> set ks}"

lemma recommended_options:
  assumes srt: "sort_contract srt" and visit: "set visit = set (group_values arts hw)"
    and ids: "\<forall>a \<in> set arts. pa_ID a \<noteq> None" "distinct (map pa_ID arts)"
  shows "generateRecommended srt visit arts lat cnt hw =
    (if \<forall>v \<in> set (group_values arts hw). \<exists>x \<in> set (property_group arts hw v). estimated_cost cnt x < MaxInt32
     then Some (filter (\<lambda>a. a \<in> kept_options srt arts lat cnt hw) arts) else None)"
proof -
  let ?f = "\<lambda>v. recommend_group srt lat cnt (property_group arts hw v)"
  have gids: "\<forall>a \<in> set (property_group arts hw v). pa_ID a \<noteq> None" for v
    using ids(1) by (auto simp: property_group_mem)
  note cases = group_result_cases [OF srt gids]
  have tot: "(\<exists>ks. recommend_groups ?f visit = Kept ks) \<longleftrightarrow>
    (\<forall>v \<in> set (group_values arts hw). \<exists>x \<in> set (property_group arts hw v). estimated_cost cnt x < MaxInt32)"
    unfolding recommend_groups_total cases(1) visit ..
  have noid: "recommend_groups ?f visit \<noteq> NoIdentity"
    using recommend_groups_no_identity [of ?f visit] cases(2) by blast
  show ?thesis
  proof (cases "recommend_groups ?f visit")
    case (Kept ks)
    have mem: "a \<in> set ks \<longleftrightarrow> a \<in> kept_options srt arts lat cnt hw" for a
    proof
      assume "a \<in> set ks"
      with recommend_groups_from [OF Kept] show "a \<in> kept_options srt arts lat cnt hw"
        unfolding kept_options_def by blast
    next
      assume "a \<in> kept_options srt arts lat cnt hw"
      then obtain v k where k: "?f v = Kept k" "a \<in> set k" unfolding kept_options_def by blast
      then have "a \<in> set (property_group arts hw v)" using group_kept(1) [OF srt k(1) gids] by blast
      then have "v \<in> set visit" unfolding visit group_values_set property_group_mem by blast
      with recommend_groups_kept [OF Kept this] k show "a \<in> set ks" by auto
    qed
    have sub: "set ks \<subseteq> set arts"
    proof
      fix a assume "a \<in> set ks"
      with recommend_groups_from [OF Kept] obtain v k where k: "?f v = Kept k" "a \<in> set k" by blast
      then have "a \<in> set (property_group arts hw v)" using group_kept(1) [OF srt k(1) gids] by blast
      then show "a \<in> set arts" by (simp add: property_group_mem)
    qed
    have "pa_ID a \<noteq> None \<and> pa_ID a \<in> pa_ID ` set ks \<longleftrightarrow> a \<in> set ks" if "a \<in> set arts" for a
      using that ids sub by (auto simp: distinct_map inj_on_def)
    then have "filter (\<lambda>a. pa_ID a \<noteq> None \<and> pa_ID a \<in> pa_ID ` set ks) arts = filter (\<lambda>a. a \<in> set ks) arts"
      by (intro filter_cong) auto
    then show ?thesis using Kept tot by (auto simp: generateRecommended_def mem)
  next
    case NoIdentity
    with noid show ?thesis by simp
  next
    case IndexPanic
    then have "\<nexists>ks. recommend_groups ?f visit = Kept ks" by simp
    with tot IndexPanic show ?thesis by (simp add: generateRecommended_def)
  qed
qed

lemma recommended_set:
  assumes srt: "sort_contract srt" and visit: "set visit = set (group_values arts hw)"
    and ids: "\<forall>a \<in> set arts. pa_ID a \<noteq> None" "distinct (map pa_ID arts)"
    and res: "generateRecommended srt visit arts lat cnt hw = Some res"
  shows "res = filter (\<lambda>a. a \<in> kept_options srt arts lat cnt hw) arts"
    and "v \<in> set (group_values arts hw) \<Longrightarrow> \<exists>ks. recommend_group srt lat cnt (property_group arts hw v) = Kept ks
      \<and> set ks = {a \<in> set res. artifact_hardware hw a = v}"
proof -
  have gids: "\<forall>a \<in> set (property_group arts hw v). pa_ID a \<noteq> None" for v
    using ids(1) by (auto simp: property_group_mem)
  from res show eq: "res = filter (\<lambda>a. a \<in> kept_options srt arts lat cnt hw) arts"
    unfolding recommended_options [OF srt visit ids] by (simp split: if_splits)
  assume v: "v \<in> set (group_values arts hw)"
  have "\<exists>x \<in> set (property_group arts hw v). estimated_cost cnt x < MaxInt32"
    using res v unfolding recommended_options [OF srt visit ids] by (simp split: if_splits)
  then obtain ks where ks: "recommend_group srt lat cnt (property_group arts hw v) = Kept ks"
    using group_result_cases(1) [OF srt gids] by blast
  have "a \<in> set ks \<longleftrightarrow> a \<in> set arts \<and> artifact_hardware hw a = v \<and> a \<in> kept_options srt arts lat cnt hw" for a
  proof
    assume a: "a \<in> set ks"
    then have "a \<in> set (property_group arts hw v)" using group_kept(1) [OF srt ks gids] by blast
    with a ks show "a \<in> set arts \<and> artifact_hardware hw a = v \<and> a \<in> kept_options srt arts lat cnt hw"
      unfolding kept_options_def property_group_mem by blast
  next
    assume a: "a \<in> set arts \<and> artifact_hardware hw a = v \<and> a \<in> kept_options srt arts lat cnt hw"
    then obtain v' k where k: "recommend_group srt lat cnt (property_group arts hw v') = Kept k" "a \<in> set k"
      unfolding kept_options_def by blast
    then have "a \<in> set (property_group arts hw v')" using group_kept(1) [OF srt k(1) gids] by blast
    with a have "v' = v" by (simp add: property_group_mem)
    with k ks show "a \<in> set ks" by simp
  qed
  with ks eq show "\<exists>ks. recommend_group srt lat cnt (property_group arts hw v) = Kept ks
      \<and> set ks = {a \<in> set res. artifact_hardware hw a = v}" by auto
qed

text \<open>
  C25. The recommendations are a Pareto front. When every artifact has an id of its own and a positive
  latency, then of two recommended options of one hardware type the cheaper one is the slower one: no
  recommended option is at least as cheap and at least as fast as another one. The recommendations are
  some of the given artifacts, in their order. This holds for every sort that keeps the contract of
  \<open>slices.SortFunc\<close> and every order in which the hardware types are visited.
\<close>

theorem recommended_pareto:
  assumes "sort_contract srt" and "set visit = set (group_values arts hw)"
    and "\<forall>a \<in> set arts. pa_ID a \<noteq> None \<and> positive_latency lat a" and "distinct (map pa_ID arts)"
    and "generateRecommended srt visit arts lat cnt hw = Some res"
    and "a \<in> set res" and "b \<in> set res" and "a \<noteq> b" and "artifact_hardware hw a = artifact_hardware hw b"
  shows "subseq res arts \<and>
    (estimated_cost cnt a < estimated_cost cnt b \<and> fl_less (latency_of lat b d) (latency_of lat a d)
     \<or> estimated_cost cnt b < estimated_cost cnt a \<and> fl_less (latency_of lat a d) (latency_of lat b d))"
proof -
  have ids: "\<forall>a \<in> set arts. pa_ID a \<noteq> None" using assms(3) by blast
  note set = recommended_set [OF assms(1,2) ids assms(4,5)]
  have "a \<in> set arts" using assms(6) set(1) by simp
  then have v: "artifact_hardware hw a \<in> set (group_values arts hw)" by (simp add: group_values_set)
  obtain ks where ks: "recommend_group srt lat cnt (property_group arts hw (artifact_hardware hw a)) = Kept ks"
    "set ks = {x \<in> set res. artifact_hardware hw x = artifact_hardware hw a}"
    using set(2) [OF v] by blast
  have g: "\<forall>x \<in> set (property_group arts hw (artifact_hardware hw a)). pa_ID x \<noteq> None"
    "\<forall>x \<in> set (property_group arts hw (artifact_hardware hw a)). positive_latency lat x"
    using assms(3) by (auto simp: property_group_mem)
  have "sorted_wrt (\<lambda>x y. estimated_cost cnt x < estimated_cost cnt y \<and> fl_less (latency_of lat y d) (latency_of lat x d)) ks"
    using group_kept(2,3) [OF assms(1) ks(1) g(1)] g(2) by (simp add: sorted_wrt_iff_nth_less)
  moreover have "a \<in> set ks" "b \<in> set ks" using assms(6,7,9) ks(2) by auto
  ultimately have "estimated_cost cnt a < estimated_cost cnt b \<and> fl_less (latency_of lat b d) (latency_of lat a d)
     \<or> estimated_cost cnt b < estimated_cost cnt a \<and> fl_less (latency_of lat a d) (latency_of lat b d)"
    using assms(8) by (auto simp: sorted_wrt_iff_nth_less in_set_conv_nth) (metis linorder_neqE_nat)+
  then show ?thesis using set(1) subseq_filter by simp
qed

text \<open>
  No option is left out without a reason. Under the same conditions every artifact whose estimated
  cost is below the largest \<open>int32\<close> has an option of its hardware type that sorts no later, so that it is
  at least as fast, and costs no more, and that is either recommended itself or improves the latency of a
  cheaper recommended option by at most a tenth.
\<close>

theorem recommended_covers:
  assumes "sort_contract srt" and "set visit = set (group_values arts hw)"
    and "\<forall>a \<in> set arts. pa_ID a \<noteq> None \<and> positive_latency lat a" and "distinct (map pa_ID arts)"
    and "generateRecommended srt visit arts lat cnt hw = Some res"
    and "x \<in> set arts" and "estimated_cost cnt x < MaxInt32"
  shows "\<exists>f \<in> set arts. \<exists>k \<in> set res. artifact_hardware hw f = artifact_hardware hw x
    \<and> artifact_hardware hw k = artifact_hardware hw x
    \<and> compare_artifacts lat cnt f x \<le> 0 \<and> estimated_cost cnt f \<le> estimated_cost cnt x
    \<and> (k = f \<or> estimated_cost cnt k < estimated_cost cnt f
         \<and> \<not> fl_less fastEpsilon (improvement (latency_of lat k d) (latency_of lat f d)))"
proof -
  let ?v = "artifact_hardware hw x"
  have ids: "\<forall>a \<in> set arts. pa_ID a \<noteq> None" using assms(3) by blast
  have v: "?v \<in> set (group_values arts hw)" using assms(6) by (simp add: group_values_set)
  obtain ks where ks: "recommend_group srt lat cnt (property_group arts hw ?v) = Kept ks"
    "set ks = {a \<in> set res. artifact_hardware hw a = ?v}"
    using recommended_set(2) [OF assms(1,2) ids assms(4,5) v] by blast
  have g: "\<forall>a \<in> set (property_group arts hw ?v). pa_ID a \<noteq> None" "x \<in> set (property_group arts hw ?v)"
    using assms(3,6) by (auto simp: property_group_mem)
  obtain f k d' where f: "f \<in> set (property_group arts hw ?v)" "k \<in> set ks" "compare_artifacts lat cnt f x \<le> 0"
    "estimated_cost cnt f \<le> estimated_cost cnt x"
    "k = f \<or> estimated_cost cnt k < estimated_cost cnt f
       \<and> \<not> fl_less fastEpsilon (improvement (latency_of lat k d') (latency_of lat f (latency_of lat k d')))"
    using group_kept(4) [OF assms(1) ks(1) g assms(7)] by blast
  have "k \<in> set arts" using f(2) group_kept(1) [OF assms(1) ks(1) g(1)] by (auto simp: property_group_mem)
  then have "positive_latency lat k" "positive_latency lat f" using f(1) assms(3) by (auto simp: property_group_mem)
  then have "latency_of lat k d' = latency_of lat k d" "latency_of lat f (latency_of lat k d') = latency_of lat f d"
    using positive_latency_any(1) by blast+
  with f(5) have "k = f \<or> estimated_cost cnt k < estimated_cost cnt f
       \<and> \<not> fl_less fastEpsilon (improvement (latency_of lat k d) (latency_of lat f d))" by simp
  with f ks(2) show ?thesis by (intro bexI [of _ f] bexI [of _ k]) (auto simp: property_group_mem)
qed

text \<open>
  When every artifact has an id of its own, the order in which the hardware types are visited, which
  Go leaves open, does not matter, and the request ends in a panic (the index \<open>filtered[0]\<close>) exactly if
  for some hardware type every artifact has the largest \<open>int32\<close> as its estimated cost.
\<close>

theorem recommendation_visits:
  assumes "sort_contract srt" and "set visit = set (group_values arts hw)"
    and "set visit' = set (group_values arts hw)"
    and "\<forall>a \<in> set arts. pa_ID a \<noteq> None" and "distinct (map pa_ID arts)"
  shows "generateRecommended srt visit arts lat cnt hw = generateRecommended srt visit' arts lat cnt hw \<and>
    (generateRecommended srt visit arts lat cnt hw = None \<longleftrightarrow>
      (\<exists>b \<in> set arts. \<forall>a \<in> set arts. artifact_hardware hw a = artifact_hardware hw b
         \<longrightarrow> estimated_cost cnt a = MaxInt32))"
proof -
  have "estimated_cost cnt a \<le> MaxInt32" for a
    using to_int32_range [of "extractCustomPropertiesIntValue (pa_Custom a) cnt 1 * extractCustomPropertiesIntValue (pa_Custom a) ''replicas'' 1"]
    by (simp add: estimated_cost_def int32_range_def MaxInt32_def)
  then have "\<not> estimated_cost cnt a < MaxInt32 \<longleftrightarrow> estimated_cost cnt a = MaxInt32" for a
    by (metis less_irrefl order_le_imp_less_or_eq)
  moreover have "(\<exists>x \<in> set (property_group arts hw v). P x) \<longleftrightarrow> (\<exists>x \<in> set arts. artifact_hardware hw x = v \<and> P x)" for v P
    by (auto simp: property_group_mem)
  ultimately show ?thesis
    unfolding recommended_options [OF assms(1,2,4,5)] recommended_options [OF assms(1,3,4,5)]
    by (simp add: group_values_set) blast
qed

subsection \<open>Paging\<close>

lemma after_id_drop:
  assumes "distinct (map pa_ID xs)" "n < length xs" "pa_ID (xs ! n) = Some i"
  shows "after_id i xs = drop (Suc n) xs"
  using assms
proof (induction xs arbitrary: n)
  case (Cons a as)
  show ?case
  proof (cases n)
    case 0
    with Cons.prems show ?thesis by simp
  next
    case (Suc m)
    with Cons.prems have "Some i \<in> pa_ID ` set as" by (metis Suc_less_eq image_eqI length_Cons nth_Cons_Suc nth_mem)
    with Cons.prems have "pa_ID a \<noteq> Some i" by auto
    with Cons Suc show ?thesis by simp
  qed
qed simp

text \<open>A client that follows the tokens of a list of recommendations, for at most \<open>fuel\<close> pages.\<close>

fun recommended_pages :: "nat \<Rightarrow> perf_list \<Rightarrow> int \<Rightarrow> string option \<Rightarrow> perf_artifact list option" where
  "recommended_pages 0 l pageSize token = None"
| "recommended_pages (Suc fuel) l pageSize token =
     (case paginate_list l pageSize token of
        None \<Rightarrow> None
      | Some p \<Rightarrow> if pl_NextPageToken p = [] then Some (pl_Items p)
                  else map_option (\<lambda>xs. pl_Items p @ xs) (recommended_pages fuel l pageSize (Some (pl_NextPageToken p))))"

definition token_at :: "perf_list \<Rightarrow> nat \<Rightarrow> string option" where
  "token_at l n = (if n = 0 then None
     else Some (CreateNextPageToken (\<lambda>_. []) (the (pa_ID (pl_Items l ! (n - 1)))) (TokString [])))"

definition identified :: "perf_artifact list \<Rightarrow> bool" where
  "identified xs = (distinct (map pa_ID xs) \<and>
     (\<forall>a \<in> set xs. \<exists>i. pa_ID a = Some i \<and> int32_range i))"

lemma itoa_length: "int32_range i \<Longrightarrow> length (itoa i) \<le> 700"
proof -
  assume "int32_range i"
  then have "nat i < 10 ^ 10" "nat (- i) < 10 ^ 10" by (auto simp: int32_range_def)
  then show ?thesis
    using dec_digits_length [of "nat i" 10] dec_digits_length [of "nat (- i)" 10] by (auto simp: itoa_def)
qed

lemma token_nonempty: "CreateNextPageToken f i v \<noteq> []"
proof
  assume "CreateNextPageToken f i v = []"
  then have "length (b64_encode (itoa i @ CHR '':'' # token_value_string f v)) = 0" by (simp add: CreateNextPageToken_def)
  then show False by simp
qed

lemma paginate_at:
  assumes "identified (pl_Items l)" "n \<le> length (pl_Items l)" "0 < k"
  shows "\<exists>p. paginate_list l (int k) (token_at l n) = Some p \<and> pl_Items p = take k (drop n (pl_Items l))
    \<and> pl_NextPageToken p = (if n + k < length (pl_Items l) then the (token_at l (n + k)) else [])"
proof -
  let ?xs = "pl_Items l"
  define cur where "cur = (case token_at l n of None \<Rightarrow> None
    | Some t \<Rightarrow> (case DecodeCursor t of Inl _ \<Rightarrow> None | Inr c \<Rightarrow> Some c))"
  have items: "(case cur of None \<Rightarrow> ?xs | Some c \<Rightarrow> after_id (cur_ID c) ?xs) = drop n ?xs"
  proof (cases n)
    case 0
    then show ?thesis by (simp add: cur_def token_at_def)
  next
    case (Suc m)
    then have "?xs ! m \<in> set ?xs" using assms(2) by simp
    then obtain i where i: "pa_ID (?xs ! m) = Some i" "int32_range i" "length (itoa i) \<le> 700"
      using assms(1) itoa_length by (auto simp: identified_def)
    have "DecodeCursor (CreateNextPageToken (\<lambda>_. []) i (TokString [])) = Inr \<lparr>cur_ID = i, cur_Value = []\<rparr>"
      using page_token_roundtrip [of i "\<lambda>_. []" "TokString []"] i by simp
    moreover have "after_id i ?xs = drop n ?xs"
      using after_id_drop [of ?xs m i] i Suc assms by (simp add: identified_def)
    ultimately show ?thesis using Suc i by (simp add: cur_def token_at_def)
  qed
  show ?thesis
  proof (cases "n + k < length ?xs")
    case True
    then have nth: "last (take k (drop n ?xs)) = ?xs ! (n + k - 1)"
      using assms(3) by (subst last_conv_nth) (auto simp: min_def)
    have "?xs ! (n + k - 1) \<in> set ?xs" using True by simp
    then obtain i where i: "pa_ID (?xs ! (n + k - 1)) = Some i" using assms(1) by (auto simp: identified_def)
    have "int k < int (length (drop n ?xs))" using True by simp
    then show ?thesis
      unfolding paginate_list_def Let_def cur_def [symmetric] items
      using True assms(3) nth i by (simp add: token_at_def)
  next
    case False
    then have "\<not> int k < int (length (drop n ?xs))" by simp
    with False show ?thesis
      unfolding paginate_list_def Let_def cur_def [symmetric] items by simp
  qed
qed

lemma recommended_pages_from:
  assumes "identified (pl_Items l)" "0 < k"
  shows "n \<le> length (pl_Items l) \<Longrightarrow> length (pl_Items l) - n < fuel
    \<Longrightarrow> recommended_pages fuel l (int k) (token_at l n) = Some (drop n (pl_Items l))"
proof (induction fuel arbitrary: n)
  case (Suc fuel)
  obtain p where p: "paginate_list l (int k) (token_at l n) = Some p" "pl_Items p = take k (drop n (pl_Items l))"
    "pl_NextPageToken p = (if n + k < length (pl_Items l) then the (token_at l (n + k)) else [])"
    using paginate_at [OF assms(1) Suc.prems(1) assms(2)] by blast
  show ?case
  proof (cases "n + k < length (pl_Items l)")
    case True
    have t: "Some (pl_NextPageToken p) = token_at l (n + k)" "pl_NextPageToken p \<noteq> []"
      using p(3) True assms(2) token_nonempty by (simp_all add: token_at_def)
    have "recommended_pages fuel l (int k) (Some (pl_NextPageToken p)) = Some (drop (n + k) (pl_Items l))"
      unfolding t(1) using Suc.prems True assms(2) by (intro Suc.IH) auto
    with p(1,2) t(2) show ?thesis by (simp add: add.commute [of n k] flip: drop_drop)
  next
    case False
    with p show ?thesis by simp
  qed
qed simp

text \<open>
  Recommendations are paged on their own. For artifacts with ids of their own and a positive page size,
  every page is a run of the list no longer than the page size, and a client that follows the tokens
  receives the whole list, each artifact once and in order.
\<close>

theorem recommended_pages_complete:
  assumes "identified (pl_Items l)" and "0 < pageSize" and "length (pl_Items l) < fuel"
  shows "recommended_pages fuel l pageSize None = Some (pl_Items l)"
proof -
  have "0 < nat pageSize" "int (nat pageSize) = pageSize" using assms(2) by simp_all
  with recommended_pages_from [OF assms(1) this(1), of 0 fuel] assms(3) show ?thesis
    by (simp add: token_at_def)
qed

text \<open>A page size that is not positive ends in a panic as soon as there is an item.\<close>

lemma page_size_panics: "pageSize \<le> 0 \<Longrightarrow> pl_Items l \<noteq> [] \<Longrightarrow> paginate_list l pageSize None = None"
proof -
  assume "pageSize \<le> 0" "pl_Items l \<noteq> []"
  then have "pageSize < int (length (pl_Items l))" by (simp add: le_less_trans)
  with \<open>pageSize \<le> 0\<close> show ?thesis by (simp add: paginate_list_def)
qed

subsection \<open>Where the recommendations go wrong\<close>

text \<open>
  The cheapest option of a hardware type may lack the latency property: it sorts last, is kept by the
  first pass because it is cheaper, and its latency counts as 0 in the second one. The improvement over 0
  is minus infinity for every measured latency, so no measured option of the type is recommended.
\<close>

lemma improvement_over_zero:
  assumes "fl_less (fl_make False 0) l"
  shows "\<not> fl_less (fl_make False 0) (improvement (fl_make False 0) l)"
proof -
  let ?z = "fl_make False 0"
  have z: "\<not> fl_nan ?z" "fl_key ?z = 0" "fl_mag ?z = 0" "\<not> fl_sign ?z" "fl_zero ?z" "\<not> fl_inf ?z" "fl_units ?z = 0"
    by (simp_all add: fl_nan_def fl_key_def fl_zero_def fl_inf_def inf_mag_def fl_units_def)
  from assms have l: "\<not> fl_nan l" "0 < fl_units l" by (simp_all add: fl_less_units z)
  then have sl: "\<not> fl_sign l" using mag_units_nonneg [OF fl_mag_range(1), of l] by (auto simp: fl_units_def split: if_splits)
  have sub: "fl_sub ?z l = (if fl_inf l then fl_neg l else fl_round True (fl_units l) 1)"
    using z l by (simp add: fl_sub_def)
  have neg: "fl_sign (fl_sub ?z l)"
    unfolding sub using sl l fl_mag_range by (simp add: fl_neg_def fl_round_parts)
  have inf: "fl_key (fl_make True inf_mag) < 0" by (simp add: fl_key_def inf_mag_def)
  have nan: "fl_nan NaN" by (simp add: NaN_def fl_nan_def inf_mag_def)
  have "improvement ?z l = NaN \<or> improvement ?z l = fl_make True inf_mag"
    using z neg by (auto simp: improvement_def fl_div_def Let_def)
  then show ?thesis using inf nan by (auto simp: fl_less_def z)
qed

lemma missing_latency_hides:
  assumes "\<forall>a \<in> set fs. positive_latency lat a" "eps \<in> {initialEpsilon, fastEpsilon}"
  shows "meaningful_only lat (fl_of_int 0) eps fs = []"
  using assms
proof (induction fs arbitrary: eps)
  case (Cons a as)
  define eps' where "eps' = (if fl_leq (fl_of_int 0) fastThreshold then fastEpsilon else eps)"
  have e: "eps' \<in> {initialEpsilon, fastEpsilon}" using Cons.prems(2) by (auto simp: eps'_def)
  have "fl_less (fl_make False 0) (latency_of lat a (fl_of_int 0))"
    using Cons.prems(1) positive_latency_any(2) by simp
  then have "\<not> fl_less (fl_make False 0) (improvement (fl_of_int 0) (latency_of lat a (fl_of_int 0)))"
    using improvement_over_zero by simp
  then have "\<not> fl_less eps' (improvement (fl_of_int 0) (latency_of lat a (fl_of_int 0)))"
    using e zero_less_epsilon fl_less_trans by blast
  moreover have "meaningful_only lat (fl_of_int 0) eps' as = []" using Cons e by simp
  ultimately show ?case by (auto simp: Let_def latency_of_def eps'_def split: if_splits)
qed simp

text \<open>
  The estimated cost wraps: two accelerators in each of 2147483647 replicas cost -2, less than every real
  option.
\<close>

lemma cost_wraps:
  "extractCustomPropertiesIntValue props cnt 1 = 2
    \<Longrightarrow> extractCustomPropertiesIntValue props ''replicas'' 1 = MaxInt32
    \<Longrightarrow> estimated_cost cnt \<lparr>pa_ID = i, pa_Custom = props\<rparr> = - 2"
  by (simp add: estimated_cost_def MaxInt32_def to_int32_def)

lemma find_append_found: "find P xs = Some x \<Longrightarrow> find P (xs @ ys) = Some x"
  by (induction xs) auto

text \<open>
  A stored property \<open>replicas\<close> hides the computed one, which is appended behind it.
\<close>

lemma stored_replicas_win:
  assumes "pa_Custom a = Some props" "find (\<lambda>p. sp_Name p = ''replicas'') props = Some p"
  shows "extractCustomPropertiesIntValue (pa_Custom (addTargetRPSCalculations other target rps a)) ''replicas'' d =
    (case sp_Int p of Some n \<Rightarrow> n | None \<Rightarrow> d)"
  using assms by (simp add: addTargetRPSCalculations_def Let_def extractCustomPropertiesIntValue_def named_property_def
      find_append_found)

subsection \<open>Replicas\<close>

lemma quotient_not_nan:
  assumes "fl_finite x" "\<not> fl_zero x" "\<not> fl_nan y"
  shows "\<not> fl_nan (fl_div x y)"
proof -
  have "\<not> fl_nan (fl_make s inf_mag)" "\<not> fl_nan (fl_make s 0)" for s
    by (simp_all add: fl_nan_def inf_mag_def)
  moreover have "\<not> fl_zero y \<Longrightarrow> \<not> fl_nan (fl_round s (\<bar>fl_units x\<bar> * one_units) \<bar>fl_units y\<bar>)" for s
    using fl_units_zero_iff [of y] by (intro fl_round_parts(3)) simp_all
  ultimately show ?thesis
    using assms finite_not_nan [OF assms(1)] fl_excl(2) [of x] by (auto simp: fl_div_def Let_def)
qed

lemma ceil_not_nan: "\<not> fl_nan x \<Longrightarrow> \<not> fl_nan (fl_ceil x)"
proof -
  assume x: "\<not> fl_nan x"
  have "\<not> fl_nan (fl_round s (\<bar>c\<bar> * one_units) 1)" for s c
    by (intro fl_round_parts(3) mult_nonneg_nonneg) simp_all
  then show ?thesis using x by (auto simp: fl_ceil_def simp del: abs_minus_cancel)
qed

lemma MaxInt32_bound: "\<bar>MaxInt32\<bar> < 2 ^ 53" "0 < MaxInt32" "1 \<le> MaxInt32"
  by (simp_all add: MaxInt32_def)

lemma positive_quotient_units:
  assumes "0 < target" "\<bar>target\<bar> < 2 ^ 53" "\<not> fl_nan rps" "\<not> fl_leq rps (fl_of_int 0)"
  shows "0 \<le> fl_units (fl_div (fl_of_int target) rps)"
proof -
  have t: "0 < target" "target < 2 ^ 53" using assms by simp_all
  have r: "0 < fl_units rps" using assms(3,4) by (auto simp: fl_leq_units fl_nan_def fl_units_def inf_mag_def)
  then have sr: "\<not> fl_sign rps" using mag_units_nonneg [OF fl_mag_range(1), of rps] by (auto simp: fl_units_def split: if_splits)
  have pos: "0 \<le> fl_units w" if "\<not> fl_sign w" for w
    using that mag_units_nonneg [OF fl_mag_range(1), of w] by (simp add: fl_units_def)
  have nz: "\<not> fl_zero rps" using r by (simp flip: fl_units_zero_iff)
  have "\<not> fl_sign (fl_div (fl_of_int target) rps)"
    using of_int_parts [OF t] sr nz assms(3) r
    by (auto simp: fl_div_def Let_def inf_mag_def fl_round_parts)
  then show ?thesis by (rule pos)
qed

text \<open>
  The replica calculation. For a positive target and every rate that is a positive number, the number of
  replicas lies between 1 and the largest \<open>int32\<close>, whatever the implementation makes of conversions that
  are out of range; and if the quotient of target and rate (rounded to a \<open>float64\<close>) is no larger than that,
  it is the least number of replicas, at least 1, that reaches the quotient.
\<close>

theorem replicas_sufficient:
  assumes "\<not> fl_nan rps" and "\<not> fl_leq rps (fl_of_int 0)" and "int32_range target" and "0 < target"
  shows "let n = fl_to_int32 other (replica_count target rps); q = fl_div (fl_of_int target) rps
    in 1 \<le> n \<and> n \<le> MaxInt32
      \<and> (fl_leq q (fl_of_int MaxInt32) \<longrightarrow>
          fl_units q \<le> n * one_units \<and> (n = 1 \<or> (n - 1) * one_units < fl_units q))"
proof -
  define q where "q = fl_div (fl_of_int target) rps"
  define r where "r = replica_count target rps"
  have t: "\<bar>target\<bar> < 2 ^ 53" using assms(3) by (auto simp: int32_range_def)
  note tp = of_int_parts [OF assms(4)]
  have "fl_finite (fl_of_int target)" "\<not> fl_zero (fl_of_int target)" using tp t assms(4) by auto
  then have nq: "\<not> fl_nan q" unfolding q_def using assms(1) by (rule quotient_not_nan)
  have nc: "\<not> fl_nan (fl_ceil q)" using nq by (rule ceil_not_nan)
  have fin: "\<not> fl_nan (fl_of_int MaxInt32)" "\<not> fl_nan (fl_of_int 1)" "fl_finite (fl_of_int MaxInt32)" "fl_finite (fl_of_int 1)"
    using MaxInt32_bound finite_not_nan by (simp_all add: fl_of_int_units)
  have M1: "fl_leq (fl_of_int 1) (fl_of_int MaxInt32)" using MaxInt32_bound by (simp add: fl_leq_of_int)
  have r_cases: "r = (if fl_less (fl_of_int MaxInt32) (fl_ceil q) then fl_of_int MaxInt32
     else if fl_less (fl_ceil q) (fl_of_int 1) then fl_of_int 1 else fl_ceil q)"
    by (simp add: r_def replica_count_def q_def)
  have between: "fl_leq (fl_of_int 1) r" "fl_leq r (fl_of_int MaxInt32)"
    using M1 fin nc by (auto simp: r_cases fl_not_less fl_leq_refl)
  have "fl_finite r" using fl_finite_between [OF between fin(4,3)] .
  have tr: "1 \<le> fl_trunc r" "fl_trunc r \<le> MaxInt32"
    using fl_trunc_between [OF between] MaxInt32_bound by simp_all
  then have n: "fl_to_int32 other r = fl_trunc r"
    using \<open>fl_finite r\<close> by (simp add: fl_to_int32_def MaxInt32_def)
  have "fl_units q \<le> fl_trunc r * one_units \<and> (fl_trunc r = 1 \<or> (fl_trunc r - 1) * one_units < fl_units q)"
    if le: "fl_leq q (fl_of_int MaxInt32)"
  proof -
    have u: "0 \<le> fl_units q" "fl_units q \<le> MaxInt32 * one_units"
      using positive_quotient_units [OF assms(4) t assms(1,2)] le MaxInt32_bound
      by (simp_all add: q_def fl_leq_units fl_of_int_units)
    define k where "k = - (- fl_units q div one_units)"
    have "fl_finite q"
    proof -
      have "fl_leq (fl_of_int 0) q" using u(1) nq by (simp only: fl_leq_units) (simp add: fl_of_int_units fl_nan_def inf_mag_def fl_units_def)
      then show ?thesis using fl_finite_between [OF _ le _ fin(3)] by (simp add: fl_finite_def inf_mag_def)
    qed
    then have cu: "fl_units (fl_ceil q) = k * one_units"
      unfolding k_def using u MaxInt32_bound by (intro fl_ceil_units) auto
    have div: "fl_units q \<le> k * one_units" "(k - 1) * one_units < fl_units q"
    proof -
      define D R where "D = - fl_units q div one_units" and "R = - fl_units q mod one_units"
      have "- fl_units q = D * one_units + R" unfolding D_def R_def by simp
      moreover have "0 \<le> R" "R < one_units" unfolding R_def by simp_all
      moreover have "k = - D" by (simp add: k_def D_def)
      ultimately show "fl_units q \<le> k * one_units" "(k - 1) * one_units < fl_units q"
        by (simp_all add: left_diff_distrib)
    qed
    have "\<not> fl_less (fl_of_int MaxInt32) (fl_ceil q)"
    proof
      assume "fl_less (fl_of_int MaxInt32) (fl_ceil q)"
      then have "MaxInt32 * one_units < k * one_units" using MaxInt32_bound cu by (simp add: fl_less_units fl_of_int_units)
      then have "MaxInt32 \<le> k - 1" by simp
      then have "MaxInt32 * one_units \<le> (k - 1) * one_units" by (simp add: mult_right_mono)
      with div(2) u(2) show False by linarith
    qed
    then have rc: "r = fl_of_int 1 \<and> k \<le> 1 \<or> r = fl_ceil q"
      using cu by (auto simp: r_cases fl_less_units fl_of_int_units split: if_splits)
    then show ?thesis
    proof
      assume a: "r = fl_of_int 1 \<and> k \<le> 1"
      then have "fl_trunc r = 1" using fl_of_int_units [of 1] by (simp add: fl_trunc_def)
      moreover have "k * one_units \<le> 1 * one_units" using a by (intro mult_right_mono) auto
      then have "fl_units q \<le> one_units" using div(1) by linarith
      ultimately show ?thesis by simp
    next
      assume a: "r = fl_ceil q"
      have "0 \<le> k * one_units" using div(1) u(1) by linarith
      then have "0 \<le> k" by (metis mult_neg_pos not_less one_units_pos)
      then have "fl_trunc r = k"
        unfolding a fl_trunc_def cu by (cases "k = 0") (simp_all add: sgn_mult abs_mult)
      then show ?thesis using div by simp
    qed
  qed
  with tr n show ?thesis unfolding Let_def r_def [symmetric] q_def [symmetric] by simp
qed

subsection \<open>Examples\<close>

text \<open>
  Three options of one hardware type: one accelerator at 200 ms, two at 100 ms and four at 99 ms. The last
  one is faster than the second by a hundredth only and is left out.
\<close>

definition demo_option :: "int \<Rightarrow> int \<Rightarrow> int \<Rightarrow> perf_artifact" where
  "demo_option i n l = \<lparr>pa_ID = Some i, pa_Custom = Some
     [NewStringProperty ''hw'' ''H'' True, NewIntProperty ''n'' n True, NewDoubleProperty ''l'' (fl_of_int l) True]\<rparr>"

definition demo_options :: "perf_artifact list" where
  "demo_options = [demo_option 1 1 200, demo_option 2 4 99, demo_option 3 2 100]"

lemma demo_option_values [simp]:
  "pa_ID (demo_option i n l) = Some i"
  "extractCustomPropertiesStringValue (pa_Custom (demo_option i n l)) ''hw'' = ''H''"
  "extractCustomPropertiesIntValue (pa_Custom (demo_option i n l)) ''n'' d = n"
  "extractCustomPropertiesDoubleValue (pa_Custom (demo_option i n l)) ''l'' x = fl_of_int l"
  "extractCustomPropertiesIntValue (pa_Custom (demo_option i n l)) ''replicas'' d = d"
  "latency_of ''l'' (demo_option i n l) x = fl_of_int l"
  "positive_latency ''l'' (demo_option i n l) = fl_less (fl_of_int 0) (fl_of_int l)"
  by (simp_all add: demo_option_def extractCustomPropertiesStringValue_def extractCustomPropertiesIntValue_def
      extractCustomPropertiesDoubleValue_def latency_of_def positive_latency_def named_property_def)

lemma demo_cost [simp]: "int32_range n \<Longrightarrow> estimated_cost ''n'' (demo_option i n l) = n"
  by (simp add: estimated_cost_def)

lemma fl_less_zero: "0 < a \<Longrightarrow> a < 2 ^ 53 \<Longrightarrow> fl_less (fl_make False 0) (fl_of_int a)"
  using fl_less_of_int [of 0 a] by simp

lemma demo_compare:
  assumes "0 < l" "l < 2 ^ 53" "0 < l'" "l' < 2 ^ 53" "l \<noteq> l'"
  shows "compare_artifacts ''l'' ''n'' (demo_option i n l) (demo_option i' n' l') = sgn (l - l')"
proof -
  have "sort_latency ''l'' (demo_option i n k) = fl_of_int k" if "0 < k" "k < 2 ^ 53" for i n k
    using that fl_leq_of_int [of k 0] by (simp add: sort_latency_def)
  then show ?thesis
    using assms fl_compare_of_int [of l l'] by (simp add: compare_artifacts_def sgn_if)
qed

lemma demo_improvements:
  "fl_less initialEpsilon (improvement (fl_of_int 200) (fl_of_int 100))"
  "\<not> fl_less fastEpsilon (improvement (fl_of_int 100) (fl_of_int 99))"
proof -
  have "mag_round (100 * one_units) 200 = 0x3FE0000000000000"
    by (subst mag_round_at [where e = 1021 and k = 53]) (simp_all add: round_even_def inf_mag_def)
  then have "improvement (fl_of_int 200) (fl_of_int 100) = fl_make False 0x3FE0000000000000"
    by (simp add: improvement_def fl_sub_of_int fl_div_of_int fl_round_def)
  then show "fl_less initialEpsilon (improvement (fl_of_int 200) (fl_of_int 100))"
    by (simp add: fl_less_def fl_nan_def fl_key_def inf_mag_def)
  have "mag_round (1 * one_units) 100 = 0x3F847AE147AE147B"
    by (subst mag_round_at [where e = 1015 and k = 59]) (simp_all add: round_even_def inf_mag_def)
  then have "improvement (fl_of_int 100) (fl_of_int 99) = fl_make False 0x3F847AE147AE147B"
    using fl_div_of_int [of 1 100] by (simp add: improvement_def fl_sub_of_int fl_round_def)
  then show "\<not> fl_less fastEpsilon (improvement (fl_of_int 100) (fl_of_int 99))"
    by (simp add: fl_less_def fl_nan_def fl_key_def inf_mag_def)
qed

lemma demo_recommended:
  "generateRecommended insertion_sort [''H''] demo_options ''l'' ''n'' ''hw'' = Some [demo_option 1 1 200, demo_option 3 2 100]"
proof -
  have group: "property_group demo_options ''hw'' ''H'' = demo_options"
    by (simp add: property_group_def demo_options_def)
  have sorted: "insertion_sort (compare_artifacts ''l'' ''n'') demo_options =
      [demo_option 2 4 99, demo_option 3 2 100, demo_option 1 1 200]"
    by (simp add: insertion_sort_def demo_options_def demo_compare)
  have "cheaper_only ''n'' MaxInt32 [demo_option 2 4 99, demo_option 3 2 100, demo_option 1 1 200] =
      [demo_option 2 4 99, demo_option 3 2 100, demo_option 1 1 200]"
    by (simp add: MaxInt32_def int32_range_def)
  moreover have "meaningful_only ''l'' (fl_of_int 200) initialEpsilon [demo_option 3 2 100, demo_option 2 4 99] =
      [demo_option 3 2 100]"
    using demo_improvements by (simp add: Let_def fastThreshold_def fl_leq_of_int)
  ultimately have "recommend_group insertion_sort ''l'' ''n'' (property_group demo_options ''hw'' ''H'') =
      Kept [demo_option 1 1 200, demo_option 3 2 100]"
    unfolding group recommend_group_def sorted by simp
  then show ?thesis by (simp add: generateRecommended_def) (simp add: demo_options_def)
qed

lemma demo_conditions:
  "set [''H''] = set (group_values demo_options ''hw'')"
  "\<forall>a \<in> set demo_options. pa_ID a \<noteq> None \<and> positive_latency ''l'' a"
  "distinct (map pa_ID demo_options)" "set demo_options = {demo_option 1 1 200, demo_option 2 4 99, demo_option 3 2 100}"
  by (simp_all add: group_values_def demo_options_def fl_less_zero)

lemma demo_different: "demo_option 1 1 200 \<noteq> demo_option 3 2 100"
  by (metis demo_option_values(1) option.inject one_eq_numeral_iff semiring_norm(84))

theorem recommended_pareto_witness:
  "estimated_cost ''n'' (demo_option 1 1 200) < estimated_cost ''n'' (demo_option 3 2 100)
   \<and> fl_less (latency_of ''l'' (demo_option 3 2 100) 0) (latency_of ''l'' (demo_option 1 1 200) 0)"
  using recommended_pareto [OF inserted.sort_contract_axioms demo_conditions(1,2,3) demo_recommended, of "demo_option 1 1 200" "demo_option 3 2 100" 0]
    demo_different by (simp add: artifact_hardware_def int32_range_def)

theorem recommended_covers_witness:
  "\<exists>f \<in> set demo_options. \<exists>k \<in> {demo_option 1 1 200, demo_option 3 2 100}. artifact_hardware ''hw'' f = ''H''
    \<and> artifact_hardware ''hw'' k = ''H''
    \<and> compare_artifacts ''l'' ''n'' f (demo_option 2 4 99) \<le> 0 \<and> estimated_cost ''n'' f \<le> 4
    \<and> (k = f \<or> estimated_cost ''n'' k < estimated_cost ''n'' f
         \<and> \<not> fl_less fastEpsilon (improvement (latency_of ''l'' k 0) (latency_of ''l'' f 0)))"
  using recommended_covers [OF inserted.sort_contract_axioms demo_conditions(1,2,3) demo_recommended, of "demo_option 2 4 99" 0]
  by (simp add: demo_conditions(4) artifact_hardware_def MaxInt32_def int32_range_def)

theorem recommendation_visits_witness:
  "generateRecommended insertion_sort [''H''] demo_options ''l'' ''n'' ''hw''
     = generateRecommended insertion_sort [''H'', ''H''] demo_options ''l'' ''n'' ''hw''"
  using recommendation_visits [OF inserted.sort_contract_axioms demo_conditions(1), where visit' = "[''H'', ''H'']"]
    demo_conditions by simp

theorem recommended_pages_complete_witness:
  "recommended_pages 4 \<lparr>pl_Items = demo_options, pl_NextPageToken = [], pl_PageSize = 0, pl_Size = 3\<rparr> 2 None = Some demo_options"
  using recommended_pages_complete [of "\<lparr>pl_Items = demo_options, pl_NextPageToken = [], pl_PageSize = 0, pl_Size = 3\<rparr>" 2 4]
  by (simp add: identified_def demo_options_def int32_range_def)

theorem replicas_sufficient_witness:
  "let n = fl_to_int32 (\<lambda>_. 0) (replica_count 100 (fl_of_int 7)); q = fl_div (fl_of_int 100) (fl_of_int 7)
    in 1 \<le> n \<and> n \<le> MaxInt32
      \<and> (fl_leq q (fl_of_int MaxInt32) \<longrightarrow>
          fl_units q \<le> n * one_units \<and> (n = 1 \<or> (n - 1) * one_units < fl_units q))"
proof -
  have "\<not> fl_nan (fl_of_int 7)" "\<not> fl_leq (fl_of_int 7) (fl_of_int 0)"
    using of_int_parts(5) [of 7] fl_leq_of_int [of 7 0] by simp_all
  then show ?thesis by (rule replicas_sufficient) (simp_all add: int32_range_def)
qed

end
