(* ===== verification/Property_Mapping.thy ===== *)
theory Property_Mapping
  imports Sql_Builder
begin

text \<open>
  Where each filterable property of each entity type is stored
  (\<open>internal/platform/db/filter/property_mapping.go\<close>, \<open>internal/db/filter/rest_entity_mapping.go\<close>, and
  the \<open>entity_mappings*.go\<close> of the catalog plugins). \<open>EntityMappingFunctions\<close> with its optional
  extension \<open>EqualityExpander\<close> is the interface the query builder works over: the record
  \<open>entity_mapping\<close>, with the laws the builder relies on as the locale \<open>entity_mapping_laws\<close>, which is
  interpreted here for every mapping of the program.
\<close>

subsection \<open>Value types and locations\<close>

definition StringValueType :: string where "StringValueType = ''string_value''"
definition DoubleValueType :: string where "DoubleValueType = ''double_value''"
definition IntValueType :: string where "IntValueType = ''int_value''"
definition BoolValueType :: string where "BoolValueType = ''bool_value''"
definition ArrayValueType :: string where "ArrayValueType = ''array_value''"

lemmas value_type_defs =
  StringValueType_def DoubleValueType_def IntValueType_def BoolValueType_def ArrayValueType_def

definition value_types :: "string list" where
  "value_types = [StringValueType, DoubleValueType, IntValueType, BoolValueType, ArrayValueType]"

datatype property_location = EntityTable | PropertyTable | Custom | RelatedEntity

text \<open>The constants of \<open>EntityType\<close> and \<open>RelatedEntityType\<close>.\<close>

definition EntityTypeContext :: string where "EntityTypeContext = ''context''"
definition EntityTypeArtifact :: string where "EntityTypeArtifact = ''artifact''"
definition EntityTypeExecution :: string where "EntityTypeExecution = ''execution''"
definition RelatedEntityArtifact :: string where "RelatedEntityArtifact = ''artifact''"

lemmas entity_type_defs =
  EntityTypeContext_def EntityTypeArtifact_def EntityTypeExecution_def RelatedEntityArtifact_def

record property_definition =
  pd_Location :: property_location
  pd_ValueType :: string
  pd_Column :: string
  pd_RelatedEntityType :: string
  pd_RelatedProperty :: string
  pd_JoinTable :: string

text \<open>The three shapes of struct literal the sources use.\<close>

definition entityColumn :: "string \<Rightarrow> string \<Rightarrow> property_definition" where
  "entityColumn vt col = \<lparr>pd_Location = EntityTable, pd_ValueType = vt, pd_Column = col,
     pd_RelatedEntityType = [], pd_RelatedProperty = [], pd_JoinTable = []\<rparr>"

definition propertyColumn :: "string \<Rightarrow> string \<Rightarrow> property_definition" where
  "propertyColumn vt col = (entityColumn vt col)\<lparr>pd_Location := PropertyTable\<rparr>"

definition customFallback :: "string \<Rightarrow> property_definition" where
  "customFallback propertyName = (entityColumn StringValueType propertyName)\<lparr>pd_Location := Custom\<rparr>"

definition relatedArtifactProperty :: "string \<Rightarrow> property_definition" where
  "relatedArtifactProperty path = \<lparr>pd_Location = RelatedEntity, pd_ValueType = [], pd_Column = path,
     pd_RelatedEntityType = RelatedEntityArtifact, pd_RelatedProperty = path,
     pd_JoinTable = ''Attribution''\<rparr>"

lemmas property_definition_defs =
  propertyColumn_def entityColumn_def customFallback_def relatedArtifactProperty_def

type_synonym property_map = "(string \<times> property_definition) list"

subsection \<open>The platform's maps\<close>

definition contextPropertyMap :: "property_map" where
  "contextPropertyMap =
     [(''id'', entityColumn IntValueType ''id''),
      (''name'', entityColumn StringValueType ''name''),
      (''externalId'', entityColumn StringValueType ''external_id''),
      (''createTimeSinceEpoch'', entityColumn IntValueType ''create_time_since_epoch''),
      (''lastUpdateTimeSinceEpoch'', entityColumn IntValueType ''last_update_time_since_epoch''),
      (''registeredModelId'', propertyColumn IntValueType ''registered_model_id''),
      (''modelVersionId'', propertyColumn IntValueType ''model_version_id''),
      (''servingEnvironmentId'', propertyColumn IntValueType ''serving_environment_id''),
      (''experimentId'', propertyColumn IntValueType ''experiment_id''),
      (''runtime'', propertyColumn StringValueType ''runtime''),
      (''desiredState'', propertyColumn StringValueType ''desired_state''),
      (''state'', propertyColumn StringValueType ''state''),
      (''owner'', propertyColumn StringValueType ''owner''),
      (''author'', propertyColumn StringValueType ''author''),
      (''status'', propertyColumn StringValueType ''status''),
      (''endTimeSinceEpoch'', propertyColumn StringValueType ''end_time_since_epoch''),
      (''startTimeSinceEpoch'', propertyColumn StringValueType ''start_time_since_epoch'')]"

definition artifactPropertyMap :: "property_map" where
  "artifactPropertyMap =
     [(''id'', entityColumn IntValueType ''id''),
      (''name'', entityColumn StringValueType ''name''),
      (''externalId'', entityColumn StringValueType ''external_id''),
      (''createTimeSinceEpoch'', entityColumn IntValueType ''create_time_since_epoch''),
      (''lastUpdateTimeSinceEpoch'', entityColumn IntValueType ''last_update_time_since_epoch''),
      (''uri'', entityColumn StringValueType ''uri''),
      (''state'', entityColumn IntValueType ''state''),
      (''modelFormatName'', propertyColumn StringValueType ''model_format_name''),
      (''modelFormatVersion'', propertyColumn StringValueType ''model_format_version''),
      (''storageKey'', propertyColumn StringValueType ''storage_key''),
      (''storagePath'', propertyColumn StringValueType ''storage_path''),
      (''serviceAccountName'', propertyColumn StringValueType ''service_account_name''),
      (''modelSourceKind'', propertyColumn StringValueType ''model_source_kind''),
      (''modelSourceClass'', propertyColumn StringValueType ''model_source_class''),
      (''modelSourceGroup'', propertyColumn StringValueType ''model_source_group''),
      (''modelSourceId'', propertyColumn StringValueType ''model_source_id''),
      (''modelSourceName'', propertyColumn StringValueType ''model_source_name''),
      (''value'', propertyColumn DoubleValueType ''value''),
      (''timestamp'', propertyColumn IntValueType ''timestamp''),
      (''step'', propertyColumn IntValueType ''step''),
      (''parameterType'', propertyColumn StringValueType ''parameter_type''),
      (''digest'', propertyColumn StringValueType ''digest''),
      (''sourceType'', propertyColumn StringValueType ''source_type''),
      (''source'', propertyColumn StringValueType ''source''),
      (''schema'', propertyColumn StringValueType ''schema''),
      (''profile'', propertyColumn StringValueType ''profile''),
      (''experimentId'', propertyColumn IntValueType ''experiment_id''),
      (''experimentRunId'', propertyColumn IntValueType ''experiment_run_id'')]"

definition executionPropertyMap :: "property_map" where
  "executionPropertyMap =
     [(''id'', entityColumn IntValueType ''id''),
      (''name'', entityColumn StringValueType ''name''),
      (''externalId'', entityColumn StringValueType ''external_id''),
      (''createTimeSinceEpoch'', entityColumn IntValueType ''create_time_since_epoch''),
      (''lastUpdateTimeSinceEpoch'', entityColumn IntValueType ''last_update_time_since_epoch''),
      (''lastKnownState'', entityColumn IntValueType ''last_known_state''),
      (''modelVersionId'', propertyColumn IntValueType ''model_version_id''),
      (''inferenceServiceId'', propertyColumn IntValueType ''inference_service_id''),
      (''registeredModelId'', propertyColumn IntValueType ''registered_model_id''),
      (''servingEnvironmentId'', propertyColumn IntValueType ''serving_environment_id'')]"

definition getEntityPropertyMap :: "string \<Rightarrow> property_map" where
  "getEntityPropertyMap entityType =
     (if entityType = EntityTypeContext then contextPropertyMap
      else if entityType = EntityTypeArtifact then artifactPropertyMap
      else if entityType = EntityTypeExecution then executionPropertyMap
      else contextPropertyMap)"

definition GetPropertyDefinition :: "string \<Rightarrow> string \<Rightarrow> property_definition" where
  "GetPropertyDefinition entityType propertyName =
     (case map_of (getEntityPropertyMap entityType) propertyName of
        Some d \<Rightarrow> d | None \<Rightarrow> customFallback propertyName)"

subsection \<open>The registry's REST entity types\<close>

definition RestEntityRegisteredModel :: string where "RestEntityRegisteredModel = ''RegisteredModel''"
definition RestEntityModelVersion :: string where "RestEntityModelVersion = ''ModelVersion''"
definition RestEntityInferenceService :: string where "RestEntityInferenceService = ''InferenceService''"
definition RestEntityServingEnvironment :: string where "RestEntityServingEnvironment = ''ServingEnvironment''"
definition RestEntityExperiment :: string where "RestEntityExperiment = ''Experiment''"
definition RestEntityExperimentRun :: string where "RestEntityExperimentRun = ''ExperimentRun''"
definition RestEntityModelArtifact :: string where "RestEntityModelArtifact = ''ModelArtifact''"
definition RestEntityDocArtifact :: string where "RestEntityDocArtifact = ''DocArtifact''"
definition RestEntityDataSet :: string where "RestEntityDataSet = ''DataSet''"
definition RestEntityMetric :: string where "RestEntityMetric = ''Metric''"
definition RestEntityParameter :: string where "RestEntityParameter = ''Parameter''"
definition RestEntityServeModel :: string where "RestEntityServeModel = ''ServeModel''"

lemmas rest_entity_defs =
  RestEntityRegisteredModel_def RestEntityModelVersion_def RestEntityInferenceService_def RestEntityServingEnvironment_def
  RestEntityExperiment_def RestEntityExperimentRun_def RestEntityModelArtifact_def RestEntityDocArtifact_def
  RestEntityDataSet_def RestEntityMetric_def RestEntityParameter_def RestEntityServeModel_def

definition isChildEntity :: "string \<Rightarrow> bool" where
  "isChildEntity entityType =
     (entityType \<notin> {RestEntityRegisteredModel, RestEntityExperiment, RestEntityServingEnvironment})"

definition RestEntityPropertyMap :: "(string \<times> string list) list" where
  "RestEntityPropertyMap =
     [(RestEntityRegisteredModel,
        [''id'', ''name'', ''externalId'', ''createTimeSinceEpoch'',
         ''lastUpdateTimeSinceEpoch'', ''state'', ''owner'']),
      (RestEntityModelVersion,
        [''id'', ''name'', ''externalId'', ''createTimeSinceEpoch'',
         ''lastUpdateTimeSinceEpoch'', ''registeredModelId'', ''state'', ''author'']),
      (RestEntityInferenceService,
        [''id'', ''name'', ''externalId'', ''createTimeSinceEpoch'',
         ''lastUpdateTimeSinceEpoch'', ''registeredModelId'', ''modelVersionId'',
         ''servingEnvironmentId'', ''runtime'', ''desiredState'']),
      (RestEntityServingEnvironment,
        [''id'', ''name'', ''externalId'', ''createTimeSinceEpoch'',
         ''lastUpdateTimeSinceEpoch'']),
      (RestEntityExperiment,
        [''id'', ''name'', ''externalId'', ''createTimeSinceEpoch'',
         ''lastUpdateTimeSinceEpoch'', ''state'', ''owner'']),
      (RestEntityExperimentRun,
        [''id'', ''name'', ''externalId'', ''createTimeSinceEpoch'',
         ''lastUpdateTimeSinceEpoch'', ''experimentId'', ''startTimeSinceEpoch'',
         ''endTimeSinceEpoch'', ''status'', ''state'', ''owner'']),
      (RestEntityModelArtifact,
        [''id'', ''name'', ''externalId'', ''createTimeSinceEpoch'',
         ''lastUpdateTimeSinceEpoch'', ''uri'', ''state'', ''modelFormatName'',
         ''modelFormatVersion'', ''storageKey'', ''storagePath'', ''serviceAccountName'',
         ''modelSourceKind'', ''modelSourceClass'', ''modelSourceGroup'',
         ''modelSourceId'', ''modelSourceName'', ''experimentId'', ''experimentRunId'']),
      (RestEntityDocArtifact,
        [''id'', ''name'', ''externalId'', ''createTimeSinceEpoch'',
         ''lastUpdateTimeSinceEpoch'', ''uri'', ''state'', ''experimentId'',
         ''experimentRunId'']),
      (RestEntityDataSet,
        [''id'', ''name'', ''externalId'', ''createTimeSinceEpoch'',
         ''lastUpdateTimeSinceEpoch'', ''uri'', ''state'', ''digest'', ''sourceType'',
         ''source'', ''schema'', ''profile'', ''experimentId'', ''experimentRunId'']),
      (RestEntityMetric,
        [''id'', ''name'', ''externalId'', ''createTimeSinceEpoch'',
         ''lastUpdateTimeSinceEpoch'', ''uri'', ''state'', ''value'', ''timestamp'',
         ''step'', ''experimentId'', ''experimentRunId'']),
      (RestEntityParameter,
        [''id'', ''name'', ''externalId'', ''createTimeSinceEpoch'',
         ''lastUpdateTimeSinceEpoch'', ''uri'', ''state'', ''value'', ''parameterType'',
         ''experimentId'', ''experimentRunId'']),
      (RestEntityServeModel,
        [''id'', ''name'', ''externalId'', ''createTimeSinceEpoch'',
         ''lastUpdateTimeSinceEpoch'', ''lastKnownState'', ''modelVersionId'',
         ''inferenceServiceId'', ''registeredModelId'', ''servingEnvironmentId''])]"

definition GetMLMDEntityType :: "string \<Rightarrow> string" where
  "GetMLMDEntityType r =
     (if r \<in> {RestEntityRegisteredModel, RestEntityModelVersion, RestEntityInferenceService,
             RestEntityServingEnvironment, RestEntityExperiment, RestEntityExperimentRun}
      then EntityTypeContext
      else if r \<in> {RestEntityModelArtifact, RestEntityDocArtifact, RestEntityDataSet,
                  RestEntityMetric, RestEntityParameter}
      then EntityTypeArtifact
      else if r = RestEntityServeModel then EntityTypeExecution
      else EntityTypeContext)"

definition GetPropertyDefinitionForRestEntity :: "string \<Rightarrow> string \<Rightarrow> property_definition" where
  "GetPropertyDefinitionForRestEntity restEntityType propertyName =
     (case map_of RestEntityPropertyMap restEntityType of
        Some allowedProperties \<Rightarrow>
          if propertyName \<in> set allowedProperties
          then GetPropertyDefinition (GetMLMDEntityType restEntityType) propertyName
          else customFallback propertyName
      | None \<Rightarrow> customFallback propertyName)"

subsection \<open>The mapping interface\<close>

text \<open>
  A value of \<open>EntityMappingFunctions\<close>. \<open>em_expand\<close> is \<open>None\<close> for a type without the method
  \<open>GetEqualityExpansion\<close>; the inner option is its pair of a pattern and the flag.
\<close>

type_synonym equality_expander = "string \<Rightarrow> string \<Rightarrow> go_any \<Rightarrow> go_any option"

record entity_mapping =
  em_mlmd :: "string \<Rightarrow> string"
  em_prop :: "string \<Rightarrow> string \<Rightarrow> property_definition"
  em_child :: "string \<Rightarrow> bool"
  em_expand :: "equality_expander option"

definition defaultEntityMappings :: entity_mapping where
  "defaultEntityMappings = \<lparr>em_mlmd = GetMLMDEntityType,
     em_prop = GetPropertyDefinitionForRestEntity, em_child = isChildEntity, em_expand = None\<rparr>"

subsection \<open>The catalog plugins' maps\<close>

definition catalogModelProperties :: "property_map" where
  "catalogModelProperties =
     [(''id'', entityColumn IntValueType ''id''),
      (''name'', entityColumn StringValueType ''name''),
      (''externalId'', entityColumn StringValueType ''external_id''),
      (''createTimeSinceEpoch'', entityColumn IntValueType ''create_time_since_epoch''),
      (''lastUpdateTimeSinceEpoch'', entityColumn IntValueType ''last_update_time_since_epoch''),
      (''source_id'', propertyColumn StringValueType ''source_id''),
      (''description'', propertyColumn StringValueType ''description''),
      (''owner'', propertyColumn StringValueType ''owner''),
      (''state'', propertyColumn StringValueType ''state''),
      (''language'', propertyColumn ArrayValueType ''language''),
      (''library_name'', propertyColumn StringValueType ''library_name''),
      (''license_link'', propertyColumn StringValueType ''license_link''),
      (''license'', propertyColumn StringValueType ''license''),
      (''logo'', propertyColumn StringValueType ''logo''),
      (''maturity'', propertyColumn StringValueType ''maturity''),
      (''provider'', propertyColumn StringValueType ''provider''),
      (''readme'', propertyColumn StringValueType ''readme''),
      (''tasks'', propertyColumn ArrayValueType ''tasks''),
      (''tags'', propertyColumn ArrayValueType ''tags''),
      (''verifiedSource'', propertyColumn BoolValueType ''verifiedSource''),
      (''validated_tasks'', propertyColumn ArrayValueType ''validated_tasks''),
      (''serving_config'', propertyColumn StringValueType ''serving_config'')]"

definition mcpServerProperties :: "property_map" where
  "mcpServerProperties =
     [(''id'', entityColumn IntValueType ''id''),
      (''name'', propertyColumn StringValueType ''base_name''),
      (''externalId'', entityColumn StringValueType ''external_id''),
      (''createTimeSinceEpoch'', entityColumn IntValueType ''create_time_since_epoch''),
      (''lastUpdateTimeSinceEpoch'', entityColumn IntValueType ''last_update_time_since_epoch''),
      (''source_id'', propertyColumn StringValueType ''source_id''),
      (''base_name'', propertyColumn StringValueType ''base_name''),
      (''displayName'', propertyColumn StringValueType ''displayName''),
      (''description'', propertyColumn StringValueType ''description''),
      (''provider'', propertyColumn StringValueType ''provider''),
      (''license'', propertyColumn StringValueType ''license''),
      (''license_link'', propertyColumn StringValueType ''license_link''),
      (''logo'', propertyColumn StringValueType ''logo''),
      (''readme'', propertyColumn StringValueType ''readme''),
      (''version'', propertyColumn StringValueType ''version''),
      (''tags'', propertyColumn ArrayValueType ''tags''),
      (''transports'', propertyColumn ArrayValueType ''transports''),
      (''deploymentMode'', propertyColumn StringValueType ''deploymentMode''),
      (''documentationUrl'', propertyColumn StringValueType ''documentationUrl''),
      (''repositoryUrl'', propertyColumn StringValueType ''repositoryUrl''),
      (''sourceCode'', propertyColumn StringValueType ''sourceCode''),
      (''publishedDate'', propertyColumn StringValueType ''publishedDate''),
      (''lastUpdated'', propertyColumn StringValueType ''lastUpdated''),
      (''verifiedSource'', propertyColumn BoolValueType ''verifiedSource''),
      (''secureEndpoint'', propertyColumn BoolValueType ''secureEndpoint''),
      (''sast'', propertyColumn BoolValueType ''sast''),
      (''readOnlyTools'', propertyColumn BoolValueType ''readOnlyTools''),
      (''endpoints'', propertyColumn StringValueType ''endpoints''),
      (''artifacts'', propertyColumn StringValueType ''artifacts''),
      (''runtimeMetadata'', propertyColumn StringValueType ''runtimeMetadata''),
      (''serverJson'', propertyColumn StringValueType ''serverJson'')]"

definition mcpServerToolProperties :: "property_map" where
  "mcpServerToolProperties =
     [(''id'', entityColumn IntValueType ''id''),
      (''name'', entityColumn StringValueType ''name''),
      (''createTimeSinceEpoch'', entityColumn IntValueType ''create_time_since_epoch''),
      (''lastUpdateTimeSinceEpoch'', entityColumn IntValueType ''last_update_time_since_epoch''),
      (''description'', propertyColumn StringValueType ''description''),
      (''accessType'', propertyColumn StringValueType ''accessType'')]"

definition skillProperties :: "property_map" where
  "skillProperties =
     [(''id'', entityColumn IntValueType ''id''),
      (''externalId'', entityColumn StringValueType ''external_id''),
      (''createTimeSinceEpoch'', entityColumn IntValueType ''create_time_since_epoch''),
      (''lastUpdateTimeSinceEpoch'', entityColumn IntValueType ''last_update_time_since_epoch''),
      (''name'', propertyColumn StringValueType ''name''),
      (''source_id'', propertyColumn StringValueType ''source_id''),
      (''description'', propertyColumn StringValueType ''description''),
      (''repository'', propertyColumn StringValueType ''repository''),
      (''path'', propertyColumn StringValueType ''path''),
      (''version'', propertyColumn StringValueType ''version''),
      (''resolvedCommit'', propertyColumn StringValueType ''resolvedCommit''),
      (''trustTier'', propertyColumn StringValueType ''trustTier''),
      (''provider'', propertyColumn StringValueType ''provider''),
      (''category'', propertyColumn StringValueType ''category''),
      (''license'', propertyColumn StringValueType ''license''),
      (''author'', propertyColumn StringValueType ''author''),
      (''compatibility'', propertyColumn StringValueType ''compatibility''),
      (''readme'', propertyColumn StringValueType ''readme''),
      (''bodyLineCount'', propertyColumn IntValueType ''bodyLineCount''),
      (''labels'', propertyColumn ArrayValueType ''labels''),
      (''allowedTools'', propertyColumn ArrayValueType ''allowedTools''),
      (''supportingFiles'', propertyColumn ArrayValueType ''supportingFiles'')]"

definition agentProperties :: "property_map" where
  "agentProperties =
     [(''id'', entityColumn IntValueType ''id''),
      (''name'', entityColumn StringValueType ''name''),
      (''externalId'', entityColumn StringValueType ''external_id''),
      (''createTimeSinceEpoch'', entityColumn IntValueType ''create_time_since_epoch''),
      (''lastUpdateTimeSinceEpoch'', entityColumn IntValueType ''last_update_time_since_epoch''),
      (''displayName'', propertyColumn StringValueType ''displayName''),
      (''description'', propertyColumn StringValueType ''description''),
      (''framework'', propertyColumn StringValueType ''framework''),
      (''repositoryUrl'', propertyColumn StringValueType ''repositoryUrl''),
      (''labels'', propertyColumn ArrayValueType ''labels'')]"

definition servingRuntimeProperties :: "property_map" where
  "servingRuntimeProperties =
     [(''id'', entityColumn IntValueType ''id''),
      (''name'', entityColumn StringValueType ''name''),
      (''externalId'', entityColumn StringValueType ''external_id''),
      (''createTimeSinceEpoch'', entityColumn IntValueType ''create_time_since_epoch''),
      (''lastUpdateTimeSinceEpoch'', entityColumn IntValueType ''last_update_time_since_epoch''),
      (''source_id'', propertyColumn StringValueType ''source_id''),
      (''displayName'', propertyColumn StringValueType ''displayName''),
      (''description'', propertyColumn StringValueType ''description''),
      (''provider'', propertyColumn StringValueType ''provider''),
      (''readme'', propertyColumn StringValueType ''readme''),
      (''logo'', propertyColumn StringValueType ''logo''),
      (''license'', propertyColumn StringValueType ''license''),
      (''licenseLink'', propertyColumn StringValueType ''licenseLink''),
      (''documentationUrl'', propertyColumn StringValueType ''documentationUrl''),
      (''repositoryUrl'', propertyColumn StringValueType ''repositoryUrl''),
      (''tags'', propertyColumn ArrayValueType ''tags''),
      (''supportedModelFormats'', propertyColumn ArrayValueType ''supportedModelFormats''),
      (''capabilities'', propertyColumn StringValueType ''capabilities''),
      (''capabilities.requiresGPU'', propertyColumn BoolValueType ''capabilities.requiresGPU''),
      (''capabilities.multiModel'', propertyColumn BoolValueType ''capabilities.multiModel''),
      (''capabilities.supportedAccelerators'', propertyColumn ArrayValueType ''capabilities.supportedAccelerators''),
      (''versionCount'', propertyColumn IntValueType ''versionCount''),
      (''publishedDate'', propertyColumn StringValueType ''publishedDate''),
      (''lastUpdated'', propertyColumn StringValueType ''lastUpdated'')]"

definition servingRuntimeVersionProperties :: "property_map" where
  "servingRuntimeVersionProperties =
     [(''id'', entityColumn IntValueType ''id''),
      (''name'', entityColumn StringValueType ''name''),
      (''externalId'', entityColumn StringValueType ''external_id''),
      (''createTimeSinceEpoch'', entityColumn IntValueType ''create_time_since_epoch''),
      (''lastUpdateTimeSinceEpoch'', entityColumn IntValueType ''last_update_time_since_epoch''),
      (''uri'', entityColumn StringValueType ''uri''),
      (''state'', entityColumn StringValueType ''state''),
      (''source_id'', propertyColumn StringValueType ''source_id''),
      (''artifactType'', propertyColumn StringValueType ''artifactType''),
      (''version'', propertyColumn StringValueType ''version''),
      (''image'', propertyColumn StringValueType ''image''),
      (''supportLevel'', propertyColumn StringValueType ''supportLevel''),
      (''minimumRHOAIVersion'', propertyColumn StringValueType ''minimumRHOAIVersion''),
      (''supportedModelFormats'', propertyColumn ArrayValueType ''supportedModelFormats''),
      (''protocolVersions'', propertyColumn ArrayValueType ''protocolVersions''),
      (''recommendedResources'', propertyColumn StringValueType ''recommendedResources''),
      (''defaultArgs'', propertyColumn ArrayValueType ''defaultArgs''),
      (''env'', propertyColumn ArrayValueType ''env''),
      (''servingRuntimeTemplate'', propertyColumn StringValueType ''servingRuntimeTemplate''),
      (''llmInferenceServiceConfig'', propertyColumn StringValueType ''llmInferenceServiceConfig''),
      (''deprecated'', propertyColumn BoolValueType ''deprecated''),
      (''publishedDate'', propertyColumn StringValueType ''publishedDate'')]"

definition catalogArtifactProperties :: "property_map" where
  "catalogArtifactProperties =
     [(''id'', entityColumn IntValueType ''id''),
      (''name'', entityColumn StringValueType ''name''),
      (''externalId'', entityColumn StringValueType ''external_id''),
      (''createTimeSinceEpoch'', entityColumn IntValueType ''create_time_since_epoch''),
      (''lastUpdateTimeSinceEpoch'', entityColumn IntValueType ''last_update_time_since_epoch''),
      (''uri'', entityColumn StringValueType ''uri''),
      (''state'', entityColumn StringValueType ''state''),
      (''artifactType'', propertyColumn StringValueType ''artifactType'')]"

text \<open>The lookup most plugins share: the plugin's own table, then the custom fallback.\<close>

definition table_lookup :: "property_map \<Rightarrow> string \<Rightarrow> property_definition" where
  "table_lookup props propertyName =
     (case map_of props propertyName of Some d \<Rightarrow> d | None \<Rightarrow> customFallback propertyName)"

definition catalogModel_property :: "string \<Rightarrow> property_definition" where
  "catalogModel_property propertyName =
     (case map_of catalogModelProperties propertyName of
        Some d \<Rightarrow> d
      | None \<Rightarrow> (case cutPrefix propertyName ''artifacts.'' of
                   Some path \<Rightarrow> relatedArtifactProperty path
                 | None \<Rightarrow> customFallback propertyName))"

fun escapeLike :: "string \<Rightarrow> string" where
  "escapeLike [] = []"
| "escapeLike (c # s) =
     (if c = CHR 0x5C \<or> c = CHR ''%'' \<or> c = CHR ''_'' then CHR 0x5C # c # escapeLike s
      else c # escapeLike s)"

definition catalogModel_expand :: equality_expander where
  "catalogModel_expand r propertyName v =
     (case v of
        AnyStr s \<Rightarrow>
          if s = [] then None
          else if propertyName = ''externalId'' then Some (AnyStr (''%:'' @ escapeLike s))
          else if propertyName = ''name'' then
            (if contains_str s '':'' then None else Some (AnyStr (''%:'' @ escapeLike s)))
          else None
      | _ \<Rightarrow> None)"

definition servingRuntime_expand :: equality_expander where
  "servingRuntime_expand r propertyName v =
     (case v of
        AnyStr s \<Rightarrow>
          if s = [] then None
          else if propertyName = ''name'' then
            (if contains_str s '':'' then None else Some (AnyStr (''%:'' @ escapeLike s)))
          else None
      | _ \<Rightarrow> None)"

definition plain_mapping :: "string \<Rightarrow> property_map \<Rightarrow> entity_mapping" where
  "plain_mapping entityType props = \<lparr>em_mlmd = (\<lambda>_. entityType),
     em_prop = (\<lambda>_. table_lookup props), em_child = (\<lambda>_. False), em_expand = None\<rparr>"

definition catalogModelEntityMappings :: entity_mapping where
  "catalogModelEntityMappings = \<lparr>em_mlmd = (\<lambda>_. EntityTypeContext),
     em_prop = (\<lambda>_. catalogModel_property), em_child = (\<lambda>_. False),
     em_expand = Some catalogModel_expand\<rparr>"

definition servingRuntimeEntityMappings :: entity_mapping where
  "servingRuntimeEntityMappings = (plain_mapping EntityTypeContext servingRuntimeProperties)
     \<lparr>em_expand := Some servingRuntime_expand\<rparr>"

definition mcpServerEntityMappings :: entity_mapping where
  "mcpServerEntityMappings = plain_mapping EntityTypeContext mcpServerProperties"

definition mcpServerToolEntityMappings :: entity_mapping where
  "mcpServerToolEntityMappings = plain_mapping EntityTypeExecution mcpServerToolProperties"

definition skillEntityMappings :: entity_mapping where
  "skillEntityMappings = plain_mapping EntityTypeContext skillProperties"

definition agentEntityMappings :: entity_mapping where
  "agentEntityMappings = plain_mapping EntityTypeContext agentProperties"

definition servingRuntimeVersionEntityMappings :: entity_mapping where
  "servingRuntimeVersionEntityMappings =
     plain_mapping EntityTypeArtifact servingRuntimeVersionProperties"

definition catalogArtifactEntityMappings :: entity_mapping where
  "catalogArtifactEntityMappings = plain_mapping EntityTypeArtifact catalogArtifactProperties"

subsection \<open>The declarative registry of entity types\<close>

text \<open>\<open>basecatalog/entity_registry.go\<close>; the mutex guards the map and has no other effect.\<close>

record entity_type_definition =
  etd_MLMDEntityType :: string
  etd_Properties :: property_map
  etd_IsChild :: bool
  etd_RelatedEntityPrefix :: string
  etd_RelatedEntityType :: string
  etd_RelatedEntityJoinTable :: string

type_synonym catalog_registry = "string \<rightharpoonup> entity_type_definition"

definition NewCatalogEntityRegistry :: catalog_registry where
  "NewCatalogEntityRegistry = Map.empty"

definition Register :: "catalog_registry \<Rightarrow> string \<Rightarrow> entity_type_definition \<Rightarrow> catalog_registry" where
  "Register r entityType def = r(entityType \<mapsto> def)"

definition registry_mlmd :: "catalog_registry \<Rightarrow> string \<Rightarrow> string" where
  "registry_mlmd r t = (case r t of Some d \<Rightarrow> etd_MLMDEntityType d | None \<Rightarrow> EntityTypeContext)"

definition registry_property :: "catalog_registry \<Rightarrow> string \<Rightarrow> string \<Rightarrow> property_definition" where
  "registry_property r t propertyName =
     (case r t of
        None \<Rightarrow> customFallback propertyName
      | Some def \<Rightarrow>
          (case map_of (etd_Properties def) propertyName of
             Some propDef \<Rightarrow> propDef
           | None \<Rightarrow>
               (if etd_RelatedEntityPrefix def \<noteq> [] then
                  (case cutPrefix propertyName (etd_RelatedEntityPrefix def) of
                     Some relatedPath \<Rightarrow>
                       (if relatedPath \<noteq> [] then
                          \<lparr>pd_Location = RelatedEntity, pd_ValueType = [], pd_Column = relatedPath,
                           pd_RelatedEntityType = etd_RelatedEntityType def,
                           pd_RelatedProperty = relatedPath,
                           pd_JoinTable = (if etd_RelatedEntityJoinTable def = [] then ''Attribution''
                             else etd_RelatedEntityJoinTable def)\<rparr>
                        else customFallback propertyName)
                   | None \<Rightarrow> customFallback propertyName)
                else customFallback propertyName)))"

definition registry_child :: "catalog_registry \<Rightarrow> string \<Rightarrow> bool" where
  "registry_child r t = (case r t of Some d \<Rightarrow> etd_IsChild d | None \<Rightarrow> False)"

text \<open>\<open>MergeProperties\<close> copies the maps into a fresh one in order, so later maps win.\<close>

definition MergeProperties :: "property_map list \<Rightarrow> (string \<rightharpoonup> property_definition)" where
  "MergeProperties propMaps = foldl (\<lambda>result m. result ++ map_of m) Map.empty propMaps"

definition CommonContextProperties :: "property_map" where
  "CommonContextProperties =
     [(''id'', entityColumn IntValueType ''id''),
      (''name'', entityColumn StringValueType ''name''),
      (''externalId'', entityColumn StringValueType ''external_id''),
      (''createTimeSinceEpoch'', entityColumn IntValueType ''create_time_since_epoch''),
      (''lastUpdateTimeSinceEpoch'', entityColumn IntValueType ''last_update_time_since_epoch'')]"

definition CommonArtifactProperties :: "property_map" where
  "CommonArtifactProperties =
     [(''id'', entityColumn IntValueType ''id''),
      (''name'', entityColumn StringValueType ''name''),
      (''externalId'', entityColumn StringValueType ''external_id''),
      (''createTimeSinceEpoch'', entityColumn IntValueType ''create_time_since_epoch''),
      (''lastUpdateTimeSinceEpoch'', entityColumn IntValueType ''last_update_time_since_epoch''),
      (''uri'', entityColumn StringValueType ''uri''),
      (''state'', entityColumn StringValueType ''state'')]"

definition CommonCatalogContextProperties :: "property_map" where
  "CommonCatalogContextProperties =
     [(''source_id'', propertyColumn StringValueType ''source_id''),
      (''description'', propertyColumn StringValueType ''description''),
      (''provider'', propertyColumn StringValueType ''provider''),
      (''license'', propertyColumn StringValueType ''license''),
      (''license_link'', propertyColumn StringValueType ''license_link''),
      (''logo'', propertyColumn StringValueType ''logo''),
      (''readme'', propertyColumn StringValueType ''readme'')]"

subsection \<open>The laws of a mapping\<close>

text \<open>
  What the query builder relies on: a property that a mapping places on the entity table is a column
  the platform's own map knows for that entity type (the builder looks the column up there, not in the
  mapping's definition), the value type of a stored property names a column of the property table, and a
  related property is one of an artifact.
\<close>

definition property_law :: "string \<Rightarrow> string \<Rightarrow> property_definition \<Rightarrow> bool" where
  "property_law entityType n d =
     (case pd_Location d of
        EntityTable \<Rightarrow> pd_Location (GetPropertyDefinition entityType n) = EntityTable
      | PropertyTable \<Rightarrow> pd_ValueType d \<in> set value_types
      | Custom \<Rightarrow> pd_ValueType d = StringValueType
      | RelatedEntity \<Rightarrow> pd_ValueType d = [] \<and> pd_RelatedEntityType d = RelatedEntityArtifact)"

definition entity_types :: "string list" where
  "entity_types = [EntityTypeContext, EntityTypeArtifact, EntityTypeExecution]"

definition entity_columns :: "string list" where
  "entity_columns = [''id'', ''name'', ''external_id'', ''create_time_since_epoch'',
     ''last_update_time_since_epoch'', ''uri'', ''state'', ''last_known_state'']"

definition columns_ok :: "property_map \<Rightarrow> bool" where
  "columns_ok props =
     list_all (\<lambda>(n, d). pd_Location d = EntityTable \<longrightarrow> pd_Column d \<in> set entity_columns) props"

lemma columns_ok_maps:
  "columns_ok contextPropertyMap" "columns_ok artifactPropertyMap" "columns_ok executionPropertyMap"
  by code_simp+

lemma columns_okD:
  "columns_ok props \<Longrightarrow> map_of props n = Some d \<Longrightarrow> pd_Location d = EntityTable
     \<Longrightarrow> pd_Column d \<in> set entity_columns"
  by (auto simp: columns_ok_def list_all_iff dest!: map_of_SomeD)

lemma customFallback_location [simp]:
  "pd_Location (customFallback n) = Custom" "pd_ValueType (customFallback n) = StringValueType"
  by (simp_all add: property_definition_defs)

lemma property_law_custom [simp]: "property_law e n (customFallback n')"
  by (simp add: property_law_def)

lemma platform_entity_column:
  assumes "pd_Location (GetPropertyDefinition e n) = EntityTable"
  shows "pd_Column (GetPropertyDefinition e n) \<in> set entity_columns"
proof -
  have ok: "columns_ok (getEntityPropertyMap e)"
    by (simp add: getEntityPropertyMap_def columns_ok_maps)
  from assms obtain d where "map_of (getEntityPropertyMap e) n = Some d"
    by (auto simp: GetPropertyDefinition_def split: option.splits)
  with assms columns_okD [OF ok] show ?thesis by (simp add: GetPropertyDefinition_def)
qed

locale entity_mapping_laws =
  fixes em :: entity_mapping
  assumes mlmd_known: "em_mlmd em r \<in> set entity_types"
    and prop_law: "property_law (em_mlmd em r) n (em_prop em r n)"
begin

lemma entity_column:
  "pd_Location (em_prop em r n) = EntityTable
     \<Longrightarrow> pd_Column (GetPropertyDefinition (em_mlmd em r) n) \<in> set entity_columns"
  using prop_law [of r n] by (intro platform_entity_column) (simp add: property_law_def)

lemma stored_value_type:
  "pd_Location (em_prop em r n) \<in> {PropertyTable, Custom}
     \<Longrightarrow> pd_ValueType (em_prop em r n) \<in> set value_types"
  using prop_law [of r n] by (auto simp: property_law_def value_types_def)

lemma related_is_artifact:
  "pd_Location (em_prop em r n) = RelatedEntity
     \<Longrightarrow> pd_RelatedEntityType (em_prop em r n) = RelatedEntityArtifact
       \<and> pd_ValueType (em_prop em r n) = []"
  using prop_law [of r n] by (simp add: property_law_def)

end

definition table_law :: "string \<Rightarrow> property_map \<Rightarrow> bool" where
  "table_law e props = list_all (\<lambda>(n, d). property_law e n d) props"

lemma table_law_lookup: "table_law e props \<Longrightarrow> property_law e n (table_lookup props n)"
  by (auto simp: table_law_def table_lookup_def list_all_iff split: option.splits dest!: map_of_SomeD)

lemma plain_mapping_simps [simp]:
  "em_mlmd (plain_mapping e props) r = e" "em_prop (plain_mapping e props) r = table_lookup props"
  "em_child (plain_mapping e props) r = False" "em_expand (plain_mapping e props) = None"
  by (simp_all add: plain_mapping_def)

lemma plain_mapping_laws:
  "e \<in> set entity_types \<Longrightarrow> table_law e props \<Longrightarrow> entity_mapping_laws (plain_mapping e props)"
  by unfold_locales (auto intro: table_law_lookup)

lemma table_laws:
  "table_law EntityTypeContext catalogModelProperties"
  "table_law EntityTypeContext mcpServerProperties"
  "table_law EntityTypeExecution mcpServerToolProperties"
  "table_law EntityTypeContext skillProperties"
  "table_law EntityTypeContext agentProperties"
  "table_law EntityTypeContext servingRuntimeProperties"
  "table_law EntityTypeArtifact servingRuntimeVersionProperties"
  "table_law EntityTypeArtifact catalogArtifactProperties"
  by code_simp+

lemma entity_types_mem [simp]:
  "EntityTypeContext \<in> set entity_types" "EntityTypeArtifact \<in> set entity_types"
  "EntityTypeExecution \<in> set entity_types"
  by (simp_all add: entity_types_def)

lemma rest_table_law:
  "list_all (\<lambda>(r, ns). list_all (\<lambda>n. property_law (GetMLMDEntityType r) n
     (GetPropertyDefinition (GetMLMDEntityType r) n)) ns) RestEntityPropertyMap"
  by code_simp

lemma GetMLMDEntityType_known: "GetMLMDEntityType r \<in> set entity_types"
  by (simp add: GetMLMDEntityType_def)

lemma rest_property_law:
  "property_law (GetMLMDEntityType r) n (GetPropertyDefinitionForRestEntity r n)"
  using rest_table_law
  by (fastforce simp: GetPropertyDefinitionForRestEntity_def list_all_iff split: option.splits
      dest!: map_of_SomeD)

interpretation registry_mapping: entity_mapping_laws defaultEntityMappings
  by unfold_locales (simp_all add: defaultEntityMappings_def GetMLMDEntityType_known rest_property_law)

interpretation model_mapping: entity_mapping_laws catalogModelEntityMappings
  using table_laws(1)
  by unfold_locales
    (auto simp: catalogModelEntityMappings_def catalogModel_property_def table_law_def list_all_iff
      property_law_def relatedArtifactProperty_def split: option.splits dest!: map_of_SomeD)

interpretation mcp_server_mapping: entity_mapping_laws mcpServerEntityMappings
  unfolding mcpServerEntityMappings_def by (intro plain_mapping_laws table_laws) simp

interpretation mcp_tool_mapping: entity_mapping_laws mcpServerToolEntityMappings
  unfolding mcpServerToolEntityMappings_def by (intro plain_mapping_laws table_laws) simp

interpretation skill_mapping: entity_mapping_laws skillEntityMappings
  unfolding skillEntityMappings_def by (intro plain_mapping_laws table_laws) simp

interpretation agent_mapping: entity_mapping_laws agentEntityMappings
  unfolding agentEntityMappings_def by (intro plain_mapping_laws table_laws) simp

interpretation runtime_mapping: entity_mapping_laws servingRuntimeEntityMappings
  by unfold_locales
    (simp_all add: servingRuntimeEntityMappings_def plain_mapping_def table_law_lookup table_laws)

interpretation runtime_version_mapping: entity_mapping_laws servingRuntimeVersionEntityMappings
  unfolding servingRuntimeVersionEntityMappings_def by (intro plain_mapping_laws table_laws) simp

interpretation artifact_mapping: entity_mapping_laws catalogArtifactEntityMappings
  unfolding catalogArtifactEntityMappings_def by (intro plain_mapping_laws table_laws) simp

text \<open>Every mapping the program constructs.\<close>

definition program_mappings :: "entity_mapping list" where
  "program_mappings = [defaultEntityMappings, catalogModelEntityMappings, mcpServerEntityMappings,
     mcpServerToolEntityMappings, skillEntityMappings, agentEntityMappings,
     servingRuntimeEntityMappings, servingRuntimeVersionEntityMappings, catalogArtifactEntityMappings]"

lemma program_mapping_laws: "em \<in> set program_mappings \<Longrightarrow> entity_mapping_laws em"
  unfolding program_mappings_def
  using registry_mapping.entity_mapping_laws_axioms model_mapping.entity_mapping_laws_axioms
    mcp_server_mapping.entity_mapping_laws_axioms mcp_tool_mapping.entity_mapping_laws_axioms
    skill_mapping.entity_mapping_laws_axioms agent_mapping.entity_mapping_laws_axioms
    runtime_mapping.entity_mapping_laws_axioms runtime_version_mapping.entity_mapping_laws_axioms
    artifact_mapping.entity_mapping_laws_axioms
  by auto

subsection \<open>Facts about the lookups\<close>

text \<open>The pattern of an equality expansion matches only literally: every wildcard of the value is escaped.\<close>

fun like_literal :: "string \<Rightarrow> string option" where
  "like_literal [] = Some []"
| "like_literal [c] = (if c \<in> {CHR 0x5C, CHR ''%'', CHR ''_''} then None else Some [c])"
| "like_literal (c # d # s) =
     (if c = CHR 0x5C then map_option ((#) d) (like_literal s)
      else if c \<in> {CHR ''%'', CHR ''_''} then None
      else map_option ((#) c) (like_literal (d # s)))"

lemma like_literal_Cons:
  "c \<notin> {CHR 0x5C, CHR ''%'', CHR ''_''} \<Longrightarrow> like_literal (c # s) = map_option ((#) c) (like_literal s)"
  by (cases s) auto

text \<open>
  A pattern built with \<open>escapeLike\<close> is a literal of the LIKE language (no unescaped wildcard, no
  dangling escape) and stands for exactly the client's string, so an equality filter on an unqualified
  name matches no other name, whatever characters the client sends.
\<close>

theorem escape_like_literal: "like_literal (escapeLike s) = Some s"
  by (induction s rule: escapeLike.induct) (simp_all add: like_literal_Cons)

text \<open>The registry entry that describes catalog models declaratively.\<close>

definition catalogModel_entry :: entity_type_definition where
  "catalogModel_entry = \<lparr>etd_MLMDEntityType = EntityTypeContext,
     etd_Properties = catalogModelProperties, etd_IsChild = False,
     etd_RelatedEntityPrefix = ''artifacts.'', etd_RelatedEntityType = RelatedEntityArtifact,
     etd_RelatedEntityJoinTable = []\<rparr>"

text \<open>
  A registry in which the catalog model is registered declaratively resolves every property exactly as
  the hand-written plugin mapping does, except the name \<open>artifacts.\<close> with nothing after the dot, which the
  registry treats as a custom property and the plugin as a related one with an empty name; what was
  registered before, under this name or others, does not matter.
\<close>

theorem registry_agrees_with_plugin:
  "registry_property (Register r t catalogModel_entry) t' n
     = (if t' \<noteq> t then registry_property r t' n
        else if n = ''artifacts.'' then customFallback n
        else em_prop catalogModelEntityMappings t n)"
proof -
  have "map_of catalogModelProperties ''artifacts.'' = None" by code_simp
  moreover have "cutPrefix n ''artifacts.'' = Some [] \<Longrightarrow> n = ''artifacts.''"
    by (simp add: cutPrefix_Some_iff)
  moreover have "cutPrefix ''artifacts.'' ''artifacts.'' = Some []" by code_simp
  ultimately show ?thesis
    by (auto simp: registry_property_def Register_def catalogModel_entry_def
        catalogModelEntityMappings_def catalogModel_property_def relatedArtifactProperty_def
        split: option.splits)
qed

text \<open>In a merge the last map that lists a name decides.\<close>

lemma merge_properties_snoc:
  "MergeProperties (ms @ [m]) n = (case map_of m n of Some d \<Rightarrow> Some d | None \<Rightarrow> MergeProperties ms n)"
  by (simp add: MergeProperties_def map_add_def split: option.splits)

end
