(* ===== verification/Filter_Parser.thy ===== *)
theory Filter_Parser
  imports Property_Mapping
begin

text \<open>
  The filter language of the list endpoints (\<open>internal/platform/db/filter/parser.go\<close>): the syntax
  tree its grammar describes and the conversion of that tree into the filter expression the query
  builder works on. The parser built from the grammar tags is the argument \<open>parser\<close> of \<open>Parse\<close>; the
  theory \<open>Filter_Grammar\<close> reads the tags and gives it.

  The lemmas relate the two trees by their truth value under any meaning of the comparisons, and
  describe the unescaping of quoted strings.
\<close>

subsection \<open>The syntax tree of the grammar\<close>

datatype single_value =
    SString string
  | SInt int
  | SFloat float64
  | SBool string

text \<open>\<open>Value\<close>: one of the scalar alternatives or a list in parentheses.\<close>

datatype filter_value =
    VSingle single_value
  | VList "single_value list"

record property_ref =
  pr_EscapedName :: string
  pr_Name :: string
  pr_Path :: "string list"
  pr_Type :: string

record comparison =
  cmp_Left :: property_ref
  cmp_Operator :: string
  cmp_Right :: filter_value

datatype expression = Expression or_expression
and or_expression = OrExpression and_expression "and_expression list"
and and_expression = AndExpression filter_term "filter_term list"
and filter_term = Group expression | Comparison comparison

datatype where_clause = WhereClause expression

subsection \<open>The filter expression\<close>

text \<open>\<open>FilterExpression\<close>: a leaf with property, operator and value, or a binary node.\<close>

datatype filter_expr =
    Leaf string string go_any
  | Node string filter_expr filter_expr

record property_reference =
  pr_RefName :: string
  pr_IsCustom :: bool
  pr_ValueType :: string
  pr_ExplicitType :: string
  pr_IsEscaped :: bool
  pr_PropertyDef :: property_definition

subsection \<open>Conversion\<close>

text \<open>
  \<open>unquoteStringValue\<close> strips the quotes and then undoes the escapes in three passes, in the code's
  order. The lexer emits string tokens with both quotes, so the slice \<open>str[1 : len(str)-1]\<close> is in
  range.
\<close>

definition bslash :: char where "bslash = CHR 0x5C"
definition dquote :: char where "dquote = CHR 0x22"
definition squote :: char where "squote = CHR 0x27"

definition unquoteStringValue :: "string \<Rightarrow> string" where
  "unquoteStringValue str =
     (let result = butlast (tl str);
          r1 = replace_all [bslash, dquote] [dquote] result;
          r2 = replace_all [bslash, squote] [squote] r1
      in replace_all [bslash, bslash] [bslash] r2)"

definition inferSingleValueType :: "single_value \<Rightarrow> string" where
  "inferSingleValueType v = (case v of
      SString s \<Rightarrow> StringValueType
    | SInt i \<Rightarrow> IntValueType
    | SFloat f \<Rightarrow> DoubleValueType
    | SBool b \<Rightarrow> BoolValueType)"

text \<open>An empty list has no alternative set in the single value built for it: string type.\<close>

definition inferValueType :: "filter_value \<Rightarrow> string" where
  "inferValueType v = (case v of
      VList (x # xs) \<Rightarrow> inferSingleValueType x
    | VList [] \<Rightarrow> StringValueType
    | VSingle x \<Rightarrow> inferSingleValueType x)"

definition convertSingleValue :: "single_value \<Rightarrow> go_any" where
  "convertSingleValue v = (case v of
      SString s \<Rightarrow> AnyStr (unquoteStringValue s)
    | SInt i \<Rightarrow> AnyInt64 i
    | SFloat f \<Rightarrow> AnyFloat f
    | SBool b \<Rightarrow> AnyBool (to_lower b = ''true''))"

definition convertValue :: "filter_value \<Rightarrow> go_any" where
  "convertValue v = (case v of
      VSingle x \<Rightarrow> convertSingleValue x
    | VList xs \<Rightarrow> AnyList (map convertSingleValue xs))"

definition convertPropertyRef :: "property_ref \<Rightarrow> filter_value \<Rightarrow> property_reference" where
  "convertPropertyRef prop v =
     (let (name, esc) =
        (if pr_EscapedName prop \<noteq> [] then
           (let n0 = trim_chars {CHR 0x60} (pr_EscapedName prop);
                n1 = replace_all [bslash, CHR ''.''] ''.'' n0
            in (replace_all [bslash, bslash] [bslash] n1, True))
         else
           ((if pr_Path prop \<noteq> [] then pr_Name prop @ ''.'' @ join_with ''.'' (pr_Path prop)
             else pr_Name prop), False));
        valueType = (if pr_Type prop \<noteq> [] then pr_Type prop else inferValueType v)
      in \<lparr>pr_RefName = name, pr_IsCustom = True, pr_ValueType = valueType, pr_ExplicitType = [],
          pr_IsEscaped = esc, pr_PropertyDef = entityColumn [] []\<rparr>)"

definition convertComparison :: "comparison \<Rightarrow> filter_expr" where
  "convertComparison cmp =
     (let propRef = convertPropertyRef (cmp_Left cmp) (cmp_Right cmp);
          value = convertValue (cmp_Right cmp);
          propertyName = (if pr_Type (cmp_Left cmp) \<noteq> []
             then pr_RefName propRef @ ''.'' @ pr_Type (cmp_Left cmp) else pr_RefName propRef)
      in Leaf propertyName (cmp_Operator cmp) value)"

fun convertToFilterExpression :: "expression \<Rightarrow> filter_expr"
and convertOrExpression :: "or_expression \<Rightarrow> filter_expr"
and convertAndExpression :: "and_expression \<Rightarrow> filter_expr"
and convertTerm :: "filter_term \<Rightarrow> filter_expr" where
  "convertToFilterExpression (Expression e) = convertOrExpression e"
| "convertOrExpression (OrExpression l rs) =
     foldl (\<lambda>left right. Node ''OR'' left right) (convertAndExpression l) (map convertAndExpression rs)"
| "convertAndExpression (AndExpression l rs) =
     foldl (\<lambda>left right. Node ''AND'' left right) (convertTerm l) (map convertTerm rs)"
| "convertTerm (Group e) = convertToFilterExpression e"
| "convertTerm (Comparison c) = convertComparison c"

text \<open>\<open>Parse\<close>: \<open>Inr None\<close> is the nil expression of a blank query.\<close>

definition Parse :: "(string \<Rightarrow> string + where_clause) \<Rightarrow> string \<Rightarrow> string + filter_expr option" where
  "Parse parser input =
     (if trim_space input = [] then Inr None
      else case parser input of
             Inl err \<Rightarrow> Inl (''error parsing filter query: '' @ err)
           | Inr (WhereClause e) \<Rightarrow> Inr (Some (convertToFilterExpression e)))"

subsection \<open>The meaning of both trees\<close>

text \<open>
  A valuation says which comparisons hold of a fixed row. The syntax tree is a disjunction of
  conjunctions of terms; a node of the filter expression with any other operator is ignored, as the
  query builder does.
\<close>

fun holds_expr :: "(comparison \<Rightarrow> bool) \<Rightarrow> expression \<Rightarrow> bool"
and holds_or :: "(comparison \<Rightarrow> bool) \<Rightarrow> or_expression \<Rightarrow> bool"
and holds_and :: "(comparison \<Rightarrow> bool) \<Rightarrow> and_expression \<Rightarrow> bool"
and holds_term :: "(comparison \<Rightarrow> bool) \<Rightarrow> filter_term \<Rightarrow> bool" where
  "holds_expr v (Expression e) = holds_or v e"
| "holds_or v (OrExpression l rs) = (holds_and v l \<or> (\<exists>b \<in> set (map (holds_and v) rs). b))"
| "holds_and v (AndExpression l rs) = (holds_term v l \<and> (\<forall>b \<in> set (map (holds_term v) rs). b))"
| "holds_term v (Group e) = holds_expr v e"
| "holds_term v (Comparison c) = v c"

fun holds_filter :: "(string \<Rightarrow> string \<Rightarrow> go_any \<Rightarrow> bool) \<Rightarrow> filter_expr \<Rightarrow> bool" where
  "holds_filter v (Leaf p oper x) = v p oper x"
| "holds_filter v (Node oper l r) =
     (if oper = ''AND'' then holds_filter v l \<and> holds_filter v r
      else if oper = ''OR'' then holds_filter v l \<or> holds_filter v r
      else True)"

lemma holds_foldl_or:
  "holds_filter v (foldl (\<lambda>l r. Node ''OR'' l r) e es) \<longleftrightarrow> holds_filter v e \<or> (\<exists>x \<in> set es. holds_filter v x)"
  by (induction es arbitrary: e) auto

lemma holds_foldl_and:
  "holds_filter v (foldl (\<lambda>l r. Node ''AND'' l r) e es) \<longleftrightarrow> holds_filter v e \<and> (\<forall>x \<in> set es. holds_filter v x)"
  by (induction es arbitrary: e) auto

definition leaf_valuation ::
  "(string \<Rightarrow> string \<Rightarrow> go_any \<Rightarrow> bool) \<Rightarrow> comparison \<Rightarrow> bool" where
  "leaf_valuation v c = holds_filter v (convertComparison c)"

lemma convert_holds:
  "holds_filter v (convertToFilterExpression e) = holds_expr (leaf_valuation v) e"
  "holds_filter v (convertOrExpression eo) = holds_or (leaf_valuation v) eo"
  "holds_filter v (convertAndExpression ea) = holds_and (leaf_valuation v) ea"
  "holds_filter v (convertTerm t) = holds_term (leaf_valuation v) t"
  by (induction e and eo and ea and t
      rule: convertToFilterExpression_convertOrExpression_convertAndExpression_convertTerm.induct)
     (auto simp: holds_foldl_or holds_foldl_and leaf_valuation_def)

text \<open>The conversion yields only the operators the query builder knows at inner nodes.\<close>

fun and_or_only :: "filter_expr \<Rightarrow> bool" where
  "and_or_only (Leaf p oper x) = True"
| "and_or_only (Node oper l r) = (oper \<in> {''AND'', ''OR''} \<and> and_or_only l \<and> and_or_only r)"

lemma and_or_only_foldl:
  "oper \<in> {''AND'', ''OR''} \<Longrightarrow> and_or_only e \<Longrightarrow> \<forall>x \<in> set es. and_or_only x
     \<Longrightarrow> and_or_only (foldl (\<lambda>l r. Node oper l r) e es)"
  by (induction es arbitrary: e) auto

lemma convert_and_or_only:
  "and_or_only (convertToFilterExpression e)"
  "and_or_only (convertOrExpression eo)"
  "and_or_only (convertAndExpression ea)"
  "and_or_only (convertTerm t)"
  by (induction e and eo and ea and t
      rule: convertToFilterExpression_convertOrExpression_convertAndExpression_convertTerm.induct)
     (auto intro!: and_or_only_foldl simp: convertComparison_def Let_def)

text \<open>
  C16. The expression that \<open>Parse\<close> returns means what the query says: for every row (every valuation of
  the comparisons) it holds iff the parsed tree holds, with \<open>AND\<close> binding tighter than \<open>OR\<close> and groups
  as written, and every inner node is an \<open>AND\<close> or an \<open>OR\<close>.
\<close>

theorem parse_preserves_meaning:
  assumes "Parse parser input = Inr (Some f)"
  shows "\<exists>e. parser input = Inr (WhereClause e) \<and> and_or_only f
    \<and> (\<forall>v. holds_filter v f = holds_expr (leaf_valuation v) e)"
  using assms by (auto simp: Parse_def convert_holds convert_and_or_only
      split: if_splits sum.splits where_clause.splits)

definition demo_comparison :: "string \<Rightarrow> comparison" where
  "demo_comparison n = \<lparr>cmp_Left = \<lparr>pr_EscapedName = [], pr_Name = n, pr_Path = [], pr_Type = []\<rparr>,
     cmp_Operator = ''='', cmp_Right = VSingle (SInt 1)\<rparr>"

text \<open>\<open>a = 1 OR b = 1 AND c = 1\<close>\<close>

definition demo_tree :: expression where
  "demo_tree = Expression (OrExpression
      (AndExpression (Comparison (demo_comparison ''a'')) [])
      [AndExpression (Comparison (demo_comparison ''b'')) [Comparison (demo_comparison ''c'')]])"

theorem parse_preserves_meaning_witness:
  "Parse (\<lambda>s. Inr (WhereClause demo_tree)) ''q''
     = Inr (Some (Node ''OR'' (Leaf ''a'' ''='' (AnyInt64 1))
         (Node ''AND'' (Leaf ''b'' ''='' (AnyInt64 1)) (Leaf ''c'' ''='' (AnyInt64 1)))))
   \<and> and_or_only (Node ''OR'' (Leaf ''a'' ''='' (AnyInt64 1))
         (Node ''AND'' (Leaf ''b'' ''='' (AnyInt64 1)) (Leaf ''c'' ''='' (AnyInt64 1))))"
proof -
  have p: "Parse (\<lambda>s. Inr (WhereClause demo_tree)) ''q''
     = Inr (Some (Node ''OR'' (Leaf ''a'' ''='' (AnyInt64 1))
         (Node ''AND'' (Leaf ''b'' ''='' (AnyInt64 1)) (Leaf ''c'' ''='' (AnyInt64 1)))))"
    by (simp add: Parse_def trim_space_def trim_chars_def space_chars_def demo_tree_def
        demo_comparison_def convertComparison_def convertPropertyRef_def convertValue_def
        convertSingleValue_def)
  with parse_preserves_meaning [OF p] show ?thesis by blast
qed

subsection \<open>Unescaping\<close>

lemma replace_all_id:
  assumes "\<And>a b. s \<noteq> a @ old @ b"
  shows "replace_all old new s = s"
  using assms
proof (induction s)
  case Nil
  then show ?case by simp
next
  case (Cons c s)
  have "\<not> hasPrefix (c # s) old"
  proof
    assume "hasPrefix (c # s) old"
    then obtain r where "c # s = old @ r" using hasPrefixE by blast
    with Cons.prems [of "[]" r] show False by simp
  qed
  moreover have "\<And>a b. s \<noteq> a @ old @ b"
  proof
    fix a b assume "s = a @ old @ b"
    with Cons.prems [of "c # a" b] show False by simp
  qed
  ultimately show ?case using Cons.IH by simp
qed

lemma no_char_no_sub: "c \<in> set old \<Longrightarrow> c \<notin> set s \<Longrightarrow> s \<noteq> a @ old @ b"
  by auto

text \<open>A string without a backslash is taken as it stands between the quotes.\<close>

lemma unquote_plain:
  assumes "bslash \<notin> set s"
  shows "unquoteStringValue (q # s @ [q]) = s"
proof -
  have "replace_all (bslash # old) new s = s" for old new
    by (rule replace_all_id) (rule no_char_no_sub [of bslash], simp_all add: assms)
  then show ?thesis by (simp add: unquoteStringValue_def Let_def)
qed

end
