(* ===== verification/Filter_Lexer.thy ===== *)
theory Filter_Lexer
  imports Filter_Parser
begin

text \<open>
  The lexer of the filter language (\<open>sqlLexer\<close> of \<open>internal/platform/db/filter/parser.go\<close>): a list of rules, each a
  regular expression matched at the front of the text; the first rule that matches gives the token. Each rule is a
  function from the text to the matched part and the rest, as the leftmost-first matching of the regular expressions
  finds them. White space and comments are elided.
\<close>

subsection \<open>Rules\<close>

datatype token_kind = TkWhitespace | TkComment | TkIdent | TkFloat | TkInt | TkString | TkEscapedIdent | TkOperators | TkPunct

type_synonym lex_rule = "string \<Rightarrow> (string \<times> string) option"

text \<open>A run of characters, possibly empty, and one that is not.\<close>

definition many :: "(char \<Rightarrow> bool) \<Rightarrow> string \<Rightarrow> string \<times> string" where
  "many P s = (takeWhile P s, dropWhile P s)"

definition many1 :: "(char \<Rightarrow> bool) \<Rightarrow> lex_rule" where
  "many1 P s = (if takeWhile P s = [] then None else Some (many P s))"

definition is_lex_space :: "char \<Rightarrow> bool" where
  "is_lex_space ch = (ch \<in> {CHR 0x09, CHR 0x0A, CHR 0x0C, CHR 0x0D, CHR '' ''})"

definition lex_whitespace :: lex_rule where
  "lex_whitespace = many1 is_lex_space"

definition lex_comment :: lex_rule where
  "lex_comment s = (if take 2 s = ''--''
     then Some (''--'' @ takeWhile (\<lambda>ch. ch \<notin> {CHR 0x0A, CHR 0x0D}) (drop 2 s), dropWhile (\<lambda>ch. ch \<notin> {CHR 0x0A, CHR 0x0D}) (drop 2 s))
     else None)"

definition lex_letter :: "char \<Rightarrow> bool" where
  "lex_letter ch = (let n = (of_char ch :: nat) in 97 \<le> n \<and> n \<le> 122 \<or> 65 \<le> n \<and> n \<le> 90 \<or> n = 95)"

definition lex_ident :: lex_rule where
  "lex_ident s = (case s of [] \<Rightarrow> None | ch # r \<Rightarrow>
     if lex_letter ch then Some (many (\<lambda>x. lex_letter x \<or> is_digit x) s) else None)"

definition lex_sign :: "string \<Rightarrow> string \<times> string" where
  "lex_sign s = (case s of [] \<Rightarrow> ([], []) | ch # r \<Rightarrow> if ch = CHR ''-'' \<or> ch = CHR ''+'' then ([ch], r) else ([], s))"

definition lex_int :: lex_rule where
  "lex_int s = (let (sg, r) = lex_sign s in map_option (\<lambda>(ds, r'). (sg @ ds, r')) (many1 is_digit r))"

definition lex_exponent :: lex_rule where
  "lex_exponent s = (case s of [] \<Rightarrow> None | ch # r \<Rightarrow>
     if ch = CHR ''e'' \<or> ch = CHR ''E'' then map_option (\<lambda>(n, r'). (ch # n, r')) (lex_int r) else None)"

text \<open>The two alternatives of a float: with a point and an optional exponent, or digits with an exponent.\<close>

definition lex_float :: lex_rule where
  "lex_float s =
     (let (sg, r) = lex_sign s; (ds, r1) = many is_digit r in
      case (case r1 of [] \<Rightarrow> None | ch # r2 \<Rightarrow> if ch = CHR ''.'' then many1 is_digit r2 else None) of
        Some (fs, r3) \<Rightarrow>
          (case lex_exponent r3 of
             Some (ex, r4) \<Rightarrow> Some (sg @ ds @ ''.'' @ fs @ ex, r4)
           | None \<Rightarrow> Some (sg @ ds @ ''.'' @ fs, r3))
      | None \<Rightarrow>
          (if ds = [] then None
           else map_option (\<lambda>(ex, r4). (sg @ ds @ ex, r4)) (lex_exponent r1)))"

text \<open>What follows an opening quote \<open>q\<close>: no quote and no backslash, or a backslash with a character other than a newline.\<close>

fun lex_quoted :: "char \<Rightarrow> lex_rule" where
  "lex_quoted q [] = None"
| "lex_quoted q (ch # r) =
     (if ch = q then Some ([ch], r)
      else if ch = bslash then
        (case r of [] \<Rightarrow> None
         | x # r' \<Rightarrow> if x = CHR 0x0A then None else map_option (\<lambda>(t, r''). (ch # x # t, r'')) (lex_quoted q r'))
      else map_option (\<lambda>(t, r'). (ch # t, r')) (lex_quoted q r))"

definition lex_string_of :: "char \<Rightarrow> lex_rule" where
  "lex_string_of q s = (case s of [] \<Rightarrow> None | ch # r \<Rightarrow>
     if ch = q then map_option (\<lambda>(t, r'). (ch # t, r')) (lex_quoted q r) else None)"

definition lex_string :: lex_rule where
  "lex_string s = (case lex_string_of squote s of Some m \<Rightarrow> Some m | None \<Rightarrow> lex_string_of dquote s)"

definition lex_escaped_ident :: lex_rule where
  "lex_escaped_ident = lex_string_of CHR 0x60"

definition operator_texts :: "string list" where
  "operator_texts = [''>='', ''<='', ''!='', ''<>'', ''='', ''>'', ''<'']"

definition lex_operator :: lex_rule where
  "lex_operator s = map_option (\<lambda>op. (op, drop (length op) s)) (find (\<lambda>op. take (length op) s = op) operator_texts)"

definition lex_punct :: lex_rule where
  "lex_punct s = (case s of [] \<Rightarrow> None | ch # r \<Rightarrow> if ch \<in> set ''().,'' then Some ([ch], r) else None)"

text \<open>The rules in the order of the source.\<close>

definition sqlLexer :: "(token_kind \<times> lex_rule) list" where
  "sqlLexer = [(TkWhitespace, lex_whitespace), (TkComment, lex_comment), (TkIdent, lex_ident), (TkFloat, lex_float),
     (TkInt, lex_int), (TkString, lex_string), (TkEscapedIdent, lex_escaped_ident), (TkOperators, lex_operator),
     (TkPunct, lex_punct)]"

fun first_match :: "(token_kind \<times> lex_rule) list \<Rightarrow> string \<Rightarrow> (token_kind \<times> string \<times> string) option" where
  "first_match [] s = None"
| "first_match ((k, rule) # rs) s = (case rule s of Some (t, r) \<Rightarrow> Some (k, t, r) | None \<Rightarrow> first_match rs s)"

text \<open>The tokens of a text, \<open>None\<close> if no rule matches somewhere.\<close>

function sql_tokens :: "string \<Rightarrow> (token_kind \<times> string) list option" where
  "sql_tokens s = (if s = [] then Some []
     else case first_match sqlLexer s of
         None \<Rightarrow> None
       | Some (k, t, r) \<Rightarrow>
           if length r < length s
           then map_option (\<lambda>ts. if k = TkWhitespace \<or> k = TkComment then ts else (k, t) # ts) (sql_tokens r)
           else None)"
  by pat_completeness auto
termination by (relation "measure length") auto

declare sql_tokens.simps [simp del]

subsection \<open>Every rule takes a non-empty part of the text\<close>

definition good_match :: "string \<Rightarrow> (string \<times> string) option \<Rightarrow> bool" where
  "good_match s m = (case m of None \<Rightarrow> True | Some (t, r) \<Rightarrow> t \<noteq> [] \<and> s = t @ r)"

lemma good_match_simps [simp]:
  "good_match s None" "good_match s (Some (t, r)) \<longleftrightarrow> t \<noteq> [] \<and> s = t @ r"
  by (simp_all add: good_match_def)

lemma many1_good: "good_match s (many1 P s)"
  by (simp add: many1_def many_def)

lemma lex_sign_app: "lex_sign s = (sg, r) \<Longrightarrow> s = sg @ r"
  by (auto simp: lex_sign_def split: list.splits if_splits)

lemma lex_int_good: "good_match s (lex_int s)"
proof (cases "lex_sign s")
  case (Pair sg r)
  have m: "good_match r (many1 is_digit r)" by (rule many1_good)
  show ?thesis
  proof (cases "many1 is_digit r")
    case (Some p)
    with m lex_sign_app [OF Pair] show ?thesis unfolding lex_int_def Pair by (cases p) simp
  qed (simp add: lex_int_def Pair)
qed

lemma lex_exponent_good: "good_match s (lex_exponent s)"
proof (cases s)
  case (Cons ch r)
  with lex_int_good [of r] show ?thesis by (cases "lex_int r") (auto simp: lex_exponent_def)
qed (simp add: lex_exponent_def)

lemma lex_float_good: "good_match s (lex_float s)"
proof -
  obtain sg r where sg: "lex_sign s = (sg, r)" by fastforce
  define ds r1 where "ds = takeWhile is_digit r" and "r1 = dropWhile is_digit r"
  have s: "s = sg @ ds @ r1" using lex_sign_app [OF sg] by (simp add: ds_def r1_def)
  have m: "many is_digit r = (ds, r1)" by (simp add: many_def ds_def r1_def)
  define f where "f = (case r1 of [] \<Rightarrow> None | ch # r2 \<Rightarrow> if ch = CHR ''.'' then many1 is_digit r2 else None)"
  have unfold: "lex_float s = (case f of
        Some (fs, r3) \<Rightarrow> (case lex_exponent r3 of Some (ex, r4) \<Rightarrow> Some (sg @ ds @ ''.'' @ fs @ ex, r4)
           | None \<Rightarrow> Some (sg @ ds @ ''.'' @ fs, r3))
      | None \<Rightarrow> if ds = [] then None else map_option (\<lambda>(ex, r4). (sg @ ds @ ex, r4)) (lex_exponent r1))"
    by (simp add: lex_float_def sg m f_def)
  show ?thesis
  proof (cases f)
    case None
    with unfold s lex_exponent_good [of r1] show ?thesis by (cases "lex_exponent r1") auto
  next
    case (Some p)
    obtain fs r3 where p: "p = (fs, r3)" by fastforce
    from Some p obtain r2 where r2: "r1 = CHR ''.'' # r2" "many1 is_digit r2 = Some (fs, r3)"
      by (auto simp: f_def split: list.splits if_splits)
    with many1_good [of r2 is_digit] have "r2 = fs @ r3" by simp
    with unfold Some p s r2 lex_exponent_good [of r3] show ?thesis by (cases "lex_exponent r3") auto
  qed
qed

lemma lex_quoted_good: "good_match s (lex_quoted q s)"
proof (induction s rule: length_induct)
  case (1 s)
  show ?case
  proof (cases s)
    case (Cons ch r)
    have r: "good_match r (lex_quoted q r)" using 1 Cons by simp
    show ?thesis
    proof (cases "ch \<noteq> q \<and> ch = bslash")
      case True
      then show ?thesis
      proof (cases r)
        case (Cons x r')
        with 1 \<open>s = ch # r\<close> have "good_match r' (lex_quoted q r')" by simp
        with \<open>s = ch # r\<close> Cons True show ?thesis by (cases "lex_quoted q r'") auto
      qed (use \<open>s = ch # r\<close> True in auto)
    next
      case False
      with Cons r show ?thesis by (cases "lex_quoted q r") auto
    qed
  qed simp
qed

lemma lex_string_of_good: "good_match s (lex_string_of q s)"
proof (cases s)
  case (Cons ch r)
  with lex_quoted_good [of r q] show ?thesis by (cases "lex_quoted q r") (auto simp: lex_string_of_def)
qed (simp add: lex_string_of_def)

lemma rules_good: "(k, rule) \<in> set sqlLexer \<Longrightarrow> good_match s (rule s)"
proof -
  have "good_match s (lex_whitespace s)" by (simp add: lex_whitespace_def many1_good)
  moreover have "good_match s (lex_comment s)"
    by (auto simp: lex_comment_def) (metis append_take_drop_id append_Cons append_Nil)
  moreover have "good_match s (lex_ident s)"
    by (auto simp: lex_ident_def many_def split: list.splits)
  moreover have "good_match s (lex_string s)"
    using lex_string_of_good [of s squote] lex_string_of_good [of s dquote]
    by (auto simp: lex_string_def split: option.splits)
  moreover have "good_match s (lex_escaped_ident s)" by (simp add: lex_escaped_ident_def lex_string_of_good)
  moreover have "good_match s (lex_operator s)"
  proof (cases "find (\<lambda>op. take (length op) s = op) operator_texts")
    case (Some op)
    then have op: "take (length op) s = op" "op \<in> set operator_texts" by (auto simp: find_Some_iff)
    then have "op \<noteq> []" by (auto simp: operator_texts_def)
    moreover have "s = op @ drop (length op) s" using op(1) by (metis append_take_drop_id)
    ultimately show ?thesis using Some by (simp add: lex_operator_def)
  qed (simp add: lex_operator_def)
  moreover have "good_match s (lex_punct s)" by (auto simp: lex_punct_def split: list.splits)
  ultimately show "(k, rule) \<in> set sqlLexer \<Longrightarrow> ?thesis"
    using lex_int_good lex_float_good by (auto simp: sqlLexer_def)
qed

lemma first_match_good:
  "first_match rules s = Some (k, t, r) \<Longrightarrow> (\<forall>(k, rule) \<in> set rules. good_match s (rule s)) \<Longrightarrow> t \<noteq> [] \<and> s = t @ r"
  by (induction rules s rule: first_match.induct) (auto split: option.splits)

text \<open>So the guard of \<open>sql_tokens\<close> never stops it.\<close>

lemma lex_step:
  assumes "first_match sqlLexer s = Some (k, t, r)"
  shows "sql_tokens s = map_option (\<lambda>ts. if k = TkWhitespace \<or> k = TkComment then ts else (k, t) # ts) (sql_tokens r)"
proof -
  have "t \<noteq> [] \<and> s = t @ r" using first_match_good [OF assms] rules_good by fast
  then have "s \<noteq> []" "length r < length s" by auto
  with assms show ?thesis by (subst sql_tokens.simps) simp
qed

lemma lex_Nil [simp]: "sql_tokens [] = Some []"
  by (simp add: sql_tokens.simps)

subsection \<open>Quoted literals\<close>

definition plain_char :: "char \<Rightarrow> bool" where
  "plain_char ch = (ch \<noteq> squote \<and> ch \<noteq> bslash)"

lemma lex_quoted_plain:
  "list_all plain_char a \<Longrightarrow> lex_quoted squote (a @ squote # r) = Some (a @ [squote], r)"
  by (induction a) (auto simp: plain_char_def)

lemma squote_starts_string:
  assumes "lex_quoted squote s = Some (t, r)"
  shows "first_match sqlLexer (squote # s) = Some (TkString, squote # t, r)"
proof -
  have no: "lex_whitespace (squote # s) = None" "lex_comment (squote # s) = None" "lex_ident (squote # s) = None"
    "lex_float (squote # s) = None" "lex_int (squote # s) = None"
    by (simp_all add: lex_whitespace_def many1_def is_lex_space_def lex_comment_def lex_ident_def lex_letter_def lex_float_def
        lex_int_def lex_sign_def many_def is_digit_def squote_def)
  show ?thesis using assms no by (simp add: sqlLexer_def lex_string_def lex_string_of_def)
qed

lemma lex_literal:
  assumes "lex_quoted squote s = Some (t, r)"
  shows "sql_tokens (squote # s) = map_option ((#) (TkString, squote # t)) (sql_tokens r)"
  using lex_step [OF squote_starts_string [OF assms]] by simp

text \<open>The start of a lookup: a name, an equals sign and their spaces.\<close>

lemma lex_equals: "sql_tokens (''= '' @ s) = map_option ((#) (TkOperators, ''='')) (sql_tokens ('' '' @ s))"
proof -
  have "first_match sqlLexer (''= '' @ s) = Some (TkOperators, ''='', '' '' @ s)"
    by (simp add: sqlLexer_def lex_whitespace_def many1_def is_lex_space_def lex_comment_def lex_ident_def lex_letter_def
        lex_float_def lex_int_def lex_sign_def many_def is_digit_def lex_string_def lex_string_of_def lex_escaped_ident_def
        lex_operator_def operator_texts_def squote_def dquote_def)
  from lex_step [OF this] show ?thesis by simp
qed

lemma lex_space: "sql_tokens (CHR '' '' # squote # s) = sql_tokens (squote # s)"
proof -
  have "first_match sqlLexer (CHR '' '' # squote # s) = Some (TkWhitespace, '' '', squote # s)"
    by (simp add: sqlLexer_def lex_whitespace_def many1_def many_def is_lex_space_def squote_def)
  from lex_step [OF this] show ?thesis by (simp add: option.map_ident)
qed

lemma lex_word:
  assumes "w \<noteq> []" "list_all lex_letter w"
  shows "sql_tokens (w @ '' = '' @ squote # s) = map_option (\<lambda>ts. (TkIdent, w) # (TkOperators, ''='') # ts) (sql_tokens (squote # s))"
proof -
  obtain ch v where w: "w = ch # v" using assms(1) by (cases w) auto
  with assms have ch: "lex_letter ch" by simp
  then have "ch \<notin> {CHR 0x09, CHR 0x0A, CHR 0x0C, CHR 0x0D, CHR '' '', CHR ''-''}" by (auto simp: lex_letter_def)
  then have no: "lex_whitespace (ch # x) = None" "lex_comment (ch # x) = None" for x
    by (auto simp: lex_whitespace_def many1_def is_lex_space_def lex_comment_def)
  let ?P = "\<lambda>x. lex_letter x \<or> is_digit x"
  have all: "\<forall>x \<in> set w. ?P x" using assms(2) by (auto simp: list_all_iff)
  have "\<not> ?P (CHR '' '')" by (simp add: lex_letter_def is_digit_def)
  with all have "takeWhile ?P (w @ '' = '' @ squote # s) = w" "dropWhile ?P (w @ '' = '' @ squote # s) = '' = '' @ squote # s"
    by (simp_all add: takeWhile_append2 dropWhile_append2)
  then have "lex_ident (w @ '' = '' @ squote # s) = Some (w, '' = '' @ squote # s)"
    using w ch by (simp add: lex_ident_def many_def)
  with no have "first_match sqlLexer (w @ '' = '' @ squote # s) = Some (TkIdent, w, '' = '' @ squote # s)"
    by (simp add: sqlLexer_def w)
  from lex_step [OF this] have 1: "sql_tokens (w @ '' = '' @ squote # s) = map_option ((#) (TkIdent, w)) (sql_tokens ('' = '' @ squote # s))"
    by simp
  have "first_match sqlLexer ('' = '' @ squote # s) = Some (TkWhitespace, '' '', ''= '' @ squote # s)"
    by (simp add: sqlLexer_def lex_whitespace_def many1_def many_def is_lex_space_def)
  from lex_step [OF this] have 2: "sql_tokens ('' = '' @ squote # s) = sql_tokens (''= '' @ squote # s)" by (simp add: option.map_ident)
  show ?thesis
    using 1 2 lex_equals [of "squote # s"] lex_space [of s] by (simp add: option.map_comp comp_def)
qed

end
