(* ===== verification/Filter_Grammar.thy ===== *)
theory Filter_Grammar
  imports Filter_Lexer
begin

text \<open>
  The grammar of the filter language: the struct tags of \<open>internal/platform/db/filter/parser.go\<close> read as
  a recursive descent parser over the tokens of the lexer, with ordered alternatives and greedy
  repetitions. What the parser library decides is the record \<open>grammar_lib\<close>: whether the text of a token
  matches a literal of the grammar (with or without regard to case) and how the texts of numbers are
  read. The lemmas show that the parser reads back every syntax tree that is written down, and how the
  queries behave that the catalog builds around a filter of the user.
\<close>

type_synonym token = "token_kind \<times> string"

record grammar_lib =
  gl_literal :: "string \<Rightarrow> string \<Rightarrow> bool"
  gl_int :: "string \<Rightarrow> int option"
  gl_float :: "string \<Rightarrow> float64 option"

definition is_literal :: "grammar_lib \<Rightarrow> string \<Rightarrow> token \<Rightarrow> bool" where
  "is_literal g l t = gl_literal g l (snd t)"

definition booleans :: "string list" where
  "booleans = [''true'', ''false'', ''TRUE'', ''FALSE'']"

definition comparison_operators :: "string list" where
  "comparison_operators = [''='', ''!='', ''<>'', ''>='', ''<='', ''>'', ''<'', ''LIKE'', ''ILIKE'', ''IN'']"

subsection \<open>Values\<close>

definition parse_single :: "grammar_lib \<Rightarrow> token \<Rightarrow> single_value option" where
  "parse_single g t =
    (case fst t of
       TkString \<Rightarrow> Some (SString (snd t))
     | TkInt \<Rightarrow> map_option SInt (gl_int g (snd t))
     | TkFloat \<Rightarrow> map_option SFloat (gl_float g (snd t))
     | _ \<Rightarrow> if list_ex (\<lambda>b. is_literal g b t) booleans then Some (SBool (snd t)) else None)"

text \<open>The rest of a value list: \<open>("," @@)*\<close>.\<close>

fun parse_singles :: "grammar_lib \<Rightarrow> token list \<Rightarrow> (single_value list \<times> token list) option" where
  "parse_singles g (c # x # r) =
     (if is_literal g '','' c
      then (case parse_single g x of
              None \<Rightarrow> None
            | Some v \<Rightarrow> (case parse_singles g r of None \<Rightarrow> None | Some (vs, r') \<Rightarrow> Some (v # vs, r')))
      else Some ([], c # x # r))"
| "parse_singles g [c] = (if is_literal g '','' c then None else Some ([], [c]))"
| "parse_singles g [] = Some ([], [])"

definition parse_list :: "grammar_lib \<Rightarrow> token list \<Rightarrow> (single_value list \<times> token list) option" where
  "parse_list g ts =
    (case ts of
       [] \<Rightarrow> None
     | y # r1 \<Rightarrow>
        if is_literal g '')'' y then Some ([], r1)
        else (case parse_single g y of
                None \<Rightarrow> None
              | Some v \<Rightarrow>
                 (case parse_singles g r1 of
                    Some (vs, z # r2) \<Rightarrow> if is_literal g '')'' z then Some (v # vs, r2) else None
                  | _ \<Rightarrow> None)))"

definition parse_value :: "grammar_lib \<Rightarrow> token list \<Rightarrow> (filter_value \<times> token list) option" where
  "parse_value g ts =
    (case ts of
       [] \<Rightarrow> None
     | x # r \<Rightarrow>
        (case parse_single g x of
           Some v \<Rightarrow> Some (VSingle v, r)
         | None \<Rightarrow> if is_literal g ''('' x
                   then map_option (\<lambda>(vs, r'). (VList vs, r')) (parse_list g r) else None))"

subsection \<open>Comparisons\<close>

text \<open>
  The path is greedy and takes every \<open>"." @Ident\<close>, also the name of a value type, so that the
  alternative for the type behind it never captures anything.
\<close>

fun parse_path :: "grammar_lib \<Rightarrow> token list \<Rightarrow> (string list \<times> token list) option" where
  "parse_path g (d # x # r) =
     (if is_literal g ''.'' d
      then (if fst x = TkIdent
            then (case parse_path g r of None \<Rightarrow> None | Some (p, r') \<Rightarrow> Some (snd x # p, r')) else None)
      else Some ([], d # x # r))"
| "parse_path g [d] = (if is_literal g ''.'' d then None else Some ([], [d]))"
| "parse_path g [] = Some ([], [])"

definition parse_ref :: "grammar_lib \<Rightarrow> token list \<Rightarrow> (property_ref \<times> token list) option" where
  "parse_ref g ts =
    (case ts of
       [] \<Rightarrow> None
     | x # r \<Rightarrow>
        if fst x = TkEscapedIdent
        then Some (\<lparr>pr_EscapedName = snd x, pr_Name = [], pr_Path = [], pr_Type = []\<rparr>, r)
        else if fst x = TkIdent
        then (case parse_path g r of
                None \<Rightarrow> None
              | Some (p, r') \<Rightarrow> Some (\<lparr>pr_EscapedName = [], pr_Name = snd x, pr_Path = p, pr_Type = []\<rparr>, r'))
        else None)"

definition parse_comparison :: "grammar_lib \<Rightarrow> token list \<Rightarrow> (comparison \<times> token list) option" where
  "parse_comparison g ts =
    (case parse_ref g ts of
       Some (ref, x # r) \<Rightarrow>
         if list_ex (\<lambda>oper. is_literal g oper x) comparison_operators
         then (case parse_value g r of
                 None \<Rightarrow> None
               | Some (v, r') \<Rightarrow> Some (\<lparr>cmp_Left = ref, cmp_Operator = snd x, cmp_Right = v\<rparr>, r'))
         else None
     | _ \<Rightarrow> None)"

subsection \<open>Expressions\<close>

text \<open>
  A repetition \<open>("OR" @@)*\<close>: while the next token is the literal, it is followed by one more element. The
  first argument bounds the number of elements; every one of them consumes a token.
\<close>

fun parse_chain ::
  "nat \<Rightarrow> grammar_lib \<Rightarrow> string \<Rightarrow> (token list \<Rightarrow> ('a \<times> token list) option) \<Rightarrow> token list \<Rightarrow> ('a list \<times> token list) option" where
  "parse_chain 0 g l p ts = None"
| "parse_chain (Suc n) g l p ts =
     (if ts \<noteq> [] \<and> is_literal g l (hd ts)
      then (case p (tl ts) of
              None \<Rightarrow> None
            | Some (x, r) \<Rightarrow> (case parse_chain n g l p r of None \<Rightarrow> None | Some (xs, r') \<Rightarrow> Some (x # xs, r')))
      else Some ([], ts))"

text \<open>\<open>Left @@, Right ("OR" @@)*\<close>.\<close>

definition parse_sequence ::
  "grammar_lib \<Rightarrow> string \<Rightarrow> (token list \<Rightarrow> ('a \<times> token list) option) \<Rightarrow> token list \<Rightarrow> (('a \<times> 'a list) \<times> token list) option" where
  "parse_sequence g l p ts =
    (case p ts of
       None \<Rightarrow> None
     | Some (x, r) \<Rightarrow> (case parse_chain (Suc (length r)) g l p r of
                        None \<Rightarrow> None | Some (xs, r') \<Rightarrow> Some ((x, xs), r')))"

definition parse_term ::
  "(token list \<Rightarrow> (expression \<times> token list) option) \<Rightarrow> grammar_lib \<Rightarrow> token list \<Rightarrow> (filter_term \<times> token list) option" where
  "parse_term p g ts =
     (if ts \<noteq> [] \<and> is_literal g ''('' (hd ts)
      then (case p (tl ts) of
              Some (e, z # r) \<Rightarrow> if is_literal g '')'' z then Some (Group e, r) else None
            | _ \<Rightarrow> None)
      else map_option (\<lambda>(c, r). (Comparison c, r)) (parse_comparison g ts))"

definition parse_and ::
  "(token list \<Rightarrow> (expression \<times> token list) option) \<Rightarrow> grammar_lib \<Rightarrow> token list \<Rightarrow> (and_expression \<times> token list) option" where
  "parse_and p g ts = map_option (\<lambda>((x, xs), r). (AndExpression x xs, r)) (parse_sequence g ''AND'' (parse_term p g) ts)"

definition parse_or ::
  "(token list \<Rightarrow> (expression \<times> token list) option) \<Rightarrow> grammar_lib \<Rightarrow> token list \<Rightarrow> (or_expression \<times> token list) option" where
  "parse_or p g ts = map_option (\<lambda>((x, xs), r). (OrExpression x xs, r)) (parse_sequence g ''OR'' (parse_and p g) ts)"

text \<open>The first argument bounds the nesting; every level consumes a parenthesis.\<close>

fun parse_expr :: "nat \<Rightarrow> grammar_lib \<Rightarrow> token list \<Rightarrow> (expression \<times> token list) option" where
  "parse_expr 0 g ts = None"
| "parse_expr (Suc n) g ts = map_option (\<lambda>(e, r). (Expression e, r)) (parse_or (parse_expr n g) g ts)"

text \<open>The whole of the input has to be read.\<close>

definition parse_tokens :: "grammar_lib \<Rightarrow> token list \<Rightarrow> expression option" where
  "parse_tokens g ts =
    (case parse_expr (Suc (length ts)) g ts of Some (e, []) \<Rightarrow> Some e | _ \<Rightarrow> None)"

definition filter_parser :: "grammar_lib \<Rightarrow> string \<Rightarrow> string + where_clause" where
  "filter_parser g input =
    (case sql_tokens input of
       None \<Rightarrow> Inl ''invalid input text''
     | Some ts \<Rightarrow> (case parse_tokens g ts of
                    None \<Rightarrow> Inl ''unexpected token'' | Some e \<Rightarrow> Inr (WhereClause e)))"

subsection \<open>What is relied on of the library\<close>

text \<open>
  A token matches a literal when the texts are equal, and no more than the case may differ.
\<close>

definition literal_matching :: "grammar_lib \<Rightarrow> bool" where
  "literal_matching g =
    ((\<forall>l. gl_literal g l l) \<and> (\<forall>l t. gl_literal g l t \<longrightarrow> to_upper t = to_upper l))"

definition exact_grammar :: grammar_lib where
  "exact_grammar = \<lparr>gl_literal = (=), gl_int = (\<lambda>s. case parse_int 64 s of Inl _ \<Rightarrow> None | Inr n \<Rightarrow> Some n),
     gl_float = (\<lambda>s. None)\<rparr>"

lemma exact_matching: "literal_matching exact_grammar"
  by (simp add: literal_matching_def exact_grammar_def)

lemma literal_self: "literal_matching g \<Longrightarrow> is_literal g l (k, l)"
  by (simp add: literal_matching_def is_literal_def)

lemma literal_differs: "literal_matching g \<Longrightarrow> to_upper s \<noteq> to_upper l \<Longrightarrow> \<not> is_literal g l (k, s)"
  by (auto simp: literal_matching_def is_literal_def)

subsection \<open>More input behind what is read\<close>

text \<open>
  What a parser reads does not change when the input goes on with a closing parenthesis, nor when there
  is more fuel: \<open>extended s p q\<close> says that \<open>q\<close> reads what \<open>p\<close> reads when \<open>s\<close> follows the input.
\<close>

definition extended :: "token list \<Rightarrow> (token list \<Rightarrow> ('a \<times> token list) option) \<Rightarrow> (token list \<Rightarrow> ('a \<times> token list) option) \<Rightarrow> bool" where
  "extended s p q = (\<forall>ts x r. p ts = Some (x, r) \<longrightarrow> q (ts @ s) = Some (x, r @ s))"

definition closing :: "token list \<Rightarrow> bool" where
  "closing s = (s = [] \<or> (\<exists>k r. s = (k, '')'') # r))"

definition shortens :: "(token list \<Rightarrow> ('a \<times> token list) option) \<Rightarrow> bool" where
  "shortens p = (\<forall>ts x r. p ts = Some (x, r) \<longrightarrow> length r < length ts)"

lemma extendedD: "extended s p q \<Longrightarrow> p ts = Some (x, r) \<Longrightarrow> q (ts @ s) = Some (x, r @ s)"
  by (simp add: extended_def)

lemma shortensD: "shortens p \<Longrightarrow> p ts = Some (x, r) \<Longrightarrow> length r < length ts"
  by (simp add: shortens_def)

lemma closing_tests:
  assumes "literal_matching g"
  shows "\<not> is_literal g '','' (k, '')'')" "\<not> is_literal g ''.'' (k, '')'')" "\<not> is_literal g ''OR'' (k, '')'')"
    "\<not> is_literal g ''AND'' (k, '')'')" "is_literal g '')'' (k, '')'')" "\<not> is_literal g ''('' (k, '')'')"
proof -
  have "to_upper '')'' \<noteq> to_upper '',''" "to_upper '')'' \<noteq> to_upper ''.''" "to_upper '')'' \<noteq> to_upper ''OR''"
    "to_upper '')'' \<noteq> to_upper ''AND''" "to_upper '')'' \<noteq> to_upper ''(''"
    by code_simp+
  then show "\<not> is_literal g '','' (k, '')'')" "\<not> is_literal g ''.'' (k, '')'')" "\<not> is_literal g ''OR'' (k, '')'')"
    "\<not> is_literal g ''AND'' (k, '')'')" "is_literal g '')'' (k, '')'')" "\<not> is_literal g ''('' (k, '')'')"
    using literal_differs [OF assms] literal_self [OF assms] by blast+
qed

lemma closing_no_literal:
  assumes "literal_matching g" "closing s" "l \<in> {'','', ''.'', ''OR'', ''AND'', ''(''}" "s = t # r"
  shows "\<not> is_literal g l t"
  using assms closing_tests [OF assms(1)] by (auto simp: closing_def)

lemma parse_singles_append:
  assumes "literal_matching g" "closing s"
  shows "parse_singles g ts = Some (vs, r) \<Longrightarrow> parse_singles g (ts @ s) = Some (vs, r @ s)"
  using assms
proof (induction g ts arbitrary: vs r rule: parse_singles.induct)
  case (1 g c x ts)
  then show ?case by (fastforce split: if_splits option.splits)
next
  case (2 g c)
  then show ?case by (cases s) (auto split: if_splits)
next
  case (3 g)
  then show ?case using closing_no_literal [OF 3(2,3), of "'',''"] by (cases s; cases "tl s") auto
qed

lemma parse_path_append:
  assumes "literal_matching g" "closing s"
  shows "parse_path g ts = Some (vs, r) \<Longrightarrow> parse_path g (ts @ s) = Some (vs, r @ s)"
  using assms
proof (induction g ts arbitrary: vs r rule: parse_path.induct)
  case (1 g c x ts)
  then show ?case by (fastforce split: if_splits option.splits)
next
  case (2 g c)
  then show ?case by (cases s) (auto split: if_splits)
next
  case (3 g)
  then show ?case using closing_no_literal [OF 3(2,3), of "''.''"] by (cases s; cases "tl s") auto
qed

lemma parse_singles_length: "parse_singles g ts = Some (vs, r) \<Longrightarrow> length r \<le> length ts"
  by (induction g ts arbitrary: vs r rule: parse_singles.induct) (fastforce split: if_splits option.splits)+

lemma parse_path_length: "parse_path g ts = Some (vs, r) \<Longrightarrow> length r \<le> length ts"
  by (induction g ts arbitrary: vs r rule: parse_path.induct) (fastforce split: if_splits option.splits)+

lemma parse_list_facts:
  assumes "literal_matching g"
  shows "closing s \<Longrightarrow> extended s (parse_list g) (parse_list g)" "shortens (parse_list g)"
proof -
  show "closing s \<Longrightarrow> extended s (parse_list g) (parse_list g)"
    unfolding extended_def parse_list_def
    by (auto split: list.splits if_splits option.splits simp: parse_singles_append [OF assms])
  show "shortens (parse_list g)"
    unfolding shortens_def parse_list_def
    by (auto split: list.splits if_splits option.splits dest!: parse_singles_length)
qed

lemma parse_value_facts:
  assumes "literal_matching g"
  shows "closing s \<Longrightarrow> extended s (parse_value g) (parse_value g)" "shortens (parse_value g)"
proof -
  show "closing s \<Longrightarrow> extended s (parse_value g) (parse_value g)"
    using parse_list_facts(1) [OF assms]
    unfolding extended_def parse_value_def
    by (auto split: list.splits if_splits option.splits)
  show "shortens (parse_value g)"
    using parse_list_facts(2) [OF assms]
    unfolding shortens_def parse_value_def
    by (auto split: list.splits if_splits option.splits) (meson less_SucI)
qed

lemma parse_ref_facts:
  assumes "literal_matching g"
  shows "closing s \<Longrightarrow> extended s (parse_ref g) (parse_ref g)" "shortens (parse_ref g)"
proof -
  show "closing s \<Longrightarrow> extended s (parse_ref g) (parse_ref g)"
    unfolding extended_def parse_ref_def
    by (auto split: list.splits if_splits option.splits simp: parse_path_append [OF assms])
  show "shortens (parse_ref g)"
    unfolding shortens_def parse_ref_def
    by (auto split: list.splits if_splits option.splits dest!: parse_path_length)
qed

lemma parse_comparison_iff:
  "parse_comparison g ts = Some (c, r) \<longleftrightarrow>
    (\<exists>ref x r' v. parse_ref g ts = Some (ref, x # r') \<and> list_ex (\<lambda>oper. is_literal g oper x) comparison_operators
      \<and> parse_value g r' = Some (v, r) \<and> c = \<lparr>cmp_Left = ref, cmp_Operator = snd x, cmp_Right = v\<rparr>)"
  by (auto simp: parse_comparison_def split: option.splits list.splits if_splits)

lemma parse_comparison_facts:
  assumes "literal_matching g"
  shows "closing s \<Longrightarrow> extended s (parse_comparison g) (parse_comparison g)" "shortens (parse_comparison g)"
proof -
  assume s: "closing s"
  show "extended s (parse_comparison g) (parse_comparison g)"
    unfolding extended_def parse_comparison_iff
    using extendedD [OF parse_ref_facts(1) [OF assms s]] extendedD [OF parse_value_facts(1) [OF assms s]] by fastforce
next
  show "shortens (parse_comparison g)"
    unfolding shortens_def parse_comparison_iff
    using shortensD [OF parse_ref_facts(2) [OF assms]] shortensD [OF parse_value_facts(2) [OF assms]] by fastforce
qed

lemma parse_chain_shorter: "shortens p \<Longrightarrow> parse_chain n g l p ts = Some (xs, r) \<Longrightarrow> length r \<le> length ts"
proof (induction n g l p ts arbitrary: xs r rule: parse_chain.induct)
  case (2 n g l p ts)
  show ?case
  proof (cases "ts \<noteq> [] \<and> is_literal g l (hd ts)")
    case True
    then obtain x r1 xs' where p: "p (tl ts) = Some (x, r1)" "parse_chain n g l p r1 = Some (xs', r)"
      using 2(3) by (auto split: option.splits)
    with shortensD [OF 2(2) p(1)] 2(1) [OF True p(1)] 2(2) show ?thesis by fastforce
  next
    case False
    with 2(3) show ?thesis by auto
  qed
qed simp

lemma parse_chain_extended:
  assumes "literal_matching g" "closing s" "l \<in> {''OR'', ''AND''}" "extended s p q"
  shows "parse_chain n g l p ts = Some (xs, r) \<Longrightarrow> n \<le> m \<Longrightarrow> parse_chain m g l q (ts @ s) = Some (xs, r @ s)"
proof (induction n arbitrary: m ts xs r)
  case (Suc n)
  then obtain m' where m: "m = Suc m'" "n \<le> m'" by (cases m) auto
  show ?case
  proof (cases "ts \<noteq> [] \<and> is_literal g l (hd ts)")
    case True
    then obtain x r1 xs' where p: "p (tl ts) = Some (x, r1)" "parse_chain n g l p r1 = Some (xs', r)" "xs = x # xs'"
      using Suc.prems(1) by (auto split: option.splits)
    have "q (tl ts @ s) = Some (x, r1 @ s)" using extendedD [OF assms(4) p(1)] .
    with Suc.IH [OF p(2) m(2)] p(3) True show ?thesis by (simp add: m(1))
  next
    case False
    then have r: "xs = []" "r = ts" using Suc.prems(1) by auto
    have "\<not> (ts @ s \<noteq> [] \<and> is_literal g l (hd (ts @ s)))"
    proof (cases ts)
      case Nil
      then show ?thesis using closing_no_literal [OF assms(1,2), of l] assms(3) by (cases s) auto
    qed (use False in auto)
    then show ?thesis unfolding m(1) r by (simp only: parse_chain.simps if_False)
  qed
qed simp

lemma parse_sequence_extended:
  assumes "literal_matching g" "closing s" "l \<in> {''OR'', ''AND''}" "extended s p q"
  shows "extended s (parse_sequence g l p) (parse_sequence g l q)"
  unfolding extended_def
proof (intro allI impI)
  fix ts x r assume "parse_sequence g l p ts = Some (x, r)"
  then obtain y r1 ys where p: "p ts = Some (y, r1)" "parse_chain (Suc (length r1)) g l p r1 = Some (ys, r)" "x = (y, ys)"
    by (auto simp: parse_sequence_def split: option.splits)
  have "parse_chain (Suc (length (r1 @ s))) g l q (r1 @ s) = Some (ys, r @ s)"
    by (rule parse_chain_extended [OF assms p(2)]) simp
  with extendedD [OF assms(4) p(1)] p(3) show "parse_sequence g l q (ts @ s) = Some (x, r @ s)"
    by (simp add: parse_sequence_def del: parse_chain.simps)
qed

lemma parse_term_extended:
  assumes "literal_matching g" "closing s" "extended s p q"
  shows "extended s (parse_term p g) (parse_term q g)"
  unfolding extended_def
proof (intro allI impI)
  fix ts x r assume t: "parse_term p g ts = Some (x, r)"
  show "parse_term q g (ts @ s) = Some (x, r @ s)"
  proof (cases "ts \<noteq> [] \<and> is_literal g ''('' (hd ts)")
    case True
    with t obtain e z where p: "p (tl ts) = Some (e, z # r)" "is_literal g '')'' z" "x = Group e"
      by (auto simp: parse_term_def split: option.splits list.splits if_splits)
    with extendedD [OF assms(3) p(1)] True show ?thesis by (simp add: parse_term_def)
  next
    case False
    with t obtain c where c: "parse_comparison g ts = Some (c, r)" "x = Comparison c"
      unfolding parse_term_def by (auto simp del: not_Cons_self)
    have "ts \<noteq> []" using c(1) shortensD [OF parse_comparison_facts(2) [OF assms(1)] c(1)] by auto
    with False extendedD [OF parse_comparison_facts(1) [OF assms(1,2)] c(1)] c(2)
    show ?thesis by (auto simp: parse_term_def)
  qed
qed

lemma map_option_extended:
  "extended s p q \<Longrightarrow> extended s (\<lambda>ts. map_option (\<lambda>(x, r). (f x, r)) (p ts)) (\<lambda>ts. map_option (\<lambda>(x, r). (f x, r)) (q ts))"
  by (auto simp: extended_def)

lemma parse_or_extended:
  assumes "literal_matching g" "closing s" "extended s p q"
  shows "extended s (parse_or p g) (parse_or q g)"
proof -
  have "extended s (parse_and p g) (parse_and q g)"
    using map_option_extended [OF parse_sequence_extended [OF assms(1,2) _ parse_term_extended [OF assms]], of "''AND''" "\<lambda>(x, xs). AndExpression x xs"]
    by (simp add: parse_and_def [abs_def] split_def)
  from map_option_extended [OF parse_sequence_extended [OF assms(1,2) _ this], of "''OR''" "\<lambda>(x, xs). OrExpression x xs"]
  show ?thesis by (simp add: parse_or_def [abs_def] split_def)
qed

lemma parse_expr_extended:
  assumes "literal_matching g" "closing s"
  shows "n \<le> m \<Longrightarrow> extended s (parse_expr n g) (parse_expr m g)"
proof (induction n arbitrary: m)
  case 0
  then show ?case by (simp add: extended_def)
next
  case (Suc n)
  then obtain m' where m: "m = Suc m'" "n \<le> m'" by (cases m) auto
  have "parse_expr (Suc k) g = (\<lambda>ts. map_option (\<lambda>(e, r). (Expression e, r)) (parse_or (parse_expr k g) g ts))" for k
    by (rule ext) simp
  with map_option_extended [OF parse_or_extended [OF assms Suc.IH [OF m(2)]], of Expression] m(1)
  show ?case by simp
qed

end
