(* ===== verification/Filter_Grammar_Facts.thy ===== *)
theory Filter_Grammar_Facts
  imports Filter_Grammar
begin

text \<open>
  What the lexer and the grammar of the filter language do together: a text that stands in parentheses is
  read as it is read alone, and the tokens of every well-formed syntax tree are read back as that tree.
\<close>

subsection \<open>Lexing what is put in parentheses\<close>

text \<open>
  A text that the lexer reads and that contains no comment is read in the same way when a closing
  parenthesis follows it: no rule that matched takes the parenthesis as well.
\<close>

definition then_rest :: "string \<Rightarrow> (string \<times> string) option \<Rightarrow> (string \<times> string) option" where
  "then_rest z m = map_option (\<lambda>(w, r). (w, r @ z)) m"

lemma then_rest_simps [simp]: "then_rest z None = None" "then_rest z (Some (w, r)) = Some (w, r @ z)"
  by (simp_all add: then_rest_def)

lemma while_append [simp]:
  "\<not> P c \<Longrightarrow> takeWhile P (t @ c # s) = takeWhile P t" "\<not> P c \<Longrightarrow> dropWhile P (t @ c # s) = dropWhile P t @ c # s"
  by (induction t) auto

definition closing_text :: "string \<Rightarrow> bool" where
  "closing_text z = (\<exists>s. z = CHR '')'' # s)"

lemma many1_append: "closing_text z \<Longrightarrow> \<not> P (CHR '')'') \<Longrightarrow> many1 P (t @ z) = then_rest z (many1 P t)"
  by (auto simp: closing_text_def many1_def many_def)

lemma plain_close [simp]: "\<not> is_digit (CHR '')'')" "\<not> lex_letter (CHR '')'')" "\<not> is_lex_space (CHR '')'')"
  by (simp_all add: is_digit_def lex_letter_def is_lex_space_def)

lemma lex_sign_append: "closing_text z \<Longrightarrow> lex_sign (t @ z) = (fst (lex_sign t), snd (lex_sign t) @ z)"
  by (auto simp: closing_text_def lex_sign_def split: list.splits)

lemma lex_int_append: "closing_text z \<Longrightarrow> lex_int (t @ z) = then_rest z (lex_int t)"
  by (auto simp: lex_int_def lex_sign_append many1_append then_rest_def option.map_comp comp_def split_def Let_def)

lemma lex_exponent_append: "closing_text z \<Longrightarrow> lex_exponent (t @ z) = then_rest z (lex_exponent t)"
  by (cases t) (auto simp: closing_text_def lex_exponent_def lex_int_append then_rest_def option.map_comp comp_def split_def)

lemma lex_float_append:
  assumes z: "closing_text z"
  shows "lex_float (t @ z) = then_rest z (lex_float t)"
proof -
  obtain sg r where s: "lex_sign t = (sg, r)" by (cases "lex_sign t")
  define ds r1 where "ds = takeWhile is_digit r" and "r1 = dropWhile is_digit r"
  have d: "takeWhile is_digit (r @ z) = ds" "dropWhile is_digit (r @ z) = r1 @ z"
    using z by (auto simp: ds_def r1_def closing_text_def)
  have c: "(case r1 @ z of [] \<Rightarrow> None | ch # r2 \<Rightarrow> if ch = CHR ''.'' then many1 is_digit r2 else None) =
    then_rest z (case r1 of [] \<Rightarrow> None | ch # r2 \<Rightarrow> if ch = CHR ''.'' then many1 is_digit r2 else None)"
    using z by (cases r1) (auto simp: closing_text_def many1_append)
  show ?thesis
    unfolding lex_float_def lex_sign_append [OF z] s many_def Let_def split_beta fst_conv snd_conv d c
      ds_def [symmetric] r1_def [symmetric]
    by (auto split: option.splits simp: lex_exponent_append [OF z] then_rest_def option.map_comp comp_def split_def)
qed

lemma lex_ident_append: "closing_text z \<Longrightarrow> lex_ident (t @ z) = then_rest z (lex_ident t)"
  by (cases t) (auto simp: closing_text_def lex_ident_def many_def)

lemma lex_operator_append: "closing_text z \<Longrightarrow> lex_operator (t @ z) = then_rest z (lex_operator t)"
  by (cases t; cases "tl t") (auto simp: closing_text_def lex_operator_def operator_texts_def)

lemma lex_punct_append: "t \<noteq> [] \<Longrightarrow> lex_punct (t @ z) = then_rest z (lex_punct t)"
  by (cases t) (auto simp: lex_punct_def)

lemma lex_quoted_append: "lex_quoted q t = Some (w, r) \<Longrightarrow> lex_quoted q (t @ z) = Some (w, r @ z)"
proof (induction q t arbitrary: w rule: lex_quoted.induct)
  case (2 q ch t)
  then show ?case by (cases t) (auto split: if_splits)
qed simp

lemma lex_string_of_append: "lex_string_of q t = Some (w, r) \<Longrightarrow> lex_string_of q (t @ z) = Some (w, r @ z)"
  using lex_quoted_append by (cases t) (auto simp: lex_string_of_def split: if_splits)

lemma lex_string_of_other: "t = ch # t' \<Longrightarrow> ch \<noteq> q \<Longrightarrow> lex_string_of q (t @ z) = None"
  by (simp add: lex_string_of_def)

lemma unclosed_quote:
  assumes "ch \<in> {squote, dquote, CHR 0x60}" "first_match sqlLexer (ch # t) = Some (k, w, r)"
  shows "lex_string_of ch (ch # t) \<noteq> None"
proof -
  have "lex_whitespace (ch # t) = None" "lex_comment (ch # t) = None" "lex_ident (ch # t) = None"
    "lex_float (ch # t) = None" "lex_int (ch # t) = None" "lex_operator (ch # t) = None" "lex_punct (ch # t) = None"
    using assms(1) by (auto simp: lex_whitespace_def many1_def is_lex_space_def lex_comment_def lex_ident_def lex_letter_def lex_float_def
        lex_int_def lex_sign_def many_def is_digit_def lex_operator_def operator_texts_def lex_punct_def squote_def dquote_def)
  then show ?thesis using assms
    by (auto simp: sqlLexer_def lex_string_def lex_escaped_ident_def lex_string_of_def squote_def dquote_def split: option.splits if_splits)
qed

lemma first_match_append:
  assumes m: "first_match sqlLexer t = Some (k, w, r)" and c: "\<not> hasPrefix t ''--''" and z: "closing_text z"
  shows "first_match sqlLexer (t @ z) = Some (k, w, r @ z)"
proof (cases t)
  case Nil
  then show ?thesis using m
    by (simp add: sqlLexer_def lex_whitespace_def many1_def lex_comment_def lex_ident_def lex_float_def lex_int_def
        lex_sign_def many_def lex_string_def lex_string_of_def lex_escaped_ident_def lex_operator_def operator_texts_def lex_punct_def)
next
  case (Cons ch t')
  then have ne: "t \<noteq> []" by simp
  have ws: "lex_whitespace (t @ z) = then_rest z (lex_whitespace t)" by (simp add: lex_whitespace_def many1_append [OF z])
  have cm: "lex_comment t = None" "lex_comment (t @ z) = None"
    using c Cons z by (cases t'; auto simp: lex_comment_def hasPrefix_def closing_text_def)+
  have str: "lex_string (t @ z) = then_rest z (lex_string t)"
  proof (cases "ch \<in> {squote, dquote}")
    case True
    then have "lex_string_of ch t \<noteq> None" using unclosed_quote m Cons by blast
    then obtain x y where "lex_string_of ch t = Some (x, y)" by auto
    with lex_string_of_append [OF this] True Cons show ?thesis
      by (auto simp: lex_string_def lex_string_of_def squote_def dquote_def split: if_splits)
  next
    case False
    then show ?thesis using Cons by (simp add: lex_string_def lex_string_of_def)
  qed
  have esc: "lex_escaped_ident (t @ z) = then_rest z (lex_escaped_ident t)"
  proof (cases "ch = CHR 0x60")
    case True
    then have "lex_string_of ch t \<noteq> None" using unclosed_quote m Cons by blast
    then obtain x y where "lex_string_of ch t = Some (x, y)" by auto
    with lex_string_of_append [OF this] True show ?thesis by (simp add: lex_escaped_ident_def)
  next
    case False
    then show ?thesis using Cons by (simp add: lex_escaped_ident_def lex_string_of_def)
  qed
  show ?thesis
    using m unfolding sqlLexer_def first_match.simps ws cm str esc lex_ident_append [OF z] lex_float_append [OF z]
      lex_int_append [OF z] lex_operator_append [OF z] lex_punct_append [OF ne]
    by (auto split: option.splits)
qed

lemma sql_tokens_append:
  assumes "closing_text z" "sql_tokens z = Some us"
  shows "sql_tokens t = Some ts \<Longrightarrow> \<not> contains_str t ''--'' \<Longrightarrow> sql_tokens (t @ z) = Some (ts @ us)"
proof (induction t arbitrary: ts rule: length_induct)
  case (1 t)
  show ?case
  proof (cases "t = []")
    case True
    with 1 assms(2) show ?thesis by simp
  next
    case False
    then obtain k w r where m: "first_match sqlLexer t = Some (k, w, r)"
      using 1(2) by (subst (asm) sql_tokens.simps) (auto split: option.splits)
    have t: "w \<noteq> [] \<and> t = w @ r" using first_match_good [OF m] rules_good by fast
    obtain rs where rs: "sql_tokens r = Some rs" "ts = (if k = TkWhitespace \<or> k = TkComment then rs else (k, w) # rs)"
      using 1(2) lex_step [OF m] by auto
    have suffix: "\<not> contains_str b p" if "\<not> contains_str (a @ b) p" for a b p
      using that by (induction a) auto
    have "\<not> contains_str r ''--''" using suffix [of w r] 1(3) t by simp
    moreover have "length r < length t" using t by simp
    ultimately have "sql_tokens (r @ z) = Some (rs @ us)" using 1(1) rs(1) by blast
    moreover have "\<not> hasPrefix t ''--''" using 1(3) False by (cases t) auto
    ultimately show ?thesis using lex_step [OF first_match_append [OF m _ assms(1)]] rs(2) by simp
  qed
qed

subsection \<open>Writing a tree down\<close>

text \<open>
  The tokens of a syntax tree, with the keywords in capitals; \<open>fmt\<close> writes floating point numbers. A tree
  is well-formed if it is one the grammar can describe: the texts of its tokens are no parentheses, numbers
  read back as themselves, and a property has an escaped name or a plain one.
\<close>

definition single_token :: "(float64 \<Rightarrow> string) \<Rightarrow> single_value \<Rightarrow> token" where
  "single_token fmt v = (case v of SString t \<Rightarrow> (TkString, t) | SInt n \<Rightarrow> (TkInt, itoa n)
     | SFloat x \<Rightarrow> (TkFloat, fmt x) | SBool t \<Rightarrow> (TkIdent, t))"

definition wf_single :: "grammar_lib \<Rightarrow> (float64 \<Rightarrow> string) \<Rightarrow> single_value \<Rightarrow> bool" where
  "wf_single g fmt v =
    (to_upper (snd (single_token fmt v)) \<noteq> '')'' \<and>
     (case v of SString t \<Rightarrow> True | SInt n \<Rightarrow> gl_int g (itoa n) = Some n
      | SFloat x \<Rightarrow> gl_float g (fmt x) = Some x | SBool t \<Rightarrow> t \<in> set booleans))"

definition value_tokens :: "(float64 \<Rightarrow> string) \<Rightarrow> filter_value \<Rightarrow> token list" where
  "value_tokens fmt v = (case v of
     VSingle x \<Rightarrow> [single_token fmt x]
   | VList [] \<Rightarrow> [(TkPunct, ''(''), (TkPunct, '')'')]
   | VList (x # xs) \<Rightarrow> (TkPunct, ''('') # single_token fmt x
       # concat (map (\<lambda>y. [(TkPunct, '',''), single_token fmt y]) xs) @ [(TkPunct, '')'')])"

definition wf_value :: "grammar_lib \<Rightarrow> (float64 \<Rightarrow> string) \<Rightarrow> filter_value \<Rightarrow> bool" where
  "wf_value g fmt v = (case v of VSingle x \<Rightarrow> wf_single g fmt x | VList xs \<Rightarrow> list_all (wf_single g fmt) xs)"

definition ref_tokens :: "property_ref \<Rightarrow> token list" where
  "ref_tokens r = (if pr_EscapedName r \<noteq> [] then [(TkEscapedIdent, pr_EscapedName r)]
     else (TkIdent, pr_Name r) # concat (map (\<lambda>p. [(TkPunct, ''.''), (TkIdent, p)]) (pr_Path r)))"

definition wf_ref :: "property_ref \<Rightarrow> bool" where
  "wf_ref r = (pr_Type r = [] \<and> (pr_EscapedName r \<noteq> [] \<longrightarrow> pr_Name r = [] \<and> pr_Path r = [])
     \<and> to_upper (snd (hd (ref_tokens r))) \<noteq> ''('')"

definition comparison_tokens :: "(float64 \<Rightarrow> string) \<Rightarrow> comparison \<Rightarrow> token list" where
  "comparison_tokens fmt c = ref_tokens (cmp_Left c) @ (TkOperators, cmp_Operator c) # value_tokens fmt (cmp_Right c)"

definition wf_comparison :: "grammar_lib \<Rightarrow> (float64 \<Rightarrow> string) \<Rightarrow> comparison \<Rightarrow> bool" where
  "wf_comparison g fmt c =
     (wf_ref (cmp_Left c) \<and> cmp_Operator c \<in> set comparison_operators \<and> wf_value g fmt (cmp_Right c))"

fun expr_tokens :: "(float64 \<Rightarrow> string) \<Rightarrow> expression \<Rightarrow> token list"
and or_tokens :: "(float64 \<Rightarrow> string) \<Rightarrow> or_expression \<Rightarrow> token list"
and and_tokens :: "(float64 \<Rightarrow> string) \<Rightarrow> and_expression \<Rightarrow> token list"
and term_tokens :: "(float64 \<Rightarrow> string) \<Rightarrow> filter_term \<Rightarrow> token list" where
  "expr_tokens fmt (Expression e) = or_tokens fmt e"
| "or_tokens fmt (OrExpression l rs) = and_tokens fmt l @ concat (map (\<lambda>x. (TkIdent, ''OR'') # and_tokens fmt x) rs)"
| "and_tokens fmt (AndExpression l rs) = term_tokens fmt l @ concat (map (\<lambda>x. (TkIdent, ''AND'') # term_tokens fmt x) rs)"
| "term_tokens fmt (Group e) = (TkPunct, ''('') # expr_tokens fmt e @ [(TkPunct, '')'')]"
| "term_tokens fmt (Comparison c) = comparison_tokens fmt c"

fun wf_expr :: "(comparison \<Rightarrow> bool) \<Rightarrow> expression \<Rightarrow> bool"
and wf_or :: "(comparison \<Rightarrow> bool) \<Rightarrow> or_expression \<Rightarrow> bool"
and wf_and :: "(comparison \<Rightarrow> bool) \<Rightarrow> and_expression \<Rightarrow> bool"
and wf_term :: "(comparison \<Rightarrow> bool) \<Rightarrow> filter_term \<Rightarrow> bool" where
  "wf_expr P (Expression e) = wf_or P e"
| "wf_or P (OrExpression l rs) = (wf_and P l \<and> list_all id (map (wf_and P) rs))"
| "wf_and P (AndExpression l rs) = (wf_term P l \<and> list_all id (map (wf_term P) rs))"
| "wf_term P (Group e) = wf_expr P e"
| "wf_term P (Comparison c) = P c"

lemma parse_single_print: "literal_matching g \<Longrightarrow> wf_single g fmt v \<Longrightarrow> parse_single g (single_token fmt v) = Some v"
  using literal_self by (auto simp: parse_single_def wf_single_def single_token_def booleans_def split: single_value.splits)

lemma parse_singles_print:
  assumes "literal_matching g"
  shows "list_all (wf_single g fmt) xs \<Longrightarrow>
    parse_singles g (concat (map (\<lambda>y. [(TkPunct, '',''), single_token fmt y]) xs) @ (TkPunct, '')'') # s) = Some (xs, (TkPunct, '')'') # s)"
proof (induction xs)
  case Nil
  then show ?case using closing_tests(1) [OF assms] by (cases s) auto
next
  case (Cons x xs)
  then show ?case using literal_self [OF assms] parse_single_print [OF assms] by simp
qed

lemma parse_value_print:
  assumes g: "literal_matching g" and v: "wf_value g fmt v"
  shows "parse_value g (value_tokens fmt v @ s) = Some (v, s)"
proof (cases v)
  case (VSingle x)
  with v show ?thesis using parse_single_print [OF g, of fmt x] by (simp add: value_tokens_def parse_value_def wf_value_def)
next
  case (VList xs)
  have "list_all (\<lambda>b. to_upper ''('' \<noteq> to_upper b) booleans" by code_simp
  then have "\<not> list_ex (\<lambda>b. is_literal g b (TkPunct, ''('')) booleans"
    using literal_differs [OF g] by (auto simp: list_all_iff list_ex_iff)
  then have lp: "parse_single g (TkPunct, ''('') = None" by (simp add: parse_single_def)
  have close: "to_upper '')'' = '')''" by code_simp
  have "parse_list g (tl (value_tokens fmt v) @ s) = Some (xs, s)"
  proof (cases xs)
    case Nil
    then show ?thesis using literal_self [OF g] VList by (simp add: value_tokens_def parse_list_def)
  next
    case (Cons x ys)
    with v VList have x: "wf_single g fmt x" "list_all (wf_single g fmt) ys" by (simp_all add: wf_value_def)
    have "\<not> is_literal g '')'' (single_token fmt x)"
      using literal_differs [OF g, of "snd (single_token fmt x)" "'')''" "fst (single_token fmt x)"] x(1) close
      by (simp add: wf_single_def)
    then show ?thesis
      using Cons VList parse_single_print [OF g x(1)] parse_singles_print [OF g x(2)] literal_self [OF g]
      by (simp add: value_tokens_def parse_list_def)
  qed
  then show ?thesis using VList lp literal_self [OF g]
    by (cases xs) (simp_all add: value_tokens_def parse_value_def)
qed

lemma parse_path_print:
  assumes "literal_matching g" "\<not> is_literal g ''.'' t"
  shows "parse_path g (concat (map (\<lambda>p. [(TkPunct, ''.''), (TkIdent, p)]) ps) @ t # s) = Some (ps, t # s)"
  using assms literal_self [OF assms(1)] by (induction ps) (simp_all, cases s, auto)

lemma parse_comparison_print:
  assumes g: "literal_matching g" and c: "wf_comparison g fmt c"
  shows "parse_comparison g (comparison_tokens fmt c @ s) = Some (c, s)"
proof -
  have oper: "list_all (\<lambda>oper. to_upper oper \<noteq> to_upper ''.'') comparison_operators" by code_simp
  then have "\<not> is_literal g ''.'' (TkOperators, cmp_Operator c)"
    using c literal_differs [OF g] by (auto simp: wf_comparison_def list_all_iff)
  from parse_path_print [OF g this]
  have "parse_ref g (comparison_tokens fmt c @ s) = Some (cmp_Left c, (TkOperators, cmp_Operator c) # value_tokens fmt (cmp_Right c) @ s)"
    using c by (auto simp: comparison_tokens_def parse_ref_def ref_tokens_def wf_comparison_def wf_ref_def)
  moreover have "list_ex (\<lambda>oper. is_literal g oper (TkOperators, cmp_Operator c)) comparison_operators"
    using c literal_self [OF g] by (auto simp: list_ex_iff wf_comparison_def)
  moreover have "parse_value g (value_tokens fmt (cmp_Right c) @ s) = Some (cmp_Right c, s)"
    using parse_value_print [OF g] c by (simp add: wf_comparison_def)
  ultimately show ?thesis by (simp add: parse_comparison_def)
qed

lemma parse_chain_print:
  assumes g: "literal_matching g" and ok: "\<And>r. ok ((TkIdent, l) # r)"
    and p: "\<And>x s. x \<in> set xs \<Longrightarrow> ok s \<Longrightarrow> p (f x @ s) = Some (x, s)"
    and s: "ok s" "s \<noteq> [] \<Longrightarrow> \<not> is_literal g l (hd s)" and m: "length xs < m"
  shows "parse_chain m g l p (concat (map (\<lambda>x. (TkIdent, l) # f x) xs) @ s) = Some (xs, s)"
  using p m
proof (induction xs arbitrary: m)
  case Nil
  then obtain k where "m = Suc k" by (cases m) auto
  with s(2) show ?case by auto
next
  case (Cons x xs)
  then obtain k where k: "m = Suc k" "length xs < k" by (cases m) auto
  let ?rest = "concat (map (\<lambda>x. (TkIdent, l) # f x) xs) @ s"
  have "ok ?rest" using ok s(1) by (cases xs) auto
  then have "p (f x @ ?rest) = Some (x, ?rest)" using Cons.prems(1) by simp
  with Cons k literal_self [OF g] show ?case by simp
qed

lemma chain_length: "length xs \<le> length (concat (map (\<lambda>x. (TkIdent, l) # f x) xs))"
  by (induction xs) auto

lemma parse_sequence_print:
  assumes g: "literal_matching g" and ok: "\<And>r. ok ((TkIdent, l) # r)"
    and p: "\<And>y s. y \<in> set (x # xs) \<Longrightarrow> ok s \<Longrightarrow> p (f y @ s) = Some (y, s)"
    and s: "ok s" "s \<noteq> [] \<Longrightarrow> \<not> is_literal g l (hd s)"
  shows "parse_sequence g l p (f x @ concat (map (\<lambda>x. (TkIdent, l) # f x) xs) @ s) = Some ((x, xs), s)"
proof -
  let ?rest = "concat (map (\<lambda>x. (TkIdent, l) # f x) xs) @ s"
  have "ok ?rest" using ok s(1) by (cases xs) auto
  then have "p (f x @ ?rest) = Some (x, ?rest)" using p by simp
  moreover have "parse_chain (Suc (length ?rest)) g l p ?rest = Some (xs, s)"
    using chain_length [of xs l f] p s by (intro parse_chain_print [OF g, where ok = ok] ok) auto
  ultimately show ?thesis by (simp add: parse_sequence_def del: parse_chain.simps)
qed

text \<open>What may follow a conjunction: nothing, or no \<open>AND\<close>.\<close>

definition no_and :: "grammar_lib \<Rightarrow> token list \<Rightarrow> bool" where
  "no_and g s = (s \<noteq> [] \<longrightarrow> \<not> is_literal g ''AND'' (hd s))"

definition no_or :: "grammar_lib \<Rightarrow> token list \<Rightarrow> bool" where
  "no_or g s = (s \<noteq> [] \<longrightarrow> \<not> is_literal g ''OR'' (hd s))"

lemma parse_print:
  assumes g: "literal_matching g"
  shows "wf_expr (wf_comparison g fmt) e \<Longrightarrow> length (expr_tokens fmt e) < n \<Longrightarrow> no_and g s \<Longrightarrow> no_or g s
      \<Longrightarrow> parse_expr n g (expr_tokens fmt e @ s) = Some (e, s)"
    and "wf_or (wf_comparison g fmt) eo \<Longrightarrow> length (or_tokens fmt eo) \<le> n \<Longrightarrow> no_and g s \<Longrightarrow> no_or g s
      \<Longrightarrow> parse_or (parse_expr n g) g (or_tokens fmt eo @ s) = Some (eo, s)"
    and "wf_and (wf_comparison g fmt) ea \<Longrightarrow> length (and_tokens fmt ea) \<le> n \<Longrightarrow> no_and g s
      \<Longrightarrow> parse_and (parse_expr n g) g (and_tokens fmt ea @ s) = Some (ea, s)"
    and "wf_term (wf_comparison g fmt) t \<Longrightarrow> length (term_tokens fmt t) \<le> n
      \<Longrightarrow> parse_term (parse_expr n g) g (term_tokens fmt t @ s) = Some (t, s)"
proof (induction e and eo and ea and t arbitrary: n s and n s and n s and n s)
  case (Expression eo)
  then obtain m where "n = Suc m" by (cases n) auto
  with Expression show ?case by simp
next
  case (OrExpression l rs)
  have k: "to_upper ''OR'' \<noteq> to_upper ''AND''" by code_simp
  have len: "length (and_tokens fmt x) \<le> n" if "x \<in> set (l # rs)" for x
    using that OrExpression.prems(2) by (induction rs) auto
  have p: "parse_and (parse_expr n g) g (and_tokens fmt x @ s') = Some (x, s')" if "x \<in> set (l # rs)" "no_and g s'" for x s'
  proof (cases "x = l")
    case True
    then show ?thesis using OrExpression.IH(1) [of n s'] OrExpression.prems(1) len [OF that(1)] that(2) by simp
  next
    case False
    then have "x \<in> set rs" using that(1) by simp
    then show ?thesis using OrExpression.IH(2) [of x n s'] OrExpression.prems(1) len [OF that(1)] that(2)
      by (auto simp: list_all_iff)
  qed
  have "parse_sequence g ''OR'' (parse_and (parse_expr n g) g) (and_tokens fmt l
      @ concat (map (\<lambda>x. (TkIdent, ''OR'') # and_tokens fmt x) rs) @ s) = Some ((l, rs), s)"
    using p OrExpression.prems(3,4) literal_differs [OF g k]
    by (intro parse_sequence_print [OF g, where ok = "no_and g"]) (auto simp: no_and_def no_or_def)
  then show ?case by (simp add: parse_or_def)
next
  case (AndExpression l rs)
  have len: "length (term_tokens fmt x) \<le> n" if "x \<in> set (l # rs)" for x
    using that AndExpression.prems(2) by (induction rs) auto
  have p: "parse_term (parse_expr n g) g (term_tokens fmt x @ s') = Some (x, s')" if "x \<in> set (l # rs)" for x s'
  proof (cases "x = l")
    case True
    then show ?thesis using AndExpression.IH(1) [of n s'] AndExpression.prems(1) len [OF that(1)] by simp
  next
    case False
    then have "x \<in> set rs" using that(1) by simp
    then show ?thesis using AndExpression.IH(2) [of x n s'] AndExpression.prems(1) len [OF that(1)]
      by (auto simp: list_all_iff)
  qed
  have "parse_sequence g ''AND'' (parse_term (parse_expr n g) g) (term_tokens fmt l
      @ concat (map (\<lambda>x. (TkIdent, ''AND'') # term_tokens fmt x) rs) @ s) = Some ((l, rs), s)"
    using p AndExpression.prems(3) by (intro parse_sequence_print [OF g, where ok = "\<lambda>_. True"]) (auto simp: no_and_def)
  then show ?case by (simp add: parse_and_def)
next
  case (Group e)
  have "parse_expr n g (expr_tokens fmt e @ (TkPunct, '')'') # s) = Some (e, (TkPunct, '')'') # s)"
    using Group closing_tests(3,4) [OF g] by (simp add: no_and_def no_or_def)
  then show ?case using literal_self [OF g] by (simp add: parse_term_def)
next
  case (Comparison c)
  then have c: "wf_comparison g fmt c" by simp
  obtain x r where x: "comparison_tokens fmt c = x # r" "to_upper (snd x) \<noteq> ''(''"
    using c by (auto simp: comparison_tokens_def wf_comparison_def wf_ref_def ref_tokens_def split: if_splits)
  have "to_upper ''('' = ''(''" by code_simp
  then have "\<not> is_literal g ''('' x" using literal_differs [OF g, of "snd x" "''(''" "fst x"] x(2) by simp
  with x(1) parse_comparison_print [OF g c, of s] show ?case by (simp add: parse_term_def)
qed

text \<open>
  C34. The grammar reads back what is written down. For every well-formed syntax tree of the filter language
  the parser gives that tree again from its tokens, whatever the nesting: the grammar is unambiguous, \<open>AND\<close>
  binds tighter than \<open>OR\<close>, and the bound on the depth of the calls is enough. The library may match the
  keywords with or without regard to case.
\<close>

theorem grammar_reads_back:
  assumes "literal_matching g" and "wf_expr (wf_comparison g fmt) e"
  shows "parse_tokens g (expr_tokens fmt e) = Some e"
proof -
  have "parse_expr (Suc (length (expr_tokens fmt e))) g (expr_tokens fmt e) = Some (e, [])"
    using parse_print(1) [OF assms, of "Suc (length (expr_tokens fmt e))" "[]"] by (simp add: no_and_def no_or_def del: parse_expr.simps)
  then show ?thesis by (simp add: parse_tokens_def del: parse_expr.simps)
qed

definition demo_string_comparison :: "string \<Rightarrow> string list \<Rightarrow> comparison" where
  "demo_string_comparison n ts = \<lparr>cmp_Left = \<lparr>pr_EscapedName = [], pr_Name = n, pr_Path = [''p''], pr_Type = []\<rparr>,
     cmp_Operator = ''IN'', cmp_Right = VList (map (\<lambda>t. SString (squote # t @ [squote])) ts)\<rparr>"

text \<open>\<open>a.p IN ('x', 'y') AND (b.p IN () OR c.p IN ('z'))\<close>\<close>

definition demo_nested :: expression where
  "demo_nested = Expression (OrExpression (AndExpression (Comparison (demo_string_comparison ''a'' [''x'', ''y'']))
     [Group (Expression (OrExpression (AndExpression (Comparison (demo_string_comparison ''b'' [])) [])
        [AndExpression (Comparison (demo_string_comparison ''c'' [''z''])) []]))]) [])"

theorem grammar_reads_back_witness:
  "parse_tokens exact_grammar (expr_tokens (\<lambda>_. []) demo_nested) = Some demo_nested
   \<and> length (expr_tokens (\<lambda>_. []) demo_nested) = 26"
proof -
  have "wf_expr (wf_comparison exact_grammar (\<lambda>_. [])) demo_nested" by code_simp
  moreover have "length (expr_tokens (\<lambda>_. []) demo_nested) = 26" by code_simp
  ultimately show ?thesis using grammar_reads_back [OF exact_matching] by blast
qed

end
