(* ===== verification/Performance_Query.thy ===== *)
theory Performance_Query
  imports Filter_Grammar_Facts Performance
begin

text \<open>
  The query that the performance service sends to the repository
  (\<open>buildPerformanceFilterQuery\<close> of \<open>performance_artifact_service.go\<close>), read by the lexer and the grammar
  of the filter language: what it means around a filter of the user, and the filters that get out of it.
\<close>

definition performance_comparison :: comparison where
  "performance_comparison =
    \<lparr>cmp_Left = \<lparr>pr_EscapedName = [], pr_Name = ''metricsType'', pr_Path = [''string_value''], pr_Type = []\<rparr>,
     cmp_Operator = ''='', cmp_Right = VSingle (SString ([squote] @ ''performance-metrics'' @ [squote]))\<rparr>"

definition performance_tokens :: "token list" where
  "performance_tokens = [(TkIdent, ''metricsType''), (TkPunct, ''.''), (TkIdent, ''string_value''), (TkOperators, ''=''),
     (TkString, [squote] @ ''performance-metrics'' @ [squote])]"

lemma performance_suffix_tokens:
  "sql_tokens ('') AND ('' @ buildPerformanceFilterQuery [] @ '')'') =
    Some ([(TkPunct, '')''), (TkIdent, ''AND''), (TkPunct, ''('')] @ performance_tokens @ [(TkPunct, '')'')])"
  by code_simp

lemma lex_open: "sql_tokens (CHR ''('' # s) = map_option ((#) (TkPunct, ''('')) (sql_tokens s)"
proof -
  have "first_match sqlLexer (CHR ''('' # s) = Some (TkPunct, ''('', s)"
    by (simp add: sqlLexer_def lex_whitespace_def many1_def is_lex_space_def lex_comment_def lex_ident_def lex_letter_def
        lex_float_def lex_int_def lex_sign_def many_def is_digit_def lex_string_def lex_string_of_def lex_escaped_ident_def
        lex_operator_def operator_texts_def squote_def dquote_def lex_punct_def)
  from lex_step [OF this] show ?thesis by simp
qed

lemma performance_query_tokens:
  assumes "user \<noteq> []" "\<not> contains_str user ''--''" "sql_tokens user = Some ts"
  shows "sql_tokens (buildPerformanceFilterQuery user) =
    Some ((TkPunct, ''('') # ts @ (TkPunct, '')'') # (TkIdent, ''AND'') # (TkPunct, ''('') # performance_tokens @ [(TkPunct, '')'')])"
proof -
  have "closing_text ('') AND ('' @ buildPerformanceFilterQuery [] @ '')'')" by (simp add: closing_text_def)
  from sql_tokens_append [OF this performance_suffix_tokens assms(3,2)]
  have "sql_tokens (user @ '') AND ('' @ buildPerformanceFilterQuery [] @ '')'') =
    Some (ts @ [(TkPunct, '')''), (TkIdent, ''AND''), (TkPunct, ''('')] @ performance_tokens @ [(TkPunct, '')'')])" .
  moreover have "buildPerformanceFilterQuery user = CHR ''('' # user @ '') AND ('' @ buildPerformanceFilterQuery [] @ '')''"
    using assms(1) by (simp add: buildPerformanceFilterQuery_def Let_def)
  ultimately show ?thesis by (simp add: lex_open)
qed

lemma performance_group:
  assumes g: "literal_matching g" and n: "0 < n"
  shows "parse_expr n g (performance_tokens @ [(TkPunct, '')'')]) =
    Some (Expression (OrExpression (AndExpression (Comparison performance_comparison) []) []), [(TkPunct, '')'')])"
proof -
  have d: "to_upper ''='' \<noteq> to_upper ''.''" "to_upper ''metricsType'' \<noteq> to_upper ''(''" by code_simp+
  have no: "\<not> is_literal g ''.'' (TkOperators, ''='')" "\<not> is_literal g ''('' (TkIdent, ''metricsType'')"
    using literal_differs [OF g] d by blast+
  have yes: "is_literal g ''.'' (TkPunct, ''.'')" "is_literal g ''='' (TkOperators, ''='')"
    using literal_self [OF g] by blast+
  have "parse_comparison g (performance_tokens @ [(TkPunct, '')'')]) = Some (performance_comparison, [(TkPunct, '')'')])"
    using no(1) yes by (simp add: parse_comparison_def parse_ref_def performance_tokens_def performance_comparison_def
        comparison_operators_def parse_value_def parse_single_def)
  then have "parse_term p g (performance_tokens @ [(TkPunct, '')'')]) = Some (Comparison performance_comparison, [(TkPunct, '')'')])" for p
    using no(2) by (simp add: parse_term_def performance_tokens_def)
  then show ?thesis using n closing_tests(3,4) [OF g]
    by (cases n) (simp_all add: parse_or_def parse_and_def parse_sequence_def)
qed

text \<open>
  C26. The query for performance artifacts. When a filter of the user parses on its own and contains no
  comment, the query that \<open>buildPerformanceFilterQuery\<close> makes of it parses as well, and a row meets it
  exactly if it meets the filter of the user and its metrics type is \<open>performance-metrics\<close>. This holds
  for every parser library that matches literals up to the case of the letters.
\<close>

theorem performance_filter_conjoins:
  assumes "literal_matching g" and "user \<noteq> []" and "\<not> contains_str user ''--''"
    and "filter_parser g user = Inr (WhereClause e)"
  shows "\<exists>e'. filter_parser g (buildPerformanceFilterQuery user) = Inr (WhereClause e')
    \<and> (\<forall>v. holds_expr v e' \<longleftrightarrow> holds_expr v e \<and> v performance_comparison)"
proof -
  note g = assms(1)
  obtain ts where ts: "sql_tokens user = Some ts" "parse_tokens g ts = Some e"
    using assms(4) by (auto simp: filter_parser_def split: option.splits)
  let ?cs = "(TkIdent, ''AND'') # (TkPunct, ''('') # performance_tokens @ [(TkPunct, '')'')]"
  let ?all = "(TkPunct, ''('') # ts @ (TkPunct, '')'') # ?cs"
  have toks: "sql_tokens (buildPerformanceFilterQuery user) = Some ?all"
    using performance_query_tokens [OF assms(2,3) ts(1)] by simp
  have e: "parse_expr (Suc (length ts)) g ts = Some (e, [])"
    using ts(2) by (auto simp: parse_tokens_def split: option.splits list.splits)
  define n where "n = length ?all"
  have "Suc (length ts) \<le> n" "0 < n" by (simp_all add: n_def)
  have "closing ((TkPunct, '')'') # ?cs)" by (simp add: closing_def)
  from extendedD [OF parse_expr_extended [OF g this \<open>Suc (length ts) \<le> n\<close>] e]
  have inner: "parse_expr n g (ts @ (TkPunct, '')'') # ?cs) = Some (e, (TkPunct, '')'') # ?cs)" by simp
  have lp: "is_literal g ''('' (TkPunct, ''('')" "is_literal g '')'' (TkPunct, '')'')" "is_literal g ''AND'' (TkIdent, ''AND'')"
    using literal_self [OF g] by blast+
  have t1: "parse_term (parse_expr n g) g ?all = Some (Group e, ?cs)"
    using inner lp by (simp add: parse_term_def)
  have t2: "parse_term (parse_expr n g) g (tl ?cs) =
      Some (Group (Expression (OrExpression (AndExpression (Comparison performance_comparison) []) [])), [])"
    using performance_group [OF g \<open>0 < n\<close>] lp by (simp add: parse_term_def)
  let ?and = "AndExpression (Group e) [Group (Expression (OrExpression (AndExpression (Comparison performance_comparison) []) []))]"
  have "parse_chain (Suc (length ?cs)) g ''AND'' (parse_term (parse_expr n g) g) ?cs =
      Some ([Group (Expression (OrExpression (AndExpression (Comparison performance_comparison) []) []))], [])"
    using t2 lp(3) by simp
  with t1 have "parse_and (parse_expr n g) g ?all = Some (?and, [])"
    by (simp add: parse_and_def parse_sequence_def del: parse_chain.simps)
  then have "parse_or (parse_expr n g) g ?all = Some (OrExpression ?and [], [])"
    by (simp add: parse_or_def parse_sequence_def)
  then have "parse_tokens g ?all = Some (Expression (OrExpression ?and []))"
    unfolding parse_tokens_def n_def [symmetric] by simp
  with toks have "filter_parser g (buildPerformanceFilterQuery user) = Inr (WhereClause (Expression (OrExpression ?and [])))"
    by (simp add: filter_parser_def)
  then show ?thesis by (intro exI [of _ "Expression (OrExpression ?and [])"]) simp
qed

theorem performance_filter_conjoins_witness:
  "\<exists>e'. filter_parser exact_grammar (buildPerformanceFilterQuery (''a='' @ squote # ''x'' @ squote # '' OR b='' @ squote # ''y'' @ [squote]))
      = Inr (WhereClause e')"
proof -
  have "filter_parser exact_grammar (''a='' @ squote # ''x'' @ squote # '' OR b='' @ squote # ''y'' @ [squote]) =
    Inr (WhereClause (Expression (OrExpression
      (AndExpression (Comparison \<lparr>cmp_Left = \<lparr>pr_EscapedName = [], pr_Name = ''a'', pr_Path = [], pr_Type = []\<rparr>,
         cmp_Operator = ''='', cmp_Right = VSingle (SString ([squote] @ ''x'' @ [squote]))\<rparr>) [])
      [AndExpression (Comparison \<lparr>cmp_Left = \<lparr>pr_EscapedName = [], pr_Name = ''b'', pr_Path = [], pr_Type = []\<rparr>,
         cmp_Operator = ''='', cmp_Right = VSingle (SString ([squote] @ ''y'' @ [squote]))\<rparr>) []])))"
    by code_simp
  moreover have "\<not> contains_str (''a='' @ squote # ''x'' @ squote # '' OR b='' @ squote # ''y'' @ [squote]) ''--''" by code_simp
  ultimately show ?thesis using performance_filter_conjoins [OF exact_matching] by blast
qed

text \<open>
  A filter that does not parse on its own can undo the conjunction: the parentheses of the user close
  the group around the filter. The query below parses, and a row with \<open>a = 'x'\<close> meets it whatever its
  metrics type is. A comment at the end has the same effect.
\<close>

lemma parentheses_escape_the_group:
  "\<exists>e'. filter_parser exact_grammar (buildPerformanceFilterQuery (''a='' @ squote # ''x'' @ squote # '') OR (b='' @ squote # ''y'' @ [squote]))
      = Inr (WhereClause e')
    \<and> (\<forall>v. v \<lparr>cmp_Left = \<lparr>pr_EscapedName = [], pr_Name = ''a'', pr_Path = [], pr_Type = []\<rparr>,
         cmp_Operator = ''='', cmp_Right = VSingle (SString ([squote] @ ''x'' @ [squote]))\<rparr> \<longrightarrow> holds_expr v e')"
proof -
  let ?c = "\<lambda>n t. \<lparr>cmp_Left = \<lparr>pr_EscapedName = [], pr_Name = n, pr_Path = [], pr_Type = []\<rparr>,
         cmp_Operator = ''='', cmp_Right = VSingle (SString ([squote] @ t @ [squote]))\<rparr>"
  let ?g = "\<lambda>c. Group (Expression (OrExpression (AndExpression (Comparison c) []) []))"
  have "filter_parser exact_grammar (buildPerformanceFilterQuery (''a='' @ squote # ''x'' @ squote # '') OR (b='' @ squote # ''y'' @ [squote]))
    = Inr (WhereClause (Expression (OrExpression (AndExpression (?g (?c ''a'' ''x'')) [])
        [AndExpression (?g (?c ''b'' ''y'')) [?g performance_comparison]])))"
    by code_simp
  then show ?thesis by (intro exI [of _ "Expression (OrExpression (AndExpression (?g (?c ''a'' ''x'')) [])
        [AndExpression (?g (?c ''b'' ''y'')) [?g performance_comparison]])"]) simp
qed

lemma comment_hides_the_condition:
  "filter_parser exact_grammar (buildPerformanceFilterQuery (''a='' @ squote # ''x'' @ squote # '') --''))
    = Inr (WhereClause (Expression (OrExpression (AndExpression (Group (Expression (OrExpression (AndExpression (Comparison
        \<lparr>cmp_Left = \<lparr>pr_EscapedName = [], pr_Name = ''a'', pr_Path = [], pr_Type = []\<rparr>,
         cmp_Operator = ''='', cmp_Right = VSingle (SString ([squote] @ ''x'' @ [squote]))\<rparr>) []) []))) []) [])))"
  by code_simp

end
