(* ===== verification/Plugin_Server.thy ===== *)
theory Plugin_Server
  imports Prelude
begin

section \<open>The catalog plugins and their server\<close>

text \<open>
  The registry of catalog plugins and the server that drives them
  (\<open>catalog/internal/plugin/{registry,server,util}.go\<close>) with the deprecation headers of the alpha
  versions (\<open>internal/platform/server/middleware/deprecation.go\<close>). A plugin is what the framework sees of
  it: its name, version and the optional interfaces it implements. What a call of a plugin does inside
  the plugin is not the framework's; an operation of the server is given the results of the calls and
  yields the calls it makes, in order, with its own result and state.
\<close>

record plugin_info =
  pi_Name :: string
  pi_Version :: string
  pi_BasePath :: "string option"
  pi_FlagProvider :: bool
  pi_LeaderAware :: bool
  pi_Reconnectable :: bool
  pi_SourceIDs :: "string list option"

subsection \<open>The registry\<close>

record 'd registry =
  rg_plugins :: "(string \<times> plugin_info) list"
  rg_order :: "string list"
  rg_extra :: "'d list"

definition empty_registry :: "'d registry" where
  "empty_registry = \<lparr>rg_plugins = [], rg_order = [], rg_extra = []\<rparr>"

text \<open>\<open>Register\<close>; \<open>None\<close> is the panic on a name that is taken.\<close>

definition register_plugin :: "plugin_info \<Rightarrow> 'd registry \<Rightarrow> 'd registry option" where
  "register_plugin p r =
    (case map_of (rg_plugins r) (pi_Name p) of
       Some _ \<Rightarrow> None
     | None \<Rightarrow> Some (r\<lparr>rg_plugins := (pi_Name p, p) # rg_plugins r, rg_order := rg_order r @ [pi_Name p]\<rparr>))"

definition all_plugins :: "'d registry \<Rightarrow> plugin_info option list" where
  "all_plugins r = map (map_of (rg_plugins r)) (rg_order r)"

definition get_plugin :: "string \<Rightarrow> 'd registry \<Rightarrow> plugin_info option" where
  "get_plugin n r = map_of (rg_plugins r) n"

definition plugin_names :: "'d registry \<Rightarrow> string list" where
  "plugin_names r = rg_order r"

definition plugin_count :: "'d registry \<Rightarrow> nat" where
  "plugin_count r = length (rg_plugins r)"

definition RegisterDatastoreEntries :: "'d list \<Rightarrow> 'd registry \<Rightarrow> 'd registry" where
  "RegisterDatastoreEntries es r = r\<lparr>rg_extra := rg_extra r @ es\<rparr>"

definition Reset :: "'d registry \<Rightarrow> 'd registry" where
  "Reset r = r\<lparr>rg_plugins := [], rg_order := [], rg_extra := []\<rparr>"

definition flag_providers :: "'d registry \<Rightarrow> string list" where
  "flag_providers r = map pi_Name (filter pi_FlagProvider (List.map_filter id (all_plugins r)))"

definition CollectAllSourceIDs :: "'d registry \<Rightarrow> string set" where
  "CollectAllSourceIDs r =
    foldl (\<lambda>acc p. case pi_SourceIDs p of None \<Rightarrow> acc | Some ids \<Rightarrow> acc \<union> set ids) {} (List.map_filter id (all_plugins r))"

text \<open>Several \<open>Register\<close> calls, as the \<open>init\<close> functions of the plugins make them.\<close>

fun register_all :: "plugin_info list \<Rightarrow> 'd registry \<Rightarrow> 'd registry option" where
  "register_all [] r = Some r"
| "register_all (p # ps) r = Option.bind (register_plugin p r) (register_all ps)"

definition registry_ok :: "'d registry \<Rightarrow> bool" where
  "registry_ok r = (set (rg_order r) = fst ` set (rg_plugins r) \<and> distinct (map fst (rg_plugins r))
     \<and> distinct (rg_order r) \<and> (\<forall>(n, p) \<in> set (rg_plugins r). pi_Name p = n))"

lemma registry_ok_empty: "registry_ok empty_registry" "registry_ok (Reset r)"
  by (simp_all add: registry_ok_def empty_registry_def Reset_def)

lemma registry_ok_register: "registry_ok r \<Longrightarrow> register_plugin p r = Some r' \<Longrightarrow> registry_ok r'"
  by (auto simp: registry_ok_def register_plugin_def map_of_eq_None_iff split: option.splits) (metis fst_conv image_eqI)+

lemma registry_ok_entries: "registry_ok r \<Longrightarrow> registry_ok (RegisterDatastoreEntries es r)"
  by (simp add: registry_ok_def RegisterDatastoreEntries_def)

lemma register_all_ok: "registry_ok r \<Longrightarrow> register_all ps r = Some r' \<Longrightarrow> registry_ok r'"
  using registry_ok_register by (induction ps arbitrary: r) (auto simp: bind_eq_Some_conv)

lemma register_all_plugins:
  "registry_ok r \<Longrightarrow> register_all ps r = Some r' \<Longrightarrow>
    all_plugins r' = all_plugins r @ map Some ps \<and> distinct (rg_order r @ map pi_Name ps)"
proof (induction ps arbitrary: r)
  case Nil
  then show ?case by (simp add: registry_ok_def)
next
  case (Cons p ps)
  then obtain r1 where r1: "register_plugin p r = Some r1" "register_all ps r1 = Some r'"
    by (auto simp: bind_eq_Some_conv)
  have new: "pi_Name p \<notin> set (rg_order r)"
    using Cons.prems(1) r1(1) by (auto simp: registry_ok_def register_plugin_def map_of_eq_None_iff split: option.splits)
  then have "all_plugins r1 = all_plugins r @ [Some p]" "rg_order r1 = rg_order r @ [pi_Name p]"
    using r1(1) by (auto simp: all_plugins_def register_plugin_def split: option.splits)
  with Cons.IH [OF registry_ok_register [OF Cons.prems(1) r1(1)] r1(2)] show ?case by simp
qed

lemma register_all_total:
  "registry_ok r \<Longrightarrow> distinct (rg_order r @ map pi_Name ps) \<Longrightarrow> \<exists>r'. register_all ps r = Some r'"
proof (induction ps arbitrary: r)
  case (Cons p ps)
  then have "map_of (rg_plugins r) (pi_Name p) = None"
    by (auto simp: registry_ok_def map_of_eq_None_iff)
  then obtain r1 where r1: "register_plugin p r = Some r1" "rg_order r1 = rg_order r @ [pi_Name p]"
    by (simp add: register_plugin_def)
  have "\<exists>r'. register_all ps r1 = Some r'"
    using Cons.IH [OF registry_ok_register [OF Cons.prems(1) r1(1)]] Cons.prems(2) r1(2) by simp
  with r1 show ?case by simp
qed simp

text \<open>
  The registry keeps the plugins in the order of their registration: registering plugins succeeds
  exactly if their names differ (otherwise it panics), and then \<open>All\<close> lists them in that order, \<open>Get\<close> finds
  each under its name, \<open>Names\<close> and \<open>Count\<close> agree, and the source ids of all plugins are collected.
\<close>

theorem registry_keeps_order:
  "((\<exists>r :: 'd registry. register_all ps empty_registry = Some r) \<longleftrightarrow> distinct (map pi_Name ps)) \<and>
   (\<forall>r :: 'd registry. register_all ps empty_registry = Some r \<longrightarrow>
      all_plugins r = map Some ps \<and> plugin_names r = map pi_Name ps \<and> plugin_count r = length ps
      \<and> (\<forall>p \<in> set ps. get_plugin (pi_Name p) r = Some p)
      \<and> CollectAllSourceIDs r = (\<Union>p \<in> set ps. case pi_SourceIDs p of None \<Rightarrow> {} | Some ids \<Rightarrow> set ids))"
proof (intro conjI allI impI)
  show "(\<exists>r :: 'd registry. register_all ps empty_registry = Some r) \<longleftrightarrow> distinct (map pi_Name ps)"
    using register_all_plugins [OF registry_ok_empty(1)] register_all_total [OF registry_ok_empty(1)]
    by (auto simp: empty_registry_def)
next
  fix r :: "'d registry"
  assume r: "register_all ps empty_registry = Some r"
  note ok = register_all_ok [OF registry_ok_empty(1) r]
  have all: "all_plugins r = map Some ps"
    using register_all_plugins [OF registry_ok_empty(1) r] by (simp add: all_plugins_def empty_registry_def)
  then have some: "map (map_of (rg_plugins r)) (rg_order r) = map Some ps" by (simp add: all_plugins_def)
  then have len: "length (rg_order r) = length ps" by (metis length_map)
  have at: "map_of (rg_plugins r) (rg_order r ! i) = Some (ps ! i)" if "i < length ps" for i
    using some len that by (metis nth_map)
  have name: "pi_Name (ps ! i) = rg_order r ! i" if "i < length ps" for i
    using map_of_SomeD [OF at [OF that]] ok by (auto simp: registry_ok_def)
  show "all_plugins r = map Some ps" by (rule all)
  show names: "plugin_names r = map pi_Name ps"
    using len name by (auto simp: plugin_names_def intro: nth_equalityI)
  show "plugin_count r = length ps"
    using ok len by (metis distinct_card length_map list.set_map plugin_count_def registry_ok_def)
  show "\<forall>p \<in> set ps. get_plugin (pi_Name p) r = Some p"
    using at name by (auto simp: get_plugin_def in_set_conv_nth)
  have fold: "foldl (\<lambda>acc p. case pi_SourceIDs p of None \<Rightarrow> acc | Some ids \<Rightarrow> acc \<union> set ids) A (qs :: plugin_info list) =
      A \<union> (\<Union>p \<in> set qs. case pi_SourceIDs p of None \<Rightarrow> {} | Some ids \<Rightarrow> set ids)" for A qs
    by (induction qs arbitrary: A) (auto split: option.splits)
  have "List.map_filter id (map Some ps) = ps" by (simp add: map_filter_def comp_def)
  then show "CollectAllSourceIDs r = (\<Union>p \<in> set ps. case pi_SourceIDs p of None \<Rightarrow> {} | Some ids \<Rightarrow> set ids)"
    by (simp add: CollectAllSourceIDs_def all fold)
qed

subsection \<open>The server\<close>

datatype plugin_call =
    CallInit string string
  | CallRoutes string
  | CallStart string
  | CallStop string
  | CallReconnect string string
  | CallLeader string

datatype 'e server_error =
    InitFailed string 'e
  | RoutesFailed string 'e
  | StartFailed string 'e
  | StopFailed "(string \<times> 'e) list"
  | ReconnectFailed "(string \<times> 'e) list"
  | RemountFailed "'e server_error"

text \<open>The handler is represented by the repositories that its routes were built on.\<close>

record 'r server =
  sv_RepoSet :: 'r
  sv_plugins :: "plugin_info list"
  sv_handler :: "('r \<times> string list) option"
  sv_checks :: "(string \<times> bool) list"
  sv_lastReady :: "(string \<times> bool) list"

definition computeBasePath :: "plugin_info \<Rightarrow> string" where
  "computeBasePath p = (case pi_BasePath p of Some b \<Rightarrow> b
     | None \<Rightarrow> ''/api/'' @ pi_Name p @ ''_catalog/'' @ pi_Version p)"

text \<open>
  The loops of \<open>Init\<close>, \<open>Start\<close> and \<open>RegisterRoutes\<close>: one call per plugin, in order, until one fails. The
  result is the calls made, the plugins done and the failing one with its error.
\<close>

fun until_error ::
  "(plugin_info \<Rightarrow> plugin_call) \<Rightarrow> (string \<Rightarrow> 'e option) \<Rightarrow> plugin_info list
     \<Rightarrow> plugin_call list \<times> plugin_info list \<times> (string \<times> 'e) option" where
  "until_error call res [] = ([], [], None)"
| "until_error call res (p # ps) =
     (case res (pi_Name p) of
        Some e \<Rightarrow> ([call p], [], Some (pi_Name p, e))
      | None \<Rightarrow> (let (cs, ds, r) = until_error call res ps in (call p # cs, p # ds, r)))"

text \<open>The loops of \<open>Stop\<close> and \<open>Reconnect\<close>: every call is made and the errors are collected.\<close>

definition with_errors ::
  "(plugin_info \<Rightarrow> plugin_call) \<Rightarrow> (string \<Rightarrow> 'e option) \<Rightarrow> plugin_info list
     \<Rightarrow> plugin_call list \<times> (string \<times> 'e) list" where
  "with_errors call res ps =
    (map call ps, List.map_filter (\<lambda>p. map_option (\<lambda>e. (pi_Name p, e)) (res (pi_Name p))) ps)"

definition server_Init ::
  "(string \<Rightarrow> 'e option) \<Rightarrow> plugin_info list \<Rightarrow> 'r server \<Rightarrow> plugin_call list \<times> ('e server_error option \<times> 'r server)" where
  "server_Init res registered s =
    (let (cs, ds, r) = until_error (\<lambda>p. CallInit (pi_Name p) (computeBasePath p)) res registered
     in (cs, map_option (\<lambda>(n, e). InitFailed n e) r, s\<lparr>sv_plugins := sv_plugins s @ ds\<rparr>))"

definition buildRouter ::
  "(string \<Rightarrow> 'e option) \<Rightarrow> 'r server \<Rightarrow> plugin_call list \<times> ('e server_error + 'r \<times> string list)" where
  "buildRouter res s =
    (let (cs, ds, r) = until_error (\<lambda>p. CallRoutes (pi_Name p)) res (sv_plugins s)
     in (cs, case r of Some (n, e) \<Rightarrow> Inl (RoutesFailed n e) | None \<Rightarrow> Inr (sv_RepoSet s, map pi_Name ds)))"

definition MountRoutes ::
  "(string \<Rightarrow> 'e option) \<Rightarrow> 'r server \<Rightarrow> plugin_call list \<times> ('e server_error option \<times> 'r server)" where
  "MountRoutes res s =
    (case buildRouter res s of
       (cs, Inl e) \<Rightarrow> (cs, Some e, s)
     | (cs, Inr h) \<Rightarrow> (cs, None, s\<lparr>sv_handler := Some h\<rparr>))"

definition server_Start ::
  "(string \<Rightarrow> 'e option) \<Rightarrow> 'r server \<Rightarrow> plugin_call list \<times> 'e server_error option" where
  "server_Start res s =
    (let (cs, ds, r) = until_error (\<lambda>p. CallStart (pi_Name p)) res (sv_plugins s)
     in (cs, map_option (\<lambda>(n, e). StartFailed n e) r))"

definition server_Stop ::
  "(string \<Rightarrow> 'e option) \<Rightarrow> 'r server \<Rightarrow> plugin_call list \<times> 'e server_error option" where
  "server_Stop res s =
    (let (cs, errs) = with_errors (\<lambda>p. CallStop (pi_Name p)) res (rev (sv_plugins s))
     in (cs, if errs = [] then None else Some (StopFailed errs)))"

text \<open>\<open>NotifyLeader\<close> calls every leader-aware plugin, each in a goroutine of its own, and waits for all.\<close>

definition NotifyLeader :: "'r server \<Rightarrow> plugin_call list" where
  "NotifyLeader s = map (\<lambda>p. CallLeader (pi_Name p)) (filter pi_LeaderAware (sv_plugins s))"

definition Reconnect ::
  "(string \<Rightarrow> 'e option) \<Rightarrow> (string \<Rightarrow> 'e option) \<Rightarrow> 'r \<Rightarrow> 'r server
     \<Rightarrow> plugin_call list \<times> ('e server_error option \<times> 'r server)" where
  "Reconnect res routes repoSet s =
    (let s1 = s\<lparr>sv_RepoSet := repoSet\<rparr>;
         (cs, errs) = with_errors (\<lambda>p. CallReconnect (pi_Name p) (computeBasePath p)) res
           (filter pi_Reconnectable (sv_plugins s))
     in if errs \<noteq> [] then (cs, Some (ReconnectFailed errs), s1)
        else (case buildRouter routes s1 of
                (cs', Inl e) \<Rightarrow> (cs @ cs', Some (RemountFailed e), s1)
              | (cs', Inr h) \<Rightarrow> (cs @ cs', None, s1\<lparr>sv_handler := Some h\<rparr>)))"

definition AddReadinessCheck :: "string \<Rightarrow> bool \<Rightarrow> 'r server \<Rightarrow> 'r server" where
  "AddReadinessCheck n b s = s\<lparr>sv_checks := sv_checks s @ [(n, b)]\<rparr>"

text \<open>
  \<open>readyHandler\<close>: the status code, the health of the plugins, the transitions that are logged (a check and
  whether it recovered) and the remembered readiness. The values of the checks at the time of the request
  are those in \<open>sv_checks\<close>.
\<close>

fun check_transitions :: "(string \<times> bool) list \<Rightarrow> (string \<times> bool) list \<Rightarrow> (string \<times> bool) list \<times> (string \<times> bool) list" where
  "check_transitions seen [] = ([], seen)"
| "check_transitions seen ((n, ready) # cs) =
     (let (ts, seen') = check_transitions ((n, ready) # filter (\<lambda>(m, _). m \<noteq> n) seen) cs
      in (if map_of seen n = Some (\<not> ready) then (n, ready) # ts else ts, seen'))"

definition readyHandler :: "(string \<Rightarrow> bool) \<Rightarrow> 'r server \<Rightarrow> (int \<times> (string \<times> bool) list \<times> (string \<times> bool) list) \<times> 'r server" where
  "readyHandler healthy s =
    (let status = map (\<lambda>p. (pi_Name p, healthy (pi_Name p))) (sv_plugins s);
         allHealthy = (list_all snd status \<and> list_all snd (sv_checks s));
         (logged, seen) = check_transitions (sv_lastReady s) (sv_checks s)
     in ((if allHealthy then 200 else 503, status, logged), s\<lparr>sv_lastReady := seen\<rparr>))"

subsection \<open>Deprecation of the alpha versions\<close>

definition alpha_path :: "plugin_info \<Rightarrow> (string \<times> string) option" where
  "alpha_path p =
    (let base = computeBasePath p; versionSegment = ''/'' @ pi_Version p
     in if \<not> contains_str (pi_Version p) ''alpha'' \<or> \<not> hasSuffix base versionSegment then None
        else Some (base @ ''/'', (trimSuffix base versionSegment @ ''/v1'') @ ''/''))"

definition alphaDeprecatedPaths :: "plugin_info list \<Rightarrow> (string \<times> string) list" where
  "alphaDeprecatedPaths plugins = List.map_filter alpha_path plugins"

text \<open>
  The headers that the middleware adds to the response for a path, given the text of the sunset date, and
  the log state: the first configured prefix that matches decides.
\<close>

definition deprecation_headers :: "string \<Rightarrow> (string \<times> string) list \<Rightarrow> string \<Rightarrow> (string \<times> string) list" where
  "deprecation_headers sunset paths url =
    (case find (\<lambda>(pre, _). hasPrefix url pre) paths of
       None \<Rightarrow> []
     | Some (_, successor) \<Rightarrow> [(''Deprecation'', ''true''), (''Sunset'', sunset),
         (''Link'', ''<'' @ successor @ ''>; rel='' @ [CHR 0x22] @ ''successor-version'' @ [CHR 0x22])])"

definition deprecation_logged :: "int \<Rightarrow> int \<Rightarrow> bool \<times> int" where
  "deprecation_logged lastLog now = (if 60 \<le> now - lastLog then (True, now) else (False, lastLog))"

subsection \<open>Properties of the server\<close>

lemma until_error_calls:
  "fst (until_error call res ps) = map call (take (Suc (length (takeWhile (\<lambda>p. res (pi_Name p) = None) ps))) ps)"
  by (induction ps) (auto simp: Let_def split: option.splits prod.splits)

lemma until_error_done: "fst (snd (until_error call res ps)) = takeWhile (\<lambda>p. res (pi_Name p) = None) ps"
  by (induction ps) (auto simp: Let_def split: option.splits prod.splits)

lemma until_error_none: "snd (snd (until_error call res ps)) = None \<longleftrightarrow> (\<forall>p \<in> set ps. res (pi_Name p) = None)"
  by (induction ps) (auto simp: Let_def split: option.splits prod.splits)

lemma takeWhile_everything: "\<forall>x \<in> set xs. P x \<Longrightarrow> takeWhile P xs = xs"
  by (induction xs) auto

lemma with_errors_none: "snd (with_errors call res ps) = [] \<longleftrightarrow> (\<forall>p \<in> set ps. res (pi_Name p) = None)"
  by (induction ps) (auto simp: with_errors_def map_filter_def split: option.splits)

lemma server_Init_parts:
  "fst (server_Init res ps s) = map (\<lambda>p. CallInit (pi_Name p) (computeBasePath p))
     (take (Suc (length (takeWhile (\<lambda>p. res (pi_Name p) = None) ps))) ps)"
  "fst (snd (server_Init res ps s)) = None \<longleftrightarrow> (\<forall>p \<in> set ps. res (pi_Name p) = None)"
  "sv_plugins (snd (snd (server_Init res ps s))) = sv_plugins s @ takeWhile (\<lambda>p. res (pi_Name p) = None) ps"
  using until_error_calls [of "\<lambda>p. CallInit (pi_Name p) (computeBasePath p)" res ps]
    until_error_done [of "\<lambda>p. CallInit (pi_Name p) (computeBasePath p)" res ps]
    until_error_none [of "\<lambda>p. CallInit (pi_Name p) (computeBasePath p)" res ps]
  by (simp_all add: server_Init_def split_beta)

lemma server_Stop_parts:
  "fst (server_Stop res s) = map (\<lambda>p. CallStop (pi_Name p)) (rev (sv_plugins s))"
  "snd (server_Stop res s) = None \<longleftrightarrow> (\<forall>p \<in> set (sv_plugins s). res (pi_Name p) = None)"
  using with_errors_none [of "\<lambda>p. CallStop (pi_Name p)" res "rev (sv_plugins s)"]
  by (auto simp: server_Stop_def with_errors_def)

text \<open>
  Start-up goes from left to right and stops at the first error, shutdown reaches everyone. \<open>Init\<close>
  succeeds exactly if every plugin's own \<open>Init\<close> does; it holds the plugins before the first failing one, all
  of them if none fails, and calls no plugin behind it. \<open>Stop\<close> then calls every plugin that is held once, in
  the reverse order, whatever fails, and reports an error exactly if some plugin did.
\<close>

theorem start_and_stop:
  fixes s :: "'r server"
  assumes "sv_plugins s = []"
  shows "\<exists>cs err s'. server_Init res ps s = (cs, err, s')
    \<and> (err = None \<longleftrightarrow> (\<forall>p \<in> set ps. res (pi_Name p) = None))
    \<and> sv_plugins s' = takeWhile (\<lambda>p. res (pi_Name p) = None) ps
    \<and> (err = None \<longrightarrow> sv_plugins s' = ps)
    \<and> cs = map (\<lambda>p. CallInit (pi_Name p) (computeBasePath p)) (take (Suc (length (sv_plugins s'))) ps)
    \<and> fst (server_Stop stopped s') = map (\<lambda>p. CallStop (pi_Name p)) (rev (sv_plugins s'))
    \<and> (snd (server_Stop stopped s') = None \<longleftrightarrow> (\<forall>p \<in> set (sv_plugins s'). stopped (pi_Name p) = None))"
proof -
  obtain cs err s' where r: "server_Init res ps s = (cs, err, s')" by (cases "server_Init res ps s") auto
  note i = server_Init_parts [of res ps s, unfolded r fst_conv snd_conv assms append_Nil]
  have "err = None \<longrightarrow> sv_plugins s' = ps" using i(2,3) by (simp add: takeWhile_everything)
  with i server_Stop_parts [of stopped s'] show ?thesis unfolding r by simp
qed

lemma buildRouter_ok:
  "snd (buildRouter res s) = Inr h \<longleftrightarrow>
    (\<forall>p \<in> set (sv_plugins s). res (pi_Name p) = None) \<and> h = (sv_RepoSet s, map pi_Name (sv_plugins s))"
  using until_error_none [of "\<lambda>p. CallRoutes (pi_Name p)" res "sv_plugins s"]
    until_error_done [of "\<lambda>p. CallRoutes (pi_Name p)" res "sv_plugins s"]
  by (auto simp: buildRouter_def split_beta takeWhile_everything split: option.splits)

text \<open>
  A reconnect is seen entirely or not at all. It succeeds exactly if every reconnectable plugin and every
  registration of routes does; then the handler that serves the requests is built on the new repositories
  with the routes of all plugins, and otherwise it is the one of before. Every reconnectable plugin is
  called, also after an error.
\<close>

theorem reconnect_swaps_at_the_end:
  fixes s :: "'r server"
  shows "\<exists>cs err s'. Reconnect res routes repoSet s = (cs, err, s')
    \<and> (err = None \<longleftrightarrow> (\<forall>p \<in> set (sv_plugins s). (pi_Reconnectable p \<longrightarrow> res (pi_Name p) = None) \<and> routes (pi_Name p) = None))
    \<and> sv_handler s' = (if err = None then Some (repoSet, map pi_Name (sv_plugins s)) else sv_handler s)
    \<and> (\<forall>p \<in> set (sv_plugins s). pi_Reconnectable p \<longrightarrow> CallReconnect (pi_Name p) (computeBasePath p) \<in> set cs)"
proof -
  define rs where "rs = filter pi_Reconnectable (sv_plugins s)"
  define w where "w = with_errors (\<lambda>p. CallReconnect (pi_Name p) (computeBasePath p)) res rs"
  define s1 where "s1 = s\<lparr>sv_RepoSet := repoSet\<rparr>"
  have errs: "snd w = [] \<longleftrightarrow> (\<forall>p \<in> set (sv_plugins s). pi_Reconnectable p \<longrightarrow> res (pi_Name p) = None)"
    unfolding w_def with_errors_none rs_def by auto
  have calls: "fst w = map (\<lambda>p. CallReconnect (pi_Name p) (computeBasePath p)) rs" by (simp add: w_def with_errors_def)
  have R: "Reconnect res routes repoSet s =
      (if snd w \<noteq> [] then (fst w, Some (ReconnectFailed (snd w)), s1)
       else (case buildRouter routes s1 of
                (cs', Inl e) \<Rightarrow> (fst w @ cs', Some (RemountFailed e), s1)
              | (cs', Inr h) \<Rightarrow> (fst w @ cs', None, s1\<lparr>sv_handler := Some h\<rparr>)))"
    by (simp add: Reconnect_def Let_def split_beta w_def rs_def s1_def)
  have s1: "sv_plugins s1 = sv_plugins s" "sv_RepoSet s1 = repoSet" "sv_handler s1 = sv_handler s" by (simp_all add: s1_def)
  show ?thesis
  proof (cases "snd w = []")
    case False
    with errs calls s1 R show ?thesis by (auto simp: rs_def)
  next
    case True
    obtain cs' b where b: "buildRouter routes s1 = (cs', b)" by (cases "buildRouter routes s1")
    show ?thesis
    proof (cases b)
      case (Inl e)
      then have "\<not> (\<forall>p \<in> set (sv_plugins s). routes (pi_Name p) = None)"
        using buildRouter_ok [of routes s1 "(repoSet, map pi_Name (sv_plugins s))"] b s1 by simp
      with True errs calls s1 R b Inl show ?thesis by (auto simp: rs_def)
    next
      case (Inr h)
      then have "(\<forall>p \<in> set (sv_plugins s). routes (pi_Name p) = None) \<and> h = (repoSet, map pi_Name (sv_plugins s))"
        using buildRouter_ok [of routes s1 h] b s1 by simp
      with True errs calls s1 R b Inr show ?thesis by (auto simp: rs_def)
    qed
  qed
qed

text \<open>A failed \<open>Start\<close> leaves the plugins before the failing one running: \<open>Start\<close> makes no call of \<open>Stop\<close>.\<close>

lemma start_stops_nothing: "CallStop n \<notin> set (fst (server_Start res s))"
  using until_error_calls [of "\<lambda>p. CallStart (pi_Name p)" res "sv_plugins s"]
  by (auto simp: server_Start_def split_beta)

text \<open>Every deprecated prefix is announced with the \<open>v1\<close> path of the same plugin.\<close>

lemma contains_str_nil: "contains_str s [] = True"
  by (cases s) (simp_all add: hasPrefix_def)

lemma alpha_path_v1:
  assumes "alpha_path p = Some (pre, successor)"
  shows "\<exists>root. computeBasePath p = root @ ''/'' @ pi_Version p \<and> pre = root @ ''/'' @ pi_Version p @ ''/'' \<and> successor = root @ ''/v1/''"
proof -
  let ?b = "computeBasePath p" and ?v = "''/'' @ pi_Version p"
  from assms have suf: "hasSuffix ?b ?v" and pre: "pre = ?b @ ''/''" and suc: "successor = trimSuffix ?b ?v @ ''/v1/''"
    by (auto simp: alpha_path_def Let_def split: if_splits)
  define root where "root = take (length ?b - length ?v) ?b"
  have "?b = root @ ?v" using suf append_take_drop_id [of "length ?b - length ?v" ?b] by (simp add: hasSuffix_def root_def)
  moreover have "trimSuffix ?b ?v = root" using suf by (simp add: trimSuffix_def root_def)
  ultimately show ?thesis using pre suc by (intro exI [of _ root]) simp
qed

lemma deprecated_paths_announced:
  assumes "(pre, successor) \<in> set (alphaDeprecatedPaths ps)"
  shows "\<exists>p \<in> set ps. \<exists>root. contains_str (pi_Version p) ''alpha''
    \<and> computeBasePath p = root @ ''/'' @ pi_Version p \<and> pre = root @ ''/'' @ pi_Version p @ ''/'' \<and> successor = root @ ''/v1/''"
proof -
  from assms obtain p where p: "p \<in> set ps" "alpha_path p = Some (pre, successor)"
    by (auto simp: alphaDeprecatedPaths_def map_filter_def)
  then have "contains_str (pi_Version p) ''alpha''" by (auto simp: alpha_path_def Let_def split: if_splits)
  with p alpha_path_v1 [OF p(2)] show ?thesis by blast
qed

text \<open>Readiness: the status is 200 exactly if every plugin is healthy and every check passes.\<close>

lemma ready_iff:
  "fst (fst (readyHandler healthy s)) = 200 \<longleftrightarrow>
    (\<forall>p \<in> set (sv_plugins s). healthy (pi_Name p)) \<and> (\<forall>c \<in> set (sv_checks s). snd c)"
  by (auto simp: readyHandler_def Let_def split_beta list_all_iff)

definition demo_plugin :: "string \<Rightarrow> plugin_info" where
  "demo_plugin n = \<lparr>pi_Name = n, pi_Version = ''v1alpha1'', pi_BasePath = None, pi_FlagProvider = False,
     pi_LeaderAware = True, pi_Reconnectable = True, pi_SourceIDs = None\<rparr>"

theorem start_and_stop_witness:
  "\<exists>cs err s'. server_Init (\<lambda>n. if n = ''b'' then Some (7 :: nat) else None) [demo_plugin ''a'', demo_plugin ''b'', demo_plugin ''c'']
      \<lparr>sv_RepoSet = (), sv_plugins = [], sv_handler = None, sv_checks = [], sv_lastReady = []\<rparr> = (cs, err, s')
    \<and> err \<noteq> None \<and> sv_plugins s' = [demo_plugin ''a''] \<and> length cs = 2
    \<and> fst (server_Stop (\<lambda>n. None :: nat option) s') = [CallStop ''a'']"
proof -
  let ?s = "\<lparr>sv_RepoSet = (), sv_plugins = [], sv_handler = None, sv_checks = [], sv_lastReady = []\<rparr>"
  let ?res = "\<lambda>n. if n = ''b'' then Some (7 :: nat) else None"
  let ?ps = "[demo_plugin ''a'', demo_plugin ''b'', demo_plugin ''c'']"
  have n: "pi_Name (demo_plugin n) = n" for n by (simp add: demo_plugin_def)
  have s: "sv_plugins ?s = []" by simp
  obtain cs err s' where r: "server_Init ?res ?ps ?s = (cs, err, s')"
    "err = None \<longleftrightarrow> (\<forall>p \<in> set ?ps. ?res (pi_Name p) = None)"
    "sv_plugins s' = takeWhile (\<lambda>p. ?res (pi_Name p) = None) ?ps"
    "cs = map (\<lambda>p. CallInit (pi_Name p) (computeBasePath p)) (take (Suc (length (sv_plugins s'))) ?ps)"
    "fst (server_Stop (\<lambda>n. None :: nat option) s') = map (\<lambda>p. CallStop (pi_Name p)) (rev (sv_plugins s'))"
    using start_and_stop [OF s, of ?res ?ps "\<lambda>n. None :: nat option"] by blast
  have "sv_plugins s' = [demo_plugin ''a'']" using r(3) by (simp add: n)
  moreover have "err \<noteq> None" using r(2) by (simp add: n)
  ultimately show ?thesis using r(1,4,5) by (intro exI [of _ cs] exI [of _ err] exI [of _ s']) (simp add: n)
qed

theorem reconnect_swaps_at_the_end_witness:
  "\<exists>cs err s'. Reconnect (\<lambda>n. if n = ''a'' then Some (7 :: nat) else None) (\<lambda>_. None) (2 :: nat)
      \<lparr>sv_RepoSet = 1, sv_plugins = [demo_plugin ''a'', demo_plugin ''b''], sv_handler = Some (1, [''a'', ''b'']),
       sv_checks = [], sv_lastReady = []\<rparr> = (cs, err, s')
    \<and> err \<noteq> None \<and> sv_handler s' = Some (1, [''a'', ''b'']) \<and> CallReconnect ''b'' (computeBasePath (demo_plugin ''b'')) \<in> set cs"
proof -
  let ?s = "\<lparr>sv_RepoSet = 1, sv_plugins = [demo_plugin ''a'', demo_plugin ''b''], sv_handler = Some (1, [''a'', ''b'']),
       sv_checks = [], sv_lastReady = []\<rparr> :: nat server"
  let ?res = "\<lambda>n. if n = ''a'' then Some (7 :: nat) else None"
  have n: "pi_Name (demo_plugin n) = n" "pi_Reconnectable (demo_plugin n)" for n by (simp_all add: demo_plugin_def)
  obtain cs err s' where r: "Reconnect ?res (\<lambda>_. None) 2 ?s = (cs, err, s')"
    "err = None \<longleftrightarrow> (\<forall>p \<in> set (sv_plugins ?s). (pi_Reconnectable p \<longrightarrow> ?res (pi_Name p) = None) \<and> (\<lambda>_. None :: nat option) (pi_Name p) = None)"
    "sv_handler s' = (if err = None then Some (2, map pi_Name (sv_plugins ?s)) else sv_handler ?s)"
    "\<forall>p \<in> set (sv_plugins ?s). pi_Reconnectable p \<longrightarrow> CallReconnect (pi_Name p) (computeBasePath p) \<in> set cs"
    using reconnect_swaps_at_the_end [of ?res "\<lambda>_. None" 2 ?s] by blast
  have "err \<noteq> None" using r(2) by (simp add: n)
  with r(1,3,4) show ?thesis by (intro exI [of _ cs] exI [of _ err] exI [of _ s']) (simp add: n)
qed

end
