(* ===== verification/Plugin_Lifecycle.thy ===== *)
theory Plugin_Lifecycle
  imports Prelude
begin

section \<open>The life of a catalog plugin\<close>

text \<open>
  The shared life cycle of the catalog plugins (\<open>catalog/internal/plugin/base.go\<close>) over the loader state of
  \<open>catalog/internal/catalog/basecatalog/loader_base.go\<close> and the database writes of a loader
  (\<open>PerformLeaderOperations\<close> and \<open>updateDatabase\<close> of \<open>modelcatalog/loader.go\<close>), as a step relation: the
  goroutine of \<open>OnBecomeLeader\<close>, one goroutine per watched configuration file, the goroutines that write what
  the providers send, and the environment that elects and deposes the pod and stops the plugin. Every wait
  with a timeout may end either way, and what a loader operation returns is open.
\<close>

subsection \<open>State\<close>

text \<open>
  A writer is one goroutine of \<open>updateDatabase\<close>: whose context it runs under (a term of leadership, or the
  context of the file watchers), whether \<open>setCloser\<close> preempted it, and whether it has passed its checks for
  the next record. A term is one call of \<open>OnBecomeLeader\<close>.
\<close>

datatype origin = ByLeader nat | ByWatcher

record writer =
  wr_origin :: origin
  wr_preempted :: bool
  wr_writing :: bool

datatype leader_result = AlreadyLeader | OperationsFailed | SetupFailed | ContextDone

datatype leader_pc =
  LdOut | LdCalled | LdEntered | LdPreempted | LdWaiting | LdHook | LdActive | LdDraining | LdDone leader_result

datatype watch_pc = WtStart | WtIdle | WtReload | WtOperations | WtPreempted | WtWaiting | WtGone

text \<open>
  \<open>lf_log\<close> records for every record that is written whether the pod was leader then, \<open>lf_cleanups\<close> the same
  for every cleanup of missing sources and who ran it; \<open>lf_abandoned\<close> says that the leader flag was cleared
  once while writers were in flight.
\<close>

record life =
  lf_isLeader :: bool
  lf_healthy :: bool
  lf_writers :: "writer list"
  lf_leader :: leader_pc
  lf_term :: nat
  lf_leaderDone :: bool
  lf_watch :: "watch_pc list"
  lf_watchDone :: bool
  lf_abandoned :: bool
  lf_log :: "bool list"
  lf_cleanups :: "(origin \<times> bool) list"

definition life_start :: "nat \<Rightarrow> life" where
  "life_start paths = \<lparr>lf_isLeader = False, lf_healthy = True, lf_writers = [], lf_leader = LdOut, lf_term = 0,
     lf_leaderDone = False, lf_watch = replicate paths WtStart, lf_watchDone = False, lf_abandoned = False,
     lf_log = [], lf_cleanups = []\<rparr>"

definition context_done :: "life \<Rightarrow> origin \<Rightarrow> bool" where
  "context_done s org = (case org of
     ByLeader n \<Rightarrow> n < lf_term s \<or> lf_leaderDone s
   | ByWatcher \<Rightarrow> lf_watchDone s)"

subsection \<open>Operations\<close>

definition SetLeader :: "bool \<Rightarrow> life \<Rightarrow> life" where
  "SetLeader b s = s\<lparr>lf_isLeader := b, lf_abandoned := (lf_abandoned s \<or> (\<not> b \<and> lf_writers s \<noteq> []))\<rparr>"

text \<open>
  \<open>PerformLeaderOperations\<close> first installs its closer, which preempts the writers of the previous run
  (\<open>setCloser\<close>), waits for them, and then removes the models of missing sources and starts a writer under its
  context (\<open>performLeaderWrites\<close>), unless the removal fails.
\<close>

definition setCloser :: "life \<Rightarrow> life" where
  "setCloser s = s\<lparr>lf_writers := map (\<lambda>w. w\<lparr>wr_preempted := True\<rparr>) (lf_writers s)\<rparr>"

definition performLeaderWrites :: "origin \<Rightarrow> bool \<Rightarrow> life \<Rightarrow> life" where
  "performLeaderWrites org ok s =
    s\<lparr>lf_cleanups := lf_cleanups s @ [(org, lf_isLeader s)],
      lf_writers := lf_writers s @ (if ok then [\<lparr>wr_origin = org, wr_preempted = False, wr_writing = False\<rparr>] else [])\<rparr>"

text \<open>\<open>WaitForInflightWrites\<close> returns when there is no writer or its time is over.\<close>

definition wait_over :: "bool \<Rightarrow> life \<Rightarrow> bool" where
  "wait_over timeout s = (timeout \<or> lf_writers s = [])"

definition leader_fails :: "leader_result \<Rightarrow> life \<Rightarrow> life" where
  "leader_fails r s = SetLeader False (s\<lparr>lf_healthy := False, lf_leader := LdDone r\<rparr>)"

text \<open>\<open>OnBecomeLeader\<close>, one blocking call per step.\<close>

inductive leader_step :: "life \<Rightarrow> life \<Rightarrow> bool" where
  refused: "lf_leader s = LdCalled \<Longrightarrow> lf_isLeader s \<Longrightarrow> leader_step s (s\<lparr>lf_leader := LdDone AlreadyLeader\<rparr>)"
| enter: "lf_leader s = LdCalled \<Longrightarrow> \<not> lf_isLeader s \<Longrightarrow> leader_step s (SetLeader True (s\<lparr>lf_leader := LdEntered\<rparr>))"
| closer: "lf_leader s = LdEntered \<Longrightarrow> leader_step s ((setCloser s)\<lparr>lf_leader := LdPreempted\<rparr>)"
| operations_ok: "lf_leader s = LdPreempted \<Longrightarrow> wait_over t s
    \<Longrightarrow> leader_step s ((performLeaderWrites (ByLeader (lf_term s)) True s)\<lparr>lf_leader := LdWaiting\<rparr>)"
| operations_fail: "lf_leader s = LdPreempted \<Longrightarrow> wait_over t s
    \<Longrightarrow> leader_step s (leader_fails OperationsFailed (performLeaderWrites (ByLeader (lf_term s)) False s))"
| loaded: "lf_leader s = LdWaiting \<Longrightarrow> wait_over t s \<Longrightarrow> leader_step s (s\<lparr>lf_leader := LdHook\<rparr>)"
| hook_ok: "lf_leader s = LdHook \<Longrightarrow> leader_step s (s\<lparr>lf_healthy := True, lf_leader := LdActive\<rparr>)"
| hook_fail: "lf_leader s = LdHook \<Longrightarrow> leader_step s (leader_fails SetupFailed s)"
| deposed: "lf_leader s = LdActive \<Longrightarrow> lf_leaderDone s \<Longrightarrow> leader_step s (s\<lparr>lf_leader := LdDraining\<rparr>)"
| drained: "lf_leader s = LdDraining \<Longrightarrow> wait_over t s
    \<Longrightarrow> leader_step s (SetLeader False (s\<lparr>lf_leader := LdDone ContextDone\<rparr>))"

text \<open>\<open>watchFile\<close> for the path with index \<open>i\<close>.\<close>

definition at_watch :: "nat \<Rightarrow> watch_pc \<Rightarrow> life \<Rightarrow> bool" where
  "at_watch i pc s = (i < length (lf_watch s) \<and> lf_watch s ! i = pc)"

definition to_watch :: "nat \<Rightarrow> watch_pc \<Rightarrow> life \<Rightarrow> life" where
  "to_watch i pc s = s\<lparr>lf_watch := (lf_watch s)[i := pc]\<rparr>"

inductive watch_step :: "life \<Rightarrow> life \<Rightarrow> bool" where
  unwatchable: "at_watch i WtStart s \<Longrightarrow> watch_step s (to_watch i WtGone (s\<lparr>lf_healthy := False\<rparr>))"
| watching: "at_watch i WtStart s \<Longrightarrow> watch_step s (to_watch i WtIdle s)"
| changed: "at_watch i WtIdle s \<Longrightarrow> watch_step s (to_watch i WtReload s)"
| closed: "at_watch i WtIdle s \<Longrightarrow> lf_watchDone s \<Longrightarrow> watch_step s (to_watch i WtGone s)"
| reload_fails: "at_watch i WtReload s \<Longrightarrow> watch_step s (to_watch i WtIdle (s\<lparr>lf_healthy := False\<rparr>))"
| reload_ok: "at_watch i WtReload s
    \<Longrightarrow> watch_step s (to_watch i (if lf_isLeader s then WtOperations else WtIdle) (s\<lparr>lf_healthy := True\<rparr>))"
| preempt: "at_watch i WtOperations s \<Longrightarrow> watch_step s (to_watch i WtPreempted (setCloser s))"
| rewrite_ok: "at_watch i WtPreempted s \<Longrightarrow> wait_over t s
    \<Longrightarrow> watch_step s (to_watch i WtWaiting (performLeaderWrites ByWatcher True s))"
| rewrite_fails: "at_watch i WtPreempted s \<Longrightarrow> wait_over t s
    \<Longrightarrow> watch_step s (to_watch i WtIdle ((performLeaderWrites ByWatcher False s)\<lparr>lf_healthy := False\<rparr>))"
| rewritten: "at_watch i WtWaiting s \<Longrightarrow> wait_over t s
    \<Longrightarrow> watch_step s (to_watch i WtIdle (s\<lparr>lf_healthy := True\<rparr>))"

text \<open>
  A writer checks the leader flag and its context before each record, and then writes it; it ends when a
  check fails or the providers have no more records.
\<close>

definition without :: "nat \<Rightarrow> 'a list \<Rightarrow> 'a list" where
  "without i xs = take i xs @ drop (Suc i) xs"

definition may_write :: "life \<Rightarrow> writer \<Rightarrow> bool" where
  "may_write s w = (lf_isLeader s \<and> \<not> wr_preempted w \<and> \<not> context_done s (wr_origin w))"

inductive writer_step :: "life \<Rightarrow> life \<Rightarrow> bool" where
  passes: "i < length (lf_writers s) \<Longrightarrow> w = lf_writers s ! i \<Longrightarrow> \<not> wr_writing w \<Longrightarrow> may_write s w
    \<Longrightarrow> writer_step s (s\<lparr>lf_writers := (lf_writers s)[i := w\<lparr>wr_writing := True\<rparr>]\<rparr>)"
| ends: "i < length (lf_writers s) \<Longrightarrow> w = lf_writers s ! i \<Longrightarrow> \<not> wr_writing w \<Longrightarrow> \<not> may_write s w \<or> exhausted
    \<Longrightarrow> writer_step s (s\<lparr>lf_writers := without i (lf_writers s)\<rparr>)"
| writes: "i < length (lf_writers s) \<Longrightarrow> w = lf_writers s ! i \<Longrightarrow> wr_writing w
    \<Longrightarrow> writer_step s (s\<lparr>lf_writers := (lf_writers s)[i := w\<lparr>wr_writing := False\<rparr>], lf_log := lf_log s @ [lf_isLeader s]\<rparr>)"

text \<open>
  The environment calls the callback when the pod is elected, which it is again only after it lost the
  leadership and the callback returned; it cancels the context of the callback when the leadership is lost
  and the context of the watchers when the plugin stops.
\<close>

inductive env_step :: "life \<Rightarrow> life \<Rightarrow> bool" where
  elect: "lf_leader s = LdOut \<or> ((\<exists>r. lf_leader s = LdDone r) \<and> lf_leaderDone s)
    \<Longrightarrow> env_step s (s\<lparr>lf_leader := LdCalled, lf_term := Suc (lf_term s), lf_leaderDone := False\<rparr>)"
| depose: "lf_leader s \<noteq> LdOut \<Longrightarrow> env_step s (s\<lparr>lf_leaderDone := True\<rparr>)"
| stop: "env_step s (s\<lparr>lf_watchDone := True\<rparr>)"
| nothing: "env_step s s"

datatype actor = Leader | Watcher | Writer | Environment

inductive life_step :: "life \<Rightarrow> actor \<Rightarrow> life \<Rightarrow> bool" where
  by_leader: "leader_step s s' \<Longrightarrow> life_step s Leader s'"
| by_watcher: "watch_step s s' \<Longrightarrow> life_step s Watcher s'"
| by_writer: "writer_step s s' \<Longrightarrow> life_step s Writer s'"
| by_environment: "env_step s s' \<Longrightarrow> life_step s Environment s'"

inductive_simps life_step_iff: "life_step s a s'"
inductive_simps life_leader: "life_step s Leader s'"

inductive reachable :: "nat \<Rightarrow> life \<Rightarrow> bool" for paths where
  start: "reachable paths (life_start paths)"
| step: "reachable paths s \<Longrightarrow> life_step s a s' \<Longrightarrow> reachable paths s'"

subsection \<open>Invariants\<close>

text \<open>The flag of the loader state is set exactly while the callback is between entering and leaving.\<close>

definition leading :: "leader_pc \<Rightarrow> bool" where
  "leading pc = (case pc of LdOut \<Rightarrow> False | LdCalled \<Rightarrow> False | LdDone _ \<Rightarrow> False | _ \<Rightarrow> True)"

definition flag_ok :: "life \<Rightarrow> bool" where
  "flag_ok s = ((lf_isLeader s \<longleftrightarrow> leading (lf_leader s)) \<and> lf_leader s \<noteq> LdDone AlreadyLeader
     \<and> (lf_leader s = LdOut \<longrightarrow> \<not> lf_leaderDone s))"

text \<open>A writer that passed its checks does so under the flag, unless the flag was cleared over its head.\<close>

definition writers_ok :: "life \<Rightarrow> bool" where
  "writers_ok s = (lf_abandoned s \<or> ((\<forall>w \<in> set (lf_writers s). wr_writing w \<longrightarrow> lf_isLeader s) \<and> (\<forall>b \<in> set (lf_log s). b)))"

text \<open>What the operations leave alone.\<close>

lemma leading_simps [simp]:
  "\<not> leading LdOut" "\<not> leading LdCalled" "\<not> leading (LdDone r)" "leading LdEntered" "leading LdPreempted"
  "leading LdWaiting" "leading LdHook" "leading LdActive" "leading LdDraining"
  by (simp_all add: leading_def)

lemmas life_operations = SetLeader_def setCloser_def performLeaderWrites_def leader_fails_def to_watch_def

lemma leader_step_flag: "leader_step s s' \<Longrightarrow> flag_ok s \<Longrightarrow> flag_ok s'"
  by (induction rule: leader_step.induct) (simp_all add: flag_ok_def life_operations)

lemma watch_step_leader:
  "watch_step s s' \<Longrightarrow> lf_leader s' = lf_leader s \<and> lf_isLeader s' = lf_isLeader s \<and> lf_leaderDone s' = lf_leaderDone s
     \<and> lf_abandoned s' = lf_abandoned s \<and> lf_log s' = lf_log s"
  by (induction rule: watch_step.induct) (simp_all add: life_operations)

lemma writer_step_leader:
  "writer_step s s' \<Longrightarrow> lf_leader s' = lf_leader s \<and> lf_isLeader s' = lf_isLeader s \<and> lf_leaderDone s' = lf_leaderDone s
     \<and> lf_abandoned s' = lf_abandoned s"
  by (induction rule: writer_step.induct) simp_all

lemma env_step_flag: "env_step s s' \<Longrightarrow> flag_ok s \<Longrightarrow> flag_ok s'"
  by (induction rule: env_step.induct) (auto simp: flag_ok_def)

lemma watch_step_flag: "watch_step s s' \<Longrightarrow> flag_ok s \<Longrightarrow> flag_ok s'"
  by (drule watch_step_leader) (simp add: flag_ok_def)

lemma writer_step_flag: "writer_step s s' \<Longrightarrow> flag_ok s \<Longrightarrow> flag_ok s'"
  by (drule writer_step_leader) (simp add: flag_ok_def)

lemma flag_ok_step: "life_step s a s' \<Longrightarrow> flag_ok s \<Longrightarrow> flag_ok s'"
  unfolding life_step_iff by (blast intro: leader_step_flag watch_step_flag writer_step_flag env_step_flag)

lemma set_without: "x \<in> set (without i xs) \<Longrightarrow> x \<in> set xs"
  by (auto simp: without_def dest: in_set_takeD in_set_dropD)

lemma set_list_update_cases: "x \<in> set (xs[i := y]) \<Longrightarrow> x = y \<or> x \<in> set xs"
  by (meson insertE set_update_subset_insert subsetD)

lemma leader_step_writers: "leader_step s s' \<Longrightarrow> flag_ok s \<Longrightarrow> writers_ok s \<Longrightarrow> writers_ok s'"
proof (induction rule: leader_step.induct)
  case (operations_fail s t)
  then show ?case by (cases "lf_writers s = []") (auto simp: writers_ok_def life_operations)
next
  case (hook_fail s)
  then show ?case by (cases "lf_writers s = []") (auto simp: writers_ok_def life_operations)
next
  case (drained s t)
  then show ?case by (cases "lf_writers s = []") (auto simp: writers_ok_def life_operations)
qed (auto simp: writers_ok_def flag_ok_def life_operations)

lemma watch_step_writers: "watch_step s s' \<Longrightarrow> writers_ok s \<Longrightarrow> writers_ok s'"
  by (induction rule: watch_step.induct) (auto simp: writers_ok_def life_operations)

lemma writer_step_writers: "writer_step s s' \<Longrightarrow> writers_ok s \<Longrightarrow> writers_ok s'"
proof (induction rule: writer_step.induct)
  case (passes i s w)
  then show ?case by (auto simp: writers_ok_def may_write_def)
next
  case (ends i s w exhausted)
  then show ?case by (auto simp: writers_ok_def dest: set_without)
next
  case (writes i s w)
  then have "w \<in> set (lf_writers s)" by simp
  then show ?case using writes by (auto simp: writers_ok_def dest!: set_list_update_cases)
qed

lemma env_step_writers: "env_step s s' \<Longrightarrow> writers_ok s \<Longrightarrow> writers_ok s'"
  by (induction rule: env_step.induct) (simp_all add: writers_ok_def)

lemma writers_ok_step: "life_step s a s' \<Longrightarrow> flag_ok s \<Longrightarrow> writers_ok s \<Longrightarrow> writers_ok s'"
  unfolding life_step_iff
  by (blast intro: leader_step_writers watch_step_writers writer_step_writers env_step_writers)

lemma reachable_ok: "reachable n s \<Longrightarrow> flag_ok s \<and> writers_ok s"
proof (induction rule: reachable.induct)
  case start
  then show ?case by (simp add: life_start_def flag_ok_def writers_ok_def)
next
  case (step s a s')
  then show ?case using flag_ok_step writers_ok_step by blast
qed

text \<open>
  C30. The database writes of a plugin and its leadership: in every interleaving of the callback, the file
  watchers and the writers, a record is only ever written while the pod is leader, unless the flag was
  cleared while writers were still in flight (a wait that timed out, or leader operations that failed after
  an earlier run was started); the callback is never refused with "already in leader mode"; and once it has
  returned the pod is not leader.
\<close>

theorem writes_only_as_leader:
  assumes "reachable paths s"
  shows "(\<forall>b \<in> set (lf_log s). b \<or> lf_abandoned s) \<and> lf_leader s \<noteq> LdDone AlreadyLeader
    \<and> (\<forall>r. lf_leader s = LdDone r \<longrightarrow> \<not> lf_isLeader s)"
  using reachable_ok [OF assms] by (auto simp: flag_ok_def writers_ok_def)

subsection \<open>Runs\<close>

text \<open>
  A run is an infinite sequence of steps. Weak fairness of the callback: whenever it could move from some
  moment on, it moves.
\<close>

definition is_run :: "nat \<Rightarrow> (nat \<Rightarrow> life) \<Rightarrow> (nat \<Rightarrow> actor) \<Rightarrow> bool" where
  "is_run paths r a = (r 0 = life_start paths \<and> (\<forall>n. life_step (r n) (a n) (r (Suc n))))"

definition leader_enabled :: "life \<Rightarrow> bool" where
  "leader_enabled s = (\<exists>s'. leader_step s s')"

definition fair_leader :: "(nat \<Rightarrow> life) \<Rightarrow> (nat \<Rightarrow> actor) \<Rightarrow> bool" where
  "fair_leader r a = (\<forall>n. \<exists>m\<ge>n. a m = Leader \<or> \<not> leader_enabled (r m))"

definition rank :: "leader_pc \<Rightarrow> nat" where
  "rank pc = (case pc of LdCalled \<Rightarrow> 7 | LdEntered \<Rightarrow> 6 | LdPreempted \<Rightarrow> 5 | LdWaiting \<Rightarrow> 4 | LdHook \<Rightarrow> 3 | LdActive \<Rightarrow> 2
     | LdDraining \<Rightarrow> 1 | _ \<Rightarrow> 0)"

lemma run_reachable: "is_run paths r a \<Longrightarrow> reachable paths (r n)"
  by (induction n) (auto simp: is_run_def intro: reachable.intros)

text \<open>A deposed callback that has not returned can move, only it moves itself, and every move brings it nearer to the end.\<close>

definition winding :: "life \<Rightarrow> bool" where
  "winding s = (lf_leaderDone s \<and> 0 < rank (lf_leader s))"

lemma winding_enabled: "winding s \<Longrightarrow> leader_enabled s"
proof -
  assume "winding s"
  then have "0 < rank (lf_leader s)" and over: "lf_leaderDone s" by (simp_all add: winding_def)
  then consider "lf_leader s = LdCalled" | "lf_leader s = LdEntered" | "lf_leader s = LdPreempted" | "lf_leader s = LdWaiting"
    | "lf_leader s = LdHook" | "lf_leader s = LdActive" | "lf_leader s = LdDraining"
    by (cases "lf_leader s") (simp_all add: rank_def)
  then show ?thesis
    by cases (use over in \<open>auto simp: leader_enabled_def leader_step.simps wait_over_def\<close>)
qed

lemma winding_leader: "leader_step s s' \<Longrightarrow> winding s \<Longrightarrow> lf_leaderDone s' \<and> rank (lf_leader s') < rank (lf_leader s)"
  by (induction rule: leader_step.induct) (simp_all add: winding_def rank_def life_operations)

lemma winding_env: "env_step s s' \<Longrightarrow> winding s \<Longrightarrow> lf_leaderDone s' \<and> lf_leader s' = lf_leader s"
  by (induction rule: env_step.induct) (auto simp: winding_def rank_def)

lemma winding_other:
  assumes "life_step s a s'" "winding s" "a \<noteq> Leader"
  shows "lf_leaderDone s' \<and> lf_leader s' = lf_leader s"
  using assms watch_step_leader [of s s'] writer_step_leader [of s s'] winding_env [of s s']
  by (auto simp: life_step_iff winding_def)

lemma eventually_fewer:
  assumes "is_run paths r a" "fair_leader r a" "winding (r k)"
  shows "\<exists>m>k. lf_leaderDone (r m) \<and> rank (lf_leader (r m)) < rank (lf_leader (r k))"
proof -
  have step: "life_step (r n) (a n) (r (Suc n))" for n using assms(1) by (simp add: is_run_def)
  have stays: "winding (r (k + i)) \<and> lf_leader (r (k + i)) = lf_leader (r k)" if "\<forall>j<i. a (k + j) \<noteq> Leader" for i
    using that
  proof (induction i)
    case (Suc i)
    then show ?case using winding_other [OF step, of "k + i"] by (auto simp: winding_def)
  qed (simp add: assms(3))
  define i where "i = (LEAST i. a (k + i) = Leader)"
  have "\<exists>i. a (k + i) = Leader"
  proof (rule ccontr)
    assume never: "\<nexists>i. a (k + i) = Leader"
    obtain m where "k \<le> m" "a m = Leader \<or> \<not> leader_enabled (r m)" using assms(2) by (auto simp: fair_leader_def)
    then show False using never stays [of "m - k"] winding_enabled [of "r m"] by (auto dest: le_Suc_ex)
  qed
  then have moves: "a (k + i) = Leader" unfolding i_def by (rule LeastI_ex)
  have "\<forall>j<i. a (k + j) \<noteq> Leader" unfolding i_def using not_less_Least by blast
  from stays [OF this] have here: "winding (r (k + i))" "lf_leader (r (k + i)) = lf_leader (r k)" by simp_all
  have "leader_step (r (k + i)) (r (Suc (k + i)))" using step [of "k + i"] moves by (simp add: life_leader)
  from winding_leader [OF this here(1)] show ?thesis using here(2) by (intro exI [of _ "Suc (k + i)"]) simp
qed

text \<open>
  C31. Losing the leadership ends the callback of every plugin: in every run in which the goroutine of the
  callback is not starved, once the context of the callback is cancelled there is a later moment at which the
  callback has returned and the plugin is no longer leader, whatever the loader operations, the writers, the
  file watchers and the waits do.
\<close>

theorem leadership_ends:
  assumes "is_run paths r a" "fair_leader r a" "lf_leaderDone (r k)"
  shows "\<exists>m\<ge>k. (\<exists>result. lf_leader (r m) = LdDone result) \<and> \<not> lf_isLeader (r m)"
  using assms(3)
proof (induction "rank (lf_leader (r k))" arbitrary: k rule: less_induct)
  case less
  have ok: "flag_ok (r k)" using run_reachable [OF assms(1)] reachable_ok by blast
  show ?case
  proof (cases "winding (r k)")
    case True
    then show ?thesis using eventually_fewer [OF assms(1,2) True] less.hyps by (meson less_imp_le order_trans)
  next
    case False
    then have "\<exists>result. lf_leader (r k) = LdDone result" using less.prems ok
      by (cases "lf_leader (r k)") (simp_all add: winding_def rank_def flag_ok_def)
    then show ?thesis using ok by (auto simp: flag_ok_def)
  qed
qed

text \<open>A run in which the pod loses the leadership before the callback starts to work, and the leader operations fail.\<close>

definition short_states :: "life list" where
  "short_states = (let s0 = life_start 1; s1 = s0\<lparr>lf_leader := LdCalled, lf_term := 1\<rparr>; s2 = s1\<lparr>lf_leaderDone := True\<rparr>;
     s3 = SetLeader True (s2\<lparr>lf_leader := LdEntered\<rparr>); s4 = (setCloser s3)\<lparr>lf_leader := LdPreempted\<rparr>;
     s5 = leader_fails OperationsFailed (performLeaderWrites (ByLeader 1) False s4)
   in [s0, s1, s2, s3, s4, s5])"

definition short_run :: "nat \<Rightarrow> life" where
  "short_run n = short_states ! (if n < 5 then n else 5)"

definition short_actors :: "nat \<Rightarrow> actor" where
  "short_actors n = (if n < 2 then Environment else if n < 5 then Leader else Environment)"

lemmas short_defs = short_run_def short_states_def short_actors_def life_start_def life_operations Let_def

lemma short_is_run: "is_run 1 short_run short_actors"
proof -
  have "life_step (short_run n) (short_actors n) (short_run (Suc n))" for n
  proof -
    consider "n = 0" | "n = 1" | "n = 2" | "n = 3" | "n = 4" | "5 \<le> n" by linarith
    then show ?thesis
    proof cases
      case 1 then show ?thesis by (simp add: short_defs life_step_iff env_step.simps)
    next
      case 2 then show ?thesis by (simp add: short_defs life_step_iff env_step.simps)
    next
      case 3 then show ?thesis by (simp add: short_defs life_step_iff leader_step.simps)
    next
      case 4 then show ?thesis by (simp add: short_defs life_step_iff leader_step.simps)
    next
      case 5 then show ?thesis by (simp add: short_defs life_step_iff leader_step.simps wait_over_def)
    next
      case 6 then show ?thesis by (simp add: short_run_def short_actors_def life_step_iff env_step.nothing)
    qed
  qed
  then show ?thesis by (simp add: is_run_def) (simp add: short_defs)
qed

lemma short_is_fair: "fair_leader short_run short_actors"
proof -
  have "\<not> leader_enabled (short_run m)" if "5 \<le> m" for m
    using that by (simp add: leader_enabled_def short_defs leader_step.simps)
  then show ?thesis unfolding fair_leader_def by (meson nat_le_linear order_trans)
qed

theorem leadership_ends_witness:
  "\<exists>m\<ge>2. (\<exists>result. lf_leader (short_run m) = LdDone result) \<and> \<not> lf_isLeader (short_run m)"
  by (rule leadership_ends [OF short_is_run short_is_fair]) (simp add: short_defs)

subsection \<open>Paths that the code allows\<close>

lemma reach_leader: "reachable n s \<Longrightarrow> leader_step s s' \<Longrightarrow> reachable n s'"
  and reach_watch: "reachable n s \<Longrightarrow> watch_step s s' \<Longrightarrow> reachable n s'"
  and reach_writer: "reachable n s \<Longrightarrow> writer_step s s' \<Longrightarrow> reachable n s'"
  and reach_env: "reachable n s \<Longrightarrow> env_step s s' \<Longrightarrow> reachable n s'"
  by (blast intro: reachable.step life_step.intros)+

lemmas reach_simps = leader_step.simps watch_step.simps writer_step.simps env_step.simps life_operations life_start_def
  at_watch_def wait_over_def may_write_def context_done_def without_def ex_bool_eq

abbreviation w_leader :: "bool \<Rightarrow> bool \<Rightarrow> writer" where
  "w_leader pre wr \<equiv> \<lparr>wr_origin = ByLeader 1, wr_preempted = pre, wr_writing = wr\<rparr>"

abbreviation st :: "bool \<Rightarrow> bool \<Rightarrow> writer list \<Rightarrow> leader_pc \<Rightarrow> bool \<Rightarrow> watch_pc \<Rightarrow> bool \<Rightarrow> bool list \<Rightarrow> (origin \<times> bool) list \<Rightarrow> life" where
  "st il h ws pc ld wt ab lg cl \<equiv> \<lparr>lf_isLeader = il, lf_healthy = h, lf_writers = ws, lf_leader = pc, lf_term = 1,
     lf_leaderDone = ld, lf_watch = [wt], lf_watchDone = False, lf_abandoned = ab, lf_log = lg, lf_cleanups = cl\<rparr>"

text \<open>The pod is leader, and has removed what is missing and started its writer.\<close>

lemma reach_preempted: "reachable 1 (st True True [] LdPreempted False WtStart False [] [])"
proof -
  have "reachable 1 (st False True [] LdCalled False WtStart False [] [])"
    by (rule reach_env [OF reachable.start]) (simp add: reach_simps)
  then have "reachable 1 (st True True [] LdEntered False WtStart False [] [])" by (rule reach_leader) (simp add: reach_simps)
  then show ?thesis by (rule reach_leader) (simp add: reach_simps)
qed

lemma reach_loading: "reachable 1 (st True True [w_leader False False] LdWaiting False WtStart False [] [(ByLeader 1, True)])"
  by (rule reach_leader [OF reach_preempted]) (simp add: reach_simps)

lemma reach_writing: "reachable 1 (st True True [w_leader False True] LdWaiting False WtStart False [] [(ByLeader 1, True)])"
  by (rule reach_writer [OF reach_loading]) (simp add: reach_simps)

lemma reach_written: "reachable 1 (st True True [w_leader False False] LdWaiting False WtStart False [True] [(ByLeader 1, True)])"
  by (rule reach_writer [OF reach_writing]) (simp add: reach_simps)

text \<open>
  The leader operations failed: the callback has returned, the elector does not call it again while the pod
  keeps the lock, so nothing loads the catalog; a change of a configuration file still makes the plugin
  healthy again, because the reload of a standby ends with \<open>healthy.Store(true)\<close>.
\<close>

lemma failed_callback_stays:
  "life_step s a s' \<Longrightarrow> lf_leader s = LdDone r \<Longrightarrow> \<not> lf_leaderDone s \<Longrightarrow> lf_leader s' = LdDone r"
proof -
  assume *: "life_step s a s'" "lf_leader s = LdDone r" "\<not> lf_leaderDone s"
  moreover have "leader_step s s' \<Longrightarrow> False" using *(2) by (simp add: leader_step.simps)
  moreover have "env_step s s' \<Longrightarrow> lf_leader s' = LdDone r" using *(2,3) by (auto simp: env_step.simps)
  ultimately show ?thesis using watch_step_leader [of s s'] writer_step_leader [of s s'] by (auto simp: life_step_iff)
qed

lemma failed_leader_looks_healthy:
  "\<exists>s. reachable 1 s \<and> lf_leader s = LdDone OperationsFailed \<and> \<not> lf_leaderDone s \<and> lf_writers s = [] \<and> lf_log s = [] \<and> lf_healthy s"
proof -
  let ?cl = "[(ByLeader 1, True)]" and ?pc = "LdDone OperationsFailed"
  have "reachable 1 (st False False [] ?pc False WtStart False [] ?cl)"
    by (rule reach_leader [OF reach_preempted]) (simp add: reach_simps)
  then have "reachable 1 (st False False [] ?pc False WtIdle False [] ?cl)" by (rule reach_watch) (simp add: reach_simps)
  then have "reachable 1 (st False False [] ?pc False WtReload False [] ?cl)" by (rule reach_watch) (simp add: reach_simps)
  then have "reachable 1 (st False True [] ?pc False WtIdle False [] ?cl)" by (rule reach_watch) (simp add: reach_simps)
  then show ?thesis by (intro exI conjI, assumption) simp_all
qed

text \<open>A wait that times out lets a writer write its record after the pod has given up the leadership.\<close>

lemma write_after_leadership: "\<exists>s. reachable 1 s \<and> lf_log s = [False]"
proof -
  let ?cl = "[(ByLeader 1, True)]" and ?w = "[w_leader False True]"
  have "reachable 1 (st True True ?w LdHook False WtStart False [] ?cl)"
    by (rule reach_leader [OF reach_writing]) (simp add: reach_simps)
  then have "reachable 1 (st True True ?w LdActive False WtStart False [] ?cl)" by (rule reach_leader) (simp add: reach_simps)
  then have "reachable 1 (st True True ?w LdActive True WtStart False [] ?cl)" by (rule reach_env) (simp add: reach_simps)
  then have "reachable 1 (st True True ?w LdDraining True WtStart False [] ?cl)" by (rule reach_leader) (simp add: reach_simps)
  then have "reachable 1 (st False True ?w (LdDone ContextDone) True WtStart True [] ?cl)" by (rule reach_leader) (simp add: reach_simps)
  then have "reachable 1 (st False True [w_leader False False] (LdDone ContextDone) True WtStart True [False] ?cl)"
    by (rule reach_writer) (simp add: reach_simps)
  then show ?thesis by (intro exI conjI, assumption) simp_all
qed

text \<open>
  The operations that a file watcher starts run under the context of the watchers: losing the leadership does
  not cancel them, and the removal of the models of missing sources does not look at the leader flag, so a
  pod that is no longer leader may still delete models, with no wait timed out.
\<close>

lemma cleanup_after_leadership: "\<exists>s. reachable 1 s \<and> \<not> lf_abandoned s \<and> (ByWatcher, False) \<in> set (lf_cleanups s)"
proof -
  let ?cl = "[(ByLeader 1, True)]"
  have "reachable 1 (st True True [] LdWaiting False WtStart False [] ?cl)"
    by (rule reach_writer [OF reach_loading]) (simp add: reach_simps)
  then have "reachable 1 (st True True [] LdHook False WtStart False [] ?cl)" by (rule reach_leader) (simp add: reach_simps)
  then have "reachable 1 (st True True [] LdActive False WtStart False [] ?cl)" by (rule reach_leader) (simp add: reach_simps)
  then have "reachable 1 (st True True [] LdActive False WtIdle False [] ?cl)" by (rule reach_watch) (simp add: reach_simps)
  then have "reachable 1 (st True True [] LdActive False WtReload False [] ?cl)" by (rule reach_watch) (simp add: reach_simps)
  then have "reachable 1 (st True True [] LdActive False WtOperations False [] ?cl)" by (rule reach_watch) (simp add: reach_simps)
  then have "reachable 1 (st True True [] LdActive False WtPreempted False [] ?cl)" by (rule reach_watch) (simp add: reach_simps)
  then have "reachable 1 (st True True [] LdActive True WtPreempted False [] ?cl)" by (rule reach_env) (simp add: reach_simps)
  then have "reachable 1 (st True True [] LdDraining True WtPreempted False [] ?cl)" by (rule reach_leader) (simp add: reach_simps)
  then have "reachable 1 (st False True [] (LdDone ContextDone) True WtPreempted False [] ?cl)" by (rule reach_leader) (simp add: reach_simps)
  then have "reachable 1 (st False False [] (LdDone ContextDone) True WtIdle False [] [(ByLeader 1, True), (ByWatcher, False)])"
    by (rule reach_watch) (simp add: reach_simps)
  then show ?thesis by (intro exI conjI, assumption) simp_all
qed

theorem writes_only_as_leader_witness:
  "let s = st True True [w_leader False False] LdWaiting False WtStart False [True] [(ByLeader 1, True)]
   in (\<forall>b \<in> set (lf_log s). b \<or> lf_abandoned s) \<and> lf_leader s \<noteq> LdDone AlreadyLeader
      \<and> (\<forall>r. lf_leader s = LdDone r \<longrightarrow> \<not> lf_isLeader s)"
  unfolding Let_def by (rule writes_only_as_leader [OF reach_written])

end
