(* ===== verification/Filter_Query.thy ===== *)
theory Filter_Query
  imports Filter_Parser
begin

text \<open>
  The query builder (\<open>internal/platform/db/filter/query_builder.go\<close>): from a filter expression to
  builder calls on the database handle. Top-level conjunctions become joins and \<open>WHERE\<close> calls, what
  stands under an \<open>OR\<close> becomes one condition string with \<open>EXISTS\<close> subqueries, and several conditions
  on the properties of an artifact in one conjunction are combined into one subquery about one artifact.

  The builder is a record; the counter that makes aliases unique is threaded through every call.
\<close>

subsection \<open>The builder\<close>

record query_builder =
  qb_entityType :: string
  qb_restEntityType :: string
  qb_tablePrefix :: string
  qb_joinCounter :: nat
  qb_db :: "string option"  \<comment> \<open>the dialect of the handle, \<open>None\<close> for nil\<close>
  qb_mappingFuncs :: entity_mapping

text \<open>A condition string with its arguments.\<close>

type_synonym condition = "string \<times> go_any list"

definition NewQueryBuilderForRestEntity :: "string \<Rightarrow> entity_mapping \<Rightarrow> query_builder" where
  "NewQueryBuilderForRestEntity restEntityType mappingFuncs =
     (let entityType = em_mlmd mappingFuncs restEntityType;
          tablePrefix = (if entityType = EntityTypeContext then ''Context''
            else if entityType = EntityTypeArtifact then ''Artifact''
            else if entityType = EntityTypeExecution then ''Execution''
            else ''Context'')
      in \<lparr>qb_entityType = entityType, qb_restEntityType = restEntityType,
          qb_tablePrefix = tablePrefix, qb_joinCounter = 0, qb_db = None,
          qb_mappingFuncs = mappingFuncs\<rparr>)"

text \<open>The registry's wrapper: a nil mapping is the default one.\<close>

definition NewRegistryQueryBuilder :: "string \<Rightarrow> entity_mapping option \<Rightarrow> query_builder" where
  "NewRegistryQueryBuilder restEntityType mappingFuncs =
     NewQueryBuilderForRestEntity restEntityType
       (case mappingFuncs of None \<Rightarrow> defaultEntityMappings | Some m \<Rightarrow> m)"

definition applyDatabaseQuoting :: "query_builder \<Rightarrow> query_builder" where
  "applyDatabaseQuoting qb =
     (if qb_db qb = None then qb
      else qb\<lparr>qb_tablePrefix :=
        QuoteTableName (qb_db qb) (trim_chars {CHR 0x60, CHR 0x22} (qb_tablePrefix qb))\<rparr>)"

definition quoteTableName :: "query_builder \<Rightarrow> string \<Rightarrow> string" where
  "quoteTableName qb tableName = QuoteTableName (qb_db qb) tableName"

definition bump :: "query_builder \<Rightarrow> query_builder" where
  "bump qb = qb\<lparr>qb_joinCounter := qb_joinCounter qb + 1\<rparr>"

subsection \<open>Value and state conversion\<close>

definition inferValueTypeFromInterface :: "go_any \<Rightarrow> string" where
  "inferValueTypeFromInterface v = (case v of
      AnyStr s \<Rightarrow> StringValueType
    | AnyInt64 i \<Rightarrow> IntValueType
    | AnyInt32 i \<Rightarrow> IntValueType
    | AnyFloat f \<Rightarrow> DoubleValueType
    | AnyBool b \<Rightarrow> BoolValueType
    | _ \<Rightarrow> StringValueType)"

definition ArtifactStateMapping :: "(string \<times> int) list" where
  "ArtifactStateMapping = [(''UNKNOWN'', 0), (''PENDING'', 1), (''LIVE'', 2),
     (''MARKED_FOR_DELETION'', 3), (''DELETED'', 4), (''ABANDONED'', 5), (''REFERENCE'', 6)]"

definition ExecutionStateMapping :: "(string \<times> int) list" where
  "ExecutionStateMapping = [(''UNKNOWN'', 0), (''NEW'', 1), (''RUNNING'', 2), (''COMPLETE'', 3),
     (''FAILED'', 4), (''CACHED'', 5), (''CANCELED'', 6)]"

definition ConvertStateValue :: "query_builder \<Rightarrow> string \<Rightarrow> go_any \<Rightarrow> go_any" where
  "ConvertStateValue qb propertyName v =
     (if propertyName = ''state'' then
        (case v of
           AnyStr s \<Rightarrow>
             if qb_entityType qb = EntityTypeArtifact then
               (case map_of ArtifactStateMapping s of Some i \<Rightarrow> AnyInt32 i | None \<Rightarrow> AnyInt32 (- 1))
             else if qb_entityType qb = EntityTypeExecution then
               (case map_of ExecutionStateMapping s of Some i \<Rightarrow> AnyInt32 i | None \<Rightarrow> AnyInt32 (- 1))
             else v
         | _ \<Rightarrow> v)
      else v)"

definition determineValueType :: "string \<Rightarrow> go_any \<Rightarrow> string \<times> bool" where
  "determineValueType explicitType v =
     (if explicitType \<noteq> [] then (explicitType, False)
      else let inferredType = inferValueTypeFromInterface v
           in (inferredType, inferredType = IntValueType))"

definition determinePropertyValueType :: "property_reference \<Rightarrow> go_any \<Rightarrow> string \<times> bool" where
  "determinePropertyValueType propRef v =
     (if pr_IsCustom propRef then determineValueType (pr_ExplicitType propRef) v
      else if pr_ExplicitType propRef \<noteq> [] then (pr_ExplicitType propRef, False)
      else (pr_ValueType propRef, False))"

subsection \<open>Conditions on one column\<close>

text \<open>\<open>strings.Repeat(",?", n)\<close>\<close>

definition repeat_marks :: "nat \<Rightarrow> string" where
  "repeat_marks n = concat (replicate n '',?'')"

definition buildOperatorCondition :: "string \<Rightarrow> string \<Rightarrow> go_any \<Rightarrow> condition" where
  "buildOperatorCondition column oper v =
     (if oper = ''='' then (column @ '' = ?'', [v])
      else if oper = ''!='' then (column @ '' != ?'', [v])
      else if oper = ''>'' then (column @ '' > ?'', [v])
      else if oper = ''>='' then (column @ '' >= ?'', [v])
      else if oper = ''<'' then (column @ '' < ?'', [v])
      else if oper = ''<='' then (column @ '' <= ?'', [v])
      else if oper = ''LIKE'' then (column @ '' LIKE ?'', [v])
      else if oper = ''ILIKE'' then
        (case v of AnyStr s \<Rightarrow> (''UPPER('' @ column @ '') LIKE UPPER(?)'', [AnyStr s])
         | _ \<Rightarrow> (column @ '' LIKE ?'', [v]))
      else if oper = ''IN'' then
        (case v of
           AnyList vs \<Rightarrow>
             if vs = [] then (''1 = 0'', [])
             else (column @ '' IN (?'' @ repeat_marks (length vs - 1) @ '')'', vs)
         | _ \<Rightarrow> (column @ '' IN (?)'', [v]))
      else (column @ '' = ?'', [v]))"

definition buildDualColumnCondition :: "string \<Rightarrow> string \<Rightarrow> string \<Rightarrow> go_any \<Rightarrow> condition" where
  "buildDualColumnCondition intColumn doubleColumn oper v =
     (let (ic, ia) = buildOperatorCondition intColumn oper v;
          (dc, da) = buildOperatorCondition doubleColumn oper v
      in (''('' @ ic @ '' OR '' @ dc @ '')'', ia @ da))"

text \<open>
  The JSON operator of PostgreSQL holds a question mark, so it is passed as a raw expression through a
  placeholder of its own. The branch for \<open>IN\<close> falls through to the one of \<open>=\<close> when the value is
  no list.
\<close>

definition json_equals :: "string \<Rightarrow> go_any \<Rightarrow> condition" where
  "json_equals column v =
     (column @ '' IS JSON ARRAY AND '' @ column @ ''::jsonb ? array[?]'', [AnyExpr ''?|'', v])"

definition buildJSONOperatorCondition :: "string \<Rightarrow> string \<Rightarrow> go_any \<Rightarrow> condition" where
  "buildJSONOperatorCondition column oper v =
     (if oper = ''IN'' then
        (case v of
           AnyList vs \<Rightarrow>
             if vs = [] then (''1 = 0'', [])
             else (column @ '' IS JSON ARRAY AND '' @ column @ ''::jsonb ? array[?''
                     @ repeat_marks (length vs - 1) @ '']'', AnyExpr ''?|'' # vs)
         | _ \<Rightarrow> json_equals column v)
      else if oper = ''='' then json_equals column v
      else if oper = ''!='' then
        (column @ '' IS NOT JSON ARRAY OR NOT '' @ column @ ''::jsonb ? array[?]'',
         [AnyExpr ''?|'', v])
      else buildOperatorCondition column oper v)"

definition buildCaseInsensitiveLikeCondition :: "gorm_db \<Rightarrow> string \<Rightarrow> go_any \<Rightarrow> gorm_db" where
  "buildCaseInsensitiveLikeCondition db column v =
     (case v of
        AnyStr s \<Rightarrow>
          if dialect db = ''postgres'' then add_call (Where (column @ '' ILIKE ?'') [v]) db
          else if dialect db = ''mysql'' then
            add_call (Where (column @ '' LIKE ? COLLATE utf8mb4_unicode_ci'') [v]) db
          else if dialect db = ''sqlite'' then add_call (Where (column @ '' LIKE ?'') [v]) db
          else add_call (Where (''UPPER('' @ column @ '') LIKE UPPER(?)'') [v]) db
      | _ \<Rightarrow> add_call (Where (column @ '' LIKE ?'') [v]) db)"

definition buildValueCondition :: "string \<Rightarrow> string \<Rightarrow> string \<Rightarrow> go_any \<Rightarrow> condition" where
  "buildValueCondition propertyAlias explicitType oper v =
     (let (valueType, inferredAsInt) = determineValueType explicitType v
      in if inferredAsInt
         then buildDualColumnCondition (propertyAlias @ ''.int_value'')
                (propertyAlias @ ''.double_value'') oper v
         else buildOperatorCondition (propertyAlias @ ''.'' @ valueType) oper v)"

subsection \<open>Property references\<close>

text \<open>
  A trailing value type after a dot is taken off the property name and becomes the explicit type. The
  struct field \<open>IsEscaped\<close> is left at its zero value.
\<close>

definition split_explicit_type :: "string \<Rightarrow> string \<times> string" where
  "split_explicit_type name =
     (let parts = split_char CHR ''.'' name
      in if 2 \<le> length parts \<and> last parts \<in> set value_types
         then (join_with ''.'' (butlast parts), last parts) else (name, []))"

definition buildPropertyReference :: "query_builder \<Rightarrow> string \<Rightarrow> go_any \<Rightarrow> property_reference" where
  "buildPropertyReference qb pname v =
     (let (propertyName, explicitType) = split_explicit_type pname;
          propDef = (if qb_restEntityType qb \<noteq> []
            then em_prop (qb_mappingFuncs qb) (qb_restEntityType qb) propertyName
            else GetPropertyDefinition (qb_entityType qb) propertyName);
          propName = (if pd_Location propDef = PropertyTable \<and> pd_Column propDef \<noteq> []
            then pd_Column propDef else propertyName);
          isCustom = (pd_Location propDef = Custom)
      in \<lparr>pr_RefName = propName, pr_IsCustom = isCustom,
          pr_ValueType = (if explicitType \<noteq> [] then explicitType
            else if isCustom then inferValueTypeFromInterface v
            else pd_ValueType propDef),
          pr_ExplicitType = explicitType, pr_IsEscaped = False, pr_PropertyDef = propDef\<rparr>)"

subsection \<open>Conditions on the entity table\<close>

text \<open>
  Both variants of the entity-table condition start with the same steps: the state conversion, the
  equality expansion of the mapping, and the prefix pattern for the names of child entities
  (\<open>parentId:name\<close>). \<open>Inl\<close> is the finished expanded condition; \<open>Inr\<close> the operator and value to go on
  with.
\<close>

definition child_name_pattern :: "query_builder \<Rightarrow> string \<Rightarrow> string \<Rightarrow> go_any \<Rightarrow> string \<times> go_any" where
  "child_name_pattern qb name oper v =
     (if qb_restEntityType qb \<noteq> [] \<and> name = ''name''
         \<and> em_child (qb_mappingFuncs qb) (qb_restEntityType qb) then
        (case v of
           AnyStr s \<Rightarrow>
             if oper = ''='' then (''LIKE'', AnyStr (''%:'' @ s))
             else if oper = ''LIKE'' \<and> \<not> contains_str s '':'' then
               (if \<not> hasPrefix s ''%'' then (oper, AnyStr (''%:'' @ s)) else (oper, v))
             else (oper, v)
         | _ \<Rightarrow> (oper, v))
      else (oper, v))"

definition equality_expansion :: "query_builder \<Rightarrow> string \<Rightarrow> string \<Rightarrow> go_any \<Rightarrow> go_any option" where
  "equality_expansion qb name oper v =
     (if oper = ''='' \<and> qb_restEntityType qb \<noteq> [] then
        (case em_expand (qb_mappingFuncs qb) of
           Some expand \<Rightarrow> expand (qb_restEntityType qb) name v
         | None \<Rightarrow> None)
      else None)"

definition entity_column_name :: "query_builder \<Rightarrow> string \<Rightarrow> string" where
  "entity_column_name qb name =
     qb_tablePrefix qb @ ''.'' @ pd_Column (GetPropertyDefinition (qb_entityType qb) name)"

definition buildEntityTablePropertyCondition ::
  "query_builder \<Rightarrow> gorm_db \<Rightarrow> property_reference \<Rightarrow> string \<Rightarrow> go_any \<Rightarrow> gorm_db" where
  "buildEntityTablePropertyCondition qb db propRef oper v0 =
     (let column = entity_column_name qb (pr_RefName propRef);
          v = ConvertStateValue qb (pr_RefName propRef) v0
      in case equality_expansion qb (pr_RefName propRef) oper v of
           Some likeArg \<Rightarrow>
             add_call (Where (''('' @ column @ '' = ? OR '' @ column @ '' LIKE ?)'') [v, likeArg]) db
         | None \<Rightarrow>
             (let (oper', v') = child_name_pattern qb (pr_RefName propRef) oper v
              in if oper' = ''ILIKE'' then buildCaseInsensitiveLikeCondition db column v'
                 else (let (sql, args) = buildOperatorCondition column oper' v'
                       in add_call (Where sql args) db)))"

definition buildEntityTablePropertyConditionString ::
  "query_builder \<Rightarrow> property_reference \<Rightarrow> string \<Rightarrow> go_any \<Rightarrow> condition" where
  "buildEntityTablePropertyConditionString qb propRef oper v0 =
     (let column = entity_column_name qb (pr_RefName propRef);
          v = ConvertStateValue qb (pr_RefName propRef) v0
      in case equality_expansion qb (pr_RefName propRef) oper v of
           Some likeArg \<Rightarrow> (''('' @ column @ '' = ? OR '' @ column @ '' LIKE ?)'', [v, likeArg])
         | None \<Rightarrow>
             (let (oper', v') = child_name_pattern qb (pr_RefName propRef) oper v
              in buildOperatorCondition column oper' v'))"

subsection \<open>Conditions on the property table\<close>

text \<open>The property table of an entity type and its column that refers to the entity.\<close>

definition property_table :: "query_builder \<Rightarrow> string \<times> string" where
  "property_table qb =
     (if qb_entityType qb = EntityTypeContext then (quoteTableName qb ''ContextProperty'', ''context_id'')
      else if qb_entityType qb = EntityTypeArtifact
        then (quoteTableName qb ''ArtifactProperty'', ''artifact_id'')
      else if qb_entityType qb = EntityTypeExecution
        then (quoteTableName qb ''ExecutionProperty'', ''execution_id'')
      else ([], []))"

text \<open>The value condition; \<open>tbl\<close> is the alias or the table, \<open>d\<close> the dialect of the handle.\<close>

definition property_value_condition ::
  "string \<Rightarrow> string \<Rightarrow> property_reference \<Rightarrow> string \<Rightarrow> go_any \<Rightarrow> condition" where
  "property_value_condition d tbl propRef oper v =
     (let (valueType, inferredAsInt) = determinePropertyValueType propRef v
      in if inferredAsInt
         then buildDualColumnCondition (tbl @ ''.int_value'') (tbl @ ''.double_value'') oper v
         else if valueType = ArrayValueType \<and> d = ''postgres''
         then buildJSONOperatorCondition (tbl @ ''.'' @ StringValueType) oper v
         else buildOperatorCondition
                (tbl @ ''.'' @ (if valueType = ArrayValueType then StringValueType else valueType)) oper v)"

definition property_join_condition :: "query_builder \<Rightarrow> string \<Rightarrow> string" where
  "property_join_condition qb als =
     (if snd (property_table qb) = [] then []
      else als @ ''.'' @ snd (property_table qb) @ '' = '' @ qb_tablePrefix qb @ ''.id'')"

definition buildPropertyTableCondition ::
  "query_builder \<Rightarrow> gorm_db \<Rightarrow> property_reference \<Rightarrow> string \<Rightarrow> go_any \<Rightarrow> gorm_db \<times> query_builder" where
  "buildPropertyTableCondition qb0 db propRef oper v =
     (let qb = bump qb0;
          als = ''prop_'' @ itoa (int (qb_joinCounter qb));
          joinClause = ''JOIN '' @ fst (property_table qb) @ '' '' @ als @ '' ON ''
                         @ property_join_condition qb als;
          db1 = add_call (Joins joinClause) db;
          db2 = add_call (Where (als @ ''.name = ?'') [AnyStr (pr_RefName propRef)]) db1
      in if oper = ''ILIKE''
         then (buildCaseInsensitiveLikeCondition db2 (als @ ''.'' @ pr_ValueType propRef) v, qb)
         else (let (sql, args) = property_value_condition (dialect db) als propRef oper v
               in (add_call (Where sql args) db2, qb)))"

text \<open>
  The string variant reads the dialect from the builder's own handle (\<open>qb.db.Name()\<close>), which
  \<open>BuildQuery\<close> has set.
\<close>

definition buildPropertyTableConditionString ::
  "query_builder \<Rightarrow> property_reference \<Rightarrow> string \<Rightarrow> go_any \<Rightarrow> condition" where
  "buildPropertyTableConditionString qb propRef oper v =
     (let (propertyTable, joinColumn) = property_table qb;
          (sql, args) = property_value_condition (str_or_empty (qb_db qb)) propertyTable propRef oper v
      in (''EXISTS (SELECT 1 FROM '' @ propertyTable @ '' WHERE '' @ propertyTable @ ''.'' @ joinColumn
            @ '' = '' @ qb_tablePrefix qb @ ''.id AND '' @ propertyTable @ ''.name = ? AND ('' @ sql @ ''))'',
          AnyStr (pr_RefName propRef) # args))"

subsection \<open>Conditions on a related artifact\<close>

record related_entity_aliases =
  ra_attributionAlias :: string
  ra_entityAlias :: string
  ra_propertyAlias :: string
  ra_attributionTable :: string
  ra_entityTable :: string
  ra_propertyTable :: string

definition createRelatedEntityAliases :: "query_builder \<Rightarrow> nat \<Rightarrow> related_entity_aliases" where
  "createRelatedEntityAliases qb counter =
     \<lparr>ra_attributionAlias = ''attr_'' @ itoa (int counter),
      ra_entityAlias = ''art_'' @ itoa (int counter),
      ra_propertyAlias = ''artprop_'' @ itoa (int counter),
      ra_attributionTable = quoteTableName qb ''Attribution'',
      ra_entityTable = quoteTableName qb ''Artifact'',
      ra_propertyTable = quoteTableName qb ''ArtifactProperty''\<rparr>"

definition buildRelatedEntityPropertyConditionString ::
  "query_builder \<Rightarrow> property_definition \<Rightarrow> string \<Rightarrow> string \<Rightarrow> go_any \<Rightarrow> condition \<times> query_builder" where
  "buildRelatedEntityPropertyConditionString qb0 propDef explicitType oper v =
     (if qb_entityType qb0 \<noteq> EntityTypeContext \<or> pd_RelatedEntityType propDef \<noteq> RelatedEntityArtifact
      then ((''1=1'', []), qb0)
      else
        (let qb = bump qb0;
             a = createRelatedEntityAliases qb (qb_joinCounter qb);
             (sql, args) = buildValueCondition (ra_propertyAlias a) explicitType oper v
         in ((''EXISTS (SELECT 1 FROM '' @ ra_attributionTable a @ '' '' @ ra_attributionAlias a
                @ '' JOIN '' @ ra_entityTable a @ '' '' @ ra_entityAlias a @ '' ON '' @ ra_entityAlias a
                @ ''.id = '' @ ra_attributionAlias a @ ''.artifact_id ''
                @ ''JOIN '' @ ra_propertyTable a @ '' '' @ ra_propertyAlias a @ '' ON ''
                @ ra_propertyAlias a @ ''.artifact_id = '' @ ra_entityAlias a @ ''.id ''
                @ ''WHERE '' @ ra_attributionAlias a @ ''.context_id = '' @ qb_tablePrefix qb
                @ ''.id AND '' @ ra_propertyAlias a @ ''.name = ? AND '' @ sql @ '')'',
              AnyStr (pd_RelatedProperty propDef) # args), qb)))"

definition buildRelatedEntityPropertyCondition ::
  "query_builder \<Rightarrow> gorm_db \<Rightarrow> property_definition \<Rightarrow> string \<Rightarrow> string \<Rightarrow> go_any
     \<Rightarrow> gorm_db \<times> query_builder" where
  "buildRelatedEntityPropertyCondition qb db propDef explicitType oper v =
     (let ((sql, args), qb') = buildRelatedEntityPropertyConditionString qb propDef explicitType oper v
      in (add_call (Where sql args) db, qb'))"

subsection \<open>Leaves\<close>

definition buildPropertyCondition ::
  "query_builder \<Rightarrow> gorm_db \<Rightarrow> property_reference \<Rightarrow> string \<Rightarrow> go_any \<Rightarrow> gorm_db \<times> query_builder" where
  "buildPropertyCondition qb db propRef oper v =
     (case pd_Location (pr_PropertyDef propRef) of
        EntityTable \<Rightarrow> (buildEntityTablePropertyCondition qb db propRef oper v, qb)
      | PropertyTable \<Rightarrow> buildPropertyTableCondition qb db propRef oper v
      | Custom \<Rightarrow> buildPropertyTableCondition qb db propRef oper v
      | RelatedEntity \<Rightarrow> buildRelatedEntityPropertyCondition qb db (pr_PropertyDef propRef)
          (pr_ValueType propRef) oper v)"

definition buildPropertyConditionString ::
  "query_builder \<Rightarrow> property_reference \<Rightarrow> string \<Rightarrow> go_any \<Rightarrow> condition \<times> query_builder" where
  "buildPropertyConditionString qb propRef oper v =
     (case pd_Location (pr_PropertyDef propRef) of
        EntityTable \<Rightarrow> (buildEntityTablePropertyConditionString qb propRef oper v, qb)
      | PropertyTable \<Rightarrow> (buildPropertyTableConditionString qb propRef oper v, qb)
      | Custom \<Rightarrow> (buildPropertyTableConditionString qb propRef oper v, qb)
      | RelatedEntity \<Rightarrow> buildRelatedEntityPropertyConditionString qb (pr_PropertyDef propRef)
          (pr_ValueType propRef) oper v)"

definition buildLeafExpression ::
  "query_builder \<Rightarrow> gorm_db \<Rightarrow> string \<Rightarrow> string \<Rightarrow> go_any \<Rightarrow> gorm_db \<times> query_builder" where
  "buildLeafExpression qb db pname oper v =
     buildPropertyCondition qb db (buildPropertyReference qb pname v) oper v"

definition buildLeafConditionString ::
  "query_builder \<Rightarrow> string \<Rightarrow> string \<Rightarrow> go_any \<Rightarrow> condition \<times> query_builder" where
  "buildLeafConditionString qb pname oper v =
     buildPropertyConditionString qb (buildPropertyReference qb pname v) oper v"

subsection \<open>Combining the artifact conditions of a conjunction\<close>

record artifact_condition_info =
  ac_propDef :: property_definition
  ac_explicitType :: string
  ac_operator :: string
  ac_value :: go_any

definition isArtifactPropertyCondition :: "query_builder \<Rightarrow> string \<Rightarrow> go_any \<Rightarrow> bool" where
  "isArtifactPropertyCondition qb pname v =
     (let d = pr_PropertyDef (buildPropertyReference qb pname v)
      in pd_Location d = RelatedEntity \<and> pd_RelatedEntityType d = RelatedEntityArtifact)"

fun collectArtifactConditions :: "query_builder \<Rightarrow> filter_expr \<Rightarrow> artifact_condition_info list" where
  "collectArtifactConditions qb (Leaf pname oper v) =
     (if isArtifactPropertyCondition qb pname v then
        (let propRef = buildPropertyReference qb pname v
         in [\<lparr>ac_propDef = pr_PropertyDef propRef, ac_explicitType = pr_ExplicitType propRef,
              ac_operator = oper, ac_value = v\<rparr>])
      else [])"
| "collectArtifactConditions qb (Node oper l r) =
     (if oper \<noteq> ''AND'' then []
      else collectArtifactConditions qb l @ collectArtifactConditions qb r)"

fun removeArtifactConditions :: "query_builder \<Rightarrow> filter_expr \<Rightarrow> filter_expr option" where
  "removeArtifactConditions qb (Leaf pname oper v) =
     (if isArtifactPropertyCondition qb pname v then None else Some (Leaf pname oper v))"
| "removeArtifactConditions qb (Node oper l r) =
     (if oper \<noteq> ''AND'' then Some (Node oper l r)
      else (case (removeArtifactConditions qb l, removeArtifactConditions qb r) of
              (None, None) \<Rightarrow> None
            | (None, Some right) \<Rightarrow> Some right
            | (Some left, None) \<Rightarrow> Some left
            | (Some left, Some right) \<Rightarrow> Some (Node ''AND'' left right)))"

text \<open>One join of the property table per condition; the loop carries its index.\<close>

fun combined_parts :: "string \<Rightarrow> string \<Rightarrow> string \<Rightarrow> nat \<Rightarrow> artifact_condition_info list
    \<Rightarrow> (string \<times> go_any \<times> condition) list" where
  "combined_parts propTable artAlias base i [] = []"
| "combined_parts propTable artAlias base i (c # cs) =
     (let propAlias = ''artprop_'' @ base @ ''_'' @ itoa (int i)
      in (''JOIN '' @ propTable @ '' '' @ propAlias @ '' ON '' @ propAlias @ ''.artifact_id = '' @ artAlias
            @ ''.id AND '' @ propAlias @ ''.name = ?'',
          AnyStr (pd_RelatedProperty (ac_propDef c)),
          buildValueCondition propAlias (ac_explicitType c) (ac_operator c) (ac_value c))
         # combined_parts propTable artAlias base (Suc i) cs)"

definition combined_exists_condition ::
  "query_builder \<Rightarrow> artifact_condition_info list \<Rightarrow> condition" where
  "combined_exists_condition qb conditions =
     (let base = itoa (int (qb_joinCounter qb));
          attrAlias = ''attr_'' @ base;
          artAlias = ''art_'' @ base;
          parts = combined_parts (quoteTableName qb ''ArtifactProperty'') artAlias base 0 conditions
      in (''EXISTS (SELECT 1 FROM '' @ quoteTableName qb ''Attribution'' @ '' '' @ attrAlias
            @ '' JOIN '' @ quoteTableName qb ''Artifact'' @ '' '' @ artAlias @ '' ON '' @ artAlias
            @ ''.id = '' @ attrAlias @ ''.artifact_id ''
            @ join_with '' '' (map fst parts)
            @ '' WHERE '' @ attrAlias @ ''.context_id = '' @ qb_tablePrefix qb @ ''.id AND ''
            @ join_with '' AND '' (map (fst \<circ> snd \<circ> snd) parts) @ '')'',
          map (fst \<circ> snd) parts @ concat (map (snd \<circ> snd \<circ> snd) parts)))"

definition buildCombinedArtifactExistsCondition ::
  "query_builder \<Rightarrow> artifact_condition_info list \<Rightarrow> condition \<times> query_builder" where
  "buildCombinedArtifactExistsCondition qb conditions =
     (case conditions of
        [] \<Rightarrow> ((''1=1'', []), qb)
      | [c] \<Rightarrow> buildRelatedEntityPropertyConditionString qb (ac_propDef c) (ac_explicitType c)
                 (ac_operator c) (ac_value c)
      | _ \<Rightarrow> (combined_exists_condition (bump qb) conditions, bump qb))"

lemma removeArtifactConditions_size:
  "removeArtifactConditions qb e = Some e' \<Longrightarrow> size e' \<le> size e"
  by (induction e arbitrary: e') (fastforce split: if_splits option.splits)+

lemma removeArtifactConditions_smaller:
  "collectArtifactConditions qb e \<noteq> [] \<Longrightarrow> removeArtifactConditions qb e = Some e' \<Longrightarrow> size e' < size e"
proof (induction e arbitrary: e')
  case (Leaf p oper v)
  then show ?case by (auto split: if_splits)
next
  case (Node oper l r)
  from Node.prems have oper: "oper = ''AND''"
    and c: "collectArtifactConditions qb l \<noteq> [] \<or> collectArtifactConditions qb r \<noteq> []"
    by (auto split: if_splits)
  note le = removeArtifactConditions_size [of qb l] removeArtifactConditions_size [of qb r]
  show ?case
  proof (cases "removeArtifactConditions qb l")
    case None
    with Node.prems(2) oper le(2) [of e'] show ?thesis by (auto split: option.splits)
  next
    case (Some l')
    with le(1) [of l'] have l': "size l' \<le> size l" by simp
    show ?thesis
    proof (cases "removeArtifactConditions qb r")
      case None
      with Some Node.prems(2) oper l' show ?thesis by auto
    next
      case (Some r')
      with le(2) [of r'] have "size r' \<le> size r" by simp
      moreover have "size l' < size l \<or> size r' < size r"
        using c Node.IH(1) [of l'] Node.IH(2) [of r'] Some \<open>removeArtifactConditions qb l = Some l'\<close>
        by auto
      ultimately show ?thesis
        using Node.prems(2) oper Some \<open>removeArtifactConditions qb l = Some l'\<close> l' by auto
    qed
  qed
qed

subsection \<open>Expressions\<close>

function buildConditionString :: "query_builder \<Rightarrow> filter_expr \<Rightarrow> condition \<times> query_builder" where
  "buildConditionString qb (Leaf pname oper v) = buildLeafConditionString qb pname oper v"
| "buildConditionString qb (Node oper l r) =
     (if oper = ''AND'' then
        (let artifactConditions = collectArtifactConditions qb (Node oper l r)
         in if 1 < length artifactConditions then
              (let nonArtifactExpr = removeArtifactConditions qb (Node oper l r);
                   (combined, qb1) = buildCombinedArtifactExistsCondition qb artifactConditions
               in case nonArtifactExpr of
                    None \<Rightarrow> (combined, qb1)
                  | Some e \<Rightarrow>
                      (let (nonArtifact, qb2) = buildConditionString qb1 e
                       in ((''('' @ fst nonArtifact @ '' AND '' @ fst combined @ '')'',
                            snd nonArtifact @ snd combined), qb2)))
            else
              (let (left, qb1) = buildConditionString qb l;
                   (right, qb2) = buildConditionString qb1 r
               in ((''('' @ fst left @ '' AND '' @ fst right @ '')'', snd left @ snd right), qb2)))
      else if oper = ''OR'' then
        (let (left, qb1) = buildConditionString qb l;
             (right, qb2) = buildConditionString qb1 r
         in ((''('' @ fst left @ '' OR '' @ fst right @ '')'', snd left @ snd right), qb2))
      else ((''1=1'', []), qb))"
  by pat_completeness auto

lemma collect_nonempty: "1 < length (collectArtifactConditions qb e) \<Longrightarrow> collectArtifactConditions qb e \<noteq> []"
  by auto

termination buildConditionString
proof (relation "measure (\<lambda>(qb, e). size e)", goal_cases)
  case (2 qb oper l r x xa xb xc xd)
  then show ?case
    using removeArtifactConditions_smaller [OF collect_nonempty, of qb "Node oper l r"] by simp
qed simp_all

function buildExpression :: "query_builder \<Rightarrow> gorm_db \<Rightarrow> filter_expr \<Rightarrow> gorm_db \<times> query_builder" where
  "buildExpression qb db (Leaf pname oper v) = buildLeafExpression qb db pname oper v"
| "buildExpression qb db (Node oper l r) =
     (if oper = ''AND'' then
        (let artifactConditions = collectArtifactConditions qb (Node oper l r)
         in if 1 < length artifactConditions then
              (let nonArtifactExpr = removeArtifactConditions qb (Node oper l r);
                   (combined, qb1) = buildCombinedArtifactExistsCondition qb artifactConditions;
                   db1 = add_call (Where (fst combined) (snd combined)) db
               in case nonArtifactExpr of
                    None \<Rightarrow> (db1, qb1)
                  | Some e \<Rightarrow> buildExpression qb1 db1 e)
            else
              (let (leftQuery, qb1) = buildExpression qb db l
               in buildExpression qb1 leftQuery r))
      else if oper = ''OR'' then
        (let (left, qb1) = buildConditionString qb l;
             (right, qb2) = buildConditionString qb1 r
         in (add_call (Where (''('' @ fst left @ '' OR '' @ fst right @ '')'') (snd left @ snd right)) db, qb2))
      else (db, qb))"
  by pat_completeness auto

termination buildExpression
proof (relation "measure (\<lambda>(qb, db, e). size e)", goal_cases)
  case (2 qb db oper l r x xa xb xc xd)
  then show ?case
    using removeArtifactConditions_smaller [OF collect_nonempty, of qb "Node oper l r"] by simp
qed simp_all

text \<open>\<open>BuildQuery\<close>; the expression is nil for a blank filter.\<close>

definition BuildQuery :: "query_builder \<Rightarrow> gorm_db \<Rightarrow> filter_expr option \<Rightarrow> gorm_db \<times> query_builder" where
  "BuildQuery qb db expr =
     (case expr of
        None \<Rightarrow> (db, qb)
      | Some e \<Rightarrow> buildExpression (applyDatabaseQuoting (qb\<lparr>qb_db := Some (dialect db)\<rparr>)) db e)"

subsection \<open>Safety of the generated SQL\<close>

text \<open>
  A condition is safe when its text has one placeholder per argument and holds no character that could
  end a token the builder did not write: quote, semicolon, comment starters, backslash. So nothing the
  client sends is part of the text; it reaches the database as arguments only.
\<close>

definition sql_char :: "char \<Rightarrow> bool" where
  "sql_char c = (c \<noteq> CHR 0x27 \<and> c \<noteq> CHR '';'' \<and> c \<noteq> CHR ''-'' \<and> c \<noteq> CHR ''#'' \<and> c \<noteq> CHR 0x5C \<and> c \<noteq> CHR ''/'')"

definition text_safe :: "string \<Rightarrow> bool" where
  "text_safe s = list_all sql_char s"

fun cond_safe :: "condition \<Rightarrow> bool" where
  "cond_safe (sql, args) = (text_safe sql \<and> placeholders sql = length args)"

fun call_safe :: "db_call \<Rightarrow> bool" where
  "call_safe (Where sql args) = (text_safe sql \<and> placeholders sql = length args)"
| "call_safe (Order sql) = (text_safe sql \<and> placeholders sql = 0)"
| "call_safe (Joins sql) = (text_safe sql \<and> placeholders sql = 0)"
| "call_safe (Limit n) = True"
| "call_safe (AddError e) = True"

definition name_safe :: "string \<Rightarrow> bool" where
  "name_safe s = (text_safe s \<and> placeholders s = 0)"

lemma text_safe_simps [simp]:
  "text_safe []" "text_safe (c # s) = (sql_char c \<and> text_safe s)"
  "text_safe (s @ t) = (text_safe s \<and> text_safe t)"
  by (auto simp: text_safe_def)

lemma name_safe_simps [simp]:
  "name_safe []" "name_safe (c # s) = (sql_char c \<and> c \<noteq> CHR ''?'' \<and> name_safe s)"
  "name_safe (s @ t) = (name_safe s \<and> name_safe t)"
  by (auto simp: name_safe_def)

lemma name_safeD: "name_safe s \<Longrightarrow> text_safe s" "name_safe s \<Longrightarrow> placeholders s = 0"
  by (simp_all add: name_safe_def)

lemma text_safe_join: "text_safe sep \<Longrightarrow> list_all text_safe ws \<Longrightarrow> text_safe (join_with sep ws)"
  by (induction sep ws rule: join_with.induct) auto

lemma name_safe_itoa [simp]:
  assumes "0 \<le> i"
  shows "name_safe (itoa i)"
proof -
  have "sql_char c" if "c \<in> set (dec_digits n)" for c n
    using dec_digits_chars [OF that] by (auto simp: sql_char_def is_digit_def)
  then show ?thesis
    using assms placeholders_itoa [of i]
    by (simp add: name_safe_def text_safe_def itoa_def list_all_iff)
qed

lemma value_types_safe: "t \<in> set value_types \<Longrightarrow> name_safe t"
  by (auto simp: value_types_def value_type_defs sql_char_def)

lemma entity_columns_safe: "c \<in> set entity_columns \<Longrightarrow> name_safe c"
  by (auto simp: entity_columns_def sql_char_def)

lemma name_safe_quote [simp]: "name_safe t \<Longrightarrow> name_safe (QuoteTableName d t)"
  by (simp add: QuoteTableName_def sql_char_def)

lemma repeat_marks_safe: "text_safe (repeat_marks n) \<and> placeholders (repeat_marks n) = n"
  by (induction n) (auto simp: repeat_marks_def sql_char_def)

lemma repeat_marks_simps [simp]: "text_safe (repeat_marks n)" "placeholders (repeat_marks n) = n"
  by (simp_all add: repeat_marks_safe)

lemma inferred_type_known: "inferValueTypeFromInterface v \<in> set value_types"
  by (cases v) (simp_all add: inferValueTypeFromInterface_def value_types_def)

lemma operator_condition_safe:
  "name_safe column \<Longrightarrow> cond_safe (buildOperatorCondition column oper v)"
  by (simp add: buildOperatorCondition_def name_safe_def sql_char_def split: go_any.split)

lemma json_condition_safe:
  assumes "name_safe column"
  shows "cond_safe (buildJSONOperatorCondition column oper v)"
  using assms operator_condition_safe [OF assms, of oper v]
  by (simp add: buildJSONOperatorCondition_def json_equals_def name_safe_def sql_char_def
      split: go_any.split)

lemma dual_condition_safe:
  assumes "name_safe ic" "name_safe dc"
  shows "cond_safe (buildDualColumnCondition ic dc oper v)"
  using operator_condition_safe [OF assms(1), of oper v] operator_condition_safe [OF assms(2), of oper v]
  by (auto simp: buildDualColumnCondition_def sql_char_def split: prod.splits)

definition type_safe :: "string \<Rightarrow> bool" where
  "type_safe t = (t = [] \<or> t \<in> set value_types)"

lemma value_condition_safe:
  assumes "name_safe als" "type_safe explicitType"
  shows "cond_safe (buildValueCondition als explicitType oper v)"
proof -
  have "name_safe (fst (determineValueType explicitType v))"
    using assms(2) value_types_safe [OF inferred_type_known [of v]]
    by (auto simp: determineValueType_def type_safe_def Let_def value_types_safe)
  with assms(1) show ?thesis
    by (auto simp: buildValueCondition_def sql_char_def split: prod.splits
        intro!: dual_condition_safe operator_condition_safe)
qed

definition calls_safe :: "gorm_db \<Rightarrow> bool" where
  "calls_safe db = list_all call_safe (calls db)"

lemma calls_safe_add [simp]: "calls_safe (add_call c db) = (calls_safe db \<and> call_safe c)"
  by (simp add: calls_safe_def)

lemma like_condition_safe:
  "name_safe column \<Longrightarrow> calls_safe db \<Longrightarrow> calls_safe (buildCaseInsensitiveLikeCondition db column v)"
  by (simp add: buildCaseInsensitiveLikeCondition_def name_safe_def sql_char_def split: go_any.split)

text \<open>What the builder keeps of its own state.\<close>

definition qb_ok :: "query_builder \<Rightarrow> bool" where
  "qb_ok qb = (entity_mapping_laws (qb_mappingFuncs qb)
     \<and> qb_entityType qb = em_mlmd (qb_mappingFuncs qb) (qb_restEntityType qb)
     \<and> name_safe (qb_tablePrefix qb))"

lemma bump_simps [simp]:
  "qb_entityType (bump qb) = qb_entityType qb" "qb_restEntityType (bump qb) = qb_restEntityType qb"
  "qb_tablePrefix (bump qb) = qb_tablePrefix qb" "qb_mappingFuncs (bump qb) = qb_mappingFuncs qb"
  "qb_db (bump qb) = qb_db qb" "qb_ok (bump qb) = qb_ok qb"
  "qb_joinCounter (bump qb) = Suc (qb_joinCounter qb)"
  by (simp_all add: bump_def qb_ok_def)

lemma platform_table_laws:
  "table_law EntityTypeContext contextPropertyMap"
  "table_law EntityTypeArtifact artifactPropertyMap"
  "table_law EntityTypeExecution executionPropertyMap"
  by code_simp+

lemma platform_property_law:
  assumes "e \<in> set entity_types"
  shows "property_law e n (GetPropertyDefinition e n)"
proof -
  have "table_law e (getEntityPropertyMap e)"
    using assms platform_table_laws
    by (auto simp: getEntityPropertyMap_def entity_types_def)
  then have "property_law e n (table_lookup (getEntityPropertyMap e) n)"
    by (rule table_law_lookup)
  then show ?thesis by (simp add: table_lookup_def GetPropertyDefinition_def)
qed

text \<open>
  The reference of a leaf: its definition obeys the law of the entity type, and its value types name
  columns.
\<close>

lemma split_explicit_type_safe: "type_safe (snd (split_explicit_type pname))"
  by (auto simp: split_explicit_type_def type_safe_def Let_def)

lemma reference_law:
  assumes "qb_ok qb"
  shows "property_law (qb_entityType qb) (fst (split_explicit_type pname))
     (pr_PropertyDef (buildPropertyReference qb pname v))"
proof -
  have laws: "entity_mapping_laws (qb_mappingFuncs qb)"
    and et: "qb_entityType qb = em_mlmd (qb_mappingFuncs qb) (qb_restEntityType qb)"
    using assms by (simp_all add: qb_ok_def)
  have "qb_entityType qb \<in> set entity_types"
    using entity_mapping_laws.mlmd_known [OF laws] by (simp add: et)
  then have "property_law (qb_entityType qb) n (GetPropertyDefinition (qb_entityType qb) n)" for n
    by (rule platform_property_law)
  then show ?thesis
    using entity_mapping_laws.prop_law [OF laws]
    by (auto simp: buildPropertyReference_def Let_def et split: prod.splits)
qed

lemma reference_explicit: "type_safe (pr_ExplicitType (buildPropertyReference qb pname v))"
  using split_explicit_type_safe [of pname]
  by (auto simp: buildPropertyReference_def Let_def split: prod.splits)

lemma reference_custom:
  "pr_IsCustom (buildPropertyReference qb pname v)
     = (pd_Location (pr_PropertyDef (buildPropertyReference qb pname v)) = Custom)"
  by (auto simp: buildPropertyReference_def Let_def split: prod.splits)

lemma reference_value_type:
  assumes "qb_ok qb"
  shows "pd_Location (pr_PropertyDef (buildPropertyReference qb pname v)) \<in> {PropertyTable, Custom}
      \<Longrightarrow> pr_ValueType (buildPropertyReference qb pname v) \<in> set value_types"
    and "pd_Location (pr_PropertyDef (buildPropertyReference qb pname v)) = RelatedEntity
      \<Longrightarrow> type_safe (pr_ValueType (buildPropertyReference qb pname v))"
  using reference_law [OF assms(1), of pname v] split_explicit_type_safe [of pname]
    inferred_type_known [of v]
  by (auto simp: buildPropertyReference_def Let_def property_law_def type_safe_def
      split: prod.splits if_splits)

lemma reference_entity_column:
  assumes "qb_ok qb" "pd_Location (pr_PropertyDef (buildPropertyReference qb pname v)) = EntityTable"
  shows "name_safe (entity_column_name qb (pr_RefName (buildPropertyReference qb pname v)))"
proof -
  let ?n = "fst (split_explicit_type pname)"
  have "pr_RefName (buildPropertyReference qb pname v) = ?n"
    using assms(2) by (auto simp: buildPropertyReference_def Let_def split: prod.splits)
  moreover have "pd_Location (GetPropertyDefinition (qb_entityType qb) ?n) = EntityTable"
    using reference_law [OF assms(1), of pname v] assms(2) by (simp add: property_law_def)
  then have "name_safe (pd_Column (GetPropertyDefinition (qb_entityType qb) ?n))"
    by (intro entity_columns_safe platform_entity_column)
  ultimately show ?thesis
    using assms(1) by (simp add: entity_column_name_def qb_ok_def sql_char_def)
qed

lemma entity_condition_safe:
  assumes "name_safe (entity_column_name qb (pr_RefName ref))"
  shows "cond_safe (buildEntityTablePropertyConditionString qb ref oper v)"
    and "calls_safe db \<Longrightarrow> calls_safe (buildEntityTablePropertyCondition qb db ref oper v)"
proof -
  let ?col = "entity_column_name qb (pr_RefName ref)"
  have w: "call_safe (Where (fst c) (snd c))" if "cond_safe c" for c :: condition
    using that by (cases c) simp
  show "cond_safe (buildEntityTablePropertyConditionString qb ref oper v)"
    using assms operator_condition_safe [OF assms]
    by (simp add: buildEntityTablePropertyConditionString_def Let_def name_safe_def sql_char_def
        split: option.split prod.split)
  assume "calls_safe db"
  then show "calls_safe (buildEntityTablePropertyCondition qb db ref oper v)"
    using assms operator_condition_safe [OF assms] w [OF operator_condition_safe [OF assms]]
      like_condition_safe [OF assms]
    by (simp add: buildEntityTablePropertyCondition_def Let_def name_safe_def sql_char_def
        split_beta split: option.split)
qed

lemma property_table_safe: "name_safe (fst (property_table qb))" "name_safe (snd (property_table qb))"
  by (simp_all add: property_table_def quoteTableName_def sql_char_def)

lemma property_table_bump [simp]: "property_table (bump qb) = property_table qb"
  by (simp add: property_table_def quoteTableName_def)

lemma property_value_condition_safe:
  assumes "name_safe tbl" "pr_ValueType ref \<in> set value_types" "type_safe (pr_ExplicitType ref)"
  shows "cond_safe (property_value_condition d tbl ref oper v)"
proof -
  have "name_safe (fst (determinePropertyValueType ref v))"
    using assms(2,3) value_types_safe [OF inferred_type_known [of v]]
    by (auto simp: determinePropertyValueType_def determineValueType_def type_safe_def Let_def
        value_types_safe)
  moreover have "name_safe StringValueType"
    by (rule value_types_safe) (simp add: value_types_def)
  ultimately show ?thesis using assms(1)
    by (auto simp: property_value_condition_def sql_char_def split: prod.splits
        intro!: dual_condition_safe operator_condition_safe json_condition_safe)
qed

lemma property_condition_safe:
  assumes "qb_ok qb" "pr_ValueType ref \<in> set value_types" "type_safe (pr_ExplicitType ref)"
  shows "cond_safe (buildPropertyTableConditionString qb ref oper v)"
    and "calls_safe db \<Longrightarrow> calls_safe (fst (buildPropertyTableCondition qb db ref oper v))"
proof -
  have pre: "name_safe (qb_tablePrefix qb)" using assms(1) by (simp add: qb_ok_def)
  obtain t c where tc: "property_table qb = (t, c)" by (cases "property_table qb")
  then have t: "name_safe t" and c: "name_safe c"
    using property_table_safe [of qb] by simp_all
  have "cond_safe (property_value_condition d t ref oper v)" for d
    using assms(2,3) t by (rule property_value_condition_safe [rotated])
  then show "cond_safe (buildPropertyTableConditionString qb ref oper v)"
    using pre t c by (cases "property_value_condition (str_or_empty (qb_db qb)) t ref oper v")
      (simp add: buildPropertyTableConditionString_def tc name_safe_def sql_char_def, metis cond_safe.simps)
  assume db: "calls_safe db"
  let ?als = "''prop_'' @ itoa (int (qb_joinCounter (bump qb)))"
  have als: "name_safe ?als" by (simp add: sql_char_def)
  have vc: "cond_safe (property_value_condition d ?als ref oper v)" for d
    using als assms(2,3) by (rule property_value_condition_safe)
  have j: "name_safe (property_join_condition (bump qb) ?als)"
    using pre c als by (simp add: property_join_condition_def tc sql_char_def)
  let ?db2 = "add_call (Where (?als @ ''.name = ?'') [AnyStr (pr_RefName ref)])
    (add_call (Joins (''JOIN '' @ t @ '' '' @ ?als @ '' ON '' @ property_join_condition (bump qb) ?als)) db)"
  have db2: "calls_safe ?db2"
    using db name_safeD [OF als] name_safeD [OF j] name_safeD [OF t]
    by (simp add: sql_char_def del: bump_simps)
  have col: "name_safe (?als @ ''.'' @ pr_ValueType ref)"
    using als value_types_safe [OF assms(2)] by (simp add: sql_char_def del: bump_simps)
  show "calls_safe (fst (buildPropertyTableCondition qb db ref oper v))"
    using vc [of "dialect db"] db2 like_condition_safe [OF col db2, of v]
    by (cases "property_value_condition (dialect db) ?als ref oper v")
      (simp add: buildPropertyTableCondition_def Let_def tc del: bump_simps append_Cons append_Nil)
qed
lemma related_condition_safe:
  assumes "qb_ok qb" "type_safe t"
  shows "cond_safe (fst (buildRelatedEntityPropertyConditionString qb d t oper v))"
    and "qb_ok (snd (buildRelatedEntityPropertyConditionString qb d t oper v))"
proof -
  have pre: "name_safe (qb_tablePrefix qb)" using assms(1) by (simp add: qb_ok_def)
  have als: "name_safe (''artprop_'' @ itoa (int (qb_joinCounter (bump qb))))"
    "name_safe (itoa (int (qb_joinCounter (bump qb))))"
    by (simp_all add: sql_char_def)
  note vc = value_condition_safe [OF als(1) assms(2), of oper v]
  obtain sql args where sa: "buildValueCondition (''artprop_'' @ itoa (int (qb_joinCounter (bump qb)))) t oper v
      = (sql, args)" by fastforce
  with vc have "text_safe sql" "placeholders sql = length args" by simp_all
  then show "cond_safe (fst (buildRelatedEntityPropertyConditionString qb d t oper v))"
    using pre name_safeD [OF als(2)] name_safeD [OF name_safe_quote [of _ "qb_db qb"]] sa
    by (simp add: buildRelatedEntityPropertyConditionString_def createRelatedEntityAliases_def Let_def
        quoteTableName_def name_safe_def sql_char_def QuoteTableName_def del: bump_simps(7))
  show "qb_ok (snd (buildRelatedEntityPropertyConditionString qb d t oper v))"
    using assms(1) by (simp add: buildRelatedEntityPropertyConditionString_def Let_def split_beta)
qed

lemma combined_parts_safe:
  assumes "name_safe pt" "name_safe art" "name_safe base" "list_all (\<lambda>c. type_safe (ac_explicitType c)) cs"
  shows "list_all (\<lambda>(j, n, c). text_safe j \<and> placeholders j = 1 \<and> cond_safe c)
    (combined_parts pt art base i cs)"
  using assms
proof (induction pt art base i cs rule: combined_parts.induct)
  case (2 pt art base i c cs)
  have als: "name_safe (''artprop_'' @ base @ ''_'' @ itoa (int i))"
    using 2(4) by (simp add: sql_char_def)
  show ?case
    using 2 name_safeD [OF als] value_condition_safe [OF als, of "ac_explicitType c" "ac_operator c" "ac_value c"]
    by (simp add: Let_def name_safe_def sql_char_def split_beta)
qed simp

lemma sum_placeholders_parts:
  "list_all (\<lambda>(j, n, c). text_safe j \<and> placeholders j = 1 \<and> cond_safe c) parts
     \<Longrightarrow> sum_list (map (placeholders \<circ> fst) parts) = length parts
       \<and> sum_list (map (placeholders \<circ> (fst \<circ> snd \<circ> snd)) parts)
           = length (concat (map (snd \<circ> snd \<circ> snd) parts))
       \<and> list_all text_safe (map fst parts) \<and> list_all text_safe (map (fst \<circ> snd \<circ> snd) parts)"
  by (induction parts) auto

lemma combined_exists_safe:
  assumes pre: "name_safe (qb_tablePrefix qb)" and ty: "list_all (\<lambda>c. type_safe (ac_explicitType c)) cs"
  shows "cond_safe (combined_exists_condition qb cs)"
proof -
  define base where "base = itoa (int (qb_joinCounter qb))"
  have base: "name_safe base" by (simp add: base_def)
  have art: "name_safe (''art_'' @ base)" using base by (simp add: sql_char_def)
  have pt: "name_safe (quoteTableName qb ''ArtifactProperty'')"
    by (simp add: quoteTableName_def sql_char_def)
  define parts where "parts = combined_parts (quoteTableName qb ''ArtifactProperty'') (''art_'' @ base) base 0 cs"
  note sums = sum_placeholders_parts [OF combined_parts_safe [OF pt art base ty], of 0, folded parts_def]
  have joined: "text_safe (join_with '' '' (map fst parts))"
    "text_safe (join_with '' AND '' (map (fst \<circ> snd \<circ> snd) parts))"
    using sums by (auto intro!: text_safe_join simp: sql_char_def)
  have eq: "combined_exists_condition qb cs =
     (''EXISTS (SELECT 1 FROM '' @ quoteTableName qb ''Attribution'' @ '' '' @ (''attr_'' @ base)
            @ '' JOIN '' @ quoteTableName qb ''Artifact'' @ '' '' @ (''art_'' @ base) @ '' ON '' @ (''art_'' @ base)
            @ ''.id = '' @ (''attr_'' @ base) @ ''.artifact_id ''
            @ join_with '' '' (map fst parts)
            @ '' WHERE '' @ (''attr_'' @ base) @ ''.context_id = '' @ qb_tablePrefix qb @ ''.id AND ''
            @ join_with '' AND '' (map (fst \<circ> snd \<circ> snd) parts) @ '')'',
          map (fst \<circ> snd) parts @ concat (map (snd \<circ> snd \<circ> snd) parts))"
    unfolding combined_exists_condition_def Let_def parts_def base_def by (rule refl)
  show ?thesis
    unfolding eq using pre joined sums name_safeD [OF base]
    by (simp add: quoteTableName_def QuoteTableName_def name_safe_def sql_char_def placeholders_join)
qed

lemma combined_condition_safe:
  assumes "qb_ok qb" "list_all (\<lambda>c. type_safe (ac_explicitType c)) cs"
  shows "cond_safe (fst (buildCombinedArtifactExistsCondition qb cs))"
    and "qb_ok (snd (buildCombinedArtifactExistsCondition qb cs))"
  using assms related_condition_safe [OF assms(1)] combined_exists_safe [of "bump qb" cs]
  by (auto simp: buildCombinedArtifactExistsCondition_def qb_ok_def sql_char_def split: list.split)

lemma collected_types: "list_all (\<lambda>c. type_safe (ac_explicitType c)) (collectArtifactConditions qb e)"
  by (induction e) (auto simp: reference_explicit Let_def)

lemma leaf_condition_safe:
  assumes "qb_ok qb"
  shows "cond_safe (fst (buildLeafConditionString qb p oper v)) \<and> qb_ok (snd (buildLeafConditionString qb p oper v))"
  using assms reference_value_type [OF assms, of p v] reference_explicit [of qb p v]
    entity_condition_safe(1) [OF reference_entity_column [OF assms, of p v], of oper v]
  by (simp add: buildLeafConditionString_def buildPropertyConditionString_def property_condition_safe
      related_condition_safe split: property_location.split)

lemma leaf_calls_safe:
  assumes "qb_ok qb" "calls_safe db"
  shows "calls_safe (fst (buildLeafExpression qb db p oper v)) \<and> qb_ok (snd (buildLeafExpression qb db p oper v))"
proof -
  have k: "qb_ok (snd (buildPropertyTableCondition qb db ref oper v))" for ref
    using assms(1) by (simp add: buildPropertyTableCondition_def Let_def split_beta)
  have r: "calls_safe (fst (buildRelatedEntityPropertyCondition qb db d t oper v))
      \<and> qb_ok (snd (buildRelatedEntityPropertyCondition qb db d t oper v))" if "type_safe t" for d t
    using related_condition_safe [OF assms(1) that, of d oper v] assms(2)
    by (auto simp: buildRelatedEntityPropertyCondition_def split: prod.splits)
  show ?thesis
    using assms k r reference_value_type [OF assms(1), of p v] reference_explicit [of qb p v]
      entity_condition_safe(2) [OF reference_entity_column [OF assms(1), of p v], of db oper v]
    by (simp add: buildLeafExpression_def buildPropertyCondition_def property_condition_safe
        split: property_location.split)
qed

text \<open>The step equations of both recursive functions, with the pairs taken apart.\<close>

lemma condition_string_combined:
  assumes "1 < length (collectArtifactConditions qb (Node ''AND'' l r))"
  shows "buildConditionString qb (Node ''AND'' l r) =
    (let cq = buildCombinedArtifactExistsCondition qb (collectArtifactConditions qb (Node ''AND'' l r))
     in case removeArtifactConditions qb (Node ''AND'' l r) of
          None \<Rightarrow> cq
        | Some e \<Rightarrow> (let nq = buildConditionString (snd cq) e
            in ((''('' @ fst (fst nq) @ '' AND '' @ fst (fst cq) @ '')'', snd (fst nq) @ snd (fst cq)), snd nq)))"
  using assms by (simp add: Let_def split_beta split: option.split
      del: collectArtifactConditions.simps removeArtifactConditions.simps)

lemma condition_string_and:
  assumes "\<not> 1 < length (collectArtifactConditions qb (Node ''AND'' l r))"
  shows "buildConditionString qb (Node ''AND'' l r) =
    (let lq = buildConditionString qb l; rq = buildConditionString (snd lq) r
     in ((''('' @ fst (fst lq) @ '' AND '' @ fst (fst rq) @ '')'', snd (fst lq) @ snd (fst rq)), snd rq))"
  using assms by (simp add: Let_def split_beta del: collectArtifactConditions.simps removeArtifactConditions.simps)

lemma condition_string_or:
  "buildConditionString qb (Node ''OR'' l r) =
    (let lq = buildConditionString qb l; rq = buildConditionString (snd lq) r
     in ((''('' @ fst (fst lq) @ '' OR '' @ fst (fst rq) @ '')'', snd (fst lq) @ snd (fst rq)), snd rq))"
  by (simp add: Let_def split_beta)

lemma condition_string_other:
  "oper \<noteq> ''AND'' \<Longrightarrow> oper \<noteq> ''OR'' \<Longrightarrow> buildConditionString qb (Node oper l r) = ((''1=1'', []), qb)"
  by simp

declare buildConditionString.simps(2) [simp del]

lemma cond_safe_and: "cond_safe a \<Longrightarrow> cond_safe b
    \<Longrightarrow> cond_safe (''('' @ fst a @ '' AND '' @ fst b @ '')'', snd a @ snd b)"
  by (cases a; cases b) (simp add: sql_char_def)

lemma cond_safe_or: "cond_safe a \<Longrightarrow> cond_safe b
    \<Longrightarrow> cond_safe (''('' @ fst a @ '' OR '' @ fst b @ '')'', snd a @ snd b)"
  by (cases a; cases b) (simp add: sql_char_def)

lemma condition_string_safe:
  "qb_ok qb \<Longrightarrow> cond_safe (fst (buildConditionString qb e)) \<and> qb_ok (snd (buildConditionString qb e))"
proof (induction "size e" arbitrary: qb e rule: less_induct)
  case less
  show ?case
  proof (cases e)
    case (Leaf p oper v)
    with less.prems show ?thesis by (simp add: leaf_condition_safe)
  next
    case (Node oper l r)
    have IH: "qb_ok q \<Longrightarrow> size e' < size e \<Longrightarrow> cond_safe (fst (buildConditionString q e'))
        \<and> qb_ok (snd (buildConditionString q e'))" for q e'
      by (rule less.hyps)
    consider (comb) "oper = ''AND''" "1 < length (collectArtifactConditions qb e)"
      | (and_plain) "oper = ''AND''" "\<not> 1 < length (collectArtifactConditions qb e)"
      | (or_case) "oper = ''OR''" | (other) "oper \<noteq> ''AND''" "oper \<noteq> ''OR''" by blast
    then show ?thesis
    proof cases
      case comb
      note cs = combined_condition_safe [OF less.prems collected_types [of qb e]]
      show ?thesis
      proof (cases "removeArtifactConditions qb e")
        case None
        with comb Node cs show ?thesis by (simp only: condition_string_combined Let_def option.case)
      next
        case (Some e')
        have "size e' < size e"
          using comb(2) Some by (intro removeArtifactConditions_smaller [OF collect_nonempty])
        note n = IH [OF cs(2) this]
        show ?thesis
          using comb Node Some n cond_safe_and [OF conjunct1 [OF n] cs(1)]
          by (simp only: condition_string_combined Let_def option.case fst_conv snd_conv)
      qed
    next
      case and_plain
      have "size l < size e" "size r < size e" using Node by simp_all
      note L = IH [OF less.prems this(1)] and R = IH [OF conjunct2 [OF IH [OF less.prems this(1)]] this(2)]
      show ?thesis
        using and_plain Node R cond_safe_and [OF conjunct1 [OF L] conjunct1 [OF R]]
        by (simp only: condition_string_and Let_def fst_conv snd_conv not_False_eq_True)
    next
      case or_case
      have "size l < size e" "size r < size e" using Node by simp_all
      note L = IH [OF less.prems this(1)] and R = IH [OF conjunct2 [OF IH [OF less.prems this(1)]] this(2)]
      show ?thesis
        using or_case Node R cond_safe_or [OF conjunct1 [OF L] conjunct1 [OF R]]
        by (simp only: condition_string_or Let_def fst_conv snd_conv)
    next
      case other
      with Node less.prems show ?thesis by (simp add: condition_string_other sql_char_def)
    qed
  qed
qed

lemma expression_combined:
  assumes "1 < length (collectArtifactConditions qb (Node ''AND'' l r))"
  shows "buildExpression qb db (Node ''AND'' l r) =
    (let cq = buildCombinedArtifactExistsCondition qb (collectArtifactConditions qb (Node ''AND'' l r));
         db1 = add_call (Where (fst (fst cq)) (snd (fst cq))) db
     in case removeArtifactConditions qb (Node ''AND'' l r) of
          None \<Rightarrow> (db1, snd cq) | Some e \<Rightarrow> buildExpression (snd cq) db1 e)"
  using assms by (simp add: Let_def split_beta split: option.split
      del: collectArtifactConditions.simps removeArtifactConditions.simps)

lemma expression_and:
  assumes "\<not> 1 < length (collectArtifactConditions qb (Node ''AND'' l r))"
  shows "buildExpression qb db (Node ''AND'' l r) =
    (let lq = buildExpression qb db l in buildExpression (snd lq) (fst lq) r)"
  using assms by (simp add: Let_def split_beta del: collectArtifactConditions.simps removeArtifactConditions.simps)

lemma expression_or:
  "buildExpression qb db (Node ''OR'' l r) =
    (let cq = buildConditionString qb (Node ''OR'' l r)
     in (add_call (Where (fst (fst cq)) (snd (fst cq))) db, snd cq))"
  by (simp add: Let_def split_beta condition_string_or)

lemma expression_other:
  "oper \<noteq> ''AND'' \<Longrightarrow> oper \<noteq> ''OR'' \<Longrightarrow> buildExpression qb db (Node oper l r) = (db, qb)"
  by simp

declare buildExpression.simps(2) [simp del]

lemma cond_safe_call: "cond_safe c \<Longrightarrow> call_safe (Where (fst c) (snd c))"
  by (cases c) simp

lemma expression_safe:
  "qb_ok qb \<Longrightarrow> calls_safe db
     \<Longrightarrow> calls_safe (fst (buildExpression qb db e)) \<and> qb_ok (snd (buildExpression qb db e))"
proof (induction "size e" arbitrary: qb db e rule: less_induct)
  case less
  show ?case
  proof (cases e)
    case (Leaf p oper v)
    with less.prems show ?thesis by (simp add: leaf_calls_safe)
  next
    case (Node oper l r)
    have IH: "qb_ok q \<Longrightarrow> calls_safe d \<Longrightarrow> size e' < size e
        \<Longrightarrow> calls_safe (fst (buildExpression q d e')) \<and> qb_ok (snd (buildExpression q d e'))" for q d e'
      by (rule less.hyps)
    consider (comb) "oper = ''AND''" "1 < length (collectArtifactConditions qb e)"
      | (and_plain) "oper = ''AND''" "\<not> 1 < length (collectArtifactConditions qb e)"
      | (or_case) "oper = ''OR''" | (other) "oper \<noteq> ''AND''" "oper \<noteq> ''OR''" by blast
    then show ?thesis
    proof cases
      case comb
      let ?c = "buildCombinedArtifactExistsCondition qb (collectArtifactConditions qb e)"
      note cs = combined_condition_safe [OF less.prems(1) collected_types [of qb e]]
      let ?db1 = "add_call (Where (fst (fst ?c)) (snd (fst ?c))) db"
      have db1: "calls_safe ?db1" using less.prems(2) cond_safe_call [OF cs(1)] by simp
      show ?thesis
      proof (cases "removeArtifactConditions qb e")
        case None
        with comb Node cs db1 show ?thesis
          by (simp only: expression_combined Let_def option.case fst_conv snd_conv)
      next
        case (Some e')
        have "size e' < size e"
          using comb(2) Some by (intro removeArtifactConditions_smaller [OF collect_nonempty])
        note n = IH [OF cs(2) db1 this]
        show ?thesis
          using comb Node Some n by (simp only: expression_combined Let_def option.case)
      qed
    next
      case and_plain
      have "size l < size e" "size r < size e" using Node by simp_all
      note L = IH [OF less.prems this(1)]
      note R = IH [OF conjunct2 [OF L] conjunct1 [OF L] \<open>size r < size e\<close>]
      show ?thesis
        using and_plain Node R by (simp only: expression_and Let_def not_False_eq_True)
    next
      case or_case
      with Node less.prems condition_string_safe [OF less.prems(1), of "Node ''OR'' l r"]
        cond_safe_call [of "fst (buildConditionString qb (Node ''OR'' l r))"]
      show ?thesis by (simp add: expression_or Let_def)
    next
      case other
      with Node less.prems show ?thesis by (simp add: expression_other)
    qed
  qed
qed

text \<open>A new builder, once it has taken over the dialect of the handle, is well-formed.\<close>

lemma new_builder_ok:
  assumes "entity_mapping_laws em"
  shows "qb_ok (applyDatabaseQuoting ((NewQueryBuilderForRestEntity r em)\<lparr>qb_db := Some d\<rparr>))"
proof -
  have trim: "trim_chars {CHR 0x60, CHR 0x22} s = s" if "s \<in> {''Context'', ''Artifact'', ''Execution''}" for s
    using that by (auto simp: trim_chars_def)
  show ?thesis
    using assms trim
    by (simp add: qb_ok_def applyDatabaseQuoting_def NewQueryBuilderForRestEntity_def Let_def sql_char_def)
qed

text \<open>
  C2. For every entity mapping of the program, every REST entity type, every database dialect and every
  filter expression a client can send, the calls the query builder makes are safe: each SQL text has as
  many placeholders as the call has arguments (no argument lost, none spliced in) and holds no quote,
  semicolon, comment starter or backslash, so no part of a property name or value the client chose
  reaches the text.
\<close>

theorem filter_query_safe:
  assumes "em \<in> set program_mappings" "calls_safe db"
  shows "calls_safe (fst (BuildQuery (NewQueryBuilderForRestEntity r em) db expr))"
proof (cases expr)
  case None
  with assms show ?thesis by (simp add: BuildQuery_def)
next
  case (Some e)
  from expression_safe [OF new_builder_ok [OF program_mapping_laws [OF assms(1)]] assms(2)]
  show ?thesis using Some by (simp add: BuildQuery_def)
qed

text \<open>A nested filter over a related artifact, on PostgreSQL.\<close>

theorem filter_query_safe_witness:
  "calls_safe (fst (BuildQuery (NewQueryBuilderForRestEntity ''CatalogModel'' catalogModelEntityMappings)
     \<lparr>dialect = ''postgres'', calls = []\<rparr>
     (Some (Node ''AND'' (Leaf ''artifacts.x'' ''='' (AnyInt64 1))
       (Node ''AND'' (Leaf ''artifacts.y'' ''>'' (AnyFloat 0)) (Leaf ''name'' ''='' (AnyStr ''a'')))))))"
  by (rule filter_query_safe) (simp_all add: program_mappings_def calls_safe_def)

end
