(* ===== verification/Store.thy ===== *)
theory Store
  imports Converter_Values Filter_Query Pagination
begin

text \<open>
  The generic repository of the registry and the catalog
  (\<open>internal/platform/db/repository/generic_repository.go\<close>, \<open>property_mappers.go\<close>,
  \<open>internal/platform/db/dbutil/errors.go\<close>): rows, property rows, and the operations \<open>GetByID\<close>, \<open>GetByName\<close>,
  \<open>List\<close> and \<open>Save\<close>.

  The database with its \<open>gorm\<close> mapping is not part of the sources: the calls the code makes are the record
  \<open>store_ops\<close> of functions on a state of any type, and each may fail. The locale \<open>sql_store\<close> states
  what SQL and \<open>gorm\<close> document of them.
\<close>

subsection \<open>Rows\<close>

datatype table_kind = ArtifactTable | ContextTable | ExecutionTable

record artifact_row =
  ar_ID :: int
  ar_TypeID :: int
  ar_URI :: "string option"
  ar_State :: "int option"
  ar_Name :: "string option"
  ar_ExternalID :: "string option"
  ar_CreateTime :: int
  ar_LastUpdateTime :: int

record context_row =
  cr_ID :: int
  cr_TypeID :: int
  cr_Name :: string
  cr_ExternalID :: "string option"
  cr_CreateTime :: int
  cr_LastUpdateTime :: int

record execution_row =
  er_ID :: int
  er_TypeID :: int
  er_LastKnownState :: "int option"
  er_Name :: "string option"
  er_ExternalID :: "string option"
  er_CreateTime :: int
  er_LastUpdateTime :: int

datatype schema_entity = Artifact artifact_row | Context context_row | Execution execution_row

fun table_of :: "schema_entity \<Rightarrow> table_kind" where
  "table_of (Artifact v) = ArtifactTable"
| "table_of (Context v) = ContextTable"
| "table_of (Execution v) = ExecutionTable"

fun getEntityID :: "schema_entity \<Rightarrow> int" where
  "getEntityID (Artifact v) = ar_ID v"
| "getEntityID (Context v) = cr_ID v"
| "getEntityID (Execution v) = er_ID v"

fun setEntityID :: "int \<Rightarrow> schema_entity \<Rightarrow> schema_entity" where
  "setEntityID i (Artifact v) = Artifact (v\<lparr>ar_ID := i\<rparr>)"
| "setEntityID i (Context v) = Context (v\<lparr>cr_ID := i\<rparr>)"
| "setEntityID i (Execution v) = Execution (v\<lparr>er_ID := i\<rparr>)"

fun getTypeID :: "schema_entity \<Rightarrow> int" where
  "getTypeID (Artifact v) = ar_TypeID v"
| "getTypeID (Context v) = cr_TypeID v"
| "getTypeID (Execution v) = er_TypeID v"

text \<open>The name column; it may be null in two of the tables.\<close>

fun getName :: "schema_entity \<Rightarrow> string option" where
  "getName (Artifact v) = ar_Name v"
| "getName (Context v) = Some (cr_Name v)"
| "getName (Execution v) = er_Name v"

fun setLastUpdateTime :: "int \<Rightarrow> schema_entity \<Rightarrow> schema_entity" where
  "setLastUpdateTime t (Artifact v) = Artifact (v\<lparr>ar_LastUpdateTime := t\<rparr>)"
| "setLastUpdateTime t (Context v) = Context (v\<lparr>cr_LastUpdateTime := t\<rparr>)"
| "setLastUpdateTime t (Execution v) = Execution (v\<lparr>er_LastUpdateTime := t\<rparr>)"

fun setCreateTime :: "int \<Rightarrow> schema_entity \<Rightarrow> schema_entity" where
  "setCreateTime t (Artifact v) = Artifact (v\<lparr>ar_CreateTime := t\<rparr>)"
| "setCreateTime t (Context v) = Context (v\<lparr>cr_CreateTime := t\<rparr>)"
| "setCreateTime t (Execution v) = Execution (v\<lparr>er_CreateTime := t\<rparr>)"

fun getCreateTime :: "schema_entity \<Rightarrow> int" where
  "getCreateTime (Artifact v) = ar_CreateTime v"
| "getCreateTime (Context v) = cr_CreateTime v"
| "getCreateTime (Execution v) = er_CreateTime v"

fun getLastUpdateTime :: "schema_entity \<Rightarrow> int" where
  "getLastUpdateTime (Artifact v) = ar_LastUpdateTime v"
| "getLastUpdateTime (Context v) = cr_LastUpdateTime v"
| "getLastUpdateTime (Execution v) = er_LastUpdateTime v"

lemma set_time_simps [simp]:
  "getEntityID (setLastUpdateTime t e) = getEntityID e" "getEntityID (setCreateTime t e) = getEntityID e"
  "getTypeID (setLastUpdateTime t e) = getTypeID e" "getTypeID (setCreateTime t e) = getTypeID e"
  "getTypeID (setEntityID i e) = getTypeID e" "getEntityID (setEntityID i e) = i"
  "table_of (setLastUpdateTime t e) = table_of e" "table_of (setCreateTime t e) = table_of e"
  "table_of (setEntityID i e) = table_of e" "getName (setEntityID i e) = getName e"
  "getName (setLastUpdateTime t e) = getName e" "getName (setCreateTime t e) = getName e"
  "getLastUpdateTime (setLastUpdateTime t e) = t" "getCreateTime (setLastUpdateTime t e) = getCreateTime e"
  "getLastUpdateTime (setCreateTime t e) = getLastUpdateTime e" "getCreateTime (setCreateTime t e) = t"
  by (cases e; simp)+

text \<open>\<open>getNonUpdatableFields\<close>, and what an \<open>Updates\<close> with a struct writes: the columns that are neither
  omitted nor zero.\<close>

definition getNonUpdatableFields :: "string list" where
  "getNonUpdatableFields = [''id'', ''name'', ''type_id'', ''create_time_since_epoch'']"

definition upd :: "string list \<Rightarrow> string \<Rightarrow> 'a \<Rightarrow> 'a \<Rightarrow> 'a \<Rightarrow> 'a" where
  "upd omit column zero new old = (if column \<in> set omit \<or> new = zero then old else new)"

fun updates :: "string list \<Rightarrow> schema_entity \<Rightarrow> schema_entity \<Rightarrow> schema_entity" where
  "updates omit (Artifact n) (Artifact r) = Artifact (r\<lparr>ar_TypeID := upd omit ''type_id'' 0 (ar_TypeID n) (ar_TypeID r),
     ar_URI := upd omit ''uri'' None (ar_URI n) (ar_URI r), ar_State := upd omit ''state'' None (ar_State n) (ar_State r),
     ar_Name := upd omit ''name'' None (ar_Name n) (ar_Name r),
     ar_ExternalID := upd omit ''external_id'' None (ar_ExternalID n) (ar_ExternalID r),
     ar_CreateTime := upd omit ''create_time_since_epoch'' 0 (ar_CreateTime n) (ar_CreateTime r),
     ar_LastUpdateTime := upd omit ''last_update_time_since_epoch'' 0 (ar_LastUpdateTime n) (ar_LastUpdateTime r)\<rparr>)"
| "updates omit (Context n) (Context r) = Context (r\<lparr>cr_TypeID := upd omit ''type_id'' 0 (cr_TypeID n) (cr_TypeID r),
     cr_Name := upd omit ''name'' [] (cr_Name n) (cr_Name r),
     cr_ExternalID := upd omit ''external_id'' None (cr_ExternalID n) (cr_ExternalID r),
     cr_CreateTime := upd omit ''create_time_since_epoch'' 0 (cr_CreateTime n) (cr_CreateTime r),
     cr_LastUpdateTime := upd omit ''last_update_time_since_epoch'' 0 (cr_LastUpdateTime n) (cr_LastUpdateTime r)\<rparr>)"
| "updates omit (Execution n) (Execution r) = Execution (r\<lparr>er_TypeID := upd omit ''type_id'' 0 (er_TypeID n) (er_TypeID r),
     er_LastKnownState := upd omit ''last_known_state'' None (er_LastKnownState n) (er_LastKnownState r),
     er_Name := upd omit ''name'' None (er_Name n) (er_Name r),
     er_ExternalID := upd omit ''external_id'' None (er_ExternalID n) (er_ExternalID r),
     er_CreateTime := upd omit ''create_time_since_epoch'' 0 (er_CreateTime n) (er_CreateTime r),
     er_LastUpdateTime := upd omit ''last_update_time_since_epoch'' 0 (er_LastUpdateTime n) (er_LastUpdateTime r)\<rparr>)"
| "updates omit n r = r"

text \<open>A property row is a stored property with the id of its entity; the protocol buffer column is never written.\<close>

record property_row = stored_property +
  pr_EntityID :: int

definition getPropertyName :: "property_row \<Rightarrow> string" where "getPropertyName p = sp_Name p"
definition getPropertyIsCustom :: "property_row \<Rightarrow> bool" where "getPropertyIsCustom p = sp_IsCustom p"
definition getPropertyEntityID :: "property_row \<Rightarrow> int" where "getPropertyEntityID p = pr_EntityID p"

definition propertiesMatch :: "property_row \<Rightarrow> property_row \<Rightarrow> bool" where
  "propertiesMatch p q = (getPropertyName p = getPropertyName q
     \<and> getPropertyIsCustom p = getPropertyIsCustom q \<and> getPropertyEntityID p = getPropertyEntityID q)"

definition MapPropertiesToArtifactProperty :: "stored_property \<Rightarrow> int \<Rightarrow> bool \<Rightarrow> property_row" where
  "MapPropertiesToArtifactProperty prop artifactID isCustomProperty =
     \<lparr>sp_Name = sp_Name prop, sp_IsCustom = isCustomProperty, sp_Int = sp_Int prop, sp_Double = sp_Double prop,
      sp_String = sp_String prop, sp_Bool = sp_Bool prop, sp_Byte = sp_Byte prop, pr_EntityID = artifactID\<rparr>"

definition MapPropertiesToContextProperty :: "stored_property \<Rightarrow> int \<Rightarrow> bool \<Rightarrow> property_row" where
  "MapPropertiesToContextProperty prop contextID isCustomProperty =
     \<lparr>sp_Name = sp_Name prop, sp_IsCustom = isCustomProperty, sp_Int = sp_Int prop, sp_Double = sp_Double prop,
      sp_String = sp_String prop, sp_Bool = sp_Bool prop, sp_Byte = sp_Byte prop, pr_EntityID = contextID\<rparr>"

definition MapPropertiesToExecutionProperty :: "stored_property \<Rightarrow> int \<Rightarrow> bool \<Rightarrow> property_row" where
  "MapPropertiesToExecutionProperty prop executionID isCustomProperty =
     \<lparr>sp_Name = sp_Name prop, sp_IsCustom = isCustomProperty, sp_Int = sp_Int prop, sp_Double = sp_Double prop,
      sp_String = sp_String prop, sp_Bool = sp_Bool prop, sp_Byte = sp_Byte prop, pr_EntityID = executionID\<rparr>"

definition MapArtifactPropertyToProperties :: "property_row \<Rightarrow> stored_property" where
  "MapArtifactPropertyToProperties p = \<lparr>sp_Name = sp_Name p, sp_IsCustom = sp_IsCustom p, sp_Int = sp_Int p,
     sp_Double = sp_Double p, sp_String = sp_String p, sp_Bool = sp_Bool p, sp_Byte = sp_Byte p\<rparr>"

definition MapContextPropertyToProperties :: "property_row \<Rightarrow> stored_property" where
  "MapContextPropertyToProperties p = \<lparr>sp_Name = sp_Name p, sp_IsCustom = sp_IsCustom p, sp_Int = sp_Int p,
     sp_Double = sp_Double p, sp_String = sp_String p, sp_Bool = sp_Bool p, sp_Byte = sp_Byte p\<rparr>"

definition MapExecutionPropertyToProperties :: "property_row \<Rightarrow> stored_property" where
  "MapExecutionPropertyToProperties p = \<lparr>sp_Name = sp_Name p, sp_IsCustom = sp_IsCustom p, sp_Int = sp_Int p,
     sp_Double = sp_Double p, sp_String = sp_String p, sp_Bool = sp_Bool p, sp_Byte = sp_Byte p\<rparr>"

subsection \<open>Errors\<close>

text \<open>Database errors carry their text.\<close>

datatype db_error = RecordNotFound | DuplicatedKey string | OtherDbError string

fun db_error_text :: "db_error \<Rightarrow> string" where
  "db_error_text RecordNotFound = ''record not found''"
| "db_error_text (DuplicatedKey t) = t"
| "db_error_text (OtherDbError t) = t"

definition conversion_patterns :: "string list" where
  "conversion_patterns = [''invalid input syntax'', ''sqlstate'', ''incorrect double value'', ''incorrect integer value'',
     ''truncated incorrect'', ''unable to encode'', ''failed to encode'', ''cannot find encode plan'']"

definition IsDatabaseTypeConversionError :: "db_error \<Rightarrow> bool" where
  "IsDatabaseTypeConversionError err =
     (let errStr = to_lower (db_error_text err)
      in list_ex (\<lambda>p. sublist p errStr) conversion_patterns)"

text \<open>An error of a repository: a sentinel that is wrapped (not found, bad request), or a database error
  with the text put before it.\<close>

datatype repo_error =
    NotFound string
  | BadRequest string
  | Wrapped string db_error

definition SanitizeDatabaseError :: "string \<Rightarrow> db_error \<Rightarrow> repo_error" where
  "SanitizeDatabaseError context err =
     (if IsDatabaseTypeConversionError err
      then BadRequest (context @ ''invalid filter query, type mismatch or invalid value in comparison'')
      else Wrapped context err)"

definition EnhanceFilterQueryError :: "string \<Rightarrow> string" where
  "EnhanceFilterQueryError errMsg =
     (if sublist ''expected Value'' errMsg
      then ''invalid filter query syntax: '' @ errMsg @ ''. Hint: String values must be quoted (e.g., name='' @ [CHR 0x22]
             @ ''value'' @ [CHR 0x22] @ ''). Numbers and booleans don't need quotes (e.g., id>5, active=true)''
      else if sublist ''unexpected token'' errMsg
      then ''invalid filter query syntax: '' @ errMsg @ ''. Check that operators and values are correctly formatted''
      else ''invalid filter query syntax: '' @ errMsg)"

subsection \<open>The database calls\<close>

text \<open>
  The calls of the repository: the first row with an id, with or without a type, or with a name and a type; a built query; the insertion of a
  row, which sets its id; \<open>Updates\<close> with columns omitted; the property rows of an entity, all or those with
  a flag, or one by name; creating, updating and deleting a property row; the rows that link an entity to a
  context; and the commit of a transaction. Their order of results is the database's.
\<close>

record 's store_ops =
  so_by_id :: "table_kind \<Rightarrow> int \<Rightarrow> int \<Rightarrow> 's \<Rightarrow> db_error + schema_entity"
  so_by_any :: "table_kind \<Rightarrow> int \<Rightarrow> 's \<Rightarrow> db_error + schema_entity"
  so_by_name :: "table_kind \<Rightarrow> string \<Rightarrow> int \<Rightarrow> 's \<Rightarrow> db_error + schema_entity"
  so_find :: "table_kind \<Rightarrow> gorm_db \<Rightarrow> 's \<Rightarrow> db_error + schema_entity list"
  so_insert :: "schema_entity \<Rightarrow> 's \<Rightarrow> db_error + schema_entity \<times> 's"
  so_update :: "string list \<Rightarrow> schema_entity \<Rightarrow> 's \<Rightarrow> db_error + 's"
  so_props :: "table_kind \<Rightarrow> int \<Rightarrow> 's \<Rightarrow> db_error + property_row list"
  so_props_where :: "table_kind \<Rightarrow> int \<Rightarrow> bool \<Rightarrow> 's \<Rightarrow> db_error + property_row list"
  so_prop :: "table_kind \<Rightarrow> int \<Rightarrow> string \<Rightarrow> bool \<Rightarrow> 's \<Rightarrow> db_error + property_row"
  so_create_prop :: "table_kind \<Rightarrow> property_row \<Rightarrow> 's \<Rightarrow> db_error + 's"
  so_update_prop :: "table_kind \<Rightarrow> property_row \<Rightarrow> 's \<Rightarrow> db_error + 's"
  so_delete_prop :: "table_kind \<Rightarrow> property_row \<Rightarrow> 's \<Rightarrow> db_error + 's"
  so_link :: "table_kind \<Rightarrow> int \<Rightarrow> int \<Rightarrow> 's \<Rightarrow> db_error + unit"
  so_create_link :: "table_kind \<Rightarrow> int \<Rightarrow> int \<Rightarrow> 's \<Rightarrow> db_error + 's"
  so_commit :: "'s \<Rightarrow> db_error option"

text \<open>An error that is returned with a text before it.\<close>

definition wrap :: "string \<Rightarrow> db_error + 'a \<Rightarrow> repo_error + 'a" where
  "wrap context r = (case r of Inl err \<Rightarrow> Inl (Wrapped context err) | Inr x \<Rightarrow> Inr x)"

lemma wrap_Inr [simp]: "wrap context r = Inr x \<longleftrightarrow> r = Inr x"
  by (simp add: wrap_def split: sum.split)

fun for_each :: "('a \<Rightarrow> 's \<Rightarrow> 'e + 's) \<Rightarrow> 'a list \<Rightarrow> 's \<Rightarrow> 'e + 's" where
  "for_each f [] s = Inr s"
| "for_each f (x # xs) s = try_bind (f x s) (for_each f xs)"

text \<open>\<open>DB.Transaction\<close>: an error of the body or of the commit rolls everything back.\<close>

definition Transaction :: "'s store_ops \<Rightarrow> ('s \<Rightarrow> repo_error + 'a \<times> 's) \<Rightarrow> 's \<Rightarrow> (repo_error + 'a) \<times> 's" where
  "Transaction ops body s =
     (case body s of
        Inl err \<Rightarrow> (Inl err, s)
      | Inr (x, s') \<Rightarrow> (case so_commit ops s' of Some err \<Rightarrow> (Inl (Wrapped [] err), s) | None \<Rightarrow> (Inr x, s')))"

subsection \<open>The generic repository\<close>

text \<open>
  \<open>GenericRepositoryConfig\<close>. The type parameters \<open>TSchema\<close> and \<open>TProp\<close> choose the tables, \<open>rc_Table\<close>; the list
  options are a record that extends \<open>pagination\<close>, and \<open>rc_RestEntityType\<close> is the method of the interface
  \<open>FilterApplier\<close>, where the options have it.
\<close>

record ('e, 'o) repo_config =
  rc_Table :: table_kind
  rc_TypeID :: int
  rc_EntityToSchema :: "'e \<Rightarrow> schema_entity"
  rc_SchemaToEntity :: "schema_entity \<Rightarrow> property_row list \<Rightarrow> 'e"
  rc_EntityToProperties :: "'e \<Rightarrow> int \<Rightarrow> property_row list"
  rc_NotFoundError :: string
  rc_EntityName :: string
  rc_ApplyListFilters :: "('o \<Rightarrow> gorm_db \<Rightarrow> gorm_db) option"
  rc_CreatePaginationToken :: "(schema_entity \<Rightarrow> 'o \<Rightarrow> string) option"
  rc_ApplyCustomOrdering :: "('o \<Rightarrow> gorm_db \<Rightarrow> gorm_db) option"
  rc_IsNewEntity :: "('e \<Rightarrow> bool) option"
  rc_HasCustomProperties :: "('e \<Rightarrow> bool) option"
  rc_EntityMappingFuncs :: entity_mapping
  rc_PreserveHistoricalTimes :: bool
  rc_DeleteMissingProperties :: bool
  rc_Pagination :: "'o \<Rightarrow> pagination"
  rc_RestEntityType :: "('o \<Rightarrow> string) option"

definition GetByID :: "'s store_ops \<Rightarrow> ('e, 'o) repo_config \<Rightarrow> int \<Rightarrow> 's \<Rightarrow> repo_error + 'e" where
  "GetByID ops cfg i s =
     (case so_by_id ops (rc_Table cfg) i (rc_TypeID cfg) s of
        Inl RecordNotFound \<Rightarrow> Inl (NotFound (rc_NotFoundError cfg @ '': record not found''))
      | Inl err \<Rightarrow> Inl (Wrapped (''error getting '' @ rc_EntityName cfg @ '' by id: '') err)
      | Inr schemaEntity \<Rightarrow>
          try_bind (wrap (''error getting properties by '' @ rc_EntityName cfg @ '' id: '')
                     (so_props ops (rc_Table cfg) (getEntityID schemaEntity) s))
            (\<lambda>properties. Inr (rc_SchemaToEntity cfg schemaEntity properties)))"

definition GetByName :: "'s store_ops \<Rightarrow> ('e, 'o) repo_config \<Rightarrow> string \<Rightarrow> 's \<Rightarrow> repo_error + 'e" where
  "GetByName ops cfg name s =
     (case so_by_name ops (rc_Table cfg) name (rc_TypeID cfg) s of
        Inl RecordNotFound \<Rightarrow> Inl (NotFound (rc_NotFoundError cfg @ '': record not found''))
      | Inl err \<Rightarrow> Inl (Wrapped (''error getting '' @ rc_EntityName cfg @ '' by name: '') err)
      | Inr schemaEntity \<Rightarrow>
          try_bind (wrap (''error getting properties by '' @ rc_EntityName cfg @ '' id: '')
                     (so_props ops (rc_Table cfg) (getEntityID schemaEntity) s))
            (\<lambda>properties. Inr (rc_SchemaToEntity cfg schemaEntity properties)))"

subsubsection \<open>Save\<close>

definition deleteMissing :: "'s store_ops \<Rightarrow> table_kind \<Rightarrow> property_row list \<Rightarrow> property_row list \<Rightarrow> 's \<Rightarrow> repo_error + 's" where
  "deleteMissing ops k properties existing =
     for_each (\<lambda>existingProp s.
         if list_ex (\<lambda>prop. propertiesMatch prop existingProp) properties then Inr s
         else wrap ''error deleting property: '' (so_delete_prop ops k existingProp s)) existing"

definition deleteMissingProperties :: "'s store_ops \<Rightarrow> table_kind \<Rightarrow> int \<Rightarrow> property_row list \<Rightarrow> 's \<Rightarrow> repo_error + 's" where
  "deleteMissingProperties ops k entityID properties =
     for_each (\<lambda>custom s.
         try_bind (wrap ''error getting existing properties: '' (so_props_where ops k entityID custom s))
           (\<lambda>existing. deleteMissing ops k properties existing s)) [False, True]"

definition saveProperty :: "'s store_ops \<Rightarrow> table_kind \<Rightarrow> int \<Rightarrow> property_row \<Rightarrow> 's \<Rightarrow> repo_error + 's" where
  "saveProperty ops k entityID prop s =
     (case so_prop ops k entityID (getPropertyName prop) (getPropertyIsCustom prop) s of
        Inr existingProp \<Rightarrow>
          wrap (''error updating property '' @ getPropertyName prop @ '': '') (so_update_prop ops k prop s)
      | Inl RecordNotFound \<Rightarrow>
          wrap (''error creating property '' @ getPropertyName prop @ '': '') (so_create_prop ops k prop s)
      | Inl err \<Rightarrow> Inl (Wrapped (''error checking existing property '' @ getPropertyName prop @ '': '') err))"

definition handleProperties :: "'s store_ops \<Rightarrow> ('e, 'o) repo_config \<Rightarrow> int \<Rightarrow> property_row list \<Rightarrow> bool \<Rightarrow> 's \<Rightarrow> repo_error + 's" where
  "handleProperties ops cfg entityID properties hasCustomProperties s =
     try_bind
       (if rc_DeleteMissingProperties cfg then deleteMissingProperties ops (rc_Table cfg) entityID properties s
        else if hasCustomProperties then
          try_bind (wrap ''error getting existing custom properties: '' (so_props_where ops (rc_Table cfg) entityID True s))
            (\<lambda>existing. deleteMissing ops (rc_Table cfg) properties existing s)
        else Inr s)
       (for_each (saveProperty ops (rc_Table cfg) entityID) properties)"

definition link_name :: "table_kind \<Rightarrow> string" where
  "link_name k = (case k of ArtifactTable \<Rightarrow> ''attribution'' | ContextTable \<Rightarrow> ''parent context''
     | ExecutionTable \<Rightarrow> ''association'')"

definition handleParentRelationship :: "'s store_ops \<Rightarrow> schema_entity \<Rightarrow> int \<Rightarrow> 's \<Rightarrow> repo_error + 's" where
  "handleParentRelationship ops e parentResourceID s =
     (case so_link ops (table_of e) parentResourceID (getEntityID e) s of
        Inl RecordNotFound \<Rightarrow>
          wrap (''error creating '' @ link_name (table_of e) @ '': '')
            (so_create_link ops (table_of e) parentResourceID (getEntityID e) s)
      | Inl err \<Rightarrow> Inl (Wrapped (''error checking existing '' @ link_name (table_of e) @ '': '') err)
      | Inr u \<Rightarrow> Inr s)"

text \<open>The times \<open>Save\<close> gives a row; \<open>now\<close> is the clock at its start.\<close>

definition stamp :: "('e, 'o) repo_config \<Rightarrow> int \<Rightarrow> bool \<Rightarrow> schema_entity \<Rightarrow> schema_entity" where
  "stamp cfg now isNewEntity e =
     (let existingCreateTime = getCreateTime e; existingUpdateTime = getLastUpdateTime e
      in if rc_PreserveHistoricalTimes cfg then
           (let e1 = (if existingUpdateTime = 0 then setLastUpdateTime now e else e)
            in if existingCreateTime = 0 then setCreateTime now e1 else e1)
         else if isNewEntity then setCreateTime now (setLastUpdateTime now e)
         else
           (let e1 = setLastUpdateTime now e
            in if existingCreateTime = 0 then setCreateTime now e1 else e1))"

definition call_opt :: "('a \<Rightarrow> bool) option \<Rightarrow> 'a \<Rightarrow> bool" where
  "call_opt f x = (case f of None \<Rightarrow> False | Some g \<Rightarrow> g x)"

definition Save_row :: "'s store_ops \<Rightarrow> ('e, 'o) repo_config \<Rightarrow> bool \<Rightarrow> schema_entity \<Rightarrow> 's \<Rightarrow> repo_error + schema_entity \<times> 's" where
  "Save_row ops cfg isNewEntity e s =
     (if isNewEntity then wrap (''error saving '' @ rc_EntityName cfg @ '': '') (so_insert ops e s)
      else try_bind (wrap (''error saving '' @ rc_EntityName cfg @ '': '') (so_update ops getNonUpdatableFields e s))
             (\<lambda>s'. Inr (e, s')))"

definition Save_body :: "'s store_ops \<Rightarrow> ('e, 'o) repo_config \<Rightarrow> int \<Rightarrow> 'e \<Rightarrow> int option \<Rightarrow> 's
    \<Rightarrow> repo_error + (schema_entity \<times> property_row list) \<times> 's" where
  "Save_body ops cfg now e parentResourceID s =
     (let isNewEntity = call_opt (rc_IsNewEntity cfg) e;
          hasCustomProperties = call_opt (rc_HasCustomProperties cfg) e
      in try_bind (Save_row ops cfg isNewEntity (stamp cfg now isNewEntity (rc_EntityToSchema cfg e)) s) (\<lambda>(row, s1).
         try_bind (case parentResourceID of None \<Rightarrow> Inr s1 | Some p \<Rightarrow> handleParentRelationship ops row p s1) (\<lambda>s2.
         try_bind (handleProperties ops cfg (getEntityID row) (rc_EntityToProperties cfg e (getEntityID row))
                     hasCustomProperties s2) (\<lambda>s3.
         try_bind (wrap (''error getting final properties by '' @ rc_EntityName cfg @ '' id: '')
                     (so_props ops (rc_Table cfg) (getEntityID row) s3)) (\<lambda>finalProperties.
         Inr ((row, finalProperties), s3))))))"

definition Save :: "'s store_ops \<Rightarrow> ('e, 'o) repo_config \<Rightarrow> int \<Rightarrow> 'e \<Rightarrow> int option \<Rightarrow> 's \<Rightarrow> (repo_error + 'e) \<times> 's" where
  "Save ops cfg now e parentResourceID s =
     (case Transaction ops (Save_body ops cfg now e parentResourceID) s of
        (Inl err, s') \<Rightarrow> (Inl err, s')
      | (Inr (row, finalProperties), s') \<Rightarrow> (Inr (rc_SchemaToEntity cfg row finalProperties), s'))"

subsubsection \<open>List\<close>

type_synonym filter_parser = "string \<Rightarrow> string + where_clause"

text \<open>\<open>ApplyFilterQuery\<close>; the parser of the filter language is an argument (\<open>Filter_Grammar\<close>).\<close>

definition ApplyFilterQuery ::
  "filter_parser \<Rightarrow> string option \<Rightarrow> pagination \<Rightarrow> entity_mapping \<Rightarrow> gorm_db \<Rightarrow> repo_error + gorm_db" where
  "ApplyFilterQuery parser restEntityType opts mappingFuncs query =
     (let filterQuery = GetFilterQuery opts
      in if filterQuery = [] then Inr query
         else case restEntityType of
             None \<Rightarrow> Inr query
           | Some t \<Rightarrow>
               (case Parse parser filterQuery of
                  Inl err \<Rightarrow> Inl (BadRequest (EnhanceFilterQueryError err))
                | Inr None \<Rightarrow> Inr query
                | Inr (Some expr) \<Rightarrow>
                    Inr (fst (BuildQuery (NewQueryBuilderForRestEntity t mappingFuncs) query (Some expr)))))"

definition table_name :: "table_kind \<Rightarrow> string" where
  "table_name k = (case k of ArtifactTable \<Rightarrow> ''Artifact'' | ContextTable \<Rightarrow> ''Context'' | ExecutionTable \<Rightarrow> ''Execution'')"

definition buildBaseQuery :: "string \<Rightarrow> ('e, 'o) repo_config \<Rightarrow> gorm_db" where
  "buildBaseQuery d cfg = add_call
     (Where (QuoteTableName (Some d) (table_name (rc_Table cfg)) @ ''.type_id = ?'') [AnyInt32 (rc_TypeID cfg)])
     \<lparr>dialect = d, calls = []\<rparr>"

definition ApplyStandardPagination :: "('e, 'o) repo_config \<Rightarrow> pagination \<Rightarrow> gorm_db \<Rightarrow> gorm_db" where
  "ApplyStandardPagination cfg opts query = PaginateWithTablePrefix
     \<lparr>pg_PageSize = Some (GetPageSize opts), pg_OrderBy = Some (GetOrderBy opts), pg_SortOrder = Some (GetSortOrder opts),
      pg_NextPageToken = Some (GetNextPageToken opts), pg_FilterQuery = None\<rparr> (table_name (rc_Table cfg)) query"

definition CreateDefaultPaginationToken :: "(float64 \<Rightarrow> string) \<Rightarrow> schema_entity \<Rightarrow> pagination \<Rightarrow> string" where
  "CreateDefaultPaginationToken fmt e opts =
     (let orderBy = GetOrderBy opts;
          v = (if orderBy = [] then []
               else if orderBy = ''ID'' then itoa (getEntityID e)
               else if orderBy = ''CREATE_TIME'' then itoa (getCreateTime e)
               else if orderBy = ''LAST_UPDATE_TIME'' then itoa (getLastUpdateTime e)
               else itoa (getEntityID e))
      in CreateNextPageToken fmt (getEntityID e) (TokString v))"

record 'e list_wrapper =
  lw_Items :: "'e list"
  lw_NextPageToken :: string
  lw_PageSize :: int
  lw_Size :: int

text \<open>The rows of a page: the query asks for one more than the page size.\<close>

definition list_query :: "filter_parser \<Rightarrow> string \<Rightarrow> ('e, 'o) repo_config \<Rightarrow> 'o \<Rightarrow> repo_error + gorm_db" where
  "list_query parser d cfg opts =
     (let query0 = buildBaseQuery d cfg;
          query1 = (case rc_ApplyListFilters cfg of None \<Rightarrow> query0 | Some f \<Rightarrow> f opts query0)
      in try_bind (ApplyFilterQuery parser (map_option (\<lambda>g. g opts) (rc_RestEntityType cfg)) (rc_Pagination cfg opts)
                     (rc_EntityMappingFuncs cfg) query1)
           (\<lambda>query2. Inr (case rc_ApplyCustomOrdering cfg of
               Some f \<Rightarrow> f opts query2
             | None \<Rightarrow> ApplyStandardPagination cfg (rc_Pagination cfg opts) query2)))"

definition has_more :: "int \<Rightarrow> 'a list \<Rightarrow> bool" where
  "has_more pageSize rows = (pageSize > 0 \<and> int (length rows) > pageSize)"

definition ListEntities ::
  "(float64 \<Rightarrow> string) \<Rightarrow> filter_parser \<Rightarrow> string \<Rightarrow> 's store_ops \<Rightarrow> ('e, 'o) repo_config \<Rightarrow> 'o \<Rightarrow> 's
    \<Rightarrow> repo_error + 'e list_wrapper" where
  "ListEntities fmt parser d ops cfg opts s =
     (let pageSize = GetPageSize (rc_Pagination cfg opts)
      in try_bind (list_query parser d cfg opts) (\<lambda>query.
         case so_find ops (rc_Table cfg) query s of
           Inl err \<Rightarrow> Inl (SanitizeDatabaseError (''error listing '' @ rc_EntityName cfg @ ''s: '') err)
         | Inr found \<Rightarrow>
             (let rows = (if has_more pageSize found then butlast found else found)
              in try_bind (try_map (\<lambda>se. try_bind
                     (wrap (''error getting properties by '' @ rc_EntityName cfg @ '' id: '')
                       (so_props ops (rc_Table cfg) (getEntityID se) s))
                     (\<lambda>properties. Inr (rc_SchemaToEntity cfg se properties))) rows) (\<lambda>items.
                 Inr \<lparr>lw_Items = items,
                   lw_NextPageToken = (if has_more pageSize found \<and> rows \<noteq> [] then
                       (case rc_CreatePaginationToken cfg of
                          Some f \<Rightarrow> f (last rows) opts
                        | None \<Rightarrow> CreateDefaultPaginationToken fmt (last rows) (rc_Pagination cfg opts))
                     else []),
                   lw_PageSize = pageSize, lw_Size = to_int32 (int (length items))\<rparr>))))"

end
