(* ===== verification/Store_Facts.thy ===== *)
theory Store_Facts
  imports Store
begin

text \<open>
  What \<open>Save\<close> and the readers of the generic repository do to the tables, for every database that keeps what SQL and
  \<open>gorm\<close> document (the locale \<open>sql_store\<close>) and every repository whose mapping functions agree on table and
  id (the locale \<open>repo_mapping\<close>).
\<close>

subsection \<open>The interface of the database\<close>

text \<open>The key of a property row: entity, name and flag are the primary key.\<close>

definition prop_key :: "property_row \<Rightarrow> int \<times> string \<times> bool" where
  "prop_key p = (pr_EntityID p, sp_Name p, sp_IsCustom p)"

type_synonym row_view = "table_kind \<Rightarrow> int \<Rightarrow> schema_entity option"
type_synonym prop_view = "table_kind \<Rightarrow> int \<times> string \<times> bool \<Rightarrow> property_row option"
type_synonym link_view = "table_kind \<Rightarrow> (int \<times> int) set"

text \<open>
  A state is seen as its rows by id, its property rows by key, and the links from contexts to their entities. A new
  row gets an id that no row and no property row has; an update of a property row writes all its value columns.
\<close>

locale sql_store =
  fixes ops :: "'s store_ops" and rows :: "'s \<Rightarrow> row_view" and props :: "'s \<Rightarrow> prop_view" and links :: "'s \<Rightarrow> link_view"
  assumes row_id: "rows s k i = Some e \<Longrightarrow> getEntityID e = i \<and> table_of e = k"
    and prop_row_key: "props s k key = Some p \<Longrightarrow> prop_key p = key"
    and by_id: "so_by_id ops k i t s = Inr e \<Longrightarrow> rows s k i = Some e \<and> getTypeID e = t"
    and by_id_missing: "so_by_id ops k i t s = Inl RecordNotFound \<Longrightarrow> \<nexists>e. rows s k i = Some e \<and> getTypeID e = t"
    and by_any: "so_by_any ops k i s = Inr e \<Longrightarrow> rows s k i = Some e"
    and insert_row: "so_insert ops e s = Inr (e', s') \<Longrightarrow> getEntityID e = 0 \<Longrightarrow>
          e' = setEntityID (getEntityID e') e \<and> rows s (table_of e) (getEntityID e') = None
          \<and> (\<forall>m. props s (table_of e) (getEntityID e', m) = None)
          \<and> rows s' = (rows s)(table_of e := (rows s (table_of e))(getEntityID e' \<mapsto> e'))
          \<and> props s' = props s \<and> links s' = links s"
    and update_row: "so_update ops omit e s = Inr s' \<Longrightarrow>
          rows s' = (rows s)(table_of e := (rows s (table_of e))
            (getEntityID e := map_option (updates omit e) (rows s (table_of e) (getEntityID e))))
          \<and> props s' = props s \<and> links s' = links s"
    and read_props: "so_props ops k i s = Inr ps \<Longrightarrow>
          distinct ps \<and> set ps = {p. props s k (prop_key p) = Some p \<and> pr_EntityID p = i}"
    and read_props_where: "so_props_where ops k i c s = Inr ps \<Longrightarrow>
          set ps = {p. props s k (prop_key p) = Some p \<and> pr_EntityID p = i \<and> sp_IsCustom p = c}"
    and prop_found: "so_prop ops k i n c s = Inr p \<Longrightarrow> props s k (i, n, c) = Some p"
    and prop_missing: "so_prop ops k i n c s = Inl RecordNotFound \<Longrightarrow> props s k (i, n, c) = None"
    and create_prop: "so_create_prop ops k p s = Inr s' \<Longrightarrow> props s k (prop_key p) = None \<Longrightarrow>
          props s' = (props s)(k := (props s k)(prop_key p \<mapsto> p)) \<and> rows s' = rows s \<and> links s' = links s"
    and update_prop: "so_update_prop ops k p s = Inr s' \<Longrightarrow> props s k (prop_key p) \<noteq> None \<Longrightarrow>
          props s' = (props s)(k := (props s k)(prop_key p \<mapsto> p)) \<and> rows s' = rows s \<and> links s' = links s"
    and delete_prop: "so_delete_prop ops k p s = Inr s' \<Longrightarrow>
          props s' = (props s)(k := (props s k)(prop_key p := None)) \<and> rows s' = rows s \<and> links s' = links s"
    and link_found: "so_link ops k parent i s = Inr u \<Longrightarrow> (parent, i) \<in> links s k"
    and create_link: "so_create_link ops k parent i s = Inr s' \<Longrightarrow>
          links s' = (links s)(k := insert (parent, i) (links s k)) \<and> rows s' = rows s \<and> props s' = props s"

subsection \<open>The interface of a repository\<close>

locale repo_mapping =
  fixes cfg :: "('e, 'o) repo_config"
  assumes schema_table: "table_of (rc_EntityToSchema cfg e) = rc_Table cfg"
    and new_without_id: "call_opt (rc_IsNewEntity cfg) e \<Longrightarrow> getEntityID (rc_EntityToSchema cfg e) = 0"
    and property_ids: "p \<in> set (rc_EntityToProperties cfg e i) \<Longrightarrow> pr_EntityID p = i"

subsection \<open>The specification of the properties a Save leaves\<close>

text \<open>The last of the rows sent for a key wins.\<close>

definition sent_props :: "property_row list \<Rightarrow> int \<times> string \<times> bool \<Rightarrow> property_row option" where
  "sent_props ps = map_of (rev (map (\<lambda>p. (prop_key p, p)) ps))"

text \<open>
  After a \<open>Save\<close> of the rows \<open>ps\<close> for the entity \<open>i\<close>: what was sent; what was not sent is removed if it is a
  custom property and custom properties were given, or if the repository deletes all that is missing; all the rest
  is as before.
\<close>

definition saved_props ::
  "('e, 'o) repo_config \<Rightarrow> bool \<Rightarrow> int \<Rightarrow> property_row list \<Rightarrow> (int \<times> string \<times> bool \<Rightarrow> property_row option)
    \<Rightarrow> int \<times> string \<times> bool \<Rightarrow> property_row option" where
  "saved_props cfg hasCustom i ps old c =
     (case sent_props ps c of
        Some p \<Rightarrow> Some p
      | None \<Rightarrow> if fst c = i \<and> (rc_DeleteMissingProperties cfg \<or> hasCustom \<and> snd (snd c)) then None else old c)"

lemma sent_props_Nil [simp]: "sent_props [] = Map.empty"
  by (simp add: sent_props_def)

lemma sent_props_snoc: "sent_props (ps @ [p]) = (sent_props ps)(prop_key p \<mapsto> p)"
  by (simp add: sent_props_def)

lemma sent_props_Cons:
  "sent_props (p # ps) c = (case sent_props ps c of Some q \<Rightarrow> Some q | None \<Rightarrow> if c = prop_key p then Some p else None)"
  by (auto simp: sent_props_def map_add_def split: option.split)

lemma sent_props_None: "sent_props ps c = None \<longleftrightarrow> c \<notin> prop_key ` set ps"
  by (induction ps) (auto simp: sent_props_Cons split: option.splits)

lemma sent_props_Some: "sent_props ps c = Some p \<Longrightarrow> p \<in> set ps \<and> prop_key p = c"
  by (induction ps) (auto simp: sent_props_Cons split: option.splits if_splits)

lemma propertiesMatch_key: "propertiesMatch p q \<longleftrightarrow> prop_key p = prop_key q"
  by (auto simp: propertiesMatch_def prop_key_def getPropertyName_def getPropertyIsCustom_def getPropertyEntityID_def)

subsection \<open>Saving properties\<close>

context sql_store
begin

lemma deleteMissing_spec:
  assumes "deleteMissing ops k properties existing s = Inr s'"
  shows "rows s' = rows s \<and> links s' = links s \<and> (\<forall>j key. props s' j key =
    (if j = k \<and> key \<in> prop_key ` set existing \<and> key \<notin> prop_key ` set properties then None else props s j key))"
  using assms
proof (induction existing arbitrary: s)
  case Nil
  then show ?case by (simp add: deleteMissing_def)
next
  case (Cons e es)
  show ?case
  proof (cases "list_ex (\<lambda>p. propertiesMatch p e) properties")
    case True
    then have "prop_key e \<in> prop_key ` set properties" by (auto simp: list_ex_iff propertiesMatch_key image_iff dest: sym)
    moreover have "deleteMissing ops k properties es s = Inr s'"
      using Cons.prems True by (simp add: deleteMissing_def)
    ultimately show ?thesis using Cons.IH [of s] by auto
  next
    case False
    then have key: "prop_key e \<notin> prop_key ` set properties" by (auto simp: list_ex_iff propertiesMatch_key image_iff)
    obtain s1 where s1: "so_delete_prop ops k e s = Inr s1" "deleteMissing ops k properties es s1 = Inr s'"
      using Cons.prems False by (auto simp: deleteMissing_def try_bind_Inr_iff)
    from delete_prop [OF s1(1)] Cons.IH [OF s1(2)] key show ?thesis by simp
  qed
qed

lemma saveProperty_spec:
  assumes "saveProperty ops k i p s = Inr s'" "pr_EntityID p = i"
  shows "rows s' = rows s \<and> links s' = links s
    \<and> (\<forall>j key. props s' j key = (if j = k \<and> key = prop_key p then Some p else props s j key))"
proof (cases "so_prop ops k i (sp_Name p) (sp_IsCustom p) s")
  case (Inl err)
  with assms have "err = RecordNotFound" and "so_create_prop ops k p s = Inr s'"
    by (auto simp: saveProperty_def getPropertyName_def getPropertyIsCustom_def split: db_error.splits)
  with Inl assms(2) prop_missing have "props s k (prop_key p) = None" by (simp add: prop_key_def)
  with create_prop [OF \<open>so_create_prop ops k p s = Inr s'\<close>] show ?thesis by simp
next
  case (Inr q)
  with assms have u: "so_update_prop ops k p s = Inr s'"
    by (auto simp: saveProperty_def getPropertyName_def getPropertyIsCustom_def)
  have "props s k (prop_key p) \<noteq> None" using prop_found [OF Inr] assms(2) by (simp add: prop_key_def)
  with update_prop [OF u] show ?thesis by simp
qed

lemma save_each_spec:
  assumes "for_each (saveProperty ops k i) ps s = Inr s'" "\<forall>p \<in> set ps. pr_EntityID p = i"
  shows "rows s' = rows s \<and> links s' = links s \<and> (\<forall>j key. props s' j key =
    (case sent_props ps key of Some p \<Rightarrow> if j = k then Some p else props s j key | None \<Rightarrow> props s j key))"
  using assms
proof (induction ps arbitrary: s)
  case (Cons p ps)
  then obtain s1 where s1: "saveProperty ops k i p s = Inr s1" "for_each (saveProperty ops k i) ps s1 = Inr s'"
    by (auto simp: try_bind_Inr_iff)
  from saveProperty_spec [OF s1(1)] Cons.IH [OF s1(2)] Cons.prems(2) show ?case
    by (simp add: sent_props_Cons del: split_paired_All split: option.split)
qed simp

lemma read_keys:
  assumes "so_props_where ops k i b s = Inr ps"
  shows "key \<in> prop_key ` set ps \<longleftrightarrow> fst key = i \<and> snd (snd key) = b \<and> props s k key \<noteq> None"
proof
  assume "key \<in> prop_key ` set ps"
  then show "fst key = i \<and> snd (snd key) = b \<and> props s k key \<noteq> None"
    using read_props_where [OF assms] by (auto simp: prop_key_def)
next
  assume key: "fst key = i \<and> snd (snd key) = b \<and> props s k key \<noteq> None"
  then obtain p where p: "props s k key = Some p" by auto
  with prop_row_key have "prop_key p = key" by simp
  with key p read_props_where [OF assms] show "key \<in> prop_key ` set ps" by (force simp: prop_key_def)
qed

text \<open>Deleting what is missing among the rows of an entity with a flag.\<close>

lemma delete_where_spec:
  assumes "so_props_where ops k i b s = Inr ex" "deleteMissing ops k properties ex s = Inr s'"
  shows "rows s' = rows s \<and> links s' = links s \<and> (\<forall>j key. props s' j key =
    (if j = k \<and> fst key = i \<and> snd (snd key) = b \<and> key \<notin> prop_key ` set properties then None else props s j key))"
  using deleteMissing_spec [OF assms(2)] read_keys [OF assms(1)] by auto

lemma deleteMissingProperties_spec:
  assumes "deleteMissingProperties ops k i properties s = Inr s'"
  shows "rows s' = rows s \<and> links s' = links s \<and> (\<forall>j key. props s' j key =
    (if j = k \<and> fst key = i \<and> key \<notin> prop_key ` set properties then None else props s j key))"
proof -
  obtain e1 s1 e2 where
    1: "so_props_where ops k i False s = Inr e1" "deleteMissing ops k properties e1 s = Inr s1"
    and 2: "so_props_where ops k i True s1 = Inr e2" "deleteMissing ops k properties e2 s1 = Inr s'"
    using assms by (auto simp: deleteMissingProperties_def try_bind_Inr_iff)
  from delete_where_spec [OF 1] delete_where_spec [OF 2] show ?thesis by (simp del: split_paired_All)
qed

lemma handleProperties_spec:
  assumes "handleProperties ops cfg i ps hasCustom s = Inr s'" "\<forall>p \<in> set ps. pr_EntityID p = i"
  shows "rows s' = rows s \<and> links s' = links s \<and> (\<forall>j key. props s' j key =
    (if j = rc_Table cfg then saved_props cfg hasCustom i ps (props s j) key else props s j key))"
proof -
  let ?k = "rc_Table cfg"
  obtain s1 where s1: "(if rc_DeleteMissingProperties cfg then deleteMissingProperties ops ?k i ps s
      else if hasCustom then try_bind (wrap ''error getting existing custom properties: '' (so_props_where ops ?k i True s))
            (\<lambda>existing. deleteMissing ops ?k ps existing s)
      else Inr s) = Inr s1"
    and s': "for_each (saveProperty ops ?k i) ps s1 = Inr s'"
    using assms(1) by (auto simp: handleProperties_def try_bind_Inr_iff)
  have del: "rows s1 = rows s \<and> links s1 = links s \<and> (\<forall>j key. props s1 j key =
    (if j = ?k \<and> fst key = i \<and> (rc_DeleteMissingProperties cfg \<or> hasCustom \<and> snd (snd key))
        \<and> key \<notin> prop_key ` set ps
     then None else props s j key))"
  proof (cases "rc_DeleteMissingProperties cfg")
    case True
    with s1 deleteMissingProperties_spec [of ?k i ps s s1] show ?thesis by simp
  next
    case False
    show ?thesis
    proof (cases hasCustom)
      case True
      with False s1 obtain ex where ex: "so_props_where ops ?k i True s = Inr ex" "deleteMissing ops ?k ps ex s = Inr s1"
        by (auto simp: try_bind_Inr_iff)
      from delete_where_spec [OF ex] True False show ?thesis by simp
    qed (use False s1 in simp)
  qed
  show ?thesis
    using save_each_spec [OF s' assms(2)] del
    by (auto simp: saved_props_def sent_props_None [symmetric] simp del: split_paired_All split: option.split)
qed

subsection \<open>Saving an entity\<close>

lemma handleParentRelationship_spec:
  assumes "handleParentRelationship ops e parent s = Inr s'"
  shows "rows s' = rows s \<and> props s' = props s
    \<and> links s' = (links s)(table_of e := insert (parent, getEntityID e) (links s (table_of e)))"
proof (cases "so_link ops (table_of e) parent (getEntityID e) s")
  case (Inl err)
  with assms have "so_create_link ops (table_of e) parent (getEntityID e) s = Inr s'"
    by (auto simp: handleParentRelationship_def split: db_error.splits)
  with create_link show ?thesis by blast
next
  case (Inr u)
  with assms link_found have "s' = s" "(parent, getEntityID e) \<in> links s (table_of e)"
    by (auto simp: handleParentRelationship_def)
  then show ?thesis by (simp add: insert_absorb)
qed

text \<open>The row \<open>Save\<close> works with: what the entity maps to, with its times, and a fresh id if it is new.\<close>

lemma Save_row_spec:
  assumes "Save_row ops cfg new e s = Inr (row, s')" "new \<Longrightarrow> getEntityID e = 0" "table_of e = k"
  shows "row = setEntityID (getEntityID row) e \<and> (\<not> new \<longrightarrow> row = e) \<and> (new \<longrightarrow> rows s k (getEntityID row) = None
      \<and> (\<forall>m. props s k (getEntityID row, m) = None))
    \<and> rows s' = (rows s)(k := (rows s k)(getEntityID row :=
        if new then Some row else map_option (updates getNonUpdatableFields row) (rows s k (getEntityID row))))
    \<and> props s' = props s \<and> links s' = links s"
proof (cases new)
  case True
  with assms have "so_insert ops e s = Inr (row, s')" by (simp add: Save_row_def)
  from insert_row [OF this assms(2) [OF True]] True assms(3) show ?thesis by auto
next
  case False
  with assms have "so_update ops getNonUpdatableFields e s = Inr s'" "row = e"
    by (auto simp: Save_row_def try_bind_Inr_iff)
  moreover have "setEntityID (getEntityID e) e = e" by (cases e) simp_all
  ultimately show ?thesis using update_row False assms(3) by auto
qed

lemma stamp_fields [simp]:
  "table_of (stamp cfg now new e) = table_of e" "getEntityID (stamp cfg now new e) = getEntityID e"
  "getTypeID (stamp cfg now new e) = getTypeID e" "getName (stamp cfg now new e) = getName e"
  by (simp_all add: stamp_def Let_def)

lemma setEntityID_table: "row = setEntityID i e \<Longrightarrow> table_of row = table_of e"
  by simp

lemma Save_spec:
  assumes "Save ops cfg now e parent s = (Inr r, s')" "repo_mapping cfg"
  defines "k \<equiv> rc_Table cfg" and "new \<equiv> call_opt (rc_IsNewEntity cfg) e"
  obtains row ps where "r = rc_SchemaToEntity cfg row ps" "distinct ps"
    "set ps = {p. props s' k (prop_key p) = Some p \<and> pr_EntityID p = getEntityID row}"
    "row = setEntityID (getEntityID row) (stamp cfg now new (rc_EntityToSchema cfg e))"
    "\<not> new \<Longrightarrow> row = stamp cfg now new (rc_EntityToSchema cfg e)"
    "new \<Longrightarrow> rows s k (getEntityID row) = None \<and> (\<forall>m. props s k (getEntityID row, m) = None)"
    "rows s' = (rows s)(k := (rows s k)(getEntityID row :=
        if new then Some row else map_option (updates getNonUpdatableFields row) (rows s k (getEntityID row))))"
    "props s' = (props s)(k := saved_props cfg (call_opt (rc_HasCustomProperties cfg) e) (getEntityID row)
        (rc_EntityToProperties cfg e (getEntityID row)) (props s k))"
    "links s' = (links s)(k := (case parent of None \<Rightarrow> links s k | Some p \<Rightarrow> insert (p, getEntityID row) (links s k)))"
proof -
  let ?e = "stamp cfg now new (rc_EntityToSchema cfg e)"
  have table: "table_of ?e = k" and id0: "new \<Longrightarrow> getEntityID ?e = 0"
    using repo_mapping.schema_table [OF assms(2)] repo_mapping.new_without_id [OF assms(2), of e]
    by (simp_all add: k_def new_def)
  obtain row ps where body: "Save_body ops cfg now e parent s = Inr ((row, ps), s')" and r: "r = rc_SchemaToEntity cfg row ps"
    using assms(1) by (auto simp: Save_def Transaction_def split: sum.splits option.splits prod.splits)
  let ?ps = "rc_EntityToProperties cfg e (getEntityID row)"
  let ?has = "call_opt (rc_HasCustomProperties cfg) e"
  obtain s1 s2 where
    s1: "Save_row ops cfg new ?e s = Inr (row, s1)"
    and s2: "(case parent of None \<Rightarrow> Inr s1 | Some p \<Rightarrow> handleParentRelationship ops row p s1) = Inr s2"
    and s3: "handleProperties ops cfg (getEntityID row) ?ps ?has s2 = Inr s'"
    and final: "so_props ops k (getEntityID row) s' = Inr ps"
    using body by (auto simp: Save_body_def Let_def try_bind_Inr_iff new_def k_def)
  note row = Save_row_spec [OF s1 id0 table]
  have row_table: "table_of row = k" using row table setEntityID_table by blast
  have par: "rows s2 = rows s1 \<and> props s2 = props s1
      \<and> links s2 = (links s)(k := (case parent of None \<Rightarrow> links s k | Some p \<Rightarrow> insert (p, getEntityID row) (links s k)))"
    using s2 row row_table handleParentRelationship_spec [of row _ s1 s2] by (cases parent) auto
  have ids: "\<forall>p \<in> set ?ps. pr_EntityID p = getEntityID row"
    using repo_mapping.property_ids [OF assms(2)] by blast
  note hp = handleProperties_spec [OF s3 ids]
  have "props s' = (props s)(k := saved_props cfg ?has (getEntityID row) ?ps (props s k))"
    using hp par row by (intro ext) (auto simp: k_def)
  with hp par row read_props [OF final] r show thesis by (intro that [of row ps]) auto
qed

end

end
