(* ===== verification/Store_Tables.thy ===== *)
theory Store_Tables
  imports Store_Facts
begin

text \<open>
  A database in memory that keeps the laws of \<open>sql_store\<close>: the interface has an implementation, and the witnesses
  of the theorems about the repositories run on it.
\<close>

subsection \<open>A database in memory\<close>

text \<open>
  The tables as lists. A row and a property row are found by their key, the first of a key counts; ids are one more
  than any in use; \<open>(type_id, name)\<close> is unique. Built queries are answered by a parameter.
\<close>

record tables =
  tb_rows :: "schema_entity list"
  tb_props :: "(table_kind \<times> property_row) list"
  tb_links :: "(table_kind \<times> int \<times> int) list"

definition table_row :: "tables \<Rightarrow> row_view" where
  "table_row s k i = find (\<lambda>e. table_of e = k \<and> getEntityID e = i) (tb_rows s)"

definition table_prop :: "tables \<Rightarrow> prop_view" where
  "table_prop s k key = map_option snd (find (\<lambda>(k', p). k' = k \<and> prop_key p = key) (tb_props s))"

definition table_links :: "tables \<Rightarrow> link_view" where
  "table_links s k = {(c, i). (k, c, i) \<in> set (tb_links s)}"

definition fresh_id :: "tables \<Rightarrow> int" where
  "fresh_id s = foldr max (map getEntityID (tb_rows s) @ map (pr_EntityID \<circ> snd) (tb_props s)) 0 + 1"

definition table_read :: "table_kind \<Rightarrow> int \<Rightarrow> (bool \<Rightarrow> bool) \<Rightarrow> tables \<Rightarrow> property_row list" where
  "table_read k i P s = remdups (filter (\<lambda>p. table_prop s k (prop_key p) = Some p \<and> pr_EntityID p = i \<and> P (sp_IsCustom p))
     (map snd (tb_props s)))"

definition get_row :: "schema_entity option \<Rightarrow> db_error + schema_entity" where
  "get_row r = (case r of None \<Rightarrow> Inl RecordNotFound | Some e \<Rightarrow> Inr e)"

definition put_prop :: "table_kind \<Rightarrow> property_row \<Rightarrow> tables \<Rightarrow> tables" where
  "put_prop k p s = s\<lparr>tb_props := (k, p) # filter (\<lambda>(k', q). \<not> (k' = k \<and> prop_key q = prop_key p)) (tb_props s)\<rparr>"

definition table_ops :: "(table_kind \<Rightarrow> gorm_db \<Rightarrow> tables \<Rightarrow> db_error + schema_entity list) \<Rightarrow> tables store_ops" where
  "table_ops q = \<lparr>
     so_by_id = (\<lambda>k i t s. get_row (case table_row s k i of None \<Rightarrow> None | Some e \<Rightarrow> if getTypeID e = t then Some e else None)),
     so_by_any = (\<lambda>k i s. get_row (table_row s k i)),
     so_by_name = (\<lambda>k n t s. get_row (find (\<lambda>e. table_of e = k \<and> getName e = Some n \<and> getTypeID e = t) (tb_rows s))),
     so_find = q,
     so_insert = (\<lambda>e s. if \<exists>e' \<in> set (tb_rows s). table_of e' = table_of e \<and> getTypeID e' = getTypeID e \<and> getName e' = getName e
        then Inl (DuplicatedKey ''duplicate entry'')
        else (let e' = setEntityID (fresh_id s) e in Inr (e', s\<lparr>tb_rows := e' # tb_rows s\<rparr>))),
     so_update = (\<lambda>omit e s. Inr (s\<lparr>tb_rows := map (\<lambda>r. if table_of r = table_of e \<and> getEntityID r = getEntityID e
        then updates omit e r else r) (tb_rows s)\<rparr>)),
     so_props = (\<lambda>k i s. Inr (table_read k i (\<lambda>_. True) s)),
     so_props_where = (\<lambda>k i b s. Inr (table_read k i (\<lambda>x. x = b) s)),
     so_prop = (\<lambda>k i n b s. case table_prop s k (i, n, b) of None \<Rightarrow> Inl RecordNotFound | Some p \<Rightarrow> Inr p),
     so_create_prop = (\<lambda>k p s. Inr (put_prop k p s)),
     so_update_prop = (\<lambda>k p s. Inr (put_prop k p s)),
     so_delete_prop = (\<lambda>k p s. Inr (s\<lparr>tb_props := filter (\<lambda>(k', q). \<not> (k' = k \<and> prop_key q = prop_key p)) (tb_props s)\<rparr>)),
     so_link = (\<lambda>k c i s. if (k, c, i) \<in> set (tb_links s) then Inr () else Inl RecordNotFound),
     so_create_link = (\<lambda>k c i s. Inr (s\<lparr>tb_links := (k, c, i) # tb_links s\<rparr>)),
     so_commit = (\<lambda>s. None)\<rparr>"

lemma updates_key [simp]: "table_of (updates omit e r) = table_of r" "getEntityID (updates omit e r) = getEntityID r"
  by (cases e; cases r; simp)+

lemma fresh_id_row: "e \<in> set (tb_rows s) \<Longrightarrow> getEntityID e < fresh_id s"
  and fresh_id_prop: "kp \<in> set (tb_props s) \<Longrightarrow> pr_EntityID (snd kp) < fresh_id s"
proof -
  have le: "x \<in> set xs \<Longrightarrow> x \<le> foldr max xs (0::int)" for x xs
    by (induction xs) auto
  show "e \<in> set (tb_rows s) \<Longrightarrow> getEntityID e < fresh_id s"
    using le [of "getEntityID e"] by (simp add: fresh_id_def del: foldr_append)
  show "kp \<in> set (tb_props s) \<Longrightarrow> pr_EntityID (snd kp) < fresh_id s"
    using le [of "pr_EntityID (snd kp)"] by (simp add: fresh_id_def del: foldr_append)
qed

lemma find_SomeD: "find P xs = Some x \<Longrightarrow> x \<in> set xs \<and> P x"
  by (induction xs) (auto split: if_splits)

lemma find_map_same:
  "(\<And>x. P (f x) = P x) \<Longrightarrow> find P (map f xs) = map_option f (find P xs)"
  by (induction xs) auto

lemma find_filter_other: "(\<And>x. P x \<Longrightarrow> Q x) \<Longrightarrow> find P (filter Q xs) = find P xs"
  by (induction xs) auto

lemma find_filter_none: "(\<And>x. P x \<Longrightarrow> \<not> Q x) \<Longrightarrow> find P (filter Q xs) = None"
  by (induction xs) auto

lemma table_prop_filter:
  "map_option snd (find (\<lambda>(k', q). k' = j \<and> prop_key q = key)
      (filter (\<lambda>(k', q). \<not> (k' = k \<and> prop_key q = prop_key p)) (tb_props s)))
    = (if j = k \<and> key = prop_key p then None else table_prop s j key)"
  by (cases "j = k \<and> key = prop_key p")
    (subst find_filter_none find_filter_other; auto simp: table_prop_def)+

lemma table_prop_put: "table_prop (put_prop k p s) j key = (if j = k \<and> key = prop_key p then Some p else table_prop s j key)"
  using table_prop_filter [of j key k p s] by (auto simp: put_prop_def table_prop_def)

lemma table_prop_Some: "table_prop s k key = Some p \<Longrightarrow> (k, p) \<in> set (tb_props s) \<and> prop_key p = key"
  by (auto simp: table_prop_def dest!: find_SomeD)

lemma table_prop_mem: "table_prop s k key = Some p \<Longrightarrow> p \<in> snd ` set (tb_props s)"
  by (rule image_eqI [where x = "(k, p)"]) (simp_all add: table_prop_Some)

lemma table_row_Some: "table_row s k i = Some e \<Longrightarrow> e \<in> set (tb_rows s) \<and> table_of e = k \<and> getEntityID e = i"
  by (auto simp: table_row_def dest!: find_SomeD)

lemma table_read_set:
  "set (table_read k i P s) = {p. table_prop s k (prop_key p) = Some p \<and> pr_EntityID p = i \<and> P (sp_IsCustom p)}"
  by (auto simp: table_read_def intro: table_prop_mem)

interpretation tables: sql_store "table_ops q" table_row table_prop table_links
proof unfold_locales
  fix s k i e assume "table_row s k i = Some e"
  then show "getEntityID e = i \<and> table_of e = k" using table_row_Some by blast
next
  fix s k key p assume "table_prop s k key = Some p"
  then show "prop_key p = key" using table_prop_Some by blast
next
  fix k i t s e assume "so_by_id (table_ops q) k i t s = Inr e"
  then show "table_row s k i = Some e \<and> getTypeID e = t"
    by (auto simp: table_ops_def get_row_def split: option.splits if_splits)
next
  fix k i t s assume "so_by_id (table_ops q) k i t s = Inl RecordNotFound"
  then show "\<nexists>e. table_row s k i = Some e \<and> getTypeID e = t"
    by (auto simp: table_ops_def get_row_def split: option.splits if_splits)
next
  fix k i s e assume "so_by_any (table_ops q) k i s = Inr e"
  then show "table_row s k i = Some e" by (auto simp: table_ops_def get_row_def split: option.splits)
next
  fix e s e' s' assume ins: "so_insert (table_ops q) e s = Inr (e', s')" and id0: "getEntityID e = 0"
  then have e': "e' = setEntityID (fresh_id s) e" and s': "s' = s\<lparr>tb_rows := e' # tb_rows s\<rparr>"
    by (auto simp: table_ops_def Let_def split: if_splits)
  have row: "table_row s (table_of e) (fresh_id s) = None"
    using fresh_id_row [of _ s] by (fastforce simp: table_row_def find_None_iff)
  have props: "table_prop s (table_of e) (fresh_id s, m) = None" for m
    using fresh_id_prop [of _ s] by (fastforce simp: table_prop_def find_None_iff prop_key_def)
  have "table_row s' = (table_row s)(table_of e := (table_row s (table_of e))(getEntityID e' \<mapsto> e'))"
    using e' s' by (auto simp: table_row_def fun_eq_iff)
  with e' s' row props show "e' = setEntityID (getEntityID e') e \<and> table_row s (table_of e) (getEntityID e') = None
      \<and> (\<forall>m. table_prop s (table_of e) (getEntityID e', m) = None)
      \<and> table_row s' = (table_row s)(table_of e := (table_row s (table_of e))(getEntityID e' \<mapsto> e'))
      \<and> table_prop s' = table_prop s \<and> table_links s' = table_links s"
    by (simp add: table_prop_def table_links_def fun_eq_iff)
next
  fix omit e s s' assume "so_update (table_ops q) omit e s = Inr s'"
  then have s': "s' = s\<lparr>tb_rows := map (\<lambda>r. if table_of r = table_of e \<and> getEntityID r = getEntityID e
        then updates omit e r else r) (tb_rows s)\<rparr>" by (simp add: table_ops_def)
  have "table_row s' j i = (if j = table_of e \<and> i = getEntityID e
      then map_option (updates omit e) (table_row s j i) else table_row s j i)" for j i
    unfolding s' table_row_def by (simp add: find_map_same) (cases "find (\<lambda>x. table_of x = j \<and> getEntityID x = i) (tb_rows s)"; auto dest: find_SomeD)
  with s' show "table_row s' = (table_row s)(table_of e := (table_row s (table_of e))
            (getEntityID e := map_option (updates omit e) (table_row s (table_of e) (getEntityID e))))
          \<and> table_prop s' = table_prop s \<and> table_links s' = table_links s"
    by (auto simp: table_prop_def table_links_def fun_eq_iff)
next
  fix k i s ps assume "so_props (table_ops q) k i s = Inr ps"
  then have "ps = table_read k i (\<lambda>_. True) s" by (simp add: table_ops_def)
  then show "distinct ps \<and> set ps = {p. table_prop s k (prop_key p) = Some p \<and> pr_EntityID p = i}"
    by (simp add: table_read_set) (simp add: table_read_def)
next
  fix k i b s ps assume "so_props_where (table_ops q) k i b s = Inr ps"
  then show "set ps = {p. table_prop s k (prop_key p) = Some p \<and> pr_EntityID p = i \<and> sp_IsCustom p = b}"
    by (auto simp: table_ops_def table_read_set)
next
  fix k i n b s p assume "so_prop (table_ops q) k i n b s = Inr p"
  then show "table_prop s k (i, n, b) = Some p" by (auto simp: table_ops_def split: option.splits)
next
  fix k i n b s assume "so_prop (table_ops q) k i n b s = Inl RecordNotFound"
  then show "table_prop s k (i, n, b) = None" by (auto simp: table_ops_def split: option.splits)
next
  fix k p s s' assume "so_create_prop (table_ops q) k p s = Inr s'"
  then have "s' = put_prop k p s" by (simp add: table_ops_def)
  then show "table_prop s' = (table_prop s)(k := (table_prop s k)(prop_key p \<mapsto> p)) \<and> table_row s' = table_row s
      \<and> table_links s' = table_links s"
    by (auto simp: fun_eq_iff table_prop_put) (simp_all add: put_prop_def table_row_def table_links_def)
next
  fix k p s s' assume "so_update_prop (table_ops q) k p s = Inr s'"
  then have "s' = put_prop k p s" by (simp add: table_ops_def)
  then show "table_prop s' = (table_prop s)(k := (table_prop s k)(prop_key p \<mapsto> p)) \<and> table_row s' = table_row s
      \<and> table_links s' = table_links s"
    by (auto simp: fun_eq_iff table_prop_put) (simp_all add: put_prop_def table_row_def table_links_def)
next
  fix k p s s' assume "so_delete_prop (table_ops q) k p s = Inr s'"
  then have s': "s' = s\<lparr>tb_props := filter (\<lambda>(k', q). \<not> (k' = k \<and> prop_key q = prop_key p)) (tb_props s)\<rparr>"
    by (simp add: table_ops_def)
  have "table_prop s' j key = (if j = k \<and> key = prop_key p then None else table_prop s j key)" for j key
    using table_prop_filter [of j key k p s] by (simp add: s' table_prop_def)
  with s' show "table_prop s' = (table_prop s)(k := (table_prop s k)(prop_key p := None)) \<and> table_row s' = table_row s
      \<and> table_links s' = table_links s"
    by (auto simp: fun_eq_iff table_row_def table_links_def)
next
  fix k c i s u assume "so_link (table_ops q) k c i s = Inr u"
  then show "(c, i) \<in> table_links s k" by (auto simp: table_ops_def table_links_def split: if_splits)
next
  fix k c i s s' assume "so_create_link (table_ops q) k c i s = Inr s'"
  then show "table_links s' = (table_links s)(k := insert (c, i) (table_links s k)) \<and> table_row s' = table_row s
      \<and> table_prop s' = table_prop s"
    by (auto simp: table_ops_def table_links_def table_row_def table_prop_def fun_eq_iff)
qed

end
