(* ===== verification/Converter_Entities.thy ===== *)
theory Converter_Entities
  imports Converter_Values Filter_Query
begin

text \<open>
  The conversion of the context entities (registered models, model versions, experiments and their runs,
  serving environments, inference services, serve models) between the REST form and the stored one
  (\<open>internal/converter/openapi_embedmd_converter_util.go\<close>, \<open>embdemd_openapi_converter_util.go\<close>), put
  together per entity as the generated converters \<open>internal/converter/generated\<close> do.

  Sources are never nil; a nil slice is \<open>None\<close>, a nil map the empty list. The two identifiers a call of
  \<open>uuid.New\<close> may produce are arguments.
\<close>

named_theorems converter_defs
named_theorems reader_defs

subsection \<open>Stored entities\<close>

record attributes =
  at_Name :: "string option"
  at_URI :: "string option"
  at_State :: "string option"
  at_ExternalID :: "string option"
  at_CreateTime :: "int option"
  at_LastUpdateTime :: "int option"

record base_entity =
  be_ID :: "int option"
  be_TypeID :: int
  be_Attributes :: attributes
  be_Properties :: "stored_property list"
  be_Custom :: "stored_property list"

text \<open>\<open>OpenAPIModelWrapper\<close>.\<close>

record 'm model_wrapper =
  w_TypeId :: int
  w_ParentResourceId :: "string option"
  w_Model :: 'm

text \<open>The fields every REST entity has.\<close>

record api_base =
  api_Id :: "string option"
  api_ExternalId :: "string option"
  api_CustomProperties :: "(string \<times> metadata_value) list"
  api_Description :: "string option"
  api_CreateTime :: "string option"
  api_LastUpdateTime :: "string option"

subsection \<open>Writing properties\<close>

text \<open>
  A properties function appends one property per field that is set and stops at the first error; \<open>collect\<close>
  puts the pieces together.
\<close>

fun collect :: "('e + 'a list) list \<Rightarrow> 'e + 'a list" where
  "collect [] = Inr []"
| "collect (r # rs) = try_bind r (\<lambda>ps. try_bind (collect rs) (\<lambda>qs. Inr (ps @ qs)))"

definition opt_string :: "string \<Rightarrow> string option \<Rightarrow> conv_error + stored_property list" where
  "opt_string n v = Inr (case v of None \<Rightarrow> [] | Some s \<Rightarrow> [NewStringProperty n s False])"

definition opt_slice :: "struct_codec \<Rightarrow> string \<Rightarrow> string list option \<Rightarrow> conv_error + stored_property list" where
  "opt_slice codec n v =
     (case v of
        None \<Rightarrow> Inr []
      | Some xs \<Rightarrow> try_bind (encodeStruct codec (convertToStruct xs n))
                     (\<lambda>enc. Inr [NewStringProperty n enc False]))"

definition id_property :: "string \<Rightarrow> string \<Rightarrow> conv_error + stored_property list" where
  "id_property n s = try_bind (StringToInt32 s) (\<lambda>i. Inr [NewIntProperty n i False])"

definition required_id :: "string \<Rightarrow> string \<Rightarrow> conv_error + stored_property list" where
  "required_id n s = (if s \<noteq> [] then id_property n s else Inl (MissingField n))"

definition opt_id :: "string \<Rightarrow> string option \<Rightarrow> conv_error + stored_property list" where
  "opt_id n v = (case v of None \<Rightarrow> Inr [] | Some s \<Rightarrow> id_property n s)"

text \<open>The attributes all entities have: the name, the external id and the two times, which must be \<open>int64\<close>s.\<close>

definition base_attributes ::
  "string option \<Rightarrow> string option \<Rightarrow> string option \<Rightarrow> 'a api_base_scheme \<Rightarrow> conv_error + attributes" where
  "base_attributes name uri state m =
     (case StringToInt64 (api_CreateTime m) of
        Inl _ \<Rightarrow> Inl (BadRequestNumeric (str_or_empty (api_CreateTime m)) ''createTimeSinceEpoch'')
      | Inr created \<Rightarrow>
          (case StringToInt64 (api_LastUpdateTime m) of
             Inl _ \<Rightarrow> Inl (BadRequestNumeric (str_or_empty (api_LastUpdateTime m)) ''lastUpdateTimeSinceEpoch'')
           | Inr updated \<Rightarrow>
               Inr \<lparr>at_Name = name, at_URI = uri, at_State = state, at_ExternalID = api_ExternalId m,
                    at_CreateTime = created, at_LastUpdateTime = updated\<rparr>))"

definition opt_all :: "('a \<Rightarrow> bool) \<Rightarrow> 'a option \<Rightarrow> bool" where
  "opt_all P v = (case v of None \<Rightarrow> True | Some x \<Rightarrow> P x)"

lemma opt_all_simps [simp]: "opt_all P None" "opt_all P (Some x) = P x"
  by (simp_all add: opt_all_def)

text \<open>
  The states of artifacts and executions are checked by the way from their name to their number and back
  (\<open>internal/platform/db/constants/states.go\<close>). A Go map gives 0 for a missing key.
\<close>

definition ArtifactStateNames :: "(int \<times> string) list" where
  "ArtifactStateNames = [(0, ''UNKNOWN''), (1, ''PENDING''), (2, ''LIVE''), (3, ''MARKED_FOR_DELETION''),
     (4, ''DELETED''), (5, ''ABANDONED''), (6, ''REFERENCE'')]"

definition ExecutionStateNames :: "(int \<times> string) list" where
  "ExecutionStateNames = [(0, ''UNKNOWN''), (1, ''NEW''), (2, ''RUNNING''), (3, ''COMPLETE''),
     (4, ''FAILED''), (5, ''CACHED''), (6, ''CANCELED'')]"

definition opt_state ::
  "(string \<times> int) list \<Rightarrow> (int \<times> string) list \<Rightarrow> string option \<Rightarrow> conv_error + string option" where
  "opt_state values names v =
     (case v of
        None \<Rightarrow> Inr None
      | Some s \<Rightarrow> (case map_of names (case map_of values s of None \<Rightarrow> 0 | Some n \<Rightarrow> n) of
                     None \<Rightarrow> Inl (InvalidState s)
                   | Some name \<Rightarrow> Inr (Some name)))"

lemma opt_state_known:
  "opt_all (\<lambda>s. s \<in> set (map fst ArtifactStateMapping)) v \<Longrightarrow>
     opt_state ArtifactStateMapping ArtifactStateNames v = Inr v"
  "opt_all (\<lambda>s. s \<in> set (map fst ExecutionStateMapping)) v \<Longrightarrow>
     opt_state ExecutionStateMapping ExecutionStateNames v = Inr v"
  unfolding opt_state_def ArtifactStateMapping_def ArtifactStateNames_def
    ExecutionStateMapping_def ExecutionStateNames_def
  by (cases v, simp, fastforce)+

lemma opt_state_unknown:
  "s \<notin> set (map fst ArtifactStateMapping) \<Longrightarrow>
     opt_state ArtifactStateMapping ArtifactStateNames (Some s) = Inr (Some ''UNKNOWN'')"
  "s \<notin> set (map fst ExecutionStateMapping) \<Longrightarrow>
     opt_state ExecutionStateMapping ExecutionStateNames (Some s) = Inr (Some ''UNKNOWN'')"
  by (simp_all add: opt_state_def ArtifactStateMapping_def ArtifactStateNames_def
      ExecutionStateMapping_def ExecutionStateNames_def)

text \<open>The generated \<open>Convert\<close> methods differ only in the functions for attributes and properties.\<close>

definition convert_entity ::
  "struct_codec \<Rightarrow> int \<Rightarrow> 'a api_base_scheme \<Rightarrow> conv_error + attributes
     \<Rightarrow> conv_error + stored_property list \<Rightarrow> conv_error + base_entity" where
  "convert_entity codec typeId m attrs props =
     try_bind (case api_Id m of None \<Rightarrow> Inr None | Some s \<Rightarrow> map_sum id Some (StringToInt32 s)) (\<lambda>i.
     try_bind attrs (\<lambda>a.
     try_bind props (\<lambda>ps.
     try_bind (MapOpenAPICustomPropertiesEmbedMD codec (Some (api_CustomProperties m))) (\<lambda>cs.
       Inr \<lparr>be_ID = i, be_TypeID = typeId, be_Attributes = a, be_Properties = ps, be_Custom = cs\<rparr>))))"

subsection \<open>Reading properties\<close>

definition findPropertyByName :: "stored_property list \<Rightarrow> string \<Rightarrow> stored_property option" where
  "findPropertyByName source n = List.find (\<lambda>p. sp_Name p = n) source"

definition string_prop :: "string \<Rightarrow> stored_property list \<Rightarrow> string option" where
  "string_prop n ps = Option.bind (findPropertyByName ps n) sp_String"

definition int_prop :: "string \<Rightarrow> stored_property list \<Rightarrow> int option" where
  "int_prop n ps = Option.bind (findPropertyByName ps n) sp_Int"

text \<open>
  The enumerations: a missing property is no state, one without a string or with a value outside the
  enumeration an error.
\<close>

definition enum_from :: "string list \<Rightarrow> string \<Rightarrow> conv_error + string option" where
  "enum_from allowed v = (if v \<in> set allowed then Inr (Some v) else Inl (InvalidEnum v))"

definition enum_prop :: "string list \<Rightarrow> string \<Rightarrow> stored_property list \<Rightarrow> conv_error + string option" where
  "enum_prop allowed n ps =
     (case findPropertyByName ps n of
        None \<Rightarrow> Inr None
      | Some p \<Rightarrow> (case sp_String p of None \<Rightarrow> Inl (MissingField n) | Some s \<Rightarrow> enum_from allowed s))"

text \<open>A list of strings: a value that does not decode reads as the empty list.\<close>

definition slice_prop ::
  "struct_codec \<Rightarrow> string \<Rightarrow> stored_property list \<Rightarrow> conv_error + string list option" where
  "slice_prop codec n ps =
     (case findPropertyByName ps n of
        None \<Rightarrow> Inr None
      | Some p \<Rightarrow>
          (case sp_String p of
             None \<Rightarrow> Inr (Some [])
           | Some s \<Rightarrow>
               (case decodeStruct codec s of
                  Inl _ \<Rightarrow> Inr (Some [])
                | Inr st \<Rightarrow> (case convertStructToStringSlice st n of
                               None \<Rightarrow> Inl (Panic n) | Some xs \<Rightarrow> Inr (Some xs)))))"

definition MapEmbedMDPropertyLanguage :: "struct_codec \<Rightarrow> stored_property list \<Rightarrow> conv_error + string list option" where
  [reader_defs]: "MapEmbedMDPropertyLanguage codec = slice_prop codec ''language''"

definition MapEmbedMDPropertyTasks :: "struct_codec \<Rightarrow> stored_property list \<Rightarrow> conv_error + string list option" where
  [reader_defs]: "MapEmbedMDPropertyTasks codec = slice_prop codec ''tasks''"

definition MapEmbedMDDescription :: "stored_property list \<Rightarrow> string option" where
  [reader_defs]: "MapEmbedMDDescription = string_prop ''description''"

definition MapEmbedMDOwner :: "stored_property list \<Rightarrow> string option" where
  [reader_defs]: "MapEmbedMDOwner = string_prop ''owner''"

definition MapEmbedMDAuthor :: "stored_property list \<Rightarrow> string option" where
  [reader_defs]: "MapEmbedMDAuthor = string_prop ''author''"

definition MapEmbedMDPropertyLibraryName :: "stored_property list \<Rightarrow> string option" where
  [reader_defs]: "MapEmbedMDPropertyLibraryName = string_prop ''library_name''"

definition MapEmbedMDPropertyLicenseLink :: "stored_property list \<Rightarrow> string option" where
  [reader_defs]: "MapEmbedMDPropertyLicenseLink = string_prop ''license_link''"

definition MapEmbedMDPropertyLicense :: "stored_property list \<Rightarrow> string option" where
  [reader_defs]: "MapEmbedMDPropertyLicense = string_prop ''license''"

definition MapEmbedMDPropertyLogo :: "stored_property list \<Rightarrow> string option" where
  [reader_defs]: "MapEmbedMDPropertyLogo = string_prop ''logo''"

definition MapEmbedMDPropertyMaturity :: "stored_property list \<Rightarrow> string option" where
  [reader_defs]: "MapEmbedMDPropertyMaturity = string_prop ''maturity''"

definition MapEmbedMDPropertyProvider :: "stored_property list \<Rightarrow> string option" where
  [reader_defs]: "MapEmbedMDPropertyProvider = string_prop ''provider''"

definition MapEmbedMDPropertyReadme :: "stored_property list \<Rightarrow> string option" where
  [reader_defs]: "MapEmbedMDPropertyReadme = string_prop ''readme''"

definition MapEmbedMDPropertyRuntime :: "stored_property list \<Rightarrow> string option" where
  [reader_defs]: "MapEmbedMDPropertyRuntime = string_prop ''runtime''"

definition MapEmbedMDPropertyStartTimeSinceEpochExperimentRun :: "stored_property list \<Rightarrow> string option" where
  [reader_defs]: "MapEmbedMDPropertyStartTimeSinceEpochExperimentRun = string_prop ''start_time_since_epoch''"

definition MapEmbedMDPropertyEndTimeSinceEpochExperimentRun :: "stored_property list \<Rightarrow> string option" where
  [reader_defs]: "MapEmbedMDPropertyEndTimeSinceEpochExperimentRun = string_prop ''end_time_since_epoch''"

definition MapEmbedMDStateRegisteredModel :: "stored_property list \<Rightarrow> conv_error + string option" where
  [reader_defs]: "MapEmbedMDStateRegisteredModel = enum_prop [''LIVE'', ''ARCHIVED''] ''state''"

definition MapEmbedMDStateModelVersion :: "stored_property list \<Rightarrow> conv_error + string option" where
  [reader_defs]: "MapEmbedMDStateModelVersion = enum_prop [''LIVE'', ''ARCHIVED''] ''state''"

definition MapEmbedMDStateExperiment :: "stored_property list \<Rightarrow> conv_error + string option" where
  [reader_defs]: "MapEmbedMDStateExperiment = enum_prop [''LIVE'', ''ARCHIVED''] ''state''"

definition MapEmbedMDStateExperimentRun :: "stored_property list \<Rightarrow> conv_error + string option" where
  [reader_defs]: "MapEmbedMDStateExperimentRun = enum_prop [''LIVE'', ''ARCHIVED''] ''state''"

definition MapEmbedMDPropertyStatusExperimentRun :: "stored_property list \<Rightarrow> conv_error + string option" where
  [reader_defs]: "MapEmbedMDPropertyStatusExperimentRun = enum_prop [''RUNNING'', ''SCHEDULED'', ''FINISHED'', ''FAILED'', ''KILLED''] ''status''"

definition MapEmbedMDPropertyDesiredStateInferenceService :: "stored_property list \<Rightarrow> conv_error + string option" where
  [reader_defs]: "MapEmbedMDPropertyDesiredStateInferenceService = enum_prop [''DEPLOYED'', ''UNDEPLOYED''] ''desired_state''"

definition MapEmbedMDPropertyModelVersionId :: "stored_property list \<Rightarrow> string option" where
  [reader_defs]: "MapEmbedMDPropertyModelVersionId ps = Int32ToString (int_prop ''model_version_id'' ps)"

definition MapEmbedMDPropertyRegisteredModelId :: "stored_property list \<Rightarrow> string" where
  [reader_defs]: "MapEmbedMDPropertyRegisteredModelId ps =
     str_or_empty (Int32ToString (int_prop ''registered_model_id'' ps))"

definition MapEmbedMDPropertyServingEnvironmentId :: "stored_property list \<Rightarrow> string" where
  [reader_defs]: "MapEmbedMDPropertyServingEnvironmentId ps =
     str_or_empty (Int32ToString (int_prop ''serving_environment_id'' ps))"

definition MapEmbedMDPropertyModelVersionIdServeModel :: "stored_property list \<Rightarrow> conv_error + string" where
  [reader_defs]: "MapEmbedMDPropertyModelVersionIdServeModel ps =
     (case MapEmbedMDPropertyModelVersionId ps of
        None \<Rightarrow> Inl (MissingField ''model_version_id'') | Some s \<Rightarrow> Inr s)"

definition MapEmbedMDPropertyExperimentIdExperimentRun :: "stored_property list \<Rightarrow> conv_error + string" where
  [reader_defs]: "MapEmbedMDPropertyExperimentIdExperimentRun ps =
     (case Int32ToString (int_prop ''experiment_id'' ps) of
        None \<Rightarrow> Inl (MissingField ''experiment_id'') | Some s \<Rightarrow> Inr s)"

definition MapEmbedMDExperimentId :: "stored_property list \<Rightarrow> string option" where
  "MapEmbedMDExperimentId ps = Int32ToString (int_prop ''experiment_id'' ps)"

definition MapEmbedMDExperimentRunId :: "stored_property list \<Rightarrow> string option" where
  "MapEmbedMDExperimentRunId ps = Int32ToString (int_prop ''experiment_run_id'' ps)"

subsection \<open>What is read back from the rows\<close>

text \<open>
  The properties of an entity come back from the database in no particular order: \<open>same_rows\<close> relates an
  entity to any arrangement of its rows. \<open>reads_back\<close> says that reading any of them gives the REST entity
  \<open>m\<close>, with its custom properties as the same map.
\<close>

definition same_rows :: "base_entity \<Rightarrow> base_entity \<Rightarrow> bool" where
  "same_rows e e' = (be_ID e' = be_ID e \<and> be_TypeID e' = be_TypeID e \<and> be_Attributes e' = be_Attributes e
     \<and> mset (be_Properties e') = mset (be_Properties e) \<and> mset (be_Custom e') = mset (be_Custom e))"

definition reads_back :: "(base_entity \<Rightarrow> conv_error + 'a api_base_scheme) \<Rightarrow> base_entity \<Rightarrow> 'a api_base_scheme \<Rightarrow> bool" where
  "reads_back rd e m = (\<forall>e'. same_rows e e' \<longrightarrow>
     (\<exists>r. rd e' = Inr (m\<lparr>api_CustomProperties := r\<rparr>) \<and> map_of r = map_of (api_CustomProperties m)))"

text \<open>Numerals in the form the server prints them.\<close>

definition canonical_int :: "nat \<Rightarrow> string \<Rightarrow> bool" where
  "canonical_int bits s = (case parse_int bits s of Inl _ \<Rightarrow> False | Inr i \<Rightarrow> s = itoa i)"

definition base_ok :: "'a api_base_scheme \<Rightarrow> bool" where
  "base_ok m = (opt_all (canonical_int 32) (api_Id m)
     \<and> opt_all (canonical_int 64) (api_CreateTime m) \<and> opt_all (canonical_int 64) (api_LastUpdateTime m)
     \<and> distinct (map fst (api_CustomProperties m))
     \<and> (\<forall>(k, v) \<in> set (api_CustomProperties m). scalar_value v \<and> \<not> reserved_key k))"

text \<open>A list of strings the protocol buffer library encodes and decodes (it rejects invalid UTF-8).\<close>

definition slice_ok :: "struct_codec \<Rightarrow> string \<Rightarrow> string list \<Rightarrow> bool" where
  "slice_ok codec n xs =
     (case proto_marshal codec (convertToStruct xs n) of
        None \<Rightarrow> False | Some b \<Rightarrow> proto_unmarshal codec b = Some (convertToStruct xs n))"

text \<open>The properties as named parts, each set or not.\<close>

definition part_rows :: "(string \<times> stored_property option) list \<Rightarrow> stored_property list" where
  "part_rows parts = concat (map (\<lambda>(n, v). case v of None \<Rightarrow> [] | Some p \<Rightarrow> [p]) parts)"

definition parts_ok :: "(string \<times> stored_property option) list \<Rightarrow> bool" where
  "parts_ok parts = (distinct (map fst parts)
     \<and> list_all (\<lambda>nv. opt_all (\<lambda>p. sp_Name p = fst nv) (snd nv)) parts)"

definition rows_of :: "(string \<times> stored_property option) list \<Rightarrow> stored_property list \<Rightarrow> bool" where
  "rows_of parts ps = (\<forall>n. findPropertyByName ps n = Option.bind (map_of parts n) id)"

definition string_part :: "string \<Rightarrow> string option \<Rightarrow> string \<times> stored_property option" where
  "string_part n v = (n, map_option (\<lambda>s. NewStringProperty n s False) v)"

definition int_part :: "string \<Rightarrow> int option \<Rightarrow> string \<times> stored_property option" where
  "int_part n v = (n, map_option (\<lambda>i. NewIntProperty n i False) v)"

definition slice_part :: "struct_codec \<Rightarrow> string \<Rightarrow> string list option \<Rightarrow> string \<times> stored_property option" where
  "slice_part codec n v = (n, map_option (\<lambda>xs. NewStringProperty n (mlmdStructPrefix
     @ b64_encode (the (proto_marshal codec (convertToStruct xs n)))) False) v)"

lemma find_as_map_of: "findPropertyByName ps n = map_of (map (\<lambda>p. (sp_Name p, p)) ps) n"
  by (induction ps) (simp_all add: findPropertyByName_def)

lemma part_rows_Cons: "part_rows ((n, v) # parts) = (case v of None \<Rightarrow> [] | Some p \<Rightarrow> [p]) @ part_rows parts"
  by (simp add: part_rows_def)

lemma part_rows_names:
  "parts_ok parts \<Longrightarrow> sp_Name ` set (part_rows parts) \<subseteq> fst ` set parts
     \<and> distinct (map sp_Name (part_rows parts))"
proof (induction parts)
  case Nil
  then show ?case by (simp add: part_rows_def)
next
  case (Cons nv parts)
  then show ?case
    by (cases nv; cases "snd nv") (auto simp: parts_ok_def part_rows_Cons)
qed

lemma rows_of_part_rows:
  assumes "parts_ok parts" "mset ps = mset (part_rows parts)"
  shows "rows_of parts ps"
proof -
  have fwd: "findPropertyByName (part_rows parts) n = Option.bind (map_of parts n) id" for n
    using assms(1)
  proof (induction parts)
    case Nil
    then show ?case by (simp add: part_rows_def findPropertyByName_def)
  next
    case (Cons nv parts)
    obtain m v where nv: "nv = (m, v)" by force
    have ok: "parts_ok parts" "m \<notin> fst ` set parts" "opt_all (\<lambda>p. sp_Name p = m) v"
      using Cons.prems by (simp_all add: nv parts_ok_def)
    have "map_of parts m = None" using ok(2) by (simp add: map_of_eq_None_iff)
    with Cons.IH [OF ok(1)] ok(3) show ?case
      by (cases v) (auto simp: nv part_rows_Cons findPropertyByName_def)
  qed
  have "distinct (map sp_Name (part_rows parts))" using part_rows_names [OF assms(1)] by simp
  then have "map_of (map (\<lambda>p. (sp_Name p, p)) ps) = map_of (map (\<lambda>p. (sp_Name p, p)) (part_rows parts))"
    using assms(2) by (intro map_of_perm) (simp_all add: comp_def)
  then show ?thesis using fwd by (simp add: rows_of_def find_as_map_of)
qed

lemma part_simps [simp]:
  "fst (string_part n v) = n" "fst (int_part n i) = n" "fst (slice_part codec n xs) = n"
  "opt_all (\<lambda>p. sp_Name p = n) (snd (string_part n v))" "opt_all (\<lambda>p. sp_Name p = n) (snd (int_part n i))"
  "opt_all (\<lambda>p. sp_Name p = n) (snd (slice_part codec n xs))"
  by (simp_all add: string_part_def int_part_def slice_part_def opt_all_def split: option.split)

lemma collect_parts:
  "collect [] = Inr (part_rows [])"
  "collect rs = Inr (part_rows parts) \<Longrightarrow>
     collect (opt_string n v # rs) = Inr (part_rows (string_part n v # parts))"
  "collect rs = Inr (part_rows parts) \<Longrightarrow> opt_all (slice_ok codec n) xs \<Longrightarrow>
     collect (opt_slice codec n xs # rs) = Inr (part_rows (slice_part codec n xs # parts))"
  by (auto simp: part_rows_def opt_string_def opt_slice_def string_part_def slice_part_def slice_ok_def
      encodeStruct_def split: option.splits)

lemma canonical_32: "canonical_int 32 s \<longleftrightarrow> (\<exists>i. int32_range i \<and> s = itoa i)"
  using parse_int_range [of 32 s] parse_int_itoa [of 32]
  by (auto simp: canonical_int_def int32_range_def split: sum.splits)

lemma canonical_id:
  assumes "canonical_int 32 s"
  obtains i where "int32_range i" "s = itoa i" "StringToInt32 s = Inr i" "s \<noteq> []"
proof -
  obtain i where i: "int32_range i" "s = itoa i" using assms by (auto simp: canonical_32)
  moreover have "s \<noteq> []" using assms by (auto simp: canonical_int_def parse_int_def parse_digits_def)
  ultimately show ?thesis using that by simp
qed

definition opt_id_part :: "string \<Rightarrow> string option \<Rightarrow> string \<times> stored_property option" where
  "opt_id_part n v = int_part n (Option.bind v (\<lambda>s. case StringToInt32 s of Inl _ \<Rightarrow> None | Inr i \<Rightarrow> Some i))"

definition id_part :: "string \<Rightarrow> string \<Rightarrow> string \<times> stored_property option" where
  "id_part n s = opt_id_part n (Some s)"

lemma collect_ids:
  "collect rs = Inr (part_rows parts) \<Longrightarrow> canonical_int 32 s \<Longrightarrow>
     collect (required_id n s # rs) = Inr (part_rows (id_part n s # parts))"
  "collect rs = Inr (part_rows parts) \<Longrightarrow> opt_all (canonical_int 32) v \<Longrightarrow>
     collect (opt_id n v # rs) = Inr (part_rows (opt_id_part n v # parts))"
  by (auto simp: required_id_def opt_id_def id_property_def part_rows_def int_part_def opt_id_part_def id_part_def
      opt_all_def split: option.splits elim!: canonical_id)

lemma bind_parts [simp]:
  "Option.bind (snd (string_part n v)) sp_String = v"
  "Option.bind (snd (int_part n j)) sp_Int = j"
  unfolding string_part_def int_part_def by (cases v, simp_all) (cases j, simp_all)

lemma id_parts [simp]:
  "fst (id_part n s) = n" "fst (opt_id_part n v) = n"
  "opt_all (\<lambda>p. sp_Name p = n) (snd (id_part n s))" "opt_all (\<lambda>p. sp_Name p = n) (snd (opt_id_part n v))"
  by (simp_all add: id_part_def opt_id_part_def)

lemma read_ids [simp]:
  "opt_all (canonical_int 32) v \<Longrightarrow> Int32ToString (Option.bind (snd (opt_id_part n v)) sp_Int) = v"
  "canonical_int 32 s \<Longrightarrow> Int32ToString (Option.bind (snd (id_part n s)) sp_Int) = Some s"
  by (auto simp: id_part_def opt_id_part_def Int32ToString_def opt_all_def split: option.splits
      elim!: canonical_id)

lemma read_prop:
  assumes "rows_of parts ps"
  shows "string_prop n ps = Option.bind (Option.bind (map_of parts n) id) sp_String"
    and "int_prop n ps = Option.bind (Option.bind (map_of parts n) id) sp_Int"
  using assms by (simp_all add: rows_of_def string_prop_def int_prop_def)

lemma read_enum:
  assumes "rows_of parts ps" "map_of parts n = Some (snd (string_part n v))"
    and "opt_all (\<lambda>s. s \<in> set allowed) v"
  shows "enum_prop allowed n ps = Inr v"
  using assms by (cases v) (simp_all add: rows_of_def enum_prop_def enum_from_def string_part_def)

lemma read_slice:
  assumes "rows_of parts ps" "map_of parts n = Some (snd (slice_part codec n v))" "opt_all (slice_ok codec n) v"
  shows "slice_prop codec n ps = Inr v"
proof (cases v)
  case None
  then show ?thesis using assms by (simp add: rows_of_def slice_prop_def slice_part_def)
next
  case (Some xs)
  let ?st = "convertToStruct xs n"
  obtain b where b: "proto_marshal codec ?st = Some b" "proto_unmarshal codec b = Some ?st"
    using assms(3) Some by (auto simp: slice_ok_def split: option.splits)
  then have "decodeStruct codec (mlmdStructPrefix @ b64_encode b) = Inr ?st"
    by (intro decode_encoded) (simp_all add: encodeStruct_def)
  with assms Some b show ?thesis
    by (simp add: rows_of_def slice_prop_def slice_part_def)
qed

lemma canonical_time:
  assumes "opt_all (canonical_int 64) v"
  obtains n where "StringToInt64 v = Inr n" "Int64ToString n = v"
  using assms
  by (cases v) (auto simp: canonical_int_def StringToInt64_def Int64ToString_def split: sum.splits)

lemma base_attributes_ok:
  assumes "base_ok m"
  obtains c u where "base_attributes name uri st m = Inr \<lparr>at_Name = name, at_URI = uri, at_State = st,
      at_ExternalID = api_ExternalId m, at_CreateTime = c, at_LastUpdateTime = u\<rparr>"
    "Int64ToString c = api_CreateTime m" "Int64ToString u = api_LastUpdateTime m"
proof -
  have "opt_all (canonical_int 64) (api_CreateTime m)" "opt_all (canonical_int 64) (api_LastUpdateTime m)"
    using assms by (simp_all add: base_ok_def)
  then show ?thesis
    by (elim canonical_time) (rule that, simp_all add: base_attributes_def)
qed

lemma no_reserved_rows:
  assumes "MapOpenAPICustomPropertiesEmbedMD codec (Some m) = Inr cs"
    "\<forall>(k, v) \<in> set m. scalar_value v \<and> \<not> reserved_key k" "mset cs' = mset cs"
  shows "\<forall>p \<in> set cs'. \<not> reserved_key (sp_Name p)"
proof -
  have "\<forall>p \<in> set cs. \<exists>kv \<in> set m. custom_from_openapi codec (fst kv) (snd kv) = Inr p"
  proof
    fix p assume "p \<in> set cs"
    moreover have "map (\<lambda>(key, v). custom_from_openapi codec key v) m = map Inr cs"
      using assms(1) by (simp add: MapOpenAPICustomPropertiesEmbedMD_def try_map_Inr_iff)
    ultimately have "Inr p \<in> set (map (\<lambda>(key, v). custom_from_openapi codec key v) m)" by simp
    then show "\<exists>kv \<in> set m. custom_from_openapi codec (fst kv) (snd kv) = Inr p"
      unfolding set_map image_iff split_beta by metis
  qed
  then have "\<forall>p \<in> set cs. \<not> reserved_key (sp_Name p)"
    using assms(2) scalar_roundtrip by (metis (no_types, lifting) Inr_inject case_prodD prod.collapse)
  moreover have "set cs' = set cs" using assms(3) by (rule mset_eq_setD)
  ultimately show ?thesis by simp
qed

lemma no_experiment_ids:
  assumes "\<forall>p \<in> set cs. \<not> reserved_key (sp_Name p)"
  shows "MapEmbedMDExperimentId cs = None" "MapEmbedMDExperimentRunId cs = None"
proof -
  have "findPropertyByName cs n = None" if "reserved_key n" for n
    using assms that by (auto simp: findPropertyByName_def find_None_iff)
  then show "MapEmbedMDExperimentId cs = None" "MapEmbedMDExperimentRunId cs = None"
    by (simp_all add: MapEmbedMDExperimentId_def MapEmbedMDExperimentRunId_def int_prop_def
        reserved_key_def Int32ToString_def)
qed

text \<open>
  The part of the round trip all entities share: what is left to show for an entity is that reading rows
  arranged in any way gives the entity \<open>m'\<close>.
\<close>

lemma entity_roundtrip:
  assumes ok: "base_ok m" and props: "props = Inr (part_rows parts)"
    and parts: "parts_ok parts" and custom: "api_CustomProperties m' = api_CustomProperties m"
    and read: "\<And>i c u ps cs r. Int32ToString i = api_Id m \<Longrightarrow> rows_of parts ps
      \<Longrightarrow> Int64ToString c = api_CreateTime m \<Longrightarrow> Int64ToString u = api_LastUpdateTime m
      \<Longrightarrow> MapEmbedMDCustomProperties codec cs = Inr r \<Longrightarrow> MapEmbedMDExperimentId cs = None
      \<Longrightarrow> MapEmbedMDExperimentRunId cs = None
      \<Longrightarrow> rd \<lparr>be_ID = i, be_TypeID = t, be_Attributes = \<lparr>at_Name = name, at_URI = uri, at_State = st,
             at_ExternalID = api_ExternalId m, at_CreateTime = c, at_LastUpdateTime = u\<rparr>,
           be_Properties = ps, be_Custom = cs\<rparr> = Inr (m'\<lparr>api_CustomProperties := r\<rparr>)"
  shows "\<exists>e. convert_entity codec t m (base_attributes name uri st m) props = Inr e \<and> reads_back rd e m'"
proof -
  obtain c u where a: "base_attributes name uri st m = Inr \<lparr>at_Name = name, at_URI = uri, at_State = st,
      at_ExternalID = api_ExternalId m, at_CreateTime = c, at_LastUpdateTime = u\<rparr>"
    and cu: "Int64ToString c = api_CreateTime m" "Int64ToString u = api_LastUpdateTime m"
    using base_attributes_ok [OF ok] .
  let ?a = "\<lparr>at_Name = name, at_URI = uri, at_State = st,
      at_ExternalID = api_ExternalId m, at_CreateTime = c, at_LastUpdateTime = u\<rparr>"
  obtain i where i: "(case api_Id m of None \<Rightarrow> Inr None | Some s \<Rightarrow> map_sum id Some (StringToInt32 s)) = Inr i"
    "Int32ToString i = api_Id m"
    using ok by (cases "api_Id m") (auto simp: base_ok_def Int32ToString_def elim: canonical_id)
  have cust: "distinct (map fst (api_CustomProperties m))"
    "\<forall>(k, v) \<in> set (api_CustomProperties m). scalar_value v \<and> \<not> reserved_key k"
    using ok by (simp_all add: base_ok_def)
  obtain cs where cs: "MapOpenAPICustomPropertiesEmbedMD codec (Some (api_CustomProperties m)) = Inr cs"
    "\<And>cs'. mset cs' = mset cs \<Longrightarrow> \<exists>r. MapEmbedMDCustomProperties codec cs' = Inr r
      \<and> map_of r = map_of (api_CustomProperties m)"
    using custom_roundtrip [OF cust] by blast
  let ?e = "\<lparr>be_ID = i, be_TypeID = t, be_Attributes = ?a, be_Properties = part_rows parts, be_Custom = cs\<rparr>"
  have "reads_back rd ?e m'"
    unfolding reads_back_def
  proof (intro allI impI)
    fix e' assume same: "same_rows ?e e'"
    define ps' cs' where "ps' = be_Properties e'" and "cs' = be_Custom e'"
    have e': "e' = \<lparr>be_ID = i, be_TypeID = t, be_Attributes = ?a, be_Properties = ps', be_Custom = cs'\<rparr>"
      and rows: "mset ps' = mset (part_rows parts)" "mset cs' = mset cs"
      using same by (simp_all add: same_rows_def ps'_def cs'_def)
    obtain r where r: "MapEmbedMDCustomProperties codec cs' = Inr r"
      "map_of r = map_of (api_CustomProperties m)" using cs(2) [OF rows(2)] by blast
    have "\<forall>p \<in> set cs'. \<not> reserved_key (sp_Name p)"
      using no_reserved_rows [OF cs(1) cust(2) rows(2)] .
    then have "rd e' = Inr (m'\<lparr>api_CustomProperties := r\<rparr>)"
      unfolding e' using i(2) cu rows_of_part_rows [OF parts rows(1)] r(1)
      by (intro read) (simp_all add: no_experiment_ids)
    then show "\<exists>r. rd e' = Inr (m'\<lparr>api_CustomProperties := r\<rparr>)
        \<and> map_of r = map_of (api_CustomProperties m')" using r(2) custom by auto
  qed
  moreover have "convert_entity codec t m (base_attributes name uri st m) props = Inr ?e"
    using i(1) a props cs(1) by (simp add: convert_entity_def)
  ultimately show ?thesis by blast
qed

lemma owned_name_read:
  "CHR '':'' \<notin> set (case owner of Some o' \<Rightarrow> o' | None \<Rightarrow> uuid) \<Longrightarrow> name \<noteq> [] \<Longrightarrow>
     MapNameFromOwned (Some (PrefixWhenOwned uuid owner name)) = Some name"
  by (simp add: name_from_owned)

lemmas row_simps = read_prop read_enum read_slice parts_ok_def

subsection \<open>Registered models\<close>

record registered_model = api_base +
  rm_Name :: string
  rm_Readme :: "string option"
  rm_Maturity :: "string option"
  rm_Language :: "string list option"
  rm_Tasks :: "string list option"
  rm_Provider :: "string option"
  rm_Logo :: "string option"
  rm_License :: "string option"
  rm_LicenseLink :: "string option"
  rm_LibraryName :: "string option"
  rm_Owner :: "string option"
  rm_State :: "string option"

definition MapRegisteredModelPropertiesEmbedMD ::
  "struct_codec \<Rightarrow> registered_model \<Rightarrow> conv_error + stored_property list" where
  [converter_defs]: "MapRegisteredModelPropertiesEmbedMD codec m = collect
     [opt_string ''owner'' (rm_Owner m),
      opt_string ''description'' (api_Description m),
      opt_string ''state'' (rm_State m),
      opt_slice codec ''language'' (rm_Language m),
      opt_string ''library_name'' (rm_LibraryName m),
      opt_string ''license'' (rm_License m),
      opt_string ''license_link'' (rm_LicenseLink m),
      opt_string ''maturity'' (rm_Maturity m),
      opt_string ''provider'' (rm_Provider m),
      opt_string ''readme'' (rm_Readme m),
      opt_string ''logo'' (rm_Logo m),
      opt_slice codec ''tasks'' (rm_Tasks m)]"

definition MapRegisteredModelAttributesEmbedMD :: "registered_model \<Rightarrow> conv_error + attributes" where
  [converter_defs]: "MapRegisteredModelAttributesEmbedMD m = base_attributes (Some (rm_Name m)) None None m"

definition ConvertRegisteredModel ::
  "struct_codec \<Rightarrow> registered_model model_wrapper \<Rightarrow> conv_error + base_entity" where
  "ConvertRegisteredModel codec w = convert_entity codec (w_TypeId w) (w_Model w)
     (MapRegisteredModelAttributesEmbedMD (w_Model w)) (MapRegisteredModelPropertiesEmbedMD codec (w_Model w))"

definition ReadRegisteredModel :: "struct_codec \<Rightarrow> base_entity \<Rightarrow> conv_error + registered_model" where
  "ReadRegisteredModel codec e =
     (let a = be_Attributes e; ps = be_Properties e in
      try_bind (MapEmbedMDCustomProperties codec (be_Custom e)) (\<lambda>custom.
      try_bind (MapEmbedMDPropertyLanguage codec ps) (\<lambda>language.
      try_bind (MapEmbedMDPropertyTasks codec ps) (\<lambda>tasks.
      try_bind (MapEmbedMDStateRegisteredModel ps) (\<lambda>state.
        Inr \<lparr>api_Id = Int32ToString (be_ID e), api_ExternalId = at_ExternalID a,
             api_CustomProperties = custom, api_Description = MapEmbedMDDescription ps,
             api_CreateTime = Int64ToString (at_CreateTime a),
             api_LastUpdateTime = Int64ToString (at_LastUpdateTime a),
             rm_Name = str_or_empty (at_Name a), rm_Readme = MapEmbedMDPropertyReadme ps,
             rm_Maturity = MapEmbedMDPropertyMaturity ps, rm_Language = language, rm_Tasks = tasks,
             rm_Provider = MapEmbedMDPropertyProvider ps, rm_Logo = MapEmbedMDPropertyLogo ps,
             rm_License = MapEmbedMDPropertyLicense ps, rm_LicenseLink = MapEmbedMDPropertyLicenseLink ps,
             rm_LibraryName = MapEmbedMDPropertyLibraryName ps, rm_Owner = MapEmbedMDOwner ps,
             rm_State = state\<rparr>)))))"

definition registered_model_ok :: "struct_codec \<Rightarrow> registered_model \<Rightarrow> bool" where
  "registered_model_ok codec m = (base_ok m \<and> opt_all (\<lambda>s. s \<in> set [''LIVE'', ''ARCHIVED'']) (rm_State m)
     \<and> opt_all (slice_ok codec ''language'') (rm_Language m) \<and> opt_all (slice_ok codec ''tasks'') (rm_Tasks m))"

lemma registered_model_rows:
  assumes "registered_model_ok codec m"
  shows "MapRegisteredModelPropertiesEmbedMD codec m = Inr (part_rows
    [string_part ''owner'' (rm_Owner m), string_part ''description'' (api_Description m),
     string_part ''state'' (rm_State m), slice_part codec ''language'' (rm_Language m),
     string_part ''library_name'' (rm_LibraryName m), string_part ''license'' (rm_License m),
     string_part ''license_link'' (rm_LicenseLink m), string_part ''maturity'' (rm_Maturity m),
     string_part ''provider'' (rm_Provider m), string_part ''readme'' (rm_Readme m),
     string_part ''logo'' (rm_Logo m), slice_part codec ''tasks'' (rm_Tasks m)])"
  using assms unfolding registered_model_ok_def converter_defs by (intro collect_parts) simp_all

lemma registered_model_reads_back:
  assumes ok: "registered_model_ok codec (w_Model w)"
  shows "\<exists>e. ConvertRegisteredModel codec w = Inr e \<and> reads_back (ReadRegisteredModel codec) e (w_Model w)"
  unfolding ConvertRegisteredModel_def MapRegisteredModelAttributesEmbedMD_def
  by (rule entity_roundtrip [OF _ registered_model_rows [OF ok]])
    (use ok in \<open>auto simp: ReadRegisteredModel_def registered_model_ok_def reader_defs row_simps
      intro!: registered_model.equality\<close>)

subsection \<open>Model versions\<close>

record model_version = api_base +
  ver_Name :: string
  ver_State :: "string option"
  ver_Author :: "string option"
  ver_RegisteredModelId :: string

definition MapModelVersionPropertiesEmbedMD :: "model_version \<Rightarrow> conv_error + stored_property list" where
  [converter_defs]: "MapModelVersionPropertiesEmbedMD m = collect
     [opt_string ''description'' (api_Description m),
      opt_string ''state'' (ver_State m),
      opt_string ''author'' (ver_Author m),
      required_id ''registered_model_id'' (ver_RegisteredModelId m)]"

definition MapModelVersionNameEmbedMD :: "string \<Rightarrow> model_version model_wrapper \<Rightarrow> string" where
  [converter_defs]: "MapModelVersionNameEmbedMD uuid w = PrefixWhenOwned uuid (w_ParentResourceId w) (ver_Name (w_Model w))"

definition MapModelVersionAttributesEmbedMD ::
  "string \<Rightarrow> model_version model_wrapper \<Rightarrow> conv_error + attributes" where
  [converter_defs]: "MapModelVersionAttributesEmbedMD uuid w =
     base_attributes (Some (MapModelVersionNameEmbedMD uuid w)) None None (w_Model w)"

definition ConvertModelVersion ::
  "struct_codec \<Rightarrow> string \<Rightarrow> model_version model_wrapper \<Rightarrow> conv_error + base_entity" where
  "ConvertModelVersion codec uuid w = convert_entity codec (w_TypeId w) (w_Model w)
     (MapModelVersionAttributesEmbedMD uuid w) (MapModelVersionPropertiesEmbedMD (w_Model w))"

definition ReadModelVersion :: "struct_codec \<Rightarrow> base_entity \<Rightarrow> conv_error + model_version" where
  "ReadModelVersion codec e =
     (let a = be_Attributes e; ps = be_Properties e in
      try_bind (MapEmbedMDCustomProperties codec (be_Custom e)) (\<lambda>custom.
      try_bind (case MapNameFromOwned (at_Name a) of None \<Rightarrow> Inl (Panic ''name'') | Some n \<Rightarrow> Inr n) (\<lambda>name.
      try_bind (MapEmbedMDStateModelVersion ps) (\<lambda>state.
        Inr \<lparr>api_Id = Int32ToString (be_ID e), api_ExternalId = at_ExternalID a,
             api_CustomProperties = custom, api_Description = MapEmbedMDDescription ps,
             api_CreateTime = Int64ToString (at_CreateTime a),
             api_LastUpdateTime = Int64ToString (at_LastUpdateTime a),
             ver_Name = name,
             ver_State = state,
             ver_Author = MapEmbedMDAuthor ps,
             ver_RegisteredModelId = MapEmbedMDPropertyRegisteredModelId ps\<rparr>))))"

definition model_version_ok :: "string \<Rightarrow> model_version model_wrapper \<Rightarrow> bool" where
  "model_version_ok uuid w = (base_ok (w_Model w)
     \<and> CHR '':'' \<notin> set (case w_ParentResourceId w of Some o' \<Rightarrow> o' | None \<Rightarrow> uuid)
     \<and> ver_Name (w_Model w) \<noteq> []
     \<and> opt_all (\<lambda>s. s \<in> set [''LIVE'', ''ARCHIVED'']) (ver_State (w_Model w))
     \<and> canonical_int 32 (ver_RegisteredModelId (w_Model w)))"

lemma model_version_rows:
  assumes "model_version_ok uuid w"
  shows "MapModelVersionPropertiesEmbedMD (w_Model w) = Inr (part_rows
    [string_part ''description'' (api_Description (w_Model w)),
     string_part ''state'' (ver_State (w_Model w)),
     string_part ''author'' (ver_Author (w_Model w)),
     id_part ''registered_model_id'' (ver_RegisteredModelId (w_Model w))])"
  using assms unfolding model_version_ok_def MapModelVersionPropertiesEmbedMD_def by (intro collect_parts collect_ids) simp_all

lemma model_version_reads_back:
  assumes ok: "model_version_ok uuid w"
  shows "\<exists>e. ConvertModelVersion codec uuid w = Inr e
    \<and> reads_back (ReadModelVersion codec) e (w_Model w)"
  unfolding ConvertModelVersion_def MapModelVersionAttributesEmbedMD_def
  by (rule entity_roundtrip [OF _ model_version_rows [OF ok]])
    (use ok in \<open>auto simp: ReadModelVersion_def model_version_ok_def reader_defs row_simps converter_defs owned_name_read
      intro!: model_version.equality\<close>)

subsection \<open>Serving environments\<close>

record serving_environment = api_base +
  env_Name :: string

definition MapServingEnvironmentPropertiesEmbedMD :: "serving_environment \<Rightarrow> conv_error + stored_property list" where
  [converter_defs]: "MapServingEnvironmentPropertiesEmbedMD m = collect
     [opt_string ''description'' (api_Description m)]"

definition MapServingEnvironmentAttributesEmbedMD :: "serving_environment \<Rightarrow> conv_error + attributes" where
  [converter_defs]: "MapServingEnvironmentAttributesEmbedMD m = base_attributes (Some (env_Name m)) None None m"

definition ConvertServingEnvironment ::
  "struct_codec \<Rightarrow> serving_environment model_wrapper \<Rightarrow> conv_error + base_entity" where
  "ConvertServingEnvironment codec w = convert_entity codec (w_TypeId w) (w_Model w)
     (MapServingEnvironmentAttributesEmbedMD (w_Model w)) (MapServingEnvironmentPropertiesEmbedMD (w_Model w))"

definition ReadServingEnvironment :: "struct_codec \<Rightarrow> base_entity \<Rightarrow> conv_error + serving_environment" where
  "ReadServingEnvironment codec e =
     (let a = be_Attributes e; ps = be_Properties e in
      try_bind (MapEmbedMDCustomProperties codec (be_Custom e)) (\<lambda>custom.
        Inr \<lparr>api_Id = Int32ToString (be_ID e), api_ExternalId = at_ExternalID a,
             api_CustomProperties = custom, api_Description = MapEmbedMDDescription ps,
             api_CreateTime = Int64ToString (at_CreateTime a),
             api_LastUpdateTime = Int64ToString (at_LastUpdateTime a),
             env_Name = str_or_empty (at_Name a)\<rparr>))"

definition serving_environment_ok :: "serving_environment model_wrapper \<Rightarrow> bool" where
  "serving_environment_ok w = (base_ok (w_Model w))"

lemma serving_environment_rows:
  assumes "serving_environment_ok w"
  shows "MapServingEnvironmentPropertiesEmbedMD (w_Model w) = Inr (part_rows
    [string_part ''description'' (api_Description (w_Model w))])"
  using assms unfolding serving_environment_ok_def MapServingEnvironmentPropertiesEmbedMD_def by (intro collect_parts)

lemma serving_environment_reads_back:
  assumes ok: "serving_environment_ok w"
  shows "\<exists>e. ConvertServingEnvironment codec w = Inr e
    \<and> reads_back (ReadServingEnvironment codec) e (w_Model w)"
  unfolding ConvertServingEnvironment_def MapServingEnvironmentAttributesEmbedMD_def
  by (rule entity_roundtrip [OF _ serving_environment_rows [OF ok]])
    (use ok in \<open>auto simp: ReadServingEnvironment_def serving_environment_ok_def reader_defs row_simps
      intro!: serving_environment.equality\<close>)

subsection \<open>Inference services\<close>

record inference_service = api_base +
  inf_Name :: "string option"
  inf_ModelVersionId :: "string option"
  inf_Runtime :: "string option"
  inf_DesiredState :: "string option"
  inf_RegisteredModelId :: string
  inf_ServingEnvironmentId :: string

definition MapInferenceServicePropertiesEmbedMD :: "inference_service \<Rightarrow> conv_error + stored_property list" where
  [converter_defs]: "MapInferenceServicePropertiesEmbedMD m = collect
     [opt_string ''description'' (api_Description m),
      opt_string ''runtime'' (inf_Runtime m),
      opt_string ''desired_state'' (inf_DesiredState m),
      required_id ''registered_model_id'' (inf_RegisteredModelId m),
      required_id ''serving_environment_id'' (inf_ServingEnvironmentId m),
      opt_id ''model_version_id'' (inf_ModelVersionId m)]"

definition MapInferenceServiceNameEmbedMD :: "string \<Rightarrow> string \<Rightarrow> inference_service model_wrapper \<Rightarrow> string" where
  [converter_defs]: "MapInferenceServiceNameEmbedMD uuidName uuid w = mapEntityName uuidName uuid (w_ParentResourceId w) (inf_Name (w_Model w))"

definition MapInferenceServiceAttributesEmbedMD ::
  "string \<Rightarrow> string \<Rightarrow> inference_service model_wrapper \<Rightarrow> conv_error + attributes" where
  [converter_defs]: "MapInferenceServiceAttributesEmbedMD uuidName uuid w =
     base_attributes (Some (MapInferenceServiceNameEmbedMD uuidName uuid w)) None None (w_Model w)"

definition ConvertInferenceService ::
  "struct_codec \<Rightarrow> string \<Rightarrow> string \<Rightarrow> inference_service model_wrapper \<Rightarrow> conv_error + base_entity" where
  "ConvertInferenceService codec uuidName uuid w = convert_entity codec (w_TypeId w) (w_Model w)
     (MapInferenceServiceAttributesEmbedMD uuidName uuid w) (MapInferenceServicePropertiesEmbedMD (w_Model w))"

definition ReadInferenceService :: "struct_codec \<Rightarrow> base_entity \<Rightarrow> conv_error + inference_service" where
  "ReadInferenceService codec e =
     (let a = be_Attributes e; ps = be_Properties e in
      try_bind (MapEmbedMDCustomProperties codec (be_Custom e)) (\<lambda>custom.
      try_bind (MapEmbedMDPropertyDesiredStateInferenceService ps) (\<lambda>state.
        Inr \<lparr>api_Id = Int32ToString (be_ID e), api_ExternalId = at_ExternalID a,
             api_CustomProperties = custom, api_Description = MapEmbedMDDescription ps,
             api_CreateTime = Int64ToString (at_CreateTime a),
             api_LastUpdateTime = Int64ToString (at_LastUpdateTime a),
             inf_Name = MapNameFromOwned (at_Name a),
             inf_ModelVersionId = MapEmbedMDPropertyModelVersionId ps,
             inf_Runtime = MapEmbedMDPropertyRuntime ps,
             inf_DesiredState = state,
             inf_RegisteredModelId = MapEmbedMDPropertyRegisteredModelId ps,
             inf_ServingEnvironmentId = MapEmbedMDPropertyServingEnvironmentId ps\<rparr>)))"

definition inference_service_ok :: "string \<Rightarrow> string \<Rightarrow> inference_service model_wrapper \<Rightarrow> bool" where
  "inference_service_ok uuidName uuid w = (base_ok (w_Model w)
     \<and> CHR '':'' \<notin> set (case w_ParentResourceId w of Some o' \<Rightarrow> o' | None \<Rightarrow> uuid)
     \<and> opt_all (\<lambda>n. n \<noteq> []) (inf_Name (w_Model w)) \<and> uuidName \<noteq> []
     \<and> opt_all (\<lambda>s. s \<in> set [''DEPLOYED'', ''UNDEPLOYED'']) (inf_DesiredState (w_Model w))
     \<and> canonical_int 32 (inf_RegisteredModelId (w_Model w))
     \<and> canonical_int 32 (inf_ServingEnvironmentId (w_Model w))
     \<and> opt_all (canonical_int 32) (inf_ModelVersionId (w_Model w)))"

lemma inference_service_rows:
  assumes "inference_service_ok uuidName uuid w"
  shows "MapInferenceServicePropertiesEmbedMD (w_Model w) = Inr (part_rows
    [string_part ''description'' (api_Description (w_Model w)),
     string_part ''runtime'' (inf_Runtime (w_Model w)),
     string_part ''desired_state'' (inf_DesiredState (w_Model w)),
     id_part ''registered_model_id'' (inf_RegisteredModelId (w_Model w)),
     id_part ''serving_environment_id'' (inf_ServingEnvironmentId (w_Model w)),
     opt_id_part ''model_version_id'' (inf_ModelVersionId (w_Model w))])"
  using assms unfolding inference_service_ok_def MapInferenceServicePropertiesEmbedMD_def by (intro collect_parts collect_ids) simp_all

lemma inference_service_reads_back:
  assumes ok: "inference_service_ok uuidName uuid w"
  shows "\<exists>e. ConvertInferenceService codec uuidName uuid w = Inr e
    \<and> reads_back (ReadInferenceService codec) e ((w_Model w)\<lparr>inf_Name := Some (case inf_Name (w_Model w) of None \<Rightarrow> uuidName | Some n \<Rightarrow> n)\<rparr>)"
  unfolding ConvertInferenceService_def MapInferenceServiceAttributesEmbedMD_def
  by (rule entity_roundtrip [OF _ inference_service_rows [OF ok]])
    (use ok in \<open>auto simp: ReadInferenceService_def inference_service_ok_def reader_defs row_simps converter_defs owned_name_read mapEntityName_def
      intro!: inference_service.equality split: option.splits\<close>)

subsection \<open>Experiments\<close>

record xp_entity = api_base +
  xp_Name :: string
  xp_Owner :: "string option"
  xp_State :: "string option"

definition MapExperimentPropertiesEmbedMD :: "xp_entity \<Rightarrow> conv_error + stored_property list" where
  [converter_defs]: "MapExperimentPropertiesEmbedMD m = collect
     [opt_string ''description'' (api_Description m),
      opt_string ''owner'' (xp_Owner m),
      opt_string ''state'' (xp_State m)]"

definition MapExperimentAttributesEmbedMD :: "xp_entity \<Rightarrow> conv_error + attributes" where
  [converter_defs]: "MapExperimentAttributesEmbedMD m = base_attributes (Some (xp_Name m)) None None m"

definition ConvertExperiment ::
  "struct_codec \<Rightarrow> xp_entity model_wrapper \<Rightarrow> conv_error + base_entity" where
  "ConvertExperiment codec w = convert_entity codec (w_TypeId w) (w_Model w)
     (MapExperimentAttributesEmbedMD (w_Model w)) (MapExperimentPropertiesEmbedMD (w_Model w))"

definition ReadExperiment :: "struct_codec \<Rightarrow> base_entity \<Rightarrow> conv_error + xp_entity" where
  "ReadExperiment codec e =
     (let a = be_Attributes e; ps = be_Properties e in
      try_bind (MapEmbedMDCustomProperties codec (be_Custom e)) (\<lambda>custom.
      try_bind (MapEmbedMDStateExperiment ps) (\<lambda>state.
        Inr \<lparr>api_Id = Int32ToString (be_ID e), api_ExternalId = at_ExternalID a,
             api_CustomProperties = custom, api_Description = MapEmbedMDDescription ps,
             api_CreateTime = Int64ToString (at_CreateTime a),
             api_LastUpdateTime = Int64ToString (at_LastUpdateTime a),
             xp_Name = str_or_empty (at_Name a),
             xp_Owner = MapEmbedMDOwner ps,
             xp_State = state\<rparr>)))"

definition experiment_ok :: "xp_entity model_wrapper \<Rightarrow> bool" where
  "experiment_ok w = (base_ok (w_Model w)
     \<and> opt_all (\<lambda>s. s \<in> set [''LIVE'', ''ARCHIVED'']) (xp_State (w_Model w)))"

lemma experiment_rows:
  assumes "experiment_ok w"
  shows "MapExperimentPropertiesEmbedMD (w_Model w) = Inr (part_rows
    [string_part ''description'' (api_Description (w_Model w)),
     string_part ''owner'' (xp_Owner (w_Model w)),
     string_part ''state'' (xp_State (w_Model w))])"
  using assms unfolding experiment_ok_def MapExperimentPropertiesEmbedMD_def by (intro collect_parts)

lemma experiment_reads_back:
  assumes ok: "experiment_ok w"
  shows "\<exists>e. ConvertExperiment codec w = Inr e
    \<and> reads_back (ReadExperiment codec) e (w_Model w)"
  unfolding ConvertExperiment_def MapExperimentAttributesEmbedMD_def
  by (rule entity_roundtrip [OF _ experiment_rows [OF ok]])
    (use ok in \<open>auto simp: ReadExperiment_def experiment_ok_def reader_defs row_simps
      intro!: xp_entity.equality\<close>)

subsection \<open>Experiment runs\<close>

record experiment_run = api_base +
  run_Name :: "string option"
  run_EndTime :: "string option"
  run_Status :: "string option"
  run_State :: "string option"
  run_Owner :: "string option"
  run_ExperimentId :: string
  run_StartTime :: "string option"

definition MapExperimentRunPropertiesEmbedMD :: "experiment_run \<Rightarrow> conv_error + stored_property list" where
  [converter_defs]: "MapExperimentRunPropertiesEmbedMD m = collect
     [opt_string ''description'' (api_Description m),
      opt_string ''owner'' (run_Owner m),
      opt_string ''state'' (run_State m),
      opt_string ''status'' (run_Status m),
      opt_string ''start_time_since_epoch'' (run_StartTime m),
      opt_string ''end_time_since_epoch'' (run_EndTime m),
      required_id ''experiment_id'' (run_ExperimentId m)]"

definition MapExperimentRunNameEmbedMD :: "string \<Rightarrow> string \<Rightarrow> experiment_run model_wrapper \<Rightarrow> string" where
  [converter_defs]: "MapExperimentRunNameEmbedMD uuidName uuid w = mapEntityName uuidName uuid (w_ParentResourceId w) (run_Name (w_Model w))"

definition MapExperimentRunAttributesEmbedMD ::
  "string \<Rightarrow> string \<Rightarrow> experiment_run model_wrapper \<Rightarrow> conv_error + attributes" where
  [converter_defs]: "MapExperimentRunAttributesEmbedMD uuidName uuid w =
     base_attributes (Some (MapExperimentRunNameEmbedMD uuidName uuid w)) None None (w_Model w)"

definition ConvertExperimentRun ::
  "struct_codec \<Rightarrow> string \<Rightarrow> string \<Rightarrow> experiment_run model_wrapper \<Rightarrow> conv_error + base_entity" where
  "ConvertExperimentRun codec uuidName uuid w = convert_entity codec (w_TypeId w) (w_Model w)
     (MapExperimentRunAttributesEmbedMD uuidName uuid w) (MapExperimentRunPropertiesEmbedMD (w_Model w))"

definition ReadExperimentRun :: "struct_codec \<Rightarrow> base_entity \<Rightarrow> conv_error + experiment_run" where
  "ReadExperimentRun codec e =
     (let a = be_Attributes e; ps = be_Properties e in
      try_bind (MapEmbedMDCustomProperties codec (be_Custom e)) (\<lambda>custom.
      try_bind (MapEmbedMDPropertyStatusExperimentRun ps) (\<lambda>status.
      try_bind (MapEmbedMDStateExperimentRun ps) (\<lambda>state.
      try_bind (MapEmbedMDPropertyExperimentIdExperimentRun ps) (\<lambda>experimentId.
        Inr \<lparr>api_Id = Int32ToString (be_ID e), api_ExternalId = at_ExternalID a,
             api_CustomProperties = custom, api_Description = MapEmbedMDDescription ps,
             api_CreateTime = Int64ToString (at_CreateTime a),
             api_LastUpdateTime = Int64ToString (at_LastUpdateTime a),
             run_Name = MapNameFromOwned (at_Name a),
             run_EndTime = MapEmbedMDPropertyEndTimeSinceEpochExperimentRun ps,
             run_Status = status,
             run_State = state,
             run_Owner = MapEmbedMDOwner ps,
             run_ExperimentId = experimentId,
             run_StartTime = MapEmbedMDPropertyStartTimeSinceEpochExperimentRun ps\<rparr>)))))"

definition experiment_run_ok :: "string \<Rightarrow> string \<Rightarrow> experiment_run model_wrapper \<Rightarrow> bool" where
  "experiment_run_ok uuidName uuid w = (base_ok (w_Model w)
     \<and> CHR '':'' \<notin> set (case w_ParentResourceId w of Some o' \<Rightarrow> o' | None \<Rightarrow> uuid)
     \<and> opt_all (\<lambda>n. n \<noteq> []) (run_Name (w_Model w)) \<and> uuidName \<noteq> []
     \<and> opt_all (\<lambda>s. s \<in> set [''LIVE'', ''ARCHIVED'']) (run_State (w_Model w))
     \<and> opt_all (\<lambda>s. s \<in> set [''RUNNING'', ''SCHEDULED'', ''FINISHED'', ''FAILED'', ''KILLED'']) (run_Status (w_Model w))
     \<and> canonical_int 32 (run_ExperimentId (w_Model w)))"

lemma experiment_run_rows:
  assumes "experiment_run_ok uuidName uuid w"
  shows "MapExperimentRunPropertiesEmbedMD (w_Model w) = Inr (part_rows
    [string_part ''description'' (api_Description (w_Model w)),
     string_part ''owner'' (run_Owner (w_Model w)),
     string_part ''state'' (run_State (w_Model w)),
     string_part ''status'' (run_Status (w_Model w)),
     string_part ''start_time_since_epoch'' (run_StartTime (w_Model w)),
     string_part ''end_time_since_epoch'' (run_EndTime (w_Model w)),
     id_part ''experiment_id'' (run_ExperimentId (w_Model w))])"
  using assms unfolding experiment_run_ok_def MapExperimentRunPropertiesEmbedMD_def by (intro collect_parts collect_ids) simp_all

lemma experiment_run_reads_back:
  assumes ok: "experiment_run_ok uuidName uuid w"
  shows "\<exists>e. ConvertExperimentRun codec uuidName uuid w = Inr e
    \<and> reads_back (ReadExperimentRun codec) e ((w_Model w)\<lparr>run_Name := Some (case run_Name (w_Model w) of None \<Rightarrow> uuidName | Some n \<Rightarrow> n)\<rparr>)"
  unfolding ConvertExperimentRun_def MapExperimentRunAttributesEmbedMD_def
  by (rule entity_roundtrip [OF _ experiment_run_rows [OF ok]])
    (use ok in \<open>auto simp: ReadExperimentRun_def experiment_run_ok_def reader_defs row_simps converter_defs owned_name_read mapEntityName_def
      intro!: experiment_run.equality split: option.splits\<close>)

subsection \<open>Serve models\<close>

record serve_model = api_base +
  srv_Name :: "string option"
  srv_LastKnownState :: "string option"
  srv_ModelVersionId :: string

definition MapServeModelPropertiesEmbedMD :: "serve_model \<Rightarrow> conv_error + stored_property list" where
  [converter_defs]: "MapServeModelPropertiesEmbedMD m = collect
     [opt_string ''description'' (api_Description m),
      required_id ''model_version_id'' (srv_ModelVersionId m)]"

definition MapServeModelNameEmbedMD :: "string \<Rightarrow> string \<Rightarrow> serve_model model_wrapper \<Rightarrow> string" where
  [converter_defs]: "MapServeModelNameEmbedMD uuidName uuid w = mapEntityName uuidName uuid (w_ParentResourceId w) (srv_Name (w_Model w))"

definition MapServeModelAttributesEmbedMD ::
  "string \<Rightarrow> string \<Rightarrow> serve_model model_wrapper \<Rightarrow> conv_error + attributes" where
  [converter_defs]: "MapServeModelAttributesEmbedMD uuidName uuid w =
     try_bind (opt_state ExecutionStateMapping ExecutionStateNames (srv_LastKnownState (w_Model w))) (\<lambda>state.
       base_attributes (Some (MapServeModelNameEmbedMD uuidName uuid w)) None state (w_Model w))"

definition ConvertServeModel ::
  "struct_codec \<Rightarrow> string \<Rightarrow> string \<Rightarrow> serve_model model_wrapper \<Rightarrow> conv_error + base_entity" where
  "ConvertServeModel codec uuidName uuid w = convert_entity codec (w_TypeId w) (w_Model w)
     (MapServeModelAttributesEmbedMD uuidName uuid w) (MapServeModelPropertiesEmbedMD (w_Model w))"

definition ReadServeModel :: "struct_codec \<Rightarrow> base_entity \<Rightarrow> conv_error + serve_model" where
  "ReadServeModel codec e =
     (let a = be_Attributes e; ps = be_Properties e in
      try_bind (MapEmbedMDCustomProperties codec (be_Custom e)) (\<lambda>custom.
      try_bind (case at_State a of None \<Rightarrow> Inr None | Some s \<Rightarrow> enum_from (map fst ExecutionStateMapping) s) (\<lambda>state.
      try_bind (MapEmbedMDPropertyModelVersionIdServeModel ps) (\<lambda>modelVersionId.
        Inr \<lparr>api_Id = Int32ToString (be_ID e), api_ExternalId = at_ExternalID a,
             api_CustomProperties = custom, api_Description = MapEmbedMDDescription ps,
             api_CreateTime = Int64ToString (at_CreateTime a),
             api_LastUpdateTime = Int64ToString (at_LastUpdateTime a),
             srv_Name = MapNameFromOwned (at_Name a),
             srv_LastKnownState = state,
             srv_ModelVersionId = modelVersionId\<rparr>))))"

definition serve_model_ok :: "string \<Rightarrow> string \<Rightarrow> serve_model model_wrapper \<Rightarrow> bool" where
  "serve_model_ok uuidName uuid w = (base_ok (w_Model w)
     \<and> CHR '':'' \<notin> set (case w_ParentResourceId w of Some o' \<Rightarrow> o' | None \<Rightarrow> uuid)
     \<and> opt_all (\<lambda>n. n \<noteq> []) (srv_Name (w_Model w)) \<and> uuidName \<noteq> []
     \<and> opt_all (\<lambda>s. s \<in> set (map fst ExecutionStateMapping)) (srv_LastKnownState (w_Model w))
     \<and> canonical_int 32 (srv_ModelVersionId (w_Model w)))"

lemma serve_model_rows:
  assumes "serve_model_ok uuidName uuid w"
  shows "MapServeModelPropertiesEmbedMD (w_Model w) = Inr (part_rows
    [string_part ''description'' (api_Description (w_Model w)),
     id_part ''model_version_id'' (srv_ModelVersionId (w_Model w))])"
  using assms unfolding serve_model_ok_def MapServeModelPropertiesEmbedMD_def by (intro collect_parts collect_ids) simp_all

lemma serve_model_reads_back:
  assumes ok: "serve_model_ok uuidName uuid w"
  shows "\<exists>e. ConvertServeModel codec uuidName uuid w = Inr e
    \<and> reads_back (ReadServeModel codec) e ((w_Model w)\<lparr>srv_Name := Some (case srv_Name (w_Model w) of None \<Rightarrow> uuidName | Some n \<Rightarrow> n)\<rparr>)"
proof -
  have "opt_state ExecutionStateMapping ExecutionStateNames (srv_LastKnownState (w_Model w))
      = Inr (srv_LastKnownState (w_Model w))"
    using ok unfolding serve_model_ok_def by (intro opt_state_known(2)) simp
  then show ?thesis
    unfolding ConvertServeModel_def MapServeModelAttributesEmbedMD_def try_bind.simps
    by (simp, intro entity_roundtrip [OF _ serve_model_rows [OF ok]])
      (use ok in \<open>auto simp: ReadServeModel_def serve_model_ok_def converter_defs reader_defs row_simps owned_name_read
        mapEntityName_def enum_from_def intro!: serve_model.equality split: option.splits\<close>)
qed

end
