(* ===== verification/Service_Repositories.thy ===== *)
theory Service_Repositories
  imports Store_Tables Converter_Entities
begin

text \<open>
  The repositories of the registry (\<open>internal/db/service\<close>): per entity the mapping between the stored entity and its row
  and property rows, the filters of its list, and the configuration of the generic repository; with the repository of
  artifacts of any type (\<open>artifact.go\<close>) and the helpers for joins (\<open>internal/platform/db/utils/join.go\<close>).

  \<open>quote\<close> is the quoting of a table name by the dialect of \<open>gorm\<close>; the column names are in snake case already and so
  kept by its naming strategy.
\<close>

subsection \<open>Joins\<close>

definition getTableName :: "(string \<Rightarrow> string) \<Rightarrow> string \<Rightarrow> string" where
  "getTableName quote table = quote table"

definition GetColumnRef :: "(string \<Rightarrow> string) \<Rightarrow> string \<Rightarrow> string \<Rightarrow> string" where
  "GetColumnRef quote table column = getTableName quote table @ ''.'' @ column"

definition BuildParentContextJoin :: "(string \<Rightarrow> string) \<Rightarrow> string" where
  "BuildParentContextJoin quote =
     (let parentTable = getTableName quote ''ParentContext''; contextTable = getTableName quote ''Context''
      in ''JOIN '' @ parentTable @ '' ON '' @ parentTable @ ''.context_id = '' @ contextTable @ ''.id'')"

definition BuildAttributionJoin :: "(string \<Rightarrow> string) \<Rightarrow> string" where
  "BuildAttributionJoin quote =
     (let attributionTable = getTableName quote ''Attribution''; artifactTable = getTableName quote ''Artifact''
      in ''JOIN '' @ attributionTable @ '' ON '' @ attributionTable @ ''.artifact_id = '' @ artifactTable @ ''.id'')"

definition BuildAssociationJoin :: "(string \<Rightarrow> string) \<Rightarrow> string" where
  "BuildAssociationJoin quote =
     (let associationTable = getTableName quote ''Association''; executionTable = getTableName quote ''Execution''
      in ''JOIN '' @ associationTable @ '' ON '' @ associationTable @ ''.execution_id = '' @ executionTable @ ''.id'')"

definition BuildContextPropertyJoin :: "(string \<Rightarrow> string) \<Rightarrow> string \<Rightarrow> string" where
  "BuildContextPropertyJoin quote propertyName =
     (let propertyTable = getTableName quote ''ContextProperty''; contextTable = getTableName quote ''Context''
      in ''JOIN '' @ propertyTable @ '' ON '' @ propertyTable @ ''.context_id = '' @ contextTable @ ''.id AND ''
           @ propertyTable @ ''.name = '' @ [CHR 0x27] @ propertyName @ [CHR 0x27])"

subsection \<open>List options\<close>

text \<open>The fields of the options of all entities; an entity whose options lack a field has it \<open>None\<close>.\<close>

record list_options = pagination +
  lo_Name :: "string option"
  lo_ExternalID :: "string option"
  lo_ParentResourceID :: "int option"
  lo_Runtime :: "string option"
  lo_StepIds :: "string option"
  lo_ArtifactType :: "string option"

definition where_name :: "string \<Rightarrow> string \<Rightarrow> gorm_db \<Rightarrow> gorm_db" where
  "where_name column v query = add_call (Where (column @ '' LIKE ?'') [AnyStr v]) query"

definition where_external_id :: "string \<Rightarrow> string \<Rightarrow> gorm_db \<Rightarrow> gorm_db" where
  "where_external_id column v query = add_call (Where (column @ '' = ?'') [AnyStr v]) query"

definition join_parent :: "(string \<Rightarrow> string) \<Rightarrow> string \<Rightarrow> string \<Rightarrow> string \<Rightarrow> int \<Rightarrow> gorm_db \<Rightarrow> gorm_db" where
  "join_parent quote joinClause table column p query =
     add_call (Where (GetColumnRef quote table column @ '' = ?'') [AnyInt32 p]) (add_call (Joins joinClause) query)"

text \<open>The filters of an entity without a parent, of one with a parent context, and of the artifacts.\<close>

definition filter_plain :: "list_options \<Rightarrow> gorm_db \<Rightarrow> gorm_db" where
  "filter_plain listOptions query =
     (case lo_Name listOptions of
        Some n \<Rightarrow> where_name ''name'' n query
      | None \<Rightarrow> (case lo_ExternalID listOptions of Some x \<Rightarrow> where_external_id ''external_id'' x query | None \<Rightarrow> query))"

definition filter_child :: "(string \<Rightarrow> string) \<Rightarrow> list_options \<Rightarrow> gorm_db \<Rightarrow> gorm_db" where
  "filter_child quote listOptions query =
     (let query1 = (case lo_Name listOptions of
          Some n \<Rightarrow> (case lo_ParentResourceID listOptions of
              Some p \<Rightarrow> where_name ''name'' (itoa p @ '':'' @ n) query
            | None \<Rightarrow> where_name ''name'' (''%:'' @ n) query)
        | None \<Rightarrow> (case lo_ExternalID listOptions of Some x \<Rightarrow> where_external_id ''external_id'' x query | None \<Rightarrow> query))
      in case lo_ParentResourceID listOptions of
           Some p \<Rightarrow> join_parent quote (BuildParentContextJoin quote) ''ParentContext'' ''parent_context_id'' p query1
         | None \<Rightarrow> query1)"

definition filter_artifact :: "(string \<Rightarrow> string) \<Rightarrow> list_options \<Rightarrow> gorm_db \<Rightarrow> gorm_db" where
  "filter_artifact quote listOptions query =
     (let query1 = (case lo_Name listOptions of
          Some n \<Rightarrow> where_name ''name'' (''%:'' @ n) query
        | None \<Rightarrow> (case lo_ExternalID listOptions of Some x \<Rightarrow> where_external_id ''external_id'' x query | None \<Rightarrow> query))
      in case lo_ParentResourceID listOptions of
           Some p \<Rightarrow> join_parent quote (BuildAttributionJoin quote) ''Attribution'' ''context_id'' p query1
         | None \<Rightarrow> query1)"

subsection \<open>Rows and stored entities\<close>

definition zero_if_nil :: "int option \<Rightarrow> int" where
  "zero_if_nil i = (case i of None \<Rightarrow> 0 | Some n \<Rightarrow> n)"

text \<open>A name of a state that is not in the table gives 0, a number that is not gives the empty string.\<close>

definition state_value :: "(string \<times> int) list \<Rightarrow> string \<Rightarrow> int" where
  "state_value values s = (case map_of values s of None \<Rightarrow> 0 | Some n \<Rightarrow> n)"

definition state_name :: "(int \<times> string) list \<Rightarrow> int \<Rightarrow> string" where
  "state_name names n = (case map_of names n of None \<Rightarrow> [] | Some s \<Rightarrow> s)"

definition context_of_entity :: "base_entity \<Rightarrow> schema_entity" where
  "context_of_entity m = Context \<lparr>cr_ID = zero_if_nil (be_ID m), cr_TypeID = be_TypeID m,
     cr_Name = str_or_empty (at_Name (be_Attributes m)), cr_ExternalID = at_ExternalID (be_Attributes m),
     cr_CreateTime = zero_if_nil (at_CreateTime (be_Attributes m)),
     cr_LastUpdateTime = zero_if_nil (at_LastUpdateTime (be_Attributes m))\<rparr>"

definition artifact_of_entity :: "base_entity \<Rightarrow> schema_entity" where
  "artifact_of_entity m = Artifact \<lparr>ar_ID = zero_if_nil (be_ID m), ar_TypeID = be_TypeID m,
     ar_URI = at_URI (be_Attributes m), ar_State = map_option (state_value ArtifactStateMapping) (at_State (be_Attributes m)),
     ar_Name = at_Name (be_Attributes m), ar_ExternalID = at_ExternalID (be_Attributes m),
     ar_CreateTime = zero_if_nil (at_CreateTime (be_Attributes m)),
     ar_LastUpdateTime = zero_if_nil (at_LastUpdateTime (be_Attributes m))\<rparr>"

definition execution_of_entity :: "base_entity \<Rightarrow> schema_entity" where
  "execution_of_entity m = Execution \<lparr>er_ID = zero_if_nil (be_ID m), er_TypeID = be_TypeID m,
     er_LastKnownState = map_option (state_value ExecutionStateMapping) (at_State (be_Attributes m)),
     er_Name = at_Name (be_Attributes m), er_ExternalID = at_ExternalID (be_Attributes m),
     er_CreateTime = zero_if_nil (at_CreateTime (be_Attributes m)),
     er_LastUpdateTime = zero_if_nil (at_LastUpdateTime (be_Attributes m))\<rparr>"

definition property_rows :: "(stored_property \<Rightarrow> int \<Rightarrow> bool \<Rightarrow> property_row) \<Rightarrow> base_entity \<Rightarrow> int \<Rightarrow> property_row list" where
  "property_rows conv m i = map (\<lambda>p. conv p i False) (be_Properties m) @ map (\<lambda>p. conv p i True) (be_Custom m)"

fun row_attributes :: "schema_entity \<Rightarrow> attributes" where
  "row_attributes (Context r) = \<lparr>at_Name = Some (cr_Name r), at_URI = None, at_State = None, at_ExternalID = cr_ExternalID r,
     at_CreateTime = Some (cr_CreateTime r), at_LastUpdateTime = Some (cr_LastUpdateTime r)\<rparr>"
| "row_attributes (Artifact r) = \<lparr>at_Name = ar_Name r, at_URI = ar_URI r,
     at_State = map_option (state_name ArtifactStateNames) (ar_State r), at_ExternalID = ar_ExternalID r,
     at_CreateTime = Some (ar_CreateTime r), at_LastUpdateTime = Some (ar_LastUpdateTime r)\<rparr>"
| "row_attributes (Execution r) = \<lparr>at_Name = er_Name r, at_URI = None,
     at_State = map_option (state_name ExecutionStateNames) (er_LastKnownState r), at_ExternalID = er_ExternalID r,
     at_CreateTime = Some (er_CreateTime r), at_LastUpdateTime = Some (er_LastUpdateTime r)\<rparr>"

definition entity_of_row :: "(property_row \<Rightarrow> stored_property) \<Rightarrow> schema_entity \<Rightarrow> property_row list \<Rightarrow> base_entity" where
  "entity_of_row conv row ps = \<lparr>be_ID = Some (getEntityID row), be_TypeID = getTypeID row, be_Attributes = row_attributes row,
     be_Properties = map conv (filter (\<lambda>p. \<not> sp_IsCustom p) ps), be_Custom = map conv (filter sp_IsCustom ps)\<rparr>"

text \<open>
  \<open>NewGenericRepository\<close> of the package: the mapping functions of the registry. An entity is new when it has no id,
  and its custom properties are never nil.
\<close>

definition registry_repo :: "table_kind \<Rightarrow> int \<Rightarrow> (base_entity \<Rightarrow> schema_entity)
    \<Rightarrow> (schema_entity \<Rightarrow> property_row list \<Rightarrow> base_entity) \<Rightarrow> (base_entity \<Rightarrow> int \<Rightarrow> property_row list) \<Rightarrow> string \<Rightarrow> string
    \<Rightarrow> (list_options \<Rightarrow> gorm_db \<Rightarrow> gorm_db) \<Rightarrow> string option \<Rightarrow> (base_entity, list_options) repo_config" where
  "registry_repo k typeID toSchema fromSchema toProps notFound name filters rest = \<lparr>rc_Table = k, rc_TypeID = typeID,
     rc_EntityToSchema = toSchema, rc_SchemaToEntity = fromSchema, rc_EntityToProperties = toProps,
     rc_NotFoundError = notFound, rc_EntityName = name, rc_ApplyListFilters = Some filters,
     rc_CreatePaginationToken = None, rc_ApplyCustomOrdering = None,
     rc_IsNewEntity = Some (\<lambda>m. be_ID m = None), rc_HasCustomProperties = Some (\<lambda>m. True),
     rc_EntityMappingFuncs = defaultEntityMappings, rc_PreserveHistoricalTimes = False,
     rc_DeleteMissingProperties = False, rc_Pagination = pagination.truncate,
     rc_RestEntityType = map_option (\<lambda>t _. t) rest\<rparr>"

lemma registry_repo_mapping:
  assumes "\<And>m. table_of (toSchema m) = k" "\<And>m. getEntityID (toSchema m) = zero_if_nil (be_ID m)"
    and "\<And>m i p. p \<in> set (toProps m i) \<Longrightarrow> pr_EntityID p = i"
  shows "repo_mapping (registry_repo k t toSchema fromSchema toProps nf n f rest)"
  using assms by unfold_locales (auto simp: registry_repo_def call_opt_def zero_if_nil_def)

lemma table_of_entity [simp]:
  "table_of (context_of_entity m) = ContextTable" "getEntityID (context_of_entity m) = zero_if_nil (be_ID m)"
  "table_of (artifact_of_entity m) = ArtifactTable" "getEntityID (artifact_of_entity m) = zero_if_nil (be_ID m)"
  "table_of (execution_of_entity m) = ExecutionTable" "getEntityID (execution_of_entity m) = zero_if_nil (be_ID m)"
  by (simp_all add: context_of_entity_def artifact_of_entity_def execution_of_entity_def)

lemma property_rows_id:
  "p \<in> set (property_rows MapPropertiesToContextProperty m i) \<Longrightarrow> pr_EntityID p = i"
  "p \<in> set (property_rows MapPropertiesToArtifactProperty m i) \<Longrightarrow> pr_EntityID p = i"
  "p \<in> set (property_rows MapPropertiesToExecutionProperty m i) \<Longrightarrow> pr_EntityID p = i"
  by (auto simp: property_rows_def MapPropertiesToContextProperty_def MapPropertiesToArtifactProperty_def
      MapPropertiesToExecutionProperty_def)

text \<open>The parent of an entity that keeps its id as a property: the first such property with a value.\<close>

definition parent_property :: "string \<Rightarrow> base_entity \<Rightarrow> int option" where
  "parent_property name m =
     (case find (\<lambda>p. sp_Name p = name \<and> sp_Int p \<noteq> None) (be_Properties m) of None \<Rightarrow> None | Some p \<Rightarrow> sp_Int p)"

subsection \<open>Registered model\<close>

definition applyRegisteredModelListFilters :: "(string \<Rightarrow> string) \<Rightarrow> list_options \<Rightarrow> gorm_db \<Rightarrow> gorm_db" where
  "applyRegisteredModelListFilters quote = filter_plain"

definition mapRegisteredModelToContext :: "base_entity \<Rightarrow> schema_entity" where
  "mapRegisteredModelToContext m = context_of_entity m"

definition mapRegisteredModelToContextProperties :: "base_entity \<Rightarrow> int \<Rightarrow> property_row list" where
  "mapRegisteredModelToContextProperties m i = property_rows MapPropertiesToContextProperty m i"

definition mapDataLayerToRegisteredModel :: "schema_entity \<Rightarrow> property_row list \<Rightarrow> base_entity" where
  "mapDataLayerToRegisteredModel row ps = entity_of_row MapContextPropertyToProperties row ps"

definition NewRegisteredModelRepository :: "(string \<Rightarrow> string) \<Rightarrow> int \<Rightarrow> (base_entity, list_options) repo_config" where
  "NewRegisteredModelRepository quote typeID = registry_repo ContextTable typeID mapRegisteredModelToContext mapDataLayerToRegisteredModel
     mapRegisteredModelToContextProperties ''registered model by id not found'' ''registered model'' (applyRegisteredModelListFilters quote) (Some RestEntityRegisteredModel)"

interpretation registeredModel_repository: repo_mapping "NewRegisteredModelRepository quote typeID"
  unfolding NewRegisteredModelRepository_def
  by (rule registry_repo_mapping) (auto simp: mapRegisteredModelToContext_def mapRegisteredModelToContextProperties_def dest: property_rows_id)

definition SaveRegisteredModel :: "'s store_ops \<Rightarrow> (string \<Rightarrow> string) \<Rightarrow> int \<Rightarrow> int \<Rightarrow> base_entity \<Rightarrow> 's \<Rightarrow> (repo_error + base_entity) \<times> 's" where
  "SaveRegisteredModel ops quote typeID now m s = Save ops (NewRegisteredModelRepository quote typeID) now m None s"

subsection \<open>Model version\<close>

definition applyModelVersionListFilters :: "(string \<Rightarrow> string) \<Rightarrow> list_options \<Rightarrow> gorm_db \<Rightarrow> gorm_db" where
  "applyModelVersionListFilters quote = filter_child quote"

definition mapModelVersionToContext :: "base_entity \<Rightarrow> schema_entity" where
  "mapModelVersionToContext m = context_of_entity m"

definition mapModelVersionToContextProperties :: "base_entity \<Rightarrow> int \<Rightarrow> property_row list" where
  "mapModelVersionToContextProperties m i = property_rows MapPropertiesToContextProperty m i"

definition mapDataLayerToModelVersion :: "schema_entity \<Rightarrow> property_row list \<Rightarrow> base_entity" where
  "mapDataLayerToModelVersion row ps = entity_of_row MapContextPropertyToProperties row ps"

definition NewModelVersionRepository :: "(string \<Rightarrow> string) \<Rightarrow> int \<Rightarrow> (base_entity, list_options) repo_config" where
  "NewModelVersionRepository quote typeID = registry_repo ContextTable typeID mapModelVersionToContext mapDataLayerToModelVersion
     mapModelVersionToContextProperties ''model version by id not found'' ''model version'' (applyModelVersionListFilters quote) (Some RestEntityModelVersion)"

interpretation modelVersion_repository: repo_mapping "NewModelVersionRepository quote typeID"
  unfolding NewModelVersionRepository_def
  by (rule registry_repo_mapping) (auto simp: mapModelVersionToContext_def mapModelVersionToContextProperties_def dest: property_rows_id)

definition SaveModelVersion :: "'s store_ops \<Rightarrow> (string \<Rightarrow> string) \<Rightarrow> int \<Rightarrow> int \<Rightarrow> base_entity \<Rightarrow> 's \<Rightarrow> (repo_error + base_entity) \<times> 's" where
  "SaveModelVersion ops quote typeID now m s = Save ops (NewModelVersionRepository quote typeID) now m (parent_property ''registered_model_id'' m) s"

subsection \<open>Serving environment\<close>

definition applyServingEnvironmentListFilters :: "(string \<Rightarrow> string) \<Rightarrow> list_options \<Rightarrow> gorm_db \<Rightarrow> gorm_db" where
  "applyServingEnvironmentListFilters quote = filter_plain"

definition mapServingEnvironmentToContext :: "base_entity \<Rightarrow> schema_entity" where
  "mapServingEnvironmentToContext m = context_of_entity m"

definition mapServingEnvironmentToContextProperties :: "base_entity \<Rightarrow> int \<Rightarrow> property_row list" where
  "mapServingEnvironmentToContextProperties m i = property_rows MapPropertiesToContextProperty m i"

definition mapDataLayerToServingEnvironment :: "schema_entity \<Rightarrow> property_row list \<Rightarrow> base_entity" where
  "mapDataLayerToServingEnvironment row ps = entity_of_row MapContextPropertyToProperties row ps"

definition NewServingEnvironmentRepository :: "(string \<Rightarrow> string) \<Rightarrow> int \<Rightarrow> (base_entity, list_options) repo_config" where
  "NewServingEnvironmentRepository quote typeID = registry_repo ContextTable typeID mapServingEnvironmentToContext mapDataLayerToServingEnvironment
     mapServingEnvironmentToContextProperties ''serving environment by id not found'' ''serving environment'' (applyServingEnvironmentListFilters quote) (Some RestEntityServingEnvironment)"

interpretation servingEnvironment_repository: repo_mapping "NewServingEnvironmentRepository quote typeID"
  unfolding NewServingEnvironmentRepository_def
  by (rule registry_repo_mapping) (auto simp: mapServingEnvironmentToContext_def mapServingEnvironmentToContextProperties_def dest: property_rows_id)

definition SaveServingEnvironment :: "'s store_ops \<Rightarrow> (string \<Rightarrow> string) \<Rightarrow> int \<Rightarrow> int \<Rightarrow> base_entity \<Rightarrow> 's \<Rightarrow> (repo_error + base_entity) \<times> 's" where
  "SaveServingEnvironment ops quote typeID now m s = Save ops (NewServingEnvironmentRepository quote typeID) now m None s"

subsection \<open>The runtime filter\<close>

definition filter_runtime :: "(string \<Rightarrow> string) \<Rightarrow> list_options \<Rightarrow> gorm_db \<Rightarrow> gorm_db" where
  "filter_runtime quote listOptions query =
     (case lo_Runtime listOptions of
        None \<Rightarrow> query
      | Some r \<Rightarrow> add_call (Where (GetColumnRef quote ''ContextProperty'' ''string_value'' @ '' = ?'') [AnyStr r])
                   (add_call (Joins (BuildContextPropertyJoin quote ''runtime'')) query))"

subsection \<open>Inference service\<close>

definition applyInferenceServiceListFilters :: "(string \<Rightarrow> string) \<Rightarrow> list_options \<Rightarrow> gorm_db \<Rightarrow> gorm_db" where
  "applyInferenceServiceListFilters quote = (\<lambda>listOptions query. filter_runtime quote listOptions (filter_child quote listOptions query))"

definition mapInferenceServiceToContext :: "base_entity \<Rightarrow> schema_entity" where
  "mapInferenceServiceToContext m = context_of_entity m"

definition mapInferenceServiceToContextProperties :: "base_entity \<Rightarrow> int \<Rightarrow> property_row list" where
  "mapInferenceServiceToContextProperties m i = property_rows MapPropertiesToContextProperty m i"

definition mapDataLayerToInferenceService :: "schema_entity \<Rightarrow> property_row list \<Rightarrow> base_entity" where
  "mapDataLayerToInferenceService row ps = entity_of_row MapContextPropertyToProperties row ps"

definition NewInferenceServiceRepository :: "(string \<Rightarrow> string) \<Rightarrow> int \<Rightarrow> (base_entity, list_options) repo_config" where
  "NewInferenceServiceRepository quote typeID = registry_repo ContextTable typeID mapInferenceServiceToContext mapDataLayerToInferenceService
     mapInferenceServiceToContextProperties ''inference service by id not found'' ''inference service'' (applyInferenceServiceListFilters quote) (Some RestEntityInferenceService)"

interpretation inferenceService_repository: repo_mapping "NewInferenceServiceRepository quote typeID"
  unfolding NewInferenceServiceRepository_def
  by (rule registry_repo_mapping) (auto simp: mapInferenceServiceToContext_def mapInferenceServiceToContextProperties_def dest: property_rows_id)

definition SaveInferenceService :: "'s store_ops \<Rightarrow> (string \<Rightarrow> string) \<Rightarrow> int \<Rightarrow> int \<Rightarrow> base_entity \<Rightarrow> 's \<Rightarrow> (repo_error + base_entity) \<times> 's" where
  "SaveInferenceService ops quote typeID now m s = Save ops (NewInferenceServiceRepository quote typeID) now m (parent_property ''serving_environment_id'' m) s"

subsection \<open>Experiment\<close>

definition applyExperimentListFilters :: "(string \<Rightarrow> string) \<Rightarrow> list_options \<Rightarrow> gorm_db \<Rightarrow> gorm_db" where
  "applyExperimentListFilters quote = filter_plain"

definition mapExperimentToContext :: "base_entity \<Rightarrow> schema_entity" where
  "mapExperimentToContext m = context_of_entity m"

definition mapExperimentToContextProperties :: "base_entity \<Rightarrow> int \<Rightarrow> property_row list" where
  "mapExperimentToContextProperties m i = property_rows MapPropertiesToContextProperty m i"

definition mapDataLayerToExperiment :: "schema_entity \<Rightarrow> property_row list \<Rightarrow> base_entity" where
  "mapDataLayerToExperiment row ps = entity_of_row MapContextPropertyToProperties row ps"

definition NewExperimentRepository :: "(string \<Rightarrow> string) \<Rightarrow> int \<Rightarrow> (base_entity, list_options) repo_config" where
  "NewExperimentRepository quote typeID = registry_repo ContextTable typeID mapExperimentToContext mapDataLayerToExperiment
     mapExperimentToContextProperties ''experiment by id not found'' ''experiment'' (applyExperimentListFilters quote) (Some RestEntityExperiment)"

interpretation experiment_repository: repo_mapping "NewExperimentRepository quote typeID"
  unfolding NewExperimentRepository_def
  by (rule registry_repo_mapping) (auto simp: mapExperimentToContext_def mapExperimentToContextProperties_def dest: property_rows_id)

definition SaveExperiment :: "'s store_ops \<Rightarrow> (string \<Rightarrow> string) \<Rightarrow> int \<Rightarrow> int \<Rightarrow> base_entity \<Rightarrow> 's \<Rightarrow> (repo_error + base_entity) \<times> 's" where
  "SaveExperiment ops quote typeID now m s = Save ops (NewExperimentRepository quote typeID) now m None s"

subsection \<open>Experiment run\<close>

definition applyExperimentRunListFilters :: "(string \<Rightarrow> string) \<Rightarrow> list_options \<Rightarrow> gorm_db \<Rightarrow> gorm_db" where
  "applyExperimentRunListFilters quote = filter_child quote"

definition mapExperimentRunToContext :: "base_entity \<Rightarrow> schema_entity" where
  "mapExperimentRunToContext m = context_of_entity m"

definition mapExperimentRunToContextProperties :: "base_entity \<Rightarrow> int \<Rightarrow> property_row list" where
  "mapExperimentRunToContextProperties m i = property_rows MapPropertiesToContextProperty m i"

definition mapDataLayerToExperimentRun :: "schema_entity \<Rightarrow> property_row list \<Rightarrow> base_entity" where
  "mapDataLayerToExperimentRun row ps = entity_of_row MapContextPropertyToProperties row ps"

definition NewExperimentRunRepository :: "(string \<Rightarrow> string) \<Rightarrow> int \<Rightarrow> (base_entity, list_options) repo_config" where
  "NewExperimentRunRepository quote typeID = registry_repo ContextTable typeID mapExperimentRunToContext mapDataLayerToExperimentRun
     mapExperimentRunToContextProperties ''experiment run by id not found'' ''experiment run'' (applyExperimentRunListFilters quote) (Some RestEntityExperimentRun)"

interpretation experimentRun_repository: repo_mapping "NewExperimentRunRepository quote typeID"
  unfolding NewExperimentRunRepository_def
  by (rule registry_repo_mapping) (auto simp: mapExperimentRunToContext_def mapExperimentRunToContextProperties_def dest: property_rows_id)

definition SaveExperimentRun :: "'s store_ops \<Rightarrow> (string \<Rightarrow> string) \<Rightarrow> int \<Rightarrow> int \<Rightarrow> base_entity \<Rightarrow> int option \<Rightarrow> 's \<Rightarrow> (repo_error + base_entity) \<times> 's" where
  "SaveExperimentRun ops quote typeID now m parent s = Save ops (NewExperimentRunRepository quote typeID) now m parent s"

subsection \<open>Model artifact\<close>

definition applyModelArtifactListFilters :: "(string \<Rightarrow> string) \<Rightarrow> list_options \<Rightarrow> gorm_db \<Rightarrow> gorm_db" where
  "applyModelArtifactListFilters quote = filter_artifact quote"

definition mapModelArtifactToArtifact :: "base_entity \<Rightarrow> schema_entity" where
  "mapModelArtifactToArtifact m = artifact_of_entity m"

definition mapModelArtifactToArtifactProperties :: "base_entity \<Rightarrow> int \<Rightarrow> property_row list" where
  "mapModelArtifactToArtifactProperties m i = property_rows MapPropertiesToArtifactProperty m i"

definition mapDataLayerToModelArtifact :: "schema_entity \<Rightarrow> property_row list \<Rightarrow> base_entity" where
  "mapDataLayerToModelArtifact row ps = entity_of_row MapArtifactPropertyToProperties row ps"

definition NewModelArtifactRepository :: "(string \<Rightarrow> string) \<Rightarrow> int \<Rightarrow> (base_entity, list_options) repo_config" where
  "NewModelArtifactRepository quote typeID = registry_repo ArtifactTable typeID mapModelArtifactToArtifact mapDataLayerToModelArtifact
     mapModelArtifactToArtifactProperties ''model artifact by id not found'' ''model artifact'' (applyModelArtifactListFilters quote) (Some RestEntityModelArtifact)"

interpretation modelArtifact_repository: repo_mapping "NewModelArtifactRepository quote typeID"
  unfolding NewModelArtifactRepository_def
  by (rule registry_repo_mapping) (auto simp: mapModelArtifactToArtifact_def mapModelArtifactToArtifactProperties_def dest: property_rows_id)

subsection \<open>Doc artifact\<close>

definition applyDocArtifactListFilters :: "(string \<Rightarrow> string) \<Rightarrow> list_options \<Rightarrow> gorm_db \<Rightarrow> gorm_db" where
  "applyDocArtifactListFilters quote = filter_artifact quote"

definition mapDocArtifactToArtifact :: "base_entity \<Rightarrow> schema_entity" where
  "mapDocArtifactToArtifact m = artifact_of_entity m"

definition mapDocArtifactToArtifactProperties :: "base_entity \<Rightarrow> int \<Rightarrow> property_row list" where
  "mapDocArtifactToArtifactProperties m i = property_rows MapPropertiesToArtifactProperty m i"

definition mapDataLayerToDocArtifact :: "schema_entity \<Rightarrow> property_row list \<Rightarrow> base_entity" where
  "mapDataLayerToDocArtifact row ps = entity_of_row MapArtifactPropertyToProperties row ps"

definition NewDocArtifactRepository :: "(string \<Rightarrow> string) \<Rightarrow> int \<Rightarrow> (base_entity, list_options) repo_config" where
  "NewDocArtifactRepository quote typeID = registry_repo ArtifactTable typeID mapDocArtifactToArtifact mapDataLayerToDocArtifact
     mapDocArtifactToArtifactProperties ''doc artifact by id not found'' ''doc artifact'' (applyDocArtifactListFilters quote) None"

interpretation docArtifact_repository: repo_mapping "NewDocArtifactRepository quote typeID"
  unfolding NewDocArtifactRepository_def
  by (rule registry_repo_mapping) (auto simp: mapDocArtifactToArtifact_def mapDocArtifactToArtifactProperties_def dest: property_rows_id)

subsection \<open>Dataset\<close>

definition applyDataSetListFilters :: "(string \<Rightarrow> string) \<Rightarrow> list_options \<Rightarrow> gorm_db \<Rightarrow> gorm_db" where
  "applyDataSetListFilters quote = filter_artifact quote"

definition mapDataSetToArtifact :: "base_entity \<Rightarrow> schema_entity" where
  "mapDataSetToArtifact m = artifact_of_entity m"

definition mapDataSetToArtifactProperties :: "base_entity \<Rightarrow> int \<Rightarrow> property_row list" where
  "mapDataSetToArtifactProperties m i = property_rows MapPropertiesToArtifactProperty m i"

definition mapDataLayerToDataSet :: "schema_entity \<Rightarrow> property_row list \<Rightarrow> base_entity" where
  "mapDataLayerToDataSet row ps = entity_of_row MapArtifactPropertyToProperties row ps"

definition NewDataSetRepository :: "(string \<Rightarrow> string) \<Rightarrow> int \<Rightarrow> (base_entity, list_options) repo_config" where
  "NewDataSetRepository quote typeID = registry_repo ArtifactTable typeID mapDataSetToArtifact mapDataLayerToDataSet
     mapDataSetToArtifactProperties ''dataset by id not found'' ''dataset'' (applyDataSetListFilters quote) None"

interpretation dataSet_repository: repo_mapping "NewDataSetRepository quote typeID"
  unfolding NewDataSetRepository_def
  by (rule registry_repo_mapping) (auto simp: mapDataSetToArtifact_def mapDataSetToArtifactProperties_def dest: property_rows_id)

subsection \<open>Metric\<close>

definition applyMetricListFilters :: "(string \<Rightarrow> string) \<Rightarrow> list_options \<Rightarrow> gorm_db \<Rightarrow> gorm_db" where
  "applyMetricListFilters quote = filter_artifact quote"

definition mapMetricToArtifact :: "base_entity \<Rightarrow> schema_entity" where
  "mapMetricToArtifact m = artifact_of_entity m"

definition mapMetricToArtifactProperties :: "base_entity \<Rightarrow> int \<Rightarrow> property_row list" where
  "mapMetricToArtifactProperties m i = property_rows MapPropertiesToArtifactProperty m i"

definition mapDataLayerToMetric :: "schema_entity \<Rightarrow> property_row list \<Rightarrow> base_entity" where
  "mapDataLayerToMetric row ps = entity_of_row MapArtifactPropertyToProperties row ps"

definition NewMetricRepository :: "(string \<Rightarrow> string) \<Rightarrow> int \<Rightarrow> (base_entity, list_options) repo_config" where
  "NewMetricRepository quote typeID = registry_repo ArtifactTable typeID mapMetricToArtifact mapDataLayerToMetric
     mapMetricToArtifactProperties ''metric by id not found'' ''metric'' (applyMetricListFilters quote) None"

interpretation metric_repository: repo_mapping "NewMetricRepository quote typeID"
  unfolding NewMetricRepository_def
  by (rule registry_repo_mapping) (auto simp: mapMetricToArtifact_def mapMetricToArtifactProperties_def dest: property_rows_id)

subsection \<open>Parameter\<close>

definition applyParameterListFilters :: "(string \<Rightarrow> string) \<Rightarrow> list_options \<Rightarrow> gorm_db \<Rightarrow> gorm_db" where
  "applyParameterListFilters quote = filter_artifact quote"

definition mapParameterToArtifact :: "base_entity \<Rightarrow> schema_entity" where
  "mapParameterToArtifact m = artifact_of_entity m"

definition mapParameterToArtifactProperties :: "base_entity \<Rightarrow> int \<Rightarrow> property_row list" where
  "mapParameterToArtifactProperties m i = property_rows MapPropertiesToArtifactProperty m i"

definition mapDataLayerToParameter :: "schema_entity \<Rightarrow> property_row list \<Rightarrow> base_entity" where
  "mapDataLayerToParameter row ps = entity_of_row MapArtifactPropertyToProperties row ps"

definition NewParameterRepository :: "(string \<Rightarrow> string) \<Rightarrow> int \<Rightarrow> (base_entity, list_options) repo_config" where
  "NewParameterRepository quote typeID = registry_repo ArtifactTable typeID mapParameterToArtifact mapDataLayerToParameter
     mapParameterToArtifactProperties ''parameter by id not found'' ''parameter'' (applyParameterListFilters quote) None"

interpretation parameter_repository: repo_mapping "NewParameterRepository quote typeID"
  unfolding NewParameterRepository_def
  by (rule registry_repo_mapping) (auto simp: mapParameterToArtifact_def mapParameterToArtifactProperties_def dest: property_rows_id)

subsection \<open>Metric history\<close>

text \<open>\<open>parseStepIds\<close>: blank parts are skipped, the first part that is no \<open>int32\<close> is the error.\<close>

fun parse_step_parts :: "string list \<Rightarrow> string + int list" where
  "parse_step_parts [] = Inr []"
| "parse_step_parts (part # parts) =
     (let p = trim_space part
      in if p = [] then parse_step_parts parts
         else case parse_int 32 p of
                Inl err \<Rightarrow> Inl p
              | Inr n \<Rightarrow> try_bind (parse_step_parts parts) (\<lambda>ns. Inr (n # ns)))"

definition parseStepIds :: "string \<Rightarrow> string + int list" where
  "parseStepIds stepIds = (if stepIds = [] then Inr [] else parse_step_parts (split_char CHR '','' stepIds))"

definition join_run :: "(string \<Rightarrow> string) \<Rightarrow> list_options \<Rightarrow> gorm_db \<Rightarrow> gorm_db" where
  "join_run quote listOptions query =
     (case lo_ParentResourceID listOptions of
        Some p \<Rightarrow> join_parent quote (BuildAttributionJoin quote) ''Attribution'' ''context_id'' p query
      | None \<Rightarrow> query)"

definition applyMetricHistoryListFilters :: "(string \<Rightarrow> string) \<Rightarrow> list_options \<Rightarrow> gorm_db \<Rightarrow> gorm_db" where
  "applyMetricHistoryListFilters quote listOptions query =
     (let query1 = (case lo_Name listOptions of
          Some n \<Rightarrow> where_name (getTableName quote ''Artifact'' @ ''.name'') (''%'' @ n @ ''%'') query
        | None \<Rightarrow> (case lo_ExternalID listOptions of
              Some x \<Rightarrow> where_external_id (getTableName quote ''Artifact'' @ ''.external_id'') x query
            | None \<Rightarrow> query))
      in case lo_StepIds listOptions of
           None \<Rightarrow> join_run quote listOptions query1
         | Some stepIds \<Rightarrow>
             if stepIds = [] then join_run quote listOptions query1
             else (case parseStepIds stepIds of
                 Inl err \<Rightarrow> query1
               | Inr ids \<Rightarrow>
                   if ids = [] then join_run quote listOptions query1
                   else join_run quote listOptions
                     (add_call (Where ''step_props.name = ? AND step_props.int_value IN (?)''
                                  [AnyStr ''step'', AnyList (map AnyInt32 ids)])
                       (add_call (Joins (''JOIN '' @ getTableName quote ''ArtifactProperty'' @ '' AS step_props ON step_props.artifact_id = ''
                                  @ getTableName quote ''Artifact'' @ ''.id'')) query1))))"

definition mapMetricHistoryToArtifact :: "base_entity \<Rightarrow> schema_entity" where
  "mapMetricHistoryToArtifact m = artifact_of_entity m"

definition mapMetricHistoryToArtifactProperties :: "base_entity \<Rightarrow> int \<Rightarrow> property_row list" where
  "mapMetricHistoryToArtifactProperties m i = property_rows MapPropertiesToArtifactProperty m i"

definition mapDataLayerToMetricHistory :: "schema_entity \<Rightarrow> property_row list \<Rightarrow> base_entity" where
  "mapDataLayerToMetricHistory row ps = entity_of_row MapArtifactPropertyToProperties row ps"

definition NewMetricHistoryRepository :: "(string \<Rightarrow> string) \<Rightarrow> int \<Rightarrow> (base_entity, list_options) repo_config" where
  "NewMetricHistoryRepository quote typeID = registry_repo ArtifactTable typeID mapMetricHistoryToArtifact mapDataLayerToMetricHistory
     mapMetricHistoryToArtifactProperties ''metric history by id not found'' ''metric history'' (applyMetricHistoryListFilters quote) (Some RestEntityMetric)"

interpretation metricHistory_repository: repo_mapping "NewMetricHistoryRepository quote typeID"
  unfolding NewMetricHistoryRepository_def
  by (rule registry_repo_mapping) (auto simp: mapMetricHistoryToArtifact_def mapMetricHistoryToArtifactProperties_def dest: property_rows_id)

subsection \<open>Serve model\<close>

definition applyServeModelListFilters :: "(string \<Rightarrow> string) \<Rightarrow> list_options \<Rightarrow> gorm_db \<Rightarrow> gorm_db" where
  "applyServeModelListFilters quote listOptions query =
     (let query1 = (case lo_Name listOptions of
          Some n \<Rightarrow> where_name (getTableName quote ''Execution'' @ ''.name'') (''%:'' @ n) query
        | None \<Rightarrow> (case lo_ExternalID listOptions of
              Some x \<Rightarrow> where_external_id (getTableName quote ''Execution'' @ ''.external_id'') x query
            | None \<Rightarrow> query))
      in case lo_ParentResourceID listOptions of
           Some p \<Rightarrow> join_parent quote (BuildAssociationJoin quote) ''Association'' ''context_id'' p query1
         | None \<Rightarrow> query1)"

definition mapServeModelToExecution :: "base_entity \<Rightarrow> schema_entity" where
  "mapServeModelToExecution m = execution_of_entity m"

definition mapServeModelToExecutionProperties :: "base_entity \<Rightarrow> int \<Rightarrow> property_row list" where
  "mapServeModelToExecutionProperties m i = property_rows MapPropertiesToExecutionProperty m i"

definition mapDataLayerToServeModel :: "schema_entity \<Rightarrow> property_row list \<Rightarrow> base_entity" where
  "mapDataLayerToServeModel row ps = entity_of_row MapExecutionPropertyToProperties row ps"

definition NewServeModelRepository :: "(string \<Rightarrow> string) \<Rightarrow> int \<Rightarrow> (base_entity, list_options) repo_config" where
  "NewServeModelRepository quote typeID = registry_repo ExecutionTable typeID mapServeModelToExecution mapDataLayerToServeModel
     mapServeModelToExecutionProperties ''serve model by id not found'' ''serve model'' (applyServeModelListFilters quote) (Some RestEntityServeModel)"

interpretation serveModel_repository: repo_mapping "NewServeModelRepository quote typeID"
  unfolding NewServeModelRepository_def
  by (rule registry_repo_mapping) (auto simp: mapServeModelToExecution_def mapServeModelToExecutionProperties_def dest: property_rows_id)

lemmas repository_defs = NewRegisteredModelRepository_def mapRegisteredModelToContext_def mapRegisteredModelToContextProperties_def mapDataLayerToRegisteredModel_def
  NewModelVersionRepository_def mapModelVersionToContext_def mapModelVersionToContextProperties_def mapDataLayerToModelVersion_def
  NewServingEnvironmentRepository_def mapServingEnvironmentToContext_def mapServingEnvironmentToContextProperties_def mapDataLayerToServingEnvironment_def
  NewInferenceServiceRepository_def mapInferenceServiceToContext_def mapInferenceServiceToContextProperties_def mapDataLayerToInferenceService_def
  NewExperimentRepository_def mapExperimentToContext_def mapExperimentToContextProperties_def mapDataLayerToExperiment_def
  NewExperimentRunRepository_def mapExperimentRunToContext_def mapExperimentRunToContextProperties_def mapDataLayerToExperimentRun_def
  NewModelArtifactRepository_def mapModelArtifactToArtifact_def mapModelArtifactToArtifactProperties_def mapDataLayerToModelArtifact_def
  NewDocArtifactRepository_def mapDocArtifactToArtifact_def mapDocArtifactToArtifactProperties_def mapDataLayerToDocArtifact_def
  NewDataSetRepository_def mapDataSetToArtifact_def mapDataSetToArtifactProperties_def mapDataLayerToDataSet_def
  NewMetricRepository_def mapMetricToArtifact_def mapMetricToArtifactProperties_def mapDataLayerToMetric_def
  NewParameterRepository_def mapParameterToArtifact_def mapParameterToArtifactProperties_def mapDataLayerToParameter_def
  NewMetricHistoryRepository_def mapMetricHistoryToArtifact_def mapMetricHistoryToArtifactProperties_def mapDataLayerToMetricHistory_def
  NewServeModelRepository_def mapServeModelToExecution_def mapServeModelToExecutionProperties_def mapDataLayerToServeModel_def

subsection \<open>Artifacts of any type\<close>

text \<open>The type of a stored artifact; in Go a struct of five pointers of which one is set.\<close>

datatype stored_artifact =
    StoredModelArtifact base_entity
  | StoredDocArtifact base_entity
  | StoredDataSet base_entity
  | StoredMetric base_entity
  | StoredParameter base_entity

definition RegisteredModelTypeName :: string where "RegisteredModelTypeName = ''kf.RegisteredModel''"
definition ModelVersionTypeName :: string where "ModelVersionTypeName = ''kf.ModelVersion''"
definition ModelArtifactTypeName :: string where "ModelArtifactTypeName = ''kf.ModelArtifact''"
definition DocArtifactTypeName :: string where "DocArtifactTypeName = ''kf.DocArtifact''"
definition ServingEnvironmentTypeName :: string where "ServingEnvironmentTypeName = ''kf.ServingEnvironment''"
definition InferenceServiceTypeName :: string where "InferenceServiceTypeName = ''kf.InferenceService''"
definition ServeModelTypeName :: string where "ServeModelTypeName = ''kf.ServeModel''"
definition ExperimentTypeName :: string where "ExperimentTypeName = ''kf.Experiment''"
definition ExperimentRunTypeName :: string where "ExperimentRunTypeName = ''kf.ExperimentRun''"
definition DataSetTypeName :: string where "DataSetTypeName = ''kf.DataSet''"
definition MetricTypeName :: string where "MetricTypeName = ''kf.Metric''"
definition MetricHistoryTypeName :: string where "MetricHistoryTypeName = ''kf.MetricHistory''"
definition ParameterTypeName :: string where "ParameterTypeName = ''kf.Parameter''"

type_synonym type_map = "(string \<times> int) list"

text \<open>\<open>nameToID\<close> and its inverse; type ids are unique.\<close>

definition name_to_id :: "type_map \<Rightarrow> string \<Rightarrow> int" where
  "name_to_id types n = (case map_of types n of None \<Rightarrow> 0 | Some i \<Rightarrow> i)"

definition id_to_name :: "type_map \<Rightarrow> int \<Rightarrow> string" where
  "id_to_name types i = (case map_of (map prod.swap types) i of None \<Rightarrow> [] | Some n \<Rightarrow> n)"

definition mapDataLayerToArtifact :: "type_map \<Rightarrow> schema_entity \<Rightarrow> property_row list \<Rightarrow> repo_error + stored_artifact" where
  "mapDataLayerToArtifact types artifact properties =
     (let typeName = id_to_name types (getTypeID artifact)
      in if typeName = ModelArtifactTypeName then Inr (StoredModelArtifact (mapDataLayerToModelArtifact artifact properties))
         else if typeName = DocArtifactTypeName then Inr (StoredDocArtifact (mapDataLayerToDocArtifact artifact properties))
         else if typeName = DataSetTypeName then Inr (StoredDataSet (mapDataLayerToDataSet artifact properties))
         else if typeName = MetricTypeName then Inr (StoredMetric (mapDataLayerToMetric artifact properties))
         else if typeName = ParameterTypeName then Inr (StoredParameter (mapDataLayerToParameter artifact properties))
         else Inl (Wrapped (''error mapping artifact: invalid artifact type: '' @ typeName @ ''='')
                     (OtherDbError (itoa (getTypeID artifact)))))"

definition getTypeIDFromArtifactType :: "type_map \<Rightarrow> string \<Rightarrow> int option" where
  "getTypeIDFromArtifactType types artifactType =
     (if artifactType = ''model-artifact'' then Some (name_to_id types ModelArtifactTypeName)
      else if artifactType = ''doc-artifact'' then Some (name_to_id types DocArtifactTypeName)
      else if artifactType = ''dataset-artifact'' then Some (name_to_id types DataSetTypeName)
      else if artifactType = ''metric'' then Some (name_to_id types MetricTypeName)
      else if artifactType = ''parameter'' then Some (name_to_id types ParameterTypeName)
      else None)"

definition ArtifactListOptions_GetRestEntityType :: "list_options \<Rightarrow> string" where
  "ArtifactListOptions_GetRestEntityType a =
     (case lo_ArtifactType a of
        None \<Rightarrow> RestEntityModelArtifact
      | Some t \<Rightarrow>
          if t = ''model-artifact'' then RestEntityModelArtifact
          else if t = ''doc-artifact'' then RestEntityDocArtifact
          else if t = ''dataset-artifact'' then RestEntityDataSet
          else if t = ''metric'' then RestEntityMetric
          else if t = ''parameter'' then RestEntityParameter
          else RestEntityModelArtifact)"

text \<open>The by-id read has no type in its query.\<close>

definition ArtifactRepository_GetByID ::
  "'s store_ops \<Rightarrow> type_map \<Rightarrow> int \<Rightarrow> 's \<Rightarrow> repo_error + stored_artifact" where
  "ArtifactRepository_GetByID ops types i s =
     (case so_by_any ops ArtifactTable i s of
        Inl RecordNotFound \<Rightarrow> Inl (NotFound ''artifact by id not found: record not found'')
      | Inl err \<Rightarrow> Inl (Wrapped ''error getting artifact by id: '' err)
      | Inr artifact \<Rightarrow>
          try_bind (wrap ''error getting properties by artifact id: '' (so_props ops ArtifactTable (getEntityID artifact) s))
            (mapDataLayerToArtifact types artifact))"

definition artifact_list_query ::
  "filter_parser \<Rightarrow> (string \<Rightarrow> string) \<Rightarrow> string \<Rightarrow> type_map \<Rightarrow> list_options \<Rightarrow> repo_error + gorm_db" where
  "artifact_list_query parser quote d types opts =
     (let query0 = \<lparr>dialect = d, calls = []\<rparr>;
          query1 = (case map_of types MetricHistoryTypeName of
              None \<Rightarrow> query0 | Some i \<Rightarrow> add_call (Where ''type_id != ?'' [AnyInt32 i]) query0);
          query2 = (case lo_Name opts of
              Some n \<Rightarrow> where_name ''name'' (''%:'' @ n) query1
            | None \<Rightarrow> (case lo_ExternalID opts of Some x \<Rightarrow> where_external_id ''external_id'' x query1 | None \<Rightarrow> query1))
      in try_bind (case lo_ArtifactType opts of
             None \<Rightarrow> Inr query2
           | Some t \<Rightarrow>
               if t = ''null'' \<or> t = [] then Inl (BadRequest ''invalid artifact type: empty or null value provided'')
               else (case getTypeIDFromArtifactType types t of
                   None \<Rightarrow> Inl (BadRequest (''invalid artifact type '' @ t))
                 | Some i \<Rightarrow> Inr (add_call (Where (getTableName quote ''Artifact'' @ ''.type_id = ?'') [AnyInt32 i]) query2)))
           (\<lambda>query3. try_bind (ApplyFilterQuery parser (Some (ArtifactListOptions_GetRestEntityType opts))
                         (pagination.truncate opts) defaultEntityMappings query3)
             (\<lambda>query4. Inr (case lo_ParentResourceID opts of
                 Some p \<Rightarrow> PaginateWithTablePrefix (pagination.truncate opts) ''Artifact''
                     (join_parent quote (BuildAttributionJoin quote) ''Attribution'' ''context_id'' p query4)
               | None \<Rightarrow> Paginate (pagination.truncate opts) query4))))"

definition ArtifactRepository_List ::
  "(float64 \<Rightarrow> string) \<Rightarrow> filter_parser \<Rightarrow> (string \<Rightarrow> string) \<Rightarrow> string \<Rightarrow> 's store_ops \<Rightarrow> type_map \<Rightarrow> list_options \<Rightarrow> 's
    \<Rightarrow> repo_error + stored_artifact list_wrapper" where
  "ArtifactRepository_List fmt parser quote d ops types opts s =
     (let pageSize = GetPageSize (pagination.truncate opts)
      in try_bind (artifact_list_query parser quote d types opts) (\<lambda>query.
         try_bind (wrap ''error listing artifacts: '' (so_find ops ArtifactTable query s)) (\<lambda>found.
           (let rows = (if has_more pageSize found then butlast found else found)
            in try_bind (try_map (\<lambda>a. try_bind
                   (wrap ''error getting properties by artifact id: '' (so_props ops ArtifactTable (getEntityID a) s))
                   (mapDataLayerToArtifact types a)) rows) (\<lambda>items.
               Inr \<lparr>lw_Items = items,
                 lw_NextPageToken = (if has_more pageSize found \<and> rows \<noteq> []
                   then CreateDefaultPaginationToken fmt (last rows) (pagination.truncate opts) else []),
                 lw_PageSize = pageSize, lw_Size = to_int32 (int (length items))\<rparr>)))))"

end
