(* ===== verification/Catalog_Models.thy ===== *)
theory Catalog_Models
  imports Service_Repositories Filter_Query
begin

section \<open>The repository of catalog models\<close>

text \<open>
  \<open>catalog/internal/catalog/modelcatalog/service/catalog_model.go\<close>: how a catalog model is stored (its name and
  external id carry the id of its source), saved and looked up, the filters and orders of its list with their
  page tokens, and the conditions on artifacts that are taken from a filter for sorting. Rows, properties and
  the generic \<open>Save\<close> are those of \<open>Store\<close>; \<open>quote\<close> is the quoting of a table name.
\<close>

subsection \<open>Catalog models\<close>

text \<open>\<open>CatalogModelImpl\<close>, with its nil pointers.\<close>

record catalog_attributes =
  ca_Name :: "string option"
  ca_ExternalID :: "string option"
  ca_CreateTime :: "int option"
  ca_LastUpdateTime :: "int option"

record catalog_model =
  cm_ID :: "int option"
  cm_TypeID :: "int option"
  cm_Attributes :: "catalog_attributes option"
  cm_Properties :: "stored_property list option"
  cm_Custom :: "stored_property list option"

record catalog_list_options = pagination +
  co_Name :: "string option"
  co_ExternalID :: "string option"
  co_SourceIDs :: "string list option"
  co_Query :: "string option"

subsection \<open>Names with their source\<close>

definition is_source_property :: "'a stored_property_scheme \<Rightarrow> bool" where
  "is_source_property p = (sp_Name p = ''source_id'' \<and> sp_String p \<noteq> None)"

definition source_of_properties :: "'a stored_property_scheme list \<Rightarrow> string" where
  "source_of_properties ps = (case find is_source_property ps of None \<Rightarrow> [] | Some p \<Rightarrow> the (sp_String p))"

definition getSourceIDFromProperties :: "catalog_model \<Rightarrow> string" where
  "getSourceIDFromProperties m = (case cm_Properties m of None \<Rightarrow> [] | Some ps \<Rightarrow> source_of_properties ps)"

definition getSourceIDFromContextProperties :: "property_row list \<Rightarrow> string" where
  "getSourceIDFromContextProperties ps = source_of_properties ps"

definition with_source :: "string \<Rightarrow> string \<Rightarrow> string" where
  "with_source sourceID s =
     (let p = sourceID @ '':'' in if sourceID \<noteq> [] \<and> \<not> hasPrefix s p then p @ s else s)"

definition model_name :: "catalog_model \<Rightarrow> string option" where
  "model_name m = Option.bind (cm_Attributes m) ca_Name"

definition set_name :: "string \<Rightarrow> catalog_model \<Rightarrow> catalog_model" where
  "set_name n m = m\<lparr>cm_Attributes := map_option (\<lambda>a. a\<lparr>ca_Name := Some n\<rparr>) (cm_Attributes m)\<rparr>"

definition escapeLike :: "string \<Rightarrow> string" where
  "escapeLike s = concat (map (\<lambda>c. if c = bslash \<or> c = CHR ''%'' \<or> c = CHR ''_'' then [bslash, c] else [c]) s)"

subsection \<open>Rows\<close>

definition mapCatalogModelToContext :: "catalog_model \<Rightarrow> schema_entity" where
  "mapCatalogModelToContext m =
     (let base = \<lparr>cr_ID = zero_if_nil (cm_ID m), cr_TypeID = zero_if_nil (cm_TypeID m), cr_Name = [], cr_ExternalID = None,
                  cr_CreateTime = 0, cr_LastUpdateTime = 0\<rparr>
      in Context (case cm_Attributes m of
           None \<Rightarrow> base
         | Some a \<Rightarrow> base\<lparr>cr_Name := str_or_empty (ca_Name a),
             cr_ExternalID := map_option (\<lambda>x. if x = [] then x else with_source (getSourceIDFromProperties m) x) (ca_ExternalID a),
             cr_CreateTime := zero_if_nil (ca_CreateTime a), cr_LastUpdateTime := zero_if_nil (ca_LastUpdateTime a)\<rparr>))"

definition mapCatalogModelToContextProperties :: "catalog_model \<Rightarrow> int \<Rightarrow> property_row list" where
  "mapCatalogModelToContextProperties m i =
     (case cm_Properties m of None \<Rightarrow> [] | Some ps \<Rightarrow> map (\<lambda>p. MapPropertiesToContextProperty p i False) ps)
     @ (case cm_Custom m of None \<Rightarrow> [] | Some ps \<Rightarrow> map (\<lambda>p. MapPropertiesToContextProperty p i True) ps)"

definition display_external_id :: "string \<Rightarrow> string option \<Rightarrow> string option" where
  "display_external_id sourceID x =
     (case x of None \<Rightarrow> None
      | Some s \<Rightarrow> Some (if s \<noteq> [] \<and> sourceID \<noteq> [] then trimPrefix s (sourceID @ '':'') else s))"

definition mapDataLayerToCatalogModel :: "schema_entity \<Rightarrow> property_row list \<Rightarrow> catalog_model" where
  "mapDataLayerToCatalogModel row ps =
     \<lparr>cm_ID = Some (getEntityID row), cm_TypeID = Some (getTypeID row),
      cm_Attributes = Some \<lparr>ca_Name = getName row,
        ca_ExternalID = (case row of Context v \<Rightarrow> display_external_id (getSourceIDFromContextProperties ps) (cr_ExternalID v) | _ \<Rightarrow> None),
        ca_CreateTime = Some (getCreateTime row), ca_LastUpdateTime = Some (getLastUpdateTime row)\<rparr>,
      cm_Properties = Some (map MapContextPropertyToProperties (filter (\<lambda>p. \<not> sp_IsCustom p) ps)),
      cm_Custom = Some (map MapContextPropertyToProperties (filter sp_IsCustom ps))\<rparr>"

subsection \<open>Filters of the list\<close>

definition query_condition :: "(string \<Rightarrow> string) \<Rightarrow> string" where
  "query_condition quote =
     (let contextTable = getTableName quote ''Context''; propertyTable = getTableName quote ''ContextProperty'';
          property = (\<lambda>marks. ''EXISTS (SELECT 1 FROM '' @ propertyTable @ '' cp WHERE cp.context_id = '' @ contextTable
             @ ''.id AND cp.name IN ('' @ marks @ '') AND LOWER(cp.string_value) LIKE ?)'')
      in ''(LOWER('' @ contextTable @ ''.name) LIKE ? OR '' @ property ''?, ?, ?'' @ '' OR '' @ property ''?, ?'' @ '')'')"

definition query_arguments :: "string \<Rightarrow> go_any list" where
  "query_arguments q =
     (let pattern = AnyStr (''%'' @ to_lower q @ ''%'')
      in [pattern, AnyStr ''description'', AnyStr ''provider'', AnyStr ''libraryName'', pattern,
          AnyStr ''tasks'', AnyStr ''validated_tasks'', pattern])"

definition non_empty_sources :: "catalog_list_options \<Rightarrow> string list" where
  "non_empty_sources opts = (case co_SourceIDs opts of None \<Rightarrow> [] | Some xs \<Rightarrow> filter (\<lambda>x. x \<noteq> []) xs)"

definition applyCatalogModelListFilters :: "(string \<Rightarrow> string) \<Rightarrow> catalog_list_options \<Rightarrow> gorm_db \<Rightarrow> gorm_db" where
  "applyCatalogModelListFilters quote opts query =
     (let contextTable = getTableName quote ''Context'';
          query1 = (case co_Name opts of
              Some n \<Rightarrow> where_name (contextTable @ ''.name'') n query
            | None \<Rightarrow> (case co_ExternalID opts of
                Some x \<Rightarrow> add_call (Where (''('' @ contextTable @ ''.external_id = ? OR '' @ contextTable @ ''.external_id LIKE ?)'')
                    [AnyStr x, AnyStr (''%:'' @ escapeLike x)]) query
              | None \<Rightarrow> query));
          query2 = (case co_Query opts of
              Some q \<Rightarrow> if q = [] then query1 else add_call (Where (query_condition quote) (query_arguments q)) query1
            | None \<Rightarrow> query1)
      in if non_empty_sources opts = [] then query2
         else add_call (Where ''cp.name = ? AND cp.string_value IN ?''
                  [AnyStr ''source_id'', AnyList (map AnyStr (non_empty_sources opts))])
                (add_call (Joins (''JOIN '' @ getTableName quote ''ContextProperty'' @ '' cp ON cp.context_id = '' @ contextTable @ ''.id'')) query2))"

subsection \<open>Conditions on artifacts\<close>

record artifact_condition =
  ac_property :: string
  ac_operator :: string
  ac_value :: go_any
  ac_valueType :: string

definition isArtifactProperty :: "string \<Rightarrow> bool" where
  "isArtifactProperty propertyName = hasPrefix propertyName ''artifacts.''"

text \<open>\<open>strings.SplitN(s, ".", 3)\<close>.\<close>

definition split_two :: "string \<Rightarrow> string list" where
  "split_two s = (case cut_at (CHR ''.'') s of None \<Rightarrow> [s]
     | Some (a, rest) \<Rightarrow> (case cut_at (CHR ''.'') rest of None \<Rightarrow> [a, rest] | Some (b, c) \<Rightarrow> [a, b, c]))"

definition parseArtifactCondition :: "string \<Rightarrow> string \<Rightarrow> go_any \<Rightarrow> artifact_condition option" where
  "parseArtifactCondition property operator v =
     (if \<not> isArtifactProperty property then None
      else let parts = split_two property
           in if length parts < 2 then None
              else Some \<lparr>ac_property = parts ! 1, ac_operator = operator, ac_value = v,
                         ac_valueType = (if length parts = 3 then parts ! 2 else [])\<rparr>)"

fun collectArtifactConditionsFromExpr :: "filter_expr \<Rightarrow> artifact_condition list" where
  "collectArtifactConditionsFromExpr (Leaf property operator v) =
     (if isArtifactProperty property then (case parseArtifactCondition property operator v of None \<Rightarrow> [] | Some c \<Rightarrow> [c]) else [])"
| "collectArtifactConditionsFromExpr (Node operator l r) =
     collectArtifactConditionsFromExpr l @ collectArtifactConditionsFromExpr r"

definition extractArtifactConditions :: "filter_parser \<Rightarrow> string \<Rightarrow> artifact_condition list" where
  "extractArtifactConditions parser filterQuery =
     (if filterQuery = [] then []
      else case Parse parser filterQuery of
             Inr (Some e) \<Rightarrow> collectArtifactConditionsFromExpr e
           | _ \<Rightarrow> [])"

definition determineValueColumn :: "artifact_condition \<Rightarrow> string" where
  "determineValueColumn c =
     (if ac_valueType c \<in> {''string_value'', ''double_value'', ''int_value'', ''bool_value''} then ac_valueType c
      else case ac_value c of
             AnyStr _ \<Rightarrow> ''string_value''
           | AnyInt32 _ \<Rightarrow> ''int_value'' | AnyInt64 _ \<Rightarrow> ''int_value''
           | AnyFloat _ \<Rightarrow> ''double_value''
           | AnyBool _ \<Rightarrow> ''bool_value''
           | _ \<Rightarrow> ''string_value'')"

subsection \<open>Order of the list\<close>

text \<open>A query that is built to be joined: its calls in order.\<close>

record sub_query =
  sq_Table :: string
  sq_Wheres :: "(string \<times> go_any list) list"
  sq_Select :: "string list"
  sq_Joins :: "(string \<times> go_any list) list"
  sq_Group :: "string option"

definition sub_join :: "string \<Rightarrow> go_any list \<Rightarrow> sub_query \<Rightarrow> sub_query" where
  "sub_join sql args q = q\<lparr>sq_Joins := sq_Joins q @ [(sql, args)]\<rparr>"

definition sub_where :: "string \<Rightarrow> go_any list \<Rightarrow> sub_query \<Rightarrow> sub_query" where
  "sub_where sql args q = q\<lparr>sq_Wheres := sq_Wheres q @ [(sql, args)]\<rparr>"

definition artifact_filter_join :: "(string \<Rightarrow> string) \<Rightarrow> artifact_condition \<Rightarrow> sub_query \<Rightarrow> sub_query" where
  "artifact_filter_join quote c q =
     (let attributionTable = getTableName quote ''Attribution''; propertyTable = getTableName quote ''ArtifactProperty'';
          filterPropAlias = ''ArtifactProperty_filter_'' @ ac_property c
      in sub_where (filterPropAlias @ ''.'' @ determineValueColumn c @ '' '' @ ac_operator c @ '' ?'') [ac_value c]
           (sub_join (''LEFT JOIN '' @ propertyTable @ '' '' @ filterPropAlias @ '' ON '' @ attributionTable @ ''.artifact_id=''
              @ filterPropAlias @ ''.artifact_id AND '' @ filterPropAlias @ ''.name=?'') [AnyStr (ac_property c)] q))"

definition artifact_sort :: "filter_parser \<Rightarrow> (string \<Rightarrow> string) \<Rightarrow> catalog_list_options \<Rightarrow> string list \<Rightarrow> string \<Rightarrow> string \<Rightarrow> sub_query \<Rightarrow> sub_query" where
  "artifact_sort parser quote opts extraColumns property valueColumn query =
     (let contextTable = getTableName quote ''Context''; attributionTable = getTableName quote ''Attribution'';
          propertyTable = getTableName quote ''ArtifactProperty'';
          aggFn = (if GetSortOrder (pagination.truncate opts) = ''ASC'' then ''min'' else ''max'');
          query1 = query\<lparr>sq_Select := (aggFn @ ''('' @ propertyTable @ ''.'' @ valueColumn @ '') AS '' @ valueColumn) # extraColumns\<rparr>;
          query2 = sub_join (''LEFT JOIN '' @ attributionTable @ '' ON '' @ contextTable @ ''.id='' @ attributionTable @ ''.context_id'') [] query1;
          query3 = sub_join (''LEFT JOIN '' @ propertyTable @ '' ON '' @ attributionTable @ ''.artifact_id='' @ propertyTable
             @ ''.artifact_id AND '' @ propertyTable @ ''.name=?'') [AnyStr property] query2;
          filterQuery = GetFilterQuery (pagination.truncate opts)
      in if filterQuery = [] then query3
         else fold (artifact_filter_join quote) (extractArtifactConditions parser filterQuery) query3)"

definition model_sort :: "(string \<Rightarrow> string) \<Rightarrow> string list \<Rightarrow> string \<Rightarrow> string \<Rightarrow> sub_query \<Rightarrow> sub_query" where
  "model_sort quote extraColumns property valueColumn query =
     (let contextTable = getTableName quote ''Context''; propertyTable = getTableName quote ''ContextProperty''
      in sub_join (''LEFT JOIN '' @ propertyTable @ '' ON '' @ contextTable @ ''.id='' @ propertyTable @ ''.context_id AND ''
             @ propertyTable @ ''.name=?'') [AnyStr property]
           (query\<lparr>sq_Select := (''max('' @ propertyTable @ ''.'' @ valueColumn @ '') AS '' @ valueColumn) # extraColumns\<rparr>))"

definition value_columns :: "string list" where
  "value_columns = [''int_value'', ''double_value'', ''string_value'']"

definition sortValueQuery ::
  "filter_parser \<Rightarrow> (string \<Rightarrow> string) \<Rightarrow> int \<Rightarrow> catalog_list_options \<Rightarrow> string list \<Rightarrow> (sub_query \<times> string) option" where
  "sortValueQuery parser quote typeID opts extraColumns =
     (let contextTable = getTableName quote ''Context'';
          query = \<lparr>sq_Table = contextTable, sq_Wheres = [(contextTable @ ''.type_id=?'', [AnyInt32 typeID])], sq_Select = [],
                   sq_Joins = [], sq_Group = None\<rparr>
      in case split_char (CHR ''.'') (GetOrderBy (pagination.truncate opts)) of
           [a, p, c] \<Rightarrow> if a = ''artifacts'' \<and> c \<in> set value_columns
             then Some (artifact_sort parser quote opts extraColumns p c query, c) else None
         | [p, c] \<Rightarrow> if c \<in> set value_columns then Some (model_sort quote extraColumns p c query, c) else None
         | _ \<Rightarrow> None)"

text \<open>\<open>applyCursorPagination\<close>: which rows come after the cursor, and the condition as SQL.\<close>

datatype after_cursor = NullsAfter int | ValuesAfter string string int

definition cursor_condition :: "cursor \<Rightarrow> string \<Rightarrow> after_cursor" where
  "cursor_condition cur sortOrder =
     (if cur_Value cur = [] then NullsAfter (cur_ID cur)
      else ValuesAfter (if sortOrder = ''ASC'' then ''>'' else ''<'') (cur_Value cur) (cur_ID cur))"

fun render_after :: "string \<Rightarrow> string \<Rightarrow> after_cursor \<Rightarrow> db_call" where
  "render_after contextTable sortColumn (NullsAfter i) =
     Where (''sort_value.'' @ sortColumn @ '' IS NULL AND '' @ contextTable @ ''.id > ?'') [AnyInt32 i]"
| "render_after contextTable sortColumn (ValuesAfter cmp v i) =
     Where (''(sort_value.'' @ sortColumn @ '' '' @ cmp @ '' ? OR (sort_value.'' @ sortColumn @ '' = ? AND ''
         @ contextTable @ ''.id > ?) OR sort_value.'' @ sortColumn @ '' IS NULL)'') [AnyStr v, AnyStr v, AnyInt32 i]"

definition applyCursorPagination :: "(string \<Rightarrow> string) \<Rightarrow> cursor \<Rightarrow> string \<Rightarrow> string \<Rightarrow> gorm_db \<Rightarrow> gorm_db" where
  "applyCursorPagination quote cur sortColumn sortOrder query =
     add_call (render_after (getTableName quote ''Context'') sortColumn (cursor_condition cur sortOrder)) query"

text \<open>\<open>ApplyStandardPagination\<close> of the catalog models, which allows the columns of the catalog.\<close>

definition catalog_StandardPagination :: "pagination \<Rightarrow> gorm_db \<Rightarrow> gorm_db" where
  "catalog_StandardPagination opts query = PaginateWithOptions
     \<lparr>pg_PageSize = Some (GetPageSize opts), pg_OrderBy = Some (GetOrderBy opts), pg_SortOrder = Some (GetSortOrder opts),
      pg_NextPageToken = Some (GetNextPageToken opts), pg_FilterQuery = None\<rparr> ''Context'' (Some CatalogOrderByColumns) query"

text \<open>\<open>applyCustomOrdering\<close>: the query, and the subquery that fills the placeholder of its join.\<close>

definition applyCustomOrdering ::
  "filter_parser \<Rightarrow> (string \<Rightarrow> string) \<Rightarrow> int \<Rightarrow> catalog_list_options \<Rightarrow> gorm_db \<Rightarrow> gorm_db \<times> sub_query option" where
  "applyCustomOrdering parser quote typeID opts query =
     (let contextTable = getTableName quote ''Context''; pg = pagination.truncate opts
      in if GetOrderBy pg = ''NAME'' then
           (ApplyNameOrdering query contextTable (GetSortOrder pg) (GetNextPageToken pg) (GetPageSize pg) True, None)
         else case sortValueQuery parser quote typeID opts [contextTable @ ''.id''] of
             None \<Rightarrow> (catalog_StandardPagination pg query, None)
           | Some (subquery, sortColumn) \<Rightarrow>
               (let sortOrder = (if GetSortOrder pg = ''ASC'' then ''ASC'' else ''DESC'');
                    query1 = add_call (Joins (''LEFT JOIN (?) sort_value ON '' @ contextTable @ ''.id=sort_value.id'')) query;
                    query2 = add_call (Order (''sort_value.'' @ sortColumn @ '' '' @ sortOrder @ '' NULLS LAST, '' @ contextTable @ ''.id'')) query1;
                    query3 = (if GetNextPageToken pg = [] then query2
                      else case DecodeCursor (GetNextPageToken pg) of
                          Inl e \<Rightarrow> add_call (AddError ''invalid nextPageToken'') query2
                        | Inr cur \<Rightarrow> applyCursorPagination quote cur sortColumn sortOrder query2)
                in (if GetPageSize pg > 0 then add_call (Limit (GetPageSize pg + 1)) query3 else query3,
                    Some (subquery\<lparr>sq_Group := Some (contextTable @ ''.id'')\<rparr>))))"

text \<open>\<open>createPaginationToken\<close>; \<open>scan\<close> is the answer of the database to the subquery for the last item.\<close>

record scanned =
  sc_Int :: "int option"
  sc_Double :: "float64 option"
  sc_String :: "string option"

definition display_name :: "string \<Rightarrow> string" where
  "display_name n = (case cut_at (CHR '':'') n of None \<Rightarrow> n | Some (_, after) \<Rightarrow> after)"

definition createPaginationToken ::
  "(float64 \<Rightarrow> string) \<Rightarrow> filter_parser \<Rightarrow> (string \<Rightarrow> string) \<Rightarrow> int \<Rightarrow> (sub_query \<Rightarrow> db_error + scanned)
     \<Rightarrow> schema_entity \<Rightarrow> catalog_list_options \<Rightarrow> string" where
  "createPaginationToken fmt parser quote typeID scan lastItem opts =
     (let i = getEntityID lastItem; pg = pagination.truncate opts; contextTable = getTableName quote ''Context''
      in if GetOrderBy pg = ''NAME'' then
           CreateNamePaginationToken fmt i (Some (display_name (str_or_empty (getName lastItem))))
         else case sortValueQuery parser quote typeID opts [] of
             None \<Rightarrow> CreateDefaultPaginationToken fmt lastItem pg
           | Some (q, column) \<Rightarrow>
               (case scan (sub_where (contextTable @ ''.id=?'') [AnyInt32 i] q) of
                  Inl _ \<Rightarrow> CreateDefaultPaginationToken fmt lastItem pg
                | Inr result \<Rightarrow> CreateNextPageToken fmt i
                    (if column = ''int_value'' then TokIntPtr (sc_Int result)
                     else if column = ''double_value'' then TokFloatPtr (sc_Double result)
                     else TokStringPtr (sc_String result))))"

subsection \<open>Save\<close>

text \<open>
  The configuration of the generic repository. The order and the token of the list need the subquery and are
  the definitions above.
\<close>

definition catalog_model_repo :: "(string \<Rightarrow> string) \<Rightarrow> int \<Rightarrow> (catalog_model, catalog_list_options) repo_config" where
  "catalog_model_repo quote typeID = \<lparr>rc_Table = ContextTable, rc_TypeID = typeID,
     rc_EntityToSchema = mapCatalogModelToContext, rc_SchemaToEntity = mapDataLayerToCatalogModel,
     rc_EntityToProperties = mapCatalogModelToContextProperties, rc_NotFoundError = ''catalog model by id not found'',
     rc_EntityName = ''catalog model'', rc_ApplyListFilters = Some (applyCatalogModelListFilters quote),
     rc_CreatePaginationToken = None, rc_ApplyCustomOrdering = None,
     rc_IsNewEntity = Some (\<lambda>m. cm_ID m = None), rc_HasCustomProperties = Some (\<lambda>m. cm_Custom m \<noteq> None),
     rc_EntityMappingFuncs = catalogModelEntityMappings, rc_PreserveHistoricalTimes = True, rc_DeleteMissingProperties = False,
     rc_Pagination = pagination.truncate, rc_RestEntityType = Some (\<lambda>_. ''CatalogModel'')\<rparr>"

definition lookupModelByName :: "'s store_ops \<Rightarrow> int \<Rightarrow> string \<Rightarrow> 's \<Rightarrow> repo_error + schema_entity" where
  "lookupModelByName ops typeID name s =
     (case so_by_name ops ContextTable name typeID s of
        Inr row \<Rightarrow> Inr row
      | Inl RecordNotFound \<Rightarrow> Inl (NotFound ''catalog model by id not found: record not found'')
      | Inl err \<Rightarrow> Inl (SanitizeDatabaseError ''error getting catalog model by name: '' err))"

definition prefix_error :: "string \<Rightarrow> repo_error \<Rightarrow> repo_error" where
  "prefix_error p err = (case err of NotFound t \<Rightarrow> NotFound (p @ t) | BadRequest t \<Rightarrow> BadRequest (p @ t) | Wrapped t e \<Rightarrow> Wrapped (p @ t) e)"

definition SaveCatalogModel ::
  "'s store_ops \<Rightarrow> (string \<Rightarrow> string) \<Rightarrow> int \<Rightarrow> int \<Rightarrow> catalog_model \<Rightarrow> 's \<Rightarrow> (repo_error + catalog_model) \<times> 's" where
  "SaveCatalogModel ops quote typeID now m s =
     (let save = (\<lambda>m. Save ops (catalog_model_repo quote typeID) now m None s);
          m1 = (if cm_TypeID m = None \<and> typeID > 0 then m\<lparr>cm_TypeID := Some typeID\<rparr> else m)
      in case (cm_ID m1, model_name m1) of
           (None, Some name) \<Rightarrow>
             (let lookupName = with_source (getSourceIDFromProperties m1) name; m2 = set_name lookupName m1
              in case lookupModelByName ops typeID lookupName s of
                   Inr existing \<Rightarrow> save (m2\<lparr>cm_ID := Some (getEntityID existing)\<rparr>)
                 | Inl (NotFound _) \<Rightarrow> save m2
                 | Inl err \<Rightarrow> (Inl (prefix_error (''error finding existing model named '' @ lookupName @ '': '') err), s))
         | _ \<Rightarrow> save m1)"

definition GetCatalogModelByName :: "'s store_ops \<Rightarrow> int \<Rightarrow> string \<Rightarrow> 's \<Rightarrow> repo_error + catalog_model" where
  "GetCatalogModelByName ops typeID name s =
     try_bind (lookupModelByName ops typeID name s) (\<lambda>row.
       case so_props ops ContextTable (getEntityID row) s of
         Inl err \<Rightarrow> Inl (SanitizeDatabaseError ''error getting properties by catalog model id: '' err)
       | Inr ps \<Rightarrow> Inr (mapDataLayerToCatalogModel row ps))"

end
