(* ===== verification/Catalog_Models_Facts.thy ===== *)
theory Catalog_Models_Facts
  imports Catalog_Models "HOL-Library.List_Lexorder" "HOL-Library.Char_ord"
begin

text \<open>
  What the repository of catalog models promises: names and external ids that carry their source, pages of a
  list that is sorted by a property, and \<open>Save\<close> as an update or insert by name.
\<close>

subsection \<open>Names with their source\<close>

lemma hasPrefix_snoc [simp]: "hasPrefix (p @ c # s) (p @ [c])"
  by (simp add: hasPrefix_def)

lemma with_source_prefix: "src \<noteq> [] \<Longrightarrow> hasPrefix (with_source src s) (src @ '':'')"
  by (simp add: with_source_def Let_def)

lemma with_source_idem [simp]: "with_source src (with_source src s) = with_source src s"
  by (simp add: with_source_def Let_def)

lemma with_source_new: "src \<noteq> [] \<Longrightarrow> \<not> hasPrefix s (src @ '':'') \<Longrightarrow> with_source src s = src @ '':'' @ s"
  by (simp add: with_source_def Let_def)

text \<open>The source of a stored model does not depend on the order in which the database returns the properties.\<close>

lemma source_of_one:
  assumes "p \<in> set ps" "is_source_property p" "\<And>q. q \<in> set ps \<Longrightarrow> is_source_property q \<Longrightarrow> sp_String q = sp_String p"
  shows "source_of_properties ps = the (sp_String p)"
proof -
  obtain q where q: "find is_source_property ps = Some q"
    using assms(1,2) by (cases "find is_source_property ps") (auto simp: find_None_iff)
  then have "q \<in> set ps" "is_source_property q" by (auto dest: find_SomeD)
  with assms(3) q show ?thesis by (simp add: source_of_properties_def)
qed

lemma source_of_none: "\<forall>p \<in> set ps. \<not> is_source_property p \<Longrightarrow> source_of_properties ps = []"
  by (cases "find is_source_property ps") (auto simp: source_of_properties_def dest: find_SomeD)

text \<open>One source: every property called \<open>source_id\<close> carries it, and no custom property has that name.\<close>

definition one_source :: "catalog_model \<Rightarrow> bool" where
  "one_source m =
    ((\<forall>p \<in> set (case cm_Properties m of None \<Rightarrow> [] | Some ps \<Rightarrow> ps).
        sp_Name p = ''source_id'' \<longrightarrow> sp_String p = Some (getSourceIDFromProperties m))
     \<and> (\<forall>p \<in> set (case cm_Custom m of None \<Rightarrow> [] | Some ps \<Rightarrow> ps). sp_Name p \<noteq> ''source_id''))"

lemma is_source_mapped [simp]:
  "is_source_property (MapPropertiesToContextProperty p i b) = is_source_property p"
  "sp_String (MapPropertiesToContextProperty p i b) = sp_String p"
  by (simp_all add: is_source_property_def MapPropertiesToContextProperty_def)

lemma stored_source:
  assumes "one_source m" "set ps = set (mapCatalogModelToContextProperties m i)"
  shows "getSourceIDFromContextProperties ps = getSourceIDFromProperties m"
proof -
  define own where "own = (case cm_Properties m of None \<Rightarrow> [] | Some ps \<Rightarrow> ps)"
  have src: "getSourceIDFromProperties m = source_of_properties own"
    by (simp add: getSourceIDFromProperties_def own_def source_of_properties_def split: option.split)
  have rows: "\<And>q. q \<in> set ps \<Longrightarrow> is_source_property q \<Longrightarrow> \<exists>p \<in> set own. is_source_property p \<and> sp_String q = sp_String p"
    and stored: "\<And>p. p \<in> set own \<Longrightarrow> MapPropertiesToContextProperty p i False \<in> set ps"
    using assms by (auto simp: mapCatalogModelToContextProperties_def own_def one_source_def is_source_property_def
        MapPropertiesToContextProperty_def split: option.splits)
  have same: "\<And>p. p \<in> set own \<Longrightarrow> is_source_property p \<Longrightarrow> sp_String p = Some (getSourceIDFromProperties m)"
    using assms(1) by (auto simp: one_source_def own_def is_source_property_def split: option.splits)
  show ?thesis
  proof (cases "\<exists>p \<in> set own. is_source_property p")
    case True
    then obtain p where p: "p \<in> set own" "is_source_property p" by blast
    have "source_of_properties ps = the (sp_String (MapPropertiesToContextProperty p i False))"
      by (rule source_of_one [OF stored [OF p(1)]]) (use p rows same in \<open>fastforce+\<close>)
    then show ?thesis using same [OF p] by (simp add: getSourceIDFromContextProperties_def)
  next
    case False
    then have "source_of_properties ps = []" "source_of_properties own = []"
      using rows by (auto intro!: source_of_none)
    then show ?thesis using src by (simp add: getSourceIDFromContextProperties_def)
  qed
qed

text \<open>
  External ids survive storage: a model whose properties name one source comes back from its row, with its
  properties in any order, with the external id it was saved with, unless that id already starts with the
  source and a colon; the stored id is then the same as that of the shorter id.
\<close>

theorem external_id_roundtrip:
  assumes "one_source m" "set ps = set (mapCatalogModelToContextProperties m i)"
    and "cm_Attributes m = Some a" "ca_ExternalID a = Some x"
    and "\<not> hasPrefix x (getSourceIDFromProperties m @ '':'')"
  shows "Option.bind (cm_Attributes (mapDataLayerToCatalogModel (setEntityID i (mapCatalogModelToContext m)) ps)) ca_ExternalID = Some x"
proof -
  have "getSourceIDFromContextProperties ps = getSourceIDFromProperties m" using stored_source assms(1,2) .
  then show ?thesis using assms(3,4,5)
    by (auto simp: mapDataLayerToCatalogModel_def mapCatalogModelToContext_def Let_def display_external_id_def with_source_def
        trimPrefix_def hasPrefix_def)
qed

lemma external_ids_collapse:
  assumes "getSourceIDFromProperties m = src" "src \<noteq> []" "cm_Attributes m = Some a" "ca_ExternalID a = Some x" "x \<noteq> []"
    and "\<not> hasPrefix x (src @ '':'')"
  shows "mapCatalogModelToContext m = mapCatalogModelToContext
    (m\<lparr>cm_Attributes := Some (a\<lparr>ca_ExternalID := Some (src @ '':'' @ x)\<rparr>)\<rparr>)"
  using assms by (auto simp: mapCatalogModelToContext_def Let_def with_source_def getSourceIDFromProperties_def hasPrefix_def)

subsection \<open>Pages of a list sorted by a property\<close>

text \<open>
  A row of the sorted list is its id and the value it is sorted by. \<open>row_before\<close> is the order of the query:
  by value, rows without one last, then by id; \<open>after_holds\<close> is the condition of the cursor, where a
  comparison with NULL does not hold. \<open>parse\<close> reads a value from the text of an argument.
\<close>

fun row_before :: "bool \<Rightarrow> int \<times> 'v::linorder option \<Rightarrow> int \<times> 'v option \<Rightarrow> bool" where
  "row_before asc (i, Some x) (j, Some y) = (if x = y then i < j else if asc then x < y else y < x)"
| "row_before asc (i, Some x) (j, None) = True"
| "row_before asc (i, None) (j, Some y) = False"
| "row_before asc (i, None) (j, None) = (i < j)"

fun after_holds :: "(string \<Rightarrow> 'v::linorder) \<Rightarrow> after_cursor \<Rightarrow> int \<times> 'v option \<Rightarrow> bool" where
  "after_holds parse (NullsAfter i) (j, w) = (w = None \<and> i < j)"
| "after_holds parse (ValuesAfter cmp t i) (j, w) =
     (case w of None \<Rightarrow> True
      | Some y \<Rightarrow> (if cmp = ''>'' then parse t < y else y < parse t) \<or> (y = parse t \<and> i < j))"

definition value_text :: "('v \<Rightarrow> string) \<Rightarrow> 'v option \<Rightarrow> string" where
  "value_text print w = (case w of None \<Rightarrow> [] | Some x \<Rightarrow> print x)"

lemma after_is_before:
  assumes "\<And>x. w = Some x \<Longrightarrow> print x \<noteq> [] \<and> parse (print x) = x"
  shows "after_holds parse (cursor_condition \<lparr>cur_ID = i, cur_Value = value_text print w\<rparr> (if asc then ''ASC'' else ''DESC'')) (j, v)
    = row_before asc (i, w) (j, v)"
proof (cases w)
  case None
  then show ?thesis by (cases v) (simp_all add: cursor_condition_def value_text_def)
next
  case (Some x)
  then have x: "print x \<noteq> []" "parse (print x) = x" using assms by simp_all
  from Some x show ?thesis by (cases v) (auto simp: cursor_condition_def value_text_def)
qed

lemma row_before_trans: "row_before asc a b \<Longrightarrow> row_before asc b c \<Longrightarrow> row_before asc a c"
proof -
  obtain i u where a: "a = (i, u)" by (cases a)
  obtain j v where b: "b = (j, v)" by (cases b)
  obtain l w where c: "c = (l, w)" by (cases c)
  show "row_before asc a b \<Longrightarrow> row_before asc b c \<Longrightarrow> row_before asc a c"
    unfolding a b c by (cases u; cases v; cases w) (auto split: if_splits)
qed

lemma row_before_irrefl: "\<not> row_before asc a a"
  by (cases a; cases "snd a") auto

lemma filter_after:
  assumes "sorted_wrt (row_before asc) rows" "k < length rows"
  shows "filter (row_before asc (rows ! k)) rows = drop (Suc k) rows"
proof -
  have split: "rows = take k rows @ rows ! k # drop (Suc k) rows" using assms(2) by (simp add: id_take_nth_drop)
  have s: "sorted_wrt (row_before asc) (take k rows @ rows ! k # drop (Suc k) rows)" using assms(1) split by simp
  have "\<forall>x \<in> set (take k rows). \<not> row_before asc (rows ! k) x"
    using s row_before_trans [of asc _ "rows ! k"] row_before_irrefl unfolding sorted_wrt_append by (meson list.set_intros(1))
  moreover have "\<forall>x \<in> set (drop (Suc k) rows). row_before asc (rows ! k) x" using s by (simp add: sorted_wrt_append)
  ultimately have "filter (row_before asc (rows ! k)) (take k rows @ rows ! k # drop (Suc k) rows) = drop (Suc k) rows"
    by (simp add: row_before_irrefl filter_empty_conv)
  then show ?thesis using split by simp
qed


text \<open>
  An empty text is taken for no value: in a list that is sorted upwards by a text, everything behind a row
  with the empty text is lost.
\<close>

lemma empty_value_ends_list:
  "row_before True (1, Some []) (2, Some ''a'')"
  "\<not> after_holds id (cursor_condition \<lparr>cur_ID = 1, cur_Value = value_text id (Some [])\<rparr> ''ASC'') (2, Some ''a'')"
  by (simp_all add: cursor_condition_def value_text_def)

definition demo_order :: catalog_list_options where
  "demo_order = \<lparr>pg_PageSize = None, pg_OrderBy = Some ''provider.string_value'', pg_SortOrder = Some ''DESC'', pg_NextPageToken = None,
     pg_FilterQuery = None, co_Name = None, co_ExternalID = None, co_SourceIDs = None, co_Query = None\<rparr>"

definition demo_row :: "int \<Rightarrow> schema_entity" where
  "demo_row i = Context \<lparr>cr_ID = i, cr_TypeID = 7, cr_Name = ''s:m'', cr_ExternalID = None, cr_CreateTime = 1, cr_LastUpdateTime = 2\<rparr>"


definition demo_model :: catalog_model where
  "demo_model = \<lparr>cm_ID = None, cm_TypeID = None,
     cm_Attributes = Some \<lparr>ca_Name = Some ''m'', ca_ExternalID = Some ''x'', ca_CreateTime = None, ca_LastUpdateTime = None\<rparr>,
     cm_Properties = Some [(empty_property ''source_id'' False)\<lparr>sp_String := Some ''s''\<rparr>], cm_Custom = None\<rparr>"

lemma demo_model_source: "getSourceIDFromProperties demo_model = ''s''" "one_source demo_model"
  by (simp_all add: demo_model_def getSourceIDFromProperties_def source_of_properties_def is_source_property_def one_source_def
      empty_property_def)

theorem external_id_roundtrip_witness:
  "Option.bind (cm_Attributes (mapDataLayerToCatalogModel (setEntityID 4 (mapCatalogModelToContext demo_model))
     (mapCatalogModelToContextProperties demo_model 4))) ca_ExternalID = Some ''x''"
proof -
  have attr: "cm_Attributes demo_model = Some \<lparr>ca_Name = Some ''m'', ca_ExternalID = Some ''x'', ca_CreateTime = None, ca_LastUpdateTime = None\<rparr>"
    by (simp add: demo_model_def)
  show ?thesis
    by (rule external_id_roundtrip [OF demo_model_source(2) refl attr]) (simp_all add: demo_model_source(1) hasPrefix_def)
qed

subsection \<open>Save is an update or insert by name\<close>

text \<open>What the loader sees of the table: the models of the type by id, each with its name and its source.\<close>

definition model_view :: "row_view \<Rightarrow> prop_view \<Rightarrow> int \<Rightarrow> int \<Rightarrow> (string \<times> string option) option" where
  "model_view r p t i =
     (case r ContextTable i of
        None \<Rightarrow> None
      | Some e \<Rightarrow> if getTypeID e = t
          then Some (str_or_empty (getName e), Option.bind (p ContextTable (i, ''source_id'', False)) sp_String) else None)"

text \<open>A database that finds rows by name, as the query on \<open>name\<close> and \<open>type_id\<close> does.\<close>

locale catalog_store = sql_store +
  assumes by_name: "so_by_name ops k n t s = Inr e \<Longrightarrow>
      rows s k (getEntityID e) = Some e \<and> getTypeID e = t \<and> getName e = Some n"
    and by_name_missing: "so_by_name ops k n t s = Inl RecordNotFound \<Longrightarrow> rows s k i = Some e \<Longrightarrow> getTypeID e = t \<Longrightarrow>
      getName e \<noteq> Some n"

interpretation catalogModel_repository: repo_mapping "catalog_model_repo quote typeID"
  by unfold_locales
    (auto simp: catalog_model_repo_def call_opt_def mapCatalogModelToContext_def Let_def zero_if_nil_def
      mapCatalogModelToContextProperties_def MapPropertiesToContextProperty_def split: option.splits)

lemma catalog_cfg:
  "rc_EntityToSchema (catalog_model_repo quote t) = mapCatalogModelToContext"
  "rc_EntityToProperties (catalog_model_repo quote t) = mapCatalogModelToContextProperties"
  "rc_DeleteMissingProperties (catalog_model_repo quote t) = False"
  by (simp_all add: catalog_model_repo_def)

lemma sent_source:
  assumes "one_source m" "getSourceIDFromProperties m = src" "src \<noteq> []"
  shows "\<exists>p. sent_props (mapCatalogModelToContextProperties m i) (i, ''source_id'', False) = Some p \<and> sp_String p = Some src"
proof -
  let ?ps = "mapCatalogModelToContextProperties m i"
  obtain own where own: "cm_Properties m = Some own" using assms(2,3) by (auto simp: getSourceIDFromProperties_def split: option.splits)
  have "\<exists>p \<in> set own. is_source_property p"
  proof (rule ccontr)
    assume "\<not> ?thesis"
    then have "source_of_properties own = []" by (auto intro: source_of_none)
    then show False using own assms(2,3) by (simp add: getSourceIDFromProperties_def)
  qed
  then obtain p where p: "p \<in> set own" "sp_Name p = ''source_id''" by (auto simp: is_source_property_def)
  then have "MapPropertiesToContextProperty p i False \<in> set ?ps" by (simp add: mapCatalogModelToContextProperties_def own)
  moreover have "prop_key (MapPropertiesToContextProperty p i False) = (i, ''source_id'', False)"
    using p by (simp add: prop_key_def MapPropertiesToContextProperty_def)
  ultimately have "sent_props ?ps (i, ''source_id'', False) \<noteq> None" unfolding sent_props_None by (metis image_eqI)
  then obtain q where q: "sent_props ?ps (i, ''source_id'', False) = Some q" by auto
  then have "q \<in> set ?ps" "sp_Name q = ''source_id''" "\<not> sp_IsCustom q" by (auto dest!: sent_props_Some simp: prop_key_def)
  then have "sp_String q = Some src" using assms(1,2) own
    by (auto simp: mapCatalogModelToContextProperties_def one_source_def MapPropertiesToContextProperty_def split: option.splits)
  with q show ?thesis by blast
qed

lemma sent_other: "j \<noteq> i \<Longrightarrow> sent_props (mapCatalogModelToContextProperties m i) (j, n, b) = None"
  by (auto simp: sent_props_None prop_key_def mapCatalogModelToContextProperties_def MapPropertiesToContextProperty_def
      split: option.splits)

lemma SaveCatalogModel_error: "SaveCatalogModel ops quote t now m s = (Inl err, s') \<Longrightarrow> s' = s"
  by (auto simp: SaveCatalogModel_def Let_def Save_def Transaction_def split: option.splits sum.splits prod.splits repo_error.splits)

context catalog_store
begin

lemma saved_view:
  assumes save: "Save ops (catalog_model_repo quote t) now m None s = (Inr r, s')"
    and m: "one_source m" "getSourceIDFromProperties m = src" "src \<noteq> []" "cm_TypeID m = Some t" "model_name m = Some n"
    and old: "\<And>i. cm_ID m = Some i \<Longrightarrow> \<exists>e. rows s ContextTable i = Some e \<and> getTypeID e = t \<and> getName e = Some n"
  shows "\<exists>i. model_view (rows s') (props s') t = (model_view (rows s) (props s) t)(i \<mapsto> (n, Some src))
    \<and> (case cm_ID m of Some j \<Rightarrow> i = j | None \<Rightarrow> model_view (rows s) (props s) t i = None)"
    and "props s ContextTable (j, ''source_id'', True) = None \<Longrightarrow> props s' ContextTable (j, ''source_id'', True) = None"
proof -
  let ?cfg = "catalog_model_repo quote t"
  have k: "rc_Table ?cfg = ContextTable" by (simp add: catalog_model_repo_def)
  have new: "call_opt (rc_IsNewEntity ?cfg) m = (cm_ID m = None)" by (simp add: catalog_model_repo_def call_opt_def)
  obtain a where a: "cm_Attributes m = Some a" "ca_Name a = Some n" using m(5) by (auto simp: model_name_def bind_eq_Some_conv)
  obtain row where row: "row = setEntityID (getEntityID row) (stamp ?cfg now (cm_ID m = None) (mapCatalogModelToContext m))"
      "cm_ID m \<noteq> None \<Longrightarrow> row = stamp ?cfg now False (mapCatalogModelToContext m)"
      "cm_ID m = None \<Longrightarrow> rows s ContextTable (getEntityID row) = None"
    and rows': "rows s' = (rows s)(ContextTable := (rows s ContextTable)(getEntityID row :=
        if cm_ID m = None then Some row else map_option (updates getNonUpdatableFields row) (rows s ContextTable (getEntityID row))))"
    and props': "props s' = (props s)(ContextTable := saved_props ?cfg (call_opt (rc_HasCustomProperties ?cfg) m) (getEntityID row)
        (mapCatalogModelToContextProperties m (getEntityID row)) (props s ContextTable))"
    by (rule Save_spec [OF save catalogModel_repository.repo_mapping_axioms, unfolded k new]) (rule that; simp add: catalog_cfg)
  let ?i = "getEntityID row"
  obtain v where v: "mapCatalogModelToContext m = Context v" "cr_TypeID v = t" "cr_Name v = n" "cr_ID v = zero_if_nil (cm_ID m)"
    using a m(4) by (auto simp: mapCatalogModelToContext_def Let_def str_or_empty_def zero_if_nil_def)
  have "table_of row = ContextTable" "getTypeID row = t" "getName row = Some n"
    using arg_cong [OF row(1), of table_of] arg_cong [OF row(1), of getTypeID] arg_cong [OF row(1), of getName] v
    by simp_all
  then obtain v' where v': "row = Context v'" "cr_TypeID v' = t" "cr_Name v' = n" by (cases row) auto
  obtain p where p: "sent_props (mapCatalogModelToContextProperties m ?i) (?i, ''source_id'', False) = Some p" "sp_String p = Some src"
    using sent_source [OF m(1-3)] by blast
  have mine: "model_view (rows s') (props s') t ?i = Some (n, Some src)"
  proof (cases "cm_ID m")
    case None
    then show ?thesis using rows' props' p v' by (simp add: model_view_def saved_props_def str_or_empty_def)
  next
    case (Some j)
    then have "?i = j" using arg_cong [OF row(2), of getEntityID] v by (simp add: zero_if_nil_def)
    with Some old obtain e where e: "rows s ContextTable ?i = Some e" "getTypeID e = t" "getName e = Some n" by blast
    then have "table_of e = ContextTable" using row_id by blast
    then obtain w where w: "e = Context w" by (cases e) auto
    show ?thesis using rows' props' p v' e w Some
      by (simp add: model_view_def saved_props_def str_or_empty_def upd_def getNonUpdatableFields_def)
  qed
  have other: "model_view (rows s') (props s') t j = model_view (rows s) (props s) t j" if "j \<noteq> ?i" for j
  proof -
    have "rows s' ContextTable j = rows s ContextTable j" using that by (simp add: rows')
    moreover have "props s' ContextTable (j, ''source_id'', False) = props s ContextTable (j, ''source_id'', False)"
      using that sent_other [OF that, of m "''source_id''" False] by (simp add: props' saved_props_def)
    ultimately show ?thesis by (cases "rows s ContextTable j") (simp_all add: model_view_def)
  qed
  have "model_view (rows s') (props s') t = (model_view (rows s) (props s) t)(?i \<mapsto> (n, Some src))"
    using mine other by (auto simp: fun_eq_iff)
  moreover have "case cm_ID m of Some j \<Rightarrow> ?i = j | None \<Rightarrow> model_view (rows s) (props s) t ?i = None"
    using row(3) arg_cong [OF row(2), of getEntityID] v
    by (cases "cm_ID m") (simp_all add: model_view_def zero_if_nil_def)
  ultimately show "\<exists>i. model_view (rows s') (props s') t = (model_view (rows s) (props s) t)(i \<mapsto> (n, Some src))
    \<and> (case cm_ID m of Some j \<Rightarrow> i = j | None \<Rightarrow> model_view (rows s) (props s) t i = None)" by blast
  have "sent_props (mapCatalogModelToContextProperties m ?i) (j, ''source_id'', True) = None"
    using m(1) by (auto simp: sent_props_None prop_key_def mapCatalogModelToContextProperties_def MapPropertiesToContextProperty_def
        one_source_def split: option.splits)
  then show "props s ContextTable (j, ''source_id'', True) = None \<Longrightarrow> props s' ContextTable (j, ''source_id'', True) = None"
    by (simp add: props' saved_props_def)
qed

lemma upsert:
  assumes save: "SaveCatalogModel ops quote t now m s = (Inr r, s')"
    and m: "cm_ID m = None" "cm_TypeID m = None \<or> cm_TypeID m = Some t" "0 < t" "one_source m" "getSourceIDFromProperties m = src"
      "src \<noteq> []" "model_name m = Some n"
  shows "\<exists>i. model_view (rows s') (props s') t = (model_view (rows s) (props s) t)(i \<mapsto> (with_source src n, Some src))
    \<and> (case model_view (rows s) (props s) t i of
         Some v \<Rightarrow> fst v = with_source src n
       | None \<Rightarrow> \<forall>j v. model_view (rows s) (props s) t j = Some v \<longrightarrow> fst v \<noteq> with_source src n)"
    and "props s ContextTable (k, ''source_id'', True) = None \<Longrightarrow> props s' ContextTable (k, ''source_id'', True) = None"
proof -
  let ?n = "with_source src n"
  define m2 where "m2 = set_name ?n (m\<lparr>cm_TypeID := Some t\<rparr>)"
  have type: "(if cm_TypeID m = None \<and> t > 0 then m\<lparr>cm_TypeID := Some t\<rparr> else m) = m\<lparr>cm_TypeID := Some t\<rparr>"
    using m(2,3) by (cases m) auto
  have m2: "one_source m2" "getSourceIDFromProperties m2 = src" "cm_TypeID m2 = Some t" "model_name m2 = Some ?n" "cm_ID m2 = None"
    using m by (auto simp: m2_def set_name_def one_source_def getSourceIDFromProperties_def model_name_def bind_eq_Some_conv)
  have m1: "getSourceIDFromProperties (m\<lparr>cm_TypeID := Some t\<rparr>) = src" "model_name (m\<lparr>cm_TypeID := Some t\<rparr>) = Some n"
    using m by (simp_all add: getSourceIDFromProperties_def model_name_def)
  let ?save = "\<lambda>m. Save ops (catalog_model_repo quote t) now m None s"
  have S: "SaveCatalogModel ops quote t now m s =
      (case lookupModelByName ops t ?n s of
         Inr existing \<Rightarrow> ?save (m2\<lparr>cm_ID := Some (getEntityID existing)\<rparr>)
       | Inl (NotFound _) \<Rightarrow> ?save m2
       | Inl err \<Rightarrow> (Inl (prefix_error (''error finding existing model named '' @ ?n @ '': '') err), s))"
    unfolding SaveCatalogModel_def type Let_def m1 m2_def by (simp add: m(1))
  let ?view = "\<exists>i. model_view (rows s') (props s') t = (model_view (rows s) (props s) t)(i \<mapsto> (?n, Some src))
    \<and> (case model_view (rows s) (props s) t i of
         Some v \<Rightarrow> fst v = ?n
       | None \<Rightarrow> \<forall>j v. model_view (rows s) (props s) t j = Some v \<longrightarrow> fst v \<noteq> ?n)"
  let ?custom = "props s ContextTable (k, ''source_id'', True) = None \<longrightarrow> props s' ContextTable (k, ''source_id'', True) = None"
  have "?view \<and> ?custom"
  proof (cases "so_by_name ops ContextTable ?n t s")
    case (Inr e)
    then have "?save (m2\<lparr>cm_ID := Some (getEntityID e)\<rparr>) = (Inr r, s')" using S save by (simp add: lookupModelByName_def)
    from saved_view(1) [OF this, of src ?n] saved_view(2) [OF this, of src ?n k] m2 m(6) by_name [OF Inr] show ?thesis
      by (auto simp: one_source_def getSourceIDFromProperties_def model_name_def model_view_def str_or_empty_def)
  next
    case (Inl err)
    have err: "err = RecordNotFound"
      using S save Inl by (cases err) (auto simp: lookupModelByName_def SanitizeDatabaseError_def split: if_splits)
    then have "?save m2 = (Inr r, s')" using S save Inl by (simp add: lookupModelByName_def)
    from this have view: "?custom" using saved_view(2) [of quote t now m2 s r s' src ?n k] m2 m(6) by auto
    from \<open>?save m2 = (Inr r, s')\<close> obtain i where i: "model_view (rows s') (props s') t = (model_view (rows s) (props s) t)(i \<mapsto> (?n, Some src))"
        "model_view (rows s) (props s) t i = None"
      using saved_view(1) [of quote t now m2 s r s' src ?n] m2 m(6) by auto
    have "fst v \<noteq> ?n" if "model_view (rows s) (props s) t j = Some v" for j v
    proof -
      from that obtain e where e: "rows s ContextTable j = Some e" "getTypeID e = t" "fst v = str_or_empty (getName e)"
        by (auto simp: model_view_def split: option.splits if_splits)
      have "table_of e = ContextTable" using row_id [OF e(1)] by simp
      then obtain c where "getName e = Some c" by (cases e) auto
      then show ?thesis
        using by_name_missing [OF Inl [unfolded err] e(1,2)] e(3) by (simp add: str_or_empty_def)
    qed
    with i have ?view by (intro exI [of _ i]) auto
    with view show ?thesis by blast
  qed
  then show ?view "props s ContextTable (k, ''source_id'', True) = None \<Longrightarrow> props s' ContextTable (k, ''source_id'', True) = None"
    by blast+
qed

end

text \<open>The database in memory, with a search by name that finds a row only under its own id.\<close>

definition by_name_row :: "table_kind \<Rightarrow> string \<Rightarrow> int \<Rightarrow> tables \<Rightarrow> db_error + schema_entity" where
  "by_name_row k n t s = get_row (find (\<lambda>e. table_of e = k \<and> getName e = Some n \<and> getTypeID e = t
     \<and> table_row s k (getEntityID e) = Some e) (tb_rows s))"

definition catalog_tables :: "(table_kind \<Rightarrow> gorm_db \<Rightarrow> tables \<Rightarrow> db_error + schema_entity list) \<Rightarrow> tables store_ops" where
  "catalog_tables q = (table_ops q)\<lparr>so_by_name := by_name_row\<rparr>"

lemma catalog_tables_ops:
  "so_by_id (catalog_tables q) = so_by_id (table_ops q)" "so_by_any (catalog_tables q) = so_by_any (table_ops q)"
  "so_insert (catalog_tables q) = so_insert (table_ops q)" "so_update (catalog_tables q) = so_update (table_ops q)"
  "so_props (catalog_tables q) = so_props (table_ops q)" "so_props_where (catalog_tables q) = so_props_where (table_ops q)"
  "so_prop (catalog_tables q) = so_prop (table_ops q)" "so_create_prop (catalog_tables q) = so_create_prop (table_ops q)"
  "so_update_prop (catalog_tables q) = so_update_prop (table_ops q)" "so_delete_prop (catalog_tables q) = so_delete_prop (table_ops q)"
  "so_link (catalog_tables q) = so_link (table_ops q)" "so_create_link (catalog_tables q) = so_create_link (table_ops q)"
  by (simp_all add: catalog_tables_def)

interpretation catalog_db: catalog_store "catalog_tables q" table_row table_prop table_links
proof (intro catalog_store.intro catalog_store_axioms.intro)
  show "sql_store (catalog_tables q) table_row table_prop table_links"
    unfolding sql_store_def catalog_tables_ops by (rule tables.sql_store_axioms [unfolded sql_store_def])
next
  fix k n t s e
  assume "so_by_name (catalog_tables q) k n t s = Inr e"
  then have "find (\<lambda>e. table_of e = k \<and> getName e = Some n \<and> getTypeID e = t \<and> table_row s k (getEntityID e) = Some e) (tb_rows s) = Some e"
    by (simp add: catalog_tables_def by_name_row_def get_row_def split: option.splits)
  from find_SomeD [OF this] show "table_row s k (getEntityID e) = Some e \<and> getTypeID e = t \<and> getName e = Some n" by blast
next
  fix k n t s i e
  assume *: "so_by_name (catalog_tables q) k n t s = Inl RecordNotFound" "table_row s k i = Some e" "getTypeID e = t"
  have e: "e \<in> set (tb_rows s)" "table_of e = k" "getEntityID e = i" using table_row_Some [OF *(2)] by simp_all
  have "find (\<lambda>e. table_of e = k \<and> getName e = Some n \<and> getTypeID e = t \<and> table_row s k (getEntityID e) = Some e) (tb_rows s) = None"
    using *(1) by (simp add: catalog_tables_def by_name_row_def get_row_def split: option.splits)
  then have "\<not> (table_of e = k \<and> getName e = Some n \<and> getTypeID e = t \<and> table_row s k (getEntityID e) = Some e)"
    using e(1) by (simp add: find_None_iff)
  then show "getName e \<noteq> Some n" using *(2,3) e(2,3) by simp
qed

subsection \<open>Conditions on artifacts\<close>

text \<open>
  The conditions that are put on the values a list is sorted by are collected from both sides of every node:
  a filter with OR is treated as if it had AND.
\<close>

lemma sort_takes_or_for_and:
  "collectArtifactConditionsFromExpr (Node ''OR'' l r) = collectArtifactConditionsFromExpr (Node ''AND'' l r)"
  by simp

lemma cut_at_absent: "c \<notin> set s \<Longrightarrow> cut_at c s = None"
  by (induction s) auto

text \<open>
  The name of an artifact property becomes part of the text of the query that sorts, as an alias: with a
  property in backquotes every text without a dot and a backslash gets there.
\<close>

lemma property_becomes_sql:
  assumes "CHR ''.'' \<notin> set n"
  shows "collectArtifactConditionsFromExpr (Leaf (''artifacts.'' @ n) oper v)
      = [\<lparr>ac_property = n, ac_operator = oper, ac_value = v, ac_valueType = []\<rparr>]"
    and "sq_Joins (artifact_filter_join quote \<lparr>ac_property = n, ac_operator = oper, ac_value = v, ac_valueType = []\<rparr> q)
      = sq_Joins q @ [(''LEFT JOIN '' @ quote ''ArtifactProperty'' @ '' ArtifactProperty_filter_'' @ n @ '' ON '' @ quote ''Attribution''
          @ ''.artifact_id=ArtifactProperty_filter_'' @ n @ ''.artifact_id AND ArtifactProperty_filter_'' @ n @ ''.name=?'', [AnyStr n])]"
proof -
  have "cut_at (CHR ''.'') (''artifacts.'' @ n) = Some (''artifacts'', n)" by simp
  then have "split_two (''artifacts.'' @ n) = [''artifacts'', n]" using cut_at_absent [OF assms] by (simp add: split_two_def)
  then show "collectArtifactConditionsFromExpr (Leaf (''artifacts.'' @ n) oper v)
      = [\<lparr>ac_property = n, ac_operator = oper, ac_value = v, ac_valueType = []\<rparr>]"
    by (simp add: parseArtifactCondition_def isArtifactProperty_def hasPrefix_def)
  show "sq_Joins (artifact_filter_join quote \<lparr>ac_property = n, ac_operator = oper, ac_value = v, ac_valueType = []\<rparr> q)
      = sq_Joins q @ [(''LEFT JOIN '' @ quote ''ArtifactProperty'' @ '' ArtifactProperty_filter_'' @ n @ '' ON '' @ quote ''Attribution''
          @ ''.artifact_id=ArtifactProperty_filter_'' @ n @ ''.artifact_id AND ArtifactProperty_filter_'' @ n @ ''.name=?'', [AnyStr n])]"
    by (simp add: artifact_filter_join_def Let_def sub_join_def sub_where_def getTableName_def)
qed

lemma backquoted_property_reaches_sql:
  "convertComparison \<lparr>cmp_Left = \<lparr>pr_EscapedName = CHR 0x60 # ''artifacts.x ON 1=1 OR 1=(SELECT 1) --'' @ [CHR 0x60], pr_Name = [],
      pr_Path = [], pr_Type = []\<rparr>, cmp_Operator = ''='', cmp_Right = VSingle (SInt 1)\<rparr>
   = Leaf ''artifacts.x ON 1=1 OR 1=(SELECT 1) --'' ''='' (AnyInt64 1)"
  by code_simp

end
