(* ===== verification/Catalog_Labels.thy ===== *)
theory Catalog_Labels
  imports Prelude Sql_Builder
begin

section \<open>Labels\<close>

text \<open>
  The labels of all configuration files (\<open>modelcatalog/labels.go\<close>): a list of labels, and for each file the
  indices of its labels in the list.
\<close>

type_synonym label = "(string \<times> string option) list"
type_synonym new_label = "(string \<times> go_any) list"

record label_collection =
  lc_origins :: "string \<rightharpoonup> nat list"
  lc_labels :: "label list"

definition NewLabelCollection :: label_collection where
  "NewLabelCollection = \<lparr>lc_origins = Map.empty, lc_labels = []\<rparr>"

datatype label_error = UnknownNameType | DuplicateLabel "string option" | LabelElsewhere "string option" | InvalidProperty string

text \<open>A name is a string or nil; a label may lack one.\<close>

definition name_of :: "new_label \<Rightarrow> go_any option" where
  "name_of l = map_of l ''name''"

fun check_names :: "string option set \<Rightarrow> new_label list \<Rightarrow> label_error option" where
  "check_names seen [] = None"
| "check_names seen (l # ls) =
     (case name_of l of
        None \<Rightarrow> check_names seen ls
      | Some (AnyStr n) \<Rightarrow> if Some n \<in> seen then Some (DuplicateLabel (Some n)) else check_names (insert (Some n) seen) ls
      | Some AnyNil \<Rightarrow> if None \<in> seen then Some (DuplicateLabel None) else check_names (insert None seen) ls
      | Some _ \<Rightarrow> Some UnknownNameType)"

text \<open>The labels of the list that are not at the indices of the origin, and the names they have.\<close>

definition other_labels :: "nat list \<Rightarrow> label list \<Rightarrow> label list" where
  "other_labels indices ls = map fst (filter (\<lambda>(l, i). i \<notin> set indices) (zip ls [0..<length ls]))"

definition label_names :: "label list \<Rightarrow> string option set" where
  "label_names ls = {n. \<exists>l \<in> set ls. map_of l ''name'' = Some n}"

text \<open>The label that is stored: every value is a string, and only the name may be nil.\<close>

fun convert_values :: "new_label \<Rightarrow> label_error + label" where
  "convert_values [] = Inr []"
| "convert_values ((k, v) # l) =
     (if k = ''name'' \<and> v = AnyNil then convert_values l
      else case v of
             AnyStr s \<Rightarrow> try_bind (convert_values l) (\<lambda>r. Inr ((k, Some s) # r))
           | _ \<Rightarrow> Inl (InvalidProperty k))"

definition convert_label :: "new_label \<Rightarrow> label_error + label" where
  "convert_label l = try_bind (convert_values l) (\<lambda>r. Inr (r @ [(''name'', None)]))"

fun name_value :: "go_any \<Rightarrow> string option" where
  "name_value (AnyStr n) = Some n"
| "name_value _ = None"

fun add_labels :: "string option set \<Rightarrow> new_label list \<Rightarrow> label_error + label list" where
  "add_labels existing [] = Inr []"
| "add_labels existing (l # ls) =
     (case name_of l of
        Some v \<Rightarrow> if name_value v \<in> existing then Inl (LabelElsewhere (name_value v))
                  else try_bind (convert_label l) (\<lambda>x. try_bind (add_labels existing ls) (\<lambda>xs. Inr (x # xs)))
      | None \<Rightarrow> try_bind (convert_label l) (\<lambda>x. try_bind (add_labels existing ls) (\<lambda>xs. Inr (x # xs))))"

definition MergeLabels :: "string \<Rightarrow> new_label list \<Rightarrow> label_collection \<Rightarrow> label_error + label_collection" where
  "MergeLabels origin newLabels lc =
     (case check_names {} newLabels of
        Some err \<Rightarrow> Inl err
      | None \<Rightarrow>
          (let oldIndices = (case lc_origins lc origin of None \<Rightarrow> [] | Some is \<Rightarrow> is);
               compacted = other_labels oldIndices (lc_labels lc)
           in try_bind (add_labels (label_names compacted) newLabels) (\<lambda>labelsToAdd.
                let newIndices = [length compacted..<length compacted + length labelsToAdd]
                in Inr \<lparr>lc_origins = (lc_origins lc)(origin := if newIndices = [] then None else Some newIndices),
                        lc_labels = compacted @ labelsToAdd\<rparr>)))"

definition AllLabels :: "label_collection \<Rightarrow> label list" where
  "AllLabels lc = lc_labels lc"

text \<open>The files are merged one after the other; the first error ends the load.\<close>

fun load_labels :: "(string \<times> new_label list) list \<Rightarrow> label_collection \<Rightarrow> label_error + label_collection" where
  "load_labels [] lc = Inr lc"
| "load_labels ((origin, ls) # fs) lc = try_bind (MergeLabels origin ls lc) (load_labels fs)"

subsection \<open>What a merge keeps\<close>

lemma other_labels_Nil [simp]: "other_labels [] ls = ls"
  by (simp add: other_labels_def)

lemma set_other_labels: "set (other_labels indices ls) \<subseteq> set ls"
  by (auto simp: other_labels_def dest: set_zip_leftD)

text \<open>Every stored label has a name, and no two labels the same.\<close>

definition stored_name :: "label \<Rightarrow> string option" where
  "stored_name l = (case map_of l ''name'' of Some n \<Rightarrow> n | None \<Rightarrow> None)"

definition labels_ok :: "label list \<Rightarrow> bool" where
  "labels_ok ls = ((\<forall>l \<in> set ls. map_of l ''name'' \<noteq> None) \<and> distinct (map stored_name ls))"

lemma label_names_stored: "labels_ok ls \<Longrightarrow> label_names ls = stored_name ` set ls"
  by (force simp: label_names_def labels_ok_def stored_name_def split: option.splits)

text \<open>The labels of a file: maps, each with a name, which \<open>updateLabels\<close> checks before.\<close>

definition file_labels :: "new_label list \<Rightarrow> bool" where
  "file_labels ls = (\<forall>l \<in> set ls. distinct (map fst l) \<and> name_of l \<noteq> None)"

definition new_name :: "new_label \<Rightarrow> string option" where
  "new_name l = (case name_of l of Some v \<Rightarrow> name_value v | None \<Rightarrow> None)"

lemma convert_values_name:
  "convert_values l = Inr r \<Longrightarrow> distinct (map fst l) \<Longrightarrow>
    map_of r ''name'' = (case map_of l ''name'' of Some (AnyStr n) \<Rightarrow> Some (Some n) | _ \<Rightarrow> None)"
proof (induction l arbitrary: r rule: convert_values.induct)
  case (2 k v l)
  have new: "k = ''name'' \<Longrightarrow> map_of l ''name'' = None" using 2(4) by (auto simp: map_of_eq_None_iff)
  show ?case
  proof (cases "k = ''name'' \<and> v = AnyNil")
    case True
    then show ?thesis using 2 new by simp
  next
    case False
    then obtain s r' where "v = AnyStr s" "convert_values l = Inr r'" "r = (k, Some s) # r'"
      using 2(3) by (cases v) (auto simp: try_bind_Inr_iff)
    then show ?thesis using 2(2) False 2(4) by auto
  qed
qed simp

lemma convert_label_name:
  assumes "convert_label l = Inr x" "distinct (map fst l)"
  shows "map_of x ''name'' = Some (new_name l)"
proof -
  obtain r where r: "convert_values l = Inr r" "x = r @ [(''name'', None)]"
    using assms(1) by (auto simp: convert_label_def try_bind_Inr_iff)
  from convert_values_name [OF r(1) assms(2)] r(2) show ?thesis
    by (auto simp: new_name_def name_of_def map_add_def split: option.splits go_any.splits)
qed

lemma add_labels_names:
  "add_labels ex ls = Inr xs \<Longrightarrow> file_labels ls \<Longrightarrow>
    map stored_name xs = map new_name ls \<and> (\<forall>x \<in> set xs. map_of x ''name'' \<noteq> None) \<and> (\<forall>l \<in> set ls. new_name l \<notin> ex)"
proof (induction ls arbitrary: xs)
  case (Cons l ls)
  obtain v where v: "name_of l = Some v" using Cons.prems(2) by (auto simp: file_labels_def)
  then obtain x ys where x: "convert_label l = Inr x" "add_labels ex ls = Inr ys" "xs = x # ys" "name_value v \<notin> ex"
    using Cons.prems(1) by (auto simp: try_bind_Inr_iff split: if_splits)
  have "map_of x ''name'' = Some (new_name l)" using convert_label_name [OF x(1)] Cons.prems(2) by (simp add: file_labels_def)
  then show ?case using Cons.IH [OF x(2)] Cons.prems(2) x v by (auto simp: file_labels_def stored_name_def new_name_def)
qed simp

lemma check_names_distinct:
  "check_names seen ls = None \<Longrightarrow> file_labels ls \<Longrightarrow> distinct (map new_name ls) \<and> (\<forall>l \<in> set ls. new_name l \<notin> seen)"
proof (induction ls arbitrary: seen)
  case (Cons l ls)
  obtain v where v: "name_of l = Some v" using Cons.prems(2) by (auto simp: file_labels_def)
  have ls: "file_labels ls" using Cons.prems(2) by (simp add: file_labels_def)
  from Cons.prems(1) v have "name_value v \<notin> seen" "check_names (insert (name_value v) seen) ls = None"
    by (cases v; auto split: if_splits)+
  then show ?case using Cons.IH [OF _ ls, of "insert (name_value v) seen"] v by (auto simp: new_name_def)
qed simp

lemma distinct_other: "distinct (map f ls) \<Longrightarrow> distinct (map f (other_labels indices ls))"
proof -
  assume d: "distinct (map f ls)"
  have "distinct (map (f \<circ> fst) (zip ls [0..<length ls]))" using d by (simp flip: map_map)
  then have "distinct (map (f \<circ> fst) (filter (\<lambda>(l, i). i \<notin> set indices) (zip ls [0..<length ls])))" by (rule distinct_map_filter)
  then show ?thesis by (simp add: other_labels_def)
qed

lemma merge_keeps_ok:
  assumes "MergeLabels origin ls lc = Inr lc'" "file_labels ls" "labels_ok (lc_labels lc)"
  shows "labels_ok (lc_labels lc')"
proof -
  define kept where "kept = other_labels (case lc_origins lc origin of None \<Rightarrow> [] | Some is \<Rightarrow> is) (lc_labels lc)"
  from assms(1) obtain added where a: "check_names {} ls = None" "add_labels (label_names kept) ls = Inr added"
      "lc_labels lc' = kept @ added"
    by (auto simp: MergeLabels_def Let_def try_bind_Inr_iff kept_def split: option.splits)
  have kept: "labels_ok kept" using assms(3) distinct_other [of stored_name "lc_labels lc"] set_other_labels
    unfolding kept_def labels_ok_def by blast
  note names = add_labels_names [OF a(2) assms(2)] check_names_distinct [OF a(1) assms(2)]
  have "stored_name ` set added = new_name ` set ls" using names(1) by (metis list.set_map)
  moreover have "stored_name ` set kept \<inter> new_name ` set ls = {}"
    using names(1) unfolding label_names_stored [OF kept] disjoint_iff by blast
  ultimately show ?thesis using kept names a(3) unfolding labels_ok_def by auto
qed

text \<open>A failing merge leaves the collection as it was.\<close>

fun merge_run :: "(string \<times> new_label list) list \<Rightarrow> label_collection \<Rightarrow> label_collection" where
  "merge_run [] lc = lc"
| "merge_run ((origin, ls) # fs) lc = merge_run fs (case MergeLabels origin ls lc of Inl _ \<Rightarrow> lc | Inr lc' \<Rightarrow> lc')"

text \<open>
  Labels never collide: after any sequence of loads and reloads of files, failed ones included, every
  label has a name and no two labels have the same.
\<close>

theorem labels_stay_distinct:
  assumes "\<forall>(origin, ls) \<in> set fs. file_labels ls"
  shows "labels_ok (AllLabels (merge_run fs NewLabelCollection))"
proof -
  have "labels_ok (lc_labels lc) \<Longrightarrow> labels_ok (lc_labels (merge_run fs lc))" for lc
    using assms
  proof (induction fs arbitrary: lc)
    case (Cons f fs)
    then show ?case by (cases f; cases "MergeLabels (fst f) (snd f) lc") (auto dest: merge_keeps_ok)
  qed simp
  from this [of NewLabelCollection] show ?thesis by (simp add: AllLabels_def NewLabelCollection_def labels_ok_def [of "[]"])
qed

theorem labels_stay_distinct_witness:
  "labels_ok (AllLabels (merge_run [(''f'', [[(''name'', AnyStr ''a''), (''color'', AnyStr ''red'')]]), (''g'', [[(''name'', AnyStr ''a'')]])]
     NewLabelCollection))"
  by (rule labels_stay_distinct) (simp add: file_labels_def name_of_def)

text \<open>
  Loading every file once gives the labels of all files in order; loading a second time does not: the indices
  of a file are not corrected when the labels of another file before it are replaced, so the reload of two
  files with one label each fails, for every two names.
\<close>

lemma first_load:
  assumes "load_labels fs lc = Inr lc'" "distinct (map fst fs)" "\<forall>(origin, ls) \<in> set fs. file_labels ls \<and> lc_origins lc origin = None"
  shows "map stored_name (lc_labels lc') = map stored_name (lc_labels lc) @ map new_name (concat (map snd fs))"
  using assms
proof (induction fs arbitrary: lc)
  case (Cons f fs)
  obtain origin ls where f: "f = (origin, ls)" by (cases f)
  from Cons.prems f obtain lc1 where lc1: "MergeLabels origin ls lc = Inr lc1" "load_labels fs lc1 = Inr lc'"
    by (auto simp: try_bind_Inr_iff)
  have o: "lc_origins lc origin = None" "file_labels ls" using Cons.prems(3) f by auto
  from lc1(1) o obtain added where a: "add_labels (label_names (lc_labels lc)) ls = Inr added" "lc_labels lc1 = lc_labels lc @ added"
      "\<forall>q. q \<noteq> origin \<longrightarrow> lc_origins lc1 q = lc_origins lc q"
    by (auto simp: MergeLabels_def Let_def try_bind_Inr_iff split: option.splits)
  have "map stored_name (lc_labels lc') = map stored_name (lc_labels lc1) @ map new_name (concat (map snd fs))"
  proof (rule Cons.IH [OF lc1(2)])
    show "distinct (map fst fs)" using Cons.prems(2) by simp
    show "\<forall>(origin, ls) \<in> set fs. file_labels ls \<and> lc_origins lc1 origin = None"
    proof (clarify, intro conjI)
      fix q l assume q: "(q, l) \<in> set fs"
      then have "q \<noteq> origin" using Cons.prems(2) f by (auto dest: in_set_zipE) (metis fst_conv image_eqI)
      then show "file_labels l" "lc_origins lc1 q = None" using Cons.prems(3) q a(3) by auto
    qed
  qed
  then show ?case using add_labels_names [OF a(1) o(2)] a(2) f by simp
qed simp

lemma reload_fails:
  assumes "f \<noteq> g" "a \<noteq> b"
  shows "load_labels [(f, [[(''name'', AnyStr a)]]), (g, [[(''name'', AnyStr b)]]), (f, [[(''name'', AnyStr a)]]), (g, [[(''name'', AnyStr b)]])]
    NewLabelCollection = Inl (LabelElsewhere (Some b))"
proof -
  let ?l = "\<lambda>n. [(''name'', Some n), (''name'', None)] :: label"
  have add: "add_labels ex [[(''name'', AnyStr n)]] = (if Some n \<in> ex then Inl (LabelElsewhere (Some n)) else Inr [?l n])" for n ex
    by (simp add: name_of_def convert_label_def)
  have check: "check_names {} [[(''name'', AnyStr n)]] = None" for n by (simp add: name_of_def)
  have names: "label_names [] = {}" "label_names [?l n] = {Some n}" for n by (auto simp: label_names_def)
  have 1: "MergeLabels f [[(''name'', AnyStr a)]] NewLabelCollection = Inr \<lparr>lc_origins = [f \<mapsto> [0]], lc_labels = [?l a]\<rparr>"
    by (simp add: MergeLabels_def check add names NewLabelCollection_def upt_rec Let_def del: check_names.simps add_labels.simps)
  have 2: "MergeLabels g [[(''name'', AnyStr b)]] \<lparr>lc_origins = [f \<mapsto> [0]], lc_labels = [?l a]\<rparr>
      = Inr \<lparr>lc_origins = [f \<mapsto> [0], g \<mapsto> [1]], lc_labels = [?l a, ?l b]\<rparr>"
    using assms by (simp add: MergeLabels_def check add names upt_rec Let_def del: check_names.simps add_labels.simps)
  have 3: "MergeLabels f [[(''name'', AnyStr a)]] \<lparr>lc_origins = [f \<mapsto> [0], g \<mapsto> [1]], lc_labels = [?l a, ?l b]\<rparr>
      = Inr \<lparr>lc_origins = [f \<mapsto> [0], g \<mapsto> [1], f \<mapsto> [1]], lc_labels = [?l b, ?l a]\<rparr>"
    using assms by (simp add: MergeLabels_def check add names other_labels_def upt_rec Let_def del: check_names.simps add_labels.simps)
  have 4: "MergeLabels g [[(''name'', AnyStr b)]] \<lparr>lc_origins = [f \<mapsto> [0], g \<mapsto> [1], f \<mapsto> [1]], lc_labels = [?l b, ?l a]\<rparr>
      = Inl (LabelElsewhere (Some b))"
    using assms by (simp add: MergeLabels_def check add names other_labels_def upt_rec Let_def del: check_names.simps add_labels.simps)
  show ?thesis by (simp only: load_labels.simps 1 2 3 4 try_bind.simps)
qed

end
