(* ===== verification/Catalog_Queries.thy ===== *)
theory Catalog_Queries
  imports Filter_Parser "HOL-Library.AList" "HOL-Library.List_Lexorder" "HOL-Library.Char_ord"
begin

text \<open>
  Named queries of the catalog configuration (\<open>catalog/internal/catalog/basecatalog\<close>): validation
  (\<open>validation.go\<close>), scoping by asset type (\<open>source_types.go\<close>), the merge over the origins of the
  configuration (\<open>named_queries.go\<close>), the conversion into a filter query (\<open>filter_query.go\<close>) and the
  resolution of \<open>min\<close> and \<open>max\<close> (\<open>filter_options.go\<close>); and the include and exclude patterns of names
  (\<open>name_filter.go\<close>).

  A Go map is an association list with distinct keys; where the code ranges over a map in Go's
  unspecified order, the model ranges in list order and the theorems do not depend on it.
\<close>

subsection \<open>Field filters and named queries\<close>

record field_filter =
  ff_Operator :: string
  ff_Value :: go_any

type_synonym field_filters = "(string \<times> field_filter) list"

record named_query =
  nq_AssetType :: string
  nq_Filters :: field_filters

definition AssetTypeModels :: string where "AssetTypeModels = ''models''"
definition AssetTypeMCPServers :: string where "AssetTypeMCPServers = ''mcp_servers''"
definition AssetTypeAgents :: string where "AssetTypeAgents = ''agents''"
definition AssetTypeSkills :: string where "AssetTypeSkills = ''skills''"
definition AssetTypeServingRuntimes :: string where "AssetTypeServingRuntimes = ''serving_runtimes''"

definition FilterNamedQueriesByAssetType ::
  "(string \<times> named_query) list \<Rightarrow> string \<Rightarrow> (string \<times> field_filters) list" where
  "FilterNamedQueriesByAssetType queries target =
     map (\<lambda>(name, nq). (name, nq_Filters nq))
       (filter (\<lambda>(name, nq).
          (if nq_AssetType nq = [] then AssetTypeModels else nq_AssetType nq) = target) queries)"

subsection \<open>Validation\<close>

datatype query_error =
    EmptyQueryName
  | InvalidAssetType string string
  | NoFieldFilter string
  | EmptyFieldName string
  | EmptyOperator string string
  | UnsupportedOperator string string string
  | NilValue string string
  | ArrayRequired string string string

definition supportedOperators :: "string list" where
  "supportedOperators = [''='', ''!='', ''>'', ''<'', ''>='', ''<='', ''LIKE'', ''ILIKE'', ''IN'', ''NOT IN'']"

definition is_array :: "go_any \<Rightarrow> bool" where
  "is_array v = (case v of AnyList _ \<Rightarrow> True | _ \<Rightarrow> False)"

definition validateFieldFilter :: "string \<Rightarrow> string \<Rightarrow> field_filter \<Rightarrow> query_error option" where
  "validateFieldFilter queryName fieldName ff =
     (if ff_Operator ff = [] then Some (EmptyOperator fieldName queryName)
      else let normalizedOperator = to_upper (ff_Operator ff)
           in if normalizedOperator \<notin> set supportedOperators
              then Some (UnsupportedOperator (ff_Operator ff) fieldName queryName)
              else if ff_Value ff = AnyNil then Some (NilValue fieldName queryName)
              else if normalizedOperator \<in> {''IN'', ''NOT IN''} \<and> \<not> is_array (ff_Value ff)
              then Some (ArrayRequired (ff_Operator ff) fieldName queryName)
              else None)"

fun validate_fields :: "string \<Rightarrow> field_filters \<Rightarrow> query_error option" where
  "validate_fields queryName [] = None"
| "validate_fields queryName ((fieldName, ff) # rest) =
     (if fieldName = [] then Some (EmptyFieldName queryName)
      else case validateFieldFilter queryName fieldName ff of
             Some err \<Rightarrow> Some err
           | None \<Rightarrow> validate_fields queryName rest)"

definition validAssetTypes :: "string list" where
  "validAssetTypes = [AssetTypeModels, AssetTypeMCPServers, AssetTypeAgents, AssetTypeSkills,
     AssetTypeServingRuntimes]"

fun ValidateNamedQueries :: "(string \<times> named_query) list \<Rightarrow> query_error option" where
  "ValidateNamedQueries [] = None"
| "ValidateNamedQueries ((queryName, nq) # rest) =
     (if queryName = [] then Some EmptyQueryName
      else if nq_AssetType nq \<noteq> [] \<and> nq_AssetType nq \<notin> set validAssetTypes
      then Some (InvalidAssetType queryName (nq_AssetType nq))
      else if nq_Filters nq = [] then Some (NoFieldFilter queryName)
      else case validate_fields queryName (nq_Filters nq) of
             Some err \<Rightarrow> Some err
           | None \<Rightarrow> ValidateNamedQueries rest)"

subsection \<open>Conversion to a filter query\<close>

text \<open>
  \<open>formatValue\<close>; the argument \<open>fmt_v\<close> is the verb \<open>%v\<close> of the package \<open>fmt\<close> on the values that are neither
  strings nor booleans.
\<close>

definition formatValue :: "(go_any \<Rightarrow> string) \<Rightarrow> go_any \<Rightarrow> string" where
  "formatValue fmt_v v = (case v of
      AnyStr s \<Rightarrow> [squote] @ replace_all [squote] [bslash, squote] s @ [squote]
    | AnyBool b \<Rightarrow> (if b then ''true'' else ''false'')
    | _ \<Rightarrow> fmt_v v)"

datatype convert_error = InRequiresArray string | NotInRequiresArray string

text \<open>The conditions one field contributes.\<close>

definition field_parts ::
  "(go_any \<Rightarrow> string) \<Rightarrow> string \<Rightarrow> field_filter \<Rightarrow> convert_error + string list" where
  "field_parts fmt_v field ff =
     (let oper = to_upper (ff_Operator ff)
      in if oper = ''IN'' then
           (case ff_Value ff of
              AnyList vals \<Rightarrow> Inr [field @ '' IN ('' @ join_with '', '' (map (formatValue fmt_v) vals) @ '')'']
            | _ \<Rightarrow> Inl (InRequiresArray field))
         else if oper = ''NOT IN'' then
           (case ff_Value ff of
              AnyList vals \<Rightarrow> Inr (map (\<lambda>v. field @ '' != '' @ formatValue fmt_v v) vals)
            | _ \<Rightarrow> Inl (NotInRequiresArray field))
         else Inr [field @ '' '' @ oper @ '' '' @ formatValue fmt_v (ff_Value ff)])"

fun convert_fields ::
  "(go_any \<Rightarrow> string) \<Rightarrow> field_filters \<Rightarrow> string list \<Rightarrow> convert_error + string list" where
  "convert_fields fmt_v filters [] = Inr []"
| "convert_fields fmt_v filters (field # names) =
     (case map_of filters field of
        None \<Rightarrow> convert_fields fmt_v filters names
      | Some ff \<Rightarrow>
          (case field_parts fmt_v field ff of
             Inl err \<Rightarrow> Inl err
           | Inr parts \<Rightarrow>
               (case convert_fields fmt_v filters names of
                  Inl err \<Rightarrow> Inl err | Inr rest \<Rightarrow> Inr (parts @ rest))))"

definition FieldFiltersToFilterQuery ::
  "(go_any \<Rightarrow> string) \<Rightarrow> field_filters \<Rightarrow> convert_error + string" where
  "FieldFiltersToFilterQuery fmt_v filters =
     (if filters = [] then Inr []
      else case convert_fields fmt_v filters (sort (map fst filters)) of
             Inl err \<Rightarrow> Inl err
           | Inr parts \<Rightarrow> Inr (join_with '' AND '' parts))"

subsection \<open>Merge over the origins\<close>

type_synonym query_map = "(string \<times> field_filters) list"

text \<open>\<open>maps.Copy\<close> into an association list: the entries of the second override.\<close>

definition copy_into :: "('k \<times> 'v) list \<Rightarrow> ('k \<times> 'v) list \<Rightarrow> ('k \<times> 'v) list" where
  "copy_into dst src = foldl (\<lambda>m (k, v). AList.update k v m) dst src"

definition merge_origin_queries :: "query_map \<Rightarrow> query_map \<Rightarrow> query_map" where
  "merge_origin_queries result originQueries =
     foldl (\<lambda>res (queryName, fieldFilters).
        AList.update queryName
          (copy_into (case map_of res queryName of None \<Rightarrow> [] | Some m \<Rightarrow> m) fieldFilters) res)
       result originQueries"

definition MergeNamedQueriesInOrder ::
  "string list \<Rightarrow> (string \<rightharpoonup> query_map) \<Rightarrow> query_map" where
  "MergeNamedQueriesInOrder originOrder entriesByOrigin =
     foldl (\<lambda>result origin.
        case entriesByOrigin origin of
          None \<Rightarrow> result
        | Some originQueries \<Rightarrow> merge_origin_queries result originQueries) [] originOrder"

subsection \<open>Resolution of min and max\<close>

record filter_option =
  fo_Type :: string
  fo_Values :: "go_any list"
  fo_Range :: "(float64 option \<times> float64 option) option"

definition resolve_min_max :: "(string \<rightharpoonup> filter_option) \<Rightarrow> string \<Rightarrow> field_filter \<Rightarrow> field_filter" where
  "resolve_min_max options key ff =
     (if ff_Value ff \<noteq> AnyStr ''min'' \<and> ff_Value ff \<noteq> AnyStr ''max'' then ff
      else case options key of
             None \<Rightarrow> ff
           | Some opt \<Rightarrow>
               (case fo_Range opt of
                  None \<Rightarrow> ff
                | Some (lo, hi) \<Rightarrow>
                    (case (if ff_Value ff = AnyStr ''min'' then lo else hi) of
                       None \<Rightarrow> ff
                     | Some x \<Rightarrow> ff\<lparr>ff_Value := AnyFloat x\<rparr>)))"

definition ApplyMinMax :: "field_filters \<Rightarrow> (string \<rightharpoonup> filter_option) \<Rightarrow> field_filters" where
  "ApplyMinMax query options = map (\<lambda>(key, ff). (key, resolve_min_max options key ff)) query"

definition ConvertNamedQueries :: "query_map \<Rightarrow> (string \<rightharpoonup> filter_option) \<Rightarrow> query_map option" where
  "ConvertNamedQueries queries options =
     (if queries = [] then None
      else Some (map (\<lambda>(queryName, fieldFilters). (queryName, ApplyMinMax fieldFilters options)) queries))"

subsection \<open>Facts about named queries\<close>

lemma validate_fields_None:
  "validate_fields q fs = None \<Longrightarrow> (f, ff) \<in> set fs \<Longrightarrow> f \<noteq> [] \<and> validateFieldFilter q f ff = None"
  by (induction q fs rule: validate_fields.induct) (auto split: if_splits option.splits)

lemma ValidateNamedQueries_None:
  "ValidateNamedQueries qs = None \<Longrightarrow> (q, nq) \<in> set qs
     \<Longrightarrow> q \<noteq> [] \<and> nq_Filters nq \<noteq> [] \<and> validate_fields q (nq_Filters nq) = None"
  by (induction qs rule: ValidateNamedQueries.induct) (auto split: if_splits option.splits)

lemma validated_field_parts:
  "validateFieldFilter q f ff = None \<Longrightarrow> \<exists>parts. field_parts fmt_v f ff = Inr parts"
  by (auto simp: validateFieldFilter_def field_parts_def Let_def is_array_def
      split: if_splits go_any.splits)

lemma convert_fields_total:
  "(\<And>f ff. map_of filters f = Some ff \<Longrightarrow> \<exists>parts. field_parts fmt_v f ff = Inr parts)
     \<Longrightarrow> \<exists>parts. convert_fields fmt_v filters names = Inr parts"
proof (induction names)
  case Nil
  then show ?case by simp
next
  case (Cons n names)
  then obtain rest where r: "convert_fields fmt_v filters names = Inr rest" by blast
  show ?case
  proof (cases "map_of filters n")
    case None
    with r show ?thesis by simp
  next
    case (Some ff)
    with Cons.prems obtain parts where "field_parts fmt_v n ff = Inr parts" by blast
    with Some r show ?thesis by simp
  qed
qed

text \<open>
  A configuration that passes validation never fails later when one of its named queries is turned into
  a filter query: for every validated set of queries and every asset type, the filters of each query
  selected for the type convert without error, whatever the operators' case.
\<close>

theorem validated_queries_convert:
  assumes "ValidateNamedQueries qs = None" "(name, filters) \<in> set (FilterNamedQueriesByAssetType qs target)"
  shows "\<exists>sql. FieldFiltersToFilterQuery fmt_v filters = Inr sql"
proof -
  from assms(2) obtain nq where nq: "(name, nq) \<in> set qs" "filters = nq_Filters nq"
    by (auto simp: FilterNamedQueriesByAssetType_def)
  from ValidateNamedQueries_None [OF assms(1) nq(1)]
  have v: "validate_fields name filters = None" by (simp add: nq(2))
  have "\<exists>parts. convert_fields fmt_v filters names = Inr parts" for names
    by (rule convert_fields_total)
      (metis map_of_SomeD validate_fields_None [OF v] validated_field_parts)
  then obtain parts where "convert_fields fmt_v filters (sort (map fst filters)) = Inr parts" by blast
  then show ?thesis by (simp add: FieldFiltersToFilterQuery_def)
qed

definition demo_queries :: "(string \<times> named_query) list" where
  "demo_queries = [(''q'', \<lparr>nq_AssetType = [],
     nq_Filters = [(''license'', \<lparr>ff_Operator = ''not in'', ff_Value = AnyList [AnyStr ''mit'']\<rparr>)]\<rparr>)]"

theorem validated_queries_convert_witness:
  "\<exists>sql. FieldFiltersToFilterQuery (\<lambda>_. [])
     [(''license'', \<lparr>ff_Operator = ''not in'', ff_Value = AnyList [AnyStr ''mit'']\<rparr>)] = Inr sql"
proof -
  have "ValidateNamedQueries demo_queries = None" by code_simp
  moreover have "(''q'', [(''license'', \<lparr>ff_Operator = ''not in'', ff_Value = AnyList [AnyStr ''mit'']\<rparr>)])
      \<in> set (FilterNamedQueriesByAssetType demo_queries ''models'')"
    by (simp add: demo_queries_def FilterNamedQueriesByAssetType_def AssetTypeModels_def)
  ultimately show ?thesis by (rule validated_queries_convert)
qed

subsubsection \<open>Merging\<close>

lemma map_of_update: "map_of (AList.update k v m) = (map_of m)(k \<mapsto> v)"
  by (simp add: update_conv')

lemma copy_into_lookup:
  "distinct (map fst src) \<Longrightarrow> map_of (copy_into dst src) = map_of dst ++ map_of src"
proof (induction src arbitrary: dst)
  case Nil
  then show ?case by (simp add: copy_into_def)
next
  case (Cons kv src)
  obtain k v where kv: "kv = (k, v)" by (cases kv)
  have "copy_into dst (kv # src) = copy_into (AList.update k v dst) src"
    by (simp add: copy_into_def kv)
  moreover have "k \<notin> dom (map_of src)" using Cons.prems kv by (simp add: dom_map_of_conv_image_fst)
  then have "(map_of dst)(k \<mapsto> v) ++ map_of src = map_of dst ++ ((map_of src)(k \<mapsto> v))"
    by (auto simp: map_add_def fun_eq_iff split: option.split)
  ultimately show ?case using Cons kv
    by (simp add: map_of_update del: map_add_upd fun_upd_apply)
qed

text \<open>The filter that a stack of maps gives a field of a query: the last map that has it.\<close>

definition lookup2 :: "query_map \<Rightarrow> string \<Rightarrow> string \<Rightarrow> field_filter option" where
  "lookup2 qs q f = (case map_of qs q of None \<Rightarrow> None | Some m \<Rightarrow> map_of m f)"

definition queries_wf :: "query_map \<Rightarrow> bool" where
  "queries_wf qs = (distinct (map fst qs) \<and> list_all (\<lambda>(q, m). distinct (map fst m)) qs)"

lemma merge_origin_lookup:
  "queries_wf new \<Longrightarrow> lookup2 (merge_origin_queries old new) q f
     = (case lookup2 new q f of Some x \<Rightarrow> Some x | None \<Rightarrow> lookup2 old q f)"
proof (induction new arbitrary: old)
  case Nil
  then show ?case by (simp add: merge_origin_queries_def lookup2_def)
next
  case (Cons qm new)
  obtain q' m where qm: "qm = (q', m)" by (cases qm)
  let ?old' = "AList.update q' (copy_into (case map_of old q' of None \<Rightarrow> [] | Some m \<Rightarrow> m) m) old"
  have step: "merge_origin_queries old (qm # new) = merge_origin_queries ?old' new"
    by (simp add: merge_origin_queries_def qm)
  have wf: "queries_wf new" "distinct (map fst m)" and nin: "q' \<notin> fst ` set new"
    using Cons.prems by (auto simp: queries_wf_def qm)
  have IH: "lookup2 (merge_origin_queries ?old' new) q f
      = (case lookup2 new q f of Some x \<Rightarrow> Some x | None \<Rightarrow> lookup2 ?old' q f)"
    by (rule Cons.IH [OF wf(1)])
  have none: "map_of new q' = None" using nin by (simp add: map_of_eq_None_iff)
  show ?case
    unfolding step IH
    using none by (auto simp: lookup2_def qm map_of_update copy_into_lookup [OF wf(2)] map_add_def
        split: option.splits)
qed

text \<open>
  The merged view of the named queries is decided field by field: a field of a query has the filter of
  the last origin in the priority order that defines this field of this query, and no other; origins
  without named queries and the order in which a map is traversed have no influence.
\<close>

theorem named_queries_last_origin_wins:
  assumes "\<And>origin qs. entries origin = Some qs \<Longrightarrow> queries_wf qs"
  shows "lookup2 (MergeNamedQueriesInOrder order entries) q f
    = last_some (\<lambda>origin. Option.bind (entries origin) (\<lambda>qs. lookup2 qs q f)) order"
proof (induction order rule: rev_induct)
  case Nil
  then show ?case by (simp add: MergeNamedQueriesInOrder_def lookup2_def)
next
  case (snoc origin order)
  show ?case
  proof (cases "entries origin")
    case None
    with snoc show ?thesis by (simp add: MergeNamedQueriesInOrder_def last_some_snoc)
  next
    case (Some qs)
    then show ?thesis
      using snoc merge_origin_lookup [OF assms [OF Some]]
      by (simp add: MergeNamedQueriesInOrder_def last_some_snoc split: option.split)
  qed
qed

theorem named_queries_last_origin_wins_witness:
  "lookup2 (MergeNamedQueriesInOrder [''default'', ''user'']
      [''default'' \<mapsto> [(''q'', [(''a'', \<lparr>ff_Operator = ''='', ff_Value = AnyInt64 1\<rparr>),
                             (''b'', \<lparr>ff_Operator = ''='', ff_Value = AnyInt64 1\<rparr>)])],
       ''user'' \<mapsto> [(''q'', [(''a'', \<lparr>ff_Operator = ''='', ff_Value = AnyInt64 2\<rparr>)])]]) ''q'' ''a''
    = Some \<lparr>ff_Operator = ''='', ff_Value = AnyInt64 2\<rparr>"
  by (subst named_queries_last_origin_wins)
    (auto simp: queries_wf_def lookup2_def split: if_splits)

subsection \<open>String values in a filter query\<close>

text \<open>
  The token \<open>String\<close> of the filter lexer, on input that starts with a single quote: the pattern
  \<open>'([^'\\]|\\.)*'\<close> takes the text up to the first quote that is not behind a backslash.
  \<open>Some (token, rest)\<close> is the token and what follows it.
\<close>

fun lex_body :: "string \<Rightarrow> (string \<times> string) option" where
  "lex_body [] = None"
| "lex_body (c # s) =
     (if c = squote then Some ([c], s)
      else if c = bslash then
        (case s of [] \<Rightarrow> None
         | d # s' \<Rightarrow> if d = CHR 0x0A then None
             else map_option (\<lambda>(t, r). (c # d # t, r)) (lex_body s'))
      else map_option (\<lambda>(t, r). (c # t, r)) (lex_body s))"

definition lex_string :: "string \<Rightarrow> (string \<times> string) option" where
  "lex_string s = (case s of
      c # r \<Rightarrow> if c = squote then map_option (\<lambda>(t, r'). (c # t, r')) (lex_body r) else None
    | [] \<Rightarrow> None)"

definition escape_quotes :: "string \<Rightarrow> string" where
  "escape_quotes s = replace_all [squote] [bslash, squote] s"

lemma quote_chars [simp]: "squote \<noteq> bslash" "bslash \<noteq> squote" "dquote \<noteq> bslash" "bslash \<noteq> dquote"
  "squote \<noteq> dquote" "dquote \<noteq> squote" "squote \<noteq> CHR 0x0A" "bslash \<noteq> CHR 0x0A"
  by (simp_all add: squote_def bslash_def dquote_def)

lemma escape_quotes_simps [simp]:
  "escape_quotes [] = []"
  "escape_quotes (c # s) = (if c = squote then bslash # squote # escape_quotes s else c # escape_quotes s)"
  by (simp_all add: escape_quotes_def hasPrefix_def)

lemma formatValue_string: "formatValue fmt_v (AnyStr s) = squote # escape_quotes s @ [squote]"
  by (simp add: formatValue_def escape_quotes_def)

lemma lex_body_escaped:
  "bslash \<notin> set s \<Longrightarrow> lex_body (escape_quotes s @ squote # rest) = Some (escape_quotes s @ [squote], rest)"
  by (induction s) auto

text \<open>An escaped string holds a backslash only before a quote, so the first and last unescaping passes keep it.\<close>

lemma escaped_no_double:
  "bslash \<notin> set s \<Longrightarrow> c \<noteq> squote \<Longrightarrow> replace_all [bslash, c] new (escape_quotes s) = escape_quotes s"
proof (induction s)
  case (Cons d s)
  then show ?case by (cases "escape_quotes s") (auto simp: hasPrefix_def)
qed simp

lemma unescape_quotes:
  "bslash \<notin> set s \<Longrightarrow> replace_all [bslash, squote] [squote] (escape_quotes s) = s"
  by (induction s) (auto simp: hasPrefix_def)

lemma no_bslash_replace: "bslash \<notin> set s \<Longrightarrow> replace_all (bslash # old) new s = s"
  by (rule replace_all_no_head) (rule refl)

text \<open>
  A string value of a named query survives the way through the filter language: for every value without
  a backslash, quotes and line breaks included, the formatted text is one string token of the filter
  lexer, whatever follows it, and unquoting the token gives the value back.
\<close>

theorem named_query_string_roundtrip:
  assumes "bslash \<notin> set s"
  shows "lex_string (formatValue fmt_v (AnyStr s) @ rest) = Some (formatValue fmt_v (AnyStr s), rest)
    \<and> unquoteStringValue (formatValue fmt_v (AnyStr s)) = s"
proof -
  have "unquoteStringValue (squote # escape_quotes s @ [squote])
      = replace_all [bslash, bslash] [bslash] (replace_all [bslash, squote] [squote]
          (replace_all [bslash, dquote] [dquote] (escape_quotes s)))"
    by (simp add: unquoteStringValue_def Let_def)
  also have "\<dots> = s"
    using assms by (simp only: escaped_no_double quote_chars unescape_quotes no_bslash_replace
        not_False_eq_True)
  finally show ?thesis
    using lex_body_escaped [OF assms, of rest]
    by (simp add: formatValue_string lex_string_def)
qed

theorem named_query_string_roundtrip_witness:
  "lex_string (formatValue (\<lambda>_. []) (AnyStr [CHR ''a'', squote, CHR ''b'']) @ '' AND x = 1'')
     = Some (formatValue (\<lambda>_. []) (AnyStr [CHR ''a'', squote, CHR ''b'']), '' AND x = 1'')
   \<and> unquoteStringValue (formatValue (\<lambda>_. []) (AnyStr [CHR ''a'', squote, CHR ''b''])) = [CHR ''a'', squote, CHR ''b'']"
  by (rule named_query_string_roundtrip) (simp add: bslash_def squote_def)

text \<open>
  Backslashes of a value are not escaped. A value that ends in one leaves the string unterminated, so the
  query does not lex; and a value that starts with a backslash and a quote ends its own string after two
  backslashes, so that the rest of the value is read as filter text.
\<close>

theorem named_query_backslash_breaks_string:
  "(bslash \<notin> set s \<longrightarrow> lex_string (formatValue fmt_v (AnyStr (s @ [bslash]))) = None)
   \<and> lex_string (formatValue fmt_v (AnyStr (bslash # squote # s)))
       = Some ([squote, bslash, bslash, squote], escape_quotes s @ [squote])"
proof -
  have app: "escape_quotes (s @ t) = escape_quotes s @ escape_quotes t" for s t
    by (induction s) auto
  have "lex_body (escape_quotes s @ [bslash, squote]) = None" if "bslash \<notin> set s"
    using that by (induction s) auto
  then show ?thesis by (auto simp: formatValue_string lex_string_def app)
qed

theorem named_query_backslash_breaks_string_witness:
  "lex_string (formatValue (\<lambda>_. []) (AnyStr (''C:'' @ [bslash]))) = None"
  using named_query_backslash_breaks_string [of "''C:''" "\<lambda>_. []"] by (simp add: bslash_def)

subsection \<open>Name patterns\<close>

text \<open>
  \<open>newCompiledPattern\<close> turns a glob into the regular expression \<open>(?i)^...$\<close> in which every \<open>*\<close> is
  \<open>.*\<close> (any text without a line feed) and every other character is literal up to case. The compiled
  form is the list of these elements, and \<open>re_match\<close> is the meaning of the expression.
\<close>

datatype pattern_elem = AnyText | Literal char

type_synonym compiled_pattern = "pattern_elem list"

datatype pattern_error = EmptyPattern string nat

definition newCompiledPattern :: "string \<Rightarrow> nat \<Rightarrow> string \<Rightarrow> pattern_error + compiled_pattern" where
  "newCompiledPattern field idx raw =
     (let trimmed = trim_space raw
      in if trimmed = [] then Inl (EmptyPattern field idx)
         else Inr (map (\<lambda>r. if r = CHR ''*'' then AnyText else Literal r) trimmed))"

fun compile_from :: "string \<Rightarrow> nat \<Rightarrow> string list \<Rightarrow> pattern_error + compiled_pattern list" where
  "compile_from field i [] = Inr []"
| "compile_from field i (pattern # patterns) =
     (case newCompiledPattern field i pattern of
        Inl err \<Rightarrow> Inl err
      | Inr cp \<Rightarrow> (case compile_from field (Suc i) patterns of
                     Inl err \<Rightarrow> Inl err | Inr cps \<Rightarrow> Inr (cp # cps)))"

definition compilePatterns :: "string \<Rightarrow> string list \<Rightarrow> pattern_error + compiled_pattern list" where
  "compilePatterns field patterns = compile_from field 0 patterns"

function re_match :: "compiled_pattern \<Rightarrow> string \<Rightarrow> bool" where
  "re_match [] s = (s = [])"
| "re_match (Literal c # p) s =
     (case s of [] \<Rightarrow> False | d # s' \<Rightarrow> to_lower_char c = to_lower_char d \<and> re_match p s')"
| "re_match (AnyText # p) s =
     (re_match p s \<or> (case s of [] \<Rightarrow> False | d # s' \<Rightarrow> d \<noteq> CHR 0x0A \<and> re_match (AnyText # p) s'))"
  by pat_completeness auto
termination
  by (relation "measure (\<lambda>(p, s). length p + length s)") auto

lemma re_match_star [simp]:
  "re_match (AnyText # p) [] = re_match p []"
  "re_match (AnyText # p) (d # s) = (re_match p (d # s) \<or> d \<noteq> CHR 0x0A \<and> re_match (AnyText # p) s)"
  by simp_all

declare re_match.simps(3) [simp del]

record name_filter =
  nf_included :: "compiled_pattern list"
  nf_excluded :: "compiled_pattern list"

text \<open>\<open>ValidatePatterns\<close>; the detection of patterns that are in both lists only writes a log line.\<close>

definition ValidatePatterns ::
  "string \<Rightarrow> string list \<Rightarrow> string \<Rightarrow> string list \<Rightarrow> pattern_error option" where
  "ValidatePatterns includedField included excludedField excluded =
     (case compilePatterns includedField included of
        Inl err \<Rightarrow> Some err
      | Inr _ \<Rightarrow> (case compilePatterns excludedField excluded of Inl err \<Rightarrow> Some err | Inr _ \<Rightarrow> None))"

definition NewNameFilter ::
  "string \<Rightarrow> string list \<Rightarrow> string \<Rightarrow> string list \<Rightarrow> pattern_error + name_filter option" where
  "NewNameFilter includedField included excludedField excluded =
     (case compilePatterns includedField included of
        Inl err \<Rightarrow> Inl err
      | Inr inc \<Rightarrow>
          (case compilePatterns excludedField excluded of
             Inl err \<Rightarrow> Inl err
           | Inr exc \<Rightarrow>
               if inc = [] \<and> exc = [] then Inr None
               else Inr (Some \<lparr>nf_included = inc, nf_excluded = exc\<rparr>)))"

definition Allows :: "name_filter option \<Rightarrow> string \<Rightarrow> bool" where
  "Allows f name =
     (case f of
        None \<Rightarrow> True
      | Some nf \<Rightarrow>
          (if nf_included nf \<noteq> [] \<and> \<not> (\<exists>p \<in> set (nf_included nf). re_match p name) then False
           else \<not> (\<exists>p \<in> set (nf_excluded nf). re_match p name)))"

text \<open>The meaning of a glob as the documentation gives it.\<close>

inductive glob :: "string \<Rightarrow> string \<Rightarrow> bool" where
  glob_end: "glob [] []"
| glob_lit: "c \<noteq> CHR ''*'' \<Longrightarrow> to_lower_char c = to_lower_char d \<Longrightarrow> glob p s \<Longrightarrow> glob (c # p) (d # s)"
| glob_star: "CHR 0x0A \<notin> set w \<Longrightarrow> glob p s \<Longrightarrow> glob (CHR ''*'' # p) (w @ s)"

inductive_cases glob_NilE: "glob [] s"
inductive_cases glob_ConsE: "glob (c # p) s"

definition compiled :: "string \<Rightarrow> compiled_pattern" where
  "compiled p = map (\<lambda>r. if r = CHR ''*'' then AnyText else Literal r) p"

lemma compiled_simps [simp]:
  "compiled [] = []"
  "compiled (c # p) = (if c = CHR ''*'' then AnyText else Literal c) # compiled p"
  by (simp_all add: compiled_def)

lemma re_match_star_append:
  "CHR 0x0A \<notin> set w \<Longrightarrow> re_match p s \<Longrightarrow> re_match (AnyText # p) (w @ s)"
  by (induction w; cases s) auto

lemma re_match_starE:
  "re_match (AnyText # p) s \<Longrightarrow> \<exists>w t. s = w @ t \<and> CHR 0x0A \<notin> set w \<and> re_match p t"
proof (induction s)
  case Nil
  then have "re_match p []" by simp
  then show ?case by (intro exI [of _ "[]"]) simp
next
  case (Cons d s)
  then have "re_match p (d # s) \<or> d \<noteq> CHR 0x0A \<and> re_match (AnyText # p) s"
    by simp
  then show ?case
  proof (elim disjE)
    assume "re_match p (d # s)"
    then have "d # s = [] @ (d # s) \<and> CHR 0x0A \<notin> set [] \<and> re_match p (d # s)" by simp
    then show ?thesis by blast
  next
    assume 2: "d \<noteq> CHR 0x0A \<and> re_match (AnyText # p) s"
    with Cons.IH obtain w t where "s = w @ t" "CHR 0x0A \<notin> set w" "re_match p t" by blast
    with 2 have "d # s = (d # w) @ t \<and> CHR 0x0A \<notin> set (d # w) \<and> re_match p t" by auto
    then show ?thesis by blast
  qed
qed

lemma re_match_glob: "re_match (compiled p) s \<longleftrightarrow> glob p s"
proof
  show "glob p s \<Longrightarrow> re_match (compiled p) s"
    by (induction rule: glob.induct) (simp_all add: re_match_star_append)
  show "re_match (compiled p) s \<Longrightarrow> glob p s"
  proof (induction p arbitrary: s)
    case Nil
    then show ?case by (simp add: glob_end)
  next
    case (Cons c p)
    show ?case
    proof (cases "c = CHR ''*''")
      case True
      with Cons.prems have "re_match (AnyText # compiled p) s" by simp
      then obtain w t where "s = w @ t" "CHR 0x0A \<notin> set w" "re_match (compiled p) t"
        using re_match_starE by blast
      with Cons.IH True show ?thesis by (auto intro: glob_star)
    next
      case False
      with Cons show ?thesis by (auto intro: glob_lit split: list.splits)
    qed
  qed
qed

lemma newCompiledPattern_Inr:
  "trim_space q \<noteq> [] \<Longrightarrow> newCompiledPattern field i q = Inr (compiled (trim_space q))"
  by (simp add: newCompiledPattern_def compiled_def Let_def)

lemma compile_from_Inr:
  "list_all (\<lambda>p. trim_space p \<noteq> []) ps
     \<Longrightarrow> compile_from field i ps = Inr (map (\<lambda>p. compiled (trim_space p)) ps)"
  by (induction ps arbitrary: i) (simp_all add: newCompiledPattern_Inr)

lemma compile_from_Inl:
  "\<not> list_all (\<lambda>p. trim_space p \<noteq> []) ps \<Longrightarrow> \<exists>e. compile_from field i ps = Inl e"
proof (induction ps arbitrary: i)
  case (Cons q ps)
  show ?case
  proof (cases "trim_space q = []")
    case True
    then show ?thesis by (simp add: newCompiledPattern_def)
  next
    case False
    with Cons.prems Cons.IH [of "Suc i"] obtain e where "compile_from field (Suc i) ps = Inl e" by auto
    with False show ?thesis by (simp add: newCompiledPattern_Inr)
  qed
qed simp

lemma compilePatterns_Inr:
  "list_all (\<lambda>p. trim_space p \<noteq> []) ps
     \<Longrightarrow> compilePatterns field ps = Inr (map (\<lambda>p. compiled (trim_space p)) ps)"
  by (simp add: compilePatterns_def compile_from_Inr)

lemma compilePatterns_Inl:
  "\<not> list_all (\<lambda>p. trim_space p \<noteq> []) ps \<Longrightarrow> \<exists>e. compilePatterns field ps = Inl e"
  by (simp add: compilePatterns_def compile_from_Inl)

text \<open>
  A name passes a filter exactly when it matches one of the include patterns, if there are any, and none of the
  exclude patterns, where matching is that of globs: the whole name, \<open>*\<close> for any text without a line
  feed, letters up to case, patterns trimmed. Exclusion wins; and a filter is built unless a pattern is
  blank.
\<close>

theorem name_filter_decides:
  "if \<exists>p \<in> set (inc @ exc). trim_space p = []
   then \<exists>e. NewNameFilter incField inc excField exc = Inl e
   else \<exists>f. NewNameFilter incField inc excField exc = Inr f
      \<and> Allows f name = ((inc = [] \<or> (\<exists>p \<in> set inc. glob (trim_space p) name))
           \<and> \<not> (\<exists>p \<in> set exc. glob (trim_space p) name))"
proof (cases "list_all (\<lambda>p. trim_space p \<noteq> []) inc \<and> list_all (\<lambda>p. trim_space p \<noteq> []) exc")
  case True
  then have "\<not> (\<exists>p \<in> set (inc @ exc). trim_space p = [])" by (auto simp: list_all_iff)
  with True show ?thesis
    by (auto simp: NewNameFilter_def compilePatterns_Inr Allows_def re_match_glob)
next
  case False
  then have "\<exists>p \<in> set (inc @ exc). trim_space p = []" by (auto simp: list_all_iff)
  moreover have "\<exists>e. NewNameFilter incField inc excField exc = Inl e"
    using False compilePatterns_Inl [of inc incField] compilePatterns_Inl [of exc excField]
    by (auto simp: NewNameFilter_def split: sum.split)
  ultimately show ?thesis by simp
qed

end
