(* ===== verification/Catalog_Sources.thy ===== *)
theory Catalog_Sources
  imports Catalog_Queries
begin

text \<open>
  The sources of the catalog (\<open>basecatalog/source_types.go\<close>, \<open>basecatalog/config.go\<close>, and the
  \<open>sources.go\<close> of every plugin): the configuration lists sources per kind, each configuration file is an
  origin, and a collection merges the origins field by field, later origins over earlier ones.

  The collections of the plugins have the same shape over different source types: the state and the
  operations that do not look into a source are generic, the merge of two sources and the defaults are
  those of the plugin. What a collection needs of them is the locale \<open>source_kind\<close>, interpreted for each
  plugin. A slice or map that may be nil is an \<open>option\<close>. The locks guard the collection and have no
  other effect.
\<close>

subsection \<open>Source types\<close>

type_synonym properties = "(string \<times> go_any) list"

record common_source_fields =
  cs_Name :: string
  cs_Enabled :: "bool option"
  cs_Labels :: "string list option"
  cs_Type :: string
  cs_Properties :: "properties option"
  cs_Origin :: string
  cs_AssetType :: "string option"

definition MergeCommonSourceFields ::
  "common_source_fields \<Rightarrow> common_source_fields \<Rightarrow> common_source_fields" where
  "MergeCommonSourceFields base override =
     \<lparr>cs_Name = (if cs_Name override \<noteq> [] then cs_Name override else cs_Name base),
      cs_Enabled = (if cs_Enabled override \<noteq> None then cs_Enabled override else cs_Enabled base),
      cs_Labels = (if cs_Labels override \<noteq> None then cs_Labels override else cs_Labels base),
      cs_Type = (if cs_Type override \<noteq> [] then cs_Type override else cs_Type base),
      cs_Properties = (if cs_Properties override \<noteq> None then cs_Properties override else cs_Properties base),
      cs_Origin = (if cs_Properties override \<noteq> None \<and> cs_Origin override \<noteq> []
                   then cs_Origin override else cs_Origin base),
      cs_AssetType = (if cs_AssetType override \<noteq> None then cs_AssetType override else cs_AssetType base)\<rparr>"

text \<open>
  The fields of the API struct \<open>CatalogSource\<close> that the configuration carries and the collections use,
  with those \<open>ModelSource\<close> adds.
\<close>

record model_source =
  m_Id :: string
  m_Name :: string
  m_Enabled :: "bool option"
  m_Labels :: "string list option"
  m_IncludedModels :: "string list option"
  m_ExcludedModels :: "string list option"
  m_AssetType :: "string option"
  m_Type :: string
  m_Properties :: "properties option"
  m_Origin :: string

record plugin_source =
  p_Name :: string
  p_ID :: string
  p_Type :: string
  p_Enabled :: "bool option"
  p_Properties :: "properties option"
  p_Labels :: "string list option"
  p_AssetType :: "string option"
  p_Origin :: string

text \<open>\<open>MCPSource\<close> has the fields of \<open>PluginSource\<close> and two pattern lists.\<close>

record mcp_source = plugin_source +
  s_IncludedServers :: "string list option"
  s_ExcludedServers :: "string list option"

definition PluginSource_IsEnabled :: "'a plugin_source_scheme \<Rightarrow> bool" where
  "PluginSource_IsEnabled s = (p_Enabled s = None \<or> p_Enabled s = Some True)"

subsection \<open>Merging two sources\<close>

text \<open>\<open>modelcatalog.mergeSources\<close>; the asset type is not passed to the helper.\<close>

definition model_common :: "model_source \<Rightarrow> common_source_fields" where
  "model_common s = \<lparr>cs_Name = m_Name s, cs_Enabled = m_Enabled s, cs_Labels = m_Labels s,
     cs_Type = m_Type s, cs_Properties = m_Properties s, cs_Origin = m_Origin s, cs_AssetType = None\<rparr>"

definition mergeSources :: "model_source \<Rightarrow> model_source \<Rightarrow> model_source" where
  "mergeSources base override =
     (let common = MergeCommonSourceFields (model_common base) (model_common override)
      in base\<lparr>m_Id := m_Id override,
           m_Name := cs_Name common,
           m_Enabled := cs_Enabled common,
           m_Labels := cs_Labels common,
           m_Type := cs_Type common,
           m_Properties := cs_Properties common,
           m_Origin := cs_Origin common,
           m_IncludedModels := (if m_IncludedModels override \<noteq> None then m_IncludedModels override
                                else m_IncludedModels base),
           m_ExcludedModels := (if m_ExcludedModels override \<noteq> None then m_ExcludedModels override
                                else m_ExcludedModels base)\<rparr>)"

definition applyDefaults :: "model_source \<Rightarrow> model_source" where
  "applyDefaults source =
     source\<lparr>m_Enabled := (if m_Enabled source = None then Some True else m_Enabled source),
            m_Labels := (if m_Labels source = None then Some [] else m_Labels source)\<rparr>"

definition plugin_common :: "'a plugin_source_scheme \<Rightarrow> common_source_fields" where
  "plugin_common s = \<lparr>cs_Name = p_Name s, cs_Enabled = p_Enabled s, cs_Labels = p_Labels s,
     cs_Type = p_Type s, cs_Properties = p_Properties s, cs_Origin = p_Origin s,
     cs_AssetType = p_AssetType s\<rparr>"

text \<open>What \<open>mergeAgentSources\<close>, its two copies and \<open>mergeMCPSources\<close> do with the common fields.\<close>

definition with_common ::
  "'a plugin_source_scheme \<Rightarrow> 'a plugin_source_scheme \<Rightarrow> 'a plugin_source_scheme" where
  "with_common base override =
     (let common = MergeCommonSourceFields (plugin_common base) (plugin_common override)
      in base\<lparr>p_Name := cs_Name common, p_Enabled := cs_Enabled common, p_Labels := cs_Labels common,
           p_Type := cs_Type common, p_Properties := cs_Properties common, p_Origin := cs_Origin common,
           p_AssetType := cs_AssetType common\<rparr>)"

definition mergeAgentSources :: "plugin_source \<Rightarrow> plugin_source \<Rightarrow> plugin_source" where
  "mergeAgentSources base override = with_common base override"

definition mergeSkillSources :: "plugin_source \<Rightarrow> plugin_source \<Rightarrow> plugin_source" where
  "mergeSkillSources base override = with_common base override"

definition mergeServingRuntimeSources :: "plugin_source \<Rightarrow> plugin_source \<Rightarrow> plugin_source" where
  "mergeServingRuntimeSources base override = with_common base override"

definition mergeMCPSources :: "mcp_source \<Rightarrow> mcp_source \<Rightarrow> mcp_source" where
  "mergeMCPSources base override =
     (with_common base override)
       \<lparr>p_ID := p_ID override,
        s_IncludedServers := (if s_IncludedServers override \<noteq> None then s_IncludedServers override
                              else s_IncludedServers base),
        s_ExcludedServers := (if s_ExcludedServers override \<noteq> None then s_ExcludedServers override
                              else s_ExcludedServers base)\<rparr>"

definition plugin_defaults :: "string \<Rightarrow> 'a plugin_source_scheme \<Rightarrow> 'a plugin_source_scheme" where
  "plugin_defaults assetType source =
     source\<lparr>p_Enabled := (if p_Enabled source = None then Some True else p_Enabled source),
            p_Labels := (if p_Labels source = None then Some [] else p_Labels source),
            p_AssetType := (if p_AssetType source = None then Some assetType else p_AssetType source)\<rparr>"

definition applyMCPDefaults :: "mcp_source \<Rightarrow> mcp_source" where
  "applyMCPDefaults source = plugin_defaults ''mcp_servers'' source"

definition applyAgentDefaults :: "plugin_source \<Rightarrow> plugin_source" where
  "applyAgentDefaults source = plugin_defaults ''agents'' source"

definition applySkillDefaults :: "plugin_source \<Rightarrow> plugin_source" where
  "applySkillDefaults source = plugin_defaults ''skills'' source"

definition applyServingRuntimeDefaults :: "plugin_source \<Rightarrow> plugin_source" where
  "applyServingRuntimeDefaults source = plugin_defaults ''serving_runtimes'' source"

subsection \<open>Collections\<close>

record 's origin_entry =
  oe_origin :: string
  oe_sources :: "(string \<times> 's) list"

record 's source_collection =
  sc_entries :: "'s origin_entry list"
  sc_namedQueryEntries :: "string \<rightharpoonup> query_map"

definition NewSourceCollection :: "string list \<Rightarrow> 's source_collection" where
  "NewSourceCollection originOrder =
     \<lparr>sc_entries = map (\<lambda>origin. \<lparr>oe_origin = origin, oe_sources = []\<rparr>) originOrder,
      sc_namedQueryEntries = Map.empty\<rparr>"

fun set_origin :: "string \<Rightarrow> (string \<times> 's) list \<Rightarrow> 's origin_entry list \<Rightarrow> 's origin_entry list" where
  "set_origin origin sources [] = [\<lparr>oe_origin = origin, oe_sources = sources\<rparr>]"
| "set_origin origin sources (e # es) =
     (if oe_origin e = origin then e\<lparr>oe_sources := sources\<rparr> # es
      else e # set_origin origin sources es)"

definition mergeSourcesInternal ::
  "'s source_collection \<Rightarrow> string \<Rightarrow> (string \<times> 's) list \<Rightarrow> 's source_collection" where
  "mergeSourcesInternal sc origin sources = sc\<lparr>sc_entries := set_origin origin sources (sc_entries sc)\<rparr>"

definition Merge :: "'s source_collection \<Rightarrow> string \<Rightarrow> (string \<times> 's) list \<Rightarrow> 's source_collection" where
  "Merge sc origin sources =
     mergeSourcesInternal (sc\<lparr>sc_namedQueryEntries := (sc_namedQueryEntries sc)(origin := None)\<rparr>) origin sources"

definition MergeWithNamedQueries ::
  "'s source_collection \<Rightarrow> string \<Rightarrow> (string \<times> 's) list \<Rightarrow> query_map \<Rightarrow> 's source_collection" where
  "MergeWithNamedQueries sc origin sources namedQueries =
     (let sc' = mergeSourcesInternal sc origin sources
      in sc'\<lparr>sc_namedQueryEntries := (sc_namedQueryEntries sc')(origin \<mapsto> namedQueries)\<rparr>)"

definition GetNamedQueries :: "'s source_collection \<Rightarrow> query_map" where
  "GetNamedQueries sc = MergeNamedQueriesInOrder (map oe_origin (sc_entries sc)) (sc_namedQueryEntries sc)"

text \<open>The two loops of \<open>merged\<close>; \<open>mergeF\<close> and \<open>defaultF\<close> are the plugin's.\<close>

definition merge_entry :: "('s \<Rightarrow> 's \<Rightarrow> 's) \<Rightarrow> (string \<times> 's) list \<Rightarrow> 's origin_entry \<Rightarrow> (string \<times> 's) list" where
  "merge_entry mergeF result entry =
     foldl (\<lambda>res (sid, source).
        AList.update sid (case map_of res sid of Some existing \<Rightarrow> mergeF existing source
                          | None \<Rightarrow> source) res) result (oe_sources entry)"

definition merged_with ::
  "('s \<Rightarrow> 's \<Rightarrow> 's) \<Rightarrow> ('s \<Rightarrow> 's) \<Rightarrow> 's source_collection \<Rightarrow> (string \<times> 's) list" where
  "merged_with mergeF defaultF sc =
     map (\<lambda>(sid, source). (sid, defaultF source)) (foldl (merge_entry mergeF) [] (sc_entries sc))"

definition model_merged :: "model_source source_collection \<Rightarrow> (string \<times> model_source) list" where
  "model_merged = merged_with mergeSources applyDefaults"

definition mcp_merged :: "mcp_source source_collection \<Rightarrow> (string \<times> mcp_source) list" where
  "mcp_merged = merged_with mergeMCPSources applyMCPDefaults"

definition agent_merged :: "plugin_source source_collection \<Rightarrow> (string \<times> plugin_source) list" where
  "agent_merged = merged_with mergeAgentSources applyAgentDefaults"

definition skill_merged :: "plugin_source source_collection \<Rightarrow> (string \<times> plugin_source) list" where
  "skill_merged = merged_with mergeSkillSources applySkillDefaults"

definition serving_runtime_merged :: "plugin_source source_collection \<Rightarrow> (string \<times> plugin_source) list" where
  "serving_runtime_merged = merged_with mergeServingRuntimeSources applyServingRuntimeDefaults"

text \<open>\<open>Get\<close> of the model collection: only an enabled source is returned.\<close>

definition model_Get :: "model_source source_collection \<Rightarrow> string \<Rightarrow> model_source option" where
  "model_Get sc name =
     (case map_of (model_merged sc) name of
        None \<Rightarrow> None
      | Some source \<Rightarrow> if m_Enabled source = Some True then Some source else None)"

text \<open>
  \<open>ByLabel\<close> of the model, MCP, agent and skill collections: two passes over the merged sources into a
  map by source id, whose values are returned.
\<close>

definition labels_of :: "string list option \<Rightarrow> string list" where
  "labels_of l = (case l of None \<Rightarrow> [] | Some ls \<Rightarrow> ls)"

definition by_label ::
  "('s \<Rightarrow> bool) \<Rightarrow> ('s \<Rightarrow> string list option) \<Rightarrow> ('s \<Rightarrow> string) \<Rightarrow> (string \<times> 's) list \<Rightarrow> string list \<Rightarrow> 's list" where
  "by_label enabled labels key sources wanted =
     (let labelMap = set (map to_lower wanted);
          pass1 = (if ''null'' \<in> labelMap then
            foldl (\<lambda>m (sid, s). if \<not> enabled s then m
              else if labels_of (labels s) = [] then AList.update (key s) s m else m) [] sources else []);
          pass2 = foldl (\<lambda>m (sid, s). if \<not> enabled s then m
              else if \<exists>l \<in> set (labels_of (labels s)). to_lower l \<in> labelMap
              then AList.update (key s) s m else m) pass1 sources
      in map snd pass2)"

definition model_ByLabel :: "model_source source_collection \<Rightarrow> string list \<Rightarrow> model_source list" where
  "model_ByLabel sc wanted =
     by_label (\<lambda>s. m_Enabled s = Some True) m_Labels m_Id (model_merged sc) wanted"

definition mcp_ByLabel :: "mcp_source source_collection \<Rightarrow> string list \<Rightarrow> mcp_source list" where
  "mcp_ByLabel sc wanted =
     by_label (\<lambda>s. p_Enabled s = Some True) p_Labels p_ID (mcp_merged sc) wanted"

definition agent_ByLabel :: "plugin_source source_collection \<Rightarrow> string list \<Rightarrow> plugin_source list" where
  "agent_ByLabel sc wanted =
     by_label (\<lambda>s. p_Enabled s \<noteq> Some False) p_Labels p_ID (agent_merged sc) wanted"

definition skill_ByLabel :: "plugin_source source_collection \<Rightarrow> string list \<Rightarrow> plugin_source list" where
  "skill_ByLabel sc wanted =
     by_label (\<lambda>s. p_Enabled s \<noteq> Some False) p_Labels p_ID (skill_merged sc) wanted"

text \<open>The serving runtime collection filters in one pass and sorts by id.\<close>

definition serving_runtime_ByLabel ::
  "plugin_source source_collection \<Rightarrow> string list \<Rightarrow> plugin_source list" where
  "serving_runtime_ByLabel sc wanted =
     (let w = set (map to_lower wanted)
      in sort_key p_ID (filter (\<lambda>s. PluginSource_IsEnabled s
           \<and> (labels_of (p_Labels s) = [] \<and> ''null'' \<in> w
              \<or> (\<exists>l \<in> set (labels_of (p_Labels s)). to_lower l \<in> w)))
         (map snd (serving_runtime_merged sc))))"

subsection \<open>The merged view\<close>

definition entry_wf :: "'s origin_entry \<Rightarrow> bool" where
  "entry_wf e = distinct (map fst (oe_sources e))"

text \<open>A Go map has each key once.\<close>

definition collection_wf :: "'s source_collection \<Rightarrow> bool" where
  "collection_wf sc = list_all entry_wf (sc_entries sc)"

text \<open>The layers of a source: what each origin that has it says, in priority order.\<close>

fun entry_layers :: "'s origin_entry list \<Rightarrow> string \<Rightarrow> 's list" where
  "entry_layers [] sid = []"
| "entry_layers (e # es) sid =
     (case map_of (oe_sources e) sid of None \<Rightarrow> entry_layers es sid | Some s \<Rightarrow> s # entry_layers es sid)"

definition layers :: "'s source_collection \<Rightarrow> string \<Rightarrow> 's list" where
  "layers sc sid = entry_layers (sc_entries sc) sid"

lemma entry_layers_snoc:
  "entry_layers (es @ [e]) sid =
     entry_layers es sid @ (case map_of (oe_sources e) sid of None \<Rightarrow> [] | Some s \<Rightarrow> [s])"
  by (induction es) (auto split: option.splits)

lemma entry_layers_in: "s \<in> set (entry_layers es sid) \<Longrightarrow> \<exists>e \<in> set es. (sid, s) \<in> set (oe_sources e)"
  by (induction es) (auto split: option.splits dest: map_of_SomeD)

lemma merge_entry_lookup:
  assumes "entry_wf e"
  shows "map_of (merge_entry mergeF res e) sid =
     (case map_of (oe_sources e) sid of
        None \<Rightarrow> map_of res sid
      | Some s \<Rightarrow> Some (case map_of res sid of Some existing \<Rightarrow> mergeF existing s | None \<Rightarrow> s))"
proof -
  have "map_of (foldl (\<lambda>res (sid, source).
        AList.update sid (case map_of res sid of Some existing \<Rightarrow> mergeF existing source
                          | None \<Rightarrow> source) res) res xs) sid =
     (case map_of xs sid of
        None \<Rightarrow> map_of res sid
      | Some s \<Rightarrow> Some (case map_of res sid of Some existing \<Rightarrow> mergeF existing s | None \<Rightarrow> s))"
    if "distinct (map fst xs)" for xs
    using that
  proof (induction xs arbitrary: res)
    case (Cons x xs)
    obtain i s where x: "x = (i, s)" by (cases x)
    have "map_of xs i = None" using Cons.prems x by (simp add: map_of_eq_None_iff)
    with Cons x show ?case by (auto simp: map_of_update split: option.splits)
  qed simp
  then show ?thesis using assms by (simp add: merge_entry_def entry_wf_def)
qed

lemma merge_entry_distinct:
  "distinct (map fst res) \<Longrightarrow> distinct (map fst (merge_entry mergeF res e))"
proof -
  have "distinct (map fst (foldl (\<lambda>res (sid, source).
        AList.update sid (case map_of res sid of Some existing \<Rightarrow> mergeF existing source
                          | None \<Rightarrow> source) res) res xs))" if "distinct (map fst res)" for xs
    using that by (induction xs arbitrary: res) (auto simp: distinct_update)
  then show "distinct (map fst res) \<Longrightarrow> distinct (map fst (merge_entry mergeF res e))"
    by (simp add: merge_entry_def)
qed

lemma merged_entries_lookup:
  "list_all entry_wf es \<Longrightarrow> map_of (foldl (merge_entry mergeF) [] es) sid =
     (case entry_layers es sid of [] \<Rightarrow> None | l # ls \<Rightarrow> Some (foldl mergeF l ls))"
proof (induction es rule: rev_induct)
  case Nil
  then show ?case by simp
next
  case (snoc e es)
  then have IH: "map_of (foldl (merge_entry mergeF) [] es) sid =
     (case entry_layers es sid of [] \<Rightarrow> None | l # ls \<Rightarrow> Some (foldl mergeF l ls))"
    and e: "entry_wf e" by simp_all
  show ?case
    by (cases "entry_layers es sid")
      (simp_all add: merge_entry_lookup [OF e] IH entry_layers_snoc split: option.split)
qed

lemma merged_entries_distinct: "distinct (map fst (foldl (merge_entry mergeF) [] es))"
  by (induction es rule: rev_induct) (simp_all add: merge_entry_distinct)

text \<open>The sources of an origin are filed under their ids, as the loaders do.\<close>

definition keyed :: "('s \<Rightarrow> string) \<Rightarrow> 's source_collection \<Rightarrow> bool" where
  "keyed key sc = list_all (\<lambda>e. list_all (\<lambda>(sid, s). key s = sid) (oe_sources e)) (sc_entries sc)"

text \<open>What a collection relies on: the merge and the defaults of the plugin do not change the id.\<close>

locale source_kind =
  fixes mergeF :: "'s \<Rightarrow> 's \<Rightarrow> 's" and defaultF :: "'s \<Rightarrow> 's" and key :: "'s \<Rightarrow> string"
  assumes key_merge: "key base = sid \<Longrightarrow> key override = sid \<Longrightarrow> key (mergeF base override) = sid"
    and key_default: "key (defaultF s) = key s"
begin

lemma merged_lookup:
  "collection_wf sc \<Longrightarrow> map_of (merged_with mergeF defaultF sc) sid =
     (case layers sc sid of [] \<Rightarrow> None | l # ls \<Rightarrow> Some (defaultF (foldl mergeF l ls)))"
  using merged_entries_lookup [of "sc_entries sc" mergeF sid]
  by (simp add: merged_with_def map_of_mapD collection_wf_def layers_def
      split: list.splits)

lemma merged_distinct: "distinct (map fst (merged_with mergeF defaultF sc))"
proof -
  have "map fst (merged_with mergeF defaultF sc) = map fst (foldl (merge_entry mergeF) [] (sc_entries sc))"
    by (simp add: merged_with_def case_prod_unfold comp_def)
  then show ?thesis by (simp add: merged_entries_distinct)
qed

lemma layers_keyed: "keyed key sc \<Longrightarrow> s \<in> set (layers sc sid) \<Longrightarrow> key s = sid"
  by (fastforce simp: keyed_def list_all_iff layers_def dest!: entry_layers_in)

lemma foldl_key: "key l = sid \<Longrightarrow> (\<And>s. s \<in> set ls \<Longrightarrow> key s = sid) \<Longrightarrow> key (foldl mergeF l ls) = sid"
  by (induction ls arbitrary: l) (simp_all add: key_merge)

text \<open>Every merged source is filed under its own id.\<close>

lemma merged_key:
  assumes "collection_wf sc" "keyed key sc" "(sid, s) \<in> set (merged_with mergeF defaultF sc)"
  shows "key s = sid"
proof -
  from assms(3) have "map_of (merged_with mergeF defaultF sc) sid = Some s"
    by (simp add: merged_distinct)
  then obtain l ls where "layers sc sid = l # ls" "s = defaultF (foldl mergeF l ls)"
    unfolding merged_lookup [OF assms(1)] by (auto split: list.splits)
  then show ?thesis
    using layers_keyed [OF assms(2), of _ sid] by (auto simp: key_default intro!: foldl_key)
qed

end

subsection \<open>The interface on every plugin\<close>

interpretation model_kind: source_kind mergeSources applyDefaults m_Id
  by unfold_locales (simp_all add: mergeSources_def applyDefaults_def Let_def)

interpretation mcp_kind: source_kind mergeMCPSources applyMCPDefaults p_ID
  by unfold_locales
    (simp_all add: mergeMCPSources_def applyMCPDefaults_def plugin_defaults_def)

interpretation agent_kind: source_kind mergeAgentSources applyAgentDefaults p_ID
  by unfold_locales
    (simp_all add: mergeAgentSources_def with_common_def applyAgentDefaults_def plugin_defaults_def Let_def)

interpretation skill_kind: source_kind mergeSkillSources applySkillDefaults p_ID
  by unfold_locales
    (simp_all add: mergeSkillSources_def with_common_def applySkillDefaults_def plugin_defaults_def Let_def)

interpretation serving_runtime_kind:
  source_kind mergeServingRuntimeSources applyServingRuntimeDefaults p_ID
  by unfold_locales
    (simp_all add: mergeServingRuntimeSources_def with_common_def applyServingRuntimeDefaults_def
      plugin_defaults_def Let_def)

subsection \<open>Which origin decides a field\<close>

definition set_string :: "string \<Rightarrow> string option" where
  "set_string s = (if s = [] then None else Some s)"

definition or_default :: "'a \<Rightarrow> 'a option \<Rightarrow> 'a" where
  "or_default d x = (case x of None \<Rightarrow> d | Some y \<Rightarrow> y)"

lemma or_default_simps [simp]: "or_default d None = d" "or_default d (Some y) = y"
  by (simp_all add: or_default_def)

text \<open>The origin of the last layer that sets the properties, if that layer names an origin.\<close>

definition properties_origin :: "model_source \<Rightarrow> string option" where
  "properties_origin s = (if m_Properties s = None then None else set_string (m_Origin s))"

lemma last_some_Cons_snoc:
  "last_some f (l # ls @ [s]) = (case f s of Some y \<Rightarrow> Some y | None \<Rightarrow> last_some f (l # ls))"
  using last_some_snoc [of f "l # ls" s] by simp

lemma foldl_option_field:
  assumes "\<And>b s. f (M b s) = (if f s \<noteq> None then f s else f b)"
  shows "f (foldl M l ls) = last_some f (l # ls)"
proof (induction ls rule: rev_induct)
  case (snoc s ls)
  then show ?case by (simp add: assms last_some_Cons_snoc del: last_some.simps split: option.split)
qed simp

lemma foldl_string_field:
  assumes "\<And>b s. f (M b s) = (if f s \<noteq> [] then f s else f b)"
  shows "f (foldl M l ls) = or_default [] (last_some (set_string \<circ> f) (l # ls))"
proof (induction ls rule: rev_induct)
  case (snoc s ls)
  then show ?case by (simp add: assms last_some_Cons_snoc set_string_def del: last_some.simps)
qed (simp add: set_string_def)

lemma mergeSources_fields:
  "m_Name (mergeSources b s) = (if m_Name s \<noteq> [] then m_Name s else m_Name b)"
  "m_Type (mergeSources b s) = (if m_Type s \<noteq> [] then m_Type s else m_Type b)"
  "m_Enabled (mergeSources b s) = (if m_Enabled s \<noteq> None then m_Enabled s else m_Enabled b)"
  "m_Labels (mergeSources b s) = (if m_Labels s \<noteq> None then m_Labels s else m_Labels b)"
  "m_Properties (mergeSources b s) = (if m_Properties s \<noteq> None then m_Properties s else m_Properties b)"
  "m_IncludedModels (mergeSources b s)
     = (if m_IncludedModels s \<noteq> None then m_IncludedModels s else m_IncludedModels b)"
  "m_ExcludedModels (mergeSources b s)
     = (if m_ExcludedModels s \<noteq> None then m_ExcludedModels s else m_ExcludedModels b)"
  "m_Origin (mergeSources b s)
     = (if m_Properties s \<noteq> None \<and> m_Origin s \<noteq> [] then m_Origin s else m_Origin b)"
  "m_AssetType (mergeSources b s) = m_AssetType b"
  by (simp_all add: mergeSources_def MergeCommonSourceFields_def model_common_def Let_def)

lemma foldl_origin:
  "m_Origin (foldl mergeSources l ls) = or_default (m_Origin l) (last_some properties_origin ls)"
proof (induction ls rule: rev_induct)
  case (snoc s ls)
  then show ?case
    by (simp add: mergeSources_fields last_some_snoc properties_origin_def set_string_def)
qed simp

lemma foldl_id: "m_Id (foldl mergeSources l ls) = m_Id (last (l # ls))"
  by (induction ls rule: rev_induct) (simp_all add: mergeSources_def Let_def)

lemma foldl_asset_type: "m_AssetType (foldl mergeSources l ls) = m_AssetType l"
  by (induction ls rule: rev_induct) (simp_all add: mergeSources_fields)

lemmas foldl_mergeSources =
  foldl_string_field [of m_Name mergeSources, OF mergeSources_fields(1)]
  foldl_string_field [of m_Type mergeSources, OF mergeSources_fields(2)]
  foldl_option_field [of m_Enabled mergeSources, OF mergeSources_fields(3)]
  foldl_option_field [of m_Labels mergeSources, OF mergeSources_fields(4)]
  foldl_option_field [of m_Properties mergeSources, OF mergeSources_fields(5)]
  foldl_option_field [of m_IncludedModels mergeSources, OF mergeSources_fields(6)]
  foldl_option_field [of m_ExcludedModels mergeSources, OF mergeSources_fields(7)]
  foldl_origin foldl_id foldl_asset_type

text \<open>
  C7. What each of the ten fields of a merged model source is. Name and type are those of the last origin that
  sets them to a non-empty string; enabled, labels, properties and the two pattern lists those of the last
  origin that has a value that is not nil (an empty list counts), each independently of the others; a source
  that no origin enables or disables is enabled, and its labels default to the empty list. The origin from
  which relative paths are resolved follows the properties: it is that of the last origin that overrides
  them, or that of the first origin that has the source. The id is that of the last origin. The asset type is
  not merged: it stays that of the first origin, whatever the others set. The source exists iff some
  origin has it.
\<close>

theorem merged_source_fields:
  assumes "collection_wf sc"
  shows "case layers sc sid of
     [] \<Rightarrow> map_of (model_merged sc) sid = None
   | l # ls \<Rightarrow> \<exists>s. map_of (model_merged sc) sid = Some s
       \<and> m_Name s = or_default [] (last_some (set_string \<circ> m_Name) (l # ls))
       \<and> m_Type s = or_default [] (last_some (set_string \<circ> m_Type) (l # ls))
       \<and> m_Enabled s = Some (or_default True (last_some m_Enabled (l # ls)))
       \<and> m_Labels s = Some (or_default [] (last_some m_Labels (l # ls)))
       \<and> m_Properties s = last_some m_Properties (l # ls)
       \<and> m_IncludedModels s = last_some m_IncludedModels (l # ls)
       \<and> m_ExcludedModels s = last_some m_ExcludedModels (l # ls)
       \<and> m_Origin s = or_default (m_Origin l) (last_some properties_origin ls)
       \<and> m_Id s = m_Id (last (l # ls))
       \<and> m_AssetType s = m_AssetType l"
proof (cases "layers sc sid")
  case Nil
  then show ?thesis using model_kind.merged_lookup [OF assms, of sid] by (simp add: model_merged_def)
next
  case (Cons l ls)
  then have "map_of (model_merged sc) sid = Some (applyDefaults (foldl mergeSources l ls))"
    using model_kind.merged_lookup [OF assms, of sid] by (simp add: model_merged_def)
  with Cons show ?thesis
    by (simp add: applyDefaults_def foldl_mergeSources or_default_def del: last_some.simps split: option.split)
qed

subsection \<open>Reloading origins\<close>

text \<open>A sequence of loads, each with the sources its origin now has.\<close>

definition load_all ::
  "'s source_collection \<Rightarrow> (string \<times> (string \<times> 's) list) list \<Rightarrow> 's source_collection" where
  "load_all sc loads = foldl (\<lambda>sc (origin, sources). Merge sc origin sources) sc loads"

lemma set_origin_entries:
  "origin \<in> oe_origin ` set es \<Longrightarrow> distinct (map oe_origin es)
     \<Longrightarrow> set_origin origin sources es
       = map (\<lambda>e. if oe_origin e = origin then e\<lparr>oe_sources := sources\<rparr> else e) es"
proof (induction es)
  case (Cons e es)
  show ?case
  proof (cases "oe_origin e = origin")
    case True
    with Cons.prems have "origin \<notin> oe_origin ` set es" by simp
    then have "map (\<lambda>e. if oe_origin e = origin then e\<lparr>oe_sources := sources\<rparr> else e) es = es"
      by (intro map_idI) auto
    with True show ?thesis by simp
  next
    case False
    with Cons show ?thesis by auto
  qed
qed simp

definition last_load :: "(string \<times> (string \<times> 's) list) list \<Rightarrow> string \<Rightarrow> (string \<times> 's) list" where
  "last_load loads origin =
     or_default [] (last_some (\<lambda>(o', sources). if o' = origin then Some sources else None) loads)"

text \<open>
  The collection depends only on what each known origin says last: whatever the order and number of loads
  and reloads of the configured files, the entries are the configured origins in their fixed priority
  order, each with the sources of its last load, so reloading a file neither changes its priority nor
  touches another file's sources.
\<close>

theorem load_order_irrelevant:
  assumes "distinct order" "fst ` set loads \<subseteq> set order"
  shows "sc_entries (load_all (NewSourceCollection order) loads)
       = map (\<lambda>origin. \<lparr>oe_origin = origin, oe_sources = last_load loads origin\<rparr>) order"
  using assms(2)
proof (induction loads rule: rev_induct)
  case Nil
  then show ?case by (simp add: load_all_def NewSourceCollection_def last_load_def)
next
  case (snoc l loads)
  obtain origin sources where l: "l = (origin, sources)" by (cases l)
  let ?es = "map (\<lambda>origin. \<lparr>oe_origin = origin, oe_sources = last_load loads origin\<rparr>) order"
  have IH: "sc_entries (load_all (NewSourceCollection order) loads) = ?es" using snoc by simp
  have "origin \<in> oe_origin ` set ?es" using snoc.prems l by (auto simp: image_iff)
  moreover have "distinct (map oe_origin ?es)" using assms(1) by (simp add: comp_def)
  ultimately have "set_origin origin sources ?es
      = map (\<lambda>e. if oe_origin e = origin then e\<lparr>oe_sources := sources\<rparr> else e) ?es"
    by (rule set_origin_entries)
  then show ?case
    using IH by (auto simp: load_all_def l Merge_def mergeSourcesInternal_def last_load_def last_some_snoc)
qed

theorem load_order_irrelevant_witness:
  "sc_entries (load_all (NewSourceCollection [''default'', ''user''])
      [(''user'', [(''a'', 1::nat)]), (''default'', [(''a'', 2)]), (''user'', [(''b'', 3)])])
   = [\<lparr>oe_origin = ''default'', oe_sources = [(''a'', 2)]\<rparr>, \<lparr>oe_origin = ''user'', oe_sources = [(''b'', 3)]\<rparr>]"
  by (subst load_order_irrelevant) (simp_all add: last_load_def)

definition demo_collection :: "model_source source_collection" where
  "demo_collection = \<lparr>sc_entries =
     [\<lparr>oe_origin = ''default'', oe_sources = [(''hf'', \<lparr>m_Id = ''hf'', m_Name = ''Hub'', m_Enabled = Some False,
        m_Labels = Some [''community''], m_IncludedModels = None, m_ExcludedModels = None, m_AssetType = None,
        m_Type = ''hf'', m_Properties = Some [], m_Origin = ''default''\<rparr>)]\<rparr>,
      \<lparr>oe_origin = ''user'', oe_sources = [(''hf'', \<lparr>m_Id = ''hf'', m_Name = [], m_Enabled = Some True,
        m_Labels = None, m_IncludedModels = None, m_ExcludedModels = None, m_AssetType = None,
        m_Type = [], m_Properties = None, m_Origin = ''user''\<rparr>)]\<rparr>],
     sc_namedQueryEntries = Map.empty\<rparr>"

lemma demo_collection_ok: "collection_wf demo_collection" "keyed m_Id demo_collection"
  by (simp_all add: demo_collection_def collection_wf_def entry_wf_def keyed_def)

text \<open>A user's file enables a default source and leaves the rest: name, type and origin stay.\<close>

theorem merged_source_fields_witness:
  "\<exists>s. map_of (model_merged demo_collection) ''hf'' = Some s \<and> m_Name s = ''Hub''
     \<and> m_Enabled s = Some True \<and> m_Labels s = Some [''community''] \<and> m_Origin s = ''default''"
  using merged_source_fields [OF demo_collection_ok(1), of "''hf''"]
  by (auto simp: demo_collection_def layers_def set_string_def properties_origin_def)

subsection \<open>Selection by label\<close>

lemma update_pass_lookup:
  "distinct (map fst src) \<Longrightarrow> list_all (\<lambda>(sid, s). key s = sid) src
     \<Longrightarrow> map_of (foldl (\<lambda>m (sid, s). if P s then AList.update (key s) s m else m) m0 src) k
       = (case map_of src k of Some s \<Rightarrow> if P s then Some s else map_of m0 k | None \<Rightarrow> map_of m0 k)"
proof (induction src arbitrary: m0)
  case (Cons x src)
  obtain i s where x: "x = (i, s)" by (cases x)
  have "map_of src i = None" using Cons.prems x by (simp add: map_of_eq_None_iff)
  with Cons x show ?case by (auto simp: map_of_update split: option.split)
qed simp

lemma update_pass_distinct:
  "distinct (map fst m0)
     \<Longrightarrow> distinct (map fst (foldl (\<lambda>m (sid, s). if P s then AList.update (key s) s m else m) m0 src))"
  by (induction src arbitrary: m0) (auto simp: distinct_update)

definition label_match :: "('s \<Rightarrow> string list option) \<Rightarrow> string list \<Rightarrow> 's \<Rightarrow> bool" where
  "label_match labels wanted s =
     (labels_of (labels s) = [] \<and> ''null'' \<in> set (map to_lower wanted)
      \<or> (\<exists>l \<in> set (labels_of (labels s)). to_lower l \<in> set (map to_lower wanted)))"

lemma nested_if: "(if \<not> a then m else if b then x else m) = (if a \<and> b then x else m)"
  by simp

lemma by_label_passes:
  "by_label enabled labels key src wanted =
     map snd (foldl (\<lambda>m (sid, s). if enabled s \<and> (\<exists>l \<in> set (labels_of (labels s)).
            to_lower l \<in> set (map to_lower wanted)) then AList.update (key s) s m else m)
       (if ''null'' \<in> set (map to_lower wanted)
        then foldl (\<lambda>m (sid, s). if enabled s \<and> labels_of (labels s) = []
               then AList.update (key s) s m else m) [] src
        else []) src)"
  unfolding by_label_def Let_def nested_if by (rule refl)

lemma by_label_exact:
  assumes "distinct (map fst src)" "list_all (\<lambda>(sid, s). key s = sid) src"
  shows "set (by_label enabled labels key src wanted)
      = {s. (\<exists>sid. map_of src sid = Some s) \<and> enabled s \<and> label_match labels wanted s}"
proof -
  let ?w = "set (map to_lower wanted)"
  let ?p1 = "if ''null'' \<in> ?w then foldl (\<lambda>m (sid, s). if enabled s \<and> labels_of (labels s) = []
               then AList.update (key s) s m else m) [] src else []"
  let ?p2 = "foldl (\<lambda>m (sid, s). if enabled s \<and> (\<exists>l \<in> set (labels_of (labels s)). to_lower l \<in> ?w)
       then AList.update (key s) s m else m) ?p1 src"
  have "distinct (map fst ?p1)"
    using update_pass_distinct [of "[]" "\<lambda>s. enabled s \<and> labels_of (labels s) = []" key src] by simp
  then have d: "distinct (map fst ?p2)" by (rule update_pass_distinct)
  have m: "map_of ?p2 k = Some s \<longleftrightarrow> map_of src k = Some s \<and> enabled s \<and> label_match labels wanted s" for k s
    by (auto simp: update_pass_lookup [OF assms] label_match_def split: option.splits if_splits)
  have "set (map snd ?p2) = ran (map_of ?p2)" using ran_distinct [OF d] by (simp only: set_map)
  also have "\<dots> = {s. (\<exists>sid. map_of src sid = Some s) \<and> enabled s \<and> label_match labels wanted s}"
    unfolding ran_def m by blast
  finally show ?thesis unfolding by_label_passes .
qed

context source_kind
begin

lemma merged_keyed:
  "collection_wf sc \<Longrightarrow> keyed key sc
     \<Longrightarrow> list_all (\<lambda>(sid, s). key s = sid) (merged_with mergeF defaultF sc)"
  by (auto simp: list_all_iff intro: merged_key)

end

text \<open>
  The label query of the model collection returns exactly the merged sources that are enabled and carry one of the
  labels up to case, or carry none when the special label \<open>null\<close> is among those asked for; in whatever
  order the maps are traversed.
\<close>

theorem model_by_label_exact:
  assumes "collection_wf sc" "keyed m_Id sc"
  shows "set (model_ByLabel sc wanted) =
    {s. (\<exists>sid. map_of (model_merged sc) sid = Some s) \<and> m_Enabled s = Some True
        \<and> label_match m_Labels wanted s}"
  unfolding model_ByLabel_def model_merged_def
  by (rule by_label_exact [OF model_kind.merged_distinct model_kind.merged_keyed [OF assms]])

lemma demo_merged:
  "map_of (model_merged demo_collection) ''hf'' = Some \<lparr>m_Id = ''hf'', m_Name = ''Hub'', m_Enabled = Some True,
     m_Labels = Some [''community''], m_IncludedModels = None, m_ExcludedModels = None, m_AssetType = None,
     m_Type = ''hf'', m_Properties = Some [], m_Origin = ''default''\<rparr>"
  by (auto simp: model_merged_def merged_with_def demo_collection_def merge_entry_def mergeSources_def
      MergeCommonSourceFields_def model_common_def applyDefaults_def Let_def)

theorem model_by_label_exact_witness:
  "\<exists>s \<in> set (model_ByLabel demo_collection [''Community'']). m_Name s = ''Hub''"
proof -
  have "to_lower ''Community'' = to_lower ''community''" by code_simp
  then show ?thesis
    unfolding model_by_label_exact [OF demo_collection_ok]
    using demo_merged by (force simp: label_match_def labels_of_def)
qed

end
