(* ===== verification/Filter_Facts.thy ===== *)
theory Filter_Facts
  imports Filter_Query
begin

text \<open>
  What the query builder does with particular filters: the combination of artifact conditions keeps the
  conjunction, and the behaviour of single comparisons through the whole of \<open>BuildQuery\<close>, including the
  cases where the generated call does not mean what the filter says.
\<close>

subsection \<open>Combining artifact conditions\<close>

text \<open>
  A valuation of leaves that judges artifact conditions by the record the builder collects for them.
\<close>

definition artifact_valuation ::
  "query_builder \<Rightarrow> (artifact_condition_info \<Rightarrow> bool) \<Rightarrow> (string \<Rightarrow> string \<Rightarrow> go_any \<Rightarrow> bool)
     \<Rightarrow> string \<Rightarrow> string \<Rightarrow> go_any \<Rightarrow> bool" where
  "artifact_valuation qb w u p oper v =
     (case collectArtifactConditions qb (Leaf p oper v) of [] \<Rightarrow> u p oper v | c # _ \<Rightarrow> w c)"

lemma collect_leaf:
  "collectArtifactConditions qb (Leaf p oper v) = [] \<longleftrightarrow> \<not> isArtifactPropertyCondition qb p v"
  by (simp add: Let_def)

text \<open>
  C11. When the builder takes the artifact conditions out of an expression, nothing is lost: under every
  valuation the expression holds iff all the collected conditions hold and the remaining expression, if
  any, holds; and the remaining expression has no artifact condition left, so the collection is done
  once.
\<close>

theorem artifact_conditions_partition:
  "holds_filter (artifact_valuation qb w u) e \<longleftrightarrow>
     list_all w (collectArtifactConditions qb e)
     \<and> (case removeArtifactConditions qb e of
          None \<Rightarrow> True
        | Some rest \<Rightarrow> holds_filter (artifact_valuation qb w u) rest
            \<and> collectArtifactConditions qb rest = [])"
proof (induction e)
  case (Leaf p oper v)
  show ?case by (simp add: artifact_valuation_def Let_def)
next
  case (Node oper l r)
  show ?case
  proof (cases "oper = ''AND''")
    case True
    with Node show ?thesis by (auto split: option.splits)
  qed auto
qed

subsection \<open>Single comparisons\<close>

definition leaf_calls :: "query_builder \<Rightarrow> gorm_db \<Rightarrow> string \<Rightarrow> string \<Rightarrow> go_any \<Rightarrow> db_call list" where
  "leaf_calls qb db p oper v = calls (fst (BuildQuery qb db (Some (Leaf p oper v))))"

lemma BuildQuery_leaf:
  "BuildQuery qb db (Some (Leaf p oper v))
     = buildLeafExpression (applyDatabaseQuoting (qb\<lparr>qb_db := Some (dialect db)\<rparr>)) db p oper v"
  by (simp add: BuildQuery_def)

lemma trim_prefix_names:
  "trim_chars {CHR 0x60, CHR 0x22} ''Context'' = ''Context''"
  "trim_chars {CHR 0x60, CHR 0x22} ''Artifact'' = ''Artifact''"
  "trim_chars {CHR 0x60, CHR 0x22} ''Execution'' = ''Execution''"
  by (simp_all add: trim_chars_def)

lemma split_explicit_plain: "CHR ''.'' \<notin> set p \<Longrightarrow> split_explicit_type p = (p, [])"
  by (simp add: split_explicit_type_def split_char_no_sep)

lemma operator_default:
  "oper \<notin> {''='', ''!='', ''>'', ''>='', ''<'', ''<='', ''LIKE'', ''ILIKE'', ''IN''}
     \<Longrightarrow> buildOperatorCondition column oper v = buildOperatorCondition column ''='' v"
  by (simp add: buildOperatorCondition_def)

lemma value_condition_diamond:
  "buildValueCondition als t ''<>'' v = buildValueCondition als t ''='' v"
  by (simp add: buildValueCondition_def buildDualColumnCondition_def
      operator_default [of "''<>''"] split: prod.split)

lemma property_condition_diamond:
  "d \<noteq> ''postgres'' \<Longrightarrow>
     property_value_condition d tbl ref ''<>'' v = property_value_condition d tbl ref ''='' v"
  by (simp add: property_value_condition_def buildDualColumnCondition_def
      operator_default [of "''<>''"] split: prod.split)

text \<open>
  The grammar accepts \<open><>\<close> as an operator, but the query builder has no case for it and falls through to
  equality: on a dialect other than PostgreSQL, and for every property and value of a REST entity whose
  names are not prefixed, the query for \<open>p <> v\<close> is the query for \<open>p = v\<close>, so the filter selects
  exactly the rows it was meant to exclude.
\<close>

theorem diamond_operator_is_equality:
  assumes "dialect db \<noteq> ''postgres''" "\<not> isChildEntity r"
  shows "fst (BuildQuery (NewRegistryQueryBuilder r None) db (Some (Leaf p ''<>'' v)))
       = fst (BuildQuery (NewRegistryQueryBuilder r None) db (Some (Leaf p ''='' v)))"
proof -
  let ?qb = "applyDatabaseQuoting ((NewRegistryQueryBuilder r None)\<lparr>qb_db := Some (dialect db)\<rparr>)"
  have m: "qb_mappingFuncs ?qb = defaultEntityMappings" "qb_restEntityType ?qb = r"
    by (simp_all add: applyDatabaseQuoting_def NewRegistryQueryBuilder_def
        NewQueryBuilderForRestEntity_def Let_def)
  have ex: "equality_expansion ?qb n ''='' x = None" for n x
    by (simp add: equality_expansion_def m defaultEntityMappings_def)
  have ch: "child_name_pattern ?qb n oper x = (oper, x)" for n oper x
    using assms(2) by (simp add: child_name_pattern_def m defaultEntityMappings_def)
  have ex': "equality_expansion ?qb n ''<>'' x = None" for n x
    by (simp add: equality_expansion_def)
  show ?thesis
    unfolding BuildQuery_leaf buildLeafExpression_def buildPropertyCondition_def
    using assms(1)
    by (simp add: buildEntityTablePropertyCondition_def ex ex' ch operator_default [of "''<>''"]
        buildPropertyTableCondition_def property_condition_diamond buildRelatedEntityPropertyCondition_def
        buildRelatedEntityPropertyConditionString_def value_condition_diamond Let_def
        split: property_location.split)
qed

theorem diamond_operator_is_equality_witness:
  "fst (BuildQuery (NewRegistryQueryBuilder ''RegisteredModel'' None) \<lparr>dialect = ''mysql'', calls = []\<rparr>
      (Some (Leaf ''name'' ''<>'' (AnyStr ''m''))))
   = fst (BuildQuery (NewRegistryQueryBuilder ''RegisteredModel'' None) \<lparr>dialect = ''mysql'', calls = []\<rparr>
      (Some (Leaf ''name'' ''='' (AnyStr ''m''))))"
  by (rule diamond_operator_is_equality) (simp_all add: isChildEntity_def rest_entity_defs)

subsection \<open>States\<close>

lemmas builder_defs =
  BuildQuery_leaf buildLeafExpression_def buildPropertyCondition_def applyDatabaseQuoting_def
  NewRegistryQueryBuilder_def NewQueryBuilderForRestEntity_def

definition artifact_builder :: "string \<Rightarrow> query_builder" where
  "artifact_builder d = applyDatabaseQuoting
     ((NewRegistryQueryBuilder RestEntityModelArtifact None)\<lparr>qb_db := Some d\<rparr>)"

lemma artifact_builder_simps [simp]:
  "qb_entityType (artifact_builder d) = EntityTypeArtifact"
  "qb_restEntityType (artifact_builder d) = RestEntityModelArtifact"
  "qb_mappingFuncs (artifact_builder d) = defaultEntityMappings"
  "qb_tablePrefix (artifact_builder d) = QuoteTableName (Some d) ''Artifact''"
proof -
  have "GetMLMDEntityType RestEntityModelArtifact = EntityTypeArtifact" by code_simp
  then show "qb_entityType (artifact_builder d) = EntityTypeArtifact"
    "qb_restEntityType (artifact_builder d) = RestEntityModelArtifact"
    "qb_mappingFuncs (artifact_builder d) = defaultEntityMappings"
    "qb_tablePrefix (artifact_builder d) = QuoteTableName (Some d) ''Artifact''"
    by (simp_all add: artifact_builder_def builder_defs defaultEntityMappings_def Let_def
        trim_prefix_names entity_type_defs)
qed

lemma artifact_state_reference:
  "buildPropertyReference (artifact_builder d) ''state'' v =
     \<lparr>pr_RefName = ''state'', pr_IsCustom = False, pr_ValueType = IntValueType, pr_ExplicitType = [],
      pr_IsEscaped = False, pr_PropertyDef = entityColumn IntValueType ''state''\<rparr>"
proof -
  have "GetPropertyDefinitionForRestEntity RestEntityModelArtifact ''state''
      = entityColumn IntValueType ''state''" by code_simp
  moreover have "RestEntityModelArtifact \<noteq> []" by code_simp
  ultimately show ?thesis
    by (simp add: buildPropertyReference_def split_explicit_plain defaultEntityMappings_def
        entityColumn_def)
qed

lemma artifact_state_column:
  "entity_column_name (artifact_builder d) ''state'' = QuoteTableName (Some d) ''Artifact'' @ ''.state''"
proof -
  have "pd_Column (GetPropertyDefinition EntityTypeArtifact ''state'') = ''state''" by code_simp
  then show ?thesis by (simp add: entity_column_name_def)
qed

text \<open>
  The state of an artifact is stored as an integer. A comparison with a single state name is
  translated: for every state name and every comparison operator the call compares the column with the integer
  of \<open>ArtifactStateMapping\<close>, or with -1 for an unknown name. In an \<open>IN\<close> list the names are passed on
  as strings: \<open>state IN ('LIVE')\<close> compares the integer column with text.
\<close>

theorem artifact_state_filter:
  "leaf_calls (NewRegistryQueryBuilder RestEntityModelArtifact None) db ''state'' ''='' (AnyStr s)
     = calls db @ [Where (QuoteTableName (Some (dialect db)) ''Artifact'' @ ''.state = ?'')
         [AnyInt32 (case map_of ArtifactStateMapping s of Some i \<Rightarrow> i | None \<Rightarrow> - 1)]]
   \<and> leaf_calls (NewRegistryQueryBuilder RestEntityModelArtifact None) db ''state'' ''IN'' (AnyList (map AnyStr (s # ss)))
     = calls db @ [Where (QuoteTableName (Some (dialect db)) ''Artifact'' @ ''.state IN (?''
           @ repeat_marks (length ss) @ '')'') (map AnyStr (s # ss))]"
proof -
  have b: "BuildQuery (NewRegistryQueryBuilder RestEntityModelArtifact None) db (Some (Leaf ''state'' oper v))
     = buildLeafExpression (artifact_builder (dialect db)) db ''state'' oper v" for oper v
    by (simp add: BuildQuery_leaf artifact_builder_def)
  have e: "equality_expansion (artifact_builder d) n oper v = None" for d n oper v
    by (simp add: equality_expansion_def defaultEntityMappings_def)
  show ?thesis
    by (simp add: leaf_calls_def b buildLeafExpression_def buildPropertyCondition_def
        artifact_state_reference entityColumn_def buildEntityTablePropertyCondition_def e
        artifact_state_column child_name_pattern_def ConvertStateValue_def buildOperatorCondition_def
        split: option.split)
qed

text \<open>
  \<open>ConvertStateValue\<close> translates only the property \<open>state\<close>, which executions do not have on
  their table: theirs is \<open>lastKnownState\<close>. So a filter on the state of a serve model compares
  the integer column with the state's name, for every operator that takes the value as it is.
\<close>

theorem execution_state_filter:
  "leaf_calls (NewRegistryQueryBuilder RestEntityServeModel None) db ''lastKnownState'' ''='' (AnyStr s)
     = calls db @ [Where (QuoteTableName (Some (dialect db)) ''Execution'' @ ''.last_known_state = ?'') [AnyStr s]]"
proof -
  have t: "GetMLMDEntityType RestEntityServeModel = EntityTypeExecution"
    "GetPropertyDefinitionForRestEntity RestEntityServeModel ''lastKnownState''
      = entityColumn IntValueType ''last_known_state''"
    "RestEntityServeModel \<noteq> []"
    "pd_Column (GetPropertyDefinition EntityTypeExecution ''lastKnownState'') = ''last_known_state''"
    "EntityTypeExecution \<noteq> EntityTypeContext" "EntityTypeExecution \<noteq> EntityTypeArtifact"
    by code_simp+
  show ?thesis
    by (simp add: leaf_calls_def builder_defs buildPropertyReference_def split_explicit_plain
        defaultEntityMappings_def t entityColumn_def buildEntityTablePropertyCondition_def
        equality_expansion_def child_name_pattern_def ConvertStateValue_def buildOperatorCondition_def
        entity_column_name_def trim_prefix_names Let_def)
qed

subsection \<open>Array properties\<close>

text \<open>The value columns a property table has.\<close>

definition property_value_columns :: "string list" where
  "property_value_columns = [StringValueType, DoubleValueType, IntValueType, BoolValueType]"

text \<open>
  A list-valued property of a catalog model (\<open>tasks\<close>, \<open>tags\<close>, \<open>language\<close>, \<open>validated_tasks\<close>) is stored as JSON
  text in the string column, and equality looks there. But a case-insensitive pattern at the top level
  names a column \<open>array_value\<close>, which no property table has, so the query fails in the database.
\<close>

theorem array_ilike_names_missing_column:
  assumes "t \<in> {''tasks'', ''tags'', ''language'', ''validated_tasks''}" "dialect db = ''postgres''"
  shows "last (leaf_calls (NewQueryBuilderForRestEntity ''CatalogModel'' catalogModelEntityMappings) db t ''ILIKE'' (AnyStr s))
       = Where (''prop_1.'' @ ArrayValueType @ '' ILIKE ?'') [AnyStr s]
     \<and> ArrayValueType \<notin> set property_value_columns
     \<and> last (leaf_calls (NewQueryBuilderForRestEntity ''CatalogModel'' catalogModelEntityMappings) db t ''='' (AnyStr s))
       = Where (fst (json_equals (''prop_1.'' @ StringValueType) (AnyStr s)))
           [AnyExpr ''?|'', AnyStr s]"
proof -
  have d: "catalogModel_property t = propertyColumn ArrayValueType t"
  proof -
    have "catalogModel_property ''tasks'' = propertyColumn ArrayValueType ''tasks''"
      "catalogModel_property ''tags'' = propertyColumn ArrayValueType ''tags''"
      "catalogModel_property ''language'' = propertyColumn ArrayValueType ''language''"
      "catalogModel_property ''validated_tasks'' = propertyColumn ArrayValueType ''validated_tasks''"
      by code_simp+
    with assms(1) show ?thesis by auto
  qed
  have p: "split_explicit_type t = (t, [])" using assms(1) by (auto intro!: split_explicit_plain)
  have one: "itoa 1 = ''1''" by code_simp
  have ty: "ArrayValueType \<noteq> IntValueType" "ArrayValueType \<noteq> []" by code_simp+
  have "ArrayValueType \<notin> set property_value_columns" by code_simp
  with assms(2) show ?thesis
    by (simp add: leaf_calls_def builder_defs buildPropertyReference_def p catalogModelEntityMappings_def d
        propertyColumn_def entityColumn_def buildPropertyTableCondition_def bump_def ty
        buildCaseInsensitiveLikeCondition_def property_value_condition_def
        determinePropertyValueType_def buildJSONOperatorCondition_def json_equals_def Let_def one)
qed

theorem array_ilike_names_missing_column_witness:
  "last (leaf_calls (NewQueryBuilderForRestEntity ''CatalogModel'' catalogModelEntityMappings)
      \<lparr>dialect = ''postgres'', calls = []\<rparr> ''tasks'' ''ILIKE'' (AnyStr ''%text%''))
    = Where (''prop_1.'' @ ArrayValueType @ '' ILIKE ?'') [AnyStr ''%text%'']"
  using array_ilike_names_missing_column
    [of "''tasks''" "\<lparr>dialect = ''postgres'', calls = []\<rparr>" "''%text%''"] by simp

end
