(* ===== verification/Catalog_Config.thy ===== *)
theory Catalog_Config
  imports Catalog_Sources Filter_Facts
begin

text \<open>
  The sources configuration file (\<open>basecatalog/config.go\<close>) and its validation, the check of artifact URIs
  (\<open>basecatalog/validation.go\<close>), the record of a source's status (\<open>basecatalog/source_status.go\<close>), and the
  filter options the catalog offers (\<open>db/models/property_options.go\<close>, \<open>basecatalog/filter_options.go\<close>)
  with what the filter language makes of their names.
\<close>

subsection \<open>The configuration\<close>

record source_config =
  cfg_ModelCatalogs :: "model_source list"
  cfg_MCPCatalogs :: "mcp_source list"
  cfg_AgentCatalogs :: "plugin_source list"
  cfg_SkillCatalogs :: "plugin_source list"
  cfg_ServingRuntimeCatalogs :: "plugin_source list"
  cfg_NamedQueries :: "(string \<times> named_query) list"
  cfg_Catalogs :: "model_source list"

definition GetModelCatalogs :: "source_config \<Rightarrow> model_source list" where
  "GetModelCatalogs c =
     (if cfg_Catalogs c = [] then cfg_ModelCatalogs c
      else if cfg_ModelCatalogs c = [] then cfg_Catalogs c
      else let merged = cfg_ModelCatalogs c;
               mcIDs = set (map m_Id merged)
           in merged @ filter (\<lambda>catalog. m_Id catalog \<notin> mcIDs) (cfg_Catalogs c))"

definition HasDeprecatedCatalogs :: "source_config \<Rightarrow> bool" where
  "HasDeprecatedCatalogs c = (cfg_Catalogs c \<noteq> [])"

datatype config_error =
    MissingId string
  | DuplicateId string string
  | IdUsedTwice string
  | InvalidNamedQueries query_error

text \<open>
  \<open>validateSourceIDs\<close> over the ids of a section; \<open>local\<close> and \<open>globalSeen\<close> are the two sets of ids seen so far,
  and the result is the extended global set.
\<close>

fun validateSourceIDs ::
  "string \<Rightarrow> string list \<Rightarrow> string set \<Rightarrow> string set \<Rightarrow> config_error + string set" where
  "validateSourceIDs sect [] seenHere globalSeen = Inr globalSeen"
| "validateSourceIDs sect (sid # ids) seenHere globalSeen =
     (if sid = [] then Inl (MissingId sect)
      else if sid \<in> seenHere then Inl (DuplicateId sect sid)
      else if sid \<in> globalSeen then Inl (IdUsedTwice sid)
      else validateSourceIDs sect ids (insert sid seenHere) (insert sid globalSeen))"

definition config_sections :: "source_config \<Rightarrow> (string \<times> string list) list" where
  "config_sections c =
     [(''model'', map m_Id (GetModelCatalogs c)),
      (''mcp'', map p_ID (cfg_MCPCatalogs c)),
      (''agent'', map p_ID (cfg_AgentCatalogs c)),
      (''skill'', map p_ID (cfg_SkillCatalogs c)),
      (''serving_runtime'', map p_ID (cfg_ServingRuntimeCatalogs c))]"

fun validate_sections :: "(string \<times> string list) list \<Rightarrow> string set \<Rightarrow> config_error + string set" where
  "validate_sections [] seen = Inr seen"
| "validate_sections ((sect, ids) # rest) seen =
     (case validateSourceIDs sect ids {} seen of
        Inl err \<Rightarrow> Inl err | Inr seen' \<Rightarrow> validate_sections rest seen')"

definition Validate :: "source_config \<Rightarrow> config_error option" where
  "Validate c =
     (case validate_sections (config_sections c) {} of
        Inl err \<Rightarrow> Some err
      | Inr _ \<Rightarrow> (case ValidateNamedQueries (cfg_NamedQueries c) of
                    Some err \<Rightarrow> Some (InvalidNamedQueries err) | None \<Rightarrow> None))"

subsection \<open>What validation ensures\<close>

lemma validateSourceIDs_Inr:
  "seenHere \<subseteq> globalSeen \<Longrightarrow> validateSourceIDs sect ids seenHere globalSeen = Inr seen' \<longleftrightarrow>
     [] \<notin> set ids \<and> distinct ids \<and> set ids \<inter> globalSeen = {} \<and> seen' = globalSeen \<union> set ids"
  by (induction sect ids seenHere globalSeen rule: validateSourceIDs.induct) auto

lemma validate_sections_Inr:
  "validate_sections ss seen = Inr seen' \<longleftrightarrow>
     [] \<notin> set (concat (map snd ss)) \<and> distinct (concat (map snd ss))
     \<and> set (concat (map snd ss)) \<inter> seen = {} \<and> seen' = seen \<union> set (concat (map snd ss))"
proof (induction ss arbitrary: seen)
  case (Cons s ss)
  obtain sect ids where s: "s = (sect, ids)" by (cases s)
  show ?case
  proof (cases "validateSourceIDs sect ids {} seen")
    case (Inl e)
    then have "\<not> ([] \<notin> set ids \<and> distinct ids \<and> set ids \<inter> seen = {})"
      using validateSourceIDs_Inr [of "{}" seen sect ids "seen \<union> set ids"] by auto
    with Inl s show ?thesis by auto
  next
    case (Inr seen1)
    then have "[] \<notin> set ids \<and> distinct ids \<and> set ids \<inter> seen = {} \<and> seen1 = seen \<union> set ids"
      using validateSourceIDs_Inr [of "{}" seen sect ids seen1] by simp
    with Inr s Cons show ?thesis by auto
  qed
qed auto

text \<open>All source ids of a configuration, over all kinds, with the deprecated section merged in.\<close>

definition all_ids :: "source_config \<Rightarrow> string list" where
  "all_ids c = concat (map snd (config_sections c))"

text \<open>
  C36. A configuration validates exactly when every source has an id, no id is used twice within a kind or
  across kinds, and its named queries are valid. So a source id identifies one source of the whole
  catalog.
\<close>

theorem config_validates_iff:
  "Validate c = None \<longleftrightarrow>
     [] \<notin> set (all_ids c) \<and> distinct (all_ids c) \<and> ValidateNamedQueries (cfg_NamedQueries c) = None"
proof (cases "validate_sections (config_sections c) {}")
  case (Inl e)
  then have "\<not> ([] \<notin> set (all_ids c) \<and> distinct (all_ids c))"
    using validate_sections_Inr [of "config_sections c" "{}" "set (all_ids c)"] by (auto simp: all_ids_def)
  with Inl show ?thesis by (auto simp: Validate_def)
next
  case (Inr s)
  then have "[] \<notin> set (all_ids c) \<and> distinct (all_ids c)"
    using validate_sections_Inr [of "config_sections c" "{}" s] by (simp add: all_ids_def)
  with Inr show ?thesis by (simp add: Validate_def split: option.split)
qed

text \<open>
  The deprecated section only fills gaps: the model catalogs are the entries of the current section, all and
  in order, followed by the deprecated entries whose id the current section does not use, in order.
\<close>

theorem deprecated_catalogs_fill_gaps:
  "GetModelCatalogs c = cfg_ModelCatalogs c
     @ filter (\<lambda>s. m_Id s \<notin> set (map m_Id (cfg_ModelCatalogs c))) (cfg_Catalogs c)"
  by (simp add: GetModelCatalogs_def Let_def)

subsection \<open>Artifact URIs\<close>

definition ValidArtifactURISchemes :: "string list" where
  "ValidArtifactURISchemes = [''oci'', ''http'', ''https'', ''s3'', ''gs'', ''az'', ''file'']"

datatype uri_error =
    EmptyURI
  | InvalidURI string string
  | NoScheme string
  | UnsupportedScheme string string

text \<open>
  \<open>ValidateArtifactURI\<close>; the argument is \<open>url.Parse\<close> of the package \<open>net/url\<close> as far as the code uses it,
  the error text or the scheme.
\<close>

definition ValidateArtifactURI :: "(string \<Rightarrow> string + string) \<Rightarrow> string \<Rightarrow> uri_error option" where
  "ValidateArtifactURI url_scheme uri =
     (if uri = [] then Some EmptyURI
      else case url_scheme uri of
             Inl err \<Rightarrow> Some (InvalidURI uri err)
           | Inr sch \<Rightarrow>
               if sch = [] then Some (NoScheme uri)
               else if sch \<notin> set ValidArtifactURISchemes then Some (UnsupportedScheme uri sch)
               else None)"

subsection \<open>Source status\<close>

text \<open>The arguments of \<open>WithCredentials\<close> that reached the configuration struct.\<close>

record source_status_config =
  ssc_hasApiKey :: "bool option"
  ssc_authenticated :: "bool option"
  ssc_hfUsername :: "string option"

definition WithCredentials ::
  "bool \<Rightarrow> bool option \<Rightarrow> string \<Rightarrow> source_status_config \<Rightarrow> source_status_config" where
  "WithCredentials hasApiKey authenticated hfUsername c =
     c\<lparr>ssc_hasApiKey := Some hasApiKey, ssc_authenticated := authenticated,
       ssc_hfUsername := (if hfUsername \<noteq> [] then Some hfUsername else ssc_hfUsername c)\<rparr>"

definition source_statuses :: "string list" where
  "source_statuses = [''available'', ''partially-available'', ''error'', ''disabled'']"

definition opt_prop :: "string \<Rightarrow> ('a \<Rightarrow> go_any) \<Rightarrow> 'a option \<Rightarrow> properties" where
  "opt_prop name f v = (case v of None \<Rightarrow> [] | Some x \<Rightarrow> [(name, f x)])"

text \<open>
  \<open>SaveSourceStatus\<close>: \<open>None\<close> when the status is not one of the constants and nothing is saved, otherwise
  the name and properties passed to the repository's \<open>Save\<close>, whose error is only logged.
\<close>

definition SaveSourceStatus ::
  "string \<Rightarrow> string \<Rightarrow> string \<Rightarrow> (source_status_config \<Rightarrow> source_status_config) list
     \<Rightarrow> (string \<times> properties) option" where
  "SaveSourceStatus sourceID status errorMsg opts =
     (if status \<notin> set source_statuses then None
      else let cfg = foldl (\<lambda>c opt. opt c)
                 \<lparr>ssc_hasApiKey = None, ssc_authenticated = None, ssc_hfUsername = None\<rparr> opts
           in Some (sourceID,
                [(''status'', AnyStr status)]
                @ (if errorMsg \<noteq> [] then [(''error'', AnyStr errorMsg)] else [])
                @ opt_prop ''has_api_key'' AnyBool (ssc_hasApiKey cfg)
                @ opt_prop ''authenticated'' AnyBool (ssc_authenticated cfg)
                @ opt_prop ''hf_username'' AnyStr (ssc_hfUsername cfg)))"

text \<open>
  \<open>CleanupOrphanedCatalogSources\<close>: the ids passed to \<open>Delete\<close>, in order, or the error of \<open>GetAll\<close>; a
  source without attributes or name is skipped, and a failed deletion is logged and does not stop the
  loop.
\<close>

definition CleanupOrphanedCatalogSources ::
  "string + string option list \<Rightarrow> string set \<Rightarrow> string + string list" where
  "CleanupOrphanedCatalogSources getAll currentSourceIDs =
     (case getAll of
        Inl err \<Rightarrow> Inl (''unable to get existing catalog sources: '' @ err)
      | Inr existing \<Rightarrow>
          Inr (concat (map (\<lambda>name. case name of None \<Rightarrow> []
                 | Some sourceID \<Rightarrow> if sourceID \<notin> currentSourceIDs then [sourceID] else []) existing)))"

end
