(* ===== verification/Catalog_Loader.thy ===== *)
theory Catalog_Loader
  imports Catalog_Models_Facts Catalog_Labels Catalog_Config
begin

section \<open>The loader of models\<close>

text \<open>
  \<open>catalog/internal/catalog/modelcatalog/loader.go\<close>: how the configuration files become the collections of
  sources and labels, which sources are read, what is done with every record that a provider sends, and the
  removal of models that are gone. A provider, its channel and the database are the environment: the loader is
  given the records that arrive and yields what it does, in order.
\<close>

subsection \<open>Configuration files\<close>

datatype load_error =
    ReadFailed string
  | BadNamedQueries string query_error
  | SourceWithoutId
  | SourceTwice string
  | BadSource string pattern_error
  | LabelWithoutName nat
  | BadLabels label_error

record model_loader =
  ml_Sources :: "model_source source_collection"
  ml_Labels :: label_collection

fun collect_sources :: "string \<Rightarrow> (string \<times> model_source) list \<Rightarrow> model_source list \<Rightarrow> load_error + (string \<times> model_source) list" where
  "collect_sources path acc [] = Inr acc"
| "collect_sources path acc (s # ss) =
     (if m_Id s = [] then Inl SourceWithoutId
      else if m_Id s \<in> fst ` set acc then Inl (SourceTwice (m_Id s))
      else case ValidatePatterns ''includedModels'' (or_default [] (m_IncludedModels s)) ''excludedModels'' (or_default [] (m_ExcludedModels s)) of
             Some err \<Rightarrow> Inl (BadSource (m_Id s) err)
           | None \<Rightarrow> collect_sources path (acc @ [(m_Id s, s\<lparr>m_Origin := path\<rparr>)]) ss)"

definition updateSources :: "string \<Rightarrow> source_config \<Rightarrow> model_source source_collection \<Rightarrow> load_error + model_source source_collection" where
  "updateSources path config sc =
     try_bind (collect_sources path [] (GetModelCatalogs config)) (\<lambda>sources.
       let filtered = FilterNamedQueriesByAssetType (cfg_NamedQueries config) AssetTypeModels
       in Inr (if filtered \<noteq> [] then MergeWithNamedQueries sc path sources filtered else Merge sc path sources))"

fun nameless :: "nat \<Rightarrow> new_label list \<Rightarrow> nat option" where
  "nameless i [] = None"
| "nameless i (l # ls) = (if name_of l = None \<or> name_of l = Some (AnyStr []) then Some i else nameless (Suc i) ls)"

definition updateLabels :: "string \<Rightarrow> new_label list option \<Rightarrow> label_collection \<Rightarrow> load_error + label_collection" where
  "updateLabels path labels lc =
     (let merge = (\<lambda>ls. case MergeLabels path ls lc of Inl err \<Rightarrow> Inl (BadLabels err) | Inr lc' \<Rightarrow> Inr lc')
      in case labels of
           None \<Rightarrow> merge []
         | Some ls \<Rightarrow> (case nameless 0 ls of Some i \<Rightarrow> Inl (LabelWithoutName i) | None \<Rightarrow> merge ls))"

text \<open>
  A file is read by \<open>ReadSourceConfig\<close>, a parameter, as its configuration and its labels. \<open>parseAndMerge\<close>
  keeps the sources it has merged when the labels fail.
\<close>

type_synonym config_reader = "string \<Rightarrow> string + source_config \<times> new_label list option"

definition read_config :: "config_reader \<Rightarrow> string \<Rightarrow> load_error + source_config \<times> new_label list option" where
  "read_config reader path =
     (case reader path of
        Inl err \<Rightarrow> Inl (ReadFailed err)
      | Inr (config, labels) \<Rightarrow>
          (case ValidateNamedQueries (cfg_NamedQueries config) of
             Some err \<Rightarrow> Inl (BadNamedQueries path err)
           | None \<Rightarrow> Inr (config, labels)))"

definition parseAndMerge :: "config_reader \<Rightarrow> string \<Rightarrow> model_loader \<Rightarrow> load_error option \<times> model_loader" where
  "parseAndMerge reader path l =
     (case read_config reader path of
        Inl err \<Rightarrow> (Some err, l)
      | Inr (config, labels) \<Rightarrow>
          (case updateSources path config (ml_Sources l) of
             Inl err \<Rightarrow> (Some err, l)
           | Inr sc \<Rightarrow>
               (let l1 = l\<lparr>ml_Sources := sc\<rparr>
                in case updateLabels path labels (ml_Labels l1) of
                     Inl err \<Rightarrow> (Some err, l1)
                   | Inr lc \<Rightarrow> (None, l1\<lparr>ml_Labels := lc\<rparr>))))"

text \<open>The first load stops at the first error, a reload goes on and reports all.\<close>

fun ParseAllConfigs :: "config_reader \<Rightarrow> string list \<Rightarrow> model_loader \<Rightarrow> (string \<times> load_error) option \<times> model_loader" where
  "ParseAllConfigs reader [] l = (None, l)"
| "ParseAllConfigs reader (path # paths) l =
     (case parseAndMerge reader path l of
        (Some err, l') \<Rightarrow> (Some (path, err), l')
      | (None, l') \<Rightarrow> ParseAllConfigs reader paths l')"

fun ReloadParsing :: "config_reader \<Rightarrow> string list \<Rightarrow> model_loader \<Rightarrow> (string \<times> load_error) list \<times> model_loader" where
  "ReloadParsing reader [] l = ([], l)"
| "ReloadParsing reader (path # paths) l =
     (let (err, l1) = parseAndMerge reader path l; (errs, l2) = ReloadParsing reader paths l1
      in ((case err of None \<Rightarrow> errs | Some e \<Rightarrow> (path, e) # errs), l2))"

subsection \<open>Records of a provider\<close>

text \<open>
  The errors a provider sends: \<open>PartiallyAvailableError\<close> with the names of the models that failed,
  \<open>SourceReadError\<close>, and every other error.
\<close>

datatype provider_error = PartiallyAvailable "string list" | SourceRead string | ModelInvalid string

definition print_names :: "string list \<Rightarrow> string" where
  "print_names ns = ''['' @ join_with '' '' ns @ '']''"

fun provider_error_text :: "provider_error \<Rightarrow> string" where
  "provider_error_text (PartiallyAvailable ns) =
     ''Failed to fetch some models, ensure models exist and are accessible with given credentials. Failed models: '' @ print_names ns"
| "provider_error_text (SourceRead t) = t"
| "provider_error_text (ModelInvalid t) = t"

datatype 'a load_artifact = LoadModelArtifact 'a | LoadMetricsArtifact 'a | LoadUnknown

record 'a provider_record =
  pv_Model :: "catalog_model option"
  pv_Artifacts :: "'a load_artifact list"
  pv_Error :: "provider_error option"
  pv_Opts :: "(source_status_config \<Rightarrow> source_status_config) list"

text \<open>\<open>setModelSourceID\<close>.\<close>

fun put_source :: "string \<Rightarrow> stored_property list \<Rightarrow> stored_property list" where
  "put_source src [] = [NewStringProperty ''source_id'' src False]"
| "put_source src (p # ps) = (if sp_Name p = ''source_id'' then p\<lparr>sp_String := Some src\<rparr> # ps else p # put_source src ps)"

definition setModelSourceID :: "string \<Rightarrow> catalog_model \<Rightarrow> catalog_model" where
  "setModelSourceID src m =
     (let m1 = m\<lparr>cm_Properties := Some (put_source src (or_default [] (cm_Properties m)))\<rparr>
      in case model_name m of
           Some n \<Rightarrow> if n \<noteq> [] then set_name (src @ '':'' @ n) m1 else m1
         | None \<Rightarrow> m1)"

text \<open>
  What the goroutine of a source does: send a record on to the writer, remove the models of the source that
  are not among the given names, save the status of the source.
\<close>

datatype 'a load_action =
    Forward "'a provider_record"
  | CleanUp string "string list"
  | SourceStatus string string string "(source_status_config \<Rightarrow> source_status_config) list"

record batch =
  bt_names :: "string list"
  bt_failed :: "string list"

definition status_of_batch :: "string \<Rightarrow> provider_error option \<Rightarrow> bool \<Rightarrow> string list \<Rightarrow> string \<times> string" where
  "status_of_batch src err some failed =
     (case err of
        Some (PartiallyAvailable ns) \<Rightarrow>
          (if some then ''partially-available'' else ''error'', provider_error_text (PartiallyAvailable ns))
      | _ \<Rightarrow>
          if failed = [] then (''available'', [])
          else if some then
            (''partially-available'', ''Failed to load '' @ itoa (int (length failed)) @ '' model(s): '' @ print_names failed)
          else (''error'', ''all catalog models failed to load from source '' @ src @ '' (failed: '' @ print_names failed @ '')''))"

definition complete_batch ::
  "string \<Rightarrow> (source_status_config \<Rightarrow> source_status_config) list \<Rightarrow> bool \<Rightarrow> 'a provider_record \<Rightarrow> batch \<Rightarrow> 'a load_action list \<times> batch" where
  "complete_batch src credOpts live r b =
     (let opts = (if pv_Opts r \<noteq> [] then pv_Opts r else credOpts);
          failed = bt_failed b @ (case pv_Error r of Some (PartiallyAvailable ns) \<Rightarrow> ns | _ \<Rightarrow> []);
          completeFailure = (bt_names b = [] \<and> failed \<noteq> []);
          names = (if completeFailure then bt_names b else bt_names b @ map (\<lambda>f. src @ '':'' @ f) failed);
          (status, msg) = status_of_batch src (pv_Error r) (names \<noteq> []) failed
      in ((if completeFailure then [] else [CleanUp src names]) @ (if live then [SourceStatus src status msg opts] else []),
          \<lparr>bt_names = [], bt_failed = []\<rparr>))"

definition on_record ::
  "string \<Rightarrow> (source_status_config \<Rightarrow> source_status_config) list \<Rightarrow> bool \<Rightarrow> 'a provider_record \<Rightarrow> batch \<Rightarrow> 'a load_action list \<times> batch" where
  "on_record src credOpts live r b =
     (case pv_Model r of
        None \<Rightarrow>
          (case pv_Error r of
             Some (SourceRead t) \<Rightarrow> ([], b\<lparr>bt_failed := bt_failed b @ [t]\<rparr>)
           | Some (ModelInvalid t) \<Rightarrow> ([], b\<lparr>bt_failed := bt_failed b @ [t]\<rparr>)
           | _ \<Rightarrow> complete_batch src credOpts live r b)
      | Some m \<Rightarrow>
          (let m' = setModelSourceID src m
           in ([Forward (r\<lparr>pv_Model := Some m'\<rparr>)],
               (case model_name m' of None \<Rightarrow> b | Some n \<Rightarrow> b\<lparr>bt_names := bt_names b @ [n]\<rparr>))))"

text \<open>
  The records of a source until its channel is closed; with each record comes whether the context was still
  valid, which the code asks at the end of a batch.
\<close>

fun read_records ::
  "string \<Rightarrow> (source_status_config \<Rightarrow> source_status_config) list \<Rightarrow> (bool \<times> 'a provider_record) list \<Rightarrow> bool \<Rightarrow> batch \<Rightarrow> 'a load_action list" where
  "read_records src credOpts [] live b = (if live \<and> bt_names b \<noteq> [] then [SourceStatus src ''available'' [] credOpts] else [])"
| "read_records src credOpts ((l, r) # rs) live b =
     (let (acts, b') = on_record src credOpts l r b in acts @ read_records src credOpts rs live b')"

subsection \<open>Sources to read\<close>

text \<open>\<open>credentialOpts\<close>, given the three fields of the source.\<close>

definition credentialOpts :: "bool option \<Rightarrow> bool option \<Rightarrow> string option \<Rightarrow> (source_status_config \<Rightarrow> source_status_config) list" where
  "credentialOpts hasApiKey authenticated hfUsername =
     (case hasApiKey of None \<Rightarrow> [] | Some b \<Rightarrow> [WithCredentials b authenticated (str_or_empty hfUsername)])"

text \<open>
  The loop over the merged sources, in an order of the map: the statuses that are saved at once, the sources
  whose records are read, and the sources marked as loaded. \<open>start\<close> is the call of the registered provider,
  \<open>creds\<close> what it set on the source, and \<open>quoted\<close> the verb \<open>%q\<close>.
\<close>

fun start_sources ::
  "(string \<Rightarrow> string) \<Rightarrow> string set \<Rightarrow> (model_source \<Rightarrow> string option) \<Rightarrow> (model_source \<Rightarrow> (source_status_config \<Rightarrow> source_status_config) list)
     \<Rightarrow> model_source list \<Rightarrow> string set \<Rightarrow> 'a load_action list \<times> model_source list \<times> string set" where
  "start_sources quoted registered start creds [] loaded = ([], [], loaded)"
| "start_sources quoted registered start creds (s # ss) loaded =
     (let failed = (\<lambda>msg opts loaded'. let (acts, rd, ld) = start_sources quoted registered start creds ss loaded'
                      in (SourceStatus (m_Id s) ''error'' msg opts # acts, rd, ld))
      in if m_Enabled s = Some False then
           (let (acts, rd, ld) = start_sources quoted registered start creds ss loaded
            in (SourceStatus (m_Id s) ''disabled'' [] [] # acts, rd, ld))
         else if m_Id s \<in> loaded then start_sources quoted registered start creds ss loaded
         else if m_Type s = [] then failed ''source has no type defined'' [] loaded
         else if m_Type s \<notin> registered then failed (''catalog type '' @ quoted (m_Type s) @ '' not registered'') [] (insert (m_Id s) loaded)
         else case start s of
             Some err \<Rightarrow> failed err (creds s) (insert (m_Id s) loaded)
           | None \<Rightarrow> (let (acts, rd, ld) = start_sources quoted registered start creds ss (insert (m_Id s) loaded)
                      in (acts, s # rd, ld)))"

subsection \<open>Removal\<close>

datatype removal = DeleteModelsOf string | DeleteStatusOf string

text \<open>
  \<open>removeModelsFromMissingSources\<close>: \<open>gone\<close> are the sources that have models but are not enabled, in the
  order in which the set is iterated; \<open>failing\<close> are those whose deletion fails, which ends the loop.
\<close>

fun remove_gone :: "string set \<Rightarrow> (string \<Rightarrow> bool) \<Rightarrow> string list \<Rightarrow> removal list \<times> string option" where
  "remove_gone protected failing [] = ([], None)"
| "remove_gone protected failing (src # gone) =
     (if failing src then ([DeleteModelsOf src], Some src)
      else let (rs, err) = remove_gone protected failing gone
           in (DeleteModelsOf src # (if src \<notin> protected then [DeleteStatusOf src] else []) @ rs, err))"

definition enabled_ids :: "(string \<times> model_source) list \<Rightarrow> string set" where
  "enabled_ids sources = fst ` {(i, s) \<in> set sources. m_Enabled s \<noteq> Some False}"

definition removeModelsFromMissingSources ::
  "(string \<times> model_source) list \<Rightarrow> string set \<Rightarrow> string + string list \<Rightarrow> (string set \<Rightarrow> string list) \<Rightarrow> (string \<Rightarrow> bool)
     \<Rightarrow> string + string option list \<Rightarrow> removal list \<times> string option" where
  "removeModelsFromMissingSources sources allKnown existing order failing getAll =
     (let protected = fst ` set sources \<union> allKnown
      in case existing of
           Inl err \<Rightarrow> ([], Some (''unable to retrieve existing source IDs: '' @ err))
         | Inr ids \<Rightarrow>
             (case remove_gone protected failing (order (set ids - enabled_ids sources)) of
                (rs, Some src) \<Rightarrow> (rs, Some (''unable to remove models from source '' @ src))
              | (rs, None) \<Rightarrow>
                  (rs @ (case CleanupOrphanedCatalogSources getAll protected of Inl err \<Rightarrow> [] | Inr ids \<Rightarrow> map DeleteStatusOf ids), None)))"

text \<open>\<open>removeOrphanedModelsFromSource\<close>: the ids it deletes, given the models of the source.\<close>

definition orphans :: "string set \<Rightarrow> catalog_model list \<Rightarrow> int list" where
  "orphans valid ms = List.map_filter (\<lambda>m. case (model_name m, cm_ID m) of
     (Some n, Some i) \<Rightarrow> if n \<in> valid then None else Some i | _ \<Rightarrow> None) ms"

subsection \<open>Writing a record\<close>

text \<open>
  The body of the loop of \<open>updateDatabase\<close> for one record: the calls it makes, given their results. Only a
  failing \<open>Save\<close> of the model, or one that yields no id, ends it early.
\<close>

datatype 'a write_call =
    SaveModel catalog_model
  | DeleteArtifacts string int
  | SaveModelArtifact 'a int
  | SaveMetricsArtifact 'a int
  | CallHandlers

fun artifact_calls :: "int \<Rightarrow> 'a load_artifact list \<Rightarrow> 'a write_call list" where
  "artifact_calls i [] = []"
| "artifact_calls i (LoadModelArtifact a # as) = SaveModelArtifact a i # artifact_calls i as"
| "artifact_calls i (LoadMetricsArtifact a # as) = SaveMetricsArtifact a i # artifact_calls i as"
| "artifact_calls i (LoadUnknown # as) = artifact_calls i as"

definition write_record :: "(catalog_model \<Rightarrow> repo_error + catalog_model) \<Rightarrow> 'a provider_record \<Rightarrow> 'a write_call list" where
  "write_record save r =
     (case pv_Model r of
        None \<Rightarrow> []
      | Some m \<Rightarrow>
          if model_name m = None then []
          else SaveModel m #
            (case save m of
               Inl _ \<Rightarrow> []
             | Inr m' \<Rightarrow>
                 (case cm_ID m' of
                    None \<Rightarrow> []
                  | Some i \<Rightarrow> [DeleteArtifacts ''kf.CatalogModelArtifact'' i, DeleteArtifacts ''kf.CatalogMetricsArtifact'' i]
                      @ artifact_calls i (pv_Artifacts r) @ [CallHandlers])))"

end
