(* ===== verification/Catalog_Sync.thy ===== *)
theory Catalog_Sync
  imports Catalog_Loader
begin

section \<open>What a synchronisation leaves\<close>

text \<open>
  The loader against its repository. The repository of models is an interface, the locale
  \<open>model_repository\<close>: saving, listing by source and deletion, with what they do to the table as the loader
  sees it. The goroutine that writes and the goroutine that removes orphans run concurrently; the result is
  proved for every interleaving of their calls, and interpreted on the repository of the code over the
  database in memory.
\<close>

subsection \<open>The interface\<close>

definition storable :: "string \<Rightarrow> string \<Rightarrow> catalog_model \<Rightarrow> bool" where
  "storable src n m = (cm_ID m = None \<and> cm_TypeID m = None \<and> one_source m \<and> getSourceIDFromProperties m = src \<and> src \<noteq> []
     \<and> (\<exists>n0. model_name m = Some n0 \<and> with_source src n0 = n))"

locale model_repository =
  fixes save :: "catalog_model \<Rightarrow> 's \<Rightarrow> (repo_error + catalog_model) \<times> 's"
    and list_source :: "string \<Rightarrow> 's \<Rightarrow> repo_error + catalog_model list"
    and delete :: "int \<Rightarrow> 's \<Rightarrow> repo_error + 's"
    and view :: "'s \<Rightarrow> int \<Rightarrow> (string \<times> string option) option"
    and ok :: "'s \<Rightarrow> bool"
  assumes save_law: "save m s = (Inr r, s') \<Longrightarrow> ok s \<Longrightarrow> storable src n m \<Longrightarrow>
      ok s' \<and> (\<exists>i. view s' = (view s)(i \<mapsto> (n, Some src))
        \<and> (case view s i of Some v \<Rightarrow> fst v = n | None \<Rightarrow> \<forall>j v. view s j = Some v \<longrightarrow> fst v \<noteq> n))"
    and list_law: "list_source src s = Inr ms \<Longrightarrow> ok s \<Longrightarrow>
      {(i, n). \<exists>m \<in> set ms. cm_ID m = Some i \<and> model_name m = Some n} = {(i, n). view s i = Some (n, Some src)}
      \<and> distinct (List.map_filter cm_ID ms)"
    and delete_law: "delete i s = Inr s' \<Longrightarrow> ok s \<Longrightarrow> ok s' \<and> view s' = (view s)(i := None)"

subsection \<open>Interleavings\<close>

text \<open>
  The calls of both goroutines: the writer saves models, the cleanup lists the models of the source once and
  deletes the orphans one by one. A state is the database, the ids that are left to delete (\<open>None\<close> before the
  list) and whether every call has succeeded.
\<close>

datatype sync_event = SaveEvent catalog_model | ListEvent | DeleteEvent

fun sync_step ::
  "(catalog_model \<Rightarrow> 's \<Rightarrow> (repo_error + catalog_model) \<times> 's) \<Rightarrow> (string \<Rightarrow> 's \<Rightarrow> repo_error + catalog_model list)
     \<Rightarrow> (int \<Rightarrow> 's \<Rightarrow> repo_error + 's) \<Rightarrow> string \<Rightarrow> string set \<Rightarrow> sync_event \<Rightarrow> 's \<times> int list option \<times> bool \<Rightarrow> 's \<times> int list option \<times> bool" where
  "sync_step save lst del src valid (SaveEvent m) (s, p, good) =
     (case save m s of (Inr r, s') \<Rightarrow> (s', p, good) | (Inl err, s') \<Rightarrow> (s', p, False))"
| "sync_step save lst del src valid ListEvent (s, p, good) =
     (case lst src s of Inr ms \<Rightarrow> (s, Some (orphans valid ms), good) | Inl err \<Rightarrow> (s, Some [], False))"
| "sync_step save lst del src valid DeleteEvent (s, Some (i # is), good) =
     (case del i s of Inr s' \<Rightarrow> (s', Some is, good) | Inl err \<Rightarrow> (s, Some [], False))"
| "sync_step save lst del src valid DeleteEvent (s, p, good) = (s, p, good)"

definition sync_run where
  "sync_run save lst del src valid es s = foldl (\<lambda>st e. sync_step save lst del src valid e st) (s, None, True) es"

text \<open>The names of a source in the table.\<close>

definition names_in :: "(int \<Rightarrow> (string \<times> string option) option) \<Rightarrow> string option \<Rightarrow> string set" where
  "names_in v src = {n. \<exists>i. v i = Some (n, src)}"

lemma orphans_Cons:
  "orphans valid (m # ms) = (case (model_name m, cm_ID m) of
     (Some n, Some i) \<Rightarrow> if n \<in> valid then orphans valid ms else i # orphans valid ms | _ \<Rightarrow> orphans valid ms)"
  by (auto simp: orphans_def map_filter_simps split: option.splits)

lemma set_orphans: "set (orphans valid ms) = {i. \<exists>m \<in> set ms. \<exists>n. cm_ID m = Some i \<and> model_name m = Some n \<and> n \<notin> valid}"
  by (induction ms) (auto simp: orphans_Cons orphans_def map_filter_simps split: option.splits)

lemma distinct_orphans: "distinct (List.map_filter cm_ID ms) \<Longrightarrow> distinct (orphans valid ms)"
proof (induction ms)
  case (Cons m ms)
  have "set (orphans valid ms) \<subseteq> set (List.map_filter cm_ID ms)" by (force simp: set_orphans map_filter_def)
  with Cons show ?case by (auto simp: orphans_Cons map_filter_simps split: option.splits)
qed (simp add: orphans_def map_filter_simps)

text \<open>
  What holds between two calls, for the table \<open>v0\<close> at the start and the names \<open>saved\<close> so far: the ids left to
  delete are rows of the source that are not wanted, and after the list these are all such rows; nothing wanted
  has been lost and nothing foreign has changed.
\<close>

definition sync_inv ::
  "string \<Rightarrow> string set \<Rightarrow> (int \<Rightarrow> (string \<times> string option) option) \<Rightarrow> string set \<Rightarrow> (int \<Rightarrow> (string \<times> string option) option) \<Rightarrow> int list option \<Rightarrow> bool" where
  "sync_inv src valid v0 saved v p =
     (names_in v0 (Some src) \<inter> valid \<union> saved \<subseteq> names_in v (Some src)
      \<and> names_in v (Some src) \<subseteq> names_in v0 (Some src) \<union> saved
      \<and> (\<forall>q. q \<noteq> Some src \<longrightarrow> names_in v q = names_in v0 q)
      \<and> (\<forall>i n q. v i = Some (n, q) \<longrightarrow> n \<in> valid \<longrightarrow> q = Some src)
      \<and> (case p of None \<Rightarrow> True
         | Some is \<Rightarrow> distinct is \<and> set is = {i. \<exists>n. v i = Some (n, Some src) \<and> n \<notin> valid}))"

lemma sync_invD:
  assumes "sync_inv src valid v0 saved v p"
  shows "names_in v0 (Some src) \<inter> valid \<union> saved \<subseteq> names_in v (Some src)"
    and "names_in v (Some src) \<subseteq> names_in v0 (Some src) \<union> saved"
    and "\<And>q. q \<noteq> Some src \<Longrightarrow> names_in v q = names_in v0 q"
    and "\<And>i n q. v i = Some (n, q) \<Longrightarrow> n \<in> valid \<Longrightarrow> q = Some src"
    and "\<And>is. p = Some is \<Longrightarrow> distinct is \<and> set is = {i. \<exists>n. v i = Some (n, Some src) \<and> n \<notin> valid}"
proof -
  show "\<And>is. p = Some is \<Longrightarrow> distinct is \<and> set is = {i. \<exists>n. v i = Some (n, Some src) \<and> n \<notin> valid}"
    using assms by (simp add: sync_inv_def)
qed (use assms in \<open>unfold sync_inv_def, blast+\<close>)

lemma sync_invI:
  assumes "names_in v0 (Some src) \<inter> valid \<union> saved \<subseteq> names_in v (Some src)"
    and "names_in v (Some src) \<subseteq> names_in v0 (Some src) \<union> saved"
    and "\<And>q. q \<noteq> Some src \<Longrightarrow> names_in v q = names_in v0 q"
    and "\<And>i n q. v i = Some (n, q) \<Longrightarrow> n \<in> valid \<Longrightarrow> q = Some src"
    and "\<And>is. p = Some is \<Longrightarrow> distinct is \<and> set is = {i. \<exists>n. v i = Some (n, Some src) \<and> n \<notin> valid}"
  shows "sync_inv src valid v0 saved v p"
proof -
  have "case p of None \<Rightarrow> True | Some is \<Rightarrow> distinct is \<and> set is = {i. \<exists>n. v i = Some (n, Some src) \<and> n \<notin> valid}"
    using assms(5) by (cases p) simp_all
  then show ?thesis unfolding sync_inv_def using assms(1-4) by blast
qed

lemma names_in_keep:
  assumes "v j = Some (x, q)" "j \<noteq> i"
  shows "x \<in> names_in (v(i := w)) q"
proof -
  have "(v(i := w)) j = Some (x, q)" using assms by simp
  then show ?thesis unfolding names_in_def by blast
qed

lemma names_in_other:
  assumes "\<And>n. v i \<noteq> Some (n, q)" "\<And>n. w \<noteq> Some (n, q)"
  shows "names_in (v(i := w)) q = names_in v q"
proof -
  have "(v(i := w)) j = Some (n, q) \<longleftrightarrow> v j = Some (n, q)" for j n using assms by simp
  then show ?thesis by (simp add: names_in_def)
qed

lemma sync_inv_save:
  assumes inv: "sync_inv src valid v0 saved v p" and n: "n \<in> valid"
    and old: "case v i of Some w \<Rightarrow> fst w = n | None \<Rightarrow> True"
  shows "sync_inv src valid v0 (insert n saved) (v(i \<mapsto> (n, Some src))) p"
proof -
  note D = sync_invD [OF inv]
  have row: "v i = None \<or> v i = Some (n, Some src)"
    using D(4) [of i] n old by (cases "v i") auto
  have mine: "names_in (v(i \<mapsto> (n, Some src))) (Some src) = insert n (names_in v (Some src))"
  proof (intro equalityI subsetI)
    fix x assume "x \<in> insert n (names_in v (Some src))"
    then consider "x = n" | j where "v j = Some (x, Some src)" by (auto simp: names_in_def)
    then show "x \<in> names_in (v(i \<mapsto> (n, Some src))) (Some src)"
    proof cases
      case 1
      then show ?thesis by (auto simp: names_in_def intro: exI [of _ i])
    next
      case (2 j)
      then have "(v(i \<mapsto> (n, Some src))) j = Some (x, Some src)" using row by auto
      then show ?thesis unfolding names_in_def by blast
    qed
  qed (auto simp: names_in_def split: if_splits)
  have other: "names_in (v(i \<mapsto> (n, Some src))) q = names_in v q" if "q \<noteq> Some src" for q
    by (rule names_in_other) (use row that in auto)
  have rows: "{j. \<exists>k. (v(i \<mapsto> (n, Some src))) j = Some (k, Some src) \<and> k \<notin> valid} = {j. \<exists>k. v j = Some (k, Some src) \<and> k \<notin> valid}"
    using row n by auto
  show ?thesis
  proof (rule sync_invI)
    show "names_in v0 (Some src) \<inter> valid \<union> insert n saved \<subseteq> names_in (v(i \<mapsto> (n, Some src))) (Some src)"
      unfolding mine using D(1) by blast
    show "names_in (v(i \<mapsto> (n, Some src))) (Some src) \<subseteq> names_in v0 (Some src) \<union> insert n saved"
      unfolding mine using D(2) by blast
    show "\<And>j k q. (v(i \<mapsto> (n, Some src))) j = Some (k, q) \<Longrightarrow> k \<in> valid \<Longrightarrow> q = Some src"
      using D(4) by (auto split: if_splits)
    show "\<And>q. q \<noteq> Some src \<Longrightarrow> names_in (v(i \<mapsto> (n, Some src))) q = names_in v0 q" using other D(3) by simp
    show "\<And>is. p = Some is \<Longrightarrow> distinct is \<and> set is = {j. \<exists>k. (v(i \<mapsto> (n, Some src))) j = Some (k, Some src) \<and> k \<notin> valid}"
      unfolding rows by (rule D(5))
  qed
qed

lemma sync_inv_delete:
  assumes inv: "sync_inv src valid v0 saved v (Some (i # is))" and saved: "saved \<subseteq> valid"
  shows "sync_inv src valid v0 saved (v(i := None)) (Some is)"
proof -
  note D = sync_invD [OF inv]
  have rows: "distinct (i # is)" "set (i # is) = {i. \<exists>n. v i = Some (n, Some src) \<and> n \<notin> valid}" using D(5) by blast+
  then have "i \<in> {i. \<exists>n. v i = Some (n, Some src) \<and> n \<notin> valid}" by (metis list.set_intros(1))
  then obtain n where n: "v i = Some (n, Some src)" "n \<notin> valid" by blast
  have wanted: "x \<in> names_in (v(i := None)) (Some src)" if "x \<in> names_in v (Some src)" "x \<in> valid" for x
  proof -
    from that obtain j where j: "v j = Some (x, Some src)" by (auto simp: names_in_def)
    then have "j \<noteq> i" using n that by auto
    with j show ?thesis by (rule names_in_keep)
  qed
  show ?thesis
  proof (rule sync_invI)
    show "names_in v0 (Some src) \<inter> valid \<union> saved \<subseteq> names_in (v(i := None)) (Some src)" using D(1) saved wanted by blast
    have "names_in (v(i := None)) (Some src) \<subseteq> names_in v (Some src)" by (auto simp: names_in_def split: if_splits)
    then show "names_in (v(i := None)) (Some src) \<subseteq> names_in v0 (Some src) \<union> saved" using D(2) by blast
    show "names_in (v(i := None)) q = names_in v0 q" if "q \<noteq> Some src" for q
      using names_in_other [of v i q None] n that D(3) [OF that] by simp
    show "\<And>j k q. (v(i := None)) j = Some (k, q) \<Longrightarrow> k \<in> valid \<Longrightarrow> q = Some src" using D(4) by (auto split: if_splits)
    have "set is = {j. \<exists>k. v j = Some (k, Some src) \<and> k \<notin> valid} - {i}" using rows by auto
    then have "set is = {j. \<exists>k. (v(i := None)) j = Some (k, Some src) \<and> k \<notin> valid}" by auto
    then show "\<And>js. Some is = Some js \<Longrightarrow> distinct js \<and> set js = {j. \<exists>k. (v(i := None)) j = Some (k, Some src) \<and> k \<notin> valid}"
      using rows(1) by simp
  qed
qed

context model_repository
begin

lemma step_failed: "snd (snd (sync_step save list_source delete src valid e (s, p, False))) = False"
  by (cases "(save, list_source, delete, src, valid, e, (s, p, False))" rule: sync_step.cases)
    (simp_all split: sum.split prod.split)

lemma fold_failed: "snd (snd (foldl (\<lambda>st e. sync_step save list_source delete src valid e st) (s, p, False) es)) = False"
proof (induction es arbitrary: s p)
  case (Cons e es)
  then show ?case using step_failed [of src valid e s p]
    by (cases "sync_step save list_source delete src valid e (s, p, False)") auto
qed simp

lemma sync_fold:
  assumes "ok s" "sync_inv src valid v0 saved (view s) p" "saved \<subseteq> valid"
    and "\<And>m. SaveEvent m \<in> set es \<Longrightarrow> \<exists>n \<in> valid. storable src n m"
    and "foldl (\<lambda>st e. sync_step save list_source delete src valid e st) (s, p, True) es = (s', p', True)"
  shows "ok s' \<and> sync_inv src valid v0 (saved \<union> {n. \<exists>m. SaveEvent m \<in> set es \<and> storable src n m}) (view s') p'"
  using assms
proof (induction es arbitrary: s p saved)
  case (Cons e es)
  let ?fold = "\<lambda>st. foldl (\<lambda>st e. sync_step save list_source delete src valid e st) st es"
  have bad: "?fold (x, q, False) \<noteq> (s', p', True)" for x q using fold_failed [of src valid x q es] by auto
  have fold: "?fold (sync_step save list_source delete src valid e (s, p, True)) = (s', p', True)" using Cons.prems(5) by simp
  have uniq: "storable src n m \<Longrightarrow> storable src n' m \<Longrightarrow> n = n'" for n n' m by (auto simp: storable_def)
  show ?case
  proof (cases e)
    case (SaveEvent m)
    then obtain n where n: "n \<in> valid" "storable src n m" using Cons.prems(4) by auto
    obtain x s1 where x: "save m s = (x, s1)" by (cases "save m s")
    then obtain r where s1: "save m s = (Inr r, s1)" "?fold (s1, p, True) = (s', p', True)"
      using fold bad [of s1 p] unfolding SaveEvent by (cases x) simp_all
    obtain i where i: "ok s1" "view s1 = (view s)(i \<mapsto> (n, Some src))"
      and at: "case view s i of Some v \<Rightarrow> fst v = n | None \<Rightarrow> \<forall>j v. view s j = Some v \<longrightarrow> fst v \<noteq> n"
      using save_law [OF s1(1) Cons.prems(1) n(2)] by blast
    have same: "case view s i of Some v \<Rightarrow> fst v = n | None \<Rightarrow> True" using at by (cases "view s i") simp_all
    have "sync_inv src valid v0 (insert n saved) (view s1) p"
      unfolding i(2) by (rule sync_inv_save [OF Cons.prems(2) n(1) same])
    from Cons.IH [OF i(1) this _ _ s1(2)] Cons.prems(3,4) n have
      "ok s' \<and> sync_inv src valid v0 (insert n saved \<union> {n. \<exists>m. SaveEvent m \<in> set es \<and> storable src n m}) (view s') p'" by auto
    moreover have "insert n saved \<union> {n. \<exists>m. SaveEvent m \<in> set es \<and> storable src n m}
        = saved \<union> {n. \<exists>m. SaveEvent m \<in> set (e # es) \<and> storable src n m}"
    proof -
      have "storable src x m \<longleftrightarrow> x = n" for x using n(2) uniq by blast
      then show ?thesis by (auto simp: SaveEvent)
    qed
    ultimately show ?thesis by simp
  next
    case ListEvent
    then obtain ms where ms: "list_source src s = Inr ms"
        "?fold (s, Some (orphans valid ms), True) = (s', p', True)"
      using fold bad [of s "Some []"] by (cases "list_source src s") simp_all
    note law = list_law [OF ms(1) Cons.prems(1)]
    have "set (orphans valid ms) = {i. \<exists>n. view s i = Some (n, Some src) \<and> n \<notin> valid}"
      using law unfolding set_orphans by blast
    then have "sync_inv src valid v0 saved (view s) (Some (orphans valid ms))"
      using sync_invD [OF Cons.prems(2)] distinct_orphans law by (intro sync_invI) auto
    from Cons.IH [OF Cons.prems(1) this Cons.prems(3) _ ms(2)] Cons.prems(4) ListEvent show ?thesis by simp
  next
    case DeleteEvent
    show ?thesis
    proof (cases "\<exists>i is. p = Some (i # is)")
      case True
      then obtain i "is" where p: "p = Some (i # is)" by blast
      then obtain s1 where s1: "delete i s = Inr s1"
          "?fold (s1, Some is, True) = (s', p', True)"
        using fold bad [of s "Some []"] DeleteEvent by (cases "delete i s") simp_all
      from delete_law [OF s1(1) Cons.prems(1)] have d: "ok s1" "view s1 = (view s)(i := None)" by simp_all
      have "sync_inv src valid v0 saved (view s1) (Some is)"
        unfolding d(2) using sync_inv_delete Cons.prems(2,3) p by blast
      from Cons.IH [OF d(1) this Cons.prems(3) _ s1(2)] Cons.prems(4) DeleteEvent show ?thesis by simp
    next
      case False
      then have "sync_step save list_source delete src valid e (s, p, True) = (s, p, True)"
        unfolding DeleteEvent by (cases p; cases "the p") auto
      then have "?fold (s, p, True) = (s', p', True)" using fold by simp
      from Cons.IH [OF Cons.prems(1-3) _ this] Cons.prems(4) DeleteEvent show ?thesis by simp
    qed
  qed
qed simp

lemma sync_names:
  assumes "ok s" "\<And>i n q. view s i = Some (n, q) \<Longrightarrow> n \<in> valid \<Longrightarrow> q = Some src"
    and "\<And>m. SaveEvent m \<in> set es \<Longrightarrow> \<exists>n \<in> valid. storable src n m"
    and "sync_run save list_source delete src valid es s = (s', Some [], True)"
  shows "names_in (view s') (Some src)
      = {n. \<exists>m. SaveEvent m \<in> set es \<and> storable src n m} \<union> (names_in (view s) (Some src) \<inter> valid)"
    and "\<forall>q. q \<noteq> Some src \<longrightarrow> names_in (view s') q = names_in (view s) q"
proof -
  have inv: "sync_inv src valid (view s) {} (view s) None" using assms(2) by (intro sync_invI) auto
  let ?N = "{n. \<exists>m. SaveEvent m \<in> set es \<and> storable src n m}"
  have fin: "sync_inv src valid (view s) ?N (view s') (Some [])"
    using sync_fold [OF assms(1) inv _ assms(3) assms(4) [unfolded sync_run_def]] by simp
  note D = sync_invD [OF fin]
  have "?N \<subseteq> valid"
  proof
    fix x assume "x \<in> ?N"
    then obtain m where m: "SaveEvent m \<in> set es" "storable src x m" by blast
    then obtain n where "n \<in> valid" "storable src n m" using assms(3) by blast
    with m(2) show "x \<in> valid" by (auto simp: storable_def)
  qed
  moreover have "{i. \<exists>n. view s' i = Some (n, Some src) \<and> n \<notin> valid} = {}" using D(5) [OF refl] by simp
  then have "names_in (view s') (Some src) \<subseteq> valid" unfolding names_in_def by blast
  ultimately show "names_in (view s') (Some src) = ?N \<union> (names_in (view s) (Some src) \<inter> valid)"
    using D(1,2) by blast
  show "\<forall>q. q \<noteq> Some src \<longrightarrow> names_in (view s') q = names_in (view s) q" using D(3) by blast
qed

end

end
