(* ===== verification/Catalog_Sync_Facts.thy ===== *)
theory Catalog_Sync_Facts
  imports Catalog_Sync
begin

text \<open>
  The repository of models over the database in memory provides the interface of \<open>Catalog_Sync\<close>; what a
  batch of a provider leaves follows for every interleaving.
\<close>

subsection \<open>The repository over tables\<close>

text \<open>The answers of the database to the queries of \<open>List\<close> by source, \<open>DeleteByID\<close> and \<open>DeleteBySource\<close>.\<close>

definition has_source :: "string \<Rightarrow> tables \<Rightarrow> int \<Rightarrow> bool" where
  "has_source src s i = (\<exists>b \<in> set [False, True]. case table_prop s ContextTable (i, ''source_id'', b) of Some p \<Rightarrow> sp_String p = Some src | None \<Rightarrow> False)"

definition list_catalog_source :: "int \<Rightarrow> string \<Rightarrow> tables \<Rightarrow> repo_error + catalog_model list" where
  "list_catalog_source t src s = Inr (map
     (\<lambda>e. mapDataLayerToCatalogModel e (table_read ContextTable (getEntityID e) (\<lambda>_. True) s))
     (remdups (filter (\<lambda>e. table_of e = ContextTable \<and> getTypeID e = t \<and> table_row s ContextTable (getEntityID e) = Some e
        \<and> has_source src s (getEntityID e)) (tb_rows s))))"

definition drop_entities :: "(table_kind \<Rightarrow> int \<Rightarrow> bool) \<Rightarrow> (schema_entity \<Rightarrow> bool) \<Rightarrow> tables \<Rightarrow> tables" where
  "drop_entities gone row_gone s = s\<lparr>tb_rows := filter (\<lambda>e. \<not> row_gone e) (tb_rows s),
     tb_props := filter (\<lambda>(k, p). \<not> gone k (pr_EntityID p)) (tb_props s),
     tb_links := filter (\<lambda>(k, c, i). \<not> gone ContextTable c \<and> \<not> gone k i) (tb_links s)\<rparr>"

definition own_artifacts :: "(int \<Rightarrow> bool) \<Rightarrow> (int \<Rightarrow> bool) \<Rightarrow> tables \<Rightarrow> int \<Rightarrow> bool" where
  "own_artifacts has_event contexts s a = (\<not> has_event a \<and> (\<exists>(k, c, i) \<in> set (tb_links s). k = ArtifactTable \<and> i = a \<and> contexts c))"

definition DeleteCatalogModel :: "(int \<Rightarrow> bool) \<Rightarrow> int \<Rightarrow> int \<Rightarrow> tables \<Rightarrow> repo_error + tables" where
  "DeleteCatalogModel has_event t i s =
     (let hit = (\<lambda>e. table_of e = ContextTable \<and> getEntityID e = i \<and> getTypeID e = t);
          art = own_artifacts has_event (\<lambda>c. c = i) s
      in if \<not> (\<exists>e \<in> set (tb_rows s). hit e) then Inl (NotFound (''catalog model by id not found: id '' @ itoa i))
         else Inr (drop_entities (\<lambda>k j. (k = ContextTable \<and> j = i) \<or> (k = ArtifactTable \<and> art j))
                     (\<lambda>e. hit e \<or> (table_of e = ArtifactTable \<and> art (getEntityID e))) s))"

definition DeleteBySource :: "(int \<Rightarrow> bool) \<Rightarrow> int \<Rightarrow> string \<Rightarrow> tables \<Rightarrow> tables" where
  "DeleteBySource has_event t src s =
     (let hit = (\<lambda>e. table_of e = ContextTable \<and> getTypeID e = t \<and> has_source src s (getEntityID e));
          gone = (\<lambda>j. \<exists>e \<in> set (tb_rows s). hit e \<and> getEntityID e = j);
          art = own_artifacts has_event gone s
      in drop_entities (\<lambda>k j. (k = ContextTable \<and> gone j) \<or> (k = ArtifactTable \<and> art j))
           (\<lambda>e. hit e \<or> (table_of e = ArtifactTable \<and> art (getEntityID e))) s)"

definition no_custom_source :: "tables \<Rightarrow> bool" where
  "no_custom_source s = (\<forall>i. table_prop s ContextTable (i, ''source_id'', True) = None)"

abbreviation table_view :: "int \<Rightarrow> tables \<Rightarrow> int \<Rightarrow> (string \<times> string option) option" where
  "table_view t s \<equiv> model_view (table_row s) (table_prop s) t"

lemma table_row_drop:
  assumes "\<And>e. table_of e = ContextTable \<Longrightarrow> row_gone e \<Longrightarrow> getEntityID e = i"
  shows "j \<noteq> i \<Longrightarrow> table_row (drop_entities gone row_gone s) ContextTable j = table_row s ContextTable j"
  unfolding table_row_def drop_entities_def using assms by (simp, intro find_filter_other) blast

lemma table_prop_drop:
  "\<not> gone k (fst key) \<Longrightarrow> table_prop (drop_entities gone row_gone s) k key = table_prop s k key"
  unfolding table_prop_def drop_entities_def
  by (simp, rule arg_cong [where f = "map_option snd"], rule find_filter_other) (auto simp: prop_key_def)

lemma table_prop_dropped:
  "table_prop s k key = None \<Longrightarrow> table_prop (drop_entities gone row_gone s) k key = None"
  by (auto simp: table_prop_def drop_entities_def find_None_iff)

lemma delete_view:
  assumes "DeleteCatalogModel ev t i s = Inr s'"
  shows "table_view t s' = (table_view t s)(i := None)" and "no_custom_source s \<Longrightarrow> no_custom_source s'"
proof -
  define gone where "gone = (\<lambda>k j. (k = ContextTable \<and> j = i) \<or> (k = ArtifactTable \<and> own_artifacts ev (\<lambda>c. c = i) s j))"
  define row_gone where "row_gone = (\<lambda>e. (table_of e = ContextTable \<and> getEntityID e = i \<and> getTypeID e = t)
     \<or> (table_of e = ArtifactTable \<and> own_artifacts ev (\<lambda>c. c = i) s (getEntityID e)))"
  have s': "s' = drop_entities gone row_gone s"
    using assms unfolding DeleteCatalogModel_def Let_def gone_def row_gone_def by (simp split: if_splits)
  show "no_custom_source s \<Longrightarrow> no_custom_source s'" by (simp add: no_custom_source_def s' table_prop_dropped)
  have other: "table_view t s' j = table_view t s j" if "j \<noteq> i" for j
  proof -
    have "table_row s' ContextTable j = table_row s ContextTable j"
      unfolding s' by (rule table_row_drop [OF _ that]) (auto simp: row_gone_def)
    moreover have "table_prop s' ContextTable (j, ''source_id'', False) = table_prop s ContextTable (j, ''source_id'', False)"
      unfolding s' by (rule table_prop_drop) (simp add: gone_def that)
    ultimately show ?thesis by (cases "table_row s ContextTable j") (simp_all add: model_view_def)
  qed
  have "table_view t s' i = None"
  proof (cases "table_row s' ContextTable i")
    case (Some e)
    then have "e \<in> set (tb_rows s')" "table_of e = ContextTable" "getEntityID e = i" using table_row_Some by blast+
    then have "getTypeID e \<noteq> t" by (auto simp: s' drop_entities_def row_gone_def)
    with Some show ?thesis by (simp add: model_view_def)
  qed (simp add: model_view_def)
  with other show "table_view t s' = (table_view t s)(i := None)" by (auto simp: fun_eq_iff)
qed

lemma has_source_view:
  assumes "no_custom_source s" "table_row s ContextTable i = Some e" "getTypeID e = t"
  shows "has_source src s i \<longleftrightarrow> table_view t s i = Some (str_or_empty (getName e), Some src)"
proof -
  have "has_source src s i \<longleftrightarrow> Option.bind (table_prop s ContextTable (i, ''source_id'', False)) sp_String = Some src"
    using assms(1) by (auto simp: has_source_def no_custom_source_def ex_bool_eq bind_eq_Some_conv split: option.split)
  then show ?thesis using assms(2,3) by (simp add: model_view_def)
qed

text \<open>The deletion of a source takes exactly its models out of the table.\<close>

lemma source_view:
  assumes "no_custom_source s"
  shows "table_view t (DeleteBySource ev t src s) i =
    (case table_view t s i of Some (n, q) \<Rightarrow> if q = Some src then None else Some (n, q) | None \<Rightarrow> None)"
proof -
  define hit where "hit = (\<lambda>e. table_of e = ContextTable \<and> getTypeID e = t \<and> has_source src s (getEntityID e))"
  define gone where "gone = (\<lambda>j. \<exists>e \<in> set (tb_rows s). hit e \<and> getEntityID e = j)"
  define art where "art = own_artifacts ev gone s"
  let ?row_gone = "\<lambda>e. hit e \<or> (table_of e = ArtifactTable \<and> art (getEntityID e))"
  let ?s = "drop_entities (\<lambda>k j. (k = ContextTable \<and> gone j) \<or> (k = ArtifactTable \<and> art j)) ?row_gone s"
  have s': "DeleteBySource ev t src s = ?s"
    unfolding DeleteBySource_def Let_def hit_def gone_def art_def by (rule refl)
  show ?thesis
  proof (cases "gone i")
    case False
    have "find (\<lambda>e. table_of e = ContextTable \<and> getEntityID e = i) (filter (\<lambda>e. \<not> ?row_gone e) (tb_rows s))
        = find (\<lambda>e. table_of e = ContextTable \<and> getEntityID e = i) (tb_rows s)"
    proof -
      have "filter (\<lambda>e. table_of e = ContextTable \<and> getEntityID e = i) (filter (\<lambda>e. \<not> ?row_gone e) (tb_rows s))
          = filter (\<lambda>e. table_of e = ContextTable \<and> getEntityID e = i) (tb_rows s)"
        using False unfolding gone_def filter_filter by (intro filter_cong) auto
      moreover have "find P xs = (case filter P xs of [] \<Rightarrow> None | x # _ \<Rightarrow> Some x)" for P and xs :: "schema_entity list"
        by (induction xs) auto
      ultimately show ?thesis by simp
    qed
    then have row: "table_row ?s ContextTable i = table_row s ContextTable i" by (simp add: table_row_def drop_entities_def)
    have column: "table_prop ?s ContextTable (i, ''source_id'', False) = table_prop s ContextTable (i, ''source_id'', False)"
      by (rule table_prop_drop) (simp add: False)
    have "table_view t ?s i = table_view t s i" using row column by (cases "table_row s ContextTable i") (simp_all add: model_view_def)
    moreover have "table_view t s i \<noteq> Some (n, Some src)" for n
    proof
      assume v: "table_view t s i = Some (n, Some src)"
      then obtain e where e: "table_row s ContextTable i = Some e" "getTypeID e = t" "str_or_empty (getName e) = n"
        by (auto simp: model_view_def split: option.splits if_splits)
      then have "has_source src s i" using has_source_view [OF assms e(1,2), of src] v by simp
      with e table_row_Some [OF e(1)] False show False by (auto simp: gone_def hit_def)
    qed
    ultimately show ?thesis unfolding s' by (cases "table_view t s i") auto
  next
    case True
    then have src: "has_source src s i" by (auto simp: gone_def hit_def)
    have "table_view t ?s i = None"
    proof (cases "table_row ?s ContextTable i")
      case (Some e)
      then have "e \<in> set (tb_rows ?s)" "table_of e = ContextTable" "getEntityID e = i" using table_row_Some by blast+
      then have "getTypeID e \<noteq> t" using src by (auto simp: drop_entities_def hit_def)
      with Some show ?thesis by (simp add: model_view_def)
    qed (simp add: model_view_def)
    moreover have "q = Some src" if "table_view t s i = Some (n, q)" for n q
    proof -
      from that obtain e where e: "table_row s ContextTable i = Some e" "getTypeID e = t"
        by (auto simp: model_view_def split: option.splits if_splits)
      then show ?thesis using has_source_view [OF assms e, of src] src that by simp
    qed
    ultimately show ?thesis unfolding s' by (cases "table_view t s i") auto
  qed
qed

lemma context_named: "table_of e = ContextTable \<Longrightarrow> getName e = Some (str_or_empty (getName e))"
  by (cases e) (simp_all add: str_or_empty_def)

lemma list_view:
  assumes "list_catalog_source t src s = Inr ms" "no_custom_source s"
  shows "{(i, n). \<exists>m \<in> set ms. cm_ID m = Some i \<and> model_name m = Some n} = {(i, n). table_view t s i = Some (n, Some src)}"
    and "distinct (List.map_filter cm_ID ms)"
proof -
  define rows where "rows = remdups (filter (\<lambda>e. table_of e = ContextTable \<and> getTypeID e = t
     \<and> table_row s ContextTable (getEntityID e) = Some e \<and> has_source src s (getEntityID e)) (tb_rows s))"
  have ms: "ms = map (\<lambda>e. mapDataLayerToCatalogModel e (table_read ContextTable (getEntityID e) (\<lambda>_. True) s)) rows"
    using assms(1) by (simp add: list_catalog_source_def rows_def)
  have row: "e \<in> set rows \<longleftrightarrow> table_of e = ContextTable \<and> getTypeID e = t \<and> table_row s ContextTable (getEntityID e) = Some e
      \<and> has_source src s (getEntityID e)" for e
    using table_row_Some [of s ContextTable "getEntityID e" e] by (auto simp: rows_def)
  have mapped: "cm_ID (mapDataLayerToCatalogModel e ps) = Some (getEntityID e)" "model_name (mapDataLayerToCatalogModel e ps) = getName e"
    for e ps by (simp_all add: mapDataLayerToCatalogModel_def model_name_def)
  have "(\<exists>m \<in> set ms. cm_ID m = Some i \<and> model_name m = Some n) \<longleftrightarrow> table_view t s i = Some (n, Some src)" for i n
  proof
    assume "\<exists>m \<in> set ms. cm_ID m = Some i \<and> model_name m = Some n"
    then obtain e where e: "e \<in> set rows" "getEntityID e = i" "getName e = Some n" by (auto simp: ms mapped)
    then have "table_row s ContextTable i = Some e" "getTypeID e = t" "has_source src s i" using row [of e] by blast+
    from has_source_view [OF assms(2) this(1,2), of src] this(3) e(3)
    show "table_view t s i = Some (n, Some src)" by (simp add: str_or_empty_def)
  next
    assume v: "table_view t s i = Some (n, Some src)"
    then obtain e where e: "table_row s ContextTable i = Some e" "getTypeID e = t" "str_or_empty (getName e) = n"
      by (auto simp: model_view_def split: option.splits if_splits)
    note k = table_row_Some [OF e(1)]
    have "has_source src s i" using has_source_view [OF assms(2) e(1,2), of src] v e(3) by simp
    then have "e \<in> set rows" unfolding row using e(1,2) k by blast
    moreover have "getName e = Some n" using context_named [of e] k e(3) by simp
    ultimately show "\<exists>m \<in> set ms. cm_ID m = Some i \<and> model_name m = Some n" using k by (auto simp: ms mapped)
  qed
  then show "{(i, n). \<exists>m \<in> set ms. cm_ID m = Some i \<and> model_name m = Some n} = {(i, n). table_view t s i = Some (n, Some src)}" by simp
  have "List.map_filter cm_ID ms = map getEntityID rows"
    by (simp add: ms map_filter_def comp_def mapped)
  moreover have "inj_on getEntityID (set rows)"
  proof (rule inj_onI)
    fix e e' assume "e \<in> set rows" "e' \<in> set rows" "getEntityID e = getEntityID e'"
    then have "Some e = Some e'" using row [of e] row [of e'] by metis
    then show "e = e'" by (rule option.inject [THEN iffD1])
  qed
  ultimately show "distinct (List.map_filter cm_ID ms)" by (simp add: distinct_map rows_def)
qed

interpretation catalog: model_repository "SaveCatalogModel (catalog_tables q) quote (int (Suc t)) now"
  "list_catalog_source (int (Suc t))" "DeleteCatalogModel ev (int (Suc t))" "table_view (int (Suc t))" no_custom_source
proof unfold_locales
  fix m s r s' src n
  assume *: "SaveCatalogModel (catalog_tables q) quote (int (Suc t)) now m s = (Inr r, s')" "no_custom_source s" "storable src n m"
  then obtain n0 where m: "cm_ID m = None" "cm_TypeID m = None" "one_source m" "getSourceIDFromProperties m = src" "src \<noteq> []"
      "model_name m = Some n0" "with_source src n0 = n" by (auto simp: storable_def)
  show "no_custom_source s' \<and> (\<exists>i. table_view (int (Suc t)) s' = (table_view (int (Suc t)) s)(i \<mapsto> (n, Some src))
      \<and> (case table_view (int (Suc t)) s i of Some v \<Rightarrow> fst v = n | None \<Rightarrow> \<forall>j v. table_view (int (Suc t)) s j = Some v \<longrightarrow> fst v \<noteq> n))"
  proof
    show "no_custom_source s'"
      using catalog_db.upsert(2) [OF *(1) m(1) _ _ m(3-6)] m(2) *(2) by (simp add: no_custom_source_def)
    show "\<exists>i. table_view (int (Suc t)) s' = (table_view (int (Suc t)) s)(i \<mapsto> (n, Some src))
      \<and> (case table_view (int (Suc t)) s i of Some v \<Rightarrow> fst v = n | None \<Rightarrow> \<forall>j v. table_view (int (Suc t)) s j = Some v \<longrightarrow> fst v \<noteq> n)"
      using catalog_db.upsert(1) [OF *(1) m(1) _ _ m(3-6)] m(2) unfolding m(7) by simp
  qed
next
  fix src s ms assume "list_catalog_source (int (Suc t)) src s = Inr ms" "no_custom_source s"
  then show "{(i, n). \<exists>m \<in> set ms. cm_ID m = Some i \<and> model_name m = Some n} = {(i, n). table_view (int (Suc t)) s i = Some (n, Some src)}
      \<and> distinct (List.map_filter cm_ID ms)"
    using list_view by blast
next
  fix i s s' assume "DeleteCatalogModel ev (int (Suc t)) i s = Inr s'" "no_custom_source s"
  then show "no_custom_source s' \<and> table_view (int (Suc t)) s' = (table_view (int (Suc t)) s)(i := None)"
    using delete_view by blast
qed

end
