(* ===== verification/Catalog_Loader_Facts.thy ===== *)
theory Catalog_Loader_Facts
  imports Catalog_Sync_Facts
begin

text \<open>
  What the loader does with a batch of records, what a batch leaves in the table, and what the removal of
  sources spares.
\<close>

subsection \<open>Batches\<close>

text \<open>A record is a model, a failure, or the marker that ends a batch.\<close>

definition is_marker :: "'a provider_record \<Rightarrow> bool" where
  "is_marker r = (pv_Model r = None \<and> (case pv_Error r of None \<Rightarrow> True | Some (PartiallyAvailable ns) \<Rightarrow> True | Some _ \<Rightarrow> False))"

fun batch_forwards :: "string \<Rightarrow> (bool \<times> 'a provider_record) list \<Rightarrow> 'a load_action list" where
  "batch_forwards src [] = []"
| "batch_forwards src ((l, r) # rs) =
     (case pv_Model r of None \<Rightarrow> [] | Some m \<Rightarrow> [Forward (r\<lparr>pv_Model := Some (setModelSourceID src m)\<rparr>)]) @ batch_forwards src rs"

fun batch_names :: "string \<Rightarrow> (bool \<times> 'a provider_record) list \<Rightarrow> string list" where
  "batch_names src [] = []"
| "batch_names src ((l, r) # rs) =
     (case pv_Model r of
        None \<Rightarrow> [] | Some m \<Rightarrow> (case model_name (setModelSourceID src m) of None \<Rightarrow> [] | Some n \<Rightarrow> [n])) @ batch_names src rs"

fun batch_failures :: "(bool \<times> 'a provider_record) list \<Rightarrow> string list" where
  "batch_failures [] = []"
| "batch_failures ((l, r) # rs) =
     (case (pv_Model r, pv_Error r) of (None, Some err) \<Rightarrow> [provider_error_text err] | _ \<Rightarrow> []) @ batch_failures rs"

definition marker_failures :: "'a provider_record \<Rightarrow> string list" where
  "marker_failures r = (case pv_Error r of Some (PartiallyAvailable ns) \<Rightarrow> ns | _ \<Rightarrow> [])"

definition marker_opts where
  "marker_opts credOpts r = (if pv_Opts r \<noteq> [] then pv_Opts r else credOpts)"

lemma marker_error:
  assumes "is_marker r"
  shows "(pv_Error r = None \<and> marker_failures r = []) \<or> pv_Error r = Some (PartiallyAvailable (marker_failures r))"
proof (cases "pv_Error r")
  case (Some err)
  then show ?thesis using assms by (cases err) (simp_all add: is_marker_def marker_failures_def)
qed (simp add: marker_failures_def)

lemma on_record_marker:
  assumes "is_marker r"
  shows "on_record src credOpts live r b = complete_batch src credOpts live r b"
proof (cases "pv_Error r")
  case None
  then show ?thesis using assms by (simp add: on_record_def is_marker_def)
next
  case (Some err)
  then show ?thesis using assms by (cases err) (simp_all add: on_record_def is_marker_def)
qed

lemma on_record_other:
  assumes "\<not> is_marker r"
  shows "on_record src credOpts live r b =
    (batch_forwards src [(live, r)],
     \<lparr>bt_names = bt_names b @ batch_names src [(live, r)], bt_failed = bt_failed b @ batch_failures [(live, r)]\<rparr>)"
proof (cases "pv_Model r")
  case None
  with assms obtain err where e: "pv_Error r = Some err" "\<And>ns. err \<noteq> PartiallyAvailable ns"
    by (auto simp: is_marker_def split: option.splits provider_error.splits)
  then show ?thesis using None by (cases err; cases b) (auto simp: on_record_def simp del: provider_error_text.simps(1))
next
  case (Some m)
  then show ?thesis
    by (cases "model_name (setModelSourceID src m)"; cases b) (simp_all add: on_record_def Let_def)
qed

lemma complete_batch_cleans:
  assumes "bt_names b \<noteq> [] \<or> bt_failed b @ marker_failures r = []"
  shows "\<exists>rest. complete_batch src credOpts live r b =
     (CleanUp src (bt_names b @ map (\<lambda>f. src @ '':'' @ f) (bt_failed b @ marker_failures r)) # rest, \<lparr>bt_names = [], bt_failed = []\<rparr>)"
proof -
  let ?failed = "bt_failed b @ marker_failures r" let ?names = "bt_names b @ map (\<lambda>f. src @ '':'' @ f) ?failed"
  obtain status msg where st: "status_of_batch src (pv_Error r) (?names \<noteq> []) ?failed = (status, msg)" by fastforce
  have "\<not> (bt_names b = [] \<and> ?failed \<noteq> [])" using assms by blast
  with st show ?thesis
    by (auto simp: complete_batch_def Let_def marker_failures_def simp del: append_is_Nil_conv split: if_splits)
qed

lemma read_batch:
  assumes "\<forall>x \<in> set rs. \<not> is_marker (snd x)"
  shows "read_records src credOpts (rs @ rest) live b =
    batch_forwards src rs @ read_records src credOpts rest live
      \<lparr>bt_names = bt_names b @ batch_names src rs, bt_failed = bt_failed b @ batch_failures rs\<rparr>"
  using assms
proof (induction rs arbitrary: b)
  case (Cons x rs)
  obtain l r where x: "x = (l, r)" by (cases x)
  with Cons.prems have "\<not> is_marker r" by simp
  then show ?case using Cons.IH Cons.prems by (simp add: x on_record_other)
next
  case Nil
  show ?case by (cases b) simp
qed

lemma status_kind:
  assumes "status_of_batch src err some failed = (status, msg)" "failed = fs @ ns"
    and "(err = None \<and> ns = []) \<or> err = Some (PartiallyAvailable ns)"
  shows "status = ''available'' \<longleftrightarrow> fs = [] \<and> err = None"
    and "status = ''error'' \<longleftrightarrow> (fs \<noteq> [] \<or> err \<noteq> None) \<and> \<not> some"
    and "status = ''partially-available'' \<longleftrightarrow> (fs \<noteq> [] \<or> err \<noteq> None) \<and> some"
proof -
  consider "err = None" "failed = []" "status = ''available''"
    | "err = None" "failed \<noteq> []" "status = (if some then ''partially-available'' else ''error'')"
    | "err \<noteq> None" "status = (if some then ''partially-available'' else ''error'')"
    using assms(1,3) by (cases err; cases some; cases "failed = []") (auto simp: status_of_batch_def)
  note c = this
  show "status = ''available'' \<longleftrightarrow> fs = [] \<and> err = None"
    using c assms(2,3) by cases (auto split: if_splits)
  show "status = ''error'' \<longleftrightarrow> (fs \<noteq> [] \<or> err \<noteq> None) \<and> \<not> some"
    using c assms(2,3) by cases (auto split: if_splits)
  show "status = ''partially-available'' \<longleftrightarrow> (fs \<noteq> [] \<or> err \<noteq> None) \<and> some"
    using c assms(2,3) by cases (auto split: if_splits)
qed

text \<open>
  C13. A batch. The records up to a marker are sent on, in order, with the source set; then the models of the
  source that are neither among their names nor among the failed ones are removed, unless every model failed;
  then, while the context is valid, exactly one status is saved: available exactly if nothing failed, an error
  exactly if something failed and no model arrived, and partially available exactly if both happened. What
  follows is read as a new batch.
\<close>

theorem batch_outcome:
  assumes "\<forall>x \<in> set rs. \<not> is_marker (snd x)" "is_marker r"
  shows "\<exists>status msg.
      read_records src credOpts (rs @ (True, r) # rest) live \<lparr>bt_names = [], bt_failed = []\<rparr> =
        batch_forwards src rs
        @ (if batch_names src rs = [] \<and> batch_failures rs @ marker_failures r \<noteq> [] then []
           else [CleanUp src (batch_names src rs @ map (\<lambda>f. src @ '':'' @ f) (batch_failures rs @ marker_failures r))])
        @ [SourceStatus src status msg (marker_opts credOpts r)]
        @ read_records src credOpts rest live \<lparr>bt_names = [], bt_failed = []\<rparr>
      \<and> (status = ''available'' \<longleftrightarrow> batch_failures rs = [] \<and> pv_Error r = None)
      \<and> (status = ''error'' \<longleftrightarrow> (batch_failures rs \<noteq> [] \<or> pv_Error r \<noteq> None) \<and> batch_names src rs = [])
      \<and> (status = ''partially-available'' \<longleftrightarrow> (batch_failures rs \<noteq> [] \<or> pv_Error r \<noteq> None) \<and> batch_names src rs \<noteq> [])"
proof -
  let ?names = "batch_names src rs" let ?failed = "batch_failures rs @ marker_failures r"
  let ?all = "if ?names = [] \<and> ?failed \<noteq> [] then [] else ?names @ map (\<lambda>f. src @ '':'' @ f) ?failed"
  obtain status msg where st: "status_of_batch src (pv_Error r) (?all \<noteq> []) ?failed = (status, msg)" by fastforce
  have some: "?all \<noteq> [] \<longleftrightarrow> ?names \<noteq> []" by auto
  have "complete_batch src credOpts True r \<lparr>bt_names = ?names, bt_failed = batch_failures rs\<rparr> =
     ((if ?names = [] \<and> ?failed \<noteq> [] then [] else [CleanUp src (?names @ map (\<lambda>f. src @ '':'' @ f) ?failed)])
        @ [SourceStatus src status msg (marker_opts credOpts r)], \<lparr>bt_names = [], bt_failed = []\<rparr>)"
    using st by (auto simp: complete_batch_def Let_def marker_opts_def marker_failures_def)
  then have eq: "read_records src credOpts (rs @ (True, r) # rest) live \<lparr>bt_names = [], bt_failed = []\<rparr> =
        batch_forwards src rs
        @ (if ?names = [] \<and> ?failed \<noteq> [] then [] else [CleanUp src (?names @ map (\<lambda>f. src @ '':'' @ f) ?failed)])
        @ [SourceStatus src status msg (marker_opts credOpts r)]
        @ read_records src credOpts rest live \<lparr>bt_names = [], bt_failed = []\<rparr>"
    by (simp only: read_batch [OF assms(1)] read_records.simps on_record_marker [OF assms(2)] batch.simps append_Nil
        Let_def prod.case append_assoc)
  note k = status_kind [OF st refl marker_error [OF assms(2)], unfolded some]
  show ?thesis by (intro exI conjI, rule eq) (use k in simp_all)
qed

subsection \<open>What a batch leaves in the table\<close>

text \<open>A model as a provider yields it: new, named, and with at most one property \<open>source_id\<close>.\<close>

definition provider_model :: "catalog_model \<Rightarrow> bool" where
  "provider_model m = (cm_ID m = None \<and> cm_TypeID m = None \<and> model_name m \<noteq> None \<and> model_name m \<noteq> Some []
     \<and> length (filter (\<lambda>p. sp_Name p = ''source_id'') (or_default [] (cm_Properties m))) \<le> 1
     \<and> (\<forall>p \<in> set (or_default [] (cm_Custom m)). sp_Name p \<noteq> ''source_id''))"

lemma put_source_new:
  "filter (\<lambda>p. sp_Name p = ''source_id'') ps = [] \<Longrightarrow> put_source src ps = ps @ [NewStringProperty ''source_id'' src False]"
  by (induction ps) (auto split: if_splits)

lemma put_source_find:
  "find is_source_property (put_source src ps) = Some p \<Longrightarrow> length (filter (\<lambda>p. sp_Name p = ''source_id'') ps) \<le> 1 \<Longrightarrow> sp_String p = Some src"
  by (induction ps) (auto simp: is_source_property_def filter_empty_conv split: if_splits)

lemma put_source_some: "find is_source_property (put_source src ps) \<noteq> None"
  by (induction ps) (auto simp: is_source_property_def)

lemma put_source_names:
  assumes "length (filter (\<lambda>p. sp_Name p = ''source_id'') ps) \<le> 1" "p \<in> set (put_source src ps)" "sp_Name p = ''source_id''"
  shows "sp_String p = Some src"
  using assms
proof (induction ps)
  case (Cons q ps)
  show ?case
  proof (cases "sp_Name q = ''source_id''")
    case True
    with Cons.prems(1) have "filter (\<lambda>p. sp_Name p = ''source_id'') ps = []" by simp
    then have "p \<notin> set ps" using Cons.prems(3) by (auto simp: filter_empty_conv)
    then show ?thesis using Cons.prems(2) True by simp
  next
    case False
    then show ?thesis using Cons by auto
  qed
qed simp

lemma setModelSourceID_storable:
  assumes "provider_model m" "src \<noteq> []" "model_name m = Some n"
  shows "storable src (src @ '':'' @ n) (setModelSourceID src m)" and "model_name (setModelSourceID src m) = Some (src @ '':'' @ n)"
proof -
  let ?m = "setModelSourceID src m" let ?ps = "put_source src (or_default [] (cm_Properties m))"
  have n: "n \<noteq> []" "cm_ID m = None" "cm_TypeID m = None"
      "length (filter (\<lambda>p. sp_Name p = ''source_id'') (or_default [] (cm_Properties m))) \<le> 1"
      "\<forall>p \<in> set (or_default [] (cm_Custom m)). sp_Name p \<noteq> ''source_id''"
    using assms by (auto simp: provider_model_def)
  obtain a where a: "cm_Attributes m = Some a" "ca_Name a = Some n" using assms(3) by (auto simp: model_name_def bind_eq_Some_conv)
  have m: "cm_Properties ?m = Some ?ps" "cm_Custom ?m = cm_Custom m" "cm_ID ?m = None" "cm_TypeID ?m = None"
    using n assms(3) by (simp_all add: setModelSourceID_def set_name_def model_name_def)
  show name: "model_name ?m = Some (src @ '':'' @ n)"
    using n assms(3) a by (simp add: setModelSourceID_def set_name_def model_name_def)
  obtain p where p: "find is_source_property ?ps = Some p" using put_source_some by fastforce
  then have sp: "sp_Name p = ''source_id''" "p \<in> set ?ps" by (auto simp: find_Some_iff is_source_property_def)
  have src: "getSourceIDFromProperties ?m = src"
    using put_source_names [OF n(4) sp(2,1)] p by (simp add: getSourceIDFromProperties_def m source_of_properties_def)
  have "one_source ?m"
    unfolding one_source_def src m using put_source_names [OF n(4)] n(5) by (cases "cm_Custom m") auto
  moreover have "with_source src (src @ '':'' @ n) = src @ '':'' @ n" by (simp add: with_source_def hasPrefix_def)
  ultimately show "storable src (src @ '':'' @ n) ?m"
    unfolding storable_def using m src assms(2) name by blast
qed

text \<open>
  The calls of both goroutines for a batch over the tables, and the models the batch sends to the writer.
\<close>

definition catalog_sync where
  "catalog_sync q quote typeID now has_event src names es s =
     sync_run (SaveCatalogModel (catalog_tables q) quote typeID now) (list_catalog_source typeID) (DeleteCatalogModel has_event typeID)
       src (set names) es s"

definition sent_models :: "string \<Rightarrow> (bool \<times> 'a provider_record) list \<Rightarrow> catalog_model list" where
  "sent_models src rs = List.map_filter (\<lambda>a. case a of Forward r \<Rightarrow> pv_Model r | _ \<Rightarrow> None) (batch_forwards src rs)"

definition saved_models :: "sync_event list \<Rightarrow> catalog_model list" where
  "saved_models es = List.map_filter (\<lambda>e. case e of SaveEvent m \<Rightarrow> Some m | _ \<Rightarrow> None) es"

lemma set_saved_models: "m \<in> set (saved_models es) \<longleftrightarrow> SaveEvent m \<in> set es"
  by (induction es) (auto simp: saved_models_def map_filter_simps split: sync_event.splits)

lemma set_sent_models: "m' \<in> set (sent_models src rs) \<longleftrightarrow> (\<exists>x \<in> set rs. \<exists>m. pv_Model (snd x) = Some m \<and> m' = setModelSourceID src m)"
proof (induction rs)
  case (Cons x rs)
  have "sent_models src (x # rs) = (case pv_Model (snd x) of None \<Rightarrow> [] | Some m \<Rightarrow> [setModelSourceID src m]) @ sent_models src rs"
    by (cases x; cases "pv_Model (snd x)") (simp_all add: sent_models_def map_filter_simps)
  then show ?case using Cons by (cases "pv_Model (snd x)") simp_all
qed (simp add: sent_models_def map_filter_simps)

lemma set_batch_names:
  "n \<in> set (batch_names src rs) \<longleftrightarrow> (\<exists>m \<in> set (sent_models src rs). model_name m = Some n)"
proof (induction rs)
  case (Cons x rs)
  have "sent_models src (x # rs) = (case pv_Model (snd x) of None \<Rightarrow> [] | Some m \<Rightarrow> [setModelSourceID src m]) @ sent_models src rs"
    by (cases x; cases "pv_Model (snd x)") (simp_all add: sent_models_def map_filter_simps)
  then show ?case using Cons
    by (cases x; cases "pv_Model (snd x)"; cases "model_name (setModelSourceID src (the (pv_Model (snd x))))") auto
qed (simp add: sent_models_def map_filter_simps)

lemma sent_storable:
  assumes "\<And>x m. x \<in> set rs \<Longrightarrow> pv_Model (snd x) = Some m \<Longrightarrow> provider_model m" "src \<noteq> []" "m \<in> set (sent_models src rs)"
  shows "storable src n m \<longleftrightarrow> model_name m = Some n" and "\<exists>n \<in> set (batch_names src rs). storable src n m"
proof -
  obtain x m0 where x: "x \<in> set rs" "pv_Model (snd x) = Some m0" "m = setModelSourceID src m0"
    using assms(3) unfolding set_sent_models by blast
  then have p: "provider_model m0" using assms(1) by blast
  then obtain k where "model_name m0 = Some k" by (auto simp: provider_model_def)
  note m = setModelSourceID_storable [OF p assms(2) this, folded x(3)]
  have uniq: "storable src n m \<Longrightarrow> storable src n' m \<Longrightarrow> n = n'" for n n' by (auto simp: storable_def)
  show "storable src n m \<longleftrightarrow> model_name m = Some n" using m uniq by auto
  have "src @ '':'' @ k \<in> set (batch_names src rs)" unfolding set_batch_names using m(2) assms(3) by blast
  then show "\<exists>n \<in> set (batch_names src rs). storable src n m" using m(1) by blast
qed


subsection \<open>Removal of sources\<close>

lemma remove_gone_spares:
  assumes "remove_gone protected failing gone = (rs, err)"
  shows "DeleteModelsOf src \<in> set rs \<Longrightarrow> src \<in> set gone" and "DeleteStatusOf src \<in> set rs \<Longrightarrow> src \<notin> protected"
    and "err = None \<Longrightarrow> src \<in> set gone \<Longrightarrow> DeleteModelsOf src \<in> set rs"
proof -
  have "(DeleteModelsOf src \<in> set rs \<longrightarrow> src \<in> set gone) \<and> (DeleteStatusOf src \<in> set rs \<longrightarrow> src \<notin> protected)
      \<and> (err = None \<longrightarrow> src \<in> set gone \<longrightarrow> DeleteModelsOf src \<in> set rs)"
    using assms
  proof (induction gone arbitrary: rs err)
    case (Cons g gone)
    obtain rs1 err1 where r: "remove_gone protected failing gone = (rs1, err1)" by fastforce
    show ?case
    proof (cases "failing g")
      case True
      then show ?thesis using Cons.prems by auto
    next
      case False
      then have "rs = DeleteModelsOf g # (if g \<notin> protected then [DeleteStatusOf g] else []) @ rs1" "err = err1"
        using Cons.prems r by simp_all
      then show ?thesis using Cons.IH [OF r] by auto
    qed
  qed simp
  then show "DeleteModelsOf src \<in> set rs \<Longrightarrow> src \<in> set gone" "DeleteStatusOf src \<in> set rs \<Longrightarrow> src \<notin> protected"
    "err = None \<Longrightarrow> src \<in> set gone \<Longrightarrow> DeleteModelsOf src \<in> set rs" by blast+
qed

text \<open>
  C33. The removal of what is gone. Models are removed only from sources that are not enabled, and from all such
  sources that have models if no call fails; the status of a source is removed only if no plugin configures it.
\<close>

theorem removal_spares:
  assumes "removeModelsFromMissingSources sources allKnown existing order failing getAll = (rs, err)"
    and "\<And>A. finite A \<Longrightarrow> set (order A) = A"
  shows "(DeleteStatusOf src \<in> set rs \<longrightarrow> src \<notin> fst ` set sources \<and> src \<notin> allKnown)
    \<and> (DeleteModelsOf src \<in> set rs \<longrightarrow> src \<notin> enabled_ids sources)
    \<and> (err = None \<longrightarrow> (\<exists>ids. existing = Inr ids \<and> (src \<in> set ids \<longrightarrow> src \<notin> enabled_ids sources \<longrightarrow> DeleteModelsOf src \<in> set rs)))"
proof (cases existing)
  case (Inr ids)
  define protected where "protected = fst ` set sources \<union> allKnown"
  define gone where "gone = order (set ids - enabled_ids sources)"
  have gone: "set gone = set ids - enabled_ids sources" by (simp add: gone_def assms(2))
  obtain ds e where ds: "remove_gone protected failing gone = (ds, e)" by fastforce
  note R = remove_gone_spares [OF ds, of src]
  define more where
    "more = (case CleanupOrphanedCatalogSources getAll protected of Inl err \<Rightarrow> [] | Inr ids \<Rightarrow> map DeleteStatusOf ids)"
  have rs: "rs = ds @ (if e = None then more else [])" "err = None \<longleftrightarrow> e = None"
    using assms(1) ds by (auto simp: removeModelsFromMissingSources_def Inr more_def protected_def gone_def split: option.splits)
  have cleaned: "x \<notin> protected" if "CleanupOrphanedCatalogSources getAll protected = Inr xs" "x \<in> set xs" for x xs
    using that by (auto simp: CleanupOrphanedCatalogSources_def split: sum.splits option.splits if_splits)
  have more: "DeleteModelsOf src \<notin> set more" "DeleteStatusOf src \<in> set more \<Longrightarrow> src \<notin> protected"
    unfolding more_def using cleaned by (cases "CleanupOrphanedCatalogSources getAll protected"; auto)+
  show ?thesis
  proof (intro conjI impI)
    assume "DeleteStatusOf src \<in> set rs"
    then have "src \<notin> protected" using R(2) more(2) rs(1) by (auto split: if_splits)
    then show "src \<notin> fst ` set sources" "src \<notin> allKnown" by (simp_all add: protected_def)
  next
    assume "DeleteModelsOf src \<in> set rs"
    then show "src \<notin> enabled_ids sources" using R(1) more(1) rs(1) gone by (auto split: if_splits)
  next
    assume "err = None"
    then have "src \<in> set gone \<Longrightarrow> DeleteModelsOf src \<in> set rs" using R(3) rs by simp
    then show "\<exists>ids. existing = Inr ids \<and> (src \<in> set ids \<longrightarrow> src \<notin> enabled_ids sources \<longrightarrow> DeleteModelsOf src \<in> set rs)"
      using Inr gone by simp
  qed
qed (use assms(1) in \<open>auto simp: removeModelsFromMissingSources_def\<close>)

subsection \<open>What the tracking of failures misses\<close>

text \<open>
  The failed models of a batch are kept apart by their names. A provider reports an invalid model with the text
  of its error instead, which is the name of no model: the stored model is an orphan and is deleted.
\<close>

lemma invalid_model_is_deleted:
  assumes "pv_Model r = None" "pv_Error r = Some (ModelInvalid t)" "is_marker e" "pv_Error e = None"
    and "pv_Model r1 = Some m" "model_name (setModelSourceID src m) = Some n"
    and "cm_ID old = Some i" "model_name old = Some k" "k \<noteq> n" "k \<noteq> src @ '':'' @ t"
  shows "\<exists>names rest. read_records src credOpts [(l, r1), (l, r), (l, e)] live \<lparr>bt_names = [], bt_failed = []\<rparr> =
      Forward (r1\<lparr>pv_Model := Some (setModelSourceID src m)\<rparr>) # CleanUp src names # rest
    \<and> orphans (set names) [old] = [i]"
proof -
  have "read_records src credOpts ([(l, r1), (l, r)] @ [(l, e)]) live \<lparr>bt_names = [], bt_failed = []\<rparr> =
      batch_forwards src [(l, r1), (l, r)]
      @ read_records src credOpts [(l, e)] live \<lparr>bt_names = [] @ batch_names src [(l, r1), (l, r)], bt_failed = [] @ batch_failures [(l, r1), (l, r)]\<rparr>"
    by (subst read_batch) (auto simp: is_marker_def assms(1,2,5))
  moreover obtain rest where "complete_batch src credOpts l e \<lparr>bt_names = [n], bt_failed = [t]\<rparr> =
      (CleanUp src [n, src @ '':'' @ t] # rest, \<lparr>bt_names = [], bt_failed = []\<rparr>)"
    using complete_batch_cleans [of "\<lparr>bt_names = [n], bt_failed = [t]\<rparr>" e src credOpts l] assms(4)
    by (auto simp: marker_failures_def)
  ultimately have "read_records src credOpts [(l, r1), (l, r), (l, e)] live \<lparr>bt_names = [], bt_failed = []\<rparr> =
      Forward (r1\<lparr>pv_Model := Some (setModelSourceID src m)\<rparr>) # CleanUp src [n, src @ '':'' @ t]
        # rest @ read_records src credOpts [] l \<lparr>bt_names = [], bt_failed = []\<rparr>"
    using assms(1,2,5,6) by (simp add: on_record_marker [OF assms(3)])
  moreover have "orphans (set [n, src @ '':'' @ t]) [old] = [i]"
    using assms(7-10) by (simp add: orphans_def map_filter_simps)
  ultimately show ?thesis by blast
qed

text \<open>
  A batch without models and without names of failed models counts as an empty catalog: its cleanup deletes every
  model of the source, also when the marker says that the source was only partially available.
\<close>

lemma nameless_failure_empties_source:
  assumes "pv_Model e = None" "pv_Error e = Some (PartiallyAvailable [])" "cm_ID old = Some i" "model_name old = Some k"
  shows "\<exists>rest. read_records src credOpts [(l, e)] live \<lparr>bt_names = [], bt_failed = []\<rparr> = CleanUp src [] # rest"
    and "orphans (set []) [old] = [i]"
proof -
  have "is_marker e" using assms(1,2) by (simp add: is_marker_def)
  moreover obtain rest where "complete_batch src credOpts l e \<lparr>bt_names = [], bt_failed = []\<rparr> =
      (CleanUp src [] # rest, \<lparr>bt_names = [], bt_failed = []\<rparr>)"
    using complete_batch_cleans [of "\<lparr>bt_names = [], bt_failed = []\<rparr>" e src credOpts l] assms(2)
    by (auto simp: marker_failures_def)
  ultimately show "\<exists>rest. read_records src credOpts [(l, e)] live \<lparr>bt_names = [], bt_failed = []\<rparr> = CleanUp src [] # rest"
    by (simp add: on_record_marker)
  show "orphans (set []) [old] = [i]" using assms(3,4) by (simp add: orphans_def map_filter_simps)
qed

text \<open>
  A provider that closes its channel without a marker leaves the source available, whatever failed, and nothing
  is removed.
\<close>

lemma one_shot_ignores_failures:
  assumes "pv_Model r = None" "pv_Error r = Some (ModelInvalid t)" "pv_Model r1 = Some m" "model_name (setModelSourceID src m) = Some n"
  shows "read_records src credOpts [(True, r1), (True, r)] True \<lparr>bt_names = [], bt_failed = []\<rparr> =
    [Forward (r1\<lparr>pv_Model := Some (setModelSourceID src m)\<rparr>), SourceStatus src ''available'' [] credOpts]"
  using assms by (simp add: on_record_def Let_def)

text \<open>The name with the source does not determine the source, since the id of a source may have a colon.\<close>

lemma namespaced_names_collide:
  assumes "model_name m = Some (b @ '':'' @ n)" "model_name m' = Some n" "n \<noteq> []"
  shows "model_name (setModelSourceID a m) = model_name (setModelSourceID (a @ '':'' @ b) m')"
proof -
  obtain x y where "cm_Attributes m = Some x" "cm_Attributes m' = Some y" using assms by (auto simp: model_name_def bind_eq_Some_conv)
  then show ?thesis using assms by (simp add: setModelSourceID_def set_name_def model_name_def)
qed

text \<open>A file whose labels fail has changed the sources all the same.\<close>

lemma failed_labels_keep_sources:
  assumes "read_config reader path = Inr (config, labels)" "updateSources path config (ml_Sources l) = Inr sc"
    and "updateLabels path labels (ml_Labels l) = Inl err"
  shows "parseAndMerge reader path l = (Some err, l\<lparr>ml_Sources := sc\<rparr>)"
  using assms by (simp add: parseAndMerge_def Let_def)

subsection \<open>Examples\<close>

definition sample_model :: "string \<Rightarrow> catalog_model" where
  "sample_model n = \<lparr>cm_ID = None, cm_TypeID = None,
     cm_Attributes = Some \<lparr>ca_Name = Some n, ca_ExternalID = None, ca_CreateTime = None, ca_LastUpdateTime = None\<rparr>,
     cm_Properties = None, cm_Custom = None\<rparr>"

definition model_record :: "catalog_model option \<Rightarrow> provider_error option \<Rightarrow> unit provider_record" where
  "model_record m err = \<lparr>pv_Model = m, pv_Artifacts = [], pv_Error = err, pv_Opts = []\<rparr>"

theorem batch_outcome_witness:
  "\<exists>msg. read_records ''s'' [] [(True, model_record (Some (sample_model ''a'')) None), (True, model_record None (Some (PartiallyAvailable [''c''])))]
        True \<lparr>bt_names = [], bt_failed = []\<rparr> =
     [Forward (model_record (Some (setModelSourceID ''s'' (sample_model ''a''))) None), CleanUp ''s'' [''s:a'', ''s:c''],
      SourceStatus ''s'' ''partially-available'' msg []]"
proof -
  let ?rs = "[(True, model_record (Some (sample_model ''a'')) None)]" and ?r = "model_record None (Some (PartiallyAvailable [''c'']))"
  have n: "model_name (setModelSourceID ''s'' (sample_model ''a'')) = Some ''s:a''" by code_simp
  have parts: "batch_names ''s'' ?rs = [''s:a'']" "batch_failures ?rs = []" "marker_failures ?r = [''c'']" "marker_opts [] ?r = []"
      "batch_forwards ''s'' ?rs = [Forward (model_record (Some (setModelSourceID ''s'' (sample_model ''a''))) None)]"
    using n by (simp_all add: model_record_def marker_failures_def marker_opts_def)
  have "\<forall>x \<in> set ?rs. \<not> is_marker (snd x)" "is_marker ?r" by (simp_all add: is_marker_def model_record_def)
  note T = batch_outcome [where rs = ?rs and r = ?r and src = "''s''" and credOpts = "[]" and rest = "[]" and live = True, OF this]
  have err: "pv_Error ?r \<noteq> None" by (simp add: model_record_def)
  from T obtain status msg where
    E: "read_records ''s'' [] (?rs @ [(True, ?r)]) True \<lparr>bt_names = [], bt_failed = []\<rparr> =
        batch_forwards ''s'' ?rs
        @ (if batch_names ''s'' ?rs = [] \<and> batch_failures ?rs @ marker_failures ?r \<noteq> [] then []
           else [CleanUp ''s'' (batch_names ''s'' ?rs @ map (\<lambda>f. ''s'' @ '':'' @ f) (batch_failures ?rs @ marker_failures ?r))])
        @ [SourceStatus ''s'' status msg (marker_opts [] ?r)]
        @ read_records ''s'' [] [] True \<lparr>bt_names = [], bt_failed = []\<rparr>"
    and P: "status = ''partially-available'' \<longleftrightarrow> (batch_failures ?rs \<noteq> [] \<or> pv_Error ?r \<noteq> None) \<and> batch_names ''s'' ?rs \<noteq> []"
    by (elim exE conjE) (rule that)
  have "status = ''partially-available''" using P err parts(1) by simp
  with E show ?thesis unfolding parts by simp
qed

definition sample_source :: "string \<Rightarrow> bool \<Rightarrow> model_source" where
  "sample_source i enabled = \<lparr>m_Id = i, m_Name = i, m_Enabled = Some enabled, m_Labels = None, m_IncludedModels = None,
     m_ExcludedModels = None, m_AssetType = None, m_Type = ''yaml'', m_Properties = None, m_Origin = ''f.yaml''\<rparr>"

theorem removal_spares_witness:
  "\<exists>rs. removeModelsFromMissingSources [(''off'', sample_source ''off'' False), (''on'', sample_source ''on'' True)] {''mcp''}
        (Inr [''off'', ''old'', ''on'']) sorted_list_of_set (\<lambda>_. False) (Inr [Some ''mcp'', Some ''gone'']) = (rs, None)
     \<and> DeleteStatusOf ''off'' \<notin> set rs \<and> DeleteModelsOf ''off'' \<in> set rs"
proof -
  let ?sources = "[(''off'', sample_source ''off'' False), (''on'', sample_source ''on'' True)]"
  have "{(i, s) \<in> set ?sources. m_Enabled s \<noteq> Some False} = {(''on'', sample_source ''on'' True)}"
    by (auto simp: sample_source_def)
  then have enabled: "enabled_ids ?sources = {''on''}" by (simp add: enabled_ids_def)
  have gone: "set [''off'', ''old'', ''on''] - enabled_ids ?sources = {''off'', ''old''}" unfolding enabled by auto
  have quiet: "snd (remove_gone p (\<lambda>_. False) gs) = None" for p gs
    by (induction gs) (auto split: prod.split)
  obtain rs err where r: "removeModelsFromMissingSources ?sources {''mcp''} (Inr [''off'', ''old'', ''on'']) sorted_list_of_set
      (\<lambda>_. False) (Inr [Some ''mcp'', Some ''gone'']) = (rs, err)" by fastforce
  have "err = None"
    using r quiet [of "fst ` set ?sources \<union> {''mcp''}" "sorted_list_of_set (set [''off'', ''old'', ''on''] - enabled_ids ?sources)"]
    by (cases "remove_gone (fst ` set ?sources \<union> {''mcp''}) (\<lambda>_. False) (sorted_list_of_set (set [''off'', ''old'', ''on''] - enabled_ids ?sources))")
      (simp add: removeModelsFromMissingSources_def Let_def)
  with removal_spares [OF r set_sorted_list_of_set, of "''off''"] have
    "DeleteStatusOf ''off'' \<notin> set rs" "DeleteModelsOf ''off'' \<in> set rs" unfolding enabled by auto
  with r \<open>err = None\<close> show ?thesis by blast
qed

definition sample_row :: "int \<Rightarrow> string \<Rightarrow> schema_entity" where
  "sample_row i n = Context \<lparr>cr_ID = i, cr_TypeID = 7, cr_Name = n, cr_ExternalID = None, cr_CreateTime = 1, cr_LastUpdateTime = 1\<rparr>"

definition sample_tables :: tables where
  "sample_tables = \<lparr>tb_rows = [sample_row 1 ''s:b'', sample_row 2 ''s:c'', sample_row 3 ''o:b''],
     tb_props = map (\<lambda>(i, src). (ContextTable, MapPropertiesToContextProperty (NewStringProperty ''source_id'' src False) i False))
       [(1, ''s''), (2, ''s''), (3, ''o'')],
     tb_links = []\<rparr>"


end
