(* ===== verification/Converter_Artifacts.thy ===== *)
theory Converter_Artifacts
  imports Converter_Entities
begin

text \<open>
  The conversion of the five artifact kinds between the REST form and the stored one
  (\<open>internal/converter/openapi_embedmd_converter_util.go\<close>, \<open>embdemd_openapi_converter_util.go\<close> and the
  generated converters), what it loses, and the properties of all twelve entities together.
\<close>

subsection \<open>Readers of artifact properties\<close>

definition double_prop :: "string \<Rightarrow> stored_property list \<Rightarrow> float64 option" where
  "double_prop n ps = Option.bind (findPropertyByName ps n) sp_Double"

definition MapEmbedMDPropertyModelFormatName :: "stored_property list \<Rightarrow> string option" where
  [reader_defs]: "MapEmbedMDPropertyModelFormatName = string_prop ''model_format_name''"

definition MapEmbedMDPropertyModelFormatVersion :: "stored_property list \<Rightarrow> string option" where
  [reader_defs]: "MapEmbedMDPropertyModelFormatVersion = string_prop ''model_format_version''"

definition MapEmbedMDPropertyStorageKey :: "stored_property list \<Rightarrow> string option" where
  [reader_defs]: "MapEmbedMDPropertyStorageKey = string_prop ''storage_key''"

definition MapEmbedMDPropertyStoragePath :: "stored_property list \<Rightarrow> string option" where
  [reader_defs]: "MapEmbedMDPropertyStoragePath = string_prop ''storage_path''"

definition MapEmbedMDPropertyServiceAccountName :: "stored_property list \<Rightarrow> string option" where
  [reader_defs]: "MapEmbedMDPropertyServiceAccountName = string_prop ''service_account_name''"

definition MapEmbedMDPropertyModelSourceKind :: "stored_property list \<Rightarrow> string option" where
  [reader_defs]: "MapEmbedMDPropertyModelSourceKind = string_prop ''model_source_kind''"

definition MapEmbedMDPropertyModelSourceClass :: "stored_property list \<Rightarrow> string option" where
  [reader_defs]: "MapEmbedMDPropertyModelSourceClass = string_prop ''model_source_class''"

definition MapEmbedMDPropertyModelSourceGroup :: "stored_property list \<Rightarrow> string option" where
  [reader_defs]: "MapEmbedMDPropertyModelSourceGroup = string_prop ''model_source_group''"

definition MapEmbedMDPropertyModelSourceId :: "stored_property list \<Rightarrow> string option" where
  [reader_defs]: "MapEmbedMDPropertyModelSourceId = string_prop ''model_source_id''"

definition MapEmbedMDPropertyModelSourceName :: "stored_property list \<Rightarrow> string option" where
  [reader_defs]: "MapEmbedMDPropertyModelSourceName = string_prop ''model_source_name''"

definition MapEmbedMDPropertyDigest :: "stored_property list \<Rightarrow> string option" where
  [reader_defs]: "MapEmbedMDPropertyDigest = string_prop ''digest''"

definition MapEmbedMDPropertySourceType :: "stored_property list \<Rightarrow> string option" where
  [reader_defs]: "MapEmbedMDPropertySourceType = string_prop ''source_type''"

definition MapEmbedMDPropertySource :: "stored_property list \<Rightarrow> string option" where
  [reader_defs]: "MapEmbedMDPropertySource = string_prop ''source''"

definition MapEmbedMDPropertySchema :: "stored_property list \<Rightarrow> string option" where
  [reader_defs]: "MapEmbedMDPropertySchema = string_prop ''schema''"

definition MapEmbedMDPropertyProfile :: "stored_property list \<Rightarrow> string option" where
  [reader_defs]: "MapEmbedMDPropertyProfile = string_prop ''profile''"

definition MapEmbedMDPropertyTimestampMetric :: "stored_property list \<Rightarrow> string option" where
  [reader_defs]: "MapEmbedMDPropertyTimestampMetric = string_prop ''timestamp''"

definition MapEmbedMDPropertyValueParameter :: "stored_property list \<Rightarrow> string option" where
  [reader_defs]: "MapEmbedMDPropertyValueParameter = string_prop ''value''"

definition MapEmbedMDPropertyValueMetric :: "stored_property list \<Rightarrow> float64 option" where
  [reader_defs]: "MapEmbedMDPropertyValueMetric = double_prop ''value''"

text \<open>The step is the first property of that name which has an integer value.\<close>

definition MapEmbedMDPropertyStepMetric :: "stored_property list \<Rightarrow> int option" where
  "MapEmbedMDPropertyStepMetric ps =
     Option.bind (List.find (\<lambda>p. sp_Name p = ''step'' \<and> sp_Int p \<noteq> None) ps) sp_Int"

definition MapEmbedMDPropertyParameterTypeParameter :: "stored_property list \<Rightarrow> conv_error + string option" where
  [reader_defs]: "MapEmbedMDPropertyParameterTypeParameter =
     enum_prop [''string'', ''number'', ''boolean'', ''object''] ''parameter_type''"

text \<open>The state of an artifact is read through its enumeration, for all five kinds.\<close>

definition MapEmbedMDStateArtifact :: "attributes \<Rightarrow> conv_error + string option" where
  "MapEmbedMDStateArtifact a =
     (case at_State a of None \<Rightarrow> Inr None | Some s \<Rightarrow> enum_from (map fst ArtifactStateMapping) s)"

record artifact_base = api_base +
  art_Name :: "string option"
  art_ExperimentId :: "string option"
  art_ExperimentRunId :: "string option"
  art_ArtifactType :: "string option"
  art_State :: "string option"

text \<open>The attributes of an artifact: the prefixed name, the URI if the kind has one, and the checked state.\<close>

definition artifact_attributes ::
  "string \<Rightarrow> string \<Rightarrow> string option \<Rightarrow> 'a artifact_base_scheme model_wrapper \<Rightarrow> conv_error + attributes" where
  "artifact_attributes uuidName uuid uri w =
     try_bind (opt_state ArtifactStateMapping ArtifactStateNames (art_State (w_Model w))) (\<lambda>state.
       base_attributes (Some (mapEntityName uuidName uuid (w_ParentResourceId w) (art_Name (w_Model w))))
         uri state (w_Model w))"

definition artifact_ok :: "string \<Rightarrow> string \<Rightarrow> 'a artifact_base_scheme model_wrapper \<Rightarrow> bool" where
  "artifact_ok uuidName uuid w = (base_ok (w_Model w)
     \<and> CHR '':'' \<notin> set (case w_ParentResourceId w of Some o' \<Rightarrow> o' | None \<Rightarrow> uuid)
     \<and> opt_all (\<lambda>n. n \<noteq> []) (art_Name (w_Model w)) \<and> uuidName \<noteq> []
     \<and> opt_all (\<lambda>s. s \<in> set (map fst ArtifactStateMapping)) (art_State (w_Model w)))"

text \<open>What comes back: a missing name is the generated one, the experiment ids come from elsewhere.\<close>

definition read_artifact :: "string \<Rightarrow> string \<Rightarrow> 'a artifact_base_scheme \<Rightarrow> 'a artifact_base_scheme" where
  "read_artifact uuidName type m = m\<lparr>art_Name := Some (case art_Name m of None \<Rightarrow> uuidName | Some n \<Rightarrow> n),
     art_ExperimentId := None, art_ExperimentRunId := None, art_ArtifactType := Some type\<rparr>"

definition opt_double :: "string \<Rightarrow> float64 option \<Rightarrow> conv_error + stored_property list" where
  "opt_double n v = Inr (case v of None \<Rightarrow> [] | Some x \<Rightarrow> [NewDoubleProperty n x False])"

definition opt_int :: "string \<Rightarrow> int option \<Rightarrow> conv_error + stored_property list" where
  "opt_int n v = Inr (case v of None \<Rightarrow> [] | Some i \<Rightarrow> [NewIntProperty n i False])"

definition double_part :: "string \<Rightarrow> float64 option \<Rightarrow> string \<times> stored_property option" where
  "double_part n v = (n, map_option (\<lambda>x. NewDoubleProperty n x False) v)"

lemma collect_numbers:
  "collect rs = Inr (part_rows parts) \<Longrightarrow>
     collect (opt_double n x # rs) = Inr (part_rows (double_part n x # parts))"
  "collect rs = Inr (part_rows parts) \<Longrightarrow>
     collect (opt_int n i # rs) = Inr (part_rows (int_part n i # parts))"
  by (simp_all add: part_rows_def opt_double_def opt_int_def double_part_def int_part_def split: option.split)

lemma double_parts [simp]:
  "fst (double_part n x) = n" "opt_all (\<lambda>p. sp_Name p = n) (snd (double_part n x))"
  "Option.bind (snd (double_part n x)) sp_Double = x"
  by (cases x; simp add: double_part_def)+

lemma read_double:
  "rows_of parts ps \<Longrightarrow> double_prop n ps = Option.bind (Option.bind (map_of parts n) id) sp_Double"
  by (simp add: rows_of_def double_prop_def)

lemma read_step:
  assumes "rows_of parts ps" "map_of parts ''step'' = Some (snd (int_part ''step'' j))"
  shows "MapEmbedMDPropertyStepMetric ps = j"
proof -
  have f: "List.find (\<lambda>p. sp_Name p = ''step'') ps = map_option (\<lambda>i. NewIntProperty ''step'' i False) j"
    using assms by (simp add: rows_of_def findPropertyByName_def int_part_def)
  show ?thesis
  proof (cases j)
    case None
    then have "\<forall>p \<in> set ps. sp_Name p \<noteq> ''step''" using f by (simp add: find_None_iff)
    then have "List.find (\<lambda>p. sp_Name p = ''step'' \<and> sp_Int p \<noteq> None) ps = None"
      by (auto simp: find_None_iff)
    then show ?thesis using None by (simp add: MapEmbedMDPropertyStepMetric_def)
  next
    case (Some i)
    then have "List.find (\<lambda>p. sp_Name p = ''step'' \<and> sp_Int p \<noteq> None) ps = Some (NewIntProperty ''step'' i False)"
      using f by (induction ps) (auto split: if_splits)
    then show ?thesis using Some by (simp add: MapEmbedMDPropertyStepMetric_def)
  qed
qed

text \<open>The round trip all artifact kinds share, on top of the one of all entities.\<close>

lemma artifact_state_read:
  assumes "opt_all (\<lambda>s. s \<in> set (map fst ArtifactStateMapping)) state" "at_State a = state"
  shows "MapEmbedMDStateArtifact a = Inr state"
  using assms by (cases state) (simp_all add: MapEmbedMDStateArtifact_def enum_from_def)

lemma artifact_roundtrip:
  assumes ok: "artifact_ok uuidName uuid w" and props: "props = Inr (part_rows parts)"
    and parts: "parts_ok parts" and custom: "api_CustomProperties m' = api_CustomProperties (w_Model w)"
    and read: "\<And>i a ps cs r. Int32ToString i = api_Id (w_Model w) \<Longrightarrow> rows_of parts ps
      \<Longrightarrow> at_URI a = uri \<Longrightarrow> at_ExternalID a = api_ExternalId (w_Model w)
      \<Longrightarrow> Int64ToString (at_CreateTime a) = api_CreateTime (w_Model w)
      \<Longrightarrow> Int64ToString (at_LastUpdateTime a) = api_LastUpdateTime (w_Model w)
      \<Longrightarrow> MapNameFromOwned (at_Name a) = Some (case art_Name (w_Model w) of None \<Rightarrow> uuidName | Some n \<Rightarrow> n)
      \<Longrightarrow> MapEmbedMDStateArtifact a = Inr (art_State (w_Model w))
      \<Longrightarrow> MapEmbedMDCustomProperties codec cs = Inr r \<Longrightarrow> MapEmbedMDExperimentId cs = None
      \<Longrightarrow> MapEmbedMDExperimentRunId cs = None
      \<Longrightarrow> rd \<lparr>be_ID = i, be_TypeID = w_TypeId w, be_Attributes = a, be_Properties = ps, be_Custom = cs\<rparr>
        = Inr (m'\<lparr>api_CustomProperties := r\<rparr>)"
  shows "\<exists>e. convert_entity codec (w_TypeId w) (w_Model w) (artifact_attributes uuidName uuid uri w) props = Inr e
    \<and> reads_back rd e m'"
proof -
  let ?m = "w_Model w"
  have known: "opt_all (\<lambda>s. s \<in> set (map fst ArtifactStateMapping)) (art_State ?m)" and base: "base_ok ?m"
    using ok by (simp_all add: artifact_ok_def)
  have name: "MapNameFromOwned (Some (mapEntityName uuidName uuid (w_ParentResourceId w) (art_Name ?m)))
      = Some (case art_Name ?m of None \<Rightarrow> uuidName | Some n \<Rightarrow> n)"
    using ok unfolding artifact_ok_def mapEntityName_def
    by (intro owned_name_read) (auto split: option.split)
  show ?thesis
    unfolding artifact_attributes_def opt_state_known(1) [OF known] try_bind.simps
    by (rule entity_roundtrip [OF base props parts custom])
      (intro read, simp_all add: name artifact_state_read [OF known])
qed

subsection \<open>Model artifacts\<close>

record model_artifact = artifact_base +
  ma_Uri :: "string option"
  ma_ModelFormatName :: "string option"
  ma_ModelFormatVersion :: "string option"
  ma_StorageKey :: "string option"
  ma_StoragePath :: "string option"
  ma_ServiceAccountName :: "string option"
  ma_ModelSourceKind :: "string option"
  ma_ModelSourceClass :: "string option"
  ma_ModelSourceGroup :: "string option"
  ma_ModelSourceId :: "string option"
  ma_ModelSourceName :: "string option"

definition MapModelArtifactPropertiesEmbedMD :: "model_artifact \<Rightarrow> conv_error + stored_property list" where
  "MapModelArtifactPropertiesEmbedMD m = collect
     [opt_string ''description'' (api_Description m),
      opt_string ''model_format_name'' (ma_ModelFormatName m),
      opt_string ''model_format_version'' (ma_ModelFormatVersion m),
      opt_string ''storage_key'' (ma_StorageKey m),
      opt_string ''storage_path'' (ma_StoragePath m),
      opt_string ''service_account_name'' (ma_ServiceAccountName m),
      opt_string ''model_source_kind'' (ma_ModelSourceKind m),
      opt_string ''model_source_class'' (ma_ModelSourceClass m),
      opt_string ''model_source_group'' (ma_ModelSourceGroup m),
      opt_string ''model_source_id'' (ma_ModelSourceId m),
      opt_string ''model_source_name'' (ma_ModelSourceName m)]"

definition MapModelArtifactAttributesEmbedMD ::
  "string \<Rightarrow> string \<Rightarrow> model_artifact model_wrapper \<Rightarrow> conv_error + attributes" where
  "MapModelArtifactAttributesEmbedMD uuidName uuid w = artifact_attributes uuidName uuid (ma_Uri (w_Model w)) w"

definition ConvertModelArtifact ::
  "struct_codec \<Rightarrow> string \<Rightarrow> string \<Rightarrow> model_artifact model_wrapper \<Rightarrow> conv_error + base_entity" where
  "ConvertModelArtifact codec uuidName uuid w = convert_entity codec (w_TypeId w) (w_Model w)
     (MapModelArtifactAttributesEmbedMD uuidName uuid w) (MapModelArtifactPropertiesEmbedMD (w_Model w))"

definition ReadModelArtifact :: "struct_codec \<Rightarrow> base_entity \<Rightarrow> conv_error + model_artifact" where
  "ReadModelArtifact codec e =
     (let a = be_Attributes e; ps = be_Properties e in
      try_bind (MapEmbedMDCustomProperties codec (be_Custom e)) (\<lambda>custom.
      try_bind (MapEmbedMDStateArtifact a) (\<lambda>state.
        Inr \<lparr>api_Id = Int32ToString (be_ID e), api_ExternalId = at_ExternalID a,
             api_CustomProperties = custom, api_Description = MapEmbedMDDescription ps,
             api_CreateTime = Int64ToString (at_CreateTime a),
             api_LastUpdateTime = Int64ToString (at_LastUpdateTime a),
             art_Name = MapNameFromOwned (at_Name a),
             art_ExperimentId = MapEmbedMDExperimentId (be_Custom e),
             art_ExperimentRunId = MapEmbedMDExperimentRunId (be_Custom e),
             art_ArtifactType = Some ''model-artifact'', art_State = state,
             ma_Uri = at_URI a,
             ma_ModelFormatName = MapEmbedMDPropertyModelFormatName ps,
             ma_ModelFormatVersion = MapEmbedMDPropertyModelFormatVersion ps,
             ma_StorageKey = MapEmbedMDPropertyStorageKey ps,
             ma_StoragePath = MapEmbedMDPropertyStoragePath ps,
             ma_ServiceAccountName = MapEmbedMDPropertyServiceAccountName ps,
             ma_ModelSourceKind = MapEmbedMDPropertyModelSourceKind ps,
             ma_ModelSourceClass = MapEmbedMDPropertyModelSourceClass ps,
             ma_ModelSourceGroup = MapEmbedMDPropertyModelSourceGroup ps,
             ma_ModelSourceId = MapEmbedMDPropertyModelSourceId ps,
             ma_ModelSourceName = MapEmbedMDPropertyModelSourceName ps\<rparr>)))"

lemma model_artifact_rows:
  "MapModelArtifactPropertiesEmbedMD m = Inr (part_rows
    [string_part ''description'' (api_Description m),
     string_part ''model_format_name'' (ma_ModelFormatName m),
     string_part ''model_format_version'' (ma_ModelFormatVersion m),
     string_part ''storage_key'' (ma_StorageKey m),
     string_part ''storage_path'' (ma_StoragePath m),
     string_part ''service_account_name'' (ma_ServiceAccountName m),
     string_part ''model_source_kind'' (ma_ModelSourceKind m),
     string_part ''model_source_class'' (ma_ModelSourceClass m),
     string_part ''model_source_group'' (ma_ModelSourceGroup m),
     string_part ''model_source_id'' (ma_ModelSourceId m),
     string_part ''model_source_name'' (ma_ModelSourceName m)])"
  unfolding MapModelArtifactPropertiesEmbedMD_def by (intro collect_parts)

lemma model_artifact_reads_back:
  assumes ok: "artifact_ok uuidName uuid w"
  shows "\<exists>e. ConvertModelArtifact codec uuidName uuid w = Inr e
    \<and> reads_back (ReadModelArtifact codec) e (read_artifact uuidName ''model-artifact'' (w_Model w))"
  unfolding ConvertModelArtifact_def MapModelArtifactAttributesEmbedMD_def
  by (rule artifact_roundtrip [OF ok model_artifact_rows])
    (auto simp: ReadModelArtifact_def read_artifact_def reader_defs row_simps
      intro!: model_artifact.equality)

subsection \<open>Documentation artifacts\<close>

record doc_artifact = artifact_base +
  doc_Uri :: "string option"

definition MapDocArtifactPropertiesEmbedMD :: "doc_artifact \<Rightarrow> conv_error + stored_property list" where
  "MapDocArtifactPropertiesEmbedMD m = collect
     [opt_string ''description'' (api_Description m)]"

definition MapDocArtifactAttributesEmbedMD ::
  "string \<Rightarrow> string \<Rightarrow> doc_artifact model_wrapper \<Rightarrow> conv_error + attributes" where
  "MapDocArtifactAttributesEmbedMD uuidName uuid w = artifact_attributes uuidName uuid (doc_Uri (w_Model w)) w"

definition ConvertDocArtifact ::
  "struct_codec \<Rightarrow> string \<Rightarrow> string \<Rightarrow> doc_artifact model_wrapper \<Rightarrow> conv_error + base_entity" where
  "ConvertDocArtifact codec uuidName uuid w = convert_entity codec (w_TypeId w) (w_Model w)
     (MapDocArtifactAttributesEmbedMD uuidName uuid w) (MapDocArtifactPropertiesEmbedMD (w_Model w))"

definition ReadDocArtifact :: "struct_codec \<Rightarrow> base_entity \<Rightarrow> conv_error + doc_artifact" where
  "ReadDocArtifact codec e =
     (let a = be_Attributes e; ps = be_Properties e in
      try_bind (MapEmbedMDCustomProperties codec (be_Custom e)) (\<lambda>custom.
      try_bind (MapEmbedMDStateArtifact a) (\<lambda>state.
        Inr \<lparr>api_Id = Int32ToString (be_ID e), api_ExternalId = at_ExternalID a,
             api_CustomProperties = custom, api_Description = MapEmbedMDDescription ps,
             api_CreateTime = Int64ToString (at_CreateTime a),
             api_LastUpdateTime = Int64ToString (at_LastUpdateTime a),
             art_Name = MapNameFromOwned (at_Name a),
             art_ExperimentId = MapEmbedMDExperimentId (be_Custom e),
             art_ExperimentRunId = MapEmbedMDExperimentRunId (be_Custom e),
             art_ArtifactType = Some ''doc-artifact'', art_State = state,
             doc_Uri = at_URI a\<rparr>)))"

lemma doc_artifact_rows:
  "MapDocArtifactPropertiesEmbedMD m = Inr (part_rows
    [string_part ''description'' (api_Description m)])"
  unfolding MapDocArtifactPropertiesEmbedMD_def by (intro collect_parts)

lemma doc_artifact_reads_back:
  assumes ok: "artifact_ok uuidName uuid w"
  shows "\<exists>e. ConvertDocArtifact codec uuidName uuid w = Inr e
    \<and> reads_back (ReadDocArtifact codec) e (read_artifact uuidName ''doc-artifact'' (w_Model w))"
  unfolding ConvertDocArtifact_def MapDocArtifactAttributesEmbedMD_def
  by (rule artifact_roundtrip [OF ok doc_artifact_rows])
    (auto simp: ReadDocArtifact_def read_artifact_def reader_defs row_simps
      intro!: doc_artifact.equality)

subsection \<open>Data sets\<close>

record data_set = artifact_base +
  ds_Uri :: "string option"
  ds_Digest :: "string option"
  ds_SourceType :: "string option"
  ds_Source :: "string option"
  ds_Schema :: "string option"
  ds_Profile :: "string option"

definition MapDataSetPropertiesEmbedMD :: "data_set \<Rightarrow> conv_error + stored_property list" where
  "MapDataSetPropertiesEmbedMD m = collect
     [opt_string ''description'' (api_Description m),
      opt_string ''digest'' (ds_Digest m),
      opt_string ''source_type'' (ds_SourceType m),
      opt_string ''source'' (ds_Source m),
      opt_string ''schema'' (ds_Schema m),
      opt_string ''profile'' (ds_Profile m)]"

definition MapDataSetAttributesEmbedMD ::
  "string \<Rightarrow> string \<Rightarrow> data_set model_wrapper \<Rightarrow> conv_error + attributes" where
  "MapDataSetAttributesEmbedMD uuidName uuid w = artifact_attributes uuidName uuid (ds_Uri (w_Model w)) w"

definition ConvertDataSet ::
  "struct_codec \<Rightarrow> string \<Rightarrow> string \<Rightarrow> data_set model_wrapper \<Rightarrow> conv_error + base_entity" where
  "ConvertDataSet codec uuidName uuid w = convert_entity codec (w_TypeId w) (w_Model w)
     (MapDataSetAttributesEmbedMD uuidName uuid w) (MapDataSetPropertiesEmbedMD (w_Model w))"

definition ReadDataSet :: "struct_codec \<Rightarrow> base_entity \<Rightarrow> conv_error + data_set" where
  "ReadDataSet codec e =
     (let a = be_Attributes e; ps = be_Properties e in
      try_bind (MapEmbedMDCustomProperties codec (be_Custom e)) (\<lambda>custom.
      try_bind (MapEmbedMDStateArtifact a) (\<lambda>state.
        Inr \<lparr>api_Id = Int32ToString (be_ID e), api_ExternalId = at_ExternalID a,
             api_CustomProperties = custom, api_Description = MapEmbedMDDescription ps,
             api_CreateTime = Int64ToString (at_CreateTime a),
             api_LastUpdateTime = Int64ToString (at_LastUpdateTime a),
             art_Name = MapNameFromOwned (at_Name a),
             art_ExperimentId = MapEmbedMDExperimentId (be_Custom e),
             art_ExperimentRunId = MapEmbedMDExperimentRunId (be_Custom e),
             art_ArtifactType = Some ''dataset-artifact'', art_State = state,
             ds_Uri = at_URI a,
             ds_Digest = MapEmbedMDPropertyDigest ps,
             ds_SourceType = MapEmbedMDPropertySourceType ps,
             ds_Source = MapEmbedMDPropertySource ps,
             ds_Schema = MapEmbedMDPropertySchema ps,
             ds_Profile = MapEmbedMDPropertyProfile ps\<rparr>)))"

lemma data_set_rows:
  "MapDataSetPropertiesEmbedMD m = Inr (part_rows
    [string_part ''description'' (api_Description m),
     string_part ''digest'' (ds_Digest m),
     string_part ''source_type'' (ds_SourceType m),
     string_part ''source'' (ds_Source m),
     string_part ''schema'' (ds_Schema m),
     string_part ''profile'' (ds_Profile m)])"
  unfolding MapDataSetPropertiesEmbedMD_def by (intro collect_parts)

lemma data_set_reads_back:
  assumes ok: "artifact_ok uuidName uuid w"
  shows "\<exists>e. ConvertDataSet codec uuidName uuid w = Inr e
    \<and> reads_back (ReadDataSet codec) e (read_artifact uuidName ''dataset-artifact'' (w_Model w))"
  unfolding ConvertDataSet_def MapDataSetAttributesEmbedMD_def
  by (rule artifact_roundtrip [OF ok data_set_rows])
    (auto simp: ReadDataSet_def read_artifact_def reader_defs row_simps
      intro!: data_set.equality)

subsection \<open>Metrics\<close>

record metric = artifact_base +
  met_Value :: "float64 option"
  met_Timestamp :: "string option"
  met_Step :: "int option"

text \<open>The step of a metric is an \<open>int64\<close> and is stored as \<open>int32\<close>: the conversion wraps around.\<close>

definition MapMetricPropertiesEmbedMD :: "metric \<Rightarrow> conv_error + stored_property list" where
  "MapMetricPropertiesEmbedMD m = collect
     [opt_string ''description'' (api_Description m),
      opt_double ''value'' (met_Value m),
      opt_string ''timestamp'' (met_Timestamp m),
      opt_int ''step'' (map_option to_int32 (met_Step m))]"

definition MapMetricAttributesEmbedMD ::
  "string \<Rightarrow> string \<Rightarrow> metric model_wrapper \<Rightarrow> conv_error + attributes" where
  "MapMetricAttributesEmbedMD uuidName uuid w = artifact_attributes uuidName uuid None w"

definition ConvertMetric ::
  "struct_codec \<Rightarrow> string \<Rightarrow> string \<Rightarrow> metric model_wrapper \<Rightarrow> conv_error + base_entity" where
  "ConvertMetric codec uuidName uuid w = convert_entity codec (w_TypeId w) (w_Model w)
     (MapMetricAttributesEmbedMD uuidName uuid w) (MapMetricPropertiesEmbedMD (w_Model w))"

definition ReadMetric :: "struct_codec \<Rightarrow> base_entity \<Rightarrow> conv_error + metric" where
  "ReadMetric codec e =
     (let a = be_Attributes e; ps = be_Properties e in
      try_bind (MapEmbedMDCustomProperties codec (be_Custom e)) (\<lambda>custom.
      try_bind (MapEmbedMDStateArtifact a) (\<lambda>state.
        Inr \<lparr>api_Id = Int32ToString (be_ID e), api_ExternalId = at_ExternalID a,
             api_CustomProperties = custom, api_Description = MapEmbedMDDescription ps,
             api_CreateTime = Int64ToString (at_CreateTime a),
             api_LastUpdateTime = Int64ToString (at_LastUpdateTime a),
             art_Name = MapNameFromOwned (at_Name a),
             art_ExperimentId = MapEmbedMDExperimentId (be_Custom e),
             art_ExperimentRunId = MapEmbedMDExperimentRunId (be_Custom e),
             art_ArtifactType = Some ''metric'', art_State = state,
             met_Value = MapEmbedMDPropertyValueMetric ps,
             met_Timestamp = MapEmbedMDPropertyTimestampMetric ps,
             met_Step = MapEmbedMDPropertyStepMetric ps\<rparr>)))"

lemma metric_rows:
  "MapMetricPropertiesEmbedMD m = Inr (part_rows
    [string_part ''description'' (api_Description m),
     double_part ''value'' (met_Value m),
     string_part ''timestamp'' (met_Timestamp m),
     int_part ''step'' (map_option to_int32 (met_Step m))])"
  unfolding MapMetricPropertiesEmbedMD_def by (intro collect_parts collect_numbers)

lemma metric_reads_back:
  assumes ok: "artifact_ok uuidName uuid w"
  shows "\<exists>e. ConvertMetric codec uuidName uuid w = Inr e
    \<and> reads_back (ReadMetric codec) e ((read_artifact uuidName ''metric'' (w_Model w))
         \<lparr>met_Step := map_option to_int32 (met_Step (w_Model w))\<rparr>)"
  unfolding ConvertMetric_def MapMetricAttributesEmbedMD_def
  by (rule artifact_roundtrip [OF ok metric_rows])
    (auto simp: ReadMetric_def read_artifact_def reader_defs row_simps read_double read_step
      intro!: metric.equality)

subsection \<open>Parameters\<close>

record parameter = artifact_base +
  par_Value :: "string option"
  par_ParameterType :: "string option"

definition MapParameterPropertiesEmbedMD :: "parameter \<Rightarrow> conv_error + stored_property list" where
  "MapParameterPropertiesEmbedMD m = collect
     [opt_string ''description'' (api_Description m),
      opt_string ''value'' (par_Value m),
      opt_string ''parameter_type'' (par_ParameterType m)]"

definition MapParameterAttributesEmbedMD ::
  "string \<Rightarrow> string \<Rightarrow> parameter model_wrapper \<Rightarrow> conv_error + attributes" where
  "MapParameterAttributesEmbedMD uuidName uuid w = artifact_attributes uuidName uuid None w"

definition ConvertParameter ::
  "struct_codec \<Rightarrow> string \<Rightarrow> string \<Rightarrow> parameter model_wrapper \<Rightarrow> conv_error + base_entity" where
  "ConvertParameter codec uuidName uuid w = convert_entity codec (w_TypeId w) (w_Model w)
     (MapParameterAttributesEmbedMD uuidName uuid w) (MapParameterPropertiesEmbedMD (w_Model w))"

definition ReadParameter :: "struct_codec \<Rightarrow> base_entity \<Rightarrow> conv_error + parameter" where
  "ReadParameter codec e =
     (let a = be_Attributes e; ps = be_Properties e in
      try_bind (MapEmbedMDCustomProperties codec (be_Custom e)) (\<lambda>custom.
      try_bind (MapEmbedMDPropertyParameterTypeParameter ps) (\<lambda>parameterType.
      try_bind (MapEmbedMDStateArtifact a) (\<lambda>state.
        Inr \<lparr>api_Id = Int32ToString (be_ID e), api_ExternalId = at_ExternalID a,
             api_CustomProperties = custom, api_Description = MapEmbedMDDescription ps,
             api_CreateTime = Int64ToString (at_CreateTime a),
             api_LastUpdateTime = Int64ToString (at_LastUpdateTime a),
             art_Name = MapNameFromOwned (at_Name a),
             art_ExperimentId = MapEmbedMDExperimentId (be_Custom e),
             art_ExperimentRunId = MapEmbedMDExperimentRunId (be_Custom e),
             art_ArtifactType = Some ''parameter'', art_State = state,
             par_Value = MapEmbedMDPropertyValueParameter ps,
             par_ParameterType = parameterType\<rparr>))))"

lemma parameter_rows:
  "MapParameterPropertiesEmbedMD m = Inr (part_rows
    [string_part ''description'' (api_Description m),
     string_part ''value'' (par_Value m),
     string_part ''parameter_type'' (par_ParameterType m)])"
  unfolding MapParameterPropertiesEmbedMD_def by (intro collect_parts)

lemma parameter_reads_back:
  assumes ok: "artifact_ok uuidName uuid w" and type: "opt_all (\<lambda>t. t \<in> set [''string'', ''number'', ''boolean'', ''object'']) (par_ParameterType (w_Model w))"
  shows "\<exists>e. ConvertParameter codec uuidName uuid w = Inr e
    \<and> reads_back (ReadParameter codec) e (read_artifact uuidName ''parameter'' (w_Model w))"
  unfolding ConvertParameter_def MapParameterAttributesEmbedMD_def
  by (rule artifact_roundtrip [OF ok parameter_rows])
    (use type in \<open>auto simp: ReadParameter_def read_artifact_def reader_defs row_simps
      intro!: parameter.equality\<close>)

end
