(* ===== verification/Api_Converters.thy ===== *)
theory Api_Converters
  imports Converter_Artifacts
begin

text \<open>
  The converters between the REST types (\<open>internal/converter/generated/openapi_converter.gen.go\<close>,
  \<open>openapi_reconciler.gen.go\<close>, \<open>openapi_reconciler_util.go\<close>): from the create and update requests to entities, the
  update of an existing entity by a partial one, and the fields an update may not change.

  A nil map of custom properties means "not sent" in a request: requests have it as an option, and the wrapper of an
  update carries it beside the entity.
\<close>

named_theorems update_defs
named_theorems request_defs

subsection \<open>Fields\<close>

definition over :: "'a option \<Rightarrow> 'a option \<Rightarrow> 'a option" where
  "over new old = (case new of None \<Rightarrow> old | Some x \<Rightarrow> Some x)"

definition over_value :: "'a option \<Rightarrow> 'a \<Rightarrow> 'a" where
  "over_value new old = (case new of None \<Rightarrow> old | Some x \<Rightarrow> x)"

lemma over_simps [simp]:
  "over None y = y" "over (Some x) y = Some x" "over v None = v" "over v v = v" "over (over v y) y = over v y"
  "over_value None z = z" "over_value (Some z) z' = z"
  by (simp_all add: over_def over_value_def split: option.split)

definition conv_opt :: "('a \<Rightarrow> 'e + 'b) \<Rightarrow> 'a option \<Rightarrow> 'e + 'b option" where
  "conv_opt f v = (case v of None \<Rightarrow> Inr None | Some x \<Rightarrow> try_bind (f x) (\<lambda>y. Inr (Some y)))"

definition enum_switch :: "string list \<Rightarrow> string \<Rightarrow> conv_error + string" where
  "enum_switch cases source = (if source \<in> set cases then Inr source else Inl (InvalidEnum source))"

definition openapiArtifactStateToOpenapiArtifactState :: "string \<Rightarrow> conv_error + string" where
  "openapiArtifactStateToOpenapiArtifactState = enum_switch [''ABANDONED'', ''DELETED'', ''LIVE'', ''MARKED_FOR_DELETION'', ''PENDING'', ''REFERENCE'', ''UNKNOWN'']"

definition openapiExecutionStateToOpenapiExecutionState :: "string \<Rightarrow> conv_error + string" where
  "openapiExecutionStateToOpenapiExecutionState = enum_switch [''CACHED'', ''CANCELED'', ''COMPLETE'', ''FAILED'', ''NEW'', ''RUNNING'', ''UNKNOWN'']"

definition openapiExperimentRunStateToOpenapiExperimentRunState :: "string \<Rightarrow> conv_error + string" where
  "openapiExperimentRunStateToOpenapiExperimentRunState = enum_switch [''ARCHIVED'', ''LIVE'']"

definition openapiExperimentRunStatusToOpenapiExperimentRunStatus :: "string \<Rightarrow> conv_error + string" where
  "openapiExperimentRunStatusToOpenapiExperimentRunStatus = enum_switch [''FAILED'', ''FINISHED'', ''KILLED'', ''RUNNING'', ''SCHEDULED'']"

definition openapiExperimentStateToOpenapiExperimentState :: "string \<Rightarrow> conv_error + string" where
  "openapiExperimentStateToOpenapiExperimentState = enum_switch [''ARCHIVED'', ''LIVE'']"

definition openapiInferenceServiceStateToOpenapiInferenceServiceState :: "string \<Rightarrow> conv_error + string" where
  "openapiInferenceServiceStateToOpenapiInferenceServiceState = enum_switch [''DEPLOYED'', ''UNDEPLOYED'']"

definition openapiModelVersionStateToOpenapiModelVersionState :: "string \<Rightarrow> conv_error + string" where
  "openapiModelVersionStateToOpenapiModelVersionState = enum_switch [''ARCHIVED'', ''LIVE'']"

definition openapiParameterTypeToOpenapiParameterType :: "string \<Rightarrow> conv_error + string" where
  "openapiParameterTypeToOpenapiParameterType = enum_switch [''boolean'', ''number'', ''object'', ''string'']"

definition openapiRegisteredModelStateToOpenapiRegisteredModelState :: "string \<Rightarrow> conv_error + string" where
  "openapiRegisteredModelStateToOpenapiRegisteredModelState = enum_switch [''ARCHIVED'', ''LIVE'']"

lemmas enum_defs = openapiArtifactStateToOpenapiArtifactState_def openapiExecutionStateToOpenapiExecutionState_def openapiExperimentRunStateToOpenapiExperimentRunState_def openapiExperimentRunStatusToOpenapiExperimentRunStatus_def openapiExperimentStateToOpenapiExperimentState_def openapiInferenceServiceStateToOpenapiInferenceServiceState_def openapiModelVersionStateToOpenapiModelVersionState_def openapiParameterTypeToOpenapiParameterType_def openapiRegisteredModelStateToOpenapiRegisteredModelState_def

lemma conv_opt_enum:
  "conv_opt (enum_switch cases) v = Inr r \<longleftrightarrow> r = v \<and> (case v of None \<Rightarrow> True | Some x \<Rightarrow> x \<in> set cases)"
  by (auto simp: conv_opt_def enum_switch_def split: option.splits)

lemma conv_opt_over:
  "conv_opt (enum_switch cases) v = Inr v' \<Longrightarrow> conv_opt (enum_switch cases) old = Inr old'
    \<Longrightarrow> conv_opt (enum_switch cases) (over v' old) = Inr (over v' old)"
  by (cases v) (auto simp: conv_opt_enum)

lemma conv_overs:
  "conv_opt openapiArtifactStateToOpenapiArtifactState v = Inr v' \<Longrightarrow> conv_opt openapiArtifactStateToOpenapiArtifactState old = Inr old' \<Longrightarrow> conv_opt openapiArtifactStateToOpenapiArtifactState (over v' old) = Inr (over v' old)"
  "conv_opt openapiExecutionStateToOpenapiExecutionState v = Inr v' \<Longrightarrow> conv_opt openapiExecutionStateToOpenapiExecutionState old = Inr old' \<Longrightarrow> conv_opt openapiExecutionStateToOpenapiExecutionState (over v' old) = Inr (over v' old)"
  "conv_opt openapiExperimentRunStateToOpenapiExperimentRunState v = Inr v' \<Longrightarrow> conv_opt openapiExperimentRunStateToOpenapiExperimentRunState old = Inr old' \<Longrightarrow> conv_opt openapiExperimentRunStateToOpenapiExperimentRunState (over v' old) = Inr (over v' old)"
  "conv_opt openapiExperimentRunStatusToOpenapiExperimentRunStatus v = Inr v' \<Longrightarrow> conv_opt openapiExperimentRunStatusToOpenapiExperimentRunStatus old = Inr old' \<Longrightarrow> conv_opt openapiExperimentRunStatusToOpenapiExperimentRunStatus (over v' old) = Inr (over v' old)"
  "conv_opt openapiExperimentStateToOpenapiExperimentState v = Inr v' \<Longrightarrow> conv_opt openapiExperimentStateToOpenapiExperimentState old = Inr old' \<Longrightarrow> conv_opt openapiExperimentStateToOpenapiExperimentState (over v' old) = Inr (over v' old)"
  "conv_opt openapiInferenceServiceStateToOpenapiInferenceServiceState v = Inr v' \<Longrightarrow> conv_opt openapiInferenceServiceStateToOpenapiInferenceServiceState old = Inr old' \<Longrightarrow> conv_opt openapiInferenceServiceStateToOpenapiInferenceServiceState (over v' old) = Inr (over v' old)"
  "conv_opt openapiModelVersionStateToOpenapiModelVersionState v = Inr v' \<Longrightarrow> conv_opt openapiModelVersionStateToOpenapiModelVersionState old = Inr old' \<Longrightarrow> conv_opt openapiModelVersionStateToOpenapiModelVersionState (over v' old) = Inr (over v' old)"
  "conv_opt openapiParameterTypeToOpenapiParameterType v = Inr v' \<Longrightarrow> conv_opt openapiParameterTypeToOpenapiParameterType old = Inr old' \<Longrightarrow> conv_opt openapiParameterTypeToOpenapiParameterType (over v' old) = Inr (over v' old)"
  "conv_opt openapiRegisteredModelStateToOpenapiRegisteredModelState v = Inr v' \<Longrightarrow> conv_opt openapiRegisteredModelStateToOpenapiRegisteredModelState old = Inr old' \<Longrightarrow> conv_opt openapiRegisteredModelStateToOpenapiRegisteredModelState (over v' old) = Inr (over v' old)"
  unfolding enum_defs by (rule conv_opt_over; assumption)+

subsection \<open>Update of an existing entity\<close>

text \<open>\<open>OpenapiUpdateWrapper\<close>, with the custom properties of the update (\<open>None\<close> for a nil map).\<close>

record 'm update_wrapper =
  uw_Existing :: 'm
  uw_Update :: "'m option"
  uw_Custom :: "(string \<times> metadata_value) list option"

definition InitWithExisting :: "'m update_wrapper \<Rightarrow> 'm" where
  "InitWithExisting w = uw_Existing w"

text \<open>A missing update gives the zero value \<open>z\<close>.\<close>

definition InitWithUpdate :: "'m \<Rightarrow> 'm update_wrapper \<Rightarrow> 'm" where
  "InitWithUpdate z w = (case uw_Update w of None \<Rightarrow> z | Some u \<Rightarrow> u)"

definition UpdateExistingRegisteredModel :: "registered_model update_wrapper \<Rightarrow> conv_error + registered_model" where
  [update_defs]: "UpdateExistingRegisteredModel w = (let e = InitWithExisting w in case uw_Update w of None \<Rightarrow> Inr e | Some u \<Rightarrow>
     try_bind (conv_opt openapiRegisteredModelStateToOpenapiRegisteredModelState (rm_State u)) (\<lambda>state.
     Inr (e\<lparr>api_CustomProperties := over_value (uw_Custom w) (api_CustomProperties e),
       api_Description := over (api_Description u) (api_Description e),
       api_ExternalId := over (api_ExternalId u) (api_ExternalId e),
       rm_Readme := over (rm_Readme u) (rm_Readme e),
       rm_Maturity := over (rm_Maturity u) (rm_Maturity e),
       rm_Language := over (rm_Language u) (rm_Language e),
       rm_Tasks := over (rm_Tasks u) (rm_Tasks e),
       rm_Provider := over (rm_Provider u) (rm_Provider e),
       rm_Logo := over (rm_Logo u) (rm_Logo e),
       rm_License := over (rm_License u) (rm_License e),
       rm_LicenseLink := over (rm_LicenseLink u) (rm_LicenseLink e),
       rm_LibraryName := over (rm_LibraryName u) (rm_LibraryName e),
       rm_Owner := over (rm_Owner u) (rm_Owner e),
       rm_State := over state (rm_State e)\<rparr>)))"

definition UpdateExistingModelVersion :: "model_version update_wrapper \<Rightarrow> conv_error + model_version" where
  [update_defs]: "UpdateExistingModelVersion w = (let e = InitWithExisting w in case uw_Update w of None \<Rightarrow> Inr e | Some u \<Rightarrow>
     try_bind (conv_opt openapiModelVersionStateToOpenapiModelVersionState (ver_State u)) (\<lambda>state.
     Inr (e\<lparr>api_CustomProperties := over_value (uw_Custom w) (api_CustomProperties e),
       api_Description := over (api_Description u) (api_Description e),
       api_ExternalId := over (api_ExternalId u) (api_ExternalId e),
       ver_State := over state (ver_State e),
       ver_Author := over (ver_Author u) (ver_Author e)\<rparr>)))"

definition UpdateExistingServingEnvironment :: "serving_environment update_wrapper \<Rightarrow> conv_error + serving_environment" where
  [update_defs]: "UpdateExistingServingEnvironment w = (let e = InitWithExisting w in case uw_Update w of None \<Rightarrow> Inr e | Some u \<Rightarrow>
     Inr (e\<lparr>api_CustomProperties := over_value (uw_Custom w) (api_CustomProperties e),
       api_Description := over (api_Description u) (api_Description e),
       api_ExternalId := over (api_ExternalId u) (api_ExternalId e)\<rparr>))"

definition UpdateExistingInferenceService :: "inference_service update_wrapper \<Rightarrow> conv_error + inference_service" where
  [update_defs]: "UpdateExistingInferenceService w = (let e = InitWithExisting w in case uw_Update w of None \<Rightarrow> Inr e | Some u \<Rightarrow>
     try_bind (conv_opt openapiInferenceServiceStateToOpenapiInferenceServiceState (inf_DesiredState u)) (\<lambda>desiredState.
     Inr (e\<lparr>api_CustomProperties := over_value (uw_Custom w) (api_CustomProperties e),
       api_Description := over (api_Description u) (api_Description e),
       api_ExternalId := over (api_ExternalId u) (api_ExternalId e),
       inf_ModelVersionId := over (inf_ModelVersionId u) (inf_ModelVersionId e),
       inf_Runtime := over (inf_Runtime u) (inf_Runtime e),
       inf_DesiredState := over desiredState (inf_DesiredState e)\<rparr>)))"

definition UpdateExistingExperiment :: "xp_entity update_wrapper \<Rightarrow> conv_error + xp_entity" where
  [update_defs]: "UpdateExistingExperiment w = (let e = InitWithExisting w in case uw_Update w of None \<Rightarrow> Inr e | Some u \<Rightarrow>
     try_bind (conv_opt openapiExperimentStateToOpenapiExperimentState (xp_State u)) (\<lambda>state.
     Inr (e\<lparr>api_CustomProperties := over_value (uw_Custom w) (api_CustomProperties e),
       api_Description := over (api_Description u) (api_Description e),
       api_ExternalId := over (api_ExternalId u) (api_ExternalId e),
       xp_Owner := over (xp_Owner u) (xp_Owner e),
       xp_State := over state (xp_State e)\<rparr>)))"

definition UpdateExistingExperimentRun :: "experiment_run update_wrapper \<Rightarrow> conv_error + experiment_run" where
  [update_defs]: "UpdateExistingExperimentRun w = (let e = InitWithExisting w in case uw_Update w of None \<Rightarrow> Inr e | Some u \<Rightarrow>
     try_bind (conv_opt openapiExperimentRunStatusToOpenapiExperimentRunStatus (run_Status u)) (\<lambda>status.
     try_bind (conv_opt openapiExperimentRunStateToOpenapiExperimentRunState (run_State u)) (\<lambda>state.
     Inr (e\<lparr>api_CustomProperties := over_value (uw_Custom w) (api_CustomProperties e),
       api_Description := over (api_Description u) (api_Description e),
       api_ExternalId := over (api_ExternalId u) (api_ExternalId e),
       run_EndTime := over (run_EndTime u) (run_EndTime e),
       run_Status := over status (run_Status e),
       run_State := over state (run_State e),
       run_Owner := over (run_Owner u) (run_Owner e),
       run_StartTime := over (run_StartTime u) (run_StartTime e)\<rparr>))))"

definition UpdateExistingServeModel :: "serve_model update_wrapper \<Rightarrow> conv_error + serve_model" where
  [update_defs]: "UpdateExistingServeModel w = (let e = InitWithExisting w in case uw_Update w of None \<Rightarrow> Inr e | Some u \<Rightarrow>
     try_bind (conv_opt openapiExecutionStateToOpenapiExecutionState (srv_LastKnownState u)) (\<lambda>lastKnownState.
     Inr (e\<lparr>api_CustomProperties := over_value (uw_Custom w) (api_CustomProperties e),
       api_Description := over (api_Description u) (api_Description e),
       api_ExternalId := over (api_ExternalId u) (api_ExternalId e),
       srv_LastKnownState := over lastKnownState (srv_LastKnownState e)\<rparr>)))"

definition UpdateExistingModelArtifact :: "model_artifact update_wrapper \<Rightarrow> conv_error + model_artifact" where
  [update_defs]: "UpdateExistingModelArtifact w = (let e = InitWithExisting w in case uw_Update w of None \<Rightarrow> Inr e | Some u \<Rightarrow>
     try_bind (conv_opt openapiArtifactStateToOpenapiArtifactState (art_State u)) (\<lambda>state.
     Inr (e\<lparr>api_CustomProperties := over_value (uw_Custom w) (api_CustomProperties e),
       api_Description := over (api_Description u) (api_Description e),
       api_ExternalId := over (api_ExternalId u) (api_ExternalId e),
       art_ExperimentId := over (art_ExperimentId u) (art_ExperimentId e),
       art_ExperimentRunId := over (art_ExperimentRunId u) (art_ExperimentRunId e),
       ma_ModelFormatName := over (ma_ModelFormatName u) (ma_ModelFormatName e),
       ma_StorageKey := over (ma_StorageKey u) (ma_StorageKey e),
       ma_StoragePath := over (ma_StoragePath u) (ma_StoragePath e),
       ma_ModelFormatVersion := over (ma_ModelFormatVersion u) (ma_ModelFormatVersion e),
       ma_ServiceAccountName := over (ma_ServiceAccountName u) (ma_ServiceAccountName e),
       ma_ModelSourceKind := over (ma_ModelSourceKind u) (ma_ModelSourceKind e),
       ma_ModelSourceClass := over (ma_ModelSourceClass u) (ma_ModelSourceClass e),
       ma_ModelSourceGroup := over (ma_ModelSourceGroup u) (ma_ModelSourceGroup e),
       ma_ModelSourceId := over (ma_ModelSourceId u) (ma_ModelSourceId e),
       ma_ModelSourceName := over (ma_ModelSourceName u) (ma_ModelSourceName e),
       ma_Uri := over (ma_Uri u) (ma_Uri e),
       art_State := over state (art_State e)\<rparr>)))"

definition UpdateExistingDocArtifact :: "doc_artifact update_wrapper \<Rightarrow> conv_error + doc_artifact" where
  [update_defs]: "UpdateExistingDocArtifact w = (let e = InitWithExisting w in case uw_Update w of None \<Rightarrow> Inr e | Some u \<Rightarrow>
     try_bind (conv_opt openapiArtifactStateToOpenapiArtifactState (art_State u)) (\<lambda>state.
     Inr (e\<lparr>api_CustomProperties := over_value (uw_Custom w) (api_CustomProperties e),
       api_Description := over (api_Description u) (api_Description e),
       api_ExternalId := over (api_ExternalId u) (api_ExternalId e),
       art_ExperimentId := over (art_ExperimentId u) (art_ExperimentId e),
       art_ExperimentRunId := over (art_ExperimentRunId u) (art_ExperimentRunId e),
       doc_Uri := over (doc_Uri u) (doc_Uri e),
       art_State := over state (art_State e)\<rparr>)))"

definition UpdateExistingDataSet :: "data_set update_wrapper \<Rightarrow> conv_error + data_set" where
  [update_defs]: "UpdateExistingDataSet w = (let e = InitWithExisting w in case uw_Update w of None \<Rightarrow> Inr e | Some u \<Rightarrow>
     try_bind (conv_opt openapiArtifactStateToOpenapiArtifactState (art_State u)) (\<lambda>state.
     Inr (e\<lparr>api_CustomProperties := over_value (uw_Custom w) (api_CustomProperties e),
       api_Description := over (api_Description u) (api_Description e),
       api_ExternalId := over (api_ExternalId u) (api_ExternalId e),
       art_ExperimentId := over (art_ExperimentId u) (art_ExperimentId e),
       art_ExperimentRunId := over (art_ExperimentRunId u) (art_ExperimentRunId e),
       ds_Digest := over (ds_Digest u) (ds_Digest e),
       ds_SourceType := over (ds_SourceType u) (ds_SourceType e),
       ds_Source := over (ds_Source u) (ds_Source e),
       ds_Schema := over (ds_Schema u) (ds_Schema e),
       ds_Profile := over (ds_Profile u) (ds_Profile e),
       ds_Uri := over (ds_Uri u) (ds_Uri e),
       art_State := over state (art_State e)\<rparr>)))"

definition UpdateExistingMetric :: "metric update_wrapper \<Rightarrow> conv_error + metric" where
  [update_defs]: "UpdateExistingMetric w = (let e = InitWithExisting w in case uw_Update w of None \<Rightarrow> Inr e | Some u \<Rightarrow>
     try_bind (conv_opt openapiArtifactStateToOpenapiArtifactState (art_State u)) (\<lambda>state.
     Inr (e\<lparr>api_CustomProperties := over_value (uw_Custom w) (api_CustomProperties e),
       api_Description := over (api_Description u) (api_Description e),
       api_ExternalId := over (api_ExternalId u) (api_ExternalId e),
       art_ExperimentId := over (art_ExperimentId u) (art_ExperimentId e),
       art_ExperimentRunId := over (art_ExperimentRunId u) (art_ExperimentRunId e),
       met_Value := over (met_Value u) (met_Value e),
       met_Timestamp := over (met_Timestamp u) (met_Timestamp e),
       met_Step := over (met_Step u) (met_Step e),
       art_State := over state (art_State e)\<rparr>)))"

definition UpdateExistingParameter :: "parameter update_wrapper \<Rightarrow> conv_error + parameter" where
  [update_defs]: "UpdateExistingParameter w = (let e = InitWithExisting w in case uw_Update w of None \<Rightarrow> Inr e | Some u \<Rightarrow>
     try_bind (conv_opt openapiParameterTypeToOpenapiParameterType (par_ParameterType u)) (\<lambda>parameterType.
     try_bind (conv_opt openapiArtifactStateToOpenapiArtifactState (art_State u)) (\<lambda>state.
     Inr (e\<lparr>api_CustomProperties := over_value (uw_Custom w) (api_CustomProperties e),
       api_Description := over (api_Description u) (api_Description e),
       api_ExternalId := over (api_ExternalId u) (api_ExternalId e),
       art_ExperimentId := over (art_ExperimentId u) (art_ExperimentId e),
       art_ExperimentRunId := over (art_ExperimentRunId u) (art_ExperimentRunId e),
       par_Value := over (par_Value u) (par_Value e),
       par_ParameterType := over parameterType (par_ParameterType e),
       art_State := over state (art_State e)\<rparr>))))"

subsection \<open>Fields an update may not change\<close>

definition OverrideNotEditableForRegisteredModel :: "registered_model \<Rightarrow> registered_model update_wrapper \<Rightarrow> registered_model" where
  "OverrideNotEditableForRegisteredModel z w = (let e = uw_Existing w; u = InitWithUpdate z w in u\<lparr>rm_Name := rm_Name e\<rparr>)"

definition OverrideNotEditableForModelVersion :: "model_version \<Rightarrow> model_version update_wrapper \<Rightarrow> model_version" where
  "OverrideNotEditableForModelVersion z w = (let e = uw_Existing w; u = InitWithUpdate z w in u\<lparr>ver_Name := ver_Name e,
     ver_RegisteredModelId := ver_RegisteredModelId e\<rparr>)"

definition OverrideNotEditableForServingEnvironment :: "serving_environment \<Rightarrow> serving_environment update_wrapper \<Rightarrow> serving_environment" where
  "OverrideNotEditableForServingEnvironment z w = (let e = uw_Existing w; u = InitWithUpdate z w in u\<lparr>env_Name := env_Name e\<rparr>)"

definition OverrideNotEditableForInferenceService :: "inference_service \<Rightarrow> inference_service update_wrapper \<Rightarrow> inference_service" where
  "OverrideNotEditableForInferenceService z w = (let e = uw_Existing w; u = InitWithUpdate z w in u\<lparr>inf_Name := over (inf_Name e) (inf_Name u),
     inf_RegisteredModelId := inf_RegisteredModelId e,
     inf_ServingEnvironmentId := inf_ServingEnvironmentId e\<rparr>)"

definition OverrideNotEditableForExperiment :: "xp_entity \<Rightarrow> xp_entity update_wrapper \<Rightarrow> xp_entity" where
  "OverrideNotEditableForExperiment z w = (let e = uw_Existing w; u = InitWithUpdate z w in u\<lparr>xp_Name := xp_Name e\<rparr>)"

definition OverrideNotEditableForExperimentRun :: "experiment_run \<Rightarrow> experiment_run update_wrapper \<Rightarrow> experiment_run" where
  "OverrideNotEditableForExperimentRun z w = (let e = uw_Existing w; u = InitWithUpdate z w in u\<lparr>run_Name := over (run_Name e) (run_Name u),
     run_ExperimentId := run_ExperimentId e\<rparr>)"

definition OverrideNotEditableForServeModel :: "serve_model \<Rightarrow> serve_model update_wrapper \<Rightarrow> serve_model" where
  "OverrideNotEditableForServeModel z w = (let e = uw_Existing w; u = InitWithUpdate z w in u\<lparr>srv_Name := over (srv_Name e) (srv_Name u),
     srv_ModelVersionId := srv_ModelVersionId e\<rparr>)"

definition OverrideNotEditableForModelArtifact :: "model_artifact \<Rightarrow> model_artifact update_wrapper \<Rightarrow> model_artifact" where
  "OverrideNotEditableForModelArtifact z w = (let e = uw_Existing w; u = InitWithUpdate z w in u\<lparr>art_Name := over (art_Name e) (art_Name u),
     art_ExperimentId := over (art_ExperimentId e) (art_ExperimentId u),
     art_ExperimentRunId := over (art_ExperimentRunId e) (art_ExperimentRunId u),
     art_ArtifactType := over (art_ArtifactType e) (art_ArtifactType u)\<rparr>)"

definition OverrideNotEditableForDocArtifact :: "doc_artifact \<Rightarrow> doc_artifact update_wrapper \<Rightarrow> doc_artifact" where
  "OverrideNotEditableForDocArtifact z w = (let e = uw_Existing w; u = InitWithUpdate z w in u\<lparr>art_ExperimentId := over (art_ExperimentId e) (art_ExperimentId u),
     art_ExperimentRunId := over (art_ExperimentRunId e) (art_ExperimentRunId u)\<rparr>)"

definition OverrideNotEditableForDataSet :: "data_set \<Rightarrow> data_set update_wrapper \<Rightarrow> data_set" where
  "OverrideNotEditableForDataSet z w = (let e = uw_Existing w; u = InitWithUpdate z w in u\<lparr>art_Name := over (art_Name e) (art_Name u),
     art_ExperimentId := over (art_ExperimentId e) (art_ExperimentId u),
     art_ExperimentRunId := over (art_ExperimentRunId e) (art_ExperimentRunId u),
     art_ArtifactType := over (art_ArtifactType e) (art_ArtifactType u)\<rparr>)"

definition OverrideNotEditableForMetric :: "metric \<Rightarrow> metric update_wrapper \<Rightarrow> metric" where
  "OverrideNotEditableForMetric z w = (let e = uw_Existing w; u = InitWithUpdate z w in u\<lparr>art_Name := over (art_Name e) (art_Name u),
     art_ExperimentId := over (art_ExperimentId e) (art_ExperimentId u),
     art_ExperimentRunId := over (art_ExperimentRunId e) (art_ExperimentRunId u),
     art_ArtifactType := over (art_ArtifactType e) (art_ArtifactType u)\<rparr>)"

definition OverrideNotEditableForParameter :: "parameter \<Rightarrow> parameter update_wrapper \<Rightarrow> parameter" where
  "OverrideNotEditableForParameter z w = (let e = uw_Existing w; u = InitWithUpdate z w in u\<lparr>art_Name := over (art_Name e) (art_Name u),
     art_ExperimentId := over (art_ExperimentId e) (art_ExperimentId u),
     art_ExperimentRunId := over (art_ExperimentRunId e) (art_ExperimentRunId u),
     art_ArtifactType := over (art_ArtifactType e) (art_ArtifactType u)\<rparr>)"

subsection \<open>Requests\<close>

record registered_model_create =
  rmc_CustomProperties :: "(string \<times> metadata_value) list option"
  rmc_Description :: "string option"
  rmc_ExternalId :: "string option"
  rmc_Name :: "string"
  rmc_Readme :: "string option"
  rmc_Maturity :: "string option"
  rmc_Language :: "string list option"
  rmc_Tasks :: "string list option"
  rmc_Provider :: "string option"
  rmc_Logo :: "string option"
  rmc_License :: "string option"
  rmc_LicenseLink :: "string option"
  rmc_LibraryName :: "string option"
  rmc_Owner :: "string option"
  rmc_State :: "string option"

definition ConvertRegisteredModelCreate :: "registered_model_create \<Rightarrow> conv_error + registered_model" where
  [request_defs]: "ConvertRegisteredModelCreate source = (
     try_bind (conv_opt openapiRegisteredModelStateToOpenapiRegisteredModelState (rmc_State source)) (\<lambda>state.
     Inr \<lparr>api_Id = None,
       api_ExternalId = rmc_ExternalId source,
       api_CustomProperties = over_value (rmc_CustomProperties source) [],
       api_Description = rmc_Description source,
       api_CreateTime = None,
       api_LastUpdateTime = None,
       rm_Name = rmc_Name source,
       rm_Readme = rmc_Readme source,
       rm_Maturity = rmc_Maturity source,
       rm_Language = rmc_Language source,
       rm_Tasks = rmc_Tasks source,
       rm_Provider = rmc_Provider source,
       rm_Logo = rmc_Logo source,
       rm_License = rmc_License source,
       rm_LicenseLink = rmc_LicenseLink source,
       rm_LibraryName = rmc_LibraryName source,
       rm_Owner = rmc_Owner source,
       rm_State = state\<rparr>))"

record registered_model_update =
  rmu_CustomProperties :: "(string \<times> metadata_value) list option"
  rmu_Description :: "string option"
  rmu_ExternalId :: "string option"
  rmu_Readme :: "string option"
  rmu_Maturity :: "string option"
  rmu_Language :: "string list option"
  rmu_Tasks :: "string list option"
  rmu_Provider :: "string option"
  rmu_Logo :: "string option"
  rmu_License :: "string option"
  rmu_LicenseLink :: "string option"
  rmu_LibraryName :: "string option"
  rmu_Owner :: "string option"
  rmu_State :: "string option"

definition ConvertRegisteredModelUpdate :: "registered_model_update \<Rightarrow> conv_error + registered_model" where
  [request_defs]: "ConvertRegisteredModelUpdate source = (
     try_bind (conv_opt openapiRegisteredModelStateToOpenapiRegisteredModelState (rmu_State source)) (\<lambda>state.
     Inr \<lparr>api_Id = None,
       api_ExternalId = rmu_ExternalId source,
       api_CustomProperties = over_value (rmu_CustomProperties source) [],
       api_Description = rmu_Description source,
       api_CreateTime = None,
       api_LastUpdateTime = None,
       rm_Name = [],
       rm_Readme = rmu_Readme source,
       rm_Maturity = rmu_Maturity source,
       rm_Language = rmu_Language source,
       rm_Tasks = rmu_Tasks source,
       rm_Provider = rmu_Provider source,
       rm_Logo = rmu_Logo source,
       rm_License = rmu_License source,
       rm_LicenseLink = rmu_LicenseLink source,
       rm_LibraryName = rmu_LibraryName source,
       rm_Owner = rmu_Owner source,
       rm_State = state\<rparr>))"

record model_version_create =
  verc_CustomProperties :: "(string \<times> metadata_value) list option"
  verc_Description :: "string option"
  verc_ExternalId :: "string option"
  verc_Name :: "string"
  verc_State :: "string option"
  verc_Author :: "string option"
  verc_RegisteredModelId :: "string"

definition ConvertModelVersionCreate :: "model_version_create \<Rightarrow> conv_error + model_version" where
  [request_defs]: "ConvertModelVersionCreate source = (
     try_bind (conv_opt openapiModelVersionStateToOpenapiModelVersionState (verc_State source)) (\<lambda>state.
     Inr \<lparr>api_Id = None,
       api_ExternalId = verc_ExternalId source,
       api_CustomProperties = over_value (verc_CustomProperties source) [],
       api_Description = verc_Description source,
       api_CreateTime = None,
       api_LastUpdateTime = None,
       ver_Name = verc_Name source,
       ver_State = state,
       ver_Author = verc_Author source,
       ver_RegisteredModelId = verc_RegisteredModelId source\<rparr>))"

record model_version_update =
  veru_CustomProperties :: "(string \<times> metadata_value) list option"
  veru_Description :: "string option"
  veru_ExternalId :: "string option"
  veru_State :: "string option"
  veru_Author :: "string option"

definition ConvertModelVersionUpdate :: "model_version_update \<Rightarrow> conv_error + model_version" where
  [request_defs]: "ConvertModelVersionUpdate source = (
     try_bind (conv_opt openapiModelVersionStateToOpenapiModelVersionState (veru_State source)) (\<lambda>state.
     Inr \<lparr>api_Id = None,
       api_ExternalId = veru_ExternalId source,
       api_CustomProperties = over_value (veru_CustomProperties source) [],
       api_Description = veru_Description source,
       api_CreateTime = None,
       api_LastUpdateTime = None,
       ver_Name = [],
       ver_State = state,
       ver_Author = veru_Author source,
       ver_RegisteredModelId = []\<rparr>))"

record serving_environment_create =
  envc_CustomProperties :: "(string \<times> metadata_value) list option"
  envc_Description :: "string option"
  envc_ExternalId :: "string option"
  envc_Name :: "string"

definition ConvertServingEnvironmentCreate :: "serving_environment_create \<Rightarrow> conv_error + serving_environment" where
  [request_defs]: "ConvertServingEnvironmentCreate source = (
     Inr \<lparr>api_Id = None,
       api_ExternalId = envc_ExternalId source,
       api_CustomProperties = over_value (envc_CustomProperties source) [],
       api_Description = envc_Description source,
       api_CreateTime = None,
       api_LastUpdateTime = None,
       env_Name = envc_Name source\<rparr>)"

record serving_environment_update =
  envu_CustomProperties :: "(string \<times> metadata_value) list option"
  envu_Description :: "string option"
  envu_ExternalId :: "string option"

definition ConvertServingEnvironmentUpdate :: "serving_environment_update \<Rightarrow> conv_error + serving_environment" where
  [request_defs]: "ConvertServingEnvironmentUpdate source = (
     Inr \<lparr>api_Id = None,
       api_ExternalId = envu_ExternalId source,
       api_CustomProperties = over_value (envu_CustomProperties source) [],
       api_Description = envu_Description source,
       api_CreateTime = None,
       api_LastUpdateTime = None,
       env_Name = []\<rparr>)"

record inference_service_create =
  infc_CustomProperties :: "(string \<times> metadata_value) list option"
  infc_Description :: "string option"
  infc_ExternalId :: "string option"
  infc_Name :: "string option"
  infc_ModelVersionId :: "string option"
  infc_Runtime :: "string option"
  infc_DesiredState :: "string option"
  infc_RegisteredModelId :: "string"
  infc_ServingEnvironmentId :: "string"

definition ConvertInferenceServiceCreate :: "inference_service_create \<Rightarrow> conv_error + inference_service" where
  [request_defs]: "ConvertInferenceServiceCreate source = (
     try_bind (conv_opt openapiInferenceServiceStateToOpenapiInferenceServiceState (infc_DesiredState source)) (\<lambda>desiredState.
     Inr \<lparr>api_Id = None,
       api_ExternalId = infc_ExternalId source,
       api_CustomProperties = over_value (infc_CustomProperties source) [],
       api_Description = infc_Description source,
       api_CreateTime = None,
       api_LastUpdateTime = None,
       inf_Name = infc_Name source,
       inf_ModelVersionId = infc_ModelVersionId source,
       inf_Runtime = infc_Runtime source,
       inf_DesiredState = desiredState,
       inf_RegisteredModelId = infc_RegisteredModelId source,
       inf_ServingEnvironmentId = infc_ServingEnvironmentId source\<rparr>))"

record inference_service_update =
  infu_CustomProperties :: "(string \<times> metadata_value) list option"
  infu_Description :: "string option"
  infu_ExternalId :: "string option"
  infu_ModelVersionId :: "string option"
  infu_Runtime :: "string option"
  infu_DesiredState :: "string option"

definition ConvertInferenceServiceUpdate :: "inference_service_update \<Rightarrow> conv_error + inference_service" where
  [request_defs]: "ConvertInferenceServiceUpdate source = (
     try_bind (conv_opt openapiInferenceServiceStateToOpenapiInferenceServiceState (infu_DesiredState source)) (\<lambda>desiredState.
     Inr \<lparr>api_Id = None,
       api_ExternalId = infu_ExternalId source,
       api_CustomProperties = over_value (infu_CustomProperties source) [],
       api_Description = infu_Description source,
       api_CreateTime = None,
       api_LastUpdateTime = None,
       inf_Name = None,
       inf_ModelVersionId = infu_ModelVersionId source,
       inf_Runtime = infu_Runtime source,
       inf_DesiredState = desiredState,
       inf_RegisteredModelId = [],
       inf_ServingEnvironmentId = []\<rparr>))"

record xp_entity_create =
  xpc_CustomProperties :: "(string \<times> metadata_value) list option"
  xpc_Description :: "string option"
  xpc_ExternalId :: "string option"
  xpc_Name :: "string"
  xpc_Owner :: "string option"
  xpc_State :: "string option"

definition ConvertExperimentCreate :: "xp_entity_create \<Rightarrow> conv_error + xp_entity" where
  [request_defs]: "ConvertExperimentCreate source = (
     try_bind (conv_opt openapiExperimentStateToOpenapiExperimentState (xpc_State source)) (\<lambda>state.
     Inr \<lparr>api_Id = None,
       api_ExternalId = xpc_ExternalId source,
       api_CustomProperties = over_value (xpc_CustomProperties source) [],
       api_Description = xpc_Description source,
       api_CreateTime = None,
       api_LastUpdateTime = None,
       xp_Name = xpc_Name source,
       xp_Owner = xpc_Owner source,
       xp_State = state\<rparr>))"

record xp_entity_update =
  xpu_CustomProperties :: "(string \<times> metadata_value) list option"
  xpu_Description :: "string option"
  xpu_ExternalId :: "string option"
  xpu_Owner :: "string option"
  xpu_State :: "string option"

definition ConvertExperimentUpdate :: "xp_entity_update \<Rightarrow> conv_error + xp_entity" where
  [request_defs]: "ConvertExperimentUpdate source = (
     try_bind (conv_opt openapiExperimentStateToOpenapiExperimentState (xpu_State source)) (\<lambda>state.
     Inr \<lparr>api_Id = None,
       api_ExternalId = xpu_ExternalId source,
       api_CustomProperties = over_value (xpu_CustomProperties source) [],
       api_Description = xpu_Description source,
       api_CreateTime = None,
       api_LastUpdateTime = None,
       xp_Name = [],
       xp_Owner = xpu_Owner source,
       xp_State = state\<rparr>))"

record experiment_run_create =
  runc_CustomProperties :: "(string \<times> metadata_value) list option"
  runc_Description :: "string option"
  runc_ExternalId :: "string option"
  runc_Name :: "string option"
  runc_EndTimeSinceEpoch :: "string option"
  runc_Status :: "string option"
  runc_State :: "string option"
  runc_Owner :: "string option"
  runc_ExperimentId :: "string"
  runc_StartTimeSinceEpoch :: "string option"

definition ConvertExperimentRunCreate :: "experiment_run_create \<Rightarrow> conv_error + experiment_run" where
  [request_defs]: "ConvertExperimentRunCreate source = (
     try_bind (conv_opt openapiExperimentRunStatusToOpenapiExperimentRunStatus (runc_Status source)) (\<lambda>status.
     try_bind (conv_opt openapiExperimentRunStateToOpenapiExperimentRunState (runc_State source)) (\<lambda>state.
     Inr \<lparr>api_Id = None,
       api_ExternalId = runc_ExternalId source,
       api_CustomProperties = over_value (runc_CustomProperties source) [],
       api_Description = runc_Description source,
       api_CreateTime = None,
       api_LastUpdateTime = None,
       run_Name = runc_Name source,
       run_EndTime = runc_EndTimeSinceEpoch source,
       run_Status = status,
       run_State = state,
       run_Owner = runc_Owner source,
       run_ExperimentId = runc_ExperimentId source,
       run_StartTime = runc_StartTimeSinceEpoch source\<rparr>)))"

record experiment_run_update =
  runu_CustomProperties :: "(string \<times> metadata_value) list option"
  runu_Description :: "string option"
  runu_ExternalId :: "string option"
  runu_EndTimeSinceEpoch :: "string option"
  runu_Status :: "string option"
  runu_State :: "string option"
  runu_Owner :: "string option"

definition ConvertExperimentRunUpdate :: "experiment_run_update \<Rightarrow> conv_error + experiment_run" where
  [request_defs]: "ConvertExperimentRunUpdate source = (
     try_bind (conv_opt openapiExperimentRunStatusToOpenapiExperimentRunStatus (runu_Status source)) (\<lambda>status.
     try_bind (conv_opt openapiExperimentRunStateToOpenapiExperimentRunState (runu_State source)) (\<lambda>state.
     Inr \<lparr>api_Id = None,
       api_ExternalId = runu_ExternalId source,
       api_CustomProperties = over_value (runu_CustomProperties source) [],
       api_Description = runu_Description source,
       api_CreateTime = None,
       api_LastUpdateTime = None,
       run_Name = None,
       run_EndTime = runu_EndTimeSinceEpoch source,
       run_Status = status,
       run_State = state,
       run_Owner = runu_Owner source,
       run_ExperimentId = [],
       run_StartTime = None\<rparr>)))"

record serve_model_create =
  srvc_CustomProperties :: "(string \<times> metadata_value) list option"
  srvc_Description :: "string option"
  srvc_ExternalId :: "string option"
  srvc_Name :: "string option"
  srvc_LastKnownState :: "string option"
  srvc_ModelVersionId :: "string"

definition ConvertServeModelCreate :: "serve_model_create \<Rightarrow> conv_error + serve_model" where
  [request_defs]: "ConvertServeModelCreate source = (
     try_bind (conv_opt openapiExecutionStateToOpenapiExecutionState (srvc_LastKnownState source)) (\<lambda>lastKnownState.
     Inr \<lparr>api_Id = None,
       api_ExternalId = srvc_ExternalId source,
       api_CustomProperties = over_value (srvc_CustomProperties source) [],
       api_Description = srvc_Description source,
       api_CreateTime = None,
       api_LastUpdateTime = None,
       srv_Name = srvc_Name source,
       srv_LastKnownState = lastKnownState,
       srv_ModelVersionId = srvc_ModelVersionId source\<rparr>))"

record serve_model_update =
  srvu_CustomProperties :: "(string \<times> metadata_value) list option"
  srvu_Description :: "string option"
  srvu_ExternalId :: "string option"
  srvu_LastKnownState :: "string option"

definition ConvertServeModelUpdate :: "serve_model_update \<Rightarrow> conv_error + serve_model" where
  [request_defs]: "ConvertServeModelUpdate source = (
     try_bind (conv_opt openapiExecutionStateToOpenapiExecutionState (srvu_LastKnownState source)) (\<lambda>lastKnownState.
     Inr \<lparr>api_Id = None,
       api_ExternalId = srvu_ExternalId source,
       api_CustomProperties = over_value (srvu_CustomProperties source) [],
       api_Description = srvu_Description source,
       api_CreateTime = None,
       api_LastUpdateTime = None,
       srv_Name = None,
       srv_LastKnownState = lastKnownState,
       srv_ModelVersionId = []\<rparr>))"

record model_artifact_create =
  mac_CustomProperties :: "(string \<times> metadata_value) list option"
  mac_Description :: "string option"
  mac_ExternalId :: "string option"
  mac_Name :: "string option"
  mac_ArtifactType :: "string option"
  mac_ModelFormatName :: "string option"
  mac_StorageKey :: "string option"
  mac_StoragePath :: "string option"
  mac_ModelFormatVersion :: "string option"
  mac_ServiceAccountName :: "string option"
  mac_ModelSourceKind :: "string option"
  mac_ModelSourceClass :: "string option"
  mac_ModelSourceGroup :: "string option"
  mac_ModelSourceId :: "string option"
  mac_ModelSourceName :: "string option"
  mac_Uri :: "string option"
  mac_State :: "string option"

definition ConvertModelArtifactCreate :: "model_artifact_create \<Rightarrow> conv_error + model_artifact" where
  [request_defs]: "ConvertModelArtifactCreate source = (
     try_bind (conv_opt openapiArtifactStateToOpenapiArtifactState (mac_State source)) (\<lambda>state.
     Inr \<lparr>api_Id = None,
       api_ExternalId = mac_ExternalId source,
       api_CustomProperties = over_value (mac_CustomProperties source) [],
       api_Description = mac_Description source,
       api_CreateTime = None,
       api_LastUpdateTime = None,
       art_Name = mac_Name source,
       art_ExperimentId = None,
       art_ExperimentRunId = None,
       art_ArtifactType = None,
       art_State = state,
       ma_Uri = mac_Uri source,
       ma_ModelFormatName = mac_ModelFormatName source,
       ma_ModelFormatVersion = mac_ModelFormatVersion source,
       ma_StorageKey = mac_StorageKey source,
       ma_StoragePath = mac_StoragePath source,
       ma_ServiceAccountName = mac_ServiceAccountName source,
       ma_ModelSourceKind = mac_ModelSourceKind source,
       ma_ModelSourceClass = mac_ModelSourceClass source,
       ma_ModelSourceGroup = mac_ModelSourceGroup source,
       ma_ModelSourceId = mac_ModelSourceId source,
       ma_ModelSourceName = mac_ModelSourceName source\<rparr>))"

record model_artifact_update =
  mau_CustomProperties :: "(string \<times> metadata_value) list option"
  mau_Description :: "string option"
  mau_ExternalId :: "string option"
  mau_ArtifactType :: "string option"
  mau_ModelFormatName :: "string option"
  mau_StorageKey :: "string option"
  mau_StoragePath :: "string option"
  mau_ModelFormatVersion :: "string option"
  mau_ServiceAccountName :: "string option"
  mau_ModelSourceKind :: "string option"
  mau_ModelSourceClass :: "string option"
  mau_ModelSourceGroup :: "string option"
  mau_ModelSourceId :: "string option"
  mau_ModelSourceName :: "string option"
  mau_Uri :: "string option"
  mau_State :: "string option"

definition ConvertModelArtifactUpdate :: "model_artifact_update \<Rightarrow> conv_error + model_artifact" where
  [request_defs]: "ConvertModelArtifactUpdate source = (
     try_bind (conv_opt openapiArtifactStateToOpenapiArtifactState (mau_State source)) (\<lambda>state.
     Inr \<lparr>api_Id = None,
       api_ExternalId = mau_ExternalId source,
       api_CustomProperties = over_value (mau_CustomProperties source) [],
       api_Description = mau_Description source,
       api_CreateTime = None,
       api_LastUpdateTime = None,
       art_Name = None,
       art_ExperimentId = None,
       art_ExperimentRunId = None,
       art_ArtifactType = None,
       art_State = state,
       ma_Uri = mau_Uri source,
       ma_ModelFormatName = mau_ModelFormatName source,
       ma_ModelFormatVersion = mau_ModelFormatVersion source,
       ma_StorageKey = mau_StorageKey source,
       ma_StoragePath = mau_StoragePath source,
       ma_ServiceAccountName = mau_ServiceAccountName source,
       ma_ModelSourceKind = mau_ModelSourceKind source,
       ma_ModelSourceClass = mau_ModelSourceClass source,
       ma_ModelSourceGroup = mau_ModelSourceGroup source,
       ma_ModelSourceId = mau_ModelSourceId source,
       ma_ModelSourceName = mau_ModelSourceName source\<rparr>))"

record doc_artifact_create =
  docc_CustomProperties :: "(string \<times> metadata_value) list option"
  docc_Description :: "string option"
  docc_ExternalId :: "string option"
  docc_Name :: "string option"
  docc_ArtifactType :: "string option"
  docc_Uri :: "string option"
  docc_State :: "string option"

definition ConvertDocArtifactCreate :: "doc_artifact_create \<Rightarrow> conv_error + doc_artifact" where
  [request_defs]: "ConvertDocArtifactCreate source = (
     try_bind (conv_opt openapiArtifactStateToOpenapiArtifactState (docc_State source)) (\<lambda>state.
     Inr \<lparr>api_Id = None,
       api_ExternalId = docc_ExternalId source,
       api_CustomProperties = over_value (docc_CustomProperties source) [],
       api_Description = docc_Description source,
       api_CreateTime = None,
       api_LastUpdateTime = None,
       art_Name = docc_Name source,
       art_ExperimentId = None,
       art_ExperimentRunId = None,
       art_ArtifactType = None,
       art_State = state,
       doc_Uri = docc_Uri source\<rparr>))"

record doc_artifact_update =
  docu_CustomProperties :: "(string \<times> metadata_value) list option"
  docu_Description :: "string option"
  docu_ExternalId :: "string option"
  docu_ArtifactType :: "string option"
  docu_Uri :: "string option"
  docu_State :: "string option"

definition ConvertDocArtifactUpdate :: "doc_artifact_update \<Rightarrow> conv_error + doc_artifact" where
  [request_defs]: "ConvertDocArtifactUpdate source = (
     try_bind (conv_opt openapiArtifactStateToOpenapiArtifactState (docu_State source)) (\<lambda>state.
     Inr \<lparr>api_Id = None,
       api_ExternalId = docu_ExternalId source,
       api_CustomProperties = over_value (docu_CustomProperties source) [],
       api_Description = docu_Description source,
       api_CreateTime = None,
       api_LastUpdateTime = None,
       art_Name = None,
       art_ExperimentId = None,
       art_ExperimentRunId = None,
       art_ArtifactType = None,
       art_State = state,
       doc_Uri = docu_Uri source\<rparr>))"

record data_set_create =
  dsc_CustomProperties :: "(string \<times> metadata_value) list option"
  dsc_Description :: "string option"
  dsc_ExternalId :: "string option"
  dsc_Name :: "string option"
  dsc_ArtifactType :: "string option"
  dsc_Digest :: "string option"
  dsc_SourceType :: "string option"
  dsc_Source :: "string option"
  dsc_Schema :: "string option"
  dsc_Profile :: "string option"
  dsc_Uri :: "string option"
  dsc_State :: "string option"

definition ConvertDataSetCreate :: "data_set_create \<Rightarrow> conv_error + data_set" where
  [request_defs]: "ConvertDataSetCreate source = (
     try_bind (conv_opt openapiArtifactStateToOpenapiArtifactState (dsc_State source)) (\<lambda>state.
     Inr \<lparr>api_Id = None,
       api_ExternalId = dsc_ExternalId source,
       api_CustomProperties = over_value (dsc_CustomProperties source) [],
       api_Description = dsc_Description source,
       api_CreateTime = None,
       api_LastUpdateTime = None,
       art_Name = dsc_Name source,
       art_ExperimentId = None,
       art_ExperimentRunId = None,
       art_ArtifactType = None,
       art_State = state,
       ds_Uri = dsc_Uri source,
       ds_Digest = dsc_Digest source,
       ds_SourceType = dsc_SourceType source,
       ds_Source = dsc_Source source,
       ds_Schema = dsc_Schema source,
       ds_Profile = dsc_Profile source\<rparr>))"

record data_set_update =
  dsu_CustomProperties :: "(string \<times> metadata_value) list option"
  dsu_Description :: "string option"
  dsu_ExternalId :: "string option"
  dsu_ArtifactType :: "string option"
  dsu_Digest :: "string option"
  dsu_SourceType :: "string option"
  dsu_Source :: "string option"
  dsu_Schema :: "string option"
  dsu_Profile :: "string option"
  dsu_Uri :: "string option"
  dsu_State :: "string option"

definition ConvertDataSetUpdate :: "data_set_update \<Rightarrow> conv_error + data_set" where
  [request_defs]: "ConvertDataSetUpdate source = (
     try_bind (conv_opt openapiArtifactStateToOpenapiArtifactState (dsu_State source)) (\<lambda>state.
     Inr \<lparr>api_Id = None,
       api_ExternalId = dsu_ExternalId source,
       api_CustomProperties = over_value (dsu_CustomProperties source) [],
       api_Description = dsu_Description source,
       api_CreateTime = None,
       api_LastUpdateTime = None,
       art_Name = None,
       art_ExperimentId = None,
       art_ExperimentRunId = None,
       art_ArtifactType = None,
       art_State = state,
       ds_Uri = dsu_Uri source,
       ds_Digest = dsu_Digest source,
       ds_SourceType = dsu_SourceType source,
       ds_Source = dsu_Source source,
       ds_Schema = dsu_Schema source,
       ds_Profile = dsu_Profile source\<rparr>))"

record metric_create =
  metc_CustomProperties :: "(string \<times> metadata_value) list option"
  metc_Description :: "string option"
  metc_ExternalId :: "string option"
  metc_Name :: "string option"
  metc_ArtifactType :: "string option"
  metc_Value :: "float64 option"
  metc_Timestamp :: "string option"
  metc_Step :: "int option"
  metc_State :: "string option"

definition ConvertMetricCreate :: "metric_create \<Rightarrow> conv_error + metric" where
  [request_defs]: "ConvertMetricCreate source = (
     try_bind (conv_opt openapiArtifactStateToOpenapiArtifactState (metc_State source)) (\<lambda>state.
     Inr \<lparr>api_Id = None,
       api_ExternalId = metc_ExternalId source,
       api_CustomProperties = over_value (metc_CustomProperties source) [],
       api_Description = metc_Description source,
       api_CreateTime = None,
       api_LastUpdateTime = None,
       art_Name = metc_Name source,
       art_ExperimentId = None,
       art_ExperimentRunId = None,
       art_ArtifactType = None,
       art_State = state,
       met_Value = metc_Value source,
       met_Timestamp = metc_Timestamp source,
       met_Step = metc_Step source\<rparr>))"

record metric_update =
  metu_CustomProperties :: "(string \<times> metadata_value) list option"
  metu_Description :: "string option"
  metu_ExternalId :: "string option"
  metu_ArtifactType :: "string option"
  metu_Value :: "float64 option"
  metu_Timestamp :: "string option"
  metu_Step :: "int option"
  metu_State :: "string option"

definition ConvertMetricUpdate :: "metric_update \<Rightarrow> conv_error + metric" where
  [request_defs]: "ConvertMetricUpdate source = (
     try_bind (conv_opt openapiArtifactStateToOpenapiArtifactState (metu_State source)) (\<lambda>state.
     Inr \<lparr>api_Id = None,
       api_ExternalId = metu_ExternalId source,
       api_CustomProperties = over_value (metu_CustomProperties source) [],
       api_Description = metu_Description source,
       api_CreateTime = None,
       api_LastUpdateTime = None,
       art_Name = None,
       art_ExperimentId = None,
       art_ExperimentRunId = None,
       art_ArtifactType = None,
       art_State = state,
       met_Value = metu_Value source,
       met_Timestamp = metu_Timestamp source,
       met_Step = metu_Step source\<rparr>))"

record parameter_create =
  parc_CustomProperties :: "(string \<times> metadata_value) list option"
  parc_Description :: "string option"
  parc_ExternalId :: "string option"
  parc_Name :: "string option"
  parc_ArtifactType :: "string option"
  parc_Value :: "string option"
  parc_ParameterType :: "string option"
  parc_State :: "string option"

definition ConvertParameterCreate :: "parameter_create \<Rightarrow> conv_error + parameter" where
  [request_defs]: "ConvertParameterCreate source = (
     try_bind (conv_opt openapiParameterTypeToOpenapiParameterType (parc_ParameterType source)) (\<lambda>parameterType.
     try_bind (conv_opt openapiArtifactStateToOpenapiArtifactState (parc_State source)) (\<lambda>state.
     Inr \<lparr>api_Id = None,
       api_ExternalId = parc_ExternalId source,
       api_CustomProperties = over_value (parc_CustomProperties source) [],
       api_Description = parc_Description source,
       api_CreateTime = None,
       api_LastUpdateTime = None,
       art_Name = parc_Name source,
       art_ExperimentId = None,
       art_ExperimentRunId = None,
       art_ArtifactType = None,
       art_State = state,
       par_Value = parc_Value source,
       par_ParameterType = parameterType\<rparr>)))"

record parameter_update =
  paru_CustomProperties :: "(string \<times> metadata_value) list option"
  paru_Description :: "string option"
  paru_ExternalId :: "string option"
  paru_ArtifactType :: "string option"
  paru_Value :: "string option"
  paru_ParameterType :: "string option"
  paru_State :: "string option"

definition ConvertParameterUpdate :: "parameter_update \<Rightarrow> conv_error + parameter" where
  [request_defs]: "ConvertParameterUpdate source = (
     try_bind (conv_opt openapiParameterTypeToOpenapiParameterType (paru_ParameterType source)) (\<lambda>parameterType.
     try_bind (conv_opt openapiArtifactStateToOpenapiArtifactState (paru_State source)) (\<lambda>state.
     Inr \<lparr>api_Id = None,
       api_ExternalId = paru_ExternalId source,
       api_CustomProperties = over_value (paru_CustomProperties source) [],
       api_Description = paru_Description source,
       api_CreateTime = None,
       api_LastUpdateTime = None,
       art_Name = None,
       art_ExperimentId = None,
       art_ExperimentRunId = None,
       art_ArtifactType = None,
       art_State = state,
       par_Value = paru_Value source,
       par_ParameterType = parameterType\<rparr>)))"

subsection \<open>Artifacts of any type\<close>

text \<open>\<open>openapi.Artifact\<close> and the two requests: structs of pointers of which one is set.\<close>

datatype api_artifact =
    ApiModelArtifact model_artifact
  | ApiDocArtifact doc_artifact
  | ApiDataSet data_set
  | ApiMetric metric
  | ApiParameter parameter

datatype api_artifact_create =
    ApiModelArtifactCreate model_artifact_create
  | ApiDocArtifactCreate doc_artifact_create
  | ApiDataSetCreate data_set_create
  | ApiMetricCreate metric_create
  | ApiParameterCreate parameter_create

datatype api_artifact_update =
    ApiModelArtifactUpdate model_artifact_update
  | ApiDocArtifactUpdate doc_artifact_update
  | ApiDataSetUpdate data_set_update
  | ApiMetricUpdate metric_update
  | ApiParameterUpdate parameter_update

fun ConvertArtifactCreate :: "api_artifact_create \<Rightarrow> conv_error + api_artifact" where
  "ConvertArtifactCreate (ApiModelArtifactCreate a) = try_bind (ConvertModelArtifactCreate a) (\<lambda>x. Inr (ApiModelArtifact x))"
| "ConvertArtifactCreate (ApiDocArtifactCreate a) = try_bind (ConvertDocArtifactCreate a) (\<lambda>x. Inr (ApiDocArtifact x))"
| "ConvertArtifactCreate (ApiDataSetCreate a) = try_bind (ConvertDataSetCreate a) (\<lambda>x. Inr (ApiDataSet x))"
| "ConvertArtifactCreate (ApiMetricCreate a) = try_bind (ConvertMetricCreate a) (\<lambda>x. Inr (ApiMetric x))"
| "ConvertArtifactCreate (ApiParameterCreate a) = try_bind (ConvertParameterCreate a) (\<lambda>x. Inr (ApiParameter x))"

fun ConvertArtifactUpdate :: "api_artifact_update \<Rightarrow> conv_error + api_artifact" where
  "ConvertArtifactUpdate (ApiModelArtifactUpdate a) = try_bind (ConvertModelArtifactUpdate a) (\<lambda>x. Inr (ApiModelArtifact x))"
| "ConvertArtifactUpdate (ApiDocArtifactUpdate a) = try_bind (ConvertDocArtifactUpdate a) (\<lambda>x. Inr (ApiDocArtifact x))"
| "ConvertArtifactUpdate (ApiDataSetUpdate a) = try_bind (ConvertDataSetUpdate a) (\<lambda>x. Inr (ApiDataSet x))"
| "ConvertArtifactUpdate (ApiMetricUpdate a) = try_bind (ConvertMetricUpdate a) (\<lambda>x. Inr (ApiMetric x))"
| "ConvertArtifactUpdate (ApiParameterUpdate a) = try_bind (ConvertParameterUpdate a) (\<lambda>x. Inr (ApiParameter x))"

fun getArtifactTypeName :: "api_artifact \<Rightarrow> string" where
  "getArtifactTypeName (ApiModelArtifact a) = ''model-artifact''"
| "getArtifactTypeName (ApiDocArtifact a) = ''doc-artifact''"
| "getArtifactTypeName (ApiDataSet a) = ''dataset-artifact''"
| "getArtifactTypeName (ApiMetric a) = ''metric''"
| "getArtifactTypeName (ApiParameter a) = ''parameter''"

text \<open>\<open>UpdateExistingArtifact\<close>: the type is immutable.\<close>

fun UpdateExistingArtifact :: "api_artifact update_wrapper \<Rightarrow> (string \<times> string + conv_error) + api_artifact" where
  "UpdateExistingArtifact w = (case uw_Update w of
     None \<Rightarrow> Inr (uw_Existing w)
   | Some u \<Rightarrow> (case (uw_Existing w, u) of
       (ApiModelArtifact e, ApiModelArtifact a) \<Rightarrow> (case UpdateExistingModelArtifact \<lparr>uw_Existing = e, uw_Update = Some a, uw_Custom = uw_Custom w\<rparr> of
           Inl err \<Rightarrow> Inl (Inr err) | Inr x \<Rightarrow> Inr (ApiModelArtifact x))
     | (ApiDocArtifact e, ApiDocArtifact a) \<Rightarrow> (case UpdateExistingDocArtifact \<lparr>uw_Existing = e, uw_Update = Some a, uw_Custom = uw_Custom w\<rparr> of
           Inl err \<Rightarrow> Inl (Inr err) | Inr x \<Rightarrow> Inr (ApiDocArtifact x))
     | (ApiDataSet e, ApiDataSet a) \<Rightarrow> (case UpdateExistingDataSet \<lparr>uw_Existing = e, uw_Update = Some a, uw_Custom = uw_Custom w\<rparr> of
           Inl err \<Rightarrow> Inl (Inr err) | Inr x \<Rightarrow> Inr (ApiDataSet x))
     | (ApiMetric e, ApiMetric a) \<Rightarrow> (case UpdateExistingMetric \<lparr>uw_Existing = e, uw_Update = Some a, uw_Custom = uw_Custom w\<rparr> of
           Inl err \<Rightarrow> Inl (Inr err) | Inr x \<Rightarrow> Inr (ApiMetric x))
     | (ApiParameter e, ApiParameter a) \<Rightarrow> (case UpdateExistingParameter \<lparr>uw_Existing = e, uw_Update = Some a, uw_Custom = uw_Custom w\<rparr> of
           Inl err \<Rightarrow> Inl (Inr err) | Inr x \<Rightarrow> Inr (ApiParameter x))
     | _ \<Rightarrow> Inl (Inl (getArtifactTypeName (uw_Existing w), getArtifactTypeName u))))"

subsection \<open>What an update changes\<close>

lemma update_registered_model_fixed:
  "UpdateExistingRegisteredModel w = Inr r \<Longrightarrow> api_Id r = api_Id (uw_Existing w) \<and> api_CreateTime r = api_CreateTime (uw_Existing w) \<and> api_LastUpdateTime r = api_LastUpdateTime (uw_Existing w) \<and> rm_Name r = rm_Name (uw_Existing w)"
  by (cases "uw_Update w") (auto simp: UpdateExistingRegisteredModel_def InitWithExisting_def Let_def try_bind_Inr_iff)

lemma update_model_version_fixed:
  "UpdateExistingModelVersion w = Inr r \<Longrightarrow> api_Id r = api_Id (uw_Existing w) \<and> api_CreateTime r = api_CreateTime (uw_Existing w) \<and> api_LastUpdateTime r = api_LastUpdateTime (uw_Existing w) \<and> ver_Name r = ver_Name (uw_Existing w) \<and> ver_RegisteredModelId r = ver_RegisteredModelId (uw_Existing w)"
  by (cases "uw_Update w") (auto simp: UpdateExistingModelVersion_def InitWithExisting_def Let_def try_bind_Inr_iff)

lemma update_serving_environment_fixed:
  "UpdateExistingServingEnvironment w = Inr r \<Longrightarrow> api_Id r = api_Id (uw_Existing w) \<and> api_CreateTime r = api_CreateTime (uw_Existing w) \<and> api_LastUpdateTime r = api_LastUpdateTime (uw_Existing w) \<and> env_Name r = env_Name (uw_Existing w)"
  by (cases "uw_Update w") (auto simp: UpdateExistingServingEnvironment_def InitWithExisting_def Let_def try_bind_Inr_iff)

lemma update_inference_service_fixed:
  "UpdateExistingInferenceService w = Inr r \<Longrightarrow> api_Id r = api_Id (uw_Existing w) \<and> api_CreateTime r = api_CreateTime (uw_Existing w) \<and> api_LastUpdateTime r = api_LastUpdateTime (uw_Existing w) \<and> inf_Name r = inf_Name (uw_Existing w) \<and> inf_RegisteredModelId r = inf_RegisteredModelId (uw_Existing w) \<and> inf_ServingEnvironmentId r = inf_ServingEnvironmentId (uw_Existing w)"
  by (cases "uw_Update w") (auto simp: UpdateExistingInferenceService_def InitWithExisting_def Let_def try_bind_Inr_iff)

lemma update_xp_entity_fixed:
  "UpdateExistingExperiment w = Inr r \<Longrightarrow> api_Id r = api_Id (uw_Existing w) \<and> api_CreateTime r = api_CreateTime (uw_Existing w) \<and> api_LastUpdateTime r = api_LastUpdateTime (uw_Existing w) \<and> xp_Name r = xp_Name (uw_Existing w)"
  by (cases "uw_Update w") (auto simp: UpdateExistingExperiment_def InitWithExisting_def Let_def try_bind_Inr_iff)

lemma update_experiment_run_fixed:
  "UpdateExistingExperimentRun w = Inr r \<Longrightarrow> api_Id r = api_Id (uw_Existing w) \<and> api_CreateTime r = api_CreateTime (uw_Existing w) \<and> api_LastUpdateTime r = api_LastUpdateTime (uw_Existing w) \<and> run_Name r = run_Name (uw_Existing w) \<and> run_ExperimentId r = run_ExperimentId (uw_Existing w)"
  by (cases "uw_Update w") (auto simp: UpdateExistingExperimentRun_def InitWithExisting_def Let_def try_bind_Inr_iff)

lemma update_serve_model_fixed:
  "UpdateExistingServeModel w = Inr r \<Longrightarrow> api_Id r = api_Id (uw_Existing w) \<and> api_CreateTime r = api_CreateTime (uw_Existing w) \<and> api_LastUpdateTime r = api_LastUpdateTime (uw_Existing w) \<and> srv_Name r = srv_Name (uw_Existing w) \<and> srv_ModelVersionId r = srv_ModelVersionId (uw_Existing w)"
  by (cases "uw_Update w") (auto simp: UpdateExistingServeModel_def InitWithExisting_def Let_def try_bind_Inr_iff)

lemma update_model_artifact_fixed:
  "UpdateExistingModelArtifact w = Inr r \<Longrightarrow> api_Id r = api_Id (uw_Existing w) \<and> api_CreateTime r = api_CreateTime (uw_Existing w) \<and> api_LastUpdateTime r = api_LastUpdateTime (uw_Existing w) \<and> art_Name r = art_Name (uw_Existing w) \<and> art_ArtifactType r = art_ArtifactType (uw_Existing w)"
  by (cases "uw_Update w") (auto simp: UpdateExistingModelArtifact_def InitWithExisting_def Let_def try_bind_Inr_iff)

lemma update_doc_artifact_fixed:
  "UpdateExistingDocArtifact w = Inr r \<Longrightarrow> api_Id r = api_Id (uw_Existing w) \<and> api_CreateTime r = api_CreateTime (uw_Existing w) \<and> api_LastUpdateTime r = api_LastUpdateTime (uw_Existing w) \<and> art_Name r = art_Name (uw_Existing w) \<and> art_ArtifactType r = art_ArtifactType (uw_Existing w)"
  by (cases "uw_Update w") (auto simp: UpdateExistingDocArtifact_def InitWithExisting_def Let_def try_bind_Inr_iff)

lemma update_data_set_fixed:
  "UpdateExistingDataSet w = Inr r \<Longrightarrow> api_Id r = api_Id (uw_Existing w) \<and> api_CreateTime r = api_CreateTime (uw_Existing w) \<and> api_LastUpdateTime r = api_LastUpdateTime (uw_Existing w) \<and> art_Name r = art_Name (uw_Existing w) \<and> art_ArtifactType r = art_ArtifactType (uw_Existing w)"
  by (cases "uw_Update w") (auto simp: UpdateExistingDataSet_def InitWithExisting_def Let_def try_bind_Inr_iff)

lemma update_metric_fixed:
  "UpdateExistingMetric w = Inr r \<Longrightarrow> api_Id r = api_Id (uw_Existing w) \<and> api_CreateTime r = api_CreateTime (uw_Existing w) \<and> api_LastUpdateTime r = api_LastUpdateTime (uw_Existing w) \<and> art_Name r = art_Name (uw_Existing w) \<and> art_ArtifactType r = art_ArtifactType (uw_Existing w)"
  by (cases "uw_Update w") (auto simp: UpdateExistingMetric_def InitWithExisting_def Let_def try_bind_Inr_iff)

lemma update_parameter_fixed:
  "UpdateExistingParameter w = Inr r \<Longrightarrow> api_Id r = api_Id (uw_Existing w) \<and> api_CreateTime r = api_CreateTime (uw_Existing w) \<and> api_LastUpdateTime r = api_LastUpdateTime (uw_Existing w) \<and> art_Name r = art_Name (uw_Existing w) \<and> art_ArtifactType r = art_ArtifactType (uw_Existing w)"
  by (cases "uw_Update w") (auto simp: UpdateExistingParameter_def InitWithExisting_def Let_def try_bind_Inr_iff)

definition registered_model_enums_ok :: "registered_model \<Rightarrow> bool" where
  "registered_model_enums_ok e = (conv_opt openapiRegisteredModelStateToOpenapiRegisteredModelState (rm_State e) = Inr (rm_State e))"

lemma update_registered_model_again:
  assumes "UpdateExistingRegisteredModel w = Inr r" "registered_model_enums_ok (uw_Existing w)"
  shows "UpdateExistingRegisteredModel \<lparr>uw_Existing = uw_Existing w, uw_Update = Some r, uw_Custom = Some (api_CustomProperties r)\<rparr> = Inr r"
proof (cases "uw_Update w")
  case None
  with assms show ?thesis
    by (simp add: UpdateExistingRegisteredModel_def InitWithExisting_def registered_model_enums_ok_def)
next
  case (Some u)
  let ?e = "uw_Existing w"
  obtain state where st: "conv_opt openapiRegisteredModelStateToOpenapiRegisteredModelState (rm_State u) = Inr state"
    and r: "r = ?e\<lparr>api_CustomProperties := over_value (uw_Custom w) (api_CustomProperties ?e),
       api_Description := over (api_Description u) (api_Description ?e),
       api_ExternalId := over (api_ExternalId u) (api_ExternalId ?e),
       rm_Readme := over (rm_Readme u) (rm_Readme ?e),
       rm_Maturity := over (rm_Maturity u) (rm_Maturity ?e),
       rm_Language := over (rm_Language u) (rm_Language ?e),
       rm_Tasks := over (rm_Tasks u) (rm_Tasks ?e),
       rm_Provider := over (rm_Provider u) (rm_Provider ?e),
       rm_Logo := over (rm_Logo u) (rm_Logo ?e),
       rm_License := over (rm_License u) (rm_License ?e),
       rm_LicenseLink := over (rm_LicenseLink u) (rm_LicenseLink ?e),
       rm_LibraryName := over (rm_LibraryName u) (rm_LibraryName ?e),
       rm_Owner := over (rm_Owner u) (rm_Owner ?e),
       rm_State := over state (rm_State ?e)\<rparr>"
    using assms(1) Some by (auto simp: UpdateExistingRegisteredModel_def InitWithExisting_def Let_def try_bind_Inr_iff)
  show ?thesis
    using assms(2) st unfolding r registered_model_enums_ok_def UpdateExistingRegisteredModel_def InitWithExisting_def Let_def
    by (simp add: conv_overs)
qed

definition model_version_enums_ok :: "model_version \<Rightarrow> bool" where
  "model_version_enums_ok e = (conv_opt openapiModelVersionStateToOpenapiModelVersionState (ver_State e) = Inr (ver_State e))"

lemma update_model_version_again:
  assumes "UpdateExistingModelVersion w = Inr r" "model_version_enums_ok (uw_Existing w)"
  shows "UpdateExistingModelVersion \<lparr>uw_Existing = uw_Existing w, uw_Update = Some r, uw_Custom = Some (api_CustomProperties r)\<rparr> = Inr r"
proof (cases "uw_Update w")
  case None
  with assms show ?thesis
    by (simp add: UpdateExistingModelVersion_def InitWithExisting_def model_version_enums_ok_def)
next
  case (Some u)
  let ?e = "uw_Existing w"
  obtain state where st: "conv_opt openapiModelVersionStateToOpenapiModelVersionState (ver_State u) = Inr state"
    and r: "r = ?e\<lparr>api_CustomProperties := over_value (uw_Custom w) (api_CustomProperties ?e),
       api_Description := over (api_Description u) (api_Description ?e),
       api_ExternalId := over (api_ExternalId u) (api_ExternalId ?e),
       ver_State := over state (ver_State ?e),
       ver_Author := over (ver_Author u) (ver_Author ?e)\<rparr>"
    using assms(1) Some by (auto simp: UpdateExistingModelVersion_def InitWithExisting_def Let_def try_bind_Inr_iff)
  show ?thesis
    using assms(2) st unfolding r model_version_enums_ok_def UpdateExistingModelVersion_def InitWithExisting_def Let_def
    by (simp add: conv_overs)
qed

definition serving_environment_enums_ok :: "serving_environment \<Rightarrow> bool" where
  "serving_environment_enums_ok e = (True)"

lemma update_serving_environment_again:
  assumes "UpdateExistingServingEnvironment w = Inr r" "serving_environment_enums_ok (uw_Existing w)"
  shows "UpdateExistingServingEnvironment \<lparr>uw_Existing = uw_Existing w, uw_Update = Some r, uw_Custom = Some (api_CustomProperties r)\<rparr> = Inr r"
proof (cases "uw_Update w")
  case None
  with assms show ?thesis
    by (simp add: UpdateExistingServingEnvironment_def InitWithExisting_def serving_environment_enums_ok_def)
next
  case (Some u)
  let ?e = "uw_Existing w"
  have r: "r = ?e\<lparr>api_CustomProperties := over_value (uw_Custom w) (api_CustomProperties ?e),
       api_Description := over (api_Description u) (api_Description ?e),
       api_ExternalId := over (api_ExternalId u) (api_ExternalId ?e)\<rparr>"
    using assms(1) Some by (auto simp: UpdateExistingServingEnvironment_def InitWithExisting_def Let_def try_bind_Inr_iff)
  show ?thesis
    using assms(2) unfolding r serving_environment_enums_ok_def UpdateExistingServingEnvironment_def InitWithExisting_def Let_def
    by (simp add: conv_overs)
qed

definition inference_service_enums_ok :: "inference_service \<Rightarrow> bool" where
  "inference_service_enums_ok e = (conv_opt openapiInferenceServiceStateToOpenapiInferenceServiceState (inf_DesiredState e) = Inr (inf_DesiredState e))"

lemma update_inference_service_again:
  assumes "UpdateExistingInferenceService w = Inr r" "inference_service_enums_ok (uw_Existing w)"
  shows "UpdateExistingInferenceService \<lparr>uw_Existing = uw_Existing w, uw_Update = Some r, uw_Custom = Some (api_CustomProperties r)\<rparr> = Inr r"
proof (cases "uw_Update w")
  case None
  with assms show ?thesis
    by (simp add: UpdateExistingInferenceService_def InitWithExisting_def inference_service_enums_ok_def)
next
  case (Some u)
  let ?e = "uw_Existing w"
  obtain desiredState where st: "conv_opt openapiInferenceServiceStateToOpenapiInferenceServiceState (inf_DesiredState u) = Inr desiredState"
    and r: "r = ?e\<lparr>api_CustomProperties := over_value (uw_Custom w) (api_CustomProperties ?e),
       api_Description := over (api_Description u) (api_Description ?e),
       api_ExternalId := over (api_ExternalId u) (api_ExternalId ?e),
       inf_ModelVersionId := over (inf_ModelVersionId u) (inf_ModelVersionId ?e),
       inf_Runtime := over (inf_Runtime u) (inf_Runtime ?e),
       inf_DesiredState := over desiredState (inf_DesiredState ?e)\<rparr>"
    using assms(1) Some by (auto simp: UpdateExistingInferenceService_def InitWithExisting_def Let_def try_bind_Inr_iff)
  show ?thesis
    using assms(2) st unfolding r inference_service_enums_ok_def UpdateExistingInferenceService_def InitWithExisting_def Let_def
    by (simp add: conv_overs)
qed

definition xp_entity_enums_ok :: "xp_entity \<Rightarrow> bool" where
  "xp_entity_enums_ok e = (conv_opt openapiExperimentStateToOpenapiExperimentState (xp_State e) = Inr (xp_State e))"

lemma update_xp_entity_again:
  assumes "UpdateExistingExperiment w = Inr r" "xp_entity_enums_ok (uw_Existing w)"
  shows "UpdateExistingExperiment \<lparr>uw_Existing = uw_Existing w, uw_Update = Some r, uw_Custom = Some (api_CustomProperties r)\<rparr> = Inr r"
proof (cases "uw_Update w")
  case None
  with assms show ?thesis
    by (simp add: UpdateExistingExperiment_def InitWithExisting_def xp_entity_enums_ok_def)
next
  case (Some u)
  let ?e = "uw_Existing w"
  obtain state where st: "conv_opt openapiExperimentStateToOpenapiExperimentState (xp_State u) = Inr state"
    and r: "r = ?e\<lparr>api_CustomProperties := over_value (uw_Custom w) (api_CustomProperties ?e),
       api_Description := over (api_Description u) (api_Description ?e),
       api_ExternalId := over (api_ExternalId u) (api_ExternalId ?e),
       xp_Owner := over (xp_Owner u) (xp_Owner ?e),
       xp_State := over state (xp_State ?e)\<rparr>"
    using assms(1) Some by (auto simp: UpdateExistingExperiment_def InitWithExisting_def Let_def try_bind_Inr_iff)
  show ?thesis
    using assms(2) st unfolding r xp_entity_enums_ok_def UpdateExistingExperiment_def InitWithExisting_def Let_def
    by (simp add: conv_overs)
qed

definition experiment_run_enums_ok :: "experiment_run \<Rightarrow> bool" where
  "experiment_run_enums_ok e = (conv_opt openapiExperimentRunStatusToOpenapiExperimentRunStatus (run_Status e) = Inr (run_Status e) \<and> conv_opt openapiExperimentRunStateToOpenapiExperimentRunState (run_State e) = Inr (run_State e))"

lemma update_experiment_run_again:
  assumes "UpdateExistingExperimentRun w = Inr r" "experiment_run_enums_ok (uw_Existing w)"
  shows "UpdateExistingExperimentRun \<lparr>uw_Existing = uw_Existing w, uw_Update = Some r, uw_Custom = Some (api_CustomProperties r)\<rparr> = Inr r"
proof (cases "uw_Update w")
  case None
  with assms show ?thesis
    by (simp add: UpdateExistingExperimentRun_def InitWithExisting_def experiment_run_enums_ok_def)
next
  case (Some u)
  let ?e = "uw_Existing w"
  obtain status state where st: "conv_opt openapiExperimentRunStatusToOpenapiExperimentRunStatus (run_Status u) = Inr status" "conv_opt openapiExperimentRunStateToOpenapiExperimentRunState (run_State u) = Inr state"
    and r: "r = ?e\<lparr>api_CustomProperties := over_value (uw_Custom w) (api_CustomProperties ?e),
       api_Description := over (api_Description u) (api_Description ?e),
       api_ExternalId := over (api_ExternalId u) (api_ExternalId ?e),
       run_EndTime := over (run_EndTime u) (run_EndTime ?e),
       run_Status := over status (run_Status ?e),
       run_State := over state (run_State ?e),
       run_Owner := over (run_Owner u) (run_Owner ?e),
       run_StartTime := over (run_StartTime u) (run_StartTime ?e)\<rparr>"
    using assms(1) Some by (auto simp: UpdateExistingExperimentRun_def InitWithExisting_def Let_def try_bind_Inr_iff)
  show ?thesis
    using assms(2) st unfolding r experiment_run_enums_ok_def UpdateExistingExperimentRun_def InitWithExisting_def Let_def
    by (simp add: conv_overs)
qed

definition serve_model_enums_ok :: "serve_model \<Rightarrow> bool" where
  "serve_model_enums_ok e = (conv_opt openapiExecutionStateToOpenapiExecutionState (srv_LastKnownState e) = Inr (srv_LastKnownState e))"

lemma update_serve_model_again:
  assumes "UpdateExistingServeModel w = Inr r" "serve_model_enums_ok (uw_Existing w)"
  shows "UpdateExistingServeModel \<lparr>uw_Existing = uw_Existing w, uw_Update = Some r, uw_Custom = Some (api_CustomProperties r)\<rparr> = Inr r"
proof (cases "uw_Update w")
  case None
  with assms show ?thesis
    by (simp add: UpdateExistingServeModel_def InitWithExisting_def serve_model_enums_ok_def)
next
  case (Some u)
  let ?e = "uw_Existing w"
  obtain lastKnownState where st: "conv_opt openapiExecutionStateToOpenapiExecutionState (srv_LastKnownState u) = Inr lastKnownState"
    and r: "r = ?e\<lparr>api_CustomProperties := over_value (uw_Custom w) (api_CustomProperties ?e),
       api_Description := over (api_Description u) (api_Description ?e),
       api_ExternalId := over (api_ExternalId u) (api_ExternalId ?e),
       srv_LastKnownState := over lastKnownState (srv_LastKnownState ?e)\<rparr>"
    using assms(1) Some by (auto simp: UpdateExistingServeModel_def InitWithExisting_def Let_def try_bind_Inr_iff)
  show ?thesis
    using assms(2) st unfolding r serve_model_enums_ok_def UpdateExistingServeModel_def InitWithExisting_def Let_def
    by (simp add: conv_overs)
qed

definition model_artifact_enums_ok :: "model_artifact \<Rightarrow> bool" where
  "model_artifact_enums_ok e = (conv_opt openapiArtifactStateToOpenapiArtifactState (art_State e) = Inr (art_State e))"

lemma update_model_artifact_again:
  assumes "UpdateExistingModelArtifact w = Inr r" "model_artifact_enums_ok (uw_Existing w)"
  shows "UpdateExistingModelArtifact \<lparr>uw_Existing = uw_Existing w, uw_Update = Some r, uw_Custom = Some (api_CustomProperties r)\<rparr> = Inr r"
proof (cases "uw_Update w")
  case None
  with assms show ?thesis
    by (simp add: UpdateExistingModelArtifact_def InitWithExisting_def model_artifact_enums_ok_def)
next
  case (Some u)
  let ?e = "uw_Existing w"
  obtain state where st: "conv_opt openapiArtifactStateToOpenapiArtifactState (art_State u) = Inr state"
    and r: "r = ?e\<lparr>api_CustomProperties := over_value (uw_Custom w) (api_CustomProperties ?e),
       api_Description := over (api_Description u) (api_Description ?e),
       api_ExternalId := over (api_ExternalId u) (api_ExternalId ?e),
       art_ExperimentId := over (art_ExperimentId u) (art_ExperimentId ?e),
       art_ExperimentRunId := over (art_ExperimentRunId u) (art_ExperimentRunId ?e),
       ma_ModelFormatName := over (ma_ModelFormatName u) (ma_ModelFormatName ?e),
       ma_StorageKey := over (ma_StorageKey u) (ma_StorageKey ?e),
       ma_StoragePath := over (ma_StoragePath u) (ma_StoragePath ?e),
       ma_ModelFormatVersion := over (ma_ModelFormatVersion u) (ma_ModelFormatVersion ?e),
       ma_ServiceAccountName := over (ma_ServiceAccountName u) (ma_ServiceAccountName ?e),
       ma_ModelSourceKind := over (ma_ModelSourceKind u) (ma_ModelSourceKind ?e),
       ma_ModelSourceClass := over (ma_ModelSourceClass u) (ma_ModelSourceClass ?e),
       ma_ModelSourceGroup := over (ma_ModelSourceGroup u) (ma_ModelSourceGroup ?e),
       ma_ModelSourceId := over (ma_ModelSourceId u) (ma_ModelSourceId ?e),
       ma_ModelSourceName := over (ma_ModelSourceName u) (ma_ModelSourceName ?e),
       ma_Uri := over (ma_Uri u) (ma_Uri ?e),
       art_State := over state (art_State ?e)\<rparr>"
    using assms(1) Some by (auto simp: UpdateExistingModelArtifact_def InitWithExisting_def Let_def try_bind_Inr_iff)
  show ?thesis
    using assms(2) st unfolding r model_artifact_enums_ok_def UpdateExistingModelArtifact_def InitWithExisting_def Let_def
    by (simp add: conv_overs)
qed

definition doc_artifact_enums_ok :: "doc_artifact \<Rightarrow> bool" where
  "doc_artifact_enums_ok e = (conv_opt openapiArtifactStateToOpenapiArtifactState (art_State e) = Inr (art_State e))"

lemma update_doc_artifact_again:
  assumes "UpdateExistingDocArtifact w = Inr r" "doc_artifact_enums_ok (uw_Existing w)"
  shows "UpdateExistingDocArtifact \<lparr>uw_Existing = uw_Existing w, uw_Update = Some r, uw_Custom = Some (api_CustomProperties r)\<rparr> = Inr r"
proof (cases "uw_Update w")
  case None
  with assms show ?thesis
    by (simp add: UpdateExistingDocArtifact_def InitWithExisting_def doc_artifact_enums_ok_def)
next
  case (Some u)
  let ?e = "uw_Existing w"
  obtain state where st: "conv_opt openapiArtifactStateToOpenapiArtifactState (art_State u) = Inr state"
    and r: "r = ?e\<lparr>api_CustomProperties := over_value (uw_Custom w) (api_CustomProperties ?e),
       api_Description := over (api_Description u) (api_Description ?e),
       api_ExternalId := over (api_ExternalId u) (api_ExternalId ?e),
       art_ExperimentId := over (art_ExperimentId u) (art_ExperimentId ?e),
       art_ExperimentRunId := over (art_ExperimentRunId u) (art_ExperimentRunId ?e),
       doc_Uri := over (doc_Uri u) (doc_Uri ?e),
       art_State := over state (art_State ?e)\<rparr>"
    using assms(1) Some by (auto simp: UpdateExistingDocArtifact_def InitWithExisting_def Let_def try_bind_Inr_iff)
  show ?thesis
    using assms(2) st unfolding r doc_artifact_enums_ok_def UpdateExistingDocArtifact_def InitWithExisting_def Let_def
    by (simp add: conv_overs)
qed

definition data_set_enums_ok :: "data_set \<Rightarrow> bool" where
  "data_set_enums_ok e = (conv_opt openapiArtifactStateToOpenapiArtifactState (art_State e) = Inr (art_State e))"

lemma update_data_set_again:
  assumes "UpdateExistingDataSet w = Inr r" "data_set_enums_ok (uw_Existing w)"
  shows "UpdateExistingDataSet \<lparr>uw_Existing = uw_Existing w, uw_Update = Some r, uw_Custom = Some (api_CustomProperties r)\<rparr> = Inr r"
proof (cases "uw_Update w")
  case None
  with assms show ?thesis
    by (simp add: UpdateExistingDataSet_def InitWithExisting_def data_set_enums_ok_def)
next
  case (Some u)
  let ?e = "uw_Existing w"
  obtain state where st: "conv_opt openapiArtifactStateToOpenapiArtifactState (art_State u) = Inr state"
    and r: "r = ?e\<lparr>api_CustomProperties := over_value (uw_Custom w) (api_CustomProperties ?e),
       api_Description := over (api_Description u) (api_Description ?e),
       api_ExternalId := over (api_ExternalId u) (api_ExternalId ?e),
       art_ExperimentId := over (art_ExperimentId u) (art_ExperimentId ?e),
       art_ExperimentRunId := over (art_ExperimentRunId u) (art_ExperimentRunId ?e),
       ds_Digest := over (ds_Digest u) (ds_Digest ?e),
       ds_SourceType := over (ds_SourceType u) (ds_SourceType ?e),
       ds_Source := over (ds_Source u) (ds_Source ?e),
       ds_Schema := over (ds_Schema u) (ds_Schema ?e),
       ds_Profile := over (ds_Profile u) (ds_Profile ?e),
       ds_Uri := over (ds_Uri u) (ds_Uri ?e),
       art_State := over state (art_State ?e)\<rparr>"
    using assms(1) Some by (auto simp: UpdateExistingDataSet_def InitWithExisting_def Let_def try_bind_Inr_iff)
  show ?thesis
    using assms(2) st unfolding r data_set_enums_ok_def UpdateExistingDataSet_def InitWithExisting_def Let_def
    by (simp add: conv_overs)
qed

definition metric_enums_ok :: "metric \<Rightarrow> bool" where
  "metric_enums_ok e = (conv_opt openapiArtifactStateToOpenapiArtifactState (art_State e) = Inr (art_State e))"

lemma update_metric_again:
  assumes "UpdateExistingMetric w = Inr r" "metric_enums_ok (uw_Existing w)"
  shows "UpdateExistingMetric \<lparr>uw_Existing = uw_Existing w, uw_Update = Some r, uw_Custom = Some (api_CustomProperties r)\<rparr> = Inr r"
proof (cases "uw_Update w")
  case None
  with assms show ?thesis
    by (simp add: UpdateExistingMetric_def InitWithExisting_def metric_enums_ok_def)
next
  case (Some u)
  let ?e = "uw_Existing w"
  obtain state where st: "conv_opt openapiArtifactStateToOpenapiArtifactState (art_State u) = Inr state"
    and r: "r = ?e\<lparr>api_CustomProperties := over_value (uw_Custom w) (api_CustomProperties ?e),
       api_Description := over (api_Description u) (api_Description ?e),
       api_ExternalId := over (api_ExternalId u) (api_ExternalId ?e),
       art_ExperimentId := over (art_ExperimentId u) (art_ExperimentId ?e),
       art_ExperimentRunId := over (art_ExperimentRunId u) (art_ExperimentRunId ?e),
       met_Value := over (met_Value u) (met_Value ?e),
       met_Timestamp := over (met_Timestamp u) (met_Timestamp ?e),
       met_Step := over (met_Step u) (met_Step ?e),
       art_State := over state (art_State ?e)\<rparr>"
    using assms(1) Some by (auto simp: UpdateExistingMetric_def InitWithExisting_def Let_def try_bind_Inr_iff)
  show ?thesis
    using assms(2) st unfolding r metric_enums_ok_def UpdateExistingMetric_def InitWithExisting_def Let_def
    by (simp add: conv_overs)
qed

definition parameter_enums_ok :: "parameter \<Rightarrow> bool" where
  "parameter_enums_ok e = (conv_opt openapiParameterTypeToOpenapiParameterType (par_ParameterType e) = Inr (par_ParameterType e) \<and> conv_opt openapiArtifactStateToOpenapiArtifactState (art_State e) = Inr (art_State e))"

lemma update_parameter_again:
  assumes "UpdateExistingParameter w = Inr r" "parameter_enums_ok (uw_Existing w)"
  shows "UpdateExistingParameter \<lparr>uw_Existing = uw_Existing w, uw_Update = Some r, uw_Custom = Some (api_CustomProperties r)\<rparr> = Inr r"
proof (cases "uw_Update w")
  case None
  with assms show ?thesis
    by (simp add: UpdateExistingParameter_def InitWithExisting_def parameter_enums_ok_def)
next
  case (Some u)
  let ?e = "uw_Existing w"
  obtain parameterType state where st: "conv_opt openapiParameterTypeToOpenapiParameterType (par_ParameterType u) = Inr parameterType" "conv_opt openapiArtifactStateToOpenapiArtifactState (art_State u) = Inr state"
    and r: "r = ?e\<lparr>api_CustomProperties := over_value (uw_Custom w) (api_CustomProperties ?e),
       api_Description := over (api_Description u) (api_Description ?e),
       api_ExternalId := over (api_ExternalId u) (api_ExternalId ?e),
       art_ExperimentId := over (art_ExperimentId u) (art_ExperimentId ?e),
       art_ExperimentRunId := over (art_ExperimentRunId u) (art_ExperimentRunId ?e),
       par_Value := over (par_Value u) (par_Value ?e),
       par_ParameterType := over parameterType (par_ParameterType ?e),
       art_State := over state (art_State ?e)\<rparr>"
    using assms(1) Some by (auto simp: UpdateExistingParameter_def InitWithExisting_def Let_def try_bind_Inr_iff)
  show ?thesis
    using assms(2) st unfolding r parameter_enums_ok_def UpdateExistingParameter_def InitWithExisting_def Let_def
    by (simp add: conv_overs)
qed

end
