(* ===== verification/Core_Service.thy ===== *)
theory Core_Service
  imports Service_Repositories Api_Converters
begin

text \<open>
  The service of the registry (\<open>internal/core\<close>) with its mapper (\<open>internal/mapper/embedmd_mapper.go\<close>): per entity
  create or update, read by id, read by parameters, and list. This theory has the contexts (registered model, model
  version, serving environment, inference service, experiment, experiment run) and the serve model; the artifacts are
  in \<open>Core_Artifacts\<close>.

  Of an error the model keeps its class, which \<open>errors.Is\<close> tests and the server turns into a status. An operation that
  writes returns its result with the state; one that reads takes the state last. The clock and the generated
  identifiers of a call are the record \<open>fresh\<close>.
\<close>

subsection \<open>Errors\<close>

datatype core_error = ErrBadRequest | ErrNotFound | ErrConflict | ErrOther | ErrPanic

text \<open>An error of a converter, as it is or wrapped as a bad request; a nil dereference stays a panic.\<close>

fun conv_class :: "conv_error \<Rightarrow> core_error" where
  "conv_class (Panic t) = ErrPanic"
| "conv_class (BadRequestNumeric s k) = ErrBadRequest"
| "conv_class (conv_error.BadBase64 k) = ErrBadRequest"
| "conv_class (BadJSON k) = ErrBadRequest"
| "conv_class (EncodeFailed t) = ErrBadRequest"
| "conv_class (MetadataTypeNotFound k) = ErrBadRequest"
| "conv_class err = ErrOther"

definition conv_raw :: "conv_error + 'a \<Rightarrow> core_error + 'a" where
  "conv_raw r = map_sum conv_class id r"

text \<open>An error that is replaced by another one.\<close>

definition reclass :: "core_error \<Rightarrow> core_error + 'a \<Rightarrow> core_error + 'a" where
  "reclass err r = (case r of Inl e \<Rightarrow> Inl (if e = ErrPanic then ErrPanic else err) | Inr x \<Rightarrow> Inr x)"

definition conv_bad :: "conv_error + 'a \<Rightarrow> core_error + 'a" where
  "conv_bad r = reclass ErrBadRequest (conv_raw r)"

text \<open>The not-found errors of the repositories are not \<open>api.ErrNotFound\<close>.\<close>

fun repo_class :: "repo_error \<Rightarrow> core_error" where
  "repo_class (NotFound t) = ErrOther"
| "repo_class (BadRequest t) = ErrBadRequest"
| "repo_class (Wrapped t err) = ErrOther"

definition repo_raw :: "repo_error + 'a \<Rightarrow> core_error + 'a" where
  "repo_raw r = map_sum repo_class id r"

text \<open>
  The error of a failed \<open>Save\<close>: a duplicate key is a conflict, whose message dereferences the name of the entity.
\<close>

fun save_error :: "string option \<Rightarrow> repo_error \<Rightarrow> core_error" where
  "save_error name (Wrapped t (DuplicatedKey d)) = (case name of None \<Rightarrow> ErrPanic | Some n \<Rightarrow> ErrConflict)"
| "save_error name err = repo_class err"

definition ValidateIDAsInt32 :: "string \<Rightarrow> core_error + int" where
  "ValidateIDAsInt32 i = (case parse_int 32 i of Inl err \<Rightarrow> Inl ErrBadRequest | Inr n \<Rightarrow> Inr n)"

definition ValidateIDAsInt32Ptr :: "string option \<Rightarrow> core_error + int option" where
  "ValidateIDAsInt32Ptr i = (case i of None \<Rightarrow> Inr None | Some s \<Rightarrow> try_bind (ValidateIDAsInt32 s) (\<lambda>n. Inr (Some n)))"

text \<open>A step that only reads, before a step that writes.\<close>

definition try_state :: "'e + 'a \<Rightarrow> ('a \<Rightarrow> 's \<Rightarrow> ('e + 'b) \<times> 's) \<Rightarrow> 's \<Rightarrow> ('e + 'b) \<times> 's" where
  "try_state r f s = (case r of Inl e \<Rightarrow> (Inl e, s) | Inr x \<Rightarrow> f x s)"

lemma try_state_simps [simp]:
  "try_state (Inl e) f s = (Inl e, s)" "try_state (Inr x) f s = f x s"
  by (simp_all add: try_state_def)

lemma reclass_simps [simp]:
  "reclass err (Inr x) = Inr x" "reclass err r = Inr x \<longleftrightarrow> r = Inr x" "conv_raw (Inr y) = Inr y"
  "conv_raw q = Inr y \<longleftrightarrow> q = Inr y" "conv_bad (Inr y) = Inr y" "conv_bad q = Inr y \<longleftrightarrow> q = Inr y"
  "repo_raw (Inr z) = Inr z" "repo_raw v = Inr z \<longleftrightarrow> v = Inr z"
  by (auto simp: reclass_def conv_raw_def conv_bad_def repo_raw_def split: sum.splits) (cases q; cases v; auto)+

subsection \<open>The service\<close>

text \<open>
  \<open>ModelRegistryService\<close>: the repositories are given by the database, the quoting and name of its dialect and the map
  of types; \<open>co_parser\<close>, \<open>co_fmt\<close> and \<open>co_codec\<close> are the grammar of the filter language, the formatting of doubles and
  the codec of structs.
\<close>

record 's core =
  co_ops :: "'s store_ops"
  co_quote :: "string \<Rightarrow> string"
  co_dialect :: string
  co_parser :: filter_parser
  co_fmt :: "float64 \<Rightarrow> string"
  co_codec :: struct_codec
  co_types :: type_map

text \<open>
  What a call takes from its surroundings: the clock when it saves, the generated name of an entity without one, and
  the generated prefix of an entity without an owner.
\<close>

record fresh =
  fr_Now :: int
  fr_Name :: string
  fr_Owner :: string

definition type_id :: "'s core \<Rightarrow> string \<Rightarrow> int" where
  "type_id c name = name_to_id (co_types c) name"

definition type_wrapper :: "'s core \<Rightarrow> string \<Rightarrow> string option \<Rightarrow> 'm \<Rightarrow> 'm model_wrapper" where
  "type_wrapper c name parent m = \<lparr>w_TypeId = type_id c name, w_ParentResourceId = parent, w_Model = m\<rparr>"

subsection \<open>The mapper\<close>

definition MapFromRegisteredModel :: "'s core \<Rightarrow> registered_model \<Rightarrow> conv_error + base_entity" where
  "MapFromRegisteredModel c m = ConvertRegisteredModel (co_codec c) (type_wrapper c RegisteredModelTypeName None m)"

definition MapFromModelVersion :: "'s core \<Rightarrow> fresh \<Rightarrow> model_version \<Rightarrow> string option \<Rightarrow> conv_error + base_entity" where
  "MapFromModelVersion c fr m parentResourceId = ConvertModelVersion (co_codec c) (fr_Owner fr) (type_wrapper c ModelVersionTypeName parentResourceId m)"

definition MapFromServingEnvironment :: "'s core \<Rightarrow> serving_environment \<Rightarrow> conv_error + base_entity" where
  "MapFromServingEnvironment c m = ConvertServingEnvironment (co_codec c) (type_wrapper c ServingEnvironmentTypeName None m)"

definition MapFromInferenceService :: "'s core \<Rightarrow> fresh \<Rightarrow> inference_service \<Rightarrow> string \<Rightarrow> conv_error + base_entity" where
  "MapFromInferenceService c fr m servingEnvironmentId = ConvertInferenceService (co_codec c) (fr_Name fr) (fr_Owner fr) (type_wrapper c InferenceServiceTypeName (Some servingEnvironmentId) m)"

definition MapFromModelArtifact :: "'s core \<Rightarrow> fresh \<Rightarrow> model_artifact \<Rightarrow> string option \<Rightarrow> conv_error + base_entity" where
  "MapFromModelArtifact c fr m parentResourceId = ConvertModelArtifact (co_codec c) (fr_Name fr) (fr_Owner fr) (type_wrapper c ModelArtifactTypeName parentResourceId m)"

definition MapFromDocArtifact :: "'s core \<Rightarrow> fresh \<Rightarrow> doc_artifact \<Rightarrow> string option \<Rightarrow> conv_error + base_entity" where
  "MapFromDocArtifact c fr m parentResourceId = ConvertDocArtifact (co_codec c) (fr_Name fr) (fr_Owner fr) (type_wrapper c DocArtifactTypeName parentResourceId m)"

definition MapFromServeModel :: "'s core \<Rightarrow> fresh \<Rightarrow> serve_model \<Rightarrow> string option \<Rightarrow> conv_error + base_entity" where
  "MapFromServeModel c fr m parentResourceId = ConvertServeModel (co_codec c) (fr_Name fr) (fr_Owner fr) (type_wrapper c ServeModelTypeName parentResourceId m)"

definition MapFromExperiment :: "'s core \<Rightarrow> xp_entity \<Rightarrow> conv_error + base_entity" where
  "MapFromExperiment c m = ConvertExperiment (co_codec c) (type_wrapper c ExperimentTypeName None m)"

definition MapFromExperimentRun :: "'s core \<Rightarrow> fresh \<Rightarrow> experiment_run \<Rightarrow> string option \<Rightarrow> conv_error + base_entity" where
  "MapFromExperimentRun c fr m parentResourceId = ConvertExperimentRun (co_codec c) (fr_Name fr) (fr_Owner fr) (type_wrapper c ExperimentRunTypeName parentResourceId m)"

definition MapFromMetric :: "'s core \<Rightarrow> fresh \<Rightarrow> metric \<Rightarrow> string option \<Rightarrow> conv_error + base_entity" where
  "MapFromMetric c fr m parentResourceId = ConvertMetric (co_codec c) (fr_Name fr) (fr_Owner fr) (type_wrapper c MetricTypeName parentResourceId m)"

definition MapFromParameter :: "'s core \<Rightarrow> fresh \<Rightarrow> parameter \<Rightarrow> string option \<Rightarrow> conv_error + base_entity" where
  "MapFromParameter c fr m parentResourceId = ConvertParameter (co_codec c) (fr_Name fr) (fr_Owner fr) (type_wrapper c ParameterTypeName parentResourceId m)"

definition MapFromDataSet :: "'s core \<Rightarrow> fresh \<Rightarrow> data_set \<Rightarrow> conv_error + base_entity" where
  "MapFromDataSet c fr m = ConvertDataSet (co_codec c) (fr_Name fr) (fr_Owner fr) (type_wrapper c DataSetTypeName None m)"

text \<open>In the other direction; a history entry is read as a metric.\<close>

definition MapToRegisteredModel :: "'s core \<Rightarrow> base_entity \<Rightarrow> conv_error + registered_model" where
  "MapToRegisteredModel c m = ReadRegisteredModel (co_codec c) m"

definition MapToModelVersion :: "'s core \<Rightarrow> base_entity \<Rightarrow> conv_error + model_version" where
  "MapToModelVersion c m = ReadModelVersion (co_codec c) m"

definition MapToServingEnvironment :: "'s core \<Rightarrow> base_entity \<Rightarrow> conv_error + serving_environment" where
  "MapToServingEnvironment c m = ReadServingEnvironment (co_codec c) m"

definition MapToInferenceService :: "'s core \<Rightarrow> base_entity \<Rightarrow> conv_error + inference_service" where
  "MapToInferenceService c m = ReadInferenceService (co_codec c) m"

definition MapToModelArtifact :: "'s core \<Rightarrow> base_entity \<Rightarrow> conv_error + model_artifact" where
  "MapToModelArtifact c m = ReadModelArtifact (co_codec c) m"

definition MapToDocArtifact :: "'s core \<Rightarrow> base_entity \<Rightarrow> conv_error + doc_artifact" where
  "MapToDocArtifact c m = ReadDocArtifact (co_codec c) m"

definition MapToServeModel :: "'s core \<Rightarrow> base_entity \<Rightarrow> conv_error + serve_model" where
  "MapToServeModel c m = ReadServeModel (co_codec c) m"

definition MapToExperiment :: "'s core \<Rightarrow> base_entity \<Rightarrow> conv_error + xp_entity" where
  "MapToExperiment c m = ReadExperiment (co_codec c) m"

definition MapToExperimentRun :: "'s core \<Rightarrow> base_entity \<Rightarrow> conv_error + experiment_run" where
  "MapToExperimentRun c m = ReadExperimentRun (co_codec c) m"

definition MapToMetricFromMetric :: "'s core \<Rightarrow> base_entity \<Rightarrow> conv_error + metric" where
  "MapToMetricFromMetric c m = ReadMetric (co_codec c) m"

definition MapToParameter :: "'s core \<Rightarrow> base_entity \<Rightarrow> conv_error + parameter" where
  "MapToParameter c m = ReadParameter (co_codec c) m"

definition MapToDataSet :: "'s core \<Rightarrow> base_entity \<Rightarrow> conv_error + data_set" where
  "MapToDataSet c m = ReadDataSet (co_codec c) m"

definition MapToMetric :: "'s core \<Rightarrow> base_entity \<Rightarrow> conv_error + metric" where
  "MapToMetric c metricHistory = ReadMetric (co_codec c) metricHistory"

fun MapToArtifact :: "'s core \<Rightarrow> stored_artifact \<Rightarrow> conv_error + api_artifact" where
  "MapToArtifact c (StoredModelArtifact a) = map_sum id ApiModelArtifact (MapToModelArtifact c a)"
| "MapToArtifact c (StoredDocArtifact a) = map_sum id ApiDocArtifact (MapToDocArtifact c a)"
| "MapToArtifact c (StoredDataSet a) = map_sum id ApiDataSet (MapToDataSet c a)"
| "MapToArtifact c (StoredMetric a) = map_sum id ApiMetric (MapToMetricFromMetric c a)"
| "MapToArtifact c (StoredParameter a) = map_sum id ApiParameter (MapToParameter c a)"

subsection \<open>Steps the operations share\<close>

text \<open>Every error of the repository of a read by id is reported as not found.\<close>

definition get_by_id :: "'s core \<Rightarrow> (base_entity, list_options) repo_config \<Rightarrow> string \<Rightarrow> 's \<Rightarrow> core_error + base_entity" where
  "get_by_id c repo i s =
     try_bind (ValidateIDAsInt32 i) (\<lambda>convertedId.
       case GetByID (co_ops c) repo convertedId s of Inl err \<Rightarrow> Inl ErrNotFound | Inr m \<Rightarrow> Inr m)"

definition list_entities :: "'s core \<Rightarrow> (base_entity, list_options) repo_config \<Rightarrow> list_options \<Rightarrow> 's
    \<Rightarrow> core_error + base_entity list_wrapper" where
  "list_entities c repo opts s = repo_raw (ListEntities (co_fmt c) (co_parser c) (co_dialect c) (co_ops c) repo opts s)"

text \<open>The list options of a read by parameters, and of a page.\<close>

definition no_options :: list_options where
  "no_options = \<lparr>pg_PageSize = None, pg_OrderBy = None, pg_SortOrder = None, pg_NextPageToken = None, pg_FilterQuery = None,
     lo_Name = None, lo_ExternalID = None, lo_ParentResourceID = None, lo_Runtime = None, lo_StepIds = None,
     lo_ArtifactType = None\<rparr>"

definition param_options :: "string option \<Rightarrow> string option \<Rightarrow> int option \<Rightarrow> list_options" where
  "param_options name externalId parent =
     no_options\<lparr>lo_Name := name, lo_ExternalID := externalId, lo_ParentResourceID := parent\<rparr>"

definition page_options :: "pagination \<Rightarrow> int option \<Rightarrow> list_options" where
  "page_options opts parent = \<lparr>pg_PageSize = pg_PageSize opts, pg_OrderBy = pg_OrderBy opts, pg_SortOrder = pg_SortOrder opts,
     pg_NextPageToken = pg_NextPageToken opts, pg_FilterQuery = pg_FilterQuery opts, lo_Name = None, lo_ExternalID = None,
     lo_ParentResourceID = parent, lo_Runtime = None, lo_StepIds = None, lo_ArtifactType = None\<rparr>"

text \<open>A read by parameters wants exactly one entity; a list converts all.\<close>

definition the_item :: "('m \<Rightarrow> conv_error + 'a) \<Rightarrow> 'm list_wrapper \<Rightarrow> core_error + 'a" where
  "the_item read l = (case lw_Items l of [m] \<Rightarrow> conv_bad (read m) | _ \<Rightarrow> Inl ErrNotFound)"

definition all_items :: "('m \<Rightarrow> conv_error + 'a) \<Rightarrow> 'm list_wrapper \<Rightarrow> core_error + 'a list_wrapper" where
  "all_items read l = try_bind (try_map (\<lambda>m. conv_bad (read m)) (lw_Items l)) (\<lambda>items.
     Inr \<lparr>lw_Items = items, lw_NextPageToken = lw_NextPageToken l, lw_PageSize = lw_PageSize l, lw_Size = lw_Size l\<rparr>)"

text \<open>
  An entity that has an id is laid over the existing one. \<open>nilCustom\<close> tells whether its map of custom properties is nil; some
  operations then put the existing ones back.
\<close>

definition merge :: "(string \<Rightarrow> core_error + 'a api_base_scheme) \<Rightarrow> ('a api_base_scheme update_wrapper \<Rightarrow> conv_error + 'a api_base_scheme)
    \<Rightarrow> bool \<Rightarrow> bool \<Rightarrow> 'a api_base_scheme \<Rightarrow> core_error + 'a api_base_scheme" where
  "merge get update keepCustom nilCustom m =
     (case api_Id m of
        None \<Rightarrow> Inr m
      | Some i \<Rightarrow>
          try_bind (get i) (\<lambda>existing.
          try_bind (conv_bad (update \<lparr>uw_Existing = existing, uw_Update = Some m,
                      uw_Custom = (if nilCustom then None else Some (api_CustomProperties m))\<rparr>)) (\<lambda>withNotEditable.
          Inr (if keepCustom \<and> nilCustom
               then withNotEditable\<lparr>api_CustomProperties := api_CustomProperties existing\<rparr> else withNotEditable))))"

definition saved :: "string option \<Rightarrow> (base_entity \<Rightarrow> core_error + 'a) \<Rightarrow> (repo_error + base_entity) \<times> 's \<Rightarrow> (core_error + 'a) \<times> 's" where
  "saved name read r = (case r of
       (Inl err, s) \<Rightarrow> (Inl (save_error name err), s)
     | (Inr m, s) \<Rightarrow> (read m, s))"

subsection \<open>Registered models\<close>

text \<open>The read by id returns an error of the conversion as it is, the other entities as a bad request.\<close>

definition GetRegisteredModelById :: "'s core \<Rightarrow> string \<Rightarrow> 's \<Rightarrow> core_error + registered_model" where
  "GetRegisteredModelById c i s = try_bind (get_by_id c (NewRegisteredModelRepository (co_quote c) (type_id c RegisteredModelTypeName)) i s) (\<lambda>m. conv_raw (MapToRegisteredModel c m))"

definition UpsertRegisteredModel :: "'s core \<Rightarrow> fresh \<Rightarrow> registered_model option \<Rightarrow> bool \<Rightarrow> 's \<Rightarrow> (core_error + registered_model) \<times> 's" where
  "UpsertRegisteredModel c fr arg nilCustom s =
     (case arg of
        None \<Rightarrow> (Inl ErrBadRequest, s)
      | Some m0 \<Rightarrow>
          try_state (merge (\<lambda>i. GetRegisteredModelById c i s) UpdateExistingRegisteredModel True nilCustom m0) (\<lambda>m.
          try_state (conv_bad (MapFromRegisteredModel c m)) (\<lambda>model s.
          saved (Some (rm_Name m)) (\<lambda>r. conv_raw (MapToRegisteredModel c r))
            (SaveRegisteredModel (co_ops c) (co_quote c) (type_id c RegisteredModelTypeName) (fr_Now fr) model s))) s)"

definition GetRegisteredModelByParams :: "'s core \<Rightarrow> string option \<Rightarrow> string option \<Rightarrow> 's \<Rightarrow> core_error + registered_model" where
  "GetRegisteredModelByParams c name externalId s =
     (if name = None \<and> externalId = None then Inl ErrBadRequest
      else try_bind (list_entities c (NewRegisteredModelRepository (co_quote c) (type_id c RegisteredModelTypeName)) (param_options name externalId None) s)
             (the_item (MapToRegisteredModel c)))"

definition GetRegisteredModels :: "'s core \<Rightarrow> pagination \<Rightarrow> 's \<Rightarrow> core_error + registered_model list_wrapper" where
  "GetRegisteredModels c listOptions s =
     try_bind (list_entities c (NewRegisteredModelRepository (co_quote c) (type_id c RegisteredModelTypeName)) (page_options listOptions None) s)
       (all_items (MapToRegisteredModel c))"

definition GetRegisteredModelByInferenceService :: "'s core \<Rightarrow> string \<Rightarrow> 's \<Rightarrow> core_error + registered_model" where
  "GetRegisteredModelByInferenceService c inferenceServiceId s =
     try_bind (get_by_id c (NewInferenceServiceRepository (co_quote c) (type_id c InferenceServiceTypeName)) inferenceServiceId s) (\<lambda>infSvc.
       case find (\<lambda>prop. sp_Name prop = ''registered_model_id'') (be_Properties infSvc) of
         None \<Rightarrow> Inl ErrNotFound
       | Some prop \<Rightarrow> (case sp_Int prop of
             None \<Rightarrow> Inl ErrNotFound
           | Some registeredModelId \<Rightarrow> GetRegisteredModelById c (itoa registeredModelId) s))"

subsection \<open>Model versions\<close>

definition GetModelVersionById :: "'s core \<Rightarrow> string \<Rightarrow> 's \<Rightarrow> core_error + model_version" where
  "GetModelVersionById c i s = try_bind (get_by_id c (NewModelVersionRepository (co_quote c) (type_id c ModelVersionTypeName)) i s) (\<lambda>m. conv_bad (MapToModelVersion c m))"

definition UpsertModelVersion ::
  "'s core \<Rightarrow> fresh \<Rightarrow> model_version option \<Rightarrow> bool \<Rightarrow> string option \<Rightarrow> 's \<Rightarrow> (core_error + model_version) \<times> 's" where
  "UpsertModelVersion c fr arg nilCustom registeredModelId s =
     (case arg of
        None \<Rightarrow> (Inl ErrBadRequest, s)
      | Some m0 \<Rightarrow>
          try_state (merge (\<lambda>i. GetModelVersionById c i s) UpdateExistingModelVersion True nilCustom m0) (\<lambda>m1.
            let m = (case registeredModelId of None \<Rightarrow> m1 | Some r \<Rightarrow> m1\<lparr>ver_RegisteredModelId := r\<rparr>) in
          try_state (conv_bad (MapFromModelVersion c fr m registeredModelId)) (\<lambda>model s.
          saved (Some (ver_Name m)) (\<lambda>r. conv_bad (MapToModelVersion c r))
            (SaveModelVersion (co_ops c) (co_quote c) (type_id c ModelVersionTypeName) (fr_Now fr) model s))) s)"

definition GetModelVersionByParams :: "'s core \<Rightarrow> string option \<Rightarrow> string option \<Rightarrow> string option \<Rightarrow> 's \<Rightarrow> core_error + model_version" where
  "GetModelVersionByParams c name parentResourceId externalId s =
     (if (name = None \<or> parentResourceId = None) \<and> externalId = None then Inl ErrBadRequest
      else try_bind (ValidateIDAsInt32Ptr parentResourceId) (\<lambda>parent.
           try_bind (list_entities c (NewModelVersionRepository (co_quote c) (type_id c ModelVersionTypeName)) (param_options name externalId parent) s)
             (the_item (MapToModelVersion c))))"

definition GetModelVersions :: "'s core \<Rightarrow> pagination \<Rightarrow> string option \<Rightarrow> 's \<Rightarrow> core_error + model_version list_wrapper" where
  "GetModelVersions c listOptions parentResourceId s =
     try_bind (ValidateIDAsInt32Ptr parentResourceId) (\<lambda>parent.
     try_bind (list_entities c (NewModelVersionRepository (co_quote c) (type_id c ModelVersionTypeName)) (page_options listOptions parent) s)
       (all_items (MapToModelVersion c)))"

text \<open>
  The model version an inference service serves: the one it names, otherwise the latest of its registered model. The
  values of the two properties are dereferenced.
\<close>

definition int_of_property :: "string \<Rightarrow> stored_property list \<Rightarrow> core_error + int option" where
  "int_of_property name ps =
     (case find (\<lambda>prop. sp_Name prop = name) ps of
        None \<Rightarrow> Inr None
      | Some prop \<Rightarrow> (case sp_Int prop of None \<Rightarrow> Inl ErrPanic | Some n \<Rightarrow> Inr (Some n)))"

definition GetModelVersionByInferenceService :: "'s core \<Rightarrow> string \<Rightarrow> 's \<Rightarrow> core_error + model_version" where
  "GetModelVersionByInferenceService c inferenceServiceId s =
     try_bind (get_by_id c (NewInferenceServiceRepository (co_quote c) (type_id c InferenceServiceTypeName)) inferenceServiceId s) (\<lambda>infSvc.
     try_bind (int_of_property ''model_version_id'' (be_Properties infSvc)) (\<lambda>modelVersionID.
       if modelVersionID \<noteq> None \<and> modelVersionID \<noteq> Some 0 then GetModelVersionById c (itoa (the modelVersionID)) s
       else
         try_bind (int_of_property ''registered_model_id'' (be_Properties infSvc)) (\<lambda>registeredModelID.
         try_bind (GetModelVersions c \<lparr>pg_PageSize = None, pg_OrderBy = Some ''CREATE_TIME'', pg_SortOrder = Some ''DESC'',
                      pg_NextPageToken = None, pg_FilterQuery = None\<rparr>
                    (Some (case registeredModelID of None \<Rightarrow> [] | Some n \<Rightarrow> itoa n)) s) (\<lambda>versions.
         case lw_Items versions of [] \<Rightarrow> Inl ErrNotFound | v # vs \<Rightarrow> Inr v))))"

subsection \<open>Serving environments\<close>

definition GetServingEnvironmentById :: "'s core \<Rightarrow> string \<Rightarrow> 's \<Rightarrow> core_error + serving_environment" where
  "GetServingEnvironmentById c i s = try_bind (get_by_id c (NewServingEnvironmentRepository (co_quote c) (type_id c ServingEnvironmentTypeName)) i s) (\<lambda>m. conv_bad (MapToServingEnvironment c m))"

definition UpsertServingEnvironment :: "'s core \<Rightarrow> fresh \<Rightarrow> serving_environment option \<Rightarrow> bool \<Rightarrow> 's \<Rightarrow> (core_error + serving_environment) \<times> 's" where
  "UpsertServingEnvironment c fr arg nilCustom s =
     (case arg of
        None \<Rightarrow> (Inl ErrBadRequest, s)
      | Some m0 \<Rightarrow>
          try_state (merge (\<lambda>i. GetServingEnvironmentById c i s) UpdateExistingServingEnvironment False nilCustom m0) (\<lambda>m.
          try_state (conv_bad (MapFromServingEnvironment c m)) (\<lambda>model s.
          saved (Some (env_Name m)) (\<lambda>r. conv_bad (MapToServingEnvironment c r))
            (SaveServingEnvironment (co_ops c) (co_quote c) (type_id c ServingEnvironmentTypeName) (fr_Now fr) model s))) s)"

definition GetServingEnvironmentByParams :: "'s core \<Rightarrow> string option \<Rightarrow> string option \<Rightarrow> 's \<Rightarrow> core_error + serving_environment" where
  "GetServingEnvironmentByParams c name externalId s =
     (if name = None \<and> externalId = None then Inl ErrBadRequest
      else try_bind (list_entities c (NewServingEnvironmentRepository (co_quote c) (type_id c ServingEnvironmentTypeName)) (param_options name externalId None) s)
             (the_item (MapToServingEnvironment c)))"

definition GetServingEnvironments :: "'s core \<Rightarrow> pagination \<Rightarrow> 's \<Rightarrow> core_error + serving_environment list_wrapper" where
  "GetServingEnvironments c listOptions s =
     try_bind (list_entities c (NewServingEnvironmentRepository (co_quote c) (type_id c ServingEnvironmentTypeName)) (page_options listOptions None) s)
       (all_items (MapToServingEnvironment c))"

subsection \<open>Inference services\<close>

definition GetInferenceServiceById :: "'s core \<Rightarrow> string \<Rightarrow> 's \<Rightarrow> core_error + inference_service" where
  "GetInferenceServiceById c i s = try_bind (get_by_id c (NewInferenceServiceRepository (co_quote c) (type_id c InferenceServiceTypeName)) i s) (\<lambda>m. conv_bad (MapToInferenceService c m))"

definition UpsertInferenceService ::
  "'s core \<Rightarrow> fresh \<Rightarrow> inference_service option \<Rightarrow> bool \<Rightarrow> 's \<Rightarrow> (core_error + inference_service) \<times> 's" where
  "UpsertInferenceService c fr arg nilCustom s =
     (case arg of
        None \<Rightarrow> (Inl ErrBadRequest, s)
      | Some m0 \<Rightarrow>
          try_state (merge (\<lambda>i. GetInferenceServiceById c i s) UpdateExistingInferenceService False nilCustom m0) (\<lambda>m s.
          try_state (reclass ErrNotFound (GetServingEnvironmentById c (inf_ServingEnvironmentId m) s)) (\<lambda>env.
          try_state (conv_bad (MapFromInferenceService c fr m (inf_ServingEnvironmentId m))) (\<lambda>infSvc s.
          saved (at_Name (be_Attributes infSvc)) (\<lambda>r. conv_bad (MapToInferenceService c r))
            (SaveInferenceService (co_ops c) (co_quote c) (type_id c InferenceServiceTypeName) (fr_Now fr) infSvc s))) s) s)"

definition GetInferenceServiceByParams :: "'s core \<Rightarrow> string option \<Rightarrow> string option \<Rightarrow> string option \<Rightarrow> 's \<Rightarrow> core_error + inference_service" where
  "GetInferenceServiceByParams c name parentResourceId externalId s =
     (if (name = None \<or> parentResourceId = None) \<and> externalId = None then Inl ErrBadRequest
      else try_bind (ValidateIDAsInt32Ptr parentResourceId) (\<lambda>parent.
           try_bind (list_entities c (NewInferenceServiceRepository (co_quote c) (type_id c InferenceServiceTypeName)) (param_options name externalId parent) s)
             (the_item (MapToInferenceService c))))"

definition GetInferenceServices ::
  "'s core \<Rightarrow> pagination \<Rightarrow> string option \<Rightarrow> string option \<Rightarrow> 's \<Rightarrow> core_error + inference_service list_wrapper" where
  "GetInferenceServices c listOptions servingEnvironmentId runtime s =
     try_bind (ValidateIDAsInt32Ptr servingEnvironmentId) (\<lambda>parent.
     try_bind (list_entities c (NewInferenceServiceRepository (co_quote c) (type_id c InferenceServiceTypeName))
                ((page_options listOptions parent)\<lparr>lo_Runtime := runtime\<rparr>) s)
       (all_items (MapToInferenceService c)))"

subsection \<open>Serve models\<close>

definition GetServeModelById :: "'s core \<Rightarrow> string \<Rightarrow> 's \<Rightarrow> core_error + serve_model" where
  "GetServeModelById c i s = try_bind (get_by_id c (NewServeModelRepository (co_quote c) (type_id c ServeModelTypeName)) i s) (\<lambda>m. conv_bad (MapToServeModel c m))"

definition UpsertServeModel ::
  "'s core \<Rightarrow> fresh \<Rightarrow> serve_model option \<Rightarrow> bool \<Rightarrow> string option \<Rightarrow> 's \<Rightarrow> (core_error + serve_model) \<times> 's" where
  "UpsertServeModel c fr arg nilCustom inferenceServiceId s =
     (case arg of
        None \<Rightarrow> (Inl ErrBadRequest, s)
      | Some m0 \<Rightarrow>
          try_state (merge (\<lambda>i. GetServeModelById c i s) UpdateExistingServeModel False nilCustom m0) (\<lambda>m s.
          try_state (GetModelVersionById c (srv_ModelVersionId m) s) (\<lambda>version.
          try_state (conv_bad (MapFromServeModel c fr m inferenceServiceId)) (\<lambda>srvModel s.
          if inferenceServiceId = None \<and> be_ID srvModel = None then (Inl ErrBadRequest, s)
          else
            try_state (case inferenceServiceId of
                None \<Rightarrow> Inr None
              | Some i \<Rightarrow> try_bind (get_by_id c (NewInferenceServiceRepository (co_quote c) (type_id c InferenceServiceTypeName)) i s)
                            (\<lambda>infSvc. ValidateIDAsInt32Ptr inferenceServiceId)) (\<lambda>inferenceServiceID s.
            saved (srv_Name m) (\<lambda>r. conv_bad (MapToServeModel c r))
              (Save (co_ops c) (NewServeModelRepository (co_quote c) (type_id c ServeModelTypeName)) (fr_Now fr) srvModel inferenceServiceID s)) s)) s) s)"

definition GetServeModels :: "'s core \<Rightarrow> pagination \<Rightarrow> string option \<Rightarrow> 's \<Rightarrow> core_error + serve_model list_wrapper" where
  "GetServeModels c listOptions parentResourceId s =
     try_bind (ValidateIDAsInt32Ptr parentResourceId) (\<lambda>parent.
     try_bind (list_entities c (NewServeModelRepository (co_quote c) (type_id c ServeModelTypeName)) (page_options listOptions parent) s)
       (all_items (MapToServeModel c)))"

subsection \<open>Experiments\<close>

definition GetExperimentById :: "'s core \<Rightarrow> string \<Rightarrow> 's \<Rightarrow> core_error + xp_entity" where
  "GetExperimentById c i s = try_bind (get_by_id c (NewExperimentRepository (co_quote c) (type_id c ExperimentTypeName)) i s) (\<lambda>m. conv_bad (MapToExperiment c m))"

definition UpsertExperiment :: "'s core \<Rightarrow> fresh \<Rightarrow> xp_entity option \<Rightarrow> bool \<Rightarrow> 's \<Rightarrow> (core_error + xp_entity) \<times> 's" where
  "UpsertExperiment c fr arg nilCustom s =
     (case arg of
        None \<Rightarrow> (Inl ErrBadRequest, s)
      | Some m0 \<Rightarrow>
          try_state (merge (\<lambda>i. GetExperimentById c i s) UpdateExistingExperiment True nilCustom m0) (\<lambda>m.
          try_state (conv_bad (MapFromExperiment c m)) (\<lambda>model s.
          saved (Some (xp_Name m)) (\<lambda>r. conv_bad (MapToExperiment c r))
            (SaveExperiment (co_ops c) (co_quote c) (type_id c ExperimentTypeName) (fr_Now fr) model s))) s)"

definition GetExperimentByParams :: "'s core \<Rightarrow> string option \<Rightarrow> string option \<Rightarrow> 's \<Rightarrow> core_error + xp_entity" where
  "GetExperimentByParams c name externalId s =
     (if name = None \<and> externalId = None then Inl ErrBadRequest
      else try_bind (list_entities c (NewExperimentRepository (co_quote c) (type_id c ExperimentTypeName)) (param_options name externalId None) s)
             (the_item (MapToExperiment c)))"

definition GetExperiments :: "'s core \<Rightarrow> pagination \<Rightarrow> 's \<Rightarrow> core_error + xp_entity list_wrapper" where
  "GetExperiments c listOptions s =
     try_bind (list_entities c (NewExperimentRepository (co_quote c) (type_id c ExperimentTypeName)) (page_options listOptions None) s)
       (all_items (MapToExperiment c))"

subsection \<open>Experiment runs\<close>

definition GetExperimentRunById :: "'s core \<Rightarrow> string \<Rightarrow> 's \<Rightarrow> core_error + experiment_run" where
  "GetExperimentRunById c i s = try_bind (get_by_id c (NewExperimentRunRepository (co_quote c) (type_id c ExperimentRunTypeName)) i s) (\<lambda>m. conv_bad (MapToExperimentRun c m))"

text \<open>Both times, if given, must be 64-bit integers, and the end not before the start.\<close>

definition check_times :: "experiment_run \<Rightarrow> core_error + unit" where
  "check_times m =
     (case (run_EndTime m, run_StartTime m) of
        (Some e, Some b) \<Rightarrow>
          (case (parse_int 64 e, parse_int 64 b) of
             (Inr endTime, Inr startTime) \<Rightarrow> if endTime < startTime then Inl ErrBadRequest else Inr ()
           | _ \<Rightarrow> Inl ErrBadRequest)
      | _ \<Rightarrow> Inr ())"

definition UpsertExperimentRun ::
  "'s core \<Rightarrow> fresh \<Rightarrow> experiment_run option \<Rightarrow> bool \<Rightarrow> string option \<Rightarrow> 's \<Rightarrow> (core_error + experiment_run) \<times> 's" where
  "UpsertExperimentRun c fr arg nilCustom experimentId s =
     (case (arg, experimentId) of
        (Some m0, Some experiment) \<Rightarrow>
          try_state (ValidateIDAsInt32 experiment) (\<lambda>experimentID s.
          try_state (GetExperimentById c experiment s) (\<lambda>existing s.
          try_state (merge (\<lambda>i. GetExperimentRunById c i s) UpdateExistingExperimentRun False nilCustom
              (m0\<lparr>run_ExperimentId := experiment\<rparr>)) (\<lambda>m.
          try_state (check_times m) (\<lambda>u.
          try_state (conv_bad (MapFromExperimentRun c fr m experimentId)) (\<lambda>model s.
          saved (run_Name m) (\<lambda>r. conv_bad (MapToExperimentRun c r))
            (SaveExperimentRun (co_ops c) (co_quote c) (type_id c ExperimentRunTypeName) (fr_Now fr) model
              (Some experimentID) s)))) s) s) s
      | _ \<Rightarrow> (Inl ErrBadRequest, s))"

definition GetExperimentRunByParams :: "'s core \<Rightarrow> string option \<Rightarrow> string option \<Rightarrow> string option \<Rightarrow> 's \<Rightarrow> core_error + experiment_run" where
  "GetExperimentRunByParams c name parentResourceId externalId s =
     (if (name = None \<or> parentResourceId = None) \<and> externalId = None then Inl ErrBadRequest
      else try_bind (ValidateIDAsInt32Ptr parentResourceId) (\<lambda>parent.
           try_bind (list_entities c (NewExperimentRunRepository (co_quote c) (type_id c ExperimentRunTypeName)) (param_options name externalId parent) s)
             (the_item (MapToExperimentRun c))))"

definition GetExperimentRuns :: "'s core \<Rightarrow> pagination \<Rightarrow> string option \<Rightarrow> 's \<Rightarrow> core_error + experiment_run list_wrapper" where
  "GetExperimentRuns c listOptions experimentId s =
     try_bind (ValidateIDAsInt32Ptr experimentId) (\<lambda>parent.
     try_bind (case experimentId of None \<Rightarrow> Inr () | Some i \<Rightarrow> try_bind (GetExperimentById c i s) (\<lambda>x. Inr ())) (\<lambda>u.
     try_bind (list_entities c (NewExperimentRunRepository (co_quote c) (type_id c ExperimentRunTypeName)) (page_options listOptions parent) s)
       (all_items (MapToExperimentRun c))))"

end
