(* ===== verification/Core_Artifacts.thy ===== *)
theory Core_Artifacts
  imports Core_Service
begin

text \<open>
  The artifacts of the service (\<open>internal/core/artifact.go\<close>, \<open>experiment_run.go\<close>): create or update of an artifact of any
  type below an optional parent, with the properties of the experiment run it belongs to; reads and lists; and the
  history of the metrics of a run.
\<close>

subsection \<open>Reading artifacts\<close>

definition getArtifact :: "'s core \<Rightarrow> string \<Rightarrow> 's \<Rightarrow> core_error + api_artifact" where
  "getArtifact c i s =
     try_bind (ValidateIDAsInt32 i) (\<lambda>convertedId.
       case ArtifactRepository_GetByID (co_ops c) (co_types c) convertedId s of
         Inl err \<Rightarrow> Inl ErrNotFound
       | Inr artifact \<Rightarrow> conv_bad (MapToArtifact c artifact))"

definition GetArtifactById :: "'s core \<Rightarrow> string \<Rightarrow> 's \<Rightarrow> core_error + api_artifact" where
  "GetArtifactById c i s = getArtifact c i s"

definition list_artifacts :: "'s core \<Rightarrow> list_options \<Rightarrow> 's \<Rightarrow> core_error + stored_artifact list_wrapper" where
  "list_artifacts c opts s =
     repo_raw (ArtifactRepository_List (co_fmt c) (co_parser c) (co_quote c) (co_dialect c) (co_ops c) (co_types c) opts s)"

text \<open>The type is only part of the messages of \<open>getArtifactByParams\<close>; the list is not restricted to it.\<close>

definition getArtifactByParams ::
  "'s core \<Rightarrow> string option \<Rightarrow> string option \<Rightarrow> string option \<Rightarrow> 's \<Rightarrow> core_error + api_artifact" where
  "getArtifactByParams c artifactName parentResourceId externalId s =
     (if (artifactName = None \<or> parentResourceId = None) \<and> externalId = None then Inl ErrBadRequest
      else try_bind (ValidateIDAsInt32Ptr parentResourceId) (\<lambda>parent.
           try_bind (list_artifacts c (param_options artifactName externalId parent) s)
             (the_item (MapToArtifact c))))"

definition GetArtifactByParams ::
  "'s core \<Rightarrow> string option \<Rightarrow> string option \<Rightarrow> string option \<Rightarrow> 's \<Rightarrow> core_error + api_artifact" where
  "GetArtifactByParams c artifactName parentResourceId externalId s =
     getArtifactByParams c artifactName parentResourceId externalId s"

definition GetArtifacts ::
  "'s core \<Rightarrow> string \<Rightarrow> pagination \<Rightarrow> string option \<Rightarrow> 's \<Rightarrow> core_error + api_artifact list_wrapper" where
  "GetArtifacts c artifactType listOptions parentResourceId s =
     try_bind (ValidateIDAsInt32Ptr parentResourceId) (\<lambda>parent.
     try_bind (list_artifacts c ((page_options listOptions parent)
                \<lparr>lo_ArtifactType := if artifactType = [] then None else Some artifactType\<rparr>) s)
       (all_items (MapToArtifact c)))"

subsection \<open>Names and properties of the parent\<close>

definition name_if_needed :: "string \<Rightarrow> 'a artifact_base_scheme \<Rightarrow> 'a artifact_base_scheme" where
  "name_if_needed uuid m = (if api_Id m = None \<and> art_Name m = None then m\<lparr>art_Name := Some uuid\<rparr> else m)"

fun ensureArtifactName :: "string \<Rightarrow> api_artifact \<Rightarrow> api_artifact" where
  "ensureArtifactName uuid (ApiModelArtifact a) = ApiModelArtifact (name_if_needed uuid a)"
| "ensureArtifactName uuid (ApiDocArtifact a) = ApiDocArtifact (name_if_needed uuid a)"
| "ensureArtifactName uuid (ApiDataSet a) = ApiDataSet (name_if_needed uuid a)"
| "ensureArtifactName uuid (ApiMetric a) = ApiMetric (name_if_needed uuid a)"
| "ensureArtifactName uuid (ApiParameter a) = ApiParameter (name_if_needed uuid a)"

text \<open>Both ids are given as integer values, whatever their text.\<close>

definition setExperimentPropertiesOnCustomProperties ::
  "string \<Rightarrow> string \<Rightarrow> (string \<times> metadata_value) list \<Rightarrow> (string \<times> metadata_value) list" where
  "setExperimentPropertiesOnCustomProperties experimentId experimentRunId customProps =
     AList.update ''experiment_run_id'' (no_metadata\<lparr>mv_Int := Some experimentRunId\<rparr>)
       (AList.update ''experiment_id'' (no_metadata\<lparr>mv_Int := Some experimentId\<rparr>) customProps)"

definition set_experiment :: "string \<Rightarrow> string \<Rightarrow> 'a artifact_base_scheme \<Rightarrow> 'a artifact_base_scheme" where
  "set_experiment experimentId experimentRunId m = m\<lparr>art_ExperimentId := Some experimentId,
     art_ExperimentRunId := Some experimentRunId,
     api_CustomProperties := setExperimentPropertiesOnCustomProperties experimentId experimentRunId (api_CustomProperties m)\<rparr>"

fun setExperimentPropertiesOnArtifact :: "api_artifact \<Rightarrow> string \<Rightarrow> string \<Rightarrow> api_artifact" where
  "setExperimentPropertiesOnArtifact (ApiModelArtifact a) x r = ApiModelArtifact (set_experiment x r a)"
| "setExperimentPropertiesOnArtifact (ApiDocArtifact a) x r = ApiDocArtifact (set_experiment x r a)"
| "setExperimentPropertiesOnArtifact (ApiDataSet a) x r = ApiDataSet (set_experiment x r a)"
| "setExperimentPropertiesOnArtifact (ApiMetric a) x r = ApiMetric (set_experiment x r a)"
| "setExperimentPropertiesOnArtifact (ApiParameter a) x r = ApiParameter (set_experiment x r a)"

subsection \<open>Create or update\<close>

text \<open>The existing artifact an id names must be of the type of the request; any failure is a bad request.\<close>

definition existing_of :: "(api_artifact \<Rightarrow> 'm option) \<Rightarrow> 's core \<Rightarrow> 's \<Rightarrow> string \<Rightarrow> core_error + 'm" where
  "existing_of pick c s i = try_bind (reclass ErrBadRequest (getArtifact c i s)) (\<lambda>a.
     case pick a of None \<Rightarrow> Inl ErrBadRequest | Some m \<Rightarrow> Inr m)"

fun the_ModelArtifact :: "api_artifact \<Rightarrow> model_artifact option" where
  "the_ModelArtifact (ApiModelArtifact a) = Some a"
| "the_ModelArtifact a = None"

fun the_DocArtifact :: "api_artifact \<Rightarrow> doc_artifact option" where
  "the_DocArtifact (ApiDocArtifact a) = Some a"
| "the_DocArtifact a = None"

fun the_DataSet :: "api_artifact \<Rightarrow> data_set option" where
  "the_DataSet (ApiDataSet a) = Some a"
| "the_DataSet a = None"

fun the_Metric :: "api_artifact \<Rightarrow> metric option" where
  "the_Metric (ApiMetric a) = Some a"
| "the_Metric a = None"

fun the_Parameter :: "api_artifact \<Rightarrow> parameter option" where
  "the_Parameter (ApiParameter a) = Some a"
| "the_Parameter a = None"

text \<open>
  A metric or parameter without an id, with a name and a parent, is looked up by its name: the one artifact that is
  found is updated if it has the type, and ignored if it has not; an error other than not found ends the call.
\<close>

definition merge_named :: "(api_artifact \<Rightarrow> 'a artifact_base_scheme option)
    \<Rightarrow> ('a artifact_base_scheme update_wrapper \<Rightarrow> conv_error + 'a artifact_base_scheme)
    \<Rightarrow> 's core \<Rightarrow> string option \<Rightarrow> bool \<Rightarrow> 'a artifact_base_scheme \<Rightarrow> 's \<Rightarrow> core_error + 'a artifact_base_scheme" where
  "merge_named pick update c parentResourceId nilCustom m s =
     (if parentResourceId = None \<or> art_Name m = None then Inr m
      else case getArtifactByParams c (art_Name m) parentResourceId None s of
          Inl err \<Rightarrow> if err = ErrNotFound then Inr m else Inl err
        | Inr a \<Rightarrow> (case pick a of
              None \<Rightarrow> Inr m
            | Some existing \<Rightarrow>
                try_bind (conv_bad (update \<lparr>uw_Existing = existing, uw_Update = Some m,
                    uw_Custom = (if nilCustom then None else Some (api_CustomProperties m))\<rparr>)) (\<lambda>withNotEditable.
                Inr (if nilCustom then withNotEditable\<lparr>api_CustomProperties := api_CustomProperties existing\<rparr>
                     else withNotEditable))))"

text \<open>The last part of each branch: convert, save below the parent, convert back.\<close>

definition save_artifact :: "'s core \<Rightarrow> fresh \<Rightarrow> (base_entity, list_options) repo_config \<Rightarrow> conv_error + base_entity
    \<Rightarrow> string option \<Rightarrow> int option \<Rightarrow> (base_entity \<Rightarrow> conv_error + api_artifact) \<Rightarrow> 's \<Rightarrow> (core_error + api_artifact) \<times> 's" where
  "save_artifact c fr repo model name parent read s =
     try_state (conv_bad model) (\<lambda>m s. saved name (\<lambda>r. conv_bad (read r)) (Save (co_ops c) repo (fr_Now fr) m parent s)) s"

definition upsertModelArtifact ::
  "'s core \<Rightarrow> fresh \<Rightarrow> model_artifact \<Rightarrow> bool \<Rightarrow> string option \<Rightarrow> int option \<Rightarrow> 's \<Rightarrow> (core_error + api_artifact) \<times> 's" where
  "upsertModelArtifact c fr m0 nilCustom parentResourceId parent s =
     try_state (merge (existing_of the_ModelArtifact c s) UpdateExistingModelArtifact True nilCustom m0) (\<lambda>m.
       save_artifact c fr (NewModelArtifactRepository (co_quote c) (type_id c ModelArtifactTypeName)) (MapFromModelArtifact c fr m parentResourceId) (art_Name m) parent
         (\<lambda>r. map_sum id ApiModelArtifact (MapToModelArtifact c r))) s"

definition upsertDocArtifact ::
  "'s core \<Rightarrow> fresh \<Rightarrow> doc_artifact \<Rightarrow> bool \<Rightarrow> string option \<Rightarrow> int option \<Rightarrow> 's \<Rightarrow> (core_error + api_artifact) \<times> 's" where
  "upsertDocArtifact c fr m0 nilCustom parentResourceId parent s =
     try_state (merge (existing_of the_DocArtifact c s) UpdateExistingDocArtifact True nilCustom m0) (\<lambda>m.
       save_artifact c fr (NewDocArtifactRepository (co_quote c) (type_id c DocArtifactTypeName)) (MapFromDocArtifact c fr m parentResourceId) (art_Name m) parent
         (\<lambda>r. map_sum id ApiDocArtifact (MapToDocArtifact c r))) s"

definition upsertDataSet ::
  "'s core \<Rightarrow> fresh \<Rightarrow> data_set \<Rightarrow> bool \<Rightarrow> string option \<Rightarrow> int option \<Rightarrow> 's \<Rightarrow> (core_error + api_artifact) \<times> 's" where
  "upsertDataSet c fr m0 nilCustom parentResourceId parent s =
     try_state (merge (existing_of the_DataSet c s) UpdateExistingDataSet True nilCustom m0) (\<lambda>m.
       save_artifact c fr (NewDataSetRepository (co_quote c) (type_id c DataSetTypeName)) (MapFromDataSet c fr m) (art_Name m) parent
         (\<lambda>r. map_sum id ApiDataSet (MapToDataSet c r))) s"

definition upsertMetric ::
  "'s core \<Rightarrow> fresh \<Rightarrow> metric \<Rightarrow> bool \<Rightarrow> string option \<Rightarrow> int option \<Rightarrow> 's \<Rightarrow> (core_error + api_artifact) \<times> 's" where
  "upsertMetric c fr m0 nilCustom parentResourceId parent s = (
     if met_Value m0 = None then (Inl ErrBadRequest, s) else
     try_state (if api_Id m0 = None then merge_named the_Metric UpdateExistingMetric c parentResourceId nilCustom m0 s
                else merge (existing_of the_Metric c s) UpdateExistingMetric True nilCustom m0) (\<lambda>m.
       save_artifact c fr (NewMetricRepository (co_quote c) (type_id c MetricTypeName)) (MapFromMetric c fr m parentResourceId) (art_Name m) parent
         (\<lambda>r. map_sum id ApiMetric (MapToMetricFromMetric c r))) s)"

definition upsertParameter ::
  "'s core \<Rightarrow> fresh \<Rightarrow> parameter \<Rightarrow> bool \<Rightarrow> string option \<Rightarrow> int option \<Rightarrow> 's \<Rightarrow> (core_error + api_artifact) \<times> 's" where
  "upsertParameter c fr m0 nilCustom parentResourceId parent s = (
     try_state (if api_Id m0 = None then merge_named the_Parameter UpdateExistingParameter c parentResourceId nilCustom m0 s
                else merge (existing_of the_Parameter c s) UpdateExistingParameter True nilCustom m0) (\<lambda>m.
       save_artifact c fr (NewParameterRepository (co_quote c) (type_id c ParameterTypeName)) (MapFromParameter c fr m parentResourceId) (art_Name m) parent
         (\<lambda>r. map_sum id ApiParameter (MapToParameter c r))) s)"

fun upsert_typed ::
  "'s core \<Rightarrow> fresh \<Rightarrow> api_artifact \<Rightarrow> bool \<Rightarrow> string option \<Rightarrow> int option \<Rightarrow> 's \<Rightarrow> (core_error + api_artifact) \<times> 's" where
  "upsert_typed c fr (ApiModelArtifact m) = upsertModelArtifact c fr m"
| "upsert_typed c fr (ApiDocArtifact m) = upsertDocArtifact c fr m"
| "upsert_typed c fr (ApiDataSet m) = upsertDataSet c fr m"
| "upsert_typed c fr (ApiMetric m) = upsertMetric c fr m"
| "upsert_typed c fr (ApiParameter m) = upsertParameter c fr m"

text \<open>
  \<open>upsertArtifact\<close>; a missing artifact and one of no type are \<open>None\<close>. If the parent is an experiment run, its ids become
  custom properties, so the map is no longer nil.
\<close>

definition upsertArtifact ::
  "'s core \<Rightarrow> fresh \<Rightarrow> api_artifact option \<Rightarrow> bool \<Rightarrow> string option \<Rightarrow> 's \<Rightarrow> (core_error + api_artifact) \<times> 's" where
  "upsertArtifact c fr arg nilCustom parentResourceId s =
     (case arg of
        None \<Rightarrow> (Inl ErrBadRequest, s)
      | Some a0 \<Rightarrow>
          (let a = ensureArtifactName (fr_Name fr) a0 in
           try_state (ValidateIDAsInt32Ptr parentResourceId) (\<lambda>parent s.
             case (case parentResourceId of None \<Rightarrow> Inl ErrOther | Some i \<Rightarrow> GetExperimentRunById c i s) of
               Inl err \<Rightarrow> if err = ErrPanic then (Inl ErrPanic, s)
                          else upsert_typed c fr a nilCustom parentResourceId parent s
             | Inr experimentRun \<Rightarrow>
                 upsert_typed c fr
                   (setExperimentPropertiesOnArtifact a (run_ExperimentId experimentRun) (the parentResourceId))
                   False parentResourceId parent s) s))"

definition UpsertArtifact ::
  "'s core \<Rightarrow> fresh \<Rightarrow> api_artifact option \<Rightarrow> bool \<Rightarrow> 's \<Rightarrow> (core_error + api_artifact) \<times> 's" where
  "UpsertArtifact c fr artifact nilCustom s = upsertArtifact c fr artifact nilCustom None s"

definition UpsertModelVersionArtifact ::
  "'s core \<Rightarrow> fresh \<Rightarrow> api_artifact option \<Rightarrow> bool \<Rightarrow> string \<Rightarrow> 's \<Rightarrow> (core_error + api_artifact) \<times> 's" where
  "UpsertModelVersionArtifact c fr artifact nilCustom parentResourceId s =
     try_state (GetModelVersionById c parentResourceId s)
       (\<lambda>version. upsertArtifact c fr artifact nilCustom (Some parentResourceId)) s"

subsection \<open>Model artifacts\<close>

definition UpsertModelArtifact ::
  "'s core \<Rightarrow> fresh \<Rightarrow> model_artifact option \<Rightarrow> bool \<Rightarrow> 's \<Rightarrow> (core_error + model_artifact option) \<times> 's" where
  "UpsertModelArtifact c fr modelArtifact nilCustom s =
     (case modelArtifact of
        None \<Rightarrow> (Inl ErrBadRequest, s)
      | Some m \<Rightarrow> (case UpsertArtifact c fr (Some (ApiModelArtifact m)) nilCustom s of
            (Inl err, s') \<Rightarrow> (Inl err, s')
          | (Inr art, s') \<Rightarrow> (Inr (the_ModelArtifact art), s')))"

definition a_model_artifact :: "core_error + api_artifact \<Rightarrow> core_error + model_artifact" where
  "a_model_artifact r = try_bind r (\<lambda>art. case the_ModelArtifact art of None \<Rightarrow> Inl ErrNotFound | Some m \<Rightarrow> Inr m)"

definition GetModelArtifactById :: "'s core \<Rightarrow> string \<Rightarrow> 's \<Rightarrow> core_error + model_artifact" where
  "GetModelArtifactById c i s = a_model_artifact (GetArtifactById c i s)"

definition GetModelArtifactByParams ::
  "'s core \<Rightarrow> string option \<Rightarrow> string option \<Rightarrow> string option \<Rightarrow> 's \<Rightarrow> core_error + model_artifact" where
  "GetModelArtifactByParams c artifactName parentResourceId externalId s =
     a_model_artifact (getArtifactByParams c artifactName parentResourceId externalId s)"

definition GetModelArtifactByInferenceService :: "'s core \<Rightarrow> string \<Rightarrow> 's \<Rightarrow> core_error + model_artifact" where
  "GetModelArtifactByInferenceService c inferenceServiceId s =
     try_bind (GetModelVersionByInferenceService c inferenceServiceId s) (\<lambda>mv.
     try_bind (GetArtifacts c ''model-artifact'' \<lparr>pg_PageSize = None, pg_OrderBy = None, pg_SortOrder = None,
                 pg_NextPageToken = None, pg_FilterQuery = None\<rparr> (api_Id mv) s) (\<lambda>artifactList.
       case lw_Items artifactList of [] \<Rightarrow> Inl ErrNotFound | a # as \<Rightarrow> a_model_artifact (Inr a)))"

definition GetModelArtifacts ::
  "'s core \<Rightarrow> pagination \<Rightarrow> string option \<Rightarrow> 's \<Rightarrow> core_error + model_artifact list_wrapper" where
  "GetModelArtifacts c listOptions parentResourceId s =
     try_bind (ValidateIDAsInt32Ptr parentResourceId) (\<lambda>parent.
     try_bind (list_entities c (NewModelArtifactRepository (co_quote c) (type_id c ModelArtifactTypeName)) (page_options listOptions parent) s)
       (all_items (MapToModelArtifact c)))"

subsection \<open>The history of metrics\<close>

text \<open>The name of a history entry: the run, the metric, and the time of the entry in milliseconds.\<close>

definition history_name :: "string \<Rightarrow> string \<Rightarrow> string \<Rightarrow> string" where
  "history_name experimentRunId name timestamp = experimentRunId @ '':'' @ name @ ''__'' @ timestamp"

text \<open>\<open>clock\<close> is the time now in milliseconds, used when the metric has no time of its own.\<close>

definition InsertMetricHistory ::
  "'s core \<Rightarrow> fresh \<Rightarrow> int \<Rightarrow> metric option \<Rightarrow> string \<Rightarrow> 's \<Rightarrow> (core_error + unit) \<times> 's" where
  "InsertMetricHistory c fr clock arg experimentRunId s =
     (case arg of
        None \<Rightarrow> (Inl ErrBadRequest, s)
      | Some m \<Rightarrow>
          if experimentRunId = [] then (Inl ErrBadRequest, s)
          else
            try_state (GetExperimentRunById c experimentRunId s) (\<lambda>experimentRun s.
            try_state (ValidateIDAsInt32 experimentRunId) (\<lambda>runID s.
            try_state (case art_Name m of None \<Rightarrow> Inl ErrPanic | Some n \<Rightarrow> Inr n) (\<lambda>name s.
              let timestamp = (case api_LastUpdateTime m of None \<Rightarrow> itoa clock | Some t \<Rightarrow> t);
                  metricHistory = set_experiment (run_ExperimentId experimentRun) experimentRunId
                    (m\<lparr>art_Name := Some (history_name experimentRunId name timestamp), api_Id := None, api_ExternalId := None\<rparr>)
              in
            try_state (case map_of (co_types c) MetricHistoryTypeName of None \<Rightarrow> Inl ErrOther | Some t \<Rightarrow> Inr t) (\<lambda>typeID s.
            try_state (conv_raw (MapMetricPropertiesEmbedMD metricHistory)) (\<lambda>properties s.
            try_state (conv_raw (MapOpenAPICustomPropertiesEmbedMD (co_codec c)
                         (Some (api_CustomProperties metricHistory)))) (\<lambda>custom s.
              (case Save (co_ops c) (NewMetricHistoryRepository (co_quote c) (type_id c MetricHistoryTypeName)) (fr_Now fr)
                  \<lparr>be_ID = None, be_TypeID = typeID,
                   be_Attributes = \<lparr>at_Name = art_Name metricHistory, at_URI = None, at_State = art_State metricHistory,
                     at_ExternalID = None, at_CreateTime = None, at_LastUpdateTime = None\<rparr>,
                   be_Properties = properties, be_Custom = custom\<rparr> (Some runID) s of
                 (Inl err, s') \<Rightarrow> (Inl (repo_class err), s')
               | (Inr entry, s') \<Rightarrow> (Inr (), s'))) s) s) s) s) s) s)"

text \<open>
  The artifact is saved first, and in another transaction than its history entry. The copy of the metric for the history shares
  its map of custom properties with the answer, so the ids that are set on the copy are in the answer too.
\<close>

definition UpsertExperimentRunArtifact ::
  "'s core \<Rightarrow> fresh \<Rightarrow> fresh \<Rightarrow> int \<Rightarrow> api_artifact option \<Rightarrow> bool \<Rightarrow> string \<Rightarrow> 's \<Rightarrow> (core_error + api_artifact) \<times> 's" where
  "UpsertExperimentRunArtifact c fr fr' clock artifact nilCustom experimentRunId s =
     try_state (GetExperimentRunById c experimentRunId s) (\<lambda>run s.
       case upsertArtifact c fr artifact nilCustom (Some experimentRunId) s of
         (Inl err, s1) \<Rightarrow> (Inl err, s1)
       | (Inr result, s1) \<Rightarrow> (case the_Metric result of
             None \<Rightarrow> (Inr result, s1)
           | Some m \<Rightarrow>
               (let metricForHistory = (case GetExperimentRunById c experimentRunId s1 of
                      Inl err \<Rightarrow> m | Inr experimentRun \<Rightarrow> set_experiment (run_ExperimentId experimentRun) experimentRunId m)
                in case InsertMetricHistory c fr' clock (Some metricForHistory) experimentRunId s1 of
                    (Inl err, s2) \<Rightarrow> (Inl (if art_Name m = None then ErrPanic else err), s2)
                  | (Inr u, s2) \<Rightarrow>
                      (Inr (ApiMetric (m\<lparr>api_CustomProperties := api_CustomProperties metricForHistory\<rparr>)), s2)))) s"

definition GetExperimentRunArtifacts ::
  "'s core \<Rightarrow> string \<Rightarrow> pagination \<Rightarrow> string option \<Rightarrow> 's \<Rightarrow> core_error + api_artifact list_wrapper" where
  "GetExperimentRunArtifacts c artifactType listOptions experimentRunId s =
     GetArtifacts c artifactType listOptions experimentRunId s"

text \<open>The name of the metric of an entry: what stands before the last \<open>__\<close>.\<close>

definition cut_last :: "string \<Rightarrow> string option" where
  "cut_last s = map_option (\<lambda>i. take i s)
     (find (\<lambda>i. take 2 (drop i s) = ''__'') (rev [0..<length s]))"

definition history_metric :: "metric \<Rightarrow> metric" where
  "history_metric m = (case art_Name m of
       None \<Rightarrow> m
     | Some n \<Rightarrow> (case cut_last n of
           None \<Rightarrow> m
         | Some t \<Rightarrow> m\<lparr>art_Name := (if t = [] then None else Some t)\<rparr>))"

text \<open>Entries that cannot be converted are left out of the list.\<close>

definition GetExperimentRunMetricHistory ::
  "'s core \<Rightarrow> string option \<Rightarrow> string option \<Rightarrow> pagination \<Rightarrow> string option \<Rightarrow> 's \<Rightarrow> core_error + metric list_wrapper" where
  "GetExperimentRunMetricHistory c name stepIds listOptions experimentRunId s =
     try_bind (case experimentRunId of
         None \<Rightarrow> Inr None
       | Some r \<Rightarrow> try_bind (GetExperimentRunById c r s) (\<lambda>run. ValidateIDAsInt32Ptr experimentRunId)) (\<lambda>runID.
     if \<not> opt_all ValidateStepIds stepIds then Inl ErrOther
     else
       try_bind (list_entities c (NewMetricHistoryRepository (co_quote c) (type_id c MetricHistoryTypeName))
           ((page_options listOptions runID)\<lparr>
              lo_Name := (if name = Some [] then None else name), lo_StepIds := (if stepIds = Some [] then None else stepIds)\<rparr>) s)
         (\<lambda>metricHistories.
          if list_ex (\<lambda>h. conv_raw (MapToMetric c h) = Inl ErrPanic) (lw_Items metricHistories) then Inl ErrPanic
          else
            (let results = concat (map (\<lambda>h. case MapToMetric c h of Inl err \<Rightarrow> [] | Inr m \<Rightarrow> [history_metric m])
                   (lw_Items metricHistories))
             in Inr \<lparr>lw_Items = results, lw_NextPageToken = lw_NextPageToken metricHistories,
                  lw_PageSize = lw_PageSize metricHistories, lw_Size = to_int32 (int (length results))\<rparr>)))"

end
