(* ===== verification/Api_Server.thy ===== *)
theory Api_Server
  imports Core_Artifacts
begin

text \<open>
  The REST service (\<open>internal/server/openapi/v1\<close> and \<open>v1alpha3\<close>, \<open>api_model_registry_service_service.go\<close>): the
  handlers over the service of \<open>Core_Service\<close> and \<open>Core_Artifacts\<close>, the list options and the combined filter they
  build from query parameters, and the status of an error (\<open>internal/platform/errors/errors.go\<close>, \<open>error.go\<close>).

  The two versions of the API share their handlers up to \<open>buildListOption\<close>; the experiments are in \<open>v1alpha3\<close> only. Of an
  error response the model keeps the status. An empty query parameter is the empty string. For an entity that is a
  request itself, \<open>nilCustom\<close> tells whether its map of custom properties is nil.
\<close>

subsection \<open>Responses\<close>

text \<open>\<open>ErrToStatus\<close>; a panic ends the connection without a response.\<close>

datatype 'a reply = Reply int 'a | Failed int | Crashed

definition ErrToStatus :: "core_error \<Rightarrow> int" where
  "ErrToStatus err =
     (if err = ErrBadRequest then 400 else if err = ErrNotFound then 404 else if err = ErrConflict then 409 else 500)"

definition IgnoreNotFound :: "core_error \<Rightarrow> core_error option" where
  "IgnoreNotFound err = (if err = ErrNotFound then None else Some err)"

definition ErrorResponse :: "core_error \<Rightarrow> 'a reply" where
  "ErrorResponse err = (if err = ErrPanic then Crashed else Failed (ErrToStatus err))"

definition respond :: "int \<Rightarrow> core_error + 'a \<Rightarrow> 'a reply" where
  "respond status r = (case r of Inl err \<Rightarrow> ErrorResponse err | Inr x \<Rightarrow> Reply status x)"

definition respond_state :: "int \<Rightarrow> (core_error + 'a) \<times> 's \<Rightarrow> 'a reply \<times> 's" where
  "respond_state status r = (respond status (fst r), snd r)"

text \<open>A request that cannot be converted is a bad request.\<close>

definition convert_request :: "conv_error + 'm \<Rightarrow> ('m \<Rightarrow> 's \<Rightarrow> 'a reply \<times> 's) \<Rightarrow> 's \<Rightarrow> 'a reply \<times> 's" where
  "convert_request r f s = (case conv_bad r of Inl err \<Rightarrow> (ErrorResponse err, s) | Inr m \<Rightarrow> f m s)"

text \<open>
  \<open>DefaultErrorHandler\<close>: the error of a parameter, of a missing required field, or of the service, with the status
  in the body and the status of the response.
\<close>

datatype controller_error = ParsingError | RequiredError | ServiceError int

fun DefaultErrorHandler :: "controller_error \<Rightarrow> int \<times> int" where
  "DefaultErrorHandler ParsingError = (400, 400)"
| "DefaultErrorHandler RequiredError = (400, 422)"
| "DefaultErrorHandler (ServiceError code) = (code, code)"

subsection \<open>Query parameters\<close>

definition StrPtr :: "string \<Rightarrow> string option" where
  "StrPtr notEmpty = (if notEmpty = [] then None else Some notEmpty)"

text \<open>\<open>strings.ReplaceAll\<close>: every single quote becomes two.\<close>

definition double_quotes :: "string \<Rightarrow> string" where
  "double_quotes s = concat (map (\<lambda>ch. if ch = CHR 0x27 then [CHR 0x27, CHR 0x27] else [ch]) s)"

definition buildCombinedFilterQuery :: "string \<Rightarrow> string \<Rightarrow> string \<Rightarrow> string" where
  "buildCombinedFilterQuery filterQuery name externalID =
     (let conditions =
        (if filterQuery \<noteq> [] then [''('' @ filterQuery @ '')''] else [])
        @ (if name \<noteq> [] then [''name = '' @ [CHR 0x27] @ double_quotes name @ [CHR 0x27]]
           else if externalID \<noteq> [] then [''externalId = '' @ [CHR 0x27] @ double_quotes externalID @ [CHR 0x27]]
           else [])
      in case conditions of [] \<Rightarrow> [] | [a] \<Rightarrow> a | a # b # r \<Rightarrow> a @ '' AND '' @ b)"

definition AllowedOrderByFieldEnumValues :: "string list" where
  "AllowedOrderByFieldEnumValues = [''CREATE_TIME'', ''LAST_UPDATE_TIME'', ''ID'']"

text \<open>Version 1 rejects an unknown order; \<open>v1alpha3\<close> passes it on.\<close>

datatype api_version = V1 | V1alpha3

definition buildListOption :: "api_version \<Rightarrow> string \<Rightarrow> string \<Rightarrow> string \<Rightarrow> string \<Rightarrow> string \<Rightarrow> core_error + pagination" where
  "buildListOption v filterQuery pageSize orderBy sortOrder nextPageToken =
     try_bind (if pageSize = [] then Inr None
               else case StringToInt32 pageSize of Inl err \<Rightarrow> Inl ErrBadRequest | Inr n \<Rightarrow> Inr (Some n)) (\<lambda>size.
     if v = V1 \<and> orderBy \<noteq> [] \<and> orderBy \<notin> set AllowedOrderByFieldEnumValues then Inl ErrBadRequest
     else if nextPageToken \<noteq> [] \<and> isl (DecodeCursor nextPageToken) then Inl ErrBadRequest
     else Inr \<lparr>pg_PageSize = size, pg_OrderBy = StrPtr orderBy, pg_SortOrder = StrPtr sortOrder,
       pg_NextPageToken = StrPtr nextPageToken, pg_FilterQuery = StrPtr filterQuery\<rparr>)"

text \<open>The query parameters of a list.\<close>

record list_params =
  lp_Version :: api_version
  lp_FilterQuery :: string
  lp_Name :: string
  lp_ExternalID :: string
  lp_PageSize :: string
  lp_OrderBy :: string
  lp_SortOrder :: string
  lp_NextPageToken :: string

definition page_of :: "list_params \<Rightarrow> core_error + pagination" where
  "page_of q = buildListOption (lp_Version q) (lp_FilterQuery q) (lp_PageSize q) (lp_OrderBy q) (lp_SortOrder q) (lp_NextPageToken q)"

definition combined_page_of :: "list_params \<Rightarrow> core_error + pagination" where
  "combined_page_of q = buildListOption (lp_Version q)
     (buildCombinedFilterQuery (lp_FilterQuery q) (lp_Name q) (lp_ExternalID q))
     (lp_PageSize q) (lp_OrderBy q) (lp_SortOrder q) (lp_NextPageToken q)"

subsection \<open>Creating\<close>

definition CreateInferenceService :: "'s core \<Rightarrow> fresh \<Rightarrow> inference_service_create \<Rightarrow> 's \<Rightarrow> inference_service reply \<times> 's" where
  "CreateInferenceService c fr request s = convert_request (ConvertInferenceServiceCreate request) (\<lambda>m s.
     respond_state 201 (UpsertInferenceService c fr (Some m) (infc_CustomProperties request = None) s)) s"

definition CreateEnvironmentInferenceService ::
  "'s core \<Rightarrow> fresh \<Rightarrow> string \<Rightarrow> inference_service_create \<Rightarrow> 's \<Rightarrow> inference_service reply \<times> 's" where
  "CreateEnvironmentInferenceService c fr servingenvironmentId request s =
     CreateInferenceService c fr (request\<lparr>infc_ServingEnvironmentId := servingenvironmentId\<rparr>) s"

definition CreateInferenceServiceServe :: "'s core \<Rightarrow> fresh \<Rightarrow> string \<Rightarrow> serve_model_create \<Rightarrow> 's \<Rightarrow> serve_model reply \<times> 's" where
  "CreateInferenceServiceServe c fr inferenceserviceId request s = convert_request (ConvertServeModelCreate request) (\<lambda>m s.
     respond_state 201 (UpsertServeModel c fr (Some m) (srvc_CustomProperties request = None) (Some inferenceserviceId) s)) s"

fun artifact_create_custom :: "api_artifact_create \<Rightarrow> (string \<times> metadata_value) list option" where
  "artifact_create_custom (ApiModelArtifactCreate a) = mac_CustomProperties a"
| "artifact_create_custom (ApiDocArtifactCreate a) = docc_CustomProperties a"
| "artifact_create_custom (ApiDataSetCreate a) = dsc_CustomProperties a"
| "artifact_create_custom (ApiMetricCreate a) = metc_CustomProperties a"
| "artifact_create_custom (ApiParameterCreate a) = parc_CustomProperties a"

fun artifact_update_custom :: "api_artifact_update \<Rightarrow> (string \<times> metadata_value) list option" where
  "artifact_update_custom (ApiModelArtifactUpdate a) = mau_CustomProperties a"
| "artifact_update_custom (ApiDocArtifactUpdate a) = docu_CustomProperties a"
| "artifact_update_custom (ApiDataSetUpdate a) = dsu_CustomProperties a"
| "artifact_update_custom (ApiMetricUpdate a) = metu_CustomProperties a"
| "artifact_update_custom (ApiParameterUpdate a) = paru_CustomProperties a"

definition CreateArtifact :: "'s core \<Rightarrow> fresh \<Rightarrow> api_artifact_create \<Rightarrow> 's \<Rightarrow> api_artifact reply \<times> 's" where
  "CreateArtifact c fr request s = convert_request (ConvertArtifactCreate request) (\<lambda>m s.
     respond_state 201 (UpsertArtifact c fr (Some m) (artifact_create_custom request = None) s)) s"

definition CreateModelArtifact :: "'s core \<Rightarrow> fresh \<Rightarrow> model_artifact_create \<Rightarrow> 's \<Rightarrow> model_artifact option reply \<times> 's" where
  "CreateModelArtifact c fr request s = convert_request (ConvertModelArtifactCreate request) (\<lambda>m s.
     respond_state 201 (UpsertModelArtifact c fr (Some m) (mac_CustomProperties request = None) s)) s"

definition CreateModelVersion :: "'s core \<Rightarrow> fresh \<Rightarrow> model_version_create \<Rightarrow> 's \<Rightarrow> model_version reply \<times> 's" where
  "CreateModelVersion c fr request s = convert_request (ConvertModelVersionCreate request) (\<lambda>m s.
     respond_state 201 (UpsertModelVersion c fr (Some m) (verc_CustomProperties request = None) (Some (verc_RegisteredModelId request)) s)) s"

text \<open>An artifact without an id counts as created only if it is a model or a document artifact.\<close>

fun creating :: "api_artifact \<Rightarrow> bool" where
  "creating (ApiDocArtifact a) = (api_Id a = None)"
| "creating (ApiModelArtifact a) = (api_Id a = None)"
| "creating a = False"

definition HandleUpsertModelVersionArtifact ::
  "'s core \<Rightarrow> fresh \<Rightarrow> string \<Rightarrow> api_artifact option \<Rightarrow> bool \<Rightarrow> 's \<Rightarrow> api_artifact reply \<times> 's" where
  "HandleUpsertModelVersionArtifact c fr modelversionId artifact nilCustom s =
     respond_state (if opt_all creating artifact \<and> artifact \<noteq> None then 201 else 200)
       (UpsertModelVersionArtifact c fr artifact nilCustom modelversionId s)"

definition CreateRegisteredModel :: "'s core \<Rightarrow> fresh \<Rightarrow> registered_model_create \<Rightarrow> 's \<Rightarrow> registered_model reply \<times> 's" where
  "CreateRegisteredModel c fr request s = convert_request (ConvertRegisteredModelCreate request) (\<lambda>m s.
     respond_state 201 (UpsertRegisteredModel c fr (Some m) (rmc_CustomProperties request = None) s)) s"

definition CreateRegisteredModelVersion ::
  "'s core \<Rightarrow> fresh \<Rightarrow> string \<Rightarrow> model_version \<Rightarrow> bool \<Rightarrow> 's \<Rightarrow> model_version reply \<times> 's" where
  "CreateRegisteredModelVersion c fr registeredmodelId modelVersion nilCustom s =
     respond_state 201 (UpsertModelVersion c fr (Some modelVersion) nilCustom (StrPtr registeredmodelId) s)"

definition CreateServingEnvironment :: "'s core \<Rightarrow> fresh \<Rightarrow> serving_environment_create \<Rightarrow> 's \<Rightarrow> serving_environment reply \<times> 's" where
  "CreateServingEnvironment c fr request s = convert_request (ConvertServingEnvironmentCreate request) (\<lambda>m s.
     respond_state 201 (UpsertServingEnvironment c fr (Some m) (envc_CustomProperties request = None) s)) s"

definition CreateExperiment :: "'s core \<Rightarrow> fresh \<Rightarrow> xp_entity_create \<Rightarrow> 's \<Rightarrow> xp_entity reply \<times> 's" where
  "CreateExperiment c fr request s = convert_request (ConvertExperimentCreate request) (\<lambda>m s.
     respond_state 201 (UpsertExperiment c fr (Some m) (xpc_CustomProperties request = None) s)) s"

definition CreateExperimentRun :: "'s core \<Rightarrow> fresh \<Rightarrow> experiment_run_create \<Rightarrow> 's \<Rightarrow> experiment_run reply \<times> 's" where
  "CreateExperimentRun c fr request s = convert_request (ConvertExperimentRunCreate request) (\<lambda>m s.
     respond_state 201 (UpsertExperimentRun c fr (Some m) (runc_CustomProperties request = None) (Some (runc_ExperimentId request)) s)) s"

definition CreateExperimentExperimentRun ::
  "'s core \<Rightarrow> fresh \<Rightarrow> string \<Rightarrow> experiment_run \<Rightarrow> bool \<Rightarrow> 's \<Rightarrow> experiment_run reply \<times> 's" where
  "CreateExperimentExperimentRun c fr experimentId experimentRun nilCustom s =
     respond_state 201 (UpsertExperimentRun c fr (Some experimentRun) nilCustom (StrPtr experimentId) s)"

definition HandleUpsertExperimentRunArtifact ::
  "'s core \<Rightarrow> fresh \<Rightarrow> fresh \<Rightarrow> int \<Rightarrow> string \<Rightarrow> api_artifact option \<Rightarrow> bool \<Rightarrow> 's \<Rightarrow> api_artifact reply \<times> 's" where
  "HandleUpsertExperimentRunArtifact c fr fr' clock experimentrunId artifact nilCustom s =
     respond_state (if opt_all creating artifact \<and> artifact \<noteq> None then 201 else 200)
       (UpsertExperimentRunArtifact c fr fr' clock artifact nilCustom experimentrunId s)"

subsection \<open>Finding\<close>

definition FindInferenceService :: "'s core \<Rightarrow> string \<Rightarrow> string \<Rightarrow> string \<Rightarrow> 's \<Rightarrow> inference_service reply" where
  "FindInferenceService c name externalId parentResourceId s =
     respond 200 (GetInferenceServiceByParams c (StrPtr name) (StrPtr parentResourceId) (StrPtr externalId) s)"

definition FindArtifact :: "'s core \<Rightarrow> string \<Rightarrow> string \<Rightarrow> string \<Rightarrow> 's \<Rightarrow> api_artifact reply" where
  "FindArtifact c name externalId parentResourceId s =
     respond 200 (GetArtifactByParams c (StrPtr name) (StrPtr parentResourceId) (StrPtr externalId) s)"

definition FindModelArtifact :: "'s core \<Rightarrow> string \<Rightarrow> string \<Rightarrow> string \<Rightarrow> 's \<Rightarrow> model_artifact reply" where
  "FindModelArtifact c name externalId parentResourceId s =
     respond 200 (GetModelArtifactByParams c (StrPtr name) (StrPtr parentResourceId) (StrPtr externalId) s)"

definition FindModelVersion :: "'s core \<Rightarrow> string \<Rightarrow> string \<Rightarrow> string \<Rightarrow> 's \<Rightarrow> model_version reply" where
  "FindModelVersion c name externalId parentResourceId s =
     respond 200 (GetModelVersionByParams c (StrPtr name) (StrPtr parentResourceId) (StrPtr externalId) s)"

definition FindExperimentRun :: "'s core \<Rightarrow> string \<Rightarrow> string \<Rightarrow> string \<Rightarrow> 's \<Rightarrow> experiment_run reply" where
  "FindExperimentRun c name externalId parentResourceId s =
     respond 200 (GetExperimentRunByParams c (StrPtr name) (StrPtr parentResourceId) (StrPtr externalId) s)"

definition FindRegisteredModel :: "'s core \<Rightarrow> string \<Rightarrow> string \<Rightarrow> 's \<Rightarrow> registered_model reply" where
  "FindRegisteredModel c name externalId s = respond 200 (GetRegisteredModelByParams c (StrPtr name) (StrPtr externalId) s)"

definition FindServingEnvironment :: "'s core \<Rightarrow> string \<Rightarrow> string \<Rightarrow> 's \<Rightarrow> serving_environment reply" where
  "FindServingEnvironment c name externalId s = respond 200 (GetServingEnvironmentByParams c (StrPtr name) (StrPtr externalId) s)"

definition FindExperiment :: "'s core \<Rightarrow> string \<Rightarrow> string \<Rightarrow> 's \<Rightarrow> xp_entity reply" where
  "FindExperiment c name externalId s = respond 200 (GetExperimentByParams c (StrPtr name) (StrPtr externalId) s)"

subsection \<open>Reading\<close>

definition GetInferenceService :: "'s core \<Rightarrow> string \<Rightarrow> 's \<Rightarrow> inference_service reply" where
  "GetInferenceService c i s = respond 200 (GetInferenceServiceById c i s)"

definition GetInferenceServiceModel :: "'s core \<Rightarrow> string \<Rightarrow> 's \<Rightarrow> registered_model reply" where
  "GetInferenceServiceModel c i s = respond 200 (GetRegisteredModelByInferenceService c i s)"

definition GetInferenceServiceVersion :: "'s core \<Rightarrow> string \<Rightarrow> 's \<Rightarrow> model_version reply" where
  "GetInferenceServiceVersion c i s = respond 200 (GetModelVersionByInferenceService c i s)"

definition GetArtifact :: "'s core \<Rightarrow> string \<Rightarrow> 's \<Rightarrow> api_artifact reply" where
  "GetArtifact c i s = respond 200 (GetArtifactById c i s)"

definition GetModelArtifact :: "'s core \<Rightarrow> string \<Rightarrow> 's \<Rightarrow> model_artifact reply" where
  "GetModelArtifact c i s = respond 200 (GetModelArtifactById c i s)"

definition GetModelVersion :: "'s core \<Rightarrow> string \<Rightarrow> 's \<Rightarrow> model_version reply" where
  "GetModelVersion c i s = respond 200 (GetModelVersionById c i s)"

definition GetRegisteredModel :: "'s core \<Rightarrow> string \<Rightarrow> 's \<Rightarrow> registered_model reply" where
  "GetRegisteredModel c i s = respond 200 (GetRegisteredModelById c i s)"

definition GetServingEnvironment :: "'s core \<Rightarrow> string \<Rightarrow> 's \<Rightarrow> serving_environment reply" where
  "GetServingEnvironment c i s = respond 200 (GetServingEnvironmentById c i s)"

definition GetExperiment :: "'s core \<Rightarrow> string \<Rightarrow> 's \<Rightarrow> xp_entity reply" where
  "GetExperiment c i s = respond 200 (GetExperimentById c i s)"

definition GetExperimentRun :: "'s core \<Rightarrow> string \<Rightarrow> 's \<Rightarrow> experiment_run reply" where
  "GetExperimentRun c i s = respond 200 (GetExperimentRunById c i s)"

subsection \<open>Listing\<close>

definition GetEnvironmentInferenceServices :: "'s core \<Rightarrow> string \<Rightarrow> list_params \<Rightarrow> 's \<Rightarrow> inference_service list_wrapper reply" where
  "GetEnvironmentInferenceServices c servingenvironmentId q s = respond 200 (try_bind (combined_page_of q) (\<lambda>listOpts. Core_Service.GetInferenceServices c listOpts (StrPtr servingenvironmentId) None s))"

definition GetInferenceServiceServes :: "'s core \<Rightarrow> string \<Rightarrow> list_params \<Rightarrow> 's \<Rightarrow> serve_model list_wrapper reply" where
  "GetInferenceServiceServes c inferenceserviceId q s = respond 200 (try_bind (combined_page_of q) (\<lambda>listOpts. GetServeModels c listOpts (StrPtr inferenceserviceId) s))"

definition ListInferenceServices :: "'s core \<Rightarrow> list_params \<Rightarrow> 's \<Rightarrow> inference_service list_wrapper reply" where
  "ListInferenceServices c q s = respond 200 (try_bind (page_of q) (\<lambda>listOpts. Core_Service.GetInferenceServices c listOpts None None s))"

definition ListArtifacts :: "'s core \<Rightarrow> string \<Rightarrow> list_params \<Rightarrow> 's \<Rightarrow> api_artifact list_wrapper reply" where
  "ListArtifacts c artifactType q s = respond 200 (try_bind (page_of q) (\<lambda>listOpts. Core_Artifacts.GetArtifacts c artifactType listOpts None s))"

definition ListModelArtifacts :: "'s core \<Rightarrow> list_params \<Rightarrow> 's \<Rightarrow> model_artifact list_wrapper reply" where
  "ListModelArtifacts c q s = respond 200 (try_bind (page_of q) (\<lambda>listOpts. Core_Artifacts.GetModelArtifacts c listOpts None s))"

definition GetModelVersionArtifacts :: "'s core \<Rightarrow> string \<Rightarrow> string \<Rightarrow> list_params \<Rightarrow> 's \<Rightarrow> api_artifact list_wrapper reply" where
  "GetModelVersionArtifacts c modelversionId artifactType q s = respond 200 (try_bind (combined_page_of q) (\<lambda>listOpts. Core_Artifacts.GetArtifacts c artifactType listOpts (StrPtr modelversionId) s))"

definition ListModelVersions :: "'s core \<Rightarrow> list_params \<Rightarrow> 's \<Rightarrow> model_version list_wrapper reply" where
  "ListModelVersions c q s = respond 200 (try_bind (page_of q) (\<lambda>listOpts. Core_Service.GetModelVersions c listOpts None s))"

definition GetRegisteredModelVersions :: "'s core \<Rightarrow> string \<Rightarrow> list_params \<Rightarrow> 's \<Rightarrow> model_version list_wrapper reply" where
  "GetRegisteredModelVersions c registeredmodelId q s = respond 200 (try_bind (combined_page_of q) (\<lambda>listOpts. Core_Service.GetModelVersions c listOpts (StrPtr registeredmodelId) s))"

definition ListRegisteredModels :: "'s core \<Rightarrow> list_params \<Rightarrow> 's \<Rightarrow> registered_model list_wrapper reply" where
  "ListRegisteredModels c q s = respond 200 (try_bind (page_of q) (\<lambda>listOpts. Core_Service.GetRegisteredModels c listOpts s))"

definition ListServingEnvironments :: "'s core \<Rightarrow> list_params \<Rightarrow> 's \<Rightarrow> serving_environment list_wrapper reply" where
  "ListServingEnvironments c q s = respond 200 (try_bind (page_of q) (\<lambda>listOpts. Core_Service.GetServingEnvironments c listOpts s))"

definition GetExperimentExperimentRuns :: "'s core \<Rightarrow> string \<Rightarrow> list_params \<Rightarrow> 's \<Rightarrow> experiment_run list_wrapper reply" where
  "GetExperimentExperimentRuns c experimentId q s = respond 200 (try_bind (combined_page_of q) (\<lambda>listOpts. Core_Service.GetExperimentRuns c listOpts (StrPtr experimentId) s))"

definition ListExperimentRunArtifacts :: "'s core \<Rightarrow> string \<Rightarrow> string \<Rightarrow> list_params \<Rightarrow> 's \<Rightarrow> api_artifact list_wrapper reply" where
  "ListExperimentRunArtifacts c experimentrunId artifactType q s = respond 200 (try_bind (combined_page_of q) (\<lambda>listOpts. Core_Artifacts.GetExperimentRunArtifacts c artifactType listOpts (StrPtr experimentrunId) s))"

definition ListExperimentRuns :: "'s core \<Rightarrow> list_params \<Rightarrow> 's \<Rightarrow> experiment_run list_wrapper reply" where
  "ListExperimentRuns c q s = respond 200 (try_bind (page_of q) (\<lambda>listOpts. Core_Service.GetExperimentRuns c listOpts None s))"

definition ListExperiments :: "'s core \<Rightarrow> list_params \<Rightarrow> 's \<Rightarrow> xp_entity list_wrapper reply" where
  "ListExperiments c q s = respond 200 (try_bind (page_of q) (\<lambda>listOpts. Core_Service.GetExperiments c listOpts s))"

definition getMetricHistoryHelper :: "'s core \<Rightarrow> string option \<Rightarrow> string \<Rightarrow> list_params \<Rightarrow> 's \<Rightarrow> metric list_wrapper reply" where
  "getMetricHistoryHelper c experimentRunId stepIds q s = respond 200 (try_bind (page_of q) (\<lambda>listOpts.
     if \<not> ValidateStepIds stepIds then Inl ErrBadRequest
     else Core_Artifacts.GetExperimentRunMetricHistory c (StrPtr (lp_Name q)) (StrPtr stepIds) listOpts experimentRunId s))"

definition HandleGetExperimentRunMetricHistory :: "'s core \<Rightarrow> string \<Rightarrow> string \<Rightarrow> list_params \<Rightarrow> 's \<Rightarrow> metric list_wrapper reply" where
  "HandleGetExperimentRunMetricHistory c experimentrunId stepIds q s = getMetricHistoryHelper c (StrPtr experimentrunId) stepIds q s"

definition GetExperimentRunsMetricHistory :: "'s core \<Rightarrow> string \<Rightarrow> list_params \<Rightarrow> 's \<Rightarrow> metric list_wrapper reply" where
  "GetExperimentRunsMetricHistory c stepIds q s = getMetricHistoryHelper c None stepIds q s"

subsection \<open>Updating\<close>

text \<open>
  An update is laid over the existing entity before it reaches the service. What a read returns never has a nil map of
  custom properties, so neither has the result.
\<close>

definition lay_over :: "(string \<times> metadata_value) list option \<Rightarrow> ('m update_wrapper \<Rightarrow> conv_error + 'm) \<Rightarrow> 'm \<Rightarrow> 'm \<Rightarrow> core_error + 'm" where
  "lay_over custom update existing m =
     conv_bad (update \<lparr>uw_Existing = existing, uw_Update = Some m, uw_Custom = custom\<rparr>)"

definition update_entity :: "string \<Rightarrow> conv_error + 'a api_base_scheme \<Rightarrow> (string \<times> metadata_value) list option
    \<Rightarrow> ('s \<Rightarrow> core_error + 'a api_base_scheme) \<Rightarrow> ('a api_base_scheme update_wrapper \<Rightarrow> conv_error + 'a api_base_scheme)
    \<Rightarrow> ('a api_base_scheme \<Rightarrow> 's \<Rightarrow> (core_error + 'b) \<times> 's) \<Rightarrow> 's \<Rightarrow> 'b reply \<times> 's" where
  "update_entity i request custom get update upsert s =
     convert_request request (\<lambda>m s. respond_state 200
       (try_state (get s) (\<lambda>existing. try_state (lay_over custom update existing (m\<lparr>api_Id := Some i\<rparr>)) upsert) s)) s"

definition UpdateInferenceService :: "'s core \<Rightarrow> fresh \<Rightarrow> string \<Rightarrow> inference_service_update \<Rightarrow> 's \<Rightarrow> inference_service reply \<times> 's" where
  "UpdateInferenceService c fr i request s =
     update_entity i (ConvertInferenceServiceUpdate request) (infu_CustomProperties request) (GetInferenceServiceById c i)
       UpdateExistingInferenceService (\<lambda>m. UpsertInferenceService c fr (Some m) False) s"

text \<open>The type of the existing artifact may not change.\<close>

definition UpdateArtifact :: "'s core \<Rightarrow> fresh \<Rightarrow> string \<Rightarrow> api_artifact_update \<Rightarrow> 's \<Rightarrow> api_artifact reply \<times> 's" where
  "UpdateArtifact c fr artifactId request s = convert_request (ConvertArtifactUpdate request) (\<lambda>m s. respond_state 200
     (try_state (GetArtifactById c artifactId s) (\<lambda>existing s.
        case UpdateExistingArtifact \<lparr>uw_Existing = existing, uw_Update = Some m, uw_Custom = artifact_update_custom request\<rparr> of
          Inl err \<Rightarrow> (Inl ErrBadRequest, s)
        | Inr update \<Rightarrow> UpsertArtifact c fr (Some update) False s) s)) s"

definition UpdateModelArtifact :: "'s core \<Rightarrow> fresh \<Rightarrow> string \<Rightarrow> model_artifact_update \<Rightarrow> 's \<Rightarrow> model_artifact option reply \<times> 's" where
  "UpdateModelArtifact c fr i request s =
     update_entity i (ConvertModelArtifactUpdate request) (mau_CustomProperties request) (GetModelArtifactById c i)
       UpdateExistingModelArtifact (\<lambda>m. UpsertModelArtifact c fr (Some m) False) s"

definition UpdateModelVersion :: "'s core \<Rightarrow> fresh \<Rightarrow> string \<Rightarrow> model_version_update \<Rightarrow> 's \<Rightarrow> model_version reply \<times> 's" where
  "UpdateModelVersion c fr i request s =
     update_entity i (ConvertModelVersionUpdate request) (veru_CustomProperties request) (GetModelVersionById c i)
       UpdateExistingModelVersion (\<lambda>m. UpsertModelVersion c fr (Some m) False None) s"

definition UpdateRegisteredModel :: "'s core \<Rightarrow> fresh \<Rightarrow> string \<Rightarrow> registered_model_update \<Rightarrow> 's \<Rightarrow> registered_model reply \<times> 's" where
  "UpdateRegisteredModel c fr i request s =
     update_entity i (ConvertRegisteredModelUpdate request) (rmu_CustomProperties request) (GetRegisteredModelById c i)
       UpdateExistingRegisteredModel (\<lambda>m. UpsertRegisteredModel c fr (Some m) False) s"

definition UpdateServingEnvironment :: "'s core \<Rightarrow> fresh \<Rightarrow> string \<Rightarrow> serving_environment_update \<Rightarrow> 's \<Rightarrow> serving_environment reply \<times> 's" where
  "UpdateServingEnvironment c fr i request s =
     update_entity i (ConvertServingEnvironmentUpdate request) (envu_CustomProperties request) (GetServingEnvironmentById c i)
       UpdateExistingServingEnvironment (\<lambda>m. UpsertServingEnvironment c fr (Some m) False) s"

definition UpdateExperiment :: "'s core \<Rightarrow> fresh \<Rightarrow> string \<Rightarrow> xp_entity_update \<Rightarrow> 's \<Rightarrow> xp_entity reply \<times> 's" where
  "UpdateExperiment c fr i request s =
     update_entity i (ConvertExperimentUpdate request) (xpu_CustomProperties request) (GetExperimentById c i)
       UpdateExistingExperiment (\<lambda>m. UpsertExperiment c fr (Some m) False) s"

definition UpdateExperimentRun :: "'s core \<Rightarrow> fresh \<Rightarrow> string \<Rightarrow> experiment_run_update \<Rightarrow> 's \<Rightarrow> experiment_run reply \<times> 's" where
  "UpdateExperimentRun c fr i request s = convert_request (ConvertExperimentRunUpdate request) (\<lambda>m s. respond_state 200
     (try_state (GetExperimentRunById c i s) (\<lambda>existing.
      try_state (lay_over (runu_CustomProperties request) UpdateExistingExperimentRun existing (m\<lparr>api_Id := Some i\<rparr>)) (\<lambda>update.
        UpsertExperimentRun c fr (Some update) False (Some (run_ExperimentId existing)))) s)) s"

end
