(* ===== verification/Controller.thy ===== *)
theory Controller
  imports Api_Server "HOL-Library.AList"
begin

section \<open>The controller of inference services\<close>

text \<open>
  \<open>pkg/inferenceservice-controller/controller.go\<close>: the reconciliation of a KServe \<open>InferenceService\<close> with the
  registry. The client of the cluster and the finalizers of controller-runtime, and the client of the registry,
  are records of functions; they are third-party code and generated code around HTTP. The objects of the
  registry are those of the REST service. A nil pointer that is dereferenced is a panic.
\<close>

subsection \<open>The cluster and the registry\<close>

record kserve_service =
  ks_Name :: string
  ks_Namespace :: string
  ks_UID :: string
  ks_Labels :: "(string \<times> string) list"
  ks_Annotations :: "(string \<times> string) list"
  ks_Finalizers :: "string list"
  ks_Deleting :: bool
  ks_URL :: "string option"
  ks_Model :: "string option option"

text \<open>Of the predictor the model with its runtime is kept, both optional.\<close>

record cluster_service =
  sv_Name :: string
  sv_Namespace :: string
  sv_Annotations :: "(string \<times> string) list"
  sv_Ports :: "(string \<times> int) list"

datatype client_error = ClientNotFound string | ClientError string

fun client_text :: "client_error \<Rightarrow> string" where
  "client_text (ClientNotFound t) = t"
| "client_text (ClientError t) = t"

record 'k cluster_client =
  kc_Get :: "string \<Rightarrow> string \<Rightarrow> 'k \<Rightarrow> client_error + kserve_service"
  kc_Update :: "kserve_service \<Rightarrow> 'k \<Rightarrow> (client_error + kserve_service) \<times> 'k"
  kc_ListServices :: "string \<Rightarrow> 'k \<Rightarrow> client_error + cluster_service list"
  kc_GetService :: "string \<Rightarrow> string \<Rightarrow> 'k \<Rightarrow> client_error + cluster_service"
  kc_ContainsFinalizer :: "kserve_service \<Rightarrow> string \<Rightarrow> bool"
  kc_AddFinalizer :: "kserve_service \<Rightarrow> string \<Rightarrow> kserve_service \<times> bool"
  kc_RemoveFinalizer :: "kserve_service \<Rightarrow> string \<Rightarrow> kserve_service \<times> bool"

record 's registry_client =
  ra_FindServingEnvironment :: "string \<Rightarrow> 's \<Rightarrow> string + serving_environment"
  ra_CreateServingEnvironment :: "serving_environment_create \<Rightarrow> 's \<Rightarrow> (string + serving_environment) \<times> 's"
  ra_GetInferenceService :: "string \<Rightarrow> 's \<Rightarrow> string + inference_service"
  ra_FindInferenceService :: "string \<Rightarrow> string \<Rightarrow> 's \<Rightarrow> string + inference_service"
  ra_CreateInferenceService :: "inference_service_create \<Rightarrow> 's \<Rightarrow> (string + inference_service) \<times> 's"
  ra_UpdateInferenceService :: "string \<Rightarrow> inference_service_update \<Rightarrow> 's \<Rightarrow> (string + inference_service) \<times> 's"

record controller =
  ic_isIDLabel :: string
  ic_regModelIDLabel :: string
  ic_modelVerIDLabel :: string
  ic_mrNamespaceLabel :: string
  ic_mrNameLabel :: string
  ic_mrURLAnnotation :: string
  ic_mrFinalizer :: string
  ic_serviceURLAnnotation :: string
  ic_defaultMRNamespace :: string

datatype 'a outcome = Returned 'a | Erred string | Panicked

definition label_or_empty :: "(string \<times> string) list \<Rightarrow> string \<Rightarrow> string" where
  "label_or_empty ls k = str_or_empty (map_of ls k)"

subsection \<open>The address of the registry\<close>

definition getMRService :: "controller \<Rightarrow> 'k cluster_client \<Rightarrow> string \<Rightarrow> string \<Rightarrow> 'k \<Rightarrow> string + cluster_service" where
  "getMRService r kc name namespace k =
     (if name = [] then
        (case kc_ListServices kc namespace k of
           Inl err \<Rightarrow> Inl (''unable to list services in the namespace '' @ namespace @ '': '' @ client_text err)
         | Inr [] \<Rightarrow> Inl (''no model registry services found in the namespace '' @ namespace)
         | Inr [svc] \<Rightarrow> Inr svc
         | Inr _ \<Rightarrow> Inl (''more than one model registry service found in the namespace '' @ namespace
             @ '', consider to specify the name in the label '' @ ic_mrNameLabel r))
      else case kc_GetService kc namespace name k of
             Inl err \<Rightarrow> Inl (client_text err)
           | Inr svc \<Rightarrow> Inr svc)"

definition buildURLFromService :: "controller \<Rightarrow> cluster_service \<Rightarrow> string + string" where
  "buildURLFromService r svc =
     (case map_of (sv_Annotations svc) (ic_serviceURLAnnotation r) of
        Some url \<Rightarrow> Inr (''https://'' @ url)
      | None \<Rightarrow>
          (case find (\<lambda>(n, p). n = ''http-api'') (sv_Ports svc) of
             None \<Rightarrow> Inl ''unable to find the http port in the Model Registry service''
           | Some (_, port) \<Rightarrow>
               Inr (''http://'' @ sv_Name svc @ ''.'' @ sv_Namespace svc @ ''.svc.cluster.local:'' @ itoa port)))"

definition getMRUrlFromService :: "controller \<Rightarrow> 'k cluster_client \<Rightarrow> string \<Rightarrow> string \<Rightarrow> 'k \<Rightarrow> string + string" where
  "getMRUrlFromService r kc name namespace k =
     (case getMRService r kc name namespace k of
        Inl err \<Rightarrow> Inl (''unable to find the Model Registry service: '' @ err)
      | Inr svc \<Rightarrow> buildURLFromService r svc)"

definition initModelRegistryService ::
  "controller \<Rightarrow> 'k cluster_client \<Rightarrow> (string \<Rightarrow> 's registry_client) \<Rightarrow> string \<Rightarrow> string \<Rightarrow> string \<Rightarrow> 'k \<Rightarrow> string + 's registry_client" where
  "initModelRegistryService r kc connect name namespace url k =
     (if url = [] then map_sum id connect (getMRUrlFromService r kc name namespace k) else Inr (connect url))"

subsection \<open>Calls of the registry\<close>

definition checkURLDiff :: "kserve_service \<Rightarrow> string \<Rightarrow> bool" where
  "checkURLDiff isvc mrIsvcUrl =
     (if mrIsvcUrl = [] \<and> ks_URL isvc = None then False
      else case ks_URL isvc of None \<Rightarrow> True | Some url \<Rightarrow> mrIsvcUrl \<noteq> url)"

definition url_property :: "string \<Rightarrow> metadata_value" where
  "url_property url = no_metadata\<lparr>mv_String := Some url\<rparr>"

definition registered_url :: "inference_service \<Rightarrow> string" where
  "registered_url mrIs = (case map_of (api_CustomProperties mrIs) ''url'' of None \<Rightarrow> [] | Some v \<Rightarrow> str_or_empty (mv_String v))"

definition no_update :: inference_service_update where
  "no_update = \<lparr>infu_CustomProperties = None, infu_Description = None, infu_ExternalId = None, infu_ModelVersionId = None,
     infu_Runtime = None, infu_DesiredState = None\<rparr>"

definition createMRInferenceService ::
  "'s registry_client \<Rightarrow> kserve_service \<Rightarrow> string \<Rightarrow> string \<Rightarrow> string \<Rightarrow> 's \<Rightarrow> inference_service outcome \<times> 's" where
  "createMRInferenceService mr isvc servingEnvironmentId registeredModelId modelVersionId s =
     (let isName = ks_Name isvc @ ''/'' @ ks_UID isvc
      in case ra_FindInferenceService mr isName servingEnvironmentId s of
           Inr is \<Rightarrow> (Returned is, s)
         | Inl _ \<Rightarrow>
             (case ks_Model isvc of
                None \<Rightarrow> (Panicked, s)
              | Some runtime \<Rightarrow>
                  (case ra_CreateInferenceService mr
                      \<lparr>infc_CustomProperties = map_option (\<lambda>url. [(''url'', url_property url)]) (ks_URL isvc), infc_Description = None,
                       infc_ExternalId = None, infc_Name = Some isName,
                       infc_ModelVersionId = (if modelVersionId = [] then None else Some modelVersionId), infc_Runtime = runtime,
                       infc_DesiredState = Some ''DEPLOYED'', infc_RegisteredModelId = registeredModelId,
                       infc_ServingEnvironmentId = servingEnvironmentId\<rparr> s of
                     (Inl err, s') \<Rightarrow> (Erred err, s')
                   | (Inr is, s') \<Rightarrow> (Returned is, s'))))"

definition updateMRInferenceService :: "'s registry_client \<Rightarrow> kserve_service \<Rightarrow> inference_service \<Rightarrow> 's \<Rightarrow> unit outcome \<times> 's" where
  "updateMRInferenceService mr isvc mrIsvc s =
     (case api_Id mrIsvc of
        None \<Rightarrow> (Panicked, s)
      | Some i \<Rightarrow>
          (case ra_UpdateInferenceService mr i
              (no_update\<lparr>infu_CustomProperties :=
                 Some (AList.update ''url'' (url_property (str_or_empty (ks_URL isvc))) (api_CustomProperties mrIsvc))\<rparr>) s of
             (Inl err, s') \<Rightarrow> (Erred err, s')
           | (Inr _, s') \<Rightarrow> (Returned (), s')))"

definition getOrCreateServingEnvironment :: "'s registry_client \<Rightarrow> string \<Rightarrow> 's \<Rightarrow> serving_environment outcome \<times> 's" where
  "getOrCreateServingEnvironment mr namespace s =
     (case ra_FindServingEnvironment mr namespace s of
        Inr env \<Rightarrow> (Returned env, s)
      | Inl _ \<Rightarrow>
          (case ra_CreateServingEnvironment mr \<lparr>envc_CustomProperties = None, envc_Description = None, envc_ExternalId = None, envc_Name = namespace\<rparr> s of
             (Inl err, s') \<Rightarrow> (Erred (''unable to create ServingEnvironment: '' @ err), s')
           | (Inr env, s') \<Rightarrow> (Returned env, s')))"

definition onDeletion :: "'s registry_client \<Rightarrow> inference_service \<Rightarrow> 's \<Rightarrow> unit outcome \<times> 's" where
  "onDeletion mr is s =
     (if inf_DesiredState is \<noteq> None \<and> inf_DesiredState is \<noteq> Some ''UNDEPLOYED'' then
        (case api_Id is of
           None \<Rightarrow> (Panicked, s)
         | Some i \<Rightarrow>
             (case ra_UpdateInferenceService mr i (no_update\<lparr>infu_DesiredState := Some ''UNDEPLOYED''\<rparr>) s of
                (Inl err, s') \<Rightarrow> (Erred err, s')
              | (Inr _, s') \<Rightarrow> (Returned (), s')))
      else (Returned (), s))"

definition IgnoreDeletingErrors :: "client_error option \<Rightarrow> client_error option" where
  "IgnoreDeletingErrors err = (case err of Some (ClientNotFound t) \<Rightarrow> None | _ \<Rightarrow> err)"

subsection \<open>Reconciliation\<close>

text \<open>The result tells whether the request is put into the queue again.\<close>

definition finalize ::
  "controller \<Rightarrow> 'k cluster_client \<Rightarrow> (string \<Rightarrow> 's registry_client) \<Rightarrow> kserve_service \<Rightarrow> string \<Rightarrow> string \<Rightarrow> string \<Rightarrow> 'k \<Rightarrow> 's \<Rightarrow> bool outcome \<times> 'k \<times> 's" where
  "finalize r kc connect isvc mrName mrNamespace mrUrl k s =
     (if \<not> kc_ContainsFinalizer kc isvc (ic_mrFinalizer r) then (Returned False, k, s)
      else
        (let (undeployed, s1) =
           (case (initModelRegistryService r kc connect mrName mrNamespace mrUrl k, map_of (ks_Labels isvc) (ic_isIDLabel r)) of
              (Inr mr, Some i) \<Rightarrow>
                (case ra_GetInferenceService mr i s of Inl _ \<Rightarrow> (Returned (), s) | Inr is \<Rightarrow> onDeletion mr is s)
            | _ \<Rightarrow> (Returned (), s))
         in if undeployed = Panicked then (Panicked, k, s1)
            else case kc_RemoveFinalizer kc isvc (ic_mrFinalizer r) of
                (_, False) \<Rightarrow> (Erred ''failed to remove modelRegistry finalizer for InferenceService'', k, s1)
              | (isvc', True) \<Rightarrow>
                  (case kc_Update kc isvc' k of
                     (Inr _, k') \<Rightarrow> (Returned False, k', s1)
                   | (Inl err, k') \<Rightarrow>
                       (if IgnoreDeletingErrors (Some err) = None then (Returned False, k', s1)
                        else (Erred (''failed to remove modelRegistry finalizer for InferenceService: '' @ client_text err), k', s1)))))"

text \<open>
  The part after the finalizer is there: the environment, the service in the registry, and the label. The value
  of the label before the finalizer was added decides between reading and creating.
\<close>

definition link_service ::
  "controller \<Rightarrow> 'k cluster_client \<Rightarrow> 's registry_client \<Rightarrow> string \<Rightarrow> kserve_service \<Rightarrow> kserve_service \<Rightarrow> 'k \<Rightarrow> 's \<Rightarrow> bool outcome \<times> 'k \<times> 's" where
  "link_service r kc mr namespace before isvc k s =
     (case getOrCreateServingEnvironment mr namespace s of
        (Panicked, s1) \<Rightarrow> (Panicked, k, s1)
      | (Erred err, s1) \<Rightarrow> (Erred err, k, s1)
      | (Returned env, s1) \<Rightarrow>
          (let (mrIs, s2) =
             (case map_of (ks_Labels before) (ic_isIDLabel r) of
                Some i \<Rightarrow>
                  (case ra_GetInferenceService mr i s1 of
                     Inl err \<Rightarrow> (Erred (''unable to find InferenceService with id '' @ i @ '' in model registry: '' @ err), s1)
                   | Inr is \<Rightarrow>
                       if checkURLDiff isvc (registered_url is) then
                         (case updateMRInferenceService mr isvc is s1 of
                            (Returned _, s2) \<Rightarrow> (Returned is, s2) | (Erred err, s2) \<Rightarrow> (Erred err, s2) | (Panicked, s2) \<Rightarrow> (Panicked, s2))
                       else (Returned is, s1))
              | None \<Rightarrow>
                  (case api_Id env of
                     None \<Rightarrow> (Panicked, s1)
                   | Some e \<Rightarrow> createMRInferenceService mr isvc e (label_or_empty (ks_Labels before) (ic_regModelIDLabel r))
                                (label_or_empty (ks_Labels before) (ic_modelVerIDLabel r)) s1))
           in case mrIs of
                Panicked \<Rightarrow> (Panicked, k, s2)
              | Erred err \<Rightarrow> (Erred err, k, s2)
              | Returned is \<Rightarrow>
                  (case api_Id is of
                     None \<Rightarrow> (Panicked, k, s2)
                   | Some i \<Rightarrow>
                       if label_or_empty (ks_Labels isvc) (ic_isIDLabel r) = i then (Returned False, k, s2)
                       else (case kc_Update kc (isvc\<lparr>ks_Labels := AList.update (ic_isIDLabel r) i (ks_Labels isvc)\<rparr>) k of
                               (Inl err, k') \<Rightarrow> (Erred (client_text err), k', s2)
                             | (Inr _, k') \<Rightarrow> (Returned False, k', s2)))))"

definition Reconcile ::
  "controller \<Rightarrow> 'k cluster_client \<Rightarrow> (string \<Rightarrow> 's registry_client) \<Rightarrow> string \<Rightarrow> string \<Rightarrow> 'k \<Rightarrow> 's \<Rightarrow> bool outcome \<times> 'k \<times> 's" where
  "Reconcile r kc connect namespace name k s =
     (case kc_Get kc namespace name k of
        Inl (ClientNotFound _) \<Rightarrow> (Returned False, k, s)
      | Inl (ClientError err) \<Rightarrow> (Erred err, k, s)
      | Inr isvc \<Rightarrow>
          (let labels = map_of (ks_Labels isvc);
               mrName = label_or_empty (ks_Labels isvc) (ic_mrNameLabel r);
               mrUrl = label_or_empty (ks_Annotations isvc) (ic_mrURLAnnotation r);
               mrNamespace = (case labels (ic_mrNamespaceLabel r) of None \<Rightarrow> ic_defaultMRNamespace r | Some n \<Rightarrow> n)
           in if labels (ic_isIDLabel r) = None \<and> labels (ic_regModelIDLabel r) = None then (Returned False, k, s)
              else if ks_Deleting isvc then finalize r kc connect isvc mrName mrNamespace mrUrl k s
              else case initModelRegistryService r kc connect mrName mrNamespace mrUrl k of
                  Inl err \<Rightarrow> (Erred err, k, s)
                | Inr mr \<Rightarrow>
                    if kc_ContainsFinalizer kc isvc (ic_mrFinalizer r) then link_service r kc mr namespace isvc isvc k s
                    else (case kc_AddFinalizer kc isvc (ic_mrFinalizer r) of
                        (_, False) \<Rightarrow> (Returned True, k, s)
                      | (isvc', True) \<Rightarrow>
                          (case kc_Update kc isvc' k of
                             (Inl err, k') \<Rightarrow> (Erred (client_text err), k', s)
                           | (Inr isvc'', k') \<Rightarrow> link_service r kc mr namespace isvc isvc'' k' s))))"

end
