(* ===== verification/Controller_Facts.thy ===== *)
theory Controller_Facts
  imports Controller
begin

text \<open>
  What the controller guarantees: it never blocks the deletion of a service, it writes to the registry only under
  the finalizer, and it settles. The clients are third-party code; what is asked of them is stated as
  \<open>cluster_laws\<close> and \<open>registry_laws\<close>.
\<close>

subsection \<open>What the clients do\<close>

text \<open>
  Finalizers are those of controller-runtime: adding and removing tell whether the object has changed, and touch
  nothing else of it. An update stores the object and is read back.
\<close>

definition finalizer_laws :: "'k cluster_client \<Rightarrow> string \<Rightarrow> bool" where
  "finalizer_laws kc f =
     ((\<forall>o1. kc_ContainsFinalizer kc o1 f \<longleftrightarrow> f \<in> set (ks_Finalizers o1))
      \<and> (\<forall>o1. kc_AddFinalizer kc o1 f = (if f \<in> set (ks_Finalizers o1) then (o1, False)
            else (o1\<lparr>ks_Finalizers := ks_Finalizers o1 @ [f]\<rparr>, True)))
      \<and> (\<forall>o1. kc_RemoveFinalizer kc o1 f = (o1\<lparr>ks_Finalizers := removeAll f (ks_Finalizers o1)\<rparr>, f \<in> set (ks_Finalizers o1))))"

definition cluster_laws :: "'k cluster_client \<Rightarrow> bool" where
  "cluster_laws kc = (\<forall>o1 o2 k k'. kc_Update kc o1 k = (Inr o2, k') \<longrightarrow>
     o2 = o1 \<and> kc_Get kc (ks_Namespace o1) (ks_Name o1) k' = Inr o1
     \<and> (\<forall>n. kc_ListServices kc n k' = kc_ListServices kc n k) \<and> (\<forall>n m. kc_GetService kc n m k' = kc_GetService kc n m k))"

definition registry_laws :: "'s registry_client \<Rightarrow> bool" where
  "registry_laws mr =
     ((\<forall>i s m. ra_GetInferenceService mr i s = Inr m \<longrightarrow> api_Id m = Some i)
      \<and> (\<forall>n p s m. ra_FindInferenceService mr n p s = Inr m \<longrightarrow> (\<exists>i. i \<noteq> [] \<and> api_Id m = Some i))
      \<and> (\<forall>c s m s'. ra_CreateInferenceService mr c s = (Inr m, s') \<longrightarrow> (\<exists>i. i \<noteq> [] \<and> api_Id m = Some i))
      \<and> (\<forall>c s e s'. ra_CreateServingEnvironment mr c s = (Inr e, s') \<longrightarrow> ra_FindServingEnvironment mr (envc_Name c) s' = Inr e)
      \<and> (\<forall>i u s m s'. ra_UpdateInferenceService mr i u s = (Inr m, s') \<longrightarrow>
           (\<forall>n e. ra_FindServingEnvironment mr n s = Inr e \<longrightarrow> ra_FindServingEnvironment mr n s' = Inr e)
           \<and> (\<exists>m'. ra_GetInferenceService mr i s' = Inr m' \<and> (\<forall>cs. infu_CustomProperties u = Some cs \<longrightarrow> api_CustomProperties m' = cs))))"

lemma registry_lawsD:
  assumes "registry_laws mr"
  shows "ra_GetInferenceService mr i s = Inr m \<Longrightarrow> api_Id m = Some i"
    and "ra_FindInferenceService mr n p s = Inr m \<Longrightarrow> \<exists>i. i \<noteq> [] \<and> api_Id m = Some i"
    and "ra_CreateInferenceService mr c s = (Inr m, s') \<Longrightarrow> \<exists>i. i \<noteq> [] \<and> api_Id m = Some i"
    and "ra_CreateServingEnvironment mr c' s = (Inr e, s') \<Longrightarrow> ra_FindServingEnvironment mr (envc_Name c') s' = Inr e"
    and "ra_UpdateInferenceService mr i u s = (Inr m, s') \<Longrightarrow> ra_FindServingEnvironment mr n s = Inr e \<Longrightarrow>
      ra_FindServingEnvironment mr n s' = Inr e"
    and "ra_UpdateInferenceService mr i u s = (Inr m, s') \<Longrightarrow> \<exists>m'. ra_GetInferenceService mr i s' = Inr m' \<and>
      (\<forall>cs. infu_CustomProperties u = Some cs \<longrightarrow> api_CustomProperties m' = cs)"
proof -
  note L = assms [unfolded registry_laws_def]
  note L2 = L [THEN conjunct2]
  note L3 = L2 [THEN conjunct2]
  note L4 = L3 [THEN conjunct2]
  note L5 = L4 [THEN conjunct2]
  show "ra_GetInferenceService mr i s = Inr m \<Longrightarrow> api_Id m = Some i" by (rule L [THEN conjunct1, rule_format])
  show "ra_FindInferenceService mr n p s = Inr m \<Longrightarrow> \<exists>i. i \<noteq> [] \<and> api_Id m = Some i" by (rule L2 [THEN conjunct1, rule_format])
  show "ra_CreateInferenceService mr c s = (Inr m, s') \<Longrightarrow> \<exists>i. i \<noteq> [] \<and> api_Id m = Some i"
    by (rule L3 [THEN conjunct1, rule_format])
  show "ra_CreateServingEnvironment mr c' s = (Inr e, s') \<Longrightarrow> ra_FindServingEnvironment mr (envc_Name c') s' = Inr e"
    by (rule L4 [THEN conjunct1, rule_format])
  show "ra_UpdateInferenceService mr i u s = (Inr m, s') \<Longrightarrow> ra_FindServingEnvironment mr n s = Inr e \<Longrightarrow>
      ra_FindServingEnvironment mr n s' = Inr e"
    by (rule L5 [THEN spec, THEN spec, THEN spec, THEN spec, THEN spec, THEN mp, THEN conjunct1, rule_format])
  show "ra_UpdateInferenceService mr i u s = (Inr m, s') \<Longrightarrow> \<exists>m'. ra_GetInferenceService mr i s' = Inr m' \<and>
      (\<forall>cs. infu_CustomProperties u = Some cs \<longrightarrow> api_CustomProperties m' = cs)"
    by (rule L5 [THEN spec, THEN spec, THEN spec, THEN spec, THEN spec, THEN mp, THEN conjunct2])
qed

subsection \<open>Deletion\<close>

lemma finalize_outcome:
  assumes "kc_ContainsFinalizer kc isvc (ic_mrFinalizer r)" "kc_RemoveFinalizer kc isvc (ic_mrFinalizer r) = (isvc', True)"
    and "\<And>u i s is. ra_GetInferenceService (connect u) i s = Inr is \<Longrightarrow> api_Id is \<noteq> None"
  shows "\<exists>s'. finalize r kc connect isvc mrName mrNamespace mrUrl k s =
    (case kc_Update kc isvc' k of
       (Inl (ClientError err), k') \<Rightarrow> (Erred (''failed to remove modelRegistry finalizer for InferenceService: '' @ err), k', s')
     | (_, k') \<Rightarrow> (Returned False, k', s'))"
proof -
  define undeployed where "undeployed = (case (initModelRegistryService r kc connect mrName mrNamespace mrUrl k, map_of (ks_Labels isvc) (ic_isIDLabel r)) of
      (Inr mr, Some i) \<Rightarrow> (case ra_GetInferenceService mr i s of Inl _ \<Rightarrow> (Returned (), s) | Inr is \<Rightarrow> onDeletion mr is s)
    | _ \<Rightarrow> (Returned (), s))"
  have connected: "\<exists>u. mr = connect u" if "initModelRegistryService r kc connect mrName mrNamespace mrUrl k = Inr mr" for mr
    using that by (cases "getMRUrlFromService r kc mrName mrNamespace k")
      (auto simp: initModelRegistryService_def split: if_splits)
  have deletes: "fst (onDeletion mr is s) \<noteq> Panicked" if n: "api_Id is \<noteq> None" for mr :: "'b registry_client" and "is"
  proof -
    obtain i where i: "api_Id is = Some i" using n by blast
    obtain e s' where "ra_UpdateInferenceService mr i (no_update\<lparr>infu_DesiredState := Some ''UNDEPLOYED''\<rparr>) s = (e, s')" by fastforce
    with i show ?thesis by (cases e) (simp_all add: onDeletion_def)
  qed
  have "fst undeployed \<noteq> Panicked"
    using connected deletes assms(3) unfolding undeployed_def
    by (auto split: sum.split option.split)
  then obtain x s1 where x: "undeployed = (x, s1)" "x \<noteq> Panicked" by (cases undeployed) auto
  obtain e k' where u: "kc_Update kc isvc' k = (e, k')" by fastforce
  have "finalize r kc connect isvc mrName mrNamespace mrUrl k s =
      (case e of Inr _ \<Rightarrow> (Returned False, k', s1)
       | Inl err \<Rightarrow> if IgnoreDeletingErrors (Some err) = None then (Returned False, k', s1)
                  else (Erred (''failed to remove modelRegistry finalizer for InferenceService: '' @ client_text err), k', s1))"
    using x assms(1,2) unfolding finalize_def undeployed_def [symmetric] by (simp add: u)
  then show ?thesis unfolding u
    by (cases e; cases "projl e") (simp_all add: IgnoreDeletingErrors_def del: append_Cons)
qed


subsection \<open>The finalizer comes first\<close>

text \<open>
  C37. The registry is written to only for a service that holds the finalizer: it has it when the reconciliation
  starts, or the cluster has stored it. So no entry of the registry is left behind by a service whose deletion the
  controller does not see.
\<close>

theorem finalizer_before_registry:
  assumes "snd (snd (Reconcile r kc connect namespace name k s)) \<noteq> s"
  shows "\<exists>isvc. kc_Get kc namespace name k = Inr isvc
    \<and> (kc_ContainsFinalizer kc isvc (ic_mrFinalizer r)
       \<or> (\<exists>isvc' isvc'' k'. kc_AddFinalizer kc isvc (ic_mrFinalizer r) = (isvc', True) \<and> kc_Update kc isvc' k = (Inr isvc'', k')))"
proof (cases "kc_Get kc namespace name k")
  case (Inl err)
  then show ?thesis using assms by (cases err) (simp_all add: Reconcile_def)
next
  case (Inr isvc)
  show ?thesis
  proof (cases "kc_ContainsFinalizer kc isvc (ic_mrFinalizer r)")
    case False
    obtain isvc' b where a: "kc_AddFinalizer kc isvc (ic_mrFinalizer r) = (isvc', b)" by fastforce
    obtain x k' where u: "kc_Update kc isvc' k = (x, k')" by fastforce
    have "b \<and> \<not> isl x"
    proof (rule ccontr)
      assume "\<not> (b \<and> \<not> isl x)"
      then have "snd (snd (Reconcile r kc connect namespace name k s)) = s"
        using False Inr a u by (cases b; cases x) (auto simp: Reconcile_def Let_def finalize_def split: sum.split)
      with assms show False by contradiction
    qed
    with a u Inr show ?thesis by (cases x) auto
  qed (use Inr in blast)
qed

subsection \<open>Settling\<close>

lemma cluster_update:
  assumes "cluster_laws kc" "kc_Update kc o1 k = (Inr o2, k')"
  shows "o2 = o1" "kc_Get kc (ks_Namespace o1) (ks_Name o1) k' = Inr o1"
    and "initModelRegistryService r kc connect n m u k' = initModelRegistryService r kc connect n m u k"
proof -
  have L: "o2 = o1 \<and> kc_Get kc (ks_Namespace o1) (ks_Name o1) k' = Inr o1
     \<and> (\<forall>n. kc_ListServices kc n k' = kc_ListServices kc n k) \<and> (\<forall>n m. kc_GetService kc n m k' = kc_GetService kc n m k)"
    using assms unfolding cluster_laws_def by blast
  then show "o2 = o1" "kc_Get kc (ks_Namespace o1) (ks_Name o1) k' = Inr o1" by blast+
  have "getMRService r kc n m k' = getMRService r kc n m k" for n m using L by (simp add: getMRService_def)
  then show "initModelRegistryService r kc connect n m u k' = initModelRegistryService r kc connect n m u k"
    by (simp add: initModelRegistryService_def getMRUrlFromService_def)
qed

text \<open>The environment is there after the first successful reconciliation, and stays.\<close>

lemma environment_settles:
  assumes "registry_laws mr" "getOrCreateServingEnvironment mr namespace s = (Returned env, s1)"
  shows "ra_FindServingEnvironment mr namespace s1 = Inr env"
proof (cases "ra_FindServingEnvironment mr namespace s")
  case (Inl err)
  let ?c = "\<lparr>envc_CustomProperties = None, envc_Description = None, envc_ExternalId = None, envc_Name = namespace\<rparr>"
  obtain e s' where c: "ra_CreateServingEnvironment mr ?c s = (e, s')" by fastforce
  then have "e = Inr env \<and> s' = s1" using assms(2) Inl by (cases e) (simp_all add: getOrCreateServingEnvironment_def)
  with registry_lawsD(4) [OF assms(1), of ?c] c show ?thesis by simp
qed (use assms(2) in \<open>simp add: getOrCreateServingEnvironment_def\<close>)

lemma registered_url_updated:
  assumes "api_CustomProperties m = AList.update ''url'' (url_property (str_or_empty (ks_URL isvc))) cs"
  shows "checkURLDiff isvc (registered_url m) = False"
  using assms by (simp add: registered_url_def url_property_def checkURLDiff_def no_metadata_def update_conv' split: option.split)

lemma link_labelled:
  assumes "registry_laws mr" "map_of (ks_Labels before) (ic_isIDLabel r) = Some i" "ks_Labels isvc = ks_Labels before"
    and run: "link_service r kc mr namespace before isvc k s = (Returned b, k', s')"
  shows "b = False \<and> k' = k \<and> link_service r kc mr namespace isvc isvc k s' = (Returned False, k, s')"
proof -
  obtain env s1 where env: "getOrCreateServingEnvironment mr namespace s = (Returned env, s1)"
    using run by (auto simp: link_service_def split: outcome.splits prod.splits)
  have found: "ra_FindServingEnvironment mr namespace s1 = Inr env" by (rule environment_settles [OF assms(1) env])
  obtain m where m: "ra_GetInferenceService mr i s1 = Inr m"
    using run env assms(2) by (auto simp: link_service_def split: sum.splits)
  have idm: "api_Id m = Some i" by (rule registry_lawsD(1) [OF assms(1) m])
  have label: "label_or_empty (ks_Labels isvc) (ic_isIDLabel r) = i" using assms(2,3) by (simp add: label_or_empty_def str_or_empty_def)
  show ?thesis
  proof (cases "checkURLDiff isvc (registered_url m)")
    case False
    then have "b = False \<and> k' = k \<and> s' = s1" using run env assms(2) m idm label by (simp add: link_service_def)
    moreover have "link_service r kc mr namespace isvc isvc k s1 = (Returned False, k, s1)"
      using found m idm label False assms(2,3) by (simp add: link_service_def getOrCreateServingEnvironment_def)
    ultimately show ?thesis by simp
  next
    case True
    let ?u = "no_update\<lparr>infu_CustomProperties :=
       Some (AList.update ''url'' (url_property (str_or_empty (ks_URL isvc))) (api_CustomProperties m))\<rparr>"
    obtain e s2 where u: "ra_UpdateInferenceService mr i ?u s1 = (e, s2)" by fastforce
    obtain x where e: "e = Inr x"
      using run env assms(2) m idm label True u by (cases e) (simp_all add: link_service_def updateMRInferenceService_def)
    have r: "b = False \<and> k' = k \<and> s' = s2"
      using run env assms(2) m idm label True u e by (simp add: link_service_def updateMRInferenceService_def)
    have "ra_FindServingEnvironment mr namespace s2 = Inr env"
      and "\<exists>m'. ra_GetInferenceService mr i s2 = Inr m' \<and> api_CustomProperties m' =
        AList.update ''url'' (url_property (str_or_empty (ks_URL isvc))) (api_CustomProperties m)"
      using registry_lawsD(5,6) [OF assms(1), of i ?u s1 x s2] u e found by auto
    then obtain m' where m': "ra_GetInferenceService mr i s2 = Inr m'" "checkURLDiff isvc (registered_url m') = False"
      and env': "ra_FindServingEnvironment mr namespace s2 = Inr env" using registered_url_updated by blast
    have "api_Id m' = Some i" by (rule registry_lawsD(1) [OF assms(1) m'(1)])
    then have "link_service r kc mr namespace isvc isvc k s2 = (Returned False, k, s2)"
      using env' m' label assms(2,3) by (simp add: link_service_def getOrCreateServingEnvironment_def)
    with r show ?thesis by simp
  qed
qed

lemma link_unlabelled:
  assumes "registry_laws mr" "map_of (ks_Labels before) (ic_isIDLabel r) = None" "ks_Labels isvc = ks_Labels before"
    and run: "link_service r kc mr namespace before isvc k s = (Returned b, k', s')"
  shows "b = False \<and> (\<exists>i x. kc_Update kc (isvc\<lparr>ks_Labels := AList.update (ic_isIDLabel r) i (ks_Labels isvc)\<rparr>) k = (Inr x, k'))"
proof -
  obtain env s1 where env: "getOrCreateServingEnvironment mr namespace s = (Returned env, s1)"
    using run by (auto simp: link_service_def split: outcome.splits prod.splits)
  obtain e where e: "api_Id env = Some e"
    using run env assms(2) by (cases "api_Id env") (simp_all add: link_service_def)
  let ?create = "createMRInferenceService mr isvc e (label_or_empty (ks_Labels before) (ic_regModelIDLabel r))
      (label_or_empty (ks_Labels before) (ic_modelVerIDLabel r)) s1"
  obtain m s2 where m: "?create = (Returned m, s2)"
    using run env assms(2) e by (cases ?create; cases "fst ?create") (simp_all add: link_service_def)
  have "\<exists>i. i \<noteq> [] \<and> api_Id m = Some i"
    using m registry_lawsD(2,3) [OF assms(1)]
    by (auto simp: createMRInferenceService_def Let_def split: sum.splits option.splits prod.splits)
  then obtain i where i: "i \<noteq> []" "api_Id m = Some i" by blast
  have label: "label_or_empty (ks_Labels isvc) (ic_isIDLabel r) \<noteq> i" using assms(2,3) i by (simp add: label_or_empty_def str_or_empty_def)
  obtain x k1 where u: "kc_Update kc (isvc\<lparr>ks_Labels := AList.update (ic_isIDLabel r) i (ks_Labels isvc)\<rparr>) k = (x, k1)" by fastforce
  show ?thesis using run env assms(2) e m i label u by (cases x) (auto simp: link_service_def)
qed

text \<open>A service that is not being deleted.\<close>

definition live_service :: "'k cluster_client \<Rightarrow> string \<Rightarrow> string \<Rightarrow> 'k \<Rightarrow> kserve_service \<Rightarrow> bool" where
  "live_service kc namespace name k isvc =
     (kc_Get kc namespace name k = Inr isvc \<and> ks_Namespace isvc = namespace \<and> ks_Name isvc = name \<and> \<not> ks_Deleting isvc)"

definition connection where
  "connection r kc connect isvc k = initModelRegistryService r kc connect (label_or_empty (ks_Labels isvc) (ic_mrNameLabel r))
     (case map_of (ks_Labels isvc) (ic_mrNamespaceLabel r) of None \<Rightarrow> ic_defaultMRNamespace r | Some n \<Rightarrow> n)
     (label_or_empty (ks_Annotations isvc) (ic_mrURLAnnotation r)) k"

lemma reconcile_live:
  assumes "live_service kc namespace name k isvc"
    and "map_of (ks_Labels isvc) (ic_isIDLabel r) \<noteq> None \<or> map_of (ks_Labels isvc) (ic_regModelIDLabel r) \<noteq> None"
  shows "Reconcile r kc connect namespace name k s =
    (case connection r kc connect isvc k of
       Inl err \<Rightarrow> (Erred err, k, s)
     | Inr mr \<Rightarrow>
         if kc_ContainsFinalizer kc isvc (ic_mrFinalizer r) then link_service r kc mr namespace isvc isvc k s
         else (case kc_AddFinalizer kc isvc (ic_mrFinalizer r) of
             (_, False) \<Rightarrow> (Returned True, k, s)
           | (isvc', True) \<Rightarrow>
               (case kc_Update kc isvc' k of
                  (Inl err, k') \<Rightarrow> (Erred (client_text err), k', s)
                | (Inr isvc'', k') \<Rightarrow> link_service r kc mr namespace isvc isvc'' k' s)))"
  using assms by (auto simp: Reconcile_def Let_def live_service_def connection_def)

text \<open>A successful reconciliation of a live service links it, under the finalizer, in the state it leaves.\<close>

lemma reconcile_linked:
  assumes laws: "cluster_laws kc" "finalizer_laws kc (ic_mrFinalizer r)" "\<And>u. registry_laws (connect u)"
    and live: "live_service kc namespace name k isvc"
    and labelled: "map_of (ks_Labels isvc) (ic_isIDLabel r) \<noteq> None \<or> map_of (ks_Labels isvc) (ic_regModelIDLabel r) \<noteq> None"
    and run: "Reconcile r kc connect namespace name k s = (Returned False, k1, s1)"
  obtains k0 isvc0 u where "connection r kc connect isvc0 k0 = Inr (connect u)" "live_service kc namespace name k0 isvc0"
    "kc_ContainsFinalizer kc isvc0 (ic_mrFinalizer r)" "ks_Labels isvc0 = ks_Labels isvc"
    "link_service r kc (connect u) namespace isvc isvc0 k0 s = (Returned False, k1, s1)"
proof -
  obtain mr where mr: "connection r kc connect isvc k = Inr mr"
    using run by (cases "connection r kc connect isvc k") (simp_all add: reconcile_live [OF live labelled])
  then obtain u where u: "mr = connect u"
    unfolding connection_def initModelRegistryService_def
    by (cases "getMRUrlFromService r kc (label_or_empty (ks_Labels isvc) (ic_mrNameLabel r))
        (case map_of (ks_Labels isvc) (ic_mrNamespaceLabel r) of None \<Rightarrow> ic_defaultMRNamespace r | Some n \<Rightarrow> n) k")
      (auto split: if_splits)
  have fin: "kc_ContainsFinalizer kc o1 (ic_mrFinalizer r) \<longleftrightarrow> ic_mrFinalizer r \<in> set (ks_Finalizers o1)" for o1
    using laws(2) by (simp add: finalizer_laws_def)
  show thesis
  proof (cases "ic_mrFinalizer r \<in> set (ks_Finalizers isvc)")
    case True
    show ?thesis
      by (rule that [of isvc k u]) (use run mr u live True fin in \<open>simp_all add: reconcile_live [OF live labelled]\<close>)
  next
    case False
    let ?o = "isvc\<lparr>ks_Finalizers := ks_Finalizers isvc @ [ic_mrFinalizer r]\<rparr>"
    have add: "kc_AddFinalizer kc isvc (ic_mrFinalizer r) = (?o, True)" using laws(2) False by (simp add: finalizer_laws_def)
    obtain e k0 where upd: "kc_Update kc ?o k = (e, k0)" by fastforce
    then obtain o2 where e: "e = Inr o2"
      using run mr False by (cases e) (simp_all add: reconcile_live [OF live labelled] fin add)
    note C = cluster_update [OF laws(1) upd [unfolded e]]
    have "kc_Get kc namespace name k0 = Inr ?o" using C(2) live by (simp add: live_service_def)
    then have l0: "live_service kc namespace name k0 ?o" using live by (simp add: live_service_def)
    have conn: "connection r kc connect ?o k0 = Inr (connect u)" using mr u by (simp add: connection_def C(3))
    have "link_service r kc (connect u) namespace isvc ?o k0 s = (Returned False, k1, s1)"
      using run mr False u C(1) e upd by (simp add: reconcile_live [OF live labelled] fin add)
    then show ?thesis using that [OF conn l0] by (simp add: fin)
  qed
qed

lemma labelled_settles:
  assumes laws: "cluster_laws kc" "finalizer_laws kc (ic_mrFinalizer r)" "\<And>u. registry_laws (connect u)"
    and live: "live_service kc namespace name k isvc" and label: "map_of (ks_Labels isvc) (ic_isIDLabel r) = Some i"
    and run: "Reconcile r kc connect namespace name k s = (Returned False, k1, s1)"
  shows "Reconcile r kc connect namespace name k1 s1 = (Returned False, k1, s1)"
proof -
  have any: "map_of (ks_Labels isvc) (ic_isIDLabel r) \<noteq> None \<or> map_of (ks_Labels isvc) (ic_regModelIDLabel r) \<noteq> None"
    using label by simp
  obtain k0 isvc0 u where R: "connection r kc connect isvc0 k0 = Inr (connect u)" "live_service kc namespace name k0 isvc0"
    "kc_ContainsFinalizer kc isvc0 (ic_mrFinalizer r)" "ks_Labels isvc0 = ks_Labels isvc"
    "link_service r kc (connect u) namespace isvc isvc0 k0 s = (Returned False, k1, s1)"
    by (rule reconcile_linked [OF laws live any run])
  have L: "k1 = k0" "link_service r kc (connect u) namespace isvc0 isvc0 k0 s1 = (Returned False, k0, s1)"
    using link_labelled [OF laws(3) label R(4,5)] by blast+
  have any0: "map_of (ks_Labels isvc0) (ic_isIDLabel r) \<noteq> None \<or> map_of (ks_Labels isvc0) (ic_regModelIDLabel r) \<noteq> None"
    using any R(4) by simp
  show ?thesis unfolding L(1) reconcile_live [OF R(2) any0] using R(1,3) L(2) by simp
qed

text \<open>
  C21. The controller settles. After two successful reconciliations of a service that is not being deleted, every
  further one leaves the cluster and the registry as they are: the service holds the finalizer and the id of its
  entry, and the entry has the address of the service.
\<close>

theorem reconcile_settles:
  assumes "cluster_laws kc" "finalizer_laws kc (ic_mrFinalizer r)" "\<And>u. registry_laws (connect u)"
    and "live_service kc namespace name k isvc"
    and "map_of (ks_Labels isvc) (ic_isIDLabel r) \<noteq> None \<or> map_of (ks_Labels isvc) (ic_regModelIDLabel r) \<noteq> None"
    and "Reconcile r kc connect namespace name k s = (Returned False, k1, s1)"
    and "Reconcile r kc connect namespace name k1 s1 = (Returned False, k2, s2)"
  shows "Reconcile r kc connect namespace name k2 s2 = (Returned False, k2, s2)"
proof (cases "map_of (ks_Labels isvc) (ic_isIDLabel r)")
  case (Some i)
  then show ?thesis using labelled_settles [OF assms(1-4) _ assms(6)] assms(7) by simp
next
  case None
  obtain k0 isvc0 u where R: "live_service kc namespace name k0 isvc0" "ks_Labels isvc0 = ks_Labels isvc"
    "link_service r kc (connect u) namespace isvc isvc0 k0 s = (Returned False, k1, s1)"
    by (rule reconcile_linked [OF assms(1-6)])
  obtain i x where u: "kc_Update kc (isvc0\<lparr>ks_Labels := AList.update (ic_isIDLabel r) i (ks_Labels isvc0)\<rparr>) k0 = (Inr x, k1)"
    using link_unlabelled [OF assms(3) None R(2,3)] by blast
  let ?o = "isvc0\<lparr>ks_Labels := AList.update (ic_isIDLabel r) i (ks_Labels isvc0)\<rparr>"
  have "live_service kc namespace name k1 ?o"
    using cluster_update(2) [OF assms(1) u] R(1) by (simp add: live_service_def)
  moreover have "map_of (ks_Labels ?o) (ic_isIDLabel r) = Some i" by (simp add: update_conv')
  ultimately show ?thesis using labelled_settles [OF assms(1-3) _ _ assms(7)] by blast
qed

subsection \<open>What the controller misses\<close>

text \<open>
  Without the id label the deletion does not touch the registry. The label is written last, so an entry whose
  creation was followed by a failed update of the label stays deployed for ever when the service is deleted.
\<close>

lemma unlabelled_deletion_keeps_entry:
  assumes "kc_Get kc namespace name k = Inr isvc" "ks_Deleting isvc" "map_of (ks_Labels isvc) (ic_isIDLabel r) = None"
  shows "snd (snd (Reconcile r kc connect namespace name k s)) = s"
proof -
  obtain o1 b where rm: "kc_RemoveFinalizer kc isvc (ic_mrFinalizer r) = (o1, b)" by fastforce
  obtain e k' where u: "kc_Update kc o1 k = (e, k')" by fastforce
  show ?thesis
    using assms rm u by (cases b; cases e) (auto simp: Reconcile_def Let_def finalize_def simp del: append_Cons split: sum.split)
qed

text \<open>A service whose predictor is not given by \<open>model\<close> makes the controller panic when it is to be registered.\<close>

lemma predictor_without_model_panics:
  assumes "ra_FindInferenceService mr (ks_Name isvc @ ''/'' @ ks_UID isvc) e s = Inl err" "ks_Model isvc = None"
  shows "createMRInferenceService mr isvc e m v s = (Panicked, s)"
  using assms by (simp add: createMRInferenceService_def)

subsection \<open>Examples\<close>

text \<open>A cluster with one service, and a registry with room for one environment and one entry.\<close>

definition sample_cluster :: "kserve_service cluster_client" where
  "sample_cluster = \<lparr>
     kc_Get = (\<lambda>ns n k. if ns = ks_Namespace k \<and> n = ks_Name k then Inr k else Inl (ClientNotFound n)),
     kc_Update = (\<lambda>o1 k. (Inr o1, o1)),
     kc_ListServices = (\<lambda>n k. Inl (ClientError ''timeout'')),
     kc_GetService = (\<lambda>ns n k. Inl (ClientNotFound n)),
     kc_ContainsFinalizer = (\<lambda>o1 f. f \<in> set (ks_Finalizers o1)),
     kc_AddFinalizer = (\<lambda>o1 f. if f \<in> set (ks_Finalizers o1) then (o1, False) else (o1\<lparr>ks_Finalizers := ks_Finalizers o1 @ [f]\<rparr>, True)),
     kc_RemoveFinalizer = (\<lambda>o1 f. (o1\<lparr>ks_Finalizers := removeAll f (ks_Finalizers o1)\<rparr>, f \<in> set (ks_Finalizers o1)))\<rparr>"

type_synonym sample_state = "serving_environment option \<times> inference_service option"

definition sample_registry :: "sample_state registry_client" where
  "sample_registry = \<lparr>
     ra_FindServingEnvironment = (\<lambda>n (e, m). case e of Some env \<Rightarrow> if env_Name env = n then Inr env else Inl ''404'' | None \<Rightarrow> Inl ''404''),
     ra_CreateServingEnvironment = (\<lambda>c (e, m). let env = \<lparr>api_Id = Some ''1'', api_ExternalId = None, api_CustomProperties = [],
        api_Description = None, api_CreateTime = None, api_LastUpdateTime = None, env_Name = envc_Name c\<rparr> in (Inr env, (Some env, m))),
     ra_GetInferenceService = (\<lambda>i (e, m). case m of Some x \<Rightarrow> if api_Id x = Some i then Inr x else Inl ''404'' | None \<Rightarrow> Inl ''404''),
     ra_FindInferenceService = (\<lambda>n p (e, m). Inl ''404''),
     ra_CreateInferenceService = (\<lambda>c (e, m). let x = \<lparr>api_Id = Some ''2'', api_ExternalId = None,
        api_CustomProperties = (case infc_CustomProperties c of None \<Rightarrow> [] | Some ps \<Rightarrow> ps), api_Description = None, api_CreateTime = None,
        api_LastUpdateTime = None, inf_Name = infc_Name c, inf_ModelVersionId = infc_ModelVersionId c, inf_Runtime = infc_Runtime c,
        inf_DesiredState = infc_DesiredState c, inf_RegisteredModelId = infc_RegisteredModelId c,
        inf_ServingEnvironmentId = infc_ServingEnvironmentId c\<rparr> in (Inr x, (e, Some x))),
     ra_UpdateInferenceService = (\<lambda>i u (e, m). case m of
        Some x \<Rightarrow> if api_Id x = Some i then
            (let x' = x\<lparr>api_CustomProperties := (case infu_CustomProperties u of None \<Rightarrow> api_CustomProperties x | Some ps \<Rightarrow> ps),
                        inf_DesiredState := (case infu_DesiredState u of None \<Rightarrow> inf_DesiredState x | d \<Rightarrow> d)\<rparr> in (Inr x', (e, Some x')))
          else (Inl ''404'', (e, m))
      | None \<Rightarrow> (Inl ''404'', (e, m)))\<rparr>"

definition sample_controller :: controller where
  "sample_controller = \<lparr>ic_isIDLabel = ''is'', ic_regModelIDLabel = ''model'', ic_modelVerIDLabel = ''version'', ic_mrNamespaceLabel = ''ns'',
     ic_mrNameLabel = ''name'', ic_mrURLAnnotation = ''url'', ic_mrFinalizer = ''fin'', ic_serviceURLAnnotation = ''svc'',
     ic_defaultMRNamespace = ''mr''\<rparr>"

definition sample_service :: "string list \<Rightarrow> bool \<Rightarrow> kserve_service" where
  "sample_service fs deleting = \<lparr>ks_Name = ''m'', ks_Namespace = ''a'', ks_UID = ''u'', ks_Labels = [(''model'', ''7'')],
     ks_Annotations = [(''url'', ''http://mr'')], ks_Finalizers = fs, ks_Deleting = deleting, ks_URL = Some ''http://m'', ks_Model = Some None\<rparr>"

lemma sample_laws:
  "cluster_laws sample_cluster" "finalizer_laws sample_cluster f" "registry_laws sample_registry"
proof -
  show "cluster_laws sample_cluster" by (simp add: cluster_laws_def sample_cluster_def)
  show "finalizer_laws sample_cluster f" by (simp add: finalizer_laws_def sample_cluster_def)
  show "registry_laws sample_registry"
    unfolding registry_laws_def
    by (intro conjI allI impI) (auto simp: sample_registry_def Let_def split: option.splits if_splits)
qed

abbreviation sample_reconcile where
  "sample_reconcile \<equiv> Reconcile sample_controller sample_cluster (\<lambda>_. sample_registry) ''a'' ''m''"


theorem finalizer_before_registry_witness:
  "\<exists>isvc' isvc'' k'. kc_AddFinalizer sample_cluster (sample_service [] False) ''fin'' = (isvc', True)
     \<and> kc_Update sample_cluster isvc' (sample_service [] False) = (Inr isvc'', k')"
proof -
  let ?o = "sample_service [] False"
  have "snd (snd (sample_reconcile ?o (None, None))) \<noteq> (None, None)" by code_simp
  from finalizer_before_registry [OF this] show ?thesis
    by (auto simp: sample_cluster_def sample_service_def sample_controller_def)
qed

theorem reconcile_settles_witness:
  "\<exists>k1 s1 k2 s2. sample_reconcile (sample_service [] False) (None, None) = (Returned False, k1, s1)
     \<and> sample_reconcile k1 s1 = (Returned False, k2, s2) \<and> sample_reconcile k2 s2 = (Returned False, k2, s2)"
proof -
  let ?o = "sample_service [] False"
  have "fst (sample_reconcile ?o (None, None)) = Returned False" by code_simp
  then obtain k1 s1 where one: "sample_reconcile ?o (None, None) = (Returned False, k1, s1)"
    by (metis prod.collapse)
  have "fst (case snd (sample_reconcile ?o (None, None)) of (k, s) \<Rightarrow> sample_reconcile k s) = Returned False" by code_simp
  then obtain k2 s2 where two: "sample_reconcile k1 s1 = (Returned False, k2, s2)" unfolding one by (simp, metis prod.collapse)
  have "live_service sample_cluster ''a'' ''m'' ?o ?o" by (simp add: live_service_def sample_cluster_def sample_service_def)
  then have "sample_reconcile k2 s2 = (Returned False, k2, s2)"
    by (rule reconcile_settles [OF sample_laws _ _ one two]) (simp add: sample_service_def sample_controller_def)
  with one two show ?thesis by blast
qed

end
