(* ===== verification/Runtime_Validation.thy ===== *)
theory Runtime_Validation
  imports Converter_Values "HOL-Library.List_Lexorder" "HOL-Library.Char_ord"
begin

section \<open>Validation of serving runtimes\<close>

text \<open>
  \<open>catalog/internal/catalog/serving_runtimecatalog/validation.go\<close>, \<open>yaml_structure.go\<close> and \<open>yaml_provider.go\<close>: the
  checks of a file of serving runtimes and the report of what is wrong with it. A check is the list of the issues it
  adds, in order, each with runtime, version, field and reason; \<open>report\<close> adds them to the errors. Strings are their
  bytes. The parsers of URLs, times, JSON, YAML, image references and quantities, and the name checks of Kubernetes,
  are arguments (\<open>checks\<close>).
\<close>

subsection \<open>Errors\<close>

definition maxReadmeBytes :: int where "maxReadmeBytes = 65536"
definition maxLogoBytes :: int where "maxLogoBytes = 262144"
definition maxURLBytes :: int where "maxURLBytes = 2048"
definition maxTemplateBytes :: int where "maxTemplateBytes = 262144"
definition maxStringBytes :: int where "maxStringBytes = 4096"
definition maxRuntimeFamilies :: int where "maxRuntimeFamilies = 256"
definition maxRuntimeVersions :: int where "maxRuntimeVersions = 64"
definition maxRuntimeListItems :: int where "maxRuntimeListItems = 128"
definition maxValidationIssues :: int where "maxValidationIssues = 100"
definition maxValidationTextBytes :: int where "maxValidationTextBytes = 16384"

abbreviation bytes :: "string \<Rightarrow> int" where "bytes s \<equiv> int (length s)"

record validation_issue =
  vi_runtime :: string
  vi_version :: string
  vi_field :: string
  vi_reason :: string

record validation_errors =
  ve_issues :: "validation_issue list"
  ve_total :: int

definition no_errors :: validation_errors where
  "no_errors = \<lparr>ve_issues = [], ve_total = 0\<rparr>"

text \<open>\<open>utf8.RuneStart\<close>, and the cut of a text at a rune.\<close>

definition rune_start :: "char \<Rightarrow> bool" where
  "rune_start c = ((of_char c :: nat) < 128 \<or> 192 \<le> (of_char c :: nat))"

fun rune_end :: "string \<Rightarrow> nat \<Rightarrow> nat" where
  "rune_end s 0 = 0"
| "rune_end s (Suc n) = (if rune_start (s ! Suc n) then Suc n else rune_end s n)"

definition escape_lines :: "string \<Rightarrow> string" where
  "escape_lines s = concat (map (\<lambda>c. if c = CHR 0x0A then [CHR 0x5C, CHR ''n''] else if c = CHR 0x0D then [CHR 0x5C, CHR ''r''] else [c]) s)"

definition diagnosticText :: "string \<Rightarrow> nat \<Rightarrow> string" where
  "diagnosticText s limit =
     (let value = escape_lines s
      in if length value \<le> limit then value else take (rune_end value limit) value @ ''...'')"

definition runtimeSourceStatusError :: "string \<Rightarrow> string" where
  "runtimeSourceStatusError message =
     (if bytes message \<le> maxValidationTextBytes then message
      else take (rune_end message (nat (maxValidationTextBytes - 15))) message @ ''... (truncated)'')"

type_synonym issue = "string \<times> string \<times> string \<times> string"

fun add_issue :: "issue \<Rightarrow> validation_errors \<Rightarrow> validation_errors" where
  "add_issue (runtime, version, field, reason) e =
     (let e1 = e\<lparr>ve_total := ve_total e + 1\<rparr>
      in if int (length (ve_issues e)) < maxValidationIssues then
           e1\<lparr>ve_issues := ve_issues e @ [\<lparr>vi_runtime = diagnosticText runtime 256, vi_version = diagnosticText version 256,
              vi_field = diagnosticText field 512, vi_reason = reason\<rparr>]\<rparr>
         else e1)"

definition report :: "issue list \<Rightarrow> validation_errors \<Rightarrow> validation_errors" where
  "report issues e = fold add_issue issues e"

text \<open>\<open>err\<close> is nil exactly if nothing was added; \<open>appendIssues\<close> stops at the limit.\<close>

definition rejected :: "validation_errors \<Rightarrow> bool" where
  "rejected e = (ve_total e \<noteq> 0)"

fun append_some :: "validation_issue list \<Rightarrow> validation_issue list \<Rightarrow> validation_issue list" where
  "append_some shown [] = shown"
| "append_some shown (i # is) = (if int (length shown) = maxValidationIssues then shown else append_some (shown @ [i]) is)"

definition appendIssues :: "validation_errors \<Rightarrow> validation_errors \<Rightarrow> validation_errors" where
  "appendIssues other e = \<lparr>ve_issues = append_some (ve_issues e) (ve_issues other), ve_total = ve_total e + ve_total other\<rparr>"

text \<open>\<open>Error\<close>: the issues that fit, and how many are left out. \<open>quoted\<close> is the verb \<open>%q\<close>.\<close>

definition issue_line :: "(string \<Rightarrow> string) \<Rightarrow> validation_issue \<Rightarrow> string" where
  "issue_line quoted i = ''; field='' @ vi_field i
     @ (if vi_runtime i \<noteq> [] then '' runtime='' @ quoted (vi_runtime i) else [])
     @ (if vi_version i \<noteq> [] then '' version='' @ quoted (vi_version i) else [])
     @ '': '' @ vi_reason i"

fun write_issues :: "(string \<Rightarrow> string) \<Rightarrow> validation_issue list \<Rightarrow> string \<Rightarrow> int \<Rightarrow> string \<times> int" where
  "write_issues quoted [] b shown = (b, shown)"
| "write_issues quoted (i # is) b shown =
     (if shown = maxValidationIssues then (b, shown)
      else let line = issue_line quoted i
           in if bytes b + bytes line + 64 > maxValidationTextBytes then (b, shown)
              else write_issues quoted is (b @ line) (shown + 1))"

definition error_text :: "(string \<Rightarrow> string) \<Rightarrow> validation_errors \<Rightarrow> string" where
  "error_text quoted e =
     (let (b, shown) = write_issues quoted (ve_issues e) ''invalid serving_runtime data'' 0
      in if shown < ve_total e then b @ ''; '' @ itoa (ve_total e - shown) @ '' more error(s) omitted'' else b)"

subsection \<open>Data\<close>

record model_format =
  mf_Name :: string
  mf_Version :: "string option"
  mf_AutoSelect :: "bool option"
  mf_Priority :: "int option"

record capabilities =
  cap_RequiresGPU :: "bool option"
  cap_SupportedAccelerators :: "string list"
  cap_MultiModel :: "bool option"

record runtime_env =
  ev_Name :: string
  ev_Description :: "string option"
  ev_Required :: "bool option"
  ev_DefaultValue :: "string option"
  ev_Secret :: "bool option"

record resource_tier =
  rt_Cpu :: "string option"
  rt_Memory :: "string option"
  rt_Accelerator :: "(string \<times> string) list option"

record resource_recommendation =
  rr_Minimal :: "resource_tier option"
  rr_Recommended :: "resource_tier option"
  rr_High :: "resource_tier option"

record runtime_version =
  yv_Version :: string
  yv_Image :: string
  yv_SupportLevel :: "string option"
  yv_MinimumRHOAIVersion :: "string option"
  yv_SupportedModelFormats :: "model_format list"
  yv_ProtocolVersions :: "string list"
  yv_RecommendedResources :: "resource_recommendation option"
  yv_DefaultArgs :: "string list"
  yv_Env :: "runtime_env list"
  yv_ServingRuntimeTemplate :: "string option"
  yv_LlmInferenceServiceConfig :: "string option"
  yv_Deprecated :: "bool option"
  yv_PublishedDate :: "string option"
  yv_ExternalID :: "string option"

text \<open>A value of a custom property, and the value with the problem found while it was decoded.\<close>

record catalog_metadata =
  cmv_String :: "string option"
  cmv_Bool :: "bool option"
  cmv_Int :: "string option"
  cmv_Double :: "float64 option"
  cmv_Proto :: "(string \<times> string) option"
  cmv_Struct :: "string option"

record yaml_metadata =
  ym_Value :: catalog_metadata
  ym_Problem :: string

record serving_runtime =
  yr_Name :: string
  yr_DisplayName :: "string option"
  yr_Provider :: "string option"
  yr_Description :: "string option"
  yr_Readme :: "string option"
  yr_Logo :: "string option"
  yr_Tags :: "string list"
  yr_License :: "string option"
  yr_LicenseLink :: "string option"
  yr_DocumentationURL :: "string option"
  yr_RepositoryURL :: "string option"
  yr_SupportedModelFormats :: "model_format list"
  yr_Capabilities :: "capabilities option"
  yr_PublishedDate :: "string option"
  yr_LastUpdated :: "string option"
  yr_ExternalID :: "string option"
  yr_CustomProperties :: "(string \<times> yaml_metadata) list option"
  yr_Versions :: "runtime_version list"

record template_container =
  tc_Name :: string
  tc_Image :: string
  tc_Env :: "(string \<times> string option) list"

record template_document =
  td_APIVersion :: string
  td_Kind :: string
  td_Containers :: "template_container list"

text \<open>
  The parsers: a URL as scheme, host and whether it has a user; an image as its tag and whether it has a digest; a
  quantity as its sign and whether it is whole; the wrapper of a template as version, kind and objects.
\<close>

record checks =
  ck_URL :: "string \<Rightarrow> (string \<times> string \<times> bool) option"
  ck_Time :: "string \<Rightarrow> bool"
  ck_Image :: "string \<Rightarrow> (string option \<times> bool) option"
  ck_Quantity :: "string \<Rightarrow> (int \<times> bool) option"
  ck_QualifiedName :: "string \<Rightarrow> bool"
  ck_EnvVarName :: "string \<Rightarrow> bool"
  ck_Json :: "string \<Rightarrow> bool"
  ck_Wrapper :: "string \<Rightarrow> (string \<times> string \<times> string list) option"
  ck_Header :: "string \<Rightarrow> string option"
  ck_Document :: "string \<Rightarrow> template_document option"
  ck_Unescape :: "string \<Rightarrow> string option"
  ck_RawBase64 :: "string \<Rightarrow> string option"
  ck_quoted :: "string \<Rightarrow> string"

subsection \<open>Values\<close>

definition itemized :: "('a \<Rightarrow> 'k) \<Rightarrow> 'a list \<Rightarrow> (nat \<times> 'a \<times> bool) list" where
  "itemized key xs = map (\<lambda>i. (i, xs ! i, key (xs ! i) \<in> set (map key (take i xs)))) [0..<length xs]"

definition item_path :: "string \<Rightarrow> nat \<Rightarrow> string" where
  "item_path field i = field @ ''['' @ itoa (int i) @ '']''"

definition at_most :: "int \<Rightarrow> string \<Rightarrow> string" where
  "at_most n what = ''must have at most '' @ itoa n @ what"

definition validateString :: "string \<Rightarrow> string \<Rightarrow> string \<Rightarrow> string \<Rightarrow> int \<Rightarrow> issue list" where
  "validateString runtime version field value limit =
     (if bytes value > limit then [(runtime, version, field, ''must be at most '' @ itoa limit @ '' bytes'')] else [])"

definition validateOptionalString :: "string \<Rightarrow> string \<Rightarrow> string \<Rightarrow> string option \<Rightarrow> int \<Rightarrow> issue list" where
  "validateOptionalString runtime version field value limit =
     (case value of None \<Rightarrow> [] | Some v \<Rightarrow> validateString runtime version field v limit)"

definition validateIdentity :: "string \<Rightarrow> string \<Rightarrow> string \<Rightarrow> string \<Rightarrow> issue list" where
  "validateIdentity runtime version field value =
     (if trim_space value = [] then [(runtime, version, field, ''required value is missing'')] else [])
     @ (if CHR '':'' \<in> set value then [(runtime, version, field, ''must not contain '' @ [CHR 0x27, CHR '':'', CHR 0x27])] else [])
     @ validateString runtime version field value maxStringBytes"

definition too_many :: "string \<Rightarrow> string \<Rightarrow> string \<Rightarrow> 'a list \<Rightarrow> issue list" where
  "too_many runtime version field xs =
     (if int (length xs) > maxRuntimeListItems then [(runtime, version, field, at_most maxRuntimeListItems '' items'')] else [])"

definition validateStringList :: "string \<Rightarrow> string \<Rightarrow> string \<Rightarrow> string list \<Rightarrow> bool \<Rightarrow> issue list" where
  "validateStringList runtime version field values unique =
     too_many runtime version field values
     @ concat (map (\<lambda>(i, value, dup). let item = item_path field i in
         (if trim_space value = [] then [(runtime, version, item, ''must not be empty'')] else [])
         @ validateString runtime version item value maxStringBytes
         @ (if unique \<and> dup then [(runtime, version, item, ''duplicate item'')] else [])) (itemized id values))"

definition format_key :: "model_format \<Rightarrow> string" where
  "format_key f = mf_Name f @ (case mf_Version f of None \<Rightarrow> [] | Some v \<Rightarrow> CHR 0x00 # v)"

definition validateModelFormats :: "string \<Rightarrow> string \<Rightarrow> string \<Rightarrow> model_format list \<Rightarrow> issue list" where
  "validateModelFormats runtime version field formats =
     too_many runtime version field formats
     @ concat (map (\<lambda>(i, f, dup). let item = item_path field i in
         (if trim_space (mf_Name f) = [] then [(runtime, version, item @ ''.name'', ''required format name is missing'')] else [])
         @ validateString runtime version (item @ ''.name'') (mf_Name f) maxStringBytes
         @ validateOptionalString runtime version (item @ ''.version'') (mf_Version f) maxStringBytes
         @ (if dup then [(runtime, version, item @ ''.name'', ''duplicate model format and version'')] else []))
         (itemized format_key formats))"

definition qualified_accelerator :: "checks \<Rightarrow> string \<Rightarrow> bool" where
  "qualified_accelerator c name = (CHR ''/'' \<in> set name \<and> ck_QualifiedName c name)"

definition validateAccelerators :: "checks \<Rightarrow> string \<Rightarrow> string \<Rightarrow> string list \<Rightarrow> issue list" where
  "validateAccelerators c runtime field accelerators =
     validateStringList runtime [] field accelerators True
     @ concat (map (\<lambda>(i, name, _). if qualified_accelerator c name then []
         else [(runtime, [], item_path field i, ''must be a qualified accelerator resource name'')]) (itemized id accelerators))"

definition validateEnv :: "checks \<Rightarrow> string \<Rightarrow> string \<Rightarrow> string \<Rightarrow> runtime_env list \<Rightarrow> issue list" where
  "validateEnv c runtime version field env =
     too_many runtime version field env
     @ concat (map (\<lambda>(i, v, dup). let item = item_path field i in
         (if ev_Name v = [] \<or> \<not> ck_EnvVarName c (ev_Name v)
            then [(runtime, version, item @ ''.name'', ''invalid environment variable name'')] else [])
         @ validateString runtime version (item @ ''.name'') (ev_Name v) maxStringBytes
         @ (if dup then [(runtime, version, item @ ''.name'', ''duplicate environment variable'')] else [])
         @ validateOptionalString runtime version (item @ ''.description'') (ev_Description v) maxStringBytes
         @ (case ev_DefaultValue v of
              None \<Rightarrow> []
            | Some d \<Rightarrow> validateString runtime version (item @ ''.defaultValue'') d maxStringBytes
                @ (if ev_Secret v = Some True then [(runtime, version, item @ ''.defaultValue'', ''must be absent when secret=true'')] else [])
                @ (if ev_Required v = Some True then [(runtime, version, item @ ''.defaultValue'', ''must be absent when required=true'')] else [])))
         (itemized ev_Name env))"

definition validateQuantity :: "checks \<Rightarrow> string \<Rightarrow> string \<Rightarrow> string \<Rightarrow> string \<Rightarrow> issue list" where
  "validateQuantity c runtime version field value =
     validateString runtime version field value maxStringBytes
     @ (case ck_Quantity c value of
          Some (sign, whole) \<Rightarrow> if sign > 0 then [] else [(runtime, version, field, ''must be a positive Kubernetes resource quantity'')]
        | None \<Rightarrow> [(runtime, version, field, ''must be a positive Kubernetes resource quantity'')])"

definition validateTier :: "checks \<Rightarrow> string \<Rightarrow> string \<Rightarrow> string \<Rightarrow> resource_tier \<Rightarrow> issue list" where
  "validateTier c runtime version path tier =
     (case rt_Cpu tier of None \<Rightarrow> [] | Some q \<Rightarrow> validateQuantity c runtime version (path @ ''.cpu'') q)
     @ (case rt_Memory tier of None \<Rightarrow> [] | Some q \<Rightarrow> validateQuantity c runtime version (path @ ''.memory'') q)
     @ (case rt_Accelerator tier of
          None \<Rightarrow> []
        | Some m \<Rightarrow> too_many runtime version (path @ ''.accelerator'') m
            @ concat (map (\<lambda>key. let item = path @ ''.accelerator['' @ ck_quoted c key @ '']''; amount = str_or_empty (map_of m key) in
                (if qualified_accelerator c key then [] else [(runtime, version, item, ''must be a qualified accelerator resource name'')])
                @ validateQuantity c runtime version item amount
                @ (case ck_Quantity c amount of
                     Some (sign, False) \<Rightarrow> [(runtime, version, item, ''accelerator quantity must be a whole number'')]
                   | _ \<Rightarrow> [])) (sort (map fst m))))"

definition validateResources :: "checks \<Rightarrow> string \<Rightarrow> string \<Rightarrow> string \<Rightarrow> resource_recommendation option \<Rightarrow> issue list" where
  "validateResources c runtime version field resources =
     (case resources of
        None \<Rightarrow> []
      | Some rr \<Rightarrow> concat (map (\<lambda>(name, tier). case tier of None \<Rightarrow> [] | Some t \<Rightarrow> validateTier c runtime version (field @ ''.'' @ name) t)
          [(''minimal'', rr_Minimal rr), (''recommended'', rr_Recommended rr), (''high'', rr_High rr)]))"

definition reservedServingRuntimeProperties :: "string list" where
  "reservedServingRuntimeProperties = [''source_id'', ''base_name'']"

definition validateCustomProperties :: "checks \<Rightarrow> serving_runtime \<Rightarrow> string \<Rightarrow> issue list" where
  "validateCustomProperties c r field =
     (case yr_CustomProperties r of
        None \<Rightarrow> []
      | Some m \<Rightarrow>
          (let add = (\<lambda>item reason. [(yr_Name r, [], item, reason)]); short = (\<lambda>item v. validateString (yr_Name r) [] item v maxStringBytes)
           in too_many (yr_Name r) [] (field @ ''.customProperties'') m
              @ concat (map (\<lambda>key. let item = field @ ''.customProperties['' @ ck_quoted c key @ '']'' in
                  (if key = [] \<or> bytes key > 255 then add item ''property name must be 1 to 255 bytes'' else [])
                  @ (if key \<in> set reservedServingRuntimeProperties then add item ''property name is reserved'' else [])
                  @ (case map_of m key of
                       None \<Rightarrow> []
                     | Some w \<Rightarrow>
                         if ym_Problem w \<noteq> [] then add item (ym_Problem w)
                         else (case cmv_String (ym_Value w) of None \<Rightarrow> [] | Some v \<Rightarrow> short (item @ ''.string_value'') v)
                           @ (case cmv_Int (ym_Value w) of
                                None \<Rightarrow> []
                              | Some v \<Rightarrow> short (item @ ''.int_value'') v
                                  @ (if isl (parse_int 32 v) then add (item @ ''.int_value'') ''must be a valid int32'' else []))
                           @ (case cmv_Proto (ym_Value w) of
                                None \<Rightarrow> []
                              | Some (t, v) \<Rightarrow> short (item @ ''.type'') t @ short (item @ ''.proto_value'') v
                                  @ (if t = [] then add (item @ ''.type'') ''proto type is required'' else [])
                                  @ (if b64_decode v = None then add (item @ ''.proto_value'') ''must be base64 encoded'' else []))
                           @ (case cmv_Struct (ym_Value w) of
                                None \<Rightarrow> []
                              | Some v \<Rightarrow> short (item @ ''.struct_value'') v
                                  @ (if b64_decode v = None then add (item @ ''.struct_value'') ''must be base64 encoded'' else []))))
                  (sort (map fst m)))))"

definition validateTimestamp :: "checks \<Rightarrow> string \<Rightarrow> string \<Rightarrow> string \<Rightarrow> string option \<Rightarrow> issue list" where
  "validateTimestamp c runtime version field value =
     (case value of
        None \<Rightarrow> []
      | Some v \<Rightarrow> validateString runtime version field v maxStringBytes
          @ (if ck_Time c v then [] else [(runtime, version, field, ''must be an RFC3339 timestamp'')]))"

definition validateHTTPURL :: "checks \<Rightarrow> string \<Rightarrow> string \<Rightarrow> string \<Rightarrow> string \<Rightarrow> int \<Rightarrow> issue list" where
  "validateHTTPURL c runtime version field value limit =
     validateString runtime version field value limit
     @ (let bad = [(runtime, version, field, ''must be an absolute HTTP(S) URL without credentials'')]
        in case ck_URL c value of
             None \<Rightarrow> bad
           | Some (scheme, host, user) \<Rightarrow> if scheme \<notin> {''http'', ''https''} \<or> host = [] \<or> user then bad else [])"

definition validateOptionalURL :: "checks \<Rightarrow> string \<Rightarrow> string \<Rightarrow> string \<Rightarrow> string option \<Rightarrow> issue list" where
  "validateOptionalURL c runtime version field value =
     (case value of None \<Rightarrow> [] | Some v \<Rightarrow> validateHTTPURL c runtime version field v maxURLBytes)"

subsection \<open>Logos and images\<close>

definition allowed_logos :: "string list" where
  "allowed_logos = [''image/png'', ''image/jpeg'', ''image/gif'', ''image/webp'', ''image/svg+xml'', ''image/x-icon'', ''image/vnd.microsoft.icon'']"

definition decoded_logo :: "checks \<Rightarrow> bool \<Rightarrow> string \<Rightarrow> string option" where
  "decoded_logo c base64 payload =
     (if base64 then (case b64_decode payload of Some d \<Rightarrow> Some d | None \<Rightarrow> ck_RawBase64 c payload) else ck_Unescape c payload)"

definition validateLogo :: "checks \<Rightarrow> string \<Rightarrow> string \<Rightarrow> string \<Rightarrow> issue list" where
  "validateLogo c runtime field value =
     (let add = (\<lambda>reason. [(runtime, [], field, reason)]);
          large = add (''decoded logo must be at most '' @ itoa maxLogoBytes @ '' bytes'')
      in if \<not> hasPrefix (to_lower value) ''data:'' then validateHTTPURL c runtime [] field value maxURLBytes
         else case cut_at (CHR '','') (drop 5 value) of
             None \<Rightarrow> add ''malformed data URI''
           | Some (meta, payload) \<Rightarrow>
               (let parts = split_char (CHR '';'') meta; options = tl parts; base64 = (''base64'' \<in> set options)
                in (if to_lower (hd parts) \<in> set allowed_logos then [] else add ''unsupported logo media type'')
                   @ (if \<exists>p \<in> set options. p \<noteq> ''base64'' \<and> to_lower p = ''base64'' then add ''unsupported logo data URI encoding''
                      else if base64 \<and> bytes payload div 4 * 3 > maxLogoBytes + 2 then large
                      else if \<not> base64 \<and> bytes payload > maxLogoBytes then large
                      else case decoded_logo c base64 payload of
                          None \<Rightarrow> add ''invalid logo data URI encoding''
                        | Some d \<Rightarrow> if bytes d > maxLogoBytes then large else [])))"

definition validateImageReference :: "checks \<Rightarrow> string \<Rightarrow> string option" where
  "validateImageReference c value =
     (case cut_at (CHR ''/'') value of
        None \<Rightarrow> Some ''must include a registry host''
      | Some (first, _) \<Rightarrow>
          if CHR ''.'' \<notin> set first \<and> CHR '':'' \<notin> set first \<and> first \<noteq> ''localhost'' then Some ''must include a registry host''
          else case ck_Image c value of
              None \<Rightarrow> Some ''invalid container image reference''
            | Some (tag, digested) \<Rightarrow>
                if tag = None \<and> \<not> digested then Some ''image must use a fixed tag or digest''
                else if (case tag of None \<Rightarrow> False | Some t \<Rightarrow> to_lower t = ''latest'') then Some ''image tag must not be latest''
                else None)"

definition validateImage :: "checks \<Rightarrow> string \<Rightarrow> string \<Rightarrow> string \<Rightarrow> string \<Rightarrow> issue list" where
  "validateImage c runtime version field value =
     (case validateImageReference c value of None \<Rightarrow> [] | Some err \<Rightarrow> [(runtime, version, field, err)])"

subsection \<open>Templates\<close>

definition looksLikeSecretName :: "string \<Rightarrow> bool" where
  "looksLikeSecretName name =
     (let lower = to_lower name;
          parts = split_char (CHR ''_'') (map (\<lambda>c. if c = CHR ''-'' \<or> c = CHR ''.'' then CHR ''_'' else c) lower)
      in (\<exists>p \<in> set parts. p \<in> {''token'', ''secret'', ''password'', ''passwd'', ''apikey'', ''credential'', ''credentials''})
         \<or> contains_str lower ''api_key'')"

definition unwrapServingRuntimeTemplate ::
  "checks \<Rightarrow> string \<Rightarrow> string \<Rightarrow> string \<Rightarrow> string \<Rightarrow> issue list \<times> (string \<times> string) option" where
  "unwrapServingRuntimeTemplate c runtime version field value =
     (case ck_Wrapper c value of
        None \<Rightarrow> ([(runtime, version, field, ''must be a JSON-encoded ServingRuntime or Template object'')], None)
      | Some (apiVersion, kind, objects) \<Rightarrow>
          if kind \<noteq> ''Template'' then ([], Some (value, field))
          else
            (let indexed = map (\<lambda>i. (i, objects ! i)) [0..<length objects];
                 runtimes = filter (\<lambda>(i, x). ck_Header c x = Some ''ServingRuntime'') indexed;
                 issues = (if apiVersion \<noteq> ''template.openshift.io/v1''
                     then [(runtime, version, field @ ''.apiVersion'', ''unsupported OpenShift Template API version'')] else [])
                   @ concat (map (\<lambda>(i, x). if ck_Header c x = None
                       then [(runtime, version, item_path (field @ ''.objects'') i, ''must be a JSON object'')] else []) indexed)
             in case runtimes of
                  [(i, x)] \<Rightarrow> (issues, Some (x, item_path (field @ ''.objects'') i))
                | _ \<Rightarrow> (issues @ [(runtime, version, field @ ''.objects'', ''must contain exactly one ServingRuntime'')], None)))"

definition validateContainerEnv :: "checks \<Rightarrow> string \<Rightarrow> string \<Rightarrow> string \<Rightarrow> string list \<Rightarrow> (string \<times> string option) list \<Rightarrow> issue list" where
  "validateContainerEnv c runtime version path secrets env =
     too_many runtime version (path @ ''.env'') env
     @ concat (map (\<lambda>(j, (name, value), dup). let item = item_path (path @ ''.env'') j in
         validateString runtime version (item @ ''.name'') name maxStringBytes
         @ (if name = [] \<or> \<not> ck_EnvVarName c name then [(runtime, version, item @ ''.name'', ''invalid environment variable name'')] else [])
         @ (if dup then [(runtime, version, item @ ''.name'', ''duplicate environment variable'')] else [])
         @ validateOptionalString runtime version (item @ ''.value'') value maxStringBytes
         @ (if value \<noteq> None \<and> (name \<in> set secrets \<or> looksLikeSecretName name)
              then [(runtime, version, item @ ''.value'', ''literal value is not allowed for a secret environment variable'')] else []))
         (itemized fst env))"

definition validateContainers ::
  "checks \<Rightarrow> string \<Rightarrow> string \<Rightarrow> string \<Rightarrow> string list \<Rightarrow> template_container list \<Rightarrow> issue list" where
  "validateContainers c runtime version field secrets containers =
     concat (map (\<lambda>(i, k, dup). let path = item_path (field @ ''.spec.containers'') i in
         validateString runtime version (path @ ''.name'') (tc_Name k) maxStringBytes
         @ validateString runtime version (path @ ''.image'') (tc_Image k) maxStringBytes
         @ (if tc_Name k = [] then [(runtime, version, path @ ''.name'', ''container name is required'')] else [])
         @ (if tc_Name k \<noteq> [] \<and> dup then [(runtime, version, path @ ''.name'', ''duplicate container name'')] else [])
         @ validateImage c runtime version (path @ ''.image'') (tc_Image k)
         @ validateContainerEnv c runtime version path secrets (tc_Env k)) (itemized tc_Name containers))"

definition secret_names :: "runtime_env list \<Rightarrow> string list" where
  "secret_names env = map ev_Name (filter (\<lambda>v. ev_Secret v = Some True) env)"

definition validateTemplate :: "checks \<Rightarrow> string \<Rightarrow> string \<Rightarrow> string \<Rightarrow> string \<Rightarrow> string \<Rightarrow> runtime_env list \<Rightarrow> issue list" where
  "validateTemplate c runtime version field0 value img declaredEnv =
     (if bytes value > maxTemplateBytes then []
      else case unwrapServingRuntimeTemplate c runtime version field0 value of
          (issues, None) \<Rightarrow> issues
        | (issues, Some (servingRuntime, field)) \<Rightarrow> issues @
            (case ck_Document c servingRuntime of
               None \<Rightarrow> [(runtime, version, field, ''must be a JSON-encoded ServingRuntime object'')]
             | Some d \<Rightarrow>
                 (if td_APIVersion d \<noteq> ''serving.kserve.io/v1alpha1'' then [(runtime, version, field @ ''.apiVersion'', ''unsupported KServe API version'')] else [])
                 @ (if td_Kind d \<noteq> ''ServingRuntime'' then [(runtime, version, field @ ''.kind'', ''must be ServingRuntime'')] else [])
                 @ (if td_Containers d = [] then [(runtime, version, field @ ''.spec.containers'', ''at least one container is required'')] else [])
                 @ too_many runtime version (field @ ''.spec.containers'') (td_Containers d)
                 @ validateContainers c runtime version field (secret_names declaredEnv) (td_Containers d)
                 @ (if td_Containers d \<noteq> [] \<and> img \<notin> tc_Image ` set (td_Containers d)
                      then [(runtime, version, field @ ''.spec.containers'', ''at least one container image must match version.image'')] else [])))"

subsection \<open>Versions and families\<close>

text \<open>The pattern of a release: a version of two or three numbers, a prerelease and a build.\<close>

definition is_number :: "string \<Rightarrow> bool" where
  "is_number s = (s \<noteq> [] \<and> list_all is_digit s)"

definition is_identifier :: "string \<Rightarrow> bool" where
  "is_identifier s = (s \<noteq> [] \<and> list_all (\<lambda>ch. is_digit ch \<or> ch = CHR ''-''
     \<or> (65 \<le> (of_char ch :: nat) \<and> (of_char ch :: nat) \<le> 90) \<or> (97 \<le> (of_char ch :: nat) \<and> (of_char ch :: nat) \<le> 122)) s)"

definition rhoaiReleasePattern :: "string \<Rightarrow> bool" where
  "rhoaiReleasePattern s0 =
     (let s = (if hasPrefix s0 ''v'' then drop 1 s0 else s0);
          (main, build) = (case cut_at (CHR ''+'') s of None \<Rightarrow> (s, None) | Some (a, b) \<Rightarrow> (a, Some b));
          (core, pre) = (case cut_at (CHR ''-'') main of None \<Rightarrow> (main, None) | Some (a, b) \<Rightarrow> (a, Some b));
          identifiers = (\<lambda>t. list_all is_identifier (split_char (CHR ''.'') t));
          numbers = split_char (CHR ''.'') core
      in length numbers \<in> {2, 3} \<and> list_all is_number numbers
         \<and> (case pre of None \<Rightarrow> True | Some t \<Rightarrow> identifiers t) \<and> (case build of None \<Rightarrow> True | Some t \<Rightarrow> identifiers t))"

definition support_levels :: "string list" where
  "support_levels = [''supported'', ''techPreview'', ''developerPreview'', ''community'']"

definition validateRuntimeVersion :: "checks \<Rightarrow> string \<Rightarrow> runtime_version \<Rightarrow> string \<Rightarrow> issue list" where
  "validateRuntimeVersion c runtime v path =
     (let name = yv_Version v; add = (\<lambda>field reason. [(runtime, name, path @ field, reason)])
      in (if trim_space (yv_Image v) = [] then add ''.image'' ''required image is missing''
          else validateString runtime name (path @ ''.image'') (yv_Image v) maxStringBytes
            @ validateImage c runtime name (path @ ''.image'') (yv_Image v))
         @ (case yv_SupportLevel v of
              None \<Rightarrow> []
            | Some l \<Rightarrow> validateString runtime name (path @ ''.supportLevel'') l maxStringBytes
                @ (if l \<in> set support_levels then [] else add ''.supportLevel'' ''unsupported support level''))
         @ (case yv_MinimumRHOAIVersion v of
              None \<Rightarrow> []
            | Some r \<Rightarrow> if rhoaiReleasePattern r then [] else add ''.minimumRHOAIVersion'' ''must be a release version such as 3.6 or v3.6.0-ea.1'')
         @ validateModelFormats runtime name (path @ ''.supportedModelFormats'') (yv_SupportedModelFormats v)
         @ too_many runtime name (path @ ''.protocolVersions'') (yv_ProtocolVersions v)
         @ concat (map (\<lambda>(i, p, dup). let field = item_path (path @ ''.protocolVersions'') i in
             validateString runtime name field p maxStringBytes
             @ (if p \<in> {''v1'', ''v2'', ''grpc-v2''} then [] else [(runtime, name, field, ''unsupported protocol version'')])
             @ (if dup then [(runtime, name, field, ''duplicate protocol version'')] else [])) (itemized id (yv_ProtocolVersions v)))
         @ validateStringList runtime name (path @ ''.defaultArgs'') (yv_DefaultArgs v) False
         @ validateEnv c runtime name (path @ ''.env'') (yv_Env v)
         @ validateResources c runtime name (path @ ''.recommendedResources'') (yv_RecommendedResources v)
         @ validateOptionalString runtime name (path @ ''.externalId'') (yv_ExternalID v) maxStringBytes
         @ validateTimestamp c runtime name (path @ ''.publishedDate'') (yv_PublishedDate v)
         @ (case yv_ServingRuntimeTemplate v of
              None \<Rightarrow> []
            | Some t \<Rightarrow> validateString runtime name (path @ ''.servingRuntimeTemplate'') t maxTemplateBytes
                @ validateTemplate c runtime name (path @ ''.servingRuntimeTemplate'') t (yv_Image v) (yv_Env v))
         @ (case yv_LlmInferenceServiceConfig v of
              None \<Rightarrow> []
            | Some t \<Rightarrow> validateString runtime name (path @ ''.llmInferenceServiceConfig'') t maxTemplateBytes
                @ (if ck_Json c t then [] else add ''.llmInferenceServiceConfig'' ''must be valid JSON'')))"

definition validateVersions :: "checks \<Rightarrow> serving_runtime \<Rightarrow> string \<Rightarrow> issue list" where
  "validateVersions c r path =
     concat (map (\<lambda>(i, v, dup). let name = yr_Name r; versionPath = item_path (path @ ''.versions'') i in
         validateIdentity name (yv_Version v) (versionPath @ ''.version'') (yv_Version v)
         @ (if yv_Version v \<noteq> [] \<and> dup then [(name, yv_Version v, versionPath @ ''.version'', ''duplicate version'')] else [])
         @ validateRuntimeVersion c name v versionPath
         @ (if yr_SupportedModelFormats r \<noteq> [] then
              concat (map (\<lambda>(j, f, _). if mf_Name f \<noteq> [] \<and> mf_Name f \<notin> mf_Name ` set (yr_SupportedModelFormats r)
                then [(name, yv_Version v, item_path (versionPath @ ''.supportedModelFormats'') j @ ''.name'',
                       ''version format is not listed by the runtime family'')]
                else []) (itemized id (yv_SupportedModelFormats v)))
            else [])) (itemized yv_Version (yr_Versions r)))"

definition validateRuntime :: "checks \<Rightarrow> serving_runtime \<Rightarrow> string \<Rightarrow> issue list" where
  "validateRuntime c r path =
     (let name = yr_Name r; text = (\<lambda>field value limit. validateOptionalString name [] (path @ field) value limit)
      in text ''.displayName'' (yr_DisplayName r) maxStringBytes @ text ''.provider'' (yr_Provider r) maxStringBytes
         @ text ''.description'' (yr_Description r) maxStringBytes @ text ''.externalId'' (yr_ExternalID r) maxStringBytes
         @ text ''.readme'' (yr_Readme r) maxReadmeBytes
         @ validateOptionalURL c name [] (path @ ''.licenseLink'') (yr_LicenseLink r)
         @ validateOptionalURL c name [] (path @ ''.documentationUrl'') (yr_DocumentationURL r)
         @ validateOptionalURL c name [] (path @ ''.repositoryUrl'') (yr_RepositoryURL r)
         @ validateTimestamp c name [] (path @ ''.publishedDate'') (yr_PublishedDate r)
         @ validateTimestamp c name [] (path @ ''.lastUpdated'') (yr_LastUpdated r)
         @ text ''.license'' (yr_License r) maxStringBytes
         @ (case yr_Logo r of None \<Rightarrow> [] | Some l \<Rightarrow> validateLogo c name (path @ ''.logo'') l)
         @ validateStringList name [] (path @ ''.tags'') (yr_Tags r) True
         @ validateModelFormats name [] (path @ ''.supportedModelFormats'') (yr_SupportedModelFormats r)
         @ (case yr_Capabilities r of
              None \<Rightarrow> []
            | Some a \<Rightarrow> validateAccelerators c name (path @ ''.capabilities.supportedAccelerators'') (cap_SupportedAccelerators a))
         @ validateCustomProperties c r path
         @ (if int (length (yr_Versions r)) > maxRuntimeVersions
              then [(name, [], path @ ''.versions'', at_most maxRuntimeVersions '' items'')] else [])
         @ validateVersions c r path)"

definition family_issues :: "checks \<Rightarrow> serving_runtime \<Rightarrow> nat \<Rightarrow> bool \<Rightarrow> issue list" where
  "family_issues c r i duplicate =
     (let path = item_path ''serving_runtimes'' i
      in validateIdentity (yr_Name r) [] (path @ ''.name'') (yr_Name r)
         @ (if duplicate \<and> yr_Name r \<noteq> [] then [(yr_Name r, [], path @ ''.name'', ''duplicate runtime name'')] else [])
         @ validateRuntime c r path)"

definition validateServingRuntimeFamily :: "checks \<Rightarrow> serving_runtime \<Rightarrow> nat \<Rightarrow> bool \<Rightarrow> validation_errors" where
  "validateServingRuntimeFamily c r i duplicate = report (family_issues c r i duplicate) no_errors"

end
