(* ===== verification/Runtime_Yaml.thy ===== *)
theory Runtime_Yaml
  imports Runtime_Validation
begin

section \<open>Files of serving runtimes\<close>

text \<open>
  \<open>yaml_structure.go\<close> and \<open>yaml_provider.go\<close>: the structure of a file is checked on the nodes of the YAML parser
  before a family is decoded, and every family is checked on its own. The decoder of YAML documents and the decoder
  of a family are arguments.
\<close>

subsection \<open>Nodes and shapes\<close>

text \<open>A node has kind, tag, value and content; the content of a mapping alternates keys and values.\<close>

datatype yaml_kind = DocumentNode | SequenceNode | MappingNode | ScalarNode | AliasNode

datatype yaml_node = YNode (yn_Kind: yaml_kind) (yn_Tag: string) (yn_Value: string) (yn_Content: "yaml_node list")

text \<open>A shape is a scalar, a sequence of one shape, or a mapping with its fields or the shape of all its values.\<close>

datatype yaml_shape =
    ShapeScalar
  | ShapeSequence yaml_shape
  | ShapeFields string "(string \<times> yaml_shape) list"
  | ShapeMap yaml_shape

fun shape_kind :: "yaml_shape \<Rightarrow> yaml_kind" where
  "shape_kind ShapeScalar = ScalarNode"
| "shape_kind (ShapeSequence s) = SequenceNode"
| "shape_kind (ShapeFields identity fs) = MappingNode"
| "shape_kind (ShapeMap s) = MappingNode"

definition scalars :: "string list \<Rightarrow> (string \<times> yaml_shape) list" where
  "scalars names = map (\<lambda>n. (n, ShapeScalar)) names"

definition formats_shape :: yaml_shape where
  "formats_shape = ShapeSequence (ShapeFields [] (scalars [''name'', ''version'', ''autoSelect'', ''priority'']))"

definition resources_shape :: yaml_shape where
  "resources_shape =
     (let tier = ShapeFields [] (scalars [''cpu'', ''memory''] @ [(''accelerator'', ShapeMap ShapeScalar)])
      in ShapeFields [] [(''minimal'', tier), (''recommended'', tier), (''high'', tier)])"

definition version_shape :: yaml_shape where
  "version_shape = ShapeFields ''version''
     (scalars [''version'', ''image'', ''supportLevel'', ''minimumRHOAIVersion'']
      @ [(''supportedModelFormats'', formats_shape), (''protocolVersions'', ShapeSequence ShapeScalar),
         (''recommendedResources'', resources_shape), (''defaultArgs'', ShapeSequence ShapeScalar),
         (''env'', ShapeSequence (ShapeFields [] (scalars [''name'', ''description'', ''required'', ''defaultValue'', ''secret''])))]
      @ scalars [''servingRuntimeTemplate'', ''llmInferenceServiceConfig'', ''deprecated'', ''publishedDate'', ''externalId''])"

definition metadata_shape :: yaml_shape where
  "metadata_shape = ShapeFields [] (scalars [''metadataType'', ''string_value'', ''bool_value'', ''int_value'', ''double_value'', ''type'',
     ''proto_value'', ''struct_value''])"

definition runtime_shape :: yaml_shape where
  "runtime_shape = ShapeFields ''name''
     (scalars [''name'', ''displayName'', ''provider'', ''description'', ''readme'', ''logo'']
      @ [(''tags'', ShapeSequence ShapeScalar)]
      @ scalars [''license'', ''licenseLink'', ''documentationUrl'', ''repositoryUrl'']
      @ [(''supportedModelFormats'', formats_shape),
         (''capabilities'', ShapeFields [] (scalars [''requiresGPU''] @ [(''supportedAccelerators'', ShapeSequence ShapeScalar)] @ scalars [''multiModel'']))]
      @ scalars [''publishedDate'', ''lastUpdated'', ''externalId'']
      @ [(''customProperties'', ShapeMap metadata_shape), (''versions'', ShapeSequence version_shape)])"

subsection \<open>Structure\<close>

fun content_pairs :: "'a list \<Rightarrow> ('a \<times> 'a) list" where
  "content_pairs (k # v # r) = (k, v) # content_pairs r"
| "content_pairs _ = []"

definition is_key :: "yaml_node \<Rightarrow> bool" where
  "is_key n = (yn_Kind n = ScalarNode \<and> yn_Tag n = ''!!str'')"

text \<open>The name or version of a mapping, if its shape has one.\<close>

definition identity_of :: "string \<Rightarrow> yaml_node list \<Rightarrow> string option" where
  "identity_of identity content =
     map_option (\<lambda>(k, v). yn_Value v) (find (\<lambda>(k, v). yn_Value k = identity \<and> yn_Kind v = ScalarNode) (content_pairs content))"

definition child_path :: "(string \<Rightarrow> string) \<Rightarrow> yaml_shape \<Rightarrow> string \<Rightarrow> string \<Rightarrow> string" where
  "child_path quoted shape path key =
     (case shape of ShapeMap _ \<Rightarrow> path @ ''['' @ quoted key @ '']'' | _ \<Rightarrow> if path = [] then key else path @ ''.'' @ key)"

definition child_shape :: "yaml_shape \<Rightarrow> string \<Rightarrow> yaml_shape option" where
  "child_shape shape key = (case shape of ShapeMap s \<Rightarrow> Some s | ShapeFields _ fs \<Rightarrow> map_of fs key | _ \<Rightarrow> None)"

datatype structure_problem = AliasUsed | WrongType | KeyNotString | KeyTwice | UnknownField

fun problem_reason :: "structure_problem \<Rightarrow> string" where
  "problem_reason AliasUsed = ''YAML aliases are not supported''"
| "problem_reason WrongType = ''unexpected YAML value type''"
| "problem_reason KeyNotString = ''mapping keys must be strings''"
| "problem_reason KeyTwice = ''duplicate YAML key''"
| "problem_reason UnknownField = ''unknown or misplaced field''"

definition is_null :: "string \<Rightarrow> bool" where
  "is_null tag = (tag = ''!!null'')"

text \<open>The runtime and the version that the issues below a mapping name.\<close>

definition inner_names :: "yaml_shape \<Rightarrow> yaml_node list \<Rightarrow> string \<times> string \<Rightarrow> string \<times> string" where
  "inner_names shape content names =
     (case shape of
        ShapeFields identity fs \<Rightarrow>
          (case (if identity = [] then None else identity_of identity content) of
             None \<Rightarrow> names
           | Some v \<Rightarrow> if identity = ''name'' then (v, snd names) else (fst names, v))
      | _ \<Rightarrow> names)"

definition problem :: "string \<times> string \<Rightarrow> string \<Rightarrow> structure_problem \<Rightarrow> issue" where
  "problem names path p = (fst names, snd names, path, problem_reason p)"

function inspect_node :: "(string \<Rightarrow> string) \<Rightarrow> yaml_node \<Rightarrow> yaml_shape \<Rightarrow> string \<Rightarrow> string \<times> string \<Rightarrow> issue list"
  and inspect_items :: "(string \<Rightarrow> string) \<Rightarrow> yaml_node list \<Rightarrow> nat \<Rightarrow> yaml_shape \<Rightarrow> string \<Rightarrow> string \<times> string \<Rightarrow> issue list"
  and inspect_fields :: "(string \<Rightarrow> string) \<Rightarrow> yaml_node list \<Rightarrow> string list \<Rightarrow> yaml_shape \<Rightarrow> string \<Rightarrow> string \<times> string \<Rightarrow> issue list"
where
  "inspect_node quoted (YNode kind tag v content) shape path names =
     (if kind = AliasNode then [problem names path AliasUsed]
      else if is_null tag then []
      else if kind \<noteq> shape_kind shape then [problem names path WrongType]
      else case shape of
          ShapeScalar \<Rightarrow> []
        | ShapeSequence item \<Rightarrow> inspect_items quoted content 0 item path names
        | _ \<Rightarrow> inspect_fields quoted content [] shape path (inner_names shape content names))"
| "inspect_items quoted [] i shape path names = []"
| "inspect_items quoted (n # ns) i shape path names =
     inspect_node quoted n shape (item_path path i) names @ inspect_items quoted ns (Suc i) shape path names"
| "inspect_fields quoted [] seen shape path names = []"
| "inspect_fields quoted [k] seen shape path names = []"
| "inspect_fields quoted (k # n # ns) seen shape path names =
     (if \<not> is_key k then problem names path KeyNotString # inspect_fields quoted ns seen shape path names
      else (if yn_Value k \<in> set seen then [problem names (child_path quoted shape path (yn_Value k)) KeyTwice] else [])
        @ (case child_shape shape (yn_Value k) of
             None \<Rightarrow> [problem names (child_path quoted shape path (yn_Value k)) UnknownField]
           | Some s \<Rightarrow> inspect_node quoted n s (child_path quoted shape path (yn_Value k)) names)
        @ inspect_fields quoted ns (yn_Value k # seen) shape path names)"
  by pat_completeness auto
termination
  by (relation "measure (\<lambda>x. case x of Inl (q, n, r) \<Rightarrow> size n
        | Inr (Inl (q, ns, r)) \<Rightarrow> size_list size ns | Inr (Inr (q, ns, r)) \<Rightarrow> size_list size ns)") auto

definition inspectRuntimeYAMLNode :: "(string \<Rightarrow> string) \<Rightarrow> yaml_node \<Rightarrow> yaml_shape \<Rightarrow> string \<Rightarrow> string \<Rightarrow> string \<Rightarrow> issue list" where
  "inspectRuntimeYAMLNode quoted node shape path runtime version = inspect_node quoted node shape path (runtime, version)"

text \<open>The fields of the document, and the families it lists.\<close>

fun root_fields :: "(string \<Rightarrow> string) \<Rightarrow> (yaml_node \<times> yaml_node) list \<Rightarrow> string list \<Rightarrow> yaml_node list \<Rightarrow> issue list \<times> string list \<times> yaml_node list" where
  "root_fields quoted [] seen families = ([], seen, families)"
| "root_fields quoted ((k, n) # ps) seen families =
     (if \<not> is_key k then
        (let (issues, seen', families') = root_fields quoted ps seen families in (([], [], [], ''mapping keys must be strings'') # issues, seen', families'))
      else
        (let key = yn_Value k; twice = (if key \<in> set seen then [([], [], key, ''duplicate YAML key'')] else []);
             (own, families1) =
               (if key = ''source'' then
                  (inspectRuntimeYAMLNode quoted n ShapeScalar ''source'' [] []
                   @ (if yn_Kind n = ScalarNode \<and> yn_Tag n \<noteq> ''!!null'' then validateString [] [] ''source'' (yn_Value n) maxStringBytes else []), families)
                else if key = ''serving_runtimes'' then
                  (if yn_Kind n \<noteq> SequenceNode then ([([], [], ''serving_runtimes'', ''expected a list'')], families) else ([], yn_Content n))
                else ([([], [], key, ''unknown or misplaced field'')], families));
             (issues, seen', families') = root_fields quoted ps (key # seen) families1
         in (twice @ own @ issues, seen', families')))"

datatype document_error = UnparsedDocument string | SecondDocument | NotAnObject | DocumentIssues validation_errors

text \<open>\<open>documents\<close> are the results of the decoder up to the end of the file or the first error.\<close>

definition runtimeYAMLFamilyNodes :: "(string \<Rightarrow> string) \<Rightarrow> (string + yaml_node) list \<Rightarrow> document_error + yaml_node list" where
  "runtimeYAMLFamilyNodes quoted documents =
     (case documents of
        [] \<Rightarrow> Inl (UnparsedDocument ''failed to parse YAML: EOF'')
      | Inl err # _ \<Rightarrow> Inl (UnparsedDocument (''failed to parse YAML: '' @ err))
      | Inr d # Inl err # _ \<Rightarrow> Inl (UnparsedDocument (''failed to parse YAML: '' @ err))
      | Inr d # Inr _ # _ \<Rightarrow> Inl SecondDocument
      | [Inr d] \<Rightarrow>
          (case yn_Content d of
             [root] \<Rightarrow>
               if yn_Kind root \<noteq> MappingNode then Inl NotAnObject
               else
                 (let (found, seen, families) = root_fields quoted (content_pairs (yn_Content root)) [] [];
                      issues = found
                        @ (if ''serving_runtimes'' \<in> set seen then [] else [([], [], ''serving_runtimes'', ''required list is missing'')])
                        @ (if int (length families) > maxRuntimeFamilies
                             then [([], [], ''serving_runtimes'', at_most maxRuntimeFamilies '' items'')] else []);
                      errors = report issues no_errors
                  in if rejected errors then Inl (DocumentIssues errors) else Inr families)
           | _ \<Rightarrow> Inl NotAnObject))"

subsection \<open>Families\<close>

definition runtimeYAMLFamilyName :: "yaml_node \<Rightarrow> string" where
  "runtimeYAMLFamilyName node =
     (if yn_Kind node \<noteq> MappingNode then [] else str_or_empty (identity_of ''name'' (yn_Content node)))"

datatype family_decoding = EncodingFailed | DecodingFailed string | Decoded serving_runtime

record validated_family =
  vf_Name :: string
  vf_Runtime :: "serving_runtime option"
  vf_Err :: "validation_errors option"

definition err_of :: "validation_errors \<Rightarrow> validation_errors option" where
  "err_of e = (if rejected e then Some e else None)"

definition validate_node :: "checks \<Rightarrow> (yaml_node \<Rightarrow> family_decoding) \<Rightarrow> nat \<Rightarrow> yaml_node \<Rightarrow> bool \<Rightarrow> validated_family" where
  "validate_node c decode index node duplicate =
     (let name = runtimeYAMLFamilyName node; path = item_path ''serving_runtimes'' index;
          structure = report (inspectRuntimeYAMLNode (ck_quoted c) node runtime_shape path [] []) no_errors
      in if rejected structure then \<lparr>vf_Name = name, vf_Runtime = None, vf_Err = Some structure\<rparr>
         else case decode node of
             EncodingFailed \<Rightarrow> \<lparr>vf_Name = name, vf_Runtime = None,
               vf_Err = err_of (report [(name, [], path, ''failed to encode YAML family'')] structure)\<rparr>
           | DecodingFailed err \<Rightarrow> \<lparr>vf_Name = name, vf_Runtime = None,
               vf_Err = err_of (report [(name, [], path, ''failed to decode YAML family: '' @ diagnosticText err 512)] structure)\<rparr>
           | Decoded r \<Rightarrow> \<lparr>vf_Name = name, vf_Runtime = Some r,
               vf_Err = err_of (appendIssues (validateServingRuntimeFamily c r index duplicate) structure)\<rparr>)"

definition parseServingRuntimeFamiliesYAML ::
  "checks \<Rightarrow> (yaml_node \<Rightarrow> family_decoding) \<Rightarrow> (string + yaml_node) list \<Rightarrow> document_error + validated_family list" where
  "parseServingRuntimeFamiliesYAML c decode documents =
     (case runtimeYAMLFamilyNodes (ck_quoted c) documents of
        Inl err \<Rightarrow> Inl err
      | Inr nodes \<Rightarrow> Inr (map (\<lambda>i. validate_node c decode i (nodes ! i)
           (1 < length (filter (\<lambda>n. runtimeYAMLFamilyName n = runtimeYAMLFamilyName (nodes ! i)) nodes))) [0..<length nodes]))"

fun collect_runtimes :: "validated_family list \<Rightarrow> serving_runtime list \<times> validation_errors \<Rightarrow> serving_runtime list \<times> validation_errors" where
  "collect_runtimes [] acc = acc"
| "collect_runtimes (f # fs) (entries, errors) =
     (case vf_Err f of
        Some e \<Rightarrow> collect_runtimes fs (entries, appendIssues e errors)
      | None \<Rightarrow> collect_runtimes fs (entries @ (case vf_Runtime f of None \<Rightarrow> [] | Some r \<Rightarrow> [r]), errors))"

definition validatedRuntimes :: "validated_family list \<Rightarrow> validation_errors + serving_runtime list" where
  "validatedRuntimes families =
     (let (entries, errors) = collect_runtimes families ([], no_errors) in if rejected errors then Inl errors else Inr entries)"

end
