(* ===== verification/Runtime_Facts.thy ===== *)
theory Runtime_Facts
  imports Runtime_Yaml
begin

text \<open>
  What an accepted family guarantees, that families are judged one by one, and that the report stays within its
  limits.
\<close>

subsection \<open>The report\<close>

definition shown_issue :: "issue \<Rightarrow> validation_issue" where
  "shown_issue x = (case x of (runtime, version, field, reason) \<Rightarrow>
     \<lparr>vi_runtime = diagnosticText runtime 256, vi_version = diagnosticText version 256, vi_field = diagnosticText field 512, vi_reason = reason\<rparr>)"

lemma add_issue_simps:
  "ve_total (add_issue x e) = ve_total e + 1"
  "ve_issues (add_issue x e) = (if int (length (ve_issues e)) < 100 then ve_issues e @ [shown_issue x] else ve_issues e)"
  by (cases x; simp add: Let_def maxValidationIssues_def shown_issue_def)+

lemma report_simps:
  "report [] e = e" "report (x # xs) e = report xs (add_issue x e)"
  by (simp_all add: report_def del: add_issue.simps)

lemma report_total: "ve_total (report xs e) = ve_total e + int (length xs)"
  by (induction xs arbitrary: e) (simp_all add: report_simps add_issue_simps del: add_issue.simps)

lemma report_issues:
  "length (ve_issues e) \<le> 100 \<Longrightarrow> ve_issues (report xs e) = ve_issues e @ map shown_issue (take (100 - length (ve_issues e)) xs)"
proof (induction xs arbitrary: e)
  case (Cons x xs)
  show ?case
  proof (cases "length (ve_issues e) < 100")
    case True
    then have "ve_issues (add_issue x e) = ve_issues e @ [shown_issue x]" by (simp add: add_issue_simps del: add_issue.simps)
    moreover obtain n where "100 - length (ve_issues e) = Suc n" using True by (cases "100 - length (ve_issues e)") auto
    moreover from this have "99 - length (ve_issues e) = n" by simp
    ultimately show ?thesis using Cons.IH [of "add_issue x e"] True by (simp add: report_simps del: add_issue.simps)
  next
    case False
    then have "ve_issues (add_issue x e) = ve_issues e" "length (ve_issues e) = 100"
      using Cons.prems by (simp_all add: add_issue_simps del: add_issue.simps)
    then show ?thesis using Cons.IH [of "add_issue x e"] by (simp add: report_simps del: add_issue.simps)
  qed
qed (simp add: report_simps)

lemma rejected_report: "rejected (report xs no_errors) \<longleftrightarrow> xs \<noteq> []"
  by (simp add: rejected_def report_total no_errors_def)

lemma write_issues_bound:
  assumes "write_issues quoted is b n = (b', n')" "bytes b + 64 \<le> maxValidationTextBytes"
  shows "bytes b' + 64 \<le> maxValidationTextBytes \<and> n \<le> n'"
  using assms
proof (induction "is" arbitrary: b n)
  case (Cons i "is")
  show ?case
  proof (cases "n = maxValidationIssues \<or> bytes b + bytes (issue_line quoted i) + 64 > maxValidationTextBytes")
    case True
    then show ?thesis using Cons.prems by (cases "n = maxValidationIssues") (simp_all add: Let_def)
  next
    case False
    then have "write_issues quoted is (b @ issue_line quoted i) (n + 1) = (b', n')" using Cons.prems by (simp add: Let_def)
    from Cons.IH [OF this] False show ?thesis by simp
  qed
qed simp

lemma itoa_bytes: "0 \<le> n \<Longrightarrow> n < 2 ^ 63 \<Longrightarrow> bytes (itoa n) \<le> 19"
  using dec_digits_length [of "nat n" 19] by (simp add: itoa_def)

lemma rune_end_le: "rune_end s n \<le> n"
  by (induction n) simp_all

text \<open>
  C40. What is stored of a failure stays small: whatever the file holds, the text of the report and the status of
  the source have at most 16 KiB, a name in an issue has at most its limit and three dots, the issues are at most
  100 and the first ones in order, and the number of all of them is counted.
\<close>

theorem report_bounded:
  "(0 \<le> ve_total e \<and> ve_total e < 2 ^ 63 \<longrightarrow> bytes (error_text quoted e) \<le> maxValidationTextBytes)
    \<and> bytes (runtimeSourceStatusError message) \<le> maxValidationTextBytes
    \<and> length (diagnosticText value limit) \<le> limit + 3
    \<and> ve_total (report issues no_errors) = int (length issues)
    \<and> ve_issues (report issues no_errors) = map shown_issue (take 100 issues)"
proof (intro conjI impI)
  assume e: "0 \<le> ve_total e \<and> ve_total e < 2 ^ 63"
  obtain b n where w: "write_issues quoted (ve_issues e) ''invalid serving_runtime data'' 0 = (b, n)" by fastforce
  have b: "bytes b + 64 \<le> maxValidationTextBytes" "0 \<le> n"
    using write_issues_bound [OF w] by (simp_all add: maxValidationTextBytes_def)
  show "bytes (error_text quoted e) \<le> maxValidationTextBytes"
  proof (cases "n < ve_total e")
    case True
    have "bytes (itoa (ve_total e - n)) \<le> 19" by (rule itoa_bytes) (use True e b in auto)
    then show ?thesis using b True by (simp add: error_text_def w)
  next
    case False
    then show ?thesis using b by (simp add: error_text_def w)
  qed
next
  show "bytes (runtimeSourceStatusError message) \<le> maxValidationTextBytes"
    using rune_end_le [of message 16369] by (simp add: runtimeSourceStatusError_def maxValidationTextBytes_def)
  show "length (diagnosticText value limit) \<le> limit + 3"
    using rune_end_le [of "escape_lines value" limit] by (simp add: diagnosticText_def Let_def)
  show "ve_total (report issues no_errors) = int (length issues)" by (simp add: report_total no_errors_def)
  show "ve_issues (report issues no_errors) = map shown_issue (take 100 issues)"
    by (simp add: report_issues no_errors_def)
qed

definition two_issues :: validation_errors where
  "two_issues = report [(''vllm'', [], ''serving_runtimes[0].name'', ''required value is missing''),
     (''vllm'', ''1.0'', ''serving_runtimes[0]'', ''duplicate item'')] no_errors"

lemma two_issues_total: "ve_total two_issues = 2"
  by (simp add: two_issues_def report_total no_errors_def)

lemma report_bounded_witness:
  "ve_total two_issues = 2 \<and> bytes (error_text id two_issues) \<le> maxValidationTextBytes"
  using report_bounded [of two_issues id "[]" "[]" 0 "[]"] by (simp add: two_issues_total)

subsection \<open>Accepted families\<close>

lemma itemized_mem: "(i, x, dup) \<in> set (itemized key xs) \<longleftrightarrow>
   i < length xs \<and> x = xs ! i \<and> dup = (key (xs ! i) \<in> set (map key (take i xs)))"
  by (auto simp: itemized_def)

lemma itemized_all:
  assumes "concat (map f (itemized key xs)) = []" "x \<in> set xs"
  shows "\<exists>i dup. f (i, x, dup) = []"
proof -
  obtain i where "i < length xs" "xs ! i = x" using assms(2) by (auto simp: in_set_conv_nth)
  then have "(i, x, key x \<in> set (map key (take i xs))) \<in> set (itemized key xs)" by (auto simp: itemized_mem)
  with assms(1) show ?thesis by fastforce
qed

lemma itemized_distinct:
  assumes "\<And>i x dup. (i, x, dup) \<in> set (itemized key xs) \<Longrightarrow> \<not> dup"
  shows "distinct (map key xs)"
proof -
  have "map key xs ! i \<noteq> map key xs ! j" if "i < j" "j < length xs" for i j
  proof -
    have "key (xs ! j) \<notin> set (map key (take j xs))" using assms [of j "xs ! j"] that(2) by (auto simp: itemized_mem)
    moreover have "key (xs ! i) \<in> set (map key (take j xs))" using that by (force simp: set_conv_nth)
    ultimately show ?thesis using that by auto
  qed
  then show ?thesis unfolding distinct_conv_nth length_map by (metis linorder_neqE_nat)
qed

text \<open>The runtime that is checked of a template, and its decoded form.\<close>

definition template_document :: "checks \<Rightarrow> string \<Rightarrow> template_document option" where
  "template_document c t = Option.bind (map_option fst (snd (unwrapServingRuntimeTemplate c [] [] [] t))) (ck_Document c)"

lemma unwrap_source:
  "map_option fst (snd (unwrapServingRuntimeTemplate c n v f t)) = map_option fst (snd (unwrapServingRuntimeTemplate c [] [] [] t))"
proof (cases "ck_Wrapper c t")
  case (Some w)
  obtain api kind objects where w: "w = (api, kind, objects)" by (cases w)
  define runtimes where "runtimes = filter (\<lambda>(i, x). ck_Header c x = Some ''ServingRuntime'') (map (\<lambda>i. (i, objects ! i)) [0..<length objects])"
  have eq: "unwrapServingRuntimeTemplate c n v f t = (if kind \<noteq> ''Template'' then ([], Some (t, f)) else
      case runtimes of [(i, x)] \<Rightarrow> (A, Some (x, item_path (f @ ''.objects'') i)) | _ \<Rightarrow> (B, None))"
    if "A = fst (unwrapServingRuntimeTemplate c n v f t)" "B = fst (unwrapServingRuntimeTemplate c n v f t)" for n v f A B
    unfolding that
    by (cases runtimes; cases "tl runtimes")
      (simp_all add: unwrapServingRuntimeTemplate_def Some w runtimes_def [symmetric] Let_def split: prod.split)
  show ?thesis
    by (subst eq [OF refl refl], subst eq [OF refl refl]) (cases runtimes; cases "tl runtimes"; auto split: prod.split)
qed (simp add: unwrapServingRuntimeTemplate_def)

lemma safe_template:
  assumes "validateString n v f t maxTemplateBytes = []" "validateTemplate c n v f t img env = []"
  obtains d where "template_document c t = Some d" "img \<in> tc_Image ` set (td_Containers d)"
    "\<And>k x value. k \<in> set (td_Containers d) \<Longrightarrow> (x, value) \<in> set (tc_Env k) \<Longrightarrow> value \<noteq> None \<Longrightarrow>
       x \<notin> set (secret_names env) \<and> \<not> looksLikeSecretName x"
proof -
  have small: "\<not> bytes t > maxTemplateBytes" using assms(1) by (simp add: validateString_def split: if_splits)
  obtain issues u where u: "unwrapServingRuntimeTemplate c n v f t = (issues, u)" by fastforce
  have "u \<noteq> None"
  proof
    assume "u = None"
    then have "issues \<noteq> []" using u
      by (auto simp: unwrapServingRuntimeTemplate_def Let_def split: option.splits prod.splits list.splits if_splits)
    with \<open>u = None\<close> u small assms(2) show False by (simp add: validateTemplate_def)
  qed
  then obtain x g where x: "unwrapServingRuntimeTemplate c n v f t = (issues, Some (x, g))" using u by auto
  then obtain d where d: "ck_Document c x = Some d"
    using assms(2) small by (cases "ck_Document c x") (simp_all add: validateTemplate_def)
  have doc: "template_document c t = Some d"
    by (simp add: template_document_def unwrap_source [of c n v f t, symmetric] x d)
  have empty: "td_Containers d \<noteq> []" "img \<in> tc_Image ` set (td_Containers d)"
      "validateContainers c n v g (secret_names env) (td_Containers d) = []"
    using assms(2) small x d by (simp_all add: validateTemplate_def split: if_splits)
  have "y \<notin> set (secret_names env) \<and> \<not> looksLikeSecretName y"
    if k: "k \<in> set (td_Containers d)" "(y, w) \<in> set (tc_Env k)" "w \<noteq> None" for k y w
  proof -
    obtain path where "validateContainerEnv c n v path (secret_names env) (tc_Env k) = []"
      using itemized_all [OF empty(3) [unfolded validateContainers_def] k(1)] by (auto simp: Let_def)
    then have "concat (map (\<lambda>(j, (name, value), dup). let item = item_path (path @ ''.env'') j in
         validateString n v (item @ ''.name'') name maxStringBytes
         @ (if name = [] \<or> \<not> ck_EnvVarName c name then [(n, v, item @ ''.name'', ''invalid environment variable name'')] else [])
         @ (if dup then [(n, v, item @ ''.name'', ''duplicate environment variable'')] else [])
         @ validateOptionalString n v (item @ ''.value'') value maxStringBytes
         @ (if value \<noteq> None \<and> (name \<in> set (secret_names env) \<or> looksLikeSecretName name)
              then [(n, v, item @ ''.value'', ''literal value is not allowed for a secret environment variable'')] else []))
         (itemized fst (tc_Env k))) = []"
      unfolding validateContainerEnv_def append_is_Nil_conv by blast
    from itemized_all [OF this k(2)] k(3) show ?thesis by (auto simp: Let_def split: if_splits)
  qed
  then show thesis using that [OF doc empty(2)] by blast
qed

lemma pinned_image:
  assumes "validateImageReference c img = None"
  shows "\<exists>tag digested. ck_Image c img = Some (tag, digested) \<and> (tag \<noteq> None \<or> digested) \<and> (\<forall>t. tag = Some t \<longrightarrow> to_lower t \<noteq> ''latest'')"
  using assms by (auto simp: validateImageReference_def split: option.splits if_splits)

text \<open>
  C29. An accepted family can be stored safely. Its name and its versions have no colon and the versions are distinct,
  so that source, runtime and version can be told from a stored name; every image is fixed by a tag other than latest
  or by a digest; and every template can be decoded, runs the image of its version, and gives no literal value to an
  environment variable that is declared as a secret or named like one.
\<close>

theorem accepted_family_safe:
  assumes "\<not> rejected (validateServingRuntimeFamily c r i duplicate)"
  shows "CHR '':'' \<notin> set (yr_Name r) \<and> distinct (map yv_Version (yr_Versions r))
    \<and> (\<forall>v \<in> set (yr_Versions r). CHR '':'' \<notin> set (yv_Version v)
      \<and> (\<exists>tag digested. ck_Image c (yv_Image v) = Some (tag, digested) \<and> (tag \<noteq> None \<or> digested) \<and> (\<forall>t. tag = Some t \<longrightarrow> to_lower t \<noteq> ''latest''))
      \<and> (\<forall>t. yv_ServingRuntimeTemplate v = Some t \<longrightarrow> (\<exists>d. template_document c t = Some d \<and> yv_Image v \<in> tc_Image ` set (td_Containers d)
          \<and> (\<forall>k \<in> set (td_Containers d). \<forall>(x, value) \<in> set (tc_Env k). value \<noteq> None \<longrightarrow> x \<notin> set (secret_names (yv_Env v)) \<and> \<not> looksLikeSecretName x))))"
proof -
  let ?path = "item_path ''serving_runtimes'' i"
  have ok: "family_issues c r i duplicate = []" using assms by (simp add: validateServingRuntimeFamily_def rejected_report)
  have name: "validateIdentity (yr_Name r) [] (?path @ ''.name'') (yr_Name r) = []"
    and versions: "validateVersions c r ?path = []"
    using ok by (simp_all add: family_issues_def validateRuntime_def Let_def)
  have identity: "validateIdentity n v f x = [] \<Longrightarrow> x \<noteq> [] \<and> CHR '':'' \<notin> set x" for n v f x
    by (auto simp: validateIdentity_def trim_space_def trim_chars_def split: if_splits)
  note all = itemized_all [OF versions [unfolded validateVersions_def]]
  have each: "yv_Version v \<noteq> [] \<and> CHR '':'' \<notin> set (yv_Version v) \<and> (\<exists>p. validateRuntimeVersion c (yr_Name r) v p = [])"
    if v: "v \<in> set (yr_Versions r)" for v
    using all [OF v] identity by (auto simp: Let_def)
  have "distinct (map yv_Version (yr_Versions r))"
  proof (rule itemized_distinct)
    fix j v dup assume m: "(j, v, dup) \<in> set (itemized yv_Version (yr_Versions r))"
    then have "v \<in> set (yr_Versions r)" by (auto simp: itemized_mem)
    then have "yv_Version v \<noteq> []" using each by blast
    moreover have "yv_Version v = [] \<or> \<not> dup"
      using versions m unfolding validateVersions_def concat_eq_Nil_conv by (fastforce simp: Let_def split: if_splits)
    ultimately show "\<not> dup" by blast
  qed
  moreover have "(\<exists>tag digested. ck_Image c (yv_Image v) = Some (tag, digested) \<and> (tag \<noteq> None \<or> digested) \<and> (\<forall>t. tag = Some t \<longrightarrow> to_lower t \<noteq> ''latest''))
      \<and> (\<forall>t. yv_ServingRuntimeTemplate v = Some t \<longrightarrow> (\<exists>d. template_document c t = Some d \<and> yv_Image v \<in> tc_Image ` set (td_Containers d)
          \<and> (\<forall>k \<in> set (td_Containers d). \<forall>(x, value) \<in> set (tc_Env k). value \<noteq> None \<longrightarrow> x \<notin> set (secret_names (yv_Env v)) \<and> \<not> looksLikeSecretName x)))"
    if v: "v \<in> set (yr_Versions r)" for v
  proof -
    obtain p where p: "validateRuntimeVersion c (yr_Name r) v p = []" using each [OF v] by blast
    have "validateImageReference c (yv_Image v) = None"
      using p by (auto simp: validateRuntimeVersion_def Let_def validateImage_def split: if_splits option.splits)
    note img = pinned_image [OF this]
    have "\<exists>d. template_document c t = Some d \<and> yv_Image v \<in> tc_Image ` set (td_Containers d)
          \<and> (\<forall>k \<in> set (td_Containers d). \<forall>(x, value) \<in> set (tc_Env k). value \<noteq> None \<longrightarrow> x \<notin> set (secret_names (yv_Env v)) \<and> \<not> looksLikeSecretName x)"
      if t: "yv_ServingRuntimeTemplate v = Some t" for t
    proof -
      let ?f = "p @ ''.servingRuntimeTemplate''"
      have T: "validateString (yr_Name r) (yv_Version v) ?f t maxTemplateBytes = []"
          "validateTemplate c (yr_Name r) (yv_Version v) ?f t (yv_Image v) (yv_Env v) = []"
        using p t by (simp_all add: validateRuntimeVersion_def Let_def)
      show ?thesis by (rule safe_template [OF T]) blast
    qed
    with img show ?thesis by blast
  qed
  ultimately show ?thesis using identity [OF name] each by blast
qed

subsection \<open>One family does not hide another\<close>

lemma several_iff:
  assumes "i < length xs" "P (xs ! i)"
  shows "1 < length (filter P xs) \<longleftrightarrow> (\<exists>j < length xs. j \<noteq> i \<and> P (xs ! j))"
proof -
  let ?S = "{j. j < length xs \<and> P (xs ! j)}"
  have "1 < length (filter P xs) \<longleftrightarrow> \<not> card ?S \<le> Suc 0" unfolding length_filter_conv_card by auto
  also have "\<dots> \<longleftrightarrow> (\<exists>a \<in> ?S. \<exists>b \<in> ?S. a \<noteq> b)" by (subst card_le_Suc0_iff_eq) auto
  also have "\<dots> \<longleftrightarrow> (\<exists>j < length xs. j \<noteq> i \<and> P (xs ! j))" using assms by blast
  finally show ?thesis .
qed

text \<open>What makes the family at a position acceptable: its own structure, its decoding, its own checks, and no
  other family of its name.\<close>

definition acceptable :: "checks \<Rightarrow> (yaml_node \<Rightarrow> family_decoding) \<Rightarrow> yaml_node list \<Rightarrow> nat \<Rightarrow> serving_runtime \<Rightarrow> bool" where
  "acceptable c decode nodes i r \<longleftrightarrow>
     inspectRuntimeYAMLNode (ck_quoted c) (nodes ! i) runtime_shape (item_path ''serving_runtimes'' i) [] [] = []
     \<and> decode (nodes ! i) = Decoded r
     \<and> family_issues c r i (\<exists>j < length nodes. j \<noteq> i \<and> runtimeYAMLFamilyName (nodes ! j) = runtimeYAMLFamilyName (nodes ! i)) = []"

lemma err_of_report: "err_of (report xs no_errors) = None \<longleftrightarrow> xs = []"
  by (simp add: err_of_def rejected_report)

lemma err_of_appended: "err_of (appendIssues (report xs no_errors) no_errors) = None \<longleftrightarrow> xs = []"
  by (simp add: err_of_def rejected_def appendIssues_def report_total no_errors_def)

lemma validate_node_accepts:
  "vf_Err (validate_node c decode i n dup) = None \<longleftrightarrow>
     (\<exists>r. inspectRuntimeYAMLNode (ck_quoted c) n runtime_shape (item_path ''serving_runtimes'' i) [] [] = []
        \<and> decode n = Decoded r \<and> family_issues c r i dup = [])"
  and validate_node_decoded:
  "vf_Err (validate_node c decode i n dup) = None \<Longrightarrow> decode n = Decoded r \<Longrightarrow> vf_Runtime (validate_node c decode i n dup) = Some r"
  and validate_node_name: "vf_Name (validate_node c decode i n dup) = runtimeYAMLFamilyName n"
  and validate_node_total: "vf_Err (validate_node c decode i n dup) = Some e \<Longrightarrow> 0 < ve_total e"
proof -
  note [simp] = validate_node_def Let_def rejected_report report_simps err_of_report err_of_appended validateServingRuntimeFamily_def
  let ?structure = "inspectRuntimeYAMLNode (ck_quoted c) n runtime_shape (item_path ''serving_runtimes'' i) [] []"
  have pos: "err_of e' = Some e \<Longrightarrow> 0 \<le> ve_total e' \<Longrightarrow> 0 < ve_total e" for e'
    by (auto simp: err_of_def rejected_def split: if_splits)
  have zero: "ve_total no_errors = 0" by (simp add: no_errors_def)
  have one: "err_of (report [x] no_errors) \<noteq> None" for x by (simp only: err_of_report) simp
  show "vf_Err (validate_node c decode i n dup) = None \<longleftrightarrow>
     (\<exists>r. ?structure = [] \<and> decode n = Decoded r \<and> family_issues c r i dup = [])"
    using one by (cases "?structure = []"; cases "decode n") (simp_all del: add_issue.simps)
  show "decode n = Decoded r \<Longrightarrow> vf_Runtime (validate_node c decode i n dup) = Some r"
    if "vf_Err (validate_node c decode i n dup) = None"
    using that by (cases "?structure = []") simp_all
  show "vf_Name (validate_node c decode i n dup) = runtimeYAMLFamilyName n"
    by (cases "?structure = []"; cases "decode n") simp_all
  show "0 < ve_total e" if "vf_Err (validate_node c decode i n dup) = Some e"
  proof (cases "?structure = []")
    case True
    have "\<exists>e'. err_of e' = Some e \<and> 0 \<le> ve_total e'"
      using that True by (cases "decode n") (auto simp: report_total appendIssues_def zero add_issue_simps simp del: add_issue.simps)
    then show ?thesis using pos by blast
  next
    case False
    then show ?thesis using that by (auto simp: report_total zero)
  qed
qed

lemma collect_all:
  "\<forall>f \<in> set fs. vf_Err f = None \<Longrightarrow>
     collect_runtimes fs (es, errors) = (es @ concat (map (\<lambda>f. case vf_Runtime f of None \<Rightarrow> [] | Some r \<Rightarrow> [r]) fs), errors)"
  by (induction fs arbitrary: es) simp_all

lemma collect_total:
  "\<forall>f \<in> set fs. \<forall>e. vf_Err f = Some e \<longrightarrow> 0 < ve_total e \<Longrightarrow>
     ve_total errors \<le> ve_total (snd (collect_runtimes fs (es, errors)))
     \<and> ((\<exists>f \<in> set fs. vf_Err f \<noteq> None) \<longrightarrow> ve_total errors < ve_total (snd (collect_runtimes fs (es, errors))))"
proof (induction fs arbitrary: es errors)
  case (Cons f fs)
  show ?case
  proof (cases "vf_Err f")
    case None
    with Cons.IH [of errors] Cons.prems show ?thesis by simp
  next
    case (Some e)
    with Cons.prems have "0 < ve_total e" by simp
    with Some Cons.IH [of "appendIssues e errors" es] Cons.prems show ?thesis by (simp add: appendIssues_def)
  qed
qed simp

lemma validated_iff:
  assumes "\<forall>f \<in> set fs. \<forall>e. vf_Err f = Some e \<longrightarrow> 0 < ve_total e"
  shows "validatedRuntimes fs = Inr rs \<longleftrightarrow>
     (\<forall>f \<in> set fs. vf_Err f = None) \<and> rs = concat (map (\<lambda>f. case vf_Runtime f of None \<Rightarrow> [] | Some r \<Rightarrow> [r]) fs)"
proof (cases "\<forall>f \<in> set fs. vf_Err f = None")
  case True
  then show ?thesis by (auto simp: validatedRuntimes_def collect_all rejected_def no_errors_def)
next
  case False
  then show ?thesis using collect_total [OF assms, of no_errors "[]"]
    by (auto simp: validatedRuntimes_def rejected_def no_errors_def split: prod.splits)
qed

text \<open>
  C27. Families are judged one by one. Of a readable document every family gets its own result, under its own name:
  it is accepted exactly if its own structure, decoding and checks are right and no other family has its name, so a
  bad family never rejects another. The strict interface returns runtimes exactly if all families are acceptable,
  and then they are the decoded families in order.
\<close>

theorem families_judged_alone:
  assumes "runtimeYAMLFamilyNodes (ck_quoted c) documents = Inr nodes"
  shows "\<exists>fams. parseServingRuntimeFamiliesYAML c decode documents = Inr fams \<and> length fams = length nodes
    \<and> (\<forall>i < length nodes. vf_Name (fams ! i) = runtimeYAMLFamilyName (nodes ! i)
        \<and> (vf_Err (fams ! i) = None \<longleftrightarrow> (\<exists>r. acceptable c decode nodes i r)))
    \<and> (\<forall>rs. validatedRuntimes fams = Inr rs \<longleftrightarrow>
         length rs = length nodes \<and> (\<forall>i < length nodes. acceptable c decode nodes i (rs ! i)))"
proof -
  let ?name = "\<lambda>i. runtimeYAMLFamilyName (nodes ! i)"
  let ?dup = "\<lambda>i. 1 < length (filter (\<lambda>n. runtimeYAMLFamilyName n = ?name i) nodes)"
  define fams where "fams = map (\<lambda>i. validate_node c decode i (nodes ! i) (?dup i)) [0..<length nodes]"
  have parse: "parseServingRuntimeFamiliesYAML c decode documents = Inr fams"
    using assms by (simp add: parseServingRuntimeFamiliesYAML_def fams_def)
  have len: "length fams = length nodes" by (simp add: fams_def)
  have nth: "fams ! i = validate_node c decode i (nodes ! i) (\<exists>j < length nodes. j \<noteq> i \<and> ?name j = ?name i)" if "i < length nodes" for i
    using that several_iff [of i nodes "\<lambda>n. runtimeYAMLFamilyName n = ?name i"] by (simp add: fams_def)
  have ok: "vf_Err (fams ! i) = None \<longleftrightarrow> (\<exists>r. acceptable c decode nodes i r)" if "i < length nodes" for i
    by (simp only: nth [OF that] validate_node_accepts acceptable_def)
  have runtime: "vf_Runtime (fams ! i) = Some r" if "i < length nodes" "acceptable c decode nodes i r" for i r
    using that ok [of i] validate_node_decoded by (auto simp: nth acceptable_def)
  have pos: "\<forall>f \<in> set fams. \<forall>e. vf_Err f = Some e \<longrightarrow> 0 < ve_total e"
    by (auto simp: fams_def dest: validate_node_total)
  have one: "rs = concat (map (\<lambda>f. case vf_Runtime f of None \<Rightarrow> [] | Some r \<Rightarrow> [r]) fams) \<longleftrightarrow> length rs = length nodes \<and> (\<forall>i < length nodes. acceptable c decode nodes i (rs ! i))"
    if all: "\<forall>i < length nodes. \<exists>r. acceptable c decode nodes i r" for rs
  proof -
    define g where "g i = (SOME r. acceptable c decode nodes i r)" for i
    have g: "acceptable c decode nodes i (g i)" if "i < length nodes" for i
      unfolding g_def using all that by (metis someI_ex)
    have same: "acceptable c decode nodes i r \<longleftrightarrow> r = g i" if "i < length nodes" for i r
      using g [OF that] by (auto simp: acceptable_def)
    have "map vf_Runtime fams = map (Some \<circ> g) [0..<length nodes]"
      by (rule nth_equalityI) (simp_all add: len runtime g)
    then have "concat (map (\<lambda>x. case x of None \<Rightarrow> [] | Some r \<Rightarrow> [r]) (map vf_Runtime fams)) = map g [0..<length nodes]"
      by (simp add: comp_def)
    then have "concat (map (\<lambda>f. case vf_Runtime f of None \<Rightarrow> [] | Some r \<Rightarrow> [r]) fams) = map g [0..<length nodes]"
      by (simp add: comp_def)
    moreover have "rs = map g [0..<length nodes] \<longleftrightarrow> length rs = length nodes \<and> (\<forall>i < length nodes. rs ! i = g i)"
      by (subst list_eq_iff_nth_eq) auto
    ultimately show ?thesis using same by metis
  qed
  have strict: "validatedRuntimes fams = Inr rs \<longleftrightarrow>
         length rs = length nodes \<and> (\<forall>i < length nodes. acceptable c decode nodes i (rs ! i))" for rs
  proof (cases "\<forall>i < length nodes. \<exists>r. acceptable c decode nodes i r")
    case True
    then have "\<forall>f \<in> set fams. vf_Err f = None" using ok by (auto simp: in_set_conv_nth len)
    then show ?thesis using one [OF True] by (simp add: validated_iff [OF pos])
  next
    case False
    then obtain i where i: "i < length fams" "vf_Err (fams ! i) \<noteq> None" using ok by (auto simp: len)
    then have "\<not> (\<forall>f \<in> set fams. vf_Err f = None)" using nth_mem [OF i(1)] i(2) by metis
    then show ?thesis using False by (auto simp: validated_iff [OF pos])
  qed
  show ?thesis
    by (rule exI [of _ fams], intro conjI allI impI parse len strict) (simp_all add: ok, simp add: nth validate_node_name)
qed

text \<open>Witnesses: a document with two families of one name and a third.\<close>

definition str_node :: "string \<Rightarrow> yaml_node" where
  "str_node s = YNode ScalarNode ''!!str'' s []"

definition family_node :: "string \<Rightarrow> yaml_node" where
  "family_node name = YNode MappingNode ''!!map'' [] [str_node ''name'', str_node name]"

definition three_families :: yaml_node where
  "three_families = YNode DocumentNode [] [] [YNode MappingNode ''!!map'' []
     [str_node ''serving_runtimes'', YNode SequenceNode ''!!seq'' [] [family_node ''vllm'', family_node ''ovms'', family_node ''vllm'']]]"

definition small_runtime :: "string \<Rightarrow> serving_runtime" where
  "small_runtime name =
     \<lparr>yr_Name = name, yr_DisplayName = None, yr_Provider = None, yr_Description = None, yr_Readme = None, yr_Logo = None, yr_Tags = [],
       yr_License = None, yr_LicenseLink = None, yr_DocumentationURL = None, yr_RepositoryURL = None,
       yr_SupportedModelFormats = [\<lparr>mf_Name = ''onnx'', mf_Version = None, mf_AutoSelect = None, mf_Priority = None\<rparr>], yr_Capabilities = None, yr_PublishedDate = None,
       yr_LastUpdated = None, yr_ExternalID = None, yr_CustomProperties = None,
       yr_Versions = [\<lparr>yv_Version = ''1.0'', yv_Image = ''quay.io/x:1'', yv_SupportLevel = None, yv_MinimumRHOAIVersion = None,
         yv_SupportedModelFormats = [\<lparr>mf_Name = ''onnx'', mf_Version = None, mf_AutoSelect = None, mf_Priority = None\<rparr>], yv_ProtocolVersions = [], yv_RecommendedResources = None, yv_DefaultArgs = [], yv_Env = [],
         yv_ServingRuntimeTemplate = None, yv_LlmInferenceServiceConfig = None, yv_Deprecated = None, yv_PublishedDate = None, yv_ExternalID = None\<rparr>]\<rparr>"

definition lenient_checks :: checks where
  "lenient_checks =
     \<lparr>ck_URL = (\<lambda>_. Some (''https'', ''h'', False)), ck_Time = (\<lambda>_. True), ck_Image = (\<lambda>_. Some (Some ''1'', False)), ck_Quantity = (\<lambda>_. Some (1, True)),
       ck_QualifiedName = (\<lambda>_. True), ck_EnvVarName = (\<lambda>_. True), ck_Json = (\<lambda>_. True), ck_Wrapper = (\<lambda>_. None),
       ck_Header = (\<lambda>_. None), ck_Document = (\<lambda>_. None), ck_Unescape = (\<lambda>_. None), ck_RawBase64 = (\<lambda>_. None), ck_quoted = id\<rparr>"

definition decode_small :: "yaml_node \<Rightarrow> family_decoding" where
  "decode_small n = Decoded (small_runtime (runtimeYAMLFamilyName n))"

definition three_nodes :: "yaml_node list" where
  "three_nodes = [family_node ''vllm'', family_node ''ovms'', family_node ''vllm'']"

lemma three_families_nodes:
  "runtimeYAMLFamilyNodes (ck_quoted lenient_checks) [Inr three_families] = Inr three_nodes"
  by code_simp

lemma families_judged_alone_witness:
  "\<exists>fams. parseServingRuntimeFamiliesYAML lenient_checks decode_small [Inr three_families] = Inr fams \<and> length fams = 3
     \<and> vf_Err (fams ! 1) = None \<and> vf_Err (fams ! 0) \<noteq> None"
proof -
  have good: "acceptable lenient_checks decode_small three_nodes 1 (small_runtime ''ovms'')"
    by code_simp
  have bad: "\<not> acceptable lenient_checks decode_small three_nodes 0 r" for r
  proof
    assume "acceptable lenient_checks decode_small three_nodes 0 r"
    moreover from this have "decode_small (family_node ''vllm'') = Decoded r" by (simp add: acceptable_def) (simp add: three_nodes_def)
    moreover have "decode_small (family_node ''vllm'') = Decoded (small_runtime ''vllm'')" by code_simp
    moreover have "\<not> acceptable lenient_checks decode_small three_nodes 0 (small_runtime ''vllm'')"
      by code_simp
    ultimately show False by simp
  qed
  note all = families_judged_alone [OF three_families_nodes, of decode_small]
  then obtain fams where fams: "parseServingRuntimeFamiliesYAML lenient_checks decode_small [Inr three_families] = Inr fams
      \<and> length fams = length three_nodes
      \<and> (\<forall>i < length three_nodes. vf_Name (fams ! i) = runtimeYAMLFamilyName (three_nodes ! i)
          \<and> (vf_Err (fams ! i) = None \<longleftrightarrow> (\<exists>r. acceptable lenient_checks decode_small three_nodes i r)))
      \<and> (\<forall>rs. validatedRuntimes fams = Inr rs \<longleftrightarrow>
           length rs = length three_nodes \<and> (\<forall>i < length three_nodes. acceptable lenient_checks decode_small three_nodes i (rs ! i)))"
    by (rule exE)
  note each = fams [THEN conjunct2, THEN conjunct2, THEN conjunct1, rule_format, THEN conjunct2]
  have len: "length three_nodes = 3" by (simp add: three_nodes_def)
  have "vf_Err (fams ! 1) = None" "vf_Err (fams ! 0) \<noteq> None"
    using each [of 1] each [of 0] good bad by (simp_all add: len) blast
  then show ?thesis using fams [THEN conjunct1] fams [THEN conjunct2, THEN conjunct1] by (intro exI [of _ fams] conjI) (simp_all add: len)
qed

lemma accepted_family_safe_witness:
  "\<not> rejected (validateServingRuntimeFamily lenient_checks (small_runtime ''vllm'') 0 False)
     \<and> CHR '':'' \<notin> set (yr_Name (small_runtime ''vllm''))"
proof -
  have "\<not> rejected (validateServingRuntimeFamily lenient_checks (small_runtime ''vllm'') 0 False)" by code_simp
  then show ?thesis using accepted_family_safe by blast
qed

end
