(* ===== verification/Runtime_Store.thy ===== *)
theory Runtime_Store
  imports Runtime_Validation Catalog_Models
begin

section \<open>The repositories of serving runtimes\<close>

text \<open>
  \<open>catalog/internal/catalog/serving_runtimecatalog/service/serving_runtime.go\<close> and \<open>serving_runtime_version.go\<close>: a
  runtime is a row of contexts and a version a row of artifacts attributed to its runtime. Both entities are the
  \<open>BaseEntity\<close> with the attributes of a catalog model, so the record of \<open>Catalog_Models\<close> is theirs too; rows,
  properties and the generic operations are those of \<open>Store\<close>. A subquery that the code passes as an argument is
  written out where GORM puts it.
\<close>

subsection \<open>Runtimes\<close>

record runtime_list_options = pagination +
  ro_Name :: "string option"
  ro_Query :: "string option"
  ro_SourceIDs :: "string list option"

definition mapServingRuntimeToSchema :: "catalog_model \<Rightarrow> schema_entity" where
  "mapServingRuntimeToSchema m =
     (let base = \<lparr>cr_ID = zero_if_nil (cm_ID m), cr_TypeID = zero_if_nil (cm_TypeID m), cr_Name = [], cr_ExternalID = None,
                  cr_CreateTime = 0, cr_LastUpdateTime = 0\<rparr>
      in Context (case cm_Attributes m of
           None \<Rightarrow> base
         | Some a \<Rightarrow> base\<lparr>cr_Name := str_or_empty (ca_Name a), cr_ExternalID := ca_ExternalID a,
             cr_CreateTime := zero_if_nil (ca_CreateTime a), cr_LastUpdateTime := zero_if_nil (ca_LastUpdateTime a)\<rparr>))"

definition external_id_of :: "schema_entity \<Rightarrow> string option" where
  "external_id_of e = (case e of Context v \<Rightarrow> cr_ExternalID v | Artifact v \<Rightarrow> ar_ExternalID v | Execution v \<Rightarrow> None)"

definition mapSchemaToServingRuntime :: "schema_entity \<Rightarrow> property_row list \<Rightarrow> catalog_model" where
  "mapSchemaToServingRuntime row ps =
     \<lparr>cm_ID = Some (getEntityID row), cm_TypeID = Some (getTypeID row),
      cm_Attributes = Some \<lparr>ca_Name = getName row, ca_ExternalID = external_id_of row,
        ca_CreateTime = Some (getCreateTime row), ca_LastUpdateTime = Some (getLastUpdateTime row)\<rparr>,
      cm_Properties = Some (map MapContextPropertyToProperties (filter (\<lambda>p. \<not> sp_IsCustom p) ps)),
      cm_Custom = Some (map MapContextPropertyToProperties (filter sp_IsCustom ps))\<rparr>"

definition mapServingRuntimeToProperties :: "catalog_model \<Rightarrow> int \<Rightarrow> property_row list" where
  "mapServingRuntimeToProperties m i =
     (case cm_Properties m of None \<Rightarrow> [] | Some ps \<Rightarrow> map (\<lambda>p. MapPropertiesToContextProperty p i False) ps)
     @ (case cm_Custom m of None \<Rightarrow> [] | Some ps \<Rightarrow> map (\<lambda>p. MapPropertiesToContextProperty p i True) ps)"

definition applyServingRuntimeListFilters :: "(string \<Rightarrow> string) \<Rightarrow> runtime_list_options \<Rightarrow> gorm_db \<Rightarrow> gorm_db" where
  "applyServingRuntimeListFilters quote opts query =
     (let contextTable = getTableName quote ''Context''; propertyTable = getTableName quote ''ContextProperty'';
          property = (\<lambda>rest. ''EXISTS (SELECT 1 FROM '' @ propertyTable @ '' cp WHERE cp.context_id = '' @ contextTable @ ''.id AND cp.name '' @ rest);
          query1 = (case ro_Name opts of
              None \<Rightarrow> query
            | Some n \<Rightarrow> add_call (Where (property (''= '' @ [CHR 0x27] @ ''base_name'' @ [CHR 0x27]
                @ '' AND cp.is_custom_property = false AND cp.string_value LIKE ?)'')) [AnyStr n]) query);
          query2 = (case ro_Query opts of
              None \<Rightarrow> query1
            | Some q \<Rightarrow> if q = [] then query1
                else add_call (Where (property ''IN (?, ?, ?, ?) AND cp.is_custom_property = ? AND LOWER(cp.string_value) LIKE ?)'')
                  [AnyStr ''base_name'', AnyStr ''displayName'', AnyStr ''provider'', AnyStr ''description'', AnyBool False,
                   AnyStr (''%'' @ escapeLike (to_lower q) @ ''%'')]) query1)
      in case ro_SourceIDs opts of
           None \<Rightarrow> query2
         | Some ids \<Rightarrow> if ids = [] then query2
             else add_call (Where (contextTable @ ''.id IN (SELECT context_id FROM '' @ propertyTable
                @ '' WHERE name = ? AND is_custom_property = ? AND string_value IN ?)'')
                [AnyStr ''source_id'', AnyBool False, AnyList (map AnyStr ids)]) query2)"

definition ServingRuntimeOrderByColumns :: "(string \<times> string) list" where
  "ServingRuntimeOrderByColumns = [(''ID'', ''id''), (''CREATE_TIME'', ''create_time_since_epoch''),
     (''LAST_UPDATE_TIME'', ''last_update_time_since_epoch''), (''NAME'', ''name''), (''id'', ''id'')]"

definition runtime_StandardPagination :: "string \<Rightarrow> pagination \<Rightarrow> gorm_db \<Rightarrow> gorm_db" where
  "runtime_StandardPagination table opts query = PaginateWithOptions
     \<lparr>pg_PageSize = Some (GetPageSize opts), pg_OrderBy = Some (GetOrderBy opts), pg_SortOrder = Some (GetSortOrder opts),
      pg_NextPageToken = Some (GetNextPageToken opts), pg_FilterQuery = None\<rparr> table (Some ServingRuntimeOrderByColumns) query"

definition applyServingRuntimeCustomOrdering :: "(string \<Rightarrow> string) \<Rightarrow> pagination \<Rightarrow> gorm_db \<Rightarrow> gorm_db" where
  "applyServingRuntimeCustomOrdering quote opts query =
     (if GetOrderBy opts = ''NAME''
      then ApplyNameOrdering query (getTableName quote ''Context'') (GetSortOrder opts) (GetNextPageToken opts) (GetPageSize opts) True
      else runtime_StandardPagination ''Context'' opts query)"

definition createServingRuntimePaginationToken :: "(float64 \<Rightarrow> string) \<Rightarrow> schema_entity \<Rightarrow> pagination \<Rightarrow> string" where
  "createServingRuntimePaginationToken fmt lastItem opts =
     (if GetOrderBy opts = ''NAME''
      then CreateNamePaginationToken fmt (getEntityID lastItem) (Some (display_name (str_or_empty (getName lastItem))))
      else CreateDefaultPaginationToken fmt lastItem opts)"

definition serving_runtime_repo :: "(float64 \<Rightarrow> string) \<Rightarrow> (string \<Rightarrow> string) \<Rightarrow> int \<Rightarrow> (catalog_model, runtime_list_options) repo_config" where
  "serving_runtime_repo fmt quote typeID = \<lparr>rc_Table = ContextTable, rc_TypeID = typeID,
     rc_EntityToSchema = mapServingRuntimeToSchema, rc_SchemaToEntity = mapSchemaToServingRuntime,
     rc_EntityToProperties = mapServingRuntimeToProperties, rc_NotFoundError = ''serving_runtime not found'',
     rc_EntityName = ''serving_runtime'', rc_ApplyListFilters = Some (applyServingRuntimeListFilters quote),
     rc_CreatePaginationToken = Some (\<lambda>e opts. createServingRuntimePaginationToken fmt e (pagination.truncate opts)),
     rc_ApplyCustomOrdering = Some (\<lambda>opts. applyServingRuntimeCustomOrdering quote (pagination.truncate opts)),
     rc_IsNewEntity = Some (\<lambda>m. cm_ID m = None), rc_HasCustomProperties = Some (\<lambda>m. cm_Custom m \<noteq> None),
     rc_EntityMappingFuncs = servingRuntimeEntityMappings, rc_PreserveHistoricalTimes = True, rc_DeleteMissingProperties = True,
     rc_Pagination = pagination.truncate, rc_RestEntityType = Some (\<lambda>_. ''serving_runtime'')\<rparr>"

definition with_type :: "int \<Rightarrow> catalog_model \<Rightarrow> catalog_model" where
  "with_type typeID m = (if cm_TypeID m = None \<and> typeID > 0 then m\<lparr>cm_TypeID := Some typeID\<rparr> else m)"

definition SaveServingRuntime ::
  "'s store_ops \<Rightarrow> (float64 \<Rightarrow> string) \<Rightarrow> (string \<Rightarrow> string) \<Rightarrow> int \<Rightarrow> int \<Rightarrow> catalog_model \<Rightarrow> 's \<Rightarrow> (repo_error + catalog_model) \<times> 's" where
  "SaveServingRuntime ops fmt quote typeID now m s = Save ops (serving_runtime_repo fmt quote typeID) now (with_type typeID m) None s"

subsection \<open>Versions\<close>

record runtime_version_options = pagination +
  vo_ParentResourceID :: "int option"
  vo_SourceIDs :: "string list option"

definition mapServingRuntimeVersionToSchema :: "catalog_model \<Rightarrow> schema_entity" where
  "mapServingRuntimeVersionToSchema m =
     (let base = \<lparr>ar_ID = zero_if_nil (cm_ID m), ar_TypeID = zero_if_nil (cm_TypeID m), ar_URI = None, ar_State = None, ar_Name = None,
                  ar_ExternalID = None, ar_CreateTime = 0, ar_LastUpdateTime = 0\<rparr>
      in Artifact (case cm_Attributes m of
           None \<Rightarrow> base
         | Some a \<Rightarrow> base\<lparr>ar_Name := ca_Name a, ar_ExternalID := ca_ExternalID a,
             ar_CreateTime := zero_if_nil (ca_CreateTime a), ar_LastUpdateTime := zero_if_nil (ca_LastUpdateTime a)\<rparr>))"

definition mapSchemaToServingRuntimeVersion :: "schema_entity \<Rightarrow> property_row list \<Rightarrow> catalog_model" where
  "mapSchemaToServingRuntimeVersion row ps =
     \<lparr>cm_ID = Some (getEntityID row), cm_TypeID = Some (getTypeID row),
      cm_Attributes = Some \<lparr>ca_Name = getName row, ca_ExternalID = external_id_of row,
        ca_CreateTime = Some (getCreateTime row), ca_LastUpdateTime = Some (getLastUpdateTime row)\<rparr>,
      cm_Properties = Some (map MapArtifactPropertyToProperties (filter (\<lambda>p. \<not> sp_IsCustom p) ps)),
      cm_Custom = Some (map MapArtifactPropertyToProperties (filter sp_IsCustom ps))\<rparr>"

definition mapServingRuntimeVersionToProperties :: "catalog_model \<Rightarrow> int \<Rightarrow> property_row list" where
  "mapServingRuntimeVersionToProperties m i =
     (case cm_Properties m of None \<Rightarrow> [] | Some ps \<Rightarrow> map (\<lambda>p. MapPropertiesToArtifactProperty p i False) ps)
     @ (case cm_Custom m of None \<Rightarrow> [] | Some ps \<Rightarrow> map (\<lambda>p. MapPropertiesToArtifactProperty p i True) ps)"

definition applyServingRuntimeVersionListFilters :: "(string \<Rightarrow> string) \<Rightarrow> runtime_version_options \<Rightarrow> gorm_db \<Rightarrow> gorm_db" where
  "applyServingRuntimeVersionListFilters quote opts query =
     (let query1 = (case vo_ParentResourceID opts of
          None \<Rightarrow> query
        | Some p \<Rightarrow> join_parent quote (BuildAttributionJoin quote) ''Attribution'' ''context_id'' p query)
      in case vo_SourceIDs opts of
           None \<Rightarrow> query1
         | Some ids \<Rightarrow> if ids = [] then query1
             else add_call (Where (getTableName quote ''Artifact'' @ ''.id IN (SELECT artifact_id FROM '' @ getTableName quote ''ArtifactProperty''
                @ '' WHERE name = ? AND is_custom_property = ? AND string_value IN ?)'')
                [AnyStr ''source_id'', AnyBool False, AnyList (map AnyStr ids)]) query1)"

definition applyServingRuntimeVersionCustomOrdering :: "(string \<Rightarrow> string) \<Rightarrow> pagination \<Rightarrow> gorm_db \<Rightarrow> gorm_db" where
  "applyServingRuntimeVersionCustomOrdering quote opts query =
     (if GetOrderBy opts = ''NAME''
      then ApplyNameOrdering query (getTableName quote ''Artifact'') (GetSortOrder opts) (GetNextPageToken opts) (GetPageSize opts) False
      else runtime_StandardPagination ''Artifact'' opts query)"

definition createServingRuntimeVersionPaginationToken :: "(float64 \<Rightarrow> string) \<Rightarrow> schema_entity \<Rightarrow> pagination \<Rightarrow> string" where
  "createServingRuntimeVersionPaginationToken fmt lastItem opts =
     (if GetOrderBy opts = ''NAME'' then CreateNamePaginationToken fmt (getEntityID lastItem) (getName lastItem)
      else CreateDefaultPaginationToken fmt lastItem opts)"

definition serving_runtime_version_repo ::
  "(float64 \<Rightarrow> string) \<Rightarrow> (string \<Rightarrow> string) \<Rightarrow> int \<Rightarrow> (catalog_model, runtime_version_options) repo_config" where
  "serving_runtime_version_repo fmt quote typeID = \<lparr>rc_Table = ArtifactTable, rc_TypeID = typeID,
     rc_EntityToSchema = mapServingRuntimeVersionToSchema, rc_SchemaToEntity = mapSchemaToServingRuntimeVersion,
     rc_EntityToProperties = mapServingRuntimeVersionToProperties, rc_NotFoundError = ''serving_runtime_version not found'',
     rc_EntityName = ''serving_runtime_version'', rc_ApplyListFilters = Some (applyServingRuntimeVersionListFilters quote),
     rc_CreatePaginationToken = Some (\<lambda>e opts. createServingRuntimeVersionPaginationToken fmt e (pagination.truncate opts)),
     rc_ApplyCustomOrdering = Some (\<lambda>opts. applyServingRuntimeVersionCustomOrdering quote (pagination.truncate opts)),
     rc_IsNewEntity = Some (\<lambda>m. cm_ID m = None), rc_HasCustomProperties = Some (\<lambda>m. cm_Custom m \<noteq> None),
     rc_EntityMappingFuncs = servingRuntimeVersionEntityMappings, rc_PreserveHistoricalTimes = True, rc_DeleteMissingProperties = True,
     rc_Pagination = pagination.truncate, rc_RestEntityType = Some (\<lambda>_. ''serving_runtime_version'')\<rparr>"

definition SaveServingRuntimeVersion ::
  "'s store_ops \<Rightarrow> (float64 \<Rightarrow> string) \<Rightarrow> (string \<Rightarrow> string) \<Rightarrow> int \<Rightarrow> int \<Rightarrow> catalog_model \<Rightarrow> int option \<Rightarrow> 's
     \<Rightarrow> (repo_error + catalog_model) \<times> 's" where
  "SaveServingRuntimeVersion ops fmt quote typeID now m parent s =
     Save ops (serving_runtime_version_repo fmt quote typeID) now (with_type typeID m) parent s"

interpretation runtime_repository: repo_mapping "serving_runtime_repo fmt quote t"
  by unfold_locales
    (auto simp: serving_runtime_repo_def call_opt_def mapServingRuntimeToSchema_def Let_def zero_if_nil_def
      mapServingRuntimeToProperties_def MapPropertiesToContextProperty_def split: option.splits)

interpretation runtime_version_repository: repo_mapping "serving_runtime_version_repo fmt quote t"
  by unfold_locales
    (auto simp: serving_runtime_version_repo_def call_opt_def mapServingRuntimeVersionToSchema_def Let_def zero_if_nil_def
      mapServingRuntimeVersionToProperties_def MapPropertiesToArtifactProperty_def split: option.splits)

end
