(* ===== verification/Catalog_Options.thy ===== *)
theory Catalog_Options
  imports Catalog_Config
begin

text \<open>
  The filter options the catalog offers to clients: the distinct values or ranges of the stored
  properties (\<open>catalog/internal/db/models/property_options.go\<close>), their API form
  (\<open>basecatalog/filter_options.go\<close>), and what the query builder makes of the names they are offered
  under.
\<close>

subsection \<open>Property options\<close>

record property_option =
  po_TypeID :: int
  po_Name :: string
  po_IsCustomProperty :: bool
  po_StringValue :: "string list"
  po_ArrayValue :: "string list"
  po_MinDoubleValue :: "float64 option"
  po_MaxDoubleValue :: "float64 option"
  po_MinIntValue :: "int option"
  po_MaxIntValue :: "int option"

definition ValueField :: "property_option \<Rightarrow> string" where
  "ValueField po =
     (if po_MinDoubleValue po \<noteq> None \<or> po_MaxDoubleValue po \<noteq> None then ''double_value''
      else if po_MinIntValue po \<noteq> None \<or> po_MaxIntValue po \<noteq> None then ''int_value''
      else if po_ArrayValue po \<noteq> [] then ''array_value''
      else ''string_value'')"

definition FullName :: "string \<Rightarrow> property_option \<Rightarrow> string" where
  "FullName pre po =
     join_with ''.'' ((if pre \<noteq> [] then [pre] else []) @ [po_Name po]
       @ (if po_IsCustomProperty po then [ValueField po] else []))"

text \<open>
  \<open>DbPropToAPIOption\<close>; the argument \<open>to_float\<close> is Go's conversion \<open>float64(x)\<close> of an \<open>int64\<close>. The code
  sorts the slice of values in place.
\<close>

definition DbPropToAPIOption :: "(int \<Rightarrow> float64) \<Rightarrow> property_option \<Rightarrow> filter_option option" where
  "DbPropToAPIOption to_float po =
     (if ValueField po = ''string_value'' then
        (if po_StringValue po = [] then None
         else Some \<lparr>fo_Type = ''string'', fo_Values = map AnyStr (sort (po_StringValue po)), fo_Range = None\<rparr>)
      else if ValueField po = ''array_value'' then
        (if po_ArrayValue po = [] then None
         else Some \<lparr>fo_Type = ''string'', fo_Values = map AnyStr (sort (po_ArrayValue po)), fo_Range = None\<rparr>)
      else if ValueField po = ''int_value'' then
        (case (po_MinIntValue po, po_MaxIntValue po) of
           (Some lo, Some hi) \<Rightarrow> Some \<lparr>fo_Type = ''number'', fo_Values = [],
              fo_Range = Some (Some (to_float lo), Some (to_float hi))\<rparr>
         | _ \<Rightarrow> None)
      else
        (case (po_MinDoubleValue po, po_MaxDoubleValue po) of
           (Some lo, Some hi) \<Rightarrow> Some \<lparr>fo_Type = ''number'', fo_Values = [],
              fo_Range = Some (Some lo, Some hi)\<rparr>
         | _ \<Rightarrow> None))"

subsection \<open>The names in a filter\<close>

lemma ValueField_type: "ValueField po \<in> set value_types"
  by (simp add: ValueField_def value_types_def value_type_defs)

lemma value_type_no_dot: "t \<in> set value_types \<Longrightarrow> CHR ''.'' \<notin> set t \<and> t \<noteq> []"
  by (auto simp: value_types_def value_type_defs)

lemma split_char_snoc_word:
  "d \<notin> set t \<Longrightarrow> split_char d (n @ d # t) = split_char d n @ [t]"
proof (induction n)
  case Nil
  then show ?case by (simp add: split_char_no_sep)
next
  case (Cons c n)
  then show ?case by (auto split: list.splits)
qed

text \<open>A name followed by a value type is taken apart again, even when the name has dots of its own.\<close>

lemma split_explicit_typed:
  "t \<in> set value_types \<Longrightarrow> split_explicit_type (n @ ''.'' @ t) = (n, t)"
  using value_type_no_dot [of t] join_split_char [of "CHR ''.''" n] split_char_not_Nil [of "CHR ''.''" n]
  by (simp add: split_explicit_type_def split_char_snoc_word Let_def Suc_le_eq)

lemma split_explicit_last_not_type:
  "last (split_char CHR ''.'' n) \<notin> set value_types \<Longrightarrow> split_explicit_type n = (n, [])"
  by (auto simp: split_explicit_type_def Let_def)

definition model_reference :: "string \<Rightarrow> go_any \<Rightarrow> property_reference" where
  "model_reference n v =
     buildPropertyReference (NewQueryBuilderForRestEntity ''CatalogModel'' catalogModelEntityMappings) n v"

lemma model_reference_def2:
  "pr_PropertyDef (model_reference n v) = catalogModel_property (fst (split_explicit_type n))"
  "pr_ExplicitType (model_reference n v) = snd (split_explicit_type n)"
  "pr_RefName (model_reference n v) =
     (let p = fst (split_explicit_type n); d = catalogModel_property p
      in if pd_Location d = PropertyTable \<and> pd_Column d \<noteq> [] then pd_Column d else p)"
  by (simp_all add: model_reference_def buildPropertyReference_def NewQueryBuilderForRestEntity_def
      catalogModelEntityMappings_def Let_def split: prod.split)

text \<open>
  The name under which a custom property is offered as a filter option leads the query builder back to
  that property: for a property of the model itself, to the custom property of this name with the value
  column of its type; for a property of an artifact, to the related property of this name. This holds
  for every name the property table of the model does not itself define, dots included.
\<close>

theorem option_names_resolve:
  assumes "po_IsCustomProperty po" "map_of catalogModelProperties (po_Name po) = None"
    "\<not> hasPrefix (po_Name po) ''artifacts.''"
    "map_of catalogModelProperties (''artifacts.'' @ po_Name po) = None"
  shows "pd_Location (pr_PropertyDef (model_reference (FullName [] po) v)) = Custom
    \<and> pr_RefName (model_reference (FullName [] po) v) = po_Name po
    \<and> pr_ExplicitType (model_reference (FullName [] po) v) = ValueField po
    \<and> pr_PropertyDef (model_reference (FullName ''artifacts'' po) v) = relatedArtifactProperty (po_Name po)
    \<and> pr_ExplicitType (model_reference (FullName ''artifacts'' po) v) = ValueField po"
proof -
  have plain: "split_explicit_type (FullName [] po) = (po_Name po, ValueField po)"
    using assms(1) split_explicit_typed [OF ValueField_type [of po], of "po_Name po"]
    by (simp add: FullName_def)
  have pre: "split_explicit_type (FullName ''artifacts'' po) = (''artifacts.'' @ po_Name po, ValueField po)"
    using assms(1) split_explicit_typed [OF ValueField_type [of po], of "''artifacts.'' @ po_Name po"]
    by (simp add: FullName_def)
  have "catalogModel_property (po_Name po) = customFallback (po_Name po)"
    using assms(2,3) by (simp add: catalogModel_property_def cutPrefix_def)
  moreover have "catalogModel_property (''artifacts.'' @ po_Name po) = relatedArtifactProperty (po_Name po)"
    unfolding catalogModel_property_def assms(4) cutPrefix_append by simp
  ultimately show ?thesis
    by (simp only: model_reference_def2 plain pre fst_conv snd_conv Let_def customFallback_location)
      simp
qed

definition demo_option :: property_option where
  "demo_option = \<lparr>po_TypeID = 1, po_Name = ''hw.count'', po_IsCustomProperty = True, po_StringValue = [],
     po_ArrayValue = [], po_MinDoubleValue = None, po_MaxDoubleValue = None, po_MinIntValue = Some 1,
     po_MaxIntValue = Some 8\<rparr>"

theorem option_names_resolve_witness:
  "pr_PropertyDef (model_reference (FullName ''artifacts'' demo_option) (AnyInt64 4))
     = relatedArtifactProperty ''hw.count''"
proof -
  have "po_IsCustomProperty demo_option" "map_of catalogModelProperties (po_Name demo_option) = None"
    "\<not> hasPrefix (po_Name demo_option) ''artifacts.''"
    "map_of catalogModelProperties (''artifacts.'' @ po_Name demo_option) = None"
    by code_simp+
  from option_names_resolve [OF this, of "AnyInt64 4"] show ?thesis by (simp add: demo_option_def)
qed

text \<open>
  For a list-valued custom property of an artifact, the name it is offered under ends in \<open>array_value\<close>, and the
  filter built for that name compares a column of that name, which no property table has: the offered
  option cannot be used, on any dialect.
\<close>

theorem array_artifact_option_unusable:
  assumes "po_IsCustomProperty po" "ValueField po = ArrayValueType"
    "map_of catalogModelProperties (''artifacts.'' @ po_Name po) = None"
  shows "(\<exists>sql. last (leaf_calls (NewQueryBuilderForRestEntity ''CatalogModel'' catalogModelEntityMappings) db
        (FullName ''artifacts'' po) ''='' (AnyStr s))
      = Where (sql @ ''artprop_1.'' @ ArrayValueType @ '' = ?)'') [AnyStr (po_Name po), AnyStr s])
    \<and> ArrayValueType \<notin> set property_value_columns"
proof -
  have "ArrayValueType \<in> set value_types" by (simp add: value_types_def)
  then have sp: "split_explicit_type (FullName ''artifacts'' po) = (''artifacts.'' @ po_Name po, ArrayValueType)"
    using assms(1) split_explicit_typed [of ArrayValueType "''artifacts.'' @ po_Name po"]
    by (simp add: FullName_def assms(2))
  have rel: "catalogModel_property (''artifacts.'' @ po_Name po) = relatedArtifactProperty (po_Name po)"
    unfolding catalogModel_property_def assms(3) cutPrefix_append by simp
  have one: "itoa 1 = ''1''" by code_simp
  have ty: "ArrayValueType \<noteq> []" "ArrayValueType \<notin> set property_value_columns" by code_simp+
  define qb where "qb = applyDatabaseQuoting ((NewQueryBuilderForRestEntity ''CatalogModel''
      catalogModelEntityMappings)\<lparr>qb_db := Some (dialect db)\<rparr>)"
  have qb: "qb_entityType qb = EntityTypeContext" "qb_joinCounter qb = 0"
    "qb_mappingFuncs qb = catalogModelEntityMappings" "qb_restEntityType qb = ''CatalogModel''"
    by (simp_all add: qb_def applyDatabaseQuoting_def NewQueryBuilderForRestEntity_def
        catalogModelEntityMappings_def Let_def)
  have ref: "pr_PropertyDef (buildPropertyReference qb (FullName ''artifacts'' po) v)
        = relatedArtifactProperty (po_Name po)"
      "pr_ValueType (buildPropertyReference qb (FullName ''artifacts'' po) v) = ArrayValueType" for v
    by (simp_all add: buildPropertyReference_def sp qb catalogModelEntityMappings_def ty Let_def
        rel [simplified])
  have "last (leaf_calls (NewQueryBuilderForRestEntity ''CatalogModel'' catalogModelEntityMappings) db
        (FullName ''artifacts'' po) ''='' (AnyStr s))
     = Where (fst (fst (buildRelatedEntityPropertyConditionString qb (relatedArtifactProperty (po_Name po))
          ArrayValueType ''='' (AnyStr s)))) [AnyStr (po_Name po), AnyStr s]"
    unfolding leaf_calls_def BuildQuery_leaf qb_def [symmetric] buildLeafExpression_def
      buildPropertyCondition_def ref
    by (simp add: relatedArtifactProperty_def buildRelatedEntityPropertyCondition_def
        buildRelatedEntityPropertyConditionString_def qb ty Let_def buildValueCondition_def
        determineValueType_def buildOperatorCondition_def split_beta)
  moreover have "\<exists>sql. fst (fst (buildRelatedEntityPropertyConditionString qb (relatedArtifactProperty (po_Name po))
          ArrayValueType ''='' (AnyStr s))) = sql @ ''artprop_1.'' @ ArrayValueType @ '' = ?)''"
  proof -
    have "suffix (fst (buildValueCondition (''artprop_'' @ itoa (int (qb_joinCounter (bump qb)))) ArrayValueType ''='' (AnyStr s)) @ '')'')
       (fst (fst (buildRelatedEntityPropertyConditionString qb (relatedArtifactProperty (po_Name po))
          ArrayValueType ''='' (AnyStr s))))"
      unfolding buildRelatedEntityPropertyConditionString_def createRelatedEntityAliases_def Let_def
        split_beta
      by (simp only: qb related_entity_aliases.simps relatedArtifactProperty_def property_definition.simps
          if_False if_True simp_thms fst_conv snd_conv)
        (rule suffix_order.order_refl | rule suffix_appendI)+
    moreover have "fst (buildValueCondition (''artprop_'' @ itoa (int (qb_joinCounter (bump qb)))) ArrayValueType ''='' (AnyStr s)) @ '')''
        = ''artprop_1.'' @ ArrayValueType @ '' = ?)''"
      by (simp add: buildValueCondition_def determineValueType_def ty buildOperatorCondition_def qb one)
    ultimately show ?thesis by (auto simp: suffix_def)
  qed
  ultimately show ?thesis using ty by auto
qed

theorem array_artifact_option_unusable_witness:
  "\<exists>sql. last (leaf_calls (NewQueryBuilderForRestEntity ''CatalogModel'' catalogModelEntityMappings)
        \<lparr>dialect = ''postgres'', calls = []\<rparr> ''artifacts.gpus.array_value'' ''='' (AnyStr ''A100''))
      = Where (sql @ ''artprop_1.'' @ ArrayValueType @ '' = ?)'') [AnyStr ''gpus'', AnyStr ''A100'']"
proof -
  let ?po = "\<lparr>po_TypeID = 1, po_Name = ''gpus'', po_IsCustomProperty = True, po_StringValue = [],
     po_ArrayValue = [''A100''], po_MinDoubleValue = None, po_MaxDoubleValue = None,
     po_MinIntValue = None, po_MaxIntValue = None\<rparr>"
  have "po_IsCustomProperty ?po" "ValueField ?po = ArrayValueType"
    "map_of catalogModelProperties (''artifacts.'' @ po_Name ?po) = None" by code_simp+
  moreover have "FullName ''artifacts'' ?po = ''artifacts.gpus.array_value''" "po_Name ?po = ''gpus''"
    by code_simp+
  ultimately show ?thesis
    using array_artifact_option_unusable [of ?po "\<lparr>dialect = ''postgres'', calls = []\<rparr>" "''A100''"] by metis
qed

end
