(* ===== verification/Runtime_Entities.thy ===== *)
theory Runtime_Entities
  imports Runtime_Store Catalog_Options
begin

section \<open>Serving runtimes from file to API\<close>

text \<open>
  \<open>buildServingRuntimeEntity\<close>, \<open>servingRuntimeCustomProperty\<close> and \<open>buildServingRuntimeVersionEntity\<close> of \<open>loader.go\<close>:
  the properties a runtime and a version are stored with; and \<open>db_serving_runtime.go\<close>: the operations of the API on
  what is stored. The JSON encoding of values is the record \<open>runtime_json\<close> of functions, the parser of times an
  argument, and \<open>'t\<close> the type of times.
\<close>

subsection \<open>Encodings\<close>

record runtime_json =
  js_Env :: "runtime_env list \<Rightarrow> string + string"
  js_ReadEnv :: "string \<Rightarrow> string + runtime_env list"
  js_Strings :: "string list \<Rightarrow> string + string"
  js_ReadStrings :: "string \<Rightarrow> string + string list"
  js_Formats :: "model_format list \<Rightarrow> string + string"
  js_ReadFormats :: "string \<Rightarrow> string + model_format list"
  js_Capabilities :: "capabilities \<Rightarrow> string + string"
  js_ReadCapabilities :: "string \<Rightarrow> string + capabilities"
  js_Resources :: "resource_recommendation \<Rightarrow> string + string"
  js_ReadResources :: "string \<Rightarrow> string + resource_recommendation"
  js_Metadata :: "catalog_metadata \<Rightarrow> string + string"

subsection \<open>Entities\<close>

datatype build_error =
    CannotEncode string string
  | PropertyReserved string
  | PropertyNotInt32 string num_error
  | CannotEncodeProperty string string
  | PropertyWithoutValue string
  | OfRuntime string build_error

text \<open>The properties are added in order; of the errors of \<open>addJSON\<close> the last one is returned, after all of them.\<close>

type_synonym addition = "build_error + stored_property"

definition addString :: "string \<Rightarrow> string option \<Rightarrow> addition list" where
  "addString key v = (case v of None \<Rightarrow> [] | Some x \<Rightarrow> [Inr (NewStringProperty key x False)])"

definition addJSON :: "string \<Rightarrow> string + string \<Rightarrow> addition list" where
  "addJSON key encoded =
     [case encoded of Inl err \<Rightarrow> Inl (CannotEncode key err) | Inr t \<Rightarrow> Inr (NewStringProperty key t False)]"

definition addList :: "string \<Rightarrow> ('a list \<Rightarrow> string + string) \<Rightarrow> 'a list \<Rightarrow> addition list" where
  "addList key encode xs = (if xs = [] then [] else addJSON key (encode xs))"

fun encode_error :: "addition list \<Rightarrow> build_error option" where
  "encode_error [] = None"
| "encode_error (a # as) =
     (case encode_error as of Some err \<Rightarrow> Some err | None \<Rightarrow> (case a of Inl err \<Rightarrow> Some err | Inr p \<Rightarrow> None))"

definition gather :: "addition list \<Rightarrow> build_error + stored_property list" where
  "gather as = (case encode_error as of Some err \<Rightarrow> Inl err
     | None \<Rightarrow> Inr (List.map_filter (\<lambda>a. case a of Inr p \<Rightarrow> Some p | Inl err \<Rightarrow> None) as))"

definition supportedModelFormatNames :: "model_format list \<Rightarrow> string list" where
  "supportedModelFormatNames formats = map mf_Name formats"

definition true_option :: "bool option \<Rightarrow> bool" where
  "true_option b = (b = Some True)"

definition runtime_additions :: "runtime_json \<Rightarrow> string \<Rightarrow> serving_runtime \<Rightarrow> addition list" where
  "runtime_additions js sourceID r =
     [Inr (NewStringProperty ''source_id'' sourceID False), Inr (NewStringProperty ''base_name'' (yr_Name r) False)]
     @ addString ''displayName'' (yr_DisplayName r) @ addString ''description'' (yr_Description r)
     @ addString ''provider'' (yr_Provider r) @ addString ''readme'' (yr_Readme r) @ addString ''logo'' (yr_Logo r)
     @ addString ''license'' (yr_License r) @ addString ''licenseLink'' (yr_LicenseLink r)
     @ addString ''documentationUrl'' (yr_DocumentationURL r) @ addString ''repositoryUrl'' (yr_RepositoryURL r)
     @ addString ''publishedDate'' (yr_PublishedDate r) @ addString ''lastUpdated'' (yr_LastUpdated r)
     @ addList ''tags'' (js_Strings js) (yr_Tags r)
     @ addList ''supportedModelFormats'' (js_Strings js) (supportedModelFormatNames (yr_SupportedModelFormats r))
     @ addList ''supportedModelFormatsDetails'' (js_Formats js) (yr_SupportedModelFormats r)
     @ (case yr_Capabilities r of
          None \<Rightarrow> []
        | Some c \<Rightarrow> addJSON ''capabilities'' (js_Capabilities js c)
            @ addList ''capabilities.supportedAccelerators'' (js_Strings js) (cap_SupportedAccelerators c))
     @ [Inr (NewBoolProperty ''capabilities.requiresGPU'' (true_option (Option.bind (yr_Capabilities r) cap_RequiresGPU)) False),
        Inr (NewBoolProperty ''capabilities.multiModel'' (true_option (Option.bind (yr_Capabilities r) cap_MultiModel)) False),
        Inr (NewIntProperty ''versionCount'' (to_int32 (int (length (yr_Versions r)))) False)]"

definition servingRuntimeCustomProperty :: "runtime_json \<Rightarrow> string \<Rightarrow> catalog_metadata \<Rightarrow> build_error + stored_property" where
  "servingRuntimeCustomProperty js key v =
     (if key \<in> set reservedServingRuntimeProperties then Inl (PropertyReserved key)
      else case cmv_String v of Some x \<Rightarrow> Inr (NewStringProperty key x True) | None \<Rightarrow>
      (case cmv_Bool v of Some x \<Rightarrow> Inr (NewBoolProperty key x True) | None \<Rightarrow>
      (case cmv_Int v of Some x \<Rightarrow> (case parse_int 32 x of Inl err \<Rightarrow> Inl (PropertyNotInt32 key err) | Inr n \<Rightarrow> Inr (NewIntProperty key n True)) | None \<Rightarrow>
      (case cmv_Double v of Some x \<Rightarrow> Inr (NewDoubleProperty key x True) | None \<Rightarrow>
      (case js_Metadata js v of
         Inl err \<Rightarrow> Inl (CannotEncodeProperty key err)
       | Inr t \<Rightarrow> if t = ''null'' then Inl (PropertyWithoutValue key) else Inr (NewStringProperty key t True))))))"

definition buildServingRuntimeEntity :: "runtime_json \<Rightarrow> string \<Rightarrow> serving_runtime \<Rightarrow> build_error + catalog_model" where
  "buildServingRuntimeEntity js sourceID r =
     try_bind (gather (runtime_additions js sourceID r)) (\<lambda>properties.
     try_bind (case yr_CustomProperties r of
         None \<Rightarrow> Inr None
       | Some m \<Rightarrow> (case try_map (\<lambda>(key, w). servingRuntimeCustomProperty js key (ym_Value w)) m of
           Inl err \<Rightarrow> Inl (OfRuntime (yr_Name r) err)
         | Inr custom \<Rightarrow> Inr (Some custom))) (\<lambda>custom.
     Inr \<lparr>cm_ID = None, cm_TypeID = None,
       cm_Attributes = Some \<lparr>ca_Name = Some (sourceID @ '':'' @ yr_Name r), ca_ExternalID = yr_ExternalID r,
         ca_CreateTime = None, ca_LastUpdateTime = None\<rparr>,
       cm_Properties = Some properties, cm_Custom = custom\<rparr>))"

definition version_additions :: "runtime_json \<Rightarrow> string \<Rightarrow> runtime_version \<Rightarrow> addition list" where
  "version_additions js sourceID v =
     [Inr (NewStringProperty ''source_id'' sourceID False), Inr (NewStringProperty ''artifactType'' ''serving-runtime-version'' False),
      Inr (NewStringProperty ''version'' (yv_Version v) False), Inr (NewStringProperty ''image'' (yv_Image v) False)]
     @ addString ''supportLevel'' (yv_SupportLevel v) @ addString ''minimumRHOAIVersion'' (yv_MinimumRHOAIVersion v)
     @ addString ''servingRuntimeTemplate'' (yv_ServingRuntimeTemplate v)
     @ addString ''llmInferenceServiceConfig'' (yv_LlmInferenceServiceConfig v)
     @ addString ''publishedDate'' (yv_PublishedDate v)
     @ [Inr (NewBoolProperty ''deprecated'' (true_option (yv_Deprecated v)) False)]
     @ addList ''supportedModelFormats'' (js_Strings js) (supportedModelFormatNames (yv_SupportedModelFormats v))
     @ addList ''supportedModelFormatsDetails'' (js_Formats js) (yv_SupportedModelFormats v)
     @ addList ''protocolVersions'' (js_Strings js) (yv_ProtocolVersions v)
     @ addList ''defaultArgs'' (js_Strings js) (yv_DefaultArgs v)
     @ addList ''env'' (js_Strings js) (map ev_Name (yv_Env v))
     @ addList ''envDetails'' (js_Env js) (yv_Env v)
     @ (case yv_RecommendedResources v of None \<Rightarrow> [] | Some rr \<Rightarrow> addJSON ''recommendedResources'' (js_Resources js rr))"

definition version_name :: "string \<Rightarrow> string \<Rightarrow> runtime_version \<Rightarrow> string" where
  "version_name sourceID runtimeName v = sourceID @ '':'' @ runtimeName @ '':'' @ yv_Version v"

definition buildServingRuntimeVersionEntity :: "runtime_json \<Rightarrow> string \<Rightarrow> string \<Rightarrow> runtime_version \<Rightarrow> build_error + catalog_model" where
  "buildServingRuntimeVersionEntity js sourceID runtimeName v =
     try_bind (gather (version_additions js sourceID v)) (\<lambda>properties.
     Inr \<lparr>cm_ID = None, cm_TypeID = None,
       cm_Attributes = Some \<lparr>ca_Name = Some (version_name sourceID runtimeName v), ca_ExternalID = yv_ExternalID v,
         ca_CreateTime = None, ca_LastUpdateTime = None\<rparr>,
       cm_Properties = Some properties, cm_Custom = None\<rparr>)"

subsection \<open>Runtimes and versions of the API\<close>

record runtime_base =
  ab_Id :: "string option"
  ab_Name :: "string option"
  ab_ExternalId :: "string option"
  ab_CreateTime :: "string option"
  ab_LastUpdateTime :: "string option"

record 't api_runtime = runtime_base +
  sr_SourceId :: "string option"
  sr_DisplayName :: "string option"
  sr_Description :: "string option"
  sr_Provider :: "string option"
  sr_Readme :: "string option"
  sr_Logo :: "string option"
  sr_License :: "string option"
  sr_LicenseLink :: "string option"
  sr_DocumentationUrl :: "string option"
  sr_RepositoryUrl :: "string option"
  sr_Tags :: "string list"
  sr_SupportedModelFormats :: "model_format list"
  sr_Capabilities :: "capabilities option"
  sr_VersionCount :: "int option"
  sr_PublishedDate :: "'t option"
  sr_LastUpdated :: "'t option"
  sr_CustomProperties :: "(string \<times> catalog_metadata) list"

record 't api_version = runtime_base +
  sv_ArtifactType :: string
  sv_Version :: string
  sv_Image :: string
  sv_SupportLevel :: "string option"
  sv_MinimumRHOAIVersion :: "string option"
  sv_SupportedModelFormats :: "model_format list"
  sv_ProtocolVersions :: "string list"
  sv_RecommendedResources :: "resource_recommendation option"
  sv_DefaultArgs :: "string list"
  sv_Env :: "runtime_env list"
  sv_ServingRuntimeTemplate :: "string option"
  sv_LlmInferenceServiceConfig :: "string option"
  sv_Deprecated :: "bool option"
  sv_PublishedDate :: "'t option"

definition unqualifiedName :: "string \<Rightarrow> string" where
  "unqualifiedName storedName = (case cut_at (CHR '':'') storedName of None \<Rightarrow> storedName | Some (_, unqualified) \<Rightarrow> unqualified)"

definition base_of :: "catalog_model \<Rightarrow> runtime_base" where
  "base_of m = (let a = cm_Attributes m in
     \<lparr>ab_Id = map_option itoa (cm_ID m), ab_Name = map_option unqualifiedName (Option.bind a ca_Name),
      ab_ExternalId = Option.bind a ca_ExternalID, ab_CreateTime = map_option itoa (Option.bind a ca_CreateTime),
      ab_LastUpdateTime = map_option itoa (Option.bind a ca_LastUpdateTime)\<rparr>)"

definition parseTimePtr :: "(string \<Rightarrow> 't option) \<Rightarrow> string option \<Rightarrow> 't option" where
  "parseTimePtr parse s = (case s of None \<Rightarrow> None | Some x \<Rightarrow> if x = [] then None else parse x)"

text \<open>An error names the entity, the property and what the decoder said.\<close>

datatype decode_error = BadStored string string string string

definition decoded :: "string \<Rightarrow> 'a runtime_base_scheme \<Rightarrow> string \<Rightarrow> (string \<Rightarrow> string + 'b) \<Rightarrow> string option \<Rightarrow> ('b \<Rightarrow> 'a runtime_base_scheme) \<Rightarrow> decode_error + 'a runtime_base_scheme" where
  "decoded kind res name read v put =
     (case v of
        None \<Rightarrow> Inr res
      | Some t \<Rightarrow> (case read t of Inl err \<Rightarrow> Inl (BadStored kind (str_or_empty (ab_Name res)) name err) | Inr x \<Rightarrow> Inr (put x)))"

definition map_runtime_property ::
  "runtime_json \<Rightarrow> (string \<Rightarrow> 't option) \<Rightarrow> stored_property \<Rightarrow> 't api_runtime \<Rightarrow> decode_error + 't api_runtime" where
  "map_runtime_property js parse p res =
     (let name = sp_Name p; v = sp_String p in
      if name = ''source_id'' then Inr (res\<lparr>sr_SourceId := v\<rparr>)
      else if name = ''displayName'' then Inr (res\<lparr>sr_DisplayName := v\<rparr>)
      else if name = ''description'' then Inr (res\<lparr>sr_Description := v\<rparr>)
      else if name = ''provider'' then Inr (res\<lparr>sr_Provider := v\<rparr>)
      else if name = ''readme'' then Inr (res\<lparr>sr_Readme := v\<rparr>)
      else if name = ''logo'' then Inr (res\<lparr>sr_Logo := v\<rparr>)
      else if name = ''license'' then Inr (res\<lparr>sr_License := v\<rparr>)
      else if name = ''licenseLink'' then Inr (res\<lparr>sr_LicenseLink := v\<rparr>)
      else if name = ''documentationUrl'' then Inr (res\<lparr>sr_DocumentationUrl := v\<rparr>)
      else if name = ''repositoryUrl'' then Inr (res\<lparr>sr_RepositoryUrl := v\<rparr>)
      else if name = ''tags'' then decoded ''serving_runtime'' res name (js_ReadStrings js) v (\<lambda>x. res\<lparr>sr_Tags := x\<rparr>)
      else if name = ''supportedModelFormatsDetails'' then
        decoded ''serving_runtime'' res name (js_ReadFormats js) v (\<lambda>x. res\<lparr>sr_SupportedModelFormats := x\<rparr>)
      else if name = ''capabilities'' then
        decoded ''serving_runtime'' res name (js_ReadCapabilities js) v (\<lambda>x. res\<lparr>sr_Capabilities := Some x\<rparr>)
      else if name = ''versionCount'' then Inr (case sp_Int p of None \<Rightarrow> res | Some n \<Rightarrow> res\<lparr>sr_VersionCount := Some n\<rparr>)
      else if name = ''publishedDate'' then Inr (res\<lparr>sr_PublishedDate := parseTimePtr parse v\<rparr>)
      else if name = ''lastUpdated'' then Inr (res\<lparr>sr_LastUpdated := parseTimePtr parse v\<rparr>)
      else Inr res)"

fun try_each :: "('p \<Rightarrow> 'a \<Rightarrow> 'e + 'a) \<Rightarrow> 'p list \<Rightarrow> 'a \<Rightarrow> 'e + 'a" where
  "try_each f [] x = Inr x"
| "try_each f (p # ps) x = try_bind (f p x) (try_each f ps)"

definition map_custom_property :: "stored_property \<Rightarrow> catalog_metadata" where
  "map_custom_property p =
     (let none = \<lparr>cmv_String = None, cmv_Bool = None, cmv_Int = None, cmv_Double = None, cmv_Proto = None, cmv_Struct = None\<rparr> in
      if sp_String p \<noteq> None then none\<lparr>cmv_String := sp_String p\<rparr>
      else if sp_Int p \<noteq> None then none\<lparr>cmv_Int := map_option itoa (sp_Int p)\<rparr>
      else if sp_Double p \<noteq> None then none\<lparr>cmv_Double := sp_Double p\<rparr>
      else none\<lparr>cmv_Bool := sp_Bool p\<rparr>)"

text \<open>The custom properties of the API are a map: a later property of the same name replaces an earlier one.\<close>

definition map_custom :: "stored_property list \<Rightarrow> (string \<times> catalog_metadata) list" where
  "map_custom ps = fold (\<lambda>p. AList.update (sp_Name p) (map_custom_property p)) ps []"

definition empty_runtime :: "runtime_base \<Rightarrow> 't api_runtime" where
  "empty_runtime b = runtime_base.extend b (api_runtime.fields None None None None None None None None None None [] [] None None None None [])"

definition mapDBServingRuntimeToAPI ::
  "runtime_json \<Rightarrow> (string \<Rightarrow> 't option) \<Rightarrow> catalog_model \<Rightarrow> decode_error + 't api_runtime" where
  "mapDBServingRuntimeToAPI js parse m =
     try_bind (try_each (map_runtime_property js parse) (case cm_Properties m of None \<Rightarrow> [] | Some ps \<Rightarrow> ps) (empty_runtime (base_of m))) (\<lambda>res.
       Inr (case cm_Custom m of None \<Rightarrow> res | Some ps \<Rightarrow> res\<lparr>sr_CustomProperties := map_custom ps\<rparr>))"

definition map_version_property ::
  "runtime_json \<Rightarrow> (string \<Rightarrow> 't option) \<Rightarrow> stored_property \<Rightarrow> 't api_version \<Rightarrow> decode_error + 't api_version" where
  "map_version_property js parse p res =
     (let name = sp_Name p; v = sp_String p in
      if name = ''artifactType'' then Inr (case v of None \<Rightarrow> res | Some x \<Rightarrow> if x = [] then res else res\<lparr>sv_ArtifactType := x\<rparr>)
      else if name = ''version'' then Inr (case v of None \<Rightarrow> res | Some x \<Rightarrow> res\<lparr>sv_Version := x\<rparr>)
      else if name = ''image'' then Inr (case v of None \<Rightarrow> res | Some x \<Rightarrow> res\<lparr>sv_Image := x\<rparr>)
      else if name = ''supportLevel'' then Inr (case v of None \<Rightarrow> res | Some x \<Rightarrow> res\<lparr>sv_SupportLevel := Some x\<rparr>)
      else if name = ''supportedModelFormatsDetails'' then
        decoded ''serving_runtime_version'' res name (js_ReadFormats js) v (\<lambda>x. res\<lparr>sv_SupportedModelFormats := x\<rparr>)
      else if name = ''protocolVersions'' then
        decoded ''serving_runtime_version'' res name (js_ReadStrings js) v (\<lambda>x. res\<lparr>sv_ProtocolVersions := x\<rparr>)
      else if name = ''recommendedResources'' then
        decoded ''serving_runtime_version'' res name (js_ReadResources js) v (\<lambda>x. res\<lparr>sv_RecommendedResources := Some x\<rparr>)
      else if name = ''defaultArgs'' then
        decoded ''serving_runtime_version'' res name (js_ReadStrings js) v (\<lambda>x. res\<lparr>sv_DefaultArgs := x\<rparr>)
      else if name = ''envDetails'' then
        decoded ''serving_runtime_version'' res name (js_ReadEnv js) v (\<lambda>x. res\<lparr>sv_Env := x\<rparr>)
      else if name = ''minimumRHOAIVersion'' then Inr (res\<lparr>sv_MinimumRHOAIVersion := v\<rparr>)
      else if name = ''servingRuntimeTemplate'' then Inr (res\<lparr>sv_ServingRuntimeTemplate := v\<rparr>)
      else if name = ''llmInferenceServiceConfig'' then Inr (res\<lparr>sv_LlmInferenceServiceConfig := v\<rparr>)
      else if name = ''deprecated'' then Inr (case sp_Bool p of None \<Rightarrow> res | Some b \<Rightarrow> res\<lparr>sv_Deprecated := Some b\<rparr>)
      else if name = ''publishedDate'' then Inr (res\<lparr>sv_PublishedDate := parseTimePtr parse v\<rparr>)
      else Inr res)"

definition empty_version :: "runtime_base \<Rightarrow> 't api_version" where
  "empty_version b = runtime_base.extend b
     (api_version.fields ''serving-runtime-version'' [] [] None None [] [] None [] [] None None None None)"

definition mapDBServingRuntimeVersionToAPI ::
  "runtime_json \<Rightarrow> (string \<Rightarrow> 't option) \<Rightarrow> catalog_model \<Rightarrow> decode_error + 't api_version" where
  "mapDBServingRuntimeVersionToAPI js parse m =
     try_each (map_version_property js parse) (case cm_Properties m of None \<Rightarrow> [] | Some ps \<Rightarrow> ps) (empty_version (base_of m))"

subsection \<open>Operations of the API\<close>

datatype catalog_error = InvalidId string | RuntimeNotFound string | RuntimeFailed string repo_error | ListFailed repo_error | BadEntity decode_error

definition GetServingRuntime ::
  "runtime_json \<Rightarrow> (string \<Rightarrow> 't option) \<Rightarrow> (int \<Rightarrow> repo_error + catalog_model) \<Rightarrow> string \<Rightarrow> catalog_error + 't api_runtime" where
  "GetServingRuntime js parse getByID i =
     (case parse_int 32 i of
        Inl err \<Rightarrow> Inl (InvalidId i)
      | Inr n \<Rightarrow>
          (case getByID n of
             Inl (NotFound t) \<Rightarrow> Inl (RuntimeNotFound i)
           | Inl err \<Rightarrow> Inl (RuntimeFailed i err)
           | Inr m \<Rightarrow> (case mapDBServingRuntimeToAPI js parse m of Inl err \<Rightarrow> Inl (BadEntity err) | Inr res \<Rightarrow> Inr res)))"

record list_params =
  lp_Name :: string
  lp_Query :: string
  lp_SourceIDs :: "string list"
  lp_FilterQuery :: string
  lp_OrderBy :: string
  lp_SortOrder :: string
  lp_NextPageToken :: string
  lp_PageSize :: int

definition non_empty :: "'a list \<Rightarrow> 'a list option" where
  "non_empty xs = (if xs = [] then None else Some xs)"

definition runtime_options :: "list_params \<Rightarrow> runtime_list_options" where
  "runtime_options p = \<lparr>pg_PageSize = Some (lp_PageSize p), pg_OrderBy = non_empty (to_upper (lp_OrderBy p)),
     pg_SortOrder = non_empty (to_upper (lp_SortOrder p)), pg_NextPageToken = non_empty (lp_NextPageToken p),
     pg_FilterQuery = Some (lp_FilterQuery p),
     ro_Name = non_empty (lp_Name p), ro_Query = non_empty (lp_Query p), ro_SourceIDs = non_empty (lp_SourceIDs p)\<rparr>"

definition version_options :: "int \<Rightarrow> list_params \<Rightarrow> runtime_version_options" where
  "version_options parent p = \<lparr>pg_PageSize = Some (lp_PageSize p), pg_OrderBy = non_empty (to_upper (lp_OrderBy p)),
     pg_SortOrder = non_empty (to_upper (lp_SortOrder p)), pg_NextPageToken = non_empty (lp_NextPageToken p),
     pg_FilterQuery = Some (lp_FilterQuery p), vo_ParentResourceID = Some parent, vo_SourceIDs = None\<rparr>"

record 'a api_list =
  al_Items :: "'a list"
  al_Size :: int
  al_PageSize :: int
  al_NextPageToken :: string

definition list_of :: "('e \<Rightarrow> decode_error + 'a) \<Rightarrow> int \<Rightarrow> repo_error + 'e list_wrapper \<Rightarrow> catalog_error + 'a api_list" where
  "list_of convert pageSize found =
     (case found of
        Inl err \<Rightarrow> Inl (ListFailed err)
      | Inr w \<Rightarrow> (case try_map convert (lw_Items w) of
          Inl err \<Rightarrow> Inl (BadEntity err)
        | Inr items \<Rightarrow> Inr \<lparr>al_Items = items, al_Size = to_int32 (int (length items)), al_PageSize = pageSize,
            al_NextPageToken = lw_NextPageToken w\<rparr>))"

definition ListServingRuntimes ::
  "runtime_json \<Rightarrow> (string \<Rightarrow> 't option) \<Rightarrow> (runtime_list_options \<Rightarrow> repo_error + catalog_model list_wrapper) \<Rightarrow> list_params
     \<Rightarrow> catalog_error + 't api_runtime api_list" where
  "ListServingRuntimes js parse lst p = list_of (mapDBServingRuntimeToAPI js parse) (lp_PageSize p) (lst (runtime_options p))"

definition ListServingRuntimeVersions ::
  "runtime_json \<Rightarrow> (string \<Rightarrow> 't option) \<Rightarrow> (int \<Rightarrow> repo_error + catalog_model)
     \<Rightarrow> (runtime_version_options \<Rightarrow> repo_error + catalog_model list_wrapper) \<Rightarrow> string \<Rightarrow> list_params \<Rightarrow> catalog_error + 't api_version api_list" where
  "ListServingRuntimeVersions js parse getByID lst runtimeID p =
     (case parse_int 32 runtimeID of
        Inl err \<Rightarrow> Inl (InvalidId runtimeID)
      | Inr n \<Rightarrow>
          (case getByID n of
             Inl (NotFound t) \<Rightarrow> Inl (RuntimeNotFound runtimeID)
           | Inl err \<Rightarrow> Inl (RuntimeFailed runtimeID err)
           | Inr m \<Rightarrow> list_of (mapDBServingRuntimeVersionToAPI js parse) (lp_PageSize p) (lst (version_options n p))))"

text \<open>The options for filters: some properties are hidden, and the two flags are always listed.\<close>

definition hidden_options :: "string list" where
  "hidden_options = [''source_id'', ''base_name'', ''description'', ''readme'', ''logo'', ''licenseLink'', ''documentationUrl'',
     ''repositoryUrl'', ''publishedDate'', ''lastUpdated'', ''capabilities'', ''supportedModelFormatsDetails'', ''envDetails'']"

definition runtime_filter_options :: "(int \<Rightarrow> float64) \<Rightarrow> property_option list \<Rightarrow> (string \<rightharpoonup> filter_option)" where
  "runtime_filter_options to_float props =
     (let options = fold (\<lambda>p m. if po_Name p \<in> set hidden_options then m
           else case DbPropToAPIOption to_float p of None \<Rightarrow> m | Some opt \<Rightarrow> m(FullName [] p \<mapsto> opt)) props Map.empty;
          flag = \<lparr>fo_Type = ''boolean'', fo_Values = [AnyBool False, AnyBool True], fo_Range = None\<rparr>
      in options(''capabilities.requiresGPU'' \<mapsto> flag, ''capabilities.multiModel'' \<mapsto> flag))"

end
