(* ===== verification/Runtime_Loader.thy ===== *)
theory Runtime_Loader
  imports Runtime_Entities Runtime_Yaml Catalog_Sources Catalog_Config
begin

section \<open>The loader of serving runtimes\<close>

text \<open>
  \<open>catalog/internal/catalog/serving_runtimecatalog/loader.go\<close>: the sources of a configuration, the reload of a source
  in one transaction, what becomes of its status, and the removal of sources that are gone. The repositories are the
  record \<open>runtime_services\<close> of functions on the database. The environment is \<open>probe\<close>: what the code finds, at its
  n-th look, of the error of the context and of the leadership, whatever has been written by then; the state of a reload is the
  database as the transaction sees it and the number of looks so far. A loop over pages is given fuel; \<open>StillRunning\<close> means that it had not ended.
\<close>

subsection \<open>Sources\<close>

datatype source_error = RuntimeSourceWithoutId | RuntimeSourceWithColon string | RuntimeSourceTwice string

fun collect_runtime_sources ::
  "string \<Rightarrow> (string \<times> plugin_source) list \<Rightarrow> plugin_source list \<Rightarrow> source_error + (string \<times> plugin_source) list" where
  "collect_runtime_sources path acc [] = Inr acc"
| "collect_runtime_sources path acc (s # ss) =
     (if p_ID s = [] then Inl RuntimeSourceWithoutId
      else if CHR '':'' \<in> set (p_ID s) then Inl (RuntimeSourceWithColon (p_ID s))
      else if p_ID s \<in> fst ` set acc then Inl (RuntimeSourceTwice (p_ID s))
      else collect_runtime_sources path (acc @ [(p_ID s, s\<lparr>p_Origin := path\<rparr>)]) ss)"

definition runtime_updateSources ::
  "string \<Rightarrow> plugin_source list \<Rightarrow> (string \<times> named_query) list \<Rightarrow> plugin_source source_collection \<Rightarrow> source_error + plugin_source source_collection" where
  "runtime_updateSources path configured queries sc =
     try_bind (collect_runtime_sources path [] configured) (\<lambda>sources.
       let filtered = FilterNamedQueriesByAssetType queries AssetTypeServingRuntimes
       in Inr (if filtered \<noteq> [] then MergeWithNamedQueries sc path sources filtered else Merge sc path sources))"

subsection \<open>Reloading a source\<close>

record 's runtime_services =
  rs_GetByName :: "string \<Rightarrow> 's \<Rightarrow> repo_error + catalog_model"
  rs_Save :: "catalog_model \<Rightarrow> 's \<Rightarrow> (repo_error + catalog_model) \<times> 's"
  rs_List :: "runtime_list_options \<Rightarrow> 's \<Rightarrow> repo_error + catalog_model list_wrapper"
  rs_DeleteByID :: "int \<Rightarrow> 's \<Rightarrow> repo_error + 's"
  rv_GetByName :: "string \<Rightarrow> 's \<Rightarrow> repo_error + catalog_model"
  rv_Save :: "catalog_model \<Rightarrow> int option \<Rightarrow> 's \<Rightarrow> (repo_error + catalog_model) \<times> 's"
  rv_List :: "runtime_version_options \<Rightarrow> 's \<Rightarrow> repo_error + catalog_model list_wrapper"
  rv_DeleteByID :: "int \<Rightarrow> 's \<Rightarrow> repo_error + 's"
  rv_DeleteByParentID :: "int \<Rightarrow> 's \<Rightarrow> repo_error + 's"

datatype reload_error =
    Cancelled string
  | LeadershipLost
  | RuntimeNotBuilt string build_error
  | VersionNotBuilt string string build_error
  | LookupFailed string repo_error
  | SaveFailed string repo_error
  | ListingFailed repo_error
  | DeleteFailed repo_error
  | StillRunning

type_synonym 's probe = "nat \<Rightarrow> 's \<Rightarrow> string option \<times> bool"

definition checkReloadContext :: "'s probe \<Rightarrow> 's \<times> nat \<Rightarrow> reload_error + 's \<times> nat" where
  "checkReloadContext pr st =
     (case fst (pr (snd st) (fst st)) of
        Some err \<Rightarrow> Inl (Cancelled err)
      | None \<Rightarrow> if snd (pr (snd st) (fst st)) then Inr (fst st, Suc (snd st)) else Inl LeadershipLost)"

definition ShouldWriteDatabase :: "'s probe \<Rightarrow> 's \<times> nat \<Rightarrow> reload_error + 's \<times> nat" where
  "ShouldWriteDatabase pr st = (if snd (pr (snd st) (fst st)) then Inr (fst st, Suc (snd st)) else Inl LeadershipLost)"

definition with_existing :: "catalog_model \<Rightarrow> catalog_model \<Rightarrow> catalog_model" where
  "with_existing existing e = e\<lparr>cm_ID := cm_ID existing,
     cm_Attributes := map_option (\<lambda>a. a\<lparr>ca_CreateTime := Option.bind (cm_Attributes existing) ca_CreateTime\<rparr>) (cm_Attributes e)\<rparr>"

text \<open>An entity is looked up by its name and saved over the one found.\<close>

definition upsert_entity ::
  "(string \<Rightarrow> 's \<Rightarrow> repo_error + catalog_model) \<Rightarrow> (catalog_model \<Rightarrow> 's \<Rightarrow> (repo_error + catalog_model) \<times> 's)
     \<Rightarrow> string \<Rightarrow> catalog_model \<Rightarrow> 's \<Rightarrow> reload_error + catalog_model \<times> 's" where
  "upsert_entity getByName save name e s =
     try_bind (case getByName name s of
         Inr existing \<Rightarrow> Inr (with_existing existing e)
       | Inl (NotFound t) \<Rightarrow> Inr e
       | Inl err \<Rightarrow> Inl (LookupFailed name err)) (\<lambda>e'.
     case save e' s of (Inl err, s') \<Rightarrow> Inl (SaveFailed name err) | (Inr saved, s') \<Rightarrow> Inr (saved, s'))"

definition persist_version ::
  "'s probe \<Rightarrow> runtime_json \<Rightarrow> 's runtime_services \<Rightarrow> string \<Rightarrow> string \<Rightarrow> int option \<Rightarrow> runtime_version \<Rightarrow> 's \<times> nat \<Rightarrow> reload_error + 's \<times> nat" where
  "persist_version pr js sv sourceID runtimeName parent v st =
     try_bind (checkReloadContext pr st) (\<lambda>st.
     case buildServingRuntimeVersionEntity js sourceID runtimeName v of
       Inl err \<Rightarrow> Inl (VersionNotBuilt runtimeName (yv_Version v) err)
     | Inr e \<Rightarrow>
         try_bind (upsert_entity (rv_GetByName sv) (\<lambda>e. rv_Save sv e parent) (version_name sourceID runtimeName v) e (fst st))
           (\<lambda>(saved, s'). Inr (s', snd st)))"

definition page_of_versions :: "int \<Rightarrow> string option \<Rightarrow> runtime_version_options" where
  "page_of_versions parent token = \<lparr>pg_PageSize = Some 100, pg_OrderBy = None, pg_SortOrder = None, pg_NextPageToken = token,
     pg_FilterQuery = None, vo_ParentResourceID = Some parent, vo_SourceIDs = None\<rparr>"

definition page_of_runtimes :: "string \<Rightarrow> string option \<Rightarrow> runtime_list_options" where
  "page_of_runtimes sourceID token = \<lparr>pg_PageSize = Some 100, pg_OrderBy = None, pg_SortOrder = None, pg_NextPageToken = token,
     pg_FilterQuery = None, ro_Name = None, ro_Query = None, ro_SourceIDs = Some [sourceID]\<rparr>"

definition deleted :: "repo_error + 's \<Rightarrow> nat \<Rightarrow> reload_error + 's \<times> nat" where
  "deleted result n = (case result of Inl err \<Rightarrow> Inl (DeleteFailed err) | Inr s \<Rightarrow> Inr (s, n))"

text \<open>The id of an entity of a page that is not wanted.\<close>

definition unwanted :: "string set \<Rightarrow> catalog_model \<Rightarrow> int option" where
  "unwanted valid m = (case (model_name m, cm_ID m) of (Some n, Some i) \<Rightarrow> if n \<in> valid then None else Some i | _ \<Rightarrow> None)"

definition remove_version :: "'s probe \<Rightarrow> 's runtime_services \<Rightarrow> string set \<Rightarrow> catalog_model \<Rightarrow> 's \<times> nat \<Rightarrow> reload_error + 's \<times> nat" where
  "remove_version pr sv valid m st =
     try_bind (checkReloadContext pr st) (\<lambda>st.
     case unwanted valid m of
       None \<Rightarrow> Inr st
     | Some i \<Rightarrow> try_bind (ShouldWriteDatabase pr st) (\<lambda>(s, n). deleted (rv_DeleteByID sv i s) n))"

definition remove_runtime :: "'s probe \<Rightarrow> 's runtime_services \<Rightarrow> string set \<Rightarrow> catalog_model \<Rightarrow> 's \<times> nat \<Rightarrow> reload_error + 's \<times> nat" where
  "remove_runtime pr sv valid m st =
     try_bind (checkReloadContext pr st) (\<lambda>st.
     case unwanted valid m of
       None \<Rightarrow> Inr st
     | Some i \<Rightarrow>
         try_bind (ShouldWriteDatabase pr st) (\<lambda>(s, n).
         try_bind (deleted (rv_DeleteByParentID sv i s) n) (\<lambda>st.
         try_bind (checkReloadContext pr st) (\<lambda>(s, n). deleted (rs_DeleteByID sv i s) n))))"

fun remove_pages ::
  "'s probe \<Rightarrow> (string option \<Rightarrow> 's \<Rightarrow> repo_error + catalog_model list_wrapper) \<Rightarrow> (catalog_model \<Rightarrow> 's \<times> nat \<Rightarrow> reload_error + 's \<times> nat)
     \<Rightarrow> nat \<Rightarrow> string option \<Rightarrow> 's \<times> nat \<Rightarrow> reload_error + 's \<times> nat" where
  "remove_pages pr page remove 0 token st = Inl StillRunning"
| "remove_pages pr page remove (Suc fuel) token st =
     try_bind (checkReloadContext pr st) (\<lambda>st.
     case page token (fst st) of
       Inl err \<Rightarrow> Inl (ListingFailed err)
     | Inr w \<Rightarrow>
         try_bind (for_each remove (lw_Items w) st) (\<lambda>st.
           if lw_NextPageToken w = [] \<or> lw_Items w = [] then checkReloadContext pr st
           else remove_pages pr page remove fuel (Some (lw_NextPageToken w)) st))"

definition removeOrphanedVersions ::
  "'s probe \<Rightarrow> 's runtime_services \<Rightarrow> nat \<Rightarrow> int \<Rightarrow> string set \<Rightarrow> 's \<times> nat \<Rightarrow> reload_error + 's \<times> nat" where
  "removeOrphanedVersions pr sv fuel parent valid st =
     remove_pages pr (\<lambda>token. rv_List sv (page_of_versions parent token)) (remove_version pr sv valid) fuel None st"

definition removeOrphanedRuntimes ::
  "'s probe \<Rightarrow> 's runtime_services \<Rightarrow> nat \<Rightarrow> string \<Rightarrow> string set \<Rightarrow> 's \<times> nat \<Rightarrow> reload_error + 's \<times> nat" where
  "removeOrphanedRuntimes pr sv fuel sourceID valid st =
     remove_pages pr (\<lambda>token. rs_List sv (page_of_runtimes sourceID token)) (remove_runtime pr sv valid) fuel None st"

definition runtime_name :: "string \<Rightarrow> serving_runtime \<Rightarrow> string" where
  "runtime_name sourceID r = sourceID @ '':'' @ yr_Name r"

definition persist_runtime ::
  "'s probe \<Rightarrow> runtime_json \<Rightarrow> 's runtime_services \<Rightarrow> nat \<Rightarrow> string \<Rightarrow> serving_runtime \<Rightarrow> 's \<times> nat \<Rightarrow> reload_error + 's \<times> nat" where
  "persist_runtime pr js sv fuel sourceID r st =
     try_bind (checkReloadContext pr st) (\<lambda>st.
     case buildServingRuntimeEntity js sourceID r of
       Inl err \<Rightarrow> Inl (RuntimeNotBuilt (yr_Name r) err)
     | Inr e \<Rightarrow>
         try_bind (upsert_entity (rs_GetByName sv) (rs_Save sv) (runtime_name sourceID r) e (fst st)) (\<lambda>(saved, s).
         try_bind (for_each (persist_version pr js sv sourceID (yr_Name r) (cm_ID saved)) (yr_Versions r) (s, snd st)) (\<lambda>st.
           removeOrphanedVersions pr sv fuel (the (cm_ID saved)) (version_name sourceID (yr_Name r) ` set (yr_Versions r)) st)))"

definition persistEntries ::
  "'s probe \<Rightarrow> runtime_json \<Rightarrow> 's runtime_services \<Rightarrow> nat \<Rightarrow> string \<Rightarrow> serving_runtime list \<Rightarrow> 's \<times> nat \<Rightarrow> reload_error + 's \<times> nat" where
  "persistEntries pr js sv fuel sourceID entries st =
     try_bind (for_each (persist_runtime pr js sv fuel sourceID) entries st) (\<lambda>st.
     try_bind (removeOrphanedRuntimes pr sv fuel sourceID (runtime_name sourceID ` set entries) st) (checkReloadContext pr))"

text \<open>
  The source, its file, the services and the transaction. The path is the property of the source; \<open>read\<close> takes it
  relative to the origin of the source, opens it and judges its families. The commit is the database's, and so is what
  follows an error of the body or of the commit: the transaction is rolled back.
\<close>

datatype load_failure =
    ContextDone string
  | PathMissing
  | BadFile string
  | NoTransactions
  | ReloadFailed reload_error
  | CommitFailed db_error

definition loadRuntimesFromYAML ::
  "'s probe \<Rightarrow> runtime_json \<Rightarrow> 's runtime_services \<Rightarrow> bool \<Rightarrow> ('s \<Rightarrow> db_error option) \<Rightarrow> nat \<Rightarrow> (string \<Rightarrow> string + serving_runtime list)
     \<Rightarrow> string \<Rightarrow> string option \<Rightarrow> 's \<Rightarrow> (load_failure + unit) \<times> 's" where
  "loadRuntimesFromYAML pr js sv transact commit fuel read sourceID path s =
     (case fst (pr 0 s) of
        Some err \<Rightarrow> (Inl (ContextDone err), s)
      | None \<Rightarrow>
          if path = None \<or> path = Some [] then (Inl PathMissing, s)
          else case read (the path) of
              Inl err \<Rightarrow> (Inl (BadFile err), s)
            | Inr entries \<Rightarrow>
                if \<not> transact then (Inl NoTransactions, s)
                else case persistEntries pr js sv fuel sourceID entries (s, 1) of
                    Inl err \<Rightarrow> (Inl (ReloadFailed err), s)
                  | Inr (s', n) \<Rightarrow> (case commit s' of Some err \<Rightarrow> (Inl (CommitFailed err), s) | None \<Rightarrow> (Inr (), s')))"

text \<open>What \<open>doLoad\<close> does with the status of the source.\<close>

datatype status_action = KeepStatus | SaveStatus string string

definition doLoad :: "(load_failure \<Rightarrow> bool) \<Rightarrow> (load_failure \<Rightarrow> string) \<Rightarrow> load_failure + unit \<Rightarrow> status_action" where
  "doLoad canceled message result =
     (case result of
        Inr u \<Rightarrow> SaveStatus ''available'' []
      | Inl err \<Rightarrow> if err = ReloadFailed LeadershipLost \<or> canceled err then KeepStatus
          else SaveStatus ''error'' (runtimeSourceStatusError (message err)))"

subsection \<open>Sources that are gone\<close>

datatype runtime_removal = DeleteVersionsOf string | DeleteRuntimesOf string | DeleteRuntimeStatusOf string

text \<open>\<open>leader\<close> is the answer at the n-th source; the loop ends without an error when the leadership is lost.\<close>

datatype removal_end = Finished | NotLeader | RemovalFailed string

fun remove_runtime_sources ::
  "(nat \<Rightarrow> bool) \<Rightarrow> (runtime_removal \<Rightarrow> bool) \<Rightarrow> string set \<Rightarrow> nat \<Rightarrow> string list \<Rightarrow> runtime_removal list \<times> removal_end" where
  "remove_runtime_sources leader failing protected n [] = ([], Finished)"
| "remove_runtime_sources leader failing protected n (src # gone) =
     (if \<not> leader n then ([], NotLeader)
      else if failing (DeleteVersionsOf src) then ([DeleteVersionsOf src], RemovalFailed src)
      else if failing (DeleteRuntimesOf src) then ([DeleteVersionsOf src, DeleteRuntimesOf src], RemovalFailed src)
      else (let (rs, end) = remove_runtime_sources leader failing protected (Suc n) gone
            in ([DeleteVersionsOf src, DeleteRuntimesOf src] @ (if src \<notin> protected then [DeleteRuntimeStatusOf src] else []) @ rs, end)))"

definition removeRuntimesFromMissingSources ::
  "(string \<times> plugin_source) list \<Rightarrow> string set \<Rightarrow> string + string list \<Rightarrow> string + string list \<Rightarrow> (string set \<Rightarrow> string list)
     \<Rightarrow> (nat \<Rightarrow> bool) \<Rightarrow> (runtime_removal \<Rightarrow> bool) \<Rightarrow> string + string option list \<Rightarrow> runtime_removal list \<times> removal_end" where
  "removeRuntimesFromMissingSources sources allKnown runtimeIDs versionIDs order leader failing getAll =
     (let protected = fst ` set sources \<union> allKnown;
          enabled = fst ` {(i, p) \<in> set sources. PluginSource_IsEnabled p}
      in case runtimeIDs of
           Inl err \<Rightarrow> ([], RemovalFailed err)
         | Inr rids \<Rightarrow>
             (case versionIDs of
                Inl err \<Rightarrow> ([], RemovalFailed err)
              | Inr vids \<Rightarrow>
                  (case remove_runtime_sources leader failing protected 0 (order (set (rids @ vids) - enabled)) of
                     (rs, Finished) \<Rightarrow>
                       (case CleanupOrphanedCatalogSources getAll protected of
                          Inl err \<Rightarrow> (rs, RemovalFailed err)
                        | Inr ids \<Rightarrow> (rs @ map DeleteRuntimeStatusOf ids, Finished))
                   | (rs, e) \<Rightarrow> (rs, e))))"

subsection \<open>Leader operations\<close>

text \<open>
  What a new leader starts: the sources that are gone are removed first, and an error there ends the operation; a lost
  leadership does not.
\<close>

datatype source_start = SaveDisabled string | SaveUnknownProvider string string | WatchAndLoad string

definition runtime_source_start :: "string \<times> plugin_source \<Rightarrow> source_start" where
  "runtime_source_start source =
     (case source of (i, p) \<Rightarrow>
        if \<not> PluginSource_IsEnabled p then SaveDisabled i
        else if p_Type p \<noteq> ''yaml'' then SaveUnknownProvider i (''unknown provider type: '' @ p_Type p)
        else WatchAndLoad i)"

definition runtime_PerformLeaderOperations :: "removal_end \<Rightarrow> (string \<times> plugin_source) list \<Rightarrow> string + source_start list" where
  "runtime_PerformLeaderOperations removal sources =
     (case removal of RemovalFailed err \<Rightarrow> Inl err | _ \<Rightarrow> Inr (map runtime_source_start sources))"

end
