(* ===== verification/Runtime_Reload.thy ===== *)
theory Runtime_Reload
  imports Runtime_Loader
begin

section \<open>What a reload leaves\<close>

text \<open>
  The reload against its interfaces: a table that is listed page by page while rows are deleted, and the repository
  of runtimes. The loops end, and after a reload that succeeds the runtimes of the source are those of the file.
\<close>

lemma for_each_Cons_Inr:
  "for_each f (x # xs) s = Inr s' \<longleftrightarrow> (\<exists>s1. f x s = Inr s1 \<and> for_each f xs s1 = Inr s')"
  by (auto simp: try_bind_Inr_iff)

lemma for_each_inv:
  assumes "\<forall>x \<in> set xs. \<forall>s s'. f x s = Inr s' \<longrightarrow> P s \<longrightarrow> P s'"
  shows "for_each f xs s = Inr s' \<Longrightarrow> P s \<Longrightarrow> P s'"
  using assms by (induction xs arbitrary: s) (auto simp: try_bind_Inr_iff)

lemma check_same: "checkReloadContext pr a = Inr b \<Longrightarrow> fst b = fst a"
  by (auto simp: checkReloadContext_def split: option.splits if_splits)

lemma remove_pages_SucE:
  assumes "remove_pages pr page remove (Suc fuel) token st = Inr st'"
  obtains st1 w st2 where "checkReloadContext pr st = Inr st1" "page token (fst st1) = Inr w" "for_each remove (lw_Items w) st1 = Inr st2"
      "(if lw_NextPageToken w = [] \<or> lw_Items w = [] then checkReloadContext pr st2
        else remove_pages pr page remove fuel (Some (lw_NextPageToken w)) st2) = Inr st'"
proof -
  obtain st1 where st1: "checkReloadContext pr st = Inr st1" using assms by (auto simp: try_bind_Inr_iff)
  obtain w where w: "page token (fst st1) = Inr w" using assms st1 by (cases "page token (fst st1)") auto
  obtain st2 where "for_each remove (lw_Items w) st1 = Inr st2" using assms st1 w by (auto simp: try_bind_Inr_iff)
  with that [OF st1 w] assms st1 w show thesis by simp
qed

text \<open>A property of the state that every call keeps holds throughout the pages.\<close>

lemma remove_pages_inv:
  assumes remove: "\<forall>m st st'. remove m st = Inr st' \<longrightarrow> P (fst st) \<longrightarrow> P (fst st')"
  shows "remove_pages pr page remove fuel token st = Inr st' \<Longrightarrow> P (fst st) \<Longrightarrow> P (fst st')"
proof (induction fuel arbitrary: token st)
  case (Suc fuel)
  obtain st1 w st2 where steps: "checkReloadContext pr st = Inr st1" "page token (fst st1) = Inr w" "for_each remove (lw_Items w) st1 = Inr st2"
      "(if lw_NextPageToken w = [] \<or> lw_Items w = [] then checkReloadContext pr st2
        else remove_pages pr page remove fuel (Some (lw_NextPageToken w)) st2) = Inr st'"
    using Suc.prems(1) by (rule remove_pages_SucE)
  note same = check_same [of pr]
  have "P (fst st2)"
    by (rule for_each_inv [OF _ steps(3), where P = "\<lambda>st. P (fst st)"]) (use remove Suc.prems(2) same [OF steps(1)] in auto)
  then show ?case using steps(4) Suc.IH check_same [of pr st2 st'] by (auto split: if_splits)
qed simp

subsection \<open>Paged listings\<close>

text \<open>
  Rows that are listed page by page, each page from behind the last row of the one before: the loop ends, whatever it
  does to the rows of a page, as long as it does not add any.
\<close>

locale paged_listing =
  fixes page :: "string option \<Rightarrow> 's \<Rightarrow> repo_error + catalog_model list_wrapper"
    and present :: "'s \<Rightarrow> int set"
    and beyond :: "string option \<Rightarrow> int \<Rightarrow> bool"
  assumes finite_present: "finite (present s)"
    and next_page: "page token s = Inr w \<Longrightarrow> lw_NextPageToken w \<noteq> [] \<Longrightarrow> lw_Items w \<noteq> [] \<Longrightarrow>
      \<exists>hi. (\<exists>i \<in> present s. beyond token i \<and> i \<le> hi) \<and> (\<forall>i. beyond (Some (lw_NextPageToken w)) i \<longleftrightarrow> beyond token i \<and> hi < i)"

lemma for_each_running:
  assumes "\<forall>m st. f m st \<noteq> Inl StillRunning"
  shows "for_each f ms st \<noteq> Inl StillRunning"
  using assms by (induction ms arbitrary: st) (auto simp: try_bind_Inl_iff)

lemma check_running: "checkReloadContext pr a \<noteq> Inl StillRunning"
  by (auto simp: checkReloadContext_def split: option.splits if_splits)

context paged_listing
begin

definition left :: "string option \<Rightarrow> 's \<Rightarrow> int set" where
  "left token s = {i \<in> present s. beyond token i}"

lemma finite_left: "finite (left token s)"
  using finite_present [of s] by (simp add: left_def)

lemma left_present: "card (left token s) \<le> card (present s)"
  by (rule card_mono [OF finite_present]) (auto simp: left_def)

text \<open>Every page that is followed by another one leaves fewer rows to come.\<close>

lemma page_progress:
  assumes shrink: "present s' \<subseteq> present s" and p: "page token s = Inr w" "lw_NextPageToken w \<noteq> []" "lw_Items w \<noteq> []"
  shows "left (Some (lw_NextPageToken w)) s' \<subset> left token s"
proof -
  obtain hi i where hi: "i \<in> present s" "beyond token i" "i \<le> hi" "\<forall>j. beyond (Some (lw_NextPageToken w)) j \<longleftrightarrow> beyond token j \<and> hi < j"
    using next_page [OF p] by blast
  have "left (Some (lw_NextPageToken w)) s' \<subseteq> left token s - {i}" using shrink hi by (auto simp: left_def)
  moreover have "i \<in> left token s" using hi by (simp add: left_def)
  ultimately show ?thesis by blast
qed

lemma pages_end:
  assumes quiet: "\<forall>m st. remove m st \<noteq> Inl StillRunning" and shrink: "\<forall>m st st'. remove m st = Inr st' \<longrightarrow> present (fst st') \<subseteq> present (fst st)"
  shows "card (left token (fst st)) < fuel \<Longrightarrow> remove_pages pr page remove fuel token st \<noteq> Inl StillRunning"
proof (induction fuel arbitrary: token st)
  case (Suc fuel)
  show ?case
  proof
    assume run: "remove_pages pr page remove (Suc fuel) token st = Inl StillRunning"
    then obtain st1 where st1: "checkReloadContext pr st = Inr st1" using check_running [of pr st] by (cases "checkReloadContext pr st") auto
    obtain w where w: "page token (fst st1) = Inr w" using run st1 by (cases "page token (fst st1)") auto
    then obtain st2 where st2: "for_each remove (lw_Items w) st1 = Inr st2"
      using run st1 for_each_running [OF quiet, of "lw_Items w" st1] by (auto simp: try_bind_Inl_iff)
    with run st1 w check_running [of pr st2] have more: "lw_NextPageToken w \<noteq> []" "lw_Items w \<noteq> []"
        "remove_pages pr page remove fuel (Some (lw_NextPageToken w)) st2 = Inl StillRunning"
      by (auto split: if_splits)
    have "present (fst st2) \<subseteq> present (fst st1)"
      by (rule for_each_inv [OF _ st2, where P = "\<lambda>st. present (fst st) \<subseteq> present (fst st1)"]) (use shrink in blast)+
    from psubset_card_mono [OF finite_left page_progress [OF this w more(1,2)]]
    have "card (left (Some (lw_NextPageToken w)) (fst st2)) < card (left token (fst st))" using check_same [OF st1] by simp
    with Suc.prems Suc.IH more(3) show False by (meson less_Suc_eq_le less_le_trans)
  qed
qed simp

end

subsection \<open>Paged tables\<close>

locale paged_store =
  fixes page :: "string option \<Rightarrow> 's \<Rightarrow> repo_error + catalog_model list_wrapper"
    and entry :: "'s \<Rightarrow> int \<Rightarrow> 'v option"
    and named :: "'v \<Rightarrow> string"
    and mine :: "'s \<Rightarrow> int \<Rightarrow> bool"
    and beyond :: "string option \<Rightarrow> int \<Rightarrow> bool"
  assumes first: "beyond None i"
    and finite_entries: "finite {i. entry s i \<noteq> None}"
    and page_law: "page token s = Inr w \<Longrightarrow> \<exists>hi.
      (\<forall>i n. (\<exists>m \<in> set (lw_Items w). cm_ID m = Some i \<and> model_name m = Some n) \<longleftrightarrow>
         (\<exists>v. entry s i = Some v \<and> named v = n \<and> mine s i \<and> beyond token i \<and> i \<le> hi))
      \<and> (lw_NextPageToken w = [] \<or> lw_Items w = [] \<longrightarrow> (\<forall>i. entry s i \<noteq> None \<longrightarrow> mine s i \<longrightarrow> beyond token i \<longrightarrow> i \<le> hi))
      \<and> (lw_NextPageToken w \<noteq> [] \<longrightarrow> (\<forall>i. beyond (Some (lw_NextPageToken w)) i \<longleftrightarrow> beyond token i \<and> hi < i))
      \<and> (lw_Items w \<noteq> [] \<longrightarrow> (\<exists>m \<in> set (lw_Items w). \<exists>i n. cm_ID m = Some i \<and> model_name m = Some n))"

sublocale paged_store \<subseteq> listing: paged_listing page "\<lambda>s. {i. entry s i \<noteq> None \<and> mine s i}" beyond
proof unfold_locales
  show "finite {i. entry s i \<noteq> None \<and> mine s i}" for s
    by (rule finite_subset [OF _ finite_entries [of s]]) blast
next
  fix token s w assume p: "page token s = Inr w" "lw_NextPageToken w \<noteq> []" "lw_Items w \<noteq> []"
  obtain hi where hi: "\<forall>i n. (\<exists>m \<in> set (lw_Items w). cm_ID m = Some i \<and> model_name m = Some n) \<longleftrightarrow>
         (\<exists>v. entry s i = Some v \<and> named v = n \<and> mine s i \<and> beyond token i \<and> i \<le> hi)"
      "\<forall>i. beyond (Some (lw_NextPageToken w)) i \<longleftrightarrow> beyond token i \<and> hi < i"
      "\<exists>m \<in> set (lw_Items w). \<exists>i n. cm_ID m = Some i \<and> model_name m = Some n"
    using page_law [OF p(1)] p(2,3) by blast
  from hi(1,3) have "\<exists>i v. entry s i = Some v \<and> mine s i \<and> beyond token i \<and> i \<le> hi" by blast
  with hi(2) show "\<exists>hi. (\<exists>i \<in> {i. entry s i \<noteq> None \<and> mine s i}. beyond token i \<and> i \<le> hi)
      \<and> (\<forall>i. beyond (Some (lw_NextPageToken w)) i \<longleftrightarrow> beyond token i \<and> hi < i)" by blast
qed

text \<open>A step of the loop deletes exactly the row of an unwanted entity.\<close>

definition erases :: "('s \<Rightarrow> int \<Rightarrow> 'v option) \<Rightarrow> ('s \<Rightarrow> int \<Rightarrow> bool) \<Rightarrow> string set \<Rightarrow> (catalog_model \<Rightarrow> 's \<times> nat \<Rightarrow> reload_error + 's \<times> nat) \<Rightarrow> bool" where
  "erases entry mine valid remove \<longleftrightarrow> (\<forall>m s n s' n'. remove m (s, n) = Inr (s', n') \<longrightarrow>
     (\<forall>i. entry s' i = (if unwanted valid m = Some i then None else entry s i) \<and> (entry s' i \<noteq> None \<longrightarrow> mine s' i = mine s i)))"

lemma erases_all:
  assumes "erases entry mine valid remove" "for_each remove ms (s, n) = Inr (s', n')"
  shows "entry s' i = (if \<exists>m \<in> set ms. unwanted valid m = Some i then None else entry s i) \<and> (entry s' i \<noteq> None \<longrightarrow> mine s' i = mine s i)"
  using assms(2)
proof (induction ms arbitrary: s n)
  case (Cons m ms)
  then obtain s1 n1 where "remove m (s, n) = Inr (s1, n1)" and rest: "for_each remove ms (s1, n1) = Inr (s', n')"
    by (auto simp: for_each_Cons_Inr simp del: for_each.simps)
  with assms(1) have "entry s1 i = (if unwanted valid m = Some i then None else entry s i)" "entry s1 i \<noteq> None \<longrightarrow> mine s1 i = mine s i"
    unfolding erases_def by blast+
  with Cons.IH [OF rest] show ?case by auto
qed simp

context paged_store
begin

text \<open>What is left of the own rows after the last page has a wanted name; nothing else is touched.\<close>

lemma pages_exact:
  assumes e: "erases entry mine valid remove"
  shows "remove_pages pr page remove fuel token (s, n) = Inr (s', n') \<Longrightarrow>
    (\<forall>i v. entry s i = Some v \<longrightarrow> mine s i \<longrightarrow> \<not> beyond token i \<longrightarrow> named v \<in> valid) \<Longrightarrow>
    (\<forall>i v. entry s' i = Some v \<longrightarrow> mine s' i \<longrightarrow> named v \<in> valid)
    \<and> (\<forall>i v. entry s i = Some v \<longrightarrow> (entry s' i = Some v \<or> entry s' i = None \<and> mine s i \<and> named v \<notin> valid))
    \<and> (\<forall>i v. entry s' i = Some v \<longrightarrow> entry s i = Some v \<and> mine s' i = mine s i)"
proof (induction fuel arbitrary: token s n)
  case (Suc fuel)
  note same = check_same [of pr]
  obtain st1 w st2 where steps: "checkReloadContext pr (s, n) = Inr st1" "page token (fst st1) = Inr w" "for_each remove (lw_Items w) st1 = Inr st2"
      "(if lw_NextPageToken w = [] \<or> lw_Items w = [] then checkReloadContext pr st2
        else remove_pages pr page remove fuel (Some (lw_NextPageToken w)) st2) = Inr (s', n')"
    using Suc.prems(1) by (rule remove_pages_SucE)
  obtain s2 n2 where st2: "st2 = (s2, n2)" by (cases st2)
  obtain n1 where st1: "st1 = (s, n1)" using same [OF steps(1)] by (cases st1) simp
  have w: "page token s = Inr w" and each: "for_each remove (lw_Items w) (s, n1) = Inr (s2, n2)"
    using steps st1 st2 by simp_all
  obtain hi where hi: "\<forall>i k. (\<exists>m \<in> set (lw_Items w). cm_ID m = Some i \<and> model_name m = Some k) \<longleftrightarrow>
         (\<exists>v. entry s i = Some v \<and> named v = k \<and> mine s i \<and> beyond token i \<and> i \<le> hi)"
      "lw_NextPageToken w = [] \<or> lw_Items w = [] \<longrightarrow> (\<forall>i. entry s i \<noteq> None \<longrightarrow> mine s i \<longrightarrow> beyond token i \<longrightarrow> i \<le> hi)"
      "lw_NextPageToken w \<noteq> [] \<longrightarrow> (\<forall>i. beyond (Some (lw_NextPageToken w)) i \<longleftrightarrow> beyond token i \<and> hi < i)"
    using page_law [OF w] by blast
  have gone: "(\<exists>m \<in> set (lw_Items w). unwanted valid m = Some i) \<longleftrightarrow>
      (\<exists>v. entry s i = Some v \<and> named v \<notin> valid \<and> mine s i \<and> beyond token i \<and> i \<le> hi)" for i
  proof -
    have "(\<exists>m \<in> set (lw_Items w). unwanted valid m = Some i) \<longleftrightarrow>
        (\<exists>k. k \<notin> valid \<and> (\<exists>m \<in> set (lw_Items w). cm_ID m = Some i \<and> model_name m = Some k))"
      by (auto simp: unwanted_def split: option.splits if_splits)
    then show ?thesis using hi(1) by auto
  qed
  note after = erases_all [OF e each]
  have page_kept: "entry s2 i = Some v \<Longrightarrow> entry s i = Some v \<and> mine s2 i = mine s i" for i v
    using after [of i] by (auto split: if_splits)
  have page_gone: "entry s i = Some v \<Longrightarrow> entry s2 i = Some v \<or> entry s2 i = None \<and> mine s i \<and> named v \<notin> valid" for i v
    using after [of i] gone [of i] by (auto split: if_splits)
  have seen: "named v \<in> valid" if "entry s2 i = Some v" "mine s2 i" "\<not> (beyond token i \<and> hi < i)" for i v
  proof (cases "beyond token i")
    case True
    have "entry s i = Some v" "mine s i" using page_kept [OF that(1)] that(2) by auto
    moreover have "\<not> (\<exists>m \<in> set (lw_Items w). unwanted valid m = Some i)" using after [of i] that(1) by (auto split: if_splits)
    ultimately show ?thesis using gone [of i] True that(3) by auto
  next
    case False
    then show ?thesis using page_kept [OF that(1)] that(2) Suc.prems(2) by blast
  qed
  show ?case
  proof (cases "lw_NextPageToken w = [] \<or> lw_Items w = []")
    case True
    then have s': "s' = s2" using steps(4) same st2 by fastforce
    have "named v \<in> valid" if "entry s2 i = Some v" "mine s2 i" for i v
    proof -
      have "entry s i \<noteq> None" "mine s i" using page_kept [OF that(1)] that(2) by auto
      then show ?thesis using seen [OF that] hi(2) True by fastforce
    qed
    then show ?thesis using page_kept page_gone unfolding s' by blast
  next
    case False
    then have "remove_pages pr page remove fuel (Some (lw_NextPageToken w)) (s2, n2) = Inr (s', n')" using steps(4) st2 by simp
    from Suc.IH [OF this] have IH: "(\<forall>i v. entry s' i = Some v \<longrightarrow> mine s' i \<longrightarrow> named v \<in> valid)
      \<and> (\<forall>i v. entry s2 i = Some v \<longrightarrow> (entry s' i = Some v \<or> entry s' i = None \<and> mine s2 i \<and> named v \<notin> valid))
      \<and> (\<forall>i v. entry s' i = Some v \<longrightarrow> entry s2 i = Some v \<and> mine s' i = mine s2 i)"
      using seen hi(3) False by blast
    have "entry s' i = Some v \<or> entry s' i = None \<and> mine s i \<and> named v \<notin> valid" if "entry s i = Some v" for i v
      using page_gone [OF that]
    proof
      assume k: "entry s2 i = Some v"
      then show ?thesis using IH page_kept [OF k] by blast
    next
      assume k: "entry s2 i = None \<and> mine s i \<and> named v \<notin> valid"
      then have "entry s' i = None" using IH by (cases "entry s' i") auto
      with k show ?thesis by blast
    qed
    moreover have "entry s i = Some v \<and> mine s' i = mine s i" if "entry s' i = Some v" for i v
    proof -
      have a: "entry s2 i = Some v" "mine s' i = mine s2 i" using IH that by blast+
      then show ?thesis using page_kept [OF a(1)] by simp
    qed
    ultimately show ?thesis using IH by blast
  qed
qed simp

end

subsection \<open>The repository of runtimes\<close>

locale runtime_store =
  paged_store "\<lambda>token. rs_List sv (page_of_runtimes src token)" entry named mine beyond
  for sv :: "'s runtime_services" and src :: string and entry :: "'s \<Rightarrow> int \<Rightarrow> 'v option" and named :: "'v \<Rightarrow> string"
    and mine :: "'s \<Rightarrow> int \<Rightarrow> bool" and beyond :: "string option \<Rightarrow> int \<Rightarrow> bool" +
  fixes js :: runtime_json and holds :: "serving_runtime \<Rightarrow> 'v option \<Rightarrow> 'v \<Rightarrow> bool"
  assumes lookup: "rs_GetByName sv n s = Inr m \<Longrightarrow> \<exists>i v. cm_ID m = Some i \<and> entry s i = Some v \<and> named v = n"
    and save: "buildServingRuntimeEntity js src r = Inr e \<Longrightarrow>
      m = e \<or> (\<exists>x j v. m = with_existing x e \<and> cm_ID x = Some j \<and> entry s j = Some v \<and> named v = runtime_name src r) \<Longrightarrow>
      rs_Save sv m s = (Inr m', s') \<Longrightarrow>
      \<exists>i v. cm_ID m' = Some i \<and> entry s' = (entry s)(i \<mapsto> v) \<and> mine s' = (mine s)(i := True) \<and> named v = runtime_name src r
        \<and> holds r (entry s i) v \<and> (\<forall>w. entry s i = Some w \<longrightarrow> named w = runtime_name src r)"
    and delete: "rs_DeleteByID sv i s = Inr s' \<Longrightarrow> entry s' = (entry s)(i := None) \<and> (\<forall>j. j \<noteq> i \<longrightarrow> mine s' j = mine s j)"
    and version_saved: "rv_Save sv m p s = (Inr m', s') \<Longrightarrow> entry s' = entry s \<and> mine s' = mine s"
    and version_deleted: "rv_DeleteByID sv i s = Inr s' \<Longrightarrow> entry s' = entry s \<and> mine s' = mine s"
    and versions_deleted: "rv_DeleteByParentID sv i s = Inr s' \<Longrightarrow> entry s' = entry s \<and> mine s' = mine s"

lemma case_sum_Inr: "(case r of Inl err \<Rightarrow> Inl (g err) | Inr x \<Rightarrow> h x) = Inr y \<longleftrightarrow> (\<exists>x. r = Inr x \<and> h x = Inr y)"
  by (cases r) auto

lemma deleted_Inr: "deleted r n = Inr st \<longleftrightarrow> (\<exists>s. r = Inr s \<and> st = (s, n))"
  by (cases r) (auto simp: deleted_def)

lemma ShouldWriteDatabase_Inr: "ShouldWriteDatabase pr st = Inr st' \<Longrightarrow> fst st' = fst st"
  by (auto simp: ShouldWriteDatabase_def split: if_splits)

lemma upsert_entity_Inr:
  "upsert_entity getByName save name e s = Inr (saved, s') \<Longrightarrow>
     \<exists>e'. save e' s = (Inr saved, s') \<and> (e' = e \<or> (\<exists>x. getByName name s = Inr x \<and> e' = with_existing x e))"
  by (auto simp: upsert_entity_def try_bind_Inr_iff split: sum.splits repo_error.splits prod.splits)

lemma persist_version_keeps:
  assumes "\<And>m s m' s'. rv_Save sv m p s = (Inr m', s') \<Longrightarrow> f s' = f s"
  shows "persist_version pr js sv src rn p v st = Inr st' \<Longrightarrow> f (fst st') = f (fst st)"
  using assms
  by (auto simp: persist_version_def try_bind_Inr_iff case_sum_Inr dest!: upsert_entity_Inr check_same)

context runtime_store
begin

lemma remove_version_keeps:
  "remove_version pr sv valid m st = Inr st' \<Longrightarrow> entry (fst st') = entry (fst st) \<and> mine (fst st') = mine (fst st)"
  using version_deleted
  by (auto simp: remove_version_def deleted_Inr try_bind_Inr_iff split: option.splits dest!: check_same ShouldWriteDatabase_Inr)

lemma remove_runtime_erases: "erases entry mine valid (remove_runtime pr sv valid)"
  unfolding erases_def
proof (intro allI impI)
  fix m s n s' n' i
  assume run: "remove_runtime pr sv valid m (s, n) = Inr (s', n')"
  show "entry s' i = (if unwanted valid m = Some i then None else entry s i) \<and> (entry s' i \<noteq> None \<longrightarrow> mine s' i = mine s i)"
  proof (cases "unwanted valid m")
    case None
    then have "s' = s" using run by (auto simp: remove_runtime_def try_bind_Inr_iff dest!: check_same)
    with None show ?thesis by simp
  next
    case (Some j)
    obtain s1 where s1: "rv_DeleteByParentID sv j s = Inr s1" "rs_DeleteByID sv j s1 = Inr s'"
      using run Some by (auto simp: remove_runtime_def deleted_Inr try_bind_Inr_iff dest!: check_same ShouldWriteDatabase_Inr)
    from versions_deleted [OF s1(1)] delete [OF s1(2)] Some show ?thesis by auto
  qed
qed

text \<open>One family: its row is new or the one of its name, and nothing else changes.\<close>

lemma persist_runtime_spec:
  assumes run: "persist_runtime pr js sv fuel src r (s, n) = Inr (s', n')"
  shows "\<exists>i v. entry s' = (entry s)(i \<mapsto> v) \<and> mine s' = (mine s)(i := True) \<and> named v = runtime_name src r
    \<and> holds r (entry s i) v \<and> (\<forall>w. entry s i = Some w \<longrightarrow> named w = runtime_name src r)"
proof -
  let ?keeps = "\<lambda>a st. entry (fst st) = entry a \<and> mine (fst st) = mine a"
  obtain n1 where c: "checkReloadContext pr (s, n) = Inr (s, n1)" using run check_same [of pr "(s, n)"]
    by (auto simp: persist_runtime_def try_bind_Inr_iff)
  obtain e where e: "buildServingRuntimeEntity js src r = Inr e" using run c
    by (cases "buildServingRuntimeEntity js src r") (auto simp: persist_runtime_def)
  obtain saved s1 st2 where u: "upsert_entity (rs_GetByName sv) (rs_Save sv) (runtime_name src r) e s = Inr (saved, s1)"
    and vs: "for_each (persist_version pr js sv src (yr_Name r) (cm_ID saved)) (yr_Versions r) (s1, n1) = Inr st2"
    and rest: "removeOrphanedVersions pr sv fuel (the (cm_ID saved)) (version_name src (yr_Name r) ` set (yr_Versions r)) st2 = Inr (s', n')"
    using run c e by (auto simp: persist_runtime_def try_bind_Inr_iff)
  obtain e' where e': "rs_Save sv e' s = (Inr saved, s1)"
      "e' = e \<or> (\<exists>x. rs_GetByName sv (runtime_name src r) s = Inr x \<and> e' = with_existing x e)"
    using upsert_entity_Inr [OF u] by blast
  have "e' = e \<or> (\<exists>x j v. e' = with_existing x e \<and> cm_ID x = Some j \<and> entry s j = Some v \<and> named v = runtime_name src r)"
    using e'(2) lookup by blast
  from save [OF e this e'(1)] obtain i v where iv: "entry s1 = (entry s)(i \<mapsto> v)" "mine s1 = (mine s)(i := True)"
      "named v = runtime_name src r" "holds r (entry s i) v" "\<forall>w. entry s i = Some w \<longrightarrow> named w = runtime_name src r" by blast
  have step: "?keeps s1 st'" if "persist_version pr js sv src (yr_Name r) (cm_ID saved) x st = Inr st'" "?keeps s1 st" for x st st'
    using persist_version_keeps [where f = "\<lambda>s. (entry s, mine s)", OF _ that(1)] version_saved that(2) by auto
  have "?keeps s1 st2" by (rule for_each_inv [OF _ vs]) (use step in auto)
  moreover have "?keeps s1 (s', n')"
    using remove_pages_inv [OF _ rest [unfolded removeOrphanedVersions_def], where P = "\<lambda>s. entry s = entry s1 \<and> mine s = mine s1"]
      remove_version_keeps calculation by simp
  ultimately show ?thesis using iv by auto
qed

text \<open>The families that have been written, and what is as it was.\<close>

definition written :: "serving_runtime \<Rightarrow> 's \<Rightarrow> bool" where
  "written r s \<longleftrightarrow> (\<exists>i v old. entry s i = Some v \<and> mine s i \<and> named v = runtime_name src r \<and> holds r old v)"

definition families_inv :: "'s \<Rightarrow> string set \<Rightarrow> 's \<Rightarrow> bool" where
  "families_inv s0 names s \<longleftrightarrow>
     (\<forall>i v. entry s0 i = Some v \<longrightarrow> named v \<notin> names \<longrightarrow> entry s i = Some v \<and> mine s i = mine s0 i)
     \<and> (\<forall>i v. entry s i = Some v \<longrightarrow> named v \<in> names \<or> entry s0 i = Some v \<and> mine s i = mine s0 i)"

lemma families_step:
  assumes "entry s' = (entry s)(i \<mapsto> v)" "mine s' = (mine s)(i := True)" "named v = n" "\<forall>w. entry s i = Some w \<longrightarrow> named w = n"
    and "families_inv s0 names s"
  shows "families_inv s0 (insert n names) s'"
  unfolding families_inv_def
proof (intro conjI allI impI)
  fix j w assume w: "entry s0 j = Some w" "named w \<notin> insert n names"
  then have "entry s j = Some w" "mine s j = mine s0 j" using assms(5) by (auto simp: families_inv_def)
  with w assms show "entry s' j = Some w" "mine s' j = mine s0 j" by auto
next
  fix j w assume "entry s' j = Some w"
  with assms show "named w \<in> insert n names \<or> entry s0 j = Some w \<and> mine s' j = mine s0 j"
    by (cases "j = i") (auto simp: families_inv_def)
qed

lemma written_step:
  assumes "entry s' = (entry s)(i \<mapsto> v)" "mine s' = (mine s)(i := True)" "\<forall>w. entry s i = Some w \<longrightarrow> named w = n"
    and "written r s" "runtime_name src r \<noteq> n"
  shows "written r s'"
proof -
  obtain j w old where j: "entry s j = Some w" "mine s j" "named w = runtime_name src r" "holds r old w"
    using assms(4) by (auto simp: written_def)
  with assms(3,5) have "j \<noteq> i" by auto
  with j assms(1,2) show ?thesis by (auto simp: written_def)
qed

lemma persist_all:
  assumes "distinct (map yr_Name rs)"
  shows "for_each (persist_runtime pr js sv fuel src) rs (s, n) = Inr (s', n') \<Longrightarrow> families_inv s0 names s \<Longrightarrow>
    families_inv s0 (names \<union> runtime_name src ` set rs) s' \<and> (\<forall>r \<in> set rs. written r s')
    \<and> (\<forall>r. written r s \<longrightarrow> runtime_name src r \<notin> runtime_name src ` set rs \<longrightarrow> written r s')"
  using assms
proof (induction rs arbitrary: s n names)
  case (Cons r rs)
  then obtain s1 n1 where one: "persist_runtime pr js sv fuel src r (s, n) = Inr (s1, n1)"
    and rest: "for_each (persist_runtime pr js sv fuel src) rs (s1, n1) = Inr (s', n')"
    by (auto simp: for_each_Cons_Inr simp del: for_each.simps)
  obtain i v where iv: "entry s1 = (entry s)(i \<mapsto> v)" "mine s1 = (mine s)(i := True)" "named v = runtime_name src r"
      "holds r (entry s i) v" "\<forall>w. entry s i = Some w \<longrightarrow> named w = runtime_name src r"
    using persist_runtime_spec [OF one] by blast
  have inv: "families_inv s0 (insert (runtime_name src r) names) s1" by (rule families_step [OF iv(1-3,5) Cons.prems(2)])
  have mine: "written r s1" using iv by (auto simp: written_def)
  have new: "runtime_name src r \<notin> runtime_name src ` set rs" using Cons.prems(3) by (auto simp: runtime_name_def)
  note IH = Cons.IH [OF rest inv] Cons.prems(3)
  have a: "families_inv s0 (insert (runtime_name src r) names \<union> runtime_name src ` set rs) s'"
      "\<forall>x \<in> set rs. written x s'" "\<forall>x. written x s1 \<longrightarrow> runtime_name src x \<notin> runtime_name src ` set rs \<longrightarrow> written x s'"
    using IH by auto
  have "written r s'" using a(3) mine new by blast
  moreover have "written x s'" if "written x s" "runtime_name src x \<notin> runtime_name src ` set (r # rs)" for x
    using that written_step [OF iv(1,2,5) that(1)] a(3) by auto
  ultimately show ?case using a(1,2) by simp
qed auto

lemma persistEntries_spec:
  assumes run: "persistEntries pr js sv fuel src rs (s, n) = Inr (s', n')" and d: "distinct (map yr_Name rs)"
  shows "\<forall>r \<in> set rs. written r s'"
    and "{named v | v i. entry s' i = Some v \<and> mine s' i} = runtime_name src ` set rs"
    and "\<forall>i v. entry s i = Some v \<longrightarrow> \<not> mine s i \<longrightarrow> named v \<notin> runtime_name src ` set rs \<longrightarrow> entry s' i = Some v"
proof -
  let ?names = "runtime_name src ` set rs"
  obtain s1 n1 s2 n2 where all: "for_each (persist_runtime pr js sv fuel src) rs (s, n) = Inr (s1, n1)"
    and orphans: "removeOrphanedRuntimes pr sv fuel src ?names (s1, n1) = Inr (s2, n2)"
    and last: "checkReloadContext pr (s2, n2) = Inr (s', n')"
    using run by (auto simp: persistEntries_def try_bind_Inr_iff)
  have s2: "s' = s2" using check_same [OF last] by simp
  have inv: "families_inv s ?names s1" "\<forall>r \<in> set rs. written r s1"
    using persist_all [OF d all, of s "{}"] by (auto simp: families_inv_def)
  note ex = pages_exact [OF remove_runtime_erases orphans [unfolded removeOrphanedRuntimes_def]]
  have ex: "\<forall>i v. entry s2 i = Some v \<longrightarrow> mine s2 i \<longrightarrow> named v \<in> ?names"
      "\<forall>i v. entry s1 i = Some v \<longrightarrow> (entry s2 i = Some v \<or> entry s2 i = None \<and> mine s1 i \<and> named v \<notin> ?names)"
      "\<forall>i v. entry s2 i = Some v \<longrightarrow> entry s1 i = Some v \<and> mine s2 i = mine s1 i"
    using ex first by blast+
  have kept: "written r s2" if r: "r \<in> set rs" for r
  proof -
    obtain i v old where i: "entry s1 i = Some v" "mine s1 i" "named v = runtime_name src r" "holds r old v"
      using inv(2) r unfolding written_def by blast
    then have "entry s2 i = Some v" using ex(2) r by auto
    with i ex(3) show ?thesis by (auto simp: written_def)
  qed
  then show "\<forall>r \<in> set rs. written r s'" using s2 by simp
  show "{named v | v i. entry s' i = Some v \<and> mine s' i} = ?names"
    unfolding s2
  proof (intro equalityI subsetI)
    fix x assume "x \<in> ?names"
    then obtain r where r: "r \<in> set rs" "x = runtime_name src r" by blast
    obtain i v old where iv: "entry s2 i = Some v" "mine s2 i" "named v = runtime_name src r" "holds r old v"
      using kept [OF r(1)] unfolding written_def by blast
    have "named v = x" using iv(3) r(2) by simp
    with iv(1,2) show "x \<in> {named v | v i. entry s2 i = Some v \<and> mine s2 i}" by blast
  qed (use ex(1) in blast)
  show "\<forall>i v. entry s i = Some v \<longrightarrow> \<not> mine s i \<longrightarrow> named v \<notin> ?names \<longrightarrow> entry s' i = Some v"
    unfolding s2
  proof (intro allI impI)
    fix i v assume v: "entry s i = Some v" "\<not> mine s i" "named v \<notin> ?names"
    then have "entry s1 i = Some v" "\<not> mine s1 i" using inv(1) by (auto simp: families_inv_def)
    with ex(2) show "entry s2 i = Some v" by blast
  qed
qed

end

end
