(* ===== verification/Runtime_Ending.thy ===== *)
theory Runtime_Ending
  imports Runtime_Reload
begin

section \<open>A reload ends\<close>

text \<open>
  The loops of a reload go over pages of a table that the reload itself has just written. They end if the fuel is above
  the number of rows at the start with those the file adds.
\<close>

locale reload_ends =
  paged_listing "\<lambda>token. rs_List sv (page_of_runtimes src token)" own beyond
  for sv :: "'s runtime_services" and src :: string and own :: "'s \<Rightarrow> int set" and beyond :: "string option \<Rightarrow> int \<Rightarrow> bool" +
  fixes versions :: "int \<Rightarrow> 's \<Rightarrow> int set" and size_of :: "'s \<Rightarrow> nat"
  assumes version_listing: "paged_listing (\<lambda>token. rv_List sv (page_of_versions p token)) (versions p) beyond"
    and own_size: "card (own s) \<le> size_of s"
    and versions_size: "card (versions p s) \<le> size_of s"
    and saved_size: "rs_Save sv m s = (Inr m', s') \<Longrightarrow> size_of s' \<le> Suc (size_of s)"
    and version_saved_size: "rv_Save sv m q s = (Inr m', s') \<Longrightarrow> size_of s' \<le> Suc (size_of s)"
    and deleted_less: "rs_DeleteByID sv i s = Inr s' \<Longrightarrow> own s' \<subseteq> own s \<and> size_of s' \<le> size_of s"
    and version_deleted_less: "rv_DeleteByID sv i s = Inr s' \<Longrightarrow> versions p s' \<subseteq> versions p s \<and> size_of s' \<le> size_of s"
    and versions_deleted_less: "rv_DeleteByParentID sv i s = Inr s' \<Longrightarrow> own s' \<subseteq> own s \<and> size_of s' \<le> size_of s"

lemma case_sum_Inl: "(case r of Inl err \<Rightarrow> Inl (g err) | Inr x \<Rightarrow> h x) = Inl y \<longleftrightarrow> (\<exists>err. r = Inl err \<and> y = g err) \<or> (\<exists>x. r = Inr x \<and> h x = Inl y)"
  by (cases r) auto

lemma deleted_Inl: "deleted r n = Inl y \<longleftrightarrow> (\<exists>err. r = Inl err \<and> y = DeleteFailed err)"
  by (cases r) (auto simp: deleted_def)

lemma ShouldWrite_running: "ShouldWriteDatabase pr st \<noteq> Inl StillRunning"
  by (simp add: ShouldWriteDatabase_def)

lemma upsert_running: "upsert_entity getByName save name e s \<noteq> Inl StillRunning"
  by (auto simp: upsert_entity_def try_bind_Inl_iff split: sum.splits repo_error.splits prod.splits)

lemma remove_version_running: "remove_version pr sv valid m st \<noteq> Inl StillRunning"
  by (auto simp: remove_version_def try_bind_Inl_iff check_running ShouldWrite_running deleted_Inl split: option.splits)

lemma remove_runtime_running: "remove_runtime pr sv valid m st \<noteq> Inl StillRunning"
  by (auto simp: remove_runtime_def try_bind_Inl_iff check_running ShouldWrite_running deleted_Inl split: option.splits)

lemma persist_version_running: "persist_version pr js sv src rn p v st \<noteq> Inl StillRunning"
  by (auto simp: persist_version_def try_bind_Inl_iff check_running case_sum_Inl upsert_running)

lemma versions_running: "for_each (persist_version pr js sv src rn p) vs st \<noteq> Inl StillRunning"
  by (rule for_each_running) (use persist_version_running in blast)

lemma for_each_size:
  fixes size_of :: "'s \<Rightarrow> nat"
  assumes "\<forall>x \<in> set xs. \<forall>st st'. f x st = Inr st' \<longrightarrow> size_of (fst st') \<le> size_of (fst st) + cost x"
  shows "for_each f xs st = Inr st' \<Longrightarrow> size_of (fst st') \<le> size_of (fst st) + sum_list (map cost xs)"
  using assms
proof (induction xs arbitrary: st)
  case (Cons x xs)
  then obtain st1 where one: "f x st = Inr st1" and rest: "for_each f xs st1 = Inr st'" by (auto simp: for_each_Cons_Inr simp del: for_each.simps)
  have "size_of (fst st1) \<le> size_of (fst st) + cost x" using Cons.prems(2) one by (simp del: split_paired_All)
  moreover have "size_of (fst st') \<le> size_of (fst st1) + sum_list (map cost xs)" using Cons.IH [OF rest] Cons.prems(2) by simp
  ultimately show ?case by simp
qed simp

definition rows_of :: "serving_runtime \<Rightarrow> nat" where
  "rows_of r = Suc (length (yr_Versions r))"

context reload_ends
begin

lemma remove_version_less:
  "remove_version pr sv valid m st = Inr st' \<Longrightarrow> versions p (fst st') \<subseteq> versions p (fst st) \<and> size_of (fst st') \<le> size_of (fst st)"
  using version_deleted_less
  by (fastforce simp: remove_version_def deleted_Inr try_bind_Inr_iff split: option.splits dest!: check_same ShouldWriteDatabase_Inr)

lemma remove_runtime_less:
  assumes "remove_runtime pr sv valid m st = Inr st'"
  shows "own (fst st') \<subseteq> own (fst st) \<and> size_of (fst st') \<le> size_of (fst st)"
proof (cases "unwanted valid m")
  case None
  then have "checkReloadContext pr st = Inr st'" using assms by (auto simp: remove_runtime_def try_bind_Inr_iff)
  then show ?thesis using check_same by fastforce
next
  case (Some j)
  obtain s1 where s1: "rv_DeleteByParentID sv j (fst st) = Inr s1" "rs_DeleteByID sv j s1 = Inr (fst st')"
    using assms Some by (auto simp: remove_runtime_def deleted_Inr try_bind_Inr_iff dest!: check_same ShouldWriteDatabase_Inr)
  have "own s1 \<subseteq> own (fst st)" "size_of s1 \<le> size_of (fst st)" using versions_deleted_less [OF s1(1)] by blast+
  moreover have "own (fst st') \<subseteq> own s1" "size_of (fst st') \<le> size_of s1" using deleted_less [OF s1(2)] by blast+
  ultimately show ?thesis by simp
qed

lemma orphans_end:
  assumes "size_of (fst st) < fuel"
  shows "removeOrphanedRuntimes pr sv fuel src valid st \<noteq> Inl StillRunning"
  unfolding removeOrphanedRuntimes_def
proof (rule pages_end)
  show "card (left None (fst st)) < fuel" using assms own_size left_present by (meson le_less_trans)
qed (use remove_runtime_running remove_runtime_less in blast)+

lemma version_orphans_end:
  assumes "size_of (fst st) < fuel"
  shows "removeOrphanedVersions pr sv fuel p valid st \<noteq> Inl StillRunning"
  unfolding removeOrphanedVersions_def
proof (rule paged_listing.pages_end [OF version_listing [of p]])
  show "card (paged_listing.left (versions p) beyond None (fst st)) < fuel"
    using assms versions_size paged_listing.left_present [OF version_listing [of p]] by (meson le_less_trans)
qed (use remove_version_running remove_version_less in blast)+

lemma version_orphans_size:
  assumes "removeOrphanedVersions pr sv fuel p valid st = Inr st'"
  shows "size_of (fst st') \<le> size_of (fst st)"
proof -
  have "\<forall>m a b. remove_version pr sv valid m a = Inr b \<longrightarrow> size_of (fst a) \<le> size_of (fst st) \<longrightarrow> size_of (fst b) \<le> size_of (fst st)"
    using remove_version_less order_trans by blast
  from remove_pages_inv [OF this assms [unfolded removeOrphanedVersions_def]] show ?thesis by simp
qed

lemma upsert_size:
  assumes "\<And>m s m' s'. save m s = (Inr m', s') \<Longrightarrow> size_of s' \<le> Suc (size_of s)"
    and "upsert_entity getByName save name e s = Inr (saved, s')"
  shows "size_of s' \<le> Suc (size_of s)"
  using upsert_entity_Inr [OF assms(2)] assms(1) by blast

lemma persist_version_size:
  "persist_version pr js sv src rn p v st = Inr st' \<Longrightarrow> size_of (fst st') \<le> size_of (fst st) + 1"
  using upsert_size [of "\<lambda>e. rv_Save sv e p"] version_saved_size
  by (auto simp: persist_version_def try_bind_Inr_iff case_sum_Inr dest!: check_same)

text \<open>One family adds at most its own row and those of its versions, and its loop ends.\<close>

lemma persist_runtime_ends:
  assumes "size_of (fst st) + rows_of r < fuel"
  shows "persist_runtime pr js sv fuel src r st \<noteq> Inl StillRunning"
    and "persist_runtime pr js sv fuel src r st = Inr st' \<Longrightarrow> size_of (fst st') \<le> size_of (fst st) + rows_of r"
proof -
  have written: "size_of (fst st2) \<le> size_of (fst st) + rows_of r"
    if c: "checkReloadContext pr st = Inr st1" and u: "upsert_entity (rs_GetByName sv) (rs_Save sv) name e (fst st1) = Inr (saved, s1)"
      and v: "for_each (persist_version pr js sv src (yr_Name r) (cm_ID saved)) (yr_Versions r) (s1, snd st1) = Inr st2" for st1 name e saved s1 st2
  proof -
    have "size_of s1 \<le> Suc (size_of (fst st))" using upsert_size [OF saved_size u] check_same [OF c] by simp
    moreover have "size_of (fst st2) \<le> size_of s1 + sum_list (map (\<lambda>_. 1) (yr_Versions r))"
    proof -
      have "\<forall>x \<in> set (yr_Versions r). \<forall>a b. persist_version pr js sv src (yr_Name r) (cm_ID saved) x a = Inr b \<longrightarrow> size_of (fst b) \<le> size_of (fst a) + 1"
        using persist_version_size by blast
      from for_each_size [OF this v] show ?thesis by simp
    qed
    ultimately show ?thesis by (simp add: rows_of_def sum_list_triv)
  qed
  show "persist_runtime pr js sv fuel src r st \<noteq> Inl StillRunning"
  proof
    assume run: "persist_runtime pr js sv fuel src r st = Inl StillRunning"
    then obtain st1 e saved s1 st2 where steps: "checkReloadContext pr st = Inr st1"
        "upsert_entity (rs_GetByName sv) (rs_Save sv) (runtime_name src r) e (fst st1) = Inr (saved, s1)"
        "for_each (persist_version pr js sv src (yr_Name r) (cm_ID saved)) (yr_Versions r) (s1, snd st1) = Inr st2"
        "removeOrphanedVersions pr sv fuel (the (cm_ID saved)) (version_name src (yr_Name r) ` set (yr_Versions r)) st2 = Inl StillRunning"
      by (auto simp: persist_runtime_def try_bind_Inl_iff check_running upsert_running versions_running case_sum_Inl)
    then show False using version_orphans_end [of st2 fuel] written [OF steps(1-3)] assms by (meson le_less_trans)
  qed
  assume "persist_runtime pr js sv fuel src r st = Inr st'"
  then obtain st1 e saved s1 st2 where steps: "checkReloadContext pr st = Inr st1"
      "upsert_entity (rs_GetByName sv) (rs_Save sv) (runtime_name src r) e (fst st1) = Inr (saved, s1)"
      "for_each (persist_version pr js sv src (yr_Name r) (cm_ID saved)) (yr_Versions r) (s1, snd st1) = Inr st2"
      "removeOrphanedVersions pr sv fuel (the (cm_ID saved)) (version_name src (yr_Name r) ` set (yr_Versions r)) st2 = Inr st'"
    by (auto simp: persist_runtime_def try_bind_Inr_iff case_sum_Inr)
  show "size_of (fst st') \<le> size_of (fst st) + rows_of r"
    using version_orphans_size [OF steps(4)] written [OF steps(1-3)] by simp
qed

lemma persist_families_end:
  "size_of (fst st) + sum_list (map rows_of rs) < fuel \<Longrightarrow> for_each (persist_runtime pr js sv fuel src) rs st \<noteq> Inl StillRunning
     \<and> (\<forall>st'. for_each (persist_runtime pr js sv fuel src) rs st = Inr st' \<longrightarrow> size_of (fst st') \<le> size_of (fst st) + sum_list (map rows_of rs))"
proof (induction rs arbitrary: st)
  case (Cons r rs)
  have here: "size_of (fst st) + rows_of r < fuel" using Cons.prems by simp
  note one = persist_runtime_ends [OF here]
  show ?case
  proof (cases "persist_runtime pr js sv fuel src r st")
    case (Inr st1)
    have "size_of (fst st1) \<le> size_of (fst st) + rows_of r" by (rule one(2) [OF Inr])
    with Cons.IH [of st1] Cons.prems Inr show ?thesis by fastforce
  qed (use one(1) in auto)
qed simp

lemma persistEntries_ends:
  assumes "size_of (fst st) + sum_list (map rows_of rs) < fuel"
  shows "persistEntries pr js sv fuel src rs st \<noteq> Inl StillRunning"
proof
  note all = persist_families_end [OF assms, of pr js]
  assume "persistEntries pr js sv fuel src rs st = Inl StillRunning"
  then obtain st1 where st1: "for_each (persist_runtime pr js sv fuel src) rs st = Inr st1"
      "removeOrphanedRuntimes pr sv fuel src (runtime_name src ` set rs) st1 = Inl StillRunning"
    using all by (auto simp: persistEntries_def try_bind_Inl_iff check_running)
  then have "size_of (fst st1) < fuel" using all assms by fastforce
  with orphans_end st1(2) show False by blast
qed

end

end
