(* ===== verification/Runtime_Served.thy ===== *)
theory Runtime_Served
  imports Runtime_Entities Catalog_Models_Facts
begin

text \<open>
  What the API serves of a runtime is what its file says: the properties a runtime is stored with, how the API reads
  them in any order, and what the repository keeps in between.
\<close>

subsection \<open>Properties by name\<close>

definition column :: "stored_property list \<Rightarrow> string \<Rightarrow> stored_property option" where
  "column ps n = find (\<lambda>p. sp_Name p = n) ps"

lemma column_simps [simp]:
  "column [] n = None"
  "column (p # ps) n = (if sp_Name p = n then Some p else column ps n)"
  "column (ps @ qs) n = (case column ps n of None \<Rightarrow> column qs n | Some p \<Rightarrow> Some p)"
proof -
  show "column (ps @ qs) n = (case column ps n of None \<Rightarrow> column qs n | Some p \<Rightarrow> Some p)"
    unfolding column_def by (induction ps) simp_all
qed (simp_all add: column_def)

lemma column_None: "column ps n = None \<longleftrightarrow> n \<notin> sp_Name ` set ps"
  by (induction ps) auto

lemma column_Some: "column ps n = Some p \<Longrightarrow> p \<in> set ps \<and> sp_Name p = n"
  by (induction ps) (auto split: if_splits)

lemma column_mem: "distinct (map sp_Name ps) \<Longrightarrow> p \<in> set ps \<Longrightarrow> column ps (sp_Name p) = Some p"
  by (induction ps) auto

lemma column_same:
  assumes "distinct (map sp_Name ps)" "distinct (map sp_Name qs)" "set ps = set qs"
  shows "column ps n = column qs n"
proof (cases "column qs n")
  case None
  then have "column ps n = None" using assms(3) by (simp add: column_None)
  with None show ?thesis by simp
next
  case (Some p)
  then have "p \<in> set ps" "sp_Name p = n" using column_Some assms(3) by auto
  with assms(1) Some show ?thesis by (auto simp: column_mem)
qed

text \<open>A step that sets the field \<open>f\<close> for the property \<open>n\<close> and leaves it for all others.\<close>

definition sets_field :: "(stored_property \<Rightarrow> 'a \<Rightarrow> 'e + 'a) \<Rightarrow> string \<Rightarrow> (stored_property \<Rightarrow> 'b \<Rightarrow> 'b) \<Rightarrow> ('a \<Rightarrow> 'b) \<Rightarrow> bool" where
  "sets_field step n g f \<longleftrightarrow> (\<forall>p x y. step p x = Inr y \<longrightarrow> f y = (if sp_Name p = n then g p (f x) else f x))"

lemma try_each_column:
  assumes "sets_field step n g f" "try_each step ps x = Inr y" "distinct (map sp_Name ps)"
  shows "f y = (case column ps n of None \<Rightarrow> f x | Some p \<Rightarrow> g p (f x))"
  using assms(2,3)
proof (induction ps arbitrary: x)
  case (Cons p ps)
  then obtain z where z: "step p x = Inr z" "try_each step ps z = Inr y" by (auto simp: try_bind_Inr_iff)
  note IH = Cons.IH [OF z(2)]
  have one: "f z = (if sp_Name p = n then g p (f x) else f x)" using assms(1) z(1) unfolding sets_field_def by blast
  show ?case
  proof (cases "sp_Name p = n")
    case True
    then have "column ps n = None" using Cons.prems(2) by (auto simp: column_None)
    with IH Cons.prems(2) one True show ?thesis by simp
  next
    case False
    with IH Cons.prems(2) one show ?thesis by (simp split: option.split)
  qed
qed simp

lemma try_each_total:
  "\<forall>p \<in> set ps. \<forall>x. \<exists>y. step p x = Inr y \<Longrightarrow> \<exists>y. try_each step ps x = Inr y"
proof (induction ps arbitrary: x)
  case (Cons p ps)
  then have "\<exists>z. step p x = Inr z" by simp
  then obtain z where "step p x = Inr z" by (rule exE)
  with Cons show ?case by simp
qed simp

lemma try_each_keeps:
  assumes "\<forall>p x y. step p x = Inr y \<longrightarrow> f y = f x"
  shows "try_each step ps x = Inr y \<Longrightarrow> f y = f x"
proof (induction ps arbitrary: x)
  case (Cons p ps)
  then obtain z where "step p x = Inr z" "try_each step ps z = Inr y" by (auto simp: try_bind_Inr_iff)
  then show ?case using Cons.IH assms by metis
qed simp

subsection \<open>The properties a runtime is built with\<close>

definition rights :: "addition list \<Rightarrow> stored_property list" where
  "rights as = List.map_filter (\<lambda>a. case a of Inr p \<Rightarrow> Some p | Inl err \<Rightarrow> None) as"

lemma rights_simps [simp]:
  "rights [] = []" "rights (Inr p # as) = p # rights as" "rights (as @ bs) = rights as @ rights bs"
  by (simp_all add: rights_def map_filter_def)

lemma encode_error_None: "encode_error as = None \<longleftrightarrow> (\<forall>a \<in> set as. \<not> isl a)"
  by (induction as) (auto split: option.splits sum.splits)

lemma gather_Inr: "gather as = Inr ps \<longleftrightarrow> (\<forall>a \<in> set as. \<not> isl a) \<and> ps = rights as"
  by (auto simp: gather_def rights_def encode_error_None [symmetric] split: option.splits)

lemma column_addString [simp]:
  "column (rights (addString k v)) n = (if n = k then map_option (\<lambda>x. NewStringProperty k x False) v else None)"
  by (cases v) (auto simp: addString_def)

lemma column_addJSON [simp]:
  "column (rights (addJSON k e)) n = (if n = k then (case e of Inl err \<Rightarrow> None | Inr t \<Rightarrow> Some (NewStringProperty k t False)) else None)"
  by (cases e) (auto simp: addJSON_def rights_def)

lemma column_addList [simp]:
  "column (rights (addList k enc xs)) n =
     (if n = k \<and> xs \<noteq> [] then (case enc xs of Inl err \<Rightarrow> None | Inr t \<Rightarrow> Some (NewStringProperty k t False)) else None)"
  by (simp add: addList_def)

lemma names_addString: "subseq (map sp_Name (rights (addString k v))) [k]"
  by (cases v) (auto simp: addString_def)

lemma names_addJSON: "subseq (map sp_Name (rights (addJSON k e))) [k]"
  by (cases e) (auto simp: addJSON_def rights_def)

lemma names_addList: "subseq (map sp_Name (rights (addList k enc xs))) [k]"
  using names_addJSON by (auto simp: addList_def)

lemma distinct_subseq: "subseq xs ys \<Longrightarrow> distinct ys \<Longrightarrow> distinct xs"
  by (induction rule: list_emb.induct) (auto dest: list_emb_set)

lemma runtime_names: "distinct (map sp_Name (rights (runtime_additions js src r)))"
proof -
  let ?keys = "[''source_id'', ''base_name''] @ [''displayName''] @ [''description''] @ [''provider''] @ [''readme''] @ [''logo'']
    @ [''license''] @ [''licenseLink''] @ [''documentationUrl''] @ [''repositoryUrl''] @ [''publishedDate''] @ [''lastUpdated'']
    @ [''tags''] @ [''supportedModelFormats''] @ [''supportedModelFormatsDetails'']
    @ ([''capabilities''] @ [''capabilities.supportedAccelerators''])
    @ [''capabilities.requiresGPU'', ''capabilities.multiModel'', ''versionCount'']"
  have caps: "subseq (map sp_Name (rights (case yr_Capabilities r of None \<Rightarrow> []
      | Some c \<Rightarrow> addJSON ''capabilities'' (js_Capabilities js c)
          @ addList ''capabilities.supportedAccelerators'' (js_Strings js) (cap_SupportedAccelerators c))))
      ([''capabilities''] @ [''capabilities.supportedAccelerators''])"
  proof (cases "yr_Capabilities r")
    case (Some c)
    show ?thesis unfolding Some option.case rights_simps map_append by (intro list_emb_append_mono names_addJSON names_addList)
  qed simp
  have "subseq (map sp_Name (rights (runtime_additions js src r))) ?keys"
    unfolding runtime_additions_def rights_simps map_append
    by (intro list_emb_append_mono names_addString names_addList caps) simp_all
  then show ?thesis by (rule distinct_subseq) simp
qed

subsection \<open>What the API reads\<close>

definition read_or :: "(string \<Rightarrow> string + 'a) \<Rightarrow> ('a \<Rightarrow> 'b) \<Rightarrow> string option \<Rightarrow> 'b \<Rightarrow> 'b" where
  "read_or read put v old = (case v of None \<Rightarrow> old | Some t \<Rightarrow> (case read t of Inl err \<Rightarrow> old | Inr x \<Rightarrow> put x))"

lemmas runtime_step_defs = map_runtime_property_def decoded_def read_or_def Let_def

lemma runtime_fields:
  shows "sets_field (map_runtime_property js parse) ''source_id'' (\<lambda>p _. sp_String p) sr_SourceId"
    and "sets_field (map_runtime_property js parse) ''displayName'' (\<lambda>p _. sp_String p) sr_DisplayName"
    and "sets_field (map_runtime_property js parse) ''description'' (\<lambda>p _. sp_String p) sr_Description"
    and "sets_field (map_runtime_property js parse) ''provider'' (\<lambda>p _. sp_String p) sr_Provider"
    and "sets_field (map_runtime_property js parse) ''readme'' (\<lambda>p _. sp_String p) sr_Readme"
    and "sets_field (map_runtime_property js parse) ''logo'' (\<lambda>p _. sp_String p) sr_Logo"
    and "sets_field (map_runtime_property js parse) ''license'' (\<lambda>p _. sp_String p) sr_License"
    and "sets_field (map_runtime_property js parse) ''licenseLink'' (\<lambda>p _. sp_String p) sr_LicenseLink"
    and "sets_field (map_runtime_property js parse) ''documentationUrl'' (\<lambda>p _. sp_String p) sr_DocumentationUrl"
    and "sets_field (map_runtime_property js parse) ''repositoryUrl'' (\<lambda>p _. sp_String p) sr_RepositoryUrl"
    and "sets_field (map_runtime_property js parse) ''tags'' (\<lambda>p. read_or (js_ReadStrings js) id (sp_String p)) sr_Tags"
    and "sets_field (map_runtime_property js parse) ''supportedModelFormatsDetails'' (\<lambda>p. read_or (js_ReadFormats js) id (sp_String p)) sr_SupportedModelFormats"
    and "sets_field (map_runtime_property js parse) ''capabilities'' (\<lambda>p. read_or (js_ReadCapabilities js) Some (sp_String p)) sr_Capabilities"
    and "sets_field (map_runtime_property js parse) ''versionCount'' (\<lambda>p old. case sp_Int p of None \<Rightarrow> old | Some n \<Rightarrow> Some n) sr_VersionCount"
    and "sets_field (map_runtime_property js parse) ''publishedDate'' (\<lambda>p _. parseTimePtr parse (sp_String p)) sr_PublishedDate"
    and "sets_field (map_runtime_property js parse) ''lastUpdated'' (\<lambda>p _. parseTimePtr parse (sp_String p)) sr_LastUpdated"
  unfolding sets_field_def runtime_step_defs by (auto split: if_splits option.splits sum.splits)

lemma runtime_base_kept: "\<forall>p x y. map_runtime_property js parse p x = Inr y \<longrightarrow> runtime_base.truncate y = runtime_base.truncate x"
  unfolding runtime_step_defs by (auto simp: runtime_base.truncate_def split: if_splits option.splits sum.splits)

definition served_metadata :: "runtime_json \<Rightarrow> catalog_metadata \<Rightarrow> catalog_metadata" where
  "served_metadata js v =
     (let none = \<lparr>cmv_String = None, cmv_Bool = None, cmv_Int = None, cmv_Double = None, cmv_Proto = None, cmv_Struct = None\<rparr> in
      if cmv_String v \<noteq> None then none\<lparr>cmv_String := cmv_String v\<rparr>
      else if cmv_Bool v \<noteq> None then none\<lparr>cmv_Bool := cmv_Bool v\<rparr>
      else if cmv_Int v \<noteq> None then none\<lparr>cmv_Int := (case parse_int 32 (the (cmv_Int v)) of Inl err \<Rightarrow> None | Inr n \<Rightarrow> Some (itoa n))\<rparr>
      else if cmv_Double v \<noteq> None then none\<lparr>cmv_Double := cmv_Double v\<rparr>
      else none\<lparr>cmv_String := (case js_Metadata js v of Inl err \<Rightarrow> None | Inr t \<Rightarrow> Some t)\<rparr>)"

lemma custom_served:
  assumes "servingRuntimeCustomProperty js key v = Inr p"
  shows "sp_Name p = key" "sp_IsCustom p" "map_custom_property p = served_metadata js v"
  using assms
  by (auto simp: servingRuntimeCustomProperty_def map_custom_property_def served_metadata_def NewStringProperty_def NewBoolProperty_def
      NewIntProperty_def NewDoubleProperty_def empty_property_def split: if_splits option.splits sum.splits)

lemma map_custom_column:
  assumes "distinct (map sp_Name ps)"
  shows "map_of (map_custom ps) n = map_option map_custom_property (column ps n)"
proof -
  have "map_of (fold (\<lambda>p. AList.update (sp_Name p) (map_custom_property p)) ps acc) n
      = (case column ps n of None \<Rightarrow> map_of acc n | Some p \<Rightarrow> Some (map_custom_property p))" for acc
    using assms
  proof (induction ps arbitrary: acc)
    case (Cons p ps)
    then show ?case using column_None [of ps n] by (auto simp: update_conv' split: option.splits)
  qed simp
  then show ?thesis by (simp add: map_custom_def split: option.split)
qed

definition reads_back :: "runtime_json \<Rightarrow> serving_runtime \<Rightarrow> bool" where
  "reads_back js r \<longleftrightarrow>
     (\<forall>t. js_Strings js (yr_Tags r) = Inr t \<longrightarrow> js_ReadStrings js t = Inr (yr_Tags r))
     \<and> (\<forall>t. js_Formats js (yr_SupportedModelFormats r) = Inr t \<longrightarrow> js_ReadFormats js t = Inr (yr_SupportedModelFormats r))
     \<and> (\<forall>c t. yr_Capabilities r = Some c \<longrightarrow> js_Capabilities js c = Inr t \<longrightarrow> js_ReadCapabilities js t = Inr c)"

text \<open>The specification: what the API says of a runtime, given its file and its external id.\<close>

definition runtime_served ::
  "runtime_json \<Rightarrow> (string \<Rightarrow> 't option) \<Rightarrow> string \<Rightarrow> serving_runtime \<Rightarrow> 't api_runtime \<Rightarrow> bool" where
  "runtime_served js parse src r api \<longleftrightarrow>
     sr_SourceId api = Some src \<and> sr_DisplayName api = yr_DisplayName r \<and> sr_Description api = yr_Description r
     \<and> sr_Provider api = yr_Provider r \<and> sr_Readme api = yr_Readme r \<and> sr_Logo api = yr_Logo r \<and> sr_License api = yr_License r
     \<and> sr_LicenseLink api = yr_LicenseLink r \<and> sr_DocumentationUrl api = yr_DocumentationURL r \<and> sr_RepositoryUrl api = yr_RepositoryURL r
     \<and> sr_Tags api = yr_Tags r \<and> sr_SupportedModelFormats api = yr_SupportedModelFormats r \<and> sr_Capabilities api = yr_Capabilities r
     \<and> sr_VersionCount api = Some (to_int32 (int (length (yr_Versions r))))
     \<and> sr_PublishedDate api = parseTimePtr parse (yr_PublishedDate r) \<and> sr_LastUpdated api = parseTimePtr parse (yr_LastUpdated r)
     \<and> (\<forall>key. map_of (sr_CustomProperties api) key =
          map_option (\<lambda>w. served_metadata js (ym_Value w)) (Option.bind (yr_CustomProperties r) (\<lambda>m. map_of m key)))"

text \<open>The properties of the entity by name.\<close>

lemma list_reads_back:
  assumes "\<forall>a \<in> set (addList k enc xs). \<not> isl a" "\<forall>t. enc xs = Inr t \<longrightarrow> dec t = Inr xs"
  shows "column (rights (addList k enc xs)) k = None \<and> xs = []
    \<or> (\<exists>t. column (rights (addList k enc xs)) k = Some (NewStringProperty k t False) \<and> dec t = Inr xs)"
proof (cases "xs = []")
  case False
  then obtain t where "enc xs = Inr t" using assms(1) by (cases "enc xs") (auto simp: addList_def addJSON_def)
  with False assms(2) show ?thesis by auto
qed simp

lemma json_reads_back:
  assumes "\<forall>a \<in> set (addJSON k e). \<not> isl a" "\<forall>t. e = Inr t \<longrightarrow> dec t = Inr x"
  shows "\<exists>t. column (rights (addJSON k e)) k = Some (NewStringProperty k t False) \<and> dec t = Inr x"
  using assms by (cases e) (auto simp: addJSON_def rights_def)

lemma new_property_fields [simp]:
  "sp_String (NewStringProperty n v b) = Some v" "sp_Int (NewIntProperty n i b) = Some i"
  "sp_Name (NewStringProperty n v b) = n" "sp_Name (NewIntProperty n i b) = n" "sp_Name (NewBoolProperty n x b) = n"
  "sp_IsCustom (NewStringProperty n v b) = b" "sp_IsCustom (NewIntProperty n i b) = b" "sp_IsCustom (NewBoolProperty n x b) = b"
  by (simp_all add: NewStringProperty_def NewIntProperty_def NewBoolProperty_def empty_property_def)

lemma runtime_columns:
  fixes js src r
  defines "ps \<equiv> rights (runtime_additions js src r)"
  shows "column ps ''source_id'' = Some (NewStringProperty ''source_id'' src False)"
    and "column ps ''displayName'' = map_option (\<lambda>x. NewStringProperty ''displayName'' x False) (yr_DisplayName r)"
    and "column ps ''description'' = map_option (\<lambda>x. NewStringProperty ''description'' x False) (yr_Description r)"
    and "column ps ''provider'' = map_option (\<lambda>x. NewStringProperty ''provider'' x False) (yr_Provider r)"
    and "column ps ''readme'' = map_option (\<lambda>x. NewStringProperty ''readme'' x False) (yr_Readme r)"
    and "column ps ''logo'' = map_option (\<lambda>x. NewStringProperty ''logo'' x False) (yr_Logo r)"
    and "column ps ''license'' = map_option (\<lambda>x. NewStringProperty ''license'' x False) (yr_License r)"
    and "column ps ''licenseLink'' = map_option (\<lambda>x. NewStringProperty ''licenseLink'' x False) (yr_LicenseLink r)"
    and "column ps ''documentationUrl'' = map_option (\<lambda>x. NewStringProperty ''documentationUrl'' x False) (yr_DocumentationURL r)"
    and "column ps ''repositoryUrl'' = map_option (\<lambda>x. NewStringProperty ''repositoryUrl'' x False) (yr_RepositoryURL r)"
    and "column ps ''publishedDate'' = map_option (\<lambda>x. NewStringProperty ''publishedDate'' x False) (yr_PublishedDate r)"
    and "column ps ''lastUpdated'' = map_option (\<lambda>x. NewStringProperty ''lastUpdated'' x False) (yr_LastUpdated r)"
    and "column ps ''tags'' = column (rights (addList ''tags'' (js_Strings js) (yr_Tags r))) ''tags''"
    and "column ps ''supportedModelFormatsDetails'' =
      column (rights (addList ''supportedModelFormatsDetails'' (js_Formats js) (yr_SupportedModelFormats r))) ''supportedModelFormatsDetails''"
    and "column ps ''capabilities'' = (case yr_Capabilities r of None \<Rightarrow> None
       | Some c \<Rightarrow> column (rights (addJSON ''capabilities'' (js_Capabilities js c))) ''capabilities'')"
    and "column ps ''versionCount'' = Some (NewIntProperty ''versionCount'' (to_int32 (int (length (yr_Versions r)))) False)"
  by (auto simp: ps_def runtime_additions_def split: option.splits)

lemma regular_additions [simp]:
  "\<forall>p \<in> set (rights (addString k v)). \<not> sp_IsCustom p" "\<forall>p \<in> set (rights (addJSON k e)). \<not> sp_IsCustom p"
  "\<forall>p \<in> set (rights (addList k enc xs)). \<not> sp_IsCustom p"
proof -
  show "\<forall>p \<in> set (rights (addString k v)). \<not> sp_IsCustom p" by (cases v) (simp_all add: addString_def)
  show json: "\<forall>p \<in> set (rights (addJSON k e)). \<not> sp_IsCustom p" for e by (cases e) (simp_all add: addJSON_def rights_def)
  show "\<forall>p \<in> set (rights (addList k enc xs)). \<not> sp_IsCustom p" by (simp add: addList_def json)
qed

lemma additions_regular: "\<forall>p \<in> set (rights (runtime_additions js src r)). \<not> sp_IsCustom p"
  unfolding runtime_additions_def rights_simps set_append ball_Un
  by (simp add: NewBoolProperty_def empty_property_def ball_Un split: option.split)

text \<open>Reading a stored runtime: the properties may come in any order.\<close>

lemma runtime_reads:
  fixes parse :: "string \<Rightarrow> 't option"
  assumes ok: "gather (runtime_additions js src r) = Inr ps" and rb: "reads_back js r"
    and qs: "cm_Properties m = Some qs" "set qs = set ps" "distinct (map sp_Name qs)"
    and custom: "cm_Custom m = Some cs" "distinct (map sp_Name cs)"
      "\<And>key. map_option map_custom_property (column cs key)
         = map_option (\<lambda>w. served_metadata js (ym_Value w)) (Option.bind (yr_CustomProperties r) (\<lambda>m. map_of m key))"
  shows "\<exists>api. mapDBServingRuntimeToAPI js parse m = Inr api \<and> runtime_base.truncate api = base_of m \<and> runtime_served js parse src r api"
proof -
  let ?as = "runtime_additions js src r"
  have right: "\<forall>a \<in> set ?as. \<not> isl a" and ps: "ps = rights ?as" using ok by (simp_all add: gather_Inr)
  have col: "column qs n = column (rights ?as) n" for n
    using column_same [OF qs(3) _ qs(2)] runtime_names [of js src r] by (simp add: ps)
  have parts: "\<forall>a \<in> set (addList ''tags'' (js_Strings js) (yr_Tags r)). \<not> isl a"
      "\<forall>a \<in> set (addList ''supportedModelFormatsDetails'' (js_Formats js) (yr_SupportedModelFormats r)). \<not> isl a"
      "\<forall>c. yr_Capabilities r = Some c \<longrightarrow> (\<forall>a \<in> set (addJSON ''capabilities'' (js_Capabilities js c)). \<not> isl a)"
    using right unfolding runtime_additions_def set_append ball_Un by (simp_all split: option.splits)
  note columns = runtime_columns [of js src r, folded col]
  have tags: "column qs ''tags'' = None \<and> yr_Tags r = []
      \<or> (\<exists>t. column qs ''tags'' = Some (NewStringProperty ''tags'' t False) \<and> js_ReadStrings js t = Inr (yr_Tags r))"
    unfolding columns(13) by (rule list_reads_back [OF parts(1)]) (use rb in \<open>simp add: reads_back_def\<close>)
  have formats: "column qs ''supportedModelFormatsDetails'' = None \<and> yr_SupportedModelFormats r = []
      \<or> (\<exists>t. column qs ''supportedModelFormatsDetails'' = Some (NewStringProperty ''supportedModelFormatsDetails'' t False)
          \<and> js_ReadFormats js t = Inr (yr_SupportedModelFormats r))"
    unfolding columns(14) by (rule list_reads_back [OF parts(2)]) (use rb in \<open>simp add: reads_back_def\<close>)
  have caps: "column qs ''capabilities'' = None \<and> yr_Capabilities r = None
      \<or> (\<exists>c t. column qs ''capabilities'' = Some (NewStringProperty ''capabilities'' t False) \<and> yr_Capabilities r = Some c
          \<and> js_ReadCapabilities js t = Inr c)"
  proof (cases "yr_Capabilities r")
    case (Some c)
    have "\<exists>t. column qs ''capabilities'' = Some (NewStringProperty ''capabilities'' t False) \<and> js_ReadCapabilities js t = Inr c"
      unfolding columns(15) Some option.case
      by (rule json_reads_back) (use parts(3) rb Some in \<open>simp_all add: reads_back_def\<close>)
    with Some show ?thesis by blast
  qed (use columns(15) in simp)
  have "\<exists>y. try_each (map_runtime_property js parse) qs (empty_runtime (base_of m)) = Inr y"
  proof (rule try_each_total, intro ballI allI)
    fix p x assume p: "p \<in> set qs"
    have named: "column qs (sp_Name p) = Some p" by (rule column_mem [OF qs(3) p])
    show "\<exists>y. map_runtime_property js parse p x = Inr y"
      using named tags formats caps
      by (cases "sp_Name p = ''tags''"; cases "sp_Name p = ''supportedModelFormatsDetails''"; cases "sp_Name p = ''capabilities''")
        (auto simp: map_runtime_property_def Let_def decoded_def)
  qed
  then obtain y where y: "try_each (map_runtime_property js parse) qs (empty_runtime (base_of m)) = Inr y" by (rule exE)
  note field = runtime_fields [THEN try_each_column, OF y qs(3)]
  let ?x = "empty_runtime (base_of m) :: 't api_runtime"
  have start: "runtime_base.truncate ?x = base_of m"
    by (cases "base_of m") (simp add: empty_runtime_def runtime_base.defs api_runtime.defs)
  have empty_def: "sr_SourceId ?x = None" "sr_DisplayName ?x = None" "sr_Description ?x = None" "sr_Provider ?x = None"
    "sr_Readme ?x = None" "sr_Logo ?x = None" "sr_License ?x = None" "sr_LicenseLink ?x = None" "sr_DocumentationUrl ?x = None"
    "sr_RepositoryUrl ?x = None" "sr_Tags ?x = []" "sr_SupportedModelFormats ?x = []" "sr_Capabilities ?x = None"
    "sr_VersionCount ?x = None" "sr_PublishedDate ?x = None" "sr_LastUpdated ?x = None"
    by (cases "base_of m"; simp add: empty_runtime_def runtime_base.defs api_runtime.defs)+
  define api where "api = y\<lparr>sr_CustomProperties := map_custom cs\<rparr>"
  have "mapDBServingRuntimeToAPI js parse m = Inr api" by (simp add: mapDBServingRuntimeToAPI_def qs(1) y custom(1) api_def)
  moreover have "runtime_base.truncate api = base_of m"
  proof -
    have "runtime_base.truncate api = runtime_base.truncate y" by (simp add: api_def runtime_base.defs)
    also have "\<dots> = runtime_base.truncate ?x" by (rule try_each_keeps [OF runtime_base_kept y])
    finally show ?thesis using start by simp
  qed
  moreover have "runtime_served js parse src r api"
    unfolding runtime_served_def
  proof (intro conjI allI)
    show "sr_Tags api = yr_Tags r" using field(11) tags by (auto simp: api_def empty_def read_or_def)
    show "sr_SupportedModelFormats api = yr_SupportedModelFormats r"
      using field(12) formats by (auto simp: api_def empty_def read_or_def)
    show "sr_Capabilities api = yr_Capabilities r" using field(13) caps by (auto simp: api_def empty_def read_or_def)
    show "sr_VersionCount api = Some (to_int32 (int (length (yr_Versions r))))"
      using field(14) columns(16) by (simp add: api_def)
    show "map_of (sr_CustomProperties api) key =
          map_option (\<lambda>w. served_metadata js (ym_Value w)) (Option.bind (yr_CustomProperties r) (\<lambda>m. map_of m key))" for key
      using map_custom_column [OF custom(2)] custom(3) by (simp add: api_def)
  qed (use field(1) field(2) field(3) field(4)
         field(5) field(6) field(7) field(8)
         field(9) field(10) field(15) field(16) columns
       in \<open>auto simp: api_def empty_def parseTimePtr_def split: option.splits\<close>)
  ultimately show ?thesis by blast
qed

end
