(* ===== verification/Runtime_Tables.thy ===== *)
theory Runtime_Tables
  imports Runtime_Ending Runtime_Served Catalog_Sync_Facts
begin

section \<open>The repositories of runtimes on a database in memory\<close>

text \<open>
  The services of a reload over the tables of \<open>Store_Tables\<close>: the generic operations with the configurations of
  \<open>Runtime_Store\<close>, and the deletions of \<open>serving_runtime.go\<close> and \<open>serving_runtime_version.go\<close>, where the foreign keys
  of the database delete properties and attributions with their row. The database answers the queries that the
  repositories build for a page: it knows the text of each of their calls and refuses any other.
\<close>

subsection \<open>Answering a query\<close>

definition pg_quote :: "string \<Rightarrow> string" where
  "pg_quote table = QuoteTableName (Some ''postgres'') table"

definition key_column :: "table_kind \<Rightarrow> string" where
  "key_column k = (case k of ContextTable \<Rightarrow> ''context_id'' | ArtifactTable \<Rightarrow> ''artifact_id'' | ExecutionTable \<Rightarrow> ''execution_id'')"

definition source_text :: "table_kind \<Rightarrow> string" where
  "source_text k = pg_quote (table_name k) @ ''.id IN (SELECT '' @ key_column k @ '' FROM '' @ pg_quote (table_name k @ ''Property'')
     @ '' WHERE name = ? AND is_custom_property = ? AND string_value IN ?)''"

definition cursor_text :: "table_kind \<Rightarrow> string" where
  "cursor_text k = (let c = pg_quote (table_name k) @ ''.id''
     in ''('' @ c @ '' > ? OR ('' @ c @ '' = ? AND '' @ c @ '' > ?))'')"

definition property_in :: "table_kind \<Rightarrow> string \<Rightarrow> bool \<Rightarrow> go_any list \<Rightarrow> tables \<Rightarrow> int \<Rightarrow> bool" where
  "property_in k n b vs s i = (case table_prop s k (i, n, b) of None \<Rightarrow> False
     | Some p \<Rightarrow> (case sp_String p of None \<Rightarrow> False | Some v \<Rightarrow> AnyStr v \<in> set vs))"

definition where_int :: "table_kind \<Rightarrow> tables \<Rightarrow> string \<Rightarrow> int \<Rightarrow> (schema_entity \<Rightarrow> bool) option" where
  "where_int k s sql n =
     (if sql = pg_quote (table_name k) @ ''.type_id = ?'' then Some (\<lambda>e. getTypeID e = n)
      else if sql = pg_quote ''Attribution'' @ ''.context_id = ?'' then Some (\<lambda>e. (k, n, getEntityID e) \<in> set (tb_links s))
      else None)"

definition where_cursor :: "table_kind \<Rightarrow> string \<Rightarrow> string \<Rightarrow> string \<Rightarrow> int \<Rightarrow> (schema_entity \<Rightarrow> bool) option" where
  "where_cursor k sql v w i =
     (if sql \<noteq> cursor_text k then None
      else case (parse_int 64 v, parse_int 64 w) of
          (Inr m, Inr n) \<Rightarrow> Some (\<lambda>e. m < getEntityID e \<or> (getEntityID e = n \<and> i < getEntityID e))
        | _ \<Rightarrow> None)"

definition condition :: "table_kind \<Rightarrow> tables \<Rightarrow> db_call \<Rightarrow> (schema_entity \<Rightarrow> bool) option" where
  "condition k s c =
     (case c of
        Where sql args \<Rightarrow>
          (case args of
             [AnyInt32 n] \<Rightarrow> where_int k s sql n
           | [AnyStr n, AnyBool b, AnyList vs] \<Rightarrow>
               (if sql = source_text k then Some (\<lambda>e. property_in k n b vs s (getEntityID e)) else None)
           | [AnyStr v, AnyStr w, AnyInt32 i] \<Rightarrow> where_cursor k sql v w i
           | _ \<Rightarrow> None)
      | Joins sql \<Rightarrow> if sql = BuildAttributionJoin pg_quote then Some (\<lambda>e. True) else None
      | Order sql \<Rightarrow> if sql = pg_quote (table_name k) @ ''.id ASC'' then Some (\<lambda>e. True) else None
      | Limit n \<Rightarrow> Some (\<lambda>e. True)
      | AddError err \<Rightarrow> None)"

definition limit_of :: "db_call list \<Rightarrow> schema_entity list \<Rightarrow> schema_entity list" where
  "limit_of cs rows = fold (\<lambda>c rs. case c of Limit n \<Rightarrow> take (nat n) rs | _ \<Rightarrow> rs) cs rows"

text \<open>A row whose id does not fit the \<open>int32\<close> of the entity cannot be scanned.\<close>

definition rows_where :: "table_kind \<Rightarrow> (schema_entity \<Rightarrow> bool) \<Rightarrow> tables \<Rightarrow> schema_entity list" where
  "rows_where k P s = sort_key getEntityID (remdups (filter (\<lambda>e. table_of e = k \<and> table_row s k (getEntityID e) = Some e \<and> P e) (tb_rows s)))"

definition answer :: "table_kind \<Rightarrow> gorm_db \<Rightarrow> tables \<Rightarrow> db_error + schema_entity list" where
  "answer k q s =
     (case those (map (condition k s) (calls q)) of
        None \<Rightarrow> Inl (OtherDbError ''syntax error'')
      | Some ps \<Rightarrow>
          (let rows = limit_of (calls q) (rows_where k (\<lambda>e. list_all (\<lambda>P. P e) ps) s)
           in if list_all (\<lambda>e. int32_range (getEntityID e)) rows then Inr rows else Inl (OtherDbError ''value out of range'')))"

subsection \<open>The services\<close>

definition delete_row :: "string \<Rightarrow> table_kind \<Rightarrow> int \<Rightarrow> int \<Rightarrow> tables \<Rightarrow> repo_error + tables" where
  "delete_row missing k t i s =
     (let hit = (\<lambda>e. table_of e = k \<and> getEntityID e = i \<and> getTypeID e = t)
      in if list_ex hit (tb_rows s) then Inr (drop_entities (\<lambda>j x. j = k \<and> x = i) hit s)
         else Inl (NotFound (missing @ '': id '' @ itoa i)))"

definition DeleteRuntimeByID :: "int \<Rightarrow> int \<Rightarrow> tables \<Rightarrow> repo_error + tables" where
  "DeleteRuntimeByID t = delete_row ''serving_runtime not found'' ContextTable t"

definition DeleteVersionByID :: "int \<Rightarrow> int \<Rightarrow> tables \<Rightarrow> repo_error + tables" where
  "DeleteVersionByID t = delete_row ''serving_runtime_version not found'' ArtifactTable t"

definition DeleteByParentID :: "int \<Rightarrow> int \<Rightarrow> tables \<Rightarrow> repo_error + tables" where
  "DeleteByParentID t parent s =
     (let hit = (\<lambda>e. table_of e = ArtifactTable \<and> getTypeID e = t \<and> (ArtifactTable, parent, getEntityID e) \<in> set (tb_links s));
          gone = (\<lambda>i. list_ex (\<lambda>e. hit e \<and> getEntityID e = i) (tb_rows s))
      in Inr (drop_entities (\<lambda>j i. j = ArtifactTable \<and> gone i) hit s))"

text \<open>The sources that rows of a type are from, and the deletion of a source.\<close>

definition distinct_sources :: "table_kind \<Rightarrow> int \<Rightarrow> tables \<Rightarrow> string list" where
  "distinct_sources k t s = remdups (List.map_filter (\<lambda>e.
     if table_of e = k \<and> getTypeID e = t
     then Option.bind (table_prop s k (getEntityID e, ''source_id'', False)) sp_String else None) (tb_rows s))"

definition delete_source :: "table_kind \<Rightarrow> int \<Rightarrow> string \<Rightarrow> tables \<Rightarrow> tables" where
  "delete_source k t src s =
     (let hit = (\<lambda>e. table_of e = k \<and> getTypeID e = t \<and> property_in k ''source_id'' False [AnyStr src] s (getEntityID e));
          gone = (\<lambda>i. list_ex (\<lambda>e. hit e \<and> getEntityID e = i) (tb_rows s))
      in drop_entities (\<lambda>j i. j = k \<and> gone i) hit s)"

definition runtime_tables :: "(float64 \<Rightarrow> string) \<Rightarrow> filter_parser \<Rightarrow> int \<Rightarrow> int \<Rightarrow> int \<Rightarrow> tables runtime_services" where
  "runtime_tables fmt parser t u now =
     (let ops = catalog_tables answer; rc = serving_runtime_repo fmt pg_quote t; vc = serving_runtime_version_repo fmt pg_quote u
      in \<lparr>rs_GetByName = GetByName ops rc, rs_Save = SaveServingRuntime ops fmt pg_quote t now,
          rs_List = (\<lambda>opts. ListEntities fmt parser ''postgres'' ops rc opts), rs_DeleteByID = DeleteRuntimeByID t,
          rv_GetByName = GetByName ops vc, rv_Save = SaveServingRuntimeVersion ops fmt pg_quote u now,
          rv_List = (\<lambda>opts. ListEntities fmt parser ''postgres'' ops vc opts), rv_DeleteByID = DeleteVersionByID u,
          rv_DeleteByParentID = DeleteByParentID u\<rparr>)"

subsection \<open>What a query for a page asks\<close>

text \<open>The rows behind a token: its cursor is the id of the last row of the page before.\<close>

definition after :: "string option \<Rightarrow> int \<Rightarrow> bool" where
  "after token i = (let t = (case token of None \<Rightarrow> [] | Some t \<Rightarrow> t) in t = [] \<or>
     (case DecodeCursor t of
        Inl err \<Rightarrow> False
      | Inr cur \<Rightarrow> (case parse_int 64 (cur_Value cur) of Inl err \<Rightarrow> False | Inr n \<Rightarrow> n < i \<or> (i = n \<and> cur_ID cur < i))))"

definition cursor_calls :: "table_kind \<Rightarrow> string option \<Rightarrow> db_call list" where
  "cursor_calls k token = (let t = (case token of None \<Rightarrow> [] | Some t \<Rightarrow> t) in
     if t = [] then []
     else (case DecodeCursor t of
         Inl err \<Rightarrow> [AddError ''invalid nextPageToken'']
       | Inr cur \<Rightarrow> [Where (cursor_text k) [AnyStr (cur_Value cur), AnyStr (cur_Value cur), AnyInt32 (cur_ID cur)]]))"

definition page_calls :: "table_kind \<Rightarrow> string option \<Rightarrow> db_call list" where
  "page_calls k token = [Limit 101, Order (pg_quote (table_name k) @ ''.id ASC'')] @ cursor_calls k token"

lemma page_request:
  assumes "k \<in> {ContextTable, ArtifactTable}"
  shows "calls (runtime_StandardPagination (table_name k) \<lparr>pg_PageSize = Some 100, pg_OrderBy = None, pg_SortOrder = None,
      pg_NextPageToken = token, pg_FilterQuery = None\<rparr> \<lparr>dialect = ''postgres'', calls = cs\<rparr>) = cs @ page_calls k token"
  using assms
  by (auto simp: runtime_StandardPagination_def PaginateWithOptions_def Let_def GetPageSize_def GetOrderBy_def GetSortOrder_def
      GetNextPageToken_def DefaultOrderBy_def DefaultSortOrder_def SortOrderAsc_def allowed_or_def ServingRuntimeOrderByColumns_def
      AllowedSortOrders_def AllowedOrderByColumns_def SortOrderDesc_def page_calls_def cursor_calls_def buildWhereClause_def cursor_text_def
      add_call_def table_name_def pg_quote_def QuoteTableName_def is_ident_start_def is_ident_char_def is_digit_def split: option.split sum.split)

definition runtime_calls :: "int \<Rightarrow> string \<Rightarrow> db_call list" where
  "runtime_calls t src = [Where (pg_quote ''Context'' @ ''.type_id = ?'') [AnyInt32 t],
     Where (source_text ContextTable) [AnyStr ''source_id'', AnyBool False, AnyList [AnyStr src]]]"

definition version_calls :: "int \<Rightarrow> int \<Rightarrow> db_call list" where
  "version_calls u parent = [Where (pg_quote ''Artifact'' @ ''.type_id = ?'') [AnyInt32 u], Joins (BuildAttributionJoin pg_quote),
     Where (pg_quote ''Attribution'' @ ''.context_id = ?'') [AnyInt32 parent]]"

lemma runtime_query:
  obtains q where "list_query parser ''postgres'' (serving_runtime_repo fmt pg_quote t) (page_of_runtimes src token) = Inr q"
    "calls q = runtime_calls t src @ page_calls ContextTable token"
proof -
  let ?pg = "\<lparr>pg_PageSize = Some 100, pg_OrderBy = None, pg_SortOrder = None, pg_NextPageToken = token, pg_FilterQuery = None\<rparr>"
  have "list_query parser ''postgres'' (serving_runtime_repo fmt pg_quote t) (page_of_runtimes src token)
      = Inr (runtime_StandardPagination ''Context'' ?pg \<lparr>dialect = ''postgres'', calls = runtime_calls t src\<rparr>)"
    by (simp add: list_query_def serving_runtime_repo_def page_of_runtimes_def buildBaseQuery_def applyServingRuntimeListFilters_def
        ApplyFilterQuery_def GetFilterQuery_def pagination.defs applyServingRuntimeCustomOrdering_def GetOrderBy_def DefaultOrderBy_def
        add_call_def runtime_calls_def source_text_def getTableName_def key_column_def table_name_def pg_quote_def)
  with that page_request [of ContextTable token "runtime_calls t src"] show thesis by (simp add: table_name_def)
qed

lemma version_query:
  obtains q where "list_query parser ''postgres'' (serving_runtime_version_repo fmt pg_quote u) (page_of_versions p token) = Inr q"
    "calls q = version_calls u p @ page_calls ArtifactTable token"
proof -
  let ?pg = "\<lparr>pg_PageSize = Some 100, pg_OrderBy = None, pg_SortOrder = None, pg_NextPageToken = token, pg_FilterQuery = None\<rparr>"
  have "list_query parser ''postgres'' (serving_runtime_version_repo fmt pg_quote u) (page_of_versions p token)
      = Inr (runtime_StandardPagination ''Artifact'' ?pg \<lparr>dialect = ''postgres'', calls = version_calls u p\<rparr>)"
    by (simp add: list_query_def serving_runtime_version_repo_def page_of_versions_def buildBaseQuery_def applyServingRuntimeVersionListFilters_def
        ApplyFilterQuery_def GetFilterQuery_def pagination.defs applyServingRuntimeVersionCustomOrdering_def GetOrderBy_def DefaultOrderBy_def
        add_call_def version_calls_def join_parent_def GetColumnRef_def getTableName_def table_name_def pg_quote_def)
  with that page_request [of ArtifactTable token "version_calls u p"] show thesis by (simp add: table_name_def)
qed

subsection \<open>What the answer is\<close>

lemma those_append:
  "those (xs @ ys) = (case those xs of None \<Rightarrow> None | Some as \<Rightarrow> map_option (\<lambda>bs. as @ bs) (those ys))"
proof (induction xs)
  case Nil
  show ?case by (cases "those ys") simp_all
next
  case (Cons x xs)
  then show ?case by (cases "those ys") (auto split: option.split)
qed

lemma cursor_condition:
  assumes "those (map (condition k s) (cursor_calls k token)) = Some ps"
  shows "list_all (\<lambda>P. P e) ps \<longleftrightarrow> after token (getEntityID e)"
  using assms
  by (auto simp: cursor_calls_def after_def Let_def condition_def where_cursor_def split: option.splits sum.splits if_splits)

lemma cursor_limit: "limit_of (cursor_calls k token) rows = rows"
  by (auto simp: limit_of_def cursor_calls_def Let_def split: option.split sum.split)

lemma page_answer:
  assumes "answer k q s = Inr found" "calls q = cs @ page_calls k token" "those (map (condition k s) cs) = Some hits"
    and "\<And>rows. limit_of cs rows = rows"
  shows "found = take 101 (rows_where k (\<lambda>e. list_all (\<lambda>P. P e) hits \<and> after token (getEntityID e)) s)"
    and "\<forall>e \<in> set found. int32_range (getEntityID e)"
proof -
  have limit: "limit_of (calls q) rows = take 101 rows" for rows
  proof -
    have "limit_of (calls q) rows = limit_of (cursor_calls k token) (take 101 (limit_of cs rows))"
      by (simp add: assms(2) page_calls_def limit_of_def)
    then show ?thesis using assms(4) cursor_limit by simp
  qed
  obtain ps where ps: "those (map (condition k s) (calls q)) = Some ps" using assms(1) by (auto simp: answer_def split: option.splits)
  then obtain bs where bs: "those (map (condition k s) (cursor_calls k token)) = Some bs" "ps = hits @ [\<lambda>e. True, \<lambda>e. True] @ bs"
    by (auto simp: assms(2,3) page_calls_def those_append condition_def split: option.splits)
  have "(\<lambda>e. list_all (\<lambda>P. P e) ps) = (\<lambda>e. list_all (\<lambda>P. P e) hits \<and> after token (getEntityID e))"
    using cursor_condition [OF bs(1)] by (simp add: bs(2))
  then show "found = take 101 (rows_where k (\<lambda>e. list_all (\<lambda>P. P e) hits \<and> after token (getEntityID e)) s)"
      "\<forall>e \<in> set found. int32_range (getEntityID e)"
    using assms(1) ps by (auto simp: answer_def Let_def limit list_all_iff split: if_splits)
qed

lemma runtime_hits:
  "those (map (condition ContextTable s) (runtime_calls t src))
     = Some [\<lambda>e. getTypeID e = t, \<lambda>e. property_in ContextTable ''source_id'' False [AnyStr src] s (getEntityID e)]"
  by (simp add: runtime_calls_def condition_def where_int_def table_name_def)

lemma version_hits:
  "those (map (condition ArtifactTable s) (version_calls u p))
     = Some [\<lambda>e. getTypeID e = u, \<lambda>e. True, \<lambda>e. (ArtifactTable, p, getEntityID e) \<in> set (tb_links s)]"
  by (simp add: version_calls_def condition_def where_int_def table_name_def pg_quote_def QuoteTableName_def)

lemma own_limits: "limit_of (runtime_calls t src) rows = rows" "limit_of (version_calls u p) rows = rows"
  by (simp_all add: limit_of_def runtime_calls_def version_calls_def)

subsection \<open>A page and the next\<close>

lemma rows_where_set: "set (rows_where k P s) = {e. table_of e = k \<and> table_row s k (getEntityID e) = Some e \<and> P e}"
proof -
  have "e \<in> set (tb_rows s)" if "table_row s k (getEntityID e) = Some e" for e using table_row_Some [OF that] by simp
  then show ?thesis by (auto simp: rows_where_def)
qed

lemma rows_where_sorted: "sorted_wrt (\<lambda>e f. getEntityID e < getEntityID f) (rows_where k P s)"
proof -
  let ?rows = "rows_where k P s"
  have "inj_on getEntityID (set ?rows)"
  proof (rule inj_onI)
    fix e f assume "e \<in> set ?rows" "f \<in> set ?rows" "getEntityID e = getEntityID f"
    then have "table_row s k (getEntityID f) = Some e" "table_row s k (getEntityID f) = Some f" by (simp_all add: rows_where_set)
    then show "e = f" by simp
  qed
  moreover have "distinct ?rows" by (simp add: rows_where_def)
  ultimately have "distinct (map getEntityID ?rows)" by (simp add: distinct_map)
  moreover have "sorted (map getEntityID ?rows)" by (simp add: rows_where_def)
  ultimately have "sorted_wrt (<) (map getEntityID ?rows)" by (simp add: strict_sorted_iff)
  then show ?thesis by (simp add: sorted_wrt_map)
qed

lemma take_below:
  fixes f :: "'a \<Rightarrow> int"
  assumes "sorted_wrt (\<lambda>a b. f a < f b) xs" "n < length xs" "x \<in> set xs"
  shows "x \<in> set (take (Suc n) xs) \<longleftrightarrow> f x \<le> f (xs ! n)"
proof -
  obtain i where i: "i < length xs" "xs ! i = x" using assms(3) by (auto simp: in_set_conv_nth)
  have lt: "a < b \<Longrightarrow> b < length xs \<Longrightarrow> f (xs ! a) < f (xs ! b)" for a b using assms(1) by (simp add: sorted_wrt_iff_nth_less)
  have "x \<in> set (take (Suc n) xs) \<longleftrightarrow> i \<le> n"
  proof
    assume "x \<in> set (take (Suc n) xs)"
    then obtain j where "j < length xs" "j \<le> n" "xs ! j = x" by (auto simp: in_set_conv_nth)
    then show "i \<le> n" using i lt [of i j] lt [of j i] by (cases "i < j"; cases "j < i") auto
  next
    assume "i \<le> n"
    then show "x \<in> set (take (Suc n) xs)" using i assms(2) by (auto simp: in_set_conv_nth intro!: exI [of _ i])
  qed
  also have "\<dots> \<longleftrightarrow> f x \<le> f (xs ! n)"
    using i lt [of i n] lt [of n i] assms(2) by (cases "i < n"; cases "n < i") auto
  finally show ?thesis .
qed

lemma itoa_short: "int32_range i \<Longrightarrow> length (itoa i) \<le> 11"
proof -
  assume "int32_range i"
  then have "nat i < 10 ^ 10" "nat (- i) < 10 ^ 10" by (auto simp: int32_range_def)
  then have "length (dec_digits (nat i)) \<le> 10" "length (dec_digits (nat (- i))) \<le> 10" by (auto intro!: dec_digits_length)
  then show ?thesis by (simp add: itoa_def)
qed

lemma own_token:
  assumes "int32_range hi"
  shows "CreateNextPageToken fmt hi (TokString (itoa hi)) \<noteq> []"
    and "after (Some (CreateNextPageToken fmt hi (TokString (itoa hi)))) i \<longleftrightarrow> hi < i"
proof -
  have "length (itoa hi @ '':'' @ token_value_string fmt (TokString (itoa hi))) \<le> 768" using itoa_short [OF assms] by simp
  note token = page_token_roundtrip [OF assms this]
  show "CreateNextPageToken fmt hi (TokString (itoa hi)) \<noteq> []"
    using token by (auto simp: DecodeCursor_def b64_decode_def cut_at.simps split: option.splits if_splits)
  have "parse_int 64 (itoa hi) = Inr hi" using assms by (intro parse_int_itoa) (simp_all add: int32_range_def)
  then show "after (Some (CreateNextPageToken fmt hi (TokString (itoa hi)))) i \<longleftrightarrow> hi < i"
    using token \<open>CreateNextPageToken fmt hi (TokString (itoa hi)) \<noteq> []\<close> by (auto simp: after_def)
qed

lemma after_up: "after token i \<Longrightarrow> i < j \<Longrightarrow> after token j"
  by (auto simp: after_def Let_def split: option.splits sum.splits)

text \<open>The rows of a page are those up to the last of them, and the token of the page goes on from there.\<close>

lemma page_cut:
  fixes fmt token P k s
  defines "every \<equiv> rows_where k (\<lambda>e. P e \<and> after token (getEntityID e)) s"
  defines "found \<equiv> take 101 every"
  defines "rows \<equiv> (if has_more 100 found then butlast found else found)"
  defines "token' \<equiv> (if has_more 100 found \<and> rows \<noteq> []
     then CreateNextPageToken fmt (getEntityID (last rows)) (TokString (itoa (getEntityID (last rows)))) else [])"
  assumes range: "\<forall>e \<in> set found. int32_range (getEntityID e)"
  obtains hi where "\<forall>e. e \<in> set rows \<longleftrightarrow> e \<in> set every \<and> getEntityID e \<le> hi"
    "token' = [] \<or> rows = [] \<Longrightarrow> \<forall>e \<in> set every. getEntityID e \<le> hi"
    "token' \<noteq> [] \<Longrightarrow> \<forall>i. after (Some token') i \<longleftrightarrow> after token i \<and> hi < i"
proof (cases "has_more 100 found")
  case False
  then have "length every \<le> 100" by (auto simp: has_more_def found_def)
  then have rows: "rows = every" using False by (simp add: rows_def found_def)
  let ?hi = "Max (insert 0 (getEntityID ` set every))"
  have "\<forall>e \<in> set every. getEntityID e \<le> ?hi" by simp
  then show thesis by (intro that [of ?hi]) (use rows False in \<open>auto simp: token'_def\<close>)
next
  case True
  then have len: "100 < length every" by (auto simp: has_more_def found_def)
  then have rows: "rows = take 100 every" using True by (simp add: rows_def found_def butlast_take)
  have "rows \<noteq> []" using rows len by auto
  with last_conv_nth [OF this] rows len have last: "last rows = every ! 99" "rows \<noteq> []" by simp_all
  let ?hi = "getEntityID (every ! 99)"
  have mem: "every ! 99 \<in> set every" "every ! 99 \<in> set found" using len
    by (auto simp: found_def in_set_conv_nth intro!: exI [of _ 99])
  have own: "int32_range ?hi" "after token ?hi" using mem range rows_where_set [of k] by (auto simp: every_def)
  have token': "token' = CreateNextPageToken fmt ?hi (TokString (itoa ?hi))" using True last by (simp add: token'_def)
  show thesis
  proof (rule that [of ?hi])
    have "sorted_wrt (\<lambda>e f. getEntityID e < getEntityID f) every" unfolding every_def by (rule rows_where_sorted)
    then have "e \<in> set rows \<longleftrightarrow> getEntityID e \<le> ?hi" if "e \<in> set every" for e
      using take_below [of getEntityID every 99 e] len that by (simp add: rows)
    then show "\<forall>e. e \<in> set rows \<longleftrightarrow> e \<in> set every \<and> getEntityID e \<le> ?hi" using rows set_take_subset [of 100 every] by blast
    show "\<forall>i. after (Some token') i \<longleftrightarrow> after token i \<and> ?hi < i"
      using own_token(2) [OF own(1)] after_up [OF own(2)] by (auto simp: token')
  qed (use own_token(1) [OF own(1), of fmt] last(2) token' in auto)
qed

subsection \<open>The interfaces hold\<close>

definition id_token :: "(float64 \<Rightarrow> string) \<Rightarrow> schema_entity \<Rightarrow> string" where
  "id_token fmt e = CreateNextPageToken fmt (getEntityID e) (TokString (itoa (getEntityID e)))"

lemma try_map_each: "try_map (\<lambda>x. Inr (f x)) xs = Inr (map f xs)"
  by (induction xs) simp_all

lemma listed_page:
  assumes "ListEntities fmt parser ''postgres'' (catalog_tables answer) cfg opts s = Inr w"
    and "list_query parser ''postgres'' cfg opts = Inr q" "GetPageSize (rc_Pagination cfg opts) = 100"
    and "rc_CreatePaginationToken cfg = Some f" "\<forall>e. f e opts = id_token fmt e"
  obtains found where "answer (rc_Table cfg) q s = Inr found"
    "lw_Items w = map (\<lambda>e. rc_SchemaToEntity cfg e (table_read (rc_Table cfg) (getEntityID e) (\<lambda>_. True) s))
       (if has_more 100 found then butlast found else found)"
    "lw_NextPageToken w = (if has_more 100 found \<and> (if has_more 100 found then butlast found else found) \<noteq> []
       then id_token fmt (last (if has_more 100 found then butlast found else found)) else [])"
proof -
  have ops: "so_find (catalog_tables answer) = answer" "so_props (catalog_tables answer) k i s = Inr (table_read k i (\<lambda>_. True) s)" for k i
    by (simp_all add: catalog_tables_def table_ops_def)
  show thesis
  proof (cases "answer (rc_Table cfg) q s")
    case (Inl err)
    then show ?thesis using assms(1-3) by (simp add: ListEntities_def ops)
  next
    case (Inr found)
    show ?thesis
      by (rule that [OF Inr]) (use assms Inr in \<open>auto simp: ListEntities_def ops wrap_def Let_def try_map_each\<close>)
  qed
qed

lemma runtime_token: "rc_CreatePaginationToken (serving_runtime_repo fmt pg_quote t)
    = Some (\<lambda>e opts. createServingRuntimePaginationToken fmt e (pagination.truncate opts))"
  "createServingRuntimePaginationToken fmt e (pagination.truncate (page_of_runtimes src token)) = id_token fmt e"
  by (simp_all add: serving_runtime_repo_def createServingRuntimePaginationToken_def page_of_runtimes_def pagination.defs GetOrderBy_def
      DefaultOrderBy_def CreateDefaultPaginationToken_def id_token_def)

lemma version_token: "rc_CreatePaginationToken (serving_runtime_version_repo fmt pg_quote u)
    = Some (\<lambda>e opts. createServingRuntimeVersionPaginationToken fmt e (pagination.truncate opts))"
  "createServingRuntimeVersionPaginationToken fmt e (pagination.truncate (page_of_versions p token)) = id_token fmt e"
  by (simp_all add: serving_runtime_version_repo_def createServingRuntimeVersionPaginationToken_def page_of_versions_def pagination.defs
      GetOrderBy_def DefaultOrderBy_def CreateDefaultPaginationToken_def id_token_def)

text \<open>A page of runtimes, and a page of versions, as the rows of the table.\<close>

lemma runtime_page:
  assumes "rs_List (runtime_tables fmt parser t u now) (page_of_runtimes src token) s = Inr w"
  defines "every \<equiv> rows_where ContextTable (\<lambda>e. (getTypeID e = t \<and> property_in ContextTable ''source_id'' False [AnyStr src] s (getEntityID e))
      \<and> after token (getEntityID e)) s"
  obtains hi rows where "lw_Items w = map (\<lambda>e. mapSchemaToServingRuntime e (table_read ContextTable (getEntityID e) (\<lambda>_. True) s)) rows"
    "\<forall>e. e \<in> set rows \<longleftrightarrow> e \<in> set every \<and> getEntityID e \<le> hi"
    "lw_NextPageToken w = [] \<or> rows = [] \<Longrightarrow> \<forall>e \<in> set every. getEntityID e \<le> hi"
    "lw_NextPageToken w \<noteq> [] \<Longrightarrow> \<forall>i. after (Some (lw_NextPageToken w)) i \<longleftrightarrow> after token i \<and> hi < i"
proof -
  let ?cfg = "serving_runtime_repo fmt pg_quote t"
  obtain q where q: "list_query parser ''postgres'' ?cfg (page_of_runtimes src token) = Inr q"
      "calls q = runtime_calls t src @ page_calls ContextTable token" by (rule runtime_query)
  have cfg: "rc_Table ?cfg = ContextTable" "rc_SchemaToEntity ?cfg = mapSchemaToServingRuntime"
      "GetPageSize (rc_Pagination ?cfg (page_of_runtimes src token)) = 100"
    by (simp_all add: serving_runtime_repo_def page_of_runtimes_def pagination.defs GetPageSize_def)
  have "ListEntities fmt parser ''postgres'' (catalog_tables answer) ?cfg (page_of_runtimes src token) s = Inr w"
    using assms(1) by (simp add: runtime_tables_def Let_def)
  note listed_page [OF this q(1) cfg(3) runtime_token(1)]
  from this [simplified cfg runtime_token, simplified] obtain found where found: "answer ContextTable q s = Inr found"
      "lw_Items w = map (\<lambda>e. mapSchemaToServingRuntime e (table_read ContextTable (getEntityID e) (\<lambda>_. True) s))
         (if has_more 100 found then butlast found else found)"
      "lw_NextPageToken w = (if has_more 100 found \<and> (if has_more 100 found then butlast found else found) \<noteq> []
         then id_token fmt (last (if has_more 100 found then butlast found else found)) else [])"
    by blast
  note ans = page_answer [OF found(1) q(2) runtime_hits own_limits(1)]
  have taken: "found = take 101 every" using ans(1) by (simp add: every_def conj_assoc)
  from page_cut [where P = "\<lambda>e. getTypeID e = t \<and> property_in ContextTable ''source_id'' False [AnyStr src] s (getEntityID e)" and token = token and k = ContextTable and s = s and fmt = fmt,
      folded every_def, folded taken id_token_def, folded found(3), OF ans(2)]
  show thesis using that [OF found(2)] by blast
qed

lemma version_page:
  assumes "rv_List (runtime_tables fmt parser t u now) (page_of_versions p token) s = Inr w"
  defines "every \<equiv> rows_where ArtifactTable (\<lambda>e. (getTypeID e = u \<and> (ArtifactTable, p, getEntityID e) \<in> set (tb_links s))
      \<and> after token (getEntityID e)) s"
  obtains hi rows where "lw_Items w = map (\<lambda>e. mapSchemaToServingRuntimeVersion e (table_read ArtifactTable (getEntityID e) (\<lambda>_. True) s)) rows"
    "\<forall>e. e \<in> set rows \<longleftrightarrow> e \<in> set every \<and> getEntityID e \<le> hi"
    "lw_NextPageToken w \<noteq> [] \<Longrightarrow> \<forall>i. after (Some (lw_NextPageToken w)) i \<longleftrightarrow> after token i \<and> hi < i"
proof -
  let ?cfg = "serving_runtime_version_repo fmt pg_quote u"
  obtain q where q: "list_query parser ''postgres'' ?cfg (page_of_versions p token) = Inr q"
      "calls q = version_calls u p @ page_calls ArtifactTable token" by (rule version_query)
  have cfg: "rc_Table ?cfg = ArtifactTable" "rc_SchemaToEntity ?cfg = mapSchemaToServingRuntimeVersion"
      "GetPageSize (rc_Pagination ?cfg (page_of_versions p token)) = 100"
    by (simp_all add: serving_runtime_version_repo_def page_of_versions_def pagination.defs GetPageSize_def)
  have "ListEntities fmt parser ''postgres'' (catalog_tables answer) ?cfg (page_of_versions p token) s = Inr w"
    using assms(1) by (simp add: runtime_tables_def Let_def)
  note listed_page [OF this q(1) cfg(3) version_token(1)]
  from this [simplified cfg version_token, simplified] obtain found where found: "answer ArtifactTable q s = Inr found"
      "lw_Items w = map (\<lambda>e. mapSchemaToServingRuntimeVersion e (table_read ArtifactTable (getEntityID e) (\<lambda>_. True) s))
         (if has_more 100 found then butlast found else found)"
      "lw_NextPageToken w = (if has_more 100 found \<and> (if has_more 100 found then butlast found else found) \<noteq> []
         then id_token fmt (last (if has_more 100 found then butlast found else found)) else [])"
    by blast
  note ans = page_answer [OF found(1) q(2) version_hits own_limits(2)]
  have taken: "found = take 101 every" using ans(1) by (simp add: every_def conj_assoc)
  show thesis
  proof (rule page_cut [where P = "\<lambda>e. getTypeID e = u \<and> (ArtifactTable, p, getEntityID e) \<in> set (tb_links s)" and token = token and k = ArtifactTable and s = s and fmt = fmt,
      folded every_def, folded taken id_token_def, folded found(3), OF ans(2)])
    fix hi
    assume hi: "\<forall>e. e \<in> set (if has_more 100 found then butlast found else found) \<longleftrightarrow> e \<in> set every \<and> getEntityID e \<le> hi"
        "lw_NextPageToken w \<noteq> [] \<Longrightarrow> \<forall>i. after (Some (lw_NextPageToken w)) i \<longleftrightarrow> after token i \<and> hi < i"
    show thesis by (rule that [OF found(2) hi])
  qed
qed

end
