(* ===== verification/Runtime_Tables_Facts.thy ===== *)
theory Runtime_Tables_Facts
  imports Runtime_Tables
begin

section \<open>A reload over the database\<close>

text \<open>
  The interfaces of the reload hold for the repositories of the code over the database in memory. So a reload ends,
  it changes nothing unless it succeeds, and after one that succeeds the API serves exactly the families of the file.
\<close>

subsection \<open>Runtimes in the tables\<close>

type_synonym runtime_row = "schema_entity \<times> (string \<times> bool \<Rightarrow> property_row option)"

definition runtime_entry :: "int \<Rightarrow> tables \<Rightarrow> int \<Rightarrow> runtime_row option" where
  "runtime_entry t s i = (case table_row s ContextTable i of None \<Rightarrow> None
     | Some e \<Rightarrow> if getTypeID e = t then Some (e, \<lambda>key. table_prop s ContextTable (i, key)) else None)"

definition row_name :: "runtime_row \<Rightarrow> string" where
  "row_name v = str_or_empty (getName (fst v))"

definition of_source :: "string \<Rightarrow> tables \<Rightarrow> int \<Rightarrow> bool" where
  "of_source src s i = property_in ContextTable ''source_id'' False [AnyStr src] s i"

text \<open>What a row holds of a family: its properties; an external id that the file no longer has stays.\<close>

definition runtime_kept :: "runtime_json \<Rightarrow> string \<Rightarrow> serving_runtime \<Rightarrow> runtime_row option \<Rightarrow> runtime_row \<Rightarrow> bool" where
  "runtime_kept js src r old v \<longleftrightarrow> (\<exists>e. buildServingRuntimeEntity js src r = Inr e
     \<and> external_id_of (fst v) = (case yr_ExternalID r of None \<Rightarrow> Option.bind old (\<lambda>w. external_id_of (fst w)) | Some x \<Rightarrow> Some x)
     \<and> snd v = (\<lambda>key. sent_props (mapServingRuntimeToProperties e (getEntityID (fst v))) (getEntityID (fst v), key)))"

definition versions_of :: "int \<Rightarrow> int \<Rightarrow> tables \<Rightarrow> int set" where
  "versions_of u p s = {i. \<exists>e. table_row s ArtifactTable i = Some e \<and> getTypeID e = u \<and> (ArtifactTable, p, i) \<in> set (tb_links s)}"

lemma entry_Some: "runtime_entry t s i = Some v \<Longrightarrow> table_row s ContextTable i = Some (fst v) \<and> getTypeID (fst v) = t
    \<and> snd v = (\<lambda>key. table_prop s ContextTable (i, key)) \<and> getEntityID (fst v) = i \<and> getName (fst v) = Some (row_name v)"
proof -
  assume v: "runtime_entry t s i = Some v"
  then have row: "table_row s ContextTable i = Some (fst v)" by (auto simp: runtime_entry_def split: option.splits if_splits)
  with table_row_Some [OF row] v show ?thesis using context_named [of "fst v"]
    by (cases v) (auto simp: runtime_entry_def row_name_def split: if_splits)
qed

lemma entry_finite: "finite {i. runtime_entry t s i \<noteq> None}"
proof (rule finite_subset)
  show "{i. runtime_entry t s i \<noteq> None} \<subseteq> getEntityID ` set (tb_rows s)"
  proof
    fix i assume "i \<in> {i. runtime_entry t s i \<noteq> None}"
    then obtain v where "runtime_entry t s i = Some v" by auto
    from table_row_Some [OF entry_Some [OF this, THEN conjunct1]] show "i \<in> getEntityID ` set (tb_rows s)" by auto
  qed
qed simp

lemma listed_row:
  "e \<in> set (rows_where ContextTable (\<lambda>e. (getTypeID e = t \<and> property_in ContextTable ''source_id'' False [AnyStr src] s (getEntityID e))
      \<and> after token (getEntityID e)) s)
    \<longleftrightarrow> (\<exists>v. runtime_entry t s (getEntityID e) = Some v \<and> e = fst v \<and> of_source src s (getEntityID e) \<and> after token (getEntityID e))"
  using table_row_Some [of s ContextTable "getEntityID e" e]
  by (auto simp: rows_where_set runtime_entry_def of_source_def split: option.split)

lemma stored_runtime_fields: "cm_ID (mapSchemaToServingRuntime e ps) = Some (getEntityID e)"
  "model_name (mapSchemaToServingRuntime e ps) = getName e"
  by (simp_all add: mapSchemaToServingRuntime_def model_name_def)

lemma runtimes_page_law:
  assumes "rs_List (runtime_tables fmt parser t u now) (page_of_runtimes src token) s = Inr w"
  shows "\<exists>hi. (\<forall>i n. (\<exists>m \<in> set (lw_Items w). cm_ID m = Some i \<and> model_name m = Some n) \<longleftrightarrow>
         (\<exists>v. runtime_entry t s i = Some v \<and> row_name v = n \<and> of_source src s i \<and> after token i \<and> i \<le> hi))
      \<and> (lw_NextPageToken w = [] \<or> lw_Items w = [] \<longrightarrow>
          (\<forall>i. runtime_entry t s i \<noteq> None \<longrightarrow> of_source src s i \<longrightarrow> after token i \<longrightarrow> i \<le> hi))
      \<and> (lw_NextPageToken w \<noteq> [] \<longrightarrow> (\<forall>i. after (Some (lw_NextPageToken w)) i \<longleftrightarrow> after token i \<and> hi < i))
      \<and> (lw_Items w \<noteq> [] \<longrightarrow> (\<exists>m \<in> set (lw_Items w). \<exists>i n. cm_ID m = Some i \<and> model_name m = Some n))"
proof (rule runtime_page [OF assms])
  fix hi rows
  assume items: "lw_Items w = map (\<lambda>e. mapSchemaToServingRuntime e (table_read ContextTable (getEntityID e) (\<lambda>_. True) s)) rows"
    and rows: "\<forall>e. e \<in> set rows \<longleftrightarrow> e \<in> set (rows_where ContextTable (\<lambda>e. (getTypeID e = t
        \<and> property_in ContextTable ''source_id'' False [AnyStr src] s (getEntityID e)) \<and> after token (getEntityID e)) s) \<and> getEntityID e \<le> hi"
    and all: "lw_NextPageToken w = [] \<or> rows = [] \<Longrightarrow> \<forall>e \<in> set (rows_where ContextTable (\<lambda>e. (getTypeID e = t
        \<and> property_in ContextTable ''source_id'' False [AnyStr src] s (getEntityID e)) \<and> after token (getEntityID e)) s). getEntityID e \<le> hi"
    and more: "lw_NextPageToken w \<noteq> [] \<Longrightarrow> \<forall>i. after (Some (lw_NextPageToken w)) i \<longleftrightarrow> after token i \<and> hi < i"
  have row: "e \<in> set rows \<longleftrightarrow> (\<exists>v. runtime_entry t s (getEntityID e) = Some v \<and> e = fst v \<and> of_source src s (getEntityID e)
      \<and> after token (getEntityID e)) \<and> getEntityID e \<le> hi" for e
    using rows listed_row by blast
  have "(\<exists>m \<in> set (lw_Items w). cm_ID m = Some i \<and> model_name m = Some n) \<longleftrightarrow>
      (\<exists>v. runtime_entry t s i = Some v \<and> row_name v = n \<and> of_source src s i \<and> after token i \<and> i \<le> hi)" for i n
  proof
    assume "\<exists>m \<in> set (lw_Items w). cm_ID m = Some i \<and> model_name m = Some n"
    then obtain e where e: "e \<in> set rows" "getEntityID e = i" "getName e = Some n" by (auto simp: items stored_runtime_fields)
    then obtain v where v: "runtime_entry t s i = Some v" "e = fst v" "of_source src s i" "after token i" "i \<le> hi" using row [of e] by auto
    moreover have "row_name v = n" using e(3) v(2) entry_Some [OF v(1)] by simp
    ultimately show "\<exists>v. runtime_entry t s i = Some v \<and> row_name v = n \<and> of_source src s i \<and> after token i \<and> i \<le> hi" by blast
  next
    assume "\<exists>v. runtime_entry t s i = Some v \<and> row_name v = n \<and> of_source src s i \<and> after token i \<and> i \<le> hi"
    then obtain v where v: "runtime_entry t s i = Some v" "row_name v = n" "of_source src s i" "after token i" "i \<le> hi" by blast
    note f = entry_Some [OF v(1)]
    have "fst v \<in> set rows" using row [of "fst v"] v f by auto
    then show "\<exists>m \<in> set (lw_Items w). cm_ID m = Some i \<and> model_name m = Some n" using f v(2) by (auto simp: items stored_runtime_fields)
  qed
  moreover have "i \<le> hi" if here: "lw_NextPageToken w = [] \<or> lw_Items w = []" "runtime_entry t s i \<noteq> None" "of_source src s i" "after token i" for i
  proof -
    obtain v where v: "runtime_entry t s i = Some v" using here(2) by auto
    note f = entry_Some [OF v]
    have "fst v \<in> set (rows_where ContextTable (\<lambda>e. (getTypeID e = t
        \<and> property_in ContextTable ''source_id'' False [AnyStr src] s (getEntityID e)) \<and> after token (getEntityID e)) s)"
      unfolding listed_row using v f here by auto
    moreover have "lw_NextPageToken w = [] \<or> rows = []" using here(1) by (simp add: items)
    ultimately show ?thesis using all f by auto
  qed
  moreover have "\<exists>m \<in> set (lw_Items w). \<exists>i n. cm_ID m = Some i \<and> model_name m = Some n" if some: "lw_Items w \<noteq> []"
  proof -
    obtain e where e: "e \<in> set rows" using some by (cases rows) (auto simp: items)
    then obtain v where "runtime_entry t s (getEntityID e) = Some v" "e = fst v" using row [of e] by auto
    then have "getName e = Some (row_name v)" using entry_Some by blast
    with e show ?thesis by (auto simp: items stored_runtime_fields)
  qed
  ultimately show ?thesis using more by blast
qed

subsection \<open>Deletions\<close>

lemma dropped_prop:
  "table_prop (drop_entities gone hit s) k key = (if gone k (fst key) then None else table_prop s k key)"
proof (cases "gone k (fst key)")
  case True
  have "table_prop (drop_entities gone hit s) k key = None"
    using True by (auto simp: table_prop_def drop_entities_def find_None_iff prop_key_def)
  with True show ?thesis by simp
qed (simp add: table_prop_drop)

lemma dropped_row:
  assumes "\<And>e. table_of e = k \<Longrightarrow> getEntityID e = i \<Longrightarrow> \<not> hit e"
  shows "table_row (drop_entities gone hit s) k i = table_row s k i"
  unfolding table_row_def drop_entities_def using assms by (simp, intro find_filter_other) blast

lemma row_of_dropped:
  "table_row (drop_entities gone hit s) k i = Some e \<Longrightarrow> \<not> hit e \<and> table_row s k i \<noteq> None"
  using table_row_Some [of "drop_entities gone hit s" k i e]
  by (auto simp: table_row_def find_None_iff drop_entities_def)

definition row_count :: "tables \<Rightarrow> nat" where
  "row_count s = card {(k, i). table_row s k i \<noteq> None}"

lemma rows_present: "{(k, i). table_row s k i \<noteq> None} = (\<lambda>e. (table_of e, getEntityID e)) ` set (tb_rows s)"
  by (force simp: table_row_def find_None_iff)

lemma rows_finite: "finite {(k, i). table_row s k i \<noteq> None}"
  unfolding rows_present by simp

lemma row_count_length: "row_count s \<le> length (tb_rows s)"
  unfolding row_count_def rows_present by (meson card_image_le card_length finite_set le_trans)

lemma dropped_count: "row_count (drop_entities gone hit s) \<le> row_count s"
  unfolding row_count_def by (rule card_mono [OF rows_finite]) (auto dest!: row_of_dropped)

lemma view_same:
  assumes "table_row s' ContextTable i = table_row s ContextTable i" "\<And>key. table_prop s' ContextTable (i, key) = table_prop s ContextTable (i, key)"
  shows "runtime_entry t s' i = runtime_entry t s i" and "of_source src s' i = of_source src s i"
  unfolding runtime_entry_def of_source_def property_in_def assms by (rule refl)+

lemma runtime_deleted:
  assumes "DeleteRuntimeByID t i s = Inr s'"
  shows "runtime_entry t s' = (runtime_entry t s)(i := None)" and "\<forall>j. j \<noteq> i \<longrightarrow> of_source src s' j = of_source src s j"
    and "row_count s' \<le> row_count s"
proof -
  define hit where "hit = (\<lambda>e. table_of e = ContextTable \<and> getEntityID e = i \<and> getTypeID e = t)"
  have s': "s' = drop_entities (\<lambda>j x. j = ContextTable \<and> x = i) hit s"
    using assms by (auto simp: DeleteRuntimeByID_def delete_row_def Let_def hit_def split: if_splits)
  have other: "table_row s' ContextTable j = table_row s ContextTable j" if "j \<noteq> i" for j
    unfolding s' by (rule dropped_row) (use that in \<open>simp add: hit_def\<close>)
  have gone: "runtime_entry t s' i = None"
  proof (cases "table_row s' ContextTable i")
    case (Some e)
    then have "\<not> hit e" unfolding s' by (rule row_of_dropped [THEN conjunct1])
    then show ?thesis using Some table_row_Some [OF Some] by (simp add: runtime_entry_def hit_def)
  qed (simp add: runtime_entry_def)
  have kept: "table_prop s' ContextTable (j, key) = table_prop s ContextTable (j, key)" if "j \<noteq> i" for j key
    using that by (simp add: s' dropped_prop)
  show "runtime_entry t s' = (runtime_entry t s)(i := None)"
    using gone view_same(1) [OF other kept, of _ t] by (simp add: fun_eq_iff)
  show "\<forall>j. j \<noteq> i \<longrightarrow> of_source src s' j = of_source src s j" by (simp add: of_source_def property_in_def s' dropped_prop)
  show "row_count s' \<le> row_count s" unfolding s' by (rule dropped_count)
qed

lemma artifacts_dropped:
  assumes "s' = drop_entities gone hit s" "\<And>i. \<not> gone ContextTable i" "\<And>e. hit e \<Longrightarrow> table_of e = ArtifactTable"
  shows "runtime_entry t s' = runtime_entry t s" "of_source src s' = of_source src s" "row_count s' \<le> row_count s"
proof -
  have row: "table_row s' ContextTable i = table_row s ContextTable i" for i
    unfolding assms(1) by (rule dropped_row) (use assms(3) in force)
  have prop_same: "table_prop s' ContextTable key = table_prop s ContextTable key" for key
    by (simp add: assms(1,2) dropped_prop)
  show "runtime_entry t s' = runtime_entry t s" "of_source src s' = of_source src s"
    using view_same [OF row prop_same] by (simp_all add: fun_eq_iff)
  show "row_count s' \<le> row_count s" unfolding assms(1) by (rule dropped_count)
qed

lemma version_deleted_row:
  assumes "DeleteVersionByID u i s = Inr s'"
  shows "runtime_entry t s' = runtime_entry t s" "of_source src s' = of_source src s" "row_count s' \<le> row_count s"
    and "versions_of u p s' \<subseteq> versions_of u p s"
proof -
  define hit where "hit = (\<lambda>e. table_of e = ArtifactTable \<and> getEntityID e = i \<and> getTypeID e = u)"
  have s': "s' = drop_entities (\<lambda>j x. j = ArtifactTable \<and> x = i) hit s"
    using assms by (auto simp: DeleteVersionByID_def delete_row_def Let_def hit_def split: if_splits)
  note same = artifacts_dropped [OF s']
  show "runtime_entry t s' = runtime_entry t s" "of_source src s' = of_source src s" "row_count s' \<le> row_count s"
    by (rule same; simp add: hit_def)+
  show "versions_of u p s' \<subseteq> versions_of u p s"
  proof
    fix j assume "j \<in> versions_of u p s'"
    then obtain e where e: "table_row s' ArtifactTable j = Some e" "getTypeID e = u" "(ArtifactTable, p, j) \<in> set (tb_links s')"
      by (auto simp: versions_of_def)
    have "\<not> hit e" using e(1) unfolding s' by (rule row_of_dropped [THEN conjunct1])
    then have "j \<noteq> i" using table_row_Some [OF e(1)] e(2) by (auto simp: hit_def)
    then have "table_row s' ArtifactTable j = table_row s ArtifactTable j"
      unfolding s' by (intro dropped_row) (simp add: hit_def)
    with e(1) have "table_row s ArtifactTable j = Some e" by simp
    moreover have "(ArtifactTable, p, j) \<in> set (tb_links s)" using e(3) by (auto simp: s' drop_entities_def)
    ultimately show "j \<in> versions_of u p s" using e by (auto simp: versions_of_def)
  qed
qed

lemma parent_deleted:
  assumes "DeleteByParentID u p s = Inr s'"
  shows "runtime_entry t s' = runtime_entry t s" "of_source src s' = of_source src s" "row_count s' \<le> row_count s"
  by (rule artifacts_dropped [where s = s, OF assms [unfolded DeleteByParentID_def Let_def, THEN Inr_inject, symmetric]]; simp)+

text \<open>A source that is deleted is no longer among the sources of its table.\<close>

lemma deleted_source_gone: "src \<notin> set (distinct_sources k t (delete_source k t src s))"
proof
  define hit where "hit = (\<lambda>e. table_of e = k \<and> getTypeID e = t \<and> property_in k ''source_id'' False [AnyStr src] s (getEntityID e))"
  let ?s = "delete_source k t src s"
  assume "src \<in> set (distinct_sources k t ?s)"
  then obtain e where e: "e \<in> set (tb_rows ?s)" "table_of e = k" "getTypeID e = t"
      "Option.bind (table_prop ?s k (getEntityID e, ''source_id'', False)) sp_String = Some src"
    by (auto simp: distinct_sources_def map_filter_def split: if_splits)
  have s: "?s = drop_entities (\<lambda>j i. j = k \<and> list_ex (\<lambda>e. hit e \<and> getEntityID e = i) (tb_rows s)) hit s"
    unfolding delete_source_def Let_def hit_def by (rule refl)
  have "Option.bind (table_prop s k (getEntityID e, ''source_id'', False)) sp_String = Some src"
    using e(4) unfolding s dropped_prop by (auto split: if_splits)
  then have "hit e" using e(2,3) by (auto simp: hit_def property_in_def bind_eq_Some_conv)
  moreover have "\<not> hit e" using e(1) unfolding s by (simp add: drop_entities_def)
  ultimately show False by blast
qed

subsection \<open>Saving\<close>

lemma saved_count:
  assumes "Save (catalog_tables q) cfg now e p s = (Inr r, s')" "repo_mapping cfg"
  shows "row_count s' \<le> Suc (row_count s)"
proof (rule catalog_db.Save_spec [OF assms])
  fix row :: schema_entity
  assume "table_row s' = (table_row s)(rc_Table cfg := (table_row s (rc_Table cfg))(getEntityID row :=
     if call_opt (rc_IsNewEntity cfg) e then Some row
     else map_option (updates getNonUpdatableFields row) (table_row s (rc_Table cfg) (getEntityID row))))"
  then have "{(k, i). table_row s' k i \<noteq> None} \<subseteq> insert (rc_Table cfg, getEntityID row) {(k, i). table_row s k i \<noteq> None}"
    by (auto split: if_splits)
  then have "row_count s' \<le> card (insert (rc_Table cfg, getEntityID row) {(k, i). table_row s k i \<noteq> None})"
    unfolding row_count_def using rows_finite by (intro card_mono) auto
  also have "\<dots> \<le> Suc (row_count s)" unfolding row_count_def by (rule card_insert_le_m1) (simp_all add: rows_finite)
  finally show ?thesis .
qed

lemma version_saved_row:
  assumes "SaveServingRuntimeVersion (catalog_tables answer) fmt pg_quote u now m p s = (Inr m', s')"
  shows "runtime_entry t s' = runtime_entry t s" "of_source src s' = of_source src s" "row_count s' \<le> Suc (row_count s)"
proof -
  note save = assms [unfolded SaveServingRuntimeVersion_def] runtime_version_repository.repo_mapping_axioms
  have table: "rc_Table (serving_runtime_version_repo fmt pg_quote u) = ArtifactTable" by (simp add: serving_runtime_version_repo_def)
  have same: "table_row s' ContextTable = table_row s ContextTable" "table_prop s' ContextTable = table_prop s ContextTable"
    by (rule catalog_db.Save_spec [OF save]; simp add: table)+
  show "runtime_entry t s' = runtime_entry t s" by (rule ext, rule view_same) (simp_all add: same)
  show "of_source src s' = of_source src s" by (rule ext, rule view_same) (simp_all add: same)
  show "row_count s' \<le> Suc (row_count s)" by (rule saved_count [OF save])
qed

subsection \<open>Saving a runtime\<close>

text \<open>Among rows with different keys, what was sent for a key is the row with that key.\<close>

lemma sent_distinct:
  assumes "distinct (map prop_key ps)"
  shows "sent_props ps c = Some p \<longleftrightarrow> p \<in> set ps \<and> prop_key p = c"
proof
  assume p: "p \<in> set ps \<and> prop_key p = c"
  then have "sent_props ps c \<noteq> None" by (auto simp: sent_props_None)
  then obtain q where q: "sent_props ps c = Some q" by blast
  with p have "p = q" using sent_props_Some [OF q] assms by (auto simp: distinct_map dest: inj_onD)
  with q show "sent_props ps c = Some p" by simp
qed (use sent_props_Some in blast)

definition built_rows :: "stored_property list \<Rightarrow> stored_property list option \<Rightarrow> int \<Rightarrow> property_row list" where
  "built_rows own custom i = map (\<lambda>p. MapPropertiesToContextProperty p i False) own
     @ (case custom of None \<Rightarrow> [] | Some cs \<Rightarrow> map (\<lambda>p. MapPropertiesToContextProperty p i True) cs)"

lemma built_runtime:
  assumes "buildServingRuntimeEntity js src r = Inr e"
  obtains own custom where "gather (runtime_additions js src r) = Inr own"
    "(case yr_CustomProperties r of None \<Rightarrow> custom = None
      | Some m \<Rightarrow> \<exists>cs. custom = Some cs \<and> try_map (\<lambda>(key, w). servingRuntimeCustomProperty js key (ym_Value w)) m = Inr cs)"
    "e = \<lparr>cm_ID = None, cm_TypeID = None,
       cm_Attributes = Some \<lparr>ca_Name = Some (runtime_name src r), ca_ExternalID = yr_ExternalID r, ca_CreateTime = None, ca_LastUpdateTime = None\<rparr>,
       cm_Properties = Some own, cm_Custom = custom\<rparr>"
proof -
  obtain own where own: "gather (runtime_additions js src r) = Inr own"
    using assms by (cases "gather (runtime_additions js src r)") (auto simp: buildServingRuntimeEntity_def)
  show thesis
  proof (cases "yr_CustomProperties r")
    case None
    with assms own that [of own None] show ?thesis by (simp add: buildServingRuntimeEntity_def runtime_name_def)
  next
    case (Some m)
    then obtain cs where "try_map (\<lambda>(key, w). servingRuntimeCustomProperty js key (ym_Value w)) m = Inr cs"
      using assms own by (cases "try_map (\<lambda>(key, w). servingRuntimeCustomProperty js key (ym_Value w)) m")
        (auto simp: buildServingRuntimeEntity_def)
    with assms own Some that [of own "Some cs"] show ?thesis by (simp add: buildServingRuntimeEntity_def runtime_name_def)
  qed
qed

lemma source_sent:
  assumes "gather (runtime_additions js src r) = Inr own"
  shows "\<exists>p. sent_props (built_rows own custom i) (i, ''source_id'', False) = Some p \<and> sp_String p = Some src"
proof -
  let ?p = "NewStringProperty ''source_id'' src False"
  have own: "own = rights (runtime_additions js src r)" using assms by (simp add: gather_Inr)
  have "column own ''source_id'' = Some ?p" by (simp add: own runtime_columns)
  then have mem: "?p \<in> set own" using column_Some by blast
  have single: "p = ?p" if "p \<in> set own" "sp_Name p = ''source_id''" for p
    using column_mem [of own p] column_mem [of own ?p] runtime_names [of js src r] mem that by (simp add: own)
  let ?rows = "built_rows own custom i"
  have "MapPropertiesToContextProperty ?p i False \<in> set ?rows" using mem by (simp add: built_rows_def)
  moreover have "prop_key (MapPropertiesToContextProperty ?p i False) = (i, ''source_id'', False)"
    by (simp add: prop_key_def MapPropertiesToContextProperty_def)
  ultimately have "sent_props ?rows (i, ''source_id'', False) \<noteq> None" unfolding sent_props_None by force
  then obtain q where q: "sent_props ?rows (i, ''source_id'', False) = Some q" by blast
  from sent_props_Some [OF this] have "q \<in> set ?rows" "sp_Name q = ''source_id''" "\<not> sp_IsCustom q" by (auto simp: prop_key_def)
  then obtain p where "p \<in> set own" "q = MapPropertiesToContextProperty p i False"
    by (auto simp: built_rows_def MapPropertiesToContextProperty_def split: option.splits)
  with single [of p] \<open>sp_Name q = _\<close> q show ?thesis by (simp add: MapPropertiesToContextProperty_def)
qed

lemma external_simps [simp]:
  "external_id_of (setEntityID i e) = external_id_of e" "external_id_of (setLastUpdateTime x e) = external_id_of e"
  "external_id_of (setCreateTime x e) = external_id_of e" "external_id_of (stamp cfg now new e) = external_id_of e"
proof -
  show "external_id_of (setEntityID i e) = external_id_of e" for e by (cases e) (simp_all add: external_id_of_def)
  show *: "external_id_of (setLastUpdateTime x e) = external_id_of e" "external_id_of (setCreateTime x e) = external_id_of e" for x e
    by (cases e; simp add: external_id_of_def)+
  show "external_id_of (stamp cfg now new e) = external_id_of e" by (simp add: stamp_def Let_def *)
qed

lemma updated_row:
  assumes "table_of e = ContextTable" "table_of r = ContextTable"
  shows "getTypeID (updates getNonUpdatableFields e r) = getTypeID r" "getName (updates getNonUpdatableFields e r) = getName r"
    "external_id_of (updates getNonUpdatableFields e r) = (case external_id_of e of None \<Rightarrow> external_id_of r | Some x \<Rightarrow> Some x)"
  using assms by (cases e; cases r; auto simp: upd_def getNonUpdatableFields_def external_id_of_def split: option.split)+

lemma runtime_saved:
  assumes T: "0 < T" and build: "buildServingRuntimeEntity js src r = Inr e"
    and m: "m = e \<or> (\<exists>x j v. m = with_existing x e \<and> cm_ID x = Some j \<and> runtime_entry T s j = Some v \<and> row_name v = runtime_name src r)"
    and run: "SaveServingRuntime (catalog_tables answer) fmt pg_quote T now m s = (Inr m', s')"
  shows "\<exists>i v. cm_ID m' = Some i \<and> runtime_entry T s' = (runtime_entry T s)(i \<mapsto> v)
    \<and> of_source src s' = (of_source src s)(i := True) \<and> row_name v = runtime_name src r
    \<and> runtime_kept js src r (runtime_entry T s i) v
    \<and> (\<forall>w. runtime_entry T s i = Some w \<longrightarrow> row_name w = runtime_name src r)"
proof (rule built_runtime [OF build])
  fix own custom
  assume own: "gather (runtime_additions js src r) = Inr own"
    and e: "e = \<lparr>cm_ID = None, cm_TypeID = None,
       cm_Attributes = Some \<lparr>ca_Name = Some (runtime_name src r), ca_ExternalID = yr_ExternalID r, ca_CreateTime = None, ca_LastUpdateTime = None\<rparr>,
       cm_Properties = Some own, cm_Custom = custom\<rparr>"
  let ?cfg = "serving_runtime_repo fmt pg_quote T" let ?m = "with_type T m"
  have m1: "cm_TypeID ?m = Some T" "cm_Properties ?m = Some own" "cm_Custom ?m = custom" "cm_ID ?m = cm_ID m"
    using m T by (auto simp: e with_existing_def with_type_def)
  have attrs: "\<exists>a. cm_Attributes ?m = Some a \<and> ca_Name a = Some (runtime_name src r) \<and> ca_ExternalID a = yr_ExternalID r"
    using m by (auto simp: e with_existing_def with_type_def)
  have schema: "table_of (mapServingRuntimeToSchema ?m) = ContextTable" "getTypeID (mapServingRuntimeToSchema ?m) = T"
      "getName (mapServingRuntimeToSchema ?m) = Some (runtime_name src r)"
      "external_id_of (mapServingRuntimeToSchema ?m) = yr_ExternalID r" "getEntityID (mapServingRuntimeToSchema ?m) = zero_if_nil (cm_ID m)"
    using attrs by (auto simp: mapServingRuntimeToSchema_def Let_def m1 zero_if_nil_def str_or_empty_def external_id_of_def)
  have cfg: "rc_Table ?cfg = ContextTable" "rc_EntityToSchema ?cfg = mapServingRuntimeToSchema" "call_opt (rc_IsNewEntity ?cfg) ?m = (cm_ID m = None)"
      "rc_EntityToProperties ?cfg = mapServingRuntimeToProperties" "rc_DeleteMissingProperties ?cfg" "rc_SchemaToEntity ?cfg = mapSchemaToServingRuntime"
    by (simp_all add: serving_runtime_repo_def call_opt_def m1)
  have rows: "mapServingRuntimeToProperties ?m i = built_rows own custom i" "mapServingRuntimeToProperties e i = built_rows own custom i" for i
    by (simp_all add: mapServingRuntimeToProperties_def built_rows_def m1 e)
  show ?thesis
  proof (rule catalog_db.Save_spec [OF run [unfolded SaveServingRuntime_def] runtime_repository.repo_mapping_axioms], unfold cfg rows)
    fix row ps
    let ?i = "getEntityID row" let ?new = "cm_ID m = None"
    assume m': "m' = mapSchemaToServingRuntime row ps"
      and row: "row = setEntityID ?i (stamp ?cfg now ?new (mapServingRuntimeToSchema ?m))"
      and old: "\<not> ?new \<Longrightarrow> row = stamp ?cfg now ?new (mapServingRuntimeToSchema ?m)"
      and fresh: "?new \<Longrightarrow> table_row s ContextTable ?i = None \<and> (\<forall>m. table_prop s ContextTable (?i, m) = None)"
      and srows: "table_row s' = (table_row s)(ContextTable := (table_row s ContextTable)(?i :=
         if ?new then Some row else map_option (updates getNonUpdatableFields row) (table_row s ContextTable ?i)))"
      and sprops: "table_prop s' = (table_prop s)(ContextTable := saved_props ?cfg (call_opt (rc_HasCustomProperties ?cfg) ?m) ?i
         (built_rows own custom ?i) (table_prop s ContextTable))"
    let ?sent = "\<lambda>key. sent_props (built_rows own custom ?i) (?i, key)"
    have here: "table_prop s' ContextTable (?i, key) = ?sent key" for key
      by (simp add: sprops saved_props_def cfg split: option.split)
    have ids: "fst (prop_key p) = ?i" if "p \<in> set (built_rows own custom ?i)" for p
      using that by (auto simp: built_rows_def prop_key_def MapPropertiesToContextProperty_def split: option.splits)
    have none: "sent_props (built_rows own custom ?i) (j, key) = None" if foreign: "j \<noteq> ?i" for j key
      unfolding sent_props_None
    proof
      assume "(j, key) \<in> prop_key ` set (built_rows own custom ?i)"
      then obtain p where "p \<in> set (built_rows own custom ?i)" "(j, key) = prop_key p" by (rule imageE)
      with ids [of p] foreign show False by (metis fst_conv)
    qed
    have other: "table_row s' ContextTable j = table_row s ContextTable j" "table_prop s' ContextTable (j, key) = table_prop s ContextTable (j, key)"
      if "j \<noteq> ?i" for j key
      using that none [OF that] by (simp_all add: srows sprops saved_props_def)
    have mine: "of_source src s' = (of_source src s)(?i := True)"
    proof
      fix j
      show "of_source src s' j = ((of_source src s)(?i := True)) j"
        using source_sent [OF own, of custom ?i] here [of "(''source_id'', False)"] other(2) [of j "(''source_id'', False)"]
        by (auto simp: of_source_def property_in_def)
    qed
    have fields: "table_of row = ContextTable" "getTypeID row = T" "getName row = Some (runtime_name src r)" "external_id_of row = yr_ExternalID r"
      by (subst row, simp add: schema)+
    have entries: "\<exists>row'. table_row s' ContextTable ?i = Some row' \<and> getTypeID row' = T \<and> getEntityID row' = ?i
        \<and> getName row' = Some (runtime_name src r)
        \<and> external_id_of row' = (case yr_ExternalID r of None \<Rightarrow> Option.bind (runtime_entry T s ?i) (\<lambda>w. external_id_of (fst w)) | Some x \<Rightarrow> Some x)
        \<and> (\<forall>w. runtime_entry T s ?i = Some w \<longrightarrow> row_name w = runtime_name src r)"
    proof (cases "?new")
      case True
      with fresh have "runtime_entry T s ?i = None" by (simp add: runtime_entry_def)
      with True show ?thesis using fields by (auto simp: srows split: option.split)
    next
      case False
      then obtain x j v where x: "m = with_existing x e" "cm_ID x = Some j" "runtime_entry T s j = Some v" "row_name v = runtime_name src r"
        using m by (auto simp: e)
      have "?i = getEntityID (mapServingRuntimeToSchema ?m)" by (subst old [OF False]) simp
      then have i: "?i = j" using schema(5) x(1,2) by (simp add: with_existing_def zero_if_nil_def)
      note v = entry_Some [OF x(3)]
      have "table_of (fst v) = ContextTable" using v table_row_Some by blast
      note u = updated_row [OF fields(1) this]
      have "table_row s' ContextTable ?i = Some (updates getNonUpdatableFields row (fst v))" using False v by (auto simp: srows i)
      moreover have "getEntityID (updates getNonUpdatableFields row (fst v)) = ?i" using v i by simp
      ultimately show ?thesis using u v x(3,4) fields(4) by (auto simp: i split: option.split)
    qed
    then obtain row' where row': "table_row s' ContextTable ?i = Some row'" "getTypeID row' = T" "getEntityID row' = ?i"
        "getName row' = Some (runtime_name src r)"
        "external_id_of row' = (case yr_ExternalID r of None \<Rightarrow> Option.bind (runtime_entry T s ?i) (\<lambda>w. external_id_of (fst w)) | Some x \<Rightarrow> Some x)"
        "\<forall>w. runtime_entry T s ?i = Some w \<longrightarrow> row_name w = runtime_name src r"
      by blast
    let ?v = "(row', ?sent)"
    have "runtime_entry T s' ?i = Some ?v" using row' here by (simp add: runtime_entry_def)
    then have entry: "runtime_entry T s' = (runtime_entry T s)(?i \<mapsto> ?v)" using view_same(1) [OF other] by (auto simp: fun_eq_iff)
    have "runtime_kept js src r (runtime_entry T s ?i) ?v" unfolding runtime_kept_def using build row' rows(2) by (auto split: option.split)
    moreover have "row_name ?v = runtime_name src r" using row' by (simp add: row_name_def str_or_empty_def)
    moreover have "cm_ID m' = Some ?i" by (simp add: m' mapSchemaToServingRuntime_def)
    ultimately show ?thesis using entry mine row'(6) by blast
  qed
qed

subsection \<open>The interfaces hold\<close>

lemma runtime_by_name:
  assumes "GetByName (catalog_tables answer) (serving_runtime_repo fmt pg_quote t) n s = Inr m"
  shows "\<exists>i v. cm_ID m = Some i \<and> runtime_entry t s i = Some v \<and> row_name v = n"
proof -
  let ?cfg = "serving_runtime_repo fmt pg_quote t"
  have cfg: "rc_Table ?cfg = ContextTable" "rc_TypeID ?cfg = t" "rc_SchemaToEntity ?cfg = mapSchemaToServingRuntime"
    by (simp_all add: serving_runtime_repo_def)
  obtain e ps where e: "so_by_name (catalog_tables answer) ContextTable n t s = Inr e" "m = mapSchemaToServingRuntime e ps"
    using assms by (auto simp: GetByName_def cfg try_bind_Inr_iff split: sum.splits db_error.splits)
  note row = catalog_db.by_name [OF e(1)]
  have "runtime_entry t s (getEntityID e) = Some (e, \<lambda>key. table_prop s ContextTable (getEntityID e, key))"
    using row by (simp add: runtime_entry_def)
  moreover have "row_name (e, \<lambda>key. table_prop s ContextTable (getEntityID e, key)) = n" using row by (simp add: row_name_def str_or_empty_def)
  moreover have "cm_ID m = Some (getEntityID e)" by (simp add: e(2) mapSchemaToServingRuntime_def)
  ultimately show ?thesis by blast
qed

lemma runtime_tables_simps:
  "rs_GetByName (runtime_tables fmt parser t u now) = GetByName (catalog_tables answer) (serving_runtime_repo fmt pg_quote t)"
  "rs_Save (runtime_tables fmt parser t u now) = SaveServingRuntime (catalog_tables answer) fmt pg_quote t now"
  "rs_DeleteByID (runtime_tables fmt parser t u now) = DeleteRuntimeByID t"
  "rv_Save (runtime_tables fmt parser t u now) = SaveServingRuntimeVersion (catalog_tables answer) fmt pg_quote u now"
  "rv_DeleteByID (runtime_tables fmt parser t u now) = DeleteVersionByID u"
  "rv_DeleteByParentID (runtime_tables fmt parser t u now) = DeleteByParentID u"
  by (simp_all add: runtime_tables_def Let_def)

interpretation runtime_db: runtime_store "runtime_tables fmt parser (int (Suc t)) u now" src "runtime_entry (int (Suc t))" row_name
  "of_source src" after js "runtime_kept js src"
proof (unfold_locales, unfold runtime_tables_simps)
  show "after None i" for i by (simp add: after_def)
  show "finite {i. runtime_entry (int (Suc t)) s i \<noteq> None}" for s by (rule entry_finite)
qed (fact runtimes_page_law runtime_by_name runtime_saved [OF of_nat_0_less_iff [THEN iffD2, OF zero_less_Suc]]
    | (rule conjI; fact runtime_deleted version_saved_row version_deleted_row parent_deleted))+

lemma version_listing_law: "paged_listing (\<lambda>token. rv_List (runtime_tables fmt parser t u now) (page_of_versions p token)) (versions_of u p) after"
proof
  show "finite (versions_of u p s)" for s
  proof (rule finite_subset)
    show "versions_of u p s \<subseteq> getEntityID ` set (tb_rows s)" using table_row_Some by (fastforce simp: versions_of_def)
  qed simp
next
  fix token s w
  assume w: "rv_List (runtime_tables fmt parser t u now) (page_of_versions p token) s = Inr w" "lw_NextPageToken w \<noteq> []" "lw_Items w \<noteq> []"
  show "\<exists>hi. (\<exists>i \<in> versions_of u p s. after token i \<and> i \<le> hi)
      \<and> (\<forall>i. after (Some (lw_NextPageToken w)) i \<longleftrightarrow> after token i \<and> hi < i)"
  proof (rule version_page [OF w(1)])
    fix hi rows
    assume items: "lw_Items w = map (\<lambda>e. mapSchemaToServingRuntimeVersion e (table_read ArtifactTable (getEntityID e) (\<lambda>_. True) s)) rows"
      and rows: "\<forall>e. e \<in> set rows \<longleftrightarrow> e \<in> set (rows_where ArtifactTable (\<lambda>e. (getTypeID e = u \<and> (ArtifactTable, p, getEntityID e) \<in> set (tb_links s))
          \<and> after token (getEntityID e)) s) \<and> getEntityID e \<le> hi"
      and more: "lw_NextPageToken w \<noteq> [] \<Longrightarrow> \<forall>i. after (Some (lw_NextPageToken w)) i \<longleftrightarrow> after token i \<and> hi < i"
    obtain e where "e \<in> set rows" using w(3) by (cases rows) (auto simp: items)
    then have "getEntityID e \<in> versions_of u p s" "after token (getEntityID e)" "getEntityID e \<le> hi"
      using rows by (auto simp: rows_where_set versions_of_def)
    with more [OF w(2)] show ?thesis by blast
  qed
qed

lemma own_count: "card {i. runtime_entry t s i \<noteq> None \<and> of_source src s i} \<le> row_count s"
  and version_count: "card (versions_of u p s) \<le> row_count s"
proof -
  have below: "card A \<le> row_count s" if "\<forall>i \<in> A. table_row s k i \<noteq> None" for A k
    unfolding row_count_def by (rule card_inj_on_le [OF _ _ rows_finite, of "\<lambda>i. (k, i)"]) (use that in \<open>auto simp: inj_on_def\<close>)
  show "card {i. runtime_entry t s i \<noteq> None \<and> of_source src s i} \<le> row_count s"
    by (rule below [of _ ContextTable]) (auto simp: runtime_entry_def split: option.splits)
  show "card (versions_of u p s) \<le> row_count s" by (rule below [of _ ArtifactTable]) (auto simp: versions_of_def)
qed

interpretation runtime_loops: reload_ends "runtime_tables fmt parser (int (Suc t)) u now" src
  "\<lambda>s. {i. runtime_entry (int (Suc t)) s i \<noteq> None \<and> of_source src s i}" after "versions_of u" row_count
proof (intro reload_ends.intro reload_ends_axioms.intro, unfold runtime_tables_simps)
  show "paged_listing (\<lambda>token. rs_List (runtime_tables fmt parser (int (Suc t)) u now) (page_of_runtimes src token))
      (\<lambda>s. {i. runtime_entry (int (Suc t)) s i \<noteq> None \<and> of_source src s i}) after"
    by (rule runtime_db.listing.paged_listing_axioms)
  show "row_count s' \<le> Suc (row_count s)"
    if "SaveServingRuntime (catalog_tables answer) fmt pg_quote (int (Suc t)) now m s = (Inr m', s')" for m s m' s'
    by (rule saved_count [OF that [unfolded SaveServingRuntime_def] runtime_repository.repo_mapping_axioms])
  show "{j. runtime_entry (int (Suc t)) s' j \<noteq> None \<and> of_source src s' j} \<subseteq> {j. runtime_entry (int (Suc t)) s j \<noteq> None \<and> of_source src s j}
      \<and> row_count s' \<le> row_count s" if "DeleteRuntimeByID (int (Suc t)) i s = Inr s'" for i s s'
    using runtime_deleted(1,3) [OF that] runtime_deleted(2) [OF that, of src] by (auto split: if_splits)
  show "{j. runtime_entry (int (Suc t)) s' j \<noteq> None \<and> of_source src s' j} \<subseteq> {j. runtime_entry (int (Suc t)) s j \<noteq> None \<and> of_source src s j}
      \<and> row_count s' \<le> row_count s" if "DeleteByParentID u i s = Inr s'" for i s s'
    using parent_deleted [OF that] by simp
qed (fact version_listing_law own_count version_count version_saved_row(3) | (rule conjI; fact version_deleted_row))+

end
