(* ===== verification/Runtime_Reload_Facts.thy ===== *)
theory Runtime_Reload_Facts
  imports Runtime_Tables_Facts
begin

text \<open>
  The properties of a reload: it ends, with a result that does not depend on the fuel; it writes only as the leader, each
  write after a look of its own; and when it is committed the API serves the families of the file.
\<close>

subsection \<open>More fuel changes nothing\<close>

definition agrees :: "('x \<Rightarrow> 's \<Rightarrow> reload_error + 's) \<Rightarrow> ('x \<Rightarrow> 's \<Rightarrow> reload_error + 's) \<Rightarrow> bool" where
  "agrees f g \<longleftrightarrow> (\<forall>x s. f x s \<noteq> Inl StillRunning \<longrightarrow> g x s = f x s)"

lemma for_each_agrees:
  assumes "agrees f g"
  shows "for_each f xs s \<noteq> Inl StillRunning \<Longrightarrow> for_each g xs s = for_each f xs s"
proof (induction xs arbitrary: s)
  case (Cons x xs)
  then have "f x s \<noteq> Inl StillRunning" by (cases "f x s") auto
  then have same: "g x s = f x s" using assms unfolding agrees_def by blast
  with Cons show ?case by (cases "f x s") auto
qed simp

lemma pages_agree:
  "fuel \<le> fuel' \<Longrightarrow> remove_pages pr page remove fuel token st \<noteq> Inl StillRunning \<Longrightarrow>
     remove_pages pr page remove fuel' token st = remove_pages pr page remove fuel token st"
proof (induction fuel arbitrary: fuel' token st)
  case (Suc fuel)
  then obtain k where k: "fuel' = Suc k" "fuel \<le> k" by (cases fuel') auto
  show ?case
  proof (cases "checkReloadContext pr st")
    case (Inr st1)
    show ?thesis
    proof (cases "page token (fst st1)")
      case (Inr w)
      show ?thesis
      proof (cases "for_each remove (lw_Items w) st1")
        case (Inr st2)
        show ?thesis using Suc.prems(2) Suc.IH [OF k(2), of "Some (lw_NextPageToken w)" st2]
          by (cases "lw_NextPageToken w = [] \<or> lw_Items w = []")
            (auto simp add: k(1) \<open>checkReloadContext pr st = _\<close> \<open>page token (fst st1) = _\<close> Inr)
      qed (simp add: k(1) \<open>checkReloadContext pr st = _\<close> \<open>page token (fst st1) = _\<close>)
    qed (simp add: k(1) \<open>checkReloadContext pr st = _\<close>)
  qed (simp add: k(1))
qed simp

lemma runtime_agrees:
  assumes "fuel \<le> fuel'"
  shows "agrees (persist_runtime pr js sv fuel src) (persist_runtime pr js sv fuel' src)"
  unfolding agrees_def
proof (intro allI impI)
  fix r st assume run: "persist_runtime pr js sv fuel src r st \<noteq> Inl StillRunning"
  have inner: "try_bind x f' = try_bind x f" if "try_bind x f \<noteq> Inl StillRunning" "\<And>y. x = Inr y \<Longrightarrow> f y \<noteq> Inl StillRunning \<Longrightarrow> f' y = f y"
    for x :: "reload_error + 'u" and f f' :: "'u \<Rightarrow> reload_error + 'b \<times> nat"
    using that by (cases x) auto
  show "persist_runtime pr js sv fuel' src r st = persist_runtime pr js sv fuel src r st"
    using run unfolding persist_runtime_def
  proof (rule inner)
    fix st1 assume "(case buildServingRuntimeEntity js src r of Inl err \<Rightarrow> Inl (RuntimeNotBuilt (yr_Name r) err)
      | Inr e \<Rightarrow> try_bind (upsert_entity (rs_GetByName sv) (rs_Save sv) (runtime_name src r) e (fst st1)) (\<lambda>(saved, s).
          try_bind (for_each (persist_version pr js sv src (yr_Name r) (cm_ID saved)) (yr_Versions r) (s, snd st1)) (\<lambda>st.
          removeOrphanedVersions pr sv fuel (the (cm_ID saved)) (version_name src (yr_Name r) ` set (yr_Versions r)) st))) \<noteq> Inl StillRunning"
    then show "(case buildServingRuntimeEntity js src r of Inl err \<Rightarrow> Inl (RuntimeNotBuilt (yr_Name r) err)
      | Inr e \<Rightarrow> try_bind (upsert_entity (rs_GetByName sv) (rs_Save sv) (runtime_name src r) e (fst st1)) (\<lambda>(saved, s).
          try_bind (for_each (persist_version pr js sv src (yr_Name r) (cm_ID saved)) (yr_Versions r) (s, snd st1)) (\<lambda>st.
          removeOrphanedVersions pr sv fuel' (the (cm_ID saved)) (version_name src (yr_Name r) ` set (yr_Versions r)) st)))
      = (case buildServingRuntimeEntity js src r of Inl err \<Rightarrow> Inl (RuntimeNotBuilt (yr_Name r) err)
      | Inr e \<Rightarrow> try_bind (upsert_entity (rs_GetByName sv) (rs_Save sv) (runtime_name src r) e (fst st1)) (\<lambda>(saved, s).
          try_bind (for_each (persist_version pr js sv src (yr_Name r) (cm_ID saved)) (yr_Versions r) (s, snd st1)) (\<lambda>st.
          removeOrphanedVersions pr sv fuel (the (cm_ID saved)) (version_name src (yr_Name r) ` set (yr_Versions r)) st)))"
      unfolding removeOrphanedVersions_def
      by (auto split: sum.splits intro!: inner pages_agree [OF assms])
  qed
qed

lemma entries_agree:
  assumes "fuel \<le> fuel'" "persistEntries pr js sv fuel src rs st \<noteq> Inl StillRunning"
  shows "persistEntries pr js sv fuel' src rs st = persistEntries pr js sv fuel src rs st"
proof -
  let ?f = "for_each (persist_runtime pr js sv fuel src) rs st"
  have f: "?f \<noteq> Inl StillRunning" using assms(2) by (cases ?f) (auto simp: persistEntries_def)
  note same = for_each_agrees [OF runtime_agrees [OF assms(1)] f]
  show ?thesis
  proof (cases ?f)
    case (Inr st1)
    let ?g = "\<lambda>n. removeOrphanedRuntimes pr sv n src (runtime_name src ` set rs) st1"
    have "?g fuel \<noteq> Inl StillRunning" using assms(2) Inr by (cases "?g fuel") (auto simp: persistEntries_def)
    then have "?g fuel' = ?g fuel" unfolding removeOrphanedRuntimes_def by (rule pages_agree [OF assms(1)])
    with same Inr show ?thesis by (simp add: persistEntries_def)
  qed (use same in \<open>simp add: persistEntries_def\<close>)
qed

text \<open>
  C39. A reload ends: with more fuel than the database has rows, plus one for every family and version of the file, the
  loops over pages come to their end, and the result is the same for every larger fuel.
\<close>

theorem reload_terminates:
  assumes "read path = Inr rs" and "length (tb_rows s) + sum_list (map rows_of rs) < fuel" and "fuel \<le> fuel'"
  shows "fst (loadRuntimesFromYAML pr js (runtime_tables fmt parser (int (Suc t)) u now) transact commit fuel read src (Some path) s)
      \<noteq> Inl (ReloadFailed StillRunning)
    \<and> loadRuntimesFromYAML pr js (runtime_tables fmt parser (int (Suc t)) u now) transact commit fuel' read src (Some path) s
      = loadRuntimesFromYAML pr js (runtime_tables fmt parser (int (Suc t)) u now) transact commit fuel read src (Some path) s"
proof -
  let ?sv = "runtime_tables fmt parser (int (Suc t)) u now"
  have "row_count (fst (s, 1 :: nat)) + sum_list (map rows_of rs) < fuel" using assms(2) row_count_length [of s] by simp
  from runtime_loops.persistEntries_ends [OF this] have ends: "persistEntries pr js ?sv fuel src rs (s, 1) \<noteq> Inl StillRunning" .
  note same = entries_agree [OF assms(3) ends]
  have "fst (loadRuntimesFromYAML pr js ?sv transact commit fuel read src (Some path) s) \<noteq> Inl (ReloadFailed StillRunning)"
    using ends assms(1) by (auto simp: loadRuntimesFromYAML_def split: option.split sum.split prod.split)
  moreover have "loadRuntimesFromYAML pr js ?sv transact commit fuel' read src (Some path) s
      = loadRuntimesFromYAML pr js ?sv transact commit fuel read src (Some path) s"
    using same assms(1) by (simp add: loadRuntimesFromYAML_def split: option.split)
  ultimately show ?thesis by blast
qed

subsection \<open>Only as the leader\<close>

text \<open>
  One write of a repository, and one step of a reload: a look that finds the replica the leader and then at most one write. The
  state is the database and the number of the next look.
\<close>

definition one_write :: "'s runtime_services \<Rightarrow> 's \<Rightarrow> 's \<Rightarrow> bool" where
  "one_write sv a b \<longleftrightarrow>
     (\<exists>m r. rs_Save sv m a = (Inr r, b)) \<or> (\<exists>i. rs_DeleteByID sv i a = Inr b)
     \<or> (\<exists>m p r. rv_Save sv m p a = (Inr r, b)) \<or> (\<exists>i. rv_DeleteByID sv i a = Inr b) \<or> (\<exists>i. rv_DeleteByParentID sv i a = Inr b)"

definition guarded_step :: "'s probe \<Rightarrow> 's runtime_services \<Rightarrow> 's \<times> nat \<Rightarrow> 's \<times> nat \<Rightarrow> bool" where
  "guarded_step pr sv a b \<longleftrightarrow>
     snd (pr (snd a) (fst a)) \<and> snd b = Suc (snd a) \<and> (fst b = fst a \<or> one_write sv (fst a) (fst b))"

abbreviation guarded :: "'s probe \<Rightarrow> 's runtime_services \<Rightarrow> 's \<times> nat \<Rightarrow> 's \<times> nat \<Rightarrow> bool" where
  "guarded pr sv \<equiv> rtranclp (guarded_step pr sv)"

lemma check_look: "checkReloadContext pr a = Inr b \<Longrightarrow>
    fst b = fst a \<and> snd b = Suc (snd a) \<and> fst (pr (snd a) (fst a)) = None \<and> snd (pr (snd a) (fst a))"
  by (auto simp: checkReloadContext_def split: option.splits if_splits)

lemma should_look: "ShouldWriteDatabase pr a = Inr b \<Longrightarrow> fst b = fst a \<and> snd b = Suc (snd a) \<and> snd (pr (snd a) (fst a))"
  by (auto simp: ShouldWriteDatabase_def split: if_splits)

lemma check_guarded: "checkReloadContext pr a = Inr b \<Longrightarrow> guarded pr sv a b"
  using check_look [of pr a b] by (intro r_into_rtranclp) (simp add: guarded_step_def)

lemma write_guarded:
  assumes "checkReloadContext pr a = Inr (s, n) \<or> ShouldWriteDatabase pr a = Inr (s, n)" and "one_write sv s s'"
  shows "guarded pr sv a (s', n)"
  using assms check_look [of pr a "(s, n)"] should_look [of pr a "(s, n)"] by (intro r_into_rtranclp) (auto simp: guarded_step_def)

lemma for_each_guarded:
  assumes "\<forall>x a b. f x a = Inr b \<longrightarrow> guarded pr sv a b"
  shows "for_each f xs a = Inr b \<Longrightarrow> guarded pr sv a b"
proof (induction xs arbitrary: a)
  case (Cons x xs)
  then obtain c where "f x a = Inr c" "for_each f xs c = Inr b" by (auto simp: for_each_Cons_Inr simp del: for_each.simps)
  with Cons.IH assms show ?case using rtranclp_trans by fast
qed simp

lemma persist_version_guarded: "persist_version pr js sv src rn p v a = Inr b \<Longrightarrow> guarded pr sv a b"
proof -
  assume "persist_version pr js sv src rn p v a = Inr b"
  then obtain s n e saved s' where steps: "checkReloadContext pr a = Inr (s, n)"
      "upsert_entity (rv_GetByName sv) (\<lambda>e. rv_Save sv e p) (version_name src rn v) e s = Inr (saved, s')" "b = (s', n)"
    by (auto simp: persist_version_def try_bind_Inr_iff case_sum_Inr)
  have "one_write sv s s'" using upsert_entity_Inr [OF steps(2)] by (auto simp: one_write_def)
  with steps show ?thesis using write_guarded [of pr a s n] by simp
qed

lemma remove_version_guarded: "remove_version pr sv valid m a = Inr b \<Longrightarrow> guarded pr sv a b"
proof -
  assume run: "remove_version pr sv valid m a = Inr b"
  then obtain c where c: "checkReloadContext pr a = Inr c"
      "unwanted valid m = None \<and> b = c
       \<or> (\<exists>i s n s'. ShouldWriteDatabase pr c = Inr (s, n) \<and> rv_DeleteByID sv i s = Inr s' \<and> b = (s', n))"
    by (cases "unwanted valid m") (fastforce simp: remove_version_def try_bind_Inr_iff deleted_Inr)+
  from c(2) have "guarded pr sv c b"
  proof (elim disjE exE conjE)
    fix i s n s' assume w: "ShouldWriteDatabase pr c = Inr (s, n)" "rv_DeleteByID sv i s = Inr s'" "b = (s', n)"
    have "one_write sv s s'" using w(2) by (auto simp: one_write_def)
    with w show ?thesis using write_guarded [of pr c s n] by simp
  qed simp
  with check_guarded [OF c(1)] show ?thesis by (rule rtranclp_trans)
qed

lemma remove_runtime_guarded:
  assumes run: "remove_runtime pr sv valid m a = Inr b"
  shows "guarded pr sv a b"
proof (cases "unwanted valid m")
  case None
  then have "checkReloadContext pr a = Inr b" using run by (auto simp: remove_runtime_def try_bind_Inr_iff)
  then show ?thesis by (rule check_guarded)
next
  case (Some i)
  obtain c s n s1 s2 n2 s3 where steps: "checkReloadContext pr a = Inr c" "ShouldWriteDatabase pr c = Inr (s, n)"
      "rv_DeleteByParentID sv i s = Inr s1" "checkReloadContext pr (s1, n) = Inr (s2, n2)" "rs_DeleteByID sv i s2 = Inr s3" "b = (s3, n2)"
    using run Some by (auto simp: remove_runtime_def try_bind_Inr_iff deleted_Inr)
  have writes: "one_write sv s s1" "one_write sv s2 s3" using steps(3,5) by (auto simp: one_write_def)
  have "guarded pr sv c (s1, n)" using write_guarded [of pr c s n] steps(2) writes(1) by simp
  moreover have "guarded pr sv (s1, n) b" using write_guarded [of pr "(s1, n)" s2 n2] steps(4,6) writes(2) by simp
  ultimately show ?thesis using check_guarded [OF steps(1), of sv] by (meson rtranclp_trans)
qed

lemma pages_guarded:
  assumes each: "\<forall>m a b. remove m a = Inr b \<longrightarrow> guarded pr sv a b"
  shows "remove_pages pr page remove fuel token a = Inr b \<Longrightarrow> guarded pr sv a b"
proof (induction fuel arbitrary: token a)
  case (Suc fuel)
  obtain st1 w st2 where steps: "checkReloadContext pr a = Inr st1" "page token (fst st1) = Inr w" "for_each remove (lw_Items w) st1 = Inr st2"
      "(if lw_NextPageToken w = [] \<or> lw_Items w = [] then checkReloadContext pr st2
        else remove_pages pr page remove fuel (Some (lw_NextPageToken w)) st2) = Inr b"
    using Suc.prems by (rule remove_pages_SucE)
  have "guarded pr sv st2 b"
    using steps(4) Suc.IH check_guarded [of pr st2 b sv] by (auto split: if_splits)
  moreover have "guarded pr sv a st1" by (rule check_guarded [OF steps(1)])
  moreover have "guarded pr sv st1 st2" by (rule for_each_guarded [OF each steps(3)])
  ultimately show ?case by (meson rtranclp_trans)
qed simp

lemma persist_runtime_guarded: "persist_runtime pr js sv fuel src r a = Inr b \<Longrightarrow> guarded pr sv a b"
proof -
  assume "persist_runtime pr js sv fuel src r a = Inr b"
  then obtain s n e saved s1 d where steps: "checkReloadContext pr a = Inr (s, n)"
      "upsert_entity (rs_GetByName sv) (rs_Save sv) (runtime_name src r) e s = Inr (saved, s1)"
      "for_each (persist_version pr js sv src (yr_Name r) (cm_ID saved)) (yr_Versions r) (s1, n) = Inr d"
      "removeOrphanedVersions pr sv fuel (the (cm_ID saved)) (version_name src (yr_Name r) ` set (yr_Versions r)) d = Inr b"
    by (auto simp: persist_runtime_def try_bind_Inr_iff case_sum_Inr)
  have "one_write sv s s1" using upsert_entity_Inr [OF steps(2)] by (auto simp: one_write_def)
  with steps(1) have "guarded pr sv a (s1, n)" using write_guarded [of pr a s n] by simp
  moreover have "guarded pr sv (s1, n) d"
    by (rule for_each_guarded [OF _ steps(3)]) (use persist_version_guarded in blast)
  moreover have "guarded pr sv d b"
    by (rule pages_guarded [OF _ steps(4) [unfolded removeOrphanedVersions_def]]) (use remove_version_guarded in blast)
  ultimately show ?thesis by (meson rtranclp_trans)
qed

lemma persistEntries_guarded:
  assumes "persistEntries pr js sv fuel src rs a = Inr b"
  shows "\<exists>k. snd b = Suc k \<and> guarded pr sv a (fst b, k) \<and> fst (pr k (fst b)) = None \<and> snd (pr k (fst b))"
proof -
  obtain c d where steps: "for_each (persist_runtime pr js sv fuel src) rs a = Inr c"
      "removeOrphanedRuntimes pr sv fuel src (runtime_name src ` set rs) c = Inr d" "checkReloadContext pr d = Inr b"
    using assms by (auto simp: persistEntries_def try_bind_Inr_iff)
  have "guarded pr sv a c" by (rule for_each_guarded [OF _ steps(1)]) (use persist_runtime_guarded in blast)
  moreover have "guarded pr sv c d"
    by (rule pages_guarded [OF _ steps(2) [unfolded removeOrphanedRuntimes_def]]) (use remove_runtime_guarded in blast)
  ultimately have "guarded pr sv a d" by (rule rtranclp_trans)
  with check_look [OF steps(3)] show ?thesis by (cases d) auto
qed

text \<open>
  C24. A reload writes only as the leader. What it commits has come from the database it was started on by steps of a look and
  at most one write of a repository, and each of these looks found the replica the leader: no write goes without a look of its own
  directly before it, whatever the environment does in between. The last look of all comes after the last write: it saw the
  very database that is committed, and found the replica the leader and the context alive, as the first found the context.
\<close>

theorem reload_writes_as_leader:
  assumes "loadRuntimesFromYAML pr js sv transact commit fuel read src path s = (Inr u, s')"
  shows "commit s' = None \<and> fst (pr 0 s) = None
    \<and> (\<exists>rs k. read (the path) = Inr rs \<and> persistEntries pr js sv fuel src rs (s, 1) = Inr (s', Suc k)
        \<and> guarded pr sv (s, 1) (s', k) \<and> fst (pr k s') = None \<and> snd (pr k s'))"
proof -
  obtain rs n where run: "fst (pr 0 s) = None" "read (the path) = Inr rs" "commit s' = None"
      "persistEntries pr js sv fuel src rs (s, 1) = Inr (s', n)"
    using assms by (auto simp: loadRuntimesFromYAML_def split: option.splits sum.splits prod.splits if_splits)
  with persistEntries_guarded [OF run(4)] show ?thesis by auto
qed

subsection \<open>What is served\<close>

lemma built_keys:
  assumes "distinct (map sp_Name own)" "\<forall>cs. custom = Some cs \<longrightarrow> distinct (map sp_Name cs)"
  shows "distinct (map prop_key (built_rows own custom i))"
proof -
  have keys: "map prop_key (map (\<lambda>p. MapPropertiesToContextProperty p i b) ps) = map (\<lambda>n. (i, n, b)) (map sp_Name ps)" for ps b
    by (simp add: prop_key_def MapPropertiesToContextProperty_def comp_def)
  have "distinct (map (\<lambda>n. (i, n, b)) ns) = distinct ns" for ns :: "string list" and b :: bool by (simp add: distinct_map inj_on_def)
  then show ?thesis using assms by (cases custom) (auto simp: built_rows_def keys simp del: map_map)
qed

lemma custom_columns:
  assumes "try_map (\<lambda>(key, w). servingRuntimeCustomProperty js key (ym_Value w)) m = Inr cs"
  shows "map sp_Name cs = map fst m" and "\<forall>p \<in> set cs. sp_IsCustom p"
    and "map_option map_custom_property (column cs key) = map_option (\<lambda>w. served_metadata js (ym_Value w)) (map_of m key)"
  using assms
proof (induction m arbitrary: cs)
  case (Cons a m)
  obtain k w where a: "a = (k, w)" by (cases a)
  { case 1 then show ?case using Cons.IH(1) custom_served by (fastforce simp: a split: sum.splits) }
  { case 2 then show ?case using Cons.IH(2) custom_served by (fastforce simp: a split: sum.splits) }
  { case 3 then show ?case using Cons.IH(3) custom_served by (fastforce simp: a split: sum.splits) }
qed simp_all

lemma read_properties:
  assumes ps: "distinct ps" "set ps = set (built_rows own custom i)" "distinct (map prop_key (built_rows own custom i))"
    and flags: "\<forall>p \<in> set own. \<not> sp_IsCustom p" "\<forall>cs. custom = Some cs \<longrightarrow> (\<forall>p \<in> set cs. sp_IsCustom p)"
  shows "set (map MapContextPropertyToProperties (filter (\<lambda>p. \<not> sp_IsCustom p) ps)) = set own"
    and "set (map MapContextPropertyToProperties (filter sp_IsCustom ps)) = set (case custom of None \<Rightarrow> [] | Some cs \<Rightarrow> cs)"
    and "distinct (map sp_Name (map MapContextPropertyToProperties (filter (\<lambda>p. \<not> sp_IsCustom p) ps)))"
    and "distinct (map sp_Name (map MapContextPropertyToProperties (filter sp_IsCustom ps)))"
proof -
  have undo: "MapContextPropertyToProperties (MapPropertiesToContextProperty p i b) = p\<lparr>sp_IsCustom := b\<rparr>" for p b
    by (cases p) (simp add: MapContextPropertyToProperties_def MapPropertiesToContextProperty_def)
  have flag: "sp_IsCustom (MapPropertiesToContextProperty p i b) = b" for p b by (simp add: MapPropertiesToContextProperty_def)
  have same: "p\<lparr>sp_IsCustom := b\<rparr> = p" if "sp_IsCustom p = b" for p :: stored_property and b using that by (cases p) simp
  show "set (map MapContextPropertyToProperties (filter (\<lambda>p. \<not> sp_IsCustom p) ps)) = set own"
  proof -
    have "{p \<in> set (built_rows own custom i). \<not> sp_IsCustom p} = (\<lambda>p. MapPropertiesToContextProperty p i False) ` set own"
      by (auto simp: built_rows_def flag split: option.splits)
    then have "set (map MapContextPropertyToProperties (filter (\<lambda>p. \<not> sp_IsCustom p) ps)) = (\<lambda>p. p\<lparr>sp_IsCustom := False\<rparr>) ` set own"
      by (simp add: ps(2) image_image undo)
    also have "\<dots> = set own" using flags(1) by (auto simp: same image_iff)
    finally show ?thesis .
  qed
  show "set (map MapContextPropertyToProperties (filter sp_IsCustom ps)) = set (case custom of None \<Rightarrow> [] | Some cs \<Rightarrow> cs)"
  proof -
    let ?cs = "case custom of None \<Rightarrow> [] | Some cs \<Rightarrow> cs"
    have "{p \<in> set (built_rows own custom i). sp_IsCustom p} = (\<lambda>p. MapPropertiesToContextProperty p i True) ` set ?cs"
      by (auto simp: built_rows_def flag split: option.splits)
    then have "set (map MapContextPropertyToProperties (filter sp_IsCustom ps)) = (\<lambda>p. p\<lparr>sp_IsCustom := True\<rparr>) ` set ?cs"
      by (simp add: ps(2) image_image undo)
    also have "\<dots> = set ?cs" using flags(2) by (cases custom) (auto simp: same image_iff)
    finally show ?thesis .
  qed
  have ids: "pr_EntityID p = i" if "p \<in> set ps" for p
    using that by (auto simp: ps(2) built_rows_def MapPropertiesToContextProperty_def split: option.splits)
  have names: "distinct (map sp_Name (map MapContextPropertyToProperties (filter P ps)))" if P: "\<And>p. P p \<longleftrightarrow> sp_IsCustom p = b" for P b
  proof -
    have "inj_on sp_Name (set (filter P ps))"
    proof (rule inj_onI)
      fix p q assume "p \<in> set (filter P ps)" "q \<in> set (filter P ps)" "sp_Name p = sp_Name q"
      then have "prop_key p = prop_key q" "p \<in> set (built_rows own custom i)" "q \<in> set (built_rows own custom i)"
        using ids P by (auto simp: prop_key_def ps(2) [symmetric])
      with ps(3) show "p = q" by (auto simp: distinct_map dest: inj_onD)
    qed
    moreover have "map sp_Name (map MapContextPropertyToProperties xs) = map sp_Name xs" for xs
      by (simp add: MapContextPropertyToProperties_def)
    ultimately show ?thesis using ps(1) by (simp add: distinct_map del: map_map)
  qed
  show "distinct (map sp_Name (map MapContextPropertyToProperties (filter (\<lambda>p. \<not> sp_IsCustom p) ps)))" by (rule names [of _ False]) simp
  show "distinct (map sp_Name (map MapContextPropertyToProperties (filter sp_IsCustom ps)))" by (rule names [of _ True]) simp
qed

text \<open>The families of a file, as the parsers of JSON and of YAML leave them.\<close>

definition readable :: "runtime_json \<Rightarrow> serving_runtime \<Rightarrow> bool" where
  "readable js r \<longleftrightarrow> reads_back js r \<and> (\<forall>m. yr_CustomProperties r = Some m \<longrightarrow> distinct (map fst m))"

lemma kept_read:
  fixes parse :: "string \<Rightarrow> 't option"
  assumes kept: "runtime_kept js src r old v" and v: "runtime_entry T s i = Some v" "row_name v = runtime_name src r"
    and ok: "readable js r" "CHR '':'' \<notin> set src"
  defines "m \<equiv> mapSchemaToServingRuntime (fst v) (table_read ContextTable i (\<lambda>_. True) s)"
  shows "GetByID (catalog_tables answer) (serving_runtime_repo fmt pg_quote T) i s = Inr m"
    and "\<exists>api. mapDBServingRuntimeToAPI js parse m = Inr api \<and> ab_Name api = Some (yr_Name r) \<and> ab_Id api = Some (itoa i)
      \<and> (\<forall>x. yr_ExternalID r = Some x \<longrightarrow> ab_ExternalId api = Some x) \<and> runtime_served js parse src r api"
proof -
  note row = entry_Some [OF v(1)]
  show "GetByID (catalog_tables answer) (serving_runtime_repo fmt pg_quote T) i s = Inr m"
    using row by (simp add: GetByID_def serving_runtime_repo_def catalog_tables_def table_ops_def get_row_def wrap_def m_def)
  obtain e where e: "buildServingRuntimeEntity js src r = Inr e"
      "snd v = (\<lambda>key. sent_props (mapServingRuntimeToProperties e i) (i, key))"
    using kept row by (auto simp: runtime_kept_def)
  show "\<exists>api. mapDBServingRuntimeToAPI js parse m = Inr api \<and> ab_Name api = Some (yr_Name r) \<and> ab_Id api = Some (itoa i)
      \<and> (\<forall>x. yr_ExternalID r = Some x \<longrightarrow> ab_ExternalId api = Some x) \<and> runtime_served js parse src r api"
  proof (rule built_runtime [OF e(1)])
    fix own custom
    assume own: "gather (runtime_additions js src r) = Inr own"
      and custom: "case yr_CustomProperties r of None \<Rightarrow> custom = None
        | Some m \<Rightarrow> \<exists>cs. custom = Some cs \<and> try_map (\<lambda>(key, w). servingRuntimeCustomProperty js key (ym_Value w)) m = Inr cs"
      and ent: "e = \<lparr>cm_ID = None, cm_TypeID = None,
         cm_Attributes = Some \<lparr>ca_Name = Some (runtime_name src r), ca_ExternalID = yr_ExternalID r, ca_CreateTime = None, ca_LastUpdateTime = None\<rparr>,
         cm_Properties = Some own, cm_Custom = custom\<rparr>"
    let ?ps = "table_read ContextTable i (\<lambda>_. True) s" let ?cs = "case custom of None \<Rightarrow> [] | Some cs \<Rightarrow> cs"
    have rows: "mapServingRuntimeToProperties e i = built_rows own custom i" by (simp add: mapServingRuntimeToProperties_def built_rows_def ent)
    have rights: "own = rights (runtime_additions js src r)" using own by (simp add: gather_Inr)
    have cs: "distinct (map sp_Name ?cs)" "\<forall>p \<in> set ?cs. sp_IsCustom p"
        "map_option map_custom_property (column ?cs key)
          = map_option (\<lambda>w. served_metadata js (ym_Value w)) (Option.bind (yr_CustomProperties r) (\<lambda>m. map_of m key))" for key
    proof -
      have "distinct (map sp_Name ?cs) \<and> (\<forall>p \<in> set ?cs. sp_IsCustom p) \<and> map_option map_custom_property (column ?cs key)
          = map_option (\<lambda>w. served_metadata js (ym_Value w)) (Option.bind (yr_CustomProperties r) (\<lambda>m. map_of m key))"
      proof (cases "yr_CustomProperties r")
        case (Some m)
        then obtain cs where cs: "custom = Some cs" "try_map (\<lambda>(key, w). servingRuntimeCustomProperty js key (ym_Value w)) m = Inr cs"
          using custom by auto
        have "distinct (map fst m)" using ok(1) Some by (simp add: readable_def)
        with custom_columns [OF cs(2)] show ?thesis by (simp add: cs(1) Some)
      qed (use custom in simp)
      then show "distinct (map sp_Name ?cs)" "\<forall>p \<in> set ?cs. sp_IsCustom p"
          "map_option map_custom_property (column ?cs key)
          = map_option (\<lambda>w. served_metadata js (ym_Value w)) (Option.bind (yr_CustomProperties r) (\<lambda>m. map_of m key))"
        by blast+
    qed
    have keys: "distinct (map prop_key (built_rows own custom i))"
      by (rule built_keys) (use runtime_names cs(1) rights in auto)
    have "table_prop s ContextTable (i, key) = sent_props (built_rows own custom i) (i, key)" for key
      using row e(2) rows by metis
    then have "set ?ps = {p. sent_props (built_rows own custom i) (prop_key p) = Some p \<and> pr_EntityID p = i}"
      by (auto simp: table_read_set prop_key_def)
    also have "\<dots> = set (built_rows own custom i)"
      by (auto simp: sent_distinct [OF keys]) (auto simp: built_rows_def MapPropertiesToContextProperty_def split: option.splits)
    finally have set: "set ?ps = set (built_rows own custom i)" .
    have dist: "distinct ?ps" by (simp add: table_read_def)
    have flags: "\<forall>p \<in> set own. \<not> sp_IsCustom p" "\<forall>cs. custom = Some cs \<longrightarrow> (\<forall>p \<in> set cs. sp_IsCustom p)"
      using additions_regular [of js src r] cs(2) rights by auto
    note read = read_properties [OF dist set keys flags]
    have m: "cm_Properties m = Some (map MapContextPropertyToProperties (filter (\<lambda>p. \<not> sp_IsCustom p) ?ps))"
        "cm_Custom m = Some (map MapContextPropertyToProperties (filter sp_IsCustom ?ps))"
      by (simp_all add: m_def mapSchemaToServingRuntime_def)
    have columns: "map_option map_custom_property (column (map MapContextPropertyToProperties (filter sp_IsCustom ?ps)) key)
        = map_option (\<lambda>w. served_metadata js (ym_Value w)) (Option.bind (yr_CustomProperties r) (\<lambda>m. map_of m key))" for key
      using column_same [OF read(4) cs(1) read(2)] cs(3) by simp
    have rb: "reads_back js r" using ok(1) by (simp add: readable_def)
    have "\<exists>api. mapDBServingRuntimeToAPI js parse m = Inr api \<and> runtime_base.truncate api = base_of m \<and> runtime_served js parse src r api"
      by (rule runtime_reads [OF own rb m(1) read(1) read(3) m(2) read(4) columns])
    then obtain api where api: "mapDBServingRuntimeToAPI js parse m = Inr api" "runtime_base.truncate api = base_of m"
        "runtime_served js parse src r api" by blast
    have base: "ab_Name (base_of m) = Some (yr_Name r)" "ab_Id (base_of m) = Some (itoa i)"
      using row v(2) ok(2) by (simp_all add: base_of_def Let_def m_def mapSchemaToServingRuntime_def unqualifiedName_def runtime_name_def cut_at_append)
    have ext: "ab_ExternalId (base_of m) = Some x" if "yr_ExternalID r = Some x" for x
    proof -
      have "external_id_of (fst v) = Some x" using kept that by (auto simp: runtime_kept_def)
      then show ?thesis by (simp add: base_of_def Let_def m_def mapSchemaToServingRuntime_def)
    qed
    have "ab_Name api = ab_Name (runtime_base.truncate api)" "ab_Id api = ab_Id (runtime_base.truncate api)"
        "ab_ExternalId api = ab_ExternalId (runtime_base.truncate api)"
      by (simp_all add: runtime_base.defs)
    with base ext api show ?thesis by auto
  qed
qed


subsection \<open>A reload on an example\<close>

text \<open>
  The source \<open>src\<close> has the runtime \<open>old\<close> in the database; its file has \<open>vllm\<close> with a version, a tag and a property. A
  list is encoded as the text of its only element.
\<close>

definition demo_json :: runtime_json where
  "demo_json = \<lparr>js_Env = (\<lambda>x. Inr []), js_ReadEnv = (\<lambda>t. Inr []), js_Strings = (\<lambda>xs. Inr (concat xs)), js_ReadStrings = (\<lambda>t. Inr [t]),
     js_Formats = (\<lambda>x. Inr []), js_ReadFormats = (\<lambda>t. Inr []), js_Capabilities = (\<lambda>x. Inl []), js_ReadCapabilities = (\<lambda>t. Inl []),
     js_Resources = (\<lambda>x. Inl []), js_ReadResources = (\<lambda>t. Inl []), js_Metadata = (\<lambda>x. Inl [])\<rparr>"

definition demo_version :: runtime_version where
  "demo_version = \<lparr>yv_Version = ''1'', yv_Image = ''quay.io/vllm:1'', yv_SupportLevel = None, yv_MinimumRHOAIVersion = None,
     yv_SupportedModelFormats = [], yv_ProtocolVersions = [], yv_RecommendedResources = None, yv_DefaultArgs = [], yv_Env = [],
     yv_ServingRuntimeTemplate = None, yv_LlmInferenceServiceConfig = None, yv_Deprecated = None, yv_PublishedDate = None, yv_ExternalID = None\<rparr>"

definition demo_runtime :: serving_runtime where
  "demo_runtime = \<lparr>yr_Name = ''vllm'', yr_DisplayName = Some ''vLLM'', yr_Provider = None, yr_Description = None, yr_Readme = None, yr_Logo = None,
     yr_Tags = [''llm''], yr_License = None, yr_LicenseLink = None, yr_DocumentationURL = None, yr_RepositoryURL = None,
     yr_SupportedModelFormats = [], yr_Capabilities = None, yr_PublishedDate = None, yr_LastUpdated = None, yr_ExternalID = Some ''x'',
     yr_CustomProperties = Some [(''team'', \<lparr>ym_Value = \<lparr>cmv_String = Some ''a'', cmv_Bool = None, cmv_Int = None, cmv_Double = None,
        cmv_Proto = None, cmv_Struct = None\<rparr>, ym_Problem = []\<rparr>)],
     yr_Versions = [demo_version]\<rparr>"

definition demo_start :: tables where
  "demo_start = \<lparr>tb_rows = [Context \<lparr>cr_ID = 7, cr_TypeID = 1, cr_Name = ''src:old'', cr_ExternalID = None, cr_CreateTime = 1, cr_LastUpdateTime = 1\<rparr>],
     tb_props = [(ContextTable, MapPropertiesToContextProperty (NewStringProperty ''source_id'' ''src'' False) 7 False)], tb_links = []\<rparr>"

definition demo_load :: "nat \<Rightarrow> (load_failure + unit) \<times> tables" where
  "demo_load fuel = loadRuntimesFromYAML (\<lambda>n s. (None, True)) demo_json (runtime_tables (\<lambda>f. []) (\<lambda>q. Inl []) (int (Suc 0)) 2 9) True (\<lambda>s. None) fuel
     (\<lambda>path. Inr [demo_runtime]) ''src'' (Some ''f'') demo_start"

lemma demo_evaluates:
  "case demo_load 5 of (Inr x, s) \<Rightarrow> \<forall>e \<in> set (tb_rows s). int32_range (getEntityID e) | (Inl err, s) \<Rightarrow> False"
  by code_simp

lemma demo_loads: "demo_load 5 = (Inr (), snd (demo_load 5)) \<and> (\<forall>e \<in> set (tb_rows (snd (demo_load 5))). int32_range (getEntityID e))"
  using demo_evaluates by (auto split: prod.splits sum.splits)

lemma demo_readable: "readable demo_json demo_runtime"
  by (simp add: readable_def reads_back_def demo_json_def demo_runtime_def)

theorem reload_terminates_witness:
  "fst (demo_load 5) \<noteq> Inl (ReloadFailed StillRunning) \<and> demo_load 1000 = demo_load 5"
  unfolding demo_load_def
  by (rule reload_terminates) (auto simp: demo_start_def rows_of_def demo_runtime_def)

theorem reload_writes_as_leader_witness:
  "\<exists>k. guarded (\<lambda>n s. (None, True)) (runtime_tables (\<lambda>f. []) (\<lambda>q. Inl []) (int (Suc 0)) 2 9) (demo_start, 1) (snd (demo_load 5), k)"
proof -
  have load: "loadRuntimesFromYAML (\<lambda>n s. (None, True)) demo_json (runtime_tables (\<lambda>f. []) (\<lambda>q. Inl []) (int (Suc 0)) 2 9) True (\<lambda>s. None) 5
      (\<lambda>path. Inr [demo_runtime]) ''src'' (Some ''f'') demo_start = (Inr (), snd (demo_load 5))"
    using demo_loads unfolding demo_load_def by blast
  show ?thesis using reload_writes_as_leader [OF load] by blast
qed


text \<open>
  An external id that is taken out of the file stays in the database and is served on, while every other property
  that is taken out goes: \<open>Updates\<close> with a struct writes no column that is nil.
\<close>

lemma external_id_stays:
  assumes "table_of e = ContextTable" "table_of r = ContextTable" "external_id_of e = None"
  shows "external_id_of (updates getNonUpdatableFields e r) = external_id_of r"
  using updated_row(3) [OF assms(1,2)] assms(3) by simp

end
