(* ===== verification/Api_Pagination.thy ===== *)
theory Api_Pagination
  imports Pagination
begin

text \<open>
  Paging of the catalog's API layer (\<open>catalog/internal/server/openapi/v1/pagination.go\<close> and
  \<open>order_by.go\<close>): the validation of \<open>pageSize\<close>, \<open>nextPageToken\<close> and \<open>orderBy\<close>, and the paginator
  that cuts a sorted list in memory into pages with tokens \<open>skip:value:id\<close>.

  An item is any type with the method \<open>SortValue\<close>; the model passes that method as the argument
  \<open>sv\<close>. The lemmas show that following the tokens from the first page returns every item exactly
  once, in order, duplicates of name and id included, and where that fails.
\<close>

subsection \<open>Parameters\<close>

definition defaultPageSize :: int where "defaultPageSize = 10"

datatype page_error =
    PageSizeSyntax num_error
  | PageSizeTooSmall int
  | InvalidNextPageToken
  | UnsupportedOrderBy string
  | UnsupportedSortOrder string

definition parsePageSize :: "string \<Rightarrow> page_error + int" where
  "parsePageSize pageSize =
     (if pageSize = [] then Inr defaultPageSize
      else case parse_int 32 pageSize of
             Inl e \<Rightarrow> Inl (PageSizeSyntax e)
           | Inr parsed \<Rightarrow> if parsed < 1 then Inl (PageSizeTooSmall parsed) else Inr (to_int32 parsed))"

definition parsePaginationParams :: "string \<Rightarrow> string \<Rightarrow> page_error + int" where
  "parsePaginationParams pageSize nextPageToken =
     (case parsePageSize pageSize of
        Inl e \<Rightarrow> Inl e
      | Inr n \<Rightarrow>
          if nextPageToken \<noteq> [] then
            (case DecodeCursor nextPageToken of
               Inl e \<Rightarrow> Inl InvalidNextPageToken
             | Inr c \<Rightarrow> Inr n)
          else Inr n)"

definition validateRecommendedNextPageToken :: "string \<Rightarrow> page_error option" where
  "validateRecommendedNextPageToken nextPageToken =
     (if nextPageToken = [] then None
      else case parse_uint 31 nextPageToken of
             Inl e \<Rightarrow> Some InvalidNextPageToken
           | Inr n \<Rightarrow> None)"

definition AllowedOrderByFieldEnumValues :: "string list" where
  "AllowedOrderByFieldEnumValues =
     [''CREATE_TIME'', ''LAST_UPDATE_TIME'', ''ID'', ''NAME'', ''RECOMMENDED'']"

definition OrderByField_IsValid :: "string \<Rightarrow> bool" where
  "OrderByField_IsValid v = list_ex (\<lambda>existing. existing = v) AllowedOrderByFieldEnumValues"

definition AllowedSortOrderEnumValues :: "string list" where
  "AllowedSortOrderEnumValues = [''ASC'', ''DESC'']"

definition SortOrder_IsValid :: "string \<Rightarrow> bool" where
  "SortOrder_IsValid v = list_ex (\<lambda>existing. existing = v) AllowedSortOrderEnumValues"

subsection \<open>The page cursor\<close>

record string_cursor =
  sc_Value :: string
  sc_ID :: string
  sc_Skip :: nat

definition cursor_String :: "string_cursor \<Rightarrow> string" where
  "cursor_String c = b64_encode (itoa (int (sc_Skip c)) @ '':'' @ sc_Value c @ '':'' @ sc_ID c)"

datatype token_error = TokenEncoding | TokenFormat

text \<open>\<open>strings.SplitN(s, ":", 3)\<close> when it gives three parts.\<close>

definition split3 :: "string \<Rightarrow> (string \<times> string \<times> string) option" where
  "split3 s = (case cut_at (CHR '':'') s of None \<Rightarrow> None
     | Some (a, r) \<Rightarrow> (case cut_at (CHR '':'') r of None \<Rightarrow> None | Some (b, c) \<Rightarrow> Some (a, b, c)))"

definition decodeStringCursor :: "string \<Rightarrow> token_error + string_cursor" where
  "decodeStringCursor encoded =
     (case b64_decode encoded of
        None \<Rightarrow> Inl TokenEncoding
      | Some decoded \<Rightarrow>
          (let legacy = (case cut_at (CHR '':'') decoded of
                           None \<Rightarrow> Inl TokenFormat
                         | Some (a, b) \<Rightarrow> Inr \<lparr>sc_Value = a, sc_ID = b, sc_Skip = 0\<rparr>)
           in case split3 decoded of
                None \<Rightarrow> legacy
              | Some (p0, p1, p2) \<Rightarrow>
                  (case parse_int 64 p0 of
                     Inl e \<Rightarrow> legacy
                   | Inr skip \<Rightarrow>
                       if skip \<ge> 0 then Inr \<lparr>sc_Value = p1, sc_ID = p2, sc_Skip = nat skip\<rparr>
                       else legacy)))"

definition cursor_matches :: "('a \<Rightarrow> string \<Rightarrow> string) \<Rightarrow> string_cursor \<Rightarrow> string \<Rightarrow> 'a \<Rightarrow> bool" where
  "cursor_matches sv c orderBy item =
     (let i = sv item ''ID'' in i \<noteq> [] \<and> i = sc_ID c \<and> sv item orderBy = sc_Value c)"

subsection \<open>The paginator\<close>

record paginator =
  pn_PageSize :: int
  pn_OrderBy :: string
  pn_SortOrder :: string
  pn_cursor :: "string_cursor option"

definition newPaginator :: "string \<Rightarrow> string \<Rightarrow> string \<Rightarrow> string \<Rightarrow> page_error + paginator" where
  "newPaginator pageSize orderBy sortOrder nextPageToken =
     (if orderBy \<noteq> [] \<and> \<not> OrderByField_IsValid orderBy then Inl (UnsupportedOrderBy orderBy)
      else if sortOrder \<noteq> [] \<and> \<not> SortOrder_IsValid sortOrder then Inl (UnsupportedSortOrder sortOrder)
      else
        (let p = \<lparr>pn_PageSize = defaultPageSize, pn_OrderBy = orderBy, pn_SortOrder = sortOrder,
                  pn_cursor = None\<rparr>;
             sized = (if pageSize \<noteq> [] then
                        (case parse_int 32 pageSize of
                           Inl e \<Rightarrow> Inl (PageSizeSyntax e)
                         | Inr n \<Rightarrow> if n < 1 then Inl (PageSizeTooSmall n)
                                    else Inr (p\<lparr>pn_PageSize := to_int32 n\<rparr>))
                      else Inr p)
         in case sized of
              Inl e \<Rightarrow> Inl e
            | Inr p1 \<Rightarrow>
                if nextPageToken \<noteq> [] then
                  (case decodeStringCursor nextPageToken of
                     Inl e \<Rightarrow> Inl InvalidNextPageToken
                   | Inr c \<Rightarrow> Inr (p1\<lparr>pn_cursor := Some c\<rparr>))
                else Inr p1))"

text \<open>\<open>Token()\<close>; the receiver may be nil.\<close>

definition Token :: "paginator option \<Rightarrow> string" where
  "Token p = (case p of None \<Rightarrow> [] | Some q \<Rightarrow> (case pn_cursor q of None \<Rightarrow> [] | Some c \<Rightarrow> cursor_String c))"

text \<open>
  The loop that looks for the item the cursor points at: \<open>i\<close> is the index of the next item,
  \<open>seen\<close> the matching items passed. The result is the start index, 0 when the loop ends without
  finding it.
\<close>

fun find_start :: "('a \<Rightarrow> bool) \<Rightarrow> nat \<Rightarrow> nat \<Rightarrow> nat \<Rightarrow> 'a list \<Rightarrow> nat" where
  "find_start m skip i seen [] = 0"
| "find_start m skip i seen (x # xs) =
     (if \<not> m x then find_start m skip (i + 1) seen xs
      else if seen = skip then i + 1
      else find_start m skip (i + 1) (seen + 1) xs)"

definition paginate_items ::
  "('a \<Rightarrow> string \<Rightarrow> string) \<Rightarrow> paginator \<Rightarrow> 'a list \<Rightarrow> 'a list \<times> paginator option" where
  "paginate_items sv p items =
     (let startIndex = (case pn_cursor p of None \<Rightarrow> 0
            | Some c \<Rightarrow> find_start (cursor_matches sv c (pn_OrderBy p)) (sc_Skip c) 0 0 items)
      in if startIndex \<ge> length items then ([], None)
         else
           (let endIndex = min (startIndex + nat (pn_PageSize p)) (length items);
                pagedItems = take (endIndex - startIndex) (drop startIndex items)
            in if endIndex < length items then
                 (let lastItem = last pagedItems;
                      lastItemID = sv lastItem ''ID''
                  in if lastItemID \<noteq> [] then
                       (let c0 = \<lparr>sc_Value = sv lastItem (pn_OrderBy p), sc_ID = lastItemID, sc_Skip = 0\<rparr>;
                            skip = length (filter (cursor_matches sv c0 (pn_OrderBy p)) (take (endIndex - 1) items))
                        in (pagedItems, Some (p\<lparr>pn_cursor := Some (c0\<lparr>sc_Skip := skip\<rparr>)\<rparr>)))
                     else (pagedItems, None))
               else (pagedItems, None)))"

subsection \<open>orderBy validation\<close>

definition propertyValueColumns :: "string list" where
  "propertyValueColumns = [''int_value'', ''double_value'', ''string_value'']"

record order_by_spec =
  ob_fields :: "string list"
  ob_customProperty :: bool
  ob_artifactProperty :: bool
  ob_caseInsensitive :: bool

definition enumOrderByFields :: "string list" where
  "enumOrderByFields = [''ID'', ''CREATE_TIME'', ''LAST_UPDATE_TIME'', ''NAME'', ''RECOMMENDED'']"

definition modelOrderBy :: order_by_spec where
  "modelOrderBy = \<lparr>ob_fields = enumOrderByFields @ [''ACCURACY''], ob_customProperty = True,
     ob_artifactProperty = True, ob_caseInsensitive = False\<rparr>"

definition enumOrderBy :: order_by_spec where
  "enumOrderBy = \<lparr>ob_fields = enumOrderByFields, ob_customProperty = False,
     ob_artifactProperty = False, ob_caseInsensitive = False\<rparr>"

definition caseInsensitiveOrderBy :: order_by_spec where
  "caseInsensitiveOrderBy = \<lparr>ob_fields = enumOrderByFields, ob_customProperty = False,
     ob_artifactProperty = False, ob_caseInsensitive = True\<rparr>"

definition validPropertyOrder :: "string \<Rightarrow> string \<Rightarrow> bool" where
  "validPropertyOrder prop valueColumn =
     (if prop = [] \<or> length prop > 255 then False
      else list_ex (\<lambda>c. c = valueColumn) propertyValueColumns)"

text \<open>\<open>validate\<close>: \<open>None\<close> for a nil error, otherwise the rejected value (an \<open>ErrBadRequest\<close>).\<close>

definition orderBy_validate :: "order_by_spec \<Rightarrow> string \<Rightarrow> page_error option" where
  "orderBy_validate s orderBy =
     (if orderBy = [] then None
      else
        (let candidate = (if ob_caseInsensitive s then to_upper orderBy else orderBy);
             parts = split_char (CHR ''.'') orderBy
         in if list_ex (\<lambda>f. candidate = f) (ob_fields s) then None
            else if ob_customProperty s \<and> length parts = 2 \<and> validPropertyOrder (parts ! 0) (parts ! 1)
              then None
            else if ob_artifactProperty s \<and> length parts = 3 \<and> parts ! 0 = ''artifacts''
                \<and> validPropertyOrder (parts ! 1) (parts ! 2) then None
            else Some (UnsupportedOrderBy orderBy)))"

subsection \<open>Page sizes\<close>

lemma parsePageSize_positive:
  assumes "parsePageSize s = Inr n"
  shows "1 \<le> n \<and> int32_range n"
proof (cases "s = []")
  case True
  with assms show ?thesis by (simp add: parsePageSize_def defaultPageSize_def int32_range_def)
next
  case False
  then obtain m where m: "parse_int 32 s = Inr m" "\<not> m < 1" "n = to_int32 m"
    using assms by (auto simp: parsePageSize_def split: sum.splits if_splits)
  have "int32_range m" using parse_int_range [OF m(1)] by (simp add: int32_range_def)
  with m show ?thesis by simp
qed

lemma newPaginator_positive:
  assumes "newPaginator ps ob so tok = Inr p"
  shows "1 \<le> pn_PageSize p \<and> int32_range (pn_PageSize p)"
proof (cases "ps = []")
  case True
  with assms show ?thesis
    by (auto simp: newPaginator_def Let_def defaultPageSize_def int32_range_def split: sum.splits if_splits)
next
  case False
  with assms obtain m where m: "parse_int 32 ps = Inr m" "\<not> m < 1" "pn_PageSize p = to_int32 m"
    by (auto simp: newPaginator_def Let_def split: sum.splits if_splits)
  have "int32_range m" using parse_int_range [OF m(1)] by (simp add: int32_range_def)
  with m show ?thesis by simp
qed

subsection \<open>The token round trip\<close>

lemma decode_cursor_String:
  assumes "CHR '':'' \<notin> set (sc_Value c)" and "sc_Skip c < 2 ^ 63"
  shows "decodeStringCursor (cursor_String c) = Inr c"
proof -
  let ?s = "itoa (int (sc_Skip c)) @ '':'' @ sc_Value c @ '':'' @ sc_ID c"
  have "split3 ?s = Some (itoa (int (sc_Skip c)), sc_Value c, sc_ID c)"
    unfolding split3_def using assms(1)
    by (simp add: cut_at_append [OF itoa_no_colon] cut_at_append)
  moreover have "parse_int 64 (itoa (int (sc_Skip c))) = Inr (int (sc_Skip c))"
    using assms(2) by (intro parse_int_itoa) auto
  ultimately show ?thesis
    unfolding decodeStringCursor_def cursor_String_def by (simp add: Let_def)
qed

text \<open>A colon in the sort value is taken as the end of the value.\<close>

lemma decode_cursor_String_colon:
  assumes "sc_Value c = a @ '':'' @ b" and "CHR '':'' \<notin> set a" and "sc_Skip c < 2 ^ 63"
  shows "decodeStringCursor (cursor_String c)
         = Inr \<lparr>sc_Value = a, sc_ID = b @ '':'' @ sc_ID c, sc_Skip = sc_Skip c\<rparr>"
proof -
  let ?s = "itoa (int (sc_Skip c)) @ '':'' @ sc_Value c @ '':'' @ sc_ID c"
  have "split3 ?s = Some (itoa (int (sc_Skip c)), a, b @ '':'' @ sc_ID c)"
    unfolding split3_def using assms(1,2)
    by (simp add: cut_at_append [OF itoa_no_colon] cut_at_append)
  moreover have "parse_int 64 (itoa (int (sc_Skip c))) = Inr (int (sc_Skip c))"
    using assms(3) by (intro parse_int_itoa) auto
  ultimately show ?thesis
    unfolding decodeStringCursor_def cursor_String_def by (simp add: Let_def)
qed

subsection \<open>Finding the item the cursor points at\<close>

lemma find_start_none: "\<forall>x \<in> set xs. \<not> m x \<Longrightarrow> find_start m skip i seen xs = 0"
  by (induction xs arbitrary: i) auto

lemma find_start_pos:
  assumes "k < length xs" and "m (xs ! k)"
  shows "find_start m (seen + length (filter m (take k xs))) i seen xs = i + k + 1"
  using assms
proof (induction xs arbitrary: k i seen)
  case Nil
  then show ?case by simp
next
  case (Cons x xs)
  show ?case
  proof (cases k)
    case 0
    with Cons.prems show ?thesis by simp
  next
    case (Suc j)
    with Cons.prems have j: "j < length xs" "m (xs ! j)" by auto
    show ?thesis
    proof (cases "m x")
      case True
      then show ?thesis using Cons.IH [OF j, of "seen + 1" "i + 1"] Suc by simp
    next
      case False
      then show ?thesis using Cons.IH [OF j, of seen "i + 1"] Suc by simp
    qed
  qed
qed

text \<open>The cursor the paginator issues for a page that ends before index \<open>e\<close>.\<close>

definition end_cursor :: "('a \<Rightarrow> string \<Rightarrow> string) \<Rightarrow> string \<Rightarrow> 'a list \<Rightarrow> nat \<Rightarrow> string_cursor" where
  "end_cursor sv ob items e =
     (let x = items ! (e - 1);
          c0 = \<lparr>sc_Value = sv x ob, sc_ID = sv x ''ID'', sc_Skip = 0\<rparr>
      in c0\<lparr>sc_Skip := length (filter (cursor_matches sv c0 ob) (take (e - 1) items))\<rparr>)"

lemma find_start_end_cursor:
  assumes "0 < e" and "e \<le> length items" and "sv (items ! (e - 1)) ''ID'' \<noteq> []"
  shows "find_start (cursor_matches sv (end_cursor sv ob items e) ob)
           (sc_Skip (end_cursor sv ob items e)) 0 0 items = e"
proof -
  let ?c0 = "\<lparr>sc_Value = sv (items ! (e - 1)) ob, sc_ID = sv (items ! (e - 1)) ''ID'', sc_Skip = 0\<rparr>"
  let ?m = "cursor_matches sv ?c0 ob"
  have "?m (items ! (e - 1))" using assms(3) by (simp add: cursor_matches_def Let_def)
  then have "find_start ?m (0 + length (filter ?m (take (e - 1) items))) 0 0 items = 0 + (e - 1) + 1"
    using assms(1,2) by (intro find_start_pos) auto
  then have f: "find_start ?m (length (filter ?m (take (e - 1) items))) 0 0 items = e"
    using assms(1) by simp
  have m: "cursor_matches sv (end_cursor sv ob items e) ob = ?m"
    by (simp add: end_cursor_def Let_def cursor_matches_def fun_eq_iff)
  have k: "sc_Skip (end_cursor sv ob items e) = length (filter ?m (take (e - 1) items))"
    by (simp add: end_cursor_def Let_def)
  show ?thesis unfolding m k by (rule f)
qed

lemma length_filter_take_le: "length (filter m (take k xs)) \<le> length xs"
  by (rule le_trans [OF length_filter_le]) simp

subsection \<open>One page, by start index\<close>

definition start_of :: "('a \<Rightarrow> string \<Rightarrow> string) \<Rightarrow> paginator \<Rightarrow> 'a list \<Rightarrow> nat" where
  "start_of sv p items = (case pn_cursor p of None \<Rightarrow> 0
     | Some c \<Rightarrow> find_start (cursor_matches sv c (pn_OrderBy p)) (sc_Skip c) 0 0 items)"

lemma paginate_items_page:
  assumes pos: "0 < pn_PageSize p" and ids: "\<forall>x \<in> set items. sv x ''ID'' \<noteq> []"
    and s: "start_of sv p items = s" and n: "n = nat (pn_PageSize p)"
  shows "paginate_items sv p items =
     (take n (drop s items),
      if s + n < length items
      then Some (p\<lparr>pn_cursor := Some (end_cursor sv (pn_OrderBy p) items (s + n))\<rparr>) else None)"
proof (cases "s \<ge> length items")
  case True
  then show ?thesis using s by (simp add: paginate_items_def start_of_def)
next
  case False
  have n0: "0 < n" using pos n by simp
  show ?thesis
  proof (cases "s + n < length items")
    case True
    then have e: "min (s + n) (length items) = s + n" by simp
    have len: "length (take n (drop s items)) = n" using True by simp
    have "last (take n (drop s items)) = take n (drop s items) ! (n - 1)"
      using len n0 by (metis last_conv_nth length_0_conv neq0_conv)
    also have "\<dots> = items ! (s + n - 1)"
      using True n0 by simp
    finally have lst: "last (take n (drop s items)) = items ! (s + n - 1)" .
    have "items ! (s + n - 1) \<in> set items" using True by simp
    then have "sv (items ! (s + n - 1)) ''ID'' \<noteq> []" using ids by blast
    then show ?thesis
      using True False e lst s [unfolded start_of_def] n
      by (simp add: paginate_items_def Let_def end_cursor_def)
  next
    case False2: False
    then have "min (s + n) (length items) = length items" by simp
    then show ?thesis
      using False False2 s [unfolded start_of_def] n
      by (simp add: paginate_items_def Let_def)
  qed
qed

subsection \<open>Following the tokens\<close>

text \<open>
  A client that starts with an empty token and sends back the token of each page until there is
  none. The list is the same in every request. The first argument bounds the number of requests.
\<close>

fun walk_pages ::
  "nat \<Rightarrow> ('a \<Rightarrow> string \<Rightarrow> string) \<Rightarrow> string \<Rightarrow> string \<Rightarrow> string \<Rightarrow> 'a list \<Rightarrow> string \<Rightarrow> 'a list list option" where
  "walk_pages 0 sv ps ob so items tok = None"
| "walk_pages (Suc fuel) sv ps ob so items tok =
     (case newPaginator ps ob so tok of
        Inl e \<Rightarrow> None
      | Inr p \<Rightarrow>
          (let (page, next) = paginate_items sv p items
           in if Token next = [] then Some [page]
              else map_option ((#) page) (walk_pages fuel sv ps ob so items (Token next))))"

lemma cursor_String_not_empty: "cursor_String c \<noteq> []"
proof -
  have "length (cursor_String c) > 0"
    by (simp add: cursor_String_def)
  then show ?thesis by (metis length_greater_0_conv)
qed

lemma newPaginator_token:
  assumes p: "newPaginator ps ob so [] = Inr p" and c: "decodeStringCursor tok = Inr c"
    and tok: "tok \<noteq> []"
  shows "newPaginator ps ob so tok = Inr (p\<lparr>pn_cursor := Some c\<rparr>)"
  using assms by (auto simp: newPaginator_def Let_def split: sum.splits if_splits)

lemma newPaginator_fields:
  "newPaginator ps ob so [] = Inr p \<Longrightarrow> pn_OrderBy p = ob \<and> pn_cursor p = None"
  by (auto simp: newPaginator_def Let_def split: sum.splits if_splits)

lemma walk_from:
  assumes p: "newPaginator ps ob so [] = Inr p"
    and ids: "\<forall>x \<in> set items. sv x ''ID'' \<noteq> []"
    and colon: "\<forall>x \<in> set items. CHR '':'' \<notin> set (sv x ob)"
    and len: "length items < 2 ^ 63"
    and n: "n = nat (pn_PageSize p)"
    and tokp: "newPaginator ps ob so tok = Inr (p\<lparr>pn_cursor := cur\<rparr>)"
    and start: "start_of sv (p\<lparr>pn_cursor := cur\<rparr>) items = s"
    and fuel: "length items - s < fuel"
  shows "\<exists>pages. walk_pages fuel sv ps ob so items tok = Some pages
    \<and> concat pages = drop s items \<and> (\<forall>pg \<in> set pages. length pg \<le> n)"
  using tokp start fuel
proof (induction fuel arbitrary: tok cur s)
  case 0
  then show ?case by simp
next
  case (Suc fuel)
  have pos: "0 < pn_PageSize p" using newPaginator_positive [OF p] by simp
  have ob: "pn_OrderBy p = ob" using newPaginator_fields [OF p] by simp
  let ?p = "p\<lparr>pn_cursor := cur\<rparr>"
  have page: "paginate_items sv ?p items =
     (take n (drop s items),
      if s + n < length items
      then Some (?p\<lparr>pn_cursor := Some (end_cursor sv ob items (s + n))\<rparr>) else None)"
    using paginate_items_page [of ?p items sv s n] pos ids Suc.prems(2) n ob by simp
  show ?case
  proof (cases "s + n < length items")
    case False
    then show ?thesis using Suc.prems(1) page by (simp add: Token_def)
  next
    case True
    let ?c = "end_cursor sv ob items (s + n)"
    let ?tok = "cursor_String ?c"
    have n0: "0 < n" using pos n by simp
    have inset: "items ! (s + n - 1) \<in> set items" using True by simp
    have "sc_Skip ?c \<le> length items"
      by (simp add: end_cursor_def Let_def length_filter_take_le)
    then have skip: "sc_Skip ?c < 2 ^ 63" using len by linarith
    have val: "CHR '':'' \<notin> set (sc_Value ?c)"
      using colon inset by (simp add: end_cursor_def Let_def)
    have tokp: "newPaginator ps ob so ?tok = Inr (p\<lparr>pn_cursor := Some ?c\<rparr>)"
      using newPaginator_token [OF p decode_cursor_String [OF val skip] cursor_String_not_empty] .
    have st: "start_of sv (p\<lparr>pn_cursor := Some ?c\<rparr>) items = s + n"
      using find_start_end_cursor [of "s + n" items sv ob] True n0 ids inset
      by (simp add: start_of_def ob)
    have "length items - (s + n) < fuel" using Suc.prems(3) True n0 by simp
    from Suc.IH [OF tokp st this] obtain pages where
      w: "walk_pages fuel sv ps ob so items ?tok = Some pages"
      and c: "concat pages = drop (s + n) items" and l: "\<forall>pg \<in> set pages. length pg \<le> n"
      by blast
    have tn: "Token (Some (?p\<lparr>pn_cursor := Some ?c\<rparr>)) = ?tok" by (simp add: Token_def)
    have "walk_pages (Suc fuel) sv ps ob so items tok = Some (take n (drop s items) # pages)"
      using Suc.prems(1) page True w tn cursor_String_not_empty [of ?c] by simp
    moreover have "drop (s + n) items = drop n (drop s items)" by (simp add: add.commute)
    then have "concat (take n (drop s items) # pages) = drop s items"
      by (simp only: concat.simps c append_take_drop_id)
    ultimately show ?thesis using l by auto
  qed
qed

subsection \<open>Properties\<close>

text \<open>
  C19. If no id is empty and no sort value holds a colon, following the tokens of the in-memory paginator
  from the first page ends after at most one request more than there are items, and the pages concatenated
  are the list: every item once and in order, items of equal id and sort value included. No page is longer
  than the page size. With a colon it is otherwise: \<open>api_colon_token_repeats_page\<close>.
\<close>

theorem api_pages_complete:
  assumes "newPaginator ps ob so [] = Inr p"
    and "\<forall>x \<in> set items. sv x ''ID'' \<noteq> []"
    and "\<forall>x \<in> set items. CHR '':'' \<notin> set (sv x ob)"
    and "length items < 2 ^ 63"
  shows "\<exists>pages. walk_pages (Suc (length items)) sv ps ob so items [] = Some pages
    \<and> concat pages = items \<and> (\<forall>pg \<in> set pages. length pg \<le> nat (pn_PageSize p))"
proof -
  have c: "pn_cursor p = None" using newPaginator_fields [OF assms(1)] by simp
  then have p: "p\<lparr>pn_cursor := None\<rparr> = p" by (cases p) simp
  have "start_of sv (p\<lparr>pn_cursor := None\<rparr>) items = 0" by (simp add: start_of_def)
  then show ?thesis
    using walk_from [OF assms(1-4) refl, of "[]" None 0 "Suc (length items)"] assms(1) p by simp
qed

definition demo_sort_value :: "string \<times> string \<Rightarrow> string \<Rightarrow> string" where
  "demo_sort_value x f = (if f = ''ID'' then fst x else snd x)"

theorem api_pages_complete_witness:
  "\<exists>pages. walk_pages 4 demo_sort_value ''2'' ''NAME'' ''ASC'' [(''a'', ''x''), (''a'', ''x''), (''a'', ''x'')] []
     = Some pages \<and> concat pages = [(''a'', ''x''), (''a'', ''x''), (''a'', ''x'')]
   \<and> (\<forall>pg \<in> set pages. length pg \<le> 2)"
proof -
  let ?p = "\<lparr>pn_PageSize = 2, pn_OrderBy = ''NAME'', pn_SortOrder = ''ASC'', pn_cursor = None\<rparr>"
  have "newPaginator ''2'' ''NAME'' ''ASC'' [] = Inr ?p"
    by (simp add: newPaginator_def OrderByField_IsValid_def AllowedOrderByFieldEnumValues_def
        SortOrder_IsValid_def AllowedSortOrderEnumValues_def Let_def parse_int_def parse_digits_def
        is_digit_def dec_value_def digit_val_def to_int32_def)
  note r = api_pages_complete [OF this, of "[(''a'', ''x''), (''a'', ''x''), (''a'', ''x'')]" demo_sort_value]
  have len: "Suc (length [(''a'', ''x''), (''a'', ''x''), (''a'', ''x'')]) = 4" by simp
  show ?thesis using r unfolding len by (simp add: demo_sort_value_def)
qed

text \<open>
  When the item that ends a page has a colon in its sort value, the token of that page is misread:
  the next request, sent with the token, answers with the very same page and the same token again, so a
  client that follows the tokens never gets past it. (No id may be as long as the misread one.)
\<close>

theorem api_colon_token_repeats_page:
  assumes p: "newPaginator ps ob so [] = Inr p"
    and page: "paginate_items sv p items = (page, Some q)" and c: "pn_cursor q = Some c"
    and colon: "CHR '':'' \<in> set (sc_Value c)" and skip: "sc_Skip c < 2 ^ 63"
    and ids: "\<forall>x \<in> set items. length (sv x ''ID'') \<le> length (sc_ID c)"
  shows "\<exists>q'. newPaginator ps ob so (Token (Some q)) = Inr q' \<and> paginate_items sv q' items = (page, Some q)"
proof -
  obtain a b where ab: "sc_Value c = a @ '':'' @ b" "CHR '':'' \<notin> set a"
    using colon by (metis append_Cons append_Nil split_list_first)
  let ?c' = "\<lparr>sc_Value = a, sc_ID = b @ '':'' @ sc_ID c, sc_Skip = sc_Skip c\<rparr>"
  have tok: "Token (Some q) = cursor_String c" using c by (simp add: Token_def)
  have q': "newPaginator ps ob so (Token (Some q)) = Inr (p\<lparr>pn_cursor := Some ?c'\<rparr>)"
    unfolding tok
    using newPaginator_token [OF p decode_cursor_String_colon [OF ab skip] cursor_String_not_empty] .
  have "\<forall>x \<in> set items. \<not> cursor_matches sv ?c' ob x"
  proof
    fix x assume "x \<in> set items"
    then have "length (sv x ''ID'') \<le> length (sc_ID c)" using ids by blast
    then have "sv x ''ID'' \<noteq> b @ '':'' @ sc_ID c" by (metis add_Suc_right append_Cons append_Nil
          le_add2 length_Cons length_append not_less_eq_eq)
    then show "\<not> cursor_matches sv ?c' ob x" by (simp add: cursor_matches_def Let_def)
  qed
  then have z: "find_start (cursor_matches sv ?c' ob) (sc_Skip c) 0 0 items = 0"
    by (rule find_start_none)
  have f: "pn_OrderBy p = ob" "pn_cursor p = None" using newPaginator_fields [OF p] by simp_all
  have "paginate_items sv (p\<lparr>pn_cursor := Some ?c'\<rparr>) items = paginate_items sv p items"
    using z f by (simp add: paginate_items_def Let_def)
  with q' page show ?thesis by auto
qed

theorem api_colon_token_repeats_page_witness:
  "\<exists>q'. newPaginator ''1'' ''NAME'' [] (Token (Some \<lparr>pn_PageSize = 1, pn_OrderBy = ''NAME'', pn_SortOrder = [],
       pn_cursor = Some \<lparr>sc_Value = ''x: y'', sc_ID = ''a'', sc_Skip = 0\<rparr>\<rparr>)) = Inr q'
     \<and> fst (paginate_items demo_sort_value q' [(''a'', ''x: y''), (''b'', ''z'')]) = [(''a'', ''x: y'')]"
proof -
  let ?p = "\<lparr>pn_PageSize = 1, pn_OrderBy = ''NAME'', pn_SortOrder = [], pn_cursor = None\<rparr>"
  let ?c = "\<lparr>sc_Value = ''x: y'', sc_ID = ''a'', sc_Skip = 0\<rparr>"
  let ?items = "[(''a'', ''x: y''), (''b'', ''z'')]"
  have p: "newPaginator ''1'' ''NAME'' [] [] = Inr ?p"
    by (simp add: newPaginator_def OrderByField_IsValid_def AllowedOrderByFieldEnumValues_def
        Let_def parse_int_def parse_digits_def
        is_digit_def dec_value_def digit_val_def to_int32_def)
  have "paginate_items demo_sort_value ?p ?items = ([(''a'', ''x: y'')], Some (?p\<lparr>pn_cursor := Some ?c\<rparr>))"
    by (simp add: paginate_items_def demo_sort_value_def Let_def)
  from api_colon_token_repeats_page [OF p this, of ?c] show ?thesis
    by (auto simp: demo_sort_value_def)
qed

lemma list_ex_eq: "list_ex (\<lambda>c. c = v) xs \<longleftrightarrow> v \<in> set xs" "list_ex (\<lambda>c. v = c) xs \<longleftrightarrow> v \<in> set xs"
  by (auto simp: list_ex_iff)

lemma split_char_two:
  "length (split_char d s) = 2 \<longleftrightarrow> (\<exists>a b. s = a @ d # b \<and> d \<notin> set a \<and> d \<notin> set b)"
  and split_char_two_parts: "d \<notin> set a \<Longrightarrow> d \<notin> set b \<Longrightarrow> split_char d (a @ d # b) = [a, b]"
proof -
  show parts: "d \<notin> set a \<Longrightarrow> d \<notin> set b \<Longrightarrow> split_char d (a @ d # b) = [a, b]" for a b
    by (simp add: split_char_append split_char_no_sep)
  show "length (split_char d s) = 2 \<longleftrightarrow> (\<exists>a b. s = a @ d # b \<and> d \<notin> set a \<and> d \<notin> set b)"
  proof
    assume l: "length (split_char d s) = 2"
    have "d \<in> set s"
    proof (rule ccontr)
      assume "d \<notin> set s"
      with l show False by (simp add: split_char_no_sep)
    qed
    then obtain a b where s: "s = a @ d # b" "d \<notin> set a" by (metis split_list_first)
    with l have "length (split_char d b) = 1" by (simp add: split_char_append)
    then have "d \<notin> set b" by (metis One_nat_def length_Cons n_not_Suc_n split_char_append
          length_0_conv split_char_not_Nil nat.inject split_list_first)
    with s show "\<exists>a b. s = a @ d # b \<and> d \<notin> set a \<and> d \<notin> set b" by blast
  next
    assume "\<exists>a b. s = a @ d # b \<and> d \<notin> set a \<and> d \<notin> set b"
    with parts show "length (split_char d s) = 2" by auto
  qed
qed

text \<open>The values of \<open>orderBy\<close> that name a property and one of its typed columns.\<close>

definition property_order :: "string \<Rightarrow> bool" where
  "property_order s = (\<exists>a b. s = a @ ''.'' @ b \<and> CHR ''.'' \<notin> set a \<and> a \<noteq> [] \<and> length a \<le> 255
     \<and> b \<in> {''int_value'', ''double_value'', ''string_value''})"

lemma validPropertyOrder_iff:
  "validPropertyOrder a b \<longleftrightarrow> a \<noteq> [] \<and> length a \<le> 255 \<and> b \<in> {''int_value'', ''double_value'', ''string_value''}"
  unfolding validPropertyOrder_def list_ex_eq propertyValueColumns_def by auto

lemma property_order_iff:
  "property_order s \<longleftrightarrow> (let ps = split_char (CHR ''.'') s in length ps = 2 \<and> validPropertyOrder (ps ! 0) (ps ! 1))"
proof
  assume "property_order s"
  then obtain a b where s: "s = a @ CHR ''.'' # b" "CHR ''.'' \<notin> set a" "a \<noteq> []" "length a \<le> 255"
    "b \<in> {''int_value'', ''double_value'', ''string_value''}" by (auto simp: property_order_def)
  then have "CHR ''.'' \<notin> set b" by auto
  with s show "let ps = split_char (CHR ''.'') s in length ps = 2 \<and> validPropertyOrder (ps ! 0) (ps ! 1)"
    by (auto simp: split_char_two_parts validPropertyOrder_iff)
next
  assume r: "let ps = split_char (CHR ''.'') s in length ps = 2 \<and> validPropertyOrder (ps ! 0) (ps ! 1)"
  then obtain a b where s: "s = a @ CHR ''.'' # b" "CHR ''.'' \<notin> set a" "CHR ''.'' \<notin> set b"
    using split_char_two [of "CHR ''.''" s] by (auto simp: Let_def)
  with r have "validPropertyOrder a b" by (simp add: split_char_two_parts)
  with s show "property_order s" by (auto simp: property_order_def validPropertyOrder_iff)
qed

lemma artifact_order_iff:
  "(let ps = split_char (CHR ''.'') s in length ps = 3 \<and> ps ! 0 = ''artifacts'' \<and> validPropertyOrder (ps ! 1) (ps ! 2))
   \<longleftrightarrow> (\<exists>r. s = ''artifacts.'' @ r \<and> property_order r)"
proof
  assume l: "let ps = split_char (CHR ''.'') s in length ps = 3 \<and> ps ! 0 = ''artifacts'' \<and> validPropertyOrder (ps ! 1) (ps ! 2)"
  have "CHR ''.'' \<in> set s"
  proof (rule ccontr)
    assume "CHR ''.'' \<notin> set s"
    with l show False by (simp add: split_char_no_sep)
  qed
  then obtain a r where s: "s = a @ CHR ''.'' # r" "CHR ''.'' \<notin> set a" by (metis split_list_first)
  with l have "a = ''artifacts''" and "property_order r"
    by (simp_all add: split_char_append property_order_iff Let_def numeral_2_eq_2 numeral_3_eq_3)
  with s show "\<exists>r. s = ''artifacts.'' @ r \<and> property_order r" by auto
next
  assume "\<exists>r. s = ''artifacts.'' @ r \<and> property_order r"
  then obtain r where s: "s = ''artifacts'' @ CHR ''.'' # r" and r: "property_order r" by auto
  have "split_char (CHR ''.'') s = ''artifacts'' # split_char (CHR ''.'') r"
    unfolding s by (rule split_char_append) simp
  with r show "let ps = split_char (CHR ''.'') s in length ps = 3 \<and> ps ! 0 = ''artifacts'' \<and> validPropertyOrder (ps ! 1) (ps ! 2)"
    by (simp add: property_order_iff Let_def numeral_2_eq_2 numeral_3_eq_3)
qed

text \<open>
  The models endpoint accepts exactly the empty value, the enum values and \<open>ACCURACY\<close>, and a
  property path with one of the three typed columns, plain or under \<open>artifacts.\<close>; the property name
  has one to 255 bytes and no dot.
\<close>

theorem model_order_by_accepts:
  "orderBy_validate modelOrderBy s = None \<longleftrightarrow>
     s = [] \<or> s \<in> {''ID'', ''CREATE_TIME'', ''LAST_UPDATE_TIME'', ''NAME'', ''RECOMMENDED'', ''ACCURACY''}
     \<or> property_order s \<or> (\<exists>r. s = ''artifacts.'' @ r \<and> property_order r)"
proof -
  have "orderBy_validate modelOrderBy s = None \<longleftrightarrow>
     s = [] \<or> s \<in> set (ob_fields modelOrderBy)
     \<or> (let ps = split_char (CHR ''.'') s in length ps = 2 \<and> validPropertyOrder (ps ! 0) (ps ! 1))
     \<or> (let ps = split_char (CHR ''.'') s in length ps = 3 \<and> ps ! 0 = ''artifacts'' \<and> validPropertyOrder (ps ! 1) (ps ! 2))"
    unfolding orderBy_validate_def Let_def list_ex_eq by (simp add: modelOrderBy_def)
  then show ?thesis
    unfolding property_order_iff [symmetric] artifact_order_iff
    by (simp add: modelOrderBy_def enumOrderByFields_def)
qed

end
