(* ===== verification/Converter_Facts.thy ===== *)
theory Converter_Facts
  imports Converter_Artifacts
begin

text \<open>
  What the converters of all twelve entities keep and what they lose: the round trips, the checks that
  never fire, and the agreement between the columns the converters write and the columns the filter
  language reads (\<open>Filter_Query\<close>, \<open>Property_Mapping\<close>).
\<close>

subsection \<open>Columns\<close>

text \<open>The value column a stored property fills.\<close>

definition row_column :: "stored_property \<Rightarrow> string" where
  "row_column p = (if sp_Int p \<noteq> None then IntValueType else if sp_Double p \<noteq> None then DoubleValueType
     else if sp_Bool p \<noteq> None then BoolValueType else StringValueType)"

text \<open>
  The property rows the filter names of an entity lead to, with the column each reads; \<open>column_read\<close> says
  that every filter name mapped to the property \<open>n\<close> reads the column \<open>c\<close>.
\<close>

definition filter_columns :: "string \<Rightarrow> (string \<times> string) list" where
  "filter_columns rest = map (\<lambda>d. (pd_Column d, pd_ValueType d)) (filter (\<lambda>d. pd_Location d = PropertyTable)
     (map (GetPropertyDefinitionForRestEntity rest)
       (case map_of RestEntityPropertyMap rest of None \<Rightarrow> [] | Some names \<Rightarrow> names)))"

definition column_read :: "string \<Rightarrow> string \<Rightarrow> string \<Rightarrow> bool" where
  "column_read rest n c = list_all (\<lambda>(m, t). m = n \<longrightarrow> t = c) (filter_columns rest)"

text \<open>The properties that are written to another column than their filter name reads.\<close>

definition unreadable_rows :: "string \<Rightarrow> conv_error + stored_property list \<Rightarrow> string list" where
  "unreadable_rows rest r = (case r of Inl _ \<Rightarrow> []
     | Inr ps \<Rightarrow> map sp_Name (filter (\<lambda>p. \<not> column_read rest (sp_Name p) (row_column p)) ps))"

definition rows_among :: "(string \<times> string) list \<Rightarrow> conv_error + stored_property list \<Rightarrow> bool" where
  "rows_among kinds r = (case r of Inl _ \<Rightarrow> True
     | Inr ps \<Rightarrow> \<forall>p \<in> set ps. (sp_Name p, row_column p) \<in> set kinds)"

lemma rows_among_Cons:
  assumes "rows_among [nc] r" "rows_among kinds (collect rs)"
  shows "rows_among (nc # kinds) (collect (r # rs))"
  using assms by (cases r; cases "collect rs") (auto simp: rows_among_def)

lemma rows_among_Nil: "rows_among [] (collect [])"
  by (simp add: rows_among_def)

lemma new_row_column [simp]:
  "row_column (NewStringProperty n s c) = StringValueType"
  "row_column (NewIntProperty n i c) = IntValueType"
  "row_column (NewDoubleProperty n x c) = DoubleValueType"
  by (simp_all add: row_column_def)

lemma rows_among_piece:
  "rows_among [(n, StringValueType)] (opt_string n v)"
  "rows_among [(n, StringValueType)] (opt_slice codec n xs)"
  "rows_among [(n, IntValueType)] (id_property n s)"
proof -
  show "rows_among [(n, StringValueType)] (opt_string n v)"
    by (cases v) (simp_all add: rows_among_def opt_string_def)
  show "rows_among [(n, StringValueType)] (opt_slice codec n xs)"
    by (cases xs; cases "encodeStruct codec (convertToStruct (the xs) n)")
      (simp_all add: opt_slice_def rows_among_def)
  show "rows_among [(n, IntValueType)] (id_property n s)"
    by (cases "StringToInt32 s") (simp_all add: id_property_def rows_among_def)
qed

lemma rows_among_ids:
  "rows_among [(n, IntValueType)] (required_id n s)"
  "rows_among [(n, IntValueType)] (opt_id n j)"
  using rows_among_piece(3) unfolding required_id_def opt_id_def
  by (auto simp: rows_among_def split: option.split)

lemmas rows_among_collect = rows_among_Nil rows_among_Cons rows_among_piece rows_among_ids

lemma readable_rows:
  assumes "rows_among kinds r" "list_all (\<lambda>(n, c). column_read rest n c) kinds"
  shows "unreadable_rows rest r = []"
proof (cases r)
  case (Inl e)
  then show ?thesis by (simp add: unreadable_rows_def)
next
  case (Inr ps)
  then have "\<forall>p \<in> set ps. column_read rest (sp_Name p) (row_column p)"
    using assms by (fastforce simp: rows_among_def list_all_iff)
  then show ?thesis by (simp add: unreadable_rows_def Inr)
qed

text \<open>The columns the filter reads, entity by entity.\<close>

lemma filter_columns_RegisteredModel [simp]:
  "filter_columns RestEntityRegisteredModel = [(''state'', ''string_value''), (''owner'',
     ''string_value'')]"
  by code_simp

lemma filter_columns_ModelVersion [simp]:
  "filter_columns RestEntityModelVersion = [(''registered_model_id'', ''int_value''), (''state'',
     ''string_value''), (''author'', ''string_value'')]"
  by code_simp

lemma filter_columns_ServingEnvironment [simp]:
  "filter_columns RestEntityServingEnvironment = []"
  by code_simp

lemma filter_columns_InferenceService [simp]:
  "filter_columns RestEntityInferenceService = [(''registered_model_id'', ''int_value''),
     (''model_version_id'', ''int_value''), (''serving_environment_id'', ''int_value''), (''runtime'',
     ''string_value''), (''desired_state'', ''string_value'')]"
  by code_simp

lemma filter_columns_ServeModel [simp]:
  "filter_columns RestEntityServeModel = [(''model_version_id'', ''int_value''),
     (''inference_service_id'', ''int_value''), (''registered_model_id'', ''int_value''),
     (''serving_environment_id'', ''int_value'')]"
  by code_simp

lemma filter_columns_Experiment [simp]:
  "filter_columns RestEntityExperiment = [(''state'', ''string_value''), (''owner'', ''string_value'')]"
  by code_simp

lemma filter_columns_ExperimentRun [simp]:
  "filter_columns RestEntityExperimentRun = [(''experiment_id'', ''int_value''),
     (''start_time_since_epoch'', ''string_value''), (''end_time_since_epoch'', ''string_value''),
     (''status'', ''string_value''), (''state'', ''string_value''), (''owner'', ''string_value'')]"
  by code_simp

lemma filter_columns_ModelArtifact [simp]:
  "filter_columns RestEntityModelArtifact = [(''model_format_name'', ''string_value''),
     (''model_format_version'', ''string_value''), (''storage_key'', ''string_value''),
     (''storage_path'', ''string_value''), (''service_account_name'', ''string_value''),
     (''model_source_kind'', ''string_value''), (''model_source_class'', ''string_value''),
     (''model_source_group'', ''string_value''), (''model_source_id'', ''string_value''),
     (''model_source_name'', ''string_value''), (''experiment_id'', ''int_value''),
     (''experiment_run_id'', ''int_value'')]"
  by code_simp

lemma filter_columns_DocArtifact [simp]:
  "filter_columns RestEntityDocArtifact = [(''experiment_id'', ''int_value''), (''experiment_run_id'',
     ''int_value'')]"
  by code_simp

lemma filter_columns_DataSet [simp]:
  "filter_columns RestEntityDataSet = [(''digest'', ''string_value''), (''source_type'',
     ''string_value''), (''source'', ''string_value''), (''schema'', ''string_value''), (''profile'',
     ''string_value''), (''experiment_id'', ''int_value''), (''experiment_run_id'', ''int_value'')]"
  by code_simp

lemma filter_columns_Metric [simp]:
  "filter_columns RestEntityMetric = [(''value'', ''double_value''), (''timestamp'', ''int_value''),
     (''step'', ''int_value''), (''experiment_id'', ''int_value''), (''experiment_run_id'',
     ''int_value'')]"
  by code_simp

lemma filter_columns_Parameter [simp]:
  "filter_columns RestEntityParameter = [(''value'', ''double_value''), (''parameter_type'',
     ''string_value''), (''experiment_id'', ''int_value''), (''experiment_run_id'', ''int_value'')]"
  by code_simp

text \<open>
  C35. The converters and the filter language agree on the columns with two exceptions. Whatever properties an
  entity has, each is written to the column its filter name reads; but the timestamp of a metric and the
  value of a parameter are written as strings and read as numbers, so that no filter on them can match.
\<close>

theorem stored_columns_match_filter:
  "unreadable_rows RestEntityRegisteredModel (MapRegisteredModelPropertiesEmbedMD codec rm) = []
   \<and> unreadable_rows RestEntityModelVersion (MapModelVersionPropertiesEmbedMD mv) = []
   \<and> unreadable_rows RestEntityServingEnvironment (MapServingEnvironmentPropertiesEmbedMD se) = []
   \<and> unreadable_rows RestEntityInferenceService (MapInferenceServicePropertiesEmbedMD is) = []
   \<and> unreadable_rows RestEntityServeModel (MapServeModelPropertiesEmbedMD sm) = []
   \<and> unreadable_rows RestEntityExperiment (MapExperimentPropertiesEmbedMD xp) = []
   \<and> unreadable_rows RestEntityExperimentRun (MapExperimentRunPropertiesEmbedMD xr) = []
   \<and> unreadable_rows RestEntityModelArtifact (MapModelArtifactPropertiesEmbedMD ma) = []
   \<and> unreadable_rows RestEntityDocArtifact (MapDocArtifactPropertiesEmbedMD da) = []
   \<and> unreadable_rows RestEntityDataSet (MapDataSetPropertiesEmbedMD ds) = []
   \<and> unreadable_rows RestEntityMetric (MapMetricPropertiesEmbedMD mt)
       = (if met_Timestamp mt = None then [] else [''timestamp''])
   \<and> unreadable_rows RestEntityParameter (MapParameterPropertiesEmbedMD pm)
       = (if par_Value pm = None then [] else [''value''])"
proof (intro conjI)
  show "unreadable_rows RestEntityRegisteredModel (MapRegisteredModelPropertiesEmbedMD codec rm) = []"
    unfolding MapRegisteredModelPropertiesEmbedMD_def by (rule readable_rows, (rule rows_among_collect)+)
      (simp add: column_read_def value_type_defs)
  show "unreadable_rows RestEntityModelVersion (MapModelVersionPropertiesEmbedMD mv) = []"
    unfolding MapModelVersionPropertiesEmbedMD_def by (rule readable_rows, (rule rows_among_collect)+)
      (simp add: column_read_def value_type_defs)
  show "unreadable_rows RestEntityServingEnvironment (MapServingEnvironmentPropertiesEmbedMD se) = []"
    unfolding MapServingEnvironmentPropertiesEmbedMD_def by (rule readable_rows, (rule rows_among_collect)+)
      (simp add: column_read_def value_type_defs)
  show "unreadable_rows RestEntityInferenceService (MapInferenceServicePropertiesEmbedMD is) = []"
    unfolding MapInferenceServicePropertiesEmbedMD_def by (rule readable_rows, (rule rows_among_collect)+)
      (simp add: column_read_def value_type_defs)
  show "unreadable_rows RestEntityServeModel (MapServeModelPropertiesEmbedMD sm) = []"
    unfolding MapServeModelPropertiesEmbedMD_def by (rule readable_rows, (rule rows_among_collect)+)
      (simp add: column_read_def value_type_defs)
  show "unreadable_rows RestEntityExperiment (MapExperimentPropertiesEmbedMD xp) = []"
    unfolding MapExperimentPropertiesEmbedMD_def by (rule readable_rows, (rule rows_among_collect)+)
      (simp add: column_read_def value_type_defs)
  show "unreadable_rows RestEntityExperimentRun (MapExperimentRunPropertiesEmbedMD xr) = []"
    unfolding MapExperimentRunPropertiesEmbedMD_def by (rule readable_rows, (rule rows_among_collect)+)
      (simp add: column_read_def value_type_defs)
  show "unreadable_rows RestEntityModelArtifact (MapModelArtifactPropertiesEmbedMD ma) = []"
    unfolding MapModelArtifactPropertiesEmbedMD_def by (rule readable_rows, (rule rows_among_collect)+)
      (simp add: column_read_def value_type_defs)
  show "unreadable_rows RestEntityDocArtifact (MapDocArtifactPropertiesEmbedMD da) = []"
    unfolding MapDocArtifactPropertiesEmbedMD_def by (rule readable_rows, (rule rows_among_collect)+)
      (simp add: column_read_def value_type_defs)
  show "unreadable_rows RestEntityDataSet (MapDataSetPropertiesEmbedMD ds) = []"
    unfolding MapDataSetPropertiesEmbedMD_def by (rule readable_rows, (rule rows_among_collect)+)
      (simp add: column_read_def value_type_defs)
  show "unreadable_rows RestEntityMetric (MapMetricPropertiesEmbedMD mt)
      = (if met_Timestamp mt = None then [] else [''timestamp''])"
    by (simp add: metric_rows unreadable_rows_def part_rows_def string_part_def double_part_def int_part_def
        column_read_def value_type_defs split: option.split)
  show "unreadable_rows RestEntityParameter (MapParameterPropertiesEmbedMD pm)
      = (if par_Value pm = None then [] else [''value''])"
    by (simp add: parameter_rows unreadable_rows_def part_rows_def string_part_def
        column_read_def value_type_defs split: option.split)
qed

subsection \<open>Round trips\<close>

text \<open>
  C6. What a client stores about a model, a version, an environment, a service, an experiment or a run is what
  it reads. Each of the seven context entities, if its numerals are in canonical form, its states are in
  their enumerations, its custom properties are scalars and its name is not empty, is accepted, and reading its
  rows in any order gives back every field; only a missing optional name comes back as the generated one.
\<close>

theorem contexts_roundtrip:
  assumes "registered_model_ok codec (w_Model rm)" "model_version_ok uuid mv" "serving_environment_ok se"
    "inference_service_ok uuidName uuid is" "experiment_ok xp" "experiment_run_ok uuidName uuid xr"
    "serve_model_ok uuidName uuid sm"
  shows "(\<exists>e. ConvertRegisteredModel codec rm = Inr e \<and> reads_back (ReadRegisteredModel codec) e (w_Model rm))
    \<and> (\<exists>e. ConvertModelVersion codec uuid mv = Inr e \<and> reads_back (ReadModelVersion codec) e (w_Model mv))
    \<and> (\<exists>e. ConvertServingEnvironment codec se = Inr e \<and> reads_back (ReadServingEnvironment codec) e (w_Model se))
    \<and> (\<exists>e. ConvertInferenceService codec uuidName uuid is = Inr e \<and> reads_back (ReadInferenceService codec) e
         ((w_Model is)\<lparr>inf_Name := Some (case inf_Name (w_Model is) of None \<Rightarrow> uuidName | Some n \<Rightarrow> n)\<rparr>))
    \<and> (\<exists>e. ConvertExperiment codec xp = Inr e \<and> reads_back (ReadExperiment codec) e (w_Model xp))
    \<and> (\<exists>e. ConvertExperimentRun codec uuidName uuid xr = Inr e \<and> reads_back (ReadExperimentRun codec) e
         ((w_Model xr)\<lparr>run_Name := Some (case run_Name (w_Model xr) of None \<Rightarrow> uuidName | Some n \<Rightarrow> n)\<rparr>))
    \<and> (\<exists>e. ConvertServeModel codec uuidName uuid sm = Inr e \<and> reads_back (ReadServeModel codec) e
         ((w_Model sm)\<lparr>srv_Name := Some (case srv_Name (w_Model sm) of None \<Rightarrow> uuidName | Some n \<Rightarrow> n)\<rparr>))"
  using assms by (intro conjI registered_model_reads_back model_version_reads_back
      serving_environment_reads_back inference_service_reads_back experiment_reads_back
      experiment_run_reads_back serve_model_reads_back)

text \<open>
  C22. Artifacts come back, but for two fields: for each of the five kinds the rows read in any order give the artifact that was
  sent, with the name filled in and the kind set, and without the ids of an experiment and its run, which the converters drop
  (the service stores them as custom properties for the artifacts of a run); the step of a metric is reduced to 32 bits.
\<close>

theorem artifacts_roundtrip:
  assumes "artifact_ok uuidName uuid ma" "artifact_ok uuidName uuid da" "artifact_ok uuidName uuid ds"
    "artifact_ok uuidName uuid mt" "artifact_ok uuidName uuid pm"
    "opt_all (\<lambda>t. t \<in> set [''string'', ''number'', ''boolean'', ''object'']) (par_ParameterType (w_Model pm))"
  shows "(\<exists>e. ConvertModelArtifact codec uuidName uuid ma = Inr e
        \<and> reads_back (ReadModelArtifact codec) e (read_artifact uuidName ''model-artifact'' (w_Model ma)))
    \<and> (\<exists>e. ConvertDocArtifact codec uuidName uuid da = Inr e
        \<and> reads_back (ReadDocArtifact codec) e (read_artifact uuidName ''doc-artifact'' (w_Model da)))
    \<and> (\<exists>e. ConvertDataSet codec uuidName uuid ds = Inr e
        \<and> reads_back (ReadDataSet codec) e (read_artifact uuidName ''dataset-artifact'' (w_Model ds)))
    \<and> (\<exists>e. ConvertMetric codec uuidName uuid mt = Inr e
        \<and> reads_back (ReadMetric codec) e ((read_artifact uuidName ''metric'' (w_Model mt))
            \<lparr>met_Step := map_option to_int32 (met_Step (w_Model mt))\<rparr>))
    \<and> (\<exists>e. ConvertParameter codec uuidName uuid pm = Inr e
        \<and> reads_back (ReadParameter codec) e (read_artifact uuidName ''parameter'' (w_Model pm)))"
  using assms by (intro conjI model_artifact_reads_back doc_artifact_reads_back data_set_reads_back
      metric_reads_back parameter_reads_back)

text \<open>
  The step of a metric, an \<open>int64\<close> of the API, silently wraps around: a metric is accepted with any step
  \<open>s\<close> and stored and read with \<open>s\<close> modulo \<open>2^32\<close>, and that is \<open>s\<close> only for steps that fit 32 bits.
\<close>

theorem metric_step_wraps:
  assumes "artifact_ok uuidName uuid w" "met_Step (w_Model w) = Some s"
  shows "(\<exists>e. ConvertMetric codec uuidName uuid w = Inr e
      \<and> reads_back (ReadMetric codec) e ((read_artifact uuidName ''metric'' (w_Model w))
           \<lparr>met_Step := Some (to_int32 s)\<rparr>))
    \<and> (to_int32 s = s \<longleftrightarrow> int32_range s)"
proof (rule conjI)
  show "to_int32 s = s \<longleftrightarrow> int32_range s" by (metis to_int32_range to_int32_id)
qed (use metric_reads_back [OF assms(1), of codec] assms(2) in simp)

lemma base_attributes_update [simp]:
  "base_attributes name uri st (m\<lparr>art_State := x\<rparr>) = base_attributes name uri st m"
  "base_attributes name uri st (k\<lparr>srv_LastKnownState := y\<rparr>) = base_attributes name uri st k"
  by (simp_all add: base_attributes_def split: sum.split)

text \<open>
  The check for an invalid state never fires: a state outside the enumeration is converted exactly like
  \<open>UNKNOWN\<close>, for an artifact and for a serve model, because the lookup of an unknown name gives 0, which is
  a state.
\<close>

theorem unknown_state_accepted:
  assumes "s \<notin> set (map fst ArtifactStateMapping)" "s' \<notin> set (map fst ExecutionStateMapping)"
  shows "artifact_attributes uuidName uuid uri (w\<lparr>w_Model := (w_Model w)\<lparr>art_State := Some s\<rparr>\<rparr>)
      = artifact_attributes uuidName uuid uri (w\<lparr>w_Model := (w_Model w)\<lparr>art_State := Some ''UNKNOWN''\<rparr>\<rparr>)
    \<and> MapServeModelAttributesEmbedMD uuidName uuid (v\<lparr>w_Model := (w_Model v)\<lparr>srv_LastKnownState := Some s'\<rparr>\<rparr>)
      = MapServeModelAttributesEmbedMD uuidName uuid
          (v\<lparr>w_Model := (w_Model v)\<lparr>srv_LastKnownState := Some ''UNKNOWN''\<rparr>\<rparr>)"
proof -
  have known: "opt_state ArtifactStateMapping ArtifactStateNames (Some ''UNKNOWN'') = Inr (Some ''UNKNOWN'')"
    "opt_state ExecutionStateMapping ExecutionStateNames (Some ''UNKNOWN'') = Inr (Some ''UNKNOWN'')"
    by code_simp+
  show ?thesis
    unfolding artifact_attributes_def MapServeModelAttributesEmbedMD_def MapServeModelNameEmbedMD_def
    by (simp add: opt_state_unknown(1) [OF assms(1)] opt_state_unknown(2) [OF assms(2)] known)
qed

subsection \<open>Examples\<close>

text \<open>A codec that knows one struct, the language list of the example model.\<close>

definition language_codec :: struct_codec where
  "language_codec = example_codec\<lparr>
     proto_marshal := (\<lambda>st. if st = convertToStruct [''en''] ''language'' then Some ''L'' else None),
     proto_unmarshal := (\<lambda>b. if b = ''L'' then Some (convertToStruct [''en''] ''language'') else None)\<rparr>"

definition example_rm :: "registered_model model_wrapper" where
  "example_rm = \<lparr>w_TypeId = 1, w_ParentResourceId = Some ''42'', w_Model = \<lparr>api_Id = Some (itoa 7), api_ExternalId = None, api_CustomProperties = [(''team'', mv_of_string ''ml'')],
     api_Description = Some ''d'', api_CreateTime = Some (itoa 1700000000000), api_LastUpdateTime = None,
     rm_Name = ''granite'', rm_Readme = None, rm_Maturity = None, rm_Language = Some [''en''], rm_Tasks =
     None, rm_Provider = Some ''ibm'', rm_Logo = None, rm_License = Some ''apache-2.0'', rm_LicenseLink =
     None, rm_LibraryName = None, rm_Owner = Some ''me'', rm_State = Some ''LIVE''\<rparr>\<rparr>"

definition example_mv :: "model_version model_wrapper" where
  "example_mv = \<lparr>w_TypeId = 1, w_ParentResourceId = Some ''42'', w_Model = \<lparr>api_Id = Some (itoa 7), api_ExternalId = None, api_CustomProperties = [(''team'', mv_of_string ''ml'')],
     api_Description = Some ''d'', api_CreateTime = Some (itoa 1700000000000), api_LastUpdateTime = None,
     ver_Name = ''v1:beta'', ver_State = None, ver_Author = Some ''me'', ver_RegisteredModelId = itoa 42\<rparr>\<rparr>"

definition example_se :: "serving_environment model_wrapper" where
  "example_se = \<lparr>w_TypeId = 1, w_ParentResourceId = Some ''42'', w_Model = \<lparr>api_Id = Some (itoa 7), api_ExternalId = None, api_CustomProperties = [(''team'', mv_of_string ''ml'')],
     api_Description = Some ''d'', api_CreateTime = Some (itoa 1700000000000), api_LastUpdateTime = None,
     env_Name = ''prod''\<rparr>\<rparr>"

definition example_is :: "inference_service model_wrapper" where
  "example_is = \<lparr>w_TypeId = 1, w_ParentResourceId = Some ''42'', w_Model = \<lparr>api_Id = Some (itoa 7), api_ExternalId = None, api_CustomProperties = [(''team'', mv_of_string ''ml'')],
     api_Description = Some ''d'', api_CreateTime = Some (itoa 1700000000000), api_LastUpdateTime = None,
     inf_Name = None, inf_ModelVersionId = Some (itoa 3), inf_Runtime = None, inf_DesiredState = Some
     ''DEPLOYED'', inf_RegisteredModelId = itoa 42, inf_ServingEnvironmentId = itoa 5\<rparr>\<rparr>"

definition example_xp :: "xp_entity model_wrapper" where
  "example_xp = \<lparr>w_TypeId = 1, w_ParentResourceId = Some ''42'', w_Model = \<lparr>api_Id = Some (itoa 7), api_ExternalId = None, api_CustomProperties = [(''team'', mv_of_string ''ml'')],
     api_Description = Some ''d'', api_CreateTime = Some (itoa 1700000000000), api_LastUpdateTime = None,
     xp_Name = ''tuning'', xp_Owner = None, xp_State = Some ''ARCHIVED''\<rparr>\<rparr>"

definition example_xr :: "experiment_run model_wrapper" where
  "example_xr = \<lparr>w_TypeId = 1, w_ParentResourceId = Some ''42'', w_Model = \<lparr>api_Id = Some (itoa 7), api_ExternalId = None, api_CustomProperties = [(''team'', mv_of_string ''ml'')],
     api_Description = Some ''d'', api_CreateTime = Some (itoa 1700000000000), api_LastUpdateTime = None,
     run_Name = Some ''run 1'', run_EndTime = None, run_Status = Some ''RUNNING'', run_State = None, run_Owner
     = None, run_ExperimentId = itoa 8, run_StartTime = Some ''12''\<rparr>\<rparr>"

definition example_sm :: "serve_model model_wrapper" where
  "example_sm = \<lparr>w_TypeId = 1, w_ParentResourceId = Some ''42'', w_Model = \<lparr>api_Id = Some (itoa 7), api_ExternalId = None, api_CustomProperties = [(''team'', mv_of_string ''ml'')],
     api_Description = Some ''d'', api_CreateTime = Some (itoa 1700000000000), api_LastUpdateTime = None,
     srv_Name = None, srv_LastKnownState = Some ''RUNNING'', srv_ModelVersionId = itoa 3\<rparr>\<rparr>"

definition example_ma :: "model_artifact model_wrapper" where
  "example_ma = \<lparr>w_TypeId = 1, w_ParentResourceId = Some ''42'', w_Model = \<lparr>api_Id = Some (itoa 7), api_ExternalId = None, api_CustomProperties = [(''team'', mv_of_string ''ml'')],
     api_Description = Some ''d'', api_CreateTime = Some (itoa 1700000000000), api_LastUpdateTime = None,
     art_Name = Some ''a'', art_ExperimentId = None, art_ExperimentRunId = None, art_ArtifactType = None,
     art_State = Some ''LIVE'', ma_Uri = Some ''s3://b/m'', ma_ModelFormatName = Some ''onnx'',
     ma_ModelFormatVersion = None, ma_StorageKey = None, ma_StoragePath = None, ma_ServiceAccountName =
     None, ma_ModelSourceKind = None, ma_ModelSourceClass = None, ma_ModelSourceGroup = None,
     ma_ModelSourceId = None, ma_ModelSourceName = None\<rparr>\<rparr>"

definition example_da :: "doc_artifact model_wrapper" where
  "example_da = \<lparr>w_TypeId = 1, w_ParentResourceId = Some ''42'', w_Model = \<lparr>api_Id = Some (itoa 7), api_ExternalId = None, api_CustomProperties = [(''team'', mv_of_string ''ml'')],
     api_Description = Some ''d'', api_CreateTime = Some (itoa 1700000000000), api_LastUpdateTime = None,
     art_Name = Some ''a'', art_ExperimentId = None, art_ExperimentRunId = None, art_ArtifactType = None,
     art_State = Some ''LIVE'', doc_Uri = None\<rparr>\<rparr>"

definition example_ds :: "data_set model_wrapper" where
  "example_ds = \<lparr>w_TypeId = 1, w_ParentResourceId = Some ''42'', w_Model = \<lparr>api_Id = Some (itoa 7), api_ExternalId = None, api_CustomProperties = [(''team'', mv_of_string ''ml'')],
     api_Description = Some ''d'', api_CreateTime = Some (itoa 1700000000000), api_LastUpdateTime = None,
     art_Name = Some ''a'', art_ExperimentId = None, art_ExperimentRunId = None, art_ArtifactType = None,
     art_State = Some ''LIVE'', ds_Uri = None, ds_Digest = Some ''abc'', ds_SourceType = None, ds_Source
     = None, ds_Schema = None, ds_Profile = None\<rparr>\<rparr>"

definition example_mt :: "metric model_wrapper" where
  "example_mt = \<lparr>w_TypeId = 1, w_ParentResourceId = Some ''42'', w_Model = \<lparr>api_Id = Some (itoa 7), api_ExternalId = None, api_CustomProperties = [(''team'', mv_of_string ''ml'')],
     api_Description = Some ''d'', api_CreateTime = Some (itoa 1700000000000), api_LastUpdateTime = None,
     art_Name = Some ''a'', art_ExperimentId = None, art_ExperimentRunId = None, art_ArtifactType = None,
     art_State = Some ''LIVE'', met_Value = None, met_Timestamp = Some ''12'', met_Step = Some 4294967296\<rparr>\<rparr>"

definition example_pm :: "parameter model_wrapper" where
  "example_pm = \<lparr>w_TypeId = 1, w_ParentResourceId = Some ''42'', w_Model = \<lparr>api_Id = Some (itoa 7), api_ExternalId = None, api_CustomProperties = [(''team'', mv_of_string ''ml'')],
     api_Description = Some ''d'', api_CreateTime = Some (itoa 1700000000000), api_LastUpdateTime = None,
     art_Name = Some ''a'', art_ExperimentId = None, art_ExperimentRunId = None, art_ArtifactType = None,
     art_State = Some ''LIVE'', par_Value = Some ''0.1'', par_ParameterType = Some ''number''\<rparr>\<rparr>"

lemmas example_defs = example_rm_def example_mv_def example_se_def example_is_def example_xp_def example_xr_def example_sm_def example_ma_def example_da_def example_ds_def example_mt_def example_pm_def

lemma example_scalar [simp]: "scalar_value (mv_of_string ''ml'')"
  by (rule scalar_intros) (simp add: hasPrefix_def mlmdStructPrefix_def)

lemma canonical_itoa [simp]:
  "int32_range i \<Longrightarrow> canonical_int 32 (itoa i)"
  "- (2 ^ 63) \<le> n \<Longrightarrow> n < 2 ^ 63 \<Longrightarrow> canonical_int 64 (itoa n)"
  using parse_int_itoa [of 32 i] parse_int_itoa [of 64 n] by (simp_all add: canonical_int_def int32_range_def)

lemma examples_ok:
  "registered_model_ok language_codec (w_Model example_rm)" "model_version_ok ''u'' example_mv"
  "serving_environment_ok example_se" "inference_service_ok ''n'' ''u'' example_is" "experiment_ok example_xp"
  "experiment_run_ok ''n'' ''u'' example_xr" "serve_model_ok ''n'' ''u'' example_sm"
  "artifact_ok ''n'' ''u'' example_ma" "artifact_ok ''n'' ''u'' example_da" "artifact_ok ''n'' ''u'' example_ds"
  "artifact_ok ''n'' ''u'' example_mt" "artifact_ok ''n'' ''u'' example_pm"
  by (simp_all add: example_defs registered_model_ok_def model_version_ok_def serving_environment_ok_def
      inference_service_ok_def experiment_ok_def experiment_run_ok_def serve_model_ok_def artifact_ok_def
      base_ok_def slice_ok_def language_codec_def reserved_key_def int32_range_def ArtifactStateMapping_def
      ExecutionStateMapping_def)

lemma example_type:
  "opt_all (\<lambda>t. t \<in> set [''string'', ''number'', ''boolean'', ''object'']) (par_ParameterType (w_Model example_pm))"
  by (simp add: example_pm_def)

theorem contexts_roundtrip_witness:
  "(\<exists>e. ConvertRegisteredModel language_codec example_rm = Inr e
         \<and> reads_back (ReadRegisteredModel language_codec) e (w_Model example_rm))
    \<and> (\<exists>e. ConvertModelVersion language_codec ''u'' example_mv = Inr e
         \<and> reads_back (ReadModelVersion language_codec) e (w_Model example_mv))
    \<and> (\<exists>e. ConvertServingEnvironment language_codec example_se = Inr e
         \<and> reads_back (ReadServingEnvironment language_codec) e (w_Model example_se))
    \<and> (\<exists>e. ConvertInferenceService language_codec ''n'' ''u'' example_is = Inr e
         \<and> reads_back (ReadInferenceService language_codec) e
         ((w_Model example_is)\<lparr>inf_Name := Some (case inf_Name (w_Model example_is) of None \<Rightarrow> ''n'' | Some n \<Rightarrow> n)\<rparr>))
    \<and> (\<exists>e. ConvertExperiment language_codec example_xp = Inr e
         \<and> reads_back (ReadExperiment language_codec) e (w_Model example_xp))
    \<and> (\<exists>e. ConvertExperimentRun language_codec ''n'' ''u'' example_xr = Inr e
         \<and> reads_back (ReadExperimentRun language_codec) e
         ((w_Model example_xr)\<lparr>run_Name := Some (case run_Name (w_Model example_xr) of None \<Rightarrow> ''n'' | Some n \<Rightarrow> n)\<rparr>))
    \<and> (\<exists>e. ConvertServeModel language_codec ''n'' ''u'' example_sm = Inr e
         \<and> reads_back (ReadServeModel language_codec) e
         ((w_Model example_sm)\<lparr>srv_Name := Some (case srv_Name (w_Model example_sm) of None \<Rightarrow> ''n'' | Some n \<Rightarrow> n)\<rparr>))"
  by (rule contexts_roundtrip) (rule examples_ok)+

theorem artifacts_roundtrip_witness:
  "(\<exists>e. ConvertModelArtifact language_codec ''n'' ''u'' example_ma = Inr e
        \<and> reads_back (ReadModelArtifact language_codec) e (read_artifact ''n'' ''model-artifact'' (w_Model example_ma)))
    \<and> (\<exists>e. ConvertDocArtifact language_codec ''n'' ''u'' example_da = Inr e
        \<and> reads_back (ReadDocArtifact language_codec) e (read_artifact ''n'' ''doc-artifact'' (w_Model example_da)))
    \<and> (\<exists>e. ConvertDataSet language_codec ''n'' ''u'' example_ds = Inr e
        \<and> reads_back (ReadDataSet language_codec) e (read_artifact ''n'' ''dataset-artifact'' (w_Model example_ds)))
    \<and> (\<exists>e. ConvertMetric language_codec ''n'' ''u'' example_mt = Inr e
        \<and> reads_back (ReadMetric language_codec) e ((read_artifact ''n'' ''metric'' (w_Model example_mt))
            \<lparr>met_Step := map_option to_int32 (met_Step (w_Model example_mt))\<rparr>))
    \<and> (\<exists>e. ConvertParameter language_codec ''n'' ''u'' example_pm = Inr e
        \<and> reads_back (ReadParameter language_codec) e (read_artifact ''n'' ''parameter'' (w_Model example_pm)))"
  by (rule artifacts_roundtrip) (rule examples_ok example_type)+

theorem metric_step_wraps_witness:
  "\<exists>e. ConvertMetric language_codec ''n'' ''u'' example_mt = Inr e
      \<and> reads_back (ReadMetric language_codec) e ((read_artifact ''n'' ''metric'' (w_Model example_mt))
           \<lparr>met_Step := Some 0\<rparr>)"
  using metric_step_wraps [OF examples_ok(11), of 4294967296 language_codec]
  by (simp add: example_mt_def to_int32_def)

theorem unknown_state_accepted_witness:
  "artifact_attributes ''n'' ''u'' None (example_da\<lparr>w_Model := (w_Model example_da)\<lparr>art_State := Some ''LIV''\<rparr>\<rparr>)
      = artifact_attributes ''n'' ''u'' None (example_da\<lparr>w_Model := (w_Model example_da)\<lparr>art_State := Some ''UNKNOWN''\<rparr>\<rparr>)"
  by (rule unknown_state_accepted [of "''LIV''" "''STUCK''", THEN conjunct1])
    (simp_all add: ArtifactStateMapping_def ExecutionStateMapping_def)

end
