(* ===== verification/Leader_Election.thy ===== *)
theory Leader_Election
  imports Prelude "HOL-Library.Multiset"
begin

text \<open>
  Leader election of the catalog (\<open>catalog/internal/leader/election.go\<close>): the state of a \<open>LeaderElector\<close>, the
  steps of its background loop between two synchronisation points, and the steps of its surroundings: the
  base context is cancelled, a callback is registered, a callback returns. The lock client of \<open>pglock\<close> is not
  part of the sources: its answers are the labels of the steps.

  Durations are whole seconds. A leader context is a number, the term it belongs to.
\<close>

subsection \<open>Backoff\<close>

record backoff =
  bo_current :: nat
  bo_max :: nat

definition newBackoff :: backoff where
  "newBackoff = \<lparr>bo_current = 1, bo_max = 30\<rparr>"

text \<open>\<open>next\<close> returns the delay and the doubled state.\<close>

definition backoff_next :: "backoff \<Rightarrow> nat \<times> backoff" where
  "backoff_next b = (bo_current b, b\<lparr>bo_current := min (bo_current b * 2) (bo_max b)\<rparr>)"

definition backoff_reset :: "backoff \<Rightarrow> backoff" where
  "backoff_reset b = b\<lparr>bo_current := 1\<rparr>"

subsection \<open>State\<close>

text \<open>The errors the loop tells apart: cancelled, schema lost (SQLSTATE 42P01), and any other.\<close>

datatype run_error = Canceled | SchemaLost | OtherError

datatype drain_reason = Graceful | Lost run_error

datatype stop_reason = StopCanceled | StopContext | StopFatal | StopRecoveryFailed

datatype phase =
    LoopTop
  | Acquiring
  | Launching "nat list"
  | Leading
  | Draining drain_reason
  | Drained drain_reason
  | Retrying nat
  | Stopped stop_reason

text \<open>
  A callback is its index in \<open>onBecomeLeader\<close>. \<open>el_pending\<close> are the callbacks \<open>OnBecomeLeader\<close> has decided
  to start and not yet started, \<open>el_running\<close> what the wait group counts. \<open>el_started\<close> (the callbacks started
  so far, with their term), \<open>el_term\<close> and \<open>el_locked\<close> (the lock has been acquired and neither released nor
  reported lost) are history that the code does not keep.
\<close>

record elector =
  el_phase :: phase
  el_ctxDone :: bool
  el_callbacks :: nat
  el_isLeader :: bool
  el_leaderCtx :: "nat option"
  el_cancelled :: "nat set"
  el_pending :: "(nat \<times> nat) list"
  el_running :: "(nat \<times> nat) list"
  el_dbReachable :: bool
  el_failures :: int
  el_threshold :: int
  el_backoff :: backoff
  el_term :: nat
  el_locked :: bool
  el_started :: "(nat \<times> nat) list"

definition defaultUnhealthyThreshold :: int where
  "defaultUnhealthyThreshold = 3"

text \<open>The elector \<open>NewLeaderElector\<close> returns: the schema exists, so the database has been reached.\<close>

definition new_elector :: elector where
  "new_elector = \<lparr>el_phase = LoopTop, el_ctxDone = False, el_callbacks = 0, el_isLeader = False,
     el_leaderCtx = None, el_cancelled = {}, el_pending = [], el_running = [], el_dbReachable = True,
     el_failures = 0, el_threshold = defaultUnhealthyThreshold, el_backoff = newBackoff,
     el_term = 0, el_locked = False, el_started = []\<rparr>"

definition Healthy :: "elector \<Rightarrow> bool" where
  "Healthy e = (el_dbReachable e \<and> el_failures e < el_threshold e)"

text \<open>A leader context is derived from the base context.\<close>

definition ctx_alive :: "elector \<Rightarrow> nat \<Rightarrow> bool" where
  "ctx_alive e t = (t \<notin> el_cancelled e \<and> \<not> el_ctxDone e)"

subsection \<open>Operations\<close>

definition cancel_leader :: "elector \<Rightarrow> elector" where
  "cancel_leader e = e\<lparr>el_cancelled := insert (el_term e) (el_cancelled e)\<rparr>"

definition start_callback :: "nat \<times> nat \<Rightarrow> elector \<Rightarrow> elector" where
  "start_callback c e = e\<lparr>el_running := c # el_running e, el_started := c # el_started e\<rparr>"

text \<open>\<open>OnBecomeLeader\<close>, the part under the mutex.\<close>

definition OnBecomeLeader :: "elector \<Rightarrow> elector" where
  "OnBecomeLeader e =
     (let e' = e\<lparr>el_callbacks := el_callbacks e + 1\<rparr>
      in case el_leaderCtx e of
           Some t \<Rightarrow> if el_isLeader e then e'\<lparr>el_pending := (el_callbacks e, t) # el_pending e\<rparr> else e'
         | None \<Rightarrow> e')"

text \<open>The start of \<open>runOnce\<close> after the lock has been acquired.\<close>

definition become_leader :: "elector \<Rightarrow> elector" where
  "become_leader e = e\<lparr>el_dbReachable := True, el_failures := 0, el_term := Suc (el_term e),
     el_isLeader := True, el_leaderCtx := Some (Suc (el_term e)), el_locked := True,
     el_phase := Launching [0..<el_callbacks e]\<rparr>"

definition clear_leadership :: "elector \<Rightarrow> elector" where
  "clear_leadership e = e\<lparr>el_isLeader := False, el_leaderCtx := None, el_locked := False\<rparr>"

text \<open>
  What \<open>run\<close> does with the error of \<open>runOnce\<close>. The reset function is absent (\<open>None\<close>) or succeeds or fails.
\<close>

definition handle_error :: "bool option \<Rightarrow> run_error \<Rightarrow> elector \<Rightarrow> elector" where
  "handle_error reset err e =
     (if err = Canceled then e\<lparr>el_phase := Stopped StopCanceled\<rparr>
      else if el_ctxDone e then e\<lparr>el_phase := Stopped StopContext\<rparr>
      else if err = SchemaLost then
        (case reset of
           None \<Rightarrow> e\<lparr>el_phase := Stopped StopFatal\<rparr>
         | Some False \<Rightarrow> e\<lparr>el_failures := to_int32 (el_failures e + 1), el_phase := Stopped StopRecoveryFailed\<rparr>
         | Some True \<Rightarrow>
             (let (delay, b) = backoff_next (backoff_reset (el_backoff e))
              in e\<lparr>el_failures := 0, el_backoff := b, el_phase := Retrying delay\<rparr>))
      else
        (let (delay, b) = backoff_next (el_backoff e)
         in e\<lparr>el_failures := to_int32 (el_failures e + 1), el_backoff := b, el_phase := Retrying delay\<rparr>))"

text \<open>The error \<open>runOnce\<close> returns after a drain: that of the context, or the one of the heartbeat wrapped.\<close>

definition drain_error :: "drain_reason \<Rightarrow> run_error" where
  "drain_error r = (case r of Graceful \<Rightarrow> Canceled | Lost err \<Rightarrow> err)"

subsection \<open>Steps\<close>

datatype event =
    Loop
  | Acquired
  | AcquireFailed run_error "bool option"
  | Launch
  | SelectDone
  | HeartbeatOk
  | HeartbeatLost run_error
  | Waited
  | Cleared "bool option"
  | DelayOver
  | DelayCanceled
  | CancelBase
  | Register
  | LaunchPending "nat \<times> nat"
  | CallbackDone "nat \<times> nat"

text \<open>The step of an event, \<open>None\<close> where it cannot happen.\<close>

fun elector_step :: "event \<Rightarrow> elector \<Rightarrow> elector option" where
  "elector_step Loop e = (if el_phase e \<noteq> LoopTop then None
     else if el_ctxDone e then Some (e\<lparr>el_phase := Stopped StopContext\<rparr>)
     else Some (e\<lparr>el_phase := Acquiring\<rparr>))"
| "elector_step Acquired e = (if el_phase e = Acquiring then Some (become_leader e) else None)"
| "elector_step (AcquireFailed err reset) e =
     (if el_phase e = Acquiring then Some (handle_error reset err e) else None)"
| "elector_step Launch e =
     (case el_phase e of
        Launching [] \<Rightarrow> Some (e\<lparr>el_phase := Leading\<rparr>)
      | Launching (c # cs) \<Rightarrow> Some ((start_callback (c, el_term e) e)\<lparr>el_phase := Launching cs\<rparr>)
      | _ \<Rightarrow> None)"
| "elector_step SelectDone e = (if el_phase e = Leading \<and> el_ctxDone e
     then Some ((cancel_leader e)\<lparr>el_phase := Draining Graceful\<rparr>) else None)"
| "elector_step HeartbeatOk e = (if el_phase e = Leading then Some e else None)"
| "elector_step (HeartbeatLost err) e = (if el_phase e = Leading
     then Some ((cancel_leader e)\<lparr>el_phase := Draining (Lost err), el_locked := False\<rparr>) else None)"
| "elector_step Waited e =
     (case el_phase e of
        Draining r \<Rightarrow> if el_running e = [] then Some (e\<lparr>el_phase := Drained r\<rparr>) else None
      | _ \<Rightarrow> None)"
| "elector_step (Cleared reset) e =
     (case el_phase e of
        Drained r \<Rightarrow> Some (handle_error reset (drain_error r) (clear_leadership e))
      | _ \<Rightarrow> None)"
| "elector_step DelayOver e =
     (case el_phase e of
        Retrying d \<Rightarrow> Some (e\<lparr>el_phase := LoopTop\<rparr>)
      | _ \<Rightarrow> None)"
| "elector_step DelayCanceled e =
     (case el_phase e of
        Retrying d \<Rightarrow> if el_ctxDone e then Some (e\<lparr>el_phase := Stopped StopContext\<rparr>) else None
      | _ \<Rightarrow> None)"
| "elector_step CancelBase e = (if el_ctxDone e then None else Some (e\<lparr>el_ctxDone := True\<rparr>))"
| "elector_step Register e = Some (OnBecomeLeader e)"
| "elector_step (LaunchPending c) e = (if c \<in> set (el_pending e)
     then Some ((start_callback c e)\<lparr>el_pending := remove1 c (el_pending e)\<rparr>) else None)"
| "elector_step (CallbackDone c) e = (if c \<in> set (el_running e)
     then Some (e\<lparr>el_running := remove1 c (el_running e)\<rparr>) else None)"

inductive reachable :: "elector \<Rightarrow> bool" where
  start: "reachable new_elector"
| step: "reachable e \<Longrightarrow> elector_step ev e = Some e' \<Longrightarrow> reachable e'"

subsection \<open>Invariants\<close>

fun in_term :: "phase \<Rightarrow> bool" where
  "in_term (Launching cs) = True"
| "in_term Leading = True"
| "in_term _ = False"

fun in_run_once :: "phase \<Rightarrow> bool" where
  "in_run_once (Draining r) = True"
| "in_run_once (Drained r) = True"
| "in_run_once p = in_term p"

fun to_launch :: "phase \<Rightarrow> nat list" where
  "to_launch (Launching cs) = cs"
| "to_launch _ = []"

lemma handle_error_fields [simp]:
  "el_ctxDone (handle_error r err e) = el_ctxDone e" "el_callbacks (handle_error r err e) = el_callbacks e"
  "el_isLeader (handle_error r err e) = el_isLeader e" "el_leaderCtx (handle_error r err e) = el_leaderCtx e"
  "el_cancelled (handle_error r err e) = el_cancelled e" "el_pending (handle_error r err e) = el_pending e"
  "el_running (handle_error r err e) = el_running e" "el_term (handle_error r err e) = el_term e"
  "el_started (handle_error r err e) = el_started e" "el_locked (handle_error r err e) = el_locked e"
  "el_threshold (handle_error r err e) = el_threshold e" "el_dbReachable (handle_error r err e) = el_dbReachable e"
  by (auto simp: handle_error_def Let_def backoff_next_def split: option.split bool.split)

lemma handle_error_phase [simp]:
  "\<not> in_run_once (el_phase (handle_error r err e))" "\<not> in_term (el_phase (handle_error r err e))"
  "to_launch (el_phase (handle_error r err e)) = []"
  by (auto simp: handle_error_def Let_def backoff_next_def split: option.split bool.split)

lemma in_term_in_run_once: "in_term p \<Longrightarrow> in_run_once p"
  by (cases p) simp_all

text \<open>The leadership flags follow the phase; the lock is held through the term.\<close>

definition leader_inv :: "elector \<Rightarrow> bool" where
  "leader_inv e \<longleftrightarrow> el_isLeader e = in_run_once (el_phase e)
     \<and> el_leaderCtx e = (if in_run_once (el_phase e) then Some (el_term e) else None)
     \<and> (in_run_once (el_phase e) \<longrightarrow> 1 \<le> el_term e) \<and> (in_term (el_phase e) \<longrightarrow> el_locked e)"

text \<open>All contexts are cancelled but that of a term that is neither over nor draining.\<close>

definition cancel_inv :: "elector \<Rightarrow> bool" where
  "cancel_inv e \<longleftrightarrow> el_cancelled e = {1..el_term e} - (if in_term (el_phase e) then {el_term e} else {})"

definition ids_inv :: "elector \<Rightarrow> bool" where
  "ids_inv e \<longleftrightarrow> (\<forall>c \<in> set (el_running e) \<union> set (el_pending e). 1 \<le> snd c \<and> snd c \<le> el_term e)"

text \<open>Callbacks: each is started at most once per term, and in a term none is forgotten.\<close>

definition all_starts :: "elector \<Rightarrow> (nat \<times> nat) list" where
  "all_starts e = el_started e @ el_pending e @ map (\<lambda>i. (i, el_term e)) (to_launch (el_phase e))"

definition callback_inv :: "elector \<Rightarrow> bool" where
  "callback_inv e \<longleftrightarrow> distinct (all_starts e)
     \<and> (\<forall>c \<in> set (all_starts e). fst c < el_callbacks e \<and> snd c \<le> el_term e)
     \<and> (in_term (el_phase e) \<longrightarrow> (\<forall>i < el_callbacks e. (i, el_term e) \<in> set (all_starts e)))"

definition backoff_inv :: "elector \<Rightarrow> bool" where
  "backoff_inv e \<longleftrightarrow> 1 \<le> bo_current (el_backoff e) \<and> bo_current (el_backoff e) \<le> 30
     \<and> bo_max (el_backoff e) = 30"

lemmas operation_defs = OnBecomeLeader_def become_leader_def clear_leadership_def cancel_leader_def
  start_callback_def Let_def

text \<open>The shapes of a step.\<close>

lemma step_cases [consumes 1]:
  assumes "elector_step ev e = Some e'"
  obtains (outside) p where "\<not> in_run_once (el_phase e)" "\<not> in_run_once p" "e' = e\<lparr>el_phase := p\<rparr>"
  | (acquired) "ev = Acquired" "el_phase e = Acquiring" "e' = become_leader e"
  | (failed) err r where "ev = AcquireFailed err r" "el_phase e = Acquiring" "e' = handle_error r err e"
  | (launch) c cs where "ev = Launch" "el_phase e = Launching (c # cs)"
      "e' = (start_callback (c, el_term e) e)\<lparr>el_phase := Launching cs\<rparr>"
  | (launched) "ev = Launch" "el_phase e = Launching []" "e' = e\<lparr>el_phase := Leading\<rparr>"
  | (select) "ev = SelectDone" "el_phase e = Leading" "el_ctxDone e"
      "e' = (cancel_leader e)\<lparr>el_phase := Draining Graceful\<rparr>"
  | (beat) "ev = HeartbeatOk" "el_phase e = Leading" "e' = e"
  | (lost) err where "ev = HeartbeatLost err" "el_phase e = Leading"
      "e' = (cancel_leader e)\<lparr>el_phase := Draining (Lost err), el_locked := False\<rparr>"
  | (waited) r where "ev = Waited" "el_phase e = Draining r" "el_running e = []" "e' = e\<lparr>el_phase := Drained r\<rparr>"
  | (cleared) r reset where "ev = Cleared reset" "el_phase e = Drained r"
      "e' = handle_error reset (drain_error r) (clear_leadership e)"
  | (cancel) "ev = CancelBase" "\<not> el_ctxDone e" "e' = e\<lparr>el_ctxDone := True\<rparr>"
  | (register) "ev = Register" "e' = OnBecomeLeader e"
  | (pending) c where "ev = LaunchPending c" "c \<in> set (el_pending e)"
      "e' = (start_callback c e)\<lparr>el_pending := remove1 c (el_pending e)\<rparr>"
  | (callback) c where "ev = CallbackDone c" "c \<in> set (el_running e)"
      "e' = e\<lparr>el_running := remove1 c (el_running e)\<rparr>"
proof (cases ev)
  case Loop
  with assms have p: "el_phase e = LoopTop"
    and e': "e' = e\<lparr>el_phase := if el_ctxDone e then Stopped StopContext else Acquiring\<rparr>"
    by (auto split: if_splits)
  from p show ?thesis by (intro outside [OF _ _ e']) auto
next
  case DelayOver
  with assms obtain d where p: "el_phase e = Retrying d" and e': "e' = e\<lparr>el_phase := LoopTop\<rparr>"
    by (auto split: phase.splits)
  from p show ?thesis by (intro outside [OF _ _ e']) auto
next
  case DelayCanceled
  with assms obtain d where p: "el_phase e = Retrying d" and e': "e' = e\<lparr>el_phase := Stopped StopContext\<rparr>"
    by (auto split: phase.splits if_splits)
  from p show ?thesis by (intro outside [OF _ _ e']) auto
next
  case Launch
  with assms show ?thesis by (auto split: phase.splits list.splits intro: launch launched)
next
  case Waited
  with assms show ?thesis by (auto split: phase.splits if_splits intro: waited)
next
  case (Cleared reset)
  with assms show ?thesis by (auto split: phase.splits intro: cleared)
next
  case Acquired
  with assms show ?thesis by (intro acquired) (simp_all split: if_splits)
next
  case (AcquireFailed err reset)
  with assms show ?thesis by (auto split: if_splits intro: failed)
next
  case SelectDone
  with assms show ?thesis by (intro select) (simp_all split: if_splits)
next
  case HeartbeatOk
  with assms show ?thesis by (intro beat) (simp_all split: if_splits)
next
  case (HeartbeatLost err)
  with assms show ?thesis by (auto split: if_splits intro: lost)
next
  case CancelBase
  with assms show ?thesis by (intro cancel) (simp_all split: if_splits)
next
  case Register
  with assms show ?thesis by (intro register) (simp_all split: if_splits)
next
  case (LaunchPending c)
  with assms show ?thesis by (auto split: if_splits intro: pending)
next
  case (CallbackDone c)
  with assms show ?thesis by (auto split: if_splits intro: callback)
qed

lemma leader_inv_step: "elector_step ev e = Some e' \<Longrightarrow> leader_inv e \<Longrightarrow> leader_inv e'"
  by (erule step_cases) (auto simp: leader_inv_def operation_defs in_term_in_run_once split: option.splits)

text \<open>What a registration does in a state whose flags follow the phase.\<close>

lemma OnBecomeLeader_inv:
  assumes "leader_inv e"
  shows "OnBecomeLeader e = e\<lparr>el_callbacks := el_callbacks e + 1,
    el_pending := (if in_run_once (el_phase e) then [(el_callbacks e, el_term e)] else []) @ el_pending e\<rparr>"
  using assms by (cases "in_run_once (el_phase e)") (simp_all add: OnBecomeLeader_def leader_inv_def)

lemma cancel_inv_step:
  assumes "elector_step ev e = Some e'" "leader_inv e" "cancel_inv e"
  shows "cancel_inv e'"
  using assms(1)
proof (cases rule: step_cases)
  case (outside p)
  with assms(3) show ?thesis by (auto simp: cancel_inv_def dest: in_term_in_run_once)
next
  case acquired
  with assms(3) have "el_cancelled e = {1..el_term e}" by (simp add: cancel_inv_def)
  moreover have "{1..el_term e} = {1..Suc (el_term e)} - {Suc (el_term e)}" by (simp add: atLeastAtMostSuc_conv)
  ultimately show ?thesis using acquired by (simp add: cancel_inv_def become_leader_def)
next
  case (failed err r)
  with assms(3) show ?thesis by (simp add: cancel_inv_def)
next
  case (launch c cs)
  with assms(3) show ?thesis by (simp add: cancel_inv_def start_callback_def)
next
  case launched
  with assms(3) show ?thesis by (simp add: cancel_inv_def)
next
  case select
  with assms(2,3) have "el_cancelled e = {1..el_term e} - {el_term e}" "1 \<le> el_term e"
    by (simp_all add: cancel_inv_def leader_inv_def)
  then have "insert (el_term e) (el_cancelled e) = {1..el_term e}" by (simp add: insert_absorb insert_Diff)
  with select show ?thesis by (simp add: cancel_inv_def cancel_leader_def)
next
  case beat
  with assms(3) show ?thesis by simp
next
  case (lost err)
  with assms(2,3) have "el_cancelled e = {1..el_term e} - {el_term e}" "1 \<le> el_term e"
    by (simp_all add: cancel_inv_def leader_inv_def)
  then have "insert (el_term e) (el_cancelled e) = {1..el_term e}" by (simp add: insert_absorb insert_Diff)
  with lost show ?thesis by (simp add: cancel_inv_def cancel_leader_def)
next
  case (waited r)
  with assms(3) show ?thesis by (simp add: cancel_inv_def)
next
  case (cleared r reset)
  with assms(3) show ?thesis by (simp add: cancel_inv_def clear_leadership_def)
next
  case cancel
  with assms(3) show ?thesis by (simp add: cancel_inv_def)
next
  case register
  with assms(3) OnBecomeLeader_inv [OF assms(2)] show ?thesis by (simp add: cancel_inv_def)
next
  case (pending c)
  with assms(3) show ?thesis by (simp add: cancel_inv_def start_callback_def)
next
  case (callback c)
  with assms(3) show ?thesis by (simp add: cancel_inv_def)
qed

text \<open>The running and the pending callbacks of a step come from those before it, or are new in the current term.\<close>

lemma step_ids:
  assumes "elector_step ev e = Some e'" "leader_inv e"
  shows "set (el_running e') \<union> set (el_pending e')
    \<subseteq> set (el_running e) \<union> set (el_pending e) \<union> {c. in_run_once (el_phase e) \<and> snd c = el_term e}"
  using assms(1)
proof (cases rule: step_cases)
  case register
  then show ?thesis by (auto simp: OnBecomeLeader_inv [OF assms(2)])
next
  case (launch c cs)
  then show ?thesis by (auto simp: start_callback_def)
next
  case (pending c)
  then show ?thesis using set_remove1_subset [of c "el_pending e"] by (auto simp: start_callback_def)
next
  case (callback c)
  then show ?thesis using set_remove1_subset [of c "el_running e"] by auto
qed (simp_all add: become_leader_def cancel_leader_def clear_leadership_def)

lemma step_term: "elector_step ev e = Some e' \<Longrightarrow> el_term e \<le> el_term e'"
  by (erule step_cases) (simp_all add: operation_defs split: option.split)

lemma ids_inv_step:
  assumes "elector_step ev e = Some e'" "leader_inv e" "ids_inv e"
  shows "ids_inv e'"
proof -
  have "1 \<le> snd c \<and> snd c \<le> el_term e" if "c \<in> set (el_running e') \<union> set (el_pending e')" for c
  proof -
    from that step_ids [OF assms(1,2)] consider "c \<in> set (el_running e) \<union> set (el_pending e)"
      | "in_run_once (el_phase e)" "snd c = el_term e" by blast
    then show ?thesis
    proof cases
      case 1
      with assms(3) show ?thesis by (simp add: ids_inv_def)
    next
      case 2
      with assms(2) show ?thesis by (simp add: leader_inv_def)
    qed
  qed
  with step_term [OF assms(1)] show ?thesis unfolding ids_inv_def by (meson le_trans)
qed

text \<open>The callbacks started, pending and to launch of a step are those before it, or there is one more registered
  in the current term, or a new term begins.\<close>

lemma step_starts:
  assumes "elector_step ev e = Some e'" "leader_inv e"
  obtains (same) "mset (all_starts e') = mset (all_starts e)" "el_callbacks e \<le> el_callbacks e'"
      "el_term e' = el_term e" "in_term (el_phase e') \<longrightarrow> in_term (el_phase e) \<and> el_callbacks e' = el_callbacks e"
  | (registered) "mset (all_starts e') = add_mset (el_callbacks e, el_term e) (mset (all_starts e))"
      "el_callbacks e' = Suc (el_callbacks e)" "el_term e' = el_term e" "in_term (el_phase e') = in_term (el_phase e)"
  | (begun) "mset (all_starts e') = mset (all_starts e) + mset (map (\<lambda>i. (i, el_term e')) [0..<el_callbacks e])"
      "el_callbacks e' = el_callbacks e" "el_term e' = Suc (el_term e)"
  using assms(1)
proof (cases rule: step_cases)
  case (outside p)
  then have "to_launch (el_phase e) = []" "to_launch p = []" by (cases "el_phase e"; cases p; simp)+
  with outside show ?thesis by (intro same) (simp_all add: all_starts_def, use in_term_in_run_once in blast)
next
  case acquired
  then show ?thesis by (intro begun) (simp_all add: all_starts_def become_leader_def)
next
  case (launch c cs)
  then show ?thesis by (intro same) (simp_all add: all_starts_def start_callback_def)
next
  case register
  show ?thesis
  proof (cases "in_run_once (el_phase e)")
    case True
    with register OnBecomeLeader_inv [OF assms(2)] show ?thesis
      by (intro registered) (simp_all add: all_starts_def)
  next
    case False
    with register OnBecomeLeader_inv [OF assms(2)] in_term_in_run_once show ?thesis
      by (intro same) (auto simp: all_starts_def)
  qed
next
  case (pending c)
  then have "mset (el_pending e) = add_mset c (mset (remove1 c (el_pending e)))" by simp
  with pending show ?thesis by (intro same) (simp_all add: all_starts_def start_callback_def)
next
  case (failed err r)
  then show ?thesis by (intro same) (simp_all add: all_starts_def)
next
  case (cleared r reset)
  then show ?thesis by (intro same) (simp_all add: all_starts_def clear_leadership_def)
qed (auto intro!: same simp: all_starts_def cancel_leader_def)

lemma callback_inv_step:
  assumes "elector_step ev e = Some e'" "leader_inv e" "callback_inv e"
  shows "callback_inv e'"
  using assms(1,2)
proof (cases rule: step_starts)
  case same
  from same(1) have "set (all_starts e') = set (all_starts e)" "distinct (all_starts e') = distinct (all_starts e)"
    by (rule mset_eq_setD, rule mset_eq_imp_distinct_iff)
  with same(2-4) assms(3) show ?thesis by (auto simp: callback_inv_def)
next
  case registered
  let ?c = "(el_callbacks e, el_term e)"
  have m: "mset (all_starts e') = mset (?c # all_starts e)" using registered(1) by simp
  from m have "set (all_starts e') = set (?c # all_starts e)" "distinct (all_starts e') = distinct (?c # all_starts e)"
    by (rule mset_eq_setD, rule mset_eq_imp_distinct_iff)
  with registered(2-4) assms(3) show ?thesis by (auto simp: callback_inv_def less_Suc_eq)
next
  case begun
  let ?new = "map (\<lambda>i. (i, el_term e')) [0..<el_callbacks e]"
  have m: "mset (all_starts e') = mset (all_starts e @ ?new)" using begun(1) by simp
  have eqs: "set (all_starts e') = set (all_starts e @ ?new)" "distinct (all_starts e') = distinct (all_starts e @ ?new)"
    using m by (rule mset_eq_setD, rule mset_eq_imp_distinct_iff)
  have old: "c \<in> set (all_starts e) \<Longrightarrow> fst c < el_callbacks e \<and> snd c \<le> el_term e" for c
    using assms(3) by (simp add: callback_inv_def)
  have "distinct (all_starts e @ ?new)"
    using assms(3) begun(3) by (fastforce simp: callback_inv_def distinct_map inj_on_def dest: old)
  moreover have "fst c < el_callbacks e' \<and> snd c \<le> el_term e'" if "c \<in> set (all_starts e @ ?new)" for c
    using that old [of c] begun(2,3) by auto
  moreover have "(i, el_term e') \<in> set (all_starts e @ ?new)" if "i < el_callbacks e'" for i
    using that begun(2) by auto
  ultimately show ?thesis using eqs by (simp add: callback_inv_def)
qed

lemma backoff_inv_step:
  assumes "elector_step ev e = Some e'" "backoff_inv e"
  shows "backoff_inv e'"
  using assms
  by (cases rule: step_cases)
    (auto simp: backoff_inv_def operation_defs handle_error_def backoff_next_def backoff_reset_def
      split: option.splits bool.splits)

text \<open>Every reachable state satisfies the invariants.\<close>

lemma reachable_inv:
  "reachable e \<Longrightarrow> leader_inv e \<and> cancel_inv e \<and> ids_inv e \<and> callback_inv e \<and> backoff_inv e"
proof (induction rule: reachable.induct)
  case start
  show ?case
    by (simp add: leader_inv_def cancel_inv_def ids_inv_def callback_inv_def backoff_inv_def all_starts_def
        new_elector_def newBackoff_def)
next
  case (step e ev e')
  then show ?case
    using leader_inv_step cancel_inv_step ids_inv_step callback_inv_step backoff_inv_step by blast
qed

lemmas reachable_leader = reachable_inv [THEN conjunct1]
lemmas reachable_cancel = reachable_inv [THEN conjunct2, THEN conjunct1]
lemmas reachable_ids = reachable_inv [THEN conjunct2, THEN conjunct2, THEN conjunct1]
lemmas reachable_callback = reachable_inv [THEN conjunct2, THEN conjunct2, THEN conjunct2, THEN conjunct1]
lemmas reachable_backoff = reachable_inv [THEN conjunct2, THEN conjunct2, THEN conjunct2, THEN conjunct2]

subsection \<open>Callbacks and the lock\<close>

lemma live_term:
  assumes "cancel_inv e" "ids_inv e" "c \<in> set (el_running e)" "ctx_alive e (snd c)"
  shows "snd c = el_term e \<and> in_term (el_phase e)"
proof -
  have "1 \<le> snd c \<and> snd c \<le> el_term e" using assms(2,3) by (simp add: ids_inv_def)
  moreover have "snd c \<notin> el_cancelled e" using assms(4) by (simp add: ctx_alive_def)
  ultimately show ?thesis using assms(1) by (auto simp: cancel_inv_def split: if_splits)
qed

text \<open>
  C8. In every state the elector can reach, a callback that is running on a context not yet cancelled belongs to the
  current term, the instance is leader with that very context, and it holds the lock: no callback of a lost or
  released leadership still runs on a live context, whatever the interleaving of the loop with registrations,
  shutdown and the ends of callbacks.
\<close>

theorem live_callbacks_hold_lock:
  assumes "reachable e" "c \<in> set (el_running e)" "ctx_alive e (snd c)"
  shows "el_isLeader e \<and> el_leaderCtx e = Some (snd c) \<and> el_locked e \<and> \<not> el_ctxDone e"
proof -
  have "snd c = el_term e" "in_term (el_phase e)"
    using live_term [OF reachable_cancel reachable_ids assms(2,3)] assms(1) by blast+
  moreover have "\<not> el_ctxDone e" using assms(3) by (simp add: ctx_alive_def)
  ultimately show ?thesis
    using reachable_leader [OF assms(1)] in_term_in_run_once by (auto simp: leader_inv_def)
qed

text \<open>
  While an instance leads, every registered callback, also one registered during the term, has been started for
  that term or is about to be, exactly once; and over the whole life of the elector no callback is started twice
  for a term.
\<close>

theorem callbacks_once_per_term:
  assumes "reachable e" "el_phase e = Leading" "i < el_callbacks e"
  shows "count (mset (el_started e @ el_pending e)) (i, el_term e) = 1 \<and> distinct (el_started e)"
proof -
  have inv: "distinct (el_started e @ el_pending e)" "(i, el_term e) \<in> set (el_started e @ el_pending e)"
    using reachable_callback [OF assms(1)] assms(2,3) by (simp_all add: callback_inv_def all_starts_def)
  have "count (mset (el_started e @ el_pending e)) (i, el_term e) = 1"
    using inv by (subst distinct_count_atmost_1 [THEN iffD1, rule_format]) simp_all
  with inv(1) show ?thesis by simp
qed

subsection \<open>Shutdown\<close>

fun elector_run :: "event list \<Rightarrow> elector \<Rightarrow> elector option" where
  "elector_run [] e = Some e"
| "elector_run (ev # evs) e = Option.bind (elector_step ev e) (elector_run evs)"

text \<open>A heartbeat that succeeds and a registration are the only steps that bring a stopping elector no further.\<close>

definition progress :: "event \<Rightarrow> bool" where
  "progress ev = (ev \<noteq> HeartbeatOk \<and> ev \<noteq> Register)"

fun phase_rank :: "nat \<Rightarrow> phase \<Rightarrow> nat" where
  "phase_rank n LoopTop = 1"
| "phase_rank n Acquiring = 2 * n + 8"
| "phase_rank n (Launching cs) = 2 * length cs + 7"
| "phase_rank n Leading = 6"
| "phase_rank n (Draining r) = 5"
| "phase_rank n (Drained r) = 4"
| "phase_rank n (Retrying d) = 2"
| "phase_rank n (Stopped r) = 0"

definition shutdown_rank :: "elector \<Rightarrow> nat" where
  "shutdown_rank e = phase_rank (el_callbacks e) (el_phase e) + length (el_running e) + 2 * length (el_pending e)"

lemma handle_error_done [simp]: "el_ctxDone e \<Longrightarrow> phase_rank n (el_phase (handle_error r err e)) = 0"
  by (simp add: handle_error_def)

lemma shutdown_step:
  assumes "elector_step ev e = Some e'" "el_ctxDone e" "progress ev"
  shows "shutdown_rank e' < shutdown_rank e"
proof (cases ev)
  case (LaunchPending c)
  with assms have "c \<in> set (el_pending e)"
    "e' = (start_callback c e)\<lparr>el_pending := remove1 c (el_pending e)\<rparr>" by (simp_all split: if_splits)
  moreover have "length (el_pending e) = Suc (length (remove1 c (el_pending e)))"
    using calculation(1) by (simp add: length_remove1) (metis Suc_pred length_pos_if_in_set)
  ultimately show ?thesis by (simp add: shutdown_rank_def start_callback_def)
next
  case (CallbackDone c)
  with assms have "c \<in> set (el_running e)" "e' = e\<lparr>el_running := remove1 c (el_running e)\<rparr>"
    by (simp_all split: if_splits)
  moreover have "length (el_running e) = Suc (length (remove1 c (el_running e)))"
    using calculation(1) by (simp add: length_remove1) (metis Suc_pred length_pos_if_in_set)
  ultimately show ?thesis by (simp add: shutdown_rank_def)
next
  case Launch
  with assms show ?thesis
    by (auto simp: shutdown_rank_def start_callback_def split: phase.splits list.splits)
qed (use assms in \<open>auto simp: shutdown_rank_def progress_def become_leader_def cancel_leader_def
  clear_leadership_def split: if_splits phase.splits\<close>)

lemma step_keeps_done: "elector_step ev e = Some e' \<Longrightarrow> el_ctxDone e \<Longrightarrow> el_ctxDone e'"
  by (erule step_cases) (simp_all add: operation_defs split: option.split)

lemma shutdown_run:
  "elector_run evs e = Some e' \<Longrightarrow> el_ctxDone e \<Longrightarrow> list_all progress evs
    \<Longrightarrow> el_ctxDone e' \<and> length evs + shutdown_rank e' \<le> shutdown_rank e"
proof (induction evs arbitrary: e)
  case (Cons ev evs)
  then obtain e1 where s: "elector_step ev e = Some e1" "elector_run evs e1 = Some e'"
    by (auto split: bind_splits)
  with Cons show ?case using shutdown_step [OF s(1)] step_keeps_done [OF s(1)] by fastforce
qed simp

text \<open>Once the context is done some step that makes progress is possible until the loop has stopped and the
  callbacks have returned.\<close>

lemma shutdown_enabled:
  assumes "el_ctxDone e" "\<not> (\<exists>r. el_phase e = Stopped r) \<or> el_running e \<noteq> [] \<or> el_pending e \<noteq> []"
  obtains ev e' where "progress ev" "elector_step ev e = Some e'"
proof (cases "el_running e")
  case (Cons c cs)
  then show ?thesis by (intro that [of "CallbackDone c"]) (simp_all add: progress_def)
next
  case running: Nil
  show ?thesis
  proof (cases "el_pending e")
    case (Cons c cs)
    then show ?thesis by (intro that [of "LaunchPending c"]) (simp_all add: progress_def)
  next
    case Nil
    show ?thesis
    proof (cases "el_phase e")
      case LoopTop
      with assms show ?thesis by (intro that [of Loop]) (simp_all add: progress_def)
    next
      case Acquiring
      then show ?thesis by (intro that [of "AcquireFailed Canceled None"]) (simp_all add: progress_def)
    next
      case (Launching cs)
      then show ?thesis by (cases cs; intro that [of Launch]) (simp_all add: progress_def)
    next
      case Leading
      with assms show ?thesis by (intro that [of SelectDone]) (simp_all add: progress_def)
    next
      case (Draining r)
      with running show ?thesis by (intro that [of Waited]) (simp_all add: progress_def)
    next
      case (Drained r)
      then show ?thesis by (intro that [of "Cleared None"]) (simp_all add: progress_def)
    next
      case (Retrying d)
      with assms show ?thesis by (intro that [of DelayCanceled]) (simp_all add: progress_def)
    next
      case (Stopped r)
      with assms running Nil show ?thesis by simp
    qed
  qed
qed

text \<open>
  C17. Once the base context is done, the elector stops: a run without new registrations and successful heartbeats has
  at most \<open>shutdown_rank\<close> steps, and as long as the loop has not returned, or a callback has not, such a step is
  possible. So \<open>Wait\<close> returns after a bounded number of steps, from whatever point of the loop the
  cancellation finds it, provided the callbacks return.
\<close>

theorem shutdown_terminates:
  assumes "el_ctxDone e" "elector_run evs e = Some e'" "list_all progress evs"
  shows "length evs \<le> shutdown_rank e
    \<and> ((\<exists>r. el_phase e' = Stopped r) \<and> el_running e' = [] \<and> el_pending e' = []
      \<or> (\<exists>ev. progress ev \<and> elector_step ev e' \<noteq> None))"
proof -
  from shutdown_run [OF assms(2,1,3)] have finished: "el_ctxDone e'" and "length evs \<le> shutdown_rank e" by simp_all
  moreover from shutdown_enabled [OF finished] have "(\<exists>r. el_phase e' = Stopped r) \<and> el_running e' = [] \<and> el_pending e' = []
      \<or> (\<exists>ev. progress ev \<and> elector_step ev e' \<noteq> None)" by (metis option.distinct(1))
  ultimately show ?thesis by blast
qed

text \<open>Witnesses: the lock is acquired with one callback registered, the callback runs, then shutdown.\<close>

definition example_leading :: elector where
  "example_leading = \<lparr>el_phase = Leading, el_ctxDone = False, el_callbacks = 1, el_isLeader = True,
     el_leaderCtx = Some 1, el_cancelled = {}, el_pending = [], el_running = [(0, 1)], el_dbReachable = True,
     el_failures = 0, el_threshold = 3, el_backoff = newBackoff,
     el_term = 1, el_locked = True, el_started = [(0, 1)]\<rparr>"

lemma reachable_run: "reachable e \<Longrightarrow> elector_run evs e = Some e' \<Longrightarrow> reachable e'"
  by (induction evs arbitrary: e) (auto split: bind_splits intro: reachable.step)

lemma example_leading_run:
  "elector_run [Register, Loop, Acquired, Launch, Launch] new_elector = Some example_leading"
  by (simp add: new_elector_def example_leading_def OnBecomeLeader_def become_leader_def start_callback_def
      defaultUnhealthyThreshold_def)

lemma example_leading_reachable: "reachable example_leading"
  using reachable_run [OF reachable.start example_leading_run] .

theorem live_callbacks_hold_lock_witness:
  "reachable example_leading \<and> ctx_alive example_leading 1 \<and> el_locked example_leading"
proof -
  have alive: "(0, 1) \<in> set (el_running example_leading)" "ctx_alive example_leading (snd (0, 1))"
    by (simp_all add: example_leading_def ctx_alive_def)
  with live_callbacks_hold_lock [OF example_leading_reachable alive] example_leading_reachable
  show ?thesis by simp
qed

theorem callbacks_once_per_term_witness:
  "reachable example_leading \<and> count (mset (el_started example_leading @ el_pending example_leading)) (0, 1) = 1"
  using callbacks_once_per_term [OF example_leading_reachable, of 0] example_leading_reachable
  by (simp add: example_leading_def)

definition example_stopping :: elector where
  "example_stopping = example_leading\<lparr>el_ctxDone := True\<rparr>"

theorem shutdown_terminates_witness:
  "\<exists>e'. elector_run [SelectDone, CallbackDone (0, 1), Waited, Cleared None] example_stopping = Some e'
    \<and> el_phase e' = Stopped StopCanceled \<and> 4 \<le> shutdown_rank example_stopping"
proof -
  let ?evs = "[SelectDone, CallbackDone (0, 1), Waited, Cleared None]"
  obtain e' where run: "elector_run ?evs example_stopping = Some e'" and stopped: "el_phase e' = Stopped StopCanceled"
    by (simp add: example_stopping_def example_leading_def cancel_leader_def clear_leadership_def handle_error_def
        drain_error_def)
  have "el_ctxDone example_stopping" "list_all progress ?evs"
    by (simp_all add: example_stopping_def progress_def)
  from shutdown_terminates [OF this(1) run this(2)] have "length ?evs \<le> shutdown_rank example_stopping" by simp
  with run stopped show ?thesis by auto
qed

subsection \<open>Retries\<close>

text \<open>A failed attempt to acquire the lock, the delay, and the next round of the loop.\<close>

definition retry_round :: "event list" where
  "retry_round = [AcquireFailed OtherError None, DelayOver, Loop]"

fun retries :: "nat \<Rightarrow> event list" where
  "retries 0 = []"
| "retries (Suc n) = retries n @ retry_round"

lemma elector_run_append: "elector_run (xs @ ys) e = Option.bind (elector_run xs e) (elector_run ys)"
  by (induction xs arbitrary: e) (simp_all cong: Option.bind_cong)

definition after_retries :: "nat \<Rightarrow> elector" where
  "after_retries n = new_elector\<lparr>el_phase := Acquiring, el_failures := int n,
     el_backoff := \<lparr>bo_current = min (2 ^ n) 30, bo_max = 30\<rparr>\<rparr>"

lemma min_double: "min (min (2 ^ n) 30 * 2) 30 = min (2 ^ Suc n) (30::nat)"
  by (simp add: min_def)

lemma retries_run: "n < 2 ^ 31 \<Longrightarrow> elector_run (Loop # retries n) new_elector = Some (after_retries n)"
proof (induction n)
  case 0
  show ?case by (simp add: after_retries_def new_elector_def newBackoff_def)
next
  case (Suc n)
  then have ih: "elector_run (Loop # retries n) new_elector = Some (after_retries n)" by simp
  have "to_int32 (int n + 1) = int n + 1"
    using Suc.prems by (intro to_int32_id) (simp add: int32_range_def)
  then have "elector_run retry_round (after_retries n) = Some (after_retries (Suc n))"
    by (simp add: retry_round_def after_retries_def new_elector_def handle_error_def backoff_next_def min_double)
  with ih show ?case by (simp add: elector_run_append del: elector_run.simps(2) flip: append_Cons)
qed

text \<open>
  The retry schedule: after \<open>n\<close> failed attempts the elector has counted \<open>n\<close> failures, is healthy just in case
  \<open>n\<close> is below the threshold of three, and its next delay is \<open>2 ^ n\<close> seconds, at most 30. A successful acquisition
  makes it healthy again.
\<close>

theorem retry_schedule:
  assumes "n < 2 ^ 31"
  shows "\<exists>e. elector_run (Loop # retries n) new_elector = Some e \<and> el_failures e = int n \<and> Healthy e = (n < 3)
    \<and> fst (backoff_next (el_backoff e)) = min (2 ^ n) 30 \<and> Healthy (become_leader e)"
proof (intro exI conjI)
  show "elector_run (Loop # retries n) new_elector = Some (after_retries n)" using assms by (rule retries_run)
qed (simp_all add: after_retries_def Healthy_def new_elector_def defaultUnhealthyThreshold_def
    backoff_next_def become_leader_def)

theorem retry_schedule_witness:
  "\<exists>e. elector_run (Loop # retries 4) new_elector = Some e \<and> \<not> Healthy e
    \<and> fst (backoff_next (el_backoff e)) = 16"
  using retry_schedule [of 4] by (auto simp del: elector_run.simps)

text \<open>
  A term of leadership does not reset the delay: an instance that acquired the lock after \<open>n\<close> failed attempts and
  then loses it waits \<open>2 ^ n\<close> seconds (at most 30), as if it had never led, and the failure counter is 1. The
  \<open>backoff.reset()\<close> at the end of the loop is never reached, since \<open>runOnce\<close> always returns an error.
\<close>

theorem leadership_keeps_backoff:
  assumes "n < 2 ^ 31"
  shows "map_option (\<lambda>e. (el_phase e, el_failures e, el_backoff e))
      (elector_run (Loop # retries n @ [Acquired, Launch, HeartbeatLost OtherError, Waited, Cleared None]) new_elector)
    = Some (Retrying (min (2 ^ n) 30), 1, \<lparr>bo_current = min (2 ^ Suc n) 30, bo_max = 30\<rparr>)"
proof -
  let ?one = "[Acquired, Launch, HeartbeatLost OtherError, Waited, Cleared None]"
  have "elector_run (Loop # retries n @ ?one) new_elector = elector_run ?one (after_retries n)"
    using retries_run [OF assms] by (simp add: elector_run_append del: elector_run.simps(2) flip: append_Cons)
  also have "map_option (\<lambda>e. (el_phase e, el_failures e, el_backoff e)) \<dots>
    = Some (Retrying (min (2 ^ n) 30), 1, \<lparr>bo_current = min (2 ^ Suc n) 30, bo_max = 30\<rparr>)"
    by (simp add: after_retries_def new_elector_def become_leader_def cancel_leader_def clear_leadership_def
        handle_error_def drain_error_def backoff_next_def min_double int32_range_def)
  finally show ?thesis .
qed

theorem leadership_keeps_backoff_witness:
  "map_option el_phase (elector_run (Loop # retries 3 @
      [Acquired, Launch, HeartbeatLost OtherError, Waited, Cleared None]) new_elector) = Some (Retrying 8)"
proof -
  have "map_option (fst \<circ> (\<lambda>e. (el_phase e, el_failures e, el_backoff e)))
      (elector_run (Loop # retries 3 @ [Acquired, Launch, HeartbeatLost OtherError, Waited, Cleared None]) new_elector)
    = Some (Retrying 8)"
    by (subst option.map_comp [symmetric], subst leadership_keeps_backoff) simp_all
  then show ?thesis by (simp add: comp_def)
qed

end
