(* ===== verification/Repository_Facts.thy ===== *)
theory Repository_Facts
  imports Service_Repositories
begin

text \<open>
  The properties of the generic repository, for every database that satisfies \<open>sql_store\<close> and every repository
  that satisfies \<open>repo_mapping\<close>, with witnesses on the database in memory and the repository of registered models.
\<close>

subsection \<open>What Save writes\<close>

text \<open>
  C3. A \<open>Save\<close> that succeeds changes exactly this: the row of the entity (a new one, or the updatable non-zero
  columns of the one with its id); among the property rows of its table, those sent are as sent, custom ones that
  were not sent are gone (and regular ones too, if the repository deletes what is missing), and all others, of this
  and of every other entity, are untouched; and the link to the parent, if one is given.
\<close>

theorem save_writes_exactly:
  assumes "sql_store ops rows props links" "repo_mapping cfg" "Save ops cfg now e parent s = (Inr r, s')"
  shows "\<exists>row. let i = getEntityID row; k = rc_Table cfg; new = call_opt (rc_IsNewEntity cfg) e;
        custom = call_opt (rc_HasCustomProperties cfg) e
      in rows s' = (rows s)(k := (rows s k)(i :=
           if new then Some row else map_option (updates getNonUpdatableFields row) (rows s k i)))
       \<and> (new \<longrightarrow> rows s k i = None)
       \<and> row = setEntityID i (stamp cfg now new (rc_EntityToSchema cfg e))
       \<and> props s' = (props s)(k := saved_props cfg custom i (rc_EntityToProperties cfg e i) (props s k))
       \<and> links s' = (links s)(k := (case parent of None \<Rightarrow> links s k | Some p \<Rightarrow> insert (p, i) (links s k)))"
proof (rule sql_store.Save_spec [OF assms(1,3,2)], goal_cases)
  case (1 row ps)
  show ?case unfolding Let_def using 1(4,6-9) by (intro exI [of _ row] conjI) blast+
qed

lemma updates_keep [simp]:
  "getTypeID (updates getNonUpdatableFields e r) = getTypeID r"
  "getName (updates getNonUpdatableFields e r) = getName r"
  "getCreateTime (updates getNonUpdatableFields e r) = getCreateTime r"
  by (cases e; cases r; simp add: getNonUpdatableFields_def upd_def)+

text \<open>
  C12. No \<open>Save\<close>, whether it succeeds or fails and whatever it is given, changes the type, the name or the creation time
  of a row that exists, or removes it; and one that fails leaves the database as it was.
\<close>

theorem save_keeps_identity:
  assumes "sql_store ops rows props links" "repo_mapping cfg" "Save ops cfg now e parent s = (res, s')"
    and "rows s k i = Some x"
  shows "(\<exists>x'. rows s' k i = Some x' \<and> getTypeID x' = getTypeID x \<and> getName x' = getName x
      \<and> getCreateTime x' = getCreateTime x) \<and> (isl res \<longrightarrow> s' = s)"
proof (cases res)
  case (Inl err)
  with assms(3) have "s' = s"
    by (auto simp: Save_def Transaction_def split: sum.splits option.splits prod.splits)
  with assms(4) Inl show ?thesis by simp
next
  case (Inr r)
  with assms(3) have saved: "Save ops cfg now e parent s = (Inr r, s')" by simp
  obtain row where row: "call_opt (rc_IsNewEntity cfg) e \<Longrightarrow> rows s (rc_Table cfg) (getEntityID row) = None"
      "rows s' = (rows s)(rc_Table cfg := (rows s (rc_Table cfg))(getEntityID row :=
        if call_opt (rc_IsNewEntity cfg) e then Some row
        else map_option (updates getNonUpdatableFields row) (rows s (rc_Table cfg) (getEntityID row))))"
    by (rule sql_store.Save_spec [OF assms(1) saved assms(2)]) blast
  show ?thesis
  proof (cases "k = rc_Table cfg \<and> i = getEntityID row")
    case True
    with row(1) assms(4) have "\<not> call_opt (rc_IsNewEntity cfg) e" by auto
    with True row(2) assms(4) Inr show ?thesis by simp
  next
    case False
    with row(2) assms(4) Inr show ?thesis by auto
  qed
qed

text \<open>
  C20. What \<open>Save\<close> returns for a new entity is what a later \<open>GetByID\<close> reads, up to the order of the properties: no
  \<open>GetByID\<close> of the id it was given reports it missing, and one that succeeds gives the entity of the same row and
  the same property rows.
\<close>

theorem save_get_roundtrip:
  assumes "sql_store ops rows props links" "repo_mapping cfg" "Save ops cfg now e parent s = (Inr r, s')"
    and "call_opt (rc_IsNewEntity cfg) e" "getTypeID (rc_EntityToSchema cfg e) = rc_TypeID cfg"
  shows "\<exists>row ps. r = rc_SchemaToEntity cfg row ps
      \<and> GetByID ops cfg (getEntityID row) s' \<noteq> Inl (NotFound (rc_NotFoundError cfg @ '': record not found''))
      \<and> (\<forall>r'. GetByID ops cfg (getEntityID row) s' = Inr r' \<longrightarrow>
           (\<exists>ps'. mset ps' = mset ps \<and> r' = rc_SchemaToEntity cfg row ps'))"
proof -
  let ?k = "rc_Table cfg"
  obtain row ps where r: "r = rc_SchemaToEntity cfg row ps" and dist: "distinct ps"
    and ps: "set ps = {p. props s' ?k (prop_key p) = Some p \<and> pr_EntityID p = getEntityID row}"
    and row: "row = setEntityID (getEntityID row) (stamp cfg now True (rc_EntityToSchema cfg e))"
    and rows: "rows s' = (rows s)(?k := (rows s ?k)(getEntityID row \<mapsto> row))"
    by (rule sql_store.Save_spec [OF assms(1,3,2)]) (simp add: assms(4))
  have "getTypeID row = getTypeID (setEntityID (getEntityID row) (stamp cfg now True (rc_EntityToSchema cfg e)))"
    using row by (rule arg_cong)
  then have type: "getTypeID row = rc_TypeID cfg" using assms(5) by simp
  have here: "rows s' ?k (getEntityID row) = Some row" using rows by simp
  have "so_by_id ops ?k (getEntityID row) (rc_TypeID cfg) s' \<noteq> Inl RecordNotFound"
    using sql_store.by_id_missing [OF assms(1)] here type by blast
  then have "GetByID ops cfg (getEntityID row) s' \<noteq> Inl (NotFound (rc_NotFoundError cfg @ '': record not found''))"
    by (auto simp: GetByID_def wrap_def try_bind_Inl_iff split: sum.splits db_error.splits)
  moreover have "\<exists>ps'. mset ps' = mset ps \<and> r' = rc_SchemaToEntity cfg row ps'"
    if "GetByID ops cfg (getEntityID row) s' = Inr r'" for r'
  proof -
    from that obtain row' ps' where get: "so_by_id ops ?k (getEntityID row) (rc_TypeID cfg) s' = Inr row'"
      "so_props ops ?k (getEntityID row') s' = Inr ps'" "r' = rc_SchemaToEntity cfg row' ps'"
      by (auto simp: GetByID_def try_bind_Inr_iff split: sum.splits db_error.splits)
    from sql_store.by_id [OF assms(1) get(1)] here have "row' = row" by simp
    with sql_store.read_props [OF assms(1) get(2)] ps dist have "mset ps' = mset ps"
      by (intro set_eq_iff_mset_eq_distinct [THEN iffD1]) auto
    with get(3) \<open>row' = row\<close> show ?thesis by blast
  qed
  ultimately show ?thesis using r by blast
qed

subsection \<open>Errors of a list\<close>

lemma sublist_map: "sublist xs ys \<Longrightarrow> sublist (map f xs) (map f ys)"
  unfolding sublist_def by (metis map_append)

text \<open>
  Every error of PostgreSQL is reported to the client as a bad request: the texts of its errors hold
  \<open>(SQLSTATE ...)\<close>, and \<open>sqlstate\<close> is one of the patterns of \<open>IsDatabaseTypeConversionError\<close>, so a list that fails
  because the connection was terminated, a lock timed out or a disk is full is answered as an invalid filter query.
\<close>

theorem list_server_errors_bad_request:
  assumes "list_query parser d cfg opts = Inr query" "so_find ops (rc_Table cfg) query s = Inl (OtherDbError text)"
    and "sublist ''(SQLSTATE '' text"
  shows "ListEntities fmt parser d ops cfg opts s = Inl (BadRequest (''error listing '' @ rc_EntityName cfg
    @ ''s: invalid filter query, type mismatch or invalid value in comparison''))"
proof -
  have "sublist (to_lower ''(SQLSTATE '') (to_lower text)"
    unfolding to_lower_def by (rule sublist_map [OF assms(3)])
  moreover have "sublist ''sqlstate'' (to_lower ''(SQLSTATE '')" by code_simp
  ultimately have "sublist ''sqlstate'' (to_lower text)" using sublist_order.order_trans by blast
  then have "IsDatabaseTypeConversionError (OtherDbError text)"
    by (simp add: IsDatabaseTypeConversionError_def conversion_patterns_def)
  with assms(1,2) show ?thesis by (simp add: ListEntities_def SanitizeDatabaseError_def)
qed

subsection \<open>Witnesses\<close>

definition no_queries :: "table_kind \<Rightarrow> gorm_db \<Rightarrow> tables \<Rightarrow> db_error + schema_entity list" where
  "no_queries k query s = Inl (OtherDbError ''FATAL: terminating connection due to administrator command (SQLSTATE 57P01)'')"

definition empty_tables :: tables where
  "empty_tables = \<lparr>tb_rows = [], tb_props = [], tb_links = []\<rparr>"

abbreviation "example_ops \<equiv> table_ops no_queries"
abbreviation "example_repo \<equiv> NewRegisteredModelRepository (\<lambda>t. t) 7"

definition example_model :: "int option \<Rightarrow> string \<Rightarrow> stored_property list \<Rightarrow> base_entity" where
  "example_model i name custom = \<lparr>be_ID = i, be_TypeID = 7,
     be_Attributes = \<lparr>at_Name = Some name, at_URI = None, at_State = None, at_ExternalID = None,
       at_CreateTime = None, at_LastUpdateTime = None\<rparr>,
     be_Properties = [NewStringProperty ''owner'' ''me'' False], be_Custom = custom\<rparr>"

text \<open>A model is created with a custom property; an update sends another name and another custom property.\<close>

definition example_created :: "(repo_error + base_entity) \<times> tables" where
  "example_created = Save example_ops example_repo 1000 (example_model None ''m'' [NewIntProperty ''p'' 1 True]) None empty_tables"

definition example_updated :: "(repo_error + base_entity) \<times> tables" where
  "example_updated = Save example_ops example_repo 2000 (example_model (Some 1) ''other'' [NewIntProperty ''q'' 2 True]) None
     (snd example_created)"

lemma example_created_ok: "isl (fst example_created) = False" and example_updated_ok: "isl (fst example_updated) = False"
  by code_simp+

lemma example_save:
  "Save example_ops example_repo 1000 (example_model None ''m'' [NewIntProperty ''p'' 1 True]) None empty_tables
     = (Inr (projr (fst example_created)), snd example_created)"
  using example_created_ok by (simp add: example_created_def [symmetric] prod_eq_iff)

lemma example_save_again:
  "Save example_ops example_repo 2000 (example_model (Some 1) ''other'' [NewIntProperty ''q'' 2 True]) None (snd example_created)
     = (Inr (projr (fst example_updated)), snd example_updated)"
  using example_updated_ok by (simp add: example_updated_def [symmetric] prod_eq_iff)

lemma example_new:
  "call_opt (rc_IsNewEntity example_repo) (example_model None n c)" "\<not> call_opt (rc_IsNewEntity example_repo) (example_model (Some i) n c)"
  "rc_Table example_repo = ContextTable"
  by (simp_all add: NewRegisteredModelRepository_def registry_repo_def call_opt_def example_model_def)

theorem save_writes_exactly_witness:
  "\<exists>row. table_prop (snd example_updated) ContextTable = saved_props example_repo True (getEntityID row)
       (mapRegisteredModelToContextProperties (example_model (Some 1) ''other'' [NewIntProperty ''q'' 2 True]) (getEntityID row))
       (table_prop (snd example_created) ContextTable)"
  using save_writes_exactly [OF tables.sql_store_axioms registeredModel_repository.repo_mapping_axioms example_save_again]
  by (auto simp: Let_def NewRegisteredModelRepository_def registry_repo_def call_opt_def)

theorem save_keeps_identity_witness:
  "\<exists>x x'. table_row (snd example_created) ContextTable 1 = Some x \<and> table_row (snd example_updated) ContextTable 1 = Some x'
     \<and> getName x' = getName x \<and> getCreateTime x' = getCreateTime x"
proof -
  obtain x where x: "table_row (snd example_created) ContextTable 1 = Some x"
    using that by (cases "table_row (snd example_created) ContextTable 1") (simp, code_simp, blast)
  with save_keeps_identity [OF tables.sql_store_axioms registeredModel_repository.repo_mapping_axioms example_save_again x]
  show ?thesis by blast
qed

theorem save_get_roundtrip_witness:
  "\<exists>row ps. projr (fst example_created) = mapDataLayerToRegisteredModel row ps
     \<and> GetByID example_ops example_repo (getEntityID row) (snd example_created)
       \<noteq> Inl (NotFound (rc_NotFoundError example_repo @ '': record not found''))"
proof -
  have "getTypeID (rc_EntityToSchema example_repo (example_model None ''m'' [NewIntProperty ''p'' 1 True])) = rc_TypeID example_repo"
    by (simp add: NewRegisteredModelRepository_def registry_repo_def mapRegisteredModelToContext_def context_of_entity_def
        example_model_def)
  from save_get_roundtrip [OF tables.sql_store_axioms registeredModel_repository.repo_mapping_axioms example_save
      example_new(1) this]
  show ?thesis by (auto simp: NewRegisteredModelRepository_def registry_repo_def)
qed

definition example_options :: list_options where
  "example_options = \<lparr>pg_PageSize = None, pg_OrderBy = None, pg_SortOrder = None, pg_NextPageToken = None, pg_FilterQuery = None,
     lo_Name = None, lo_ExternalID = None, lo_ParentResourceID = None, lo_Runtime = None, lo_StepIds = None, lo_ArtifactType = None\<rparr>"

theorem list_server_errors_bad_request_witness:
  "ListEntities (\<lambda>_. []) (\<lambda>_. Inl []) ''postgres'' example_ops example_repo example_options empty_tables
     = Inl (BadRequest (''error listing registered model'' @
         ''s: invalid filter query, type mismatch or invalid value in comparison''))"
proof -
  obtain query where "list_query (\<lambda>_. Inl []) ''postgres'' example_repo example_options = Inr query"
    by (simp add: list_query_def Let_def ApplyFilterQuery_def example_options_def NewRegisteredModelRepository_def registry_repo_def
        GetFilterQuery_def pagination.defs)
  moreover have "so_find example_ops (rc_Table example_repo) query empty_tables
      = Inl (OtherDbError ''FATAL: terminating connection due to administrator command (SQLSTATE 57P01)'')"
    by (simp add: table_ops_def no_queries_def)
  moreover have "sublist ''(SQLSTATE '' ''FATAL: terminating connection due to administrator command (SQLSTATE 57P01)''"
    by code_simp
  ultimately have "ListEntities (\<lambda>_. []) (\<lambda>_. Inl []) ''postgres'' example_ops example_repo example_options empty_tables
      = Inl (BadRequest (''error listing '' @ rc_EntityName example_repo @
         ''s: invalid filter query, type mismatch or invalid value in comparison''))"
    by (rule list_server_errors_bad_request)
  then show ?thesis by (simp add: NewRegisteredModelRepository_def registry_repo_def)
qed

end
