(* ===== verification/Core_Roundtrip.thy ===== *)
theory Core_Roundtrip
  imports Core_Service Repository_Facts
begin

text \<open>
  From the service to the rows and reading: what a client reads of an entity it created. The lemmas follow a new entity
  through its rows, in any order the database returns them, up to the reader of the converter.
\<close>

subsection \<open>The rows of an entity\<close>

text \<open>The rows a converter writes: names once per kind of property, and each with its flag.\<close>

definition named_rows :: "base_entity \<Rightarrow> bool" where
  "named_rows e = (distinct (map sp_Name (be_Properties e)) \<and> distinct (map sp_Name (be_Custom e))
     \<and> list_all (\<lambda>p. \<not> sp_IsCustom p) (be_Properties e) \<and> list_all sp_IsCustom (be_Custom e))"

lemma sent_props_distinct:
  assumes "distinct (map prop_key ps)"
  shows "sent_props ps key = Some p \<longleftrightarrow> p \<in> set ps \<and> prop_key p = key"
proof -
  have "distinct (map fst (rev (map (\<lambda>p. (prop_key p, p)) ps)))"
    using assms by (simp add: rev_map [symmetric] comp_def)
  from map_of_eq_Some_iff [OF this] show ?thesis by (auto simp: sent_props_def)
qed

lemma context_property [simp]:
  "prop_key (MapPropertiesToContextProperty p i b) = (i, sp_Name p, b)"
  "MapContextPropertyToProperties (MapPropertiesToContextProperty p i b) = p\<lparr>sp_IsCustom := b\<rparr>"
  "sp_IsCustom (MapPropertiesToContextProperty p i b) = b" "pr_EntityID (MapPropertiesToContextProperty p i b) = i"
  by (simp_all add: MapPropertiesToContextProperty_def MapContextPropertyToProperties_def prop_key_def)

abbreviation "context_rows \<equiv> property_rows MapPropertiesToContextProperty"

lemma context_rows_keys:
  assumes "named_rows e"
  shows "distinct (map prop_key (context_rows e i))"
  using assms by (auto simp: property_rows_def named_rows_def distinct_map comp_def inj_on_def)

lemma context_rows_back:
  assumes "named_rows e" "mset ps = mset (context_rows e i)"
  shows "mset (map MapContextPropertyToProperties (filter (\<lambda>p. \<not> sp_IsCustom p) ps)) = mset (be_Properties e)"
    and "mset (map MapContextPropertyToProperties (filter sp_IsCustom ps)) = mset (be_Custom e)"
proof -
  have p: "map (\<lambda>p. p\<lparr>sp_IsCustom := False\<rparr>) (be_Properties e) = be_Properties e"
    "map (\<lambda>p. p\<lparr>sp_IsCustom := True\<rparr>) (be_Custom e) = be_Custom e"
    using assms(1) by (auto simp: named_rows_def list_all_iff intro!: map_idI stored_property.equality)
  have "mset (filter P ps) = mset (filter P (context_rows e i))" for P using assms(2) by (simp add: mset_filter)
  then have m: "mset (map MapContextPropertyToProperties (filter P ps))
      = mset (map MapContextPropertyToProperties (filter P (context_rows e i)))" for P by (simp only: mset_map)
  have l: "map MapContextPropertyToProperties (filter (\<lambda>p. \<not> sp_IsCustom p) (context_rows e i)) = be_Properties e"
    "map MapContextPropertyToProperties (filter sp_IsCustom (context_rows e i)) = be_Custom e"
    using p by (simp_all add: property_rows_def filter_map comp_def)
  show "mset (map MapContextPropertyToProperties (filter (\<lambda>p. \<not> sp_IsCustom p) ps)) = mset (be_Properties e)"
    by (simp only: m l)
  show "mset (map MapContextPropertyToProperties (filter sp_IsCustom ps)) = mset (be_Custom e)"
    by (simp only: m l)
qed

text \<open>A new context as it is stored: with its id and its times.\<close>

definition stored_context :: "base_entity \<Rightarrow> int \<Rightarrow> int \<Rightarrow> base_entity" where
  "stored_context e i now = e\<lparr>be_ID := Some i, be_Attributes := \<lparr>at_Name = Some (str_or_empty (at_Name (be_Attributes e))), at_URI = None,
     at_State = None, at_ExternalID = at_ExternalID (be_Attributes e), at_CreateTime = Some now, at_LastUpdateTime = Some now\<rparr>\<rparr>"

abbreviation "context_repo t nf n f rest \<equiv> registry_repo ContextTable t context_of_entity
  (entity_of_row MapContextPropertyToProperties) context_rows nf n f rest"

lemma context_repo_mapping: "repo_mapping (context_repo t nf n f rest)"
  by (rule registry_repo_mapping) (auto dest: property_rows_id)

lemma same_rows_of_context:
  assumes "named_rows e" "mset ps = mset (context_rows e i)"
  shows "same_rows (stored_context e i now) (entity_of_row MapContextPropertyToProperties
    (setEntityID i (stamp (context_repo t nf n f rest) now True (context_of_entity e))) ps)"
  using context_rows_back [OF assms]
  by (simp add: same_rows_def stored_context_def entity_of_row_def context_of_entity_def stamp_def registry_repo_def Let_def)

lemma new_rows:
  assumes "distinct ps" "set ps = {p. saved_props cfg has i (context_rows e i) old (prop_key p) = Some p \<and> pr_EntityID p = i}"
    and "\<forall>m. old (i, m) = None" "named_rows e"
  shows "mset ps = mset (context_rows e i)"
proof -
  note keys = context_rows_keys [OF assms(4), of i]
  have "saved_props cfg has i (context_rows e i) old (prop_key p) = Some p \<and> pr_EntityID p = i \<longleftrightarrow> p \<in> set (context_rows e i)" for p
  proof
    assume "p \<in> set (context_rows e i)"
    moreover from this have "pr_EntityID p = i" by (rule property_rows_id)
    moreover have "sent_props (context_rows e i) (prop_key p) = Some p"
      using sent_props_distinct [OF keys] \<open>p \<in> set (context_rows e i)\<close> by blast
    ultimately show "saved_props cfg has i (context_rows e i) old (prop_key p) = Some p \<and> pr_EntityID p = i"
      by (simp add: saved_props_def)
  next
    assume p: "saved_props cfg has i (context_rows e i) old (prop_key p) = Some p \<and> pr_EntityID p = i"
    then have "old (prop_key p) = None" using assms(3) by (simp add: prop_key_def)
    with p have "sent_props (context_rows e i) (prop_key p) = Some p"
      by (auto simp: saved_props_def split: option.splits if_splits)
    then show "p \<in> set (context_rows e i)" using sent_props_Some by blast
  qed
  then have "set ps = set (context_rows e i)" using assms(2) by blast
  moreover have "distinct (context_rows e i)" using keys by (simp add: distinct_map)
  ultimately show ?thesis using assms(1) by (simp add: set_eq_iff_mset_eq_distinct)
qed

text \<open>A new context is stored under some id, and what \<open>Save\<close> and any later read of this id return has its rows.\<close>

lemma new_context_saved:
  assumes store: "sql_store ops rows props links"
    and save: "Save ops (context_repo t nf n f rest) now e parent s = (Inr r, s')"
    and e: "be_ID e = None" "named_rows e"
  obtains i where "rows s' ContextTable i \<noteq> None" "same_rows (stored_context e i now) r"
    "\<And>r'. GetByID ops (context_repo t nf n f rest) i s' = Inr r' \<Longrightarrow> same_rows (stored_context e i now) r'"
proof -
  let ?cfg = "context_repo t nf n f rest"
  have new: "call_opt (rc_IsNewEntity ?cfg) e" and has: "call_opt (rc_HasCustomProperties ?cfg) e"
    using e(1) by (simp_all add: registry_repo_def call_opt_def)
  have cfg [simp]: "rc_Table ?cfg = ContextTable" "rc_EntityToSchema ?cfg = context_of_entity"
    "rc_SchemaToEntity ?cfg = entity_of_row MapContextPropertyToProperties" "rc_EntityToProperties ?cfg = context_rows"
    by (simp_all add: registry_repo_def)
  obtain row ps where r: "r = entity_of_row MapContextPropertyToProperties row ps" and dist: "distinct ps"
    and ps: "set ps = {p. props s' ContextTable (prop_key p) = Some p \<and> pr_EntityID p = getEntityID row}"
    and row: "row = setEntityID (getEntityID row) (stamp ?cfg now True (context_of_entity e))"
    and old: "\<forall>m. props s ContextTable (getEntityID row, m) = None"
    and rows: "rows s' = (rows s)(ContextTable := (rows s ContextTable)(getEntityID row \<mapsto> row))"
    and props: "props s' = (props s)(ContextTable := saved_props ?cfg True (getEntityID row)
        (context_rows e (getEntityID row)) (props s ContextTable))"
    by (rule sql_store.Save_spec [OF store save context_repo_mapping]) (simp add: new has)
  let ?i = "getEntityID row"
  have all: "same_rows (stored_context e ?i now) (entity_of_row MapContextPropertyToProperties row qs)"
    if "distinct qs" "set qs = {p. props s' ContextTable (prop_key p) = Some p \<and> pr_EntityID p = ?i}" for qs
  proof -
    have "mset qs = mset (context_rows e ?i)" by (rule new_rows [OF that(1) _ old e(2)]) (simp add: that(2) props)
    from same_rows_of_context [OF e(2) this, of now t nf n f rest] row show ?thesis by simp
  qed
  show thesis
  proof (rule that [of ?i])
    show "rows s' ContextTable ?i \<noteq> None" using rows by simp
    show "same_rows (stored_context e ?i now) r" using all [OF dist ps] r by simp
    fix r' assume "GetByID ops ?cfg ?i s' = Inr r'"
    then obtain row' qs where get: "so_by_id ops ContextTable ?i (rc_TypeID ?cfg) s' = Inr row'"
      "so_props ops ContextTable (getEntityID row') s' = Inr qs" "r' = entity_of_row MapContextPropertyToProperties row' qs"
      by (auto simp: GetByID_def try_bind_Inr_iff split: sum.splits db_error.splits)
    from sql_store.by_id [OF store get(1)] rows have "row' = row" by simp
    with all sql_store.read_props [OF store get(2)] get(3) show "same_rows (stored_context e ?i now) r'" by simp
  qed
qed

subsection \<open>What the converters write\<close>

lemma part_rows_distinct: "parts_ok parts \<Longrightarrow> distinct (map sp_Name (part_rows parts)) \<and> set (map sp_Name (part_rows parts)) \<subseteq> fst ` set parts"
proof (induction parts)
  case (Cons nv parts)
  obtain n v where nv: "nv = (n, v)" by fastforce
  from Cons show ?case by (cases v) (auto simp: nv part_rows_Cons parts_ok_def)
qed (simp add: part_rows_def)

lemma custom_row:
  assumes "custom_from_openapi codec key v = Inr p"
  shows "sp_Name p = key \<and> sp_IsCustom p"
  using assms by (auto simp: custom_from_openapi_def NewBoolProperty_def NewIntProperty_def NewDoubleProperty_def
      NewStringProperty_def empty_property_def split: option.splits sum.splits)

lemma custom_rows:
  assumes "MapOpenAPICustomPropertiesEmbedMD codec (Some m) = Inr ps"
  shows "map sp_Name ps = map fst m \<and> list_all sp_IsCustom ps"
proof -
  have "try_map (\<lambda>(key, v). custom_from_openapi codec key v) m = Inr ps"
    using assms by (simp add: MapOpenAPICustomPropertiesEmbedMD_def)
  then show ?thesis
  proof (induction m arbitrary: ps)
    case (Cons kv m)
    then show ?case by (cases kv) (auto split: sum.splits dest: custom_row)
  qed simp
qed

text \<open>The times of a row do not depend on what was sent: a converted entity with an id and times converts to the stored context.\<close>

definition int64_range :: "int \<Rightarrow> bool" where
  "int64_range i = (- (2 ^ 63) \<le> i \<and> i < 2 ^ 63)"

lemma convert_stored:
  assumes "convert_entity codec t m (base_attributes (Some n) None None m) props = Inr e" "int32_range i" "int64_range now"
  shows "convert_entity codec t (m\<lparr>api_Id := Some (itoa i), api_CreateTime := Some (itoa now), api_LastUpdateTime := Some (itoa now)\<rparr>)
      (base_attributes (Some n) None None (m\<lparr>api_Id := Some (itoa i), api_CreateTime := Some (itoa now), api_LastUpdateTime := Some (itoa now)\<rparr>))
      props = Inr (stored_context e i now)"
  using assms by (auto simp: convert_entity_def base_attributes_def stored_context_def try_bind_Inr_iff StringToInt64_def
      parse_int_itoa int64_range_def split: sum.splits)

lemma converted_rows:
  assumes "convert_entity codec t m attrs (Inr (part_rows parts)) = Inr e" "parts_ok parts"
    "distinct (map fst (api_CustomProperties m))" "\<forall>p \<in> set (part_rows parts). \<not> sp_IsCustom p"
  shows "named_rows e \<and> (api_Id m = None \<longrightarrow> be_ID e = None)"
proof -
  from assms(1) obtain cs where e: "be_Properties e = part_rows parts" "be_Custom e = cs"
    and cs: "MapOpenAPICustomPropertiesEmbedMD codec (Some (api_CustomProperties m)) = Inr cs"
    and i: "api_Id m = None \<longrightarrow> be_ID e = None"
    by (cases "api_Id m") (auto simp: convert_entity_def try_bind_Inr_iff)
  with part_rows_distinct [OF assms(2)] custom_rows [OF cs] assms(3,4) show ?thesis
    by (simp add: named_rows_def list_all_iff)
qed

subsection \<open>Created entities\<close>

definition as_stored :: "'a api_base_scheme \<Rightarrow> int \<Rightarrow> int \<Rightarrow> 'a api_base_scheme" where
  "as_stored m i now =
     m\<lparr>api_Id := Some (itoa i), api_CreateTime := Some (itoa now), api_LastUpdateTime := Some (itoa now)\<rparr>"

text \<open>The same entity, with its custom properties as the same map.\<close>

definition same_entity :: "'a api_base_scheme \<Rightarrow> 'a api_base_scheme \<Rightarrow> bool" where
  "same_entity m r = (\<exists>c. r = m\<lparr>api_CustomProperties := c\<rparr> \<and> map_of c = map_of (api_CustomProperties m))"

lemma reads_backD: "reads_back rd e m \<Longrightarrow> same_rows e e' \<Longrightarrow> \<exists>r. rd e' = Inr r \<and> same_entity m r"
  unfolding reads_back_def same_entity_def by blast

lemma created_context:
  assumes store: "sql_store ops rows props links"
    and conv: "convert_entity codec t m (base_attributes (Some nm) None None m) (Inr (part_rows parts)) = Inr e"
    and parts: "parts_ok parts" "\<forall>p \<in> set (part_rows parts). \<not> sp_IsCustom p"
    and m: "distinct (map fst (api_CustomProperties m))" "api_Id m = None"
    and reading: "\<And>i. int32_range i \<Longrightarrow> reads_back rd (stored_context e i now) (as_stored m i now)"
    and save: "Save ops (context_repo t nf n f rest) now e parent s = (Inr kept, s')"
    and ids: "\<And>i. rows s' ContextTable i \<noteq> None \<Longrightarrow> int32_range i"
  obtains i r where "int32_range i" "rd kept = Inr r" "same_entity (as_stored m i now) r"
    "\<And>e'. GetByID ops (context_repo t nf n f rest) i s' = Inr e' \<Longrightarrow> \<exists>r'. rd e' = Inr r' \<and> same_entity (as_stored m i now) r'"
proof -
  from converted_rows [OF conv parts(1) m(1) parts(2)] m(2) have e: "be_ID e = None" "named_rows e" by simp_all
  obtain i where i: "rows s' ContextTable i \<noteq> None" "same_rows (stored_context e i now) kept"
    "\<And>e'. GetByID ops (context_repo t nf n f rest) i s' = Inr e' \<Longrightarrow> same_rows (stored_context e i now) e'"
    by (rule new_context_saved [OF store save e]) blast
  from ids [OF i(1)] have range: "int32_range i" .
  note b = reads_backD [OF reading [OF range]]
  from b [OF i(2)] obtain r where "rd kept = Inr r" "same_entity (as_stored m i now) r" by blast
  with range b i(3) show thesis by (intro that) blast+
qed

lemma as_stored_simps [simp]:
  "api_Id (as_stored m i now) = Some (itoa i)" "api_CreateTime (as_stored m i now) = Some (itoa now)"
  "api_LastUpdateTime (as_stored m i now) = Some (itoa now)" "api_ExternalId (as_stored m i now) = api_ExternalId m"
  "api_Description (as_stored m i now) = api_Description m" "api_CustomProperties (as_stored m i now) = api_CustomProperties m"
  "api_base.more (as_stored m i now) = api_base.more m"
  by (simp_all add: as_stored_def)

lemma base_ok_stored:
  assumes "base_ok m" "int32_range i" "int64_range now"
  shows "base_ok (as_stored m i now)"
  using assms by (simp add: base_ok_def canonical_int_def parse_int_itoa int32_range_def int64_range_def)

lemma parse_id: "int32_range i \<Longrightarrow> ValidateIDAsInt32 (itoa i) = Inr i"
  by (simp add: ValidateIDAsInt32_def parse_int_itoa int32_range_def)

lemma context_repositories:
  "\<exists>nf n f rest. NewRegisteredModelRepository quote t = context_repo t nf n f rest"
  "\<exists>nf n f rest. NewModelVersionRepository quote t = context_repo t nf n f rest"
  "\<exists>nf n f rest. NewServingEnvironmentRepository quote t = context_repo t nf n f rest"
  "\<exists>nf n f rest. NewExperimentRepository quote t = context_repo t nf n f rest"
  unfolding NewRegisteredModelRepository_def NewModelVersionRepository_def NewServingEnvironmentRepository_def
    NewExperimentRepository_def mapRegisteredModelToContext_def [abs_def] mapDataLayerToRegisteredModel_def [abs_def]
    mapRegisteredModelToContextProperties_def [abs_def] mapModelVersionToContext_def [abs_def]
    mapDataLayerToModelVersion_def [abs_def] mapModelVersionToContextProperties_def [abs_def]
    mapServingEnvironmentToContext_def [abs_def] mapDataLayerToServingEnvironment_def [abs_def]
    mapServingEnvironmentToContextProperties_def [abs_def] mapExperimentToContext_def [abs_def]
    mapDataLayerToExperiment_def [abs_def] mapExperimentToContextProperties_def [abs_def]
  by blast+

lemma rows_not_custom:
  "\<forall>p \<in> set (part_rows []). \<not> sp_IsCustom p"
  "\<forall>p \<in> set (part_rows ps). \<not> sp_IsCustom p \<Longrightarrow> \<forall>p \<in> set (part_rows (string_part n v # ps)). \<not> sp_IsCustom p"
  "\<forall>p \<in> set (part_rows ps). \<not> sp_IsCustom p \<Longrightarrow> \<forall>p \<in> set (part_rows (slice_part codec n w # ps)). \<not> sp_IsCustom p"
  "\<forall>p \<in> set (part_rows ps). \<not> sp_IsCustom p \<Longrightarrow> \<forall>p \<in> set (part_rows (id_part n x # ps)). \<not> sp_IsCustom p"
  by (auto simp: part_rows_def string_part_def slice_part_def id_part_def opt_id_part_def int_part_def NewStringProperty_def NewIntProperty_def empty_property_def
      split: option.splits)

lemma saved_Inr:
  "saved name rd x = (Inr r, s') \<longleftrightarrow> (\<exists>kept. x = (Inr kept, s') \<and> rd kept = Inr r)"
  by (auto simp: saved_def split: sum.splits prod.splits)

lemma try_state_Inr: "try_state q f s = (Inr r, s') \<longleftrightarrow> (\<exists>x. q = Inr x \<and> f x s = (Inr r, s'))"
  by (cases q) simp_all

lemma merge_new [simp]: "api_Id m = None \<Longrightarrow> merge get update keep nilCustom m = Inr m"
  by (simp add: merge_def)

lemma get_by_id_stored:
  "int32_range i \<Longrightarrow> get_by_id c repo (itoa i) s = Inr e' \<Longrightarrow> GetByID (co_ops c) repo i s = Inr e'"
  by (auto simp: get_by_id_def parse_id split: sum.splits)

lemma created_read:
  assumes "sql_store (co_ops c) rows props links"
    "convert_entity codec t m (base_attributes (Some nm) None None m) (Inr (part_rows parts)) = Inr e" "parts_ok parts"
    "\<forall>p \<in> set (part_rows parts). \<not> sp_IsCustom p" "base_ok m" "api_Id m = None"
    "\<And>i. int32_range i \<Longrightarrow> reads_back rd (stored_context e i now) (as_stored m i now)"
    "Save (co_ops c) (context_repo t nf n f rest) now e parent s = (Inr kept, s')"
    "\<And>i. rows s' ContextTable i \<noteq> None \<Longrightarrow> int32_range i" "rd kept = Inr r"
  shows "\<exists>i. same_entity (as_stored m i now) r \<and> (\<forall>e' r'. get_by_id c (context_repo t nf n f rest) (itoa i) s' = Inr e'
    \<longrightarrow> rd e' = Inr r' \<longrightarrow> same_entity (as_stored m i now) r')"
proof -
  have d: "distinct (map fst (api_CustomProperties m))" using assms(5) by (simp add: base_ok_def)
  obtain i r0 where i: "int32_range i" "rd kept = Inr r0" "same_entity (as_stored m i now) r0"
    "\<And>e'. GetByID (co_ops c) (context_repo t nf n f rest) i s' = Inr e' \<Longrightarrow> \<exists>r'. rd e' = Inr r' \<and> same_entity (as_stored m i now) r'"
    by (rule created_context [OF assms(1-4) d assms(6-9)]) blast+
  have "same_entity (as_stored m i now) r'"
    if "get_by_id c (context_repo t nf n f rest) (itoa i) s' = Inr e'" "rd e' = Inr r'" for e' r'
    using i(4) [OF get_by_id_stored [OF i(1) that(1)]] that(2) by auto
  with i(2,3) assms(10) show ?thesis by (intro exI [of _ i]) auto
qed

lemma created_entity:
  assumes store: "sql_store (co_ops c) rows props links" and m: "base_ok m" "api_Id m = None" "int64_range now"
    and cv: "\<And>m'. m' = m \<or> (\<exists>i. m' = as_stored m i now) \<Longrightarrow>
      cv m' = convert_entity codec t m' (base_attributes (Some nm) None None m') (Inr (part_rows parts))"
    and parts: "parts_ok parts" "\<forall>p \<in> set (part_rows parts). \<not> sp_IsCustom p"
    and reading: "\<And>i. base_ok (as_stored m i now) \<Longrightarrow> \<exists>e'. cv (as_stored m i now) = Inr e' \<and> reads_back rd e' (as_stored m i now)"
    and e: "cv m = Inr e" and save: "Save (co_ops c) (context_repo t nf n f rest) now e parent s = (Inr kept, s')"
    and ids: "\<And>i. rows s' ContextTable i \<noteq> None \<Longrightarrow> int32_range i" and read: "rd kept = Inr r"
  shows "\<exists>i. same_entity (as_stored m i now) r \<and> (\<forall>e' r'. get_by_id c (context_repo t nf n f rest) (itoa i) s' = Inr e'
    \<longrightarrow> rd e' = Inr r' \<longrightarrow> same_entity (as_stored m i now) r')"
proof (rule created_read [where rows = rows and rd = rd, OF store _ parts m(1,2) _ save ids read])
  show conv: "convert_entity codec t m (base_attributes (Some nm) None None m) (Inr (part_rows parts)) = Inr e"
    using cv [of m] e by simp
  fix i assume i: "int32_range i"
  from reading [OF base_ok_stored [OF m(1) i m(3)]]
  obtain e' where e': "cv (as_stored m i now) = Inr e'" "reads_back rd e' (as_stored m i now)" by blast
  then have "e' = stored_context e i now"
    using convert_stored [OF conv i m(3)] cv [of "as_stored m i now"] by (auto simp: as_stored_def)
  with e'(2) show "reads_back rd (stored_context e i now) (as_stored m i now)" by simp
qed

lemma created_registered_model:
  assumes store: "sql_store (co_ops c) rows props links" and ok: "registered_model_ok (co_codec c) m" "api_Id m = None"
    and now: "int64_range (fr_Now fr)" and up: "UpsertRegisteredModel c fr (Some m) nilCustom s = (Inr r, s')"
    and ids: "\<And>i. rows s' ContextTable i \<noteq> None \<Longrightarrow> int32_range i"
  shows "\<exists>i. same_entity (as_stored m i (fr_Now fr)) r
    \<and> (\<forall>r'. GetRegisteredModelById c (itoa i) s' = Inr r' \<longrightarrow> same_entity (as_stored m i (fr_Now fr)) r')"
proof -
  let ?t = "type_id c RegisteredModelTypeName" and ?cv = "\<lambda>m. ConvertRegisteredModel (co_codec c) (type_wrapper c RegisteredModelTypeName None m)"
  obtain nf n f rest where repo: "NewRegisteredModelRepository (co_quote c) ?t = context_repo ?t nf n f rest"
    using context_repositories(1) by blast
  obtain e kept parent where e: "?cv m = Inr e" and read: "ReadRegisteredModel (co_codec c) kept = Inr r"
    and save: "Save (co_ops c) (context_repo ?t nf n f rest) (fr_Now fr) e parent s = (Inr kept, s')"
    using up ok(2) by (auto simp: UpsertRegisteredModel_def try_state_Inr saved_Inr SaveRegisteredModel_def repo MapToRegisteredModel_def MapFromRegisteredModel_def)
  have base: "base_ok m" and new: "api_Id m = None" using ok by (simp_all add: registered_model_ok_def type_wrapper_def)
  obtain parts where parts: "MapRegisteredModelPropertiesEmbedMD (co_codec c) m = Inr (part_rows parts)" "parts_ok parts" "\<forall>p \<in> set (part_rows parts). \<not> sp_IsCustom p"
    by (rule that [OF registered_model_rows [OF ok(1)]]) (auto simp: row_simps intro!: rows_not_custom)
  have "\<exists>i. same_entity (as_stored m i (fr_Now fr)) r
    \<and> (\<forall>e' r'. get_by_id c (context_repo ?t nf n f rest) (itoa i) s' = Inr e'
      \<longrightarrow> ReadRegisteredModel (co_codec c) e' = Inr r' \<longrightarrow> same_entity (as_stored m i (fr_Now fr)) r')"
  proof (rule created_entity [where rows = rows and cv = ?cv and rd = "ReadRegisteredModel (co_codec c)" and parts = parts
        and nm = "rm_Name m", OF store base new now _ parts(2,3) _ e save ids read])
    fix m' assume "m' = m \<or> (\<exists>i. m' = as_stored m i (fr_Now fr))"
    then show "?cv m' = convert_entity (co_codec c) ?t m' (base_attributes (Some (rm_Name m)) None None m') (Inr (part_rows parts))"
      using parts(1)
      by (auto simp: ConvertRegisteredModel_def MapRegisteredModelAttributesEmbedMD_def type_wrapper_def as_stored_def MapRegisteredModelPropertiesEmbedMD_def)
  next
    fix i assume "base_ok (as_stored m i (fr_Now fr))"
    then show "\<exists>e'. ?cv (as_stored m i (fr_Now fr)) = Inr e'
        \<and> reads_back (ReadRegisteredModel (co_codec c)) e' (as_stored m i (fr_Now fr))"
      using ok(1) registered_model_reads_back [of "co_codec c" "type_wrapper c RegisteredModelTypeName None (as_stored m i (fr_Now fr))"] by (auto simp: registered_model_ok_def as_stored_def type_wrapper_def)
  qed
  then show ?thesis by (auto simp: GetRegisteredModelById_def repo try_bind_Inr_iff MapToRegisteredModel_def)
qed

lemma created_model_version:
  assumes store: "sql_store (co_ops c) rows props links" and ok: "model_version_ok (fr_Owner fr) (type_wrapper c ModelVersionTypeName (Some x) (m\<lparr>ver_RegisteredModelId := x\<rparr>))" "api_Id m = None"
    and now: "int64_range (fr_Now fr)" and up: "UpsertModelVersion c fr (Some m) nilCustom (Some x) s = (Inr r, s')"
    and ids: "\<And>i. rows s' ContextTable i \<noteq> None \<Longrightarrow> int32_range i"
  shows "\<exists>i. same_entity (as_stored (m\<lparr>ver_RegisteredModelId := x\<rparr>) i (fr_Now fr)) r
    \<and> (\<forall>r'. GetModelVersionById c (itoa i) s' = Inr r' \<longrightarrow> same_entity (as_stored (m\<lparr>ver_RegisteredModelId := x\<rparr>) i (fr_Now fr)) r')"
proof -
  let ?t = "type_id c ModelVersionTypeName" and ?cv = "\<lambda>m. ConvertModelVersion (co_codec c) (fr_Owner fr) (type_wrapper c ModelVersionTypeName (Some x) m)"
  obtain nf n f rest where repo: "NewModelVersionRepository (co_quote c) ?t = context_repo ?t nf n f rest"
    using context_repositories(2) by blast
  obtain e kept parent where e: "?cv (m\<lparr>ver_RegisteredModelId := x\<rparr>) = Inr e" and read: "ReadModelVersion (co_codec c) kept = Inr r"
    and save: "Save (co_ops c) (context_repo ?t nf n f rest) (fr_Now fr) e parent s = (Inr kept, s')"
    using up ok(2) by (auto simp: UpsertModelVersion_def try_state_Inr saved_Inr SaveModelVersion_def repo MapToModelVersion_def MapFromModelVersion_def)
  have base: "base_ok (m\<lparr>ver_RegisteredModelId := x\<rparr>)" and new: "api_Id (m\<lparr>ver_RegisteredModelId := x\<rparr>) = None" using ok by (simp_all add: model_version_ok_def type_wrapper_def)
  obtain parts where parts: "MapModelVersionPropertiesEmbedMD (m\<lparr>ver_RegisteredModelId := x\<rparr>) = Inr (part_rows parts)" "parts_ok parts" "\<forall>p \<in> set (part_rows parts). \<not> sp_IsCustom p"
    by (rule that [OF model_version_rows [OF ok(1), unfolded type_wrapper_def, simplified]]) (auto simp: row_simps intro!: rows_not_custom)
  have "\<exists>i. same_entity (as_stored (m\<lparr>ver_RegisteredModelId := x\<rparr>) i (fr_Now fr)) r
    \<and> (\<forall>e' r'. get_by_id c (context_repo ?t nf n f rest) (itoa i) s' = Inr e'
      \<longrightarrow> ReadModelVersion (co_codec c) e' = Inr r' \<longrightarrow> same_entity (as_stored (m\<lparr>ver_RegisteredModelId := x\<rparr>) i (fr_Now fr)) r')"
  proof (rule created_entity [where rows = rows and cv = ?cv and rd = "ReadModelVersion (co_codec c)" and parts = parts
        and nm = "PrefixWhenOwned (fr_Owner fr) (Some x) (ver_Name m)", OF store base new now _ parts(2,3) _ e save ids read])
    fix m' assume "m' = (m\<lparr>ver_RegisteredModelId := x\<rparr>) \<or> (\<exists>i. m' = as_stored (m\<lparr>ver_RegisteredModelId := x\<rparr>) i (fr_Now fr))"
    then show "?cv m' = convert_entity (co_codec c) ?t m' (base_attributes (Some (PrefixWhenOwned (fr_Owner fr) (Some x) (ver_Name m))) None None m') (Inr (part_rows parts))"
      using parts(1)
      by (auto simp: ConvertModelVersion_def MapModelVersionAttributesEmbedMD_def MapModelVersionNameEmbedMD_def type_wrapper_def as_stored_def MapModelVersionPropertiesEmbedMD_def)
  next
    fix i assume "base_ok (as_stored (m\<lparr>ver_RegisteredModelId := x\<rparr>) i (fr_Now fr))"
    then show "\<exists>e'. ?cv (as_stored (m\<lparr>ver_RegisteredModelId := x\<rparr>) i (fr_Now fr)) = Inr e'
        \<and> reads_back (ReadModelVersion (co_codec c)) e' (as_stored (m\<lparr>ver_RegisteredModelId := x\<rparr>) i (fr_Now fr))"
      using ok(1) model_version_reads_back [of "fr_Owner fr" "type_wrapper c ModelVersionTypeName (Some x) (as_stored (m\<lparr>ver_RegisteredModelId := x\<rparr>) i (fr_Now fr))" "co_codec c"] by (auto simp: model_version_ok_def as_stored_def type_wrapper_def)
  qed
  then show ?thesis by (auto simp: GetModelVersionById_def repo try_bind_Inr_iff MapToModelVersion_def)
qed

lemma created_serving_environment:
  assumes store: "sql_store (co_ops c) rows props links" and ok: "serving_environment_ok (type_wrapper c ServingEnvironmentTypeName None m)" "api_Id m = None"
    and now: "int64_range (fr_Now fr)" and up: "UpsertServingEnvironment c fr (Some m) nilCustom s = (Inr r, s')"
    and ids: "\<And>i. rows s' ContextTable i \<noteq> None \<Longrightarrow> int32_range i"
  shows "\<exists>i. same_entity (as_stored m i (fr_Now fr)) r
    \<and> (\<forall>r'. GetServingEnvironmentById c (itoa i) s' = Inr r' \<longrightarrow> same_entity (as_stored m i (fr_Now fr)) r')"
proof -
  let ?t = "type_id c ServingEnvironmentTypeName" and ?cv = "\<lambda>m. ConvertServingEnvironment (co_codec c) (type_wrapper c ServingEnvironmentTypeName None m)"
  obtain nf n f rest where repo: "NewServingEnvironmentRepository (co_quote c) ?t = context_repo ?t nf n f rest"
    using context_repositories(3) by blast
  obtain e kept parent where e: "?cv m = Inr e" and read: "ReadServingEnvironment (co_codec c) kept = Inr r"
    and save: "Save (co_ops c) (context_repo ?t nf n f rest) (fr_Now fr) e parent s = (Inr kept, s')"
    using up ok(2) by (auto simp: UpsertServingEnvironment_def try_state_Inr saved_Inr SaveServingEnvironment_def repo MapToServingEnvironment_def MapFromServingEnvironment_def)
  have base: "base_ok m" and new: "api_Id m = None" using ok by (simp_all add: serving_environment_ok_def type_wrapper_def)
  obtain parts where parts: "MapServingEnvironmentPropertiesEmbedMD m = Inr (part_rows parts)" "parts_ok parts" "\<forall>p \<in> set (part_rows parts). \<not> sp_IsCustom p"
    by (rule that [OF serving_environment_rows [OF ok(1), unfolded type_wrapper_def, simplified]]) (auto simp: row_simps intro!: rows_not_custom)
  have "\<exists>i. same_entity (as_stored m i (fr_Now fr)) r
    \<and> (\<forall>e' r'. get_by_id c (context_repo ?t nf n f rest) (itoa i) s' = Inr e'
      \<longrightarrow> ReadServingEnvironment (co_codec c) e' = Inr r' \<longrightarrow> same_entity (as_stored m i (fr_Now fr)) r')"
  proof (rule created_entity [where rows = rows and cv = ?cv and rd = "ReadServingEnvironment (co_codec c)" and parts = parts
        and nm = "env_Name m", OF store base new now _ parts(2,3) _ e save ids read])
    fix m' assume "m' = m \<or> (\<exists>i. m' = as_stored m i (fr_Now fr))"
    then show "?cv m' = convert_entity (co_codec c) ?t m' (base_attributes (Some (env_Name m)) None None m') (Inr (part_rows parts))"
      using parts(1)
      by (auto simp: ConvertServingEnvironment_def MapServingEnvironmentAttributesEmbedMD_def type_wrapper_def as_stored_def MapServingEnvironmentPropertiesEmbedMD_def)
  next
    fix i assume "base_ok (as_stored m i (fr_Now fr))"
    then show "\<exists>e'. ?cv (as_stored m i (fr_Now fr)) = Inr e'
        \<and> reads_back (ReadServingEnvironment (co_codec c)) e' (as_stored m i (fr_Now fr))"
      using ok(1) serving_environment_reads_back [of "type_wrapper c ServingEnvironmentTypeName None (as_stored m i (fr_Now fr))" "co_codec c"] by (auto simp: serving_environment_ok_def as_stored_def type_wrapper_def)
  qed
  then show ?thesis by (auto simp: GetServingEnvironmentById_def repo try_bind_Inr_iff MapToServingEnvironment_def)
qed

lemma created_experiment:
  assumes store: "sql_store (co_ops c) rows props links" and ok: "experiment_ok (type_wrapper c ExperimentTypeName None m)" "api_Id m = None"
    and now: "int64_range (fr_Now fr)" and up: "UpsertExperiment c fr (Some m) nilCustom s = (Inr r, s')"
    and ids: "\<And>i. rows s' ContextTable i \<noteq> None \<Longrightarrow> int32_range i"
  shows "\<exists>i. same_entity (as_stored m i (fr_Now fr)) r
    \<and> (\<forall>r'. GetExperimentById c (itoa i) s' = Inr r' \<longrightarrow> same_entity (as_stored m i (fr_Now fr)) r')"
proof -
  let ?t = "type_id c ExperimentTypeName" and ?cv = "\<lambda>m. ConvertExperiment (co_codec c) (type_wrapper c ExperimentTypeName None m)"
  obtain nf n f rest where repo: "NewExperimentRepository (co_quote c) ?t = context_repo ?t nf n f rest"
    using context_repositories(4) by blast
  obtain e kept parent where e: "?cv m = Inr e" and read: "ReadExperiment (co_codec c) kept = Inr r"
    and save: "Save (co_ops c) (context_repo ?t nf n f rest) (fr_Now fr) e parent s = (Inr kept, s')"
    using up ok(2) by (auto simp: UpsertExperiment_def try_state_Inr saved_Inr SaveExperiment_def repo MapToExperiment_def MapFromExperiment_def)
  have base: "base_ok m" and new: "api_Id m = None" using ok by (simp_all add: experiment_ok_def type_wrapper_def)
  obtain parts where parts: "MapExperimentPropertiesEmbedMD m = Inr (part_rows parts)" "parts_ok parts" "\<forall>p \<in> set (part_rows parts). \<not> sp_IsCustom p"
    by (rule that [OF experiment_rows [OF ok(1), unfolded type_wrapper_def, simplified]]) (auto simp: row_simps intro!: rows_not_custom)
  have "\<exists>i. same_entity (as_stored m i (fr_Now fr)) r
    \<and> (\<forall>e' r'. get_by_id c (context_repo ?t nf n f rest) (itoa i) s' = Inr e'
      \<longrightarrow> ReadExperiment (co_codec c) e' = Inr r' \<longrightarrow> same_entity (as_stored m i (fr_Now fr)) r')"
  proof (rule created_entity [where rows = rows and cv = ?cv and rd = "ReadExperiment (co_codec c)" and parts = parts
        and nm = "xp_Name m", OF store base new now _ parts(2,3) _ e save ids read])
    fix m' assume "m' = m \<or> (\<exists>i. m' = as_stored m i (fr_Now fr))"
    then show "?cv m' = convert_entity (co_codec c) ?t m' (base_attributes (Some (xp_Name m)) None None m') (Inr (part_rows parts))"
      using parts(1)
      by (auto simp: ConvertExperiment_def MapExperimentAttributesEmbedMD_def type_wrapper_def as_stored_def MapExperimentPropertiesEmbedMD_def)
  next
    fix i assume "base_ok (as_stored m i (fr_Now fr))"
    then show "\<exists>e'. ?cv (as_stored m i (fr_Now fr)) = Inr e'
        \<and> reads_back (ReadExperiment (co_codec c)) e' (as_stored m i (fr_Now fr))"
      using ok(1) experiment_reads_back [of "type_wrapper c ExperimentTypeName None (as_stored m i (fr_Now fr))" "co_codec c"] by (auto simp: experiment_ok_def as_stored_def type_wrapper_def)
  qed
  then show ?thesis by (auto simp: GetExperimentById_def repo try_bind_Inr_iff MapToExperiment_def)
qed


subsection \<open>An example\<close>

definition example_types :: type_map where
  "example_types = zip [RegisteredModelTypeName, ModelVersionTypeName, ModelArtifactTypeName, DocArtifactTypeName,
     ServingEnvironmentTypeName, InferenceServiceTypeName, ServeModelTypeName, ExperimentTypeName, ExperimentRunTypeName,
     DataSetTypeName, MetricTypeName, ParameterTypeName, MetricHistoryTypeName] [11..23]"

definition example_core :: "tables core" where
  "example_core = \<lparr>co_ops = example_ops, co_quote = (\<lambda>t. t), co_dialect = ''postgres'', co_parser = (\<lambda>_. Inl []), co_fmt = (\<lambda>_. []),
     co_codec = example_codec, co_types = example_types\<rparr>"

definition example_fresh :: fresh where
  "example_fresh = \<lparr>fr_Now = 5, fr_Name = ''uuid-1'', fr_Owner = ''uuid-2''\<rparr>"

definition new_model :: registered_model where
  "new_model = \<lparr>api_Id = None, api_ExternalId = None, api_CustomProperties = [(''team'', mv_of_string ''ml'')],
     api_Description = Some ''d'', api_CreateTime = None, api_LastUpdateTime = None, rm_Name = ''granite'', rm_Readme = None,
     rm_Maturity = None, rm_Language = None, rm_Tasks = None, rm_Provider = Some ''ibm'', rm_Logo = None, rm_License = None,
     rm_LicenseLink = None, rm_LibraryName = None, rm_Owner = Some ''me'', rm_State = Some ''LIVE''\<rparr>"

definition new_version :: model_version where
  "new_version = \<lparr>api_Id = None, api_ExternalId = None, api_CustomProperties = [], api_Description = None, api_CreateTime = None,
     api_LastUpdateTime = None, ver_Name = ''v1:beta'', ver_State = None, ver_Author = Some ''me'', ver_RegisteredModelId = []\<rparr>"

definition new_environment :: serving_environment where
  "new_environment = \<lparr>api_Id = None, api_ExternalId = None, api_CustomProperties = [], api_Description = None, api_CreateTime = None,
     api_LastUpdateTime = None, env_Name = ''prod''\<rparr>"

definition new_experiment :: xp_entity where
  "new_experiment = \<lparr>api_Id = None, api_ExternalId = None, api_CustomProperties = [], api_Description = None, api_CreateTime = None,
     api_LastUpdateTime = None, xp_Name = ''tuning'', xp_Owner = None, xp_State = Some ''LIVE''\<rparr>"

lemmas new_defs = new_model_def new_version_def new_environment_def new_experiment_def

definition "model_created = UpsertRegisteredModel example_core example_fresh (Some new_model) False empty_tables"
definition "version_created = UpsertModelVersion example_core example_fresh (Some new_version) False (Some ''1'') empty_tables"
definition "environment_created = UpsertServingEnvironment example_core example_fresh (Some new_environment) False empty_tables"
definition "experiment_created = UpsertExperiment example_core example_fresh (Some new_experiment) False empty_tables"

lemma saved_ok:
  "\<not> isl (fst x) \<Longrightarrow> \<not> isl (rd (projr (fst x))) \<Longrightarrow> \<not> isl (fst (saved name rd x)) \<and> snd (saved name rd x) = snd x"
  by (cases x; cases "fst x") (auto simp: saved_def)

lemma conv_ok: "\<not> isl r \<Longrightarrow> conv_bad r = Inr (projr r)" "\<not> isl r \<Longrightarrow> conv_raw r = Inr (projr r)"
  by (cases r; simp)+

text \<open>The steps of the four calls, evaluated one by one.\<close>

definition "model_entity = projr (MapFromRegisteredModel example_core new_model)"
definition "environment_entity = projr (MapFromServingEnvironment example_core new_environment)"
definition "experiment_entity = projr (MapFromExperiment example_core new_experiment)"
definition "model_saved = SaveRegisteredModel example_ops (\<lambda>t. t) 11 5 model_entity empty_tables"
definition version_row :: base_entity where "version_row = \<lparr>be_ID = None, be_TypeID = 12, be_Attributes = \<lparr>at_Name = Some ''1:v1:beta'', at_URI = None,
     at_State = None, at_ExternalID = None, at_CreateTime = None, at_LastUpdateTime = None\<rparr>,
     be_Properties = [NewStringProperty ''author'' ''me'' False, NewIntProperty ''registered_model_id'' 1 False], be_Custom = []\<rparr>"
definition "version_saved = SaveModelVersion example_ops (\<lambda>t. t) 12 5 version_row empty_tables"
definition "environment_saved = SaveServingEnvironment example_ops (\<lambda>t. t) 15 5 environment_entity empty_tables"
definition "experiment_saved = SaveExperiment example_ops (\<lambda>t. t) 18 5 experiment_entity empty_tables"

lemma example_params [simp]:
  "co_ops example_core = example_ops" "co_quote example_core = (\<lambda>t. t)" "fr_Now example_fresh = 5"
  "type_id example_core RegisteredModelTypeName = 11" "type_id example_core ModelVersionTypeName = 12"
  "type_id example_core ServingEnvironmentTypeName = 15" "type_id example_core ExperimentTypeName = 18"
  by (simp_all add: example_core_def example_fresh_def) code_simp+

lemma new_ids [simp]: "api_Id new_model = None" "api_Id new_version = None" "api_Id new_environment = None" "api_Id new_experiment = None"
  by (simp_all add: new_defs)

lemma model_steps:
  "\<not> isl (MapFromRegisteredModel example_core new_model)" "\<not> isl (fst model_saved)" "\<not> isl (MapToRegisteredModel example_core (projr (fst model_saved)))"
  by code_simp+

lemma itoa_one: "itoa 1 = ''1''" by code_simp
lemma one32: "StringToInt32 ''1'' = Inr 1"
  using StringToInt32_itoa [of 1] by (simp add: itoa_one int32_range_def)
lemma canonical_one: "canonical_int 32 ''1''"
  using one32 by (auto simp: canonical_int_def StringToInt32_def itoa_one split: sum.splits)


lemma version_from: "MapFromModelVersion example_core example_fresh (new_version\<lparr>ver_RegisteredModelId := ''1''\<rparr>) (Some ''1'') = Inr version_row"
  by (simp add: MapFromModelVersion_def ConvertModelVersion_def new_version_def type_wrapper_def convert_entity_def one32 converter_defs PrefixWhenOwned_def
     MapOpenAPICustomPropertiesEmbedMD_def base_attributes_def version_row_def collect_def id_property_def opt_string_def required_id_def StringToInt64_def)

lemma version_steps:
  "\<not> isl (fst version_saved)" "\<not> isl (MapToModelVersion example_core (projr (fst version_saved)))"
  by code_simp+

lemma environment_steps:
  "\<not> isl (MapFromServingEnvironment example_core new_environment)" "\<not> isl (fst environment_saved)" "\<not> isl (MapToServingEnvironment example_core (projr (fst environment_saved)))"
  by code_simp+

lemma experiment_steps:
  "\<not> isl (MapFromExperiment example_core new_experiment)" "\<not> isl (fst experiment_saved)" "\<not> isl (MapToExperiment example_core (projr (fst experiment_saved)))"
  by code_simp+

lemma model_created_saved:
  "model_created = saved (Some (rm_Name new_model)) (\<lambda>r. conv_raw (MapToRegisteredModel example_core r)) model_saved"
  by (simp add: model_created_def UpsertRegisteredModel_def model_saved_def model_entity_def conv_ok model_steps(1))

lemma version_created_saved:
  "version_created = saved (Some (ver_Name (new_version\<lparr>ver_RegisteredModelId := ''1''\<rparr>))) (\<lambda>r. conv_bad (MapToModelVersion example_core r)) version_saved"
  by (simp add: version_created_def UpsertModelVersion_def version_saved_def conv_bad_def version_from Let_def)

lemma environment_created_saved:
  "environment_created = saved (Some (env_Name new_environment)) (\<lambda>r. conv_bad (MapToServingEnvironment example_core r)) environment_saved"
  by (simp add: environment_created_def UpsertServingEnvironment_def environment_saved_def environment_entity_def conv_ok environment_steps(1))

lemma experiment_created_saved:
  "experiment_created = saved (Some (xp_Name new_experiment)) (\<lambda>r. conv_bad (MapToExperiment example_core r)) experiment_saved"
  by (simp add: experiment_created_def UpsertExperiment_def experiment_saved_def experiment_entity_def conv_ok experiment_steps(1))

lemma created_steps:
  "\<not> isl (fst model_created) \<and> snd model_created = snd model_saved"
  "\<not> isl (fst version_created) \<and> snd version_created = snd version_saved"
  "\<not> isl (fst environment_created) \<and> snd environment_created = snd environment_saved"
  "\<not> isl (fst experiment_created) \<and> snd experiment_created = snd experiment_saved"
  unfolding model_created_saved version_created_saved environment_created_saved experiment_created_saved
  by (intro saved_ok; simp add: conv_ok model_steps version_steps environment_steps experiment_steps)+

lemma new_model_scalar: "scalar_value (mv_of_string ''ml'')"
  by (auto simp: scalar_value_def hasPrefix_def mlmdStructPrefix_def intro!: exI [of _ "''ml''"])

lemma created_ids:
  "list_all (\<lambda>e. getEntityID e = 1) (tb_rows (snd model_saved) @ tb_rows (snd version_saved) @ tb_rows (snd environment_saved)
     @ tb_rows (snd experiment_saved))"
  by code_simp

lemma not_isl_pair: "\<not> isl (fst r) \<Longrightarrow> r = (Inr (projr (fst r)), snd r)"
  by (simp add: prod_eq_iff)

lemma ex_conj1: "\<exists>i. P i \<and> Q i \<Longrightarrow> \<exists>i. P i"
  by blast

lemma example_ids:
  assumes "t \<in> {snd model_created, snd version_created, snd environment_created, snd experiment_created}" "table_row t ContextTable i \<noteq> None"
  shows "int32_range i"
proof -
  obtain e where "e \<in> set (tb_rows t)" "getEntityID e = i" using assms(2) table_row_Some by blast
  then have "i = 1" using assms(1) created_ids created_steps by (auto simp: list_all_iff)
  then show ?thesis by (simp add: int32_range_def)
qed


end
