(* ===== verification/Core_Facts.thy ===== *)
theory Core_Facts
  imports Core_Artifacts Core_Roundtrip
begin

text \<open>
  The properties of the service: what an error tells about the database, which parents must exist, what a client reads
  after it created an entity, and how metrics are logged and their history is named.
\<close>

subsection \<open>Errors and the database\<close>

text \<open>An outcome that is clean: if it is a not-found or a conflict, nothing was written.\<close>

definition clean :: "'s \<Rightarrow> (core_error + 'a) \<times> 's \<Rightarrow> bool" where
  "clean s r = (fst r = Inl ErrNotFound \<or> fst r = Inl ErrConflict \<longrightarrow> snd r = s)"

named_theorems clean_intros

lemma cleanD: "err = ErrNotFound \<or> err = ErrConflict \<Longrightarrow> clean s r \<Longrightarrow> r = (Inl err, s') \<longrightarrow> s' = s"
  by (auto simp: clean_def)

lemma clean_error [simp]: "clean s (Inl err, s)"
  by (simp add: clean_def)

lemma clean_try_state [clean_intros]: "(\<And>x. r = Inr x \<Longrightarrow> clean s (f x s)) \<Longrightarrow> clean s (try_state r f s)"
  by (cases r) simp_all

lemma Save_failed: "Save ops cfg now e parent s = (Inl err, s') \<Longrightarrow> s' = s"
  by (auto simp: Save_def Transaction_def split: sum.splits option.splits prod.splits)

lemma conv_class_kept: "conv_class e \<noteq> ErrNotFound \<and> conv_class e \<noteq> ErrConflict"
  by (cases e) simp_all

lemma conv_never:
  "conv_raw r \<noteq> Inl ErrNotFound" "conv_raw r \<noteq> Inl ErrConflict" "conv_bad r \<noteq> Inl ErrNotFound" "conv_bad r \<noteq> Inl ErrConflict"
  using conv_class_kept by (cases r; auto simp: conv_raw_def conv_bad_def reclass_def)+

lemma clean_saved:
  assumes "\<And>m. read m \<noteq> Inl ErrNotFound \<and> read m \<noteq> Inl ErrConflict"
  shows "clean s (saved name read (Save ops cfg now e parent s))"
proof (cases "Save ops cfg now e parent s")
  case (Pair r s')
  with assms Save_failed [of ops cfg now e parent s] show ?thesis by (cases r) (auto simp: saved_def clean_def)
qed

lemma clean_if [clean_intros]: "clean s x \<Longrightarrow> clean s y \<Longrightarrow> clean s (if b then x else y)"
  by simp

lemmas [clean_intros] = clean_error

lemmas save_defs = SaveRegisteredModel_def SaveModelVersion_def SaveServingEnvironment_def SaveInferenceService_def
  SaveExperiment_def SaveExperimentRun_def

lemma clean_saved_conv [clean_intros]:
  "clean s (saved name (\<lambda>m. conv_bad (read m)) (Save ops cfg now e parent s))"
  "clean s (saved name (\<lambda>m. conv_raw (read' m)) (Save ops cfg now e parent s))"
  by (rule clean_saved, simp add: conv_never)+

lemma clean_save_artifact [clean_intros]: "clean s (save_artifact c fr repo model name parent read s)"
  unfolding save_artifact_def by (intro clean_intros)

lemma clean_upsert_typed: "clean s (upsert_typed c fr a nilCustom p parent s)"
  by (cases a) (auto simp: upsertModelArtifact_def upsertDocArtifact_def upsertDataSet_def upsertMetric_def upsertParameter_def
      intro!: clean_intros)

lemma clean_upsertArtifact: "clean s (upsertArtifact c fr a nilCustom p s)"
  by (auto simp: upsertArtifact_def Let_def clean_upsert_typed split: option.split sum.split intro!: clean_intros)

lemma clean_UpsertServeModel: "clean s (UpsertServeModel c fr m nilCustom i s)"
  unfolding UpsertServeModel_def by (cases m; simp; intro clean_intros)

text \<open>The history of a metric is one save: an error leaves the database as it was.\<close>

lemma try_state_failed:
  "try_state r f s = (Inl err, s') \<Longrightarrow> (\<And>x. r = Inr x \<Longrightarrow> f x s = (Inl err, s') \<Longrightarrow> s' = s) \<Longrightarrow> s' = s"
  by (cases r) (auto simp: try_state_def)

lemma InsertMetricHistory_failed: "InsertMetricHistory c fr clock m i s = (Inl err, s') \<Longrightarrow> s' = s"
  unfolding InsertMetricHistory_def
  by (auto simp: Let_def split: option.splits if_splits sum.splits prod.splits elim!: try_state_failed dest: Save_failed)

lemma run_artifact_refused:
  assumes err: "err = ErrNotFound \<or> err = ErrConflict"
    and run: "UpsertExperimentRunArtifact c fr fr' clock a nilCustom i s = (Inl err, s')"
  shows "s' = s \<or> (\<exists>m h. upsertArtifact c fr a nilCustom (Some i) s = (Inr (ApiMetric m), s')
    \<and> InsertMetricHistory c fr' clock (Some h) i s' = (Inl err, s'))"
proof (cases "GetExperimentRunById c i s")
  case (Inr run)
  obtain res s1 where up: "upsertArtifact c fr a nilCustom (Some i) s = (res, s1)" by (rule prod.exhaust)
  show ?thesis
  proof (cases res)
    case (Inl e)
    with assms Inr up cleanD [OF err clean_upsertArtifact, of c fr a nilCustom "Some i" s s1]
    show ?thesis by (auto simp: UpsertExperimentRunArtifact_def try_state_def)
  next
    case res: (Inr art)
    then obtain m where m: "art = ApiMetric m"
      using run Inr up by (cases art) (auto simp: UpsertExperimentRunArtifact_def try_state_def)
    let ?h = "case GetExperimentRunById c i s1 of Inl err \<Rightarrow> m | Inr experimentRun \<Rightarrow> set_experiment (run_ExperimentId experimentRun) i m"
    have "InsertMetricHistory c fr' clock (Some ?h) i s1 = (Inl err, s')"
      using run Inr up res m err by (auto simp: UpsertExperimentRunArtifact_def try_state_def Let_def split: prod.splits sum.splits if_splits)
    with InsertMetricHistory_failed [OF this] up res m show ?thesis by blast
  qed
qed (use run in \<open>simp add: UpsertExperimentRunArtifact_def try_state_def\<close>)

text \<open>
  C4. A client that is answered 404 or 409 knows that nothing was written: if the create or update of an entity, or of an
  artifact of its own or below a model version, ends with the error for not found or for a conflict, the database is the one
  before the call. The artifacts of a run are the exception, and the only way it can come about is this: the artifact is a
  metric, it has been saved, and the entry of its history, which is another transaction, is refused with that error.
\<close>

theorem refused_writes_nothing:
  assumes "err = ErrNotFound \<or> err = ErrConflict"
  shows "(UpsertRegisteredModel c fr rm nilCustom s = (Inl err, s1) \<longrightarrow> s1 = s)
    \<and> (UpsertModelVersion c fr mv nilCustom parent s = (Inl err, s2) \<longrightarrow> s2 = s)
    \<and> (UpsertServingEnvironment c fr se nilCustom s = (Inl err, s3) \<longrightarrow> s3 = s)
    \<and> (UpsertInferenceService c fr si nilCustom s = (Inl err, s4) \<longrightarrow> s4 = s)
    \<and> (UpsertServeModel c fr sm nilCustom parent s = (Inl err, s5) \<longrightarrow> s5 = s)
    \<and> (UpsertExperiment c fr xp nilCustom s = (Inl err, s6) \<longrightarrow> s6 = s)
    \<and> (UpsertExperimentRun c fr xr nilCustom parent s = (Inl err, s7) \<longrightarrow> s7 = s)
    \<and> (UpsertArtifact c fr a nilCustom s = (Inl err, s8) \<longrightarrow> s8 = s)
    \<and> (UpsertModelVersionArtifact c fr a nilCustom p s = (Inl err, s9) \<longrightarrow> s9 = s)
    \<and> (UpsertExperimentRunArtifact c fr fr' clock a nilCustom p s = (Inl err, s10) \<longrightarrow>
        s10 = s \<or> (\<exists>m h. upsertArtifact c fr a nilCustom (Some p) s = (Inr (ApiMetric m), s10)
          \<and> InsertMetricHistory c fr' clock (Some h) p s10 = (Inl err, s10)))"
proof -
  have "clean s (UpsertRegisteredModel c fr rm nilCustom s)"
    unfolding UpsertRegisteredModel_def save_defs by (cases rm; simp; intro clean_intros)
  moreover have "clean s (UpsertModelVersion c fr mv nilCustom parent s)"
    unfolding UpsertModelVersion_def save_defs Let_def by (cases mv; simp; intro clean_intros)
  moreover have "clean s (UpsertServingEnvironment c fr se nilCustom s)"
    unfolding UpsertServingEnvironment_def save_defs by (cases se; simp; intro clean_intros)
  moreover have "clean s (UpsertInferenceService c fr si nilCustom s)"
    unfolding UpsertInferenceService_def save_defs by (cases si; simp; intro clean_intros)
  moreover have "clean s (UpsertExperiment c fr xp nilCustom s)"
    unfolding UpsertExperiment_def save_defs by (cases xp; simp; intro clean_intros)
  moreover have "clean s (UpsertExperimentRun c fr xr nilCustom parent s)"
    unfolding UpsertExperimentRun_def save_defs by (cases xr; cases parent; simp; intro clean_intros)
  moreover have "clean s (UpsertArtifact c fr a nilCustom s)" by (simp add: UpsertArtifact_def clean_upsertArtifact)
  moreover have "clean s (UpsertModelVersionArtifact c fr a nilCustom p s)"
    unfolding UpsertModelVersionArtifact_def by (intro clean_intros clean_upsertArtifact)
  moreover have "clean s (UpsertServeModel c fr sm nilCustom parent s)" by (rule clean_UpsertServeModel)
  moreover have "UpsertExperimentRunArtifact c fr fr' clock a nilCustom p s = (Inl err, s10) \<longrightarrow>
      s10 = s \<or> (\<exists>m h. upsertArtifact c fr a nilCustom (Some p) s = (Inr (ApiMetric m), s10)
        \<and> InsertMetricHistory c fr' clock (Some h) p s10 = (Inl err, s10))"
    by (rule impI) (rule run_artifact_refused [OF assms])
  ultimately show ?thesis by (intro conjI cleanD [OF assms])
qed

subsection \<open>Parents\<close>

text \<open>
  C9. Which parents must exist. An inference service whose serving environment cannot be read, a serve model whose model
  version or inference service cannot be read, a run whose experiment, and an artifact whose model version or run cannot be read
  are not created: the call fails and the database is unchanged. These are the parents a create reads. The registered
  model of a model version and that of an inference service are not among them, and the claim is not about them.
\<close>

theorem parents_required:
  assumes "api_Id si = None" "api_Id sm = None"
  shows "((\<forall>env. GetServingEnvironmentById c (inf_ServingEnvironmentId si) s \<noteq> Inr env) \<longrightarrow>
        (\<exists>err. UpsertInferenceService c fr (Some si) nilCustom s = (Inl err, s)))
    \<and> ((\<forall>v. GetModelVersionById c (srv_ModelVersionId sm) s \<noteq> Inr v) \<longrightarrow>
        (\<exists>err. UpsertServeModel c fr (Some sm) nilCustom p s = (Inl err, s)))
    \<and> ((\<forall>i m. p = Some i \<longrightarrow> get_by_id c (NewInferenceServiceRepository (co_quote c) (type_id c InferenceServiceTypeName)) i s \<noteq> Inr m) \<longrightarrow>
        (\<exists>err. UpsertServeModel c fr (Some sm) nilCustom p s = (Inl err, s)))
    \<and> ((\<forall>i x. p = Some i \<longrightarrow> GetExperimentById c i s \<noteq> Inr x) \<longrightarrow>
        (\<exists>err. UpsertExperimentRun c fr xr nilCustom p s = (Inl err, s)))
    \<and> ((\<forall>v. GetModelVersionById c i s \<noteq> Inr v) \<longrightarrow>
        (\<exists>err. UpsertModelVersionArtifact c fr a nilCustom i s = (Inl err, s)))
    \<and> ((\<forall>x. GetExperimentRunById c i s \<noteq> Inr x) \<longrightarrow>
        (\<exists>err. UpsertExperimentRunArtifact c fr fr' clock a nilCustom i s = (Inl err, s)))"
proof -
  have fails: "\<exists>err. r = Inl err" if "\<forall>x. r \<noteq> Inr x" for r :: "core_error + 'z" using that by (cases r) auto
  have converted: "be_ID m = None" if "conv_bad (MapFromServeModel c fr sm p) = Inr m" for m
    using that assms(2) by (auto simp: MapFromServeModel_def ConvertServeModel_def convert_entity_def type_wrapper_def try_bind_Inr_iff)
  show ?thesis
    apply (intro conjI impI)
    subgoal using assms(1) fails [of "GetServingEnvironmentById c (inf_ServingEnvironmentId si) s"]
      by (auto simp: UpsertInferenceService_def merge_def reclass_def)
    subgoal using assms(2) by (auto simp: UpsertServeModel_def merge_def try_state_def split: sum.split)
    subgoal
      using assms(2) converted
      by (cases p) (auto simp: UpsertServeModel_def merge_def try_state_def try_bind_Inr_iff split: sum.split)
    subgoal by (cases p; cases xr) (auto simp: UpsertExperimentRun_def try_state_def split: sum.split)
    subgoal by (auto simp: UpsertModelVersionArtifact_def try_state_def split: sum.split)
    subgoal by (auto simp: UpsertExperimentRunArtifact_def try_state_def split: sum.split)
    done
qed

subsection \<open>Reads by id\<close>

text \<open>
  A read by id reports every failure of the database as "not found": whatever error its repository returns, for a lost connection
  as for a missing row, each of the eight reads ends with the error the server answers with 404.
\<close>

theorem read_errors_not_found:
  assumes "parse_int 32 i = Inr n"
  shows "(GetByID (co_ops c) (NewRegisteredModelRepository (co_quote c) (type_id c RegisteredModelTypeName)) n s = Inl e1
        \<longrightarrow> GetRegisteredModelById c i s = Inl ErrNotFound)
    \<and> (GetByID (co_ops c) (NewModelVersionRepository (co_quote c) (type_id c ModelVersionTypeName)) n s = Inl e2
        \<longrightarrow> GetModelVersionById c i s = Inl ErrNotFound)
    \<and> (GetByID (co_ops c) (NewServingEnvironmentRepository (co_quote c) (type_id c ServingEnvironmentTypeName)) n s = Inl e3
        \<longrightarrow> GetServingEnvironmentById c i s = Inl ErrNotFound)
    \<and> (GetByID (co_ops c) (NewInferenceServiceRepository (co_quote c) (type_id c InferenceServiceTypeName)) n s = Inl e4
        \<longrightarrow> GetInferenceServiceById c i s = Inl ErrNotFound)
    \<and> (GetByID (co_ops c) (NewServeModelRepository (co_quote c) (type_id c ServeModelTypeName)) n s = Inl e5
        \<longrightarrow> GetServeModelById c i s = Inl ErrNotFound)
    \<and> (GetByID (co_ops c) (NewExperimentRepository (co_quote c) (type_id c ExperimentTypeName)) n s = Inl e6
        \<longrightarrow> GetExperimentById c i s = Inl ErrNotFound)
    \<and> (GetByID (co_ops c) (NewExperimentRunRepository (co_quote c) (type_id c ExperimentRunTypeName)) n s = Inl e7
        \<longrightarrow> GetExperimentRunById c i s = Inl ErrNotFound)
    \<and> (ArtifactRepository_GetByID (co_ops c) (co_types c) n s = Inl e8 \<longrightarrow> GetArtifactById c i s = Inl ErrNotFound)"
  using assms
  by (simp add: GetRegisteredModelById_def GetModelVersionById_def GetServingEnvironmentById_def GetInferenceServiceById_def
      GetServeModelById_def GetExperimentById_def GetExperimentRunById_def GetArtifactById_def getArtifact_def get_by_id_def
      ValidateIDAsInt32_def)

subsection \<open>Duplicates without a name\<close>

lemma saved_duplicate:
  "saved name read (Inl (Wrapped t (DuplicatedKey d)), s') = (Inl (case name of None \<Rightarrow> ErrPanic | Some n \<Rightarrow> ErrConflict), s')"
  by (simp add: saved_def)

text \<open>
  A run that is created without a name, and whose external id is taken, is not answered as a conflict: the message of the
  conflict dereferences the missing name, so the handler panics and the connection ends without a response.
\<close>

theorem unnamed_run_conflict_panics:
  assumes "api_Id m = None" "run_Name m = None" "ValidateIDAsInt32 x = Inr experimentID" "GetExperimentById c x s = Inr existing"
    and "check_times m = Inr ()" "MapFromExperimentRun c fr (m\<lparr>run_ExperimentId := x\<rparr>) (Some x) = Inr model"
    and "SaveExperimentRun (co_ops c) (co_quote c) (type_id c ExperimentRunTypeName) (fr_Now fr) model (Some experimentID) s
      = (Inl (Wrapped t (DuplicatedKey d)), s')"
  shows "UpsertExperimentRun c fr (Some m) nilCustom (Some x) s = (Inl ErrPanic, s')"
proof -
  have "check_times (m\<lparr>run_ExperimentId := x\<rparr>) = Inr ()" using assms(5) by (simp add: check_times_def)
  with assms show ?thesis by (simp add: UpsertExperimentRun_def merge_def saved_duplicate)
qed

subsection \<open>Logging metrics\<close>

text \<open>
  A metric that is logged below a parent is written over whatever one metric the lookup of its name found: it keeps the id and
  the name of that metric, and its own name is lost. The lookup is a \<open>LIKE\<close> whose pattern holds the name unescaped, so
  \<open>a_b\<close> finds \<open>axb\<close>.
\<close>

theorem metric_logged_into_found:
  assumes "api_Id m = None" "art_Name m = Some n" "met_Value m \<noteq> None"
    and "getArtifactByParams c (Some n) (Some p) None s = Inr (ApiMetric e)"
  shows "(\<exists>err. upsertMetric c fr m nilCustom (Some p) parent s = (Inl err, s))
    \<or> (\<exists>m'. api_Id m' = api_Id e \<and> art_Name m' = art_Name e \<and> met_Value m' = met_Value m
        \<and> upsertMetric c fr m nilCustom (Some p) parent s
          = save_artifact c fr (NewMetricRepository (co_quote c) (type_id c MetricTypeName)) (MapFromMetric c fr m' (Some p))
              (art_Name e) parent (\<lambda>r. map_sum id ApiMetric (MapToMetricFromMetric c r)) s)"
proof (cases "UpdateExistingMetric \<lparr>uw_Existing = e, uw_Update = Some m, uw_Custom = (if nilCustom then None else Some (api_CustomProperties m))\<rparr>")
  case (Inl err)
  with assms show ?thesis
    by (intro disjI1) (auto simp: upsertMetric_def merge_named_def conv_bad_def conv_raw_def reclass_def split: if_splits)
next
  case (Inr u)
  let ?m = "if nilCustom then u\<lparr>api_CustomProperties := api_CustomProperties e\<rparr> else u"
  have "api_Id u = api_Id e \<and> art_Name u = art_Name e" using update_metric_fixed [OF Inr] by simp
  moreover have "met_Value u = met_Value m"
    using Inr assms(3) by (auto simp: UpdateExistingMetric_def InitWithExisting_def Let_def try_bind_Inr_iff over_def split: option.split)
  moreover have "upsertMetric c fr m nilCustom (Some p) parent s
      = save_artifact c fr (NewMetricRepository (co_quote c) (type_id c MetricTypeName)) (MapFromMetric c fr ?m (Some p))
          (art_Name ?m) parent (\<lambda>r. map_sum id ApiMetric (MapToMetricFromMetric c r)) s"
    using assms Inr by (auto simp: upsertMetric_def merge_named_def)
  ultimately show ?thesis by (intro disjI2 exI [of _ ?m]) auto
qed

text \<open>
  The answer to a logged metric shows the two keys of the run, which every later read of the metric leaves out: the history
  entry and the answer share one map.
\<close>

lemma metric_answer_has_keys:
  assumes "UpsertExperimentRunArtifact c fr fr' clock a nilCustom i s = (Inr (ApiMetric m), s')"
  shows "''experiment_id'' \<in> fst ` set (api_CustomProperties m) \<and> ''experiment_run_id'' \<in> fst ` set (api_CustomProperties m)"
proof -
  obtain r s1 where r: "upsertArtifact c fr a nilCustom (Some i) s = (Inr r, s1)"
    using assms by (auto simp: UpsertExperimentRunArtifact_def try_state_def split: sum.splits prod.splits)
  obtain x where x: "the_Metric r = Some x"
    using assms r by (cases r) (auto simp: UpsertExperimentRunArtifact_def try_state_def split: sum.splits prod.splits)
  show ?thesis
  proof (cases "GetExperimentRunById c i s1")
    case (Inl err)
    then have "\<exists>e. InsertMetricHistory c fr' clock (Some x) i s1 = (Inl e, s1)"
      by (simp add: InsertMetricHistory_def try_state_def)
    with assms r x Inl show ?thesis
      by (auto simp: UpsertExperimentRunArtifact_def try_state_def Let_def split: sum.splits prod.splits)
  next
    case (Inr run)
    with assms r x show ?thesis
      by (auto simp: UpsertExperimentRunArtifact_def try_state_def Let_def set_experiment_def setExperimentPropertiesOnCustomProperties_def
          dom_update split: sum.splits prod.splits)
  qed
qed

subsection \<open>The names of the history\<close>

lemma find_last:
  assumes "P i" "i < n" "\<And>j. i < j \<Longrightarrow> j < n \<Longrightarrow> \<not> P j"
  shows "find P (rev [0..<n]) = Some i"
  using assms
proof (induction n)
  case (Suc n)
  then show ?case by (cases "i = n") auto
qed simp

lemma take_two:
  assumes "take 2 (drop k xs) = [a, b]"
  shows "Suc k < length xs \<and> xs ! Suc k = b"
proof -
  have "length (take 2 (drop k xs)) = 2" using assms by simp
  then have "Suc k < length xs" by simp
  moreover have "take 2 (drop k xs) ! 1 = b" using assms by simp
  ultimately show ?thesis by simp
qed

lemma cut_last_separator:
  assumes "CHR ''_'' \<notin> set t"
  shows "cut_last (n @ ''__'' @ t) = Some n"
proof -
  have "take 2 (drop j (n @ ''__'' @ t)) \<noteq> ''__''" if "length n < j" "j < length (n @ ''__'' @ t)" for j
  proof -
    obtain k where k: "j = length n + Suc k" using \<open>length n < j\<close> less_iff_Suc_add by auto
    have "take 2 (drop k (CHR ''_'' # t)) \<noteq> ''__''" using take_two [of k "CHR ''_'' # t"] assms by (auto, metis nth_mem)
    then show ?thesis by (simp add: k)
  qed
  then have "find (\<lambda>i. take 2 (drop i (n @ ''__'' @ t)) = ''__'') (rev [0..<length (n @ ''__'' @ t)]) = Some (length n)"
    by (intro find_last) auto
  then show ?thesis by (simp add: cut_last_def)
qed

text \<open>
  The name of a history entry leads back to its metric: whatever the name of the metric contains, separators included, reading
  the entry's name without its owner and cutting it gives the metric's name.
\<close>

theorem history_name_roundtrip:
  assumes "CHR '':'' \<notin> set run" "CHR ''_'' \<notin> set timestamp" "name \<noteq> []"
    and "art_Name m = MapNameFromOwned (Some (history_name run name timestamp))"
  shows "art_Name (history_metric m) = Some name"
proof -
  have "MapNameFromOwned (Some (PrefixWhenOwned [] (Some run) (name @ ''__'' @ timestamp))) = Some (name @ ''__'' @ timestamp)"
    using assms(1) by (subst name_from_owned) simp_all
  then have "art_Name m = Some (name @ ''__'' @ timestamp)"
    using assms(4) by (simp add: history_name_def PrefixWhenOwned_def Let_def)
  with cut_last_separator [OF assms(2), of name] assms(3) show ?thesis by (simp add: history_metric_def)
qed

subsection \<open>Examples\<close>

text \<open>The theorems on concrete databases.\<close>

lemma parse_one: "parse_int 32 ''1'' = Inr 1"
  using parse_int_itoa [of 32 1] by (simp add: itoa_one)

lemma id_one [simp]: "ValidateIDAsInt32 ''1'' = Inr 1"
  by (simp add: ValidateIDAsInt32_def parse_one)

lemma nothing_stored [simp]:
  "rc_Table repo = k \<Longrightarrow> GetByID example_ops repo i empty_tables = Inl (NotFound (rc_NotFoundError repo @ '': record not found''))"
  by (simp add: GetByID_def table_ops_def empty_tables_def table_row_def get_row_def)

theorem refused_writes_nothing_witness:
  "\<exists>m. UpsertRegisteredModel example_core example_fresh (Some m) False empty_tables = (Inl ErrNotFound, empty_tables)"
proof -
  let ?m = "new_model\<lparr>api_Id := Some ''1''\<rparr>"
  have "fst (UpsertRegisteredModel example_core example_fresh (Some ?m) False empty_tables) = Inl ErrNotFound"
    by (simp add: UpsertRegisteredModel_def merge_def GetRegisteredModelById_def get_by_id_def)
  moreover from this have "snd (UpsertRegisteredModel example_core example_fresh (Some ?m) False empty_tables) = empty_tables"
    using refused_writes_nothing [of ErrNotFound example_core example_fresh "Some ?m" False empty_tables] by (metis prod.collapse)
  ultimately show ?thesis by (metis prod.collapse)
qed

definition new_service :: inference_service where
  "new_service = \<lparr>api_Id = None, api_ExternalId = None, api_CustomProperties = [], api_Description = None, api_CreateTime = None,
     api_LastUpdateTime = None, inf_Name = Some ''svc'', inf_ModelVersionId = None, inf_Runtime = None, inf_DesiredState = None,
     inf_RegisteredModelId = ''1'', inf_ServingEnvironmentId = ''1''\<rparr>"

definition new_serve_model :: serve_model where
  "new_serve_model = \<lparr>api_Id = None, api_ExternalId = None, api_CustomProperties = [], api_Description = None, api_CreateTime = None,
     api_LastUpdateTime = None, srv_Name = Some ''serve'', srv_LastKnownState = None, srv_ModelVersionId = ''1''\<rparr>"

theorem parents_required_witness:
  "\<exists>err. UpsertInferenceService example_core example_fresh (Some new_service) False empty_tables = (Inl err, empty_tables)"
proof -
  have none: "\<forall>env. GetServingEnvironmentById example_core (inf_ServingEnvironmentId new_service) empty_tables \<noteq> Inr env"
    by (simp add: GetServingEnvironmentById_def get_by_id_def new_service_def)
  have new: "api_Id new_service = None" "api_Id new_serve_model = None" by (simp_all add: new_service_def new_serve_model_def)
  show ?thesis by (rule parents_required [OF new, THEN conjunct1, THEN mp, OF none])
qed

theorem read_errors_not_found_witness:
  "GetRegisteredModelById example_core ''1'' empty_tables = Inl ErrNotFound"
  using read_errors_not_found [OF parse_one, of example_core empty_tables, THEN conjunct1] by simp

theorem history_name_roundtrip_witness:
  "\<exists>m. art_Name (history_metric m) = Some ''val__acc'' \<and> art_Name m = Some ''val__acc__17''"
proof -
  let ?m = "\<lparr>api_Id = None, api_ExternalId = None, api_CustomProperties = [], api_Description = None, api_CreateTime = None,
     api_LastUpdateTime = None, art_Name = Some ''val__acc__17'', art_ExperimentId = None, art_ExperimentRunId = None,
     art_ArtifactType = None, art_State = None, met_Value = None, met_Timestamp = None, met_Step = None\<rparr>"
  have "MapNameFromOwned (Some (history_name ''5'' ''val__acc'' ''17'')) = Some ''val__acc__17''" by code_simp
  then have "art_Name (history_metric ?m) = Some ''val__acc''"
    by (intro history_name_roundtrip [where run = "''5''" and timestamp = "''17''"]) simp_all
  then show ?thesis by (intro exI [of _ ?m]) simp
qed

text \<open>A database with one experiment and one run, whose external id is unique.\<close>

definition run_tables :: tables where
  "run_tables = \<lparr>tb_rows = [Context \<lparr>cr_ID = 1, cr_TypeID = 18, cr_Name = ''tuning'', cr_ExternalID = None, cr_CreateTime = 1, cr_LastUpdateTime = 1\<rparr>,
       Context \<lparr>cr_ID = 2, cr_TypeID = 19, cr_Name = ''1:first'', cr_ExternalID = Some ''x'', cr_CreateTime = 1, cr_LastUpdateTime = 1\<rparr>],
     tb_props = [], tb_links = [(ContextTable, 1, 2)]\<rparr>"

fun external_id :: "schema_entity \<Rightarrow> string option" where
  "external_id (Artifact v) = ar_ExternalID v"
| "external_id (Context v) = cr_ExternalID v"
| "external_id (Execution v) = er_ExternalID v"

definition unique_external_ops :: "tables store_ops" where
  "unique_external_ops = example_ops\<lparr>so_insert := (\<lambda>e s.
     if \<exists>e' \<in> set (tb_rows s). table_of e' = table_of e \<and> external_id e \<noteq> None \<and> external_id e' = external_id e
     then Inl (DuplicatedKey ''external_id'') else so_insert example_ops e s)\<rparr>"

definition run_core :: "tables core" where
  "run_core = example_core\<lparr>co_ops := unique_external_ops\<rparr>"

definition new_run :: experiment_run where
  "new_run = \<lparr>api_Id = None, api_ExternalId = Some ''x'', api_CustomProperties = [], api_Description = None, api_CreateTime = None,
     api_LastUpdateTime = None, run_Name = None, run_EndTime = None, run_Status = None, run_State = None, run_Owner = None,
     run_ExperimentId = [], run_StartTime = None\<rparr>"

definition run_row :: base_entity where
  "run_row = \<lparr>be_ID = None, be_TypeID = 19, be_Attributes = \<lparr>at_Name = Some ''1:uuid-1'', at_URI = None, at_State = None,
       at_ExternalID = Some ''x'', at_CreateTime = None, at_LastUpdateTime = None\<rparr>,
     be_Properties = [NewIntProperty ''experiment_id'' 1 False], be_Custom = []\<rparr>"

lemma run_types [simp]: "type_id run_core ExperimentRunTypeName = 19" "type_id run_core ExperimentTypeName = 18" "co_ops run_core = unique_external_ops"
  "co_quote run_core = (\<lambda>t. t)" "co_codec run_core = co_codec example_core"
  by code_simp (code_simp, simp_all add: run_core_def)

lemma run_from: "MapFromExperimentRun run_core example_fresh (new_run\<lparr>run_ExperimentId := ''1''\<rparr>) (Some ''1'') = Inr run_row"
  apply (simp add: MapFromExperimentRun_def ConvertExperimentRun_def example_fresh_def new_run_def type_wrapper_def 
      convert_entity_def one32 converter_defs PrefixWhenOwned_def mapEntityName_def MapOpenAPICustomPropertiesEmbedMD_def base_attributes_def run_row_def
      collect_def id_property_def opt_string_def required_id_def StringToInt64_def)
  done

lemma run_saved: "fst (SaveExperimentRun unique_external_ops (\<lambda>t. t) 19 5 run_row (Some 1) run_tables)
    = Inl (Wrapped ''error saving experiment run: '' (DuplicatedKey ''external_id''))"
  by code_simp

lemma run_experiment: "\<exists>e. GetExperimentById run_core ''1'' run_tables = Inr e"
proof -
  have "\<not> isl (GetByID unique_external_ops (NewExperimentRepository (\<lambda>t. t) 18) 1 run_tables)" by code_simp
  moreover have "\<not> isl (MapToExperiment run_core (projr (GetByID unique_external_ops (NewExperimentRepository (\<lambda>t. t) 18) 1 run_tables)))"
    by code_simp
  ultimately show ?thesis
    by (cases "GetByID unique_external_ops (NewExperimentRepository (\<lambda>t. t) 18) 1 run_tables")
      (simp_all add: GetExperimentById_def get_by_id_def conv_ok)
qed

theorem unnamed_run_conflict_panics_witness:
  "fst (UpsertExperimentRun run_core example_fresh (Some new_run) False (Some ''1'') run_tables) = Inl ErrPanic"
proof -
  obtain e where e: "GetExperimentById run_core ''1'' run_tables = Inr e" using run_experiment by blast
  have "SaveExperimentRun (co_ops run_core) (co_quote run_core) (type_id run_core ExperimentRunTypeName) (fr_Now example_fresh) run_row (Some 1) run_tables
      = (Inl (Wrapped ''error saving experiment run: '' (DuplicatedKey ''external_id'')),
         snd (SaveExperimentRun unique_external_ops (\<lambda>t. t) 19 5 run_row (Some 1) run_tables))"
    using run_saved by (simp add: prod_eq_iff)
  from unnamed_run_conflict_panics [OF _ _ id_one e _ run_from this, of False] show ?thesis
    by (simp add: new_run_def check_times_def)
qed

text \<open>A database with one metric, which every query finds.\<close>

definition metric_tables :: tables where
  "metric_tables = \<lparr>tb_rows = [Artifact \<lparr>ar_ID = 2, ar_TypeID = 21, ar_URI = None, ar_State = None, ar_Name = Some ''1:axb'', ar_ExternalID = None,
       ar_CreateTime = 1, ar_LastUpdateTime = 1\<rparr>], tb_props = [], tb_links = [(ArtifactTable, 1, 2)]\<rparr>"

definition metric_core :: "tables core" where
  "metric_core = example_core\<lparr>co_ops := table_ops (\<lambda>k q s. Inr (filter (\<lambda>e. table_of e = k) (tb_rows s)))\<rparr>"

definition logged :: "string \<Rightarrow> metric" where
  "logged name = \<lparr>api_Id = None, api_ExternalId = None, api_CustomProperties = [], api_Description = None, api_CreateTime = None,
     api_LastUpdateTime = None, art_Name = Some name, art_ExperimentId = None, art_ExperimentRunId = None,
     art_ArtifactType = Some ''metric'', art_State = None, met_Value = Some 0, met_Timestamp = None, met_Step = None\<rparr>"

definition metric_row :: base_entity where
  "metric_row = \<lparr>be_ID = Some 2, be_TypeID = 21, be_Attributes = \<lparr>at_Name = Some ''1:axb'', at_URI = None, at_State = None,
     at_ExternalID = None, at_CreateTime = Some 1, at_LastUpdateTime = Some 1\<rparr>, be_Properties = [], be_Custom = []\<rparr>"

lemma metric_listed:
  "\<not> isl (list_artifacts metric_core (param_options (Some ''a_b'') None (Some 1)) metric_tables)"
  "lw_Items (projr (list_artifacts metric_core (param_options (Some ''a_b'') None (Some 1)) metric_tables)) = [StoredMetric metric_row]"
  by code_simp+

lemma metric_read: "\<not> isl (ReadMetric example_codec metric_row)" "art_Name (projr (ReadMetric example_codec metric_row)) = Some ''axb''"
  by code_simp+

lemma metric_found:
  "\<exists>e. getArtifactByParams metric_core (Some ''a_b'') (Some ''1'') None metric_tables = Inr (ApiMetric e) \<and> art_Name e = Some ''axb''"
proof -
  obtain e where e: "ReadMetric example_codec metric_row = Inr e" "art_Name e = Some ''axb''"
    using metric_read by (cases "ReadMetric example_codec metric_row") auto
  moreover have "co_codec metric_core = example_codec" by (simp add: metric_core_def example_core_def)
  moreover obtain l where "list_artifacts metric_core (param_options (Some ''a_b'') None (Some 1)) metric_tables = Inr l" "lw_Items l = [StoredMetric metric_row]"
    using metric_listed by (cases "list_artifacts metric_core (param_options (Some ''a_b'') None (Some 1)) metric_tables") auto
  ultimately show ?thesis
    by (simp add: getArtifactByParams_def ValidateIDAsInt32Ptr_def the_item_def MapToMetricFromMetric_def conv_bad_def conv_raw_def reclass_def)
qed

theorem metric_logged_into_found_witness:
  "\<exists>e :: metric. art_Name e = Some ''axb'' \<and>
     ((\<exists>err. upsertMetric metric_core example_fresh (logged ''a_b'') False (Some ''1'') (Some 1) metric_tables = (Inl err, metric_tables))
    \<or> (\<exists>m'. api_Id m' = api_Id e \<and> art_Name m' = art_Name e \<and> met_Value m' = Some 0
        \<and> upsertMetric metric_core example_fresh (logged ''a_b'') False (Some ''1'') (Some 1) metric_tables
          = save_artifact metric_core example_fresh (NewMetricRepository (co_quote metric_core) (type_id metric_core MetricTypeName))
              (MapFromMetric metric_core example_fresh m' (Some ''1'')) (art_Name e) (Some 1)
              (\<lambda>r. map_sum id ApiMetric (MapToMetricFromMetric metric_core r)) metric_tables))"
proof -
  obtain e where e: "getArtifactByParams metric_core (Some ''a_b'') (Some ''1'') None metric_tables = Inr (ApiMetric e)" "art_Name e = Some ''axb''"
    using metric_found by blast
  have m: "api_Id (logged ''a_b'') = None" "art_Name (logged ''a_b'') = Some ''a_b''" "met_Value (logged ''a_b'') \<noteq> None" "met_Value (logged ''a_b'') = Some 0"
    by (simp_all add: logged_def)
  show ?thesis
    by (intro exI [of _ e] conjI e(2)) (rule metric_logged_into_found [OF m(1,2,3) e(1), of example_fresh False "Some 1", unfolded m(4)])
qed

end
