(* ===== verification/Update_Facts.thy ===== *)
theory Update_Facts
  imports Core_Roundtrip
begin

text \<open>
  The reconciler over all the entities of the API: what no update may change, and that the update a handler lays over an entity
  may be laid over it a second time by the service.
\<close>

subsection \<open>What an update keeps\<close>

definition same_times :: "'a api_base_scheme \<Rightarrow> 'a api_base_scheme \<Rightarrow> bool" where
  "same_times e r = (api_Id r = api_Id e \<and> api_CreateTime r = api_CreateTime e \<and> api_LastUpdateTime r = api_LastUpdateTime e)"

text \<open>A field of the result is that of the request where the request has it, and otherwise the existing one.\<close>

definition laid_over :: "('m \<Rightarrow> 'a option) \<Rightarrow> 'm update_wrapper \<Rightarrow> 'm \<Rightarrow> bool" where
  "laid_over field w r = (field r = over (Option.bind (uw_Update w) field) (field (uw_Existing w)))"

lemma update_artifact_experiment:
  "UpdateExistingModelArtifact w1 = Inr r1 \<Longrightarrow> laid_over art_ExperimentId w1 r1 \<and> laid_over art_ExperimentRunId w1 r1"
  "UpdateExistingDocArtifact w2 = Inr r2 \<Longrightarrow> laid_over art_ExperimentId w2 r2 \<and> laid_over art_ExperimentRunId w2 r2"
  "UpdateExistingDataSet w3 = Inr r3 \<Longrightarrow> laid_over art_ExperimentId w3 r3 \<and> laid_over art_ExperimentRunId w3 r3"
  "UpdateExistingMetric w4 = Inr r4 \<Longrightarrow> laid_over art_ExperimentId w4 r4 \<and> laid_over art_ExperimentRunId w4 r4"
  "UpdateExistingParameter w5 = Inr r5 \<Longrightarrow> laid_over art_ExperimentId w5 r5 \<and> laid_over art_ExperimentRunId w5 r5"
  subgoal by (cases "uw_Update w1") (auto simp: laid_over_def over_def UpdateExistingModelArtifact_def InitWithExisting_def Let_def try_bind_Inr_iff)
  subgoal by (cases "uw_Update w2") (auto simp: laid_over_def over_def UpdateExistingDocArtifact_def InitWithExisting_def Let_def try_bind_Inr_iff)
  subgoal by (cases "uw_Update w3") (auto simp: laid_over_def over_def UpdateExistingDataSet_def InitWithExisting_def Let_def try_bind_Inr_iff)
  subgoal by (cases "uw_Update w4") (auto simp: laid_over_def over_def UpdateExistingMetric_def InitWithExisting_def Let_def try_bind_Inr_iff)
  subgoal by (cases "uw_Update w5") (auto simp: laid_over_def over_def UpdateExistingParameter_def InitWithExisting_def Let_def try_bind_Inr_iff)
  done

lemma update_run_period:
  "UpdateExistingExperimentRun w = Inr r \<Longrightarrow> laid_over run_StartTime w r \<and> laid_over run_EndTime w r"
  by (cases "uw_Update w") (auto simp: laid_over_def over_def UpdateExistingExperimentRun_def InitWithExisting_def Let_def try_bind_Inr_iff)

text \<open>
  C32. What no update changes: whatever the request contains, the id, the times of creation and of the last update and the
  name are those of the existing entity, for each of the twelve types; so are the registered model of a version, the registered
  model and serving environment of an inference service, the experiment of a run, the model version of a serve model, and the type
  of an artifact. Not kept, and said so: the experiment and the run an artifact names, and the start and end of a
  run, are those of the request where it has them.
\<close>

theorem update_keeps_identity:
  "(UpdateExistingRegisteredModel w1 = Inr r1 \<longrightarrow> same_times (uw_Existing w1) r1 \<and> rm_Name r1 = rm_Name (uw_Existing w1))
    \<and> (UpdateExistingModelVersion w2 = Inr r2 \<longrightarrow> same_times (uw_Existing w2) r2 \<and> ver_Name r2 = ver_Name (uw_Existing w2) \<and> ver_RegisteredModelId r2 = ver_RegisteredModelId (uw_Existing w2))
    \<and> (UpdateExistingServingEnvironment w3 = Inr r3 \<longrightarrow> same_times (uw_Existing w3) r3 \<and> env_Name r3 = env_Name (uw_Existing w3))
    \<and> (UpdateExistingInferenceService w4 = Inr r4 \<longrightarrow> same_times (uw_Existing w4) r4 \<and> inf_Name r4 = inf_Name (uw_Existing w4) \<and> inf_RegisteredModelId r4 = inf_RegisteredModelId (uw_Existing w4) \<and> inf_ServingEnvironmentId r4 = inf_ServingEnvironmentId (uw_Existing w4))
    \<and> (UpdateExistingExperiment w5 = Inr r5 \<longrightarrow> same_times (uw_Existing w5) r5 \<and> xp_Name r5 = xp_Name (uw_Existing w5))
    \<and> (UpdateExistingExperimentRun w6 = Inr r6 \<longrightarrow> same_times (uw_Existing w6) r6 \<and> run_Name r6 = run_Name (uw_Existing w6) \<and> run_ExperimentId r6 = run_ExperimentId (uw_Existing w6)
        \<and> laid_over run_StartTime w6 r6 \<and> laid_over run_EndTime w6 r6)
    \<and> (UpdateExistingServeModel w7 = Inr r7 \<longrightarrow> same_times (uw_Existing w7) r7 \<and> srv_Name r7 = srv_Name (uw_Existing w7) \<and> srv_ModelVersionId r7 = srv_ModelVersionId (uw_Existing w7))
    \<and> (UpdateExistingModelArtifact w8 = Inr r8 \<longrightarrow> same_times (uw_Existing w8) r8 \<and> art_Name r8 = art_Name (uw_Existing w8) \<and> art_ArtifactType r8 = art_ArtifactType (uw_Existing w8)
        \<and> laid_over art_ExperimentId w8 r8 \<and> laid_over art_ExperimentRunId w8 r8)
    \<and> (UpdateExistingDocArtifact w9 = Inr r9 \<longrightarrow> same_times (uw_Existing w9) r9 \<and> art_Name r9 = art_Name (uw_Existing w9) \<and> art_ArtifactType r9 = art_ArtifactType (uw_Existing w9)
        \<and> laid_over art_ExperimentId w9 r9 \<and> laid_over art_ExperimentRunId w9 r9)
    \<and> (UpdateExistingDataSet w10 = Inr r10 \<longrightarrow> same_times (uw_Existing w10) r10 \<and> art_Name r10 = art_Name (uw_Existing w10) \<and> art_ArtifactType r10 = art_ArtifactType (uw_Existing w10)
        \<and> laid_over art_ExperimentId w10 r10 \<and> laid_over art_ExperimentRunId w10 r10)
    \<and> (UpdateExistingMetric w11 = Inr r11 \<longrightarrow> same_times (uw_Existing w11) r11 \<and> art_Name r11 = art_Name (uw_Existing w11) \<and> art_ArtifactType r11 = art_ArtifactType (uw_Existing w11)
        \<and> laid_over art_ExperimentId w11 r11 \<and> laid_over art_ExperimentRunId w11 r11)
    \<and> (UpdateExistingParameter w12 = Inr r12 \<longrightarrow> same_times (uw_Existing w12) r12 \<and> art_Name r12 = art_Name (uw_Existing w12) \<and> art_ArtifactType r12 = art_ArtifactType (uw_Existing w12)
        \<and> laid_over art_ExperimentId w12 r12 \<and> laid_over art_ExperimentRunId w12 r12)"
  by (simp add: same_times_def update_registered_model_fixed update_model_version_fixed update_serving_environment_fixed
      update_inference_service_fixed update_xp_entity_fixed update_experiment_run_fixed update_serve_model_fixed
      update_model_artifact_fixed update_doc_artifact_fixed update_data_set_fixed update_metric_fixed update_parameter_fixed
      update_artifact_experiment update_run_period)

subsection \<open>Two layers\<close>

text \<open>
  The handler of an update lays the request over the existing entity, and the service lays the result over the same entity
  again: the second merge changes nothing.
\<close>

definition second_merge :: "('a api_base_scheme update_wrapper \<Rightarrow> conv_error + 'a api_base_scheme) \<Rightarrow> ('a api_base_scheme \<Rightarrow> bool)
    \<Rightarrow> 'a api_base_scheme update_wrapper \<Rightarrow> string \<Rightarrow> bool \<Rightarrow> bool" where
  "second_merge update enums_ok w i keepCustom =
     (enums_ok (uw_Existing w) \<and> api_Id (uw_Existing w) = Some i \<longrightarrow>
       (\<forall>u get. update w = Inr u \<and> get i = Inr (uw_Existing w) \<longrightarrow> merge get update keepCustom False u = Inr u))"

lemma second_mergeI:
  assumes "\<And>u. update w = Inr u \<Longrightarrow> api_Id u = api_Id (uw_Existing w)"
    and "\<And>u. update w = Inr u \<Longrightarrow> enums_ok (uw_Existing w) \<Longrightarrow>
      update \<lparr>uw_Existing = uw_Existing w, uw_Update = Some u, uw_Custom = Some (api_CustomProperties u)\<rparr> = Inr u"
  shows "second_merge update enums_ok w i keepCustom"
  using assms by (simp add: second_merge_def merge_def)

text \<open>
  One reconciler after the other is one: for each of the twelve types, the entity that the handler of an update has merged
  passes the merge of the service unchanged, custom properties included, so an update is applied exactly once.
\<close>

theorem update_applied_once:
  "second_merge UpdateExistingRegisteredModel registered_model_enums_ok w1 i keepCustom
    \<and> second_merge UpdateExistingModelVersion model_version_enums_ok w2 i keepCustom
    \<and> second_merge UpdateExistingServingEnvironment serving_environment_enums_ok w3 i keepCustom
    \<and> second_merge UpdateExistingInferenceService inference_service_enums_ok w4 i keepCustom
    \<and> second_merge UpdateExistingExperiment xp_entity_enums_ok w5 i keepCustom
    \<and> second_merge UpdateExistingExperimentRun experiment_run_enums_ok w6 i keepCustom
    \<and> second_merge UpdateExistingServeModel serve_model_enums_ok w7 i keepCustom
    \<and> second_merge UpdateExistingModelArtifact model_artifact_enums_ok w8 i keepCustom
    \<and> second_merge UpdateExistingDocArtifact doc_artifact_enums_ok w9 i keepCustom
    \<and> second_merge UpdateExistingDataSet data_set_enums_ok w10 i keepCustom
    \<and> second_merge UpdateExistingMetric metric_enums_ok w11 i keepCustom
    \<and> second_merge UpdateExistingParameter parameter_enums_ok w12 i keepCustom"
  by (intro conjI second_mergeI; simp add: update_registered_model_fixed update_model_version_fixed update_serving_environment_fixed
      update_inference_service_fixed update_xp_entity_fixed update_experiment_run_fixed update_serve_model_fixed
      update_model_artifact_fixed update_doc_artifact_fixed update_data_set_fixed update_metric_fixed update_parameter_fixed
      update_registered_model_again update_model_version_again update_serving_environment_again
      update_inference_service_again update_xp_entity_again update_experiment_run_again update_serve_model_again
      update_model_artifact_again update_doc_artifact_again update_data_set_again update_metric_again update_parameter_again)

subsection \<open>Examples\<close>

text \<open>A stored model, and an update that renames it and changes its owner.\<close>

abbreviation "stored_model \<equiv> as_stored new_model 1 5"

definition model_renamed :: "registered_model update_wrapper" where
  "model_renamed = \<lparr>uw_Existing = stored_model, uw_Update = Some (new_model\<lparr>rm_Name := ''other'', rm_Owner := Some ''you''\<rparr>),
     uw_Custom = None\<rparr>"

abbreviation "merged_model \<equiv> stored_model\<lparr>rm_Owner := Some ''you''\<rparr>"

lemma model_merged: "UpdateExistingRegisteredModel model_renamed = Inr merged_model"
  by (simp add: UpdateExistingRegisteredModel_def InitWithExisting_def model_renamed_def new_model_def as_stored_def conv_opt_def
      openapiRegisteredModelStateToOpenapiRegisteredModelState_def enum_switch_def)

theorem update_keeps_identity_witness:
  "same_times stored_model merged_model \<and> rm_Name merged_model = ''granite''"
proof -
  have "uw_Existing model_renamed = stored_model" by (simp add: model_renamed_def)
  moreover have "same_times (uw_Existing model_renamed) merged_model \<and> rm_Name merged_model = rm_Name (uw_Existing model_renamed)"
    by (rule update_keeps_identity [THEN conjunct1, THEN mp, OF model_merged])
  ultimately show ?thesis by (simp add: as_stored_def new_model_def)
qed

theorem update_applied_once_witness:
  "merge (\<lambda>i. Inr stored_model) UpdateExistingRegisteredModel True False merged_model = Inr merged_model"
proof -
  have ex: "uw_Existing model_renamed = stored_model" "registered_model_enums_ok stored_model" "api_Id stored_model = Some (itoa 1)"
    by (simp_all add: model_renamed_def registered_model_enums_ok_def new_model_def as_stored_def conv_opt_def
        openapiRegisteredModelStateToOpenapiRegisteredModelState_def enum_switch_def)
  have "second_merge UpdateExistingRegisteredModel registered_model_enums_ok model_renamed (itoa 1) True"
    by (rule update_applied_once [THEN conjunct1])
  with ex model_merged show ?thesis by (simp add: second_merge_def)
qed

end
