(* ===== verification/Server_Facts.thy ===== *)
theory Server_Facts
  imports Api_Server Filter_Lexer Core_Facts
begin

text \<open>
  The properties of the REST service: what the filter a lookup by name builds means to the lexer of the filter language, with
  and without quotes in the name, and what an update without custom properties leaves of those of an experiment run.
\<close>

subsection \<open>Lookups by name\<close>

lemma double_quotes_simps [simp]:
  "double_quotes [] = []" "double_quotes (a @ b) = double_quotes a @ double_quotes b"
  "double_quotes (squote # s) = squote # squote # double_quotes s"
  "double_quotes (bslash # s) = bslash # double_quotes s"
  by (simp_all add: double_quotes_def squote_def bslash_def)

lemma double_quotes_plain: "list_all plain_char s \<Longrightarrow> double_quotes s = s"
  by (induction s) (auto simp: double_quotes_def plain_char_def squote_def)

lemma lookup_text:
  "name \<noteq> [] \<Longrightarrow> buildCombinedFilterQuery [] name ext = ''name'' @ '' = '' @ squote # double_quotes name @ [squote]"
  "ext \<noteq> [] \<Longrightarrow> buildCombinedFilterQuery [] [] ext = ''externalId'' @ '' = '' @ squote # double_quotes ext @ [squote]"
  by (simp_all add: buildCombinedFilterQuery_def squote_def)

abbreviation "name_is \<equiv> [(TkIdent, ''name''), (TkOperators, ''='')]"

lemma lex_lookup:
  assumes "lex_quoted squote s = Some (t, r)"
  shows "sql_tokens (''name'' @ '' = '' @ squote # s) = map_option (\<lambda>ts. name_is @ (TkString, squote # t) # ts) (sql_tokens r)"
    "sql_tokens (''externalId'' @ '' = '' @ squote # s) = map_option (\<lambda>ts. [(TkIdent, ''externalId''), (TkOperators, ''='')] @ (TkString, squote # t) # ts) (sql_tokens r)"
  by (subst lex_word; simp add: lex_letter_def lex_literal [OF assms] option.map_comp comp_def)+

text \<open>
  C14. If the value of a lookup by name or by external id is not empty and has no quote and no backslash, the lookup asks for exactly
  this value: the filter that the list handlers build consists of the three tokens of an equality, and the value the parser takes
  from its literal is the one of the request. What a quote does is the next property.
\<close>

theorem lookup_tokens:
  assumes "list_all plain_char v" "v \<noteq> []"
  shows "sql_tokens (buildCombinedFilterQuery [] v ext) = Some (name_is @ [(TkString, squote # v @ [squote])])
    \<and> sql_tokens (buildCombinedFilterQuery [] [] v) = Some [(TkIdent, ''externalId''), (TkOperators, ''=''), (TkString, squote # v @ [squote])]
    \<and> unquoteStringValue (squote # v @ [squote]) = v"
proof -
  have q: "lex_quoted squote (v @ [squote]) = Some (v @ [squote], [])" using lex_quoted_plain [OF assms(1), of "[]"] by simp
  have "unquoteStringValue (squote # v @ [squote]) = v"
    using assms(1) by (intro unquote_plain) (auto simp: list_all_iff plain_char_def)
  with lex_lookup [OF q] show ?thesis by (simp only: lookup_text [OF assms(2)] double_quotes_plain [OF assms(1)]) simp
qed

theorem lookup_tokens_witness:
  "sql_tokens (buildCombinedFilterQuery [] ''granite 3.1'' []) = Some (name_is @ [(TkString, squote # ''granite 3.1'' @ [squote])])"
  using lookup_tokens [of "''granite 3.1''" "[]"] by (simp add: plain_char_def squote_def bslash_def)

text \<open>
  C15. A quote ends the literal of a lookup: the handler doubles it, but the language escapes with backslashes only. What follows the first
  quote of a name is a second literal, so the lookup of such a name is not an equality; and after a backslash the
  doubled quote leaves the rest of the name to be read as filter text.
\<close>

theorem lookup_with_quote:
  assumes "list_all plain_char a"
  shows "sql_tokens (buildCombinedFilterQuery [] (a @ squote # b) ext)
      = map_option (\<lambda>ts. name_is @ (TkString, squote # a @ [squote]) # ts) (sql_tokens (squote # double_quotes b @ [squote]))
    \<and> sql_tokens (buildCombinedFilterQuery [] (a @ bslash # squote # b) ext)
      = map_option (\<lambda>ts. name_is @ (TkString, squote # a @ [bslash, squote, squote]) # ts) (sql_tokens (double_quotes b @ [squote]))"
proof -
  have "lex_quoted squote (a @ squote # squote # double_quotes b @ [squote]) = Some (a @ [squote], squote # double_quotes b @ [squote])"
    by (rule lex_quoted_plain [OF assms])
  note 1 = lex_lookup(1) [OF this]
  have "lex_quoted squote (a @ bslash # squote # squote # r) = Some (a @ [bslash, squote, squote], r)" for r
    using assms by (induction a) (auto simp: plain_char_def squote_def bslash_def)
  note 2 = lex_lookup(1) [OF this]
  have "buildCombinedFilterQuery [] (a @ squote # b) ext = ''name'' @ '' = '' @ squote # a @ squote # squote # double_quotes b @ [squote]"
    "buildCombinedFilterQuery [] (a @ bslash # squote # b) ext = ''name'' @ '' = '' @ squote # a @ bslash # squote # squote # double_quotes b @ [squote]"
    by (subst lookup_text; simp add: double_quotes_plain [OF assms])+
  with 1 2 show ?thesis by (simp only:)
qed

theorem lookup_with_quote_witness:
  "\<exists>l. sql_tokens (buildCombinedFilterQuery [] (bslash # squote # '' OR id > 0 --'') [])
     = Some (name_is @ [(TkString, l), (TkIdent, ''OR''), (TkIdent, ''id''), (TkOperators, ''>''), (TkInt, ''0'')])"
proof -
  have "sql_tokens (double_quotes '' OR id > 0 --'' @ [squote]) = Some [(TkIdent, ''OR''), (TkIdent, ''id''), (TkOperators, ''>''), (TkInt, ''0'')]"
    by code_simp
  then show ?thesis using lookup_with_quote [of "[]" "'' OR id > 0 --''" "[]"] by simp
qed

subsection \<open>Updates of artifacts of a run\<close>

text \<open>The two keys of the run never reach a client.\<close>

lemma reserved_not_read:
  assumes "MapEmbedMDCustomProperties_from codec ps acc = Inr r" "k = ''experiment_id'' \<or> k = ''experiment_run_id''" "k \<notin> fst ` set acc"
  shows "k \<notin> fst ` set r"
  using assms
proof (induction codec ps acc rule: MapEmbedMDCustomProperties_from.induct)
  case (2 codec v vs acc)
  show ?case
  proof (cases "custom_to_openapi codec v")
    case (Inr o')
    have "sp_Name v \<noteq> k" if "o' = Some mv" for mv using Inr that 2(4) by (auto simp: custom_to_openapi_def)
    then show ?thesis using 2 Inr by (cases o') (auto simp: dom_update)
  qed (use 2 in auto)
qed simp

text \<open>What reading a model artifact gives: its id, and custom properties without the keys.\<close>

definition read_of :: "int \<Rightarrow> model_artifact \<Rightarrow> bool" where
  "read_of n m = (api_Id m = Some (itoa n)
     \<and> ''experiment_id'' \<notin> fst ` set (api_CustomProperties m) \<and> ''experiment_run_id'' \<notin> fst ` set (api_CustomProperties m))"

lemma read_model_artifact:
  assumes "ReadModelArtifact codec e = Inr m" "be_ID e = Some n"
  shows "read_of n m"
proof -
  have "MapEmbedMDCustomProperties_from codec (be_Custom e) [] = Inr (api_CustomProperties m)" "api_Id m = Some (itoa n)"
    using assms by (auto simp: ReadModelArtifact_def Let_def try_bind_Inr_iff MapEmbedMDCustomProperties_def Int32ToString_def)
  then show ?thesis by (simp add: read_of_def reserved_not_read)
qed

lemma model_artifact_got:
  assumes store: "sql_store (co_ops c) rows props links"
    and get: "getArtifact c i s = Inr a" "the_ModelArtifact a = Some m" and i: "parse_int 32 i = Inr n"
  shows "read_of n m"
proof -
  from get i obtain st where st: "ArtifactRepository_GetByID (co_ops c) (co_types c) n s = Inr st" "MapToArtifact c st = Inr a"
    by (auto simp: getArtifact_def ValidateIDAsInt32_def split: sum.splits)
  then obtain row ps where row: "so_by_any (co_ops c) ArtifactTable n s = Inr row" "mapDataLayerToArtifact (co_types c) row ps = Inr st"
    by (auto simp: ArtifactRepository_GetByID_def try_bind_Inr_iff split: sum.splits db_error.splits)
  then have "getEntityID row = n" using sql_store.row_id [OF store] sql_store.by_any [OF store] by blast
  moreover obtain e where "st = StoredModelArtifact e" "MapToModelArtifact c e = Inr m"
    using st(2) get(2) by (cases st; cases a) (auto simp: map_sum_def split: sum.splits)
  moreover from this(1) row(2) have "e = mapDataLayerToModelArtifact row ps"
    by (auto simp: mapDataLayerToArtifact_def Let_def split: if_splits)
  ultimately show ?thesis
    by (intro read_model_artifact [of "co_codec c" e]) (simp_all add: MapToModelArtifact_def mapDataLayerToModelArtifact_def entity_of_row_def)
qed

lemma updated_model_artifact:
  assumes "UpdateExistingModelArtifact w = Inr u" "read_of n (uw_Existing w)"
    and "uw_Custom w = None \<or> (\<exists>cs. uw_Custom w = Some cs \<and> ''experiment_id'' \<notin> fst ` set cs \<and> ''experiment_run_id'' \<notin> fst ` set cs)"
  shows "read_of n u"
  using assms
  by (cases "uw_Update w") (auto simp: UpdateExistingModelArtifact_def InitWithExisting_def Let_def try_bind_Inr_iff read_of_def)

lemma model_artifact_written:
  assumes "MapFromModelArtifact c fr m p = Inr e" "read_of n m" "int32_range n"
  shows "be_ID e = Some n \<and> ''experiment_id'' \<notin> sp_Name ` set (be_Custom e) \<and> ''experiment_run_id'' \<notin> sp_Name ` set (be_Custom e)"
proof -
  from assms obtain cs where e: "be_ID e = Some n" "be_Custom e = cs"
    and cs: "MapOpenAPICustomPropertiesEmbedMD (co_codec c) (Some (api_CustomProperties m)) = Inr cs"
    by (auto simp: MapFromModelArtifact_def ConvertModelArtifact_def type_wrapper_def convert_entity_def try_bind_Inr_iff read_of_def)
  from custom_rows [OF cs] have "sp_Name ` set cs = fst ` set (api_CustomProperties m)" by (metis list.set_map)
  with e assms(2) show ?thesis by (simp add: read_of_def)
qed

lemma artifact_property_key: "prop_key (MapPropertiesToArtifactProperty p i b) = (i, sp_Name p, b)"
  by (simp add: MapPropertiesToArtifactProperty_def prop_key_def)

lemma model_artifact_saved:
  assumes store: "sql_store ops rows props links"
    and save: "Save ops (NewModelArtifactRepository quote t) now e parent s = (Inr r, s')"
    and e: "be_ID e = Some n" "k \<notin> sp_Name ` set (be_Custom e)"
  shows "props s' ArtifactTable (n, k, True) = None"
proof -
  let ?cfg = "NewModelArtifactRepository quote t"
  have cfg: "rc_Table ?cfg = ArtifactTable" "call_opt (rc_HasCustomProperties ?cfg) e" "\<not> call_opt (rc_IsNewEntity ?cfg) e"
    "getEntityID (stamp ?cfg now False (rc_EntityToSchema ?cfg e)) = n"
    "rc_EntityToProperties ?cfg e n = property_rows MapPropertiesToArtifactProperty e n"
    using e(1) by (simp_all add: repository_defs registry_repo_def call_opt_def stamp_def artifact_of_entity_def zero_if_nil_def Let_def)
  have "(n, k, True) \<notin> prop_key ` set (property_rows MapPropertiesToArtifactProperty e n)"
    using e(2) by (auto simp: property_rows_def artifact_property_key)
  with cfg have "saved_props ?cfg True n (rc_EntityToProperties ?cfg e n) old (n, k, True) = None" for old
    by (simp add: saved_props_def sent_props_None [THEN iffD2])
  with cfg show ?thesis
    by (rule_tac sql_store.Save_spec [OF store save modelArtifact_repository.repo_mapping_axioms]) auto
qed

lemma model_artifact_patched:
  assumes store: "sql_store (co_ops c) rows props links"
    and up: "upsertModelArtifact c fr m False None None s = (Inr a, s')" and m: "read_of n m" "int32_range n"
  shows "props s' ArtifactTable (n, ''experiment_id'', True) = None \<and> props s' ArtifactTable (n, ''experiment_run_id'', True) = None"
proof -
  have n: "parse_int 32 (itoa n) = Inr n" using parse_int_itoa [of 32 n] m(2) by (simp add: int32_range_def)
  obtain u where u: "merge (existing_of the_ModelArtifact c s) UpdateExistingModelArtifact True False m = Inr u"
    and saved: "save_artifact c fr (NewModelArtifactRepository (co_quote c) (type_id c ModelArtifactTypeName)) (MapFromModelArtifact c fr u None)
        (art_Name u) None (\<lambda>r. map_sum id ApiModelArtifact (MapToModelArtifact c r)) s = (Inr a, s')"
    using up by (auto simp: upsertModelArtifact_def try_state_def split: sum.splits)
  from u m(1) obtain b x where b: "getArtifact c (itoa n) s = Inr b" "the_ModelArtifact b = Some x"
    and x: "UpdateExistingModelArtifact \<lparr>uw_Existing = x, uw_Update = Some m, uw_Custom = Some (api_CustomProperties m)\<rparr> = Inr u"
    by (auto simp: merge_def read_of_def existing_of_def try_bind_Inr_iff reclass_def split: sum.splits option.splits)
  from model_artifact_got [OF store b n] have "read_of n u"
    using m(1) by (intro updated_model_artifact [OF x]) (auto simp: read_of_def)
  obtain e r where e: "MapFromModelArtifact c fr u None = Inr e"
    and r: "Save (co_ops c) (NewModelArtifactRepository (co_quote c) (type_id c ModelArtifactTypeName)) (fr_Now fr) e None s = (Inr r, s')"
    using saved by (auto simp: save_artifact_def try_state_def saved_def split: sum.splits prod.splits)
  from model_artifact_written [OF e \<open>read_of n u\<close> m(2)] model_artifact_saved [OF store r] show ?thesis by blast
qed

text \<open>
  C10. An update of a model artifact takes it out of its experiment run: the keys of the experiment and of the run are stored among
  the custom properties, a read leaves them out, and an update writes back what was read. So after any successful update without custom
  properties neither key is stored, whatever else the request changes.
\<close>

theorem patch_drops_experiment:
  assumes "sql_store (co_ops c) rows props links" and "parse_int 32 i = Inr n" and "mau_CustomProperties request = None"
    and "UpdateModelArtifact c fr i request s = (Reply status r, s')"
  shows "props s' ArtifactTable (n, ''experiment_id'', True) = None \<and> props s' ArtifactTable (n, ''experiment_run_id'', True) = None"
proof -
  have n: "int32_range n" using assms(2) StringToInt32_range [of i n] by (simp add: StringToInt32_def)
  obtain m e u where "GetModelArtifactById c i s = Inr e"
    and u: "UpdateExistingModelArtifact \<lparr>uw_Existing = e, uw_Update = Some (m\<lparr>api_Id := Some i\<rparr>), uw_Custom = None\<rparr> = Inr u"
    and up: "fst (UpsertModelArtifact c fr (Some u) False s) = Inr r" "snd (UpsertModelArtifact c fr (Some u) False s) = s'"
    using assms(3,4)
    by (auto simp: UpdateModelArtifact_def update_entity_def convert_request_def respond_state_def respond_def ErrorResponse_def try_state_def
        lay_over_def split: sum.splits if_splits prod.splits)
  then obtain a where "getArtifact c i s = Inr a" "the_ModelArtifact a = Some e"
    by (auto simp: GetModelArtifactById_def a_model_artifact_def GetArtifactById_def try_bind_Inr_iff split: option.splits)
  from model_artifact_got [OF assms(1) this assms(2)] have read: "read_of n u" by (intro updated_model_artifact [OF u]) simp_all
  from this have "ensureArtifactName (fr_Name fr) (ApiModelArtifact u) = ApiModelArtifact u" by (simp add: name_if_needed_def read_of_def)
  moreover from up have "UpsertModelArtifact c fr (Some u) False s = (Inr r, s')" by (simp add: prod_eq_iff)
  ultimately obtain b where "upsertModelArtifact c fr u False None None s = (Inr b, s')"
    by (auto simp: UpsertModelArtifact_def UpsertArtifact_def upsertArtifact_def Let_def ValidateIDAsInt32Ptr_def try_state_def
        split: sum.splits prod.splits)
  with read n show ?thesis using model_artifact_patched [OF assms(1)] by blast
qed

text \<open>A model artifact that was logged into run 3 of experiment 2, and an update of its description.\<close>

definition run_artifact_tables :: tables where
  "run_artifact_tables = \<lparr>tb_rows = [Artifact \<lparr>ar_ID = 1, ar_TypeID = 13, ar_URI = None, ar_State = None, ar_Name = Some ''3:weights'', ar_ExternalID = None,
       ar_CreateTime = 1, ar_LastUpdateTime = 1\<rparr>],
     tb_props = [(ArtifactTable, MapPropertiesToArtifactProperty (NewIntProperty ''experiment_id'' 2 True) 1 True),
       (ArtifactTable, MapPropertiesToArtifactProperty (NewIntProperty ''experiment_run_id'' 3 True) 1 True)], tb_links = []\<rparr>"

definition run_artifact :: model_artifact where
  "run_artifact = \<lparr>api_Id = Some ''1'', api_ExternalId = None, api_CustomProperties = [], api_Description = None,
     api_CreateTime = Some ''1'', api_LastUpdateTime = Some ''1'', art_Name = Some ''weights'', art_ExperimentId = Some ''2'',
     art_ExperimentRunId = Some ''3'', art_ArtifactType = Some ''model-artifact'', art_State = None, ma_Uri = None, ma_ModelFormatName = None,
     ma_ModelFormatVersion = None, ma_StorageKey = None, ma_StoragePath = None, ma_ServiceAccountName = None, ma_ModelSourceKind = None,
     ma_ModelSourceClass = None, ma_ModelSourceGroup = None, ma_ModelSourceId = None, ma_ModelSourceName = None\<rparr>"

definition describe :: model_artifact_update where
  "describe = \<lparr>mau_CustomProperties = None, mau_Description = Some ''d'', mau_ExternalId = None, mau_ArtifactType = None,
     mau_ModelFormatName = None, mau_StorageKey = None, mau_StoragePath = None, mau_ModelFormatVersion = None, mau_ServiceAccountName = None,
     mau_ModelSourceKind = None, mau_ModelSourceClass = None, mau_ModelSourceGroup = None, mau_ModelSourceId = None,
     mau_ModelSourceName = None, mau_Uri = None, mau_State = None\<rparr>"

definition run_artifact_row :: base_entity where
  "run_artifact_row = \<lparr>be_ID = Some 1, be_TypeID = 13, be_Attributes = \<lparr>at_Name = Some ''uuid-2:weights'', at_URI = None, at_State = None,
       at_ExternalID = None, at_CreateTime = Some 1, at_LastUpdateTime = Some 1\<rparr>,
     be_Properties = [NewStringProperty ''description'' ''d'' False], be_Custom = []\<rparr>"

lemma run_artifact_found:
  "ArtifactRepository_GetByID example_ops example_types 1 run_artifact_tables
     = Inr (StoredModelArtifact (mapDataLayerToModelArtifact (hd (tb_rows run_artifact_tables)) (map snd (tb_props run_artifact_tables))))"
  by code_simp

lemma run_artifact_read:
  "ReadModelArtifact example_codec (mapDataLayerToModelArtifact (hd (tb_rows run_artifact_tables)) (map snd (tb_props run_artifact_tables)))
     = Inr run_artifact"
  by code_simp

lemma example_artifact_params [simp]: "co_types example_core = example_types" "co_codec example_core = example_codec" "type_id example_core ModelArtifactTypeName = 13"
  by (simp_all add: example_core_def) code_simp

lemma run_artifact_got: "getArtifact example_core ''1'' run_artifact_tables = Inr (ApiModelArtifact run_artifact)"
  by (simp add: getArtifact_def run_artifact_found MapToModelArtifact_def run_artifact_read)

lemma one64: "StringToInt64 (Some ''1'') = Inr (Some 1)"
  using parse_int_itoa [of 64 1] by (simp add: itoa_one StringToInt64_def)

lemma run_artifact_converted:
  "MapFromModelArtifact example_core example_fresh (run_artifact\<lparr>api_Description := Some ''d''\<rparr>) None = Inr run_artifact_row"
  by (simp add: MapFromModelArtifact_def ConvertModelArtifact_def type_wrapper_def convert_entity_def run_artifact_def one32 one64
      MapModelArtifactAttributesEmbedMD_def artifact_attributes_def opt_state_def base_attributes_def mapEntityName_def PrefixWhenOwned_def
      MapModelArtifactPropertiesEmbedMD_def opt_string_def MapOpenAPICustomPropertiesEmbedMD_def run_artifact_row_def example_fresh_def)

definition "run_artifact_saved = Save example_ops (NewModelArtifactRepository (\<lambda>t. t) 13) 5 run_artifact_row None run_artifact_tables"

lemma run_artifact_saved:
  "\<not> isl (fst run_artifact_saved)" "\<not> isl (ReadModelArtifact example_codec (projr (fst run_artifact_saved)))"
  by code_simp+

lemma artifact_described:
  "UpdateModelArtifact example_core example_fresh ''1'' describe run_artifact_tables
     = (Reply 200 (Some (projr (ReadModelArtifact example_codec (projr (fst run_artifact_saved))))), snd run_artifact_saved)"
proof -
  let ?u = "run_artifact\<lparr>api_Description := Some ''d''\<rparr>"
  have again: "UpdateExistingModelArtifact \<lparr>uw_Existing = run_artifact, uw_Update = Some ?u, uw_Custom = Some (api_CustomProperties ?u)\<rparr> = Inr ?u"
    by (simp add: UpdateExistingModelArtifact_def InitWithExisting_def run_artifact_def conv_opt_def)
  have first: "ConvertModelArtifactUpdate describe = Inr m \<Longrightarrow> UpdateExistingModelArtifact \<lparr>uw_Existing = run_artifact, uw_Update = Some (m\<lparr>api_Id := Some ''1''\<rparr>), uw_Custom = None\<rparr> = Inr ?u" for m
    by (auto simp: ConvertModelArtifactUpdate_def UpdateExistingModelArtifact_def InitWithExisting_def run_artifact_def describe_def conv_opt_def)
  have i: "api_Id run_artifact = Some ''1''" by (simp add: run_artifact_def)
  obtain m where m: "ConvertModelArtifactUpdate describe = Inr m" by (simp add: ConvertModelArtifactUpdate_def describe_def conv_opt_def)
  obtain r s' where saved: "run_artifact_saved = (Inr r, s')" using not_isl_pair [OF run_artifact_saved(1)] by blast
  obtain a where a: "ReadModelArtifact example_codec r = Inr a" using run_artifact_saved(2) unfolding saved by (cases "ReadModelArtifact example_codec r") simp_all
  have "upsertModelArtifact example_core example_fresh ?u False None None run_artifact_tables = (Inr (ApiModelArtifact a), s')"
    using again a
    by (simp add: upsertModelArtifact_def merge_def i existing_of_def run_artifact_got save_artifact_def run_artifact_converted
        saved [unfolded run_artifact_saved_def] saved_def MapToModelArtifact_def)
  then show ?thesis using first [OF m] m a unfolding saved
    by (simp add: UpdateModelArtifact_def update_entity_def convert_request_def GetModelArtifactById_def GetArtifactById_def a_model_artifact_def run_artifact_got lay_over_def
      name_if_needed_def i describe_def UpsertModelArtifact_def UpsertArtifact_def upsertArtifact_def ValidateIDAsInt32Ptr_def respond_state_def respond_def)
qed

theorem patch_drops_experiment_witness:
  "table_prop run_artifact_tables ArtifactTable (1, ''experiment_id'', True) \<noteq> None
     \<and> table_prop (snd (UpdateModelArtifact example_core example_fresh ''1'' describe run_artifact_tables)) ArtifactTable (1, ''experiment_id'', True) = None"
proof
  show "table_prop run_artifact_tables ArtifactTable (1, ''experiment_id'', True) \<noteq> None" by code_simp
  have "sql_store (co_ops example_core) table_row table_prop table_links" using tables.sql_store_axioms by simp
  from patch_drops_experiment [OF this parse_one _ artifact_described]
  show "table_prop (snd (UpdateModelArtifact example_core example_fresh ''1'' describe run_artifact_tables)) ArtifactTable (1, ''experiment_id'', True) = None"
    unfolding artifact_described snd_conv by (simp add: describe_def)
qed

end
